(* ===== verification/Prelude.thy ===== *)
theory Prelude
  imports Main "HOL-Library.Word" "HOL-Library.Monad_Syntax"
begin

unbundle bit_operations_syntax

section \<open>Shared types, the outcome of a C call, and bit strings\<close>

text \<open>
  What the theories of this development share:

  \<^item> names for the machine integers of the code (\<open>uint8_t\<close> and so on, as words);
  \<^item> the convention for undefined behaviour: a C function of the model returns an \<open>option\<close>,
    and \<open>None\<close> says that the C program has no defined behaviour there (an array is accessed
    out of bounds, a shift count is not below the width of the shifted type, a signed
    subtraction or negation overflows). Everything else, errors included, is \<open>Some\<close>;
  \<^item> \<^const>\<open>Option.bind\<close> under \<open>do\<close>-notation sequences such calls;
  \<^item> bit strings as lists of booleans, most significant bit first: \<open>bits n w\<close> is the string the
    code writes for the low \<open>n\<close> bits of a word \<open>w\<close>, and \<open>from_bits\<close> reads a string back.
\<close>

type_synonym u8 = "8 word"
type_synonym u16 = "16 word"
type_synonym u32 = "32 word"
type_synonym u64 = "64 word"

named_theorems codec_simps \<open>equations that evaluate the stream operations\<close>
named_theorems emit_intros \<open>rules that compute what a writing operation appends\<close>
named_theorems take_intros \<open>rules that compute what a reading operation consumes\<close>

subsection \<open>Bit strings\<close>

definition bits :: "nat \<Rightarrow> 'a::len word \<Rightarrow> bool list" where
  "bits n w = map (bit w) (rev [0..<n])"

definition from_bits :: "bool list \<Rightarrow> 'a::len word" where
  "from_bits bs = horner_sum of_bool 2 (rev bs)"

lemma length_bits [simp]: "length (bits n w) = n"
  by (simp add: bits_def)

lemma bits_0 [simp]: "bits 0 w = []"
  by (simp add: bits_def)

lemma bits_eq_Nil [simp]: "bits n w = [] \<longleftrightarrow> n = 0"
  by (simp add: bits_def)

lemma nth_bits [simp]: "i < n \<Longrightarrow> bits n w ! i = bit w (n - 1 - i)"
  by (simp add: bits_def rev_nth)

lemma bits_eqI: "(\<And>i. i < n \<Longrightarrow> bit v i = bit w i) \<Longrightarrow> bits n v = bits n w"
  by (rule nth_equalityI) auto

lemma bits_eq_iff: "bits n v = bits n w \<longleftrightarrow> (\<forall>i<n. bit v i = bit w i)"
proof
  assume eq: "bits n v = bits n w"
  show "\<forall>i<n. bit v i = bit w i"
  proof (intro allI impI)
    fix i assume "i < n"
    then have "bits n v ! (n - 1 - i) = bits n w ! (n - 1 - i)" using eq by simp
    with \<open>i < n\<close> show "bit v i = bit w i" by simp
  qed
qed (rule bits_eqI, blast)

lemma bits_add: "bits (m + n) w = bits m (drop_bit n w) @ bits n w"
  by (rule nth_equalityI) (auto simp: nth_append bit_drop_bit_eq add.commute)

lemma bits_append_word:
  "(\<And>i. i < n \<Longrightarrow> bit w i = bit v i) \<Longrightarrow> (\<And>i. i < m \<Longrightarrow> bit w (n + i) = bit u i) \<Longrightarrow>
   bits (m + n) w = bits m u @ bits n v"
  by (auto simp: bits_add bits_eq_iff bit_drop_bit_eq)

lemma bits_ucast:
  "n \<le> LENGTH('a) \<Longrightarrow> n \<le> LENGTH('b) \<Longrightarrow> bits n (ucast (w :: 'a::len word) :: 'b::len word) = bits n w"
  by (rule bits_eqI) (auto simp: bit_unsigned_iff)

lemma bits_zero: "bits n 0 = replicate n False"
  by (rule nth_equalityI) auto

lemma take_bits: "k \<le> n \<Longrightarrow> take k (bits n w) = bits k (drop_bit (n - k) w)"
  by (rule nth_equalityI) (auto simp: bit_drop_bit_eq)

lemma drop_bits: "k \<le> n \<Longrightarrow> drop k (bits n w) = bits (n - k) w"
  by (rule nth_equalityI) auto

lemma bit_from_bits:
  "bit (from_bits bs :: 'a::len word) i \<longleftrightarrow> i < LENGTH('a) \<and> i < length bs \<and> rev bs ! i"
  by (auto simp: from_bits_def bit_horner_sum_bit_word_iff)

lemma from_bits_Nil [simp]: "from_bits [] = 0"
  by (simp add: from_bits_def)

lemma from_bits_bits: "from_bits (bits n (w :: 'a::len word)) = (take_bit n (ucast w) :: 'b::len word)"
  by (rule bit_word_eqI) (auto simp: bit_from_bits bit_take_bit_iff rev_nth bit_unsigned_iff bit_imp_le_length)

lemma from_bits_bits_id: "n \<le> LENGTH('a) \<Longrightarrow> take_bit n w = w \<Longrightarrow> from_bits (bits n (w :: 'a::len word)) = w"
  by (simp add: from_bits_bits)

lemma bits_from_bits: "length bs \<le> LENGTH('a) \<Longrightarrow> bits (length bs) (from_bits bs :: 'a::len word) = bs"
  by (rule nth_equalityI) (auto simp: bit_from_bits rev_nth)

lemma from_bits_append:
  "(from_bits (xs @ ys) :: 'a::len word) = push_bit (length ys) (from_bits xs) OR from_bits ys"
  by (rule bit_word_eqI)
    (auto simp: bit_from_bits bit_or_iff bit_push_bit_iff nth_append not_less add.commute)

lemma bits_mask_or:
  "bits (m + n) (push_bit n (u :: 'a::len word) OR v) = bits m u @ bits n w"
  if "\<And>i. i < m + n \<Longrightarrow> bit v i \<longleftrightarrow> i < n \<and> bit w i" and "m + n \<le> LENGTH('a)"
  using that by (intro bits_append_word) (auto simp: bit_or_iff bit_push_bit_iff)

text \<open>The masks \<open>0xff >> (8 - n)\<close> of the code.\<close>

lemma mask_255_u32: "n \<le> 8 \<Longrightarrow> drop_bit (8 - n) (255 :: u32) = mask n"
proof -
  assume "n \<le> 8"
  have eq: "(255 :: u32) = mask 8" by (simp add: mask_eq_exp_minus_1)
  show ?thesis unfolding eq using \<open>n \<le> 8\<close> by (intro bit_word_eqI) (auto simp: bit_simps)
qed

lemma mask_255_u8: "n \<le> 8 \<Longrightarrow> drop_bit (8 - n) (255 :: u8) = mask n"
proof -
  assume "n \<le> 8"
  have eq: "(255 :: u8) = mask 8" by (simp add: mask_eq_exp_minus_1)
  show ?thesis unfolding eq using \<open>n \<le> 8\<close> by (intro bit_word_eqI) (auto simp: bit_simps)
qed

subsection \<open>Lists of bytes as bit strings\<close>

definition bytes_bits :: "u8 list \<Rightarrow> bool list" where
  "bytes_bits xs = concat (map (bits 8) xs)"

lemma bytes_bits_simps [simp]:
  "bytes_bits [] = []"
  "bytes_bits (x # xs) = bits 8 x @ bytes_bits xs"
  "bytes_bits (xs @ ys) = bytes_bits xs @ bytes_bits ys"
  by (simp_all add: bytes_bits_def)

lemma length_bytes_bits [simp]: "length (bytes_bits xs) = 8 * length xs"
  by (induction xs) auto

lemma bytes_bits_inj: "bytes_bits xs = bytes_bits ys \<Longrightarrow> xs = ys"
proof (induction xs arbitrary: ys)
  case Nil
  then show ?case by (cases ys) (auto dest: arg_cong [where f = length])
next
  case (Cons x xs)
  then obtain y ys' where ys: "ys = y # ys'"
    by (cases ys) (auto dest: arg_cong [where f = length])
  with Cons.prems have "bits 8 x = bits 8 y" and "bytes_bits xs = bytes_bits ys'"
    by (auto simp: append_eq_append_conv)
  then have "x = y" by (intro bit_word_eqI) (auto simp: bits_eq_iff)
  with Cons.IH [OF \<open>bytes_bits xs = bytes_bits ys'\<close>] ys show ?case by simp
qed

lemma take_Suc_update: "i < length xs \<Longrightarrow> take (Suc i) (xs[i := x]) = take i xs @ [x]"
  by (simp add: take_Suc_conv_app_nth)

lemma drop_nth_Cons: "i < length xs \<Longrightarrow> drop i xs = xs ! i # drop (Suc i) xs"
  by (rule Cons_nth_drop_Suc [symmetric])

subsection \<open>Sequencing\<close>

lemma bind_Some_iff: "Option.bind m f = Some y \<longleftrightarrow> (\<exists>x. m = Some x \<and> f x = Some y)"
  by (rule bind_eq_Some_conv)

lemma option_bind_cong:
  "(\<And>x. m = Some x \<Longrightarrow> f x = g x) \<Longrightarrow> Option.bind m f = Option.bind m g"
  by (cases m) auto

lemma bind_split_Some: "m = Some x \<Longrightarrow> Option.bind m f = f x"
  by simp

end
