(* ===== verification/EXITypes.thy ===== *)
theory EXITypes
  imports Prelude
begin

section \<open>Data types and error codes of the codec (EXITypes.h, ErrorCodes.h)\<close>

text \<open>
  The structs of \<open>include/codec/EXITypes.h\<close> that a function of \<open>src/codec\<close> reads or writes, as
  records, and the error codes of \<open>include/codec/ErrorCodes.h\<close>. The build configuration is the one
  of \<open>EXIConfig.h\<close> and \<open>EXIOptions.h\<close>: byte-array streams, static allocation, ASCII strings,
  bit-packed alignment.

  Sizes and positions of a stream are \<open>nat\<close>: the code only compares them and increments the
  position while it is below the size, so they never wrap. Lengths that come from the input
  (\<open>size_t len\<close>) are 64-bit words, since the code adds to them.
\<close>

subsection \<open>Error codes\<close>

text \<open>
  \<open>EXI_OK\<close> stands for the value 0 of the \<open>int errn\<close> the functions return; the other constructors
  are the codes of the header that some function of the library returns, and \<open>errn_code\<close> gives
  their numbers.
\<close>

datatype errn =
    EXI_OK
  | EXI_ERROR_INPUT_STREAM_EOF
  | EXI_ERROR_OUTPUT_STREAM_EOF
  | EXI_ERROR_INPUT_FILE_HANDLE
  | EXI_ERROR_OUTPUT_FILE
  | EXI_ERROR_OUT_OF_BOUNDS
  | EXI_ERROR_OUT_OF_STRING_BUFFER
  | EXI_ERROR_OUT_OF_BYTE_BUFFER
  | EXI_ERROR_UNKOWN_GRAMMAR_ID
  | EXI_ERROR_UNKOWN_EVENT
  | EXI_ERROR_UNKOWN_EVENT_CODE
  | EXI_ERROR_UNEXPECTED_EVENT_LEVEL1
  | EXI_UNSUPPORTED_NBIT_INTEGER_LENGTH
  | EXI_UNSUPPORTED_EVENT_CODE_CHARACTERISTICS
  | EXI_UNSUPPORTED_INTEGER_VALUE
  | EXI_NEGATIVE_UNSIGNED_INTEGER_VALUE
  | EXI_UNSUPPORTED_HEADER_COOKIE
  | EXI_UNSUPPORTED_HEADER_OPTIONS
  | EXI_UNSUPPORTED_INTEGER_VALUE_TYPE
  | EXI_UNSUPPORTED_DATETIME_TYPE
  | EXI_UNSUPPORTED_FRAGMENT_ELEMENT
  | EXI_ERROR_STRINGVALUES_NOT_SUPPORTED
  | EXI_ERROR_STRINGVALUES_CHARACTER
  | EXI_ERROR_UNEXPECTED_BYTE_VALUE
  | EXI_DEVIANT_SUPPORT_NOT_DEPLOYED

primrec errn_code :: "errn \<Rightarrow> int" where
  "errn_code EXI_OK = 0"
| "errn_code EXI_ERROR_INPUT_STREAM_EOF = -10"
| "errn_code EXI_ERROR_OUTPUT_STREAM_EOF = -11"
| "errn_code EXI_ERROR_INPUT_FILE_HANDLE = -12"
| "errn_code EXI_ERROR_OUTPUT_FILE = -13"
| "errn_code EXI_ERROR_OUT_OF_BOUNDS = -100"
| "errn_code EXI_ERROR_OUT_OF_STRING_BUFFER = -101"
| "errn_code EXI_ERROR_OUT_OF_BYTE_BUFFER = -103"
| "errn_code EXI_ERROR_UNKOWN_GRAMMAR_ID = -108"
| "errn_code EXI_ERROR_UNKOWN_EVENT = -109"
| "errn_code EXI_ERROR_UNKOWN_EVENT_CODE = -110"
| "errn_code EXI_ERROR_UNEXPECTED_EVENT_LEVEL1 = -111"
| "errn_code EXI_UNSUPPORTED_NBIT_INTEGER_LENGTH = -132"
| "errn_code EXI_UNSUPPORTED_EVENT_CODE_CHARACTERISTICS = -133"
| "errn_code EXI_UNSUPPORTED_INTEGER_VALUE = -134"
| "errn_code EXI_NEGATIVE_UNSIGNED_INTEGER_VALUE = -135"
| "errn_code EXI_UNSUPPORTED_HEADER_COOKIE = -137"
| "errn_code EXI_UNSUPPORTED_HEADER_OPTIONS = -138"
| "errn_code EXI_UNSUPPORTED_INTEGER_VALUE_TYPE = -142"
| "errn_code EXI_UNSUPPORTED_DATETIME_TYPE = -143"
| "errn_code EXI_UNSUPPORTED_FRAGMENT_ELEMENT = -144"
| "errn_code EXI_ERROR_STRINGVALUES_NOT_SUPPORTED = -160"
| "errn_code EXI_ERROR_STRINGVALUES_CHARACTER = -164"
| "errn_code EXI_ERROR_UNEXPECTED_BYTE_VALUE = -200"
| "errn_code EXI_DEVIANT_SUPPORT_NOT_DEPLOYED = -500"

subsection \<open>The stream\<close>

text \<open>
  \<open>bitstream_t\<close>: the array \<open>data\<close> with its declared \<open>size\<close>, the position \<open>*pos\<close> of the next byte,
  the byte being filled or read and its \<open>capacity\<close>: for output the bits still free in \<open>buffer\<close>,
  for input the bits not yet read.
\<close>

record bitstream =
  stream_size :: nat
  stream_data :: "u8 list"
  stream_pos :: nat
  buffer :: u8
  capacity :: nat

text \<open>A stream at the start of an array of \<open>n\<close> zero bytes, as the callers of the codec set one up.\<close>

definition blank_stream :: "nat \<Rightarrow> bitstream" where
  "blank_stream n = \<lparr>stream_size = n, stream_data = replicate n 0, stream_pos = 0, buffer = 0, capacity = 8\<rparr>"

lemma blank_stream_simps [simp]:
  "stream_size (blank_stream n) = n"
  "stream_data (blank_stream n) = replicate n 0"
  "stream_pos (blank_stream n) = 0"
  "buffer (blank_stream n) = 0"
  "capacity (blank_stream n) = 8"
  by (simp_all add: blank_stream_def)

abbreviation (input) BITS_IN_BYTE :: nat where
  "BITS_IN_BYTE \<equiv> 8"

subsection \<open>Integers\<close>

text \<open>
  A C enumeration variable may hold a value that is no enumerator; the \<open>default\<close> branches of the
  code handle it, and the constructors ending in \<open>INVALID\<close> stand for it.
\<close>

datatype exi_integer_type =
    EXI_UNSIGNED_INTEGER_8
  | EXI_UNSIGNED_INTEGER_16
  | EXI_UNSIGNED_INTEGER_32
  | EXI_UNSIGNED_INTEGER_64
  | EXI_INTEGER_8
  | EXI_INTEGER_16
  | EXI_INTEGER_32
  | EXI_INTEGER_64
  | EXI_INTEGER_TYPE_INVALID int

text \<open>
  \<open>exi_integer_t\<close>: the union \<open>val\<close> is its eight bytes as one 64-bit word, in the little-endian
  layout of the targets of the code (it stores a \<open>uint32\<close> and reads it back as \<open>uint16\<close> when the
  value is small, which presupposes that layout). A member is read from the low bits; storing a
  member leaves the other bits alone.
\<close>

record exi_integer =
  int_type :: exi_integer_type
  int_val :: u64

definition get_val8 :: "exi_integer \<Rightarrow> u8" where
  "get_val8 iv = ucast (int_val iv)"

definition get_val16 :: "exi_integer \<Rightarrow> u16" where
  "get_val16 iv = ucast (int_val iv)"

definition get_val32 :: "exi_integer \<Rightarrow> u32" where
  "get_val32 iv = ucast (int_val iv)"

definition get_val64 :: "exi_integer \<Rightarrow> u64" where
  "get_val64 iv = int_val iv"

definition set_val8 :: "u8 \<Rightarrow> exi_integer \<Rightarrow> exi_integer" where
  "set_val8 x iv = iv\<lparr>int_val := (int_val iv AND NOT (mask 8)) OR ucast x\<rparr>"

definition set_val16 :: "u16 \<Rightarrow> exi_integer \<Rightarrow> exi_integer" where
  "set_val16 x iv = iv\<lparr>int_val := (int_val iv AND NOT (mask 16)) OR ucast x\<rparr>"

definition set_val32 :: "u32 \<Rightarrow> exi_integer \<Rightarrow> exi_integer" where
  "set_val32 x iv = iv\<lparr>int_val := (int_val iv AND NOT (mask 32)) OR ucast x\<rparr>"

definition set_val64 :: "u64 \<Rightarrow> exi_integer \<Rightarrow> exi_integer" where
  "set_val64 x iv = iv\<lparr>int_val := x\<rparr>"

text \<open>The mathematical integer an \<open>exi_integer_t\<close> stands for, by its type tag.\<close>

definition integer_value :: "exi_integer \<Rightarrow> int" where
  "integer_value iv = (case int_type iv of
      EXI_UNSIGNED_INTEGER_8 \<Rightarrow> uint (get_val8 iv)
    | EXI_UNSIGNED_INTEGER_16 \<Rightarrow> uint (get_val16 iv)
    | EXI_UNSIGNED_INTEGER_32 \<Rightarrow> uint (get_val32 iv)
    | EXI_UNSIGNED_INTEGER_64 \<Rightarrow> uint (get_val64 iv)
    | EXI_INTEGER_8 \<Rightarrow> sint (get_val8 iv)
    | EXI_INTEGER_16 \<Rightarrow> sint (get_val16 iv)
    | EXI_INTEGER_32 \<Rightarrow> sint (get_val32 iv)
    | EXI_INTEGER_64 \<Rightarrow> sint (get_val64 iv)
    | EXI_INTEGER_TYPE_INVALID _ \<Rightarrow> 0)"

subsection \<open>Strings, bytes, floats, decimals, dates\<close>

text \<open>
  \<open>exi_string_character_t\<close> is \<open>char\<close>, a byte. The containers hold the array a pointer of the C
  struct points to, with its declared size and the current length.
\<close>

record exi_string =
  str_size :: u64
  characters :: "u8 list"
  str_len :: u64

record exi_bytes =
  bytes_size :: u64
  bytes_data :: "u8 list"
  bytes_len :: u64

text \<open>The mantissa is an \<open>int64_t\<close>, the exponent an \<open>int16_t\<close>; both are read with \<^const>\<open>sint\<close>.\<close>

record exi_float_me =
  mantissa :: u64
  exponent :: u16

record exi_decimal =
  negative :: int
  integral :: exi_integer
  reverseFraction :: exi_integer

datatype exi_datetime_type =
    EXI_DATETIME_GYEAR
  | EXI_DATETIME_GYEARMONTH
  | EXI_DATETIME_DATE
  | EXI_DATETIME_DATETIME
  | EXI_DATETIME_GMONTH
  | EXI_DATETIME_GMONTHDAY
  | EXI_DATETIME_GDAY
  | EXI_DATETIME_TIME
  | EXI_DATETIME_TYPE_INVALID int

record exi_datetime =
  dt_type :: exi_datetime_type
  year :: u32
  monthDay :: u32
  dt_time :: u32
  presenceFractionalSecs :: int
  fractionalSecs :: u32
  presenceTimezone :: int
  timezone :: u32

abbreviation (input) DATETIME_YEAR_OFFSET :: int where
  "DATETIME_YEAR_OFFSET \<equiv> 2000"

abbreviation (input) DATETIME_NUMBER_BITS_MONTHDAY :: nat where
  "DATETIME_NUMBER_BITS_MONTHDAY \<equiv> 9"

abbreviation (input) DATETIME_NUMBER_BITS_TIME :: nat where
  "DATETIME_NUMBER_BITS_TIME \<equiv> 17"

abbreviation (input) DATETIME_NUMBER_BITS_TIMEZONE :: nat where
  "DATETIME_NUMBER_BITS_TIMEZONE \<equiv> 11"

abbreviation (input) DATETIME_TIMEZONE_OFFSET_IN_MINUTES :: u32 where
  "DATETIME_TIMEZONE_OFFSET_IN_MINUTES \<equiv> 896"

subsection \<open>Facts about the union\<close>

lemma get_set_val [simp]:
  "get_val8 (set_val8 x8 iv) = x8"
  "get_val16 (set_val16 x16 iv) = x16"
  "get_val32 (set_val32 x32 iv) = x32"
  "get_val64 (set_val64 x64 iv) = x64"
  by (auto simp: get_val8_def set_val8_def get_val16_def set_val16_def get_val32_def set_val32_def
      get_val64_def set_val64_def bit_simps intro!: bit_word_eqI)

lemma get_val16_set_val32: "get_val16 (set_val32 x iv) = ucast x"
  by (rule bit_word_eqI) (auto simp: get_val16_def set_val32_def bit_simps)

lemma get_val32_set_val64: "get_val32 (set_val64 x iv) = ucast x"
  by (simp add: get_val32_def set_val64_def)

lemma int_type_set_val [simp]:
  "int_type (set_val8 x8 iv) = int_type iv"
  "int_type (set_val16 x16 iv) = int_type iv"
  "int_type (set_val32 x32 iv) = int_type iv"
  "int_type (set_val64 x64 iv) = int_type iv"
  by (simp_all add: set_val8_def set_val16_def set_val32_def set_val64_def)

lemma get_val_type_update [simp]:
  "get_val8 (iv\<lparr>int_type := t\<rparr>) = get_val8 iv"
  "get_val16 (iv\<lparr>int_type := t\<rparr>) = get_val16 iv"
  "get_val32 (iv\<lparr>int_type := t\<rparr>) = get_val32 iv"
  "get_val64 (iv\<lparr>int_type := t\<rparr>) = get_val64 iv"
  by (simp_all add: get_val8_def get_val16_def get_val32_def get_val64_def)

text \<open>Different codes are different numbers, and only success is 0.\<close>

lemma errn_code_inj: "inj errn_code"
proof (rule injI)
  fix e f :: errn
  assume "errn_code e = errn_code f"
  then show "e = f" by (cases e; cases f; simp only: errn_code.simps; simp)
qed

lemma errn_code_0: "errn_code e = 0 \<longleftrightarrow> e = EXI_OK"
  by (cases e) simp_all

end
