(* ===== verification/Interfaces.thy ===== *)
theory Interfaces
  imports EXITypes
begin

section \<open>The interfaces between the codec's layers\<close>

text \<open>
  What the channel layer (\<open>EncoderChannel.c\<close>, \<open>DecoderChannel.c\<close>) relies on when it calls the bit
  layer, as two locales, and the calculus that computes, for a sequence of calls, the bits it
  writes or the value it reads:

  \<^item> \<open>bit_sink\<close>: \<open>put s n v\<close> appends the low \<open>n\<close> bits of \<open>v\<close> to what the stream holds if they fit,
    and reports the end of the stream otherwise;
  \<^item> \<open>bit_source\<close>: \<open>get s n b\<close> takes the next \<open>n\<close> bits, or reports the end of the stream.

  \<open>BitOutputStream\<close> and \<open>BitInputStream\<close> interpret them on the model of the code.
\<close>

subsection \<open>Writing\<close>

locale bit_sink =
  fixes inv :: "'s \<Rightarrow> bool"
    and out :: "'s \<Rightarrow> bool list"
    and limit :: "'s \<Rightarrow> nat"
    and put :: "'s \<Rightarrow> nat \<Rightarrow> u32 \<Rightarrow> (errn \<times> 's) option"
  assumes put_fits: "inv s \<Longrightarrow> n \<le> 32 \<Longrightarrow> (length (out s) + n) div 8 \<le> limit s \<Longrightarrow>
      \<exists>s'. put s n v = Some (EXI_OK, s') \<and> inv s' \<and> limit s' = limit s \<and> out s' = out s @ bits n v"
    and put_full: "inv s \<Longrightarrow> n \<le> 8 \<Longrightarrow> limit s < (length (out s) + n) div 8 \<Longrightarrow>
      \<exists>s'. put s n v = Some (EXI_ERROR_OUTPUT_STREAM_EOF, s') \<and> inv s' \<and> limit s' = limit s \<and>
        8 * limit s' \<le> length (out s')"
begin

text \<open>
  \<open>emits m bs\<close>: where there is room, \<open>m\<close> succeeds and appends \<open>bs\<close>. \<open>writes m bs\<close> says more: \<open>m\<close> is
  defined on every stream, and without room it leaves the stream full, overfull if it returns 0
  all the same (the generated encoders overwrite the error code of a value by that of the end
  tag that follows it).
\<close>

definition emits :: "('s \<Rightarrow> (errn \<times> 's) option) \<Rightarrow> bool list \<Rightarrow> bool" where
  "emits m bs \<longleftrightarrow> (\<forall>s. inv s \<longrightarrow> (length (out s) + length bs) div 8 \<le> limit s \<longrightarrow>
     (\<exists>s'. m s = Some (EXI_OK, s') \<and> inv s' \<and> limit s' = limit s \<and> out s' = out s @ bs))"

definition writes :: "('s \<Rightarrow> (errn \<times> 's) option) \<Rightarrow> bool list \<Rightarrow> bool" where
  "writes m bs \<longleftrightarrow> (\<forall>s. inv s \<longrightarrow>
     (\<exists>e s'. m s = Some (e, s') \<and> inv s' \<and> limit s' = limit s \<and>
       (if (length (out s) + length bs) div 8 \<le> limit s then e = EXI_OK \<and> out s' = out s @ bs
        else 8 * limit s' \<le> length (out s') \<and> (e = EXI_OK \<longrightarrow> 8 * limit s' < length (out s')))))"

lemma emitsD:
  "emits m bs \<Longrightarrow> inv s \<Longrightarrow> (length (out s) + length bs) div 8 \<le> limit s \<Longrightarrow>
   \<exists>s'. m s = Some (EXI_OK, s') \<and> inv s' \<and> limit s' = limit s \<and> out s' = out s @ bs"
  by (simp add: emits_def)

lemma writes_imp_emits: "writes m bs \<Longrightarrow> emits m bs"
  by (fastforce simp: emits_def writes_def)

lemma emits_ok: "emits (\<lambda>s. Some (EXI_OK, s)) []"
  by (simp add: emits_def)

lemma writes_ok: "writes (\<lambda>s. Some (EXI_OK, s)) []"
  by (auto simp: writes_def)

lemma emits_put: "n \<le> 32 \<Longrightarrow> emits (\<lambda>s. put s n v) (bits n v)"
  by (simp add: emits_def put_fits)

lemma writes_put:
  assumes "n \<le> 8"
  shows "writes (\<lambda>s. put s n v) (bits n v)"
  unfolding writes_def
proof (intro allI impI)
  fix s assume inv: "inv s"
  show "\<exists>e s'. put s n v = Some (e, s') \<and> inv s' \<and> limit s' = limit s \<and>
      (if (length (out s) + length (bits n v)) div 8 \<le> limit s then e = EXI_OK \<and> out s' = out s @ bits n v
       else 8 * limit s' \<le> length (out s') \<and> (e = EXI_OK \<longrightarrow> 8 * limit s' < length (out s')))"
    using put_fits [OF inv, of n v] put_full [OF inv, of n v] assms
    by (cases "(length (out s) + n) div 8 \<le> limit s") (auto simp: not_le)
qed

text \<open>\<open>errn = m; if (errn == 0) errn = k;\<close>\<close>

lemma emits_then:
  assumes m: "emits m bs" and k: "emits k cs"
  shows "emits (\<lambda>s. do { (e, s1) \<leftarrow> m s; if e = EXI_OK then k s1 else Some (e, s1) }) (bs @ cs)"
  unfolding emits_def
proof (intro allI impI)
  fix s assume s: "inv s" "(length (out s) + length (bs @ cs)) div 8 \<le> limit s"
  have "(length (out s) + length bs) div 8 \<le> (length (out s) + length (bs @ cs)) div 8"
    by (rule div_le_mono) simp
  with s have "(length (out s) + length bs) div 8 \<le> limit s" by linarith
  then obtain s1 where s1: "m s = Some (EXI_OK, s1)" "inv s1" "limit s1 = limit s" "out s1 = out s @ bs"
    using emitsD [OF m s(1)] by blast
  then have "(length (out s1) + length cs) div 8 \<le> limit s1" using s by (simp add: add.assoc)
  from emitsD [OF k s1(2) this] s1
  show "\<exists>s'. (do { (e, s1) \<leftarrow> m s; if e = EXI_OK then k s1 else Some (e, s1) }) = Some (EXI_OK, s') \<and>
      inv s' \<and> limit s' = limit s \<and> out s' = out s @ bs @ cs"
    by auto
qed

text \<open>\<open>errn = m; errn = k;\<close>, which forgets the error of \<open>m\<close>\<close>

lemma emits_next:
  assumes "emits m bs" and "emits k cs"
  shows "emits (\<lambda>s. do { (e, s1) \<leftarrow> m s; k s1 }) (bs @ cs)"
  unfolding emits_def
proof (intro allI impI)
  fix s assume s: "inv s" "(length (out s) + length (bs @ cs)) div 8 \<le> limit s"
  have "(do { (e, s1) \<leftarrow> m s; k s1 }) = do { (e, s1) \<leftarrow> m s; if e = EXI_OK then k s1 else Some (e, s1) }"
  proof -
    have "(length (out s) + length bs) div 8 \<le> (length (out s) + length (bs @ cs)) div 8"
      by (rule div_le_mono) simp
    with s have "(length (out s) + length bs) div 8 \<le> limit s" by linarith
    from emitsD [OF assms(1) s(1) this] show ?thesis by auto
  qed
  with emitsD [OF emits_then [OF assms] s]
  show "\<exists>s'. (do { (e, s1) \<leftarrow> m s; k s1 }) = Some (EXI_OK, s') \<and> inv s' \<and> limit s' = limit s \<and>
      out s' = out s @ bs @ cs" by simp
qed

text \<open>
  The same two sequences for \<open>writes\<close>. If \<open>m\<close> did not fit and its error was forgotten, \<open>k\<close> must
  write at least one bit: the stream is then overfull, and the error surfaces when it is flushed.
\<close>

lemma writes_seq:
  assumes m: "writes m bs" and k: "writes k cs" and s: "inv s"
    and c: "\<And>e. c e \<Longrightarrow> e = EXI_OK \<or> cs \<noteq> []" and ok: "c EXI_OK"
  shows "\<exists>e s'. (do { (e, s1) \<leftarrow> m s; if c e then k s1 else Some (e, s1) }) = Some (e, s') \<and>
      inv s' \<and> limit s' = limit s \<and>
      (if (length (out s) + length (bs @ cs)) div 8 \<le> limit s then e = EXI_OK \<and> out s' = out s @ bs @ cs
       else 8 * limit s' \<le> length (out s') \<and> (e = EXI_OK \<longrightarrow> 8 * limit s' < length (out s')))"
proof -
  let ?fits = "\<lambda>s n. (length (out s) + n) div 8 \<le> limit s"
  have mono: "?fits s (length bs)" if "?fits s (length (bs @ cs))"
  proof -
    have "(length (out s) + length bs) div 8 \<le> (length (out s) + length (bs @ cs)) div 8"
      by (rule div_le_mono) simp
    with that show ?thesis by linarith
  qed
  obtain e s1 where m1: "m s = Some (e, s1)" "inv s1" "limit s1 = limit s"
    "if ?fits s (length bs) then e = EXI_OK \<and> out s1 = out s @ bs
     else 8 * limit s1 \<le> length (out s1) \<and> (e = EXI_OK \<longrightarrow> 8 * limit s1 < length (out s1))"
    using m s by (fastforce simp: writes_def)
  obtain e' s2 where k1: "k s1 = Some (e', s2)" "inv s2" "limit s2 = limit s1"
    "if ?fits s1 (length cs) then e' = EXI_OK \<and> out s2 = out s1 @ cs
     else 8 * limit s2 \<le> length (out s2) \<and> (e' = EXI_OK \<longrightarrow> 8 * limit s2 < length (out s2))"
    using k m1(2) by (fastforce simp: writes_def)
  show ?thesis
  proof (cases "?fits s (length bs)")
    case True
    with m1 have "e = EXI_OK" "out s1 = out s @ bs" by auto
    then show ?thesis using m1 k1 ok by (auto simp: add.assoc split: if_splits)
  next
    case False
    with mono have no: "\<not> ?fits s (length (bs @ cs))" by blast
    show ?thesis
    proof (cases "c e")
      case True
      then show ?thesis using False no m1 k1 c [OF True]
        by (cases "e = EXI_OK") (auto split: if_splits simp flip: length_greater_0_conv)
    next
      case False
      then show ?thesis using \<open>\<not> ?fits s (length bs)\<close> no m1 ok by auto
    qed
  qed
qed

lemma writes_then:
  assumes "writes m bs" and "writes k cs"
  shows "writes (\<lambda>s. do { (e, s1) \<leftarrow> m s; if e = EXI_OK then k s1 else Some (e, s1) }) (bs @ cs)"
  using writes_seq [OF assms, where c = "\<lambda>e. e = EXI_OK"] unfolding writes_def by blast

lemma writes_next:
  assumes "writes m bs" and "writes k cs" and "cs \<noteq> []"
  shows "writes (\<lambda>s. do { (e, s1) \<leftarrow> m s; k s1 }) (bs @ cs)"
  using writes_seq [OF assms(1,2), where c = "\<lambda>_. True"] assms(3) unfolding writes_def by auto

end

subsection \<open>Reading\<close>

locale bit_source =
  fixes inv :: "'s \<Rightarrow> bool"
    and rest :: "'s \<Rightarrow> bool list"
    and frame :: "'s \<Rightarrow> 'f"
    and get :: "'s \<Rightarrow> nat \<Rightarrow> u32 \<Rightarrow> (errn \<times> u32 \<times> 's) option"
  assumes get_ok: "inv s \<Longrightarrow> 1 \<le> n \<Longrightarrow> n \<le> length (rest s) \<Longrightarrow>
      \<exists>s'. get s n b = Some (EXI_OK, from_bits (take n (rest s)), s') \<and> inv s' \<and> rest s' = drop n (rest s) \<and>
        frame s' = frame s"
    and get_eof: "inv s \<Longrightarrow> 1 \<le> n \<Longrightarrow> length (rest s) < n \<Longrightarrow>
      \<exists>b' s'. get s n b = Some (EXI_ERROR_INPUT_STREAM_EOF, b', s') \<and> inv s' \<and> length (rest s') \<le> length (rest s)"
begin

text \<open>
  \<open>takes m bs a\<close>: on a stream that starts with \<open>bs\<close>, \<open>m\<close> succeeds with the value \<open>a\<close> and leaves what
  follows; \<open>frame\<close>, the part of a stream that reading does not change, stays. \<open>total m\<close>: \<open>m\<close> is defined on every stream, and never gives bits back.
\<close>

definition takes :: "('s \<Rightarrow> (errn \<times> 'a \<times> 's) option) \<Rightarrow> bool list \<Rightarrow> 'a \<Rightarrow> bool" where
  "takes m bs a \<longleftrightarrow> (\<forall>s r. inv s \<longrightarrow> rest s = bs @ r \<longrightarrow>
     (\<exists>s'. m s = Some (EXI_OK, a, s') \<and> inv s' \<and> rest s' = r \<and> frame s' = frame s))"

definition total :: "('s \<Rightarrow> (errn \<times> 'a \<times> 's) option) \<Rightarrow> bool" where
  "total m \<longleftrightarrow> (\<forall>s. inv s \<longrightarrow>
     (\<exists>e a s'. m s = Some (e, a, s') \<and> inv s' \<and> length (rest s') \<le> length (rest s)))"

lemma takesD:
  "takes m bs a \<Longrightarrow> inv s \<Longrightarrow> rest s = bs @ r \<Longrightarrow>
   \<exists>s'. m s = Some (EXI_OK, a, s') \<and> inv s' \<and> rest s' = r \<and> frame s' = frame s"
  by (simp add: takes_def)

lemma totalD:
  "total m \<Longrightarrow> inv s \<Longrightarrow>
   \<exists>e a s'. m s = Some (e, a, s') \<and> inv s' \<and> length (rest s') \<le> length (rest s)"
  by (simp add: total_def)

lemma takes_ok: "takes (\<lambda>s. Some (EXI_OK, a, s)) [] a"
  by (simp add: takes_def)

lemma total_ret: "total (\<lambda>s. Some (e, a, s))"
  by (simp add: total_def)

lemma takes_get: "1 \<le> length bs \<Longrightarrow> takes (\<lambda>s. get s (length bs) b) bs (from_bits bs)"
  unfolding takes_def using get_ok by fastforce

lemma takes_get_bits:
  "1 \<le> n \<Longrightarrow> n \<le> 32 \<Longrightarrow> take_bit n v = v \<Longrightarrow> takes (\<lambda>s. get s n b) (bits n v) v"
  using takes_get [of "bits n v" b] by (simp add: from_bits_bits_id)

lemma total_get: "1 \<le> n \<Longrightarrow> total (\<lambda>s. get s n b)"
  unfolding total_def using get_ok get_eof by (metis diff_le_self length_drop not_le)

lemma takes_then:
  assumes m: "takes m bs a" and k: "takes (k a) cs c"
  shows "takes (\<lambda>s. do { (e, x, s1) \<leftarrow> m s; if e = EXI_OK then k x s1 else f e x s1 }) (bs @ cs) c"
  unfolding takes_def
proof (intro allI impI)
  fix s r assume s: "inv s" "rest s = (bs @ cs) @ r"
  then obtain s1 where s1: "m s = Some (EXI_OK, a, s1)" "inv s1" "rest s1 = cs @ r" "frame s1 = frame s"
    using takesD [OF m, of s "cs @ r"] by auto
  then show "\<exists>s'. (do { (e, x, s1) \<leftarrow> m s; if e = EXI_OK then k x s1 else f e x s1 }) = Some (EXI_OK, c, s') \<and>
      inv s' \<and> rest s' = r \<and> frame s' = frame s" using takesD [OF k s1(2,3)] by auto
qed

lemma takes_map: "takes m bs a \<Longrightarrow> takes (\<lambda>s. do { (e, x, s1) \<leftarrow> m s; Some (e, f e x, s1) }) bs (f EXI_OK a)"
  unfolding takes_def by (elim all_forward imp_forward) auto

lemma total_bind:
  assumes m: "total m" and k: "\<And>e x. total (k e x)"
  shows "total (\<lambda>s. do { (e, x, s1) \<leftarrow> m s; k e x s1 })"
  unfolding total_def
proof (intro allI impI)
  fix s assume "inv s"
  then obtain e x s1 where s1: "m s = Some (e, x, s1)" "inv s1" "length (rest s1) \<le> length (rest s)"
    using totalD [OF m] by blast
  obtain e' y s2 where "k e x s1 = Some (e', y, s2)" "inv s2" "length (rest s2) \<le> length (rest s1)"
    using totalD [OF k s1(2), of e x] by blast
  with s1 show "\<exists>e a s'. (do { (e, x, s1) \<leftarrow> m s; k e x s1 }) = Some (e, a, s') \<and> inv s' \<and>
      length (rest s') \<le> length (rest s)" by auto
qed

end

end
