(* ===== verification/BitOutputStream.thy ===== *)
theory BitOutputStream
  imports Interfaces
begin

section \<open>Writing bits (BitOutputStream.c)\<close>

text \<open>
  \<open>writeBits\<close> and \<open>flush\<close> of \<open>src/codec/BitOutputStream.c\<close>, in the byte-array configuration, with
  their specification over bit strings: \<open>written s\<close> is everything a stream holds, whole bytes and
  the bits waiting in \<open>buffer\<close>; a call that \<open>fits\<close> appends its bits to it, and one that does not
  fit reports the end of the stream and leaves the stream full.
\<close>

subsection \<open>The operations\<close>

text \<open>
  The block the code repeats to store a byte:
  \<open>if (*pos >= size) errn = EXI_ERROR_OUTPUT_STREAM_EOF; else data[(*pos)++] = b;\<close>
\<close>

definition put_byte :: "u8 \<Rightarrow> bitstream \<Rightarrow> (errn \<times> bitstream) option" where
  "put_byte b s =
     (if stream_size s \<le> stream_pos s then Some (EXI_ERROR_OUTPUT_STREAM_EOF, s)
      else if stream_pos s < length (stream_data s)
      then Some (EXI_OK, s\<lparr>stream_data := (stream_data s)[stream_pos s := b],
                           stream_pos := stream_pos s + 1\<rparr>)
      else None)"

text \<open>The loop \<open>while (errn == 0 && nbits >= BITS_IN_BYTE)\<close>, which writes whole bytes.\<close>

fun write_whole_bytes :: "errn \<Rightarrow> nat \<Rightarrow> u32 \<Rightarrow> bitstream \<Rightarrow> (errn \<times> nat \<times> bitstream) option" where
  "write_whole_bytes errn nbits val s =
     (if errn = EXI_OK \<and> BITS_IN_BYTE \<le> nbits then
        if 32 \<le> nbits - BITS_IN_BYTE then None
        else do {
          (errn', s') \<leftarrow> put_byte (ucast (drop_bit (nbits - BITS_IN_BYTE) val)) s;
          write_whole_bytes errn' (nbits - BITS_IN_BYTE) val s'
        }
      else Some (errn, nbits, s))"

declare write_whole_bytes.simps [simp del]

text \<open>
  \<open>writeBits\<close>: the first branch is the case where the bits fit into \<open>buffer\<close>. The guards that
  give \<open>None\<close> are the shift counts: \<open>0xff >> (8 - nbits)\<close> and \<open>0xff >> (8 - capacity)\<close> need a
  count below 32, \<open>val >> (nbits - capacity)\<close> too. The capacity is a \<open>uint8_t\<close>, so the last
  subtraction is taken modulo 256: after an error \<open>nbits\<close> may still be above 8.
\<close>

definition writeBits :: "bitstream \<Rightarrow> nat \<Rightarrow> u32 \<Rightarrow> (errn \<times> bitstream) option" where
  "writeBits s nbits val =
     (if nbits \<le> capacity s then
        if BITS_IN_BYTE < nbits then None
        else
          let s1 = s\<lparr>buffer := push_bit nbits (buffer s)
                                OR ucast (val AND drop_bit (BITS_IN_BYTE - nbits) 0xff),
                     capacity := capacity s - nbits\<rparr>
          in if capacity s1 = 0
             then do {
               (errn, s2) \<leftarrow> put_byte (buffer s1) s1;
               Some (errn, s2\<lparr>capacity := BITS_IN_BYTE, buffer := 0\<rparr>)
             }
             else Some (EXI_OK, s1)
      else if BITS_IN_BYTE < capacity s \<or> 32 \<le> nbits - capacity s then None
      else
        let b = push_bit (capacity s) (buffer s)
                OR (ucast (drop_bit (nbits - capacity s) val)
                    AND drop_bit (BITS_IN_BYTE - capacity s) 0xff);
            nbits1 = nbits - capacity s
        in do {
          (errn, s2) \<leftarrow> put_byte b (s\<lparr>buffer := b\<rparr>);
          (errn', nbits2, s3) \<leftarrow> write_whole_bytes errn nbits1 val (s2\<lparr>buffer := 0\<rparr>);
          Some (errn', s3\<lparr>buffer := ucast val,
                          capacity := nat ((int BITS_IN_BYTE - int nbits2) mod 256)\<rparr>)
        })"

definition flush :: "bitstream \<Rightarrow> (errn \<times> bitstream) option" where
  "flush s =
     (if capacity s = BITS_IN_BYTE then Some (EXI_OK, s)
      else writeBits s (capacity s) 0)"

subsection \<open>Specification\<close>

text \<open>The invariant of an output stream, and what it holds.\<close>

definition wf_out :: "bitstream \<Rightarrow> bool" where
  "wf_out s \<longleftrightarrow> 1 \<le> capacity s \<and> capacity s \<le> 8 \<and> stream_pos s \<le> stream_size s \<and>
     stream_size s \<le> length (stream_data s)"

definition written :: "bitstream \<Rightarrow> bool list" where
  "written s = bytes_bits (take (stream_pos s) (stream_data s)) @ bits (8 - capacity s) (buffer s)"

text \<open>
  \<open>n\<close> more bits fit: every byte they complete has its place. (The last incomplete byte stays in
  \<open>buffer\<close> and needs a place only when the stream is flushed.)
\<close>

definition fits :: "bitstream \<Rightarrow> nat \<Rightarrow> bool" where
  "fits s n \<longleftrightarrow> (length (written s) + n) div 8 \<le> stream_size s"

lemma length_written:
  "wf_out s \<Longrightarrow> length (written s) = 8 * stream_pos s + (8 - capacity s)"
  by (simp add: written_def wf_out_def)

lemma fits_iff:
  "wf_out s \<Longrightarrow> fits s n \<longleftrightarrow> stream_pos s + (8 - capacity s + n) div 8 \<le> stream_size s"
  by (simp add: fits_def length_written add.assoc)

lemma fits_mono: "fits s n \<Longrightarrow> m \<le> n \<Longrightarrow> fits s m"
  unfolding fits_def by (meson add_left_mono div_le_mono le_trans)

text \<open>Storing bytes.\<close>

lemma put_byte_full:
  "stream_size s \<le> stream_pos s \<Longrightarrow> put_byte b s = Some (EXI_ERROR_OUTPUT_STREAM_EOF, s)"
  by (simp add: put_byte_def)

lemma put_byte_room:
  "stream_pos s < stream_size s \<Longrightarrow> stream_size s \<le> length (stream_data s) \<Longrightarrow>
   put_byte b s = Some (EXI_OK, s\<lparr>stream_data := (stream_data s)[stream_pos s := b],
                                  stream_pos := stream_pos s + 1\<rparr>)"
  by (simp add: put_byte_def)

text \<open>What the whole-byte loop does, with room for the bytes and without.\<close>

lemma write_whole_bytes_room:
  assumes "stream_pos s + n div 8 \<le> stream_size s" "stream_size s \<le> length (stream_data s)" "n < 40"
  shows "\<exists>d. write_whole_bytes EXI_OK n val s =
           Some (EXI_OK, n mod 8, s\<lparr>stream_data := d, stream_pos := stream_pos s + n div 8\<rparr>) \<and>
         length d = length (stream_data s) \<and>
         bytes_bits (take (stream_pos s + n div 8) d) @ bits (n mod 8) val =
           bytes_bits (take (stream_pos s) (stream_data s)) @ bits n val"
  using assms
proof (induction n arbitrary: s rule: less_induct)
  case (less n)
  show ?case
  proof (cases "8 \<le> n")
    case False
    then show ?thesis by (intro exI [of _ "stream_data s"])
        (simp add: write_whole_bytes.simps)
  next
    case True
    define b :: u8 where "b = ucast (drop_bit (n - 8) val)"
    define s' where "s' = s\<lparr>stream_data := (stream_data s)[stream_pos s := b],
                            stream_pos := stream_pos s + 1\<rparr>"
    have div: "n div 8 = Suc ((n - 8) div 8)" and mod: "n mod 8 = (n - 8) mod 8"
      using True by (simp_all add: le_div_geq le_mod_geq)
    have room: "stream_pos s < stream_size s" using less.prems(1) div by simp
    have "n - 8 < n" "n - 8 < 40" "stream_pos s' + (n - 8) div 8 \<le> stream_size s'"
      "stream_size s' \<le> length (stream_data s')"
      using less.prems True div by (simp_all add: s'_def)
    from less.IH [OF this(1,3,4,2)]
    obtain d where d: "write_whole_bytes EXI_OK (n - 8) val s' =
           Some (EXI_OK, (n - 8) mod 8, s'\<lparr>stream_data := d, stream_pos := stream_pos s' + (n - 8) div 8\<rparr>)"
      and len: "length d = length (stream_data s')"
      and bits: "bytes_bits (take (stream_pos s' + (n - 8) div 8) d) @ bits ((n - 8) mod 8) val =
           bytes_bits (take (stream_pos s') (stream_data s')) @ bits (n - 8) val"
      by blast
    have "bits n val = bits 8 (drop_bit (n - 8) val) @ bits (n - 8) val"
      using bits_add [of 8 "n - 8" val] True by simp
    then have byte: "bits n val = bits 8 b @ bits (n - 8) val"
      by (simp add: b_def bits_ucast)
    have "\<not> 32 \<le> n - 8" using less.prems by simp
    then have "write_whole_bytes EXI_OK n val s = write_whole_bytes EXI_OK (n - 8) val s'"
      using True less.prems room
      by (subst write_whole_bytes.simps) (simp add: put_byte_room b_def s'_def)
    with d len bits byte room less.prems div mod show ?thesis
      by (intro exI [of _ d]) (auto simp: s'_def take_Suc_update)
  qed
qed

lemma write_whole_bytes_full:
  assumes "stream_pos s \<le> stream_size s" "stream_size s < stream_pos s + n div 8"
    "stream_size s \<le> length (stream_data s)" "n < 40"
  shows "\<exists>d m. write_whole_bytes EXI_OK n val s =
           Some (EXI_ERROR_OUTPUT_STREAM_EOF, m, s\<lparr>stream_data := d, stream_pos := stream_size s\<rparr>) \<and>
         length d = length (stream_data s) \<and> m = n - 8 * (stream_size s - stream_pos s) - 8"
  using assms
proof (induction n arbitrary: s rule: less_induct)
  case (less n)
  then have n8: "8 \<le> n" by presburger
  show ?case
  proof (cases "stream_pos s = stream_size s")
    case True
    then show ?thesis using less.prems n8
      by (intro exI [of _ "stream_data s"] exI [of _ "n - 8"])
        (simp add: write_whole_bytes.simps put_byte_full)
  next
    case False
    define b :: u8 where "b = ucast (drop_bit (n - 8) val)"
    define s' where "s' = s\<lparr>stream_data := (stream_data s)[stream_pos s := b],
                            stream_pos := stream_pos s + 1\<rparr>"
    have div: "n div 8 = Suc ((n - 8) div 8)" using n8 by (simp add: le_div_geq)
    have "n - 8 < n" "n - 8 < 40" "stream_pos s' \<le> stream_size s'"
      "stream_size s' < stream_pos s' + (n - 8) div 8" "stream_size s' \<le> length (stream_data s')"
      using less.prems n8 div False by (simp_all add: s'_def)
    from less.IH [OF this(1,3,4,5,2)]
    obtain d m where "write_whole_bytes EXI_OK (n - 8) val s' =
           Some (EXI_ERROR_OUTPUT_STREAM_EOF, m, s'\<lparr>stream_data := d, stream_pos := stream_size s'\<rparr>)"
      "length d = length (stream_data s')" "m = n - 8 - 8 * (stream_size s' - stream_pos s') - 8"
      by blast
    moreover have "\<not> 32 \<le> n - 8" using less.prems by simp
    then have "write_whole_bytes EXI_OK n val s = write_whole_bytes EXI_OK (n - 8) val s'"
      using n8 less.prems False
      by (subst write_whole_bytes.simps) (simp add: put_byte_room b_def s'_def)
    moreover have "8 * (stream_size s - stream_pos s) = 8 + 8 * (stream_size s' - stream_pos s')"
      using less.prems(1) False by (simp add: s'_def)
    ultimately show ?thesis
      by (intro exI [of _ d] exI [of _ m]) (auto simp: s'_def)
  qed
qed

text \<open>The byte assembled in \<open>buffer\<close>: the bits already there, then the new ones.\<close>

lemma bits_fill:
  assumes "n \<le> c" "c \<le> 8"
  shows "bits (8 - (c - n)) (push_bit n buf OR ucast (v AND drop_bit (8 - n) (255 :: u32)) :: u8) =
           bits (8 - c) buf @ bits n v"
proof -
  have "bits (8 - c + n) (push_bit n buf OR ucast (v AND mask n) :: u8) =
      bits (8 - c) buf @ bits n (ucast v :: u8)"
    using assms by (intro bits_mask_or) (auto simp: bit_simps)
  moreover have "8 - c + n = 8 - (c - n)" using assms by simp
  ultimately show ?thesis using assms by (simp add: mask_255_u32 bits_ucast)
qed

lemma bits_fill_up:
  assumes "1 \<le> c" "c \<le> 8" "c < n" "n \<le> 32"
  shows "bits 8 (push_bit c buf OR (ucast (drop_bit (n - c) v) AND drop_bit (8 - c) 255) :: u8) @
           bits (n - c) v = bits (8 - c) buf @ bits n (v :: u32)"
proof -
  have "bits (8 - c + c) (push_bit c buf OR (ucast (drop_bit (n - c) v) AND mask c) :: u8) =
      bits (8 - c) buf @ bits c (ucast (drop_bit (n - c) v) :: u8)"
    using assms by (intro bits_mask_or) (auto simp: bit_simps)
  then show ?thesis
    using assms bits_add [of c "n - c" v] by (simp add: mask_255_u8 bits_ucast)
qed

subsection \<open>Correctness of \<open>writeBits\<close>\<close>

lemma writeBits_fits:
  assumes wf: "wf_out s" and n: "n \<le> 32" and fit: "fits s n"
  shows "\<exists>s'. writeBits s n v = Some (EXI_OK, s') \<and> wf_out s' \<and> written s' = written s @ bits n v \<and>
           stream_size s' = stream_size s \<and> length (stream_data s') = length (stream_data s)"
proof (cases "n \<le> capacity s")
  case True
  define b :: u8 where "b = push_bit n (buffer s) OR ucast (v AND drop_bit (8 - n) 255)"
  have bits: "bits (8 - (capacity s - n)) b = bits (8 - capacity s) (buffer s) @ bits n v"
    unfolding b_def using True wf by (intro bits_fill) (simp_all add: wf_out_def)
  show ?thesis
  proof (cases "capacity s = n")
    case full: True
    then have "stream_pos s < stream_size s"
      using fit wf by (simp add: fits_iff wf_out_def)
    then show ?thesis
      using full wf bits True by (simp add: writeBits_def Let_def put_byte_room wf_out_def written_def
          take_Suc_update flip: b_def)
  next
    case False
    then show ?thesis using True wf bits
      by (auto simp: writeBits_def Let_def wf_out_def written_def simp flip: b_def)
  qed
next
  case False
  define c where "c = capacity s"
  define b :: u8 where "b = push_bit c (buffer s) OR (ucast (drop_bit (n - c) v) AND drop_bit (8 - c) 255)"
  define s2 where "s2 = s\<lparr>stream_data := (stream_data s)[stream_pos s := b],
                          stream_pos := stream_pos s + 1, buffer := 0\<rparr>"
  have c: "1 \<le> c" "c \<le> 8" "c < n" using False wf by (simp_all add: c_def wf_out_def)
  then have div: "(8 - c + n) div 8 = Suc ((n - c) div 8)"
    by (simp add: div_add_self1 [symmetric] del: div_add_self1)
  have room: "stream_pos s2 + (n - c) div 8 \<le> stream_size s2" "stream_pos s < stream_size s"
    "stream_size s2 \<le> length (stream_data s2)" "n - c < 40"
    using fit wf div n by (simp_all add: fits_iff wf_out_def s2_def flip: c_def)
  from write_whole_bytes_room [OF room(1,3,4), of v]
  obtain d where d: "write_whole_bytes EXI_OK (n - c) v s2 = Some (EXI_OK, (n - c) mod 8,
      s2\<lparr>stream_data := d, stream_pos := stream_pos s2 + (n - c) div 8\<rparr>)"
    and len: "length d = length (stream_data s2)"
    and app: "bytes_bits (take (stream_pos s2 + (n - c) div 8) d) @ bits ((n - c) mod 8) v =
        bytes_bits (take (stream_pos s2) (stream_data s2)) @ bits (n - c) v" by blast
  define s' where "s' = s2\<lparr>stream_data := d, stream_pos := stream_pos s2 + (n - c) div 8,
      buffer := ucast v, capacity := nat ((8 - int ((n - c) mod 8)) mod 256)\<rparr>"
  have "\<not> 32 \<le> n - c" using n c by simp
  have cap: "capacity s' = 8 - (n - c) mod 8" by (simp add: s'_def nat_diff_distrib)
  have m8: "(n - c) mod 8 \<le> 8" by (rule less_imp_le) simp
  then have low: "bits ((n - c) mod 8) (ucast v :: u8) = bits ((n - c) mod 8) v"
    by (intro bits_ucast) simp_all
  have cap1: "1 \<le> capacity s' \<and> capacity s' \<le> 8"
    unfolding cap using mod_less_divisor [of 8 "n - c"] by linarith
  have "writeBits s n v = Some (EXI_OK, s')"
    using False wf n room d \<open>\<not> 32 \<le> n - c\<close>
    by (simp add: writeBits_def Let_def wf_out_def put_byte_room s2_def s'_def flip: c_def b_def)
  moreover have "wf_out s'" using wf room len cap1 by (simp add: wf_out_def s2_def s'_def)
  moreover have "written s' = written s @ bits n v"
    using app room wf cap bits_fill_up [OF c n, of "buffer s" v]
    by (simp add: written_def s'_def s2_def low wf_out_def take_Suc_update flip: c_def b_def)
  ultimately show ?thesis using len by (simp add: s'_def s2_def)
qed

lemma writeBits_full:
  assumes wf: "wf_out s" and n: "n \<le> 32" and full: "\<not> fits s n"
  shows "\<exists>s'. writeBits s n v = Some (EXI_ERROR_OUTPUT_STREAM_EOF, s') \<and>
           stream_pos s' = stream_size s' \<and> stream_size s' = stream_size s \<and>
           length (stream_data s') = length (stream_data s) \<and> (n \<le> 8 \<longrightarrow> wf_out s')"
proof (cases "n \<le> capacity s")
  case True
  have cap: "capacity s = n" and pos: "stream_pos s = stream_size s"
    using True full wf by (auto simp: fits_iff wf_out_def div_if split: if_splits)
  then show ?thesis
    using wf by (auto simp: writeBits_def Let_def put_byte_full wf_out_def)
next
  case False
  define c where "c = capacity s"
  have c: "1 \<le> c" "c \<le> 8" "c < n" using False wf by (simp_all add: c_def wf_out_def)
  then have div: "(8 - c + n) div 8 = Suc ((n - c) div 8)"
    by (simp add: div_add_self1 [symmetric] del: div_add_self1)
  define b :: u8 where "b = push_bit c (buffer s) OR (ucast (drop_bit (n - c) v) AND drop_bit (8 - c) 255)"
  show ?thesis
  proof (cases "stream_pos s = stream_size s")
    case True
    have "write_whole_bytes EXI_ERROR_OUTPUT_STREAM_EOF (n - c) v s' =
        Some (EXI_ERROR_OUTPUT_STREAM_EOF, n - c, s')" for s'
      by (simp add: write_whole_bytes.simps)
    moreover have "nat ((8 - int (n - c)) mod 256) = 8 - (n - c)" if "n \<le> 8"
      using that c by (simp add: nat_diff_distrib)
    ultimately show ?thesis using True False wf n c
      by (auto simp: writeBits_def Let_def wf_out_def put_byte_full simp flip: c_def b_def)
  next
    case pos: False
    define s2 where "s2 = s\<lparr>stream_data := (stream_data s)[stream_pos s := b],
                            stream_pos := stream_pos s + 1, buffer := 0\<rparr>"
    have room: "stream_pos s2 \<le> stream_size s2" "stream_size s2 < stream_pos s2 + (n - c) div 8"
      "stream_size s2 \<le> length (stream_data s2)" "n - c < 40" "stream_pos s < stream_size s"
      using full wf div n pos by (simp_all add: fits_iff wf_out_def s2_def flip: c_def)
    from write_whole_bytes_full [OF room(1,2,3,4), of v]
    obtain d m where "write_whole_bytes EXI_OK (n - c) v s2 =
        Some (EXI_ERROR_OUTPUT_STREAM_EOF, m, s2\<lparr>stream_data := d, stream_pos := stream_size s2\<rparr>)"
      "length d = length (stream_data s2)" by blast
    moreover have "\<not> 32 \<le> n - c" using n c by simp
    moreover have "8 < n" using room(1,2) c by (cases "n - c < 8") auto
    ultimately show ?thesis using False wf n c room
      by (simp add: writeBits_def Let_def wf_out_def put_byte_room s2_def flip: c_def b_def)
  qed
qed

text \<open>A write that fails with more than 16 bits left leaves a capacity no stream should have.\<close>

lemma writeBits_full_capacity:
  assumes wf: "wf_out s" and n: "n \<le> 32" and full: "8 * stream_size s + 16 < length (written s) + n"
  shows "\<exists>t. writeBits s n v = Some (EXI_ERROR_OUTPUT_STREAM_EOF, t) \<and> 8 < capacity t"
proof -
  define c where "c = capacity s"
  have l: "8 * stream_size s + 16 < 8 * stream_pos s + (8 - c) + n" using full by (simp add: length_written [OF wf] c_def)
  have c: "1 \<le> c" "c \<le> 8" "stream_pos s \<le> stream_size s" using wf by (simp_all add: wf_out_def c_def)
  then have cn: "\<not> n \<le> c" "8 + (n - c) = 8 - c + n" using l by linarith+
  define b :: u8 where "b = push_bit c (buffer s) OR (ucast (drop_bit (n - c) v) AND drop_bit (8 - c) 255)"
  have neg: "8 < nat ((8 - int m) mod 256)" if "8 < m" "m \<le> 32" for m
  proof -
    have "(8 - int m) mod 256 = 264 - int m"
      using that by (intro int_mod_pos_eq [where q = "- 1"]) auto
    then show ?thesis using that by simp
  qed
  show ?thesis
  proof (cases "stream_pos s = stream_size s")
    case True
    have "write_whole_bytes EXI_ERROR_OUTPUT_STREAM_EOF (n - c) v s' =
        Some (EXI_ERROR_OUTPUT_STREAM_EOF, n - c, s')" for s'
      by (simp add: write_whole_bytes.simps)
    moreover have "8 < n - c" using l cn True by linarith
    ultimately show ?thesis using True cn n c neg [of "n - c"]
      by (auto simp: writeBits_def Let_def put_byte_full simp flip: c_def b_def)
  next
    case pos: False
    define s2 where "s2 = s\<lparr>stream_data := (stream_data s)[stream_pos s := b],
                            stream_pos := stream_pos s + 1, buffer := 0\<rparr>"
    have "8 * stream_pos s + 8 + (n - c) > 8 * stream_size s + 16" using l cn by linarith
    then have room: "stream_pos s2 \<le> stream_size s2" "stream_size s2 < stream_pos s2 + (n - c) div 8"
      "stream_size s2 \<le> length (stream_data s2)" "n - c < 40" "stream_pos s < stream_size s"
      "8 < n - c - 8 * (stream_size s2 - stream_pos s2) - 8"
      using wf n pos c(3) by (auto simp: wf_out_def s2_def)
    from write_whole_bytes_full [OF room(1,2,3,4), of v]
    obtain d where "write_whole_bytes EXI_OK (n - c) v s2 =
        Some (EXI_ERROR_OUTPUT_STREAM_EOF, n - c - 8 * (stream_size s2 - stream_pos s2) - 8,
          s2\<lparr>stream_data := d, stream_pos := stream_size s2\<rparr>)" by blast
    with cn n c room(3,5) neg [OF room(6)] show ?thesis
      by (simp add: writeBits_def Let_def put_byte_room s2_def flip: c_def b_def)
  qed
qed

lemma wide_undefined:
  assumes "8 < capacity t"
  shows "writeBits t m w = None \<longleftrightarrow> 8 < m"
  using assms by (auto simp: writeBits_def Let_def)

lemma limit_written: "wf_out s \<Longrightarrow> stream_pos s = stream_size s \<Longrightarrow> 8 * stream_size s \<le> length (written s)"
  by (simp add: length_written)

text \<open>The output stream is a bit sink.\<close>

interpretation wr: bit_sink wf_out written stream_size writeBits
proof
  fix s n v
  assume "wf_out s" "n \<le> 32" "(length (written s) + n) div 8 \<le> stream_size s"
  then show "\<exists>s'. writeBits s n v = Some (EXI_OK, s') \<and> wf_out s' \<and> stream_size s' = stream_size s \<and>
      written s' = written s @ bits n v"
    using writeBits_fits [of s n v] by (auto simp: fits_def)
next
  fix s n v
  assume "wf_out s" "n \<le> 8" "stream_size s < (length (written s) + n) div 8"
  then show "\<exists>s'. writeBits s n v = Some (EXI_ERROR_OUTPUT_STREAM_EOF, s') \<and> wf_out s' \<and>
      stream_size s' = stream_size s \<and> 8 * stream_size s' \<le> length (written s')"
    using writeBits_full [of s n v] by (auto simp: fits_def dest: limit_written)
qed

subsection \<open>Flushing\<close>

text \<open>
  A flush pads the last byte with zeros. It fails exactly if that byte has no place: never on a
  byte boundary, always on an overfull stream.
\<close>

lemma flush_fits:
  assumes wf: "wf_out s" and fit: "length (written s) \<le> 8 * stream_size s"
  shows "\<exists>s'. flush s = Some (EXI_OK, s') \<and> wf_out s' \<and> stream_size s' = stream_size s \<and> capacity s' = 8 \<and>
           written s' = written s @ replicate (if capacity s = 8 then 0 else capacity s) False"
proof (cases "capacity s = 8")
  case True
  then show ?thesis using wf by (simp add: flush_def)
next
  case False
  have "fits s (capacity s)"
    using wf fit False by (simp add: fits_iff length_written wf_out_def) presburger
  moreover have "capacity s \<le> 32" using wf by (simp add: wf_out_def)
  ultimately obtain s' where s': "writeBits s (capacity s) 0 = Some (EXI_OK, s')" "wf_out s'"
    "written s' = written s @ bits (capacity s) (0 :: u32)" "stream_size s' = stream_size s"
    using writeBits_fits [OF wf, of "capacity s" 0] by blast
  have "length (written s') = 8 * (stream_pos s + 1)"
    using s'(3) wf by (simp add: length_written wf_out_def)
  then have "capacity s' = 8" using s'(2) by (simp add: length_written wf_out_def) presburger
  with s' False show ?thesis by (simp add: flush_def bits_zero)
qed

lemma flush_overfull:
  assumes wf: "wf_out s" and over: "8 * stream_size s < length (written s)"
  shows "\<exists>s'. flush s = Some (EXI_ERROR_OUTPUT_STREAM_EOF, s')"
proof -
  have "capacity s < 8" "\<not> fits s (capacity s)"
    using wf over by (auto simp: fits_iff length_written wf_out_def)
  moreover have "capacity s \<le> 32" using wf by (simp add: wf_out_def)
  ultimately show ?thesis
    using writeBits_full [OF wf, of "capacity s" 0] by (auto simp: flush_def)
qed

subsection \<open>The frame of the writing operations\<close>









subsection \<open>Any sequence of writes\<close>








subsection \<open>Properties\<close>

text \<open>C23: \<open>writeBits\<close> with up to 32 bits is defined on every well-formed output stream. If the bits
  fit, it returns 0 and appends exactly the low \<open>n\<close> bits of the value, most significant first;
  otherwise it returns \<open>EXI_ERROR_OUTPUT_STREAM_EOF\<close>, having filled the array to its declared size.\<close>

theorem writeBits_outcome:
  assumes "wf_out s" "n \<le> 32"
  shows "\<exists>e t. writeBits s n v = Some (e, t) \<and> stream_size t = stream_size s \<and>
    (if fits s n then e = EXI_OK \<and> wf_out t \<and> written t = written s @ bits n v
     else e = EXI_ERROR_OUTPUT_STREAM_EOF \<and> stream_pos t = stream_size t)"
  using writeBits_fits [OF assms, of v] writeBits_full [OF assms, of v] by (cases "fits s n") auto

theorem writeBits_outcome_witness:
  "\<exists>e t. writeBits (blank_stream 2) 11 1365 = Some (e, t) \<and> e = EXI_OK \<and>
     written t = written (blank_stream 2) @ bits 11 (1365 :: u32)"
proof -
  have wf: "wf_out (blank_stream 2)" by (simp add: wf_out_def)
  then have "fits (blank_stream 2) 11" by (simp add: fits_iff)
  with writeBits_outcome [OF wf, of 11 1365] show ?thesis by auto
qed



text \<open>C36: a flush pads the last byte with zeros and returns 0 exactly when what was written fits
  into the declared size; on a byte boundary it does nothing.\<close>

theorem flush_outcome:
  assumes "wf_out s"
  shows "\<exists>e t. flush s = Some (e, t) \<and> (e = EXI_OK \<longleftrightarrow> length (written s) \<le> 8 * stream_size s) \<and>
    (e = EXI_OK \<longrightarrow> capacity t = 8 \<and>
       written t = written s @ replicate (if capacity s = 8 then 0 else capacity s) False)"
  using flush_fits [OF assms] flush_overfull [OF assms] by (cases "length (written s) \<le> 8 * stream_size s") auto

theorem flush_outcome_witness:
  "\<exists>t. flush ((blank_stream 1)\<lparr>buffer := 5, capacity := 5\<rparr>) = Some (EXI_OK, t) \<and>
     written t = [True, False, True, False, False, False, False, False]"
proof -
  let ?s = "(blank_stream 1)\<lparr>buffer := 5, capacity := 5\<rparr>"
  have w: "wf_out ?s" "written ?s = [True, False, True]" by (simp_all add: wf_out_def written_def bits_def upt_rec)
  from flush_outcome [OF w(1)] w(2) show ?thesis by (auto simp: numeral_eq_Suc)
qed

text \<open>C39: a failed write of more than eight bits spoils a stream. If more than 16 bits of it are beyond
  the end of the array, it leaves a capacity above eight; a later write, if the caller goes on after the
  error, then has no defined behaviour exactly if it has more than eight bits: it shifts by a negative
  count.\<close>

theorem wide_write_after_failure_undefined:
  assumes "wf_out s" "n \<le> 32" "8 * stream_size s + 16 < length (written s) + n"
  shows "\<exists>t. writeBits s n v = Some (EXI_ERROR_OUTPUT_STREAM_EOF, t) \<and> (\<forall>m w. writeBits t m w = None \<longleftrightarrow> 8 < m)"
  using writeBits_full_capacity [OF assms, of v] wide_undefined by blast

theorem wide_write_after_failure_undefined_witness:
  "\<exists>t. writeBits (blank_stream 1) 25 0 = Some (EXI_ERROR_OUTPUT_STREAM_EOF, t) \<and> writeBits t 9 0 = None"
proof -
  have "wf_out (blank_stream 1)" "8 * stream_size (blank_stream 1) + 16 < length (written (blank_stream 1)) + 25"
    by (simp_all add: wf_out_def written_def)
  from wide_write_after_failure_undefined [OF this(1) _ this(2), of 0] show ?thesis by auto
qed

end
