(* ===== verification/BitInputStream.thy ===== *)
theory BitInputStream
  imports Interfaces
begin

section \<open>Reading bits (BitInputStream.c)\<close>

text \<open>
  \<open>readBuffer\<close> and \<open>readBits\<close> of \<open>src/codec/BitInputStream.c\<close>. \<open>unread s\<close> is what a stream still
  holds: the unread bits of \<open>buffer\<close>, then the bytes from \<open>*pos\<close> on.

  The out-parameter \<open>b\<close> of \<open>readBits\<close> is an argument and a component of the result: on an error it
  keeps its old content, or holds the bits read so far.
\<close>

subsection \<open>The operations\<close>

definition readBuffer :: "bitstream \<Rightarrow> (errn \<times> bitstream) option" where
  "readBuffer s =
     (if capacity s = 0 then
        if stream_pos s < stream_size s then
          if stream_pos s < length (stream_data s)
          then Some (EXI_OK, s\<lparr>buffer := stream_data s ! stream_pos s,
                               stream_pos := stream_pos s + 1, capacity := BITS_IN_BYTE\<rparr>)
          else None
        else Some (EXI_ERROR_INPUT_STREAM_EOF, s)
      else Some (EXI_OK, s))"

text \<open>The loop \<open>while (errn == 0 && num_bits >= 8)\<close>, which reads whole bytes.\<close>

fun read_whole_bytes :: "errn \<Rightarrow> nat \<Rightarrow> u32 \<Rightarrow> bitstream \<Rightarrow> (errn \<times> nat \<times> u32 \<times> bitstream) option" where
  "read_whole_bytes errn num_bits b s =
     (if errn = EXI_OK \<and> 8 \<le> num_bits then
        do {
          (errn', s') \<leftarrow> readBuffer s;
          read_whole_bytes errn' (num_bits - BITS_IN_BYTE)
            (push_bit BITS_IN_BYTE b OR ucast (buffer s')) (s'\<lparr>capacity := 0\<rparr>)
        }
      else Some (errn, num_bits, b, s))"

declare read_whole_bytes.simps [simp del]

text \<open>
  \<open>readBits\<close>. The guards that give \<open>None\<close> are again the shift counts \<open>8 - num_bits\<close> and
  \<open>8 - capacity\<close>.
\<close>

definition readBits :: "bitstream \<Rightarrow> nat \<Rightarrow> u32 \<Rightarrow> (errn \<times> u32 \<times> bitstream) option" where
  "readBits s num_bits b = do {
     (errn, s) \<leftarrow> readBuffer s;
     if errn = EXI_OK then
       if num_bits \<le> capacity s then
         if BITS_IN_BYTE < num_bits then None
         else
           let s1 = s\<lparr>capacity := capacity s - num_bits\<rparr>
           in Some (EXI_OK, ucast (drop_bit (capacity s1) (buffer s1)) AND drop_bit (BITS_IN_BYTE - num_bits) 0xff, s1)
       else if BITS_IN_BYTE < capacity s then None
       else do {
         (errn, n, b, s) \<leftarrow>
           read_whole_bytes EXI_OK (num_bits - capacity s)
             (ucast (buffer s) AND drop_bit (BITS_IN_BYTE - capacity s) 0xff) (s\<lparr>capacity := 0\<rparr>);
         if errn = EXI_OK \<and> 0 < n then do {
           (errn, s) \<leftarrow> readBuffer s;
           if errn = EXI_OK
           then Some (EXI_OK, push_bit n b OR ucast (drop_bit (BITS_IN_BYTE - n) (buffer s)),
                      s\<lparr>capacity := BITS_IN_BYTE - n\<rparr>)
           else Some (errn, b, s)
         }
         else Some (errn, b, s)
       }
     else Some (errn, b, s)
   }"

subsection \<open>Specification\<close>

definition wf_in :: "bitstream \<Rightarrow> bool" where
  "wf_in s \<longleftrightarrow> capacity s \<le> 8 \<and> stream_size s \<le> length (stream_data s)"

definition unread :: "bitstream \<Rightarrow> bool list" where
  "unread s = bits (capacity s) (buffer s) @ bytes_bits (drop (stream_pos s) (take (stream_size s) (stream_data s)))"

lemma length_unread:
  "wf_in s \<Longrightarrow> length (unread s) = capacity s + 8 * (stream_size s - stream_pos s)"
  by (simp add: unread_def wf_in_def)

lemma readBuffer_ok:
  assumes "wf_in s" "unread s \<noteq> []"
  shows "\<exists>s'. readBuffer s = Some (EXI_OK, s') \<and> wf_in s' \<and> unread s' = unread s \<and>
           (if capacity s = 0 then capacity s' = 8 else s' = s)"
proof (cases "capacity s = 0")
  case True
  then have pos: "stream_pos s < stream_size s" "stream_pos s < length (stream_data s)"
    using assms length_unread [of s] by (auto simp: wf_in_def simp flip: length_greater_0_conv)
  then have "drop (stream_pos s) (take (stream_size s) (stream_data s)) =
      stream_data s ! stream_pos s # drop (Suc (stream_pos s)) (take (stream_size s) (stream_data s))"
    by (subst drop_nth_Cons) auto
  then show ?thesis using True pos assms(1)
    by (simp add: readBuffer_def wf_in_def unread_def)
qed (use assms in \<open>simp add: readBuffer_def\<close>)

lemma readBuffer_eof:
  assumes "wf_in s" "unread s = []"
  shows "readBuffer s = Some (EXI_ERROR_INPUT_STREAM_EOF, s)"
  using assms length_unread [of s] by (simp add: readBuffer_def)

lemma unread_byte:
  "wf_in s \<Longrightarrow> capacity s = 8 \<Longrightarrow> bits 8 (buffer s) = take 8 (unread s) \<and>
   unread (s\<lparr>capacity := 0\<rparr>) = drop 8 (unread s) \<and> wf_in (s\<lparr>capacity := 0\<rparr>)"
  by (simp add: unread_def wf_in_def)

lemma from_bits_snoc_byte:
  "push_bit 8 (from_bits xs) OR ucast (w :: u8) = (from_bits (xs @ bits 8 w) :: u32)"
proof -
  have "take_bit 8 (ucast w) = (ucast w :: u32)" by (rule bit_word_eqI) (auto simp: bit_simps dest: bit_imp_le_length)
  then show ?thesis by (simp add: from_bits_append from_bits_bits)
qed

text \<open>The whole-byte loop, on a stream at a byte boundary.\<close>

lemma read_whole_bytes_ok:
  assumes "wf_in s" "capacity s = 0" "n - n mod 8 \<le> length (unread s)"
  shows "\<exists>s'. read_whole_bytes EXI_OK n (from_bits xs) s =
           Some (EXI_OK, n mod 8, from_bits (xs @ take (n - n mod 8) (unread s)), s') \<and>
         wf_in s' \<and> capacity s' = 0 \<and> unread s' = drop (n - n mod 8) (unread s)"
  using assms
proof (induction n arbitrary: s xs rule: less_induct)
  case (less n)
  show ?case
  proof (cases "8 \<le> n")
    case False
    then show ?thesis using less.prems by (simp add: read_whole_bytes.simps)
  next
    case True
    then have mod: "n mod 8 = (n - 8) mod 8" by (simp add: le_mod_geq)
    then have sub: "n - n mod 8 = 8 + ((n - 8) - (n - 8) mod 8)"
      using True mod_less_eq_dividend [of "n - 8" 8] by linarith
    with less.prems have "unread s \<noteq> []" by auto
    then obtain s1 where s1: "readBuffer s = Some (EXI_OK, s1)" "wf_in s1" "unread s1 = unread s" "capacity s1 = 8"
      using readBuffer_ok [OF less.prems(1)] less.prems(2) by auto
    let ?s2 = "s1\<lparr>capacity := 0\<rparr>"
    have s2: "bits 8 (buffer s1) = take 8 (unread s)" "unread ?s2 = drop 8 (unread s)" "wf_in ?s2"
      using unread_byte [OF s1(2,4)] s1(3) by auto
    have "n - 8 < n" using True by simp
    moreover have "n - 8 - (n - 8) mod 8 \<le> length (unread ?s2)"
      using less.prems(3) unfolding sub s2(2) length_drop by arith
    moreover have "capacity ?s2 = 0" by simp
    ultimately obtain s' where s': "read_whole_bytes EXI_OK (n - 8) (from_bits (xs @ take 8 (unread s))) ?s2 =
        Some (EXI_OK, (n - 8) mod 8,
          from_bits ((xs @ take 8 (unread s)) @ take (n - 8 - (n - 8) mod 8) (unread ?s2)), s')"
      "wf_in s'" "capacity s' = 0" "unread s' = drop (n - 8 - (n - 8) mod 8) (unread ?s2)"
      using less.IH [of "n - 8" ?s2 "xs @ take 8 (unread s)"] s2(3) by blast
    have "read_whole_bytes EXI_OK n (from_bits xs) s =
        read_whole_bytes EXI_OK (n - 8) (from_bits (xs @ take 8 (unread s))) ?s2"
      using True s1 s2(1) by (subst read_whole_bytes.simps) (simp add: from_bits_snoc_byte)
    moreover have "take (8 + (n - 8 - (n - 8) mod 8)) (unread s) =
        take 8 (unread s) @ take (n - 8 - (n - 8) mod 8) (unread ?s2)"
      unfolding s2(2) by (rule take_add)
    moreover have "drop (8 + (n - 8 - (n - 8) mod 8)) (unread s) = drop (n - 8 - (n - 8) mod 8) (unread ?s2)"
      unfolding s2(2) drop_drop by (simp only: add.commute)
    ultimately show ?thesis unfolding sub unfolding mod using s' by simp
  qed
qed

lemma read_whole_bytes_eof:
  assumes "wf_in s" "capacity s = 0" "length (unread s) < n - n mod 8"
  shows "\<exists>m b' s'. read_whole_bytes EXI_OK n b s = Some (EXI_ERROR_INPUT_STREAM_EOF, m, b', s') \<and>
         wf_in s' \<and> unread s' = []"
  using assms
proof (induction n arbitrary: s b rule: less_induct)
  case (less n)
  have n8: "8 \<le> n" using less.prems(3) by (cases "8 \<le> n") auto
  then have mod: "n mod 8 = (n - 8) mod 8" by (simp add: le_mod_geq)
  then have sub: "n - n mod 8 = 8 + ((n - 8) - (n - 8) mod 8)"
    using n8 mod_less_eq_dividend [of "n - 8" 8] by linarith
  show ?case
  proof (cases "unread s = []")
    case True
    have wf: "wf_in (s\<lparr>capacity := 0\<rparr>)" "unread (s\<lparr>capacity := 0\<rparr>) = []"
      using less.prems(1,2) True by (simp_all add: wf_in_def unread_def)
    have "read_whole_bytes EXI_OK n b s = read_whole_bytes EXI_ERROR_INPUT_STREAM_EOF (n - 8)
        (push_bit 8 b OR ucast (buffer s)) (s\<lparr>capacity := 0\<rparr>)"
      using n8 readBuffer_eof [OF less.prems(1) True] by (subst read_whole_bytes.simps) simp
    then show ?thesis using wf by (simp add: read_whole_bytes.simps)
  next
    case False
    then obtain s1 where s1: "readBuffer s = Some (EXI_OK, s1)" "wf_in s1" "unread s1 = unread s" "capacity s1 = 8"
      using readBuffer_ok [OF less.prems(1)] less.prems(2) by auto
    let ?s2 = "s1\<lparr>capacity := 0\<rparr>"
    have s2: "unread ?s2 = drop 8 (unread s)" "wf_in ?s2"
      using unread_byte [OF s1(2,4)] s1(3) by auto
    have "length (unread ?s2) < n - 8 - (n - 8) mod 8"
    proof -
      have "8 \<le> length (unread s1)" using length_unread [OF s1(2)] s1(4) by simp
      then show ?thesis using less.prems(3) unfolding sub s2(1) s1(3) length_drop by arith
    qed
    from less.IH [OF _ s2(2) _ this, of "push_bit 8 b OR ucast (buffer s1)"] n8
    have "\<exists>m b' s'. read_whole_bytes EXI_OK (n - 8) (push_bit 8 b OR ucast (buffer s1)) ?s2 =
        Some (EXI_ERROR_INPUT_STREAM_EOF, m, b', s') \<and> wf_in s' \<and> unread s' = []" by simp
    moreover have "read_whole_bytes EXI_OK n b s =
        read_whole_bytes EXI_OK (n - 8) (push_bit 8 b OR ucast (buffer s1)) ?s2"
      using n8 s1 by (subst read_whole_bytes.simps) simp
    ultimately show ?thesis by simp
  qed
qed

subsection \<open>Correctness of \<open>readBits\<close>\<close>

lemma from_bits_masked:
  "n \<le> 8 \<Longrightarrow> ucast (w :: u8) AND drop_bit (8 - n) (255 :: u32) = from_bits (bits n w)"
  by (simp add: mask_255_u32 from_bits_bits take_bit_eq_mask)

lemma from_bits_high: "r \<le> 8 \<Longrightarrow> ucast (drop_bit (8 - r) (w :: u8)) = (from_bits (take r (bits 8 w)) :: u32)"
  by (rule bit_word_eqI) (auto simp: take_bits from_bits_bits bit_simps dest: bit_imp_le_length)

lemma unread_buffer:
  "wf_in s \<Longrightarrow> n \<le> capacity s \<Longrightarrow>
   take n (unread s) = bits n (drop_bit (capacity s - n) (buffer s)) \<and>
   unread (s\<lparr>capacity := capacity s - n\<rparr>) = drop n (unread s) \<and> wf_in (s\<lparr>capacity := capacity s - n\<rparr>)"
  by (auto simp: unread_def wf_in_def take_bits drop_bits)

lemma readBits_ok:
  assumes wf: "wf_in s" and n: "1 \<le> n" "n \<le> length (unread s)"
  shows "\<exists>s'. readBits s n b = Some (EXI_OK, from_bits (take n (unread s)), s') \<and> wf_in s' \<and>
           unread s' = drop n (unread s)"
proof -
  define U where "U = unread s"
  have "unread s \<noteq> []" using n by auto
  then obtain s1 where s1: "readBuffer s = Some (EXI_OK, s1)" "wf_in s1" "unread s1 = U" "1 \<le> capacity s1"
    using readBuffer_ok [OF wf] by (cases "capacity s = 0") (auto simp: U_def)
  define c where "c = capacity s1"
  have c: "1 \<le> c" "c \<le> 8" using s1 by (auto simp: c_def wf_in_def)
  show ?thesis
  proof (cases "n \<le> c")
    case True
    have "n \<le> 8" "take n U = bits n (drop_bit (c - n) (buffer s1))"
      using True c unread_buffer [OF s1(2), of n] s1(3) by (simp_all add: c_def)
    with True c unread_buffer [OF s1(2), of n] s1 show ?thesis
      by (simp add: readBits_def Let_def from_bits_masked flip: U_def c_def)
  next
    case False
    define s2 where "s2 = s1\<lparr>capacity := 0\<rparr>"
    define r where "r = (n - c) mod 8"
    have r: "r < 8" "r \<le> n - c" by (simp_all add: r_def)
    have s2: "wf_in s2" "capacity s2 = 0" "unread s2 = drop c U" "bits c (buffer s1) = take c U"
      using unread_buffer [OF s1(2), of c] s1(3) by (simp_all add: s2_def c_def)
    have "n - c - r \<le> length (unread s2)" using s2(3) n by (simp add: U_def)
    then obtain s3 where s3: "read_whole_bytes EXI_OK (n - c) (from_bits (take c U)) s2 =
        Some (EXI_OK, r, from_bits (take c U @ take (n - c - r) (unread s2)), s3)"
      "wf_in s3" "capacity s3 = 0" "unread s3 = drop (n - c - r) (unread s2)"
      using read_whole_bytes_ok [OF s2(1,2), of "n - c" "take c U"] unfolding r_def by blast
    have nr: "c + (n - c - r) = n - r" using False r by simp
    have val: "take c U @ take (n - c - r) (unread s2) = take (n - r) U"
      using nr unfolding s2(3) by (simp only: take_add [symmetric])
    have un3: "unread s3 = drop (n - r) U"
      using nr unfolding s3(4) s2(3) drop_drop by (simp only: add.commute)
    have loop: "read_whole_bytes EXI_OK (n - c) (ucast (buffer s1) AND drop_bit (8 - c) 255) s2 =
        Some (EXI_OK, r, from_bits (take (n - r) U), s3)"
      using s3(1) c by (simp only: from_bits_masked s2(4) val)
    show ?thesis
    proof (cases "r = 0")
      case True
      then show ?thesis using False c s1 s3 loop un3
        by (simp add: readBits_def not_less flip: U_def c_def s2_def)
    next
      case pos: False
      have "unread s3 \<noteq> []" using un3 n pos r False by (simp add: U_def)
      then obtain s4 where s4: "readBuffer s3 = Some (EXI_OK, s4)" "wf_in s4" "unread s4 = drop (n - r) U" "capacity s4 = 8"
        using readBuffer_ok [OF s3(2)] s3(3) un3 by auto
      have "take r (bits 8 (buffer s4)) = take r (drop (n - r) U)"
        using unread_byte [OF s4(2,4)] s4(3) r by (simp add: take_take min_def)
      then have "push_bit r (from_bits (take (n - r) U)) OR ucast (drop_bit (8 - r) (buffer s4)) =
          (from_bits (take (n - r) U @ take r (drop (n - r) U)) :: u32)"
        using r n False by (simp add: from_bits_append from_bits_high U_def)
      also have "take (n - r) U @ take r (drop (n - r) U) = take n U"
        using r False by (simp flip: take_add)
      finally have "push_bit r (from_bits (take (n - r) U)) OR ucast (drop_bit (8 - r) (buffer s4)) =
          (from_bits (take n U) :: u32)" .
      moreover have "unread (s4\<lparr>capacity := 8 - r\<rparr>) = drop n U \<and> wf_in (s4\<lparr>capacity := 8 - r\<rparr>)"
        using unread_buffer [OF s4(2), of r] s4(3,4) r False by simp
      ultimately show ?thesis using False c s1 loop s4 pos
        by (simp add: readBits_def not_less flip: U_def c_def s2_def)
    qed
  qed
qed

lemma readBits_eof:
  assumes wf: "wf_in s" and n: "length (unread s) < n"
  shows "\<exists>b' s'. readBits s n b = Some (EXI_ERROR_INPUT_STREAM_EOF, b', s') \<and> wf_in s' \<and> unread s' = []"
proof (cases "unread s = []")
  case True
  then show ?thesis using readBuffer_eof [OF wf] wf by (simp add: readBits_def)
next
  case ne: False
  define U where "U = unread s"
  obtain s1 where s1: "readBuffer s = Some (EXI_OK, s1)" "wf_in s1" "unread s1 = U" "1 \<le> capacity s1"
    using readBuffer_ok [OF wf ne] ne by (cases "capacity s = 0") (auto simp: U_def)
  define c where "c = capacity s1"
  have c: "1 \<le> c" "c \<le> 8" using s1 by (auto simp: c_def wf_in_def)
  have lenU: "length U = c + 8 * (stream_size s1 - stream_pos s1)"
    using length_unread [OF s1(2)] s1(3) by (simp add: c_def)
  with n have nc: "c < n" by (simp add: U_def)
  define s2 where "s2 = s1\<lparr>capacity := 0\<rparr>"
  define r where "r = (n - c) mod 8"
  have s2: "wf_in s2" "capacity s2 = 0" "unread s2 = drop c U" "bits c (buffer s1) = take c U"
    using unread_buffer [OF s1(2), of c] s1(3) by (simp_all add: s2_def c_def)
  have masked: "ucast (buffer s1) AND drop_bit (8 - c) 255 = (from_bits (take c U) :: u32)"
    using c by (simp only: from_bits_masked s2(4))
  show ?thesis
  proof (cases "n - c - r \<le> length (unread s2)")
    case False
    then obtain m b' s' where "read_whole_bytes EXI_OK (n - c) (from_bits (take c U)) s2 =
        Some (EXI_ERROR_INPUT_STREAM_EOF, m, b', s')" "wf_in s'" "unread s' = []"
      using read_whole_bytes_eof [OF s2(1,2), of "n - c" "from_bits (take c U)"] by (auto simp: r_def)
    then show ?thesis using nc c s1 masked
      by (simp add: readBits_def not_less not_le flip: U_def c_def s2_def)
  next
    case True
    obtain s3 where s3: "read_whole_bytes EXI_OK (n - c) (from_bits (take c U)) s2 =
        Some (EXI_OK, r, from_bits (take c U @ take (n - c - r) (unread s2)), s3)"
      "wf_in s3" "capacity s3 = 0" "unread s3 = drop (n - c - r) (unread s2)"
      using read_whole_bytes_ok [OF s2(1,2), of "n - c" "take c U"] True unfolding r_def by blast
    define q k where "q = (n - c) div 8" and "k = stream_size s1 - stream_pos s1"
    have "length (unread s2) = 8 * k" using s2(3) lenU by (simp add: k_def)
    moreover have "n - c = 8 * q + r" unfolding q_def r_def by simp
    moreover have "length (unread s2) < n - c" using n s2(3) nc by (simp add: U_def)
    moreover have "r < 8" by (simp add: r_def)
    ultimately have "q = k" "0 < r" "n - c - r = length (unread s2)" using True by simp_all
    then have "unread s3 = []" "0 < r" using s3(4) by simp_all
    then show ?thesis using nc c s1 masked s3 readBuffer_eof [OF s3(2)]
      by (simp add: readBits_def not_less not_le flip: U_def c_def s2_def)
  qed
qed

text \<open>Reading does not change the array.\<close>

lemma readBuffer_keeps_data: "readBuffer s = Some (e, s') \<Longrightarrow> stream_data s' = stream_data s"
  by (auto simp: readBuffer_def split: if_splits)

lemma read_whole_bytes_keeps_data:
  "read_whole_bytes e n b s = Some (e', m, b', s') \<Longrightarrow> stream_data s' = stream_data s"
proof (induction e n b s rule: read_whole_bytes.induct)
  case (1 e n b s)
  show ?case
  proof (cases "e = EXI_OK \<and> 8 \<le> n")
    case True
    with "1.prems" obtain e1 s1 where "readBuffer s = Some (e1, s1)"
      "read_whole_bytes e1 (n - 8) (push_bit 8 b OR ucast (buffer s1)) (s1\<lparr>capacity := 0\<rparr>) = Some (e', m, b', s')"
      by (subst (asm) read_whole_bytes.simps) (auto simp: bind_eq_Some_conv)
    with "1.IH" [OF True] readBuffer_keeps_data show ?thesis by fastforce
  qed (use "1.prems" in \<open>auto simp: read_whole_bytes.simps [of e]\<close>)
qed

lemma readBits_keeps_data: "readBits s n b = Some (e, b', s') \<Longrightarrow> stream_data s' = stream_data s"
proof -
  assume r: "readBits s n b = Some (e, b', s')"
  then obtain e1 s1 where 1: "readBuffer s = Some (e1, s1)" by (auto simp: readBits_def bind_eq_Some_conv)
  note d1 = readBuffer_keeps_data [OF 1]
  show ?thesis
  proof (cases "e1 = EXI_OK \<and> \<not> n \<le> capacity s1 \<and> capacity s1 \<le> 8")
    case True
    then obtain e2 m b2 s2 where 2: "read_whole_bytes EXI_OK (n - capacity s1)
        (ucast (buffer s1) AND drop_bit (8 - capacity s1) 0xff) (s1\<lparr>capacity := 0\<rparr>) = Some (e2, m, b2, s2)"
      using r 1 by (auto simp: readBits_def bind_eq_Some_conv)
    have d2: "stream_data s2 = stream_data s" using read_whole_bytes_keeps_data [OF 2] d1 by simp
    show ?thesis
    proof (cases "e2 = EXI_OK \<and> 0 < m")
      case tail: True
      with r 1 2 True obtain e3 s3 where 3: "readBuffer s2 = Some (e3, s3)"
        by (auto simp: readBits_def bind_eq_Some_conv)
      from r 1 2 3 True tail have "stream_data s' = stream_data s3" by (auto simp: readBits_def split: if_splits)
      with readBuffer_keeps_data [OF 3] d2 show ?thesis by simp
    next
      case False
      with r 1 2 True d2 show ?thesis by (simp add: readBits_def not_less not_le split: if_splits)
    qed
  qed (use r 1 d1 in \<open>auto simp: readBits_def Let_def split: if_splits\<close>)
qed

text \<open>The input stream is a bit source.\<close>

interpretation rd: bit_source wf_in unread stream_data readBits
proof
  fix s n b
  assume "wf_in s" "1 \<le> n" "n \<le> length (unread s)"
  then show "\<exists>s'. readBits s n b = Some (EXI_OK, from_bits (take n (unread s)), s') \<and> wf_in s' \<and>
      unread s' = drop n (unread s) \<and> stream_data s' = stream_data s"
    using readBits_ok readBits_keeps_data by blast
next
  fix s n b
  assume "wf_in s" "1 \<le> n" "length (unread s) < n"
  then show "\<exists>b' s'. readBits s n b = Some (EXI_ERROR_INPUT_STREAM_EOF, b', s') \<and> wf_in s' \<and>
      length (unread s') \<le> length (unread s)" using readBits_eof [of s n b] by auto
qed

subsection \<open>Properties\<close>

text \<open>C25: \<open>readBits\<close> of at least one bit is defined on every well-formed input stream. If \<open>n\<close> bits
  are left it returns 0 and their value, and takes exactly them; otherwise it returns
  \<open>EXI_ERROR_INPUT_STREAM_EOF\<close> with nothing left. (Of more than 32 bits the value is the last 32.)\<close>

theorem readBits_outcome:
  assumes "wf_in s" "1 \<le> n"
  shows "\<exists>e v t. readBits s n b = Some (e, v, t) \<and> wf_in t \<and>
    (if n \<le> length (unread s) then e = EXI_OK \<and> v = from_bits (take n (unread s)) \<and> unread t = drop n (unread s)
     else e = EXI_ERROR_INPUT_STREAM_EOF \<and> unread t = [])"
  using readBits_ok [OF assms, of b] readBits_eof [OF assms(1), of n b]
  by (cases "n \<le> length (unread s)") auto

theorem readBits_outcome_witness:
  "\<exists>t. readBits \<lparr>stream_size = 2, stream_data = [0xA5, 0x0F], stream_pos = 0, buffer = 0, capacity = 0\<rparr> 12 0 =
     Some (EXI_OK, 0xA50, t) \<and> length (unread t) = 4"
proof -
  let ?s = "\<lparr>stream_size = 2, stream_data = [0xA5, 0x0F], stream_pos = 0, buffer = 0, capacity = 0\<rparr>"
  have s: "wf_in ?s" by (simp add: wf_in_def)
  have u: "unread ?s = [True, False, True, False, False, True, False, True, False, False, False, False, True, True, True, True]"
    by (simp add: unread_def bits_def upt_rec)
  have "from_bits (take 12 (unread ?s)) = (0xA50 :: u32)" unfolding u by (simp add: from_bits_def)
  with readBits_outcome [OF s, of 12 0] u show ?thesis by auto
qed

end
