(* ===== verification/EXIHeader.thy ===== *)
theory EXIHeader
  imports BitOutputStream BitInputStream
begin

section \<open>The EXI header (EXIHeaderEncoder.c, EXIHeaderDecoder.c)\<close>

text \<open>
  Both functions set the bit buffer of the stream to its initial state and then transfer the one
  byte of a header without cookie and options, \<open>0x80\<close>.
\<close>

definition writeEXIHeader :: "bitstream \<Rightarrow> (errn \<times> bitstream) option" where
  "writeEXIHeader s = writeBits (s\<lparr>buffer := 0, capacity := 8\<rparr>) 8 128"

text \<open>\<open>'$'\<close> is 36 and \<open>0x20\<close> is 32.\<close>

definition readEXIHeader :: "bitstream \<Rightarrow> (errn \<times> bitstream) option" where
  "readEXIHeader s = do {
     (errn, header, s1) \<leftarrow> readBits (s\<lparr>buffer := 0, capacity := 0\<rparr>) 8 0;
     if errn = EXI_OK then
       if header = 36 then Some (EXI_UNSUPPORTED_HEADER_COOKIE, s1)
       else if header AND 0x20 \<noteq> 0 then Some (EXI_UNSUPPORTED_HEADER_OPTIONS, s1)
       else Some (EXI_OK, s1)
     else Some (errn, s1)
   }"

subsection \<open>Specification\<close>

text \<open>A stream a message can start on: its position within the declared size of its array.\<close>

definition startable :: "bitstream \<Rightarrow> bool" where
  "startable s \<longleftrightarrow> stream_pos s \<le> stream_size s \<and> stream_size s \<le> length (stream_data s)"

definition reset_out :: "bitstream \<Rightarrow> bitstream" where
  "reset_out s = s\<lparr>buffer := 0, capacity := 8\<rparr>"

definition reset_in :: "bitstream \<Rightarrow> bitstream" where
  "reset_in s = s\<lparr>buffer := 0, capacity := 0\<rparr>"

lemma reset_out_simps [simp]:
  "startable s \<Longrightarrow> wf_out (reset_out s)"
  "written (reset_out s) = bytes_bits (take (stream_pos s) (stream_data s))"
  "stream_size (reset_out s) = stream_size s"
  by (simp_all add: reset_out_def wf_out_def startable_def written_def)

lemma reset_in_simps [simp]:
  "startable s \<Longrightarrow> wf_in (reset_in s)"
  "unread (reset_in s) = bytes_bits (drop (stream_pos s) (take (stream_size s) (stream_data s)))"
  by (simp_all add: reset_in_def wf_in_def startable_def unread_def)

definition header_bits :: "bool list" where
  "header_bits = bits 8 (128 :: u8)"

lemma length_header_bits [simp]: "length header_bits = 8"
  by (simp add: header_bits_def)

lemma header_word: "bits 8 (128 :: u32) = header_bits"
  using bits_ucast [of 8 "128 :: u32", where 'b = 8] by (simp add: header_bits_def)

lemma writeEXIHeader_reset: "writeEXIHeader s = writeBits (reset_out s) 8 128"
  by (simp add: writeEXIHeader_def reset_out_def)

lemma writes_header: "wr.writes (\<lambda>s. writeBits s 8 128) header_bits"
  using wr.writes_put [of 8 128] by (simp add: header_word)

lemma readEXIHeader_ok:
  assumes "startable s" "unread (reset_in s) = header_bits @ r"
  shows "\<exists>s'. readEXIHeader s = Some (EXI_OK, s') \<and> wf_in s' \<and> unread s' = r \<and> stream_data s' = stream_data s"
proof -
  have m: "(128 :: u32) AND 32 = 0" by simp
  have "take_bit 8 (128 :: u32) = 128" by simp
  then have "rd.takes (\<lambda>s. readBits s 8 0) header_bits 128"
    using rd.takes_get_bits [of 8 128 0] by (simp add: header_word)
  from rd.takesD [OF this reset_in_simps(1) [OF assms(1)] assms(2)] show ?thesis
    by (auto simp: readEXIHeader_def reset_in_def m)
qed

text \<open>On any other first byte the reader refuses the message, and it is defined on every stream.\<close>

lemma readEXIHeader_total:
  assumes "startable s"
  shows "\<exists>errn s'. readEXIHeader s = Some (errn, s') \<and> wf_in s'"
  using rd.totalD [OF rd.total_get [of 8 0] reset_in_simps(1) [OF assms]]
  by (auto simp: readEXIHeader_def reset_in_def)

lemma readEXIHeader_empty:
  assumes "startable s" "stream_pos s = stream_size s"
  shows "\<exists>s'. readEXIHeader s = Some (EXI_ERROR_INPUT_STREAM_EOF, s')"
proof -
  have "unread (reset_in s) = []" using assms by (simp add: startable_def)
  with readBits_eof [OF reset_in_simps(1) [OF assms(1)], of 8 0] show ?thesis
    by (auto simp: readEXIHeader_def reset_in_def)
qed

subsection \<open>Properties\<close>

text \<open>C37: the header reader is defined on every stream and decides by the first byte alone: the end
  of the stream, the dollar sign of a cookie and the presence bit of options are refused with their
  error codes, every other byte is accepted. (So it checks neither the distinguishing bits nor the
  version of the header.)\<close>

theorem readEXIHeader_outcome:
  assumes "startable s"
  shows "\<exists>e t. readEXIHeader s = Some (e, t) \<and> wf_in t \<and>
    e = (if stream_pos s = stream_size s then EXI_ERROR_INPUT_STREAM_EOF
         else if stream_data s ! stream_pos s = 36 then EXI_UNSUPPORTED_HEADER_COOKIE
         else if bit (stream_data s ! stream_pos s) 5 then EXI_UNSUPPORTED_HEADER_OPTIONS else EXI_OK)"
proof (cases "stream_pos s = stream_size s")
  case True
  then show ?thesis using readEXIHeader_empty [OF assms True] readEXIHeader_total [OF assms] by auto
next
  case False
  define b where "b = stream_data s ! stream_pos s"
  have p: "stream_pos s < stream_size s" "stream_size s \<le> length (stream_data s)"
    using assms False by (auto simp: startable_def)
  then have "drop (stream_pos s) (take (stream_size s) (stream_data s)) =
      b # drop (Suc (stream_pos s)) (take (stream_size s) (stream_data s))"
    by (simp add: b_def flip: Cons_nth_drop_Suc)
  then have u: "unread (reset_in s) = bits 8 b @ bytes_bits (drop (Suc (stream_pos s)) (take (stream_size s) (stream_data s)))"
    using assms by simp
  then have len: "8 \<le> length (unread (reset_in s))" by simp
  have val: "from_bits (take 8 (unread (reset_in s))) = (ucast b :: u32)"
    unfolding u by (simp add: from_bits_bits) (rule bit_word_eqI, auto simp: bit_simps dest: bit_imp_le_length)
  have "1 \<le> (8 :: nat)" by simp
  from readBits_ok [OF reset_in_simps(1) [OF assms] this len, of 0]
  obtain t where t: "readBits (reset_in s) 8 0 = Some (EXI_OK, ucast b, t)" "wf_in t" unfolding val by blast
  have eq: "(ucast b = (36 :: u32)) = (b = 36)"
  proof
    assume "ucast b = (36 :: u32)"
    then have "ucast (ucast b :: u32) = (ucast (36 :: u32) :: u8)" by (rule arg_cong)
    then show "b = 36" by (simp add: ucast_up_ucast_id is_up)
  qed simp
  have b5: "((ucast b :: u32) AND 0x20 \<noteq> 0) = bit b 5"
    using bit_iff_and_push_bit_not_eq_0 [of "ucast b :: u32" 5] by (simp add: bit_unsigned_iff)
  show ?thesis using t False eq b5 by (simp add: readEXIHeader_def flip: reset_in_def b_def)
qed

theorem readEXIHeader_outcome_witness:
  "\<exists>t. readEXIHeader \<lparr>stream_size = 1, stream_data = [0xA0], stream_pos = 0, buffer = 0, capacity = 0\<rparr> =
     Some (EXI_UNSUPPORTED_HEADER_OPTIONS, t)"
proof -
  let ?s = "\<lparr>stream_size = 1, stream_data = [0xA0], stream_pos = 0, buffer = 0, capacity = 0\<rparr>"
  have "startable ?s" by (simp add: startable_def)
  moreover have "bit (0xA0 :: u8) 5" by (simp add: bit_numeral_rec)
  ultimately show ?thesis using readEXIHeader_outcome [of ?s] by auto
qed

end
