(* ===== verification/DecoderChannel.thy ===== *)
theory DecoderChannel
  imports BitInputStream
begin

section \<open>Decoding values (DecoderChannel.c)\<close>

text \<open>
  The functions of \<open>src/codec/DecoderChannel.c\<close>, callees first, in the bit-packed configuration with
  ASCII strings, static allocation and a 64-bit \<open>size_t\<close>.

  An out-parameter is passed in with its old content and returned with the new one. The first
  argument \<open>j\<close> of a function is the content of its uninitialised local variables (\<open>uint32_t ub;\<close>,
  \<open>uint8_t b;\<close>), which the code reads after a failed read: every theorem holds for all \<open>j\<close>.
  A left shift of a signed integer moves the bits of its two's complement, as GCC defines it; a
  shift count that is not below the width of the type is undefined. The loop counters are
  \<open>unsigned int\<close> in the code and \<open>nat\<close> here, which makes no difference for arrays below 4 GiB.
\<close>

subsection \<open>Bytes, booleans, n-bit integers\<close>

definition decode :: "u32 \<Rightarrow> bitstream \<Rightarrow> u8 \<Rightarrow> (errn \<times> u8 \<times> bitstream) option" where
  "decode j s b = do {
     (errn, bb, s1) \<leftarrow> readBits s 8 j;
     if errn = EXI_OK then
       if 256 < bb then Some (EXI_ERROR_UNEXPECTED_BYTE_VALUE, b, s1)
       else Some (EXI_OK, ucast bb, s1)
     else Some (errn, b, s1)
   }"

definition decodeBoolean :: "u32 \<Rightarrow> bitstream \<Rightarrow> (errn \<times> int \<times> bitstream) option" where
  "decodeBoolean j s = do {
     (errn, ub, s1) \<leftarrow> readBits s 1 j;
     Some (errn, if ub = 0 then 0 else 1, s1)
   }"

definition decodeNBitUnsignedInteger :: "bitstream \<Rightarrow> nat \<Rightarrow> u32 \<Rightarrow> (errn \<times> u32 \<times> bitstream) option" where
  "decodeNBitUnsignedInteger s nbits uint32 =
     (if nbits = 0 then Some (EXI_OK, 0, s) else readBits s nbits uint32)"

subsection \<open>Unsigned integers of fixed width\<close>

text \<open>
  The \<open>do\<close> loop the three functions share: \<open>accu mShift b acc\<close> is their statement that adds the
  seven low bits of the octet \<open>b\<close>, \<open>width\<close> the width of the type it shifts in. In 16 and 32 bits that is
  the signed \<open>int\<close> \<open>b & 127\<close> is promoted to: a shift whose result is no \<open>int\<close> is not defined. (The sum
  with \<open>uint16\<close> is one: what is left of \<open>2 ^ 31\<close> above a multiple of \<open>2 ^ 28\<close> is more than \<open>2 ^ 16\<close>.)
\<close>

function decode_octets :: "u32 \<Rightarrow> nat \<Rightarrow> (nat \<Rightarrow> u8 \<Rightarrow> 'a \<Rightarrow> 'a option) \<Rightarrow> bitstream \<Rightarrow> u8 \<Rightarrow> nat \<Rightarrow> 'a \<Rightarrow>
    (errn \<times> 'a \<times> bitstream) option" where
  "decode_octets j width accu s b mShift acc = do {
     (errn, b, s1) \<leftarrow> decode j s b;
     if width \<le> mShift then None
     else do {
       acc \<leftarrow> accu mShift b acc;
       if errn = EXI_OK \<and> drop_bit 7 b = 1
       then decode_octets j width accu s1 b (mShift + 7) acc
       else Some (errn, acc, s1)
     }
   }"
  by pat_completeness auto
termination
  by (relation "measure (\<lambda>(j, width, accu, s, b, mShift, acc). width - mShift)") auto

declare decode_octets.simps [simp del]

definition accu16 :: "nat \<Rightarrow> u8 \<Rightarrow> u16 \<Rightarrow> u16 option" where
  "accu16 mShift b uint16 =
     (if 2 ^ 31 \<le> unat (b AND 127) * 2 ^ mShift then None
      else Some (ucast ((ucast uint16 :: u32) + push_bit mShift (ucast (b AND 127)))))"

definition accu32 :: "nat \<Rightarrow> u8 \<Rightarrow> u32 \<Rightarrow> u32 option" where
  "accu32 mShift b uint32 =
     (if 2 ^ 31 \<le> unat (b AND 127) * 2 ^ mShift then None
      else Some (uint32 + push_bit mShift (ucast (b AND 127))))"

definition accu64 :: "nat \<Rightarrow> u8 \<Rightarrow> u64 \<Rightarrow> u64 option" where
  "accu64 mShift b uint64 = Some (uint64 + push_bit mShift (ucast (b AND 127)))"

definition decodeUnsignedInteger16 :: "u32 \<Rightarrow> bitstream \<Rightarrow> (errn \<times> u16 \<times> bitstream) option" where
  "decodeUnsignedInteger16 j s = decode_octets j 32 accu16 s (ucast j) 0 0"

definition decodeUnsignedInteger32 :: "u32 \<Rightarrow> bitstream \<Rightarrow> (errn \<times> u32 \<times> bitstream) option" where
  "decodeUnsignedInteger32 j s = decode_octets j 32 accu32 s (ucast j) 0 0"

definition decodeUnsignedInteger64 :: "u32 \<Rightarrow> bitstream \<Rightarrow> (errn \<times> u64 \<times> bitstream) option" where
  "decodeUnsignedInteger64 j s = decode_octets j 64 accu64 s (ucast j) 0 0"

definition decodeUnsignedIntegerSizeT :: "u32 \<Rightarrow> bitstream \<Rightarrow> u64 \<Rightarrow> (errn \<times> u64 \<times> bitstream) option" where
  "decodeUnsignedIntegerSizeT j s sizeT = do {
     (errn, uint64, s1) \<leftarrow> decodeUnsignedInteger64 j s;
     Some (errn, if errn = EXI_OK then uint64 else sizeT, s1)
   }"

subsection \<open>Integers of any width\<close>

text \<open>
  The first loop of \<open>_decodeUnsignedInteger\<close> fills \<open>maskedOctets\<close>, here the list of the octets
  stored so far, and keeps the last octet in \<open>b\<close>.
\<close>

function read_masked :: "u32 \<Rightarrow> bitstream \<Rightarrow> u8 \<Rightarrow> u8 list \<Rightarrow> (errn \<times> (u8 \<times> u8 list) \<times> bitstream) option" where
  "read_masked j s b maskedOctets = do {
     (errn, b, s1) \<leftarrow> decode j s b;
     if errn = EXI_OK then
       if length maskedOctets < 10 then
         if 128 \<le> b then read_masked j s1 b (maskedOctets @ [b AND 127])
         else Some (EXI_OK, (b, maskedOctets @ [b AND 127]), s1)
       else Some (EXI_UNSUPPORTED_INTEGER_VALUE, (b, maskedOctets), s1)
     else Some (errn, (b, maskedOctets), s1)
   }"
  by pat_completeness auto
termination
  by (relation "measure (\<lambda>(j, s, b, maskedOctets). 10 - length maskedOctets)") auto

declare read_masked.simps [simp del]

text \<open>The loop \<open>for (k = i - 1; k >= 0; k--)\<close>, in the width of the member it fills.\<close>

definition combine :: "u8 list \<Rightarrow> 'a::len word" where
  "combine maskedOctets = foldl (\<lambda>v m. push_bit 7 v OR ucast m) 0 (rev maskedOctets)"

definition store_masked :: "bool \<Rightarrow> u8 \<Rightarrow> u8 list \<Rightarrow> exi_integer \<Rightarrow> (errn \<times> exi_integer) option" where
  "store_masked neg b maskedOctets iv =
     (let i = length maskedOctets in
      if i = 1 then
        if neg then Some (EXI_OK, (set_val8 (- (b + 1)) iv)\<lparr>int_type := EXI_INTEGER_8\<rparr>)
        else Some (EXI_OK, (set_val8 b iv)\<lparr>int_type := EXI_UNSIGNED_INTEGER_8\<rparr>)
      else if i = 2 then
        let iv = set_val16 (combine maskedOctets) iv in
        if neg then Some (EXI_OK, (set_val16 (- (get_val16 iv + 1)) iv)\<lparr>int_type := EXI_INTEGER_16\<rparr>)
        else Some (EXI_OK, iv\<lparr>int_type := EXI_UNSIGNED_INTEGER_16\<rparr>)
      else if i = 3 \<or> i = 4 then
        let iv = set_val32 (combine maskedOctets) iv in
        if neg then
          if sint (get_val32 iv + 1) = - (2 ^ 31) then None
          else
            let iv = set_val32 (- (get_val32 iv + 1)) iv in
            if sint (get_val32 iv) \<le> 32767 \<and> - 32768 \<le> sint (get_val32 iv)
            then Some (EXI_OK, iv\<lparr>int_type := EXI_INTEGER_16\<rparr>)
            else Some (EXI_OK, iv\<lparr>int_type := EXI_INTEGER_32\<rparr>)
        else if get_val32 iv \<le> 65535 then Some (EXI_OK, iv\<lparr>int_type := EXI_UNSIGNED_INTEGER_16\<rparr>)
        else Some (EXI_OK, iv\<lparr>int_type := EXI_UNSIGNED_INTEGER_32\<rparr>)
      else if 5 \<le> i \<and> i \<le> 10 then
        let iv = set_val64 (combine maskedOctets) iv in
        if neg then
          if 9 < i then Some (EXI_UNSUPPORTED_INTEGER_VALUE, iv)
          else if sint (get_val64 iv + 1) = - (2 ^ 63) then None
          else
            let iv = set_val64 (- (get_val64 iv + 1)) iv in
            if sint (get_val64 iv) \<le> 2147483647 \<and> - 2147483648 \<le> sint (get_val64 iv)
            then Some (EXI_OK, iv\<lparr>int_type := EXI_INTEGER_32\<rparr>)
            else Some (EXI_OK, iv\<lparr>int_type := EXI_INTEGER_64\<rparr>)
        else if get_val64 iv \<le> 4294967295 then Some (EXI_OK, iv\<lparr>int_type := EXI_UNSIGNED_INTEGER_32\<rparr>)
        else Some (EXI_OK, iv\<lparr>int_type := EXI_UNSIGNED_INTEGER_64\<rparr>)
      else Some (EXI_UNSUPPORTED_INTEGER_VALUE, iv))"

definition decodeUnsignedInteger' ::
  "u32 \<Rightarrow> bitstream \<Rightarrow> exi_integer \<Rightarrow> bool \<Rightarrow> (errn \<times> exi_integer \<times> bitstream) option" where
  "decodeUnsignedInteger' j s iv neg = do {
     (errn, (b, maskedOctets), s1) \<leftarrow> read_masked j s (ucast j) [];
     if errn = EXI_OK then do {
       (errn, iv) \<leftarrow> store_masked neg b maskedOctets iv;
       Some (errn, iv, s1)
     }
     else Some (errn, iv, s1)
   }"

definition decodeUnsignedInteger :: "u32 \<Rightarrow> bitstream \<Rightarrow> exi_integer \<Rightarrow> (errn \<times> exi_integer \<times> bitstream) option" where
  "decodeUnsignedInteger j s iv = decodeUnsignedInteger' j s iv False"

definition decodeInteger :: "u32 \<Rightarrow> bitstream \<Rightarrow> exi_integer \<Rightarrow> (errn \<times> exi_integer \<times> bitstream) option" where
  "decodeInteger j s iv = do {
     (errn, b, s1) \<leftarrow> decodeBoolean j s;
     if errn = EXI_OK then decodeUnsignedInteger' j s1 iv (b \<noteq> 0) else Some (errn, iv, s1)
   }"

subsection \<open>Signed integers of fixed width\<close>

text \<open>
  \<open>-(int32_t)(uint32 + 1)\<close> overflows, and is undefined, when \<open>uint32 + 1\<close> is the least \<open>int32_t\<close>; in
  16 bits the promotion to \<open>int\<close> makes the negation safe.
\<close>

definition decodeInteger16 :: "u32 \<Rightarrow> bitstream \<Rightarrow> u16 \<Rightarrow> (errn \<times> u16 \<times> bitstream) option" where
  "decodeInteger16 j s int16 = do {
     (errn, b, s1) \<leftarrow> decodeBoolean j s;
     if errn = EXI_OK then do {
       (errn, uint16, s2) \<leftarrow> decodeUnsignedInteger16 j s1;
       if b \<noteq> 0 then Some (errn, - (uint16 + 1), s2) else Some (errn, uint16, s2)
     }
     else Some (errn, int16, s1)
   }"

definition decodeInteger32 :: "u32 \<Rightarrow> bitstream \<Rightarrow> u32 \<Rightarrow> (errn \<times> u32 \<times> bitstream) option" where
  "decodeInteger32 j s int32 = do {
     (errn, b, s1) \<leftarrow> decodeBoolean j s;
     if errn = EXI_OK then do {
       (errn, uint32, s2) \<leftarrow> decodeUnsignedInteger32 j s1;
       if b \<noteq> 0 then
         if sint (uint32 + 1) = - (2 ^ 31) then None else Some (errn, - (uint32 + 1), s2)
       else Some (errn, uint32, s2)
     }
     else Some (errn, int32, s1)
   }"

definition decodeInteger64 :: "u32 \<Rightarrow> bitstream \<Rightarrow> u64 \<Rightarrow> (errn \<times> u64 \<times> bitstream) option" where
  "decodeInteger64 j s int64 = do {
     (errn, b, s1) \<leftarrow> decodeBoolean j s;
     if errn = EXI_OK then do {
       (errn, uint64, s2) \<leftarrow> decodeUnsignedInteger64 j s1;
       if b \<noteq> 0 then
         if sint (uint64 + 1) = - (2 ^ 63) then None else Some (errn, - (uint64 + 1), s2)
       else Some (errn, uint64, s2)
     }
     else Some (errn, int64, s1)
   }"

subsection \<open>Floats and decimals\<close>

definition decodeFloat :: "u32 \<Rightarrow> bitstream \<Rightarrow> exi_float_me \<Rightarrow> (errn \<times> exi_float_me \<times> bitstream) option" where
  "decodeFloat j s f = do {
     (errn, m, s1) \<leftarrow> decodeInteger64 j s (mantissa f);
     if errn = EXI_OK then do {
       (errn, e, s2) \<leftarrow> decodeInteger16 j s1 (exponent f);
       Some (errn, f\<lparr>mantissa := m, exponent := e\<rparr>, s2)
     }
     else Some (errn, f\<lparr>mantissa := m\<rparr>, s1)
   }"

definition decodeDecimal :: "u32 \<Rightarrow> bitstream \<Rightarrow> exi_decimal \<Rightarrow> (errn \<times> exi_decimal \<times> bitstream) option" where
  "decodeDecimal j s d = do {
     (errn, neg, s1) \<leftarrow> decodeBoolean j s;
     if errn = EXI_OK then do {
       (errn, int, s2) \<leftarrow> decodeUnsignedInteger j s1 (integral d);
       if errn = EXI_OK then do {
         (errn, frac, s3) \<leftarrow> decodeUnsignedInteger j s2 (reverseFraction d);
         Some (errn, d\<lparr>negative := neg, integral := int, reverseFraction := frac\<rparr>, s3)
       }
       else Some (errn, d\<lparr>negative := neg, integral := int\<rparr>, s2)
     }
     else Some (errn, d\<lparr>negative := neg\<rparr>, s1)
   }"

subsection \<open>Strings and binary data\<close>

function decode_chars ::
  "u32 \<Rightarrow> nat \<Rightarrow> errn \<Rightarrow> bitstream \<Rightarrow> u8 \<Rightarrow> u8 list \<Rightarrow> nat \<Rightarrow> (errn \<times> (nat \<times> u8 list) \<times> bitstream) option" where
  "decode_chars j i errn s b chars len =
     (if i < len \<and> errn = EXI_OK then do {
        (errn, b, s1) \<leftarrow> decode j s b;
        if b < 128 then
          if i < length chars then decode_chars j (i + 1) errn s1 b (chars[i := b]) len else None
        else decode_chars j (i + 1) EXI_ERROR_STRINGVALUES_CHARACTER s1 b chars len
      }
      else Some (errn, (i, chars), s))"
  by pat_completeness auto
termination
  by (relation "measure (\<lambda>(j, i, errn, s, b, chars, len). len - i)") auto

declare decode_chars.simps [simp del]

definition decodeCharacters :: "u32 \<Rightarrow> bitstream \<Rightarrow> u64 \<Rightarrow> u8 list \<Rightarrow> u64 \<Rightarrow> (errn \<times> u8 list \<times> bitstream) option" where
  "decodeCharacters j s len chars charsSize =
     (if charsSize < len + 1 then Some (EXI_ERROR_OUT_OF_STRING_BUFFER, chars, s)
      else do {
        (errn, (i, chars), s1) \<leftarrow> decode_chars j 0 EXI_OK s (ucast j) chars (unat len);
        if i < length chars then Some (errn, chars[i := 0], s1) else None
      })"

definition decodeStringOnly :: "u32 \<Rightarrow> bitstream \<Rightarrow> u64 \<Rightarrow> exi_string \<Rightarrow> (errn \<times> exi_string \<times> bitstream) option" where
  "decodeStringOnly j s len str =
     (if str_size str < len + 1 then Some (EXI_ERROR_OUT_OF_STRING_BUFFER, str, s)
      else do {
        (errn, chars, s1) \<leftarrow> decodeCharacters j s len (characters str) (str_size str);
        Some (errn, str\<lparr>characters := chars, str_len := len\<rparr>, s1)
      })"

definition decodeString :: "u32 \<Rightarrow> bitstream \<Rightarrow> exi_string \<Rightarrow> (errn \<times> exi_string \<times> bitstream) option" where
  "decodeString j s str = do {
     (errn, len, s1) \<leftarrow> decodeUnsignedIntegerSizeT j s (str_len str);
     if errn = EXI_OK then decodeStringOnly j s1 len (str\<lparr>str_len := len\<rparr>)
     else Some (errn, str\<lparr>str_len := len\<rparr>, s1)
   }"

function decode_rcs ::
  "u32 \<Rightarrow> nat \<Rightarrow> errn \<Rightarrow> bitstream \<Rightarrow> u32 \<Rightarrow> u8 \<Rightarrow> u8 list \<Rightarrow> nat \<Rightarrow> nat \<Rightarrow> nat \<Rightarrow> u8 list \<Rightarrow>
    (errn \<times> u8 list \<times> bitstream) option" where
  "decode_rcs j i errn s uint32 b chars len rcsCodeLength rcsSize rcsSet =
     (if i < len \<and> errn = EXI_OK then do {
        (errn, uint32, s1) \<leftarrow> decodeNBitUnsignedInteger s rcsCodeLength uint32;
        if errn = EXI_OK then
          if unat uint32 = rcsSize then do {
            (errn, b, s2) \<leftarrow> decode j s1 b;
            if b < 128 then
              if i < length chars
              then decode_rcs j (i + 1) errn s2 uint32 b (chars[i := b]) len rcsCodeLength rcsSize rcsSet
              else None
            else decode_rcs j (i + 1) EXI_ERROR_STRINGVALUES_CHARACTER s2 uint32 b chars len rcsCodeLength rcsSize rcsSet
          }
          else if unat uint32 < length rcsSet \<and> i < length chars
          then decode_rcs j (i + 1) EXI_OK s1 uint32 b (chars[i := rcsSet ! unat uint32]) len rcsCodeLength rcsSize rcsSet
          else None
        else decode_rcs j (i + 1) errn s1 uint32 b chars len rcsCodeLength rcsSize rcsSet
      }
      else Some (errn, chars, s))"
  by pat_completeness auto
termination
  by (relation "measure (\<lambda>(j, i, errn, s, u, b, chars, len, rest). len - i)") auto

declare decode_rcs.simps [simp del]

definition decodeRCSCharacters ::
  "u32 \<Rightarrow> bitstream \<Rightarrow> u64 \<Rightarrow> u8 list \<Rightarrow> u64 \<Rightarrow> nat \<Rightarrow> nat \<Rightarrow> u8 list \<Rightarrow> (errn \<times> u8 list \<times> bitstream) option" where
  "decodeRCSCharacters j s len chars charsSize rcsCodeLength rcsSize rcsSet =
     (if charsSize < len + 1 then Some (EXI_ERROR_OUT_OF_STRING_BUFFER, chars, s)
      else decode_rcs j 0 EXI_OK s j (ucast j) chars (unat len) rcsCodeLength rcsSize rcsSet)"

function decode_bytes ::
  "u32 \<Rightarrow> nat \<Rightarrow> errn \<Rightarrow> bitstream \<Rightarrow> u8 \<Rightarrow> u8 list \<Rightarrow> nat \<Rightarrow> (errn \<times> u8 list \<times> bitstream) option" where
  "decode_bytes j i errn s b data len =
     (if i < len \<and> errn = EXI_OK then do {
        (errn, b, s1) \<leftarrow> decode j s b;
        if i < length data then decode_bytes j (i + 1) errn s1 b (data[i := b]) len else None
      }
      else Some (errn, data, s))"
  by pat_completeness auto
termination
  by (relation "measure (\<lambda>(j, i, errn, s, b, data, len). len - i)") auto

declare decode_bytes.simps [simp del]

definition decodeBytes :: "u32 \<Rightarrow> bitstream \<Rightarrow> u64 \<Rightarrow> u8 list \<Rightarrow> (errn \<times> u8 list \<times> bitstream) option" where
  "decodeBytes j s len data = decode_bytes j 0 EXI_OK s (ucast j) data (unat len)"

text \<open>
  \<open>decodeBinary\<close> sets \<open>errn = EXI_ERROR_OUT_OF_BYTE_BUFFER\<close> when the length exceeds the size, and
  then overwrites it with the result of \<open>decodeBytes\<close>, which it calls in either case.
\<close>

definition decodeBinary :: "u32 \<Rightarrow> bitstream \<Rightarrow> exi_bytes \<Rightarrow> (errn \<times> exi_bytes \<times> bitstream) option" where
  "decodeBinary j s bytes = do {
     (errn, len, s1) \<leftarrow> decodeUnsignedIntegerSizeT j s (bytes_len bytes);
     if errn = EXI_OK then
       let _ = (if bytes_size bytes < len then EXI_ERROR_OUT_OF_BYTE_BUFFER else errn)
       in do {
         (errn, data, s2) \<leftarrow> decodeBytes j s1 len (bytes_data bytes);
         Some (errn, bytes\<lparr>bytes_data := data, bytes_len := len\<rparr>, s2)
       }
     else Some (errn, bytes\<lparr>bytes_len := len\<rparr>, s1)
   }"

subsection \<open>Date and time\<close>

text \<open>\<open>datetime->year += DATETIME_YEAR_OFFSET\<close> is a signed addition, which may overflow.\<close>

definition add_year_offset :: "u32 \<Rightarrow> u32 option" where
  "add_year_offset y = (if sint y + DATETIME_YEAR_OFFSET < 2 ^ 31 then Some (y + 2000) else None)"

definition decode_year :: "u32 \<Rightarrow> bitstream \<Rightarrow> exi_datetime \<Rightarrow> (errn \<times> exi_datetime \<times> bitstream) option" where
  "decode_year j s d = do {
     (errn, y, s1) \<leftarrow> decodeInteger32 j s (year d);
     if errn = EXI_OK then do { y \<leftarrow> add_year_offset y; Some (EXI_OK, d\<lparr>year := y\<rparr>, s1) }
     else Some (errn, d\<lparr>year := y\<rparr>, s1)
   }"

definition decode_monthDay :: "bitstream \<Rightarrow> exi_datetime \<Rightarrow> (errn \<times> exi_datetime \<times> bitstream) option" where
  "decode_monthDay s d = do {
     (errn, m, s1) \<leftarrow> decodeNBitUnsignedInteger s DATETIME_NUMBER_BITS_MONTHDAY (monthDay d);
     Some (errn, d\<lparr>monthDay := m\<rparr>, s1)
   }"

definition decode_time_part :: "u32 \<Rightarrow> bitstream \<Rightarrow> exi_datetime \<Rightarrow> (errn \<times> exi_datetime \<times> bitstream) option" where
  "decode_time_part j s d = do {
     (errn, t, s1) \<leftarrow> decodeNBitUnsignedInteger s DATETIME_NUMBER_BITS_TIME (dt_time d);
     if errn = EXI_OK then do {
       (errn, p, s2) \<leftarrow> decodeBoolean j s1;
       if errn = EXI_OK \<and> p \<noteq> 0 then do {
         (errn, f, s3) \<leftarrow> decodeUnsignedInteger32 j s2;
         Some (errn, d\<lparr>dt_time := t, presenceFractionalSecs := p, fractionalSecs := f\<rparr>, s3)
       }
       else Some (errn, d\<lparr>dt_time := t, presenceFractionalSecs := p\<rparr>, s2)
     }
     else Some (errn, d\<lparr>dt_time := t\<rparr>, s1)
   }"

definition decode_timezone_part :: "u32 \<Rightarrow> bitstream \<Rightarrow> exi_datetime \<Rightarrow> (errn \<times> exi_datetime \<times> bitstream) option" where
  "decode_timezone_part j s d = do {
     (errn, p, s1) \<leftarrow> decodeBoolean j s;
     if errn = EXI_OK \<and> p \<noteq> 0 then do {
       (errn, tz, s2) \<leftarrow> decodeNBitUnsignedInteger s1 DATETIME_NUMBER_BITS_TIMEZONE (timezone d);
       Some (errn, d\<lparr>presenceTimezone := p, timezone := tz - DATETIME_TIMEZONE_OFFSET_IN_MINUTES\<rparr>, s2)
     }
     else Some (errn, d\<lparr>presenceTimezone := p\<rparr>, s1)
   }"

definition decode_datetime_fields :: "u32 \<Rightarrow> bitstream \<Rightarrow> exi_datetime \<Rightarrow> (errn \<times> exi_datetime \<times> bitstream) option" where
  "decode_datetime_fields j s d = (case dt_type d of
      EXI_DATETIME_GYEAR \<Rightarrow> decode_year j s d
    | EXI_DATETIME_GYEARMONTH \<Rightarrow> do {
        (errn, d, s1) \<leftarrow> decode_year j s d;
        if errn = EXI_OK then decode_monthDay s1 d else Some (errn, d, s1)
      }
    | EXI_DATETIME_DATE \<Rightarrow> do {
        (errn, d, s1) \<leftarrow> decode_year j s d;
        if errn = EXI_OK then decode_monthDay s1 d else Some (errn, d, s1)
      }
    | EXI_DATETIME_DATETIME \<Rightarrow> do {
        (errn, d, s1) \<leftarrow> decode_year j s d;
        if errn = EXI_OK then do {
          (errn, d, s2) \<leftarrow> decode_monthDay s1 d;
          if errn = EXI_OK then decode_time_part j s2 d else Some (errn, d, s2)
        }
        else decode_time_part j s1 d
      }
    | EXI_DATETIME_TIME \<Rightarrow> decode_time_part j s d
    | EXI_DATETIME_GMONTH \<Rightarrow> decode_monthDay s d
    | EXI_DATETIME_GMONTHDAY \<Rightarrow> decode_monthDay s d
    | EXI_DATETIME_GDAY \<Rightarrow> decode_monthDay s d
    | EXI_DATETIME_TYPE_INVALID _ \<Rightarrow> Some (EXI_UNSUPPORTED_DATETIME_TYPE, d, s))"

definition decodeDateTime :: "u32 \<Rightarrow> bitstream \<Rightarrow> exi_datetime_type \<Rightarrow> (errn \<times> exi_datetime \<times> bitstream) option" where
  "decodeDateTime j s t = do {
     (errn, d, s1) \<leftarrow> decode_datetime_fields j s
       \<lparr>dt_type = t, year = 0, monthDay = 0, dt_time = 0, presenceFractionalSecs = 0,
        fractionalSecs = 0, presenceTimezone = 0, timezone = 0\<rparr>;
     if errn = EXI_OK then decode_timezone_part j s1 d else Some (errn, d, s1)
   }"

end
