(* ===== verification/MethodsBag.thy ===== *)
theory MethodsBag
  imports EXITypes
begin

section \<open>Coding lengths (MethodsBag.c)\<close>

text \<open>
  \<open>exiGetCodingLength\<close>: how many bits an n-bit unsigned integer needs to tell \<open>characteristics\<close>
  values apart; \<open>numberOf7BitBlocksToRepresent\<close>: how many octets an unsigned integer takes.
\<close>

definition smallLengths :: "nat list" where
  "smallLengths = [0, 0, 1, 2, 2, 3, 3, 3, 3, 4, 4, 4, 4, 4, 4, 4, 4]"

definition exiGetCodingLength :: "nat \<Rightarrow> errn \<times> nat" where
  "exiGetCodingLength characteristics =
     (EXI_OK,
      if characteristics < 17 then smallLengths ! characteristics
      else if characteristics < 33 then 5
      else if characteristics < 65 then 6
      else if characteristics < 129 then 7
      else if characteristics < 257 then 8
      else if characteristics < 513 then 9
      else if characteristics < 1025 then 10
      else if characteristics < 2049 then 11
      else if characteristics < 4097 then 12
      else if characteristics < 8193 then 13
      else if characteristics < 16385 then 14
      else if characteristics < 32769 then 15
      else 16)"

definition numberOf7BitBlocksToRepresent :: "u32 \<Rightarrow> nat" where
  "numberOf7BitBlocksToRepresent n =
     (if n < 128 then 1
      else if n < 16384 then 2
      else if n < 2097152 then 3
      else if n < 268435456 then 4
      else 5)"

subsection \<open>Correctness\<close>

text \<open>The table of small lengths, entry by entry.\<close>

lemma smallLengths_correct:
  assumes "1 \<le> n" "n < 17"
  shows "n \<le> 2 ^ (smallLengths ! n) \<and> (\<forall>k. n \<le> 2 ^ k \<longrightarrow> smallLengths ! n \<le> k)"
proof -
  have least: "l \<le> k" if "2 ^ (l - 1) < m" "m \<le> 2 ^ k" for l k m :: nat
  proof (rule ccontr)
    assume "\<not> l \<le> k"
    then have "(2::nat) ^ k \<le> 2 ^ (l - 1)" by (intro power_increasing) auto
    with that show False by linarith
  qed
  have "n \<in> set [1..<17]" using assms by simp
  then have "n \<le> 2 ^ (smallLengths ! n) \<and> (smallLengths ! n = 0 \<or> 2 ^ (smallLengths ! n - 1) < n)"
    by (simp add: upt_rec smallLengths_def) auto
  with least show ?thesis by auto
qed

lemma coding_length_least: "2 ^ l < n \<Longrightarrow> n \<le> 2 ^ k \<Longrightarrow> Suc l \<le> (k :: nat)" for n :: nat
proof (rule ccontr)
  assume "2 ^ l < n" "n \<le> 2 ^ k" "\<not> Suc l \<le> k"
  then have "(2::nat) ^ k \<le> 2 ^ l" by (intro power_increasing) auto
  with \<open>2 ^ l < n\<close> \<open>n \<le> 2 ^ k\<close> show False by linarith
qed

lemma power_ranges:
  "4 \<le> k \<Longrightarrow> 2 ^ k < n \<Longrightarrow> n \<le> 2 ^ Suc k \<Longrightarrow> k < 16 \<Longrightarrow>
   exiGetCodingLength n = (EXI_OK, Suc k)" for n :: nat
proof -
  assume k: "4 \<le> k" "2 ^ k < n" "n \<le> 2 ^ Suc k" "k < 16"
  have "k \<in> set [4..<16]" using k by (simp only: set_upt atLeastLessThan_iff)
  then show ?thesis using k(2,3) by (auto simp: upt_rec exiGetCodingLength_def)
qed

subsection \<open>Properties\<close>

text \<open>\<open>exiGetCodingLength\<close> returns the least number of bits that can tell \<open>n\<close> values apart, for
  every count from 1 up to 65536, and never more than 16: beyond that the result is too small.\<close>

theorem exiGetCodingLength_least:
  assumes "1 \<le> n"
  shows "(n \<le> 65536 \<longleftrightarrow> n \<le> 2 ^ snd (exiGetCodingLength n)) \<and>
    (\<forall>k. n \<le> 2 ^ k \<longrightarrow> snd (exiGetCodingLength n) \<le> k)"
proof -
  consider "n < 17" | k where "4 \<le> k" "k < 16" "2 ^ k < n" "n \<le> 2 ^ Suc k" | "65536 < n"
  proof -
    have "n \<le> 65536 \<Longrightarrow> 17 \<le> n \<Longrightarrow> \<exists>k \<in> {4..<16}. 2 ^ k < n \<and> n \<le> 2 ^ Suc k"
      by (simp add: atLeastLessThan_upt upt_rec) linarith
    then show thesis using that by (cases "n < 17"; cases "n \<le> 65536") auto
  qed
  then show ?thesis
  proof cases
    case 1
    then show ?thesis using smallLengths_correct [OF assms] by (simp add: exiGetCodingLength_def)
  next
    case 2
    then have "snd (exiGetCodingLength n) = Suc k" using power_ranges by simp
    moreover have "(2::nat) ^ Suc k \<le> 2 ^ 16" using 2(2) by (intro power_increasing) auto
    ultimately show ?thesis using 2 coding_length_least [of k n] by simp
  next
    case 3
    then have "snd (exiGetCodingLength n) = 16" by (simp add: exiGetCodingLength_def)
    moreover have "16 \<le> k" if "n \<le> 2 ^ k" for k
      using coding_length_least [of 16 n k] 3 that by simp
    ultimately show ?thesis using 3 by simp
  qed
qed

theorem exiGetCodingLength_least_witness:
  "(100 :: nat) \<le> 2 ^ snd (exiGetCodingLength 100) \<and> snd (exiGetCodingLength 100) = 7"
  using exiGetCodingLength_least [of 100] by (simp add: exiGetCodingLength_def)

end
