(* ===== verification/EncoderChannel.thy ===== *)
theory EncoderChannel
  imports BitOutputStream MethodsBag
begin

section \<open>Encoding values (EncoderChannel.c)\<close>

text \<open>
  The functions of \<open>src/codec/EncoderChannel.c\<close> in the order of their calls, each as written in the
  bit-packed configuration. An \<open>errn\<close> that the code overwrites is overwritten here too.

  A pointer with a length is the list of the bytes it points to; an access beyond its end is
  undefined (\<open>None\<close>). The loop counters are \<open>unsigned int\<close> in the code and \<open>nat\<close> here, which makes
  no difference for arrays shorter than 4 GiB.
\<close>

subsection \<open>Bytes, booleans, n-bit integers\<close>

definition encode :: "bitstream \<Rightarrow> u8 \<Rightarrow> (errn \<times> bitstream) option" where
  "encode s b = writeBits s 8 (ucast b)"

definition encodeBoolean :: "bitstream \<Rightarrow> int \<Rightarrow> (errn \<times> bitstream) option" where
  "encodeBoolean s b = writeBits s 1 (if b \<noteq> 0 then 1 else 0)"

definition encodeNBitUnsignedInteger :: "bitstream \<Rightarrow> nat \<Rightarrow> u32 \<Rightarrow> (errn \<times> bitstream) option" where
  "encodeNBitUnsignedInteger s nbits val =
     (if 0 < nbits then writeBits s nbits val else Some (EXI_OK, s))"

definition encodeFinish :: "bitstream \<Rightarrow> (errn \<times> bitstream) option" where
  "encodeFinish s = flush s"

subsection \<open>Unsigned integers\<close>

text \<open>
  The \<open>switch (n7BitBlocks)\<close> with its fall-through: case \<open>k\<close> writes an octet with the continuation
  bit and falls into case \<open>k - 1\<close>, case 1 writes the last octet. \<open>hi\<close> is the highest case label:
  3 in the 16-bit function, 5 in the 32-bit one.
\<close>

fun encode_blocks :: "nat \<Rightarrow> nat \<Rightarrow> bitstream \<Rightarrow> 'a::len word \<Rightarrow> (errn \<times> bitstream) option" where
  "encode_blocks hi k s n =
     (if k = 1 then encode s (ucast n)
      else if 2 \<le> k \<and> k \<le> hi then do {
        (errn, s1) \<leftarrow> encode s (ucast (128 OR n));
        if errn \<noteq> EXI_OK then Some (errn, s1)
        else encode_blocks hi (k - 1) s1 (drop_bit 7 n)
      }
      else Some (EXI_OK, s))"

declare encode_blocks.simps [simp del]

definition encodeUnsignedInteger16 :: "bitstream \<Rightarrow> u16 \<Rightarrow> (errn \<times> bitstream) option" where
  "encodeUnsignedInteger16 s n =
     (if n < 128 then encode s (ucast n)
      else encode_blocks 3 (numberOf7BitBlocksToRepresent (ucast n)) s n)"

definition encodeUnsignedInteger32 :: "bitstream \<Rightarrow> u32 \<Rightarrow> (errn \<times> bitstream) option" where
  "encodeUnsignedInteger32 s n =
     (if n < 128 then encode s (ucast n)
      else encode_blocks 5 (numberOf7BitBlocksToRepresent n) s n)"

lemma drop_bit_7_less: "n \<noteq> 0 \<Longrightarrow> unat (drop_bit 7 (n :: 'a::len word)) < unat n"
  unfolding unat_drop_bit_eq by (simp add: drop_bit_eq_div unat_gt_0)

function encode64_loop :: "errn \<Rightarrow> bitstream \<Rightarrow> u8 \<Rightarrow> u64 \<Rightarrow> (errn \<times> bitstream \<times> u8) option" where
  "encode64_loop errn s lastEncode n =
     (if n \<noteq> 0 \<and> errn = EXI_OK then do {
        (errn', s1) \<leftarrow> encode s (lastEncode OR 128);
        encode64_loop errn' s1 (ucast n) (drop_bit 7 n)
      }
      else Some (errn, s, lastEncode))"
  by pat_completeness auto
termination
  by (relation "measure (\<lambda>(errn, s, l, n). unat n)") (auto intro: drop_bit_7_less)

declare encode64_loop.simps [simp del]

definition encodeUnsignedInteger64 :: "bitstream \<Rightarrow> u64 \<Rightarrow> (errn \<times> bitstream) option" where
  "encodeUnsignedInteger64 s n = do {
     (errn, s1, lastEncode) \<leftarrow> encode64_loop EXI_OK s (ucast n) (drop_bit 7 n);
     if errn = EXI_OK then encode s1 lastEncode else Some (errn, s1)
   }"

definition encodeUnsignedInteger :: "bitstream \<Rightarrow> exi_integer \<Rightarrow> (errn \<times> bitstream) option" where
  "encodeUnsignedInteger s iv = (case int_type iv of
      EXI_UNSIGNED_INTEGER_8 \<Rightarrow> encodeUnsignedInteger32 s (ucast (get_val8 iv))
    | EXI_UNSIGNED_INTEGER_16 \<Rightarrow> encodeUnsignedInteger32 s (ucast (get_val16 iv))
    | EXI_UNSIGNED_INTEGER_32 \<Rightarrow> encodeUnsignedInteger32 s (get_val32 iv)
    | EXI_UNSIGNED_INTEGER_64 \<Rightarrow> encodeUnsignedInteger64 s (get_val64 iv)
    | EXI_INTEGER_8 \<Rightarrow>
        if sint (get_val8 iv) < 0 then Some (EXI_NEGATIVE_UNSIGNED_INTEGER_VALUE, s)
        else encodeUnsignedInteger32 s (scast (get_val8 iv))
    | EXI_INTEGER_16 \<Rightarrow>
        if sint (get_val16 iv) < 0 then Some (EXI_NEGATIVE_UNSIGNED_INTEGER_VALUE, s)
        else encodeUnsignedInteger32 s (scast (get_val16 iv))
    | EXI_INTEGER_32 \<Rightarrow>
        if sint (get_val32 iv) < 0 then Some (EXI_NEGATIVE_UNSIGNED_INTEGER_VALUE, s)
        else encodeUnsignedInteger32 s (get_val32 iv)
    | EXI_INTEGER_64 \<Rightarrow>
        if sint (get_val64 iv) < 0 then Some (EXI_NEGATIVE_UNSIGNED_INTEGER_VALUE, s)
        else encodeUnsignedInteger64 s (get_val64 iv)
    | EXI_INTEGER_TYPE_INVALID _ \<Rightarrow> Some (EXI_UNSUPPORTED_INTEGER_VALUE_TYPE, s))"

subsection \<open>Signed integers\<close>

text \<open>
  A signed argument is the word of its two's complement, read with \<^const>\<open>sint\<close>. For a negative
  \<open>n\<close> the code computes \<open>(-n) - 1\<close>: in 16 bits the promotion to \<open>int\<close> makes that safe; in 32 and
  64 bits the negation of the least value overflows, which C leaves undefined.
\<close>

definition encodeInteger16 :: "bitstream \<Rightarrow> u16 \<Rightarrow> (errn \<times> bitstream) option" where
  "encodeInteger16 s n =
     (if sint n < 0 then do {
        (errn, s1) \<leftarrow> encodeBoolean s 1;
        if errn = EXI_OK then encodeUnsignedInteger16 s1 (- n - 1) else Some (errn, s1)
      }
      else do {
        (errn, s1) \<leftarrow> encodeBoolean s 0;
        if errn = EXI_OK then encodeUnsignedInteger16 s1 n else Some (errn, s1)
      })"

definition encodeInteger32 :: "bitstream \<Rightarrow> u32 \<Rightarrow> (errn \<times> bitstream) option" where
  "encodeInteger32 s n =
     (if sint n < 0 then
        if sint n = - (2 ^ 31) then None
        else do {
          (errn, s1) \<leftarrow> encodeBoolean s 1;
          if errn = EXI_OK then encodeUnsignedInteger32 s1 (- n - 1) else Some (errn, s1)
        }
      else do {
        (errn, s1) \<leftarrow> encodeBoolean s 0;
        if errn = EXI_OK then encodeUnsignedInteger32 s1 n else Some (errn, s1)
      })"

definition encodeInteger64 :: "bitstream \<Rightarrow> u64 \<Rightarrow> (errn \<times> bitstream) option" where
  "encodeInteger64 s n =
     (if sint n < 0 then
        if sint n = - (2 ^ 63) then None
        else do {
          (errn, s1) \<leftarrow> encodeBoolean s 1;
          if errn = EXI_OK then encodeUnsignedInteger64 s1 (- n - 1) else Some (errn, s1)
        }
      else do {
        (errn, s1) \<leftarrow> encodeBoolean s 0;
        if errn = EXI_OK then encodeUnsignedInteger64 s1 n else Some (errn, s1)
      })"

definition encodeInteger :: "bitstream \<Rightarrow> exi_integer \<Rightarrow> (errn \<times> bitstream) option" where
  "encodeInteger s iv = (case int_type iv of
      EXI_UNSIGNED_INTEGER_8 \<Rightarrow> encodeInteger32 s (ucast (get_val8 iv))
    | EXI_UNSIGNED_INTEGER_16 \<Rightarrow> encodeInteger32 s (ucast (get_val16 iv))
    | EXI_UNSIGNED_INTEGER_32 \<Rightarrow> encodeInteger64 s (ucast (get_val32 iv))
    | EXI_UNSIGNED_INTEGER_64 \<Rightarrow> encodeInteger64 s (get_val64 iv)
    | EXI_INTEGER_8 \<Rightarrow> encodeInteger32 s (scast (get_val8 iv))
    | EXI_INTEGER_16 \<Rightarrow> encodeInteger32 s (scast (get_val16 iv))
    | EXI_INTEGER_32 \<Rightarrow> encodeInteger32 s (get_val32 iv)
    | EXI_INTEGER_64 \<Rightarrow> encodeInteger64 s (get_val64 iv)
    | EXI_INTEGER_TYPE_INVALID _ \<Rightarrow> Some (EXI_UNSUPPORTED_INTEGER_VALUE_TYPE, s))"

subsection \<open>Floats and decimals\<close>

definition encodeFloat :: "bitstream \<Rightarrow> exi_float_me \<Rightarrow> (errn \<times> bitstream) option" where
  "encodeFloat s f = do {
     (errn, s1) \<leftarrow> encodeInteger64 s (mantissa f);
     if errn = EXI_OK then encodeInteger32 s1 (scast (exponent f)) else Some (errn, s1)
   }"

definition encodeDecimal :: "bitstream \<Rightarrow> exi_decimal \<Rightarrow> (errn \<times> bitstream) option" where
  "encodeDecimal s d = do {
     (errn, s1) \<leftarrow> encodeBoolean s (negative d);
     if errn = EXI_OK then do {
       (errn, s2) \<leftarrow> encodeUnsignedInteger s1 (integral d);
       if errn = EXI_OK then encodeUnsignedInteger s2 (reverseFraction d) else Some (errn, s2)
     }
     else Some (errn, s1)
   }"

subsection \<open>Strings and binary data\<close>

function encodeCharacters_from :: "nat \<Rightarrow> errn \<Rightarrow> bitstream \<Rightarrow> u8 list \<Rightarrow> nat \<Rightarrow> (errn \<times> bitstream) option" where
  "encodeCharacters_from i errn s chars len =
     (if i < len \<and> errn = EXI_OK then
        if i < length chars then do {
          (errn', s1) \<leftarrow> encode s (chars ! i);
          encodeCharacters_from (i + 1) errn' s1 chars len
        }
        else None
      else Some (errn, s))"
  by pat_completeness auto
termination
  by (relation "measure (\<lambda>(i, errn, s, chars, len). len - i)") auto

declare encodeCharacters_from.simps [simp del]

definition encodeCharacters :: "bitstream \<Rightarrow> u8 list \<Rightarrow> u64 \<Rightarrow> (errn \<times> bitstream) option" where
  "encodeCharacters s chars len = encodeCharacters_from 0 EXI_OK s chars (unat len)"

definition encodeString :: "bitstream \<Rightarrow> exi_string \<Rightarrow> (errn \<times> bitstream) option" where
  "encodeString s string = do {
     (errn, s1) \<leftarrow> encodeUnsignedInteger32 s (ucast (str_len string));
     if errn = EXI_OK then encodeCharacters s1 (characters string) (str_len string)
     else Some (errn, s1)
   }"

text \<open>
  The search of a character in the restricted character set: \<open>Some None\<close> is \<open>SIZE_MAX\<close>, not found.
\<close>

function find_rcs :: "nat \<Rightarrow> nat \<Rightarrow> u8 list \<Rightarrow> u8 \<Rightarrow> nat option option" where
  "find_rcs k rcsSize rcsSet c =
     (if k < rcsSize then
        if k < length rcsSet then
          if rcsSet ! k = c then Some (Some k) else find_rcs (k + 1) rcsSize rcsSet c
        else None
      else Some None)"
  by pat_completeness auto
termination
  by (relation "measure (\<lambda>(k, rcsSize, rcsSet, c). rcsSize - k)") auto

declare find_rcs.simps [simp del]

function encodeRCSCharacters_from ::
  "nat \<Rightarrow> errn \<Rightarrow> bitstream \<Rightarrow> u8 list \<Rightarrow> nat \<Rightarrow> nat \<Rightarrow> nat \<Rightarrow> u8 list \<Rightarrow> (errn \<times> bitstream) option" where
  "encodeRCSCharacters_from i errn s chars len rcsCodeLength rcsSize rcsSet =
     (if i < len \<and> errn = EXI_OK then
        if i < length chars then do {
          rcsCode \<leftarrow> find_rcs 0 rcsSize rcsSet (chars ! i);
          (errn', s') \<leftarrow> (case rcsCode of
              None \<Rightarrow> do {
                (_, s1) \<leftarrow> encodeNBitUnsignedInteger s rcsCodeLength (of_nat rcsSize);
                encode s1 (chars ! i)
              }
            | Some k \<Rightarrow> encodeNBitUnsignedInteger s rcsCodeLength (of_nat k));
          encodeRCSCharacters_from (i + 1) errn' s' chars len rcsCodeLength rcsSize rcsSet
        }
        else None
      else Some (errn, s))"
  by pat_completeness auto
termination
  by (relation "measure (\<lambda>(i, errn, s, chars, len, rest). len - i)") auto

declare encodeRCSCharacters_from.simps [simp del]

definition encodeRCSCharacters ::
  "bitstream \<Rightarrow> u8 list \<Rightarrow> u64 \<Rightarrow> nat \<Rightarrow> nat \<Rightarrow> u8 list \<Rightarrow> (errn \<times> bitstream) option" where
  "encodeRCSCharacters s chars len rcsCodeLength rcsSize rcsSet =
     encodeRCSCharacters_from 0 EXI_OK s chars (unat len) rcsCodeLength rcsSize rcsSet"

function encodeBytes_from :: "nat \<Rightarrow> errn \<Rightarrow> bitstream \<Rightarrow> u8 list \<Rightarrow> nat \<Rightarrow> (errn \<times> bitstream) option" where
  "encodeBytes_from i errn s data len =
     (if i < len \<and> errn = EXI_OK then
        if i < length data then do {
          (errn', s1) \<leftarrow> encode s (data ! i);
          encodeBytes_from (i + 1) errn' s1 data len
        }
        else None
      else Some (errn, s))"
  by pat_completeness auto
termination
  by (relation "measure (\<lambda>(i, errn, s, data, len). len - i)") auto

declare encodeBytes_from.simps [simp del]

definition encodeBytes :: "bitstream \<Rightarrow> u8 list \<Rightarrow> u64 \<Rightarrow> (errn \<times> bitstream) option" where
  "encodeBytes s data len = encodeBytes_from 0 EXI_OK s data (unat len)"

definition encodeBinary :: "bitstream \<Rightarrow> exi_bytes \<Rightarrow> (errn \<times> bitstream) option" where
  "encodeBinary s bytes = do {
     (errn, s1) \<leftarrow> encodeUnsignedInteger32 s (ucast (bytes_len bytes));
     if errn = EXI_OK then encodeBytes s1 (bytes_data bytes) (bytes_len bytes)
     else Some (errn, s1)
   }"

subsection \<open>Date and time\<close>

text \<open>
  The parts of \<open>encodeDateTime\<close>: \<open>year - DATETIME_YEAR_OFFSET\<close> is a subtraction of \<open>int32_t\<close>, which
  may overflow; \<open>timezone + DATETIME_TIMEZONE_OFFSET_IN_MINUTES\<close> is unsigned and wraps.
\<close>

definition encode_year :: "bitstream \<Rightarrow> u32 \<Rightarrow> (errn \<times> bitstream) option" where
  "encode_year s y =
     (if sint y - DATETIME_YEAR_OFFSET < - (2 ^ 31) then None
      else encodeInteger32 s (word_of_int (sint y - DATETIME_YEAR_OFFSET)))"

definition encode_time_part :: "bitstream \<Rightarrow> exi_datetime \<Rightarrow> (errn \<times> bitstream) option" where
  "encode_time_part s datetime = do {
     (errn, s1) \<leftarrow> encodeNBitUnsignedInteger s DATETIME_NUMBER_BITS_TIME (dt_time datetime);
     if errn = EXI_OK then
       if presenceFractionalSecs datetime \<noteq> 0 then do {
         (errn, s2) \<leftarrow> encodeBoolean s1 1;
         if errn = EXI_OK then encodeUnsignedInteger32 s2 (fractionalSecs datetime)
         else Some (errn, s2)
       }
       else encodeBoolean s1 0
     else Some (errn, s1)
   }"

definition encode_timezone_part :: "bitstream \<Rightarrow> exi_datetime \<Rightarrow> (errn \<times> bitstream) option" where
  "encode_timezone_part s datetime =
     (if presenceTimezone datetime \<noteq> 0 then do {
        (errn, s1) \<leftarrow> encodeBoolean s 1;
        if errn = EXI_OK
        then encodeNBitUnsignedInteger s1 DATETIME_NUMBER_BITS_TIMEZONE
               (timezone datetime + DATETIME_TIMEZONE_OFFSET_IN_MINUTES)
        else Some (errn, s1)
      }
      else encodeBoolean s 0)"

definition encode_datetime_fields :: "bitstream \<Rightarrow> exi_datetime \<Rightarrow> (errn \<times> bitstream) option" where
  "encode_datetime_fields s datetime = (case dt_type datetime of
      EXI_DATETIME_GYEAR \<Rightarrow> encode_year s (year datetime)
    | EXI_DATETIME_GYEARMONTH \<Rightarrow> do {
        (errn, s1) \<leftarrow> encode_year s (year datetime);
        if errn = EXI_OK
        then encodeNBitUnsignedInteger s1 DATETIME_NUMBER_BITS_MONTHDAY (monthDay datetime)
        else Some (errn, s1)
      }
    | EXI_DATETIME_DATE \<Rightarrow> do {
        (errn, s1) \<leftarrow> encode_year s (year datetime);
        if errn = EXI_OK
        then encodeNBitUnsignedInteger s1 DATETIME_NUMBER_BITS_MONTHDAY (monthDay datetime)
        else Some (errn, s1)
      }
    | EXI_DATETIME_DATETIME \<Rightarrow> do {
        (errn, s1) \<leftarrow> encode_year s (year datetime);
        if errn = EXI_OK then do {
          (errn, s2) \<leftarrow> encodeNBitUnsignedInteger s1 DATETIME_NUMBER_BITS_MONTHDAY (monthDay datetime);
          if errn \<noteq> EXI_OK then Some (errn, s2) else encode_time_part s2 datetime
        }
        else encode_time_part s1 datetime
      }
    | EXI_DATETIME_TIME \<Rightarrow> encode_time_part s datetime
    | EXI_DATETIME_GMONTH \<Rightarrow> encodeNBitUnsignedInteger s DATETIME_NUMBER_BITS_MONTHDAY (monthDay datetime)
    | EXI_DATETIME_GMONTHDAY \<Rightarrow> encodeNBitUnsignedInteger s DATETIME_NUMBER_BITS_MONTHDAY (monthDay datetime)
    | EXI_DATETIME_GDAY \<Rightarrow> encodeNBitUnsignedInteger s DATETIME_NUMBER_BITS_MONTHDAY (monthDay datetime)
    | EXI_DATETIME_TYPE_INVALID _ \<Rightarrow> Some (EXI_UNSUPPORTED_DATETIME_TYPE, s))"

definition encodeDateTime :: "bitstream \<Rightarrow> exi_datetime \<Rightarrow> (errn \<times> bitstream) option" where
  "encodeDateTime s datetime = do {
     (errn, s1) \<leftarrow> encode_datetime_fields s datetime;
     if errn = EXI_OK then encode_timezone_part s1 datetime else Some (errn, s1)
   }"

end
