(* ===== verification/Octets.thy ===== *)
theory Octets
  imports MethodsBag
begin

section \<open>The variable-length integer format\<close>

text \<open>
  The abstract format behind the unsigned integers of the codec, independent of any width: seven
  bits per octet, least significant group first, the high bit of an octet set when another one
  follows. Signed integers put a sign bit in front of the magnitude, minus one if negative.
\<close>

fun octets :: "nat \<Rightarrow> u8 list" where
  "octets n = (if n < 128 then [of_nat n] else (of_nat n OR 128) # octets (n div 128))"

declare octets.simps [simp del]

definition integer_bits :: "int \<Rightarrow> bool list" where
  "integer_bits i = (i < 0) # bytes_bits (octets (nat (if i < 0 then - i - 1 else i)))"

lemma octets_small: "n < 128 \<Longrightarrow> octets n = [of_nat n]"
  by (simp add: octets.simps)

lemma octets_large: "\<not> n < 128 \<Longrightarrow> octets n = (of_nat n OR 128) # octets (n div 128)"
  by (subst octets.simps) simp

lemma octets_ne [simp]: "octets n \<noteq> []"
  by (subst octets.simps) simp

text \<open>The number of octets.\<close>

lemma length_octets: "128 ^ k \<le> n \<Longrightarrow> n < 128 ^ Suc k \<Longrightarrow> length (octets n) = Suc k"
proof (induction k arbitrary: n)
  case 0
  then show ?case by (simp add: octets_small)
next
  case (Suc k)
  have "(1::nat) \<le> 128 ^ k" by simp
  then have "128 * 1 \<le> (128::nat) * 128 ^ k" by (rule mult_le_mono2)
  then have "\<not> n < 128" using Suc.prems(1) unfolding power_Suc by linarith
  moreover have "128 ^ k \<le> n div 128" using Suc.prems(1)
    by (simp add: less_eq_div_iff_mult_less_eq mult.commute)
  moreover have "n div 128 < 128 ^ Suc k" using Suc.prems(2)
    by (simp add: div_less_iff_less_mult mult.commute)
  ultimately show ?case using Suc.IH by (simp add: octets_large)
qed

lemma length_octets_small: "n < 128 \<Longrightarrow> length (octets n) = 1"
  by (simp add: octets_small)

lemma length_octets_le: "n < 128 ^ k \<Longrightarrow> 0 < k \<Longrightarrow> length (octets n) \<le> k"
proof (induction k arbitrary: n)
  case (Suc k)
  show ?case
  proof (cases "n < 128")
    case False
    then have "k \<noteq> 0" using Suc.prems by (cases k) auto
    moreover have "n div 128 < 128 ^ k" using Suc.prems(1)
      by (simp add: div_less_iff_less_mult mult.commute)
    ultimately show ?thesis using Suc.IH False by (simp add: octets_large)
  qed (simp add: octets_small)
qed simp

text \<open>\<open>numberOf7BitBlocksToRepresent\<close> computes it.\<close>

lemma blocks_eq_length_octets: "numberOf7BitBlocksToRepresent n = length (octets (unat n))"
proof -
  have lt: "n < k \<longleftrightarrow> unat n < unat k" for k by (rule word_less_nat_alt)
  have len: "unat n < 34359738368" using unsigned_less [of n, where 'a = nat] by simp
  consider "unat n < 128" | "128 \<le> unat n" "unat n < 16384" | "16384 \<le> unat n" "unat n < 2097152"
    | "2097152 \<le> unat n" "unat n < 268435456" | "268435456 \<le> unat n" by linarith
  then show ?thesis
  proof cases
    case 1
    then show ?thesis by (simp add: numberOf7BitBlocksToRepresent_def lt octets_small)
  next
    case 2
    then show ?thesis using length_octets [of 1 "unat n"]
      by (simp add: numberOf7BitBlocksToRepresent_def lt)
  next
    case 3
    then show ?thesis using length_octets [of 2 "unat n"]
      by (simp add: numberOf7BitBlocksToRepresent_def lt)
  next
    case 4
    then show ?thesis using length_octets [of 3 "unat n"]
      by (simp add: numberOf7BitBlocksToRepresent_def lt)
  next
    case 5
    then show ?thesis using length_octets [of 4 "unat n"] len
      by (simp add: numberOf7BitBlocksToRepresent_def lt)
  qed
qed

text \<open>The two parts of an octet: its continuation bit and its seven bits of the value.\<close>

lemma octet_last:
  assumes "n < 128"
  shows "drop_bit 7 (of_nat n :: u8) = 0" and "(of_nat n :: u8) AND 127 = of_nat n"
    and "\<not> 128 \<le> (of_nat n :: u8)" and "unat (of_nat n :: u8) = n"
proof -
  show u: "unat (of_nat n :: u8) = n" using assms by (simp add: unat_of_nat)
  then have "unat (drop_bit 7 (of_nat n :: u8)) = 0" using assms
    unfolding unat_drop_bit_eq by (simp add: drop_bit_eq_div)
  then show "drop_bit 7 (of_nat n :: u8) = 0" by (simp only: unat_eq_0)
  have m: "(127 :: u8) = mask 7" by (simp add: mask_eq_exp_minus_1)
  have "take_bit 7 (of_nat n :: u8) = of_nat n"
    using assms by (simp add: take_bit_of_nat take_bit_nat_eq_self)
  then show "(of_nat n :: u8) AND 127 = of_nat n" by (simp add: m take_bit_eq_mask)
  show "\<not> 128 \<le> (of_nat n :: u8)" using assms u by (simp add: word_le_nat_alt)
qed

lemma octet_more: "drop_bit 7 (w OR 128 :: u8) = 1" "(w OR 128 :: u8) AND 127 = w AND 127" "128 \<le> (w OR 128 :: u8)"
proof -
  have e: "(128 :: u8) = push_bit 7 1" and m: "(127 :: u8) = mask 7"
    by (simp_all add: mask_eq_exp_minus_1)
  have b: "bit (128 :: u8) i \<longleftrightarrow> i = 7" for i
    using bit_exp_iff [of 7 i, where 'a = u8] by auto
  show d: "drop_bit 7 (w OR 128 :: u8) = 1"
    unfolding e by (rule bit_word_eqI) (auto simp: bit_simps bit_1_iff dest: bit_imp_le_length)
  have "bit (w OR 128) n \<and> n < 7 \<longleftrightarrow> bit w n \<and> n < 7" for n
    by (auto simp only: bit_or_iff b)
  then show "(w OR 128 :: u8) AND 127 = w AND 127"
    unfolding m by (intro bit_word_eqI) (simp only: bit_and_iff bit_mask_iff, auto)
  have "unat (drop_bit 7 (w OR 128)) = 1" unfolding d by simp
  then show "128 \<le> (w OR 128 :: u8)"
    unfolding unat_drop_bit_eq by (simp add: drop_bit_eq_div word_le_nat_alt)
qed

lemma octet_and_127: "(of_nat n :: u8) AND 127 = of_nat (n mod 128)"
proof -
  have m: "(127 :: u8) = mask 7" by (simp add: mask_eq_exp_minus_1)
  have "take_bit 7 (of_nat n :: u8) = of_nat (take_bit 7 n)" by (rule take_bit_of_nat)
  also have "take_bit 7 n = n mod 128" by (simp add: take_bit_eq_mod)
  finally show ?thesis unfolding m take_bit_eq_mask [symmetric] .
qed

text \<open>Two's complement: the magnitude the encoders write.\<close>

lemma unat_nonneg: "0 \<le> sint (n :: 'a::len word) \<Longrightarrow> unat n = nat (sint n)"
proof -
  assume "0 \<le> sint n"
  moreover have "uint n = take_bit LENGTH('a) (sint n)"
    using uint_word_of_int_eq [of "sint n", where 'a = 'a] by simp
  moreover have "sint n < 2 ^ LENGTH('a)"
    using sint_lt [of n] by (rule less_le_trans) (simp add: power_increasing)
  ultimately have "uint n = sint n" by (simp add: take_bit_int_eq_self)
  then show ?thesis by (simp add: unat_eq_nat_uint)
qed

lemma unat_negated: "sint (n :: 'a::len word) < 0 \<Longrightarrow> unat (- n - 1) = nat (- sint n - 1)"
proof -
  assume neg: "sint n < 0"
  have "- n - 1 = (word_of_int (- sint n - 1) :: 'a word)" by simp
  moreover have "- sint n - 1 < 2 ^ LENGTH('a)"
    using sint_ge [of n] power_increasing [of "LENGTH('a) - 1" "LENGTH('a)" "2::int"] by linarith
  ultimately have "uint (- n - 1) = - sint n - 1"
    using neg by (simp only: uint_word_of_int_eq) (simp add: take_bit_int_eq_self)
  then show ?thesis by (simp add: unat_eq_nat_uint)
qed

subsection \<open>Properties\<close>

text \<open>\<open>numberOf7BitBlocksToRepresent\<close> is the number of octets the variable-length format needs,
  for every 32-bit value.\<close>

theorem numberOf7BitBlocks_octets: "numberOf7BitBlocksToRepresent n = length (octets (unat n))"
  by (rule blocks_eq_length_octets)

end
