(* ===== verification/EncoderSpec.thy ===== *)
theory EncoderSpec
  imports EncoderChannel Octets
begin

section \<open>What the encoder channel writes\<close>

text \<open>
  The specification of \<open>EncoderChannel.c\<close>. The integer encoders are equal, on every stream, to the
  reference encoder that writes the octets of \<^const>\<open>octets\<close> one by one and stops at the first
  error; from there the calculus of the bit sink gives the bits every function appends.
\<close>

fun encode_all :: "bitstream \<Rightarrow> u8 list \<Rightarrow> (errn \<times> bitstream) option" where
  "encode_all s [] = Some (EXI_OK, s)"
| "encode_all s (b # bs) = do {
     (errn, s1) \<leftarrow> encode s b;
     if errn = EXI_OK then encode_all s1 bs else Some (errn, s1)
   }"

lemma encode_all_single [simp]: "encode_all s [b] = encode s b"
  by (cases "encode s b") auto

declare encode_all.simps(2) [simp del]

lemmas encode_all_Cons = encode_all.simps(2)

subsection \<open>The primitives\<close>

lemma writes_encode: "wr.writes (\<lambda>s. encode s b) (bits 8 b)"
  unfolding encode_def using wr.writes_put [of 8 "ucast b"] by (simp add: bits_ucast)

lemma writes_encodeBoolean: "wr.writes (\<lambda>s. encodeBoolean s b) [b \<noteq> 0]"
proof -
  have "bits 1 (if b \<noteq> 0 then 1 else 0 :: u32) = [b \<noteq> 0]" by (simp add: bits_def)
  then show ?thesis unfolding encodeBoolean_def using wr.writes_put [of 1 "if b \<noteq> 0 then 1 else 0"] by simp
qed

lemma writes_encodeNBit: "n \<le> 8 \<Longrightarrow> wr.writes (\<lambda>s. encodeNBitUnsignedInteger s n v) (bits n v)"
  unfolding encodeNBitUnsignedInteger_def using wr.writes_put [of n v] wr.writes_ok by (cases "n = 0") auto

lemma emits_encodeNBit: "n \<le> 32 \<Longrightarrow> wr.emits (\<lambda>s. encodeNBitUnsignedInteger s n v) (bits n v)"
  unfolding encodeNBitUnsignedInteger_def using wr.emits_put [of n v] wr.emits_ok by (cases "n = 0") auto

lemma writes_encode_all: "wr.writes (\<lambda>s. encode_all s bs) (bytes_bits bs)"
proof (induction bs)
  case Nil
  then show ?case by (simp add: wr.writes_ok)
next
  case (Cons b bs)
  from wr.writes_then [OF writes_encode [of b] this] show ?case by (simp add: encode_all_Cons)
qed

subsection \<open>Unsigned integers\<close>

lemma ucast_octet: "8 \<le> LENGTH('a) \<Longrightarrow> ucast (128 OR (n :: 'a::len word)) = (ucast n OR 128 :: u8)"
proof -
  assume len: "8 \<le> LENGTH('a)"
  then have b: "bit (128 :: 'a word) i \<longleftrightarrow> i = 7" for i
    using bit_exp_iff [of 7 i, where 'a = "'a word"] by auto
  have b8: "bit (128 :: u8) i \<longleftrightarrow> i = 7" for i
    using bit_exp_iff [of 7 i, where 'a = u8] by auto
  show ?thesis
    using len by (intro bit_word_eqI) (auto simp only: bit_or_iff bit_unsigned_iff b b8 possible_bit_word)
qed

lemma unat_shift7: "unat (drop_bit 7 (n :: 'a::len word)) = unat n div 128"
  unfolding unat_drop_bit_eq by (simp add: drop_bit_eq_div)

lemma octets_word_small: "unat n < 128 \<Longrightarrow> octets (unat n) = [ucast n]"
  by (simp add: octets_small)

lemma octets_word_large:
  "\<not> unat n < 128 \<Longrightarrow> octets (unat n) = (ucast n OR 128) # octets (unat (drop_bit 7 n))"
  by (simp add: octets_large unat_shift7)

lemma shift7_induct [case_names less]:
  assumes "\<And>n. (\<not> unat n < 128 \<Longrightarrow> P (drop_bit 7 n)) \<Longrightarrow> P (n :: 'a::len word)"
  shows "P n"
proof (induction "unat n" arbitrary: n rule: less_induct)
  case less
  show ?case
  proof (rule assms)
    assume "\<not> unat n < 128"
    then have "n \<noteq> 0" by auto
    then show "P (drop_bit 7 n)" using less by (simp add: drop_bit_7_less)
  qed
qed

lemma encode_blocks_octets:
  fixes n :: "'a::len word"
  assumes "8 \<le> LENGTH('a)" "length (octets (unat n)) \<le> hi"
  shows "encode_blocks hi (length (octets (unat n))) s n = encode_all s (octets (unat n))"
  using assms(2)
proof (induction n arbitrary: s rule: shift7_induct)
  case (less n)
  show ?case
  proof (cases "unat n < 128")
    case True
    then show ?thesis by (subst encode_blocks.simps) (simp add: octets_word_small)
  next
    case False
    define k where "k = length (octets (unat (drop_bit 7 n)))"
    have "1 \<le> k" by (simp add: k_def Suc_le_eq)
    moreover have "Suc k \<le> hi" using less.prems False by (simp add: k_def octets_word_large)
    ultimately have "encode_blocks hi (Suc k) s n = do {
        (errn, s1) \<leftarrow> encode s (ucast n OR 128);
        if errn \<noteq> EXI_OK then Some (errn, s1) else encode_blocks hi k s1 (drop_bit 7 n) }"
      by (subst encode_blocks.simps) (simp add: ucast_octet [OF assms(1)] cong: if_cong)
    moreover have "encode_blocks hi k s1 (drop_bit 7 n) = encode_all s1 (octets (unat (drop_bit 7 n)))" for s1
      using less.IH False \<open>Suc k \<le> hi\<close> by (simp add: k_def)
    ultimately show ?thesis using False
      by (cases "encode s (ucast n OR 128)") (auto simp: octets_word_large encode_all_Cons simp flip: k_def)
  qed
qed

lemma less_128_iff: "8 \<le> LENGTH('a) \<Longrightarrow> (n :: 'a::len word) < 128 \<longleftrightarrow> unat n < 128"
proof -
  assume len: "8 \<le> LENGTH('a)"
  have "take_bit LENGTH('a) (128 :: nat) = 128"
  proof (rule take_bit_nat_eq_self)
    have "(2::nat) ^ 8 \<le> 2 ^ LENGTH('a)" using len by (intro power_increasing) auto
    then show "(128::nat) < 2 ^ LENGTH('a)" by simp
  qed
  then have "unat (128 :: 'a word) = 128" by (simp only: unsigned_numeral) simp
  then show ?thesis by (simp add: word_less_nat_alt)
qed

lemma encodeUnsignedInteger32_octets: "encodeUnsignedInteger32 s n = encode_all s (octets (unat n))"
proof -
  have "unat n < 128 ^ 5" using unsigned_less [of n, where 'a = nat] by simp
  then have "length (octets (unat n)) \<le> 5" by (rule length_octets_le) simp
  then show ?thesis using encode_blocks_octets [of n 5 s]
    by (simp add: encodeUnsignedInteger32_def less_128_iff octets_word_small blocks_eq_length_octets)
qed

lemma encodeUnsignedInteger16_octets: "encodeUnsignedInteger16 s n = encode_all s (octets (unat n))"
proof -
  have n: "unat n < 2 ^ 16" using unsigned_less [of n, where 'a = nat] by simp
  then have "length (octets (unat n)) \<le> 3" by (intro length_octets_le) simp_all
  moreover have "unat (ucast n :: u32) = unat n"
    using n by (simp only: unsigned_ucast_eq) (simp add: take_bit_nat_eq_self)
  ultimately show ?thesis using encode_blocks_octets [of n 3 s]
    by (simp add: encodeUnsignedInteger16_def less_128_iff octets_word_small blocks_eq_length_octets)
qed

lemma encode64_loop_error: "e \<noteq> EXI_OK \<Longrightarrow> encode64_loop e s l n = Some (e, s, l)"
  by (subst encode64_loop.simps) simp

lemma encodeUnsignedInteger64_octets: "encodeUnsignedInteger64 s n = encode_all s (octets (unat n))"
proof (induction n arbitrary: s rule: shift7_induct)
  case (less n)
  have "unat (drop_bit 7 n) = 0 \<longleftrightarrow> unat n < 128" unfolding unat_shift7 by (rule div_eq_0_iff [THEN trans]) simp
  then have z: "drop_bit 7 n = 0 \<longleftrightarrow> unat n < 128" by (simp only: unat_eq_0)
  show ?case
  proof (cases "unat n < 128")
    case True
    then show ?thesis using z
      by (simp add: encodeUnsignedInteger64_def encode64_loop.simps octets_word_small)
  next
    case False
    have "encodeUnsignedInteger64 s n = do {
        (errn, s1) \<leftarrow> encode s (ucast n OR 128);
        if errn = EXI_OK then encodeUnsignedInteger64 s1 (drop_bit 7 n) else Some (errn, s1) }"
      unfolding encodeUnsignedInteger64_def using z False
      by (subst encode64_loop.simps, cases "encode s (ucast n OR 128)")
        (auto simp: encode64_loop_error)
    with less False show ?thesis by (simp add: octets_word_large encode_all_Cons cong: if_cong)
  qed
qed

lemma writes_encodeUnsignedInteger16: "wr.writes (\<lambda>s. encodeUnsignedInteger16 s n) (bytes_bits (octets (unat n)))"
  by (simp add: encodeUnsignedInteger16_octets writes_encode_all)

lemma writes_encodeUnsignedInteger32: "wr.writes (\<lambda>s. encodeUnsignedInteger32 s n) (bytes_bits (octets (unat n)))"
  by (simp add: encodeUnsignedInteger32_octets writes_encode_all)

lemma writes_encodeUnsignedInteger64: "wr.writes (\<lambda>s. encodeUnsignedInteger64 s n) (bytes_bits (octets (unat n)))"
  by (simp add: encodeUnsignedInteger64_octets writes_encode_all)

text \<open>The tagged integer, when its tag is one of the eight types and its value is not negative.\<close>

fun int_type_valid :: "exi_integer_type \<Rightarrow> bool" where
  "int_type_valid (EXI_INTEGER_TYPE_INVALID _) = False"
| "int_type_valid _ = True"

lemma unat_ucast_up:
  "LENGTH('a) \<le> LENGTH('b) \<Longrightarrow> unat (ucast (w :: 'a::len word) :: 'b::len word) = unat w"
proof -
  assume "LENGTH('a) \<le> LENGTH('b)"
  then have "(2::nat) ^ LENGTH('a) \<le> 2 ^ LENGTH('b)" by (intro power_increasing) auto
  then have "unat w < 2 ^ LENGTH('b)" using unsigned_less [of w, where 'a = nat] by linarith
  then show ?thesis by (simp only: unsigned_ucast_eq take_bit_nat_eq_self)
qed

lemma sint_scast_up:
  "LENGTH('a) \<le> LENGTH('b) \<Longrightarrow> sint (scast (w :: 'a::len word) :: 'b::len word) = sint w"
proof -
  assume "LENGTH('a) \<le> LENGTH('b)"
  then have le: "(2::int) ^ (LENGTH('a) - 1) \<le> 2 ^ (LENGTH('b) - 1)" by (intro power_increasing) auto
  have "sint (scast w :: 'b word) = signed_take_bit (LENGTH('b) - 1) (sint w)"
    by (simp only: scast_eq sint_sbintrunc')
  also have "\<dots> = sint w"
    using sint_ge [of w] sint_lt [of w] le by (intro signed_take_bit_int_eq_self) linarith+
  finally show ?thesis .
qed

lemma sint_ucast_up:
  "LENGTH('a) < LENGTH('b) \<Longrightarrow> sint (ucast (w :: 'a::len word) :: 'b::len word) = uint w"
proof -
  assume lt: "LENGTH('a) < LENGTH('b)"
  then have le: "(2::int) ^ LENGTH('a) \<le> 2 ^ (LENGTH('b) - 1)" by (intro power_increasing) auto
  have "uint (ucast w :: 'b word) = uint w"
    using unat_ucast_up [of w, where 'b = 'b] lt by (simp only: uint_nat less_imp_le)
  then have "sint (ucast w :: 'b word) = signed_take_bit (LENGTH('b) - 1) (uint w)"
    by (simp only: sint_uint One_nat_def)
  also have "\<dots> = uint w"
  proof (rule signed_take_bit_int_eq_self)
    show "- (2 ^ (LENGTH('b) - 1)) \<le> uint w" by (rule order_trans [of _ 0]) simp_all
    show "uint w < 2 ^ (LENGTH('b) - 1)" using unsigned_less [of w, where 'a = int] le by linarith
  qed
  finally show ?thesis .
qed

lemma writes_encodeUnsignedInteger:
  assumes "int_type_valid (int_type iv)" "0 \<le> integer_value iv"
  shows "wr.writes (\<lambda>s. encodeUnsignedInteger s iv) (bytes_bits (octets (nat (integer_value iv))))"
proof -
  have s: "unat (scast w :: 'b::len word) = nat (sint w)" if "0 \<le> sint w" "LENGTH('a) \<le> LENGTH('b)" for w :: "'a::len word"
    using that unat_nonneg [of "scast w :: 'b word"] by (simp add: sint_scast_up)
  show ?thesis using assms
    by (cases "int_type iv")
      (auto simp: encodeUnsignedInteger_def integer_value_def encodeUnsignedInteger32_octets s
        encodeUnsignedInteger64_octets unat_ucast_up unat_nonneg writes_encode_all
        simp flip: unat_eq_nat_uint)
qed

subsection \<open>Signed integers\<close>

lemma writes_signed:
  assumes "wr.writes k (bytes_bits (octets (nat (if i < 0 then - i - 1 else i))))" "(b \<noteq> 0) = (i < 0)"
  shows "wr.writes (\<lambda>s. do { (errn, s1) \<leftarrow> encodeBoolean s b; if errn = EXI_OK then k s1 else Some (errn, s1) })
    (integer_bits i)"
  using wr.writes_then [OF writes_encodeBoolean [of b] assms(1)] assms(2) by (simp add: integer_bits_def)

lemma writes_encodeInteger16: "wr.writes (\<lambda>s. encodeInteger16 s n) (integer_bits (sint n))"
  using unat_negated [of n] unat_nonneg [of n]
  by (cases "sint n < 0")
    (auto simp: encodeInteger16_def encodeUnsignedInteger16_octets writes_encode_all intro!: writes_signed)

lemma writes_encodeInteger32:
  "sint n \<noteq> - (2 ^ 31) \<Longrightarrow> wr.writes (\<lambda>s. encodeInteger32 s n) (integer_bits (sint n))"
  using unat_negated [of n] unat_nonneg [of n]
  by (cases "sint n < 0")
    (auto simp: encodeInteger32_def encodeUnsignedInteger32_octets writes_encode_all intro!: writes_signed)

lemma writes_encodeInteger64:
  "sint n \<noteq> - (2 ^ 63) \<Longrightarrow> wr.writes (\<lambda>s. encodeInteger64 s n) (integer_bits (sint n))"
  using unat_negated [of n] unat_nonneg [of n]
  by (cases "sint n < 0")
    (auto simp: encodeInteger64_def encodeUnsignedInteger64_octets writes_encode_all intro!: writes_signed)

text \<open>
  The values \<open>encodeInteger\<close> can encode: not the least value of its type in 32 and 64 bits, and an
  unsigned 64-bit value only below \<open>2 ^ 63\<close>.
\<close>

fun integer_encodable :: "exi_integer \<Rightarrow> bool" where
  "integer_encodable iv = (case int_type iv of
      EXI_INTEGER_TYPE_INVALID _ \<Rightarrow> False
    | EXI_INTEGER_32 \<Rightarrow> integer_value iv \<noteq> - (2 ^ 31)
    | EXI_INTEGER_64 \<Rightarrow> integer_value iv \<noteq> - (2 ^ 63)
    | EXI_UNSIGNED_INTEGER_64 \<Rightarrow> integer_value iv < 2 ^ 63
    | _ \<Rightarrow> True)"

lemma sint_eq_uint_small: "uint (w :: u64) < 2 ^ 63 \<Longrightarrow> sint w = uint w"
  using signed_take_bit_int_eq_self [of 63 "uint w"] by (simp add: sint_uint order_trans [of _ 0])

lemma sint_above_half:
  fixes w :: u64
  assumes "2 ^ 63 \<le> uint w"
  shows "sint w = uint w - 2 ^ 64"
proof -
  have w: "word_of_int (uint w - 2 ^ 64) = w" by simp
  have "sint w = signed_take_bit (LENGTH(64) - 1) (uint w - 2 ^ 64)"
    using sint_sbintrunc' [of "uint w - 2 ^ 64", where 'a = 64] unfolding w .
  then have "sint w = signed_take_bit 63 (uint w - 2 ^ 64)" by simp
  also have "\<dots> = uint w - 2 ^ 64"
    using assms uint_lt2p [of w] by (intro signed_take_bit_int_eq_self) simp_all
  finally show ?thesis .
qed

lemma writes_encodeInteger:
  assumes "integer_encodable iv"
  shows "wr.writes (\<lambda>s. encodeInteger s iv) (integer_bits (integer_value iv))"
proof -
  have w32: "sint n = i \<Longrightarrow> i \<noteq> - (2 ^ 31) \<Longrightarrow> wr.writes (\<lambda>s. encodeInteger32 s n) (integer_bits i)" for n i
    using writes_encodeInteger32 [of n] by simp
  have w64: "sint n = i \<Longrightarrow> i \<noteq> - (2 ^ 63) \<Longrightarrow> wr.writes (\<lambda>s. encodeInteger64 s n) (integer_bits i)" for n i
    using writes_encodeInteger64 [of n] by simp
  have u: "- x \<noteq> uint w" if "0 < x" for x and w :: "'a::len word"
    using that unsigned_greater_eq [of w, where 'a = int] by linarith
  show ?thesis
  proof (cases "int_type iv")
    case EXI_INTEGER_8
    then show ?thesis using sint_ge [of "get_val8 iv"]
      by (auto simp: encodeInteger_def integer_value_def sint_scast_up intro!: w32)
  next
    case EXI_INTEGER_16
    then show ?thesis using sint_ge [of "get_val16 iv"]
      by (auto simp: encodeInteger_def integer_value_def sint_scast_up intro!: w32)
  next
    case EXI_UNSIGNED_INTEGER_8
    then show ?thesis using u [of "2 ^ 31" "get_val8 iv"]
      by (auto simp: encodeInteger_def integer_value_def sint_ucast_up intro!: w32)
  next
    case EXI_UNSIGNED_INTEGER_16
    then show ?thesis using u [of "2 ^ 31" "get_val16 iv"]
      by (auto simp: encodeInteger_def integer_value_def sint_ucast_up intro!: w32)
  next
    case EXI_UNSIGNED_INTEGER_32
    then show ?thesis using u [of "2 ^ 63" "get_val32 iv"]
      by (auto simp: encodeInteger_def integer_value_def sint_ucast_up intro!: w64)
  next
    case EXI_UNSIGNED_INTEGER_64
    then show ?thesis using u [of "2 ^ 63" "get_val64 iv"] assms
      by (auto simp: encodeInteger_def integer_value_def sint_eq_uint_small intro!: w64)
  qed (use assms in \<open>auto simp: encodeInteger_def integer_value_def intro!: w32 w64\<close>)
qed

subsection \<open>Strings and binary data\<close>

lemma take_drop_Cons: "i < n \<Longrightarrow> n \<le> length xs \<Longrightarrow> drop i (take n xs) = xs ! i # drop (Suc i) (take n xs)"
  by (subst drop_nth_Cons) auto

lemma encodeCharacters_from_all:
  "i \<le> n \<Longrightarrow> n \<le> length xs \<Longrightarrow> encodeCharacters_from i EXI_OK s xs n = encode_all s (drop i (take n xs))"
proof (induction "n - i" arbitrary: i s)
  case 0
  then show ?case by (simp add: encodeCharacters_from.simps)
next
  case (Suc k)
  have err: "e \<noteq> EXI_OK \<Longrightarrow> encodeCharacters_from j e s1 xs n = Some (e, s1)" for e j s1
    by (simp add: encodeCharacters_from.simps)
  have "i < n" "k = n - Suc i" using Suc.hyps by simp_all
  with Suc show ?case
    by (subst encodeCharacters_from.simps)
      (auto simp: take_drop_Cons encode_all_Cons err intro!: option_bind_cong)
qed

lemma encodeBytes_from_all:
  "i \<le> n \<Longrightarrow> n \<le> length xs \<Longrightarrow> encodeBytes_from i EXI_OK s xs n = encode_all s (drop i (take n xs))"
proof (induction "n - i" arbitrary: i s)
  case 0
  then show ?case by (simp add: encodeBytes_from.simps)
next
  case (Suc k)
  have err: "e \<noteq> EXI_OK \<Longrightarrow> encodeBytes_from j e s1 xs n = Some (e, s1)" for e j s1
    by (simp add: encodeBytes_from.simps)
  have "i < n" "k = n - Suc i" using Suc.hyps by simp_all
  with Suc show ?case
    by (subst encodeBytes_from.simps)
      (auto simp: take_drop_Cons encode_all_Cons err intro!: option_bind_cong)
qed

lemma writes_encodeCharacters:
  "unat len \<le> length chars \<Longrightarrow>
   wr.writes (\<lambda>s. encodeCharacters s chars len) (bytes_bits (take (unat len) chars))"
  by (simp add: encodeCharacters_def encodeCharacters_from_all writes_encode_all)

lemma writes_encodeBytes:
  "unat len \<le> length data \<Longrightarrow>
   wr.writes (\<lambda>s. encodeBytes s data len) (bytes_bits (take (unat len) data))"
  by (simp add: encodeBytes_def encodeBytes_from_all writes_encode_all)

text \<open>A length prefix, then the bytes: the length must fit 32 bits.\<close>

definition sized_bits :: "u8 list \<Rightarrow> bool list" where
  "sized_bits xs = bytes_bits (octets (length xs)) @ bytes_bits xs"

lemma unat_ucast_down32: "unat (n :: u64) < 2 ^ 32 \<Longrightarrow> unat (ucast n :: u32) = unat n"
  by (simp only: unsigned_ucast_eq) (simp add: take_bit_nat_eq_self)

lemma writes_encodeString:
  assumes "unat (str_len st) \<le> length (characters st)" "unat (str_len st) < 2 ^ 32"
  shows "wr.writes (\<lambda>s. encodeString s st) (sized_bits (take (unat (str_len st)) (characters st)))"
proof -
  have "min (length (characters st)) (unat (str_len st)) = unat (ucast (str_len st) :: u32)"
    using assms by (simp add: unat_ucast_down32)
  then show ?thesis unfolding encodeString_def sized_bits_def length_take
    by (simp only:) (intro wr.writes_then writes_encodeUnsignedInteger32 writes_encodeCharacters assms)
qed

lemma writes_encodeBinary:
  assumes "unat (bytes_len b) \<le> length (bytes_data b)" "unat (bytes_len b) < 2 ^ 32"
  shows "wr.writes (\<lambda>s. encodeBinary s b) (sized_bits (take (unat (bytes_len b)) (bytes_data b)))"
proof -
  have "min (length (bytes_data b)) (unat (bytes_len b)) = unat (ucast (bytes_len b) :: u32)"
    using assms by (simp add: unat_ucast_down32)
  then show ?thesis unfolding encodeBinary_def sized_bits_def length_take
    by (simp only:) (intro wr.writes_then writes_encodeUnsignedInteger32 writes_encodeBytes assms)
qed

subsection \<open>Restricted character sets\<close>

text \<open>A character of the set is its code; any other is the size of the set and the character.\<close>

fun index_of :: "u8 \<Rightarrow> u8 list \<Rightarrow> nat" where
  "index_of c [] = 0"
| "index_of c (x # xs) = (if x = c then 0 else Suc (index_of c xs))"

definition rcs_char_bits :: "nat \<Rightarrow> u8 list \<Rightarrow> u8 \<Rightarrow> bool list" where
  "rcs_char_bits n cs c =
     bits n (of_nat (index_of c cs) :: u32) @ (if index_of c cs = length cs then bits 8 c else [])"

lemma index_of_le: "index_of c xs \<le> length xs"
  by (induction xs) auto

lemma nth_index_of: "index_of c xs < length xs \<Longrightarrow> xs ! index_of c xs = c"
  by (induction xs) (auto split: if_splits)

lemma find_rcs_index:
  "k \<le> length xs \<Longrightarrow> find_rcs k (length xs) xs c =
     (let j = k + index_of c (drop k xs) in Some (if j = length xs then None else Some j))"
proof (induction "length xs - k" arbitrary: k)
  case 0
  then show ?case by (subst find_rcs.simps) simp
next
  case (Suc n)
  then have "k < length xs" "n = length xs - Suc k" by simp_all
  with Suc show ?case
    by (subst find_rcs.simps) (auto simp: drop_nth_Cons Let_def)
qed

lemma writes_rcs_char:
  assumes "n \<le> 8"
  shows "wr.writes (\<lambda>s. do {
      rcsCode \<leftarrow> find_rcs 0 (length cs) cs c;
      (case rcsCode of
          None \<Rightarrow> do { (_, s1) \<leftarrow> encodeNBitUnsignedInteger s n (of_nat (length cs)); encode s1 c }
        | Some k \<Rightarrow> encodeNBitUnsignedInteger s n (of_nat k)) }) (rcs_char_bits n cs c)"
  using wr.writes_next [OF writes_encodeNBit [OF assms, of "of_nat (length cs)"] writes_encode [of c]]
    writes_encodeNBit [OF assms, of "of_nat (index_of c cs)"]
  by (auto simp: find_rcs_index rcs_char_bits_def Let_def)

lemma writes_encodeRCSCharacters_from:
  assumes "n \<le> 8" "len \<le> length chars"
  shows "i \<le> len \<Longrightarrow> wr.writes (\<lambda>s. encodeRCSCharacters_from i EXI_OK s chars len n (length cs) cs)
    (concat (map (rcs_char_bits n cs) (drop i (take len chars))))"
proof (induction "len - i" arbitrary: i)
  case 0
  then show ?case by (simp add: encodeRCSCharacters_from.simps wr.writes_ok)
next
  case (Suc k)
  then have i: "i < len" "k = len - Suc i" by simp_all
  have err: "e \<noteq> EXI_OK \<Longrightarrow> encodeRCSCharacters_from j e s1 chars len n (length cs) cs = Some (e, s1)" for e j s1
    by (simp add: encodeRCSCharacters_from.simps)
  let ?k = "\<lambda>s. encodeRCSCharacters_from (i + 1) EXI_OK s chars len n (length cs) cs"
  have eq: "encodeRCSCharacters_from i EXI_OK s chars len n (length cs) cs = do {
      (errn, s1) \<leftarrow> do {
        rcsCode \<leftarrow> find_rcs 0 (length cs) cs (chars ! i);
        (case rcsCode of
            None \<Rightarrow> do { (_, s1) \<leftarrow> encodeNBitUnsignedInteger s n (of_nat (length cs)); encode s1 (chars ! i) }
          | Some k \<Rightarrow> encodeNBitUnsignedInteger s n (of_nat k)) };
      if errn = EXI_OK then ?k s1 else Some (errn, s1) }" for s
    using i assms(2) by (subst encodeRCSCharacters_from.simps)
      (auto simp: bind_assoc err intro!: option_bind_cong)
  have "wr.writes ?k (concat (map (rcs_char_bits n cs) (drop (Suc i) (take len chars))))"
    using Suc i by simp
  from wr.writes_then [OF writes_rcs_char [OF assms(1)] this] show ?case
    using i assms(2) by (simp add: eq take_drop_Cons)
qed

lemma writes_encodeRCSCharacters:
  "n \<le> 8 \<Longrightarrow> unat len \<le> length chars \<Longrightarrow>
   wr.writes (\<lambda>s. encodeRCSCharacters s chars len n (length cs) cs)
     (concat (map (rcs_char_bits n cs) (take (unat len) chars)))"
  using writes_encodeRCSCharacters_from [of n "unat len" chars 0 cs]
  by (simp add: encodeRCSCharacters_def)

subsection \<open>Floats, decimals, dates\<close>

lemma writes_encodeFloat:
  assumes "sint (mantissa f) \<noteq> - (2 ^ 63)"
  shows "wr.writes (\<lambda>s. encodeFloat s f) (integer_bits (sint (mantissa f)) @ integer_bits (sint (exponent f)))"
proof -
  have e: "sint (scast (exponent f) :: u32) = sint (exponent f)" by (rule sint_scast_up) simp
  moreover have "sint (exponent f) \<noteq> - (2 ^ 31)" using sint_ge [of "exponent f"] by auto
  ultimately have "wr.writes (\<lambda>s. encodeInteger32 s (scast (exponent f))) (integer_bits (sint (exponent f)))"
    using writes_encodeInteger32 [of "scast (exponent f)"] by simp
  from wr.writes_then [OF writes_encodeInteger64 [OF assms] this] show ?thesis
    by (simp add: encodeFloat_def)
qed

definition decimal_ok :: "exi_decimal \<Rightarrow> bool" where
  "decimal_ok d \<longleftrightarrow>
     int_type_valid (int_type (integral d)) \<and> 0 \<le> integer_value (integral d) \<and>
     int_type_valid (int_type (reverseFraction d)) \<and> 0 \<le> integer_value (reverseFraction d)"

definition decimal_bits :: "exi_decimal \<Rightarrow> bool list" where
  "decimal_bits d = (negative d \<noteq> 0) # bytes_bits (octets (nat (integer_value (integral d)))) @
     bytes_bits (octets (nat (integer_value (reverseFraction d))))"

lemma writes_encodeDecimal:
  assumes "decimal_ok d"
  shows "wr.writes (\<lambda>s. encodeDecimal s d) (decimal_bits d)"
proof -
  have "decimal_bits d = [negative d \<noteq> 0] @ bytes_bits (octets (nat (integer_value (integral d)))) @
     bytes_bits (octets (nat (integer_value (reverseFraction d))))" by (simp add: decimal_bits_def)
  then show ?thesis using assms unfolding encodeDecimal_def decimal_ok_def
    by (simp only:) (intro wr.writes_then writes_encodeBoolean writes_encodeUnsignedInteger, simp_all)
qed

text \<open>The fields of a date and the bits they take.\<close>

fun has_year :: "exi_datetime_type \<Rightarrow> bool" where
  "has_year EXI_DATETIME_GYEAR = True"
| "has_year EXI_DATETIME_GYEARMONTH = True"
| "has_year EXI_DATETIME_DATE = True"
| "has_year EXI_DATETIME_DATETIME = True"
| "has_year _ = False"

fun has_monthDay :: "exi_datetime_type \<Rightarrow> bool" where
  "has_monthDay EXI_DATETIME_GYEAR = False"
| "has_monthDay EXI_DATETIME_TIME = False"
| "has_monthDay _ = True"

fun has_time :: "exi_datetime_type \<Rightarrow> bool" where
  "has_time EXI_DATETIME_DATETIME = True"
| "has_time EXI_DATETIME_TIME = True"
| "has_time _ = False"

fun datetime_type_valid :: "exi_datetime_type \<Rightarrow> bool" where
  "datetime_type_valid (EXI_DATETIME_TYPE_INVALID _) = False"
| "datetime_type_valid _ = True"

definition year_bits :: "exi_datetime \<Rightarrow> bool list" where
  "year_bits d = integer_bits (sint (year d) - 2000)"

definition time_bits :: "exi_datetime \<Rightarrow> bool list" where
  "time_bits d = bits 17 (dt_time d) @
     (if presenceFractionalSecs d \<noteq> 0 then True # bytes_bits (octets (unat (fractionalSecs d))) else [False])"

definition timezone_bits :: "exi_datetime \<Rightarrow> bool list" where
  "timezone_bits d = (if presenceTimezone d \<noteq> 0 then True # bits 11 (timezone d + 896) else [False])"

definition datetime_bits :: "exi_datetime \<Rightarrow> bool list" where
  "datetime_bits d =
     (if has_year (dt_type d) then year_bits d else []) @
     (if has_monthDay (dt_type d) then bits 9 (monthDay d) else []) @
     (if has_time (dt_type d) then time_bits d else []) @ timezone_bits d"

definition year_ok :: "exi_datetime \<Rightarrow> bool" where
  "year_ok d \<longleftrightarrow> (has_year (dt_type d) \<longrightarrow> - (2 ^ 31) < sint (year d) - 2000)"

lemma sint_minus_2000:
  assumes "- (2 ^ 31) \<le> sint (y :: u32) - 2000"
  shows "sint (word_of_int (sint y - 2000) :: u32) = sint y - 2000"
proof -
  have "sint (word_of_int (sint y - 2000) :: u32) = signed_take_bit (LENGTH(32) - 1) (sint y - 2000)"
    by (rule sint_sbintrunc')
  also have "\<dots> = sint y - 2000"
    using assms sint_lt [of y] by (intro signed_take_bit_int_eq_self) simp_all
  finally show ?thesis .
qed

lemma emits_encode_year:
  assumes "- (2 ^ 31) < sint y - 2000"
  shows "wr.emits (\<lambda>s. encode_year s y) (integer_bits (sint y - 2000))"
  using assms writes_encodeInteger32 [of "word_of_int (sint y - 2000)"] sint_minus_2000 [of y]
  by (intro wr.writes_imp_emits) (simp add: encode_year_def)

lemma emits_encodeBoolean_1: "wr.emits (\<lambda>s. encodeBoolean s 1) [True]"
  using writes_encodeBoolean [of 1] by (simp add: wr.writes_imp_emits)

lemma emits_encodeBoolean_0: "wr.emits (\<lambda>s. encodeBoolean s 0) [False]"
  using writes_encodeBoolean [of 0] by (simp add: wr.writes_imp_emits)

lemma emits_encode_time_part: "wr.emits (\<lambda>s. encode_time_part s d) (time_bits d)"
proof (cases "presenceFractionalSecs d = 0")
  case True
  from wr.emits_then [OF emits_encodeNBit [of 17 "dt_time d"] emits_encodeBoolean_0] True show ?thesis
    by (simp add: encode_time_part_def time_bits_def cong: if_cong)
next
  case False
  from wr.emits_then [OF emits_encodeNBit [of 17 "dt_time d"]
      wr.emits_then [OF emits_encodeBoolean_1 wr.writes_imp_emits [OF writes_encodeUnsignedInteger32]]] False
  show ?thesis by (simp add: encode_time_part_def time_bits_def cong: if_cong)
qed

lemma emits_encode_timezone_part: "wr.emits (\<lambda>s. encode_timezone_part s d) (timezone_bits d)"
  using wr.emits_then [OF emits_encodeBoolean_1 emits_encodeNBit [of 11 "timezone d + 896"]] emits_encodeBoolean_0
  by (simp add: encode_timezone_part_def timezone_bits_def)

lemma emits_then_else:
  assumes "wr.emits m bs" "wr.emits k cs"
  shows "wr.emits (\<lambda>s. do { (e, s1) \<leftarrow> m s; if e = EXI_OK then k s1 else f e s1 }) (bs @ cs)"
  unfolding wr.emits_def
proof (intro allI impI)
  fix s assume s: "wf_out s" "(length (written s) + length (bs @ cs)) div 8 \<le> stream_size s"
  have "(length (written s) + length bs) div 8 \<le> (length (written s) + length (bs @ cs)) div 8"
    by (rule div_le_mono) simp
  with s have "(length (written s) + length bs) div 8 \<le> stream_size s" by linarith
  then obtain s1 where "m s = Some (EXI_OK, s1)"
    using wr.emitsD [OF assms(1) s(1)] by blast
  with wr.emitsD [OF wr.emits_then [OF assms] s]
  show "\<exists>s'. (do { (e, s1) \<leftarrow> m s; if e = EXI_OK then k s1 else f e s1 }) = Some (EXI_OK, s') \<and> wf_out s' \<and>
      stream_size s' = stream_size s \<and> written s' = written s @ bs @ cs" by simp
qed

lemma emits_encode_datetime_fields:
  assumes "datetime_type_valid (dt_type d)" "year_ok d"
  shows "wr.emits (\<lambda>s. encode_datetime_fields s d)
    ((if has_year (dt_type d) then year_bits d else []) @
     (if has_monthDay (dt_type d) then bits 9 (monthDay d) else []) @
     (if has_time (dt_type d) then time_bits d else []))"
proof -
  have y: "wr.emits (\<lambda>s. encode_year s (year d)) (year_bits d)" if "has_year (dt_type d)"
    using assms(2) that by (simp add: year_ok_def year_bits_def emits_encode_year)
  have md: "wr.emits (\<lambda>s. encodeNBitUnsignedInteger s 9 (monthDay d)) (bits 9 (monthDay d))"
    by (rule emits_encodeNBit) simp
  have mdt: "wr.emits (\<lambda>s. do { (errn, s2) \<leftarrow> encodeNBitUnsignedInteger s 9 (monthDay d);
      if errn \<noteq> EXI_OK then Some (errn, s2) else encode_time_part s2 d }) (bits 9 (monthDay d) @ time_bits d)"
    using wr.emits_then [OF md emits_encode_time_part [of d]]
    by (rule back_subst [where P = "\<lambda>m. wr.emits m bs" for bs]) (auto intro!: ext option_bind_cong)
  show ?thesis using assms(1) y md emits_encode_time_part [of d]
    by (cases "dt_type d")
      (auto simp: encode_datetime_fields_def intro: wr.emits_then emits_then_else mdt)
qed

lemma emits_encodeDateTime:
  assumes "datetime_type_valid (dt_type d)" "year_ok d"
  shows "wr.emits (\<lambda>s. encodeDateTime s d) (datetime_bits d)"
  using wr.emits_then [OF emits_encode_datetime_fields [OF assms] emits_encode_timezone_part [of d]]
  by (simp add: encodeDateTime_def datetime_bits_def)

subsection \<open>Properties\<close>

text \<open>C26: the three unsigned encoders, which differ in their control flow (a fall-through switch over
  the number of blocks, a loop), all behave on every stream exactly like the reference encoder that
  writes the octets of the variable-length format one after the other until one fails.\<close>

theorem unsigned_encoders_agree:
  "encodeUnsignedInteger16 s n = encode_all s (octets (unat n)) \<and>
   encodeUnsignedInteger32 s m = encode_all s (octets (unat m)) \<and>
   encodeUnsignedInteger64 s k = encode_all s (octets (unat k))"
  by (simp add: encodeUnsignedInteger16_octets encodeUnsignedInteger32_octets encodeUnsignedInteger64_octets)

text \<open>C27: what \<open>encodeInteger\<close> writes for an integer with a type tag, in every case. An integer that is
  \<open>integer_encodable\<close> is written by its mathematical value alone: whatever the width of its tag, the bits
  are those of the variable-length format of the value. An unsigned 64-bit value above \<open>2 ^ 63\<close> is written
  as the negative number \<open>2 ^ 64\<close> below it. \<open>2 ^ 63\<close> itself and the least integers of 32 and of 64 bits have
  no defined encoding, because their negation overflows; an invalid tag is refused.\<close>

theorem tagged_encoding_by_value:
  "(integer_encodable v \<longrightarrow> wr.writes (\<lambda>s. encodeInteger s v) (integer_bits (integer_value v))) \<and>
   (int_type v = EXI_UNSIGNED_INTEGER_64 \<and> 2 ^ 63 < integer_value v \<longrightarrow>
      wr.writes (\<lambda>s. encodeInteger s v) (integer_bits (integer_value v - 2 ^ 64))) \<and>
   (int_type v = EXI_UNSIGNED_INTEGER_64 \<and> integer_value v = 2 ^ 63 \<or>
    int_type v = EXI_INTEGER_64 \<and> integer_value v = - (2 ^ 63) \<or>
    int_type v = EXI_INTEGER_32 \<and> integer_value v = - (2 ^ 31) \<longrightarrow> (\<forall>s. encodeInteger s v = None)) \<and>
   (\<not> int_type_valid (int_type v) \<longrightarrow> (\<forall>s. encodeInteger s v = Some (EXI_UNSUPPORTED_INTEGER_VALUE_TYPE, s)))"
proof (intro conjI impI)
  assume "integer_encodable v"
  then show "wr.writes (\<lambda>s. encodeInteger s v) (integer_bits (integer_value v))" by (rule writes_encodeInteger)
next
  assume v: "int_type v = EXI_UNSIGNED_INTEGER_64 \<and> 2 ^ 63 < integer_value v"
  then have "sint (get_val64 v) = integer_value v - 2 ^ 64" "2 ^ 63 < uint (get_val64 v)"
    using sint_above_half [of "get_val64 v"] by (auto simp: integer_value_def)
  then show "wr.writes (\<lambda>s. encodeInteger s v) (integer_bits (integer_value v - 2 ^ 64))"
    using v writes_encodeInteger64 [of "get_val64 v"] by (simp add: encodeInteger_def integer_value_def)
next
  assume "int_type v = EXI_UNSIGNED_INTEGER_64 \<and> integer_value v = 2 ^ 63 \<or>
    int_type v = EXI_INTEGER_64 \<and> integer_value v = - (2 ^ 63) \<or>
    int_type v = EXI_INTEGER_32 \<and> integer_value v = - (2 ^ 31)"
  then show "\<forall>s. encodeInteger s v = None"
    using sint_above_half [of "get_val64 v"]
    by (auto simp: encodeInteger_def integer_value_def encodeInteger32_def encodeInteger64_def)
next
  assume "\<not> int_type_valid (int_type v)"
  then show "\<forall>s. encodeInteger s v = Some (EXI_UNSUPPORTED_INTEGER_VALUE_TYPE, s)"
    by (cases "int_type v") (simp_all add: encodeInteger_def)
qed

theorem tagged_encoding_by_value_witness:
  "wr.writes (\<lambda>s. encodeInteger s \<lparr>int_type = EXI_INTEGER_16, int_val = 0xFFFE\<rparr>) (integer_bits (- 2)) \<and>
   wr.writes (\<lambda>s. encodeInteger s \<lparr>int_type = EXI_UNSIGNED_INTEGER_64, int_val = 0xFFFFFFFFFFFFFFFE\<rparr>) (integer_bits (- 2)) \<and>
   encodeInteger (blank_stream 9) \<lparr>int_type = EXI_INTEGER_32, int_val = 0x80000000\<rparr> = None"
proof -
  let ?v = "\<lparr>int_type = EXI_INTEGER_16, int_val = 0xFFFE\<rparr>"
  let ?u = "\<lparr>int_type = EXI_UNSIGNED_INTEGER_64, int_val = 0xFFFFFFFFFFFFFFFE\<rparr>"
  let ?l = "\<lparr>int_type = EXI_INTEGER_32, int_val = 0x80000000\<rparr>"
  have v: "integer_value ?v = - 2" "integer_value ?u = 18446744073709551614" "integer_value ?l = - (2 ^ 31)"
    by (simp_all add: integer_value_def get_val16_def get_val32_def get_val64_def)
  with tagged_encoding_by_value [of ?v] tagged_encoding_by_value [of ?u] tagged_encoding_by_value [of ?l]
  show ?thesis by simp
qed

end
