(* ===== verification/DecoderSpec.thy ===== *)
theory DecoderSpec
  imports DecoderChannel EncoderSpec
begin

section \<open>What the decoder channel reads\<close>

text \<open>
  The specification of \<open>DecoderChannel.c\<close>, in the calculus of the bit source: which bits each
  function consumes and which value it delivers. The bits are those the encoder channel writes.
\<close>

subsection \<open>The primitives\<close>

lemma takes_decode: "rd.takes (\<lambda>s. decode j s b0) (bits 8 b) b"
proof -
  have "take_bit 8 (ucast b) = (ucast b :: u32)"
    by (rule bit_word_eqI) (auto simp: bit_simps dest: bit_imp_le_length)
  moreover have "bits 8 (ucast b :: u32) = bits 8 b" by (simp add: bits_ucast)
  ultimately have r: "rd.takes (\<lambda>s. readBits s 8 j) (bits 8 b) (ucast b :: u32)"
    using rd.takes_get_bits [of 8 "ucast b" j] by simp
  have "unat (ucast b :: u32) < 256" using unsigned_less [of b, where 'a = nat] by (simp add: unat_ucast_up)
  then have le: "\<not> 256 < (ucast b :: u32)" by (simp add: word_less_nat_alt)
  have id: "ucast (ucast b :: u32) = b" by (rule bit_word_eqI) (auto simp: bit_simps)
  show ?thesis unfolding rd.takes_def decode_def
  proof (intro allI impI)
    fix s r assume "wf_in s" "unread s = bits 8 b @ r"
    from rd.takesD [OF \<open>rd.takes (\<lambda>s. readBits s 8 j) (bits 8 b) (ucast b :: u32)\<close> this] le id
    show "\<exists>s'. (readBits s 8 j \<bind> (\<lambda>(errn, bb, s1).
        if errn = EXI_OK then if 256 < bb then Some (EXI_ERROR_UNEXPECTED_BYTE_VALUE, b0, s1)
          else Some (EXI_OK, ucast bb, s1) else Some (errn, b0, s1))) = Some (EXI_OK, b, s') \<and>
        wf_in s' \<and> unread s' = r \<and> stream_data s' = stream_data s"
      by auto
  qed
qed

lemma takes_decodeBoolean: "rd.takes (\<lambda>s. decodeBoolean j s) [v] (of_bool v)"
proof -
  have "rd.takes (\<lambda>s. readBits s 1 j) [v] (of_bool v :: u32)"
    using rd.takes_get_bits [of 1 1 j] rd.takes_get_bits [of 1 0 j] by (cases v) (simp_all add: bits_def)
  from rd.takes_map [OF this, of "\<lambda>_ ub. if ub = 0 then 0 else 1 :: int"] show ?thesis
    by (cases v) (simp_all add: decodeBoolean_def)
qed

lemma takes_decodeNBit:
  "n \<le> 32 \<Longrightarrow> take_bit n v = v \<Longrightarrow> rd.takes (\<lambda>s. decodeNBitUnsignedInteger s n u) (bits n v) v"
  using rd.takes_get_bits [of n v u] rd.takes_ok [of "0 :: u32"]
  by (cases "n = 0") (auto simp: decodeNBitUnsignedInteger_def)

subsection \<open>Unsigned integers of fixed width\<close>

lemma unat_octet_last: "n < 128 \<Longrightarrow> unat ((of_nat n :: u8) AND 127) = n"
  by (simp add: octet_last)

lemma unat_octet_more: "unat (((of_nat n :: u8) OR 128) AND 127) = n mod 128"
  using unat_octet_last [of "n mod 128"] by (simp add: octet_more(2) octet_and_127 octet_last)

lemma takes_decode_octets:
  assumes accu: "\<And>sh b acc. 2 ^ sh * unat (b AND 127) < bound \<Longrightarrow>
      accu sh b acc = Some (acc + of_nat (2 ^ sh * unat (b AND 127)))"
  shows "sh + 7 * (length (octets n) - 1) < width \<Longrightarrow> 2 ^ sh * n < bound \<Longrightarrow>
    rd.takes (\<lambda>s. decode_octets j width accu s b0 sh acc) (bytes_bits (octets n))
      (acc + of_nat (2 ^ sh * n) :: 'a::len word)"
proof (induction n arbitrary: sh b0 acc rule: octets.induct)
  case (1 n)
  show ?case
  proof (cases "n < 128")
    case True
    have ac: "accu sh (of_nat n) acc = Some (acc + of_nat (2 ^ sh * n))"
      using accu [of sh "of_nat n" acc] "1.prems"(2) by (simp only: unat_octet_last [OF True])
    have "rd.takes (\<lambda>s. do { (errn, b, s1) \<leftarrow> decode j s b0; Some (errn, acc + of_nat (2 ^ sh * n), s1) })
        (bits 8 (of_nat n :: u8)) (acc + of_nat (2 ^ sh * n))"
      by (rule rd.takes_map [OF takes_decode])
    moreover have "decode_octets j width accu s b0 sh acc =
        do { (errn, b, s1) \<leftarrow> decode j s b0; Some (errn, acc + of_nat (2 ^ sh * n), s1) }"
      if "\<exists>s'. decode j s b0 = Some (EXI_OK, of_nat n, s')" for s
      using that "1.prems" octet_last(1) [OF True] ac by (auto simp: decode_octets.simps)
    moreover have "\<exists>s'. decode j s b0 = Some (EXI_OK, of_nat n, s')"
      if "wf_in s" "unread s = bits 8 (of_nat n :: u8) @ r" for s r
      using rd.takesD [OF takes_decode [of j b0] that] by auto
    ultimately show ?thesis using True by (simp add: octets_small rd.takes_def)
  next
    case False
    define w where "w = (of_nat n OR 128 :: u8)"
    let ?acc = "acc + of_nat (2 ^ sh * (n mod 128))"
    obtain m where "length (octets (n div 128)) = Suc m"
      using octets_ne [of "n div 128"] by (cases "octets (n div 128)") auto
    then have sh: "sh < width" "sh + 7 + 7 * (length (octets (n div 128)) - 1) < width"
      using "1.prems" False by (simp_all add: octets_large)
    have split: "2 ^ sh * n = 2 ^ sh * (n mod 128) + 2 ^ (sh + 7) * (n div 128)"
      unfolding power_add mult.assoc distrib_left [symmetric] by simp
    then have less: "2 ^ sh * (n mod 128) < bound" "2 ^ (sh + 7) * (n div 128) < bound"
      using "1.prems"(2) by linarith+
    from split have val: "?acc + of_nat (2 ^ (sh + 7) * (n div 128)) = acc + of_nat (2 ^ sh * n)"
      by (simp only: of_nat_add add.assoc)
    have IH: "rd.takes (\<lambda>s. decode_octets j width accu s w (sh + 7) ?acc) (bytes_bits (octets (n div 128)))
        (acc + of_nat (2 ^ sh * n))"
      using "1.IH" [OF False sh(2) less(2), of w ?acc] by (simp only: val)
    have ac: "accu sh w acc = Some ?acc"
      using accu [of sh w acc] less(1) by (simp only: w_def unat_octet_more)
    have d: "drop_bit 7 w = 1" unfolding w_def by (rule octet_more)
    show ?thesis unfolding rd.takes_def
    proof (intro allI impI)
      fix s r assume s: "wf_in s" "unread s = bytes_bits (octets n) @ r"
      then have "unread s = bits 8 w @ bytes_bits (octets (n div 128)) @ r"
        using False by (simp add: octets_large w_def)
      from rd.takesD [OF takes_decode [of j b0 w] s(1) this]
      obtain s1 where s1: "decode j s b0 = Some (EXI_OK, w, s1)" "wf_in s1"
        "unread s1 = bytes_bits (octets (n div 128)) @ r"
        "stream_data s1 = stream_data s" by auto
      have "decode_octets j width accu s b0 sh acc = decode_octets j width accu s1 w (sh + 7) ?acc"
        using sh(1) s1(1) by (subst decode_octets.simps) (simp add: d ac)
      then show "\<exists>s'. decode_octets j width accu s b0 sh acc = Some (EXI_OK, acc + of_nat (2 ^ sh * n), s') \<and>
          wf_in s' \<and> unread s' = r \<and> stream_data s' = stream_data s" using rd.takesD [OF IH s1(2,3)] s1(4) by simp
    qed
  qed
qed

lemma push_bit_ucast:
  "push_bit sh (ucast (b :: u8) :: 'a::len word) = of_nat (2 ^ sh * unat b)"
  by (simp add: push_bit_eq_mult mult.commute)

lemma ucast_down_of_nat: "LENGTH('b) \<le> LENGTH('a) \<Longrightarrow> ucast (of_nat n :: 'a::len word) = (of_nat n :: 'b::len word)"
  by (rule bit_word_eqI) (auto simp: bit_simps)

lemma accu16:
  assumes "2 ^ sh * unat (b AND 127) < 2 ^ 31"
  shows "accu16 sh b acc = Some (acc + of_nat (2 ^ sh * unat (b AND 127)))"
proof -
  have "(ucast acc :: u32) + push_bit sh (ucast (b AND 127)) = of_nat (unat acc + 2 ^ sh * unat (b AND 127))"
    by (simp only: push_bit_ucast of_nat_add of_nat_unat)
  then have "(ucast ((ucast acc :: u32) + push_bit sh (ucast (b AND 127))) :: u16) =
      of_nat (unat acc + 2 ^ sh * unat (b AND 127))"
    by (simp only:) (rule ucast_down_of_nat, simp)
  then have "(ucast ((ucast acc :: u32) + push_bit sh (ucast (b AND 127))) :: u16) =
      acc + of_nat (2 ^ sh * unat (b AND 127))"
    by (simp only: of_nat_add of_nat_unat ucast_id)
  moreover have "\<not> 2 ^ 31 \<le> unat (b AND 127) * 2 ^ sh" using assms by (simp only: not_le mult.commute)
  ultimately show ?thesis by (simp only: accu16_def if_False)
qed

lemma accu32:
  assumes "2 ^ sh * unat (b AND 127) < 2 ^ 31"
  shows "accu32 sh b acc = Some (acc + of_nat (2 ^ sh * unat (b AND 127)))"
proof -
  have "\<not> 2 ^ 31 \<le> unat (b AND 127) * 2 ^ sh" using assms by (simp only: not_le mult.commute)
  then show ?thesis by (simp only: accu32_def push_bit_ucast if_False)
qed

lemma accu64: "accu64 sh b acc = Some (acc + of_nat (2 ^ sh * unat (b AND 127)))"
  by (simp only: accu64_def push_bit_ucast)

lemma octets_le_5: "n < 2 ^ 32 \<Longrightarrow> length (octets n) \<le> 5"
  by (rule length_octets_le) simp_all

lemma octets_le_10: "n < 2 ^ 64 \<Longrightarrow> length (octets n) \<le> 10"
  by (rule length_octets_le) simp_all

lemma takes_decodeUnsignedInteger16:
  "n < 2 ^ 31 \<Longrightarrow> rd.takes (\<lambda>s. decodeUnsignedInteger16 j s) (bytes_bits (octets n)) (of_nat n)"
  using takes_decode_octets [of "2 ^ 31" accu16 0 n 32 j "ucast j" 0, OF accu16] octets_le_5 [of n]
  by (simp add: decodeUnsignedInteger16_def)

lemma takes_decodeUnsignedInteger32:
  "n < 2 ^ 31 \<Longrightarrow> rd.takes (\<lambda>s. decodeUnsignedInteger32 j s) (bytes_bits (octets n)) (of_nat n)"
  using takes_decode_octets [of "2 ^ 31" accu32 0 n 32 j "ucast j" 0, OF accu32] octets_le_5 [of n]
  by (simp add: decodeUnsignedInteger32_def)

lemma takes_decodeUnsignedInteger64:
  "n < 2 ^ 64 \<Longrightarrow> rd.takes (\<lambda>s. decodeUnsignedInteger64 j s) (bytes_bits (octets n)) (of_nat n)"
  using takes_decode_octets [of "2 ^ 64" accu64 0 n 64 j "ucast j" 0, OF accu64] octets_le_10 [of n]
  by (simp add: decodeUnsignedInteger64_def)

lemma takes_decodeUnsignedIntegerSizeT:
  "n < 2 ^ 64 \<Longrightarrow> rd.takes (\<lambda>s. decodeUnsignedIntegerSizeT j s old) (bytes_bits (octets n)) (of_nat n)"
  using rd.takes_map [OF takes_decodeUnsignedInteger64 [of n j], of "\<lambda>e v. if e = EXI_OK then v else old"]
  by (simp add: decodeUnsignedIntegerSizeT_def)

subsection \<open>Integers of any width\<close>

text \<open>The octets as stored in \<open>maskedOctets\<close>, and their combination.\<close>

definition masked :: "nat \<Rightarrow> u8 list" where
  "masked n = map (\<lambda>b. b AND 127) (octets n)"

lemma length_masked [simp]: "length (masked n) = length (octets n)"
  by (simp add: masked_def)

lemma masked_small: "n < 128 \<Longrightarrow> masked n = [of_nat n]"
  by (simp add: masked_def octets_small octet_last)

lemma masked_large: "\<not> n < 128 \<Longrightarrow> masked n = of_nat (n mod 128) # masked (n div 128)"
  by (simp add: masked_def octets_large octet_more octet_and_127)

lemma takes_read_masked:
  "length ms + length (octets n) \<le> 10 \<Longrightarrow>
   rd.takes (\<lambda>s. read_masked j s b0 ms) (bytes_bits (octets n)) (last (octets n), ms @ masked n)"
proof (induction n arbitrary: b0 ms rule: octets.induct)
  case (1 n)
  show ?case unfolding rd.takes_def
  proof (intro allI impI)
    fix s r assume s: "wf_in s" "unread s = bytes_bits (octets n) @ r"
    show "\<exists>s'. read_masked j s b0 ms = Some (EXI_OK, (last (octets n), ms @ masked n), s') \<and> wf_in s' \<and> unread s' = r \<and> stream_data s' = stream_data s"
    proof (cases "n < 128")
      case True
      then have "unread s = bits 8 (of_nat n :: u8) @ r" using s by (simp add: octets_small)
      from rd.takesD [OF takes_decode [of j b0] s(1) this] True "1.prems" show ?thesis
        by (subst read_masked.simps) (auto simp: octets_small masked_small octet_last)
    next
      case False
      let ?o = "of_nat n OR 128 :: u8"
      have "unread s = bits 8 ?o @ bytes_bits (octets (n div 128)) @ r"
        using s False by (simp add: octets_large)
      from rd.takesD [OF takes_decode [of j b0 ?o] s(1) this]
      obtain s1 where s1: "decode j s b0 = Some (EXI_OK, ?o, s1)" "wf_in s1"
        "unread s1 = bytes_bits (octets (n div 128)) @ r"
        "stream_data s1 = stream_data s" by auto
      have l: "length ms < 10" "length (ms @ [?o AND 127]) + length (octets (n div 128)) \<le> 10"
        using "1.prems" False by (simp_all add: octets_large)
      from rd.takesD [OF "1.IH" [OF False l(2), of ?o] s1(2,3)] s1(1,4) l(1) False show ?thesis
        by (subst read_masked.simps) (auto simp: octets_large masked_large octet_more octet_and_127)
    qed
  qed
qed

lemma combine_Cons: "combine (m # ms) = (push_bit 7 (combine ms) OR ucast m :: 'a::len word)"
  by (simp add: combine_def)

lemma push_7_or:
  assumes "m < 128" "8 \<le> LENGTH('a)"
  shows "push_bit 7 v OR ucast (of_nat m :: u8) = (of_nat (unat v * 128 + m) :: 'a::len word)"
proof -
  have b: "bit (of_nat m :: u8) i \<Longrightarrow> i < 7" for i
    using assms(1) octet_last(2) [of m] bit_and_iff [of "of_nat m :: u8" 127 i]
      bit_mask_iff [of 7 i, where 'a = u8] by (auto simp: mask_eq_exp_minus_1)
  have u: "ucast (of_nat m :: u8) = (of_nat m :: 'a word)"
  proof -
    have "ucast (of_nat m :: u8) = (of_nat (unat (of_nat m :: u8)) :: 'a word)" by (simp only: of_nat_unat)
    then show ?thesis by (simp only: octet_last(4) [OF assms(1)])
  qed
  have "push_bit 7 v AND ucast w = (0 :: 'a word)" if "\<And>i. bit w i \<Longrightarrow> i < 7" for w :: u8
    by (rule bit_word_eqI) (auto simp: bit_simps dest: that)
  from this [OF b] have "push_bit 7 v OR ucast (of_nat m :: u8) = push_bit 7 v + (ucast (of_nat m :: u8) :: 'a word)"
    by (rule disjunctive_add_eq_or [symmetric])
  also have "\<dots> = of_nat (unat v * 128) + of_nat m"
    unfolding u by (simp add: push_bit_eq_mult mult.commute)
  finally show ?thesis by simp
qed

lemma combine_masked: "8 \<le> LENGTH('a) \<Longrightarrow> combine (masked n) = (of_nat n :: 'a::len word)"
proof (induction n rule: octets.induct)
  case (1 n)
  show ?case
  proof (cases "n < 128")
    case True
    then show ?thesis using push_7_or [of n "0 :: 'a word"] "1.prems" by (simp add: masked_small combine_def)
  next
    case False
    have "of_nat n = (of_nat (n div 128) * 128 + of_nat (n mod 128) :: 'a word)"
      using div_mult_mod_eq [of n 128] by (metis of_nat_add of_nat_mult of_nat_numeral)
    with False 1 push_7_or [of "n mod 128" "of_nat (n div 128) :: 'a word"] show ?thesis
      by (simp add: masked_large combine_Cons)
  qed
qed

lemma last_octets: "n < 128 \<Longrightarrow> last (octets n) = of_nat n"
  by (simp add: octets_small)

text \<open>The value stored, by the number of octets.\<close>

lemma less_128_power_octets: "n < 128 ^ length (octets n)"
proof (induction n rule: octets.induct)
  case (1 n)
  show ?case
  proof (cases "n < 128")
    case False
    with 1 have "n div 128 < 128 ^ length (octets (n div 128))" by simp
    then have "n < 128 ^ length (octets (n div 128)) * 128" by (rule div_less_iff_less_mult [THEN iffD1, rotated]) simp
    then show ?thesis using False by (simp add: octets_large)
  qed (simp add: octets_small)
qed

lemma less_128_power_le: "length (octets n) \<le> k \<Longrightarrow> n < 128 ^ k"
  using less_le_trans [OF less_128_power_octets [of n] power_increasing [of "length (octets n)" k]] by simp

lemma uint_of_nat_id: "n < 2 ^ LENGTH('a) \<Longrightarrow> uint (of_nat n :: 'a::len word) = int n"
  by (simp add: uint_nat unat_of_nat)

lemma sint_minus_id:
  assumes "int n < 2 ^ (LENGTH('a) - 1)"
  shows "sint (- (of_nat n + 1) :: 'a::len word) = - int n - 1"
proof -
  have "- (of_nat n + 1) = (word_of_int (- int n - 1) :: 'a word)" by simp
  then have "sint (- (of_nat n + 1) :: 'a word) = signed_take_bit (LENGTH('a) - 1) (- int n - 1)"
    by (simp only: sint_sbintrunc')
  also have "\<dots> = - int n - 1" using assms by (intro signed_take_bit_int_eq_self) linarith+
  finally show ?thesis .
qed

lemma sint_suc_not_least:
  assumes "int n + 1 < 2 ^ (LENGTH('a) - 1)"
  shows "sint (of_nat n + 1 :: 'a::len word) \<noteq> - (2 ^ (LENGTH('a) - 1))"
proof -
  have "of_nat n + 1 = (word_of_int (int n + 1) :: 'a word)" by simp
  then have "sint (of_nat n + 1 :: 'a word) = signed_take_bit (LENGTH('a) - 1) (int n + 1)"
    by (simp only: sint_sbintrunc')
  also have "\<dots> = int n + 1"
  proof (rule signed_take_bit_int_eq_self)
    show "- (2 ^ (LENGTH('a) - 1)) \<le> int n + 1" by (rule order_trans [of _ 0]) simp_all
  qed (rule assms)
  finally show ?thesis by (smt (verit) zero_le_power of_nat_0_le_iff)
qed

lemma integer_value_tag:
  "integer_value (iv\<lparr>int_type := EXI_UNSIGNED_INTEGER_8\<rparr>) = uint (get_val8 iv)"
  "integer_value (iv\<lparr>int_type := EXI_UNSIGNED_INTEGER_16\<rparr>) = uint (get_val16 iv)"
  "integer_value (iv\<lparr>int_type := EXI_UNSIGNED_INTEGER_32\<rparr>) = uint (get_val32 iv)"
  "integer_value (iv\<lparr>int_type := EXI_UNSIGNED_INTEGER_64\<rparr>) = uint (get_val64 iv)"
  "integer_value (iv\<lparr>int_type := EXI_INTEGER_8\<rparr>) = sint (get_val8 iv)"
  "integer_value (iv\<lparr>int_type := EXI_INTEGER_16\<rparr>) = sint (get_val16 iv)"
  "integer_value (iv\<lparr>int_type := EXI_INTEGER_32\<rparr>) = sint (get_val32 iv)"
  "integer_value (iv\<lparr>int_type := EXI_INTEGER_64\<rparr>) = sint (get_val64 iv)"
  by (simp_all add: integer_value_def)

lemma octets_count:
  assumes "length (octets n) \<le> 10"
  obtains "length (octets n) = 1" | "length (octets n) = 2"
  | "length (octets n) = 3 \<or> length (octets n) = 4" | "5 \<le> length (octets n)" "length (octets n) \<le> 10"
proof -
  obtain m where "length (octets n) = Suc m"
    using octets_ne [of n] by (cases "octets n") auto
  then show thesis using assms that by linarith
qed

lemma octets_single: "length (octets n) = 1 \<Longrightarrow> n < 128 \<and> last (octets n) = of_nat n"
  using less_128_power_octets [of n] by (simp add: last_octets)

lemma of_nat_le_word:
  "n < 2 ^ LENGTH('a) \<Longrightarrow> m < 2 ^ LENGTH('a) \<Longrightarrow> (of_nat n :: 'a::len word) \<le> of_nat m \<longleftrightarrow> n \<le> m"
  by (simp add: word_le_nat_alt unat_of_nat)

lemma store_masked_unsigned:
  assumes n: "n < 2 ^ 64"
  shows "\<exists>iv'. store_masked False (last (octets n)) (masked n) iv = Some (EXI_OK, iv') \<and>
           integer_value iv' = int n \<and> int_type_valid (int_type iv')"
proof (rule octets_count [OF octets_le_10 [OF n]])
  assume "length (octets n) = 1"
  then show ?thesis using octets_single [of n]
    by (simp add: store_masked_def integer_value_tag uint_of_nat_id)
next
  assume l: "length (octets n) = 2"
  then have "n < 2 ^ 16" using less_128_power_octets [of n] by simp
  then show ?thesis using l by (simp add: store_masked_def combine_masked integer_value_tag uint_of_nat_id)
next
  assume l: "length (octets n) = 3 \<or> length (octets n) = 4"
  then have "n < 2 ^ 32" using less_128_power_le [of n 4] by auto
  then have "uint (of_nat n :: u32) = int n" "(of_nat n :: u32) \<le> 65535 \<longleftrightarrow> n \<le> 65535"
    using of_nat_le_word [of n 65535, where 'a = 32] by (simp_all add: uint_of_nat_id)
  moreover have "(of_nat n :: u32) \<le> 65535 \<Longrightarrow> uint (ucast (of_nat n :: u32) :: u16) = int n"
  proof -
    have "ucast (of_nat n :: u32) = (of_nat n :: u16)" by (rule ucast_down_of_nat) simp
    then show ?thesis if "(of_nat n :: u32) \<le> 65535" using calculation that by (simp add: uint_of_nat_id)
  qed
  ultimately show ?thesis using l
    by (auto simp: store_masked_def combine_masked integer_value_tag get_val16_set_val32 Let_def)
next
  assume l: "5 \<le> length (octets n)" "length (octets n) \<le> 10"
  have "uint (of_nat n :: u64) = int n" "(of_nat n :: u64) \<le> 4294967295 \<longleftrightarrow> n \<le> 4294967295"
    using n of_nat_le_word [of n 4294967295, where 'a = 64] by (simp_all add: uint_of_nat_id)
  moreover have "(of_nat n :: u64) \<le> 4294967295 \<Longrightarrow> uint (ucast (of_nat n :: u64) :: u32) = int n"
  proof -
    have "ucast (of_nat n :: u64) = (of_nat n :: u32)" by (rule ucast_down_of_nat) simp
    then show ?thesis if "(of_nat n :: u64) \<le> 4294967295" using calculation that by (simp add: uint_of_nat_id)
  qed
  ultimately show ?thesis using l
    by (auto simp: store_masked_def combine_masked integer_value_tag get_val32_set_val64 Let_def)
qed

lemma ucast_word_of_int:
  "LENGTH('b) \<le> LENGTH('a) \<Longrightarrow> ucast (word_of_int k :: 'a::len word) = (word_of_int k :: 'b::len word)"
  by (rule bit_word_eqI) (auto simp: bit_simps)

lemma sint_narrow_minus:
  assumes "int n < 2 ^ (LENGTH('b) - 1)" "LENGTH('b) \<le> LENGTH('a)"
  shows "sint (ucast (- (of_nat n + 1) :: 'a::len word) :: 'b::len word) = - int n - 1"
proof -
  have "- (of_nat n + 1) = (word_of_int (- int n - 1) :: 'a word)" "- (of_nat n + 1) = (word_of_int (- int n - 1) :: 'b word)"
    by simp_all
  then have "ucast (- (of_nat n + 1) :: 'a word) = (- (of_nat n + 1) :: 'b word)"
    using ucast_word_of_int [OF assms(2), of "- int n - 1"] by (simp only:)
  then show ?thesis using sint_minus_id [OF assms(1)] by simp
qed

lemma store_masked_negative:
  assumes n: "n < 2 ^ 63 - 1"
  shows "\<exists>iv'. store_masked True (last (octets n)) (masked n) iv = Some (EXI_OK, iv') \<and>
           integer_value iv' = - int n - 1 \<and> int_type_valid (int_type iv')"
proof (rule octets_count [of n])
  have l9: "length (octets n) \<le> 9" using n by (intro length_octets_le) simp_all
  then show "length (octets n) \<le> 10" by simp
  {
    assume "length (octets n) = 1"
    then show ?thesis using octets_single [of n] sint_minus_id [of n, where 'a = 8]
      by (simp add: store_masked_def integer_value_tag)
  next
    assume l: "length (octets n) = 2"
    then have "n < 2 ^ 14" using less_128_power_octets [of n] by simp
    then show ?thesis using l sint_minus_id [of n, where 'a = 16]
      by (simp add: store_masked_def combine_masked integer_value_tag)
  next
    assume l: "length (octets n) = 3 \<or> length (octets n) = 4"
    then have n28: "n < 2 ^ 28" using less_128_power_le [of n 4] by auto
    then have s: "sint (- (of_nat n + 1) :: u32) = - int n - 1" "sint (of_nat n + 1 :: u32) \<noteq> - (2 ^ 31)"
      using sint_minus_id [of n, where 'a = 32] sint_suc_not_least [of n, where 'a = 32] by simp_all
    have "sint (ucast (- (of_nat n + 1) :: u32) :: u16) = - int n - 1" if "- 32768 \<le> - int n - 1"
      by (rule sint_narrow_minus) (use that in simp_all)
    then show ?thesis using l s
      by (auto simp: store_masked_def combine_masked integer_value_tag get_val16_set_val32 Let_def)
  next
    assume l: "5 \<le> length (octets n)" "length (octets n) \<le> 10"
    have s: "sint (- (of_nat n + 1) :: u64) = - int n - 1" "sint (of_nat n + 1 :: u64) \<noteq> - (2 ^ 63)"
      using n sint_minus_id [of n, where 'a = 64] sint_suc_not_least [of n, where 'a = 64] by simp_all
    have "sint (ucast (- (of_nat n + 1) :: u64) :: u32) = - int n - 1" if "- 2147483648 \<le> - int n - 1"
      by (rule sint_narrow_minus) (use that in simp_all)
    then show ?thesis using l l9 s
      by (auto simp: store_masked_def combine_masked integer_value_tag get_val32_set_val64 Let_def)
  }
qed

text \<open>The integers of any width: the value read back is that of the bits, up to the tag.\<close>

lemma takes_decodeUnsignedInteger':
  assumes st: "store_masked neg (last (octets n)) (masked n) iv = Some (EXI_OK, iv')"
    and len: "length (octets n) \<le> 10"
  shows "rd.takes (\<lambda>s. decodeUnsignedInteger' j s iv neg) (bytes_bits (octets n)) iv'"
  unfolding rd.takes_def
proof (intro allI impI)
  fix s r assume s: "wf_in s" "unread s = bytes_bits (octets n) @ r"
  have "rd.takes (\<lambda>s. read_masked j s (ucast j) []) (bytes_bits (octets n)) (last (octets n), masked n)"
    using takes_read_masked [of "[]" n j "ucast j"] len by simp
  from rd.takesD [OF this s] st
  show "\<exists>s'. decodeUnsignedInteger' j s iv neg = Some (EXI_OK, iv', s') \<and> wf_in s' \<and> unread s' = r \<and> stream_data s' = stream_data s"
    by (auto simp: decodeUnsignedInteger'_def)
qed

lemma takes_decodeUnsignedInteger:
  assumes "n < 2 ^ 64"
  shows "\<exists>iv'. rd.takes (\<lambda>s. decodeUnsignedInteger j s iv) (bytes_bits (octets n)) iv' \<and>
           integer_value iv' = int n \<and> int_type_valid (int_type iv')"
  using store_masked_unsigned [OF assms, of iv] takes_decodeUnsignedInteger' [OF _ octets_le_10 [OF assms]]
  unfolding decodeUnsignedInteger_def by blast

lemma takes_decodeInteger:
  assumes i: "- (2 ^ 63) < i" "i < 2 ^ 64"
  shows "\<exists>iv'. rd.takes (\<lambda>s. decodeInteger j s iv) (integer_bits i) iv' \<and>
           integer_value iv' = i \<and> int_type_valid (int_type iv')"
proof -
  define n where "n = nat (if i < 0 then - i - 1 else i)"
  have "n < 2 ^ 64" "i < 0 \<Longrightarrow> n < 2 ^ 63 - 1" "i < 0 \<Longrightarrow> - int n - 1 = i" "\<not> i < 0 \<Longrightarrow> int n = i"
    using i by (auto simp: n_def nat_less_iff)
  then obtain iv' where "store_masked (i < 0) (last (octets n)) (masked n) iv = Some (EXI_OK, iv')"
    and val: "integer_value iv' = i" "int_type_valid (int_type iv')"
    using store_masked_unsigned [of n iv] store_masked_negative [of n iv] by (cases "i < 0") auto
  from takes_decodeUnsignedInteger' [OF this(1) octets_le_10 [OF \<open>n < 2 ^ 64\<close>]]
  have "rd.takes (\<lambda>s. decodeUnsignedInteger' j s iv ((of_bool (i < 0) :: int) \<noteq> 0)) (bytes_bits (octets n)) iv'"
    by simp
  from rd.takes_then [where k = "\<lambda>b s. decodeUnsignedInteger' j s iv (b \<noteq> 0)" and f = "\<lambda>e b s1. Some (e, iv, s1)",
      OF takes_decodeBoolean this, of j]
  have "rd.takes (\<lambda>s. decodeInteger j s iv) (integer_bits i) iv'"
    by (simp add: decodeInteger_def integer_bits_def n_def)
  with val show ?thesis by blast
qed

subsection \<open>Signed integers of fixed width\<close>

text \<open>The two branches after the sign bit, for a width of \<open>'a\<close>.\<close>

lemma takes_signed:
  fixes n :: "'a::len word"
  assumes dec: "\<And>m. m < 2 ^ (LENGTH('a) - 1) \<Longrightarrow> rd.takes dec (bytes_bits (octets m)) (of_nat m :: 'a word)"
    and neg: "\<And>e u s. e = EXI_OK \<Longrightarrow> sint n < 0 \<Longrightarrow> u = - n - 1 \<Longrightarrow> fneg e u s = Some (e, - (u + 1), s)"
  shows "rd.takes (\<lambda>s. do {
      (errn, b, s1) \<leftarrow> decodeBoolean j s;
      if errn = EXI_OK then do {
        (errn, u, s2) \<leftarrow> dec s1;
        if b \<noteq> 0 then fneg errn u s2 else Some (errn, u, s2)
      }
      else Some (errn, old, s1) }) (integer_bits (sint n)) n"
proof -
  define m where "m = nat (if sint n < 0 then - sint n - 1 else sint n)"
  have "m < 2 ^ (LENGTH('a) - 1)"
    using sint_ge [of n] sint_lt [of n] by (auto simp: m_def nat_less_iff)
  note d = dec [OF this]
  have val: "if sint n < 0 then (of_nat m :: 'a word) = - n - 1 else (of_nat m :: 'a word) = n"
    by (simp add: m_def)
  have "rd.takes (\<lambda>s. do { (errn, u, s2) \<leftarrow> dec s;
      if (of_bool (sint n < 0) :: int) \<noteq> 0 then fneg errn u s2 else Some (errn, u, s2) }) (bytes_bits (octets m)) n"
    unfolding rd.takes_def
  proof (intro allI impI)
    fix s r assume s: "wf_in s" "unread s = bytes_bits (octets m) @ r"
    from rd.takesD [OF d this] val
    show "\<exists>s'. (do { (errn, u, s2) \<leftarrow> dec s;
        if (of_bool (sint n < 0) :: int) \<noteq> 0 then fneg errn u s2 else Some (errn, u, s2) }) = Some (EXI_OK, n, s') \<and>
        wf_in s' \<and> unread s' = r \<and> stream_data s' = stream_data s" by (auto simp: neg split: if_splits)
  qed
  from rd.takes_then [where k = "\<lambda>b s. do { (errn, u, s2) \<leftarrow> dec s; if b \<noteq> 0 then fneg errn u s2 else Some (errn, u, s2) }"
      and f = "\<lambda>e b s1. Some (e, old, s1)", OF takes_decodeBoolean this, of j]
  show ?thesis by (simp add: integer_bits_def m_def)
qed

lemma takes_decodeInteger16: "rd.takes (\<lambda>s. decodeInteger16 j s old) (integer_bits (sint n)) n"
  unfolding decodeInteger16_def
  by (rule takes_signed [where fneg = "\<lambda>e u s. Some (e, - (u + 1), s)"])
    (simp_all add: takes_decodeUnsignedInteger16)

lemma negate_not_least:
  assumes "sint (n :: 'a::len word) < 0" "sint n \<noteq> - (2 ^ (LENGTH('a) - 1))"
  shows "sint (- n) \<noteq> - (2 ^ (LENGTH('a) - 1))"
proof -
  have "- n = (word_of_int (- sint n) :: 'a word)" by simp
  then have "sint (- n) = signed_take_bit (LENGTH('a) - 1) (- sint n)" by (simp only: sint_sbintrunc')
  also have "\<dots> = - sint n"
    using assms sint_ge [of n] sint_lt [of n] by (intro signed_take_bit_int_eq_self) linarith+
  finally show ?thesis using assms(1) by (smt (verit) zero_le_power)
qed

lemma takes_decodeInteger32:
  "sint n \<noteq> - (2 ^ 31) \<Longrightarrow> rd.takes (\<lambda>s. decodeInteger32 j s old) (integer_bits (sint n)) n"
  unfolding decodeInteger32_def using negate_not_least [of n]
  by (intro takes_signed [where fneg = "\<lambda>e u s. if sint (u + 1) = - (2 ^ 31) then None else Some (e, - (u + 1), s)"])
    (simp_all add: takes_decodeUnsignedInteger32)

lemma takes_decodeInteger64:
  "sint n \<noteq> - (2 ^ 63) \<Longrightarrow> rd.takes (\<lambda>s. decodeInteger64 j s old) (integer_bits (sint n)) n"
  unfolding decodeInteger64_def using negate_not_least [of n]
  by (intro takes_signed [where fneg = "\<lambda>e u s. if sint (u + 1) = - (2 ^ 63) then None else Some (e, - (u + 1), s)"])
    (simp_all add: takes_decodeUnsignedInteger64)

subsection \<open>Floats and decimals\<close>

lemma takes_decodeFloat:
  assumes "sint m \<noteq> - (2 ^ 63)"
  shows "rd.takes (\<lambda>s. decodeFloat j s f) (integer_bits (sint m) @ integer_bits (sint e))
    (f\<lparr>mantissa := m, exponent := e\<rparr>)"
  unfolding decodeFloat_def
  by (rule rd.takes_then [where k = "\<lambda>m s1. do { (errn, e, s2) \<leftarrow> decodeInteger16 j s1 (exponent f);
      Some (errn, f\<lparr>mantissa := m, exponent := e\<rparr>, s2) }", OF takes_decodeInteger64 [OF assms]])
    (rule rd.takes_map [OF takes_decodeInteger16])

lemma takes_decodeDecimal:
  assumes "n < 2 ^ 64" "k < 2 ^ 64"
  shows "\<exists>d'. rd.takes (\<lambda>s. decodeDecimal j s d)
      (v # bytes_bits (octets n) @ bytes_bits (octets k)) d' \<and>
    negative d' = of_bool v \<and> integer_value (integral d') = int n \<and> integer_value (reverseFraction d') = int k \<and>
    decimal_ok d'"
proof -
  obtain i f where i: "rd.takes (\<lambda>s. decodeUnsignedInteger j s (integral d)) (bytes_bits (octets n)) i"
      "integer_value i = int n" "int_type_valid (int_type i)"
    and f: "rd.takes (\<lambda>s. decodeUnsignedInteger j s (reverseFraction d)) (bytes_bits (octets k)) f"
      "integer_value f = int k" "int_type_valid (int_type f)"
    using takes_decodeUnsignedInteger [OF assms(1)] takes_decodeUnsignedInteger [OF assms(2)] by meson
  have "rd.takes (\<lambda>s. decodeDecimal j s d) ([v] @ bytes_bits (octets n) @ bytes_bits (octets k))
      (d\<lparr>negative := of_bool v, integral := i, reverseFraction := f\<rparr>)"
    unfolding decodeDecimal_def
    by (rule rd.takes_then [where k = "\<lambda>neg s1. do {
          (errn, int, s2) \<leftarrow> decodeUnsignedInteger j s1 (integral d);
          if errn = EXI_OK then do {
            (errn, frac, s3) \<leftarrow> decodeUnsignedInteger j s2 (reverseFraction d);
            Some (errn, d\<lparr>negative := neg, integral := int, reverseFraction := frac\<rparr>, s3)
          } else Some (errn, d\<lparr>negative := neg, integral := int\<rparr>, s2) }", OF takes_decodeBoolean])
      (rule rd.takes_then [where k = "\<lambda>int s2. do {
            (errn, frac, s3) \<leftarrow> decodeUnsignedInteger j s2 (reverseFraction d);
            Some (errn, d\<lparr>negative := of_bool v, integral := int, reverseFraction := frac\<rparr>, s3) }",
          OF i(1)], rule rd.takes_map [OF f(1)])
  with i f show ?thesis
    by (intro exI [of _ "d\<lparr>negative := of_bool v, integral := i, reverseFraction := f\<rparr>"])
      (simp add: decimal_ok_def)
qed

subsection \<open>Strings and binary data\<close>

text \<open>The loops store the bytes of \<open>xs\<close> one by one.\<close>

lemma update_take_drop:
  "i < length xs \<Longrightarrow> length xs \<le> length cs \<Longrightarrow>
   (take i xs @ drop i cs)[i := xs ! i] = take (Suc i) xs @ drop (Suc i) cs"
  by (rule nth_equalityI) (auto simp: nth_append nth_list_update less_Suc_eq)

lemma takes_decode_chars:
  assumes "length xs \<le> length cs" "\<forall>x\<in>set xs. x < 128"
  shows "i \<le> length xs \<Longrightarrow> rd.takes (\<lambda>s. decode_chars j i EXI_OK s b (take i xs @ drop i cs) (length xs))
    (bytes_bits (drop i xs)) (length xs, xs @ drop (length xs) cs)"
proof (induction "length xs - i" arbitrary: i b)
  case 0
  then show ?case by (simp add: decode_chars.simps rd.takes_ok)
next
  case (Suc k)
  then have i: "i < length xs" "k = length xs - Suc i" by simp_all
  have IH: "rd.takes (\<lambda>s. decode_chars j (Suc i) EXI_OK s b (take (Suc i) xs @ drop (Suc i) cs) (length xs))
      (bytes_bits (drop (Suc i) xs)) (length xs, xs @ drop (length xs) cs)" for b
    using Suc i by simp
  show ?case unfolding rd.takes_def
  proof (intro allI impI)
    fix s r assume s: "wf_in s" "unread s = bytes_bits (drop i xs) @ r"
    then have "unread s = bits 8 (xs ! i) @ bytes_bits (drop (Suc i) xs) @ r" using i by (simp add: drop_nth_Cons)
    from rd.takesD [OF takes_decode [of j b] s(1) this]
    obtain s1 where s1: "decode j s b = Some (EXI_OK, xs ! i, s1)" "wf_in s1"
      "unread s1 = bytes_bits (drop (Suc i) xs) @ r"
        "stream_data s1 = stream_data s" by auto
    from rd.takesD [OF IH s1(2,3), of "xs ! i"] s1(1,4) i assms update_take_drop [OF i(1) assms(1)]
    show "\<exists>s'. decode_chars j i EXI_OK s b (take i xs @ drop i cs) (length xs) =
        Some (EXI_OK, (length xs, xs @ drop (length xs) cs), s') \<and> wf_in s' \<and> unread s' = r \<and> stream_data s' = stream_data s"
      by (subst decode_chars.simps) auto
  qed
qed

lemma takes_decode_bytes:
  assumes "length xs \<le> length cs"
  shows "i \<le> length xs \<Longrightarrow> rd.takes (\<lambda>s. decode_bytes j i EXI_OK s b (take i xs @ drop i cs) (length xs))
    (bytes_bits (drop i xs)) (xs @ drop (length xs) cs)"
proof (induction "length xs - i" arbitrary: i b)
  case 0
  then show ?case by (simp add: decode_bytes.simps rd.takes_ok)
next
  case (Suc k)
  then have i: "i < length xs" "k = length xs - Suc i" by simp_all
  have IH: "rd.takes (\<lambda>s. decode_bytes j (Suc i) EXI_OK s b (take (Suc i) xs @ drop (Suc i) cs) (length xs))
      (bytes_bits (drop (Suc i) xs)) (xs @ drop (length xs) cs)" for b
    using Suc i by simp
  show ?case unfolding rd.takes_def
  proof (intro allI impI)
    fix s r assume s: "wf_in s" "unread s = bytes_bits (drop i xs) @ r"
    then have "unread s = bits 8 (xs ! i) @ bytes_bits (drop (Suc i) xs) @ r" using i by (simp add: drop_nth_Cons)
    from rd.takesD [OF takes_decode [of j b] s(1) this]
    obtain s1 where s1: "decode j s b = Some (EXI_OK, xs ! i, s1)" "wf_in s1"
      "unread s1 = bytes_bits (drop (Suc i) xs) @ r"
        "stream_data s1 = stream_data s" by auto
    from rd.takesD [OF IH s1(2,3), of "xs ! i"] s1(1,4) i assms update_take_drop [OF i(1) assms(1)]
    show "\<exists>s'. decode_bytes j i EXI_OK s b (take i xs @ drop i cs) (length xs) =
        Some (EXI_OK, xs @ drop (length xs) cs, s') \<and> wf_in s' \<and> unread s' = r \<and> stream_data s' = stream_data s"
      by (subst decode_bytes.simps) auto
  qed
qed

text \<open>A buffer that holds the characters and their terminator.\<close>

definition holds :: "u64 \<Rightarrow> u8 list \<Rightarrow> u8 list \<Rightarrow> bool" where
  "holds sz cs xs \<longleftrightarrow> length xs < unat sz \<and> unat sz \<le> length cs"

lemma holds_length:
  assumes "holds sz cs xs"
  shows "unat (of_nat (length xs) :: u64) = length xs" "\<not> sz < of_nat (length xs) + 1" "length xs < length cs"
proof -
  have lt: "length xs + 1 < 2 ^ 64" using assms unsigned_less [of sz, where 'a = nat] by (simp add: holds_def)
  then show "unat (of_nat (length xs) :: u64) = length xs" by (simp add: unat_of_nat)
  have "unat (of_nat (length xs + 1) :: u64) = length xs + 1"
    using lt by (simp only: unat_of_nat) simp
  then have "unat (of_nat (length xs) + 1 :: u64) = length xs + 1" by (simp only: of_nat_add of_nat_1)
  then show "\<not> sz < of_nat (length xs) + 1" using assms by (simp add: word_less_nat_alt holds_def)
  show "length xs < length cs" using assms by (simp add: holds_def)
qed

lemma takes_decodeCharacters:
  assumes h: "holds sz cs xs" and ascii: "\<forall>x\<in>set xs. x < 128"
  shows "rd.takes (\<lambda>s. decodeCharacters j s (of_nat (length xs)) cs sz) (bytes_bits xs)
    (xs @ 0 # drop (Suc (length xs)) cs)"
  unfolding rd.takes_def
proof (intro allI impI)
  fix s r assume s: "wf_in s" "unread s = bytes_bits xs @ r"
  note l = holds_length [OF h]
  have "rd.takes (\<lambda>s. decode_chars j 0 EXI_OK s (ucast j) cs (length xs)) (bytes_bits xs)
      (length xs, xs @ drop (length xs) cs)"
    using takes_decode_chars [of xs cs 0 j "ucast j"] l ascii by simp
  moreover have "(xs @ drop (length xs) cs)[length xs := 0] = xs @ 0 # drop (Suc (length xs)) cs"
    using l(3) by (simp add: list_update_append drop_nth_Cons)
  ultimately show "\<exists>s'. decodeCharacters j s (of_nat (length xs)) cs sz =
      Some (EXI_OK, xs @ 0 # drop (Suc (length xs)) cs, s') \<and> wf_in s' \<and> unread s' = r \<and> stream_data s' = stream_data s"
    using rd.takesD [OF _ s] l by (fastforce simp: decodeCharacters_def)
qed

definition set_string :: "u8 list \<Rightarrow> exi_string \<Rightarrow> exi_string" where
  "set_string xs str = str\<lparr>characters := xs @ 0 # drop (Suc (length xs)) (characters str),
                           str_len := of_nat (length xs)\<rparr>"

lemma takes_decodeStringOnly:
  assumes h: "holds (str_size str) (characters str) xs" and ascii: "\<forall>x\<in>set xs. x < 128"
  shows "rd.takes (\<lambda>s. decodeStringOnly j s (of_nat (length xs)) str) (bytes_bits xs) (set_string xs str)"
  using rd.takes_map [OF takes_decodeCharacters [OF h ascii, of j],
      of "\<lambda>_ cs. str\<lparr>characters := cs, str_len := of_nat (length xs)\<rparr>"] holds_length(2) [OF h]
  by (simp add: decodeStringOnly_def set_string_def)

lemma takes_decodeString:
  assumes h: "holds (str_size str) (characters str) xs" and ascii: "\<forall>x\<in>set xs. x < 128"
  shows "rd.takes (\<lambda>s. decodeString j s str) (sized_bits xs) (set_string xs str)"
proof -
  have "length xs < 2 ^ 64" using h unsigned_less [of "str_size str", where 'a = nat] by (simp add: holds_def)
  note len = takes_decodeUnsignedIntegerSizeT [OF this, of j "str_len str"]
  let ?str = "str\<lparr>str_len := of_nat (length xs)\<rparr>"
  have "rd.takes (\<lambda>s. decodeStringOnly j s (of_nat (length xs)) ?str) (bytes_bits xs) (set_string xs ?str)"
    by (rule takes_decodeStringOnly) (use h ascii in simp_all)
  then show ?thesis unfolding decodeString_def sized_bits_def
    by (intro rd.takes_then [where k = "\<lambda>len s. decodeStringOnly j s len (str\<lparr>str_len := len\<rparr>)", OF len])
      (simp add: set_string_def)
qed

definition set_bytes :: "u8 list \<Rightarrow> exi_bytes \<Rightarrow> exi_bytes" where
  "set_bytes xs b = b\<lparr>bytes_data := xs @ drop (length xs) (bytes_data b), bytes_len := of_nat (length xs)\<rparr>"

lemma takes_decodeBytes:
  "length xs \<le> length cs \<Longrightarrow> length xs < 2 ^ 64 \<Longrightarrow>
   rd.takes (\<lambda>s. decodeBytes j s (of_nat (length xs)) cs) (bytes_bits xs) (xs @ drop (length xs) cs)"
  using takes_decode_bytes [of xs cs 0 j "ucast j"] by (simp add: decodeBytes_def unat_of_nat)

lemma takes_decodeBinary:
  assumes "length xs \<le> length (bytes_data b)" "length xs < 2 ^ 64"
  shows "rd.takes (\<lambda>s. decodeBinary j s b) (sized_bits xs) (set_bytes xs b)"
  unfolding decodeBinary_def sized_bits_def Let_def set_bytes_def
  by (intro rd.takes_then [where k = "\<lambda>len s. do { (errn, data, s2) \<leftarrow> decodeBytes j s len (bytes_data b);
        Some (errn, b\<lparr>bytes_data := data, bytes_len := len\<rparr>, s2) }",
      OF takes_decodeUnsignedIntegerSizeT [OF assms(2)]])
    (rule rd.takes_map [OF takes_decodeBytes [OF assms]])

subsection \<open>Restricted character sets\<close>

lemma takes_rcs_code:
  "n \<le> 32 \<Longrightarrow> k < 2 ^ n \<Longrightarrow>
   rd.takes (\<lambda>s. decodeNBitUnsignedInteger s n u) (bits n (of_nat k :: u32)) (of_nat k)"
proof (rule takes_decodeNBit)
  assume "n \<le> 32" "k < 2 ^ n"
  then show "take_bit n (of_nat k :: u32) = of_nat k" by (simp add: take_bit_of_nat take_bit_nat_eq_self)
qed

lemma takes_decode_rcs:
  assumes len: "length xs \<le> length cs" and ascii: "\<forall>x\<in>set xs. x < 128"
    and n: "n \<le> 32" "length rs < 2 ^ n"
  shows "i \<le> length xs \<Longrightarrow> rd.takes
    (\<lambda>s. decode_rcs j i EXI_OK s u b (take i xs @ drop i cs) (length xs) n (length rs) rs)
    (concat (map (rcs_char_bits n rs) (drop i xs))) (xs @ drop (length xs) cs)"
proof (induction "length xs - i" arbitrary: i u b)
  case 0
  then show ?case by (simp add: decode_rcs.simps rd.takes_ok)
next
  case (Suc k)
  then have i: "i < length xs" "k = length xs - Suc i" by simp_all
  let ?rest = "concat (map (rcs_char_bits n rs) (drop (Suc i) xs))"
  let ?cs = "take (Suc i) xs @ drop (Suc i) cs"
  have IH: "rd.takes (\<lambda>s. decode_rcs j (Suc i) EXI_OK s u b ?cs (length xs) n (length rs) rs) ?rest
      (xs @ drop (length xs) cs)" for u b
    using Suc i by simp
  define m where "m = index_of (xs ! i) rs"
  have m: "m \<le> length rs" "m < 2 ^ n" using index_of_le [of "xs ! i" rs] n by (simp_all add: m_def)
  have "m < 2 ^ 32" using m(2) n(1) less_le_trans [OF _ power_increasing [of n 32 "2::nat"]] by simp
  then have um: "unat (of_nat m :: u32) = m" by (simp add: unat_of_nat)
  have upd: "(take i xs @ drop i cs)[i := xs ! i] = ?cs" by (rule update_take_drop [OF i(1) len])
  show ?case unfolding rd.takes_def
  proof (intro allI impI)
    fix s r assume s: "wf_in s" "unread s = concat (map (rcs_char_bits n rs) (drop i xs)) @ r"
    let ?dev = "if m = length rs then bits 8 (xs ! i) else []"
    have "unread s = bits n (of_nat m :: u32) @ ?dev @ ?rest @ r"
      using s i by (simp add: drop_nth_Cons rcs_char_bits_def m_def)
    from rd.takesD [OF takes_rcs_code [OF n(1) m(2), of u] s(1) this]
    obtain s1 where s1: "decodeNBitUnsignedInteger s n u = Some (EXI_OK, of_nat m, s1)" "wf_in s1"
      "unread s1 = ?dev @ ?rest @ r"
        "stream_data s1 = stream_data s" by auto
    show "\<exists>s'. decode_rcs j i EXI_OK s u b (take i xs @ drop i cs) (length xs) n (length rs) rs =
        Some (EXI_OK, xs @ drop (length xs) cs, s') \<and> wf_in s' \<and> unread s' = r \<and> stream_data s' = stream_data s"
    proof (cases "m = length rs")
      case True
      with s1 have "unread s1 = bits 8 (xs ! i) @ ?rest @ r" by simp
      from rd.takesD [OF takes_decode [of j b] s1(2) this]
      obtain s2 where s2: "decode j s1 b = Some (EXI_OK, xs ! i, s2)" "wf_in s2" "unread s2 = ?rest @ r"
        "stream_data s2 = stream_data s" using s1 by auto
      from rd.takesD [OF IH s2(2,3), of "of_nat m" "xs ! i"] show ?thesis
        using s1(1) s2(1,4) i len ascii True um upd by (subst decode_rcs.simps) auto
    next
      case False
      with s1 have "unread s1 = ?rest @ r" by simp
      moreover have "rs ! m = xs ! i" using False m(1) nth_index_of [of "xs ! i" rs] by (simp add: m_def)
      ultimately show ?thesis using rd.takesD [OF IH s1(2), of r "of_nat m" b]
        using s1(1,4) i len False m(1) um upd by (subst decode_rcs.simps) auto
    qed
  qed
qed

lemma takes_decodeRCSCharacters:
  assumes h: "holds sz cs xs" and ascii: "\<forall>x\<in>set xs. x < 128" and n: "n \<le> 32" "length rs < 2 ^ n"
  shows "rd.takes (\<lambda>s. decodeRCSCharacters j s (of_nat (length xs)) cs sz n (length rs) rs)
    (concat (map (rcs_char_bits n rs) xs)) (xs @ drop (length xs) cs)"
  using takes_decode_rcs [OF _ ascii n, of cs 0 j j "ucast j"] holds_length [OF h]
  by (simp add: decodeRCSCharacters_def)

subsection \<open>Date and time\<close>

text \<open>A date as the decoder delivers it: what its type does not have is 0.\<close>

definition datetime_norm :: "exi_datetime \<Rightarrow> exi_datetime" where
  "datetime_norm d =
     \<lparr>dt_type = dt_type d,
      year = (if has_year (dt_type d) then year d else 0),
      monthDay = (if has_monthDay (dt_type d) then monthDay d else 0),
      dt_time = (if has_time (dt_type d) then dt_time d else 0),
      presenceFractionalSecs = of_bool (has_time (dt_type d) \<and> presenceFractionalSecs d \<noteq> 0),
      fractionalSecs = (if has_time (dt_type d) \<and> presenceFractionalSecs d \<noteq> 0 then fractionalSecs d else 0),
      presenceTimezone = of_bool (presenceTimezone d \<noteq> 0),
      timezone = (if presenceTimezone d \<noteq> 0 then timezone d else 0)\<rparr>"

text \<open>The fields fit the bits they have.\<close>

definition datetime_fits :: "exi_datetime \<Rightarrow> bool" where
  "datetime_fits d \<longleftrightarrow> datetime_type_valid (dt_type d) \<and> year_ok d \<and>
     (has_monthDay (dt_type d) \<longrightarrow> take_bit 9 (monthDay d) = monthDay d) \<and>
     (has_time (dt_type d) \<longrightarrow> take_bit 17 (dt_time d) = dt_time d) \<and>
     (has_time (dt_type d) \<and> presenceFractionalSecs d \<noteq> 0 \<longrightarrow> fractionalSecs d < 2 ^ 31) \<and>
     (presenceTimezone d \<noteq> 0 \<longrightarrow> take_bit 11 (timezone d + 896) = timezone d + 896)"

lemma takes_decode_year:
  assumes "- (2 ^ 31) < sint y - 2000"
  shows "rd.takes (\<lambda>s. decode_year j s d) (integer_bits (sint y - 2000)) (d\<lparr>year := y\<rparr>)"
proof -
  let ?y = "word_of_int (sint y - 2000) :: u32"
  have s: "sint ?y = sint y - 2000" using assms by (intro sint_minus_2000) simp
  have "add_year_offset ?y = Some y"
    unfolding add_year_offset_def s using sint_lt [of y] by simp
  moreover have "rd.takes (\<lambda>s. decodeInteger32 j s (year d)) (integer_bits (sint y - 2000)) ?y"
    using takes_decodeInteger32 [of ?y j "year d", unfolded s] assms by simp
  ultimately show ?thesis unfolding decode_year_def rd.takes_def by fastforce
qed

lemma takes_decode_monthDay:
  "take_bit 9 m = m \<Longrightarrow> rd.takes (\<lambda>s. decode_monthDay s d) (bits 9 m) (d\<lparr>monthDay := m\<rparr>)"
  unfolding decode_monthDay_def by (rule rd.takes_map [OF takes_decodeNBit]) simp_all

lemma takes_decode_time_part:
  assumes "take_bit 17 (dt_time d) = dt_time d" "presenceFractionalSecs d \<noteq> 0 \<longrightarrow> fractionalSecs d < 2 ^ 31"
  shows "rd.takes (\<lambda>s. decode_time_part j s d0) (time_bits d)
    (d0\<lparr>dt_time := dt_time d, presenceFractionalSecs := of_bool (presenceFractionalSecs d \<noteq> 0),
        fractionalSecs := if presenceFractionalSecs d \<noteq> 0 then fractionalSecs d else fractionalSecs d0\<rparr>)"
proof -
  let ?p = "presenceFractionalSecs d \<noteq> 0"
  have fr: "rd.takes (\<lambda>s. decodeUnsignedInteger32 j s) (bytes_bits (octets (unat (fractionalSecs d)))) (fractionalSecs d)"
    if ?p using takes_decodeUnsignedInteger32 [of "unat (fractionalSecs d)" j] assms(2) that by (simp add: word_less_nat_alt)
  show ?thesis unfolding rd.takes_def
  proof (intro allI impI)
    fix s r assume s: "wf_in s" "unread s = time_bits d @ r"
    let ?f = "if ?p then bytes_bits (octets (unat (fractionalSecs d))) else []"
    have "unread s = bits 17 (dt_time d) @ [?p] @ ?f @ r" using s by (simp add: time_bits_def)
    from rd.takesD [OF takes_decodeNBit [OF _ assms(1), of "dt_time d0"] s(1) this]
    obtain s1 where s1: "decodeNBitUnsignedInteger s 17 (dt_time d0) = Some (EXI_OK, dt_time d, s1)" "wf_in s1"
      "unread s1 = [?p] @ ?f @ r"
        "stream_data s1 = stream_data s" by auto
    from rd.takesD [OF takes_decodeBoolean [of j] s1(2,3)]
    obtain s2 where s2: "decodeBoolean j s1 = Some (EXI_OK, of_bool ?p, s2)" "wf_in s2" "unread s2 = ?f @ r"
        "stream_data s2 = stream_data s" using s1 by auto
    then show "\<exists>s'. decode_time_part j s d0 = Some (EXI_OK, d0\<lparr>dt_time := dt_time d,
        presenceFractionalSecs := of_bool ?p,
        fractionalSecs := if ?p then fractionalSecs d else fractionalSecs d0\<rparr>, s') \<and> wf_in s' \<and> unread s' = r \<and> stream_data s' = stream_data s"
      using rd.takesD [OF fr s2(2), of r] s1(1) s2(4) by (cases ?p) (auto simp: decode_time_part_def)
  qed
qed

lemma takes_decode_timezone_part:
  assumes "presenceTimezone d \<noteq> 0 \<longrightarrow> take_bit 11 (timezone d + 896) = timezone d + 896"
  shows "rd.takes (\<lambda>s. decode_timezone_part j s d0) (timezone_bits d)
    (d0\<lparr>presenceTimezone := of_bool (presenceTimezone d \<noteq> 0),
        timezone := if presenceTimezone d \<noteq> 0 then timezone d else timezone d0\<rparr>)"
proof -
  let ?p = "presenceTimezone d \<noteq> 0"
  show ?thesis unfolding rd.takes_def
  proof (intro allI impI)
    fix s r assume s: "wf_in s" "unread s = timezone_bits d @ r"
    let ?f = "if ?p then bits 11 (timezone d + 896) else []"
    have "unread s = [?p] @ ?f @ r" using s by (simp add: timezone_bits_def)
    from rd.takesD [OF takes_decodeBoolean [of j] s(1) this]
    obtain s1 where s1: "decodeBoolean j s = Some (EXI_OK, of_bool ?p, s1)" "wf_in s1" "unread s1 = ?f @ r"
        "stream_data s1 = stream_data s" by auto
    then show "\<exists>s'. decode_timezone_part j s d0 = Some (EXI_OK, d0\<lparr>presenceTimezone := of_bool ?p,
        timezone := if ?p then timezone d else timezone d0\<rparr>, s') \<and> wf_in s' \<and> unread s' = r \<and> stream_data s' = stream_data s"
      using rd.takesD [OF takes_decodeNBit [of 11 "timezone d + 896" "timezone d0"] s1(2), of r] s1(4) assms
      by (cases ?p) (auto simp: decode_timezone_part_def)
  qed
qed

text \<open>The fields of a date one after the other, for any values of the fields not yet read.\<close>

lemma takes_decode_datetime_fields:
  assumes d: "datetime_fits d" and t: "dt_type d0 = dt_type d"
  shows "rd.takes (\<lambda>s. decode_datetime_fields j s d0)
    ((if has_year (dt_type d) then year_bits d else []) @
     (if has_monthDay (dt_type d) then bits 9 (monthDay d) else []) @
     (if has_time (dt_type d) then time_bits d else []))
    (d0\<lparr>year := if has_year (dt_type d) then year d else year d0,
        monthDay := if has_monthDay (dt_type d) then monthDay d else monthDay d0,
        dt_time := if has_time (dt_type d) then dt_time d else dt_time d0,
        presenceFractionalSecs :=
          if has_time (dt_type d) then of_bool (presenceFractionalSecs d \<noteq> 0) else presenceFractionalSecs d0,
        fractionalSecs := if has_time (dt_type d) \<and> presenceFractionalSecs d \<noteq> 0
          then fractionalSecs d else fractionalSecs d0\<rparr>)"
proof -
  have y: "rd.takes (\<lambda>s. decode_year j s d0) (year_bits d) (d0\<lparr>year := year d\<rparr>)" if "has_year (dt_type d)"
    unfolding year_bits_def by (rule takes_decode_year) (use d that in \<open>simp add: datetime_fits_def year_ok_def\<close>)
  have md: "rd.takes (\<lambda>s. decode_monthDay s d1) (bits 9 (monthDay d)) (d1\<lparr>monthDay := monthDay d\<rparr>)"
    if "has_monthDay (dt_type d)" for d1
    by (rule takes_decode_monthDay) (use d that in \<open>simp add: datetime_fits_def\<close>)
  have tm: "rd.takes (\<lambda>s. decode_time_part j s d1) (time_bits d)
      (d1\<lparr>dt_time := dt_time d, presenceFractionalSecs := of_bool (presenceFractionalSecs d \<noteq> 0),
        fractionalSecs := if presenceFractionalSecs d \<noteq> 0 then fractionalSecs d else fractionalSecs d1\<rparr>)"
    if "has_time (dt_type d)" for d1
    by (rule takes_decode_time_part) (use d that in \<open>simp_all add: datetime_fits_def\<close>)
  note then_rules = rd.takes_then [where k = "\<lambda>d s. decode_monthDay s d" and f = "\<lambda>e d s. Some (e, d, s)"]
    rd.takes_then [where k = "\<lambda>d s. decode_time_part j s d" and f = "\<lambda>e d s. Some (e, d, s)"]
  have dt: "rd.takes (\<lambda>s. do {
        (errn, d, s1) \<leftarrow> decode_year j s d0;
        if errn = EXI_OK then do {
          (errn, d, s2) \<leftarrow> decode_monthDay s1 d;
          if errn = EXI_OK then decode_time_part j s2 d else Some (errn, d, s2) }
        else decode_time_part j s1 d })
      (year_bits d @ bits 9 (monthDay d) @ time_bits d)
      (d0\<lparr>year := year d, monthDay := monthDay d, dt_time := dt_time d,
          presenceFractionalSecs := of_bool (presenceFractionalSecs d \<noteq> 0),
          fractionalSecs := if presenceFractionalSecs d \<noteq> 0 then fractionalSecs d else fractionalSecs d0\<rparr>)"
    if "dt_type d = EXI_DATETIME_DATETIME"
    using rd.takes_then [where k = "\<lambda>d s. do { (errn, d, s2) \<leftarrow> decode_monthDay s d;
        if errn = EXI_OK then decode_time_part j s2 d else Some (errn, d, s2) }"
      and f = "\<lambda>e d s. decode_time_part j s d", OF y then_rules(2) [OF md tm]] that
    by (cases "presenceFractionalSecs d = 0") simp_all
  show ?thesis
  proof (cases "dt_type d")
    case EXI_DATETIME_GYEARMONTH
    with then_rules(1) [OF y md] t show ?thesis by (simp add: decode_datetime_fields_def)
  next
    case EXI_DATETIME_DATE
    with then_rules(1) [OF y md] t show ?thesis by (simp add: decode_datetime_fields_def)
  next
    case (EXI_DATETIME_TYPE_INVALID x)
    then show ?thesis using d by (simp add: datetime_fits_def)
  qed (use y md tm dt t in \<open>simp_all add: decode_datetime_fields_def\<close>)
qed

lemma takes_decodeDateTime:
  assumes d: "datetime_fits d"
  shows "rd.takes (\<lambda>s. decodeDateTime j s (dt_type d)) (datetime_bits d) (datetime_norm d)"
proof -
  let ?d0 = "\<lparr>dt_type = dt_type d, year = 0, monthDay = 0, dt_time = 0, presenceFractionalSecs = 0,
        fractionalSecs = 0, presenceTimezone = 0, timezone = 0\<rparr>"
  have "presenceTimezone d \<noteq> 0 \<longrightarrow> take_bit 11 (timezone d + 896) = timezone d + 896"
    using d by (simp add: datetime_fits_def)
  note tz = takes_decode_timezone_part [OF this, of j]
  have t: "dt_type ?d0 = dt_type d" by simp
  note R = rd.takes_then [where k = "\<lambda>d s. decode_timezone_part j s d" and f = "\<lambda>e d s. Some (e, d, s)",
        OF takes_decode_datetime_fields [OF d t, of j] tz, unfolded append_assoc]
  show ?thesis unfolding decodeDateTime_def datetime_bits_def
    by (rule back_subst [where P = "rd.takes m bs" for m bs, OF R]) (simp add: datetime_norm_def)
qed

end
