(* ===== verification/Documents.thy ===== *)
theory Documents
  imports EXIHeader DecoderSpec
begin

section \<open>Writing to a stream and reading it back\<close>

text \<open>
  The frame shared by all documents and values: a stream is written from its position on, flushed,
  and read again from there. The interface \<open>value_codec\<close> is what an encoder and a decoder of values
  promise each other; every pair of functions of the two channels is an instance, and the round
  trip is proved once for all of them.
\<close>

subsection \<open>Sessions\<close>

text \<open>
  What every encoder of a document does: reset the bit buffer, write, and flush if there was no
  error. Whether that fits is decided by the bits alone; when it does not, the result is an error
  even where the code of an element lost one.
\<close>

definition session :: "(bitstream \<Rightarrow> (errn \<times> bitstream) option) \<Rightarrow> bitstream \<Rightarrow> (errn \<times> bitstream) option" where
  "session W s = do {
     (errn, s) \<leftarrow> W (reset_out s);
     if errn = EXI_OK then encodeFinish s else Some (errn, s)
   }"

definition padding :: "nat \<Rightarrow> bool list" where
  "padding n = replicate ((8 - n mod 8) mod 8) False"

lemma encode_document_fits:
  assumes w: "wr.emits W bs" and s: "startable s"
    and n: "8 * stream_pos s + length bs \<le> 8 * stream_size s"
  shows "\<exists>s'. session W s = Some (EXI_OK, s') \<and> startable s' \<and> stream_size s' = stream_size s \<and>
      bytes_bits (take (stream_pos s') (stream_data s')) =
        bytes_bits (take (stream_pos s) (stream_data s)) @ bs @ padding (length bs)"
proof -
  have len: "length (written (reset_out s)) = 8 * stream_pos s" using s by (simp add: startable_def)
  then have "(length (written (reset_out s)) + length bs) div 8 \<le> stream_size (reset_out s)"
    using n by simp
  from wr.emitsD [OF w reset_out_simps(1) [OF s] this]
  obtain s1 where s1: "W (reset_out s) = Some (EXI_OK, s1)" "wf_out s1" "stream_size s1 = stream_size s"
    "written s1 = written (reset_out s) @ bs" by auto
  have l1: "length (written s1) = 8 * stream_pos s + length bs" using s1(4) len by simp
  with n s1(3) have "length (written s1) \<le> 8 * stream_size s1" by simp
  from flush_fits [OF s1(2) this]
  obtain s2 where s2: "flush s1 = Some (EXI_OK, s2)" "wf_out s2" "stream_size s2 = stream_size s1" "capacity s2 = 8"
    "written s2 = written s1 @ replicate (if capacity s1 = 8 then 0 else capacity s1) False" by blast
  have "capacity s1 = 8 - length bs mod 8 \<or> capacity s1 = 8 \<and> length bs mod 8 = 0"
  proof -
    have "8 * stream_pos s1 + (8 - capacity s1) = 8 * stream_pos s + length bs" "1 \<le> capacity s1" "capacity s1 \<le> 8"
      using l1 s1(2) by (simp_all add: length_written wf_out_def)
    moreover from this have "(8 - capacity s1) mod 8 = length bs mod 8" by (metis mod_mult_self4)
    ultimately show ?thesis by (cases "capacity s1 = 8") auto
  qed
  then have pad: "(if capacity s1 = 8 then 0 else capacity s1) = (8 - length bs mod 8) mod 8"
    using s1(2) mod_less_divisor [of 8 "length bs"] by (auto simp: wf_out_def)
  have "written s2 = bytes_bits (take (stream_pos s2) (stream_data s2))"
    using s2(4) by (simp add: written_def)
  then have "bytes_bits (take (stream_pos s2) (stream_data s2)) =
      bytes_bits (take (stream_pos s) (stream_data s)) @ bs @ padding (length bs)"
    using s2(5) s1(4) by (simp add: pad padding_def)
  then show ?thesis using s1(1,3) s2 by (simp add: session_def encodeFinish_def startable_def wf_out_def)
qed

lemma encode_document_full:
  assumes w: "wr.writes W bs" and s: "startable s"
    and n: "8 * stream_size s < 8 * stream_pos s + length bs"
  shows "\<exists>errn s'. session W s = Some (errn, s') \<and> errn \<noteq> EXI_OK"
proof -
  have len: "length (written (reset_out s)) = 8 * stream_pos s" using s by (simp add: startable_def)
  obtain e s1 where s1: "W (reset_out s) = Some (e, s1)" "wf_out s1" "stream_size s1 = stream_size s"
    and r: "if (8 * stream_pos s + length bs) div 8 \<le> stream_size s
      then e = EXI_OK \<and> written s1 = written (reset_out s) @ bs
      else 8 * stream_size s1 \<le> length (written s1) \<and> (e = EXI_OK \<longrightarrow> 8 * stream_size s1 < length (written s1))"
    using w reset_out_simps(1) [OF s] len unfolding wr.writes_def by fastforce
  show ?thesis
  proof (cases "e = EXI_OK")
    case True
    then have "8 * stream_size s1 < length (written s1)"
      using r n s1(3) len by (auto split: if_splits)
    from flush_overfull [OF s1(2) this] True s1(1) show ?thesis by (auto simp: session_def encodeFinish_def)
  next
    case False
    with s1(1) show ?thesis by (auto simp: session_def)
  qed
qed

subsection \<open>Reading back\<close>

lemma drop_bytes_bits: "drop (8 * n) (bytes_bits xs) = bytes_bits (drop n xs)"
proof (induction xs arbitrary: n)
  case (Cons x xs)
  then show ?case by (cases n) simp_all
qed simp

lemma drop_take_append: "n \<le> k \<Longrightarrow> k \<le> length xs \<Longrightarrow> drop n (take k xs @ ys) = drop n (take k xs) @ ys"
  by simp

text \<open>What an encoded document looks like to a reader at its start.\<close>

lemma unread_encoded:
  assumes "startable s'" "stream_size s' = stream_size s" "stream_pos s \<le> length (stream_data s)"
    and "bytes_bits (take (stream_pos s') (stream_data s')) =
      bytes_bits (take (stream_pos s) (stream_data s)) @ bs"
  obtains r where "bytes_bits (drop (stream_pos s) (take (stream_size s) (stream_data s'))) = bs @ r"
    and "stream_pos s \<le> stream_pos s'"
proof -
  let ?p = "stream_pos s" and ?p' = "stream_pos s'" and ?d = "stream_data s'"
  have p': "?p' \<le> length ?d" using assms(1) by (simp add: startable_def)
  have "8 * ?p' = 8 * ?p + length bs" using arg_cong [OF assms(4), of length] p' assms(3) by simp
  then have le: "?p \<le> ?p'" by simp
  have "drop (8 * ?p) (bytes_bits (take ?p' ?d)) = bs" using assms(3,4) by simp
  then have bs: "bytes_bits (drop ?p (take ?p' ?d)) = bs" by (simp only: drop_bytes_bits)
  have "take (stream_size s) ?d = take ?p' ?d @ drop ?p' (take (stream_size s) ?d)"
    using assms(1,2) append_take_drop_id [of ?p' "take (stream_size s) ?d"]
    by (simp add: startable_def min_absorb1)
  then have "drop ?p (take (stream_size s) ?d) = drop ?p (take ?p' ?d @ drop ?p' (take (stream_size s) ?d))"
    by (rule arg_cong)
  also have "\<dots> = drop ?p (take ?p' ?d) @ drop ?p' (take (stream_size s) ?d)" using le p' by (rule drop_take_append)
  finally have "drop ?p (take (stream_size s) ?d) = drop ?p (take ?p' ?d) @ drop ?p' (take (stream_size s) ?d)" .
  with bs le show thesis by (intro that [of "bytes_bits (drop ?p' (take (stream_size s) ?d))"]) simp_all
qed

lemma session_read:
  assumes w: "wr.emits W bs" and s: "startable s"
    and n: "8 * stream_pos s + length bs \<le> 8 * stream_size s"
  shows "\<exists>s' r. session W s = Some (EXI_OK, s') \<and> startable (s'\<lparr>stream_pos := stream_pos s\<rparr>) \<and>
    unread (reset_in (s'\<lparr>stream_pos := stream_pos s\<rparr>)) = bs @ r"
proof -
  from encode_document_fits [OF w s n]
  obtain s' where s': "session W s = Some (EXI_OK, s')" "startable s'" "stream_size s' = stream_size s"
    "bytes_bits (take (stream_pos s') (stream_data s')) =
      bytes_bits (take (stream_pos s) (stream_data s)) @ bs @ padding (length bs)" by blast
  have "stream_pos s \<le> length (stream_data s)" using s by (simp add: startable_def)
  from unread_encoded [OF s'(2,3) this s'(4)]
  obtain r where r: "bytes_bits (drop (stream_pos s) (take (stream_size s) (stream_data s'))) =
      (bs @ padding (length bs)) @ r" by blast
  have "startable (s'\<lparr>stream_pos := stream_pos s\<rparr>)" using s s'(2,3) by (simp add: startable_def)
  with s'(1,3) r show ?thesis by auto
qed

subsection \<open>The interface of a codec\<close>

locale value_codec =
  fixes ok :: "'a \<Rightarrow> bool"
    and enc :: "bitstream \<Rightarrow> 'a \<Rightarrow> (errn \<times> bitstream) option"
    and dec :: "bitstream \<Rightarrow> (errn \<times> 'b \<times> bitstream) option"
    and code :: "'a \<Rightarrow> bool list"
    and same :: "'a \<Rightarrow> 'b \<Rightarrow> bool"
  assumes enc_emits: "ok v \<Longrightarrow> wr.emits (\<lambda>s. enc s v) (code v)"
    and dec_takes: "ok v \<Longrightarrow> \<exists>w. same v w \<and> rd.takes dec (code v) w"
begin

lemma roundtrip:
  assumes v: "ok v" and s: "startable s" and n: "8 * stream_pos s + length (code v) \<le> 8 * stream_size s"
  shows "\<exists>s' w t. session (\<lambda>s. enc s v) s = Some (EXI_OK, s') \<and>
    dec (reset_in (s'\<lparr>stream_pos := stream_pos s\<rparr>)) = Some (EXI_OK, w, t) \<and> same v w"
proof -
  from session_read [OF enc_emits [OF v] s n]
  obtain s' r where s': "session (\<lambda>s. enc s v) s = Some (EXI_OK, s')" "startable (s'\<lparr>stream_pos := stream_pos s\<rparr>)"
    "unread (reset_in (s'\<lparr>stream_pos := stream_pos s\<rparr>)) = code v @ r" by blast
  obtain w where w: "same v w" "rd.takes dec (code v) w" using dec_takes [OF v] by blast
  from rd.takesD [OF w(2) reset_in_simps(1) [OF s'(2)] s'(3)] s'(1) w(1) show ?thesis by blast
qed

text \<open>Two values with the same code are decoded to the same value.\<close>

lemma code_determines:
  assumes "ok u" "ok v" "code u = code v"
  shows "\<exists>w. same u w \<and> same v w"
proof -
  obtain w1 w2 where w: "same u w1" "rd.takes dec (code u) w1" "same v w2" "rd.takes dec (code v) w2"
    using dec_takes assms by meson
  define n where "n = length (code u)"
  define s :: bitstream where "s = \<lparr>stream_size = n, stream_data = replicate n 0, stream_pos = 0, buffer = 0, capacity = 8\<rparr>"
  have "startable s" "8 * stream_pos s + length (code u) \<le> 8 * stream_size s"
    by (simp_all add: startable_def s_def n_def)
  from session_read [OF enc_emits [OF assms(1)] this]
  obtain s' r where s': "startable (s'\<lparr>stream_pos := stream_pos s\<rparr>)"
    "unread (reset_in (s'\<lparr>stream_pos := stream_pos s\<rparr>)) = code u @ r" by blast
  from rd.takesD [OF w(2) reset_in_simps(1) [OF s'(1)] s'(2)]
    rd.takesD [OF w(4) reset_in_simps(1) [OF s'(1)], of r] s'(2) assms(3)
  have "w1 = w2" by auto
  with w show ?thesis by blast
qed

end

end
