(* ===== verification/Grammar.thy ===== *)
theory Grammar
  imports Documents
begin

section \<open>Grammar machines of the generated codecs\<close>

text \<open>
  Every encoder and decoder generated from the schemas is a loop around a switch:

  \<open>while(!done) { switch(grammarID) { case ... } if(errn) done = 1; }\<close>

  A \<open>step\<close> is the switch: from the grammar number, the local data \<open>x\<close> and the stream it gives the
  error code, the new \<open>done\<close>, \<open>grammarID\<close> and data, and the stream. The loop may run forever for
  some \<open>step\<close>; it is a partial function, whose \<open>None\<close> is also the value of a loop that does not end.
  The fragments the generator puts into the cases are definitions of this theory; what they write
  and read is stated in the calculus of the two stream interfaces.
\<close>

partial_function (option) grammar_loop ::
  "(nat \<Rightarrow> 'x \<Rightarrow> bitstream \<Rightarrow> (errn \<times> (bool \<times> nat \<times> 'x) \<times> bitstream) option) \<Rightarrow>
   nat \<Rightarrow> 'x \<Rightarrow> bitstream \<Rightarrow> (errn \<times> 'x \<times> bitstream) option" where
  "grammar_loop step grammarID x s = do {
     (errn, (done, grammarID, x), s) \<leftarrow> step grammarID x s;
     if done \<or> errn \<noteq> EXI_OK then Some (errn, x, s) else grammar_loop step grammarID x s
   }"

subsection \<open>Fragments of the encoders\<close>

text \<open>The function around the loop: only the stream and the error code survive it.\<close>

definition run_encoder ::
  "(nat \<Rightarrow> 'x \<Rightarrow> bitstream \<Rightarrow> (errn \<times> (bool \<times> nat \<times> 'x) \<times> bitstream) option) \<Rightarrow>
   nat \<Rightarrow> 'x \<Rightarrow> bitstream \<Rightarrow> (errn \<times> bitstream) option" where
  "run_encoder step grammarID x s = do {
     (errn, _, s1) \<leftarrow> grammar_loop step grammarID x s;
     Some (errn, s1)
   }"

text \<open>\<open>errn = m; ... grammarID = g;\<close> and \<open>errn = m; if(errn == 0) done = 1; grammarID = g;\<close>\<close>

definition goto :: "nat \<Rightarrow> 'x \<Rightarrow> (errn \<times> bitstream) option \<Rightarrow> (errn \<times> (bool \<times> nat \<times> 'x) \<times> bitstream) option" where
  "goto g x m = do { (errn, s1) \<leftarrow> m; Some (errn, (False, g, x), s1) }"

definition finish :: "nat \<Rightarrow> 'x \<Rightarrow> (errn \<times> bitstream) option \<Rightarrow> (errn \<times> (bool \<times> nat \<times> 'x) \<times> bitstream) option" where
  "finish g x m = do { (errn, s1) \<leftarrow> m; Some (errn, (errn = EXI_OK, g, x), s1) }"

text \<open>
  A simple element: the event code of its start, that of its characters, its value, and the
  \<open>valid EE\<close>, whose error code replaces that of the value.
\<close>

definition encode_simple :: "nat \<Rightarrow> u32 \<Rightarrow> (bitstream \<Rightarrow> (errn \<times> bitstream) option) \<Rightarrow> bitstream \<Rightarrow> (errn \<times> bitstream) option" where
  "encode_simple n code m s = do {
     (errn, s1) \<leftarrow> encodeNBitUnsignedInteger s n code;
     if errn = EXI_OK then do {
       (errn, s2) \<leftarrow> encodeNBitUnsignedInteger s1 1 0;
       if errn = EXI_OK then do {
         (_, s3) \<leftarrow> m s2;
         encodeNBitUnsignedInteger s3 1 0
       }
       else Some (errn, s2)
     }
     else Some (errn, s1)
   }"

text \<open>An element with content of its own: its event code, then its encoder.\<close>

definition encode_child :: "nat \<Rightarrow> u32 \<Rightarrow> (bitstream \<Rightarrow> (errn \<times> bitstream) option) \<Rightarrow> bitstream \<Rightarrow> (errn \<times> bitstream) option" where
  "encode_child n code m s = do {
     (errn, s1) \<leftarrow> encodeNBitUnsignedInteger s n code;
     if errn = EXI_OK then m s1 else Some (errn, s1)
   }"

subsection \<open>Fragments of the decoders\<close>

text \<open>The static variables the decoders share, which keep their values between calls.\<close>

record dec_static =
  eventCode :: u32
  uint32 :: u32

definition decode_eventCode :: "nat \<Rightarrow> dec_static \<Rightarrow> bitstream \<Rightarrow> (errn \<times> dec_static \<times> bitstream) option" where
  "decode_eventCode n st s = do {
     (errn, ev, s1) \<leftarrow> decodeNBitUnsignedInteger s n (eventCode st);
     Some (errn, st\<lparr>eventCode := ev\<rparr>, s1)
   }"

text \<open>
  \<open>errn = decodeNBitUnsignedInteger(stream, n, &eventCode); if (errn == 0) switch(eventCode)\<close> with
  its cases, whose \<open>default\<close> is \<open>EXI_ERROR_UNKOWN_EVENT_CODE\<close>. \<open>g\<close> is the current grammar number.
\<close>

definition decode_switch ::
  "nat \<Rightarrow> (u32 \<times> (dec_static \<times> 'a \<Rightarrow> bitstream \<Rightarrow> (errn \<times> (bool \<times> nat \<times> dec_static \<times> 'a) \<times> bitstream) option)) list \<Rightarrow>
   nat \<Rightarrow> dec_static \<times> 'a \<Rightarrow> bitstream \<Rightarrow> (errn \<times> (bool \<times> nat \<times> dec_static \<times> 'a) \<times> bitstream) option" where
  "decode_switch n cases g x s = do {
     (errn, st, s1) \<leftarrow> decode_eventCode n (fst x) s;
     if errn = EXI_OK then
       (case map_of cases (eventCode st) of
          Some k \<Rightarrow> k (st, snd x) s1
        | None \<Rightarrow> Some (EXI_ERROR_UNKOWN_EVENT_CODE, (False, g, st, snd x), s1))
     else Some (errn, (False, g, st, snd x), s1)
   }"

text \<open>
  The case of a simple element: the event code of the characters, the value, and the \<open>valid EE\<close>,
  after which the grammar goes on to \<open>next\<close>.
\<close>

definition decode_simple ::
  "nat \<Rightarrow> nat \<Rightarrow> (dec_static \<times> 'a \<Rightarrow> bitstream \<Rightarrow> (errn \<times> (dec_static \<times> 'a) \<times> bitstream) option) \<Rightarrow>
   dec_static \<times> 'a \<Rightarrow> bitstream \<Rightarrow> (errn \<times> (bool \<times> nat \<times> dec_static \<times> 'a) \<times> bitstream) option" where
  "decode_simple g next val x s = do {
     (errn, st, s1) \<leftarrow> decode_eventCode 1 (fst x) s;
     (errn, x, s2) \<leftarrow>
       (if errn = EXI_OK then
          if eventCode st = 0 then val (st, snd x) s1
          else Some (EXI_UNSUPPORTED_EVENT_CODE_CHARACTERISTICS, (st, snd x), s1)
        else Some (errn, (st, snd x), s1));
     if errn = EXI_OK then do {
       (errn, st, s3) \<leftarrow> decode_eventCode 1 (fst x) s2;
       if eventCode st = 0 then Some (errn, (False, next, st, snd x), s3)
       else Some (EXI_DEVIANT_SUPPORT_NOT_DEPLOYED, (False, g, st, snd x), s3)
     }
     else Some (errn, (False, g, x), s2)
   }"

text \<open>The case of the end of an element: \<open>done = 1; grammarID = g;\<close>\<close>

definition decode_end ::
  "nat \<Rightarrow> dec_static \<times> 'a \<Rightarrow> bitstream \<Rightarrow> (errn \<times> (bool \<times> nat \<times> dec_static \<times> 'a) \<times> bitstream) option" where
  "decode_end g x s = Some (EXI_OK, (True, g, x), s)"

text \<open>The case of a child element: its decoder, then the grammar goes on to \<open>next\<close>, error or not.\<close>

definition decode_child ::
  "nat \<Rightarrow> (dec_static \<times> 'a \<Rightarrow> bitstream \<Rightarrow> (errn \<times> (dec_static \<times> 'a) \<times> bitstream) option) \<Rightarrow>
   dec_static \<times> 'a \<Rightarrow> bitstream \<Rightarrow> (errn \<times> (bool \<times> nat \<times> dec_static \<times> 'a) \<times> bitstream) option" where
  "decode_child next val x s = do {
     (errn, x, s1) \<leftarrow> val x s;
     Some (errn, (False, next, x), s1)
   }"

text \<open>An unsigned 32-bit value goes to its field; an n-bit value goes through the static \<open>uint32\<close>.\<close>

definition decode_u32_field ::
  "u32 \<Rightarrow> (u32 \<Rightarrow> 'a \<Rightarrow> 'a) \<Rightarrow> dec_static \<times> 'a \<Rightarrow> bitstream \<Rightarrow> (errn \<times> (dec_static \<times> 'a) \<times> bitstream) option" where
  "decode_u32_field j put x s = do {
     (errn, v, s1) \<leftarrow> decodeUnsignedInteger32 j s;
     Some (errn, (fst x, put v (snd x)), s1)
   }"

definition decode_nbit_field ::
  "nat \<Rightarrow> (u32 \<Rightarrow> 'a \<Rightarrow> 'a) \<Rightarrow> dec_static \<times> 'a \<Rightarrow> bitstream \<Rightarrow> (errn \<times> (dec_static \<times> 'a) \<times> bitstream) option" where
  "decode_nbit_field n put x s = do {
     (errn, u, s1) \<leftarrow> decodeNBitUnsignedInteger s n (uint32 (fst x));
     Some (errn, ((fst x)\<lparr>uint32 := u\<rparr>, put u (snd x)), s1)
   }"

subsection \<open>What the encoders write\<close>

text \<open>
  \<open>does step g x m r\<close>: at \<open>g\<close> with data \<open>x\<close>, the step writes like \<open>m\<close>, and where \<open>m\<close> succeeds the
  loop is left as \<open>r\<close> says.
\<close>

definition does ::
  "(nat \<Rightarrow> 'x \<Rightarrow> bitstream \<Rightarrow> (errn \<times> (bool \<times> nat \<times> 'x) \<times> bitstream) option) \<Rightarrow> nat \<Rightarrow> 'x \<Rightarrow>
   (bitstream \<Rightarrow> (errn \<times> bitstream) option) \<Rightarrow> bool \<times> nat \<times> 'x \<Rightarrow> bool" where
  "does step g x m r \<longleftrightarrow>
     (\<forall>s. do { (e, y, s1) \<leftarrow> step g x s; Some (e, if e = EXI_OK then Some y else None, s1) } =
          do { (e, s1) \<leftarrow> m s; Some (e, if e = EXI_OK then Some r else None, s1) })"

lemma does_goto: "(\<And>s. step g x s = goto g' x' (m s)) \<Longrightarrow> does step g x m (False, g', x')"
  by (auto simp: does_def goto_def intro!: option_bind_cong)

lemma does_finish: "(\<And>s. step g x s = finish g' x' (m s)) \<Longrightarrow> does step g x m (True, g', x')"
  by (auto simp: does_def finish_def split_def intro!: option_bind_cong)

lemma does_cases:
  assumes "does step g x m r"
  obtains "step g x s = None" "m s = None"
  | s1 where "step g x s = Some (EXI_OK, r, s1)" "m s = Some (EXI_OK, s1)"
  | e y s1 where "e \<noteq> EXI_OK" "step g x s = Some (e, y, s1)" "m s = Some (e, s1)"
proof -
  have eq: "do { (e, y, s1) \<leftarrow> step g x s; Some (e, if e = EXI_OK then Some y else None, s1) } =
      do { (e, s1) \<leftarrow> m s; Some (e, if e = EXI_OK then Some r else None, s1) }"
    using assms by (simp add: does_def)
  show thesis
  proof (cases "step g x s")
    case None
    with eq have "m s = None" by (cases "m s") auto
    with None show thesis by (rule that(1))
  next
    case (Some t)
    obtain e y s1 where t: "t = (e, y, s1)" by (cases t)
    with Some eq have ms: "m s = Some (e, s1)" "e = EXI_OK \<Longrightarrow> y = r" by (cases "m s"; auto split: if_splits)+
    show thesis
    proof (cases "e = EXI_OK")
      case True
      with Some t ms show thesis by (intro that(2)) auto
    next
      case False
      with Some t ms show thesis by (intro that(3)) auto
    qed
  qed
qed

lemma run_encoder_next:
  assumes "does step g x m (False, g', x')"
  shows "run_encoder step g x s = do { (e, s1) \<leftarrow> m s; if e = EXI_OK then run_encoder step g' x' s1 else Some (e, s1) }"
  by (rule does_cases [OF assms, of s]) (auto simp: run_encoder_def grammar_loop.simps [of step g])

lemma run_encoder_done:
  assumes "does step g x m (True, g', x')"
  shows "run_encoder step g x s = m s"
  by (rule does_cases [OF assms, of s]) (auto simp: run_encoder_def grammar_loop.simps [of step g])

lemma writes_run_next:
  "does step g x m (False, g', x') \<Longrightarrow> wr.writes m bs \<Longrightarrow> wr.writes (\<lambda>s. run_encoder step g' x' s) cs \<Longrightarrow>
   wr.writes (\<lambda>s. run_encoder step g x s) (bs @ cs)"
  unfolding run_encoder_next by (rule wr.writes_then)

lemma writes_run_done:
  "does step g x m (True, g', x') \<Longrightarrow> wr.writes m bs \<Longrightarrow> wr.writes (\<lambda>s. run_encoder step g x s) bs"
  by (simp add: run_encoder_done)

lemma writes_bit_0: "wr.writes (\<lambda>s. encodeNBitUnsignedInteger s 1 0) [False]"
  using writes_encodeNBit [of 1 0] by (simp add: bits_zero)

lemma writes_encode_simple:
  assumes "n \<le> 8" "wr.writes m bs"
  shows "wr.writes (encode_simple n code m) (bits n code @ [False] @ bs @ [False])"
  unfolding encode_simple_def [abs_def]
  by (intro wr.writes_then wr.writes_next writes_encodeNBit writes_bit_0 assms) simp

lemma writes_encode_child:
  "n \<le> 8 \<Longrightarrow> wr.writes m bs \<Longrightarrow> wr.writes (encode_child n code m) (bits n code @ bs)"
  unfolding encode_child_def [abs_def] by (intro wr.writes_then writes_encodeNBit)

subsection \<open>What the decoders read\<close>

lemma takes_decode_eventCode:
  "n \<le> 32 \<Longrightarrow> take_bit n ev = ev \<Longrightarrow> rd.takes (decode_eventCode n st) (bits n ev) (st\<lparr>eventCode := ev\<rparr>)"
  unfolding decode_eventCode_def [abs_def] by (rule rd.takes_map [OF takes_decodeNBit])

lemma takes_decode_switch:
  assumes "n \<le> 32" "take_bit n ev = ev" "map_of cases ev = Some k"
    and "rd.takes (k (st\<lparr>eventCode := ev\<rparr>, a)) bs r"
  shows "rd.takes (decode_switch n cases g (st, a)) (bits n ev @ bs) r"
  unfolding decode_switch_def [abs_def] fst_conv snd_conv
  by (rule rd.takes_then [where k = "\<lambda>st s. case map_of cases (eventCode st) of
        Some k \<Rightarrow> k (st, a) s | None \<Rightarrow> Some (EXI_ERROR_UNKOWN_EVENT_CODE, (False, g, st, a), s)",
      OF takes_decode_eventCode [OF assms(1,2)]]) (use assms(3,4) in simp)

lemma takes_decode_simple:
  assumes val: "rd.takes (val (st\<lparr>eventCode := 0\<rparr>, a)) bs (st', a')"
  shows "rd.takes (decode_simple g next val (st, a)) ([False] @ bs @ [False])
    (False, next, st'\<lparr>eventCode := 0\<rparr>, a')"
  unfolding rd.takes_def
proof (intro allI impI)
  fix s r assume s: "wf_in s" "unread s = ([False] @ bs @ [False]) @ r"
  have ev: "rd.takes (decode_eventCode 1 st) [False] (st\<lparr>eventCode := 0\<rparr>)" for st
    using takes_decode_eventCode [of 1 0 st] by (simp add: bits_zero)
  obtain s1 where s1: "decode_eventCode 1 st s = Some (EXI_OK, st\<lparr>eventCode := 0\<rparr>, s1)" "wf_in s1"
    "unread s1 = bs @ [False] @ r" "stream_data s1 = stream_data s" using rd.takesD [OF ev s(1), of _ st] s(2) by auto
  obtain s2 where s2: "val (st\<lparr>eventCode := 0\<rparr>, a) s1 = Some (EXI_OK, (st', a'), s2)" "wf_in s2"
    "unread s2 = [False] @ r" "stream_data s2 = stream_data s" using rd.takesD [OF val s1(2,3)] s1(4) by auto
  obtain s3 where "decode_eventCode 1 st' s2 = Some (EXI_OK, st'\<lparr>eventCode := 0\<rparr>, s3)" "wf_in s3"
    "unread s3 = r" "stream_data s3 = stream_data s" using rd.takesD [OF ev s2(2,3)] s2(4) by auto
  with s1 s2 show "\<exists>s'. decode_simple g next val (st, a) s =
      Some (EXI_OK, (False, next, st'\<lparr>eventCode := 0\<rparr>, a'), s') \<and> wf_in s' \<and> unread s' = r \<and> stream_data s' = stream_data s"
    by (simp add: decode_simple_def)
qed

lemma takes_decode_end: "rd.takes (decode_end g x) [] (True, g, x)"
  unfolding decode_end_def [abs_def] by (rule rd.takes_ok)

lemma takes_decode_child: "rd.takes (val x) bs y \<Longrightarrow> rd.takes (decode_child next val x) bs (False, next, y)"
  unfolding decode_child_def [abs_def] by (rule rd.takes_map)

lemma takes_loop_next:
  assumes "rd.takes (step g x) bs (False, g', x')" "rd.takes (grammar_loop step g' x') cs y"
  shows "rd.takes (grammar_loop step g x) (bs @ cs) y"
  unfolding rd.takes_def
proof (intro allI impI)
  fix s r assume s: "wf_in s" "unread s = (bs @ cs) @ r"
  then obtain s1 where "step g x s = Some (EXI_OK, (False, g', x'), s1)" "wf_in s1" "unread s1 = cs @ r"
    "stream_data s1 = stream_data s" using rd.takesD [OF assms(1), of s "cs @ r"] by auto
  with rd.takesD [OF assms(2), of s1 r]
  show "\<exists>s'. grammar_loop step g x s = Some (EXI_OK, y, s') \<and> wf_in s' \<and> unread s' = r \<and> stream_data s' = stream_data s"
    by (simp add: grammar_loop.simps [of step g])
qed

lemma takes_loop_done:
  assumes "rd.takes (step g x) bs (True, g', x')"
  shows "rd.takes (grammar_loop step g x) bs x'"
  unfolding rd.takes_def
proof (intro allI impI)
  fix s r assume s: "wf_in s" "unread s = bs @ r"
  from rd.takesD [OF assms this]
  show "\<exists>s'. grammar_loop step g x s = Some (EXI_OK, x', s') \<and> wf_in s' \<and> unread s' = r \<and> stream_data s' = stream_data s"
    by (auto simp: grammar_loop.simps [of step g])
qed

lemma takes_u32_field:
  assumes "v < 2 ^ 31"
  shows "rd.takes (decode_u32_field j put (st, a)) (bytes_bits (octets (unat v))) (st, put v a)"
proof -
  have "rd.takes (\<lambda>s. decodeUnsignedInteger32 j s) (bytes_bits (octets (unat v))) v"
    using takes_decodeUnsignedInteger32 [of "unat v" j] assms by (simp add: word_less_nat_alt)
  from rd.takes_map [OF this, of "\<lambda>_ v. (st, put v a)"] show ?thesis
    by (simp add: decode_u32_field_def [abs_def])
qed

lemma takes_nbit_field:
  assumes "n \<le> 32" "take_bit n u = u"
  shows "rd.takes (decode_nbit_field n put (st, a)) (bits n u) (st\<lparr>uint32 := u\<rparr>, put u a)"
  unfolding decode_nbit_field_def [abs_def] fst_conv snd_conv
  by (rule rd.takes_map [OF takes_decodeNBit [OF assms]])

end
