(* ===== verification/AppHandTypes.thy ===== *)
theory AppHandTypes
  imports Grammar
begin

section \<open>Data types of the application handshake (appHandEXIDatatypes.h, appHandEXIDatatypes.c)\<close>

text \<open>
  The structs of \<open>include/appHandshake/appHandEXIDatatypes.h\<close> and the \<open>init\<close> functions. A nested
  struct is its fields with its name in front; a one-bit flag is a \<open>bool\<close>. The two documents share
  their memory in a union of the code: the model keeps them apart, and no function reads the member
  that was not written last, as long as the flags say which one that is.
\<close>

record appHandAppProtocolType =
  ProtocolNamespace_characters :: "u8 list"
  ProtocolNamespace_charactersLen :: u16
  VersionNumberMajor :: u32
  VersionNumberMinor :: u32
  SchemaID :: u8
  Priority :: u8

text \<open>\<open>appHandresponseCodeType\<close> is an enumeration of the values 0, 1, 2, stored as an \<open>unsigned int\<close>.\<close>

record appHandAnonType_supportedAppProtocolRes =
  ResponseCode :: u32
  res_SchemaID :: u8
  SchemaID_isUsed :: bool

record appHandAnonType_supportedAppProtocolReq =
  AppProtocol_array :: "appHandAppProtocolType list"
  AppProtocol_arrayLen :: u16

record appHandEXIDocument =
  supportedAppProtocolReq :: appHandAnonType_supportedAppProtocolReq
  supportedAppProtocolRes :: appHandAnonType_supportedAppProtocolRes
  supportedAppProtocolReq_isUsed :: bool
  supportedAppProtocolRes_isUsed :: bool

abbreviation (input) ProtocolNamespace_CHARACTERS_SIZE :: u64 where
  "ProtocolNamespace_CHARACTERS_SIZE \<equiv> 100"

abbreviation (input) AppProtocol_ARRAY_SIZE :: u16 where
  "AppProtocol_ARRAY_SIZE \<equiv> 5"

definition init_appHandEXIDocument :: "appHandEXIDocument \<Rightarrow> appHandEXIDocument" where
  "init_appHandEXIDocument exiDoc =
     exiDoc\<lparr>supportedAppProtocolReq_isUsed := False, supportedAppProtocolRes_isUsed := False\<rparr>"

definition init_appHandAppProtocolType :: "appHandAppProtocolType \<Rightarrow> appHandAppProtocolType" where
  "init_appHandAppProtocolType a = a"

definition init_appHandAnonType_supportedAppProtocolReq ::
  "appHandAnonType_supportedAppProtocolReq \<Rightarrow> appHandAnonType_supportedAppProtocolReq" where
  "init_appHandAnonType_supportedAppProtocolReq req = req\<lparr>AppProtocol_arrayLen := 0\<rparr>"

definition init_appHandAnonType_supportedAppProtocolRes ::
  "appHandAnonType_supportedAppProtocolRes \<Rightarrow> appHandAnonType_supportedAppProtocolRes" where
  "init_appHandAnonType_supportedAppProtocolRes res = res\<lparr>SchemaID_isUsed := False\<rparr>"

subsection \<open>The messages the structs stand for\<close>

text \<open>
  What a document means, apart from the bytes of its arrays that are not in use: an offer of
  protocols, or an answer.
\<close>

record protocol =
  namespace :: "u8 list"
  major :: u32
  minor :: u32
  schema :: u8
  priority :: u8

datatype message = Offer "protocol list" | Answer u32 "u8 option"

definition protocol_of :: "appHandAppProtocolType \<Rightarrow> protocol" where
  "protocol_of a = \<lparr>namespace = take (unat (ProtocolNamespace_charactersLen a)) (ProtocolNamespace_characters a),
     major = VersionNumberMajor a, minor = VersionNumberMinor a, schema = SchemaID a, priority = Priority a\<rparr>"

definition offer_of :: "appHandAnonType_supportedAppProtocolReq \<Rightarrow> protocol list" where
  "offer_of req = map protocol_of (take (unat (AppProtocol_arrayLen req)) (AppProtocol_array req))"

definition message_of :: "appHandEXIDocument \<Rightarrow> message option" where
  "message_of d =
     (if supportedAppProtocolReq_isUsed d then Some (Offer (offer_of (supportedAppProtocolReq d)))
      else if supportedAppProtocolRes_isUsed d
      then Some (Answer (ResponseCode (supportedAppProtocolRes d))
             (if SchemaID_isUsed (supportedAppProtocolRes d) then Some (res_SchemaID (supportedAppProtocolRes d)) else None))
      else None)"

text \<open>
  The format of a message: the string table miss adds 2 to the length of a namespace, the priority
  is stored minus one in 5 bits, every element of the offer but the first has a 2-bit event code,
  and the end of the list has one too; an offer of 20 protocols, the most the grammar has states
  for, ends with one bit.
\<close>

definition simple_bits :: "nat \<Rightarrow> u32 \<Rightarrow> bool list \<Rightarrow> bool list" where
  "simple_bits n code bs = bits n code @ [False] @ bs @ [False]"

definition protocol_bits :: "protocol \<Rightarrow> bool list" where
  "protocol_bits p =
     simple_bits 1 0 (bytes_bits (octets (length (namespace p) + 2)) @ bytes_bits (namespace p)) @
     simple_bits 1 0 (bytes_bits (octets (unat (major p)))) @
     simple_bits 1 0 (bytes_bits (octets (unat (minor p)))) @
     simple_bits 1 0 (bits 8 (schema p)) @
     simple_bits 1 0 (bits 5 (ucast (priority p) - 1 :: u32)) @ [False]"

fun more_bits :: "nat \<Rightarrow> protocol list \<Rightarrow> bool list" where
  "more_bits k [] = (if k = 20 then [False] else [False, True])"
| "more_bits k (p # ps) = [False, False] @ protocol_bits p @ more_bits (Suc k) ps"

fun offer_bits :: "protocol list \<Rightarrow> bool list" where
  "offer_bits [] = []"
| "offer_bits (p # ps) = [False] @ protocol_bits p @ more_bits 1 ps"

definition answer_bits :: "u32 \<Rightarrow> u8 option \<Rightarrow> bool list" where
  "answer_bits c sid =
     simple_bits 1 0 (bits 2 c) @
     (case sid of Some i \<Rightarrow> simple_bits 2 0 (bits 8 i) @ [False] | None \<Rightarrow> [False, True])"

fun message_bits :: "message \<Rightarrow> bool list" where
  "message_bits (Offer ps) = header_bits @ [False, False] @ offer_bits ps"
| "message_bits (Answer c sid) = header_bits @ [False, True] @ answer_bits c sid"

end
