(* ===== verification/AppHandEncoder.thy ===== *)
theory AppHandEncoder
  imports AppHandTypes
begin

section \<open>Encoding the application handshake (appHandEXIDatatypesEncoder.c)\<close>

text \<open>
  Each function is its switch, a step from \<open>grammarID\<close>, run by \<^const>\<open>run_encoder\<close>. The branches
  \<open>else errn = EXI_ERROR_UNKOWN_EVENT\<close> after \<open>if (1 == 1)\<close> are never taken and are left out.
\<close>

definition AppProtocolType_enc_step ::
  "appHandAppProtocolType \<Rightarrow> nat \<Rightarrow> unit \<Rightarrow> bitstream \<Rightarrow> (errn \<times> (bool \<times> nat \<times> unit) \<times> bitstream) option" where
  "AppProtocolType_enc_step a g x s =
     (if g = 0 then goto 1 x (encode_simple 1 0 (\<lambda>s. do {
          (errn, s1) \<leftarrow> encodeUnsignedInteger16 s (ProtocolNamespace_charactersLen a + 2);
          if errn = EXI_OK
          then encodeCharacters s1 (ProtocolNamespace_characters a) (ucast (ProtocolNamespace_charactersLen a))
          else Some (errn, s1) }) s)
      else if g = 1 then goto 2 x (encode_simple 1 0 (\<lambda>s. encodeUnsignedInteger32 s (VersionNumberMajor a)) s)
      else if g = 2 then goto 3 x (encode_simple 1 0 (\<lambda>s. encodeUnsignedInteger32 s (VersionNumberMinor a)) s)
      else if g = 3 then goto 4 x (encode_simple 1 0 (\<lambda>s. encodeNBitUnsignedInteger s 8 (ucast (SchemaID a) - 0)) s)
      else if g = 4 then goto 5 x (encode_simple 1 0 (\<lambda>s. encodeNBitUnsignedInteger s 5 (ucast (Priority a) - 1)) s)
      else if g = 5 then finish 6 x (encodeNBitUnsignedInteger s 1 0)
      else Some (EXI_ERROR_UNKOWN_GRAMMAR_ID, (False, g, x), s))"

definition encode_appHandAppProtocolType :: "bitstream \<Rightarrow> appHandAppProtocolType \<Rightarrow> (errn \<times> bitstream) option" where
  "encode_appHandAppProtocolType s a = run_encoder (AppProtocolType_enc_step a) 0 () s"

text \<open>
  The body of the cases 7 to 26: the next element of the array, \<open>currArrayIndex\<close> being incremented
  when the event code was written. An index outside the array is undefined.
\<close>

definition encode_next_AppProtocol ::
  "nat \<Rightarrow> nat \<Rightarrow> appHandAnonType_supportedAppProtocolReq \<Rightarrow> nat \<Rightarrow> bitstream \<Rightarrow>
    (errn \<times> (bool \<times> nat \<times> nat) \<times> bitstream) option" where
  "encode_next_AppProtocol n next req currArrayIndex s = do {
     (errn, s1) \<leftarrow> encodeNBitUnsignedInteger s n 0;
     if errn = EXI_OK then
       if currArrayIndex < length (AppProtocol_array req) then do {
         (errn, s2) \<leftarrow> encode_appHandAppProtocolType s1 (AppProtocol_array req ! currArrayIndex);
         Some (errn, (False, next, currArrayIndex + 1), s2)
       }
       else None
     else Some (errn, (False, next, currArrayIndex), s1)
   }"

definition encode_AppProtocol_or_end ::
  "nat \<Rightarrow> appHandAnonType_supportedAppProtocolReq \<Rightarrow> nat \<Rightarrow> bitstream \<Rightarrow>
    (errn \<times> (bool \<times> nat \<times> nat) \<times> bitstream) option" where
  "encode_AppProtocol_or_end next req currArrayIndex s =
     (if currArrayIndex < unat (AppProtocol_arrayLen req)
      then encode_next_AppProtocol 2 next req currArrayIndex s
      else finish 6 currArrayIndex (encodeNBitUnsignedInteger s 2 1))"

text \<open>The switch of \<open>encode_appHandAnonType_supportedAppProtocolReq\<close>, in three groups of cases.\<close>

definition supportedAppProtocolReq_enc_21_26 ::
  "appHandAnonType_supportedAppProtocolReq \<Rightarrow> nat \<Rightarrow> nat \<Rightarrow> bitstream \<Rightarrow>
    (errn \<times> (bool \<times> nat \<times> nat) \<times> bitstream) option" where
  "supportedAppProtocolReq_enc_21_26 req g i s =
     (if g = 21 then encode_AppProtocol_or_end 22 req i s
     else if g = 22 then encode_AppProtocol_or_end 23 req i s
     else if g = 23 then encode_AppProtocol_or_end 24 req i s
     else if g = 24 then encode_AppProtocol_or_end 25 req i s
     else if g = 25 then encode_AppProtocol_or_end 26 req i s
     else if g = 26 then encode_AppProtocol_or_end 5 req i s
     else if g = 5 then finish 6 i (encodeNBitUnsignedInteger s 1 0)
     else Some (EXI_ERROR_UNKOWN_GRAMMAR_ID, (False, g, i), s))"

definition supportedAppProtocolReq_enc_14_20 ::
  "appHandAnonType_supportedAppProtocolReq \<Rightarrow> nat \<Rightarrow> nat \<Rightarrow> bitstream \<Rightarrow>
    (errn \<times> (bool \<times> nat \<times> nat) \<times> bitstream) option" where
  "supportedAppProtocolReq_enc_14_20 req g i s =
     (if g = 14 then encode_AppProtocol_or_end 15 req i s
     else if g = 15 then encode_AppProtocol_or_end 16 req i s
     else if g = 16 then encode_AppProtocol_or_end 17 req i s
     else if g = 17 then encode_AppProtocol_or_end 18 req i s
     else if g = 18 then encode_AppProtocol_or_end 19 req i s
     else if g = 19 then encode_AppProtocol_or_end 20 req i s
     else if g = 20 then encode_AppProtocol_or_end 21 req i s
     else supportedAppProtocolReq_enc_21_26 req g i s)"

definition supportedAppProtocolReq_enc_step ::
  "appHandAnonType_supportedAppProtocolReq \<Rightarrow> nat \<Rightarrow> nat \<Rightarrow> bitstream \<Rightarrow>
    (errn \<times> (bool \<times> nat \<times> nat) \<times> bitstream) option" where
  "supportedAppProtocolReq_enc_step req g i s =
     (if g = 7 then
        if i < unat (AppProtocol_arrayLen req) then encode_next_AppProtocol 1 8 req i s
        else Some (EXI_ERROR_UNKOWN_EVENT, (False, g, i), s)
     else if g = 8 then encode_AppProtocol_or_end 9 req i s
     else if g = 9 then encode_AppProtocol_or_end 10 req i s
     else if g = 10 then encode_AppProtocol_or_end 11 req i s
     else if g = 11 then encode_AppProtocol_or_end 12 req i s
     else if g = 12 then encode_AppProtocol_or_end 13 req i s
     else if g = 13 then encode_AppProtocol_or_end 14 req i s
     else supportedAppProtocolReq_enc_14_20 req g i s)"

definition encode_appHandAnonType_supportedAppProtocolReq ::
  "bitstream \<Rightarrow> appHandAnonType_supportedAppProtocolReq \<Rightarrow> (errn \<times> bitstream) option" where
  "encode_appHandAnonType_supportedAppProtocolReq s req =
     run_encoder (supportedAppProtocolReq_enc_step req) 7 0 s"

definition supportedAppProtocolRes_enc_step ::
  "appHandAnonType_supportedAppProtocolRes \<Rightarrow> nat \<Rightarrow> unit \<Rightarrow> bitstream \<Rightarrow>
    (errn \<times> (bool \<times> nat \<times> unit) \<times> bitstream) option" where
  "supportedAppProtocolRes_enc_step res g x s =
     (if g = 27 then goto 28 x (encode_simple 1 0 (\<lambda>s. encodeNBitUnsignedInteger s 2 (ResponseCode res)) s)
      else if g = 28 then
        if SchemaID_isUsed res
        then goto 5 x (encode_simple 2 0 (\<lambda>s. encodeNBitUnsignedInteger s 8 (ucast (res_SchemaID res) - 0)) s)
        else finish 6 x (encodeNBitUnsignedInteger s 2 1)
      else if g = 5 then finish 6 x (encodeNBitUnsignedInteger s 1 0)
      else Some (EXI_ERROR_UNKOWN_GRAMMAR_ID, (False, g, x), s))"

definition encode_appHandAnonType_supportedAppProtocolRes ::
  "bitstream \<Rightarrow> appHandAnonType_supportedAppProtocolRes \<Rightarrow> (errn \<times> bitstream) option" where
  "encode_appHandAnonType_supportedAppProtocolRes s res =
     run_encoder (supportedAppProtocolRes_enc_step res) 27 () s"

definition encode_appHandExiDocument :: "bitstream \<Rightarrow> appHandEXIDocument \<Rightarrow> (errn \<times> bitstream) option" where
  "encode_appHandExiDocument s exiDoc = do {
     (errn, s) \<leftarrow> writeEXIHeader s;
     (errn, s) \<leftarrow>
       (if errn = EXI_OK then
          if supportedAppProtocolReq_isUsed exiDoc then do {
            (errn, s) \<leftarrow> encodeNBitUnsignedInteger s 2 0;
            if errn = EXI_OK
            then encode_appHandAnonType_supportedAppProtocolReq s (supportedAppProtocolReq exiDoc)
            else Some (errn, s)
          }
          else if supportedAppProtocolRes_isUsed exiDoc then do {
            (errn, s) \<leftarrow> encodeNBitUnsignedInteger s 2 1;
            if errn = EXI_OK
            then encode_appHandAnonType_supportedAppProtocolRes s (supportedAppProtocolRes exiDoc)
            else Some (errn, s)
          }
          else Some (EXI_ERROR_UNKOWN_EVENT, s)
        else Some (errn, s));
     if errn = EXI_OK then encodeFinish s else Some (errn, s)
   }"

subsection \<open>What the encoder writes\<close>

text \<open>
  The documents the encoder has a meaning for: lengths within their arrays, at least one protocol,
  at most 20 (the array of the code has 5).
\<close>

definition protocol_encodable :: "appHandAppProtocolType \<Rightarrow> bool" where
  "protocol_encodable a \<longleftrightarrow>
     unat (ProtocolNamespace_charactersLen a) \<le> length (ProtocolNamespace_characters a) \<and>
     unat (ProtocolNamespace_charactersLen a) + 2 < 2 ^ 16"

definition offer_encodable :: "appHandAnonType_supportedAppProtocolReq \<Rightarrow> bool" where
  "offer_encodable req \<longleftrightarrow>
     1 \<le> unat (AppProtocol_arrayLen req) \<and> unat (AppProtocol_arrayLen req) \<le> 20 \<and>
     unat (AppProtocol_arrayLen req) \<le> length (AppProtocol_array req) \<and>
     (\<forall>a \<in> set (take (unat (AppProtocol_arrayLen req)) (AppProtocol_array req)). protocol_encodable a)"

lemma writes_simple:
  "n \<le> 8 \<Longrightarrow> wr.writes m bs \<Longrightarrow> wr.writes (encode_simple n code m) (simple_bits n code bs)"
  unfolding simple_bits_def by (rule writes_encode_simple)

lemma writes_simple_1: "wr.writes m bs \<Longrightarrow> wr.writes (encode_simple 1 code m) (simple_bits 1 code bs)"
  by (rule writes_simple) simp

lemma writes_namespace:
  assumes "protocol_encodable a"
  shows "wr.writes (\<lambda>s. do {
          (errn, s1) \<leftarrow> encodeUnsignedInteger16 s (ProtocolNamespace_charactersLen a + 2);
          if errn = EXI_OK
          then encodeCharacters s1 (ProtocolNamespace_characters a) (ucast (ProtocolNamespace_charactersLen a))
          else Some (errn, s1) })
    (bytes_bits (octets (length (namespace (protocol_of a)) + 2)) @ bytes_bits (namespace (protocol_of a)))"
proof -
  let ?l = "ProtocolNamespace_charactersLen a"
  have "?l + 2 = of_nat (unat ?l + 2)" by simp
  then have "unat (?l + 2) = unat ?l + 2"
    using assms by (simp only: unat_of_nat) (simp add: protocol_encodable_def)
  moreover have "unat (ucast ?l :: u64) = unat ?l" by (rule unat_ucast_up) simp
  ultimately show ?thesis
    using wr.writes_then [OF writes_encodeUnsignedInteger16 [of "?l + 2"] writes_encodeCharacters [of "ucast ?l"]] assms
    by (simp add: protocol_of_def protocol_encodable_def min_absorb2)
qed

lemma AppProtocolType_enc_does:
  fixes a defines "step \<equiv> AppProtocolType_enc_step a"
  shows "does step 0 () (encode_simple 1 0 (\<lambda>s. do {
          (errn, s1) \<leftarrow> encodeUnsignedInteger16 s (ProtocolNamespace_charactersLen a + 2);
          if errn = EXI_OK
          then encodeCharacters s1 (ProtocolNamespace_characters a) (ucast (ProtocolNamespace_charactersLen a))
          else Some (errn, s1) })) (False, 1, ())"
    and "does step 1 () (encode_simple 1 0 (\<lambda>s. encodeUnsignedInteger32 s (VersionNumberMajor a))) (False, 2, ())"
    and "does step 2 () (encode_simple 1 0 (\<lambda>s. encodeUnsignedInteger32 s (VersionNumberMinor a))) (False, 3, ())"
    and "does step 3 () (encode_simple 1 0 (\<lambda>s. encodeNBitUnsignedInteger s 8 (ucast (SchemaID a)))) (False, 4, ())"
    and "does step 4 () (encode_simple 1 0 (\<lambda>s. encodeNBitUnsignedInteger s 5 (ucast (Priority a) - 1))) (False, 5, ())"
    and "does step 5 () (\<lambda>s. encodeNBitUnsignedInteger s 1 0) (True, 6, ())"
  unfolding step_def
  by (rule does_goto does_finish, simp add: AppProtocolType_enc_step_def)+

lemma writes_AppProtocolType:
  assumes "protocol_encodable a"
  shows "wr.writes (\<lambda>s. encode_appHandAppProtocolType s a) (protocol_bits (protocol_of a))"
proof -
  let ?run = "run_encoder (AppProtocolType_enc_step a)"
  let ?major = "bytes_bits (octets (unat (VersionNumberMajor a)))"
  let ?minor = "bytes_bits (octets (unat (VersionNumberMinor a)))"
  have b8: "wr.writes (\<lambda>s. encodeNBitUnsignedInteger s 8 (ucast (SchemaID a))) (bits 8 (SchemaID a))"
    using writes_encodeNBit [of 8 "ucast (SchemaID a)"] by (simp add: bits_ucast)
  have p5: "wr.writes (\<lambda>s. encodeNBitUnsignedInteger s 5 (ucast (Priority a) - 1)) (bits 5 (ucast (Priority a) - 1 :: u32))"
    by (rule writes_encodeNBit) simp
  note does = AppProtocolType_enc_does [of a]
  have "wr.writes (\<lambda>s. ?run 5 () s) [False]"
    by (rule writes_run_done [OF does(6) writes_bit_0])
  then have "wr.writes (\<lambda>s. ?run 4 () s) (simple_bits 1 0 (bits 5 (ucast (Priority a) - 1 :: u32)) @ [False])"
    by (rule writes_run_next [OF does(5) writes_simple_1 [OF p5]])
  then have "wr.writes (\<lambda>s. ?run 3 () s) (simple_bits 1 0 (bits 8 (SchemaID a)) @
      simple_bits 1 0 (bits 5 (ucast (Priority a) - 1 :: u32)) @ [False])"
    by (rule writes_run_next [OF does(4) writes_simple_1 [OF b8]])
  then have "wr.writes (\<lambda>s. ?run 2 () s) (simple_bits 1 0 ?minor @ simple_bits 1 0 (bits 8 (SchemaID a)) @
      simple_bits 1 0 (bits 5 (ucast (Priority a) - 1 :: u32)) @ [False])"
    by (rule writes_run_next [OF does(3) writes_simple_1 [OF writes_encodeUnsignedInteger32]])
  then have "wr.writes (\<lambda>s. ?run 1 () s) (simple_bits 1 0 ?major @ simple_bits 1 0 ?minor @
      simple_bits 1 0 (bits 8 (SchemaID a)) @ simple_bits 1 0 (bits 5 (ucast (Priority a) - 1 :: u32)) @ [False])"
    by (rule writes_run_next [OF does(2) writes_simple_1 [OF writes_encodeUnsignedInteger32]])
  then have "wr.writes (\<lambda>s. ?run 0 () s) (protocol_bits (protocol_of a))"
    using writes_run_next [OF does(1) writes_simple_1 [OF writes_namespace [OF assms]]]
    by (simp add: protocol_bits_def protocol_of_def)
  then show ?thesis by (simp add: encode_appHandAppProtocolType_def)
qed

text \<open>The list of the offer. \<open>i\<close> protocols are written in state \<open>req_state i\<close>.\<close>

definition req_state :: "nat \<Rightarrow> nat" where
  "req_state i = (if i = 20 then 5 else 7 + i)"

lemma Req_enc_step_more:
  assumes "1 \<le> i" "i \<le> 19"
  shows "supportedAppProtocolReq_enc_step req (req_state i) k s = encode_AppProtocol_or_end (req_state (Suc i)) req k s"
proof -
  have "i \<in> set [1..<20]" using assms by simp
  then show ?thesis
    by (auto simp: upt_rec supportedAppProtocolReq_enc_step_def supportedAppProtocolReq_enc_14_20_def
        supportedAppProtocolReq_enc_21_26_def req_state_def)
qed

lemma does_encode_next:
  assumes "i < length (AppProtocol_array req)"
    and "\<And>s. step g i s = encode_next_AppProtocol n next req i s"
  shows "does step g i (encode_child n 0 (\<lambda>s. encode_appHandAppProtocolType s (AppProtocol_array req ! i)))
    (False, next, Suc i)"
  using assms by (auto simp: does_def encode_next_AppProtocol_def encode_child_def intro!: option_bind_cong)

lemma writes_more:
  assumes enc: "offer_encodable req"
  shows "1 \<le> i \<Longrightarrow> i \<le> unat (AppProtocol_arrayLen req) \<Longrightarrow>
    wr.writes (\<lambda>s. run_encoder (supportedAppProtocolReq_enc_step req) (req_state i) i s)
      (more_bits i (drop i (offer_of req)))"
proof (induction "unat (AppProtocol_arrayLen req) - i" arbitrary: i)
  case 0
  let ?step = "supportedAppProtocolReq_enc_step req"
  have i: "i = unat (AppProtocol_arrayLen req)" "i \<le> 20" using 0 enc by (simp_all add: offer_encodable_def)
  then have "drop i (offer_of req) = []" by (simp add: offer_of_def)
  moreover have "does ?step (req_state i) i (\<lambda>s. encodeNBitUnsignedInteger s (if i = 20 then 1 else 2) (if i = 20 then 0 else 1)) (True, 6, i)"
  proof (rule does_finish)
    fix s show "?step (req_state i) i s =
        finish 6 i (encodeNBitUnsignedInteger s (if i = 20 then 1 else 2) (if i = 20 then 0 else 1))"
    proof (cases "i = 20")
      case True
      then show ?thesis
        by (simp add: req_state_def supportedAppProtocolReq_enc_step_def supportedAppProtocolReq_enc_14_20_def
            supportedAppProtocolReq_enc_21_26_def)
    next
      case False
      then show ?thesis using 0 i by (simp add: Req_enc_step_more encode_AppProtocol_or_end_def)
    qed
  qed
  moreover have "wr.writes (\<lambda>s. encodeNBitUnsignedInteger s (if i = 20 then 1 else 2) (if i = 20 then 0 else 1))
      (if i = 20 then [False] else [False, True])"
    using writes_encodeNBit [of 1 0] writes_encodeNBit [of 2 1] by (simp add: bits_def numeral_2_eq_2 bit_1_iff)
  ultimately show ?case by (simp add: writes_run_done)
next
  case (Suc k)
  let ?n = "unat (AppProtocol_arrayLen req)"
  have i: "i < ?n" "i \<le> 19" "k = ?n - Suc i" "Suc i \<le> ?n" "i < length (AppProtocol_array req)"
    using Suc.hyps Suc.prems enc unfolding offer_encodable_def by linarith+
  let ?a = "AppProtocol_array req ! i"
  have "?a \<in> set (take ?n (AppProtocol_array req))" using i by (auto simp: in_set_conv_nth)
  then have "protocol_encodable ?a" using enc by (simp add: offer_encodable_def)
  note w = writes_encode_child [OF _ writes_AppProtocolType [OF this], of 2 0]
  have d: "does (supportedAppProtocolReq_enc_step req) (req_state i) i
      (encode_child 2 0 (\<lambda>s. encode_appHandAppProtocolType s ?a)) (False, req_state (Suc i), Suc i)"
    using Suc.prems i by (intro does_encode_next) (simp_all add: Req_enc_step_more encode_AppProtocol_or_end_def)
  have "drop i (offer_of req) = protocol_of ?a # drop (Suc i) (offer_of req)"
    using i by (subst drop_nth_Cons) (simp_all add: offer_of_def)
  moreover have "bits 2 (0 :: u32) = [False, False]" by (simp add: bits_zero numeral_2_eq_2)
  ultimately show ?case
    using writes_run_next [OF d w Suc.hyps(1) [OF i(3) _ i(4)]] by simp
qed

lemma writes_Req:
  assumes enc: "offer_encodable req"
  shows "wr.writes (\<lambda>s. encode_appHandAnonType_supportedAppProtocolReq s req) (offer_bits (offer_of req))"
proof -
  let ?a = "AppProtocol_array req ! 0"
  have len: "0 < length (AppProtocol_array req)" "0 < unat (AppProtocol_arrayLen req)"
    using enc by (auto simp: offer_encodable_def)
  then have "?a \<in> set (take (unat (AppProtocol_arrayLen req)) (AppProtocol_array req))"
    by (auto simp: in_set_conv_nth)
  then have "protocol_encodable ?a" using enc by (simp add: offer_encodable_def)
  note w = writes_encode_child [OF _ writes_AppProtocolType [OF this], of 1 0]
  have d: "does (supportedAppProtocolReq_enc_step req) 7 0
      (encode_child 1 0 (\<lambda>s. encode_appHandAppProtocolType s ?a)) (False, 8, Suc 0)"
    using len by (intro does_encode_next) (simp_all add: supportedAppProtocolReq_enc_step_def)
  have m: "wr.writes (\<lambda>s. run_encoder (supportedAppProtocolReq_enc_step req) 8 (Suc 0) s)
      (more_bits 1 (drop 1 (offer_of req)))"
    using writes_more [OF enc, of 1] len by (simp add: req_state_def)
  have "offer_of req = protocol_of ?a # drop 1 (offer_of req)"
    using len drop_nth_Cons [of 0 "offer_of req"] by (simp add: offer_of_def)
  then have "offer_bits (offer_of req) = [False] @ protocol_bits (protocol_of ?a) @ more_bits 1 (drop 1 (offer_of req))"
    by (metis offer_bits.simps(2))
  with writes_run_next [OF d w m] show ?thesis
    by (simp add: encode_appHandAnonType_supportedAppProtocolReq_def bits_zero)
qed

lemma writes_Res:
  "wr.writes (\<lambda>s. encode_appHandAnonType_supportedAppProtocolRes s res)
     (answer_bits (ResponseCode res) (if SchemaID_isUsed res then Some (res_SchemaID res) else None))"
proof -
  let ?step = "supportedAppProtocolRes_enc_step res"
  have c: "wr.writes (encode_simple 1 0 (\<lambda>s. encodeNBitUnsignedInteger s 2 (ResponseCode res)))
      (simple_bits 1 0 (bits 2 (ResponseCode res)))"
    by (intro writes_simple writes_encodeNBit) simp_all
  have d: "does ?step 27 () (encode_simple 1 0 (\<lambda>s. encodeNBitUnsignedInteger s 2 (ResponseCode res))) (False, 28, ())"
    by (rule does_goto) (simp add: supportedAppProtocolRes_enc_step_def)
  have "wr.writes (\<lambda>s. run_encoder ?step 28 () s)
      (case if SchemaID_isUsed res then Some (res_SchemaID res) else None of
        Some i \<Rightarrow> simple_bits 2 0 (bits 8 i) @ [False] | None \<Rightarrow> [False, True])"
  proof (cases "SchemaID_isUsed res")
    case True
    have w: "wr.writes (encode_simple 2 0 (\<lambda>s. encodeNBitUnsignedInteger s 8 (ucast (res_SchemaID res))))
        (simple_bits 2 0 (bits 8 (res_SchemaID res)))"
      using writes_simple [OF _ writes_encodeNBit [of 8 "ucast (res_SchemaID res)"], of 2 0] by (simp add: bits_ucast)
    have d28: "does ?step 28 () (encode_simple 2 0 (\<lambda>s. encodeNBitUnsignedInteger s 8 (ucast (res_SchemaID res)))) (False, 5, ())"
      by (rule does_goto) (simp add: supportedAppProtocolRes_enc_step_def True)
    have d5: "does ?step 5 () (\<lambda>s. encodeNBitUnsignedInteger s 1 0) (True, 6, ())"
      by (rule does_finish) (simp add: supportedAppProtocolRes_enc_step_def)
    from writes_run_next [OF d28 w writes_run_done [OF d5 writes_bit_0]] show ?thesis using True by simp
  next
    case False
    have "does ?step 28 () (\<lambda>s. encodeNBitUnsignedInteger s 2 1) (True, 6, ())"
      by (rule does_finish) (simp add: supportedAppProtocolRes_enc_step_def False)
    with False show ?thesis using writes_encodeNBit [of 2 1]
      by (simp add: writes_run_done bits_def numeral_2_eq_2 bit_1_iff)
  qed
  from writes_run_next [OF d c this] show ?thesis
    by (simp add: encode_appHandAnonType_supportedAppProtocolRes_def answer_bits_def)
qed

subsection \<open>Whole documents\<close>

definition doc_encodable :: "appHandEXIDocument \<Rightarrow> bool" where
  "doc_encodable d \<longleftrightarrow>
     (if supportedAppProtocolReq_isUsed d then offer_encodable (supportedAppProtocolReq d)
      else supportedAppProtocolRes_isUsed d)"

lemma message_of_encodable: "doc_encodable d \<Longrightarrow> message_of d \<noteq> None"
  by (auto simp: doc_encodable_def message_of_def split: if_splits)

lemma encode_doc_form:
  assumes "doc_encodable d" "message_of d = Some m"
  shows "\<exists>W. wr.writes W (message_bits m) \<and> (\<forall>s. encode_appHandExiDocument s d = session W s)"
proof -
  define body where "body s = (if supportedAppProtocolReq_isUsed d
      then encode_child 2 0 (\<lambda>s. encode_appHandAnonType_supportedAppProtocolReq s (supportedAppProtocolReq d)) s
      else encode_child 2 1 (\<lambda>s. encode_appHandAnonType_supportedAppProtocolRes s (supportedAppProtocolRes d)) s)" for s
  have b: "bits 2 (0 :: u32) = [False, False]" "bits 2 (1 :: u32) = [False, True]"
    by (simp_all add: bits_def numeral_2_eq_2 bit_1_iff)
  have "\<exists>bs. wr.writes body bs \<and> message_bits m = header_bits @ bs"
  proof (cases "supportedAppProtocolReq_isUsed d")
    case True
    then have "wr.writes body ([False, False] @ offer_bits (offer_of (supportedAppProtocolReq d)))"
      using writes_encode_child [OF _ writes_Req, of 2 "supportedAppProtocolReq d" 0] assms(1) b
      by (simp add: body_def [abs_def] doc_encodable_def)
    then show ?thesis using assms(2) True by (auto simp: message_of_def)
  next
    case False
    then have "wr.writes body ([False, True] @ answer_bits (ResponseCode (supportedAppProtocolRes d))
        (if SchemaID_isUsed (supportedAppProtocolRes d) then Some (res_SchemaID (supportedAppProtocolRes d)) else None))"
      using writes_encode_child [OF _ writes_Res, of 2 1 "supportedAppProtocolRes d"] b
      by (simp add: body_def [abs_def])
    then show ?thesis using assms False by (auto simp: message_of_def doc_encodable_def)
  qed
  then obtain bs where "wr.writes body bs" and m: "message_bits m = header_bits @ bs" by blast
  from wr.writes_then [OF writes_header this(1)] m
  have W: "wr.writes (\<lambda>s. do { (e, s1) \<leftarrow> writeBits s 8 128; if e = EXI_OK then body s1 else Some (e, s1) }) (message_bits m)"
    by simp
  have "encode_appHandExiDocument s d =
      session (\<lambda>s. do { (e, s1) \<leftarrow> writeBits s 8 128; if e = EXI_OK then body s1 else Some (e, s1) }) s" for s
    using assms(1)
    by (auto simp: encode_appHandExiDocument_def writeEXIHeader_reset body_def encode_child_def doc_encodable_def
        session_def intro!: option_bind_cong)
  with W show ?thesis by blast
qed

end
