(* ===== verification/AppHandDecoder.thy ===== *)
theory AppHandDecoder
  imports AppHandTypes
begin

section \<open>Decoding the application handshake (appHandEXIDatatypesDecoder.c)\<close>

text \<open>
  The decoders, again a step per switch. The data of the loop is the pair of the static variables
  and the struct being filled, which comes in with its old content.
\<close>

subsection \<open>The values\<close>

text \<open>\<open>charactersLen\<close> is read with the string table miss included, then the characters.\<close>

definition decode_ProtocolNamespace ::
  "u32 \<Rightarrow> dec_static \<times> appHandAppProtocolType \<Rightarrow> bitstream \<Rightarrow>
    (errn \<times> (dec_static \<times> appHandAppProtocolType) \<times> bitstream) option" where
  "decode_ProtocolNamespace j x s = do {
     (errn, len, s1) \<leftarrow> decodeUnsignedInteger16 j s;
     let a = (snd x)\<lparr>ProtocolNamespace_charactersLen := len\<rparr> in
     if errn = EXI_OK then
       if 2 \<le> len then
         let a = a\<lparr>ProtocolNamespace_charactersLen := len - 2\<rparr> in do {
           (errn, chars, s2) \<leftarrow> decodeCharacters j s1 (ucast (ProtocolNamespace_charactersLen a))
               (ProtocolNamespace_characters a) ProtocolNamespace_CHARACTERS_SIZE;
           Some (errn, (fst x, a\<lparr>ProtocolNamespace_characters := chars\<rparr>), s2)
         }
       else Some (EXI_ERROR_STRINGVALUES_NOT_SUPPORTED, (fst x, a), s1)
     else Some (errn, (fst x, a), s1)
   }"

subsection \<open>The grammars\<close>

text \<open>The switch of \<open>decode_appHandAppProtocolType\<close>, in two groups of cases.\<close>

definition AppProtocolType_dec_3_5 ::
  "nat \<Rightarrow> dec_static \<times> appHandAppProtocolType \<Rightarrow> bitstream \<Rightarrow>
    (errn \<times> (bool \<times> nat \<times> dec_static \<times> appHandAppProtocolType) \<times> bitstream) option" where
  "AppProtocolType_dec_3_5 g x s =
     (if g = 3 then decode_switch 1 [(0, decode_simple g 4
             (decode_nbit_field 8 (\<lambda>u a. a\<lparr>SchemaID := ucast (u + 0)\<rparr>)))] g x s
      else if g = 4 then decode_switch 1 [(0, decode_simple g 5
             (decode_nbit_field 5 (\<lambda>u a. a\<lparr>Priority := ucast (u + 1)\<rparr>)))] g x s
      else if g = 5 then decode_switch 1 [(0, decode_end 6)] g x s
      else Some (EXI_ERROR_UNKOWN_GRAMMAR_ID, (False, g, x), s))"

definition AppProtocolType_dec_step ::
  "u32 \<Rightarrow> nat \<Rightarrow> dec_static \<times> appHandAppProtocolType \<Rightarrow> bitstream \<Rightarrow>
    (errn \<times> (bool \<times> nat \<times> dec_static \<times> appHandAppProtocolType) \<times> bitstream) option" where
  "AppProtocolType_dec_step j g x s =
     (if g = 0 then decode_switch 1 [(0, decode_simple g 1 (decode_ProtocolNamespace j))] g x s
      else if g = 1 then decode_switch 1 [(0, decode_simple g 2
             (decode_u32_field j (\<lambda>v a. a\<lparr>VersionNumberMajor := v\<rparr>)))] g x s
      else if g = 2 then decode_switch 1 [(0, decode_simple g 3
             (decode_u32_field j (\<lambda>v a. a\<lparr>VersionNumberMinor := v\<rparr>)))] g x s
      else AppProtocolType_dec_3_5 g x s)"

definition decode_appHandAppProtocolType ::
  "u32 \<Rightarrow> dec_static \<times> appHandAppProtocolType \<Rightarrow> bitstream \<Rightarrow>
    (errn \<times> (dec_static \<times> appHandAppProtocolType) \<times> bitstream) option" where
  "decode_appHandAppProtocolType j x s =
     grammar_loop (AppProtocolType_dec_step j) 0 (fst x, init_appHandAppProtocolType (snd x)) s"

text \<open>
  The body of the cases 7 to 26: the next element of the array is decoded in place, \<open>arrayLen\<close>
  being incremented before; beyond \<open>ARRAY_SIZE\<close> elements the decoder gives up.
\<close>

definition decode_next_AppProtocol ::
  "u32 \<Rightarrow> dec_static \<times> appHandAnonType_supportedAppProtocolReq \<Rightarrow> bitstream \<Rightarrow>
    (errn \<times> (dec_static \<times> appHandAnonType_supportedAppProtocolReq) \<times> bitstream) option" where
  "decode_next_AppProtocol j x s =
     (let req = snd x; len = AppProtocol_arrayLen req in
      if len < AppProtocol_ARRAY_SIZE then
        if unat len < length (AppProtocol_array req) then do {
          (errn, (st, a), s1) \<leftarrow> decode_appHandAppProtocolType j (fst x, AppProtocol_array req ! unat len) s;
          Some (errn, (st, req\<lparr>AppProtocol_array := (AppProtocol_array req)[unat len := a],
                               AppProtocol_arrayLen := len + 1\<rparr>), s1)
        }
        else None
      else Some (EXI_ERROR_OUT_OF_BOUNDS, x, s))"

definition decode_AppProtocol_or_end ::
  "nat \<Rightarrow> u32 \<Rightarrow> nat \<Rightarrow> dec_static \<times> appHandAnonType_supportedAppProtocolReq \<Rightarrow> bitstream \<Rightarrow>
    (errn \<times> (bool \<times> nat \<times> dec_static \<times> appHandAnonType_supportedAppProtocolReq) \<times> bitstream) option" where
  "decode_AppProtocol_or_end next j g x s =
     decode_switch 2 [(0, decode_child next (decode_next_AppProtocol j)), (1, decode_end 6)] g x s"

text \<open>The switch of \<open>decode_appHandAnonType_supportedAppProtocolReq\<close>, in three groups of cases.\<close>

definition supportedAppProtocolReq_dec_21_26 ::
  "u32 \<Rightarrow> nat \<Rightarrow> dec_static \<times> appHandAnonType_supportedAppProtocolReq \<Rightarrow> bitstream \<Rightarrow>
    (errn \<times> (bool \<times> nat \<times> dec_static \<times> appHandAnonType_supportedAppProtocolReq) \<times> bitstream) option" where
  "supportedAppProtocolReq_dec_21_26 j g x s =
     (if g = 21 then decode_AppProtocol_or_end 22 j g x s
     else if g = 22 then decode_AppProtocol_or_end 23 j g x s
     else if g = 23 then decode_AppProtocol_or_end 24 j g x s
     else if g = 24 then decode_AppProtocol_or_end 25 j g x s
     else if g = 25 then decode_AppProtocol_or_end 26 j g x s
     else if g = 26 then decode_AppProtocol_or_end 5 j g x s
     else if g = 5 then decode_switch 1 [(0, decode_end 6)] g x s
     else Some (EXI_ERROR_UNKOWN_GRAMMAR_ID, (False, g, x), s))"

definition supportedAppProtocolReq_dec_14_20 ::
  "u32 \<Rightarrow> nat \<Rightarrow> dec_static \<times> appHandAnonType_supportedAppProtocolReq \<Rightarrow> bitstream \<Rightarrow>
    (errn \<times> (bool \<times> nat \<times> dec_static \<times> appHandAnonType_supportedAppProtocolReq) \<times> bitstream) option" where
  "supportedAppProtocolReq_dec_14_20 j g x s =
     (if g = 14 then decode_AppProtocol_or_end 15 j g x s
     else if g = 15 then decode_AppProtocol_or_end 16 j g x s
     else if g = 16 then decode_AppProtocol_or_end 17 j g x s
     else if g = 17 then decode_AppProtocol_or_end 18 j g x s
     else if g = 18 then decode_AppProtocol_or_end 19 j g x s
     else if g = 19 then decode_AppProtocol_or_end 20 j g x s
     else if g = 20 then decode_AppProtocol_or_end 21 j g x s
     else supportedAppProtocolReq_dec_21_26 j g x s)"

definition supportedAppProtocolReq_dec_step ::
  "u32 \<Rightarrow> nat \<Rightarrow> dec_static \<times> appHandAnonType_supportedAppProtocolReq \<Rightarrow> bitstream \<Rightarrow>
    (errn \<times> (bool \<times> nat \<times> dec_static \<times> appHandAnonType_supportedAppProtocolReq) \<times> bitstream) option" where
  "supportedAppProtocolReq_dec_step j g x s =
     (if g = 7 then decode_switch 1 [(0, decode_child 8 (decode_next_AppProtocol j))] g x s
     else if g = 8 then decode_AppProtocol_or_end 9 j g x s
     else if g = 9 then decode_AppProtocol_or_end 10 j g x s
     else if g = 10 then decode_AppProtocol_or_end 11 j g x s
     else if g = 11 then decode_AppProtocol_or_end 12 j g x s
     else if g = 12 then decode_AppProtocol_or_end 13 j g x s
     else if g = 13 then decode_AppProtocol_or_end 14 j g x s
     else supportedAppProtocolReq_dec_14_20 j g x s)"

definition decode_appHandAnonType_supportedAppProtocolReq ::
  "u32 \<Rightarrow> dec_static \<times> appHandAnonType_supportedAppProtocolReq \<Rightarrow> bitstream \<Rightarrow>
    (errn \<times> (dec_static \<times> appHandAnonType_supportedAppProtocolReq) \<times> bitstream) option" where
  "decode_appHandAnonType_supportedAppProtocolReq j x s =
     grammar_loop (supportedAppProtocolReq_dec_step j) 7
       (fst x, init_appHandAnonType_supportedAppProtocolReq (snd x)) s"

definition supportedAppProtocolRes_dec_step ::
  "nat \<Rightarrow> dec_static \<times> appHandAnonType_supportedAppProtocolRes \<Rightarrow> bitstream \<Rightarrow>
    (errn \<times> (bool \<times> nat \<times> dec_static \<times> appHandAnonType_supportedAppProtocolRes) \<times> bitstream) option" where
  "supportedAppProtocolRes_dec_step g x s =
     (if g = 27 then decode_switch 1 [(0, decode_simple g 28
             (decode_nbit_field 2 (\<lambda>u res. res\<lparr>ResponseCode := u\<rparr>)))] g x s
      else if g = 28 then decode_switch 2 [
          (0, decode_simple g 5 (decode_nbit_field 8
                (\<lambda>u res. res\<lparr>res_SchemaID := ucast (u + 0), SchemaID_isUsed := True\<rparr>))),
          (1, decode_end 6)] g x s
      else if g = 5 then decode_switch 1 [(0, decode_end 6)] g x s
      else Some (EXI_ERROR_UNKOWN_GRAMMAR_ID, (False, g, x), s))"

definition decode_appHandAnonType_supportedAppProtocolRes ::
  "dec_static \<times> appHandAnonType_supportedAppProtocolRes \<Rightarrow> bitstream \<Rightarrow>
    (errn \<times> (dec_static \<times> appHandAnonType_supportedAppProtocolRes) \<times> bitstream) option" where
  "decode_appHandAnonType_supportedAppProtocolRes x s =
     grammar_loop supportedAppProtocolRes_dec_step 27
       (fst x, init_appHandAnonType_supportedAppProtocolRes (snd x)) s"

definition decode_appHandExiDocument ::
  "u32 \<Rightarrow> dec_static \<Rightarrow> bitstream \<Rightarrow> appHandEXIDocument \<Rightarrow>
    (errn \<times> (dec_static \<times> appHandEXIDocument) \<times> bitstream) option" where
  "decode_appHandExiDocument j st s exiDoc = do {
     (errn, s) \<leftarrow> readEXIHeader s;
     if errn = EXI_OK then
       let d = init_appHandEXIDocument exiDoc in do {
         (errn, st, s) \<leftarrow> decode_eventCode 2 st s;
         if errn = EXI_OK then
           if eventCode st = 0 then do {
             (errn, (st, req), s) \<leftarrow> decode_appHandAnonType_supportedAppProtocolReq j (st, supportedAppProtocolReq d) s;
             Some (errn, (st, d\<lparr>supportedAppProtocolReq := req, supportedAppProtocolReq_isUsed := True\<rparr>), s)
           }
           else if eventCode st = 1 then do {
             (errn, (st, res), s) \<leftarrow> decode_appHandAnonType_supportedAppProtocolRes (st, supportedAppProtocolRes d) s;
             Some (errn, (st, d\<lparr>supportedAppProtocolRes := res, supportedAppProtocolRes_isUsed := True\<rparr>), s)
           }
           else Some (EXI_ERROR_UNEXPECTED_EVENT_LEVEL1, (st, d), s)
         else Some (errn, (st, d), s)
       }
     else Some (errn, (st, exiDoc), s)
   }"

subsection \<open>What the decoder reads\<close>

lemma takes_simple_case:
  assumes "n \<le> 32" "take_bit n code = code" "map_of cases code = Some (decode_simple g next val)"
    and "rd.takes (val (st\<lparr>eventCode := 0\<rparr>, a)) bs (st', a')"
  shows "rd.takes (decode_switch n cases g (st, a)) (simple_bits n code bs)
    (False, next, st'\<lparr>eventCode := 0\<rparr>, a')"
  unfolding simple_bits_def
  by (rule takes_decode_switch [OF assms(1-3)], rule takes_decode_simple) (simp add: assms(4))

lemma takes_end_case:
  assumes "n \<le> 32" "take_bit n code = code" "map_of cases code = Some (decode_end g')"
  shows "rd.takes (decode_switch n cases g (st, a)) (bits n code) (True, g', st\<lparr>eventCode := code\<rparr>, a)"
  using takes_decode_switch [OF assms takes_decode_end] by simp

text \<open>A protocol that can be read, into an array of at least 100 characters.\<close>

definition protocol_decodable :: "protocol \<Rightarrow> bool" where
  "protocol_decodable p \<longleftrightarrow> length (namespace p) < 100 \<and> (\<forall>c \<in> set (namespace p). c < 128) \<and>
     major p < 2 ^ 31 \<and> minor p < 2 ^ 31 \<and>
     1 \<le> unat (priority p) \<and> unat (priority p) \<le> 32"

definition set_protocol :: "protocol \<Rightarrow> appHandAppProtocolType \<Rightarrow> appHandAppProtocolType" where
  "set_protocol p a = a\<lparr>
     ProtocolNamespace_characters :=
       namespace p @ 0 # drop (Suc (length (namespace p))) (ProtocolNamespace_characters a),
     ProtocolNamespace_charactersLen := of_nat (length (namespace p)),
     VersionNumberMajor := major p, VersionNumberMinor := minor p,
     SchemaID := schema p, Priority := priority p\<rparr>"

lemma set_protocol_view:
  assumes "protocol_decodable p" "100 \<le> length (ProtocolNamespace_characters a)"
  shows "protocol_of (set_protocol p a) = p"
    and "length (ProtocolNamespace_characters (set_protocol p a)) = length (ProtocolNamespace_characters a)"
proof -
  have "unat (of_nat (length (namespace p)) :: u16) = length (namespace p)"
    using assms(1) by (simp only: unat_of_nat) (simp add: protocol_decodable_def)
  then show "protocol_of (set_protocol p a) = p" by (simp add: protocol_of_def set_protocol_def)
  show "length (ProtocolNamespace_characters (set_protocol p a)) = length (ProtocolNamespace_characters a)"
    using assms by (simp add: set_protocol_def protocol_decodable_def)
qed

lemma takes_ProtocolNamespace:
  assumes p: "length xs < 100" "\<forall>c \<in> set xs. c < 128" and a: "100 \<le> length (ProtocolNamespace_characters a)"
  shows "rd.takes (decode_ProtocolNamespace j (st, a))
    (bytes_bits (octets (length xs + 2)) @ bytes_bits xs)
    (st, a\<lparr>ProtocolNamespace_characters := xs @ 0 # drop (Suc (length xs)) (ProtocolNamespace_characters a),
           ProtocolNamespace_charactersLen := of_nat (length xs)\<rparr>)"
  unfolding rd.takes_def
proof (intro allI impI)
  fix s r
  assume s: "wf_in s" "unread s = (bytes_bits (octets (length xs + 2)) @ bytes_bits xs) @ r"
  have "rd.takes (\<lambda>s. decodeUnsignedInteger16 j s) (bytes_bits (octets (length xs + 2))) (of_nat (length xs + 2))"
    using p by (intro takes_decodeUnsignedInteger16) simp
  from rd.takesD [OF this s(1), of "bytes_bits xs @ r"] s(2)
  obtain s1 where s1: "decodeUnsignedInteger16 j s = Some (EXI_OK, of_nat (length xs + 2), s1)" "wf_in s1"
    "unread s1 = bytes_bits xs @ r" "stream_data s1 = stream_data s" by auto
  have ge: "(2 :: u16) \<le> of_nat (length xs + 2)"
    using of_nat_le_word [of 2 "length xs + 2", where 'a = 16] p by simp
  have sub: "of_nat (length xs + 2) - 2 = (of_nat (length xs) :: u16)" by simp
  have "ucast (of_nat (length xs) :: u16) = (of_nat (length xs) :: u64)"
  proof (rule word_unat_eq_iff [THEN iffD2])
    have "unat (ucast (of_nat (length xs) :: u16) :: u64) = unat (of_nat (length xs) :: u16)"
      by (rule unat_ucast_up) simp
    then show "unat (ucast (of_nat (length xs) :: u16) :: u64) = unat (of_nat (length xs) :: u64)"
      using p by (simp only: unat_of_nat) simp
  qed
  moreover have "holds 100 (ProtocolNamespace_characters a) xs" using p a by (simp add: holds_def)
  from rd.takesD [OF takes_decodeCharacters [OF this p(2), of j] s1(2,3)]
  obtain s2 where "decodeCharacters j s1 (of_nat (length xs)) (ProtocolNamespace_characters a) 100 =
      Some (EXI_OK, xs @ 0 # drop (Suc (length xs)) (ProtocolNamespace_characters a), s2)" "wf_in s2" "unread s2 = r"
    "stream_data s2 = stream_data s" using s1(4) by fastforce
  ultimately show "\<exists>s'. decode_ProtocolNamespace j (st, a) s = Some (EXI_OK,
      (st, a\<lparr>ProtocolNamespace_characters := xs @ 0 # drop (Suc (length xs)) (ProtocolNamespace_characters a),
             ProtocolNamespace_charactersLen := of_nat (length xs)\<rparr>), s') \<and> wf_in s' \<and> unread s' = r \<and> stream_data s' = stream_data s"
    using s1(1) ge sub unfolding decode_ProtocolNamespace_def Let_def by (simp del: of_nat_add)
qed

text \<open>The six steps, from any values of the static variables.\<close>

lemma takes_AppProtocolType_steps:
  fixes j defines "step \<equiv> AppProtocolType_dec_step j"
  shows "protocol_decodable p \<Longrightarrow> 100 \<le> length (ProtocolNamespace_characters a) \<Longrightarrow>
      rd.takes (step 0 (st, a))
        (simple_bits 1 0 (bytes_bits (octets (length (namespace p) + 2)) @ bytes_bits (namespace p)))
        (False, 1, st\<lparr>eventCode := 0\<rparr>,
          a\<lparr>ProtocolNamespace_characters :=
               namespace p @ 0 # drop (Suc (length (namespace p))) (ProtocolNamespace_characters a),
             ProtocolNamespace_charactersLen := of_nat (length (namespace p))\<rparr>)"
    and "v < 2 ^ 31 \<Longrightarrow> rd.takes (step 1 (st, a)) (simple_bits 1 0 (bytes_bits (octets (unat v))))
        (False, 2, st\<lparr>eventCode := 0\<rparr>, a\<lparr>VersionNumberMajor := v\<rparr>)"
    and "v < 2 ^ 31 \<Longrightarrow> rd.takes (step 2 (st, a)) (simple_bits 1 0 (bytes_bits (octets (unat v))))
        (False, 3, st\<lparr>eventCode := 0\<rparr>, a\<lparr>VersionNumberMinor := v\<rparr>)"
    and "take_bit 8 u = u \<Longrightarrow> rd.takes (step 3 (st, a)) (simple_bits 1 0 (bits 8 u))
        (False, 4, \<lparr>eventCode = 0, uint32 = u\<rparr>, a\<lparr>SchemaID := ucast u\<rparr>)"
    and "take_bit 5 u = u \<Longrightarrow> rd.takes (step 4 (st, a)) (simple_bits 1 0 (bits 5 u))
        (False, 5, \<lparr>eventCode = 0, uint32 = u\<rparr>, a\<lparr>Priority := ucast (u + 1)\<rparr>)"
    and "rd.takes (step 5 (st, a)) [False] (True, 6, st\<lparr>eventCode := 0\<rparr>, a)"
proof -
  have b: "bits (Suc 0) (0 :: u32) = [False]" by (simp add: bits_zero)
  note intro = takes_simple_case [where st' = "st\<lparr>eventCode := 0\<rparr>" and st = st, simplified]
  show "rd.takes (step 0 (st, a))
        (simple_bits 1 0 (bytes_bits (octets (length (namespace p) + 2)) @ bytes_bits (namespace p)))
        (False, 1, st\<lparr>eventCode := 0\<rparr>,
          a\<lparr>ProtocolNamespace_characters :=
               namespace p @ 0 # drop (Suc (length (namespace p))) (ProtocolNamespace_characters a),
             ProtocolNamespace_charactersLen := of_nat (length (namespace p))\<rparr>)"
    if "protocol_decodable p" "100 \<le> length (ProtocolNamespace_characters a)"
    unfolding step_def AppProtocolType_dec_step_def [abs_def] AppProtocolType_dec_3_5_def
    using that takes_ProtocolNamespace [of "namespace p" a j "st\<lparr>eventCode := 0\<rparr>"]
    by (auto simp: protocol_decodable_def intro!: intro)
  show "rd.takes (step 1 (st, a)) (simple_bits 1 0 (bytes_bits (octets (unat v))))
        (False, 2, st\<lparr>eventCode := 0\<rparr>, a\<lparr>VersionNumberMajor := v\<rparr>)" if "v < 2 ^ 31"
    unfolding step_def AppProtocolType_dec_step_def [abs_def] AppProtocolType_dec_3_5_def
    using takes_u32_field [OF that, of j "\<lambda>v a. a\<lparr>VersionNumberMajor := v\<rparr>"] by (auto intro!: intro)
  show "rd.takes (step 2 (st, a)) (simple_bits 1 0 (bytes_bits (octets (unat v))))
        (False, 3, st\<lparr>eventCode := 0\<rparr>, a\<lparr>VersionNumberMinor := v\<rparr>)" if "v < 2 ^ 31"
    unfolding step_def AppProtocolType_dec_step_def [abs_def] AppProtocolType_dec_3_5_def
    using takes_u32_field [OF that, of j "\<lambda>v a. a\<lparr>VersionNumberMinor := v\<rparr>"] by (auto intro!: intro)
  have st: "st\<lparr>eventCode := 0\<rparr> = \<lparr>eventCode = 0, uint32 = uint32 st\<rparr>" by (cases st) simp
  note intro' = takes_simple_case [where st' = "\<lparr>eventCode = 0, uint32 = u\<rparr>" and st = st and bs = "bits 8 u", simplified]
    takes_simple_case [where st' = "\<lparr>eventCode = 0, uint32 = u\<rparr>" and st = st and bs = "bits 5 u", simplified]
  show "rd.takes (step 3 (st, a)) (simple_bits 1 0 (bits 8 u))
        (False, 4, \<lparr>eventCode = 0, uint32 = u\<rparr>, a\<lparr>SchemaID := ucast u\<rparr>)" if "take_bit 8 u = u"
    unfolding step_def AppProtocolType_dec_step_def [abs_def] AppProtocolType_dec_3_5_def
    using takes_nbit_field [OF _ that, of "\<lambda>u a. a\<lparr>SchemaID := ucast (u + 0)\<rparr>" "st\<lparr>eventCode := 0\<rparr>" a]
    by (auto simp: st intro!: intro')
  show "rd.takes (step 4 (st, a)) (simple_bits 1 0 (bits 5 u))
        (False, 5, \<lparr>eventCode = 0, uint32 = u\<rparr>, a\<lparr>Priority := ucast (u + 1)\<rparr>)" if "take_bit 5 u = u"
    unfolding step_def AppProtocolType_dec_step_def [abs_def] AppProtocolType_dec_3_5_def
    using takes_nbit_field [OF _ that, of "\<lambda>u a. a\<lparr>Priority := ucast (u + 1)\<rparr>" "st\<lparr>eventCode := 0\<rparr>" a]
    by (auto simp: st intro!: intro')
  show "rd.takes (step 5 (st, a)) [False] (True, 6, st\<lparr>eventCode := 0\<rparr>, a)"
    using takes_end_case [of 1 0 "[(0, decode_end 6)]" 6 5 st a] b
    unfolding step_def AppProtocolType_dec_step_def [abs_def] AppProtocolType_dec_3_5_def by simp
qed

lemma takes_AppProtocolType:
  assumes p: "protocol_decodable p" and a: "100 \<le> length (ProtocolNamespace_characters a)"
  shows "rd.takes (decode_appHandAppProtocolType j (st, a)) (protocol_bits p)
    (\<lparr>eventCode = 0, uint32 = ucast (priority p) - 1\<rparr>, set_protocol p a)"
proof -
  let ?prio = "ucast (priority p) - 1 :: u32"
  have uprio: "unat (ucast (priority p) :: u32) = unat (priority p)" by (rule unat_ucast_up) simp
  then have "unat ?prio = unat (priority p) - 1"
    using p by (subst unat_sub) (auto simp: protocol_decodable_def word_le_nat_alt)
  then have "unat ?prio < 2 ^ 5" using p unfolding protocol_decodable_def by simp linarith
  then have t5: "take_bit 5 ?prio = ?prio" by (simp add: word_unat_eq_iff unsigned_take_bit_eq take_bit_nat_eq_self)
  have t8: "take_bit 8 (ucast (schema p) :: u32) = ucast (schema p)"
    by (rule bit_word_eqI) (auto simp: bit_simps dest: bit_imp_le_length)
  have narrow: "ucast (ucast w :: u32) = w" for w :: u8 by (rule bit_word_eqI) (auto simp: bit_simps)
  have v: "major p < 2 ^ 31" "minor p < 2 ^ 31" using p by (simp_all add: protocol_decodable_def)
  note st = takes_AppProtocolType_steps [where j = j]
  note loop = takes_loop_next [where step = "AppProtocolType_dec_step j"]
  note chain = loop [OF st(1) [OF p a] loop [OF st(2) [OF v(1)] loop [OF st(3) [OF v(2)] loop [OF st(4) [OF t8]
    loop [OF st(5) [OF t5] takes_loop_done [where step = "AppProtocolType_dec_step j", OF st(6)]]]]]]
  have "bits 8 (ucast (schema p) :: u32) = bits 8 (schema p)" by (simp add: bits_ucast)
  with chain [of st] narrow show ?thesis
    by (simp add: decode_appHandAppProtocolType_def [abs_def] init_appHandAppProtocolType_def protocol_bits_def
        set_protocol_def)
qed

text \<open>
  A struct for an offer: its array has the declared 5 elements, each with an array for 100
  characters. It is readable if its lengths are within its arrays. \<open>add_protocol\<close> is what one round of the list does to it.
\<close>

definition wf_req :: "appHandAnonType_supportedAppProtocolReq \<Rightarrow> bool" where
  "wf_req req \<longleftrightarrow> 5 \<le> length (AppProtocol_array req) \<and>
     (\<forall>a \<in> set (AppProtocol_array req). 100 \<le> length (ProtocolNamespace_characters a))"

definition offer_readable :: "appHandAnonType_supportedAppProtocolReq \<Rightarrow> bool" where
  "offer_readable req \<longleftrightarrow> unat (AppProtocol_arrayLen req) \<le> length (AppProtocol_array req) \<and>
     (\<forall>a \<in> set (take (unat (AppProtocol_arrayLen req)) (AppProtocol_array req)).
        unat (ProtocolNamespace_charactersLen a) \<le> length (ProtocolNamespace_characters a))"

definition add_protocol ::
  "protocol \<Rightarrow> appHandAnonType_supportedAppProtocolReq \<Rightarrow> appHandAnonType_supportedAppProtocolReq" where
  "add_protocol p req = (let i = unat (AppProtocol_arrayLen req) in
     req\<lparr>AppProtocol_array := (AppProtocol_array req)[i := set_protocol p (AppProtocol_array req ! i)],
         AppProtocol_arrayLen := AppProtocol_arrayLen req + 1\<rparr>)"

lemma unat_Suc_small: "unat (l :: u16) < 5 \<Longrightarrow> unat (l + 1) = Suc (unat l)"
  using unat_add_lem [of l 1] by simp

lemma add_protocol_view:
  assumes "wf_req req" "unat (AppProtocol_arrayLen req) < 5" "protocol_decodable p"
  shows "wf_req (add_protocol p req)"
    and "unat (AppProtocol_arrayLen (add_protocol p req)) = Suc (unat (AppProtocol_arrayLen req))"
    and "offer_of (add_protocol p req) = offer_of req @ [p]"
    and "offer_readable req \<Longrightarrow> offer_readable (add_protocol p req)"
proof -
  let ?i = "unat (AppProtocol_arrayLen req)" and ?as = "AppProtocol_array req"
  have i: "?i < length ?as" "?as ! ?i \<in> set ?as" using assms by (simp_all add: wf_req_def)
  then have a: "100 \<le> length (ProtocolNamespace_characters (?as ! ?i))" using assms(1) by (simp add: wf_req_def)
  note v = set_protocol_view [OF assms(3) a]
  show l: "unat (AppProtocol_arrayLen (add_protocol p req)) = Suc ?i"
    using unat_Suc_small [OF assms(2)] by (simp add: add_protocol_def Let_def)
  show "wf_req (add_protocol p req)"
    using assms(1) a v(2) by (auto simp: wf_req_def add_protocol_def Let_def dest!: set_update_subset_insert [THEN subsetD])
  have "AppProtocol_array (add_protocol p req) = ?as[?i := set_protocol p (?as ! ?i)]"
    by (simp add: add_protocol_def Let_def)
  then show "offer_of (add_protocol p req) = offer_of req @ [p]"
    using i v(1) by (simp add: offer_of_def l take_Suc_update)
  have "unat (of_nat (length (namespace p)) :: u16) = length (namespace p)"
    using assms(3) by (simp only: unat_of_nat) (simp add: protocol_decodable_def)
  then have "unat (ProtocolNamespace_charactersLen (set_protocol p (?as ! ?i))) \<le>
      length (ProtocolNamespace_characters (set_protocol p (?as ! ?i)))"
    using assms(3) a unfolding v(2) by (simp add: set_protocol_def protocol_decodable_def)
  then show "offer_readable (add_protocol p req)" if "offer_readable req"
    using that i \<open>AppProtocol_array (add_protocol p req) = ?as[?i := set_protocol p (?as ! ?i)]\<close>
    by (auto simp: offer_readable_def l take_Suc_update)
qed

lemma takes_next_AppProtocol:
  assumes "wf_req req" "unat (AppProtocol_arrayLen req) < 5" "protocol_decodable p"
  shows "rd.takes (decode_next_AppProtocol j (st, req)) (protocol_bits p)
    (\<lparr>eventCode = 0, uint32 = ucast (priority p) - 1\<rparr>, add_protocol p req)"
proof -
  let ?i = "unat (AppProtocol_arrayLen req)" and ?as = "AppProtocol_array req"
  have i: "?i < length ?as" "?as ! ?i \<in> set ?as" using assms by (simp_all add: wf_req_def)
  then have a: "100 \<le> length (ProtocolNamespace_characters (?as ! ?i))" using assms(1) by (simp add: wf_req_def)
  have "AppProtocol_arrayLen req < 5" using assms(2) by (simp add: word_less_nat_alt)
  then have "decode_next_AppProtocol j (st, req) = (\<lambda>s. do {
      (errn, y, s1) \<leftarrow> decode_appHandAppProtocolType j (st, ?as ! ?i) s;
      Some (errn, (\<lambda>errn (st, a). (st, req\<lparr>AppProtocol_array := ?as[?i := a],
        AppProtocol_arrayLen := AppProtocol_arrayLen req + 1\<rparr>)) errn y, s1) })"
    using i by (auto simp: decode_next_AppProtocol_def Let_def fun_eq_iff intro!: option_bind_cong)
  then show ?thesis
    using rd.takes_map [OF takes_AppProtocolType [OF assms(3) a, of j st],
      of "\<lambda>errn (st, a). (st, req\<lparr>AppProtocol_array := ?as[?i := a], AppProtocol_arrayLen := AppProtocol_arrayLen req + 1\<rparr>)"]
    by (simp add: add_protocol_def Let_def)
qed

lemma bits_2: "bits 2 (0 :: u32) = [False, False]" "bits 2 (1 :: u32) = [False, True]"
  by (simp_all add: bits_def numeral_2_eq_2 bit_1_iff)

lemma Req_dec_step_more:
  assumes "1 \<le> i" "i \<le> 19"
  shows "supportedAppProtocolReq_dec_step j (7 + i) = decode_AppProtocol_or_end (if i = 19 then 5 else 8 + i) j (7 + i)"
proof -
  have "i \<in> set [1..<20]" using assms by simp
  then show ?thesis
    by (auto simp: upt_rec supportedAppProtocolReq_dec_step_def supportedAppProtocolReq_dec_14_20_def
        supportedAppProtocolReq_dec_21_26_def fun_eq_iff)
qed

lemma takes_more:
  "wf_req req \<Longrightarrow> unat (AppProtocol_arrayLen req) = i \<Longrightarrow> 1 \<le> i \<Longrightarrow> i + length ps \<le> 5 \<Longrightarrow>
   \<forall>p \<in> set ps. protocol_decodable p \<Longrightarrow>
   \<exists>st' req'. rd.takes (grammar_loop (supportedAppProtocolReq_dec_step j) (7 + i) (st, req)) (more_bits i ps) (st', req') \<and>
     offer_of req' = offer_of req @ ps \<and> (offer_readable req \<longrightarrow> offer_readable req')"
proof (induction ps arbitrary: i req st)
  case Nil
  have "rd.takes (supportedAppProtocolReq_dec_step j (7 + i) (st, req)) (bits 2 (1 :: u32)) (True, 6, st\<lparr>eventCode := 1\<rparr>, req)"
    using Nil.prems Req_dec_step_more [of i j]
    by (simp add: decode_AppProtocol_or_end_def [abs_def]) (rule takes_end_case, simp_all)
  from takes_loop_done [where step = "supportedAppProtocolReq_dec_step j", OF this] Nil.prems show ?case
    by (intro exI [of _ "st\<lparr>eventCode := 1\<rparr>"] exI [of _ req]) (simp add: bits_2)
next
  case (Cons p ps)
  have lt: "unat (AppProtocol_arrayLen req) < 5" and p: "protocol_decodable p" using Cons.prems by simp_all
  let ?st = "\<lparr>eventCode = 0, uint32 = ucast (priority p) - 1\<rparr>"
  note v = add_protocol_view [OF Cons.prems(1) lt p]
  have "rd.takes (decode_switch 2 [(0, decode_child (8 + i) (decode_next_AppProtocol j)), (1, decode_end 6)] (7 + i) (st, req))
      (bits 2 (0 :: u32) @ protocol_bits p) (False, 8 + i, ?st, add_protocol p req)"
    by (rule takes_decode_switch, simp_all)
      (rule takes_decode_child, rule takes_next_AppProtocol [OF Cons.prems(1) lt p])
  then have "rd.takes (supportedAppProtocolReq_dec_step j (7 + i) (st, req)) (bits 2 (0 :: u32) @ protocol_bits p)
      (False, 8 + i, ?st, add_protocol p req)"
    using Cons.prems Req_dec_step_more [of i j] by (simp add: decode_AppProtocol_or_end_def [abs_def])
  note step = takes_loop_next [where step = "supportedAppProtocolReq_dec_step j", OF this]
  have "\<exists>st' req'. rd.takes (grammar_loop (supportedAppProtocolReq_dec_step j) (7 + Suc i) (?st, add_protocol p req))
      (more_bits (Suc i) ps) (st', req') \<and> offer_of req' = offer_of (add_protocol p req) @ ps \<and>
      (offer_readable (add_protocol p req) \<longrightarrow> offer_readable req')"
    using Cons.prems v by (intro Cons.IH) simp_all
  then obtain st' req' where "rd.takes (grammar_loop (supportedAppProtocolReq_dec_step j) (8 + i) (?st, add_protocol p req))
      (more_bits (Suc i) ps) (st', req')" "offer_of req' = offer_of (add_protocol p req) @ ps"
    "offer_readable (add_protocol p req) \<longrightarrow> offer_readable req'" by auto
  with step [OF this(1)] v(3,4) show ?case by (auto simp: bits_2)
qed

lemma takes_Req:
  assumes "wf_req req" "1 \<le> length ps" "length ps \<le> 5" "\<forall>p \<in> set ps. protocol_decodable p"
  shows "\<exists>st' req'. rd.takes (decode_appHandAnonType_supportedAppProtocolReq j (st, req)) (offer_bits ps) (st', req') \<and>
    offer_of req' = ps \<and> offer_readable req'"
proof -
  obtain p qs where ps: "ps = p # qs" using assms(2) by (cases ps) auto
  let ?req = "init_appHandAnonType_supportedAppProtocolReq req"
  let ?st = "\<lparr>eventCode = 0, uint32 = ucast (priority p) - 1\<rparr>"
  have wf: "wf_req ?req" "unat (AppProtocol_arrayLen ?req) < 5" "offer_of ?req = []" "offer_readable ?req" and p: "protocol_decodable p"
    using assms ps by (simp_all add: init_appHandAnonType_supportedAppProtocolReq_def wf_req_def offer_of_def offer_readable_def)
  note v = add_protocol_view [OF wf(1,2) p]
  have "rd.takes (decode_switch 1 [(0, decode_child 8 (decode_next_AppProtocol j))] 7 (st, ?req))
      (bits 1 (0 :: u32) @ protocol_bits p) (False, 8, ?st, add_protocol p ?req)"
    by (rule takes_decode_switch, simp_all)
      (rule takes_decode_child, rule takes_next_AppProtocol [OF wf(1,2) p])
  then have "rd.takes (supportedAppProtocolReq_dec_step j 7 (st, ?req)) (bits 1 (0 :: u32) @ protocol_bits p)
      (False, 8, ?st, add_protocol p ?req)" by (simp add: supportedAppProtocolReq_dec_step_def [abs_def])
  note step = takes_loop_next [where step = "supportedAppProtocolReq_dec_step j", OF this]
  have "unat (AppProtocol_arrayLen (add_protocol p ?req)) = 1"
    using v(2) by (simp add: init_appHandAnonType_supportedAppProtocolReq_def)
  then have "\<exists>st' req'. rd.takes (grammar_loop (supportedAppProtocolReq_dec_step j) (7 + 1) (?st, add_protocol p ?req))
      (more_bits 1 qs) (st', req') \<and> offer_of req' = offer_of (add_protocol p ?req) @ qs \<and>
      (offer_readable (add_protocol p ?req) \<longrightarrow> offer_readable req')"
    using assms ps v(1) by (intro takes_more) simp_all
  then obtain st' req' where "rd.takes (grammar_loop (supportedAppProtocolReq_dec_step j) 8 (?st, add_protocol p ?req))
      (more_bits 1 qs) (st', req')" "offer_of req' = offer_of (add_protocol p ?req) @ qs" "offer_readable req'" using v(4) [OF wf(4)] by auto
  with step [OF this(1)] v(3) wf(3) ps show ?thesis
    by (auto simp: decode_appHandAnonType_supportedAppProtocolReq_def [abs_def] bits_zero)
qed

text \<open>The answer, and whole documents.\<close>

definition answer_of :: "appHandAnonType_supportedAppProtocolRes \<Rightarrow> message" where
  "answer_of res = Answer (ResponseCode res) (if SchemaID_isUsed res then Some (res_SchemaID res) else None)"

lemma map_of_first: "map_of ((k, v) # xs) k = Some v"
  by simp

lemma takes_Res_schema:
  assumes "st = \<lparr>eventCode = 0, uint32 = u\<rparr>"
  shows "rd.takes (grammar_loop supportedAppProtocolRes_dec_step 28 (st, res)) (simple_bits 2 0 (bits 8 i) @ [False])
    (\<lparr>eventCode = 0, uint32 = ucast i\<rparr>, res\<lparr>res_SchemaID := i, SchemaID_isUsed := True\<rparr>)"
proof -
  have t8: "take_bit 8 (ucast i :: u32) = ucast i"
    by (rule bit_word_eqI) (auto simp: bit_simps dest: bit_imp_le_length)
  have b8: "bits 8 (ucast i :: u32) = bits 8 i" by (simp add: bits_ucast)
  have narrow: "ucast (ucast i :: u32) = i" by (rule bit_word_eqI) (auto simp: bit_simps)
  let ?st = "\<lparr>eventCode = 0, uint32 = ucast i\<rparr>" and ?res = "res\<lparr>res_SchemaID := i, SchemaID_isUsed := True\<rparr>"
  let ?put = "\<lambda>u res. res\<lparr>res_SchemaID := ucast (u + 0), SchemaID_isUsed := True\<rparr>"
  have f: "rd.takes (decode_nbit_field 8 ?put (st\<lparr>eventCode := 0\<rparr>, res)) (bits 8 i) (?st, ?res)"
    using takes_nbit_field [OF _ t8, of ?put "st\<lparr>eventCode := 0\<rparr>" res] by (simp add: assms b8 narrow)
  have "rd.takes (decode_switch 2 [(0, decode_simple 28 5 (decode_nbit_field 8 ?put)), (1, decode_end 6)] 28 (st, res))
      (simple_bits 2 0 (bits 8 i)) (False, 5, ?st\<lparr>eventCode := 0\<rparr>, ?res)"
    by (rule takes_simple_case, simp, simp, rule map_of_first, rule f)
  then have 1: "rd.takes (supportedAppProtocolRes_dec_step 28 (st, res)) (simple_bits 2 0 (bits 8 i)) (False, 5, ?st, ?res)"
    by (simp add: supportedAppProtocolRes_dec_step_def [abs_def])
  have "rd.takes (decode_switch 1 [(0, decode_end 6)] 5 (?st, ?res)) (bits 1 (0 :: u32)) (True, 6, ?st\<lparr>eventCode := 0\<rparr>, ?res)"
    by (rule takes_end_case) simp_all
  then have "rd.takes (supportedAppProtocolRes_dec_step 5 (?st, ?res)) (bits 1 (0 :: u32)) (True, 6, ?st\<lparr>eventCode := 0\<rparr>, ?res)"
    by (simp add: supportedAppProtocolRes_dec_step_def [abs_def])
  from takes_loop_next [where step = supportedAppProtocolRes_dec_step, OF 1
      takes_loop_done [where step = supportedAppProtocolRes_dec_step, OF this]]
  show ?thesis by (simp add: bits_zero)
qed

lemma takes_Res:
  assumes c: "take_bit 2 c = c"
  shows "\<exists>st' res'. rd.takes (decode_appHandAnonType_supportedAppProtocolRes (st, res)) (answer_bits c sid) (st', res') \<and>
    answer_of res' = Answer c sid"
proof -
  let ?res = "res\<lparr>SchemaID_isUsed := False, ResponseCode := c\<rparr>" and ?st = "\<lparr>eventCode = 0, uint32 = c\<rparr>"
  let ?put = "\<lambda>u res. res\<lparr>ResponseCode := u\<rparr>"
  have st: "st\<lparr>eventCode := 0\<rparr> = \<lparr>eventCode = 0, uint32 = uint32 st\<rparr>" by (cases st) simp
  have f: "rd.takes (decode_nbit_field 2 ?put (st\<lparr>eventCode := 0\<rparr>, res\<lparr>SchemaID_isUsed := False\<rparr>)) (bits 2 c) (?st, ?res)"
    using takes_nbit_field [OF _ c, of ?put "st\<lparr>eventCode := 0\<rparr>" "res\<lparr>SchemaID_isUsed := False\<rparr>"] by (simp add: st)
  have "rd.takes (decode_switch 1 [(0, decode_simple 27 28 (decode_nbit_field 2 ?put))] 27 (st, res\<lparr>SchemaID_isUsed := False\<rparr>))
      (simple_bits 1 0 (bits 2 c)) (False, 28, ?st\<lparr>eventCode := 0\<rparr>, ?res)"
    by (rule takes_simple_case, simp, simp, rule map_of_first, rule f)
  then have "rd.takes (supportedAppProtocolRes_dec_step 27 (st, res\<lparr>SchemaID_isUsed := False\<rparr>))
      (simple_bits 1 0 (bits 2 c)) (False, 28, ?st, ?res)"
    by (simp add: supportedAppProtocolRes_dec_step_def [abs_def])
  note first = takes_loop_next [where step = supportedAppProtocolRes_dec_step, OF this]
  have dec: "decode_appHandAnonType_supportedAppProtocolRes (st, res) =
      grammar_loop supportedAppProtocolRes_dec_step 27 (st, res\<lparr>SchemaID_isUsed := False\<rparr>)"
    by (simp add: decode_appHandAnonType_supportedAppProtocolRes_def [abs_def]
        init_appHandAnonType_supportedAppProtocolRes_def)
  show ?thesis
  proof (cases sid)
    case (Some i)
    from first [OF takes_Res_schema [OF refl, of c ?res i]] Some show ?thesis
      by (intro exI [of _ "\<lparr>eventCode = 0, uint32 = ucast i\<rparr>"] exI [of _ "?res\<lparr>res_SchemaID := i, SchemaID_isUsed := True\<rparr>"])
        (simp add: dec answer_bits_def answer_of_def)
  next
    case None
    have "rd.takes (decode_switch 2 [(0, decode_simple 28 5 (decode_nbit_field 8
          (\<lambda>u res. res\<lparr>res_SchemaID := ucast (u + 0), SchemaID_isUsed := True\<rparr>))), (1, decode_end 6)] 28 (?st, ?res))
        (bits 2 (1 :: u32)) (True, 6, ?st\<lparr>eventCode := 1\<rparr>, ?res)"
      by (rule takes_end_case) simp_all
    then have "rd.takes (supportedAppProtocolRes_dec_step 28 (?st, ?res)) (bits 2 (1 :: u32)) (True, 6, ?st\<lparr>eventCode := 1\<rparr>, ?res)"
      by (simp add: supportedAppProtocolRes_dec_step_def [abs_def])
    from first [OF takes_loop_done [where step = supportedAppProtocolRes_dec_step, OF this]] None show ?thesis
      by (intro exI [of _ "?st\<lparr>eventCode := 1\<rparr>"] exI [of _ ?res]) (simp add: dec answer_bits_def answer_of_def bits_2)
  qed
qed

fun message_decodable :: "message \<Rightarrow> bool" where
  "message_decodable (Offer ps) \<longleftrightarrow> 1 \<le> length ps \<and> length ps \<le> 5 \<and> (\<forall>p \<in> set ps. protocol_decodable p)"
| "message_decodable (Answer c sid) \<longleftrightarrow> take_bit 2 c = c"

lemma decode_document:
  assumes s: "startable s" "unread (reset_in s) = message_bits m @ r"
    and d: "wf_req (supportedAppProtocolReq d)" and m: "message_decodable m"
  shows "\<exists>st' d' s'. decode_appHandExiDocument j st s d = Some (EXI_OK, (st', d'), s') \<and> message_of d' = Some m \<and>
    unread s' = r \<and> stream_data s' = stream_data s \<and> (supportedAppProtocolReq_isUsed d' \<longrightarrow> offer_readable (supportedAppProtocolReq d'))"
proof (cases m)
  case (Offer ps)
  then have "unread (reset_in s) = header_bits @ [False, False] @ offer_bits ps @ r" using s(2) by simp
  from readEXIHeader_ok [OF s(1) this] obtain s1 where s1: "readEXIHeader s = Some (EXI_OK, s1)" "wf_in s1"
    "unread s1 = bits 2 (0 :: u32) @ offer_bits ps @ r" "stream_data s1 = stream_data s" by (auto simp: bits_2)
  from rd.takesD [OF takes_decode_eventCode [of 2 0 st] s1(2,3)]
  obtain s2 where s2: "decode_eventCode 2 st s1 = Some (EXI_OK, st\<lparr>eventCode := 0\<rparr>, s2)" "wf_in s2"
    "unread s2 = offer_bits ps @ r" "stream_data s2 = stream_data s" using s1(4) by auto
  have wf: "wf_req (supportedAppProtocolReq (init_appHandEXIDocument d))" using d by (simp add: init_appHandEXIDocument_def)
  obtain st' req' where t: "rd.takes (decode_appHandAnonType_supportedAppProtocolReq j
      (st\<lparr>eventCode := 0\<rparr>, supportedAppProtocolReq (init_appHandEXIDocument d))) (offer_bits ps) (st', req')"
    "offer_of req' = ps" "offer_readable req'" using takes_Req [OF wf, of ps j "st\<lparr>eventCode := 0\<rparr>"] m Offer by auto
  from rd.takesD [OF t(1) s2(2,3)] t(2,3) s2(4) show ?thesis
    by (intro exI [of _ st'] exI [of _ "(init_appHandEXIDocument d)\<lparr>supportedAppProtocolReq := req', supportedAppProtocolReq_isUsed := True\<rparr>"])
      (auto simp: decode_appHandExiDocument_def s1(1) s2(1) message_of_def Offer)
next
  case (Answer c sid)
  then have "unread (reset_in s) = header_bits @ [False, True] @ answer_bits c sid @ r" using s(2) by simp
  from readEXIHeader_ok [OF s(1) this] obtain s1 where s1: "readEXIHeader s = Some (EXI_OK, s1)" "wf_in s1"
    "unread s1 = bits 2 (1 :: u32) @ answer_bits c sid @ r" "stream_data s1 = stream_data s" by (auto simp: bits_2)
  from rd.takesD [OF takes_decode_eventCode [of 2 1 st] s1(2,3)]
  obtain s2 where s2: "decode_eventCode 2 st s1 = Some (EXI_OK, st\<lparr>eventCode := 1\<rparr>, s2)" "wf_in s2"
    "unread s2 = answer_bits c sid @ r" "stream_data s2 = stream_data s" using s1(4) by auto
  obtain st' res' where t: "rd.takes (decode_appHandAnonType_supportedAppProtocolRes
      (st\<lparr>eventCode := 1\<rparr>, supportedAppProtocolRes (init_appHandEXIDocument d))) (answer_bits c sid) (st', res')"
    "answer_of res' = Answer c sid" using takes_Res [of c] m Answer by fastforce
  from rd.takesD [OF t(1) s2(2,3)] t(2) s2(4) show ?thesis
    by (intro exI [of _ st'] exI [of _ "(init_appHandEXIDocument d)\<lparr>supportedAppProtocolRes := res', supportedAppProtocolRes_isUsed := True\<rparr>"])
      (auto simp: decode_appHandExiDocument_def s1(1) s2(1) message_of_def Answer answer_of_def init_appHandEXIDocument_def)
qed

end
