(* ===== verification/V2GTP.thy ===== *)
theory V2GTP
  imports Prelude
begin

section \<open>The transport header (v2gtp.c, v2gtp.h)\<close>

text \<open>
  \<open>write_v2gtpHeader\<close> and \<open>read_v2gtpHeader\<close> of \<open>src/transport/v2gtp.c\<close>. A buffer is the list of its
  bytes, and an access beyond its end is undefined. The result is the returned \<open>int\<close>, 0 or -1,
  with the buffer written or the out-parameter \<open>payloadLength\<close>.
\<close>

abbreviation (input) V2GTP_HEADER_LENGTH :: nat where
  "V2GTP_HEADER_LENGTH \<equiv> 8"

abbreviation (input) V2GTP_VERSION :: u8 where
  "V2GTP_VERSION \<equiv> 0x01"

abbreviation (input) V2GTP_VERSION_INV :: u8 where
  "V2GTP_VERSION_INV \<equiv> 0xFE"

abbreviation (input) V2GTP_EXI_TYPE :: u16 where
  "V2GTP_EXI_TYPE \<equiv> 0x8001"

text \<open>\<open>outStream[i] = b;\<close> and \<open>inStream[i]\<close>\<close>

definition store :: "nat \<Rightarrow> u8 \<Rightarrow> u8 list \<Rightarrow> u8 list option" where
  "store i b xs = (if i < length xs then Some (xs[i := b]) else None)"

definition fetch :: "u8 list \<Rightarrow> nat \<Rightarrow> u8 option" where
  "fetch xs i = (if i < length xs then Some (xs ! i) else None)"

definition write_v2gtpHeader :: "u8 list \<Rightarrow> u32 \<Rightarrow> u16 \<Rightarrow> (int \<times> u8 list) option" where
  "write_v2gtpHeader outStream outStreamLength payloadType = do {
     out \<leftarrow> store 0 V2GTP_VERSION outStream;
     out \<leftarrow> store 1 V2GTP_VERSION_INV out;
     out \<leftarrow> store 3 (ucast (payloadType AND 0xFF)) out;
     out \<leftarrow> store 2 (ucast (drop_bit 8 payloadType AND 0xFF)) out;
     out \<leftarrow> store 7 (ucast (outStreamLength AND 0xFF)) out;
     out \<leftarrow> store 6 (ucast (drop_bit 8 outStreamLength AND 0xFF)) out;
     out \<leftarrow> store 5 (ucast (drop_bit 16 outStreamLength AND 0xFF)) out;
     out \<leftarrow> store 4 (ucast (drop_bit 24 outStreamLength AND 0xFF)) out;
     Some (0, out)
   }"

text \<open>
  \<open>inStream[0] != V || inStream[1] != W\<close> evaluates the second access only if the first is equal.
\<close>

definition read_v2gtpHeader :: "u8 list \<Rightarrow> u32 \<Rightarrow> (int \<times> u32) option" where
  "read_v2gtpHeader inStream payloadLength = do {
     b0 \<leftarrow> fetch inStream 0;
     bad \<leftarrow> (if b0 \<noteq> V2GTP_VERSION then Some True
            else do { b1 \<leftarrow> fetch inStream 1; Some (b1 \<noteq> V2GTP_VERSION_INV) });
     if bad then Some (-1, payloadLength)
     else do {
       b2 \<leftarrow> fetch inStream 2;
       b3 \<leftarrow> fetch inStream 3;
       let payloadType = push_bit 8 (ucast b2) OR ucast b3 in
       if payloadType \<noteq> V2GTP_EXI_TYPE then Some (-1, payloadLength)
       else do {
         b4 \<leftarrow> fetch inStream 4;
         b5 \<leftarrow> fetch inStream 5;
         b6 \<leftarrow> fetch inStream 6;
         b7 \<leftarrow> fetch inStream 7;
         let len = ucast b4;
             len = push_bit 8 len OR ucast b5;
             len = push_bit 8 len OR ucast b6;
             len = push_bit 8 len OR ucast b7
         in Some (0, len)
       }
     }
   }"

subsection \<open>Specification\<close>

text \<open>The eight bytes of a header, most significant byte first.\<close>

definition header_bytes :: "u16 \<Rightarrow> u32 \<Rightarrow> u8 list" where
  "header_bytes t n = [0x01, 0xFE, ucast (drop_bit 8 t), ucast t,
     ucast (drop_bit 24 n), ucast (drop_bit 16 n), ucast (drop_bit 8 n), ucast n]"

lemma ucast_and_255: "ucast (w AND 255) = (ucast (w :: 'a::len word) :: u8)" if "8 \<le> LENGTH('a)"
proof -
  have m: "(255 :: 'a word) = mask 8" by (simp add: mask_eq_exp_minus_1)
  show ?thesis unfolding m using that by (intro bit_word_eqI) (auto simp: bit_simps)
qed

lemma write_header_bytes:
  assumes "8 \<le> length xs"
  shows "write_v2gtpHeader xs n t = Some (0, header_bytes t n @ drop 8 xs)"
proof -
  obtain x0 x1 x2 x3 x4 x5 x6 x7 ys where "xs = x0 # x1 # x2 # x3 # x4 # x5 # x6 # x7 # ys"
    using assms by (auto simp: Suc_le_length_iff numeral_eq_Suc)
  then show ?thesis
    by (simp add: write_v2gtpHeader_def store_def header_bytes_def ucast_and_255)
qed

lemma join_bytes16: "push_bit 8 (ucast (ucast (drop_bit 8 t) :: u8)) OR ucast (ucast t :: u8) = (t :: u16)"
  by (rule bit_word_eqI) (auto simp: bit_simps)

lemma join_bytes32:
  "((push_bit 24 (ucast (ucast (drop_bit 24 n) :: u8)) OR push_bit 16 (ucast (ucast (drop_bit 16 n) :: u8)))
     OR push_bit 8 (ucast (ucast (drop_bit 8 n) :: u8))) OR ucast (ucast n :: u8) = (n :: u32)"
proof (rule bit_word_eqI)
  fix i :: nat assume "i < LENGTH(32)"
  then consider "i < 8" | "8 \<le> i" "i < 16" | "16 \<le> i" "i < 24" | "24 \<le> i" "i < 32" by force
  then show "bit (((push_bit 24 (ucast (ucast (drop_bit 24 n) :: u8)) OR push_bit 16 (ucast (ucast (drop_bit 16 n) :: u8)))
     OR push_bit 8 (ucast (ucast (drop_bit 8 n) :: u8))) OR ucast (ucast n :: u8) :: u32) i = bit n i"
    by cases (auto simp: bit_simps)
qed

lemma read_header_bytes: "read_v2gtpHeader (header_bytes t n @ ys) m =
    (if t = V2GTP_EXI_TYPE then Some (0, n) else Some (-1, m))"
  by (simp add: read_v2gtpHeader_def fetch_def header_bytes_def join_bytes16 join_bytes32 Let_def)

text \<open>Conversely, what the reader accepts is such a header.\<close>

lemma split_join16:
  "ucast (drop_bit 8 (push_bit 8 (ucast (b2 :: u8)) OR ucast (b3 :: u8) :: u16)) = b2"
  "ucast (push_bit 8 (ucast (b2 :: u8)) OR ucast (b3 :: u8) :: u16) = b3"
  by (rule bit_word_eqI, auto simp: bit_simps dest: bit_imp_le_length)+

lemma split_join32:
  fixes b4 b5 b6 b7 :: u8
  defines "n \<equiv> ((push_bit 24 (ucast b4) OR push_bit 16 (ucast b5)) OR push_bit 8 (ucast b6)) OR ucast b7 :: u32"
  shows "ucast (drop_bit 24 n) = b4" "ucast (drop_bit 16 n) = b5" "ucast (drop_bit 8 n) = b6" "ucast n = b7"
  unfolding n_def by (rule bit_word_eqI, auto simp: bit_simps dest: bit_imp_le_length)+

lemma read_header_sound:
  assumes "read_v2gtpHeader xs m = Some (0, n)"
  shows "take 8 xs = header_bytes V2GTP_EXI_TYPE n"
proof -
  obtain "8 \<le> length xs" using assms
    by (auto simp: read_v2gtpHeader_def fetch_def Let_def bind_eq_Some_conv split: if_splits)
  then obtain b0 b1 b2 b3 b4 b5 b6 b7 ys where xs: "xs = b0 # b1 # b2 # b3 # b4 # b5 # b6 # b7 # ys"
    by (auto simp: Suc_le_length_iff numeral_eq_Suc)
  let ?t = "push_bit 8 (ucast b2) OR ucast b3 :: u16"
  let ?n = "((push_bit 24 (ucast b4) OR push_bit 16 (ucast b5)) OR push_bit 8 (ucast b6)) OR ucast b7 :: u32"
  have h: "b0 = 1 \<and> b1 = 0xFE \<and> ?t = 0x8001 \<and> n = ?n"
    using assms by (simp add: xs read_v2gtpHeader_def fetch_def Let_def split: if_splits)
  have "header_bytes ?t ?n = [1, 0xFE, b2, b3, b4, b5, b6, b7]"
    unfolding header_bytes_def split_join16 split_join32 ..
  with h show ?thesis by (simp add: xs)
qed

lemma read_header_total: "8 \<le> length xs \<Longrightarrow> \<exists>r n. read_v2gtpHeader xs m = Some (r, n) \<and> (r = 0 \<or> r = -1 \<and> n = m)"
  by (auto simp: read_v2gtpHeader_def fetch_def Let_def)

subsection \<open>Properties\<close>

text \<open>C34: a header written for an EXI payload of any length is read back with that length; nothing
  behind the eight bytes is touched.\<close>

theorem v2gtp_roundtrip:
  assumes "8 \<le> length xs"
  shows "\<exists>out. write_v2gtpHeader xs n V2GTP_EXI_TYPE = Some (0, out) \<and> length out = length xs \<and>
    drop 8 out = drop 8 xs \<and> read_v2gtpHeader out m = Some (0, n)"
proof -
  have "length (header_bytes V2GTP_EXI_TYPE n) = 8" by (simp add: header_bytes_def)
  then show ?thesis using assms by (simp add: write_header_bytes read_header_bytes)
qed

theorem v2gtp_roundtrip_witness:
  "\<exists>out. write_v2gtpHeader [9, 9, 9, 9, 9, 9, 9, 9, 7] 66051 V2GTP_EXI_TYPE = Some (0, out) \<and>
     drop 8 out = [7] \<and> read_v2gtpHeader out 0 = Some (0, 66051)"
  using v2gtp_roundtrip [of "[9, 9, 9, 9, 9, 9, 9, 9, 7]" 66051 0] by auto

text \<open>C35: the reader accepts a buffer exactly when it starts with the header of an EXI payload, and
  then reports the length that header announces; it never reports success on another buffer.\<close>

theorem v2gtp_reader_exact:
  "read_v2gtpHeader xs m = Some (0, n) \<longleftrightarrow> take 8 xs = header_bytes V2GTP_EXI_TYPE n"
proof
  assume "take 8 xs = header_bytes V2GTP_EXI_TYPE n"
  then have "xs = header_bytes V2GTP_EXI_TYPE n @ drop 8 xs" by (metis append_take_drop_id)
  then show "read_v2gtpHeader xs m = Some (0, n)" using read_header_bytes [of V2GTP_EXI_TYPE n "drop 8 xs" m] by simp
qed (rule read_header_sound)

text \<open>Neither function knows the size of its buffer. The writer stays in bounds exactly on eight
  bytes or more; the reader on eight bytes or more returns 0, or -1 leaving the length alone.\<close>

theorem v2gtp_bounds:
  "(write_v2gtpHeader xs n t \<noteq> None \<longleftrightarrow> 8 \<le> length xs) \<and>
   (length xs < 8 \<or> (\<exists>k. read_v2gtpHeader xs m = Some (0, k)) \<or> read_v2gtpHeader xs m = Some (-1, m))"
proof (cases "8 \<le> length xs")
  case True
  then show ?thesis using write_header_bytes [of xs n t] read_header_total [of xs m] by auto
next
  case False
  then show ?thesis by (auto simp: write_v2gtpHeader_def store_def bind_eq_Some_conv split: if_splits)
qed

end
