(* ===== verification/DocumentCodec.thy ===== *)
theory DocumentCodec
  imports Documents Grammar V2GTP
begin

section \<open>Documents behind a transport header\<close>

text \<open>
  What the two functions of a document promise to those who exchange documents, as a locale, and what
  follows for a document that travels behind the header of the transport protocol. The codec of the
  handshake and the codec of ISO 15118 interpret it.

  \<open>wf\<close> are the documents that have an encoding, of at most \<open>room\<close> bits; \<open>ready\<close> the structs that can be
  filled; \<open>good d d'\<close> says that the struct \<open>d'\<close> has been filled with the content of \<open>d\<close>. The decoder
  leaves the array as it is.
\<close>

locale document_codec =
  fixes enc :: "bitstream \<Rightarrow> 'd \<Rightarrow> (errn \<times> bitstream) option"
    and dec :: "u32 \<Rightarrow> dec_static \<Rightarrow> bitstream \<Rightarrow> 'd \<Rightarrow> (errn \<times> (dec_static \<times> 'd) \<times> bitstream) option"
    and wf :: "'d \<Rightarrow> bool"
    and room :: "'d \<Rightarrow> nat"
    and ready :: "'d \<Rightarrow> bool"
    and good :: "'d \<Rightarrow> 'd \<Rightarrow> bool"
  assumes document: "wf d \<Longrightarrow> \<exists>W bs. (\<forall>s. enc s d = session W s) \<and> wr.emits W bs \<and> length bs \<le> room d \<and>
    (\<forall>j st t r d0. startable t \<longrightarrow> unread (reset_in t) = bs @ r \<longrightarrow> ready d0 \<longrightarrow>
       (\<exists>st' d' t'. dec j st t d0 = Some (EXI_OK, (st', d'), t') \<and> good d d' \<and> stream_data t' = stream_data t))"
begin

lemma encode_decode:
  assumes d: "wf d" and s: "startable s" and fit: "8 * stream_pos s + room d \<le> 8 * stream_size s"
  shows "\<exists>s'. enc s d = Some (EXI_OK, s') \<and> startable s' \<and> stream_size s' = stream_size s \<and>
    stream_pos s \<le> stream_pos s' \<and>
    (\<forall>t j st d0. startable t \<longrightarrow> stream_size t = stream_size s \<longrightarrow> stream_pos t = stream_pos s \<longrightarrow>
       drop (stream_pos s) (stream_data t) = drop (stream_pos s) (stream_data s') \<longrightarrow> ready d0 \<longrightarrow>
       (\<exists>st' d' t'. dec j st t d0 = Some (EXI_OK, (st', d'), t') \<and> good d d' \<and> stream_data t' = stream_data t))"
proof -
  from document [OF d] obtain W bs where W: "\<And>s. enc s d = session W s" "wr.emits W bs" "length bs \<le> room d"
    and dec: "\<And>j st t r d0. startable t \<Longrightarrow> unread (reset_in t) = bs @ r \<Longrightarrow> ready d0 \<Longrightarrow>
       \<exists>st' d' t'. dec j st t d0 = Some (EXI_OK, (st', d'), t') \<and> good d d' \<and> stream_data t' = stream_data t" by blast
  have "8 * stream_pos s + length bs \<le> 8 * stream_size s" using W(3) fit by simp
  from encode_document_fits [OF W(2) s this]
  obtain s' where s': "enc s d = Some (EXI_OK, s')" "startable s'" "stream_size s' = stream_size s"
    "bytes_bits (take (stream_pos s') (stream_data s')) =
      bytes_bits (take (stream_pos s) (stream_data s)) @ bs @ padding (length bs)" unfolding W(1) by blast
  have "stream_pos s \<le> length (stream_data s)" using s by (simp add: startable_def)
  from unread_encoded [OF s'(2,3) this s'(4)]
  obtain r where r: "bytes_bits (drop (stream_pos s) (take (stream_size s) (stream_data s'))) =
      (bs @ padding (length bs)) @ r" and le: "stream_pos s \<le> stream_pos s'" by blast
  have "\<exists>st' d' t'. dec j st t d0 = Some (EXI_OK, (st', d'), t') \<and> good d d' \<and> stream_data t' = stream_data t"
    if t: "startable t" "stream_size t = stream_size s" "stream_pos t = stream_pos s"
      "drop (stream_pos s) (stream_data t) = drop (stream_pos s) (stream_data s')" and d0: "ready d0" for t j st d0
  proof -
    have "drop (stream_pos s) (take (stream_size s) (stream_data t)) =
        drop (stream_pos s) (take (stream_size s) (stream_data s'))" using t(4) by (simp add: drop_take)
    then have "unread (reset_in t) = bs @ padding (length bs) @ r" using t(1-3) r by simp
    from dec [OF t(1) this d0] show ?thesis .
  qed
  with s'(1-3) le show ?thesis by blast
qed

text \<open>Behind the transport header, from the start of a buffer.\<close>

lemma behind_header:
  assumes d: "wf d" and s: "8 \<le> stream_size s" "stream_size s \<le> length (stream_data s)"
    and fit: "64 + room d \<le> 8 * stream_size s"
  shows "\<exists>s'. enc (s\<lparr>stream_pos := 8\<rparr>) d = Some (EXI_OK, s') \<and> 8 \<le> length (stream_data s') \<and>
    stream_size s' = stream_size s \<and> stream_size s \<le> length (stream_data s') \<and>
    (\<forall>n j st d0 t. ready d0 \<longrightarrow> t = s'\<lparr>stream_data := header_bytes V2GTP_EXI_TYPE n @ drop 8 (stream_data s')\<rparr> \<longrightarrow>
       (\<exists>st' d' t'. dec j st (t\<lparr>stream_pos := 8\<rparr>) d0 = Some (EXI_OK, (st', d'), t') \<and> good d d' \<and> stream_data t' = stream_data t))"
proof -
  let ?s = "s\<lparr>stream_pos := 8\<rparr>"
  have "startable ?s" "8 * stream_pos ?s + room d \<le> 8 * stream_size ?s" using s fit by (simp_all add: startable_def)
  from encode_decode [OF d this] obtain s' where s': "enc ?s d = Some (EXI_OK, s')" "startable s'"
    "stream_size s' = stream_size s" "8 \<le> stream_pos s'"
    and dec: "\<And>t j st d0. startable t \<Longrightarrow> stream_size t = stream_size s \<Longrightarrow> stream_pos t = 8 \<Longrightarrow>
       drop 8 (stream_data t) = drop 8 (stream_data s') \<Longrightarrow> ready d0 \<Longrightarrow>
       \<exists>st' d' t'. dec j st t d0 = Some (EXI_OK, (st', d'), t') \<and> good d d' \<and> stream_data t' = stream_data t" by auto
  have l: "8 \<le> length (stream_data s')" "stream_size s \<le> length (stream_data s')"
    using s'(2-4) by (simp_all add: startable_def)
  have h: "length (header_bytes V2GTP_EXI_TYPE n) = 8" for n by (simp add: header_bytes_def)
  have "\<exists>st' d' t'. dec j st (t\<lparr>stream_pos := 8\<rparr>) d0 = Some (EXI_OK, (st', d'), t') \<and> good d d' \<and> stream_data t' = stream_data t"
    if "ready d0" "t = s'\<lparr>stream_data := header_bytes V2GTP_EXI_TYPE n @ drop 8 (stream_data s')\<rparr>" for n j st d0 t
    using dec [of "t\<lparr>stream_pos := 8\<rparr>" d0 j st] that(1) s l h s'(3) by (simp add: that(2) startable_def)
  with s'(1,3) l show ?thesis by blast
qed

end

end
