(* ===== verification/ValueCodecs.thy ===== *)
theory ValueCodecs
  imports Documents
begin

section \<open>The value codecs: every encoder has its decoder\<close>

text \<open>
  The interface \<open>value_codec\<close> of \<open>Documents\<close>, interpreted on each pair of functions of
  \<open>EncoderChannel.c\<close> and \<open>DecoderChannel.c\<close>. Each interpretation says which values the encoder takes,
  which bits it writes for them, and when the decoder's value is the same. The round trip of the
  pair is then the lemma of the interface.
\<close>

subsection \<open>What is stated of a pair\<close>

text \<open>
  \<open>room s bs\<close>: the bits fit behind the position of \<open>s\<close>. \<open>comes_back enc dec s P\<close>: writing with
  \<open>enc\<close> and flushing succeeds, and reading from the same position with \<open>dec\<close> succeeds with a value
  that has \<open>P\<close>.
\<close>

definition room :: "bitstream \<Rightarrow> bool list \<Rightarrow> bool" where
  "room s bs \<longleftrightarrow> startable s \<and> 8 * stream_pos s + length bs \<le> 8 * stream_size s"

definition comes_back ::
  "(bitstream \<Rightarrow> (errn \<times> bitstream) option) \<Rightarrow> (bitstream \<Rightarrow> (errn \<times> 'b \<times> bitstream) option) \<Rightarrow>
   bitstream \<Rightarrow> ('b \<Rightarrow> bool) \<Rightarrow> bool" where
  "comes_back enc dec s P \<longleftrightarrow> (\<exists>s' w t. session enc s = Some (EXI_OK, s') \<and>
     dec (reset_in (s'\<lparr>stream_pos := stream_pos s\<rparr>)) = Some (EXI_OK, w, t) \<and> P w)"

context value_codec
begin

lemma value_returns: "ok v \<Longrightarrow> room s (code v) \<Longrightarrow> comes_back (\<lambda>s. enc s v) dec s (same v)"
  using roundtrip [of v s] by (auto simp: room_def comes_back_def)

end

subsection \<open>Booleans and n-bit fields\<close>

interpretation vbool: value_codec "\<lambda>_. True" encodeBoolean "\<lambda>s. decodeBoolean j s" "\<lambda>b. [b \<noteq> 0]"
  "\<lambda>b w. w = of_bool (b \<noteq> 0)" for j
  by unfold_locales (use takes_decodeBoolean in \<open>auto intro: wr.writes_imp_emits writes_encodeBoolean\<close>)

text \<open>A sequence of fields of given widths, as the header and the grammars write them.\<close>

fun encode_fields :: "bitstream \<Rightarrow> (nat \<times> u32) list \<Rightarrow> (errn \<times> bitstream) option" where
  "encode_fields s [] = Some (EXI_OK, s)"
| "encode_fields s ((n, v) # fs) = do {
     (errn, s1) \<leftarrow> encodeNBitUnsignedInteger s n v;
     if errn = EXI_OK then encode_fields s1 fs else Some (errn, s1)
   }"

fun decode_fields :: "nat list \<Rightarrow> bitstream \<Rightarrow> (errn \<times> u32 list \<times> bitstream) option" where
  "decode_fields [] s = Some (EXI_OK, [], s)"
| "decode_fields (n # ns) s = do {
     (errn, v, s1) \<leftarrow> decodeNBitUnsignedInteger s n 0;
     if errn = EXI_OK then do {
       (errn, vs, s2) \<leftarrow> decode_fields ns s1;
       Some (errn, v # vs, s2)
     }
     else Some (errn, [], s1)
   }"

definition field_bits :: "(nat \<times> u32) list \<Rightarrow> bool list" where
  "field_bits fs = concat (map (\<lambda>(n, v). bits n v) fs)"

definition field_fits :: "nat \<times> u32 \<Rightarrow> bool" where
  "field_fits f \<longleftrightarrow> fst f \<le> 32 \<and> take_bit (fst f) (snd f) = snd f"

lemma emits_encode_fields: "\<forall>f\<in>set fs. fst f \<le> 32 \<Longrightarrow> wr.emits (\<lambda>s. encode_fields s fs) (field_bits fs)"
proof (induction fs)
  case Nil
  then show ?case using wr.emits_ok by (simp add: field_bits_def)
next
  case (Cons f fs)
  then have "wr.emits (\<lambda>s. encode_fields s fs) (field_bits fs)" by simp
  from wr.emits_then [OF emits_encodeNBit this, of "fst f" "snd f"] Cons.prems
  show ?case by (cases f) (simp add: field_bits_def)
qed

lemma takes_decode_fields:
  "\<forall>f\<in>set fs. field_fits f \<Longrightarrow> rd.takes (decode_fields (map fst fs)) (field_bits fs) (map snd fs)"
proof (induction fs)
  case Nil
  then show ?case using rd.takes_ok [where a = "[]"] by (simp add: field_bits_def)
next
  case (Cons f fs)
  then have ih: "rd.takes (decode_fields (map fst fs)) (field_bits fs) (map snd fs)" by simp
  have f: "rd.takes (\<lambda>s. decodeNBitUnsignedInteger s (fst f) 0) (bits (fst f) (snd f)) (snd f)"
    using Cons.prems by (simp add: takes_decodeNBit field_fits_def)
  from rd.takes_then [OF f, where k = "\<lambda>v s. do {
      (errn, vs, s2) \<leftarrow> decode_fields (map fst fs) s; Some (errn, v # vs, s2) }",
      OF rd.takes_map [OF ih]]
  show ?case by (cases f) (simp add: field_bits_def)
qed

interpretation vfields: value_codec "\<lambda>fs. map fst fs = ns \<and> (\<forall>f\<in>set fs. field_fits f)" encode_fields
  "decode_fields ns" field_bits "\<lambda>fs w. w = map snd fs" for ns
  by unfold_locales (use takes_decode_fields in \<open>auto simp: field_fits_def intro: emits_encode_fields\<close>)

subsection \<open>Integers\<close>

abbreviation (input) unsigned_bits :: "'a::len word \<Rightarrow> bool list" where
  "unsigned_bits n \<equiv> bytes_bits (octets (unat n))"

abbreviation (input) signed_bits :: "'a::len word \<Rightarrow> bool list" where
  "signed_bits n \<equiv> integer_bits (sint n)"

lemma unat_less_64: "unat (n :: 'a::len word) < 2 ^ 64" if "LENGTH('a) \<le> 64"
  using unsigned_less [of n] power_increasing [OF that, of "2 :: nat"] by (rule less_le_trans) simp

interpretation vu16: value_codec "\<lambda>_. True" encodeUnsignedInteger16 "decodeUnsignedInteger16 j" unsigned_bits "(=)" for j
proof
  fix n :: u16
  have "unat n < 2 ^ 16" using unsigned_less [of n] by simp
  then show "\<exists>w. n = w \<and> rd.takes (decodeUnsignedInteger16 j) (bytes_bits (octets (unat n))) w"
    using takes_decodeUnsignedInteger16 [of "unat n" j] by simp
qed (rule wr.writes_imp_emits [OF writes_encodeUnsignedInteger16])

text \<open>A value of 32 bits is read back below \<open>2 ^ 31\<close> only: beyond it the decoder overflows a signed shift.\<close>

interpretation vu32: value_codec "\<lambda>n. n < 2 ^ 31" encodeUnsignedInteger32 "decodeUnsignedInteger32 j" unsigned_bits "(=)" for j
proof
  fix n :: u32 assume "n < 2 ^ 31"
  then have "unat n < 2 ^ 31" by (simp add: word_less_nat_alt)
  then show "\<exists>w. n = w \<and> rd.takes (decodeUnsignedInteger32 j) (bytes_bits (octets (unat n))) w"
    using takes_decodeUnsignedInteger32 [of "unat n" j] by simp
qed (rule wr.writes_imp_emits [OF writes_encodeUnsignedInteger32])

interpretation vu64: value_codec "\<lambda>_. True" encodeUnsignedInteger64 "decodeUnsignedInteger64 j" unsigned_bits "(=)" for j
proof
  fix n :: u64
  have "unat n < 2 ^ 64" using unsigned_less [of n] by simp
  then show "\<exists>w. n = w \<and> rd.takes (decodeUnsignedInteger64 j) (bytes_bits (octets (unat n))) w"
    using takes_decodeUnsignedInteger64 [of "unat n" j] by simp
qed (rule wr.writes_imp_emits [OF writes_encodeUnsignedInteger64])

interpretation vi16: value_codec "\<lambda>_. True" encodeInteger16 "\<lambda>s. decodeInteger16 j s old" signed_bits "(=)" for j old
  by unfold_locales (auto intro: wr.writes_imp_emits writes_encodeInteger16 takes_decodeInteger16)

interpretation vi32: value_codec "\<lambda>n. sint n \<noteq> - (2 ^ 31)" encodeInteger32 "\<lambda>s. decodeInteger32 j s old" signed_bits "(=)" for j old
  by unfold_locales (use wr.writes_imp_emits [OF writes_encodeInteger32] takes_decodeInteger32 in auto)

interpretation vi64: value_codec "\<lambda>n. sint n \<noteq> - (2 ^ 63)" encodeInteger64 "\<lambda>s. decodeInteger64 j s old" signed_bits "(=)" for j old
  by unfold_locales (use wr.writes_imp_emits [OF writes_encodeInteger64] takes_decodeInteger64 in auto)

text \<open>The integers with a type tag: the tag that comes back is the least the decoder knows.\<close>

lemma integer_value_range:
  "- (2 ^ 63) \<le> integer_value iv" "integer_value iv < 2 ^ 64"
proof -
  have r: "- (2 ^ 63) \<le> sint w" "sint w < 2 ^ 64" "- (2 ^ 63) \<le> uint w" "uint w < 2 ^ 64"
    if "LENGTH('a) \<le> 64" for w :: "'a::len word"
  proof -
    have p: "(2 :: int) ^ (LENGTH('a) - 1) \<le> 2 ^ 63" "(2 :: int) ^ LENGTH('a) \<le> 2 ^ 64"
      using that by (intro power_increasing; simp)+
    show "- (2 ^ 63) \<le> sint w" "sint w < 2 ^ 64" using p(1) sint_ge [of w] sint_lt [of w] by auto
    show "- (2 ^ 63) \<le> uint w" by (rule order_trans [OF _ uint_ge_0]) simp
    show "uint w < 2 ^ 64" using uint_lt2p [of w] p(2) by (rule less_le_trans)
  qed
  show "- (2 ^ 63) \<le> integer_value iv" "integer_value iv < 2 ^ 64"
    using r [of "get_val8 iv"] r [of "get_val16 iv"] r [of "get_val32 iv"] r [of "get_val64 iv"]
    by (auto simp: integer_value_def split: exi_integer_type.splits)
qed

abbreviation (input) same_integer :: "exi_integer \<Rightarrow> exi_integer \<Rightarrow> bool" where
  "same_integer v w \<equiv> int_type_valid (int_type w) \<and> integer_value w = integer_value v"

interpretation vunsigned: value_codec "\<lambda>v. int_type_valid (int_type v) \<and> 0 \<le> integer_value v"
  encodeUnsignedInteger "\<lambda>s. decodeUnsignedInteger j s iv" "\<lambda>v. bytes_bits (octets (nat (integer_value v)))"
  same_integer for j iv
proof
  fix v assume v: "int_type_valid (int_type v) \<and> 0 \<le> integer_value v"
  then show "wr.emits (\<lambda>s. encodeUnsignedInteger s v) (bytes_bits (octets (nat (integer_value v))))"
    by (blast intro: wr.writes_imp_emits writes_encodeUnsignedInteger)
  have "nat (integer_value v) < 2 ^ 64" using integer_value_range(2) [of v] v by (simp add: nat_less_iff)
  from takes_decodeUnsignedInteger [OF this, of j iv] v
  show "\<exists>w. same_integer v w \<and> rd.takes (\<lambda>s. decodeUnsignedInteger j s iv) (bytes_bits (octets (nat (integer_value v)))) w"
    by auto
qed

lemma integer_encodable_range: "integer_encodable v \<Longrightarrow> - (2 ^ 63) < integer_value v"
proof -
  assume e: "integer_encodable v"
  have nonneg: "uint w \<noteq> - (2 ^ 63)" for w :: "'a::len word"
  proof
    assume "uint w = - (2 ^ 63)"
    with uint_ge_0 [of w] show False by simp
  qed
  have "integer_value v \<noteq> - (2 ^ 63)"
  proof
    assume eq: "integer_value v = - (2 ^ 63)"
    with e sint_ge [of "get_val8 v"] sint_ge [of "get_val16 v"] sint_ge [of "get_val32 v"]
      nonneg [of "get_val8 v"] nonneg [of "get_val16 v"] nonneg [of "get_val32 v"] nonneg [of "get_val64 v"]
    show False by (cases "int_type v") (auto simp: integer_value_def)
  qed
  with integer_value_range(1) [of v] show ?thesis by linarith
qed

interpretation vinteger: value_codec integer_encodable encodeInteger "\<lambda>s. decodeInteger j s iv"
  "\<lambda>v. integer_bits (integer_value v)" same_integer for j iv
proof
  fix v assume v: "integer_encodable v"
  then show "wr.emits (\<lambda>s. encodeInteger s v) (integer_bits (integer_value v))"
    by (intro wr.writes_imp_emits writes_encodeInteger)
  from takes_decodeInteger [OF integer_encodable_range [OF v] integer_value_range(2), of j iv]
  show "\<exists>w. same_integer v w \<and> rd.takes (\<lambda>s. decodeInteger j s iv) (integer_bits (integer_value v)) w"
    by auto
qed

subsection \<open>Floats and decimals\<close>

interpretation vfloat: value_codec "\<lambda>f. sint (mantissa f) \<noteq> - (2 ^ 63)" encodeFloat "\<lambda>s. decodeFloat j s f0"
  "\<lambda>f. signed_bits (mantissa f) @ signed_bits (exponent f)"
  "\<lambda>f w. mantissa w = mantissa f \<and> exponent w = exponent f" for j f0
proof
  fix f :: exi_float_me assume f: "sint (mantissa f) \<noteq> - (2 ^ 63)"
  then show "wr.emits (\<lambda>s. encodeFloat s f) (signed_bits (mantissa f) @ signed_bits (exponent f))"
    by (intro wr.writes_imp_emits writes_encodeFloat)
  have "mantissa (f0\<lparr>mantissa := mantissa f, exponent := exponent f\<rparr>) = mantissa f \<and>
      exponent (f0\<lparr>mantissa := mantissa f, exponent := exponent f\<rparr>) = exponent f" by simp
  with takes_decodeFloat [OF f, of j f0 "exponent f"]
  show "\<exists>w. (mantissa w = mantissa f \<and> exponent w = exponent f) \<and>
      rd.takes (\<lambda>s. decodeFloat j s f0) (signed_bits (mantissa f) @ signed_bits (exponent f)) w" by blast
qed

interpretation vdecimal: value_codec decimal_ok encodeDecimal "\<lambda>s. decodeDecimal j s d0" decimal_bits
  "\<lambda>d w. negative w = of_bool (negative d \<noteq> 0) \<and> same_integer (integral d) (integral w) \<and>
     same_integer (reverseFraction d) (reverseFraction w)" for j d0
proof
  fix d assume d: "decimal_ok d"
  then show "wr.emits (\<lambda>s. encodeDecimal s d) (decimal_bits d)"
    by (intro wr.writes_imp_emits writes_encodeDecimal)
  have "nat (integer_value iv) < 2 ^ 64" if "0 \<le> integer_value iv" for iv
    using integer_value_range(2) [of iv] that by (simp add: nat_less_iff)
  with d have "nat (integer_value (integral d)) < 2 ^ 64" "nat (integer_value (reverseFraction d)) < 2 ^ 64"
    by (simp_all add: decimal_ok_def)
  from takes_decodeDecimal [OF this, of j d0 "negative d \<noteq> 0"] d
  show "\<exists>w. (negative w = of_bool (negative d \<noteq> 0) \<and> same_integer (integral d) (integral w) \<and>
      same_integer (reverseFraction d) (reverseFraction w)) \<and> rd.takes (\<lambda>s. decodeDecimal j s d0) (decimal_bits d) w"
    by (auto simp: decimal_bits_def decimal_ok_def)
qed

subsection \<open>Strings, restricted character sets, binary data\<close>

definition string_content :: "exi_string \<Rightarrow> u8 list" where
  "string_content st = take (unat (str_len st)) (characters st)"

definition bytes_content :: "exi_bytes \<Rightarrow> u8 list" where
  "bytes_content b = take (unat (bytes_len b)) (bytes_data b)"

definition string_encodable :: "exi_string \<Rightarrow> bool" where
  "string_encodable st \<longleftrightarrow> unat (str_len st) \<le> length (characters st) \<and> unat (str_len st) < 2 ^ 32 \<and>
     (\<forall>c\<in>set (string_content st). c < 128)"

definition bytes_encodable :: "exi_bytes \<Rightarrow> bool" where
  "bytes_encodable b \<longleftrightarrow> unat (bytes_len b) \<le> length (bytes_data b) \<and> unat (bytes_len b) < 2 ^ 32"

lemma content_set_string: "length xs < 2 ^ 64 \<Longrightarrow> string_content (set_string xs st) = xs"
  by (simp add: string_content_def set_string_def unat_of_nat take_bit_nat_eq_self)

lemma content_set_bytes: "length xs < 2 ^ 64 \<Longrightarrow> bytes_content (set_bytes xs b) = xs"
  by (simp add: bytes_content_def set_bytes_def unat_of_nat take_bit_nat_eq_self)

text \<open>The reader's buffer must hold the string and a terminating zero.\<close>

interpretation vstring: value_codec
  "\<lambda>st. string_encodable st \<and> holds (str_size st0) (characters st0) (string_content st)"
  encodeString "\<lambda>s. decodeString j s st0" "\<lambda>st. sized_bits (string_content st)"
  "\<lambda>st w. string_content w = string_content st" for j st0
proof
  fix st assume st: "string_encodable st \<and> holds (str_size st0) (characters st0) (string_content st)"
  then show "wr.emits (\<lambda>s. encodeString s st) (sized_bits (string_content st))"
    unfolding string_encodable_def string_content_def by (blast intro: wr.writes_imp_emits writes_encodeString)
  have "rd.takes (\<lambda>s. decodeString j s st0) (sized_bits (string_content st)) (set_string (string_content st) st0)"
    using st by (auto simp: string_encodable_def intro: takes_decodeString)
  moreover have "length (string_content st) < 2 ^ 64" using st by (simp add: string_encodable_def string_content_def)
  ultimately show "\<exists>w. string_content w = string_content st \<and>
      rd.takes (\<lambda>s. decodeString j s st0) (sized_bits (string_content st)) w"
    using content_set_string by blast
qed

interpretation vbinary: value_codec
  "\<lambda>b. bytes_encodable b \<and> length (bytes_content b) \<le> length (bytes_data b0)"
  encodeBinary "\<lambda>s. decodeBinary j s b0" "\<lambda>b. sized_bits (bytes_content b)"
  "\<lambda>b w. bytes_content w = bytes_content b" for j b0
proof
  fix b assume b: "bytes_encodable b \<and> length (bytes_content b) \<le> length (bytes_data b0)"
  then show "wr.emits (\<lambda>s. encodeBinary s b) (sized_bits (bytes_content b))"
    unfolding bytes_encodable_def bytes_content_def by (blast intro: wr.writes_imp_emits writes_encodeBinary)
  have "length (bytes_content b) < 2 ^ 64" using b by (simp add: bytes_encodable_def bytes_content_def)
  with b show "\<exists>w. bytes_content w = bytes_content b \<and>
      rd.takes (\<lambda>s. decodeBinary j s b0) (sized_bits (bytes_content b)) w"
    using takes_decodeBinary [of "bytes_content b" b0 j] content_set_bytes by blast
qed

text \<open>
  A string over a restricted character set \<open>cs\<close>: \<open>n\<close> bits per character, an escape for the others.
  The two functions get the length of the string from elsewhere; the value here is the characters.
\<close>

interpretation vrcs: value_codec
  "\<lambda>xs. length xs = k \<and> holds sz chars xs \<and> (\<forall>c\<in>set xs. c < 128) \<and> n \<le> 8 \<and> length cs < 2 ^ n"
  "\<lambda>s xs. encodeRCSCharacters s xs (of_nat (length xs)) n (length cs) cs"
  "\<lambda>s. decodeRCSCharacters j s (of_nat k) chars sz n (length cs) cs"
  "\<lambda>xs. concat (map (rcs_char_bits n cs) xs)" "\<lambda>xs w. take k w = xs" for j k chars sz n cs
proof
  fix xs assume xs: "length xs = k \<and> holds sz chars xs \<and> (\<forall>c\<in>set xs. c < 128) \<and> n \<le> 8 \<and> length cs < 2 ^ n"
  then have len: "unat (of_nat (length xs) :: u64) = length xs" by (blast intro: holds_length)
  then show "wr.emits (\<lambda>s. encodeRCSCharacters s xs (of_nat (length xs)) n (length cs) cs)
      (concat (map (rcs_char_bits n cs) xs))"
    using writes_encodeRCSCharacters [of n "of_nat (length xs)" xs cs] xs by (simp add: wr.writes_imp_emits)
  have "rd.takes (\<lambda>s. decodeRCSCharacters j s (of_nat k) chars sz n (length cs) cs)
      (concat (map (rcs_char_bits n cs) xs)) (xs @ drop (length xs) chars)"
    using takes_decodeRCSCharacters [of sz chars xs n cs j] xs by auto
  moreover have "take k (xs @ drop (length xs) chars) = xs" using xs by simp
  ultimately show "\<exists>w. take k w = xs \<and> rd.takes (\<lambda>s. decodeRCSCharacters j s (of_nat k) chars sz n (length cs) cs)
      (concat (map (rcs_char_bits n cs) xs)) w" by blast
qed

subsection \<open>Date and time\<close>

interpretation vdatetime: value_codec "\<lambda>d. datetime_fits d \<and> dt_type d = t" encodeDateTime
  "\<lambda>s. decodeDateTime j s t" datetime_bits "\<lambda>d w. w = datetime_norm d" for j t
proof
  fix d assume d: "datetime_fits d \<and> dt_type d = t"
  then show "wr.emits (\<lambda>s. encodeDateTime s d) (datetime_bits d)"
    by (intro emits_encodeDateTime) (auto simp: datetime_fits_def)
  show "\<exists>w. w = datetime_norm d \<and> rd.takes (\<lambda>s. decodeDateTime j s t) (datetime_bits d) w"
    using takes_decodeDateTime [of d j] d by auto
qed

subsection \<open>How much room the integers need\<close>

lemma room_unsigned:
  assumes "startable s" "stream_pos s + 10 \<le> stream_size s" "n < 2 ^ 64"
  shows "room s (bytes_bits (octets n))"
proof -
  have "8 * stream_pos s + 8 * length (octets n) \<le> 8 * stream_size s"
    using assms(2) octets_le_10 [OF assms(3)] by linarith
  with assms(1) show ?thesis by (simp add: room_def)
qed

lemma room_signed:
  assumes "startable s" "stream_pos s + 11 \<le> stream_size s" "- (2 ^ 64) \<le> i" "i < 2 ^ 64"
  shows "room s (integer_bits i)"
proof -
  have "nat (if i < 0 then - i - 1 else i) < 2 ^ 64" using assms(3,4) by (simp add: nat_less_iff)
  from octets_le_10 [OF this] assms(2)
  have "8 * stream_pos s + (8 * length (octets (nat (if i < 0 then - i - 1 else i))) + 1) \<le> 8 * stream_size s"
    by linarith
  with assms(1) show ?thesis by (simp add: room_def integer_bits_def)
qed

lemma sint_range_64: "- (2 ^ 64) \<le> sint n" "sint n < 2 ^ 64" if "LENGTH('a) \<le> 64" for n :: "'a::len word"
proof -
  have "(2 :: int) ^ (LENGTH('a) - 1) \<le> 2 ^ 64" using that by (intro power_increasing) auto
  with sint_ge [of n] sint_lt [of n] show "- (2 ^ 64) \<le> sint n" "sint n < 2 ^ 64" by linarith+
qed

lemma startable_blank [simp]: "startable (blank_stream n)"
  by (simp add: startable_def)

subsection \<open>Properties\<close>

text \<open>A sequence of n-bit fields of any widths up to 32 bits, written one after the other, is read
  back field by field with the same values.\<close>

theorem fields_roundtrip:
  assumes "\<forall>f\<in>set fs. field_fits f" "room s (field_bits fs)"
  shows "comes_back (\<lambda>s. encode_fields s fs) (decode_fields (map fst fs)) s (\<lambda>w. w = map snd fs)"
  using assms by (intro vfields.value_returns) simp_all

theorem fields_roundtrip_witness:
  "comes_back (\<lambda>s. encode_fields s [(3, 5), (17, 86399), (0, 0)]) (decode_fields [3, 17, 0]) (blank_stream 3)
     (\<lambda>w. w = [5, 86399, 0])"
proof -
  let ?fs = "[(3, 5), (17, 86399), (0, 0)] :: (nat \<times> u32) list"
  have fits: "\<forall>f\<in>set ?fs. field_fits f" by (simp add: field_fits_def take_bit_eq_mod)
  have "room (blank_stream 3) (field_bits ?fs)" by (simp add: room_def field_bits_def)
  from fields_roundtrip [OF fits this] show ?thesis by simp
qed

text \<open>C29: every unsigned integer of 16 and of 64 bits, and every one of 32 bits below \<open>2 ^ 31\<close>, comes back
  from a stream with ten bytes of room, whatever the reader's variables held before. (That those of
  \<open>2 ^ 31\<close> and more do not is \<open>large_unsigned_unreadable\<close> in \<open>DecoderFaults\<close>.)\<close>

theorem unsigned_roundtrip:
  assumes "startable s" "stream_pos s + 10 \<le> stream_size s" "m < 2 ^ 31"
  shows "comes_back (\<lambda>s. encodeUnsignedInteger16 s n) (decodeUnsignedInteger16 j) s ((=) n) \<and>
    comes_back (\<lambda>s. encodeUnsignedInteger32 s m) (decodeUnsignedInteger32 j) s ((=) m) \<and>
    comes_back (\<lambda>s. encodeUnsignedInteger64 s k) (decodeUnsignedInteger64 j) s ((=) k)"
  using assms(3) vu16.value_returns [OF _ room_unsigned [OF assms(1,2) unat_less_64]]
    vu32.value_returns [OF _ room_unsigned [OF assms(1,2) unat_less_64]]
    vu64.value_returns [OF _ room_unsigned [OF assms(1,2) unat_less_64]] by auto

theorem unsigned_roundtrip_witness:
  "comes_back (\<lambda>s. encodeUnsignedInteger32 s 2147483647) (decodeUnsignedInteger32 7) (blank_stream 10) ((=) 2147483647)"
  using unsigned_roundtrip [of "blank_stream 10" 2147483647 0 7 0] by simp

text \<open>C30: every signed integer of 16, 32 and 64 bits comes back, except the least one of 32 and of 64
  bits, on which the encoder's negation has no defined behaviour.\<close>

theorem signed_roundtrip:
  assumes "startable s" "stream_pos s + 11 \<le> stream_size s" "sint m \<noteq> - (2 ^ 31)" "sint k \<noteq> - (2 ^ 63)"
  shows "comes_back (\<lambda>s. encodeInteger16 s n) (\<lambda>s. decodeInteger16 j s old16) s ((=) n) \<and>
    comes_back (\<lambda>s. encodeInteger32 s m) (\<lambda>s. decodeInteger32 j s old32) s ((=) m) \<and>
    comes_back (\<lambda>s. encodeInteger64 s k) (\<lambda>s. decodeInteger64 j s old64) s ((=) k)"
  using assms(3,4) vi16.value_returns [OF _ room_signed [OF assms(1,2) sint_range_64]]
    vi32.value_returns [OF _ room_signed [OF assms(1,2) sint_range_64]]
    vi64.value_returns [OF _ room_signed [OF assms(1,2) sint_range_64]] by auto

theorem signed_roundtrip_witness:
  "comes_back (\<lambda>s. encodeInteger16 s (- 32768)) (\<lambda>s. decodeInteger16 0 s 5) (blank_stream 11) ((=) (- 32768))"
  using signed_roundtrip [of "blank_stream 11" 0 0 "- 32768" 0 5 0 0] by simp

text \<open>C28: an integer with a type tag comes back with the same value, though with the tag the decoder gives
  it: by the signed coding if it is \<open>integer_encodable\<close> (it is not the least of 32 or 64 bits, nor an
  unsigned one of 64 bits of \<open>2 ^ 63\<close> or more), by the unsigned coding if it is not negative. A reader of
  the unsigned coding gets every value up to \<open>2 ^ 64\<close>.\<close>

theorem tagged_roundtrip:
  assumes "startable s" "stream_pos s + 11 \<le> stream_size s"
  shows "(integer_encodable v \<longrightarrow> comes_back (\<lambda>s. encodeInteger s v) (\<lambda>s. decodeInteger j s iv) s
      (\<lambda>w. integer_value w = integer_value v)) \<and>
    (int_type_valid (int_type v) \<and> 0 \<le> integer_value v \<longrightarrow>
      comes_back (\<lambda>s. encodeUnsignedInteger s v) (\<lambda>s. decodeUnsignedInteger j s iv) s
        (\<lambda>w. integer_value w = integer_value v))"
proof (intro conjI impI)
  assume v: "integer_encodable v"
  have "room s (integer_bits (integer_value v))"
    using integer_value_range [of v] by (intro room_signed [OF assms]) auto
  from vinteger.value_returns [OF v this, of j iv] show "comes_back (\<lambda>s. encodeInteger s v)
      (\<lambda>s. decodeInteger j s iv) s (\<lambda>w. integer_value w = integer_value v)" by (auto simp: comes_back_def)
next
  assume v: "int_type_valid (int_type v) \<and> 0 \<le> integer_value v"
  then have "nat (integer_value v) < 2 ^ 64" using integer_value_range(2) [of v] by (simp add: nat_less_iff)
  then have "room s (bytes_bits (octets (nat (integer_value v))))" using assms by (intro room_unsigned) auto
  from vunsigned.value_returns [OF v this, of j iv] show "comes_back (\<lambda>s. encodeUnsignedInteger s v)
      (\<lambda>s. decodeUnsignedInteger j s iv) s (\<lambda>w. integer_value w = integer_value v)" by (auto simp: comes_back_def)
qed

theorem tagged_roundtrip_witness:
  "comes_back (\<lambda>s. encodeInteger s \<lparr>int_type = EXI_INTEGER_32, int_val = 0xFFFFFF00\<rparr>)
     (\<lambda>s. decodeInteger 0 s \<lparr>int_type = EXI_INTEGER_8, int_val = 0\<rparr>) (blank_stream 11) (\<lambda>w. integer_value w = - 256)"
proof -
  let ?v = "\<lparr>int_type = EXI_INTEGER_32, int_val = 0xFFFFFF00\<rparr>"
  have v: "integer_value ?v = - 256" by (simp add: integer_value_def get_val32_def)
  then have "integer_encodable ?v" by simp
  with tagged_roundtrip [of "blank_stream 11" ?v 0 "\<lparr>int_type = EXI_INTEGER_8, int_val = 0\<rparr>"] show ?thesis
    by (simp add: v)
qed

text \<open>C31: a string comes back if the reader's buffer can hold its characters and a terminating zero; a
  byte array comes back if the reader's buffer can hold it.\<close>

theorem string_binary_roundtrip:
  assumes "string_encodable st" "holds (str_size st0) (characters st0) (string_content st)"
    and "room s (sized_bits (string_content st))"
    and "bytes_encodable b" "length (bytes_content b) \<le> length (bytes_data b0)"
    and "room s' (sized_bits (bytes_content b))"
  shows "comes_back (\<lambda>s. encodeString s st) (\<lambda>s. decodeString j s st0) s
      (\<lambda>w. string_content w = string_content st) \<and>
    comes_back (\<lambda>s. encodeBinary s b) (\<lambda>s. decodeBinary j s b0) s' (\<lambda>w. bytes_content w = bytes_content b)"
  using vstring.value_returns [of st st0 s j] vbinary.value_returns [of b b0 s' j] assms by simp

theorem string_binary_roundtrip_witness:
  "comes_back (\<lambda>s. encodeString s \<lparr>str_size = 3, characters = [68, 73, 78], str_len = 3\<rparr>)
     (\<lambda>s. decodeString 0 s \<lparr>str_size = 4, characters = [0, 0, 0, 0], str_len = 0\<rparr>) (blank_stream 4)
     (\<lambda>w. string_content w = [68, 73, 78])"
proof -
  let ?st = "\<lparr>str_size = 3, characters = [68, 73, 78], str_len = 3\<rparr>"
  let ?b = "\<lparr>bytes_size = 1, bytes_data = [7], bytes_len = 1\<rparr>"
  have c: "string_content ?st = [68, 73, 78]" "bytes_content ?b = [7]"
    by (simp_all add: string_content_def bytes_content_def)
  have "string_encodable ?st" "bytes_encodable ?b" by (simp_all add: string_encodable_def bytes_encodable_def c)
  moreover have "holds 4 [0, 0, 0, 0] (string_content ?st)" by (simp add: holds_def c)
  moreover have "room (blank_stream 4) (sized_bits (string_content ?st))" "room (blank_stream 4) (sized_bits (bytes_content ?b))"
    by (simp_all add: room_def c sized_bits_def octets_small)
  ultimately show ?thesis
    using string_binary_roundtrip [of ?st "\<lparr>str_size = 4, characters = [0, 0, 0, 0], str_len = 0\<rparr>" "blank_stream 4" ?b ?b
        "blank_stream 4" 0] by (simp add: c)
qed

text \<open>A string over a restricted character set comes back, characters outside the set included,
  if the codes of the set and the escape code have \<open>n\<close> bits.\<close>

theorem rcs_roundtrip:
  assumes "holds sz chars xs" "\<forall>c\<in>set xs. c < 128" "n \<le> 8" "length cs < 2 ^ n"
    and "room s (concat (map (rcs_char_bits n cs) xs))"
  shows "comes_back (\<lambda>s. encodeRCSCharacters s xs (of_nat (length xs)) n (length cs) cs)
    (\<lambda>s. decodeRCSCharacters j s (of_nat (length xs)) chars sz n (length cs) cs) s (\<lambda>w. take (length xs) w = xs)"
  using vrcs.value_returns [of xs "length xs" sz chars n cs s j] assms by simp

theorem rcs_roundtrip_witness:
  "comes_back (\<lambda>s. encodeRCSCharacters s [49, 65, 48] 3 2 2 [48, 49])
     (\<lambda>s. decodeRCSCharacters 0 s 3 [0, 0, 0, 0] 4 2 2 [48, 49]) (blank_stream 2) (\<lambda>w. take 3 w = [49, 65, 48])"
proof -
  have len: "length [49, 65, 48 :: u8] = 3" "length [48, 49 :: u8] = 2" by simp_all
  have "holds 4 [0, 0, 0, 0] [49, 65, 48]" by (simp add: holds_def)
  moreover have "\<forall>c\<in>set [49, 65, 48 :: u8]. c < 128" "(2 :: nat) \<le> 8" "length [48, 49 :: u8] < 2 ^ 2" by simp_all
  moreover have "room (blank_stream 2) (concat (map (rcs_char_bits 2 [48, 49]) [49, 65, 48]))"
    by (simp add: room_def rcs_char_bits_def)
  ultimately have "comes_back (\<lambda>s. encodeRCSCharacters s [49, 65, 48] (of_nat (length [49, 65, 48 :: u8])) 2 (length [48, 49 :: u8]) [48, 49])
     (\<lambda>s. decodeRCSCharacters 0 s (of_nat (length [49, 65, 48 :: u8])) [0, 0, 0, 0] 4 2 (length [48, 49 :: u8]) [48, 49])
     (blank_stream 2) (\<lambda>w. take (length [49, 65, 48 :: u8]) w = [49, 65, 48])"
    by (rule rcs_roundtrip)
  then show ?thesis by (simp only: len of_nat_numeral)
qed

text \<open>C33: a float comes back with the same mantissa and exponent, unless its mantissa is \<open>- (2 ^ 63)\<close>, which
  \<open>EXITypes.h\<close> allows and whose encoding is not defined. A decimal whose two parts have valid tags and are
  not negative (\<open>decimal_ok\<close>) comes back with the same sign and parts, the fraction in its reversed
  notation.\<close>

theorem float_decimal_roundtrip:
  assumes "startable s" "stream_pos s + 22 \<le> stream_size s" "decimal_ok d"
  shows "(if sint (mantissa f) = - (2 ^ 63) then \<forall>t. encodeFloat t f = None
      else comes_back (\<lambda>s. encodeFloat s f) (\<lambda>s. decodeFloat j s f0) s
        (\<lambda>w. mantissa w = mantissa f \<and> exponent w = exponent f)) \<and>
    comes_back (\<lambda>s. encodeDecimal s d) (\<lambda>s. decodeDecimal j s d0) s
      (\<lambda>w. (negative w \<noteq> 0 \<longleftrightarrow> negative d \<noteq> 0) \<and> integer_value (integral w) = integer_value (integral d) \<and>
         integer_value (reverseFraction w) = integer_value (reverseFraction d))"
proof
  have l: "length (integer_bits i) \<le> 81" if "- (2 ^ 64) \<le> i" "i < 2 ^ 64" for i
  proof -
    have "room (blank_stream 11) (integer_bits i)" using that by (intro room_signed) simp_all
    moreover have "length (integer_bits i) = 8 * length (octets (nat (if i < 0 then - i - 1 else i))) + 1"
      by (simp add: integer_bits_def)
    ultimately show ?thesis by (simp add: room_def)
  qed
  have "room s (signed_bits (mantissa f) @ signed_bits (exponent f))"
    using assms(1,2) l [OF sint_range_64, of "mantissa f"] l [OF sint_range_64, of "exponent f"] by (simp add: room_def)
  from vfloat.value_returns [OF _ this, of j f0]
  show "if sint (mantissa f) = - (2 ^ 63) then \<forall>t. encodeFloat t f = None
      else comes_back (\<lambda>s. encodeFloat s f) (\<lambda>s. decodeFloat j s f0) s
        (\<lambda>w. mantissa w = mantissa f \<and> exponent w = exponent f)"
    by (simp add: encodeFloat_def encodeInteger64_def)
  have o: "length (octets (nat (integer_value v))) \<le> 10" for v
    using integer_value_range(2) [of v] by (intro octets_le_10) (simp add: nat_less_iff)
  have "room s (decimal_bits d)"
    using assms(1,2) o [of "integral d"] o [of "reverseFraction d"] by (simp add: room_def decimal_bits_def)
  from vdecimal.value_returns [OF assms(3) this, of j d0]
  show "comes_back (\<lambda>s. encodeDecimal s d) (\<lambda>s. decodeDecimal j s d0) s
      (\<lambda>w. (negative w \<noteq> 0 \<longleftrightarrow> negative d \<noteq> 0) \<and> integer_value (integral w) = integer_value (integral d) \<and>
         integer_value (reverseFraction w) = integer_value (reverseFraction d))"
    by (auto simp: comes_back_def)
qed

theorem float_decimal_roundtrip_witness:
  "comes_back (\<lambda>s. encodeFloat s \<lparr>mantissa = - 15, exponent = 2\<rparr>) (\<lambda>s. decodeFloat 0 s \<lparr>mantissa = 0, exponent = 0\<rparr>)
     (blank_stream 22) (\<lambda>w. mantissa w = - 15 \<and> exponent w = 2)"
proof -
  let ?d = "\<lparr>negative = 1, integral = \<lparr>int_type = EXI_UNSIGNED_INTEGER_8, int_val = 3\<rparr>,
    reverseFraction = \<lparr>int_type = EXI_UNSIGNED_INTEGER_8, int_val = 41\<rparr>\<rparr>"
  have "decimal_ok ?d" by (simp add: decimal_ok_def integer_value_def get_val8_def)
  with float_decimal_roundtrip [of "blank_stream 22" ?d "\<lparr>mantissa = - 15, exponent = 2\<rparr>" 0 "\<lparr>mantissa = 0, exponent = 0\<rparr>" ?d]
  show ?thesis by simp
qed

text \<open>C32: a date and time of each of the eight types comes back, in the normal form that has zero in the
  fields its type lacks. It fits (\<open>datetime_fits\<close>) if its fields are in the ranges of the bits they are
  written with, and its fractional seconds, where present, below \<open>2 ^ 31\<close>.\<close>

theorem datetime_roundtrip:
  assumes "datetime_fits d" "room s (datetime_bits d)"
  shows "comes_back (\<lambda>s. encodeDateTime s d) (\<lambda>s. decodeDateTime j s (dt_type d)) s (\<lambda>w. w = datetime_norm d)"
  using assms by (intro vdatetime.value_returns) auto

theorem datetime_roundtrip_witness:
  "comes_back (\<lambda>s. encodeDateTime s \<lparr>dt_type = EXI_DATETIME_DATE, year = 2016, monthDay = 65, dt_time = 9,
       presenceFractionalSecs = 0, fractionalSecs = 0, presenceTimezone = 1, timezone = 60\<rparr>)
     (\<lambda>s. decodeDateTime 0 s EXI_DATETIME_DATE) (blank_stream 5)
     (\<lambda>w. year w = 2016 \<and> monthDay w = 65 \<and> dt_time w = 0 \<and> timezone w = 60)"
proof -
  let ?d = "\<lparr>dt_type = EXI_DATETIME_DATE, year = 2016, monthDay = 65, dt_time = 9,
       presenceFractionalSecs = 0, fractionalSecs = 0, presenceTimezone = 1, timezone = 60\<rparr>"
  have "datetime_fits ?d" by (simp add: datetime_fits_def year_ok_def take_bit_eq_mod)
  moreover have "room (blank_stream 5) (datetime_bits ?d)"
    by (simp add: room_def datetime_bits_def year_bits_def timezone_bits_def integer_bits_def octets_small)
  ultimately show ?thesis using datetime_roundtrip [of ?d "blank_stream 5" 0]
    by (auto simp: datetime_norm_def comes_back_def)
qed

end
