(* ===== verification/Handshake.thy ===== *)
theory Handshake
  imports AppHandEncoder AppHandDecoder DocumentCodec ValueCodecs
begin

section \<open>The application handshake (test/main_example.c)\<close>

text \<open>
  The round trip of documents through a stream, and the protocol of \<open>appHandshakeHandler\<close> in
  \<open>src/test/main_example.c\<close>: the charging station reads the offer of the vehicle behind a transport
  header and answers with the schema of its first protocol. What it prints is left out, except
  that the loop reads the array up to \<open>arrayLen\<close>.

  \<open>exiDoc\<close> is the content of its uninitialised local struct: the code uses it when the transport
  header was refused. \<open>appHandResp\<close> likewise, but the code sets the fields it uses.
\<close>

definition appHandshakeHandler ::
  "u32 \<Rightarrow> dec_static \<Rightarrow> appHandEXIDocument \<Rightarrow> appHandEXIDocument \<Rightarrow> bitstream \<Rightarrow> bitstream \<Rightarrow>
    (int \<times> dec_static \<times> bitstream \<times> bitstream) option" where
  "appHandshakeHandler j st exiDoc appHandResp iStream oStream = do {
     (errn, payloadLengthDec) \<leftarrow> read_v2gtpHeader (stream_data iStream) j;
     (errn, failed, st, exiDoc, iStream) \<leftarrow>
       (if errn = 0 then do {
          (errn, (st, exiDoc), iStream) \<leftarrow>
            decode_appHandExiDocument j st (iStream\<lparr>stream_pos := V2GTP_HEADER_LENGTH\<rparr>) exiDoc;
          Some (errn_code errn, errn \<noteq> EXI_OK, st, exiDoc, iStream)
        }
        else Some (errn, False, st, exiDoc, iStream));
     if failed then Some (errn, st, iStream, oStream)
     else if \<not> offer_readable (supportedAppProtocolReq exiDoc) \<or> AppProtocol_array (supportedAppProtocolReq exiDoc) = []
     then None
     else
       let resp = init_appHandEXIDocument appHandResp;
           resp = resp\<lparr>supportedAppProtocolRes_isUsed := True,
             supportedAppProtocolRes := (supportedAppProtocolRes resp)\<lparr>
               ResponseCode := 0,
               res_SchemaID := SchemaID (AppProtocol_array (supportedAppProtocolReq exiDoc) ! 0),
               SchemaID_isUsed := True\<rparr>\<rparr>
       in do {
         (errn, oStream) \<leftarrow> encode_appHandExiDocument (oStream\<lparr>stream_pos := V2GTP_HEADER_LENGTH\<rparr>) resp;
         if errn = EXI_OK then do {
           (r, out) \<leftarrow> write_v2gtpHeader (stream_data oStream)
               (of_nat (stream_pos oStream - V2GTP_HEADER_LENGTH)) V2GTP_EXI_TYPE;
           Some (r, st, iStream, oStream\<lparr>stream_data := out\<rparr>)
         }
         else Some (errn_code errn, st, iStream, oStream)
       }
   }"

text \<open>The request, as \<open>appHandshake\<close> sends it: the document behind the header that announces it.\<close>

definition send_document :: "bitstream \<Rightarrow> appHandEXIDocument \<Rightarrow> (errn \<times> bitstream) option" where
  "send_document s d = do {
     (errn, s) \<leftarrow> encode_appHandExiDocument (s\<lparr>stream_pos := V2GTP_HEADER_LENGTH\<rparr>) d;
     if errn = EXI_OK then do {
       (_, out) \<leftarrow> write_v2gtpHeader (stream_data s) (of_nat (stream_pos s - V2GTP_HEADER_LENGTH)) V2GTP_EXI_TYPE;
       Some (errn, s\<lparr>stream_data := out\<rparr>)
     }
     else Some (errn, s)
   }"

subsection \<open>The whole exchange\<close>

text \<open>
  \<open>appHandshake\<close>: the vehicle offers its two protocols, the station answers, the vehicle reads the
  answer. The parameters are what the code leaves uninitialised: the two streams with the global
  buffers, and the structs.
\<close>

definition BUFFER_SIZE :: nat where
  "BUFFER_SIZE = 256"

text \<open>\<open>string\<close> is the characters before the terminating zero; they are copied without it.\<close>

fun write_string_from :: "nat \<Rightarrow> u8 list \<Rightarrow> u8 list \<Rightarrow> (nat \<times> u8 list) option" where
  "write_string_from pos [] exiString = Some (pos, exiString)"
| "write_string_from pos (c # string) exiString =
     (if pos < length exiString then write_string_from (pos + 1) string (exiString[pos := c]) else None)"

definition writeStringToEXIString :: "u8 list \<Rightarrow> u8 list \<Rightarrow> (nat \<times> u8 list) option" where
  "writeStringToEXIString string exiString = write_string_from 0 string exiString"

definition ns0 :: "u8 list" where
  "ns0 = map of_char ''urn:iso:15118:2:2010:MsgDef''"

definition ns1 :: "u8 list" where
  "ns1 = map of_char ''urn:din:70121:2012:MsgDef''"

definition set_offered :: "u8 list \<Rightarrow> u8 \<Rightarrow> u8 \<Rightarrow> appHandAppProtocolType \<Rightarrow> appHandAppProtocolType option" where
  "set_offered ns schemaID prio a = do {
     (len, chars) \<leftarrow> writeStringToEXIString ns (ProtocolNamespace_characters a);
     Some (a\<lparr>ProtocolNamespace_characters := chars, ProtocolNamespace_charactersLen := of_nat len,
             SchemaID := schemaID, VersionNumberMajor := 1, VersionNumberMinor := 0, Priority := prio\<rparr>)
   }"

definition appHandshake ::
  "u32 \<Rightarrow> dec_static \<Rightarrow> bitstream \<Rightarrow> bitstream \<Rightarrow> appHandEXIDocument \<Rightarrow> appHandEXIDocument \<Rightarrow>
    appHandEXIDocument \<Rightarrow> appHandEXIDocument \<Rightarrow> (int \<times> appHandEXIDocument) option" where
  "appHandshake j st stream1 stream2 handshake handshakeResp exiDoc appHandResp =
     (let stream1 = stream1\<lparr>stream_size := BUFFER_SIZE, stream_pos := V2GTP_HEADER_LENGTH\<rparr>;
          stream2 = stream2\<lparr>stream_size := BUFFER_SIZE, stream_pos := 0\<rparr>;
          handshake = init_appHandEXIDocument handshake;
          req = supportedAppProtocolReq handshake;
          array = AppProtocol_array req
      in if length array < 2 then None
      else do {
        a0 \<leftarrow> set_offered ns0 1 1 (array ! 0);
        a1 \<leftarrow> set_offered ns1 2 2 (array ! 1);
        (errn, stream1) \<leftarrow> send_document stream1
          (handshake\<lparr>supportedAppProtocolReq_isUsed := True,
             supportedAppProtocolReq := req\<lparr>AppProtocol_arrayLen := 2, AppProtocol_array := array[0 := a0, 1 := a1]\<rparr>\<rparr>);
        if errn \<noteq> EXI_OK then Some (errn_code errn, handshakeResp)
        else do {
          (errn, st, stream1, stream2) \<leftarrow> appHandshakeHandler j st exiDoc appHandResp stream1 stream2;
          if errn \<noteq> 0 then Some (errn, handshakeResp)
          else do {
            (errn, payloadLengthDec) \<leftarrow> read_v2gtpHeader (stream_data stream2) j;
            if errn = 0 then do {
              (_, (st, handshakeResp), stream2) \<leftarrow>
                decode_appHandExiDocument j st (stream2\<lparr>stream_pos := V2GTP_HEADER_LENGTH\<rparr>) handshakeResp;
              Some (0, handshakeResp)
            }
            else Some (errn, handshakeResp)
          }
        }
      })"

subsection \<open>Documents through a stream\<close>

lemma appHand_document:
  assumes "doc_encodable d" "message_decodable (the (message_of d))"
  shows "\<exists>W bs. (\<forall>s. encode_appHandExiDocument s d = session W s) \<and> wr.emits W bs \<and>
    length bs \<le> length (message_bits (the (message_of d))) \<and>
    (\<forall>j st t r d0. startable t \<longrightarrow> unread (reset_in t) = bs @ r \<longrightarrow> wf_req (supportedAppProtocolReq d0) \<longrightarrow>
       (\<exists>st' d' t'. decode_appHandExiDocument j st t d0 = Some (EXI_OK, (st', d'), t') \<and>
         (message_of d' = message_of d \<and>
          (supportedAppProtocolReq_isUsed d' \<longrightarrow> offer_readable (supportedAppProtocolReq d'))) \<and>
         stream_data t' = stream_data t))"
proof -
  obtain m where m: "message_of d = Some m" using message_of_encodable [OF assms(1)] by blast
  obtain W where W: "wr.writes W (message_bits m)" "\<And>s. encode_appHandExiDocument s d = session W s"
    using encode_doc_form [OF assms(1) m] by blast
  have "\<exists>st' d' t'. decode_appHandExiDocument j st t d0 = Some (EXI_OK, (st', d'), t') \<and> message_of d' = message_of d \<and>
      (supportedAppProtocolReq_isUsed d' \<longrightarrow> offer_readable (supportedAppProtocolReq d')) \<and> stream_data t' = stream_data t"
    if "startable t" "unread (reset_in t) = message_bits m @ r" "wf_req (supportedAppProtocolReq d0)" for j st t r d0
    using decode_document [OF that, of j st] m assms(2) by auto
  with W(2) wr.writes_imp_emits [OF W(1)] m show ?thesis
    by (intro exI [of _ W] exI [of _ "message_bits m"]) simp
qed

interpretation appHand: document_codec encode_appHandExiDocument decode_appHandExiDocument
  "\<lambda>d. doc_encodable d \<and> message_decodable (the (message_of d))" "\<lambda>d. length (message_bits (the (message_of d)))"
  "\<lambda>d0. wf_req (supportedAppProtocolReq d0)"
  "\<lambda>d d'. message_of d' = message_of d \<and> (supportedAppProtocolReq_isUsed d' \<longrightarrow> offer_readable (supportedAppProtocolReq d'))"
  by unfold_locales (elim conjE, rule appHand_document)

lemma handshake_encode_decode:
  assumes s: "startable s" and d: "doc_encodable d" "message_of d = Some m" "message_decodable m"
    and fit: "8 * stream_pos s + length (message_bits m) \<le> 8 * stream_size s"
  shows "\<exists>s'. encode_appHandExiDocument s d = Some (EXI_OK, s') \<and> startable s' \<and> stream_size s' = stream_size s \<and>
    stream_pos s \<le> stream_pos s' \<and>
    (\<forall>t j st d0. startable t \<longrightarrow> stream_size t = stream_size s \<longrightarrow> stream_pos t = stream_pos s \<longrightarrow>
       drop (stream_pos s) (stream_data t) = drop (stream_pos s) (stream_data s') \<longrightarrow>
       wf_req (supportedAppProtocolReq d0) \<longrightarrow>
       (\<exists>st' d' t'. decode_appHandExiDocument j st t d0 = Some (EXI_OK, (st', d'), t') \<and> message_of d' = Some m \<and>
         (supportedAppProtocolReq_isUsed d' \<longrightarrow> offer_readable (supportedAppProtocolReq d'))))"
  using appHand.encode_decode [of d s] d s fit by fastforce

subsection \<open>The exchange\<close>

text \<open>A document behind its transport header, and what its receiver makes of it.\<close>

definition carries :: "bitstream \<Rightarrow> message \<Rightarrow> bool" where
  "carries t m \<longleftrightarrow> 8 \<le> stream_size t \<and> stream_size t \<le> length (stream_data t) \<and>
     (\<forall>n. \<exists>len. read_v2gtpHeader (stream_data t) n = Some (0, len)) \<and>
     (\<forall>j st d0. wf_req (supportedAppProtocolReq d0) \<longrightarrow>
       (\<exists>st' d' t'. decode_appHandExiDocument j st (t\<lparr>stream_pos := 8\<rparr>) d0 = Some (EXI_OK, (st', d'), t') \<and>
          message_of d' = Some m \<and>
          (supportedAppProtocolReq_isUsed d' \<longrightarrow> offer_readable (supportedAppProtocolReq d'))))"

lemma encode_behind_header:
  assumes s: "8 \<le> stream_size s" "stream_size s \<le> length (stream_data s)"
    and d: "doc_encodable d" "message_of d = Some m" "message_decodable m"
    and fit: "64 + length (message_bits m) \<le> 8 * stream_size s"
  shows "\<exists>s'. encode_appHandExiDocument (s\<lparr>stream_pos := 8\<rparr>) d = Some (EXI_OK, s') \<and> 8 \<le> length (stream_data s') \<and>
    (\<forall>n. carries (s'\<lparr>stream_data := header_bytes V2GTP_EXI_TYPE n @ drop 8 (stream_data s')\<rparr>) m)"
proof -
  from appHand.behind_header [of d s] d s fit
  obtain s' where s': "encode_appHandExiDocument (s\<lparr>stream_pos := 8\<rparr>) d = Some (EXI_OK, s')" "8 \<le> length (stream_data s')"
    "stream_size s' = stream_size s" "stream_size s \<le> length (stream_data s')"
    and dec: "\<And>n j st d0. wf_req (supportedAppProtocolReq d0) \<Longrightarrow> \<exists>st' d' t'. decode_appHandExiDocument j st
        (s'\<lparr>stream_data := header_bytes V2GTP_EXI_TYPE n @ drop 8 (stream_data s'), stream_pos := 8\<rparr>) d0 =
          Some (EXI_OK, (st', d'), t') \<and> message_of d' = Some m \<and>
        (supportedAppProtocolReq_isUsed d' \<longrightarrow> offer_readable (supportedAppProtocolReq d')) \<and>
        stream_data t' = header_bytes V2GTP_EXI_TYPE n @ drop 8 (stream_data s')" by auto
  have "length (header_bytes V2GTP_EXI_TYPE n) = 8" for n by (simp add: header_bytes_def)
  then have "carries (s'\<lparr>stream_data := header_bytes V2GTP_EXI_TYPE n @ drop 8 (stream_data s')\<rparr>) m" for n
    using s s'(2-4) dec by (auto simp: carries_def read_header_bytes) fast
  with s'(1,2) show ?thesis by blast
qed

lemma send_document_carries:
  assumes "8 \<le> stream_size s" "stream_size s \<le> length (stream_data s)"
    and "doc_encodable d" "message_of d = Some m" "message_decodable m"
    and "64 + length (message_bits m) \<le> 8 * stream_size s"
  shows "\<exists>t. send_document s d = Some (EXI_OK, t) \<and> carries t m"
proof -
  obtain s' where "encode_appHandExiDocument (s\<lparr>stream_pos := 8\<rparr>) d = Some (EXI_OK, s')" "8 \<le> length (stream_data s')"
    and c: "\<And>n. carries (s'\<lparr>stream_data := header_bytes V2GTP_EXI_TYPE n @ drop 8 (stream_data s')\<rparr>) m"
    using encode_behind_header [OF assms] by blast
  then show ?thesis by (simp add: send_document_def write_header_bytes)
qed

text \<open>The second half of the handler: the answer it sends for a readable request.\<close>

lemma answer_carries:
  fixes appHandResp :: appHandEXIDocument
  assumes o: "12 \<le> stream_size oStream" "stream_size oStream \<le> length (stream_data oStream)"
  defines "resp i \<equiv> (init_appHandEXIDocument appHandResp)\<lparr>supportedAppProtocolRes_isUsed := True,
    supportedAppProtocolRes := (supportedAppProtocolRes (init_appHandEXIDocument appHandResp))\<lparr>ResponseCode := 0,
      res_SchemaID := i, SchemaID_isUsed := True\<rparr>\<rparr>"
  shows "\<exists>o'. encode_appHandExiDocument (oStream\<lparr>stream_pos := 8\<rparr>) (resp i) = Some (EXI_OK, o') \<and>
    8 \<le> length (stream_data o') \<and>
    (\<forall>n. carries (o'\<lparr>stream_data := header_bytes V2GTP_EXI_TYPE n @ drop 8 (stream_data o')\<rparr>) (Answer 0 (Some i)))"
proof (rule encode_behind_header)
  show "8 \<le> stream_size oStream" using o(1) by simp
  show "doc_encodable (resp i)" "message_of (resp i) = Some (Answer 0 (Some i))"
    by (simp_all add: resp_def doc_encodable_def message_of_def init_appHandEXIDocument_def)
  show "64 + length (message_bits (Answer 0 (Some i))) \<le> 8 * stream_size oStream"
    using o by (simp add: answer_bits_def simple_bits_def)
qed (use o in simp_all)

lemma handler_carries:
  assumes i: "carries iStream (Offer ps)" "ps \<noteq> []"
    and o: "12 \<le> stream_size oStream" "stream_size oStream \<le> length (stream_data oStream)"
    and d: "wf_req (supportedAppProtocolReq exiDoc)"
  shows "\<exists>st' i' o'. appHandshakeHandler j st exiDoc appHandResp iStream oStream = Some (0, st', i', o') \<and>
    carries o' (Answer 0 (Some (schema (hd ps))))"
proof -
  obtain len where hdr: "read_v2gtpHeader (stream_data iStream) j = Some (0, len)"
    using i(1) unfolding carries_def by blast
  obtain st' d' i' where dec: "decode_appHandExiDocument j st (iStream\<lparr>stream_pos := 8\<rparr>) exiDoc = Some (EXI_OK, (st', d'), i')"
    "message_of d' = Some (Offer ps)" "supportedAppProtocolReq_isUsed d' \<longrightarrow> offer_readable (supportedAppProtocolReq d')"
    using i(1) d unfolding carries_def by blast
  have used: "supportedAppProtocolReq_isUsed d'" and ps: "offer_of (supportedAppProtocolReq d') = ps"
    using dec(2) by (auto simp: message_of_def split: if_splits)
  let ?req = "supportedAppProtocolReq d'"
  have r: "offer_readable ?req" "AppProtocol_array ?req \<noteq> []" using dec(3) used ps i(2) by (auto simp: offer_of_def)
  have "hd ps = protocol_of (AppProtocol_array ?req ! 0)"
    using ps i(2) by (cases "AppProtocol_array ?req"; cases "unat (AppProtocol_arrayLen ?req)") (auto simp: offer_of_def)
  then have sid: "SchemaID (AppProtocol_array ?req ! 0) = schema (hd ps)" by (simp add: protocol_of_def)
  from answer_carries [OF o, of "schema (hd ps)" appHandResp] hdr dec(1) r show ?thesis
    by (auto simp: appHandshakeHandler_def sid write_header_bytes errn_code_0 Let_def)
qed

lemma write_string_from_ok:
  "pos + length cs \<le> length xs \<Longrightarrow>
   write_string_from pos cs xs = Some (pos + length cs, take pos xs @ cs @ drop (pos + length cs) xs)"
proof (induction cs arbitrary: pos xs)
  case (Cons c cs)
  then have p: "pos < length xs" by simp
  have "take (Suc pos) (xs[pos := c]) = take pos xs @ [c]" using p by (rule take_Suc_update)
  moreover have "drop (Suc pos + length cs) (xs[pos := c]) = drop (Suc pos + length cs) xs" by simp
  ultimately show ?case using Cons.prems p Cons.IH [of "Suc pos" "xs[pos := c]"] by simp
qed simp

lemma set_offered_ok:
  assumes "length ns < 100" "100 \<le> length (ProtocolNamespace_characters a)"
  shows "\<exists>b. set_offered ns i p a = Some b \<and> protocol_encodable b \<and>
    protocol_of b = \<lparr>namespace = ns, major = 1, minor = 0, schema = i, priority = p\<rparr>"
proof -
  have u: "unat (of_nat (length ns) :: u16) = length ns"
    using assms(1) by (simp only: unat_of_nat) simp
  show ?thesis using assms u
    by (simp add: set_offered_def writeStringToEXIString_def write_string_from_ok protocol_encodable_def protocol_of_def)
qed

definition offered :: "protocol list" where
  "offered = [\<lparr>namespace = ns0, major = 1, minor = 0, schema = 1, priority = 1\<rparr>,
              \<lparr>namespace = ns1, major = 1, minor = 0, schema = 2, priority = 2\<rparr>]"

lemma length_ns [simp]: "length ns0 = 27" "length ns1 = 25"
  by (simp_all add: ns0_def ns1_def)

lemma ascii_ns: "\<forall>c\<in>set ns0 \<union> set ns1. c < 128"
  by (simp add: ns0_def ns1_def of_char_def)

lemma offered_decodable: "message_decodable (Offer offered)"
  using ascii_ns by (auto simp: offered_def protocol_decodable_def)

lemma length_offered: "length (message_bits (Offer offered)) \<le> 600"
  by (simp add: offered_def protocol_bits_def simple_bits_def octets_small)

subsection \<open>Properties\<close>

text \<open>C1: the example exchange as a whole returns 0, and the vehicle ends with the station's answer:
  success, with the schema number 1 of the vehicle's first protocol. This holds for any content of
  the two buffers of 256 bytes, of the uninitialised structs and of the static variables.\<close>

theorem appHandshake_succeeds:
  assumes "length (stream_data stream1) = 256" "length (stream_data stream2) = 256"
    and "wf_req (supportedAppProtocolReq handshake)" "wf_req (supportedAppProtocolReq handshakeResp)"
    and "wf_req (supportedAppProtocolReq exiDoc)"
  shows "\<exists>resp. appHandshake j st stream1 stream2 handshake handshakeResp exiDoc appHandResp = Some (0, resp) \<and>
    message_of resp = Some (Answer 0 (Some 1))"
proof -
  let ?hs = "init_appHandEXIDocument handshake"
  let ?req = "supportedAppProtocolReq handshake"
  have req: "supportedAppProtocolReq ?hs = ?req" by (simp add: init_appHandEXIDocument_def)
  obtain a b cs where arr: "AppProtocol_array ?req = a # b # cs"
    using assms(3) by (auto simp: wf_req_def Suc_le_length_iff numeral_eq_Suc)
  then have "100 \<le> length (ProtocolNamespace_characters a)" "100 \<le> length (ProtocolNamespace_characters b)"
    using assms(3) by (auto simp: wf_req_def)
  then obtain a0 a1 where a0: "set_offered ns0 1 1 a = Some a0" "protocol_encodable a0"
      "protocol_of a0 = \<lparr>namespace = ns0, major = 1, minor = 0, schema = 1, priority = 1\<rparr>"
    and a1: "set_offered ns1 2 2 b = Some a1" "protocol_encodable a1"
      "protocol_of a1 = \<lparr>namespace = ns1, major = 1, minor = 0, schema = 2, priority = 2\<rparr>"
    using set_offered_ok [of ns0 a 1 1] set_offered_ok [of ns1 b 2 2] by auto
  define d where "d = ?hs\<lparr>supportedAppProtocolReq_isUsed := True,
    supportedAppProtocolReq := ?req\<lparr>AppProtocol_arrayLen := 2, AppProtocol_array := a0 # a1 # cs\<rparr>\<rparr>"
  have d: "doc_encodable d" "message_of d = Some (Offer offered)"
    using a0 a1 by (simp_all add: d_def doc_encodable_def offer_encodable_def message_of_def offer_of_def offered_def)
  let ?s1 = "stream1\<lparr>stream_size := 256, stream_pos := 8\<rparr>" and ?s2 = "stream2\<lparr>stream_size := 256, stream_pos := 0\<rparr>"
  obtain t where t: "send_document ?s1 d = Some (EXI_OK, t)" "carries t (Offer offered)"
    using send_document_carries [of ?s1 d, OF _ _ d offered_decodable] length_offered assms(1) by auto
  obtain st' i' o' where o': "appHandshakeHandler j st exiDoc appHandResp t ?s2 = Some (0, st', i', o')"
    "carries o' (Answer 0 (Some (schema (hd offered))))"
    using handler_carries [OF t(2), of ?s2 exiDoc j st appHandResp] assms(2,5) by (auto simp: offered_def)
  have o1: "carries o' (Answer 0 (Some 1))" using o'(2) by (simp add: offered_def)
  then obtain len st'' d' t' where "read_v2gtpHeader (stream_data o') j = Some (0, len)"
    "decode_appHandExiDocument j st' (o'\<lparr>stream_pos := 8\<rparr>) handshakeResp = Some (EXI_OK, (st'', d'), t')"
    "message_of d' = Some (Answer 0 (Some 1))"
    using assms(4) unfolding carries_def by blast
  with t(1) o'(1) a0(1) a1(1) show ?thesis
    by (simp add: appHandshake_def BUFFER_SIZE_def Let_def req arr d_def)
qed

text \<open>A struct whose arrays have their declared sizes.\<close>

definition zero_document :: "appHandEXIDocument" where
  "zero_document = \<lparr>
     supportedAppProtocolReq = \<lparr>AppProtocol_array = replicate 5
       \<lparr>ProtocolNamespace_characters = replicate 100 0, ProtocolNamespace_charactersLen = 0, VersionNumberMajor = 0,
        VersionNumberMinor = 0, SchemaID = 0, Priority = 0\<rparr>, AppProtocol_arrayLen = 0\<rparr>,
     supportedAppProtocolRes = \<lparr>ResponseCode = 0, res_SchemaID = 0, SchemaID_isUsed = False\<rparr>,
     supportedAppProtocolReq_isUsed = False, supportedAppProtocolRes_isUsed = False\<rparr>"

lemma wf_zero_document [simp]: "wf_req (supportedAppProtocolReq zero_document)"
  by (simp add: zero_document_def wf_req_def)

theorem appHandshake_succeeds_witness:
  "\<exists>resp. appHandshake 0 \<lparr>eventCode = 9, uint32 = 9\<rparr> (blank_stream 256) (blank_stream 256)
     zero_document zero_document zero_document zero_document = Some (0, resp) \<and>
     message_of resp = Some (Answer 0 (Some 1))"
  by (rule appHandshake_succeeds) simp_all

text \<open>C2: every offer that fits into the vehicle's buffer and that the decoder can read is answered: the
  station reads it behind the transport header, and what it sends is read by the vehicle as success with
  the schema number of the first protocol of the offer. The decoder can read (\<open>message_decodable\<close>) one to
  five protocols whose namespaces are ASCII and shorter than 100 characters, with versions below \<open>2 ^ 31\<close>
  and priorities from 1 to 32; the encoder also writes a namespace of 100 characters and greater
  versions, which no decoder reads.\<close>

theorem handshake_exchange:
  assumes "8 \<le> stream_size s" "stream_size s \<le> length (stream_data s)"
    and "doc_encodable d" "message_of d = Some (Offer ps)" "message_decodable (Offer ps)"
    and "64 + length (message_bits (Offer ps)) \<le> 8 * stream_size s"
    and "12 \<le> stream_size o1" "stream_size o1 \<le> length (stream_data o1)"
    and "wf_req (supportedAppProtocolReq exiDoc)" "wf_req (supportedAppProtocolReq d0)"
  shows "\<exists>t st1 i2 o2 st2 d2 t2. send_document s d = Some (EXI_OK, t) \<and>
    appHandshakeHandler j st exiDoc appHandResp t o1 = Some (0, st1, i2, o2) \<and>
    decode_appHandExiDocument j' st' (o2\<lparr>stream_pos := 8\<rparr>) d0 = Some (EXI_OK, (st2, d2), t2) \<and>
    message_of d2 = Some (Answer 0 (Some (schema (hd ps))))"
proof -
  obtain t where t: "send_document s d = Some (EXI_OK, t)" "carries t (Offer ps)"
    using send_document_carries [OF assms(1-6)] by blast
  have "ps \<noteq> []" using assms(5) by auto
  from handler_carries [OF t(2) this assms(7-9)] obtain st1 i2 o2
    where o2: "appHandshakeHandler j st exiDoc appHandResp t o1 = Some (0, st1, i2, o2)"
      "carries o2 (Answer 0 (Some (schema (hd ps))))" by blast
  then obtain st2 d2 t2 where "decode_appHandExiDocument j' st' (o2\<lparr>stream_pos := 8\<rparr>) d0 = Some (EXI_OK, (st2, d2), t2)"
    "message_of d2 = Some (Answer 0 (Some (schema (hd ps))))" using assms(10) unfolding carries_def by blast
  with t(1) o2(1) show ?thesis by blast
qed

text \<open>One protocol with the namespace \<open>di\<close>, and its document.\<close>

definition one_protocol :: "protocol" where
  "one_protocol = \<lparr>namespace = [100, 105], major = 2, minor = 0, schema = 7, priority = 1\<rparr>"

definition one_offer :: "appHandEXIDocument" where
  "one_offer = zero_document\<lparr>supportedAppProtocolReq_isUsed := True,
     supportedAppProtocolReq := \<lparr>AppProtocol_array =
       [\<lparr>ProtocolNamespace_characters = [100, 105], ProtocolNamespace_charactersLen = 2, VersionNumberMajor = 2,
         VersionNumberMinor = 0, SchemaID = 7, Priority = 1\<rparr>], AppProtocol_arrayLen = 1\<rparr>\<rparr>"

lemma one_offer:
  "doc_encodable one_offer" "message_of one_offer = Some (Offer [one_protocol])" "message_decodable (Offer [one_protocol])"
  "length (message_bits (Offer [one_protocol])) = 82"
  by (simp_all add: one_offer_def one_protocol_def doc_encodable_def offer_encodable_def protocol_encodable_def
      message_of_def offer_of_def protocol_of_def protocol_decodable_def protocol_bits_def simple_bits_def octets_small)

theorem handshake_exchange_witness:
  "\<exists>t st1 i2 o2 st2 d2 t2. send_document (blank_stream 32) one_offer = Some (EXI_OK, t) \<and>
    appHandshakeHandler 0 \<lparr>eventCode = 9, uint32 = 9\<rparr> zero_document zero_document t (blank_stream 16) = Some (0, st1, i2, o2) \<and>
    decode_appHandExiDocument 0 st1 (o2\<lparr>stream_pos := 8\<rparr>) zero_document = Some (EXI_OK, (st2, d2), t2) \<and>
    message_of d2 = Some (Answer 0 (Some 7))"
proof -
  have *: "\<exists>t st1 i2 o2 st2 d2 t2. send_document (blank_stream 32) one_offer = Some (EXI_OK, t) \<and>
    appHandshakeHandler 0 \<lparr>eventCode = 9, uint32 = 9\<rparr> zero_document zero_document t (blank_stream 16) = Some (0, st1, i2, o2) \<and>
    decode_appHandExiDocument 0 st' (o2\<lparr>stream_pos := 8\<rparr>) zero_document = Some (EXI_OK, (st2, d2), t2) \<and>
    message_of d2 = Some (Answer 0 (Some (schema (hd [one_protocol]))))" for st'
    by (rule handshake_exchange) (use one_offer in simp_all)
  obtain t st1 i2 o2 where "send_document (blank_stream 32) one_offer = Some (EXI_OK, t)"
    "appHandshakeHandler 0 \<lparr>eventCode = 9, uint32 = 9\<rparr> zero_document zero_document t (blank_stream 16) = Some (0, st1, i2, o2)"
    using * by blast
  with * [of st1] show ?thesis by (auto simp: one_protocol_def)
qed

text \<open>C8: a document of the handshake, offer or answer, that is written to a stream with room for it and
  that the decoder can read is read back as the same message, whatever the reader's struct held before.
  \<open>message_decodable\<close> excludes what the encoder writes and the decoder refuses or cannot represent: more
  than five protocols, namespaces of 100 characters or with characters beyond ASCII, versions of
  \<open>2 ^ 31\<close> and more, and priorities other than 1 to 32.\<close>

theorem document_roundtrip:
  assumes "startable s" "doc_encodable d" "message_of d = Some m" "message_decodable m"
    and "8 * stream_pos s + length (message_bits m) \<le> 8 * stream_size s"
    and "wf_req (supportedAppProtocolReq d0)"
  shows "\<exists>s' st' d' t. encode_appHandExiDocument s d = Some (EXI_OK, s') \<and>
    decode_appHandExiDocument j st (s'\<lparr>stream_pos := stream_pos s\<rparr>) d0 = Some (EXI_OK, (st', d'), t) \<and>
    message_of d' = Some m"
proof -
  from handshake_encode_decode [OF assms(1-5)] obtain s' where s': "encode_appHandExiDocument s d = Some (EXI_OK, s')"
    "startable s'" "stream_size s' = stream_size s" "stream_pos s \<le> stream_pos s'"
    and dec: "\<And>t. startable t \<Longrightarrow> stream_size t = stream_size s \<Longrightarrow> stream_pos t = stream_pos s \<Longrightarrow>
      drop (stream_pos s) (stream_data t) = drop (stream_pos s) (stream_data s') \<Longrightarrow>
      \<exists>st' d' t'. decode_appHandExiDocument j st t d0 = Some (EXI_OK, (st', d'), t') \<and> message_of d' = Some m"
    using assms(6) by blast
  have "startable (s'\<lparr>stream_pos := stream_pos s\<rparr>)" using assms(1) s'(2,3) by (simp add: startable_def)
  with dec [of "s'\<lparr>stream_pos := stream_pos s\<rparr>"] s' show ?thesis by auto
qed

theorem document_roundtrip_witness:
  "\<exists>s' st' d' t. encode_appHandExiDocument (blank_stream 11) one_offer = Some (EXI_OK, s') \<and>
    decode_appHandExiDocument 0 \<lparr>eventCode = 9, uint32 = 9\<rparr> (s'\<lparr>stream_pos := 0\<rparr>) zero_document = Some (EXI_OK, (st', d'), t) \<and>
    message_of d' = Some (Offer [one_protocol])"
  using document_roundtrip [of "blank_stream 11" one_offer "Offer [one_protocol]" zero_document 0] one_offer by simp

text \<open>C9: encoding a document returns 0 exactly when the message fits into the rest of the stream. A
  truncated message is always reported, even where the code of an element lost an error.\<close>

theorem document_ok_iff_fits:
  assumes "startable s" "doc_encodable d" "message_of d = Some m"
  shows "\<exists>e s'. encode_appHandExiDocument s d = Some (e, s') \<and>
    (e = EXI_OK \<longleftrightarrow> 8 * stream_pos s + length (message_bits m) \<le> 8 * stream_size s)"
proof -
  obtain W where W: "wr.writes W (message_bits m)" and eq: "\<And>s. encode_appHandExiDocument s d = session W s"
    using encode_doc_form [OF assms(2,3)] by blast
  show ?thesis
    using encode_document_fits [OF wr.writes_imp_emits [OF W] assms(1)] encode_document_full [OF W assms(1)]
    unfolding eq by (cases "8 * stream_pos s + length (message_bits m) \<le> 8 * stream_size s") (force simp: not_le)+
qed

theorem document_ok_iff_fits_witness:
  "\<exists>e s'. encode_appHandExiDocument (blank_stream 10) one_offer = Some (e, s') \<and> e \<noteq> EXI_OK"
  using document_ok_iff_fits [of "blank_stream 10" one_offer "Offer [one_protocol]"] one_offer by auto

text \<open>C40: the station goes on when the transport header was refused: it answers success with the schema
  number that its uninitialised struct happens to hold.\<close>

theorem refused_header_is_answered:
  assumes "read_v2gtpHeader (stream_data iStream) j = Some (-1, n)"
    and "offer_readable (supportedAppProtocolReq exiDoc)" "AppProtocol_array (supportedAppProtocolReq exiDoc) = a # as"
    and "12 \<le> stream_size oStream" "stream_size oStream \<le> length (stream_data oStream)"
    and "wf_req (supportedAppProtocolReq d0)"
  shows "\<exists>st1 i2 o2 st2 d2 t2. appHandshakeHandler j st exiDoc appHandResp iStream oStream = Some (0, st1, i2, o2) \<and>
    decode_appHandExiDocument j st1 (o2\<lparr>stream_pos := 8\<rparr>) d0 = Some (EXI_OK, (st2, d2), t2) \<and>
    message_of d2 = Some (Answer 0 (Some (SchemaID a)))"
proof -
  obtain st1 i2 o2 where "appHandshakeHandler j st exiDoc appHandResp iStream oStream = Some (0, st1, i2, o2)"
    "carries o2 (Answer 0 (Some (SchemaID a)))"
    using answer_carries [OF assms(4,5), of "SchemaID a" appHandResp] assms(1-3)
    by (auto simp: appHandshakeHandler_def write_header_bytes Let_def)
  with assms(6) show ?thesis unfolding carries_def by blast
qed

theorem refused_header_is_answered_witness:
  "\<exists>st1 i2 o2 st2 d2 t2. appHandshakeHandler 0 \<lparr>eventCode = 9, uint32 = 9\<rparr> one_offer zero_document
       (blank_stream 8) (blank_stream 12) = Some (0, st1, i2, o2) \<and>
    decode_appHandExiDocument 0 st1 (o2\<lparr>stream_pos := 8\<rparr>) zero_document = Some (EXI_OK, (st2, d2), t2) \<and>
    message_of d2 = Some (Answer 0 (Some 7))"
proof -
  let ?a = "\<lparr>ProtocolNamespace_characters = [100, 105], ProtocolNamespace_charactersLen = 2, VersionNumberMajor = 2,
         VersionNumberMinor = 0, SchemaID = 7, Priority = 1\<rparr>"
  have "read_v2gtpHeader (stream_data (blank_stream 8)) 0 = Some (- 1, 0)"
    by (simp add: read_v2gtpHeader_def fetch_def)
  moreover have "offer_readable (supportedAppProtocolReq one_offer)" "AppProtocol_array (supportedAppProtocolReq one_offer) = [?a]"
    by (simp_all add: one_offer_def offer_readable_def)
  ultimately show ?thesis
    using refused_header_is_answered [of "blank_stream 8" 0 0 one_offer ?a "[]" "blank_stream 12" zero_document] by simp
qed

end
