(* ===== verification/Rounds.thy ===== *)
theory Rounds
  imports Grammar
begin

section \<open>The loops of the generated codecs end\<close>

text \<open>
  \<open>grammar_loop\<close> is \<open>None\<close> both for a step without defined behaviour and for a loop that does not end.
  \<open>rounds n\<close> is the loop cut off after \<open>n\<close> rounds, which keeps the two apart. A machine whose grammar
  numbers advance, measured by \<open>left\<close>, ends within \<open>left\<close> rounds, whatever the stream holds and
  whatever errors occur: then the loop is the cut-off loop, and \<open>None\<close> only means undefined behaviour.
\<close>

datatype 'a outcome = Running | Undefined | Done 'a

fun rounds ::
  "nat \<Rightarrow> (nat \<Rightarrow> 'x \<Rightarrow> bitstream \<Rightarrow> (errn \<times> (bool \<times> nat \<times> 'x) \<times> bitstream) option) \<Rightarrow>
   nat \<Rightarrow> 'x \<Rightarrow> bitstream \<Rightarrow> (errn \<times> 'x \<times> bitstream) outcome" where
  "rounds 0 step g x s = Running"
| "rounds (Suc n) step g x s =
     (case step g x s of
        None \<Rightarrow> Undefined
      | Some (errn, (done, g', x'), s') \<Rightarrow>
          if done \<or> errn \<noteq> EXI_OK then Done (errn, x', s') else rounds n step g' x' s')"

fun defined :: "'a outcome \<Rightarrow> 'a option" where
  "defined (Done r) = Some r"
| "defined _ = None"

lemma grammar_loop_rounds:
  "rounds n step g x s \<noteq> Running \<Longrightarrow> grammar_loop step g x s = defined (rounds n step g x s)"
proof (induction n arbitrary: g x s)
  case (Suc n)
  then show ?case
    by (subst grammar_loop.simps) (auto split: option.splits if_splits)
qed simp

text \<open>\<open>ends_within n\<close>: no more than \<open>n\<close> rounds, and the loop is what they compute.\<close>

definition ends_within ::
  "nat \<Rightarrow> (nat \<Rightarrow> 'x \<Rightarrow> bitstream \<Rightarrow> (errn \<times> (bool \<times> nat \<times> 'x) \<times> bitstream) option) \<Rightarrow> nat \<Rightarrow> bool" where
  "ends_within n step g \<longleftrightarrow>
     (\<forall>x s. rounds n step g x s \<noteq> Running \<and> grammar_loop step g x s = defined (rounds n step g x s))"

locale advancing_data =
  fixes step :: "nat \<Rightarrow> 'x \<Rightarrow> bitstream \<Rightarrow> (errn \<times> (bool \<times> nat \<times> 'x) \<times> bitstream) option"
    and left :: "nat \<Rightarrow> 'x \<Rightarrow> nat"
  assumes data_advances: "step g x s = Some (EXI_OK, (False, g', x'), s') \<Longrightarrow> left g' x' < left g x"
begin

lemma not_running: "left g x < n \<Longrightarrow> rounds n step g x s \<noteq> Running"
proof (induction n arbitrary: g x s)
  case (Suc n)
  show ?case
  proof (cases "step g x s")
    case (Some r)
    obtain e d g' x' s' where r: "r = (e, (d, g', x'), s')" by (cases r) auto
    show ?thesis
    proof (cases "d \<or> e \<noteq> EXI_OK")
      case False
      with Some r have "left g' x' < left g x" by (intro data_advances [of g x s g' x' s']) simp
      with Suc.prems have "left g' x' < n" by simp
      from Suc.IH [OF this, of s'] False show ?thesis by (simp add: Some r)
    qed (simp add: Some r)
  qed simp
qed simp

lemma data_ends: "(\<And>x. left g x < n) \<Longrightarrow> ends_within n step g"
  unfolding ends_within_def by (intro allI conjI grammar_loop_rounds not_running)

end

text \<open>Mostly the grammar number alone measures the rounds.\<close>

locale advancing_machine =
  fixes step :: "nat \<Rightarrow> 'x \<Rightarrow> bitstream \<Rightarrow> (errn \<times> (bool \<times> nat \<times> 'x) \<times> bitstream) option"
    and left :: "nat \<Rightarrow> nat"
  assumes advances: "step g x s = Some (EXI_OK, (False, g', x'), s') \<Longrightarrow> left g' < left g"

sublocale advancing_machine \<subseteq> plain: advancing_data step "\<lambda>g _. left g"
  by unfold_locales (rule advances)

context advancing_machine
begin

lemma machine_ends: "left g < n \<Longrightarrow> ends_within n step g"
  by (rule plain.data_ends)

end

text \<open>What is left at a grammar number, as a table.\<close>

definition left_at :: "(nat \<times> nat) list \<Rightarrow> nat \<Rightarrow> nat" where
  "left_at ns g = (case map_of ns g of Some n \<Rightarrow> n | None \<Rightarrow> 0)"

subsection \<open>Where a step can go\<close>

named_theorems advance_dests \<open>the grammar number behind a fragment without error\<close>

lemma goto_next [advance_dests]: "goto g x m = Some (EXI_OK, (False, g', x'), s') \<Longrightarrow> g' = g"
  by (auto simp: goto_def split: option.splits Option.bind_splits)

lemma finish_next [advance_dests]: "finish g x m = Some (EXI_OK, (False, g', x'), s') \<Longrightarrow> False"
  by (auto simp: finish_def split: Option.bind_splits)

lemma decode_simple_next [advance_dests]:
  "decode_simple g next val x s = Some (EXI_OK, (False, g', x'), s') \<Longrightarrow> g' = next"
  by (auto simp: decode_simple_def split: Option.bind_splits if_splits)

lemma decode_child_next [advance_dests]:
  "decode_child next val x s = Some (EXI_OK, (False, g', x'), s') \<Longrightarrow> g' = next"
  by (auto simp: decode_child_def split: Option.bind_splits)

lemma decode_end_next [advance_dests]: "decode_end g x s = Some (EXI_OK, (False, g', x'), s') \<Longrightarrow> False"
  by (simp add: decode_end_def)

lemma decode_switch_next:
  assumes "decode_switch n cases g x s = Some (EXI_OK, (False, g', x'), s')"
  obtains c k y t where "(c, k) \<in> set cases" "k y t = Some (EXI_OK, (False, g', x'), s')"
proof -
  obtain st t k where "map_of cases (eventCode st) = Some k" "k (st, snd x) t = Some (EXI_OK, (False, g', x'), s')"
    using assms by (auto simp: decode_switch_def split: Option.bind_splits if_splits option.splits)
  then show thesis using that map_of_SomeD by metis
qed

end
