(* ===== verification/DecoderFaults.thy ===== *)
theory DecoderFaults
  imports ValueCodecs
begin

section \<open>Where the value decoders have no defined behaviour\<close>

text \<open>
  \<open>None\<close> is the value of C code that has no defined behaviour: here a signed shift whose result is not
  an \<open>int\<close>, a shift by the width of a word or more, and a write behind the end of an array. All can be
  provoked by the bits of a stream. The theorems say by which.
\<close>

subsection \<open>Octets that keep announcing another one\<close>

fun continues :: "nat \<Rightarrow> bool list \<Rightarrow> bool" where
  "continues 0 bs \<longleftrightarrow> True"
| "continues (Suc k) bs \<longleftrightarrow> 8 \<le> length bs \<and> hd bs \<and> continues k (drop 8 bs)"

lemma decode_byte:
  assumes "wf_in s" "8 \<le> length (unread s)"
  obtains b s1 where "decode j s b0 = Some (EXI_OK, b, s1)" "wf_in s1" "unread s = bits 8 b @ unread s1"
proof -
  have "length (take 8 (unread s)) = 8" using assms(2) by simp
  from bits_from_bits [of "take 8 (unread s)", where 'a = 8] this
  have b: "bits 8 (from_bits (take 8 (unread s)) :: u8) = take 8 (unread s)" by simp
  then have "unread s = bits 8 (from_bits (take 8 (unread s)) :: u8) @ drop 8 (unread s)" by simp
  from rd.takesD [OF takes_decode [of j b0] assms(1) this] that this show thesis by fastforce
qed

lemma decode_short:
  assumes "wf_in s" "length (unread s) < 8"
  obtains e s1 where "decode j s b0 = Some (e, b0, s1)" "e \<noteq> EXI_OK"
  using readBits_eof [OF assms(1), of 8 j] assms(2) that by (auto simp: decode_def)

lemma high_bit: "drop_bit 7 b = 1 \<longleftrightarrow> hd (bits 8 (b :: u8))"
proof -
  have "hd (bits 8 b) = bit b 7" by (simp add: bits_def hd_map hd_rev)
  moreover have "drop_bit 7 b = of_bool (bit b 7)"
  proof (rule bit_word_eqI)
    fix n assume "n < LENGTH(8)"
    show "bit (drop_bit 7 b) n = bit (of_bool (bit b 7) :: u8) n"
      using bit_imp_le_length [of b "7 + n"] by (cases n) (auto simp: bit_simps)
  qed
  ultimately show ?thesis by simp
qed

text \<open>In 64 bits the shifts are unsigned: only their count can be too much.\<close>

lemma decode_octets_undefined:
  assumes "wf_in s" "w \<le> m + 7 * k" "0 < k \<Longrightarrow> m + 7 * (k - 1) < w" "\<And>m b acc. accu m b acc \<noteq> None"
  shows "decode_octets j w accu s b m acc = None \<longleftrightarrow> continues k (unread s)"
  using assms(1-3)
proof (induction k arbitrary: s b m acc)
  case 0
  have "w \<le> m" using 0 by simp
  moreover obtain r where "decode j s b = Some r"
    using decode_byte [OF 0(1), of j b] decode_short [OF 0(1), of j b] by (metis not_le)
  ultimately show ?case by (cases r) (simp add: decode_octets.simps)
next
  case (Suc k)
  have m: "\<not> w \<le> m" using Suc.prems(3) by simp
  show ?case
  proof (cases "8 \<le> length (unread s)")
    case True
    from decode_byte [OF Suc.prems(1) this, of j b]
    obtain c s1 where c: "decode j s b = Some (EXI_OK, c, s1)" "wf_in s1" "unread s = bits 8 c @ unread s1" by blast
    have u: "drop 8 (unread s) = unread s1" "hd (unread s) = hd (bits 8 c)" using c(3) by (simp_all add: hd_append bits_def)
    obtain acc' where a: "accu m c acc = Some acc'" using assms(4) [of m c acc] by auto
    have "decode_octets j w accu s1 c (m + 7) acc' = None \<longleftrightarrow> continues k (unread s1)"
      using Suc.prems(2,3) by (intro Suc.IH c(2)) auto
    with True m u c(1) a show ?thesis by (subst decode_octets.simps) (simp add: high_bit)
  next
    case False
    then have "length (unread s) < 8" by simp
    from decode_short [OF Suc.prems(1) this, of j b] obtain e s1
      where "decode j s b = Some (e, b, s1)" "e \<noteq> EXI_OK" by blast
    moreover obtain acc' where "accu m b acc = Some acc'" using assms(4) [of m b acc] by auto
    ultimately show ?thesis using False m by (subst decode_octets.simps) simp
  qed
qed

text \<open>
  In 16 and 32 bits the fifth octet is shifted by 28 in a signed \<open>int\<close>, so it must be less than 8. Where the
  stream ends before it, the variable still holds the fourth octet, which is shifted again. \<open>overflows_at k b\<close>:
  behind \<open>k\<close> more octets, where \<open>b\<close> is the last one read.
\<close>

fun overflows_at :: "nat \<Rightarrow> u8 \<Rightarrow> bool list \<Rightarrow> bool" where
  "overflows_at 0 b bs \<longleftrightarrow> (if 8 \<le> length bs then 8 \<le> (from_bits (take 8 bs) :: u8) else 8 \<le> b AND 127)"
| "overflows_at (Suc k) b bs \<longleftrightarrow> 8 \<le> length bs \<and> hd bs \<and> overflows_at k (from_bits (take 8 bs)) (drop 8 bs)"

text \<open>The same of the bits alone: the octet 8 is the least that sets one of its upper five bits.\<close>

definition overflows :: "bool list \<Rightarrow> bool" where
  "overflows bs \<longleftrightarrow> continues 4 bs \<and>
     (if 40 \<le> length bs then True \<in> set (take 5 (drop 32 bs)) else True \<in> set (take 4 (drop 25 bs)))"

lemma shift_28: "2 ^ 31 \<le> unat (c :: u8) * 2 ^ 28 \<longleftrightarrow> 8 \<le> c"
  by (simp add: word_le_nat_alt)

lemma octet_8: "8 \<le> (b :: u8) \<longleftrightarrow> \<not> b AND 127 < 8 \<or> drop_bit 7 b = 1"
proof -
  have b: "b AND 127 = take_bit 7 b" by (simp add: take_bit_eq_mask mask_eq_exp_minus_1)
  have d: "unat (drop_bit 7 b) = unat b div 128" "unat (take_bit 7 b) = unat b mod 128"
    by (simp_all add: drop_bit_eq_div take_bit_eq_mod unat_div unat_mod)
  have "unat b < 256" using unsigned_less [of b, where 'a = nat] by simp
  then have "unat b div 128 < 2" by simp
  then have "8 \<le> unat b \<longleftrightarrow> \<not> unat b mod 128 < 8 \<or> unat b div 128 = 1"
    using div_mult_mod_eq [of "unat b" 128] by (cases "unat b div 128"; cases "unat b div 128 - 1") auto
  then show ?thesis by (simp add: b word_le_nat_alt word_less_nat_alt word_unat_eq_iff d)
qed

lemma decode_octets_short:
  assumes "wf_in s" "length (unread s) < 8"
  shows "decode_octets j w accu s b m acc = None \<longleftrightarrow> w \<le> m \<or> accu m b acc = None"
proof -
  from decode_short [OF assms, of j b] obtain e s1 where "decode j s b = Some (e, b, s1)" "e \<noteq> EXI_OK" by blast
  then show ?thesis by (subst decode_octets.simps) (cases "accu m b acc"; simp)
qed

lemma decode_octets_read:
  assumes "wf_in s" "8 \<le> length (unread s)"
  obtains s1 where "wf_in s1" "unread s1 = drop 8 (unread s)"
    "decode_octets j w accu s b m acc = None \<longleftrightarrow> w \<le> m \<or>
       (case accu m (from_bits (take 8 (unread s))) acc of None \<Rightarrow> True
        | Some a \<Rightarrow> hd (unread s) \<and> decode_octets j w accu s1 (from_bits (take 8 (unread s))) (m + 7) a = None)"
proof -
  from decode_byte [OF assms, of j b]
  obtain c s1 where c: "decode j s b = Some (EXI_OK, c, s1)" "wf_in s1" "unread s = bits 8 c @ unread s1" by blast
  have "from_bits (bits 8 c) = c" by (rule bit_word_eqI) (simp add: from_bits_bits bit_simps)
  then have f: "from_bits (take 8 (unread s)) = c" "hd (unread s) = hd (bits 8 c)" "unread s1 = drop 8 (unread s)"
    using c(3) by (simp_all add: hd_append bits_def)
  show thesis
    by (rule that [OF c(2) f(3)], subst decode_octets.simps)
      (simp add: c(1) f(1,2) high_bit split: option.split)
qed

lemma decode_octets_overflows:
  assumes accu: "\<And>m b acc. accu m b acc = None \<longleftrightarrow> 2 ^ 31 \<le> unat (b AND 127) * 2 ^ m"
    and "wf_in s" "m + 7 * k = 28"
  shows "decode_octets j 32 accu s b m acc = None \<longleftrightarrow> overflows_at k b (unread s)"
  using assms(2,3)
proof (induction k arbitrary: s b m acc)
  case 0
  then have m: "m = 28" by simp
  show ?case
  proof (cases "8 \<le> length (unread s)")
    case True
    let ?c = "from_bits (take 8 (unread s)) :: u8"
    obtain s1 where s1: "wf_in s1"
      "decode_octets j 32 accu s b m acc = None \<longleftrightarrow> 32 \<le> m \<or>
         (case accu m ?c acc of None \<Rightarrow> True | Some a \<Rightarrow> hd (unread s) \<and> decode_octets j 32 accu s1 ?c (m + 7) a = None)"
      by (rule decode_octets_read [OF 0(1) True, of j 32 accu b m acc]) (rule that)
    obtain r where "decode j s1 ?c = Some r"
      using decode_byte [OF s1(1), of j ?c] decode_short [OF s1(1), of j ?c] by (metis not_le)
    then have "decode_octets j 32 accu s1 ?c 35 a = None" for a by (cases r) (simp add: decode_octets.simps)
    moreover have "hd (unread s) \<longleftrightarrow> drop_bit 7 ?c = 1"
    proof -
      have "bits 8 ?c = take 8 (unread s)" 
        using bits_from_bits [of "take 8 (unread s)", where 'a = 8] True by simp
      then show ?thesis by (cases "unread s") (simp_all add: high_bit)
    qed
    ultimately show ?thesis using True accu [of 28 ?c acc, unfolded shift_28] octet_8 [of ?c]
      by (cases "accu 28 ?c acc") (simp_all add: s1(2) [unfolded m] m not_less)
  next
    case False
    then show ?thesis using decode_octets_short [OF 0(1), of j 32 accu b m acc] accu [of 28 b acc, unfolded shift_28] by (simp add: m)
  qed
next
  case (Suc k)
  have tot: "accu m c a \<noteq> None" for c a
  proof -
    have "m \<le> 21" using Suc.prems(2) by simp
    then have "(2 :: nat) ^ m \<le> 2 ^ 21" by (intro power_increasing) simp_all
    moreover have "c AND 127 \<le> 127" by (rule word_and_le1)
    then have "unat (c AND 127) \<le> 127" by (simp add: word_le_nat_alt)
    ultimately have "unat (c AND 127) * 2 ^ m \<le> 127 * 2 ^ 21" by (rule mult_le_mono [rotated])
    then show ?thesis using accu [of m c a] by simp
  qed
  have m: "\<not> 32 \<le> m" using Suc.prems(2) by simp
  show ?case
  proof (cases "8 \<le> length (unread s)")
    case True
    let ?c = "from_bits (take 8 (unread s)) :: u8"
    obtain s1 where s1: "wf_in s1"
      "unread s1 = drop 8 (unread s)"
      "decode_octets j 32 accu s b m acc = None \<longleftrightarrow> 32 \<le> m \<or>
         (case accu m ?c acc of None \<Rightarrow> True | Some a \<Rightarrow> hd (unread s) \<and> decode_octets j 32 accu s1 ?c (m + 7) a = None)"
      by (rule decode_octets_read [OF Suc.prems(1) True, of j 32 accu b m acc]) (rule that)
    obtain a where "accu m ?c acc = Some a" using tot [of ?c acc] by blast
    with Suc.IH [OF s1(1), of "m + 7" ?c a] Suc.prems(2) True m show ?thesis by (simp add: s1(2,3))
  next
    case False
    then show ?thesis using decode_octets_short [OF Suc.prems(1), of j 32 accu b m acc] tot m by simp
  qed
qed

lemma octet_cases:
  assumes "length xs = 8"
  obtains a b c d e f g h where "xs = [a, b, c, d, e, f, g, h]"
  using assms by (auto simp: length_Suc_conv eval_nat_numeral)

lemma octet_8_bits:
  assumes "length xs = 8"
  shows "8 \<le> (from_bits xs :: u8) \<longleftrightarrow> True \<in> set (take 5 xs)"
    "8 \<le> (from_bits xs :: u8) AND 127 \<longleftrightarrow> True \<in> set (take 4 (drop 1 xs))"
proof -
  obtain a b c d e f g h where xs: "xs = [a, b, c, d, e, f, g, h]" by (rule octet_cases [OF assms])
  show "8 \<le> (from_bits xs :: u8) \<longleftrightarrow> True \<in> set (take 5 xs)"
    unfolding xs by (cases a; cases b; cases c; cases d; cases e; cases f; cases g; cases h; simp add: from_bits_def word_le_nat_alt)
  show "8 \<le> (from_bits xs :: u8) AND 127 \<longleftrightarrow> True \<in> set (take 4 (drop 1 xs))"
    unfolding xs by (cases a; cases b; cases c; cases d; cases e; cases f; cases g; cases h; simp add: from_bits_def word_le_nat_alt)
qed

lemma overflows_at_4: "overflows_at 4 b bs \<longleftrightarrow> overflows bs"
proof (cases "32 \<le> length bs")
  case True
  then have l: "length (take 8 (drop 24 bs)) = 8" by simp
  have f: "8 \<le> (from_bits (take 8 (drop 32 bs)) :: u8) \<longleftrightarrow> True \<in> set (take 5 (drop 32 bs))" if "40 \<le> length bs"
    using octet_8_bits(1) [of "take 8 (drop 32 bs)"] that by simp
  have "take 4 (drop 1 (take 8 (drop 24 bs))) = take 4 (drop 25 bs)" by (simp add: drop_take)
  with octet_8_bits(2) [OF l] f True show ?thesis
    by (auto simp: overflows_def eval_nat_numeral not_le)
next
  case False
  then show ?thesis by (auto simp: overflows_def eval_nat_numeral)
qed

lemma decodes_unless_overflow:
  assumes "wf_in s"
  shows "decodeUnsignedInteger16 j s = None \<longleftrightarrow> overflows (unread s)"
    "decodeUnsignedInteger32 j s = None \<longleftrightarrow> overflows (unread s)"
    "decodeUnsignedInteger64 j s = None \<longleftrightarrow> continues 10 (unread s)"
proof -
  have "(accu16 m b x = None) = (2 ^ 31 \<le> unat (b AND 127) * 2 ^ m)" for m b x by (simp add: accu16_def)
  from decode_octets_overflows [of accu16 s 0 4 j, OF this assms]
  show "decodeUnsignedInteger16 j s = None \<longleftrightarrow> overflows (unread s)"
    by (simp add: decodeUnsignedInteger16_def overflows_at_4)
  have "(accu32 m b y = None) = (2 ^ 31 \<le> unat (b AND 127) * 2 ^ m)" for m b y by (simp add: accu32_def)
  from decode_octets_overflows [of accu32 s 0 4 j, OF this assms]
  show "decodeUnsignedInteger32 j s = None \<longleftrightarrow> overflows (unread s)"
    by (simp add: decodeUnsignedInteger32_def overflows_at_4)
  show "decodeUnsignedInteger64 j s = None \<longleftrightarrow> continues 10 (unread s)"
    using assms by (simp add: decodeUnsignedInteger64_def accu64_def decode_octets_undefined)
qed

text \<open>C19: the decoders of unsigned integers have a defined result on every stream, except these. In 16
  and in 32 bits: four octets announce another one and the fifth is 8 or more, that is, sets one of its
  upper five bits (it is shifted by 28 bits as an \<open>int\<close>, and if it announces a sixth, that one is shifted
  by more than the width of an \<open>int\<close>); or the stream ends in the fifth, and the fourth, which is then
  shifted again, is 8 or more without its first bit. In 64 bits: ten octets that announce another one.\<close>

theorem unsigned_decoders_undefined:
  assumes "wf_in s"
  shows "(decodeUnsignedInteger16 j s = None \<longleftrightarrow> overflows (unread s)) \<and>
    (decodeUnsignedInteger32 j s = None \<longleftrightarrow> overflows (unread s)) \<and>
    (decodeUnsignedInteger64 j s = None \<longleftrightarrow> continues 10 (unread s))"
  using decodes_unless_overflow [OF assms] by blast

theorem unsigned_decoders_undefined_witness:
  "decodeUnsignedInteger32 0 \<lparr>stream_size = 5, stream_data = [128, 128, 128, 128, 8], stream_pos = 0, buffer = 0, capacity = 0\<rparr> = None \<and>
   decodeUnsignedInteger32 0 \<lparr>stream_size = 5, stream_data = [128, 128, 128, 128, 7], stream_pos = 0, buffer = 0, capacity = 0\<rparr> \<noteq> None"
proof -
  let ?s = "\<lambda>b. \<lparr>stream_size = 5, stream_data = [128, 128, 128, 128, b], stream_pos = 0, buffer = 0, capacity = 0\<rparr> :: bitstream"
  have "unread (?s 8) = concat (replicate 4 (True # replicate 7 False)) @ replicate 4 False @ True # replicate 3 False"
    "unread (?s 7) = concat (replicate 4 (True # replicate 7 False)) @ replicate 5 False @ replicate 3 True"
    by (simp_all add: unread_def bits_def upt_rec eval_nat_numeral)
  then have "overflows (unread (?s 8))" "\<not> overflows (unread (?s 7))"
    by (simp_all add: overflows_def eval_nat_numeral)
  with unsigned_decoders_undefined [of "?s 8" 0] unsigned_decoders_undefined [of "?s 7" 0] show ?thesis
    by (simp add: wf_in_def)
qed

lemma overflows_at_octet:
  "overflows_at 0 b (bits 8 x @ bs) \<longleftrightarrow> 8 \<le> x"
  "overflows_at (Suc k) b (bits 8 x @ bs) \<longleftrightarrow> bit x 7 \<and> overflows_at k x bs"
proof -
  have f: "from_bits (bits 8 x) = x" by (rule bit_word_eqI) (simp add: from_bits_bits bit_simps)
  have h: "hd (bits 8 x @ bs) = bit x 7" by (simp add: bits_def hd_append hd_map hd_rev)
  show "overflows_at 0 b (bits 8 x @ bs) \<longleftrightarrow> 8 \<le> x" by (simp add: f)
  show "overflows_at (Suc k) b (bits 8 x @ bs) \<longleftrightarrow> bit x 7 \<and> overflows_at k x bs" by (simp add: f h)
qed

lemma four: "(4 :: nat) = Suc (Suc (Suc (Suc 0)))"
  by simp

text \<open>C38: an unsigned integer of 32 bits that is \<open>2 ^ 31\<close> or more is written by the encoder and cannot be
  read: on every stream that continues with what it wrote, the decoder shifts the highest octet out of
  the range of an \<open>int\<close>.\<close>

theorem large_unsigned_unreadable:
  assumes "2 ^ 31 \<le> n"
  shows "\<exists>bs. wr.writes (\<lambda>s. encodeUnsignedInteger32 s n) bs \<and>
    (\<forall>s r j. wf_in s \<and> unread s = bs @ r \<longrightarrow> decodeUnsignedInteger32 j s = None)"
proof (intro exI conjI allI impI)
  show "wr.writes (\<lambda>s. encodeUnsignedInteger32 s n) (bytes_bits (octets (unat n)))"
    by (rule writes_encodeUnsignedInteger32)
next
  fix s r j assume s: "wf_in s \<and> unread s = bytes_bits (octets (unat n)) @ r"
  have n: "2 ^ 31 \<le> unat n" "unat n < 2 ^ 32" using assms unsigned_less [of n, where 'a = nat] by (simp_all add: word_le_nat_alt)
  let ?m = "unat n"
  have l: "\<not> ?m < 128" "\<not> ?m div 128 < 128" "\<not> ?m div 128 div 128 < 128" "\<not> ?m div 128 div 128 div 128 < 128"
    "?m div 128 div 128 div 128 div 128 = ?m div 2 ^ 28" "?m div 2 ^ 28 < 128"
    using n by (simp_all add: div_mult2_eq [symmetric] not_less less_eq_div_iff_mult_less_eq)
  obtain a b c d where o: "octets ?m = [a OR 128, b OR 128, c OR 128, d OR 128, of_nat (?m div 2 ^ 28)]"
    by (rule that) (subst octets_large [OF l(1)], subst octets_large [OF l(2)], subst octets_large [OF l(3)],
      subst octets_large [OF l(4)], unfold l(5) octets_small [OF l(6)], rule refl)
  have "?m div 2 ^ 28 < 256" "8 \<le> ?m div 2 ^ 28" using n by simp_all
  then have e: "8 \<le> (of_nat (?m div 2 ^ 28) :: u8)" by (simp add: word_le_nat_alt unat_of_nat)
  have h: "bit (x OR 128 :: u8) 7" for x by (simp add: bit_or_iff bit_numeral_rec)
  have u: "unread s = bits 8 (a OR 128) @ bits 8 (b OR 128) @ bits 8 (c OR 128) @ bits 8 (d OR 128) @
      bits 8 (of_nat (?m div 2 ^ 28) :: u8) @ r" using s by (simp only: o) simp
  have "overflows_at 4 0 (unread s)"
    unfolding u four by (simp only: overflows_at_octet h e simp_thms)
  then show "decodeUnsignedInteger32 j s = None"
    using decodes_unless_overflow(2) [of s j] s by (simp add: overflows_at_4)
qed

theorem large_unsigned_unreadable_witness:
  "\<exists>bs. wr.writes (\<lambda>s. encodeUnsignedInteger32 s 4294967295) bs \<and>
    (\<forall>s r j. wf_in s \<and> unread s = bs @ r \<longrightarrow> decodeUnsignedInteger32 j s = None)"
  by (rule large_unsigned_unreadable) simp

subsection \<open>Binary data longer than its array\<close>

lemma decode_bytes_overrun:
  assumes "i \<le> length cs" "length cs < len" "length cs < i + length xs" "wf_in s" "unread s = bytes_bits xs @ r"
  shows "decode_bytes j i EXI_OK s b cs len = None"
  using assms
proof (induction xs arbitrary: i cs s b)
  case (Cons x xs)
  then have "unread s = bits 8 x @ bytes_bits xs @ r" by simp
  from rd.takesD [OF takes_decode [of j b] Cons.prems(4) this]
  obtain s1 where s1: "decode j s b = Some (EXI_OK, x, s1)" "wf_in s1" "unread s1 = bytes_bits xs @ r" by blast
  have "decode_bytes j (Suc i) EXI_OK s1 x (cs[i := x]) len = None" if "i < length cs"
    using Cons.prems that s1 by (intro Cons.IH) simp_all
  with s1(1) Cons.prems(1,2) show ?case by (subst decode_bytes.simps) simp
qed simp

text \<open>C20: binary data that is announced longer than the array of the reader is not refused:
  \<open>decodeBinary\<close> sets the error code, overwrites it, and writes behind the end of the array as soon as
  the stream has a byte too many.\<close>

theorem binary_overrun:
  assumes "wf_in s" "unread s = bytes_bits (octets n) @ bytes_bits xs @ r" "n < 2 ^ 64"
    and "length (bytes_data b) < n" "length (bytes_data b) < length xs"
  shows "decodeBinary j s b = None"
proof -
  from rd.takesD [OF takes_decodeUnsignedIntegerSizeT [OF assms(3)] assms(1,2)]
  obtain s1 where s1: "decodeUnsignedIntegerSizeT j s (bytes_len b) = Some (EXI_OK, of_nat n, s1)" "wf_in s1"
    "unread s1 = bytes_bits xs @ r" by blast
  have "unat (of_nat n :: u64) = n" using assms(3) by (simp add: unat_of_nat)
  then have "decodeBytes j s1 (of_nat n) (bytes_data b) = None"
    unfolding decodeBytes_def using assms(4,5) s1(2,3) by (intro decode_bytes_overrun) simp_all
  with s1(1) show ?thesis by (simp add: decodeBinary_def)
qed

theorem binary_overrun_witness:
  "decodeBinary 0 \<lparr>stream_size = 4, stream_data = [3, 65, 66, 67], stream_pos = 0, buffer = 0, capacity = 0\<rparr>
     \<lparr>bytes_size = 2, bytes_data = [0, 0], bytes_len = 0\<rparr> = None"
proof -
  let ?s = "\<lparr>stream_size = 4, stream_data = [3, 65, 66, 67], stream_pos = 0, buffer = 0, capacity = 0\<rparr> :: bitstream"
  have "unread ?s = bytes_bits (octets 3) @ bytes_bits [65, 66, 67] @ []"
    by (simp add: unread_def octets.simps eval_nat_numeral)
  from binary_overrun [OF _ this, of "\<lparr>bytes_size = 2, bytes_data = [0, 0], bytes_len = 0\<rparr>" 0]
  show ?thesis by (simp add: wf_in_def)
qed

end
