(* ===== verification/HandshakeSafety.thy ===== *)
theory HandshakeSafety
  imports Handshake Rounds DecoderFaults
begin

section \<open>The handshake codec on any stream\<close>

text \<open>
  What holds of the codec of the application handshake when the stream is not one of its own
  encoder: its loops end, its structs keep the arrays they came with, and an offer of more than five
  protocols is refused.
\<close>

subsection \<open>The loops end\<close>

lemma encode_AppProtocol_next [advance_dests]:
  "encode_next_AppProtocol n next req i s = Some (EXI_OK, (False, g', x'), s') \<Longrightarrow> g' = next"
  "encode_AppProtocol_or_end next req i s = Some (EXI_OK, (False, g', x'), s') \<Longrightarrow> g' = next"
  by (auto simp: encode_next_AppProtocol_def encode_AppProtocol_or_end_def dest: finish_next
      split: Option.bind_splits if_splits)

lemma decode_AppProtocol_next [advance_dests]:
  "decode_AppProtocol_or_end next j g x s = Some (EXI_OK, (False, g', x'), s') \<Longrightarrow> g' = next"
  by (auto simp: decode_AppProtocol_or_end_def elim!: decode_switch_next dest!: decode_child_next decode_end_next)

interpretation protocol_enc: advancing_machine "AppProtocolType_enc_step a" "\<lambda>g. 6 - g" for a
  by unfold_locales (auto simp: AppProtocolType_enc_step_def dest!: advance_dests split: if_splits)

interpretation protocol_dec: advancing_machine "AppProtocolType_dec_step j" "\<lambda>g. 6 - g" for j
  by unfold_locales (auto simp: AppProtocolType_dec_step_def AppProtocolType_dec_3_5_def dest!: advance_dests
      elim!: decode_switch_next split: if_splits)

abbreviation (input) offer_left :: "nat \<Rightarrow> nat" where
  "offer_left g \<equiv> (if g = 5 then 1 else 28 - g)"

interpretation offer_enc: advancing_machine "supportedAppProtocolReq_enc_step req" offer_left for req
  by unfold_locales (auto simp: supportedAppProtocolReq_enc_step_def supportedAppProtocolReq_enc_14_20_def
      supportedAppProtocolReq_enc_21_26_def dest!: advance_dests split: if_splits)

interpretation offer_dec: advancing_machine "supportedAppProtocolReq_dec_step j" offer_left for j
  by unfold_locales (auto simp: supportedAppProtocolReq_dec_step_def supportedAppProtocolReq_dec_14_20_def
      supportedAppProtocolReq_dec_21_26_def dest!: advance_dests elim!: decode_switch_next split: if_splits)

interpretation answer_enc: advancing_machine "supportedAppProtocolRes_enc_step res" "\<lambda>g. if g = 5 then 1 else 30 - g" for res
  by unfold_locales (auto simp: supportedAppProtocolRes_enc_step_def dest!: advance_dests split: if_splits)

interpretation answer_dec: advancing_machine supportedAppProtocolRes_dec_step "\<lambda>g. if g = 5 then 1 else 30 - g"
  by unfold_locales (auto simp: supportedAppProtocolRes_dec_step_def dest!: advance_dests elim!: decode_switch_next
      split: if_splits)

subsection \<open>Decoding stays defined\<close>

text \<open>
  A stream is calm if no integer that overflows begins at any of its bits, wherever a decoder may come to
  read one. The decoders of the handshake are defined on every calm stream: they leave no array, whatever
  lengths and counts it announces. Reading keeps a stream calm.
\<close>

definition calm :: "bitstream \<Rightarrow> bool" where
  "calm s \<longleftrightarrow> wf_in s \<and> (\<forall>k. \<not> overflows (drop k (unread s)))"

lemma calm_drop: "calm s \<Longrightarrow> wf_in t \<Longrightarrow> unread t = drop n (unread s) \<Longrightarrow> calm t"
  by (simp add: calm_def)

lemma calm_end: "wf_in t \<Longrightarrow> unread t = [] \<Longrightarrow> calm t"
  by (simp add: calm_def overflows_def eval_nat_numeral)

lemma some_case_goes_on: "\<exists>b. \<not> b"
  by (rule exI [of _ False]) simp

lemma readBits_calm:
  assumes "calm s" "1 \<le> n"
  shows "\<exists>e v t. readBits s n b = Some (e, v, t) \<and> calm t"
proof (cases "n \<le> length (unread s)")
  case True
  with readBits_ok [of s n b] assms show ?thesis by (auto simp: calm_def intro: calm_drop)
next
  case False
  with readBits_eof [of s n b] assms obtain v t where "readBits s n b = Some (EXI_ERROR_INPUT_STREAM_EOF, v, t)"
    "wf_in t" "unread t = []" by (auto simp: calm_def)
  then show ?thesis using calm_end by blast
qed

lemma decodeNBit_calm: "calm s \<Longrightarrow> \<exists>e v t. decodeNBitUnsignedInteger s n b = Some (e, v, t) \<and> calm t"
  using readBits_calm [of s n b] by (auto simp: decodeNBitUnsignedInteger_def Suc_le_eq)

lemma decode_calm:
  assumes "calm s"
  shows "\<exists>e b' t. decode j s b = Some (e, b', t) \<and> calm t"
proof -
  obtain e v t where "readBits s 8 j = Some (e, v, t)" "calm t" using readBits_calm [OF assms, of 8 j] by auto
  then show ?thesis by (simp add: decode_def)
qed

lemma decode_octets_calm:
  "calm s \<Longrightarrow> decode_octets j w accu s b m acc = Some (e, v, t) \<Longrightarrow> calm t"
proof (induction j w accu s b m acc rule: decode_octets.induct)
  case (1 j w accu s b m acc)
  obtain e1 b1 s1 where s1: "decode j s b = Some (e1, b1, s1)" "calm s1" using decode_calm [OF "1.prems"(1)] by blast
  from "1.prems"(2) s1(1) obtain a where a: "\<not> w \<le> m" "accu m b1 acc = Some a"
    "(if e1 = EXI_OK \<and> drop_bit 7 b1 = 1 then decode_octets j w accu s1 b1 (m + 7) a else Some (e1, a, s1)) = Some (e, v, t)"
    by (subst (asm) decode_octets.simps) (auto split: if_splits Option.bind_splits)
  with "1.IH" [OF s1(1) refl refl a(1,2)] s1(2) show ?case by (auto split: if_splits)
qed

lemma decodeUnsignedInteger_calm:
  assumes "calm s"
  shows "\<exists>e v t. decodeUnsignedInteger16 j s = Some (e, v, t) \<and> calm t"
    "\<exists>e v t. decodeUnsignedInteger32 j s = Some (e, v, t) \<and> calm t"
proof -
  have s: "wf_in s" "\<not> overflows (unread s)" using assms spec [of "\<lambda>k. \<not> overflows (drop k (unread s))" 0] by (simp_all add: calm_def)
  show "\<exists>e v t. decodeUnsignedInteger16 j s = Some (e, v, t) \<and> calm t"
    using decodes_unless_overflow(1) [OF s(1), of j] s(2) decode_octets_calm [OF assms]
    by (cases "decodeUnsignedInteger16 j s") (auto simp: decodeUnsignedInteger16_def)
  show "\<exists>e v t. decodeUnsignedInteger32 j s = Some (e, v, t) \<and> calm t"
    using decodes_unless_overflow(2) [OF s(1), of j] s(2) decode_octets_calm [OF assms]
    by (cases "decodeUnsignedInteger32 j s") (auto simp: decodeUnsignedInteger32_def)
qed

text \<open>Characters stay in an array that is longer than their number; \<open>decodeCharacters\<close> checks that it is.\<close>

lemma decode_chars_calm:
  "calm s \<Longrightarrow> len \<le> length cs \<Longrightarrow> i \<le> len \<Longrightarrow>
   \<exists>e' i' cs' t. decode_chars j i e s b cs len = Some (e', (i', cs'), t) \<and> calm t \<and> i' \<le> len \<and> length cs' = length cs"
proof (induction "len - i" arbitrary: i e s b cs)
  case 0
  then show ?case by (subst decode_chars.simps) simp
next
  case (Suc k)
  obtain e1 b1 s1 where s1: "decode j s b = Some (e1, b1, s1)" "calm s1" using decode_calm [OF Suc.prems(1)] by blast
  have k: "k = len - Suc i" "Suc i \<le> len" "i < length cs" using Suc.hyps(2) Suc.prems(2) by simp_all
  from Suc.hyps(1) [OF k(1) s1(2), of "cs[i := b1]" e1 b1] Suc.hyps(1) [OF k(1) s1(2), of cs EXI_ERROR_STRINGVALUES_CHARACTER b1]
  show ?case using Suc.prems k(2,3) s1 by (subst decode_chars.simps) simp
qed

lemma decodeCharacters_calm:
  assumes "calm s" "unat sz \<le> length cs" "unat len < 2 ^ 63"
  shows "\<exists>e cs' t. decodeCharacters j s len cs sz = Some (e, cs', t) \<and> calm t \<and> length cs' = length cs"
proof (cases "sz < len + 1")
  case True
  then show ?thesis using assms(1) by (simp add: decodeCharacters_def)
next
  case False
  have "unat (len + 1) = Suc (unat len)" using assms(3) by (simp add: unat_word_ariths)
  with False assms(2) have l: "unat len < length cs" by (simp add: word_less_nat_alt not_less)
  from decode_chars_calm [OF assms(1), of "unat len" cs 0 j EXI_OK "ucast j"] l
  obtain e i cs' t where "decode_chars j 0 EXI_OK s (ucast j) cs (unat len) = Some (e, (i, cs'), t)"
    "calm t" "i \<le> unat len" "length cs' = length cs" by auto
  with False l show ?thesis by (simp add: decodeCharacters_def)
qed

text \<open>
  \<open>val_safe P\<close> and \<open>case_safe P\<close>: the decoder of a value, and that of a case of the switch, are defined on
  calm streams and keep the property \<open>P\<close> of the struct.
\<close>

definition val_safe ::
  "('a \<Rightarrow> bool) \<Rightarrow> (dec_static \<times> 'a \<Rightarrow> bitstream \<Rightarrow> (errn \<times> (dec_static \<times> 'a) \<times> bitstream) option) \<Rightarrow> bool" where
  "val_safe P val \<longleftrightarrow> (\<forall>st a s. P a \<longrightarrow> calm s \<longrightarrow>
     (\<exists>e st' a' s'. val (st, a) s = Some (e, (st', a'), s') \<and> P a' \<and> calm s'))"

definition case_safe ::
  "('a \<Rightarrow> bool) \<Rightarrow> (dec_static \<times> 'a \<Rightarrow> bitstream \<Rightarrow> (errn \<times> (bool \<times> nat \<times> dec_static \<times> 'a) \<times> bitstream) option) \<Rightarrow> bool" where
  "case_safe P k \<longleftrightarrow> (\<forall>st a s. P a \<longrightarrow> calm s \<longrightarrow>
     (\<exists>e d g st' a' s'. k (st, a) s = Some (e, (d, g, st', a'), s') \<and> P a' \<and> calm s'))"

named_theorems safe_intros \<open>decoders that are defined on calm streams\<close>

lemma decode_eventCode_calm: "calm s \<Longrightarrow> \<exists>e st' t. decode_eventCode n st s = Some (e, st', t) \<and> calm t"
  using decodeNBit_calm [of s n "eventCode st"] by (auto simp: decode_eventCode_def)

lemma decode_switch_safe [safe_intros]:
  assumes "\<And>c k. (c, k) \<in> set cases \<Longrightarrow> case_safe P k"
  shows "case_safe P (decode_switch n cases g)"
  unfolding case_safe_def
proof (intro allI impI)
  fix st :: dec_static and a s assume a: "P a" "calm s"
  obtain e st1 s1 where s1: "decode_eventCode n st s = Some (e, st1, s1)" "calm s1" using decode_eventCode_calm [OF a(2)] by blast
  show "\<exists>e d g' st' a' s'. decode_switch n cases g (st, a) s = Some (e, (d, g', st', a'), s') \<and> P a' \<and> calm s'"
  proof (cases "map_of cases (eventCode st1)")
    case (Some k)
    from assms [OF map_of_SomeD [OF this]] a(1) s1(2)
    have "\<exists>e d g st' a' s'. k (st1, a) s1 = Some (e, (d, g, st', a'), s') \<and> P a' \<and> calm s'" unfolding case_safe_def by blast
    with a s1 Some show ?thesis by (simp add: decode_switch_def some_case_goes_on)
  qed (use a s1 in \<open>simp add: decode_switch_def some_case_goes_on\<close>)
qed

lemma decode_simple_safe [safe_intros]:
  assumes "val_safe P val"
  shows "case_safe P (decode_simple g next val)"
  unfolding case_safe_def
proof (intro allI impI)
  fix st :: dec_static and a s assume a: "P a" "calm s"
  obtain e st1 s1 where s1: "decode_eventCode 1 st s = Some (e, st1, s1)" "calm s1" using decode_eventCode_calm [OF a(2)] by blast
  obtain e2 st2 a2 s2 where v: "val (st1, a) s1 = Some (e2, (st2, a2), s2)" "P a2" "calm s2"
    using assms a(1) s1(2) unfolding val_safe_def by blast
  obtain e3 st3 s3 where s3: "decode_eventCode 1 st2 s2 = Some (e3, st3, s3)" "calm s3" using decode_eventCode_calm [OF v(3)] by blast
  show "\<exists>e d g' st' a' s'. decode_simple g next val (st, a) s = Some (e, (d, g', st', a'), s') \<and> P a' \<and> calm s'"
    using a s1 v s3 by (simp add: decode_simple_def some_case_goes_on)
qed

lemma decode_child_safe [safe_intros]: "val_safe P val \<Longrightarrow> case_safe P (decode_child next val)"
  unfolding case_safe_def
proof (intro allI impI)
  fix st :: dec_static and a s assume "val_safe P val" "P a" "calm s"
  then obtain e st1 a1 s1 where "val (st, a) s = Some (e, (st1, a1), s1)" "P a1" "calm s1"
    unfolding val_safe_def by blast
  then show "\<exists>e d g st' a' s'. decode_child next val (st, a) s = Some (e, (d, g, st', a'), s') \<and> P a' \<and> calm s'"
    by (simp add: decode_child_def some_case_goes_on)
qed

lemma decode_end_safe [safe_intros]: "case_safe P (decode_end g)"
  unfolding case_safe_def decode_end_def by blast

lemma decode_error_safe [safe_intros]: "case_safe P (\<lambda>x s. Some (e, (d, g, x), s))"
  unfolding case_safe_def by blast

lemma if_safe [safe_intros]:
  "(c \<Longrightarrow> case_safe P k) \<Longrightarrow> (\<not> c \<Longrightarrow> case_safe P l) \<Longrightarrow> case_safe P (\<lambda>x s. if c then k x s else l x s)"
  by (cases c) simp_all

lemma decode_u32_field_safe [safe_intros]: "(\<And>v a. P a \<Longrightarrow> P (put v a)) \<Longrightarrow> val_safe P (decode_u32_field j put)"
  unfolding val_safe_def
proof (intro allI impI)
  fix st :: dec_static and a s assume "\<And>v a. P a \<Longrightarrow> P (put v a)" "P a" "calm s"
  moreover from decodeUnsignedInteger_calm(2) [OF this(3), of j]
  obtain e v t where "decodeUnsignedInteger32 j s = Some (e, v, t)" "calm t" by blast
  ultimately show "\<exists>e st' a' s'. decode_u32_field j put (st, a) s = Some (e, (st', a'), s') \<and> P a' \<and> calm s'"
    by (simp add: decode_u32_field_def)
qed

lemma decode_nbit_field_safe [safe_intros]: "(\<And>v a. P a \<Longrightarrow> P (put v a)) \<Longrightarrow> val_safe P (decode_nbit_field n put)"
  unfolding val_safe_def
proof (intro allI impI)
  fix st :: dec_static and a s assume "\<And>v a. P a \<Longrightarrow> P (put v a)" "P a" "calm s"
  moreover from decodeNBit_calm [OF this(3), of n "uint32 st"]
  obtain e v t where "decodeNBitUnsignedInteger s n (uint32 st) = Some (e, v, t)" "calm t" by blast
  ultimately show "\<exists>e st' a' s'. decode_nbit_field n put (st, a) s = Some (e, (st', a'), s') \<and> P a' \<and> calm s'"
    by (simp add: decode_nbit_field_def)
qed

lemma rounds_safe:
  assumes "\<And>g. case_safe P (step g)"
  shows "P a \<Longrightarrow> calm s \<Longrightarrow> rounds n step g (st, a) s = Running \<or>
    (\<exists>e st' a' s'. rounds n step g (st, a) s = Done (e, (st', a'), s') \<and> P a' \<and> calm s')"
proof (induction n arbitrary: g st a s)
  case (Suc n)
  from assms [of g] Suc.prems obtain e d g' st' a' s' where
    "step g (st, a) s = Some (e, (d, g', st', a'), s')" "P a'" "calm s'" unfolding case_safe_def by blast
  with Suc.IH [of a' s' g' st'] show ?case by auto
qed simp

lemma machine_safe:
  assumes "ends_within n step g" "\<And>g. case_safe P (step g)" "P a" "calm s"
  shows "\<exists>e st' a' s'. grammar_loop step g (st, a) s = Some (e, (st', a'), s') \<and> P a' \<and> calm s'"
  using rounds_safe [of P step a s n g st, OF assms(2-4)] assms(1) by (auto simp: ends_within_def)

text \<open>A protocol keeps the length of its array; an offer keeps its arrays, and counts to five at most.\<close>

abbreviation (input) holds_chars :: "nat \<Rightarrow> appHandAppProtocolType \<Rightarrow> bool" where
  "holds_chars n a \<equiv> length (ProtocolNamespace_characters a) = n"

lemma decode_ProtocolNamespace_safe [safe_intros]:
  assumes "100 \<le> n"
  shows "val_safe (holds_chars n) (decode_ProtocolNamespace j)"
  unfolding val_safe_def
proof (intro allI impI)
  fix st :: dec_static and a s assume a: "holds_chars n a" "calm s"
  obtain e len s1 where s1: "decodeUnsignedInteger16 j s = Some (e, len, s1)" "calm s1"
    using decodeUnsignedInteger_calm(1) [OF a(2), of j] by blast
  have "unat (ucast (len - 2) :: u64) < 2 ^ 63"
    using unsigned_less [of "len - 2", where 'a = nat] by (simp add: unat_ucast_up)
  from decodeCharacters_calm [OF s1(2) _ this, of ProtocolNamespace_CHARACTERS_SIZE "ProtocolNamespace_characters a" j] a(1) assms
  obtain e2 cs s2 where "decodeCharacters j s1 (ucast (len - 2)) (ProtocolNamespace_characters a) ProtocolNamespace_CHARACTERS_SIZE
      = Some (e2, cs, s2)" "calm s2" "length cs = length (ProtocolNamespace_characters a)" by auto
  then show "\<exists>e st' a' s'. decode_ProtocolNamespace j (st, a) s = Some (e, (st', a'), s') \<and> holds_chars n a' \<and> calm s'"
    using s1 a(1) by (simp add: decode_ProtocolNamespace_def Let_def)
qed

lemma protocol_step_safe: "100 \<le> n \<Longrightarrow> case_safe (holds_chars n) (AppProtocolType_dec_step j g)"
  unfolding AppProtocolType_dec_step_def [abs_def] AppProtocolType_dec_3_5_def [abs_def]
  by (auto intro!: safe_intros)

lemma protocol_safe:
  assumes "100 \<le> length (ProtocolNamespace_characters a)" "calm s"
  shows "\<exists>e st' a' s'. decode_appHandAppProtocolType j (st, a) s = Some (e, (st', a'), s') \<and>
    length (ProtocolNamespace_characters a') = length (ProtocolNamespace_characters a) \<and> calm s'"
  unfolding decode_appHandAppProtocolType_def init_appHandAppProtocolType_def fst_conv snd_conv
  by (rule machine_safe [OF protocol_dec.machine_ends [OF lessI] protocol_step_safe [OF assms(1)] refl assms(2)])

definition offer_kept :: "appHandAnonType_supportedAppProtocolReq \<Rightarrow> bool" where
  "offer_kept req \<longleftrightarrow> wf_req req \<and> unat (AppProtocol_arrayLen req) \<le> 5"

lemma next_AppProtocol_safe [safe_intros]: "val_safe offer_kept (decode_next_AppProtocol j)"
  unfolding val_safe_def
proof (intro allI impI)
  fix st :: dec_static and req s assume kept: "offer_kept req" and s: "calm s"
  let ?i = "unat (AppProtocol_arrayLen req)" and ?as = "AppProtocol_array req"
  show "\<exists>e st' req' s'. decode_next_AppProtocol j (st, req) s = Some (e, (st', req'), s') \<and> offer_kept req' \<and> calm s'"
  proof (cases "AppProtocol_arrayLen req < 5")
    case True
    then have i: "?i < 5" by (simp add: word_less_nat_alt)
    then have len: "?i < length ?as" using kept by (simp add: offer_kept_def wf_req_def)
    then have chars: "100 \<le> length (ProtocolNamespace_characters (?as ! ?i))"
      using kept nth_mem [OF len] by (simp add: offer_kept_def wf_req_def)
    from protocol_safe [OF this s, of j st] obtain e st' a s' where
      a: "decode_appHandAppProtocolType j (st, ?as ! ?i) s = Some (e, (st', a), s')"
        "length (ProtocolNamespace_characters a) = length (ProtocolNamespace_characters (?as ! ?i))" "calm s'" by blast
    have "offer_kept (req\<lparr>AppProtocol_array := ?as[?i := a], AppProtocol_arrayLen := AppProtocol_arrayLen req + 1\<rparr>)"
      using kept i a(2) chars by (auto simp: offer_kept_def wf_req_def unat_Suc_small [OF i]
          dest!: set_update_subset_insert [THEN subsetD])
    with a True len show ?thesis by (simp add: decode_next_AppProtocol_def Let_def)
  next
    case False
    with kept s show ?thesis by (simp add: decode_next_AppProtocol_def Let_def)
  qed
qed

lemma AppProtocol_or_end_safe [safe_intros]: "case_safe offer_kept (decode_AppProtocol_or_end next j g)"
  unfolding decode_AppProtocol_or_end_def [abs_def] by (rule safe_intros) (auto intro!: safe_intros)

lemma offer_step_safe: "case_safe offer_kept (supportedAppProtocolReq_dec_step j g)"
  unfolding supportedAppProtocolReq_dec_step_def [abs_def] supportedAppProtocolReq_dec_14_20_def [abs_def]
    supportedAppProtocolReq_dec_21_26_def [abs_def]
  by (auto intro!: safe_intros)

subsection \<open>Properties\<close>

text \<open>C17: whatever lengths and counts a stream announces and whatever error ends it, decoding an offer has a
  defined result: it leaves no array. The struct then still has its five protocols with 100 characters
  each, and its count is at most five. Only integers too large for the decoder are excluded: none may
  begin at any bit of the stream.\<close>

theorem offer_stays_in_array:
  assumes "wf_req req" "wf_in s" "\<forall>k. \<not> overflows (drop k (unread s))"
  shows "\<exists>e st' req' s'. decode_appHandAnonType_supportedAppProtocolReq j (st, req) s = Some (e, (st', req'), s') \<and>
    wf_req req' \<and> unat (AppProtocol_arrayLen req') \<le> 5"
proof -
  have "offer_kept (init_appHandAnonType_supportedAppProtocolReq req)" "calm s"
    using assms by (simp_all add: offer_kept_def wf_req_def init_appHandAnonType_supportedAppProtocolReq_def calm_def)
  from machine_safe [OF offer_dec.machine_ends [OF lessI] offer_step_safe this, of j 7 st]
  show ?thesis by (auto simp: decode_appHandAnonType_supportedAppProtocolReq_def offer_kept_def)
qed

text \<open>The bytes of an offer of one protocol.\<close>

definition offer_stream :: bitstream where
  "offer_stream = \<lparr>stream_size = 9, stream_data = [0, 140, 141, 32, 8, 0, 0, 112, 1], stream_pos = 0, buffer = 0, capacity = 0\<rparr>"

lemma calm_bits: "(\<forall>k. \<not> overflows (drop k (b # bs))) \<longleftrightarrow> \<not> overflows (b # bs) \<and> (\<forall>k. \<not> overflows (drop k bs))"
  by (metis drop_0 drop_Suc_Cons not0_implies_Suc)

lemma offer_stream_calm: "\<forall>k. \<not> overflows (drop k (unread offer_stream))"
proof -
  have u: "unread offer_stream = 
      [False, False, False, False, False, False, False, False, True, False, False, False, True, True,
      False, False, True, False, False, False, True, True, False, True, False, False, True, False, False,
      False, False, False, False, False, False, False, True, False, False, False, False, False, False,
      False, False, False, False, False, False, False, False, False, False, False, False, False, False,
      True, True, True, False, False, False, False, False, False, False, False, False, False, False, True]"
    by (simp add: offer_stream_def unread_def bits_def upt_rec eval_nat_numeral)
  show ?thesis unfolding u calm_bits by (simp add: overflows_def eval_nat_numeral)
qed

theorem offer_stays_in_array_witness:
  "\<exists>e st' req' s'. decode_appHandAnonType_supportedAppProtocolReq 0 (\<lparr>eventCode = 0, uint32 = 0\<rparr>, supportedAppProtocolReq zero_document)
     offer_stream = Some (e, (st', req'), s') \<and> wf_req req' \<and> unat (AppProtocol_arrayLen req') \<le> 5"
  by (rule offer_stays_in_array [OF wf_zero_document _ offer_stream_calm]) (simp add: offer_stream_def wf_in_def)








end
