(* ===== verification/ByteStream.thy ===== *)
theory ByteStream
  imports EXITypes
begin

section \<open>Reading and writing files (ByteStream.c)\<close>

text \<open>
  The files are the functions the library calls see: \<open>files name\<close> is the content \<open>fopen(name, "rb")\<close>
  gives to \<open>getc\<close>, \<open>None\<close> if it fails; \<open>writable name\<close> is \<open>None\<close> if \<open>fopen(name, "wb+")\<close> fails, else
  the number of bytes \<open>fwrite\<close> can store. The result of a write comes with the new content.
\<close>

text \<open>The loop over the characters of the file, with \<open>*pos\<close>.\<close>

fun read_chars :: "u8 list \<Rightarrow> u8 list \<Rightarrow> nat \<Rightarrow> nat \<Rightarrow> (errn \<times> u8 list \<times> nat) option" where
  "read_chars [] data sz pos = Some (EXI_OK, data, pos)"
| "read_chars (character # rest) data sz pos =
     (if sz \<le> pos then Some (EXI_ERROR_OUT_OF_BYTE_BUFFER, data, pos)
      else if pos < length data then read_chars rest (data[pos := character]) sz (pos + 1)
      else None)"

definition readBytesFromFile ::
  "(string \<Rightarrow> u8 list option) \<Rightarrow> string \<Rightarrow> u8 list \<Rightarrow> nat \<Rightarrow> nat \<Rightarrow> (errn \<times> u8 list \<times> nat) option" where
  "readBytesFromFile files filename data sz pos =
     (case files filename of
        None \<Rightarrow> Some (EXI_ERROR_INPUT_FILE_HANDLE, data, pos)
      | Some content \<Rightarrow> read_chars content data sz pos)"

definition writeBytesToFile ::
  "(string \<Rightarrow> nat option) \<Rightarrow> u8 list \<Rightarrow> nat \<Rightarrow> string \<Rightarrow> (int \<times> u8 list option) option" where
  "writeBytesToFile writable data len filename =
     (case writable filename of
        None \<Rightarrow> Some (-1, None)
      | Some room \<Rightarrow>
          if length data < len then None
          else let rlen = min len room in
            Some (if rlen = len then 0 else errn_code EXI_ERROR_OUTPUT_FILE, Some (take rlen data)))"

subsection \<open>Specification\<close>

lemma read_chars_ok:
  "pos + length xs \<le> sz \<Longrightarrow> sz \<le> length data \<Longrightarrow>
   read_chars xs data sz pos = Some (EXI_OK, take pos data @ xs @ drop (pos + length xs) data, pos + length xs)"
proof (induction xs arbitrary: data pos)
  case (Cons x xs)
  then have p: "pos < length data" by simp
  have "take (Suc pos) (data[pos := x]) = take pos data @ [x]" using p by (rule take_Suc_update)
  moreover have "drop (Suc pos + length xs) (data[pos := x]) = drop (Suc pos + length xs) data" by simp
  ultimately show ?case using Cons.prems p Cons.IH [of "Suc pos" "data[pos := x]"] by simp
qed simp

lemma read_chars_full:
  "sz < pos + length xs \<Longrightarrow> pos \<le> sz \<Longrightarrow> sz \<le> length data \<Longrightarrow>
   read_chars xs data sz pos =
     Some (EXI_ERROR_OUT_OF_BYTE_BUFFER, take pos data @ take (sz - pos) xs @ drop sz data, sz)"
proof (induction xs arbitrary: data pos)
  case (Cons x xs)
  show ?case
  proof (cases "pos = sz")
    case True
    then show ?thesis by simp
  next
    case False
    then have p: "pos < sz" "pos < length data" using Cons.prems by simp_all
    have "take (Suc pos) (data[pos := x]) = take pos data @ [x]" using p(2) by (rule take_Suc_update)
    moreover have "take (sz - pos) (x # xs) = x # take (sz - Suc pos) xs"
      using p by (simp add: Suc_diff_Suc [symmetric])
    ultimately show ?thesis using Cons.prems p Cons.IH [of "Suc pos" "data[pos := x]"] by simp
  qed
qed simp

subsection \<open>Properties\<close>

text \<open>Reading a file appends its bytes to the buffer at the position and advances it; a file that
  is too long fills the buffer to its size and is reported, and nothing beyond is touched.\<close>

theorem readBytesFromFile_outcome:
  assumes "files name = Some content" "pos \<le> sz" "sz \<le> length data"
  shows "readBytesFromFile files name data sz pos =
    (if pos + length content \<le> sz
     then Some (EXI_OK, take pos data @ content @ drop (pos + length content) data, pos + length content)
     else Some (EXI_ERROR_OUT_OF_BYTE_BUFFER, take pos data @ take (sz - pos) content @ drop sz data, sz))"
  using assms read_chars_ok [of pos content sz data] read_chars_full [of sz pos content data]
  by (simp add: readBytesFromFile_def)

theorem readBytesFromFile_outcome_witness:
  "readBytesFromFile (\<lambda>_. Some [1, 2, 3]) ''f'' [0, 0, 9] 2 0 = Some (EXI_ERROR_OUT_OF_BYTE_BUFFER, [1, 2, 9], 2)"
  using readBytesFromFile_outcome [of "\<lambda>_. Some [1, 2, 3]" "''f''" "[1, 2, 3]" 0 2 "[0, 0, 9]"] by simp

text \<open>Bytes written to a file that has room for them are read back from it.\<close>

theorem file_roundtrip:
  assumes "writable name = Some room" "n \<le> room" "n \<le> length data" "n \<le> sz" "sz \<le> length buf"
  shows "\<exists>content. writeBytesToFile writable data n name = Some (0, Some content) \<and>
    readBytesFromFile (\<lambda>_. Some content) name buf sz 0 = Some (EXI_OK, take n data @ drop n buf, n)"
  using assms read_chars_ok [of 0 "take n data" sz buf]
  by (simp add: writeBytesToFile_def readBytesFromFile_def min_absorb1 min_absorb2)

theorem file_roundtrip_witness:
  "\<exists>content. writeBytesToFile (\<lambda>_. Some 10) [5, 6, 7] 2 ''f'' = Some (0, Some content) \<and>
     readBytesFromFile (\<lambda>_. Some content) ''f'' [0, 0, 0, 0] 4 0 = Some (EXI_OK, [5, 6, 0, 0], 2)"
  using file_roundtrip [of "\<lambda>_. Some 10" "''f''" 10 2 "[5, 6, 7]" 4 "[0, 0, 0, 0]"] by simp

end
