(* ===== verification/Fragments.thy ===== *)
theory Fragments
  imports Rounds ValueCodecs
begin

section \<open>Generated codecs whose two halves agree\<close>

text \<open>
  The bigger codecs are generated from the schemas in the form of \<open>Grammar\<close>: an encoder and a decoder
  that walk through the same states. For them the bits are not spelt out; what is stated is that the
  two halves agree: what the one writes, the other reads. \<open>reads n W D a Q\<close>: \<open>W\<close> writes at most \<open>n\<close>
  bits, and on them \<open>D\<close> succeeds with a struct that has \<open>Q\<close>, when it starts on the struct \<open>a\<close>; nothing
  is assumed about the static variables of the decoders.
\<close>

type_synonym 'a decoder = "dec_static \<times> 'a \<Rightarrow> bitstream \<Rightarrow> (errn \<times> (dec_static \<times> 'a) \<times> bitstream) option"

type_synonym 'x machine = "nat \<Rightarrow> 'x \<Rightarrow> bitstream \<Rightarrow> (errn \<times> (bool \<times> nat \<times> 'x) \<times> bitstream) option"

definition reads :: "nat \<Rightarrow> (bitstream \<Rightarrow> (errn \<times> bitstream) option) \<Rightarrow> 'a decoder \<Rightarrow> 'a \<Rightarrow> ('a \<Rightarrow> bool) \<Rightarrow> bool" where
  "reads n W D a Q \<longleftrightarrow>
     (\<exists>bs r. length bs \<le> n \<and> wr.emits W bs \<and> Q r \<and> (\<forall>st. \<exists>st'. rd.takes (D (st, a)) bs (st', r)))"

named_theorems reads_intros \<open>what the decoder of a value reads\<close>

lemma readsI:
  "length bs \<le> n \<Longrightarrow> wr.emits W bs \<Longrightarrow> Q r \<Longrightarrow> (\<And>st. \<exists>st'. rd.takes (D (st, a)) bs (st', r)) \<Longrightarrow> reads n W D a Q"
  unfolding reads_def by blast

lemma readsE:
  assumes "reads n W D a Q"
  obtains bs r where "length bs \<le> n" "wr.emits W bs" "Q r" "\<And>st. \<exists>st'. rd.takes (D (st, a)) bs (st', r)"
  using assms unfolding reads_def by blast

text \<open>What the two halves of a codec that agree do for a document: the round trip.\<close>

lemma reads_comes_back:
  assumes "reads n W D a Q" and s: "startable s" "8 * stream_pos s + n \<le> 8 * stream_size s"
  shows "comes_back W (D (st, a)) s (\<lambda>w. Q (snd w))"
proof -
  obtain bs r where bs: "length bs \<le> n" "wr.emits W bs" "Q r" "\<And>st. \<exists>st'. rd.takes (D (st, a)) bs (st', r)"
    using assms(1) by (rule readsE) blast
  from s(2) bs(1) have "8 * stream_pos s + length bs \<le> 8 * stream_size s" by simp
  from session_read [OF bs(2) s(1) this]
  obtain s' t where s': "session W s = Some (EXI_OK, s')" "startable (s'\<lparr>stream_pos := stream_pos s\<rparr>)"
    "unread (reset_in (s'\<lparr>stream_pos := stream_pos s\<rparr>)) = bs @ t" by blast
  obtain st' where "rd.takes (D (st, a)) bs (st', r)" using bs(4) by blast
  from rd.takesD [OF this reset_in_simps(1) [OF s'(2)] s'(3)] s'(1) bs(3)
  show ?thesis by (fastforce simp: comes_back_def)
qed

text \<open>A struct arrives: from \<open>s\<close>, whatever the reader's struct and static variables hold before.\<close>

definition arrives ::
  "(bitstream \<Rightarrow> 'a \<Rightarrow> (errn \<times> bitstream) option) \<Rightarrow> (u32 \<Rightarrow> 'a decoder) \<Rightarrow> ('a \<Rightarrow> 'a \<Rightarrow> bool) \<Rightarrow>
   bitstream \<Rightarrow> 'a \<Rightarrow> bool" where
  "arrives enc dec same s v \<longleftrightarrow>
     (\<forall>j st a. comes_back (\<lambda>s. enc s v) (dec j (st, a)) s (\<lambda>w. same v (snd w)))"

lemma reads_arrives:
  "(\<And>j a. reads n (\<lambda>s. enc s v) (dec j) a (same v)) \<Longrightarrow> startable s \<Longrightarrow>
   8 * stream_pos s + n \<le> 8 * stream_size s \<Longrightarrow> arrives enc dec same s v"
  unfolding arrives_def by (blast intro: reads_comes_back)

subsection \<open>Two machines that walk together\<close>

text \<open>
  One step of the two machines from the grammar number \<open>g\<close>, the encoder's data \<open>x\<close> and the decoder's
  struct \<open>a\<close>: either both end, and the struct is what was promised, or both go on to the same grammar
  number, where the invariant \<open>ok_at\<close> holds of it. The bits of a step come out of \<open>rank\<close>, the bits left to be written,
  which must get less.
\<close>

text \<open>\<open>goes es g x m r\<close>: where \<open>m\<close> succeeds, the step of \<open>es\<close> writes the same and is left as \<open>r\<close> says.\<close>

definition goes :: "'x machine \<Rightarrow> nat \<Rightarrow> 'x \<Rightarrow> (bitstream \<Rightarrow> (errn \<times> bitstream) option) \<Rightarrow> bool \<times> nat \<times> 'x \<Rightarrow> bool" where
  "goes es g x m r \<longleftrightarrow> (\<forall>s s'. m s = Some (EXI_OK, s') \<longrightarrow> es g x s = Some (EXI_OK, r, s'))"

lemma goes_goto: "(\<And>s. es g x s = goto g' y (m s)) \<Longrightarrow> goes es g x m (False, g', y)"
  by (simp add: goes_def goto_def)

lemma goes_finish: "(\<And>s. es g x s = finish g' y (m s)) \<Longrightarrow> goes es g x m (True, g', y)"
  by (simp add: goes_def finish_def)

lemma emits_run_done:
  "goes es g x m (True, g', y) \<Longrightarrow> wr.emits m bs \<Longrightarrow> wr.emits (\<lambda>s. run_encoder es g x s) bs"
  unfolding wr.emits_def by (fastforce simp: goes_def run_encoder_def grammar_loop.simps [of es g])

lemma emits_run_next:
  assumes go: "goes es g x m (False, g', y)" and m: "wr.emits m bs"
    and rest: "wr.emits (\<lambda>s. run_encoder es g' y s) cs"
  shows "wr.emits (\<lambda>s. run_encoder es g x s) (bs @ cs)"
proof -
  have step: "run_encoder es g x s = Some (EXI_OK, s')"
    if *: "(do { (e, s1) \<leftarrow> m s; if e = EXI_OK then run_encoder es g' y s1 else Some (e, s1) }) = Some (EXI_OK, s')" for s s'
  proof -
    obtain s1 where s1: "m s = Some (EXI_OK, s1)" "run_encoder es g' y s1 = Some (EXI_OK, s')"
      using * by (auto split: Option.bind_splits if_splits)
    have "es g x s = Some (EXI_OK, (False, g', y), s1)" using go s1(1) by (simp add: goes_def)
    with s1(2) show ?thesis by (simp add: run_encoder_def grammar_loop.simps [of es g])
  qed
  show ?thesis unfolding wr.emits_def
  proof (intro allI impI)
    fix s assume "wf_out s" "(length (written s) + length (bs @ cs)) div 8 \<le> stream_size s"
    from wr.emitsD [OF wr.emits_then [OF m rest] this] step
    show "\<exists>s'. run_encoder es g x s = Some (EXI_OK, s') \<and> wf_out s' \<and> stream_size s' = stream_size s \<and>
        written s' = written s @ bs @ cs" by blast
  qed
qed

definition walks ::
  "'x machine \<Rightarrow> (dec_static \<times> 'a) machine \<Rightarrow> (nat \<Rightarrow> 'x \<Rightarrow> 'a \<Rightarrow> bool) \<Rightarrow> (nat \<Rightarrow> 'x \<Rightarrow> nat) \<Rightarrow> ('a \<Rightarrow> bool) \<Rightarrow>
   nat \<Rightarrow> 'x \<Rightarrow> 'a \<Rightarrow> bool" where
  "walks es ds ok_at rank good g x a \<longleftrightarrow>
     (\<exists>m bs g' y. length bs \<le> rank g x \<and> good a \<and> goes es g x m (True, g', y) \<and> wr.emits m bs \<and>
        (\<forall>st. \<exists>st'. rd.takes (ds g (st, a)) bs (True, g', st', a))) \<or>
     (\<exists>m bs g' y b. length bs + rank g' y \<le> rank g x \<and> rank g' y < rank g x \<and> ok_at g' y b \<and>
        goes es g x m (False, g', y) \<and> wr.emits m bs \<and>
        (\<forall>st. \<exists>st'. rd.takes (ds g (st, a)) bs (False, g', st', b)))"

locale walking_pair =
  fixes es :: "'x machine"
    and ds :: "(dec_static \<times> 'a) machine"
    and ok_at :: "nat \<Rightarrow> 'x \<Rightarrow> 'a \<Rightarrow> bool"
    and rank :: "nat \<Rightarrow> 'x \<Rightarrow> nat"
    and good :: "'a \<Rightarrow> bool"
  assumes walk: "ok_at g x a \<Longrightarrow> walks es ds ok_at rank good g x a"
begin

lemma walk_reads: "ok_at g x a \<Longrightarrow> reads (rank g x) (\<lambda>s. run_encoder es g x s) (grammar_loop ds g) a good"
proof (induction "rank g x" arbitrary: g x a rule: less_induct)
  case less
  from walk [OF less.prems] consider
    (finish) m bs g' y where "length bs \<le> rank g x" "good a" "goes es g x m (True, g', y)" "wr.emits m bs"
      "\<forall>st. \<exists>st'. rd.takes (ds g (st, a)) bs (True, g', st', a)"
  | (goto) m bs g' y b where "length bs + rank g' y \<le> rank g x" "rank g' y < rank g x" "ok_at g' y b"
      "goes es g x m (False, g', y)" "wr.emits m bs"
      "\<forall>st. \<exists>st'. rd.takes (ds g (st, a)) bs (False, g', st', b)"
    unfolding walks_def by blast
  then show ?case
  proof cases
    case finish
    show ?thesis
    proof (rule readsI [where r = a, OF finish(1) emits_run_done [OF finish(3,4)]])
      show "good a" by (rule finish(2))
      show "\<exists>st'. rd.takes (grammar_loop ds g (st, a)) bs (st', a)" for st
        using finish(5) takes_loop_done [of ds g "(st, a)"] by blast
    qed
  next
    case goto
    from less.hyps [OF goto(2,3)]
    obtain cs r where cs: "length cs \<le> rank g' y" "wr.emits (\<lambda>s. run_encoder es g' y s) cs" "good r"
      "\<And>st. \<exists>st'. rd.takes (grammar_loop ds g' (st, b)) cs (st', r)" by (rule readsE) blast
    show ?thesis
    proof (rule readsI [where r = r, OF _ emits_run_next [OF goto(4,5) cs(2)]])
      show "good r" by (rule cs(3))
      show "length (bs @ cs) \<le> rank g x" using goto(1) cs(1) by simp
      show "\<exists>st'. rd.takes (grammar_loop ds g (st, a)) (bs @ cs) (st', r)" for st
      proof -
        obtain st1 where 1: "rd.takes (ds g (st, a)) bs (False, g', st1, b)" using goto(6) by blast
        obtain st2 where "rd.takes (grammar_loop ds g' (st1, b)) cs (st2, r)" using cs(4) by blast
        from takes_loop_next [OF 1 this] show ?thesis by blast
      qed
    qed
  qed
qed

end

lemma emits_bit_0: "wr.emits (\<lambda>s. encodeNBitUnsignedInteger s 1 0) [False]"
  by (rule wr.writes_imp_emits [OF writes_bit_0])

lemma emits_encode_simple:
  assumes "n \<le> 8" "wr.emits m bs"
  shows "wr.emits (encode_simple n code m) (bits n code @ [False] @ bs @ [False])"
  unfolding encode_simple_def [abs_def]
  by (intro wr.emits_then wr.emits_next emits_bit_0 assms wr.writes_imp_emits [OF writes_encodeNBit])

lemma emits_encode_child:
  "n \<le> 8 \<Longrightarrow> wr.emits m bs \<Longrightarrow> wr.emits (encode_child n code m) (bits n code @ bs)"
  unfolding encode_child_def [abs_def] by (intro wr.emits_then wr.writes_imp_emits [OF writes_encodeNBit])

text \<open>The forms of a step, for an encoder that does what \<open>es\<close> says and goes on with the data \<open>y\<close>.\<close>

lemma walks_strict:
  assumes es: "goes es g x m (False, g', y)" and m: "wr.emits m (bits n code @ [False] @ bs @ [False])"
    and ds: "\<And>st s. ds g (st, a) s = decode_switch n cases g (st, a) s"
    and cs: "map_of cases code = Some k" "\<And>st s. k (st, a) s = decode_simple g g' val (st, a) s"
    and val: "\<And>st. \<exists>st'. rd.takes (val (st, a)) bs (st', b)"
    and rest: "n \<le> 8" "take_bit n code = code" "n + 2 + length bs + rank g' y \<le> rank g x"
    and "next": "ok_at g' y b"
  shows "walks es ds ok_at rank good g x a"
proof -
  have "\<exists>st'. rd.takes (ds g (st, a)) (bits n code @ [False] @ bs @ [False]) (False, g', st', b)" for st
  proof -
    obtain st1 where st1: "rd.takes (val (st\<lparr>eventCode := code\<rparr>\<lparr>eventCode := 0\<rparr>, a)) bs (st1, b)" using val by blast
    have "rd.takes (k (st\<lparr>eventCode := code\<rparr>, a)) ([False] @ bs @ [False]) (False, g', st1\<lparr>eventCode := 0\<rparr>, b)"
      using takes_decode_simple [where val = val, OF st1] cs(2) by (auto simp: rd.takes_def)
    then have "rd.takes (decode_switch n cases g (st, a)) (bits n code @ [False] @ bs @ [False])
        (False, g', st1\<lparr>eventCode := 0\<rparr>, b)"
      by (intro takes_decode_switch [OF _ _ cs(1)]) (use rest in simp_all)
    then show ?thesis using ds by (auto simp: rd.takes_def)
  qed
  moreover have "length (bits n code @ [False] @ bs @ [False]) + rank g' y \<le> rank g x" "rank g' y < rank g x"
    using rest by simp_all
  ultimately show ?thesis using "next" es m unfolding walks_def by blast
qed

lemma walks_simple:
  assumes es: "goes es g x (encode_simple n code m) (False, g', y)"
    and ds: "\<And>st s. ds g (st, a) s = decode_switch n cases g (st, a) s"
    and cs: "map_of cases code = Some k" "\<And>st s. k (st, a) s = decode_simple g g' val (st, a) s"
    and val: "reads l m val a Q"
    and rest: "n \<le> 8 \<and> take_bit n code = code \<and> n + 2 + l + rank g' y \<le> rank g x"
    and "next": "\<And>b. Q b \<Longrightarrow> ok_at g' y b"
  shows "walks es ds ok_at rank good g x a"
proof -
  obtain bs b where bs: "length bs \<le> l" "wr.emits m bs" "Q b" "\<And>st. \<exists>st'. rd.takes (val (st, a)) bs (st', b)"
    using val by (rule readsE) blast
  have e: "wr.emits (encode_simple n code m) (bits n code @ [False] @ bs @ [False])"
    using rest bs(2) by (intro emits_encode_simple) auto
  show ?thesis
  proof (rule walks_strict [where bs = bs and b = b and val = val, OF es e])
    show "ds g (st, a) s = decode_switch n cases g (st, a) s" for st s by (rule ds)
    show "map_of cases code = Some k" by (rule cs(1))
  qed (use cs(2) bs rest "next" in auto)
qed

lemma walks_child:
  assumes es: "goes es g x (encode_child n code m) (False, g', y)"
    and ds: "\<And>st s. ds g (st, a) s = decode_switch n cases g (st, a) s"
    and cs: "map_of cases code = Some k" "\<And>st s. k (st, a) s = decode_child g' val (st, a) s"
    and val: "reads l m val a Q"
    and rest: "n \<le> 8 \<and> 0 < n \<and> take_bit n code = code \<and> n + l + rank g' y \<le> rank g x"
    and "next": "\<And>b. Q b \<Longrightarrow> ok_at g' y b"
  shows "walks es ds ok_at rank good g x a"
proof -
  obtain bs b where bs: "length bs \<le> l" "wr.emits m bs" "Q b" "\<And>st. \<exists>st'. rd.takes (val (st, a)) bs (st', b)"
    using val by (rule readsE) blast
  have "\<exists>st'. rd.takes (ds g (st, a)) (bits n code @ bs) (False, g', st', b)" for st
  proof -
    obtain st1 where st1: "rd.takes (val (st\<lparr>eventCode := code\<rparr>, a)) bs (st1, b)" using bs(4) by blast
    have "rd.takes (k (st\<lparr>eventCode := code\<rparr>, a)) bs (False, g', st1, b)"
      using takes_decode_child [where val = val, OF st1] cs(2) by (auto simp: rd.takes_def)
    then have "rd.takes (decode_switch n cases g (st, a)) (bits n code @ bs) (False, g', st1, b)"
      by (intro takes_decode_switch [OF _ _ cs(1)]) (use rest in simp_all)
    then show ?thesis using ds by (auto simp: rd.takes_def)
  qed
  moreover have "wr.emits (encode_child n code m) (bits n code @ bs)"
    using rest bs(2) by (intro emits_encode_child) auto
  moreover have "length (bits n code @ bs) + rank g' y \<le> rank g x" "rank g' y < rank g x"
    using rest bs(1) by simp_all
  ultimately show ?thesis using "next" [OF bs(3)] es unfolding walks_def by blast
qed

lemma walks_end:
  assumes es: "goes es g x (\<lambda>s. encodeNBitUnsignedInteger s n code) (True, g', y)"
    and ds: "\<And>st s. ds g (st, a) s = decode_switch n cases g (st, a) s"
    and cs: "map_of cases code = Some (decode_end g')"
    and rest: "n \<le> 8 \<and> take_bit n code = code \<and> n \<le> rank g x \<and> good a"
  shows "walks es ds ok_at rank good g x a"
proof -
  have "\<exists>st'. rd.takes (ds g (st, a)) (bits n code) (True, g', st', a)" for st
  proof -
    have "rd.takes (decode_switch n cases g (st, a)) (bits n code @ []) (True, g', st\<lparr>eventCode := code\<rparr>, a)"
      by (rule takes_decode_switch [OF _ _ cs takes_decode_end]) (use rest in simp_all)
    then show ?thesis using ds by (auto simp: rd.takes_def)
  qed
  moreover have "wr.emits (\<lambda>s. encodeNBitUnsignedInteger s n code) (bits n code)"
    using rest by (intro wr.writes_imp_emits writes_encodeNBit) auto
  moreover have "length (bits n code) \<le> rank g x" using rest by simp
  ultimately show ?thesis using rest es unfolding walks_def by blast
qed

text \<open>Most encoders keep no data but the grammar number.\<close>

definition hops ::
  "unit machine \<Rightarrow> (dec_static \<times> 'a) machine \<Rightarrow> (nat \<Rightarrow> 'a \<Rightarrow> bool) \<Rightarrow> (nat \<Rightarrow> nat) \<Rightarrow> ('a \<Rightarrow> bool) \<Rightarrow>
   nat \<Rightarrow> 'a \<Rightarrow> bool" where
  "hops es ds ok_at rank good g a = walks es ds (\<lambda>g _. ok_at g) (\<lambda>g _. rank g) good g () a"

locale paired_machines =
  fixes es :: "unit machine"
    and ds :: "(dec_static \<times> 'a) machine"
    and ok_at :: "nat \<Rightarrow> 'a \<Rightarrow> bool"
    and rank :: "nat \<Rightarrow> nat"
    and good :: "'a \<Rightarrow> bool"
  assumes hop: "ok_at g a \<Longrightarrow> hops es ds ok_at rank good g a"

sublocale paired_machines \<subseteq> plain: walking_pair es ds "\<lambda>g _. ok_at g" "\<lambda>g _. rank g" good
  using hop by unfold_locales (simp add: hops_def)

context paired_machines
begin

lemma machine_reads: "ok_at g a \<Longrightarrow> reads (rank g) (\<lambda>s. run_encoder es g () s) (grammar_loop ds g) a good"
  by (rule plain.walk_reads)

end

lemma hops_simple:
  assumes es: "\<And>s. es g () s = goto g' () (encode_simple n code m s)"
    and ds: "\<And>st s. ds g (st, a) s = decode_switch n cases g (st, a) s"
    and cs: "map_of cases code = Some (decode_simple g g' val)"
    and val: "reads k m val a Q"
    and rest: "n \<le> 8 \<and> take_bit n code = code \<and> n + 2 + k + rank g' \<le> rank g"
    and "next": "\<And>b. Q b \<Longrightarrow> ok_at g' b"
  shows "hops es ds ok_at rank good g a"
  unfolding hops_def
  by (rule walks_simple [where m = m and val = val]) (rule goes_goto es ds cs refl val rest "next" | assumption)+

lemma hops_child:
  assumes es: "\<And>s. es g () s = goto g' () (encode_child n code m s)"
    and ds: "\<And>st s. ds g (st, a) s = decode_switch n cases g (st, a) s"
    and cs: "map_of cases code = Some (decode_child g' val)"
    and val: "reads k m val a Q"
    and rest: "n \<le> 8 \<and> 0 < n \<and> take_bit n code = code \<and> n + k + rank g' \<le> rank g"
    and "next": "\<And>b. Q b \<Longrightarrow> ok_at g' b"
  shows "hops es ds ok_at rank good g a"
  unfolding hops_def
  by (rule walks_child [where m = m and val = val]) (rule goes_goto es ds cs refl val rest "next" | assumption)+

lemma hops_end:
  assumes es: "\<And>s. es g () s = finish g' () (encodeNBitUnsignedInteger s n code)"
    and ds: "\<And>st s. ds g (st, a) s = decode_switch n cases g (st, a) s"
    and cs: "map_of cases code = Some (decode_end g')"
    and rest: "n \<le> 8 \<and> take_bit n code = code \<and> n \<le> rank g \<and> good a"
  shows "hops es ds ok_at rank good g a"
  unfolding hops_def by (rule walks_end) (rule goes_finish es ds cs rest)+

lemmas hops_intros = hops_simple hops_child hops_end

text \<open>The decoder of a type initialises the struct, then runs its machine.\<close>

lemma reads_start:
  "reads n W (grammar_loop ds g) (ini a) Q \<Longrightarrow> reads n W (\<lambda>x s. grammar_loop ds g (fst x, ini (snd x)) s) a Q"
  by (simp add: reads_def)

lemma reads_mono: "reads n W D a Q \<Longrightarrow> n \<le> m \<Longrightarrow> reads m W D a Q"
  unfolding reads_def by (meson le_trans)

end
