(* ===== verification/FieldCodecs.thy ===== *)
theory FieldCodecs
  imports Fragments
begin

section \<open>The values in the generated codecs\<close>

text \<open>
  The other forms of a value: a Boolean, an integer of a fixed width, a child of the struct. The
  arguments say where it is found and how it is stored. The decoders of signed integers leave the old
  value alone on an early error.
\<close>

definition decode_bool_field ::
  "u32 \<Rightarrow> (int \<Rightarrow> 'a \<Rightarrow> 'a) \<Rightarrow> dec_static \<times> 'a \<Rightarrow> bitstream \<Rightarrow> (errn \<times> (dec_static \<times> 'a) \<times> bitstream) option" where
  "decode_bool_field j put x s = do {
     (errn, b, s1) \<leftarrow> decodeBoolean j s;
     Some (errn, (fst x, put b (snd x)), s1)
   }"

definition decode_i16_field ::
  "u32 \<Rightarrow> ('a \<Rightarrow> u16) \<Rightarrow> (u16 \<Rightarrow> 'a \<Rightarrow> 'a) \<Rightarrow> dec_static \<times> 'a \<Rightarrow> bitstream \<Rightarrow>
    (errn \<times> (dec_static \<times> 'a) \<times> bitstream) option" where
  "decode_i16_field j get put x s = do {
     (errn, v, s1) \<leftarrow> decodeInteger16 j s (get (snd x));
     Some (errn, (fst x, put v (snd x)), s1)
   }"

definition decode_i32_field ::
  "u32 \<Rightarrow> ('a \<Rightarrow> u32) \<Rightarrow> (u32 \<Rightarrow> 'a \<Rightarrow> 'a) \<Rightarrow> dec_static \<times> 'a \<Rightarrow> bitstream \<Rightarrow>
    (errn \<times> (dec_static \<times> 'a) \<times> bitstream) option" where
  "decode_i32_field j get put x s = do {
     (errn, v, s1) \<leftarrow> decodeInteger32 j s (get (snd x));
     Some (errn, (fst x, put v (snd x)), s1)
   }"

definition decode_i64_field ::
  "u32 \<Rightarrow> ('a \<Rightarrow> u64) \<Rightarrow> (u64 \<Rightarrow> 'a \<Rightarrow> 'a) \<Rightarrow> dec_static \<times> 'a \<Rightarrow> bitstream \<Rightarrow>
    (errn \<times> (dec_static \<times> 'a) \<times> bitstream) option" where
  "decode_i64_field j get put x s = do {
     (errn, v, s1) \<leftarrow> decodeInteger64 j s (get (snd x));
     Some (errn, (fst x, put v (snd x)), s1)
   }"

definition decode_u16_field ::
  "u32 \<Rightarrow> (u16 \<Rightarrow> 'a \<Rightarrow> 'a) \<Rightarrow> dec_static \<times> 'a \<Rightarrow> bitstream \<Rightarrow> (errn \<times> (dec_static \<times> 'a) \<times> bitstream) option" where
  "decode_u16_field j put x s = do {
     (errn, v, s1) \<leftarrow> decodeUnsignedInteger16 j s;
     Some (errn, (fst x, put v (snd x)), s1)
   }"

definition decode_u64_field ::
  "u32 \<Rightarrow> (u64 \<Rightarrow> 'a \<Rightarrow> 'a) \<Rightarrow> dec_static \<times> 'a \<Rightarrow> bitstream \<Rightarrow> (errn \<times> (dec_static \<times> 'a) \<times> bitstream) option" where
  "decode_u64_field j put x s = do {
     (errn, v, s1) \<leftarrow> decodeUnsignedInteger64 j s;
     Some (errn, (fst x, put v (snd x)), s1)
   }"

definition decode_sub ::
  "(dec_static \<times> 'b \<Rightarrow> bitstream \<Rightarrow> (errn \<times> (dec_static \<times> 'b) \<times> bitstream) option) \<Rightarrow>
   ('a \<Rightarrow> 'b) \<Rightarrow> ('b \<Rightarrow> 'a \<Rightarrow> 'a) \<Rightarrow> dec_static \<times> 'a \<Rightarrow> bitstream \<Rightarrow> (errn \<times> (dec_static \<times> 'a) \<times> bitstream) option" where
  "decode_sub dec get put x s = do {
     (errn, (st, c), s1) \<leftarrow> dec (fst x, get (snd x)) s;
     Some (errn, (st, put c (snd x)), s1)
   }"

text \<open>Binary data of a schema type: the length, the check against the array, the bytes.\<close>

definition decode_bytes_field ::
  "u32 \<Rightarrow> nat \<Rightarrow> ('a \<Rightarrow> u8 list) \<Rightarrow> (u8 list \<Rightarrow> 'a \<Rightarrow> 'a) \<Rightarrow> (u16 \<Rightarrow> 'a \<Rightarrow> 'a) \<Rightarrow>
   dec_static \<times> 'a \<Rightarrow> bitstream \<Rightarrow> (errn \<times> (dec_static \<times> 'a) \<times> bitstream) option" where
  "decode_bytes_field j sz get put put_len x s = do {
     (errn, len, s1) \<leftarrow> decodeUnsignedInteger16 j s;
     let a = put_len len (snd x);
         errn = (if errn = EXI_OK then if unat len \<le> sz then EXI_OK else EXI_ERROR_OUT_OF_BYTE_BUFFER else errn)
     in if errn = EXI_OK then do {
          (errn, bs, s2) \<leftarrow> decodeBytes j s1 (ucast len) (get a);
          Some (errn, (fst x, put bs a), s2)
        }
        else Some (errn, (fst x, a), s1)
   }"

text \<open>
  A string: its length plus 2, as only misses of the string table are encoded, and its characters. The
  decoder counts the 2 off again; the array must hold a terminator behind the characters.
\<close>

definition encode_string_field :: "u8 list \<Rightarrow> u16 \<Rightarrow> bitstream \<Rightarrow> (errn \<times> bitstream) option" where
  "encode_string_field chars len s = do {
     (errn, s1) \<leftarrow> encodeUnsignedInteger16 s (len + 2);
     if errn = EXI_OK then encodeCharacters s1 chars (ucast len) else Some (errn, s1)
   }"

definition decode_string_field ::
  "u32 \<Rightarrow> nat \<Rightarrow> ('a \<Rightarrow> u8 list) \<Rightarrow> (u8 list \<Rightarrow> 'a \<Rightarrow> 'a) \<Rightarrow> (u16 \<Rightarrow> 'a \<Rightarrow> 'a) \<Rightarrow>
   dec_static \<times> 'a \<Rightarrow> bitstream \<Rightarrow> (errn \<times> (dec_static \<times> 'a) \<times> bitstream) option" where
  "decode_string_field j sz get put put_len x s = do {
     (errn, len, s1) \<leftarrow> decodeUnsignedInteger16 j s;
     let a = put_len len (snd x) in
     if errn = EXI_OK then
       if 2 \<le> len then
         let a = put_len (len - 2) a in do {
           (errn, chars, s2) \<leftarrow> decodeCharacters j s1 (ucast (len - 2)) (get a) (of_nat sz);
           Some (errn, (fst x, put chars a), s2)
         }
       else Some (EXI_ERROR_STRINGVALUES_NOT_SUPPORTED, (fst x, a), s1)
     else Some (errn, (fst x, a), s1)
   }"

text \<open>A string that an array of \<open>sz\<close> characters holds with its terminator, in ASCII.\<close>

definition string_ok :: "nat \<Rightarrow> u8 list \<Rightarrow> u16 \<Rightarrow> bool" where
  "string_ok sz chars len \<longleftrightarrow> length chars = sz \<and> unat len < sz \<and> (\<forall>c \<in> set (take (unat len) chars). c < 128)"

text \<open>The assignment \<open>isUsed = 1u\<close> behind the value of an optional element.\<close>

definition decode_used ::
  "('a \<Rightarrow> 'a) \<Rightarrow> (dec_static \<times> 'a \<Rightarrow> bitstream \<Rightarrow> (errn \<times> (dec_static \<times> 'a) \<times> bitstream) option) \<Rightarrow>
   dec_static \<times> 'a \<Rightarrow> bitstream \<Rightarrow> (errn \<times> (dec_static \<times> 'a) \<times> bitstream) option" where
  "decode_used use val x s = do {
     (errn, x, s1) \<leftarrow> val x s;
     Some (errn, (fst x, use (snd x)), s1)
   }"

definition encode_bytes_field :: "u8 list \<Rightarrow> u16 \<Rightarrow> bitstream \<Rightarrow> (errn \<times> bitstream) option" where
  "encode_bytes_field data len s = do {
     (errn, s1) \<leftarrow> encodeUnsignedInteger16 s len;
     if errn = EXI_OK then encodeBytes s1 data (ucast len) else Some (errn, s1)
   }"

text \<open>A value that the decoder stores with \<open>put\<close> and reads as \<open>v\<close>.\<close>

lemma reads_put:
  assumes "length bs \<le> n" "wr.writes W bs" "\<And>st. \<exists>st'. rd.takes (D (st, a)) bs (st', put v a)"
  shows "reads n W D a (\<lambda>b. b = put v a)"
  by (rule readsI [where r = "put v a", OF assms(1) wr.writes_imp_emits [OF assms(2)]]) (use assms(3) in simp_all)

lemma reads_bool [reads_intros]:
  "reads 1 (\<lambda>s. encodeBoolean s b) (decode_bool_field j put) a (\<lambda>c. c = put (of_bool (b \<noteq> 0)) a)"
proof (rule reads_put [OF _ writes_encodeBoolean])
  fix st
  from rd.takes_map [OF takes_decodeBoolean [of j "b \<noteq> 0"], where f = "\<lambda>_ b. (st, put b a)"]
  show "\<exists>st'. rd.takes (decode_bool_field j put (st, a)) [b \<noteq> 0] (st', put (of_bool (b \<noteq> 0)) a)"
    unfolding decode_bool_field_def [abs_def] fst_conv snd_conv by blast
qed simp

lemma reads_nbit:
  "n \<le> 8 \<and> take_bit n v = v \<Longrightarrow>
   reads n (\<lambda>s. encodeNBitUnsignedInteger s n v) (decode_nbit_field n put) a (\<lambda>c. c = put v a)"
proof (rule reads_put [OF _ writes_encodeNBit])
  fix st assume "n \<le> 8 \<and> take_bit n v = v"
  then show "\<exists>st'. rd.takes (decode_nbit_field n put (st, a)) (bits n v) (st', put v a)"
    using takes_nbit_field [of n v put st a] by auto
qed simp_all

lemma length_signed_bits: "length (integer_bits i) \<le> 8 * k + 1" if "nat (if i < 0 then - i - 1 else i) < 128 ^ k" "0 < k"
  using length_octets_le [OF that] by (simp add: integer_bits_def)

lemma reads_i16 [reads_intros]:
  "reads 25 (\<lambda>s. encodeInteger16 s v) (decode_i16_field j get put) a (\<lambda>c. c = put v a)"
proof (rule reads_put [OF _ writes_encodeInteger16])
  have "nat (if sint v < 0 then - sint v - 1 else sint v) < 128 ^ 3"
    using sint_ge [of v] sint_lt [of v] by (auto simp: nat_less_iff)
  from length_signed_bits [OF this] show "length (integer_bits (sint v)) \<le> 25" by simp
next
  fix st
  from rd.takes_map [OF takes_decodeInteger16, where f = "\<lambda>_ v. (st, put v a)"]
  show "\<exists>st'. rd.takes (decode_i16_field j get put (st, a)) (integer_bits (sint v)) (st', put v a)"
    by (auto simp: decode_i16_field_def [abs_def])
qed

lemma reads_i32 [reads_intros]:
  assumes "sint v \<noteq> - (2 ^ 31)"
  shows "reads 41 (\<lambda>s. encodeInteger32 s v) (decode_i32_field j get put) a (\<lambda>c. c = put v a)"
proof (rule reads_put [OF _ writes_encodeInteger32 [OF assms]])
  have "nat (if sint v < 0 then - sint v - 1 else sint v) < 128 ^ 5"
    using sint_ge [of v] sint_lt [of v] by (auto simp: nat_less_iff)
  from length_signed_bits [OF this] show "length (integer_bits (sint v)) \<le> 41" by simp
next
  fix st
  from rd.takes_map [OF takes_decodeInteger32 [OF assms], where f = "\<lambda>_ v. (st, put v a)"]
  show "\<exists>st'. rd.takes (decode_i32_field j get put (st, a)) (integer_bits (sint v)) (st', put v a)"
    by (auto simp: decode_i32_field_def [abs_def])
qed

lemma reads_i64 [reads_intros]:
  assumes "sint v \<noteq> - (2 ^ 63)"
  shows "reads 81 (\<lambda>s. encodeInteger64 s v) (decode_i64_field j get put) a (\<lambda>c. c = put v a)"
proof (rule reads_put [OF _ writes_encodeInteger64 [OF assms]])
  have "nat (if sint v < 0 then - sint v - 1 else sint v) < 128 ^ 10"
    using sint_ge [of v] sint_lt [of v] by (auto simp: nat_less_iff)
  from length_signed_bits [OF this] show "length (integer_bits (sint v)) \<le> 81" by simp
next
  fix st
  from rd.takes_map [OF takes_decodeInteger64 [OF assms], where f = "\<lambda>_ v. (st, put v a)"]
  show "\<exists>st'. rd.takes (decode_i64_field j get put (st, a)) (integer_bits (sint v)) (st', put v a)"
    by (auto simp: decode_i64_field_def [abs_def])
qed

lemma reads_u32 [reads_intros]:
  "v < 2 ^ 31 \<Longrightarrow> reads 40 (\<lambda>s. encodeUnsignedInteger32 s v) (decode_u32_field j put) a (\<lambda>c. c = put v a)"
  by (rule reads_put [OF _ writes_encodeUnsignedInteger32])
    (use takes_u32_field octets_le_5 [of "unat v"] unsigned_less [of v, where 'a = nat] in fastforce)+

text \<open>A 16-bit value takes three octets at most; its field takes them whatever \<open>f\<close> makes of it.\<close>

lemma length_u16_bits: "length (bytes_bits (octets (unat (v :: u16)))) \<le> 24"
  using unsigned_less [of v, where 'a = nat] length_octets_le [of "unat v" 3] by simp

lemma takes_u16: "rd.takes (decodeUnsignedInteger16 j) (bytes_bits (octets (unat v))) v"
  using takes_decodeUnsignedInteger16 [of "unat v" j] unsigned_less [of v, where 'a = nat] by simp

lemma reads_u16 [reads_intros]:
  "reads 24 (\<lambda>s. encodeUnsignedInteger16 s v) (decode_u16_field j put) a (\<lambda>c. c = put v a)"
proof (rule reads_put [OF length_u16_bits writes_encodeUnsignedInteger16])
  fix st
  from rd.takes_map [OF takes_u16, where f = "\<lambda>_ v. (st, put v a)"]
  show "\<exists>st'. rd.takes (decode_u16_field j put (st, a)) (bytes_bits (octets (unat v))) (st', put v a)"
    by (auto simp: decode_u16_field_def [abs_def])
qed

lemma reads_u64 [reads_intros]:
  "reads 80 (\<lambda>s. encodeUnsignedInteger64 s v) (decode_u64_field j put) a (\<lambda>c. c = put v a)"
proof (rule reads_put [OF _ writes_encodeUnsignedInteger64])
  show "length (bytes_bits (octets (unat v))) \<le> 80"
    using unsigned_less [of v, where 'a = nat] octets_le_10 [of "unat v"] by simp
  fix st
  have "rd.takes (decodeUnsignedInteger64 j) (bytes_bits (octets (unat v))) v"
    using takes_decodeUnsignedInteger64 [of "unat v" j] unsigned_less [of v, where 'a = nat] by simp
  from rd.takes_map [OF this, where f = "\<lambda>_ v. (st, put v a)"]
  show "\<exists>st'. rd.takes (decode_u64_field j put (st, a)) (bytes_bits (octets (unat v))) (st', put v a)"
    by (auto simp: decode_u64_field_def [abs_def])
qed

lemma unat_ucast16_64: "unat (ucast (v :: u16) :: u64) = unat v"
  by (simp add: unsigned_ucast_eq take_bit_nat_eq_self_iff order_less_trans [OF unsigned_less [of v, where 'a = nat]])

lemma reads_bytes [reads_intros]:
  assumes "unat len \<le> sz \<and> length data = sz \<and> length (get (put_len len a)) = sz"
  shows "reads (24 + 8 * sz) (encode_bytes_field data len) (decode_bytes_field j sz get put put_len) a
    (\<lambda>c. \<exists>cs. length cs = sz \<and> take (unat len) cs = take (unat len) data \<and> c = put cs (put_len len a))"
proof -
  let ?a = "put_len len a" and ?xs = "take (unat len) data"
  have len: "length ?xs = unat len" "of_nat (length ?xs) = (ucast len :: u64)" "length ?xs \<le> length (get ?a)"
    using assms by (auto simp: unsigned_of_nat word_unat_eq_iff unat_ucast16_64)
  have small: "length ?xs < 2 ^ 64" using unsigned_less [of len, where 'a = nat] len(1) by simp
  show ?thesis
  proof (rule readsI [where r = "put (?xs @ drop (unat len) (get ?a)) ?a"])
    show "length (bytes_bits (octets (unat len)) @ bytes_bits ?xs) \<le> 24 + 8 * sz"
      using length_u16_bits [of len] assms by simp
    have "wr.writes (\<lambda>s. encodeBytes s data (ucast len)) (bytes_bits ?xs)"
      using writes_encodeBytes [of "ucast len" data] assms by (simp add: unat_ucast16_64)
    then have "wr.writes (encode_bytes_field data len) (bytes_bits (octets (unat len)) @ bytes_bits ?xs)"
      unfolding encode_bytes_field_def [abs_def] by (intro wr.writes_then writes_encodeUnsignedInteger16)
    then show "wr.emits (encode_bytes_field data len) (bytes_bits (octets (unat len)) @ bytes_bits ?xs)"
      by (rule wr.writes_imp_emits)
    fix st :: dec_static
    have "rd.takes (\<lambda>s. decodeBytes j s (ucast len) (get ?a)) (bytes_bits ?xs) (?xs @ drop (unat len) (get ?a))"
      using takes_decodeBytes [OF len(3) small, of j] len(1,2) by simp
    from rd.takes_map [OF this, where f = "\<lambda>_ bs. (st, put bs ?a)"]
    have "rd.takes (\<lambda>s. if unat len \<le> sz then do {
         (errn, bs, s2) \<leftarrow> decodeBytes j s (ucast len) (get ?a); Some (errn, (st, put bs ?a), s2) }
       else Some (EXI_ERROR_OUT_OF_BYTE_BUFFER, (st, ?a), s)) (bytes_bits ?xs)
       (st, put (?xs @ drop (unat len) (get ?a)) ?a)" using assms by simp
    from rd.takes_then [where k = "\<lambda>l s. if unat l \<le> sz then do {
         (errn, bs, s2) \<leftarrow> decodeBytes j s (ucast l) (get (put_len l a)); Some (errn, (st, put bs (put_len l a)), s2) }
       else Some (EXI_ERROR_OUT_OF_BYTE_BUFFER, (st, put_len l a), s)"
       and f = "\<lambda>e l s. Some (e, (st, put_len l a), s)", OF takes_u16 this]
    have t: "rd.takes (\<lambda>s. do { (e, l, s1) \<leftarrow> decodeUnsignedInteger16 j s;
        if e = EXI_OK then if unat l \<le> sz then do {
          (errn, bs, s2) \<leftarrow> decodeBytes j s1 (ucast l) (get (put_len l a)); Some (errn, (st, put bs (put_len l a)), s2) }
        else Some (EXI_ERROR_OUT_OF_BYTE_BUFFER, (st, put_len l a), s1) else Some (e, (st, put_len l a), s1) })
      (bytes_bits (octets (unat len)) @ bytes_bits ?xs) (st, put (?xs @ drop (unat len) (get ?a)) ?a)" .
    have "decode_bytes_field j sz get put put_len (st, a) = (\<lambda>s. do { (e, l, s1) \<leftarrow> decodeUnsignedInteger16 j s;
        if e = EXI_OK then if unat l \<le> sz then do {
          (errn, bs, s2) \<leftarrow> decodeBytes j s1 (ucast l) (get (put_len l a)); Some (errn, (st, put bs (put_len l a)), s2) }
        else Some (EXI_ERROR_OUT_OF_BYTE_BUFFER, (st, put_len l a), s1) else Some (e, (st, put_len l a), s1) })"
      by (rule ext) (auto simp: decode_bytes_field_def Let_def intro!: option_bind_cong)
    with t show "\<exists>st'. rd.takes (decode_bytes_field j sz get put put_len (st, a))
       (bytes_bits (octets (unat len)) @ bytes_bits ?xs) (st', put (?xs @ drop (unat len) (get ?a)) ?a)"
      by (simp only:) blast
    have "length (?xs @ drop (unat len) (get ?a)) = sz" using assms by simp
    moreover have "take (unat len) (?xs @ drop (unat len) (get ?a)) = ?xs" using len by simp
    ultimately show "\<exists>cs. length cs = sz \<and> take (unat len) cs = ?xs \<and>
        put (?xs @ drop (unat len) (get ?a)) ?a = put cs ?a" by blast
  qed
qed

lemma unat_add_2: "unat (len + 2) = unat len + 2" if "unat len < 60000" for len :: u16
  using that by (subst unat_add_lem [THEN iffD1]) simp_all

lemma reads_string_exact:
  assumes ok: "string_ok sz chars len \<and> sz \<le> 60000 \<and> length (get (put_len len (put_len (len + 2) a))) = sz"
  shows "reads (24 + 8 * unat len) (encode_string_field chars len) (decode_string_field j sz get put put_len) a
    (\<lambda>c. \<exists>cs. length cs = sz \<and> take (unat len) cs = take (unat len) chars \<and>
       c = put cs (put_len len (put_len (len + 2) a)))"
proof -
  let ?b = "put_len len (put_len (len + 2) a)" and ?xs = "take (unat len) chars"
  have l: "unat len < sz" "length chars = sz" "\<forall>c\<in>set ?xs. c < 128" "length (get ?b) = sz" "sz \<le> 60000"
    using ok by (simp_all add: string_ok_def)
  have xs: "length ?xs = unat len" "of_nat (length ?xs) = (ucast len :: u64)"
    using l by (auto simp: word_unat_eq_iff unat_ucast16_64 unat_of_nat)
  have unat_sz: "unat (of_nat sz :: u64) = sz" using l(5) by (simp add: unat_of_nat)
  have ge: "2 \<le> len + 2" "len + 2 - 2 = len" using unat_add_2 [of len] l by (simp_all add: word_le_nat_alt)
  let ?r = "put (?xs @ 0 # drop (Suc (unat len)) (get ?b)) ?b"
  show ?thesis
  proof (rule readsI [where r = ?r])
    show "length (bytes_bits (octets (unat (len + 2))) @ bytes_bits ?xs) \<le> 24 + 8 * unat len"
      using length_u16_bits [of "len + 2"] l by simp
    have "wr.writes (\<lambda>s. encodeCharacters s chars (ucast len)) (bytes_bits ?xs)"
      using writes_encodeCharacters [of "ucast len" chars] l by (simp add: unat_ucast16_64)
    then have "wr.writes (encode_string_field chars len) (bytes_bits (octets (unat (len + 2))) @ bytes_bits ?xs)"
      unfolding encode_string_field_def [abs_def] by (intro wr.writes_then writes_encodeUnsignedInteger16)
    then show "wr.emits (encode_string_field chars len) (bytes_bits (octets (unat (len + 2))) @ bytes_bits ?xs)"
      by (rule wr.writes_imp_emits)
    fix st :: dec_static
    have "rd.takes (\<lambda>s. decodeCharacters j s (ucast len) (get ?b) (of_nat sz)) (bytes_bits ?xs)
        (?xs @ 0 # drop (Suc (unat len)) (get ?b))"
      using takes_decodeCharacters [of "of_nat sz" "get ?b" ?xs j] l xs unat_sz by (simp add: holds_def)
    from rd.takes_map [OF this, where f = "\<lambda>_ cs. (st, put cs ?b)"]
    have "rd.takes (\<lambda>s. if 2 \<le> len + 2 then do {
         (errn, cs, s2) \<leftarrow> decodeCharacters j s (ucast (len + 2 - 2)) (get (put_len (len + 2 - 2) (put_len (len + 2) a))) (of_nat sz);
         Some (errn, (st, put cs (put_len (len + 2 - 2) (put_len (len + 2) a))), s2) }
       else Some (EXI_ERROR_STRINGVALUES_NOT_SUPPORTED, (st, put_len (len + 2) a), s)) (bytes_bits ?xs) (st, ?r)"
      by (simp only: ge if_True)
    from rd.takes_then [where k = "\<lambda>l s. if 2 \<le> l then do {
         (errn, cs, s2) \<leftarrow> decodeCharacters j s (ucast (l - 2)) (get (put_len (l - 2) (put_len l a))) (of_nat sz);
         Some (errn, (st, put cs (put_len (l - 2) (put_len l a))), s2) }
       else Some (EXI_ERROR_STRINGVALUES_NOT_SUPPORTED, (st, put_len l a), s)"
       and f = "\<lambda>e l s. Some (e, (st, put_len l a), s)", OF takes_u16 this]
    show "\<exists>st'. rd.takes (decode_string_field j sz get put put_len (st, a))
       (bytes_bits (octets (unat (len + 2))) @ bytes_bits ?xs) (st', ?r)"
      unfolding decode_string_field_def [abs_def] Let_def fst_conv snd_conv by blast
    have "length (?xs @ 0 # drop (Suc (unat len)) (get ?b)) = sz" using l by simp
    moreover have "take (unat len) (?xs @ 0 # drop (Suc (unat len)) (get ?b)) = ?xs" using xs by simp
    ultimately show "\<exists>cs. length cs = sz \<and> take (unat len) cs = ?xs \<and> ?r = put cs ?b" by blast
  qed
qed

lemma reads_string [reads_intros]:
  assumes ok: "string_ok sz chars len \<and> sz \<le> 60000 \<and> length (get (put_len len (put_len (len + 2) a))) = sz"
  shows "reads (24 + 8 * sz) (encode_string_field chars len) (decode_string_field j sz get put put_len) a
    (\<lambda>c. \<exists>cs. length cs = sz \<and> take (unat len) cs = take (unat len) chars \<and>
       c = put cs (put_len len (put_len (len + 2) a)))"
  by (rule reads_mono, rule reads_string_exact, rule ok) (use ok in \<open>simp add: string_ok_def\<close>)

lemma reads_sub [reads_intros]:
  assumes "reads n W dec (get a) Q"
  shows "reads n W (decode_sub dec get put) a (\<lambda>b. \<exists>c. Q c \<and> b = put c a)"
proof -
  obtain bs c where bs: "length bs \<le> n" "wr.emits W bs" "Q c" "\<And>st. \<exists>st'. rd.takes (dec (st, get a)) bs (st', c)"
    using assms by (rule readsE) blast
  show ?thesis
  proof (rule readsI [OF bs(1,2), where r = "put c a"])
    fix st
    obtain st' where "rd.takes (dec (st, get a)) bs (st', c)" using bs(4) by blast
    from rd.takes_map [OF this, where f = "\<lambda>_ x. (fst x, put (snd x) a)"]
    show "\<exists>st'. rd.takes (decode_sub dec get put (st, a)) bs (st', put c a)"
      by (auto simp: decode_sub_def [abs_def] split_def)
  qed (use bs(3) in blast)
qed

lemma reads_used [reads_intros]:
  assumes "reads n W val a Q"
  shows "reads n W (decode_used use val) a (\<lambda>b. \<exists>c. Q c \<and> b = use c)"
proof -
  obtain bs c where bs: "length bs \<le> n" "wr.emits W bs" "Q c" "\<And>st. \<exists>st'. rd.takes (val (st, a)) bs (st', c)"
    using assms by (rule readsE) blast
  show ?thesis
  proof (rule readsI [OF bs(1,2), where r = "use c"])
    fix st
    obtain st' where "rd.takes (val (st, a)) bs (st', c)" using bs(4) by blast
    from rd.takes_map [OF this, where f = "\<lambda>_ x. (fst x, use (snd x))"]
    show "\<exists>st'. rd.takes (decode_used use val (st, a)) bs (st', use c)"
      by (auto simp: decode_used_def [abs_def])
  qed (use bs(3) in blast)
qed

text \<open>Facts the codecs share: an enumeration that fits its bits, and a byte through \<open>int\<close> and back.\<close>

lemma unat_power_lower32: "n < 32 \<Longrightarrow> unat (2 ^ n :: u32) = 2 ^ n"
  using unat_of_nat [of "2 ^ n", where 'a = 32] power_strict_increasing [of n 32 "2 :: nat"] by simp

lemma take_bit_less: "v < 2 ^ n \<Longrightarrow> n < 32 \<Longrightarrow> take_bit n v = v" for v :: u32
  by (simp add: word_less_nat_alt word_unat_eq_iff unsigned_take_bit_eq take_bit_nat_eq_self_iff unat_power_lower32)

lemma reads_enum [reads_intros]:
  "n \<le> 8 \<and> v < 2 ^ n \<Longrightarrow>
   reads n (\<lambda>s. encodeNBitUnsignedInteger s n v) (decode_nbit_field n put) a (\<lambda>c. c = put v a)"
  by (rule reads_nbit) (simp add: take_bit_less)

lemma ucast_ucast_u8 [simp]: "ucast (ucast x :: u32) = x" for x :: u8
  by (rule bit_word_eqI) (simp add: bit_simps)

lemma ucast_scast_u8 [simp]: "ucast (scast x :: u32) = x" for x :: u8
  by (rule bit_word_eqI) (simp add: bit_simps)

end
