(* ===== verification/DinValues.thy ===== *)
theory DinValues
  imports FieldCodecs
begin

section \<open>DIN 70121 codec: physical values and status records\<close>

text \<open>
  The codec of DIN 70121 (\<open>din/dinEXIDatatypes.h\<close>, \<open>dinEXIDatatypes.c\<close>, \<open>dinEXIDatatypesEncoder.c\<close>,
  \<open>dinEXIDatatypesDecoder.c\<close>), the types the messages of DC charging are made of. Per type of the
  schema: the struct as a record, whose fields have the name of the type in front; its \<open>init\<close>
  function; the encoder and the decoder, each the switch of the code as a step (\<open>_enc_step\<close>,
  \<open>_dec_step\<close>, cut into several definitions where the switch is long) and the function around it.
  An \<open>int8_t\<close> is a byte, an enumeration an unsigned word, a C truth value an \<open>int\<close>, a one-bit flag a
  \<open>bool\<close>; the field \<open>noContent\<close> of the empty types is never read.

  \<open>_ok\<close> says when a struct can be encoded: enumerations and bounded integers fit their bits, and of
  alternatives exactly one is in use. \<open>same_\<close> says that two structs carry the same content: unused
  elements do not count, truth values count as such. \<open>_at\<close> is the invariant of the decoder at a
  grammar number: the elements passed already are those of the encoded struct, the flags of the
  others are not set. The interpretations show that the two machines of a type walk together
  (\<open>paired_machines\<close>) and that each of them advances on any input (\<open>advancing_machine\<close>).
\<close>

subsection \<open>\<open>dinPhysicalValueType\<close>\<close>

record dinPhysicalValueType =
  PhysicalValue_Multiplier :: u8
  PhysicalValue_Unit :: u32
  PhysicalValue_Unit_isUsed :: bool
  PhysicalValue_Value :: u16

definition init_dinPhysicalValueType :: "dinPhysicalValueType \<Rightarrow> dinPhysicalValueType" where
  "init_dinPhysicalValueType a = a\<lparr>PhysicalValue_Unit_isUsed := False\<rparr>"

definition PhysicalValue_enc_step :: "dinPhysicalValueType \<Rightarrow> unit machine" where
  "PhysicalValue_enc_step v grammarID x s =
     (if grammarID = 198 then
        goto 199 x (encode_simple 1 0
          (\<lambda>s. encodeNBitUnsignedInteger s 3 (scast (PhysicalValue_Multiplier v) + 3)) s)
      else if grammarID = 199 then
        if PhysicalValue_Unit_isUsed v then
          goto 200 x (encode_simple 2 0 (\<lambda>s. encodeNBitUnsignedInteger s 4 (PhysicalValue_Unit v)) s)
        else goto 4 x (encode_simple 2 1 (\<lambda>s. encodeInteger16 s (PhysicalValue_Value v)) s)
      else if grammarID = 200 then
        goto 4 x (encode_simple 1 0 (\<lambda>s. encodeInteger16 s (PhysicalValue_Value v)) s)
      else if grammarID = 4 then
        finish 5 x (encodeNBitUnsignedInteger s 1 0)
      else Some (EXI_ERROR_UNKOWN_GRAMMAR_ID, (False, grammarID, x), s))"

definition encode_dinPhysicalValueType
    :: "bitstream \<Rightarrow> dinPhysicalValueType \<Rightarrow> (errn \<times> bitstream) option" where
  "encode_dinPhysicalValueType s v = run_encoder (PhysicalValue_enc_step v) 198 () s"

definition PhysicalValue_dec_step :: "u32 \<Rightarrow> (dec_static \<times> dinPhysicalValueType) machine" where
  "PhysicalValue_dec_step j grammarID x s =
     (if grammarID = 198 then
        decode_switch 1
         [(0, decode_simple 198 199
            (decode_nbit_field 3 (\<lambda>u a. a\<lparr>PhysicalValue_Multiplier := ucast (u - 3)\<rparr>)))] 198 x s
      else if grammarID = 199 then
        decode_switch 2
         [(0, decode_simple 199 200
            (decode_used (\<lambda>a. a\<lparr>PhysicalValue_Unit_isUsed := True\<rparr>)
              (decode_nbit_field 4 (\<lambda>u a. a\<lparr>PhysicalValue_Unit := u\<rparr>)))),
          (1, decode_simple 199 4
             (decode_i16_field j PhysicalValue_Value (\<lambda>u a. a\<lparr>PhysicalValue_Value := u\<rparr>)))] 199 x s
      else if grammarID = 200 then
        decode_switch 1
         [(0, decode_simple 200 4
            (decode_i16_field j PhysicalValue_Value (\<lambda>u a. a\<lparr>PhysicalValue_Value := u\<rparr>)))] 200 x s
      else if grammarID = 4 then
        decode_switch 1
         [(0, decode_end 5)] 4 x s
      else Some (EXI_ERROR_UNKOWN_GRAMMAR_ID, (False, grammarID, x), s))"

definition decode_dinPhysicalValueType :: "u32 \<Rightarrow> dinPhysicalValueType decoder" where
  "decode_dinPhysicalValueType j x s
      = grammar_loop (PhysicalValue_dec_step j) 198 (fst x, init_dinPhysicalValueType (snd x)) s"

definition PhysicalValue_ok :: "dinPhysicalValueType \<Rightarrow> bool" where
  "PhysicalValue_ok v \<longleftrightarrow>
     scast (PhysicalValue_Multiplier v) + 3 < (2 ^ 3 :: u32) \<and>
     (PhysicalValue_Unit_isUsed v \<longrightarrow> PhysicalValue_Unit v < 2 ^ 4)"

definition same_PhysicalValue :: "dinPhysicalValueType \<Rightarrow> dinPhysicalValueType \<Rightarrow> bool" where
  "same_PhysicalValue v a \<longleftrightarrow>
     PhysicalValue_Multiplier a = PhysicalValue_Multiplier v \<and>
     PhysicalValue_Unit_isUsed a = PhysicalValue_Unit_isUsed v \<and> (PhysicalValue_Unit_isUsed v \<longrightarrow>
       PhysicalValue_Unit a = PhysicalValue_Unit v) \<and>
     PhysicalValue_Value a = PhysicalValue_Value v"

definition PhysicalValue_at
    :: "dinPhysicalValueType \<Rightarrow> nat \<Rightarrow> dinPhysicalValueType \<Rightarrow> bool" where
  "PhysicalValue_at v g a \<longleftrightarrow>
     PhysicalValue_ok v \<and>
     g \<in> {198, 199, 200, 4} \<and>
     (g \<notin> {198} \<longrightarrow> PhysicalValue_Multiplier a = PhysicalValue_Multiplier v) \<and>
     (if g \<in> {198, 199} then \<not> PhysicalValue_Unit_isUsed a
      else PhysicalValue_Unit_isUsed a = PhysicalValue_Unit_isUsed v \<and>
        (PhysicalValue_Unit_isUsed v \<longrightarrow> PhysicalValue_Unit a = PhysicalValue_Unit v)) \<and>
     (g \<notin> {198, 199, 200} \<longrightarrow> PhysicalValue_Value a = PhysicalValue_Value v)"

lemmas PhysicalValue_steps = PhysicalValue_enc_step_def
  PhysicalValue_dec_step_def

lemmas PhysicalValue_props = PhysicalValue_at_def PhysicalValue_ok_def same_PhysicalValue_def left_at_def

interpretation PhysicalValue: paired_machines "PhysicalValue_enc_step v" "PhysicalValue_dec_step j"
    "PhysicalValue_at v"
  "left_at [(198, 43), (199, 37), (200, 29), (4, 1)]" "same_PhysicalValue v" for v j
proof
  fix g a assume at: "PhysicalValue_at v g a"
  then have "g \<in> {198, 199, 200, 4}" by (simp add: PhysicalValue_at_def)
  then have "g = 198 \<or>
      (g = 199 \<and> PhysicalValue_Unit_isUsed v) \<or>
      (g = 199 \<and> \<not> PhysicalValue_Unit_isUsed v) \<or>
      g = 200 \<or>
      g = 4"
    by (elim insertE emptyE) auto
  then show "hops (PhysicalValue_enc_step v) (PhysicalValue_dec_step j) (PhysicalValue_at v)
    (left_at [(198, 43), (199, 37), (200, 29), (4, 1)]) (same_PhysicalValue v) g a" using at
    by (elim disjE conjE)
      (rule hops_intros, simp add: PhysicalValue_steps, simp add: PhysicalValue_steps, simp, ((rule reads_intros)+)?,
        (clarsimp simp: PhysicalValue_props; fail)+)+
qed

lemma reads_PhysicalValue [reads_intros]:
  "PhysicalValue_ok v \<Longrightarrow>
      reads 43 (\<lambda>s. encode_dinPhysicalValueType s v) (decode_dinPhysicalValueType j) a (same_PhysicalValue v)"
  unfolding encode_dinPhysicalValueType_def decode_dinPhysicalValueType_def [abs_def]
  by (rule reads_start [OF PhysicalValue.machine_reads, of _ 198,
      THEN reads_mono]) (auto simp: PhysicalValue_at_def init_dinPhysicalValueType_def left_at_def)

interpretation PhysicalValue_enc: advancing_machine "PhysicalValue_enc_step v"
    "left_at [(198, 4), (199, 3), (200, 2), (4, 1)]" for v
  by unfold_locales (auto simp: PhysicalValue_steps dest!: advance_dests split: if_splits;
      simp add: left_at_def)

interpretation PhysicalValue_dec: advancing_machine "PhysicalValue_dec_step j"
    "left_at [(198, 4), (199, 3), (200, 2), (4, 1)]" for j
  by unfold_locales (auto simp: PhysicalValue_steps dest!: advance_dests elim!: decode_switch_next split: if_splits;
      simp add: left_at_def)

subsection \<open>\<open>dinDC_EVStatusType\<close>\<close>

record dinDC_EVStatusType =
  DC_EVStatus_EVReady :: int
  DC_EVStatus_EVCabinConditioning :: int
  DC_EVStatus_EVCabinConditioning_isUsed :: bool
  DC_EVStatus_EVRESSConditioning :: int
  DC_EVStatus_EVRESSConditioning_isUsed :: bool
  DC_EVStatus_EVErrorCode :: u32
  DC_EVStatus_EVRESSSOC :: u8

definition init_dinDC_EVStatusType :: "dinDC_EVStatusType \<Rightarrow> dinDC_EVStatusType" where
  "init_dinDC_EVStatusType a
      = a\<lparr>DC_EVStatus_EVCabinConditioning_isUsed := False,
        DC_EVStatus_EVRESSConditioning_isUsed := False\<rparr>"

definition DC_EVStatus_enc_step :: "dinDC_EVStatusType \<Rightarrow> unit machine" where
  "DC_EVStatus_enc_step v grammarID x s =
     (if grammarID = 193 then
        goto 194 x (encode_simple 1 0 (\<lambda>s. encodeBoolean s (DC_EVStatus_EVReady v)) s)
      else if grammarID = 194 then
        if DC_EVStatus_EVCabinConditioning_isUsed v then
          goto 195 x (encode_simple 2 0 (\<lambda>s. encodeBoolean s (DC_EVStatus_EVCabinConditioning v)) s)
        else if DC_EVStatus_EVRESSConditioning_isUsed v then
          goto 196 x (encode_simple 2 1 (\<lambda>s. encodeBoolean s (DC_EVStatus_EVRESSConditioning v)) s)
        else goto 197 x (encode_simple 2 2 (\<lambda>s. encodeNBitUnsignedInteger s 4 (DC_EVStatus_EVErrorCode v)) s)
      else if grammarID = 195 then
        if DC_EVStatus_EVRESSConditioning_isUsed v then
          goto 196 x (encode_simple 2 0 (\<lambda>s. encodeBoolean s (DC_EVStatus_EVRESSConditioning v)) s)
        else goto 197 x (encode_simple 2 1 (\<lambda>s. encodeNBitUnsignedInteger s 4 (DC_EVStatus_EVErrorCode v)) s)
      else if grammarID = 196 then
        goto 197 x (encode_simple 1 0 (\<lambda>s. encodeNBitUnsignedInteger s 4 (DC_EVStatus_EVErrorCode v)) s)
      else if grammarID = 197 then
        goto 4 x (encode_simple 1 0 (\<lambda>s. encodeNBitUnsignedInteger s 7 (scast (DC_EVStatus_EVRESSSOC v))) s)
      else if grammarID = 4 then
        finish 5 x (encodeNBitUnsignedInteger s 1 0)
      else Some (EXI_ERROR_UNKOWN_GRAMMAR_ID, (False, grammarID, x), s))"

definition encode_dinDC_EVStatusType
    :: "bitstream \<Rightarrow> dinDC_EVStatusType \<Rightarrow> (errn \<times> bitstream) option" where
  "encode_dinDC_EVStatusType s v = run_encoder (DC_EVStatus_enc_step v) 193 () s"

definition DC_EVStatus_dec_step_2 :: "u32 \<Rightarrow> (dec_static \<times> dinDC_EVStatusType) machine" where
  "DC_EVStatus_dec_step_2 j grammarID x s =
     (if grammarID = 195 then
        decode_switch 2
         [(0, decode_simple 195 196
            (decode_used (\<lambda>a. a\<lparr>DC_EVStatus_EVRESSConditioning_isUsed := True\<rparr>)
              (decode_bool_field j (\<lambda>u a. a\<lparr>DC_EVStatus_EVRESSConditioning := u\<rparr>)))),
          (1, decode_simple 195 197
             (decode_nbit_field 4 (\<lambda>u a. a\<lparr>DC_EVStatus_EVErrorCode := u\<rparr>)))] 195 x s
      else if grammarID = 196 then
        decode_switch 1
         [(0, decode_simple 196 197
            (decode_nbit_field 4 (\<lambda>u a. a\<lparr>DC_EVStatus_EVErrorCode := u\<rparr>)))] 196 x s
      else if grammarID = 197 then
        decode_switch 1
         [(0, decode_simple 197 4
            (decode_nbit_field 7 (\<lambda>u a. a\<lparr>DC_EVStatus_EVRESSSOC := ucast u\<rparr>)))] 197 x s
      else if grammarID = 4 then
        decode_switch 1
         [(0, decode_end 5)] 4 x s
      else Some (EXI_ERROR_UNKOWN_GRAMMAR_ID, (False, grammarID, x), s))"

definition DC_EVStatus_dec_step :: "u32 \<Rightarrow> (dec_static \<times> dinDC_EVStatusType) machine" where
  "DC_EVStatus_dec_step j grammarID x s =
     (if grammarID = 193 then
        decode_switch 1
         [(0, decode_simple 193 194
            (decode_bool_field j (\<lambda>u a. a\<lparr>DC_EVStatus_EVReady := u\<rparr>)))] 193 x s
      else if grammarID = 194 then
        decode_switch 2
         [(0, decode_simple 194 195
            (decode_used (\<lambda>a. a\<lparr>DC_EVStatus_EVCabinConditioning_isUsed := True\<rparr>)
              (decode_bool_field j (\<lambda>u a. a\<lparr>DC_EVStatus_EVCabinConditioning := u\<rparr>)))),
          (1, decode_simple 194 196
             (decode_used (\<lambda>a. a\<lparr>DC_EVStatus_EVRESSConditioning_isUsed := True\<rparr>)
               (decode_bool_field j (\<lambda>u a. a\<lparr>DC_EVStatus_EVRESSConditioning := u\<rparr>)))),
          (2, decode_simple 194 197
             (decode_nbit_field 4 (\<lambda>u a. a\<lparr>DC_EVStatus_EVErrorCode := u\<rparr>)))] 194 x s
      else DC_EVStatus_dec_step_2 j grammarID x s)"

definition decode_dinDC_EVStatusType :: "u32 \<Rightarrow> dinDC_EVStatusType decoder" where
  "decode_dinDC_EVStatusType j x s
      = grammar_loop (DC_EVStatus_dec_step j) 193 (fst x, init_dinDC_EVStatusType (snd x)) s"

definition DC_EVStatus_ok :: "dinDC_EVStatusType \<Rightarrow> bool" where
  "DC_EVStatus_ok v \<longleftrightarrow>
     DC_EVStatus_EVErrorCode v < 2 ^ 4 \<and>
     scast (DC_EVStatus_EVRESSSOC v) < (2 ^ 7 :: u32)"

definition same_DC_EVStatus :: "dinDC_EVStatusType \<Rightarrow> dinDC_EVStatusType \<Rightarrow> bool" where
  "same_DC_EVStatus v a \<longleftrightarrow>
     (DC_EVStatus_EVReady a \<noteq> 0) = (DC_EVStatus_EVReady v \<noteq> 0) \<and>
     DC_EVStatus_EVCabinConditioning_isUsed a = DC_EVStatus_EVCabinConditioning_isUsed v \<and>
       (DC_EVStatus_EVCabinConditioning_isUsed v \<longrightarrow>
         (DC_EVStatus_EVCabinConditioning a \<noteq> 0) = (DC_EVStatus_EVCabinConditioning v \<noteq> 0)) \<and>
     DC_EVStatus_EVRESSConditioning_isUsed a = DC_EVStatus_EVRESSConditioning_isUsed v \<and>
       (DC_EVStatus_EVRESSConditioning_isUsed v \<longrightarrow>
         (DC_EVStatus_EVRESSConditioning a \<noteq> 0) = (DC_EVStatus_EVRESSConditioning v \<noteq> 0)) \<and>
     DC_EVStatus_EVErrorCode a = DC_EVStatus_EVErrorCode v \<and>
     DC_EVStatus_EVRESSSOC a = DC_EVStatus_EVRESSSOC v"

definition DC_EVStatus_at
    :: "dinDC_EVStatusType \<Rightarrow> nat \<Rightarrow> dinDC_EVStatusType \<Rightarrow> bool" where
  "DC_EVStatus_at v g a \<longleftrightarrow>
     DC_EVStatus_ok v \<and>
     g \<in> {193, 194, 195, 196, 197, 4} \<and>
     (g \<notin> {193} \<longrightarrow>
       (DC_EVStatus_EVReady a \<noteq> 0) = (DC_EVStatus_EVReady v \<noteq> 0)) \<and>
     (if g \<in> {193, 194} then \<not> DC_EVStatus_EVCabinConditioning_isUsed a
      else DC_EVStatus_EVCabinConditioning_isUsed a = DC_EVStatus_EVCabinConditioning_isUsed v \<and>
        (DC_EVStatus_EVCabinConditioning_isUsed v \<longrightarrow>
          (DC_EVStatus_EVCabinConditioning a \<noteq> 0) = (DC_EVStatus_EVCabinConditioning v \<noteq> 0))) \<and>
     (if g \<in> {193, 194, 195} then \<not> DC_EVStatus_EVRESSConditioning_isUsed a
      else DC_EVStatus_EVRESSConditioning_isUsed a = DC_EVStatus_EVRESSConditioning_isUsed v \<and>
        (DC_EVStatus_EVRESSConditioning_isUsed v \<longrightarrow>
          (DC_EVStatus_EVRESSConditioning a \<noteq> 0) = (DC_EVStatus_EVRESSConditioning v \<noteq> 0))) \<and>
     (g \<notin> {193, 194, 195, 196} \<longrightarrow> DC_EVStatus_EVErrorCode a = DC_EVStatus_EVErrorCode v) \<and>
     (g \<notin> {193, 194, 195, 196, 197} \<longrightarrow> DC_EVStatus_EVRESSSOC a = DC_EVStatus_EVRESSSOC v)"

lemmas DC_EVStatus_steps = DC_EVStatus_enc_step_def
  DC_EVStatus_dec_step_def DC_EVStatus_dec_step_2_def

lemmas DC_EVStatus_props = DC_EVStatus_at_def DC_EVStatus_ok_def same_DC_EVStatus_def left_at_def

interpretation DC_EVStatus: paired_machines "DC_EVStatus_enc_step v" "DC_EVStatus_dec_step j" "DC_EVStatus_at v"
  "left_at [(193, 32), (194, 28), (195, 23), (196, 18), (197, 11), (4, 1)]" "same_DC_EVStatus v" for v j
proof
  fix g a assume at: "DC_EVStatus_at v g a"
  then have "g \<in> {193, 194, 195, 196, 197, 4}" by (simp add: DC_EVStatus_at_def)
  then have "g = 193 \<or>
      (g = 194 \<and> DC_EVStatus_EVCabinConditioning_isUsed v) \<or>
      (g = 194 \<and> \<not> DC_EVStatus_EVCabinConditioning_isUsed v \<and>
        DC_EVStatus_EVRESSConditioning_isUsed v) \<or>
      (g = 194 \<and> \<not> DC_EVStatus_EVCabinConditioning_isUsed v \<and>
        \<not> DC_EVStatus_EVRESSConditioning_isUsed v) \<or>
      (g = 195 \<and> DC_EVStatus_EVRESSConditioning_isUsed v) \<or>
      (g = 195 \<and> \<not> DC_EVStatus_EVRESSConditioning_isUsed v) \<or>
      g = 196 \<or>
      g = 197 \<or>
      g = 4"
    by (elim insertE emptyE) auto
  then show "hops (DC_EVStatus_enc_step v) (DC_EVStatus_dec_step j) (DC_EVStatus_at v)
    (left_at [(193, 32), (194, 28), (195, 23), (196, 18), (197, 11), (4, 1)]) (same_DC_EVStatus v) g a" using at
    by (elim disjE conjE)
      (rule hops_intros, simp add: DC_EVStatus_steps, simp add: DC_EVStatus_steps, simp, ((rule reads_intros)+)?,
        (clarsimp simp: DC_EVStatus_props; fail)+)+
qed

lemma reads_DC_EVStatus [reads_intros]:
  "DC_EVStatus_ok v \<Longrightarrow>
      reads 32 (\<lambda>s. encode_dinDC_EVStatusType s v) (decode_dinDC_EVStatusType j) a (same_DC_EVStatus v)"
  unfolding encode_dinDC_EVStatusType_def decode_dinDC_EVStatusType_def [abs_def]
  by (rule reads_start [OF DC_EVStatus.machine_reads, of _ 193,
      THEN reads_mono]) (auto simp: DC_EVStatus_at_def init_dinDC_EVStatusType_def left_at_def)

interpretation DC_EVStatus_enc: advancing_machine "DC_EVStatus_enc_step v"
    "left_at [(193, 6), (194, 5), (195, 4), (196, 3), (197, 2), (4, 1)]" for v
  by unfold_locales (auto simp: DC_EVStatus_steps dest!: advance_dests split: if_splits;
      simp add: left_at_def)

interpretation DC_EVStatus_dec: advancing_machine "DC_EVStatus_dec_step j"
    "left_at [(193, 6), (194, 5), (195, 4), (196, 3), (197, 2), (4, 1)]" for j
  by unfold_locales (auto simp: DC_EVStatus_steps dest!: advance_dests elim!: decode_switch_next split: if_splits;
      simp add: left_at_def)

subsection \<open>\<open>dinEVSEStatusType\<close>\<close>

record dinEVSEStatusType =
  EVSEStatus_noContent :: int

definition init_dinEVSEStatusType :: "dinEVSEStatusType \<Rightarrow> dinEVSEStatusType" where
  "init_dinEVSEStatusType a = a"

definition EVSEStatus_enc_step :: "dinEVSEStatusType \<Rightarrow> unit machine" where
  "EVSEStatus_enc_step v grammarID x s =
     (if grammarID = 64 then
        finish 5 x (encodeNBitUnsignedInteger s 1 0)
      else Some (EXI_ERROR_UNKOWN_GRAMMAR_ID, (False, grammarID, x), s))"

definition encode_dinEVSEStatusType
    :: "bitstream \<Rightarrow> dinEVSEStatusType \<Rightarrow> (errn \<times> bitstream) option" where
  "encode_dinEVSEStatusType s v = run_encoder (EVSEStatus_enc_step v) 64 () s"

definition EVSEStatus_dec_step :: "u32 \<Rightarrow> (dec_static \<times> dinEVSEStatusType) machine" where
  "EVSEStatus_dec_step j grammarID x s =
     (if grammarID = 64 then
        decode_switch 1
         [(0, decode_end 5)] 64 x s
      else Some (EXI_ERROR_UNKOWN_GRAMMAR_ID, (False, grammarID, x), s))"

definition decode_dinEVSEStatusType :: "u32 \<Rightarrow> dinEVSEStatusType decoder" where
  "decode_dinEVSEStatusType j x s = grammar_loop (EVSEStatus_dec_step j) 64 (fst x, init_dinEVSEStatusType (snd x)) s"

definition same_EVSEStatus :: "dinEVSEStatusType \<Rightarrow> dinEVSEStatusType \<Rightarrow> bool" where
  "same_EVSEStatus v a \<longleftrightarrow>
     True"

definition EVSEStatus_at
    :: "dinEVSEStatusType \<Rightarrow> nat \<Rightarrow> dinEVSEStatusType \<Rightarrow> bool" where
  "EVSEStatus_at v g a \<longleftrightarrow>
     g \<in> {64}"

lemmas EVSEStatus_steps = EVSEStatus_enc_step_def
  EVSEStatus_dec_step_def

lemmas EVSEStatus_props = EVSEStatus_at_def same_EVSEStatus_def left_at_def

interpretation EVSEStatus: paired_machines "EVSEStatus_enc_step v" "EVSEStatus_dec_step j" "EVSEStatus_at v"
  "left_at [(64, 1)]" "same_EVSEStatus v" for v j
proof
  fix g a assume at: "EVSEStatus_at v g a"
  then have "g \<in> {64}" by (simp add: EVSEStatus_at_def)
  then have "g = 64"
    by (elim insertE emptyE) auto
  then show "hops (EVSEStatus_enc_step v) (EVSEStatus_dec_step j) (EVSEStatus_at v)
    (left_at [(64, 1)]) (same_EVSEStatus v) g a" using at
    by -
      (rule hops_intros, simp add: EVSEStatus_steps, simp add: EVSEStatus_steps, simp, ((rule reads_intros)+)?,
        (clarsimp simp: EVSEStatus_props; fail)+)+
qed

lemma reads_EVSEStatus [reads_intros]:
  "reads 1 (\<lambda>s. encode_dinEVSEStatusType s v) (decode_dinEVSEStatusType j) a (same_EVSEStatus v)"
  unfolding encode_dinEVSEStatusType_def decode_dinEVSEStatusType_def [abs_def]
  by (rule reads_start [OF EVSEStatus.machine_reads, of _ 64,
      THEN reads_mono]) (auto simp: EVSEStatus_at_def init_dinEVSEStatusType_def left_at_def)

interpretation EVSEStatus_enc: advancing_machine "EVSEStatus_enc_step v" "left_at [(64, 1)]" for v
  by unfold_locales (auto simp: EVSEStatus_steps dest!: advance_dests split: if_splits;
      simp add: left_at_def)

interpretation EVSEStatus_dec: advancing_machine "EVSEStatus_dec_step j" "left_at [(64, 1)]" for j
  by unfold_locales (auto simp: EVSEStatus_steps dest!: advance_dests elim!: decode_switch_next split: if_splits;
      simp add: left_at_def)

subsection \<open>\<open>dinDC_EVSEStatusType\<close>\<close>

record dinDC_EVSEStatusType =
  DC_EVSEStatus_EVSEIsolationStatus :: u32
  DC_EVSEStatus_EVSEIsolationStatus_isUsed :: bool
  DC_EVSEStatus_EVSEStatusCode :: u32
  DC_EVSEStatus_NotificationMaxDelay :: u32
  DC_EVSEStatus_EVSENotification :: u32

definition init_dinDC_EVSEStatusType :: "dinDC_EVSEStatusType \<Rightarrow> dinDC_EVSEStatusType" where
  "init_dinDC_EVSEStatusType a = a\<lparr>DC_EVSEStatus_EVSEIsolationStatus_isUsed := False\<rparr>"

definition DC_EVSEStatus_enc_step :: "dinDC_EVSEStatusType \<Rightarrow> unit machine" where
  "DC_EVSEStatus_enc_step v grammarID x s =
     (if grammarID = 263 then
        if DC_EVSEStatus_EVSEIsolationStatus_isUsed v then
          goto 264 x (encode_simple 2 0
            (\<lambda>s. encodeNBitUnsignedInteger s 2 (DC_EVSEStatus_EVSEIsolationStatus v)) s)
        else goto 218 x (encode_simple 2 1 (\<lambda>s. encodeNBitUnsignedInteger s 4 (DC_EVSEStatus_EVSEStatusCode v)) s)
      else if grammarID = 264 then
        goto 218 x (encode_simple 1 0 (\<lambda>s. encodeNBitUnsignedInteger s 4 (DC_EVSEStatus_EVSEStatusCode v)) s)
      else if grammarID = 218 then
        goto 219 x (encode_simple 1 0
          (\<lambda>s. encodeUnsignedInteger32 s (DC_EVSEStatus_NotificationMaxDelay v)) s)
      else if grammarID = 219 then
        goto 4 x (encode_simple 1 0 (\<lambda>s. encodeNBitUnsignedInteger s 2 (DC_EVSEStatus_EVSENotification v)) s)
      else if grammarID = 4 then
        finish 5 x (encodeNBitUnsignedInteger s 1 0)
      else Some (EXI_ERROR_UNKOWN_GRAMMAR_ID, (False, grammarID, x), s))"

definition encode_dinDC_EVSEStatusType
    :: "bitstream \<Rightarrow> dinDC_EVSEStatusType \<Rightarrow> (errn \<times> bitstream) option" where
  "encode_dinDC_EVSEStatusType s v = run_encoder (DC_EVSEStatus_enc_step v) 263 () s"

definition DC_EVSEStatus_dec_step :: "u32 \<Rightarrow> (dec_static \<times> dinDC_EVSEStatusType) machine" where
  "DC_EVSEStatus_dec_step j grammarID x s =
     (if grammarID = 263 then
        decode_switch 2
         [(0, decode_simple 263 264
            (decode_used (\<lambda>a. a\<lparr>DC_EVSEStatus_EVSEIsolationStatus_isUsed := True\<rparr>)
              (decode_nbit_field 2 (\<lambda>u a. a\<lparr>DC_EVSEStatus_EVSEIsolationStatus := u\<rparr>)))),
          (1, decode_simple 263 218
             (decode_nbit_field 4 (\<lambda>u a. a\<lparr>DC_EVSEStatus_EVSEStatusCode := u\<rparr>)))] 263 x s
      else if grammarID = 264 then
        decode_switch 1
         [(0, decode_simple 264 218
            (decode_nbit_field 4 (\<lambda>u a. a\<lparr>DC_EVSEStatus_EVSEStatusCode := u\<rparr>)))] 264 x s
      else if grammarID = 218 then
        decode_switch 1
         [(0, decode_simple 218 219
            (decode_u32_field j (\<lambda>u a. a\<lparr>DC_EVSEStatus_NotificationMaxDelay := u\<rparr>)))] 218 x s
      else if grammarID = 219 then
        decode_switch 1
         [(0, decode_simple 219 4
            (decode_nbit_field 2 (\<lambda>u a. a\<lparr>DC_EVSEStatus_EVSENotification := u\<rparr>)))] 219 x s
      else if grammarID = 4 then
        decode_switch 1
         [(0, decode_end 5)] 4 x s
      else Some (EXI_ERROR_UNKOWN_GRAMMAR_ID, (False, grammarID, x), s))"

definition decode_dinDC_EVSEStatusType :: "u32 \<Rightarrow> dinDC_EVSEStatusType decoder" where
  "decode_dinDC_EVSEStatusType j x s
      = grammar_loop (DC_EVSEStatus_dec_step j) 263 (fst x, init_dinDC_EVSEStatusType (snd x)) s"

definition DC_EVSEStatus_ok :: "dinDC_EVSEStatusType \<Rightarrow> bool" where
  "DC_EVSEStatus_ok v \<longleftrightarrow>
     (DC_EVSEStatus_EVSEIsolationStatus_isUsed v \<longrightarrow> DC_EVSEStatus_EVSEIsolationStatus v < 2 ^ 2) \<and>
     DC_EVSEStatus_EVSEStatusCode v < 2 ^ 4 \<and>
     DC_EVSEStatus_NotificationMaxDelay v < 2 ^ 31 \<and>
     DC_EVSEStatus_EVSENotification v < 2 ^ 2"

definition same_DC_EVSEStatus :: "dinDC_EVSEStatusType \<Rightarrow> dinDC_EVSEStatusType \<Rightarrow> bool" where
  "same_DC_EVSEStatus v a \<longleftrightarrow>
     DC_EVSEStatus_EVSEIsolationStatus_isUsed a = DC_EVSEStatus_EVSEIsolationStatus_isUsed v \<and>
       (DC_EVSEStatus_EVSEIsolationStatus_isUsed v \<longrightarrow>
         DC_EVSEStatus_EVSEIsolationStatus a = DC_EVSEStatus_EVSEIsolationStatus v) \<and>
     DC_EVSEStatus_EVSEStatusCode a = DC_EVSEStatus_EVSEStatusCode v \<and>
     DC_EVSEStatus_NotificationMaxDelay a = DC_EVSEStatus_NotificationMaxDelay v \<and>
     DC_EVSEStatus_EVSENotification a = DC_EVSEStatus_EVSENotification v"

definition DC_EVSEStatus_at
    :: "dinDC_EVSEStatusType \<Rightarrow> nat \<Rightarrow> dinDC_EVSEStatusType \<Rightarrow> bool" where
  "DC_EVSEStatus_at v g a \<longleftrightarrow>
     DC_EVSEStatus_ok v \<and>
     g \<in> {263, 264, 218, 219, 4} \<and>
     (if g \<in> {263} then \<not> DC_EVSEStatus_EVSEIsolationStatus_isUsed a
      else DC_EVSEStatus_EVSEIsolationStatus_isUsed a = DC_EVSEStatus_EVSEIsolationStatus_isUsed v \<and>
        (DC_EVSEStatus_EVSEIsolationStatus_isUsed v \<longrightarrow>
          DC_EVSEStatus_EVSEIsolationStatus a = DC_EVSEStatus_EVSEIsolationStatus v)) \<and>
     (g \<notin> {263, 264} \<longrightarrow> DC_EVSEStatus_EVSEStatusCode a = DC_EVSEStatus_EVSEStatusCode v) \<and>
     (g \<notin> {263, 264, 218} \<longrightarrow>
       DC_EVSEStatus_NotificationMaxDelay a = DC_EVSEStatus_NotificationMaxDelay v) \<and>
     (g \<notin> {263, 264, 218, 219} \<longrightarrow>
       DC_EVSEStatus_EVSENotification a = DC_EVSEStatus_EVSENotification v)"

lemmas DC_EVSEStatus_steps = DC_EVSEStatus_enc_step_def
  DC_EVSEStatus_dec_step_def

lemmas DC_EVSEStatus_props = DC_EVSEStatus_at_def DC_EVSEStatus_ok_def same_DC_EVSEStatus_def left_at_def

interpretation DC_EVSEStatus: paired_machines "DC_EVSEStatus_enc_step v" "DC_EVSEStatus_dec_step j"
    "DC_EVSEStatus_at v"
  "left_at [(263, 62), (264, 56), (218, 49), (219, 6), (4, 1)]" "same_DC_EVSEStatus v" for v j
proof
  fix g a assume at: "DC_EVSEStatus_at v g a"
  then have "g \<in> {263, 264, 218, 219, 4}" by (simp add: DC_EVSEStatus_at_def)
  then have "(g = 263 \<and> DC_EVSEStatus_EVSEIsolationStatus_isUsed v) \<or>
      (g = 263 \<and> \<not> DC_EVSEStatus_EVSEIsolationStatus_isUsed v) \<or>
      g = 264 \<or>
      g = 218 \<or>
      g = 219 \<or>
      g = 4"
    by (elim insertE emptyE) auto
  then show "hops (DC_EVSEStatus_enc_step v) (DC_EVSEStatus_dec_step j) (DC_EVSEStatus_at v)
    (left_at [(263, 62), (264, 56), (218, 49), (219, 6), (4, 1)]) (same_DC_EVSEStatus v) g a" using at
    by (elim disjE conjE)
      (rule hops_intros, simp add: DC_EVSEStatus_steps, simp add: DC_EVSEStatus_steps, simp, ((rule reads_intros)+)?,
        (clarsimp simp: DC_EVSEStatus_props; fail)+)+
qed

lemma reads_DC_EVSEStatus [reads_intros]:
  "DC_EVSEStatus_ok v \<Longrightarrow>
      reads 62 (\<lambda>s. encode_dinDC_EVSEStatusType s v) (decode_dinDC_EVSEStatusType j) a (same_DC_EVSEStatus v)"
  unfolding encode_dinDC_EVSEStatusType_def decode_dinDC_EVSEStatusType_def [abs_def]
  by (rule reads_start [OF DC_EVSEStatus.machine_reads, of _ 263,
      THEN reads_mono]) (auto simp: DC_EVSEStatus_at_def init_dinDC_EVSEStatusType_def left_at_def)

interpretation DC_EVSEStatus_enc: advancing_machine "DC_EVSEStatus_enc_step v"
    "left_at [(263, 5), (264, 4), (218, 3), (219, 2), (4, 1)]" for v
  by unfold_locales (auto simp: DC_EVSEStatus_steps dest!: advance_dests split: if_splits;
      simp add: left_at_def)

interpretation DC_EVSEStatus_dec: advancing_machine "DC_EVSEStatus_dec_step j"
    "left_at [(263, 5), (264, 4), (218, 3), (219, 2), (4, 1)]" for j
  by unfold_locales (auto simp: DC_EVSEStatus_steps dest!: advance_dests elim!: decode_switch_next split: if_splits;
      simp add: left_at_def)

subsection \<open>\<open>dinAC_EVSEStatusType\<close>\<close>

record dinAC_EVSEStatusType =
  AC_EVSEStatus_PowerSwitchClosed :: int
  AC_EVSEStatus_RCD :: int
  AC_EVSEStatus_NotificationMaxDelay :: u32
  AC_EVSEStatus_EVSENotification :: u32

definition init_dinAC_EVSEStatusType :: "dinAC_EVSEStatusType \<Rightarrow> dinAC_EVSEStatusType" where
  "init_dinAC_EVSEStatusType a = a"

definition AC_EVSEStatus_enc_step :: "dinAC_EVSEStatusType \<Rightarrow> unit machine" where
  "AC_EVSEStatus_enc_step v grammarID x s =
     (if grammarID = 216 then
        goto 217 x (encode_simple 1 0 (\<lambda>s. encodeBoolean s (AC_EVSEStatus_PowerSwitchClosed v)) s)
      else if grammarID = 217 then
        goto 218 x (encode_simple 1 0 (\<lambda>s. encodeBoolean s (AC_EVSEStatus_RCD v)) s)
      else if grammarID = 218 then
        goto 219 x (encode_simple 1 0
          (\<lambda>s. encodeUnsignedInteger32 s (AC_EVSEStatus_NotificationMaxDelay v)) s)
      else if grammarID = 219 then
        goto 4 x (encode_simple 1 0 (\<lambda>s. encodeNBitUnsignedInteger s 2 (AC_EVSEStatus_EVSENotification v)) s)
      else if grammarID = 4 then
        finish 5 x (encodeNBitUnsignedInteger s 1 0)
      else Some (EXI_ERROR_UNKOWN_GRAMMAR_ID, (False, grammarID, x), s))"

definition encode_dinAC_EVSEStatusType
    :: "bitstream \<Rightarrow> dinAC_EVSEStatusType \<Rightarrow> (errn \<times> bitstream) option" where
  "encode_dinAC_EVSEStatusType s v = run_encoder (AC_EVSEStatus_enc_step v) 216 () s"

definition AC_EVSEStatus_dec_step :: "u32 \<Rightarrow> (dec_static \<times> dinAC_EVSEStatusType) machine" where
  "AC_EVSEStatus_dec_step j grammarID x s =
     (if grammarID = 216 then
        decode_switch 1
         [(0, decode_simple 216 217
            (decode_bool_field j (\<lambda>u a. a\<lparr>AC_EVSEStatus_PowerSwitchClosed := u\<rparr>)))] 216 x s
      else if grammarID = 217 then
        decode_switch 1
         [(0, decode_simple 217 218
            (decode_bool_field j (\<lambda>u a. a\<lparr>AC_EVSEStatus_RCD := u\<rparr>)))] 217 x s
      else if grammarID = 218 then
        decode_switch 1
         [(0, decode_simple 218 219
            (decode_u32_field j (\<lambda>u a. a\<lparr>AC_EVSEStatus_NotificationMaxDelay := u\<rparr>)))] 218 x s
      else if grammarID = 219 then
        decode_switch 1
         [(0, decode_simple 219 4
            (decode_nbit_field 2 (\<lambda>u a. a\<lparr>AC_EVSEStatus_EVSENotification := u\<rparr>)))] 219 x s
      else if grammarID = 4 then
        decode_switch 1
         [(0, decode_end 5)] 4 x s
      else Some (EXI_ERROR_UNKOWN_GRAMMAR_ID, (False, grammarID, x), s))"

definition decode_dinAC_EVSEStatusType :: "u32 \<Rightarrow> dinAC_EVSEStatusType decoder" where
  "decode_dinAC_EVSEStatusType j x s
      = grammar_loop (AC_EVSEStatus_dec_step j) 216 (fst x, init_dinAC_EVSEStatusType (snd x)) s"

definition AC_EVSEStatus_ok :: "dinAC_EVSEStatusType \<Rightarrow> bool" where
  "AC_EVSEStatus_ok v \<longleftrightarrow>
     AC_EVSEStatus_NotificationMaxDelay v < 2 ^ 31 \<and>
     AC_EVSEStatus_EVSENotification v < 2 ^ 2"

definition same_AC_EVSEStatus :: "dinAC_EVSEStatusType \<Rightarrow> dinAC_EVSEStatusType \<Rightarrow> bool" where
  "same_AC_EVSEStatus v a \<longleftrightarrow>
     (AC_EVSEStatus_PowerSwitchClosed a \<noteq> 0) = (AC_EVSEStatus_PowerSwitchClosed v \<noteq> 0) \<and>
     (AC_EVSEStatus_RCD a \<noteq> 0) = (AC_EVSEStatus_RCD v \<noteq> 0) \<and>
     AC_EVSEStatus_NotificationMaxDelay a = AC_EVSEStatus_NotificationMaxDelay v \<and>
     AC_EVSEStatus_EVSENotification a = AC_EVSEStatus_EVSENotification v"

definition AC_EVSEStatus_at
    :: "dinAC_EVSEStatusType \<Rightarrow> nat \<Rightarrow> dinAC_EVSEStatusType \<Rightarrow> bool" where
  "AC_EVSEStatus_at v g a \<longleftrightarrow>
     AC_EVSEStatus_ok v \<and>
     g \<in> {216, 217, 218, 219, 4} \<and>
     (g \<notin> {216} \<longrightarrow>
       (AC_EVSEStatus_PowerSwitchClosed a \<noteq> 0) = (AC_EVSEStatus_PowerSwitchClosed v \<noteq> 0)) \<and>
     (g \<notin> {216, 217} \<longrightarrow>
       (AC_EVSEStatus_RCD a \<noteq> 0) = (AC_EVSEStatus_RCD v \<noteq> 0)) \<and>
     (g \<notin> {216, 217, 218} \<longrightarrow>
       AC_EVSEStatus_NotificationMaxDelay a = AC_EVSEStatus_NotificationMaxDelay v) \<and>
     (g \<notin> {216, 217, 218, 219} \<longrightarrow>
       AC_EVSEStatus_EVSENotification a = AC_EVSEStatus_EVSENotification v)"

lemmas AC_EVSEStatus_steps = AC_EVSEStatus_enc_step_def
  AC_EVSEStatus_dec_step_def

lemmas AC_EVSEStatus_props = AC_EVSEStatus_at_def AC_EVSEStatus_ok_def same_AC_EVSEStatus_def left_at_def

interpretation AC_EVSEStatus: paired_machines "AC_EVSEStatus_enc_step v" "AC_EVSEStatus_dec_step j"
    "AC_EVSEStatus_at v"
  "left_at [(216, 57), (217, 53), (218, 49), (219, 6), (4, 1)]" "same_AC_EVSEStatus v" for v j
proof
  fix g a assume at: "AC_EVSEStatus_at v g a"
  then have "g \<in> {216, 217, 218, 219, 4}" by (simp add: AC_EVSEStatus_at_def)
  then have "g = 216 \<or>
      g = 217 \<or>
      g = 218 \<or>
      g = 219 \<or>
      g = 4"
    by (elim insertE emptyE) auto
  then show "hops (AC_EVSEStatus_enc_step v) (AC_EVSEStatus_dec_step j) (AC_EVSEStatus_at v)
    (left_at [(216, 57), (217, 53), (218, 49), (219, 6), (4, 1)]) (same_AC_EVSEStatus v) g a" using at
    by (elim disjE conjE)
      (rule hops_intros, simp add: AC_EVSEStatus_steps, simp add: AC_EVSEStatus_steps, simp, ((rule reads_intros)+)?,
        (clarsimp simp: AC_EVSEStatus_props; fail)+)+
qed

lemma reads_AC_EVSEStatus [reads_intros]:
  "AC_EVSEStatus_ok v \<Longrightarrow>
      reads 57 (\<lambda>s. encode_dinAC_EVSEStatusType s v) (decode_dinAC_EVSEStatusType j) a (same_AC_EVSEStatus v)"
  unfolding encode_dinAC_EVSEStatusType_def decode_dinAC_EVSEStatusType_def [abs_def]
  by (rule reads_start [OF AC_EVSEStatus.machine_reads, of _ 216,
      THEN reads_mono]) (auto simp: AC_EVSEStatus_at_def init_dinAC_EVSEStatusType_def left_at_def)

interpretation AC_EVSEStatus_enc: advancing_machine "AC_EVSEStatus_enc_step v"
    "left_at [(216, 5), (217, 4), (218, 3), (219, 2), (4, 1)]" for v
  by unfold_locales (auto simp: AC_EVSEStatus_steps dest!: advance_dests split: if_splits;
      simp add: left_at_def)

interpretation AC_EVSEStatus_dec: advancing_machine "AC_EVSEStatus_dec_step j"
    "left_at [(216, 5), (217, 4), (218, 3), (219, 2), (4, 1)]" for j
  by unfold_locales (auto simp: AC_EVSEStatus_steps dest!: advance_dests elim!: decode_switch_next split: if_splits;
      simp add: left_at_def)

subsection \<open>Sample values\<close>

definition sample_value :: "u32 \<Rightarrow> u16 \<Rightarrow> dinPhysicalValueType" where
  "sample_value u n = \<lparr>PhysicalValue_Multiplier = 255, PhysicalValue_Unit = u, PhysicalValue_Unit_isUsed = True,
     PhysicalValue_Value = n\<rparr>"

definition sample_vehicle :: dinDC_EVStatusType where
  "sample_vehicle = \<lparr>DC_EVStatus_EVReady = 1, DC_EVStatus_EVCabinConditioning = 0,
     DC_EVStatus_EVCabinConditioning_isUsed = False, DC_EVStatus_EVRESSConditioning = 1,
     DC_EVStatus_EVRESSConditioning_isUsed = True, DC_EVStatus_EVErrorCode = 0, DC_EVStatus_EVRESSSOC = 57\<rparr>"

definition sample_station :: dinDC_EVSEStatusType where
  "sample_station = \<lparr>DC_EVSEStatus_EVSEIsolationStatus = 1, DC_EVSEStatus_EVSEIsolationStatus_isUsed = True,
     DC_EVSEStatus_EVSEStatusCode = 1, DC_EVSEStatus_NotificationMaxDelay = 300, DC_EVSEStatus_EVSENotification = 0\<rparr>"

lemma samples_ok [simp]:
  "u < 2 ^ 4 \<Longrightarrow> PhysicalValue_ok (sample_value u n)" "DC_EVStatus_ok sample_vehicle" "DC_EVSEStatus_ok sample_station"
  by (simp_all add: sample_value_def PhysicalValue_ok_def sample_vehicle_def DC_EVStatus_ok_def sample_station_def
      DC_EVSEStatus_ok_def)

end
