(* ===== verification/DinSession.thy ===== *)
theory DinSession
  imports DinValues
begin

section \<open>DIN 70121 codec: messages of the session\<close>

text \<open>
  The messages that set a session up, choose its services and end it, in the form explained in
  \<open>DinValues\<close>: those whose content is numbers, enumerations and binary data. The arrays of binary
  data are lists of the declared size, with their length in use beside them.
\<close>

subsection \<open>\<open>dinSessionSetupReqType\<close>\<close>

record dinSessionSetupReqType =
  SessionSetupReq_EVCCID_bytes :: "u8 list"
  SessionSetupReq_EVCCID_bytesLen :: u16


definition SessionSetupReq_enc_step :: "dinSessionSetupReqType \<Rightarrow> unit machine" where
  "SessionSetupReq_enc_step v grammarID x s =
     (if grammarID = 7 then
        goto 4 x (encode_simple 1 0
          (encode_bytes_field (SessionSetupReq_EVCCID_bytes v) (SessionSetupReq_EVCCID_bytesLen v)) s)
      else if grammarID = 4 then
        finish 5 x (encodeNBitUnsignedInteger s 1 0)
      else Some (EXI_ERROR_UNKOWN_GRAMMAR_ID, (False, grammarID, x), s))"


definition SessionSetupReq_dec_step :: "u32 \<Rightarrow> (dec_static \<times> dinSessionSetupReqType) machine" where
  "SessionSetupReq_dec_step j grammarID x s =
     (if grammarID = 7 then
        decode_switch 1
         [(0, decode_simple 7 4
            (decode_bytes_field j 8 SessionSetupReq_EVCCID_bytes
              (\<lambda>u a. a\<lparr>SessionSetupReq_EVCCID_bytes := u\<rparr>) (\<lambda>u a. a\<lparr>SessionSetupReq_EVCCID_bytesLen := u\<rparr>)))] 7 x s
      else if grammarID = 4 then
        decode_switch 1
         [(0, decode_end 5)] 4 x s
      else Some (EXI_ERROR_UNKOWN_GRAMMAR_ID, (False, grammarID, x), s))"





lemmas SessionSetupReq_steps = SessionSetupReq_enc_step_def
  SessionSetupReq_dec_step_def




interpretation SessionSetupReq_enc: advancing_machine "SessionSetupReq_enc_step v" "left_at [(7, 2), (4, 1)]" for v
  by unfold_locales (auto simp: SessionSetupReq_steps dest!: advance_dests split: if_splits;
      simp add: left_at_def)

interpretation SessionSetupReq_dec: advancing_machine "SessionSetupReq_dec_step j" "left_at [(7, 2), (4, 1)]" for j
  by unfold_locales (auto simp: SessionSetupReq_steps dest!: advance_dests elim!: decode_switch_next split: if_splits;
      simp add: left_at_def)

subsection \<open>\<open>dinSessionSetupResType\<close>\<close>

record dinSessionSetupResType =
  SessionSetupRes_ResponseCode :: u32
  SessionSetupRes_EVSEID_bytes :: "u8 list"
  SessionSetupRes_EVSEID_bytesLen :: u16
  SessionSetupRes_DateTimeNow :: u64
  SessionSetupRes_DateTimeNow_isUsed :: bool


definition SessionSetupRes_enc_step :: "dinSessionSetupResType \<Rightarrow> unit machine" where
  "SessionSetupRes_enc_step v grammarID x s =
     (if grammarID = 185 then
        goto 186 x (encode_simple 1 0 (\<lambda>s. encodeNBitUnsignedInteger s 5 (SessionSetupRes_ResponseCode v)) s)
      else if grammarID = 186 then
        goto 187 x (encode_simple 1 0
          (encode_bytes_field (SessionSetupRes_EVSEID_bytes v) (SessionSetupRes_EVSEID_bytesLen v)) s)
      else if grammarID = 187 then
        if SessionSetupRes_DateTimeNow_isUsed v then
          goto 4 x (encode_simple 2 0 (\<lambda>s. encodeInteger64 s (SessionSetupRes_DateTimeNow v)) s)
        else finish 5 x (encodeNBitUnsignedInteger s 2 1)
      else if grammarID = 4 then
        finish 5 x (encodeNBitUnsignedInteger s 1 0)
      else Some (EXI_ERROR_UNKOWN_GRAMMAR_ID, (False, grammarID, x), s))"


definition SessionSetupRes_dec_step :: "u32 \<Rightarrow> (dec_static \<times> dinSessionSetupResType) machine" where
  "SessionSetupRes_dec_step j grammarID x s =
     (if grammarID = 185 then
        decode_switch 1
         [(0, decode_simple 185 186
            (decode_nbit_field 5 (\<lambda>u a. a\<lparr>SessionSetupRes_ResponseCode := u\<rparr>)))] 185 x s
      else if grammarID = 186 then
        decode_switch 1
         [(0, decode_simple 186 187
            (decode_bytes_field j 32 SessionSetupRes_EVSEID_bytes
              (\<lambda>u a. a\<lparr>SessionSetupRes_EVSEID_bytes := u\<rparr>) (\<lambda>u a. a\<lparr>SessionSetupRes_EVSEID_bytesLen := u\<rparr>)))] 186 x s
      else if grammarID = 187 then
        decode_switch 2
         [(0, decode_simple 187 4
            (decode_used (\<lambda>a. a\<lparr>SessionSetupRes_DateTimeNow_isUsed := True\<rparr>)
              (decode_i64_field j SessionSetupRes_DateTimeNow (\<lambda>u a. a\<lparr>SessionSetupRes_DateTimeNow := u\<rparr>)))),
          (1, decode_end 5)] 187 x s
      else if grammarID = 4 then
        decode_switch 1
         [(0, decode_end 5)] 4 x s
      else Some (EXI_ERROR_UNKOWN_GRAMMAR_ID, (False, grammarID, x), s))"





lemmas SessionSetupRes_steps = SessionSetupRes_enc_step_def
  SessionSetupRes_dec_step_def




interpretation SessionSetupRes_enc: advancing_machine "SessionSetupRes_enc_step v"
    "left_at [(185, 4), (186, 3), (187, 2), (4, 1)]" for v
  by unfold_locales (auto simp: SessionSetupRes_steps dest!: advance_dests split: if_splits;
      simp add: left_at_def)

interpretation SessionSetupRes_dec: advancing_machine "SessionSetupRes_dec_step j"
    "left_at [(185, 4), (186, 3), (187, 2), (4, 1)]" for j
  by unfold_locales (auto simp: SessionSetupRes_steps dest!: advance_dests elim!: decode_switch_next split: if_splits;
      simp add: left_at_def)

subsection \<open>\<open>dinServiceDetailReqType\<close>\<close>

record dinServiceDetailReqType =
  ServiceDetailReq_ServiceID :: u16

definition init_dinServiceDetailReqType :: "dinServiceDetailReqType \<Rightarrow> dinServiceDetailReqType" where
  "init_dinServiceDetailReqType a = a"

definition ServiceDetailReq_enc_step :: "dinServiceDetailReqType \<Rightarrow> unit machine" where
  "ServiceDetailReq_enc_step v grammarID x s =
     (if grammarID = 126 then
        goto 4 x (encode_simple 1 0 (\<lambda>s. encodeUnsignedInteger16 s (ServiceDetailReq_ServiceID v)) s)
      else if grammarID = 4 then
        finish 5 x (encodeNBitUnsignedInteger s 1 0)
      else Some (EXI_ERROR_UNKOWN_GRAMMAR_ID, (False, grammarID, x), s))"

definition encode_dinServiceDetailReqType
    :: "bitstream \<Rightarrow> dinServiceDetailReqType \<Rightarrow> (errn \<times> bitstream) option" where
  "encode_dinServiceDetailReqType s v = run_encoder (ServiceDetailReq_enc_step v) 126 () s"

definition ServiceDetailReq_dec_step
    :: "u32 \<Rightarrow> (dec_static \<times> dinServiceDetailReqType) machine" where
  "ServiceDetailReq_dec_step j grammarID x s =
     (if grammarID = 126 then
        decode_switch 1
         [(0, decode_simple 126 4
            (decode_u16_field j (\<lambda>u a. a\<lparr>ServiceDetailReq_ServiceID := u\<rparr>)))] 126 x s
      else if grammarID = 4 then
        decode_switch 1
         [(0, decode_end 5)] 4 x s
      else Some (EXI_ERROR_UNKOWN_GRAMMAR_ID, (False, grammarID, x), s))"

definition decode_dinServiceDetailReqType :: "u32 \<Rightarrow> dinServiceDetailReqType decoder" where
  "decode_dinServiceDetailReqType j x s
      = grammar_loop (ServiceDetailReq_dec_step j) 126 (fst x, init_dinServiceDetailReqType (snd x)) s"

definition same_ServiceDetailReq
    :: "dinServiceDetailReqType \<Rightarrow> dinServiceDetailReqType \<Rightarrow> bool" where
  "same_ServiceDetailReq v a \<longleftrightarrow>
     ServiceDetailReq_ServiceID a = ServiceDetailReq_ServiceID v"

definition ServiceDetailReq_at
    :: "dinServiceDetailReqType \<Rightarrow> nat \<Rightarrow> dinServiceDetailReqType \<Rightarrow> bool" where
  "ServiceDetailReq_at v g a \<longleftrightarrow>
     g \<in> {126, 4} \<and>
     (g \<notin> {126} \<longrightarrow> ServiceDetailReq_ServiceID a = ServiceDetailReq_ServiceID v)"

lemmas ServiceDetailReq_steps = ServiceDetailReq_enc_step_def
  ServiceDetailReq_dec_step_def

lemmas ServiceDetailReq_props = ServiceDetailReq_at_def same_ServiceDetailReq_def left_at_def

interpretation ServiceDetailReq: paired_machines "ServiceDetailReq_enc_step v" "ServiceDetailReq_dec_step j"
    "ServiceDetailReq_at v"
  "left_at [(126, 28), (4, 1)]" "same_ServiceDetailReq v" for v j
proof
  fix g a assume at: "ServiceDetailReq_at v g a"
  then have "g \<in> {126, 4}" by (simp add: ServiceDetailReq_at_def)
  then have "g = 126 \<or>
      g = 4"
    by (elim insertE emptyE) auto
  then show "hops (ServiceDetailReq_enc_step v) (ServiceDetailReq_dec_step j) (ServiceDetailReq_at v)
    (left_at [(126, 28), (4, 1)]) (same_ServiceDetailReq v) g a" using at
    by (elim disjE conjE)
      (rule hops_intros, simp add: ServiceDetailReq_steps, simp add: ServiceDetailReq_steps, simp,
        ((rule reads_intros)+)?,
        (clarsimp simp: ServiceDetailReq_props; fail)+)+
qed

lemma reads_ServiceDetailReq [reads_intros]:
  "reads 28 (\<lambda>s. encode_dinServiceDetailReqType s v) (decode_dinServiceDetailReqType j) a (same_ServiceDetailReq v)"
  unfolding encode_dinServiceDetailReqType_def decode_dinServiceDetailReqType_def [abs_def]
  by (rule reads_start [OF ServiceDetailReq.machine_reads, of _ 126,
      THEN reads_mono]) (auto simp: ServiceDetailReq_at_def init_dinServiceDetailReqType_def left_at_def)

interpretation ServiceDetailReq_enc: advancing_machine "ServiceDetailReq_enc_step v"
    "left_at [(126, 2), (4, 1)]" for v
  by unfold_locales (auto simp: ServiceDetailReq_steps dest!: advance_dests split: if_splits;
      simp add: left_at_def)

interpretation ServiceDetailReq_dec: advancing_machine "ServiceDetailReq_dec_step j"
    "left_at [(126, 2), (4, 1)]" for j
  by unfold_locales (auto simp: ServiceDetailReq_steps dest!: advance_dests elim!: decode_switch_next split: if_splits;
      simp add: left_at_def)

subsection \<open>\<open>dinSelectedServiceType\<close>\<close>

record dinSelectedServiceType =
  SelectedService_ServiceID :: u16
  SelectedService_ParameterSetID :: u16
  SelectedService_ParameterSetID_isUsed :: bool

definition init_dinSelectedServiceType :: "dinSelectedServiceType \<Rightarrow> dinSelectedServiceType" where
  "init_dinSelectedServiceType a = a\<lparr>SelectedService_ParameterSetID_isUsed := False\<rparr>"

definition SelectedService_enc_step :: "dinSelectedServiceType \<Rightarrow> unit machine" where
  "SelectedService_enc_step v grammarID x s =
     (if grammarID = 190 then
        goto 191 x (encode_simple 1 0 (\<lambda>s. encodeUnsignedInteger16 s (SelectedService_ServiceID v)) s)
      else if grammarID = 191 then
        if SelectedService_ParameterSetID_isUsed v then
          goto 4 x (encode_simple 2 0 (\<lambda>s. encodeInteger16 s (SelectedService_ParameterSetID v)) s)
        else finish 5 x (encodeNBitUnsignedInteger s 2 1)
      else if grammarID = 4 then
        finish 5 x (encodeNBitUnsignedInteger s 1 0)
      else Some (EXI_ERROR_UNKOWN_GRAMMAR_ID, (False, grammarID, x), s))"

definition encode_dinSelectedServiceType
    :: "bitstream \<Rightarrow> dinSelectedServiceType \<Rightarrow> (errn \<times> bitstream) option" where
  "encode_dinSelectedServiceType s v = run_encoder (SelectedService_enc_step v) 190 () s"

definition SelectedService_dec_step :: "u32 \<Rightarrow> (dec_static \<times> dinSelectedServiceType) machine" where
  "SelectedService_dec_step j grammarID x s =
     (if grammarID = 190 then
        decode_switch 1
         [(0, decode_simple 190 191
            (decode_u16_field j (\<lambda>u a. a\<lparr>SelectedService_ServiceID := u\<rparr>)))] 190 x s
      else if grammarID = 191 then
        decode_switch 2
         [(0, decode_simple 191 4
            (decode_used (\<lambda>a. a\<lparr>SelectedService_ParameterSetID_isUsed := True\<rparr>)
              (decode_i16_field j SelectedService_ParameterSetID (\<lambda>u a. a\<lparr>SelectedService_ParameterSetID := u\<rparr>)))),
          (1, decode_end 5)] 191 x s
      else if grammarID = 4 then
        decode_switch 1
         [(0, decode_end 5)] 4 x s
      else Some (EXI_ERROR_UNKOWN_GRAMMAR_ID, (False, grammarID, x), s))"

definition decode_dinSelectedServiceType :: "u32 \<Rightarrow> dinSelectedServiceType decoder" where
  "decode_dinSelectedServiceType j x s
      = grammar_loop (SelectedService_dec_step j) 190 (fst x, init_dinSelectedServiceType (snd x)) s"

definition same_SelectedService
    :: "dinSelectedServiceType \<Rightarrow> dinSelectedServiceType \<Rightarrow> bool" where
  "same_SelectedService v a \<longleftrightarrow>
     SelectedService_ServiceID a = SelectedService_ServiceID v \<and>
     SelectedService_ParameterSetID_isUsed a = SelectedService_ParameterSetID_isUsed v \<and>
       (SelectedService_ParameterSetID_isUsed v \<longrightarrow>
         SelectedService_ParameterSetID a = SelectedService_ParameterSetID v)"

definition SelectedService_at
    :: "dinSelectedServiceType \<Rightarrow> nat \<Rightarrow> dinSelectedServiceType \<Rightarrow> bool" where
  "SelectedService_at v g a \<longleftrightarrow>
     g \<in> {190, 191, 4} \<and>
     (g \<notin> {190} \<longrightarrow> SelectedService_ServiceID a = SelectedService_ServiceID v) \<and>
     (if g \<in> {190, 191} then \<not> SelectedService_ParameterSetID_isUsed a
      else SelectedService_ParameterSetID_isUsed a = SelectedService_ParameterSetID_isUsed v \<and>
        (SelectedService_ParameterSetID_isUsed v \<longrightarrow>
          SelectedService_ParameterSetID a = SelectedService_ParameterSetID v))"

lemmas SelectedService_steps = SelectedService_enc_step_def
  SelectedService_dec_step_def

lemmas SelectedService_props = SelectedService_at_def same_SelectedService_def left_at_def

interpretation SelectedService: paired_machines "SelectedService_enc_step v" "SelectedService_dec_step j"
    "SelectedService_at v"
  "left_at [(190, 57), (191, 30), (4, 1)]" "same_SelectedService v" for v j
proof
  fix g a assume at: "SelectedService_at v g a"
  then have "g \<in> {190, 191, 4}" by (simp add: SelectedService_at_def)
  then have "g = 190 \<or>
      (g = 191 \<and> SelectedService_ParameterSetID_isUsed v) \<or>
      (g = 191 \<and> \<not> SelectedService_ParameterSetID_isUsed v) \<or>
      g = 4"
    by (elim insertE emptyE) auto
  then show "hops (SelectedService_enc_step v) (SelectedService_dec_step j) (SelectedService_at v)
    (left_at [(190, 57), (191, 30), (4, 1)]) (same_SelectedService v) g a" using at
    by (elim disjE conjE)
      (rule hops_intros, simp add: SelectedService_steps, simp add: SelectedService_steps, simp,
        ((rule reads_intros)+)?,
        (clarsimp simp: SelectedService_props; fail)+)+
qed

lemma reads_SelectedService [reads_intros]:
  "reads 57 (\<lambda>s. encode_dinSelectedServiceType s v) (decode_dinSelectedServiceType j) a (same_SelectedService v)"
  unfolding encode_dinSelectedServiceType_def decode_dinSelectedServiceType_def [abs_def]
  by (rule reads_start [OF SelectedService.machine_reads, of _ 190,
      THEN reads_mono]) (auto simp: SelectedService_at_def init_dinSelectedServiceType_def left_at_def)

interpretation SelectedService_enc: advancing_machine "SelectedService_enc_step v"
    "left_at [(190, 3), (191, 2), (4, 1)]" for v
  by unfold_locales (auto simp: SelectedService_steps dest!: advance_dests split: if_splits;
      simp add: left_at_def)

interpretation SelectedService_dec: advancing_machine "SelectedService_dec_step j"
    "left_at [(190, 3), (191, 2), (4, 1)]" for j
  by unfold_locales (auto simp: SelectedService_steps dest!: advance_dests elim!: decode_switch_next split: if_splits;
      simp add: left_at_def)

subsection \<open>\<open>dinServicePaymentSelectionResType\<close>\<close>

record dinServicePaymentSelectionResType =
  ServicePaymentSelectionRes_ResponseCode :: u32

definition init_dinServicePaymentSelectionResType
    :: "dinServicePaymentSelectionResType \<Rightarrow> dinServicePaymentSelectionResType" where
  "init_dinServicePaymentSelectionResType a = a"

definition ServicePaymentSelectionRes_enc_step :: "dinServicePaymentSelectionResType \<Rightarrow> unit machine" where
  "ServicePaymentSelectionRes_enc_step v grammarID x s =
     (if grammarID = 223 then
        goto 4 x (encode_simple 1 0
          (\<lambda>s. encodeNBitUnsignedInteger s 5 (ServicePaymentSelectionRes_ResponseCode v)) s)
      else if grammarID = 4 then
        finish 5 x (encodeNBitUnsignedInteger s 1 0)
      else Some (EXI_ERROR_UNKOWN_GRAMMAR_ID, (False, grammarID, x), s))"

definition encode_dinServicePaymentSelectionResType
    :: "bitstream \<Rightarrow> dinServicePaymentSelectionResType \<Rightarrow> (errn \<times> bitstream) option" where
  "encode_dinServicePaymentSelectionResType s v = run_encoder (ServicePaymentSelectionRes_enc_step v) 223 () s"

definition ServicePaymentSelectionRes_dec_step
    :: "u32 \<Rightarrow> (dec_static \<times> dinServicePaymentSelectionResType) machine" where
  "ServicePaymentSelectionRes_dec_step j grammarID x s =
     (if grammarID = 223 then
        decode_switch 1
         [(0, decode_simple 223 4
            (decode_nbit_field 5 (\<lambda>u a. a\<lparr>ServicePaymentSelectionRes_ResponseCode := u\<rparr>)))] 223 x s
      else if grammarID = 4 then
        decode_switch 1
         [(0, decode_end 5)] 4 x s
      else Some (EXI_ERROR_UNKOWN_GRAMMAR_ID, (False, grammarID, x), s))"

definition decode_dinServicePaymentSelectionResType
    :: "u32 \<Rightarrow> dinServicePaymentSelectionResType decoder" where
  "decode_dinServicePaymentSelectionResType j x s
      = grammar_loop (ServicePaymentSelectionRes_dec_step j) 223 (fst x,
        init_dinServicePaymentSelectionResType (snd x)) s"

definition ServicePaymentSelectionRes_ok :: "dinServicePaymentSelectionResType \<Rightarrow> bool" where
  "ServicePaymentSelectionRes_ok v \<longleftrightarrow>
     ServicePaymentSelectionRes_ResponseCode v < 2 ^ 5"

definition same_ServicePaymentSelectionRes
    :: "dinServicePaymentSelectionResType \<Rightarrow> dinServicePaymentSelectionResType \<Rightarrow> bool" where
  "same_ServicePaymentSelectionRes v a \<longleftrightarrow>
     ServicePaymentSelectionRes_ResponseCode a = ServicePaymentSelectionRes_ResponseCode v"

definition ServicePaymentSelectionRes_at
    :: "dinServicePaymentSelectionResType \<Rightarrow> nat \<Rightarrow> dinServicePaymentSelectionResType \<Rightarrow> bool" where
  "ServicePaymentSelectionRes_at v g a \<longleftrightarrow>
     ServicePaymentSelectionRes_ok v \<and>
     g \<in> {223, 4} \<and>
     (g \<notin> {223} \<longrightarrow>
       ServicePaymentSelectionRes_ResponseCode a = ServicePaymentSelectionRes_ResponseCode v)"

lemmas ServicePaymentSelectionRes_steps = ServicePaymentSelectionRes_enc_step_def
  ServicePaymentSelectionRes_dec_step_def

lemmas ServicePaymentSelectionRes_props
    = ServicePaymentSelectionRes_at_def ServicePaymentSelectionRes_ok_def same_ServicePaymentSelectionRes_def left_at_def

interpretation ServicePaymentSelectionRes: paired_machines "ServicePaymentSelectionRes_enc_step v"
    "ServicePaymentSelectionRes_dec_step j" "ServicePaymentSelectionRes_at v"
  "left_at [(223, 9), (4, 1)]" "same_ServicePaymentSelectionRes v" for v j
proof
  fix g a assume at: "ServicePaymentSelectionRes_at v g a"
  then have "g \<in> {223, 4}" by (simp add: ServicePaymentSelectionRes_at_def)
  then have "g = 223 \<or>
      g = 4"
    by (elim insertE emptyE) auto
  then show "hops (ServicePaymentSelectionRes_enc_step v) (ServicePaymentSelectionRes_dec_step j) (ServicePaymentSelectionRes_at v)
    (left_at [(223, 9), (4, 1)]) (same_ServicePaymentSelectionRes v) g a" using at
    by (elim disjE conjE)
      (rule hops_intros, simp add: ServicePaymentSelectionRes_steps, simp add: ServicePaymentSelectionRes_steps,
        simp, ((rule reads_intros)+)?,
        (clarsimp simp: ServicePaymentSelectionRes_props; fail)+)+
qed

lemma reads_ServicePaymentSelectionRes [reads_intros]:
  "ServicePaymentSelectionRes_ok v \<Longrightarrow>
      reads 9 (\<lambda>s. encode_dinServicePaymentSelectionResType s v) (decode_dinServicePaymentSelectionResType j) a (same_ServicePaymentSelectionRes v)"
  unfolding encode_dinServicePaymentSelectionResType_def decode_dinServicePaymentSelectionResType_def [abs_def]
  by (rule reads_start [OF ServicePaymentSelectionRes.machine_reads, of _ 223,
      THEN reads_mono]) (auto simp: ServicePaymentSelectionRes_at_def init_dinServicePaymentSelectionResType_def left_at_def)

interpretation ServicePaymentSelectionRes_enc: advancing_machine "ServicePaymentSelectionRes_enc_step v"
    "left_at [(223, 2), (4, 1)]" for v
  by unfold_locales (auto simp: ServicePaymentSelectionRes_steps dest!: advance_dests split: if_splits;
      simp add: left_at_def)

interpretation ServicePaymentSelectionRes_dec: advancing_machine "ServicePaymentSelectionRes_dec_step j"
    "left_at [(223, 2), (4, 1)]" for j
  by unfold_locales (auto simp: ServicePaymentSelectionRes_steps dest!: advance_dests elim!: decode_switch_next split: if_splits;
      simp add: left_at_def)

subsection \<open>\<open>dinContractAuthenticationResType\<close>\<close>

record dinContractAuthenticationResType =
  ContractAuthenticationRes_ResponseCode :: u32
  ContractAuthenticationRes_EVSEProcessing :: u32

definition init_dinContractAuthenticationResType
    :: "dinContractAuthenticationResType \<Rightarrow> dinContractAuthenticationResType" where
  "init_dinContractAuthenticationResType a = a"

definition ContractAuthenticationRes_enc_step :: "dinContractAuthenticationResType \<Rightarrow> unit machine" where
  "ContractAuthenticationRes_enc_step v grammarID x s =
     (if grammarID = 16 then
        goto 17 x (encode_simple 1 0
          (\<lambda>s. encodeNBitUnsignedInteger s 5 (ContractAuthenticationRes_ResponseCode v)) s)
      else if grammarID = 17 then
        goto 4 x (encode_simple 1 0
          (\<lambda>s. encodeNBitUnsignedInteger s 1 (ContractAuthenticationRes_EVSEProcessing v)) s)
      else if grammarID = 4 then
        finish 5 x (encodeNBitUnsignedInteger s 1 0)
      else Some (EXI_ERROR_UNKOWN_GRAMMAR_ID, (False, grammarID, x), s))"

definition encode_dinContractAuthenticationResType
    :: "bitstream \<Rightarrow> dinContractAuthenticationResType \<Rightarrow> (errn \<times> bitstream) option" where
  "encode_dinContractAuthenticationResType s v = run_encoder (ContractAuthenticationRes_enc_step v) 16 () s"

definition ContractAuthenticationRes_dec_step
    :: "u32 \<Rightarrow> (dec_static \<times> dinContractAuthenticationResType) machine" where
  "ContractAuthenticationRes_dec_step j grammarID x s =
     (if grammarID = 16 then
        decode_switch 1
         [(0, decode_simple 16 17
            (decode_nbit_field 5 (\<lambda>u a. a\<lparr>ContractAuthenticationRes_ResponseCode := u\<rparr>)))] 16 x s
      else if grammarID = 17 then
        decode_switch 1
         [(0, decode_simple 17 4
            (decode_nbit_field 1 (\<lambda>u a. a\<lparr>ContractAuthenticationRes_EVSEProcessing := u\<rparr>)))] 17 x s
      else if grammarID = 4 then
        decode_switch 1
         [(0, decode_end 5)] 4 x s
      else Some (EXI_ERROR_UNKOWN_GRAMMAR_ID, (False, grammarID, x), s))"

definition decode_dinContractAuthenticationResType
    :: "u32 \<Rightarrow> dinContractAuthenticationResType decoder" where
  "decode_dinContractAuthenticationResType j x s
      = grammar_loop (ContractAuthenticationRes_dec_step j) 16 (fst x,
        init_dinContractAuthenticationResType (snd x)) s"

definition ContractAuthenticationRes_ok :: "dinContractAuthenticationResType \<Rightarrow> bool" where
  "ContractAuthenticationRes_ok v \<longleftrightarrow>
     ContractAuthenticationRes_ResponseCode v < 2 ^ 5 \<and>
     ContractAuthenticationRes_EVSEProcessing v < 2 ^ 1"

definition same_ContractAuthenticationRes
    :: "dinContractAuthenticationResType \<Rightarrow> dinContractAuthenticationResType \<Rightarrow> bool" where
  "same_ContractAuthenticationRes v a \<longleftrightarrow>
     ContractAuthenticationRes_ResponseCode a = ContractAuthenticationRes_ResponseCode v \<and>
     ContractAuthenticationRes_EVSEProcessing a = ContractAuthenticationRes_EVSEProcessing v"

definition ContractAuthenticationRes_at
    :: "dinContractAuthenticationResType \<Rightarrow> nat \<Rightarrow> dinContractAuthenticationResType \<Rightarrow> bool" where
  "ContractAuthenticationRes_at v g a \<longleftrightarrow>
     ContractAuthenticationRes_ok v \<and>
     g \<in> {16, 17, 4} \<and>
     (g \<notin> {16} \<longrightarrow>
       ContractAuthenticationRes_ResponseCode a = ContractAuthenticationRes_ResponseCode v) \<and>
     (g \<notin> {16, 17} \<longrightarrow>
       ContractAuthenticationRes_EVSEProcessing a = ContractAuthenticationRes_EVSEProcessing v)"

lemmas ContractAuthenticationRes_steps = ContractAuthenticationRes_enc_step_def
  ContractAuthenticationRes_dec_step_def

lemmas ContractAuthenticationRes_props
    = ContractAuthenticationRes_at_def ContractAuthenticationRes_ok_def same_ContractAuthenticationRes_def left_at_def

interpretation ContractAuthenticationRes: paired_machines "ContractAuthenticationRes_enc_step v"
    "ContractAuthenticationRes_dec_step j" "ContractAuthenticationRes_at v"
  "left_at [(16, 13), (17, 5), (4, 1)]" "same_ContractAuthenticationRes v" for v j
proof
  fix g a assume at: "ContractAuthenticationRes_at v g a"
  then have "g \<in> {16, 17, 4}" by (simp add: ContractAuthenticationRes_at_def)
  then have "g = 16 \<or>
      g = 17 \<or>
      g = 4"
    by (elim insertE emptyE) auto
  then show "hops (ContractAuthenticationRes_enc_step v) (ContractAuthenticationRes_dec_step j) (ContractAuthenticationRes_at v)
    (left_at [(16, 13), (17, 5), (4, 1)]) (same_ContractAuthenticationRes v) g a" using at
    by (elim disjE conjE)
      (rule hops_intros, simp add: ContractAuthenticationRes_steps, simp add: ContractAuthenticationRes_steps, simp,
        ((rule reads_intros)+)?,
        (clarsimp simp: ContractAuthenticationRes_props; fail)+)+
qed

lemma reads_ContractAuthenticationRes [reads_intros]:
  "ContractAuthenticationRes_ok v \<Longrightarrow>
      reads 13 (\<lambda>s. encode_dinContractAuthenticationResType s v) (decode_dinContractAuthenticationResType j) a (same_ContractAuthenticationRes v)"
  unfolding encode_dinContractAuthenticationResType_def decode_dinContractAuthenticationResType_def [abs_def]
  by (rule reads_start [OF ContractAuthenticationRes.machine_reads, of _ 16,
      THEN reads_mono]) (auto simp: ContractAuthenticationRes_at_def init_dinContractAuthenticationResType_def left_at_def)

interpretation ContractAuthenticationRes_enc: advancing_machine "ContractAuthenticationRes_enc_step v"
    "left_at [(16, 3), (17, 2), (4, 1)]" for v
  by unfold_locales (auto simp: ContractAuthenticationRes_steps dest!: advance_dests split: if_splits;
      simp add: left_at_def)

interpretation ContractAuthenticationRes_dec: advancing_machine "ContractAuthenticationRes_dec_step j"
    "left_at [(16, 3), (17, 2), (4, 1)]" for j
  by unfold_locales (auto simp: ContractAuthenticationRes_steps dest!: advance_dests elim!: decode_switch_next split: if_splits;
      simp add: left_at_def)

subsection \<open>\<open>dinMeteringReceiptResType\<close>\<close>

record dinMeteringReceiptResType =
  MeteringReceiptRes_ResponseCode :: u32
  MeteringReceiptRes_AC_EVSEStatus :: dinAC_EVSEStatusType

definition init_dinMeteringReceiptResType :: "dinMeteringReceiptResType \<Rightarrow> dinMeteringReceiptResType" where
  "init_dinMeteringReceiptResType a = a"

definition MeteringReceiptRes_enc_step :: "dinMeteringReceiptResType \<Rightarrow> unit machine" where
  "MeteringReceiptRes_enc_step v grammarID x s =
     (if grammarID = 192 then
        goto 54 x (encode_simple 1 0
          (\<lambda>s. encodeNBitUnsignedInteger s 5 (MeteringReceiptRes_ResponseCode v)) s)
      else if grammarID = 54 then
        goto 4 x (encode_child 1 0 (\<lambda>s. encode_dinAC_EVSEStatusType s (MeteringReceiptRes_AC_EVSEStatus v)) s)
      else if grammarID = 4 then
        finish 5 x (encodeNBitUnsignedInteger s 1 0)
      else Some (EXI_ERROR_UNKOWN_GRAMMAR_ID, (False, grammarID, x), s))"

definition encode_dinMeteringReceiptResType
    :: "bitstream \<Rightarrow> dinMeteringReceiptResType \<Rightarrow> (errn \<times> bitstream) option" where
  "encode_dinMeteringReceiptResType s v = run_encoder (MeteringReceiptRes_enc_step v) 192 () s"

definition MeteringReceiptRes_dec_step
    :: "u32 \<Rightarrow> (dec_static \<times> dinMeteringReceiptResType) machine" where
  "MeteringReceiptRes_dec_step j grammarID x s =
     (if grammarID = 192 then
        decode_switch 1
         [(0, decode_simple 192 54
            (decode_nbit_field 5 (\<lambda>u a. a\<lparr>MeteringReceiptRes_ResponseCode := u\<rparr>)))] 192 x s
      else if grammarID = 54 then
        decode_switch 1
         [(0, decode_child 4
            (decode_sub (decode_dinAC_EVSEStatusType j) MeteringReceiptRes_AC_EVSEStatus
              (\<lambda>u a. a\<lparr>MeteringReceiptRes_AC_EVSEStatus := u\<rparr>)))] 54 x s
      else if grammarID = 4 then
        decode_switch 1
         [(0, decode_end 5)] 4 x s
      else Some (EXI_ERROR_UNKOWN_GRAMMAR_ID, (False, grammarID, x), s))"

definition decode_dinMeteringReceiptResType :: "u32 \<Rightarrow> dinMeteringReceiptResType decoder" where
  "decode_dinMeteringReceiptResType j x s
      = grammar_loop (MeteringReceiptRes_dec_step j) 192 (fst x, init_dinMeteringReceiptResType (snd x)) s"

definition MeteringReceiptRes_ok :: "dinMeteringReceiptResType \<Rightarrow> bool" where
  "MeteringReceiptRes_ok v \<longleftrightarrow>
     MeteringReceiptRes_ResponseCode v < 2 ^ 5 \<and>
     AC_EVSEStatus_ok (MeteringReceiptRes_AC_EVSEStatus v)"

definition same_MeteringReceiptRes
    :: "dinMeteringReceiptResType \<Rightarrow> dinMeteringReceiptResType \<Rightarrow> bool" where
  "same_MeteringReceiptRes v a \<longleftrightarrow>
     MeteringReceiptRes_ResponseCode a = MeteringReceiptRes_ResponseCode v \<and>
     same_AC_EVSEStatus (MeteringReceiptRes_AC_EVSEStatus v) (MeteringReceiptRes_AC_EVSEStatus a)"

definition MeteringReceiptRes_at
    :: "dinMeteringReceiptResType \<Rightarrow> nat \<Rightarrow> dinMeteringReceiptResType \<Rightarrow> bool" where
  "MeteringReceiptRes_at v g a \<longleftrightarrow>
     MeteringReceiptRes_ok v \<and>
     g \<in> {192, 54, 4} \<and>
     (g \<notin> {192} \<longrightarrow> MeteringReceiptRes_ResponseCode a = MeteringReceiptRes_ResponseCode v) \<and>
     (g \<notin> {192, 54} \<longrightarrow>
       same_AC_EVSEStatus (MeteringReceiptRes_AC_EVSEStatus v) (MeteringReceiptRes_AC_EVSEStatus a))"

lemmas MeteringReceiptRes_steps = MeteringReceiptRes_enc_step_def
  MeteringReceiptRes_dec_step_def

lemmas MeteringReceiptRes_props
    = MeteringReceiptRes_at_def MeteringReceiptRes_ok_def same_MeteringReceiptRes_def left_at_def

interpretation MeteringReceiptRes: paired_machines "MeteringReceiptRes_enc_step v" "MeteringReceiptRes_dec_step j"
    "MeteringReceiptRes_at v"
  "left_at [(192, 67), (54, 59), (4, 1)]" "same_MeteringReceiptRes v" for v j
proof
  fix g a assume at: "MeteringReceiptRes_at v g a"
  then have "g \<in> {192, 54, 4}" by (simp add: MeteringReceiptRes_at_def)
  then have "g = 192 \<or>
      g = 54 \<or>
      g = 4"
    by (elim insertE emptyE) auto
  then show "hops (MeteringReceiptRes_enc_step v) (MeteringReceiptRes_dec_step j) (MeteringReceiptRes_at v)
    (left_at [(192, 67), (54, 59), (4, 1)]) (same_MeteringReceiptRes v) g a" using at
    by (elim disjE conjE)
      (rule hops_intros, simp add: MeteringReceiptRes_steps, simp add: MeteringReceiptRes_steps, simp,
        ((rule reads_intros)+)?,
        (clarsimp simp: MeteringReceiptRes_props; fail)+)+
qed

lemma reads_MeteringReceiptRes [reads_intros]:
  "MeteringReceiptRes_ok v \<Longrightarrow>
      reads 67 (\<lambda>s. encode_dinMeteringReceiptResType s v) (decode_dinMeteringReceiptResType j) a (same_MeteringReceiptRes v)"
  unfolding encode_dinMeteringReceiptResType_def decode_dinMeteringReceiptResType_def [abs_def]
  by (rule reads_start [OF MeteringReceiptRes.machine_reads, of _ 192,
      THEN reads_mono]) (auto simp: MeteringReceiptRes_at_def init_dinMeteringReceiptResType_def left_at_def)

interpretation MeteringReceiptRes_enc: advancing_machine "MeteringReceiptRes_enc_step v"
    "left_at [(192, 3), (54, 2), (4, 1)]" for v
  by unfold_locales (auto simp: MeteringReceiptRes_steps dest!: advance_dests split: if_splits;
      simp add: left_at_def)

interpretation MeteringReceiptRes_dec: advancing_machine "MeteringReceiptRes_dec_step j"
    "left_at [(192, 3), (54, 2), (4, 1)]" for j
  by unfold_locales (auto simp: MeteringReceiptRes_steps dest!: advance_dests elim!: decode_switch_next split: if_splits;
      simp add: left_at_def)

subsection \<open>\<open>dinSessionStopResType\<close>\<close>

record dinSessionStopResType =
  SessionStopRes_ResponseCode :: u32

definition init_dinSessionStopResType :: "dinSessionStopResType \<Rightarrow> dinSessionStopResType" where
  "init_dinSessionStopResType a = a"

definition SessionStopRes_enc_step :: "dinSessionStopResType \<Rightarrow> unit machine" where
  "SessionStopRes_enc_step v grammarID x s =
     (if grammarID = 223 then
        goto 4 x (encode_simple 1 0 (\<lambda>s. encodeNBitUnsignedInteger s 5 (SessionStopRes_ResponseCode v)) s)
      else if grammarID = 4 then
        finish 5 x (encodeNBitUnsignedInteger s 1 0)
      else Some (EXI_ERROR_UNKOWN_GRAMMAR_ID, (False, grammarID, x), s))"

definition encode_dinSessionStopResType
    :: "bitstream \<Rightarrow> dinSessionStopResType \<Rightarrow> (errn \<times> bitstream) option" where
  "encode_dinSessionStopResType s v = run_encoder (SessionStopRes_enc_step v) 223 () s"

definition SessionStopRes_dec_step :: "u32 \<Rightarrow> (dec_static \<times> dinSessionStopResType) machine" where
  "SessionStopRes_dec_step j grammarID x s =
     (if grammarID = 223 then
        decode_switch 1
         [(0, decode_simple 223 4
            (decode_nbit_field 5 (\<lambda>u a. a\<lparr>SessionStopRes_ResponseCode := u\<rparr>)))] 223 x s
      else if grammarID = 4 then
        decode_switch 1
         [(0, decode_end 5)] 4 x s
      else Some (EXI_ERROR_UNKOWN_GRAMMAR_ID, (False, grammarID, x), s))"

definition decode_dinSessionStopResType :: "u32 \<Rightarrow> dinSessionStopResType decoder" where
  "decode_dinSessionStopResType j x s
      = grammar_loop (SessionStopRes_dec_step j) 223 (fst x, init_dinSessionStopResType (snd x)) s"

definition SessionStopRes_ok :: "dinSessionStopResType \<Rightarrow> bool" where
  "SessionStopRes_ok v \<longleftrightarrow>
     SessionStopRes_ResponseCode v < 2 ^ 5"

definition same_SessionStopRes :: "dinSessionStopResType \<Rightarrow> dinSessionStopResType \<Rightarrow> bool" where
  "same_SessionStopRes v a \<longleftrightarrow>
     SessionStopRes_ResponseCode a = SessionStopRes_ResponseCode v"

definition SessionStopRes_at
    :: "dinSessionStopResType \<Rightarrow> nat \<Rightarrow> dinSessionStopResType \<Rightarrow> bool" where
  "SessionStopRes_at v g a \<longleftrightarrow>
     SessionStopRes_ok v \<and>
     g \<in> {223, 4} \<and>
     (g \<notin> {223} \<longrightarrow> SessionStopRes_ResponseCode a = SessionStopRes_ResponseCode v)"

lemmas SessionStopRes_steps = SessionStopRes_enc_step_def
  SessionStopRes_dec_step_def

lemmas SessionStopRes_props = SessionStopRes_at_def SessionStopRes_ok_def same_SessionStopRes_def left_at_def

interpretation SessionStopRes: paired_machines "SessionStopRes_enc_step v" "SessionStopRes_dec_step j"
    "SessionStopRes_at v"
  "left_at [(223, 9), (4, 1)]" "same_SessionStopRes v" for v j
proof
  fix g a assume at: "SessionStopRes_at v g a"
  then have "g \<in> {223, 4}" by (simp add: SessionStopRes_at_def)
  then have "g = 223 \<or>
      g = 4"
    by (elim insertE emptyE) auto
  then show "hops (SessionStopRes_enc_step v) (SessionStopRes_dec_step j) (SessionStopRes_at v)
    (left_at [(223, 9), (4, 1)]) (same_SessionStopRes v) g a" using at
    by (elim disjE conjE)
      (rule hops_intros, simp add: SessionStopRes_steps, simp add: SessionStopRes_steps, simp,
        ((rule reads_intros)+)?,
        (clarsimp simp: SessionStopRes_props; fail)+)+
qed

lemma reads_SessionStopRes [reads_intros]:
  "SessionStopRes_ok v \<Longrightarrow>
      reads 9 (\<lambda>s. encode_dinSessionStopResType s v) (decode_dinSessionStopResType j) a (same_SessionStopRes v)"
  unfolding encode_dinSessionStopResType_def decode_dinSessionStopResType_def [abs_def]
  by (rule reads_start [OF SessionStopRes.machine_reads, of _ 223,
      THEN reads_mono]) (auto simp: SessionStopRes_at_def init_dinSessionStopResType_def left_at_def)

interpretation SessionStopRes_enc: advancing_machine "SessionStopRes_enc_step v" "left_at [(223, 2), (4, 1)]" for v
  by unfold_locales (auto simp: SessionStopRes_steps dest!: advance_dests split: if_splits;
      simp add: left_at_def)

interpretation SessionStopRes_dec: advancing_machine "SessionStopRes_dec_step j" "left_at [(223, 2), (4, 1)]" for j
  by unfold_locales (auto simp: SessionStopRes_steps dest!: advance_dests elim!: decode_switch_next split: if_splits;
      simp add: left_at_def)

subsection \<open>Properties\<close>







end
