(* ===== verification/DinParameters.thy ===== *)
theory DinParameters
  imports DinValues
begin

section \<open>DIN 70121 codec: charge parameters\<close>

text \<open>
  The limits and parameters of the vehicle and of the charging station, and the request that carries
  those of the vehicle, in the form explained in \<open>DinValues\<close>. The request has a choice of three
  forms, by flags.
\<close>

subsection \<open>\<open>dinDC_EVChargeParameterType\<close>\<close>

record dinDC_EVChargeParameterType =
  DC_EVChargeParameter_DC_EVStatus :: dinDC_EVStatusType
  DC_EVChargeParameter_EVMaximumCurrentLimit :: dinPhysicalValueType
  DC_EVChargeParameter_EVMaximumPowerLimit :: dinPhysicalValueType
  DC_EVChargeParameter_EVMaximumPowerLimit_isUsed :: bool
  DC_EVChargeParameter_EVMaximumVoltageLimit :: dinPhysicalValueType
  DC_EVChargeParameter_EVEnergyCapacity :: dinPhysicalValueType
  DC_EVChargeParameter_EVEnergyCapacity_isUsed :: bool
  DC_EVChargeParameter_EVEnergyRequest :: dinPhysicalValueType
  DC_EVChargeParameter_EVEnergyRequest_isUsed :: bool
  DC_EVChargeParameter_FullSOC :: u8
  DC_EVChargeParameter_FullSOC_isUsed :: bool
  DC_EVChargeParameter_BulkSOC :: u8
  DC_EVChargeParameter_BulkSOC_isUsed :: bool

definition init_dinDC_EVChargeParameterType
    :: "dinDC_EVChargeParameterType \<Rightarrow> dinDC_EVChargeParameterType" where
  "init_dinDC_EVChargeParameterType a
      = a\<lparr>DC_EVChargeParameter_EVMaximumPowerLimit_isUsed := False,
        DC_EVChargeParameter_EVEnergyCapacity_isUsed := False, DC_EVChargeParameter_EVEnergyRequest_isUsed := False,
          DC_EVChargeParameter_FullSOC_isUsed := False, DC_EVChargeParameter_BulkSOC_isUsed := False\<rparr>"

definition DC_EVChargeParameter_enc_step_2 :: "dinDC_EVChargeParameterType \<Rightarrow> unit machine" where
  "DC_EVChargeParameter_enc_step_2 v grammarID x s =
     (if grammarID = 70 then
        if DC_EVChargeParameter_EVEnergyRequest_isUsed v then
          goto 71 x (encode_child 3 0
            (\<lambda>s. encode_dinPhysicalValueType s (DC_EVChargeParameter_EVEnergyRequest v)) s)
        else if DC_EVChargeParameter_FullSOC_isUsed v then
          goto 72 x (encode_simple 3 1
            (\<lambda>s. encodeNBitUnsignedInteger s 7 (scast (DC_EVChargeParameter_FullSOC v))) s)
        else if DC_EVChargeParameter_BulkSOC_isUsed v then
          goto 4 x (encode_simple 3 2
            (\<lambda>s. encodeNBitUnsignedInteger s 7 (scast (DC_EVChargeParameter_BulkSOC v))) s)
        else finish 5 x (encodeNBitUnsignedInteger s 3 3)
      else if grammarID = 71 then
        if DC_EVChargeParameter_FullSOC_isUsed v then
          goto 72 x (encode_simple 2 0
            (\<lambda>s. encodeNBitUnsignedInteger s 7 (scast (DC_EVChargeParameter_FullSOC v))) s)
        else if DC_EVChargeParameter_BulkSOC_isUsed v then
          goto 4 x (encode_simple 2 1
            (\<lambda>s. encodeNBitUnsignedInteger s 7 (scast (DC_EVChargeParameter_BulkSOC v))) s)
        else finish 5 x (encodeNBitUnsignedInteger s 2 2)
      else if grammarID = 72 then
        if DC_EVChargeParameter_BulkSOC_isUsed v then
          goto 4 x (encode_simple 2 0
            (\<lambda>s. encodeNBitUnsignedInteger s 7 (scast (DC_EVChargeParameter_BulkSOC v))) s)
        else finish 5 x (encodeNBitUnsignedInteger s 2 1)
      else if grammarID = 4 then
        finish 5 x (encodeNBitUnsignedInteger s 1 0)
      else Some (EXI_ERROR_UNKOWN_GRAMMAR_ID, (False, grammarID, x), s))"

definition DC_EVChargeParameter_enc_step :: "dinDC_EVChargeParameterType \<Rightarrow> unit machine" where
  "DC_EVChargeParameter_enc_step v grammarID x s =
     (if grammarID = 65 then
        goto 66 x (encode_child 1 0 (\<lambda>s. encode_dinDC_EVStatusType s (DC_EVChargeParameter_DC_EVStatus v)) s)
      else if grammarID = 66 then
        goto 67 x (encode_child 1 0
          (\<lambda>s. encode_dinPhysicalValueType s (DC_EVChargeParameter_EVMaximumCurrentLimit v)) s)
      else if grammarID = 67 then
        if DC_EVChargeParameter_EVMaximumPowerLimit_isUsed v then
          goto 68 x (encode_child 2 0
            (\<lambda>s. encode_dinPhysicalValueType s (DC_EVChargeParameter_EVMaximumPowerLimit v)) s)
        else goto 69 x (encode_child 2 1 (\<lambda>s. encode_dinPhysicalValueType s (DC_EVChargeParameter_EVMaximumVoltageLimit v)) s)
      else if grammarID = 68 then
        goto 69 x (encode_child 1 0
          (\<lambda>s. encode_dinPhysicalValueType s (DC_EVChargeParameter_EVMaximumVoltageLimit v)) s)
      else if grammarID = 69 then
        if DC_EVChargeParameter_EVEnergyCapacity_isUsed v then
          goto 70 x (encode_child 3 0
            (\<lambda>s. encode_dinPhysicalValueType s (DC_EVChargeParameter_EVEnergyCapacity v)) s)
        else if DC_EVChargeParameter_EVEnergyRequest_isUsed v then
          goto 71 x (encode_child 3 1
            (\<lambda>s. encode_dinPhysicalValueType s (DC_EVChargeParameter_EVEnergyRequest v)) s)
        else if DC_EVChargeParameter_FullSOC_isUsed v then
          goto 72 x (encode_simple 3 2
            (\<lambda>s. encodeNBitUnsignedInteger s 7 (scast (DC_EVChargeParameter_FullSOC v))) s)
        else if DC_EVChargeParameter_BulkSOC_isUsed v then
          goto 4 x (encode_simple 3 3
            (\<lambda>s. encodeNBitUnsignedInteger s 7 (scast (DC_EVChargeParameter_BulkSOC v))) s)
        else finish 5 x (encodeNBitUnsignedInteger s 3 4)
      else DC_EVChargeParameter_enc_step_2 v grammarID x s)"

definition encode_dinDC_EVChargeParameterType
    :: "bitstream \<Rightarrow> dinDC_EVChargeParameterType \<Rightarrow> (errn \<times> bitstream) option" where
  "encode_dinDC_EVChargeParameterType s v = run_encoder (DC_EVChargeParameter_enc_step v) 65 () s"

definition DC_EVChargeParameter_dec_step_3
    :: "u32 \<Rightarrow> (dec_static \<times> dinDC_EVChargeParameterType) machine" where
  "DC_EVChargeParameter_dec_step_3 j grammarID x s =
     (if grammarID = 72 then
        decode_switch 2
         [(0, decode_simple 72 4
            (decode_used (\<lambda>a. a\<lparr>DC_EVChargeParameter_BulkSOC_isUsed := True\<rparr>)
              (decode_nbit_field 7 (\<lambda>u a. a\<lparr>DC_EVChargeParameter_BulkSOC := ucast u\<rparr>)))),
          (1, decode_end 5)] 72 x s
      else if grammarID = 4 then
        decode_switch 1
         [(0, decode_end 5)] 4 x s
      else Some (EXI_ERROR_UNKOWN_GRAMMAR_ID, (False, grammarID, x), s))"

definition DC_EVChargeParameter_dec_step_2
    :: "u32 \<Rightarrow> (dec_static \<times> dinDC_EVChargeParameterType) machine" where
  "DC_EVChargeParameter_dec_step_2 j grammarID x s =
     (if grammarID = 70 then
        decode_switch 3
         [(0, decode_child 71
            (decode_used (\<lambda>a. a\<lparr>DC_EVChargeParameter_EVEnergyRequest_isUsed := True\<rparr>)
              (decode_sub (decode_dinPhysicalValueType j) DC_EVChargeParameter_EVEnergyRequest
                (\<lambda>u a. a\<lparr>DC_EVChargeParameter_EVEnergyRequest := u\<rparr>)))),
          (1, decode_simple 70 72
             (decode_used (\<lambda>a. a\<lparr>DC_EVChargeParameter_FullSOC_isUsed := True\<rparr>)
               (decode_nbit_field 7 (\<lambda>u a. a\<lparr>DC_EVChargeParameter_FullSOC := ucast u\<rparr>)))),
          (2, decode_simple 70 4
             (decode_used (\<lambda>a. a\<lparr>DC_EVChargeParameter_BulkSOC_isUsed := True\<rparr>)
               (decode_nbit_field 7 (\<lambda>u a. a\<lparr>DC_EVChargeParameter_BulkSOC := ucast u\<rparr>)))),
          (3, decode_end 5)] 70 x s
      else if grammarID = 71 then
        decode_switch 2
         [(0, decode_simple 71 72
            (decode_used (\<lambda>a. a\<lparr>DC_EVChargeParameter_FullSOC_isUsed := True\<rparr>)
              (decode_nbit_field 7 (\<lambda>u a. a\<lparr>DC_EVChargeParameter_FullSOC := ucast u\<rparr>)))),
          (1, decode_simple 71 4
             (decode_used (\<lambda>a. a\<lparr>DC_EVChargeParameter_BulkSOC_isUsed := True\<rparr>)
               (decode_nbit_field 7 (\<lambda>u a. a\<lparr>DC_EVChargeParameter_BulkSOC := ucast u\<rparr>)))),
          (2, decode_end 5)] 71 x s
      else DC_EVChargeParameter_dec_step_3 j grammarID x s)"

definition DC_EVChargeParameter_dec_step
    :: "u32 \<Rightarrow> (dec_static \<times> dinDC_EVChargeParameterType) machine" where
  "DC_EVChargeParameter_dec_step j grammarID x s =
     (if grammarID = 65 then
        decode_switch 1
         [(0, decode_child 66
            (decode_sub (decode_dinDC_EVStatusType j) DC_EVChargeParameter_DC_EVStatus
              (\<lambda>u a. a\<lparr>DC_EVChargeParameter_DC_EVStatus := u\<rparr>)))] 65 x s
      else if grammarID = 66 then
        decode_switch 1
         [(0, decode_child 67
            (decode_sub (decode_dinPhysicalValueType j) DC_EVChargeParameter_EVMaximumCurrentLimit
              (\<lambda>u a. a\<lparr>DC_EVChargeParameter_EVMaximumCurrentLimit := u\<rparr>)))] 66 x s
      else if grammarID = 67 then
        decode_switch 2
         [(0, decode_child 68
            (decode_used (\<lambda>a. a\<lparr>DC_EVChargeParameter_EVMaximumPowerLimit_isUsed := True\<rparr>)
              (decode_sub (decode_dinPhysicalValueType j) DC_EVChargeParameter_EVMaximumPowerLimit
                (\<lambda>u a. a\<lparr>DC_EVChargeParameter_EVMaximumPowerLimit := u\<rparr>)))),
          (1, decode_child 69
             (decode_sub (decode_dinPhysicalValueType j) DC_EVChargeParameter_EVMaximumVoltageLimit
               (\<lambda>u a. a\<lparr>DC_EVChargeParameter_EVMaximumVoltageLimit := u\<rparr>)))] 67 x s
      else if grammarID = 68 then
        decode_switch 1
         [(0, decode_child 69
            (decode_sub (decode_dinPhysicalValueType j) DC_EVChargeParameter_EVMaximumVoltageLimit
              (\<lambda>u a. a\<lparr>DC_EVChargeParameter_EVMaximumVoltageLimit := u\<rparr>)))] 68 x s
      else if grammarID = 69 then
        decode_switch 3
         [(0, decode_child 70
            (decode_used (\<lambda>a. a\<lparr>DC_EVChargeParameter_EVEnergyCapacity_isUsed := True\<rparr>)
              (decode_sub (decode_dinPhysicalValueType j) DC_EVChargeParameter_EVEnergyCapacity
                (\<lambda>u a. a\<lparr>DC_EVChargeParameter_EVEnergyCapacity := u\<rparr>)))),
          (1, decode_child 71
             (decode_used (\<lambda>a. a\<lparr>DC_EVChargeParameter_EVEnergyRequest_isUsed := True\<rparr>)
               (decode_sub (decode_dinPhysicalValueType j) DC_EVChargeParameter_EVEnergyRequest
                 (\<lambda>u a. a\<lparr>DC_EVChargeParameter_EVEnergyRequest := u\<rparr>)))),
          (2, decode_simple 69 72
             (decode_used (\<lambda>a. a\<lparr>DC_EVChargeParameter_FullSOC_isUsed := True\<rparr>)
               (decode_nbit_field 7 (\<lambda>u a. a\<lparr>DC_EVChargeParameter_FullSOC := ucast u\<rparr>)))),
          (3, decode_simple 69 4
             (decode_used (\<lambda>a. a\<lparr>DC_EVChargeParameter_BulkSOC_isUsed := True\<rparr>)
               (decode_nbit_field 7 (\<lambda>u a. a\<lparr>DC_EVChargeParameter_BulkSOC := ucast u\<rparr>)))),
          (4, decode_end 5)] 69 x s
      else DC_EVChargeParameter_dec_step_2 j grammarID x s)"

definition decode_dinDC_EVChargeParameterType :: "u32 \<Rightarrow> dinDC_EVChargeParameterType decoder" where
  "decode_dinDC_EVChargeParameterType j x s
      = grammar_loop (DC_EVChargeParameter_dec_step j) 65 (fst x, init_dinDC_EVChargeParameterType (snd x)) s"

definition DC_EVChargeParameter_ok :: "dinDC_EVChargeParameterType \<Rightarrow> bool" where
  "DC_EVChargeParameter_ok v \<longleftrightarrow>
     DC_EVStatus_ok (DC_EVChargeParameter_DC_EVStatus v) \<and>
     PhysicalValue_ok (DC_EVChargeParameter_EVMaximumCurrentLimit v) \<and>
     (DC_EVChargeParameter_EVMaximumPowerLimit_isUsed v \<longrightarrow>
       PhysicalValue_ok (DC_EVChargeParameter_EVMaximumPowerLimit v)) \<and>
     PhysicalValue_ok (DC_EVChargeParameter_EVMaximumVoltageLimit v) \<and>
     (DC_EVChargeParameter_EVEnergyCapacity_isUsed v \<longrightarrow>
       PhysicalValue_ok (DC_EVChargeParameter_EVEnergyCapacity v)) \<and>
     (DC_EVChargeParameter_EVEnergyRequest_isUsed v \<longrightarrow>
       PhysicalValue_ok (DC_EVChargeParameter_EVEnergyRequest v)) \<and>
     (DC_EVChargeParameter_FullSOC_isUsed v \<longrightarrow>
       scast (DC_EVChargeParameter_FullSOC v) < (2 ^ 7 :: u32)) \<and>
     (DC_EVChargeParameter_BulkSOC_isUsed v \<longrightarrow>
       scast (DC_EVChargeParameter_BulkSOC v) < (2 ^ 7 :: u32))"

definition same_DC_EVChargeParameter
    :: "dinDC_EVChargeParameterType \<Rightarrow> dinDC_EVChargeParameterType \<Rightarrow> bool" where
  "same_DC_EVChargeParameter v a \<longleftrightarrow>
     same_DC_EVStatus (DC_EVChargeParameter_DC_EVStatus v) (DC_EVChargeParameter_DC_EVStatus a) \<and>
     same_PhysicalValue (DC_EVChargeParameter_EVMaximumCurrentLimit v) (DC_EVChargeParameter_EVMaximumCurrentLimit a) \<and>
     DC_EVChargeParameter_EVMaximumPowerLimit_isUsed a = DC_EVChargeParameter_EVMaximumPowerLimit_isUsed v \<and>
       (DC_EVChargeParameter_EVMaximumPowerLimit_isUsed v \<longrightarrow>
         same_PhysicalValue (DC_EVChargeParameter_EVMaximumPowerLimit v) (DC_EVChargeParameter_EVMaximumPowerLimit a)) \<and>
     same_PhysicalValue (DC_EVChargeParameter_EVMaximumVoltageLimit v) (DC_EVChargeParameter_EVMaximumVoltageLimit a) \<and>
     DC_EVChargeParameter_EVEnergyCapacity_isUsed a = DC_EVChargeParameter_EVEnergyCapacity_isUsed v \<and>
       (DC_EVChargeParameter_EVEnergyCapacity_isUsed v \<longrightarrow>
         same_PhysicalValue (DC_EVChargeParameter_EVEnergyCapacity v) (DC_EVChargeParameter_EVEnergyCapacity a)) \<and>
     DC_EVChargeParameter_EVEnergyRequest_isUsed a = DC_EVChargeParameter_EVEnergyRequest_isUsed v \<and>
       (DC_EVChargeParameter_EVEnergyRequest_isUsed v \<longrightarrow>
         same_PhysicalValue (DC_EVChargeParameter_EVEnergyRequest v) (DC_EVChargeParameter_EVEnergyRequest a)) \<and>
     DC_EVChargeParameter_FullSOC_isUsed a = DC_EVChargeParameter_FullSOC_isUsed v \<and>
       (DC_EVChargeParameter_FullSOC_isUsed v \<longrightarrow>
         DC_EVChargeParameter_FullSOC a = DC_EVChargeParameter_FullSOC v) \<and>
     DC_EVChargeParameter_BulkSOC_isUsed a = DC_EVChargeParameter_BulkSOC_isUsed v \<and>
       (DC_EVChargeParameter_BulkSOC_isUsed v \<longrightarrow>
         DC_EVChargeParameter_BulkSOC a = DC_EVChargeParameter_BulkSOC v)"

definition DC_EVChargeParameter_at
    :: "dinDC_EVChargeParameterType \<Rightarrow> nat \<Rightarrow> dinDC_EVChargeParameterType \<Rightarrow> bool" where
  "DC_EVChargeParameter_at v g a \<longleftrightarrow>
     DC_EVChargeParameter_ok v \<and>
     g \<in> {65, 66, 67, 68, 69, 70, 71, 72, 4} \<and>
     (g \<notin> {65} \<longrightarrow>
       same_DC_EVStatus (DC_EVChargeParameter_DC_EVStatus v) (DC_EVChargeParameter_DC_EVStatus a)) \<and>
     (g \<notin> {65, 66} \<longrightarrow>
       same_PhysicalValue (DC_EVChargeParameter_EVMaximumCurrentLimit v) (DC_EVChargeParameter_EVMaximumCurrentLimit a)) \<and>
     (if g \<in> {65, 66, 67} then \<not> DC_EVChargeParameter_EVMaximumPowerLimit_isUsed a
      else DC_EVChargeParameter_EVMaximumPowerLimit_isUsed a
        = DC_EVChargeParameter_EVMaximumPowerLimit_isUsed v \<and>
          (DC_EVChargeParameter_EVMaximumPowerLimit_isUsed v \<longrightarrow>
            same_PhysicalValue (DC_EVChargeParameter_EVMaximumPowerLimit v) (DC_EVChargeParameter_EVMaximumPowerLimit a))) \<and>
     (g \<notin> {65, 66, 67, 68} \<longrightarrow>
       same_PhysicalValue (DC_EVChargeParameter_EVMaximumVoltageLimit v) (DC_EVChargeParameter_EVMaximumVoltageLimit a)) \<and>
     (if g \<in> {65, 66, 67, 68, 69} then \<not> DC_EVChargeParameter_EVEnergyCapacity_isUsed a
      else DC_EVChargeParameter_EVEnergyCapacity_isUsed a = DC_EVChargeParameter_EVEnergyCapacity_isUsed v \<and>
        (DC_EVChargeParameter_EVEnergyCapacity_isUsed v \<longrightarrow>
          same_PhysicalValue (DC_EVChargeParameter_EVEnergyCapacity v) (DC_EVChargeParameter_EVEnergyCapacity a))) \<and>
     (if g \<in> {65, 66, 67, 68, 69, 70} then \<not> DC_EVChargeParameter_EVEnergyRequest_isUsed a
      else DC_EVChargeParameter_EVEnergyRequest_isUsed a = DC_EVChargeParameter_EVEnergyRequest_isUsed v \<and>
        (DC_EVChargeParameter_EVEnergyRequest_isUsed v \<longrightarrow>
          same_PhysicalValue (DC_EVChargeParameter_EVEnergyRequest v) (DC_EVChargeParameter_EVEnergyRequest a))) \<and>
     (if g \<in> {65, 66, 67, 68, 69, 70, 71} then \<not> DC_EVChargeParameter_FullSOC_isUsed a
      else DC_EVChargeParameter_FullSOC_isUsed a = DC_EVChargeParameter_FullSOC_isUsed v \<and>
        (DC_EVChargeParameter_FullSOC_isUsed v \<longrightarrow>
          DC_EVChargeParameter_FullSOC a = DC_EVChargeParameter_FullSOC v)) \<and>
     (if g \<in> {65, 66, 67, 68, 69, 70, 71, 72} then \<not> DC_EVChargeParameter_BulkSOC_isUsed a
      else DC_EVChargeParameter_BulkSOC_isUsed a = DC_EVChargeParameter_BulkSOC_isUsed v \<and>
        (DC_EVChargeParameter_BulkSOC_isUsed v \<longrightarrow>
          DC_EVChargeParameter_BulkSOC a = DC_EVChargeParameter_BulkSOC v))"

lemmas DC_EVChargeParameter_steps = DC_EVChargeParameter_enc_step_def DC_EVChargeParameter_enc_step_2_def
  DC_EVChargeParameter_dec_step_def DC_EVChargeParameter_dec_step_2_def DC_EVChargeParameter_dec_step_3_def

lemmas DC_EVChargeParameter_props
    = DC_EVChargeParameter_at_def DC_EVChargeParameter_ok_def same_DC_EVChargeParameter_def left_at_def

interpretation DC_EVChargeParameter: paired_machines "DC_EVChargeParameter_enc_step v"
    "DC_EVChargeParameter_dec_step j" "DC_EVChargeParameter_at v"
  "left_at [(65, 281), (66, 248), (67, 204), (68, 159), (69, 115), (70, 69), (71, 23), (72, 12), (4, 1)]"
      "same_DC_EVChargeParameter v" for v j
proof
  fix g a assume at: "DC_EVChargeParameter_at v g a"
  then have "g \<in> {65, 66, 67, 68, 69, 70, 71, 72, 4}" by (simp add: DC_EVChargeParameter_at_def)
  then have "g = 65 \<or>
      g = 66 \<or>
      (g = 67 \<and> DC_EVChargeParameter_EVMaximumPowerLimit_isUsed v) \<or>
      (g = 67 \<and> \<not> DC_EVChargeParameter_EVMaximumPowerLimit_isUsed v) \<or>
      g = 68 \<or>
      (g = 69 \<and> DC_EVChargeParameter_EVEnergyCapacity_isUsed v) \<or>
      (g = 69 \<and> \<not> DC_EVChargeParameter_EVEnergyCapacity_isUsed v \<and>
        DC_EVChargeParameter_EVEnergyRequest_isUsed v) \<or>
      (g = 69 \<and> \<not> DC_EVChargeParameter_EVEnergyCapacity_isUsed v \<and>
        \<not> DC_EVChargeParameter_EVEnergyRequest_isUsed v \<and> DC_EVChargeParameter_FullSOC_isUsed v) \<or>
      (g = 69 \<and> \<not> DC_EVChargeParameter_EVEnergyCapacity_isUsed v \<and>
        \<not> DC_EVChargeParameter_EVEnergyRequest_isUsed v \<and>
          \<not> DC_EVChargeParameter_FullSOC_isUsed v \<and> DC_EVChargeParameter_BulkSOC_isUsed v) \<or>
      (g = 69 \<and> \<not> DC_EVChargeParameter_EVEnergyCapacity_isUsed v \<and>
        \<not> DC_EVChargeParameter_EVEnergyRequest_isUsed v \<and>
          \<not> DC_EVChargeParameter_FullSOC_isUsed v \<and> \<not> DC_EVChargeParameter_BulkSOC_isUsed v) \<or>
      (g = 70 \<and> DC_EVChargeParameter_EVEnergyRequest_isUsed v) \<or>
      (g = 70 \<and> \<not> DC_EVChargeParameter_EVEnergyRequest_isUsed v \<and>
        DC_EVChargeParameter_FullSOC_isUsed v) \<or>
      (g = 70 \<and> \<not> DC_EVChargeParameter_EVEnergyRequest_isUsed v \<and>
        \<not> DC_EVChargeParameter_FullSOC_isUsed v \<and> DC_EVChargeParameter_BulkSOC_isUsed v) \<or>
      (g = 70 \<and> \<not> DC_EVChargeParameter_EVEnergyRequest_isUsed v \<and>
        \<not> DC_EVChargeParameter_FullSOC_isUsed v \<and> \<not> DC_EVChargeParameter_BulkSOC_isUsed v) \<or>
      (g = 71 \<and> DC_EVChargeParameter_FullSOC_isUsed v) \<or>
      (g = 71 \<and> \<not> DC_EVChargeParameter_FullSOC_isUsed v \<and> DC_EVChargeParameter_BulkSOC_isUsed v) \<or>
      (g = 71 \<and> \<not> DC_EVChargeParameter_FullSOC_isUsed v \<and>
        \<not> DC_EVChargeParameter_BulkSOC_isUsed v) \<or>
      (g = 72 \<and> DC_EVChargeParameter_BulkSOC_isUsed v) \<or>
      (g = 72 \<and> \<not> DC_EVChargeParameter_BulkSOC_isUsed v) \<or>
      g = 4"
    by (elim insertE emptyE) auto
  then show "hops (DC_EVChargeParameter_enc_step v) (DC_EVChargeParameter_dec_step j) (DC_EVChargeParameter_at v)
    (left_at [(65, 281), (66, 248), (67, 204), (68, 159), (69, 115), (70, 69), (71, 23), (72, 12), (4,
      1)]) (same_DC_EVChargeParameter v) g a" using at
    by (elim disjE conjE)
      (rule hops_intros, simp add: DC_EVChargeParameter_steps, simp add: DC_EVChargeParameter_steps, simp,
        ((rule reads_intros)+)?,
        (clarsimp simp: DC_EVChargeParameter_props; fail)+)+
qed

lemma reads_DC_EVChargeParameter [reads_intros]:
  "DC_EVChargeParameter_ok v \<Longrightarrow>
      reads 281 (\<lambda>s. encode_dinDC_EVChargeParameterType s v) (decode_dinDC_EVChargeParameterType j) a (same_DC_EVChargeParameter v)"
  unfolding encode_dinDC_EVChargeParameterType_def decode_dinDC_EVChargeParameterType_def [abs_def]
  by (rule reads_start [OF DC_EVChargeParameter.machine_reads, of _ 65,
      THEN reads_mono]) (auto simp: DC_EVChargeParameter_at_def init_dinDC_EVChargeParameterType_def left_at_def)

interpretation DC_EVChargeParameter_enc: advancing_machine "DC_EVChargeParameter_enc_step v"
    "left_at [(65, 9), (66, 8), (67, 7), (68, 6), (69, 5), (70, 4), (71, 3), (72, 2), (4, 1)]" for v
  by unfold_locales (auto simp: DC_EVChargeParameter_steps dest!: advance_dests split: if_splits;
      simp add: left_at_def)

interpretation DC_EVChargeParameter_dec: advancing_machine "DC_EVChargeParameter_dec_step j"
    "left_at [(65, 9), (66, 8), (67, 7), (68, 6), (69, 5), (70, 4), (71, 3), (72, 2), (4, 1)]" for j
  by unfold_locales (auto simp: DC_EVChargeParameter_steps dest!: advance_dests elim!: decode_switch_next split: if_splits;
      simp add: left_at_def)

subsection \<open>\<open>dinDC_EVSEChargeParameterType\<close>\<close>

record dinDC_EVSEChargeParameterType =
  DC_EVSEChargeParameter_DC_EVSEStatus :: dinDC_EVSEStatusType
  DC_EVSEChargeParameter_EVSEMaximumCurrentLimit :: dinPhysicalValueType
  DC_EVSEChargeParameter_EVSEMaximumPowerLimit :: dinPhysicalValueType
  DC_EVSEChargeParameter_EVSEMaximumPowerLimit_isUsed :: bool
  DC_EVSEChargeParameter_EVSEMaximumVoltageLimit :: dinPhysicalValueType
  DC_EVSEChargeParameter_EVSEMinimumCurrentLimit :: dinPhysicalValueType
  DC_EVSEChargeParameter_EVSEMinimumVoltageLimit :: dinPhysicalValueType
  DC_EVSEChargeParameter_EVSECurrentRegulationTolerance :: dinPhysicalValueType
  DC_EVSEChargeParameter_EVSECurrentRegulationTolerance_isUsed :: bool
  DC_EVSEChargeParameter_EVSEPeakCurrentRipple :: dinPhysicalValueType
  DC_EVSEChargeParameter_EVSEEnergyToBeDelivered :: dinPhysicalValueType
  DC_EVSEChargeParameter_EVSEEnergyToBeDelivered_isUsed :: bool

definition init_dinDC_EVSEChargeParameterType
    :: "dinDC_EVSEChargeParameterType \<Rightarrow> dinDC_EVSEChargeParameterType" where
  "init_dinDC_EVSEChargeParameterType a
      = a\<lparr>DC_EVSEChargeParameter_EVSEMaximumPowerLimit_isUsed := False,
        DC_EVSEChargeParameter_EVSECurrentRegulationTolerance_isUsed := False,
          DC_EVSEChargeParameter_EVSEEnergyToBeDelivered_isUsed := False\<rparr>"

definition DC_EVSEChargeParameter_enc_step :: "dinDC_EVSEChargeParameterType \<Rightarrow> unit machine" where
  "DC_EVSEChargeParameter_enc_step v grammarID x s =
     (if grammarID = 82 then
        goto 83 x (encode_child 1 0
          (\<lambda>s. encode_dinDC_EVSEStatusType s (DC_EVSEChargeParameter_DC_EVSEStatus v)) s)
      else if grammarID = 83 then
        goto 84 x (encode_child 1 0
          (\<lambda>s. encode_dinPhysicalValueType s (DC_EVSEChargeParameter_EVSEMaximumCurrentLimit v)) s)
      else if grammarID = 84 then
        if DC_EVSEChargeParameter_EVSEMaximumPowerLimit_isUsed v then
          goto 85 x (encode_child 2 0
            (\<lambda>s. encode_dinPhysicalValueType s (DC_EVSEChargeParameter_EVSEMaximumPowerLimit v)) s)
        else goto 86 x (encode_child 2 1 (\<lambda>s. encode_dinPhysicalValueType s (DC_EVSEChargeParameter_EVSEMaximumVoltageLimit v)) s)
      else if grammarID = 85 then
        goto 86 x (encode_child 1 0
          (\<lambda>s. encode_dinPhysicalValueType s (DC_EVSEChargeParameter_EVSEMaximumVoltageLimit v)) s)
      else if grammarID = 86 then
        goto 87 x (encode_child 1 0
          (\<lambda>s. encode_dinPhysicalValueType s (DC_EVSEChargeParameter_EVSEMinimumCurrentLimit v)) s)
      else if grammarID = 87 then
        goto 88 x (encode_child 1 0
          (\<lambda>s. encode_dinPhysicalValueType s (DC_EVSEChargeParameter_EVSEMinimumVoltageLimit v)) s)
      else if grammarID = 88 then
        if DC_EVSEChargeParameter_EVSECurrentRegulationTolerance_isUsed v then
          goto 89 x (encode_child 2 0
            (\<lambda>s. encode_dinPhysicalValueType s (DC_EVSEChargeParameter_EVSECurrentRegulationTolerance v)) s)
        else goto 90 x (encode_child 2 1 (\<lambda>s. encode_dinPhysicalValueType s (DC_EVSEChargeParameter_EVSEPeakCurrentRipple v)) s)
      else if grammarID = 89 then
        goto 90 x (encode_child 1 0
          (\<lambda>s. encode_dinPhysicalValueType s (DC_EVSEChargeParameter_EVSEPeakCurrentRipple v)) s)
      else if grammarID = 90 then
        if DC_EVSEChargeParameter_EVSEEnergyToBeDelivered_isUsed v then
          goto 4 x (encode_child 2 0
            (\<lambda>s. encode_dinPhysicalValueType s (DC_EVSEChargeParameter_EVSEEnergyToBeDelivered v)) s)
        else finish 5 x (encodeNBitUnsignedInteger s 2 1)
      else if grammarID = 4 then
        finish 5 x (encodeNBitUnsignedInteger s 1 0)
      else Some (EXI_ERROR_UNKOWN_GRAMMAR_ID, (False, grammarID, x), s))"

definition encode_dinDC_EVSEChargeParameterType
    :: "bitstream \<Rightarrow> dinDC_EVSEChargeParameterType \<Rightarrow> (errn \<times> bitstream) option" where
  "encode_dinDC_EVSEChargeParameterType s v = run_encoder (DC_EVSEChargeParameter_enc_step v) 82 () s"

definition DC_EVSEChargeParameter_dec_step
    :: "u32 \<Rightarrow> (dec_static \<times> dinDC_EVSEChargeParameterType) machine" where
  "DC_EVSEChargeParameter_dec_step j grammarID x s =
     (if grammarID = 82 then
        decode_switch 1
         [(0, decode_child 83
            (decode_sub (decode_dinDC_EVSEStatusType j) DC_EVSEChargeParameter_DC_EVSEStatus
              (\<lambda>u a. a\<lparr>DC_EVSEChargeParameter_DC_EVSEStatus := u\<rparr>)))] 82 x s
      else if grammarID = 83 then
        decode_switch 1
         [(0, decode_child 84
            (decode_sub (decode_dinPhysicalValueType j) DC_EVSEChargeParameter_EVSEMaximumCurrentLimit
              (\<lambda>u a. a\<lparr>DC_EVSEChargeParameter_EVSEMaximumCurrentLimit := u\<rparr>)))] 83 x s
      else if grammarID = 84 then
        decode_switch 2
         [(0, decode_child 85
            (decode_used (\<lambda>a. a\<lparr>DC_EVSEChargeParameter_EVSEMaximumPowerLimit_isUsed := True\<rparr>)
              (decode_sub (decode_dinPhysicalValueType j) DC_EVSEChargeParameter_EVSEMaximumPowerLimit
                (\<lambda>u a. a\<lparr>DC_EVSEChargeParameter_EVSEMaximumPowerLimit := u\<rparr>)))),
          (1, decode_child 86
             (decode_sub (decode_dinPhysicalValueType j) DC_EVSEChargeParameter_EVSEMaximumVoltageLimit
               (\<lambda>u a. a\<lparr>DC_EVSEChargeParameter_EVSEMaximumVoltageLimit := u\<rparr>)))] 84 x s
      else if grammarID = 85 then
        decode_switch 1
         [(0, decode_child 86
            (decode_sub (decode_dinPhysicalValueType j) DC_EVSEChargeParameter_EVSEMaximumVoltageLimit
              (\<lambda>u a. a\<lparr>DC_EVSEChargeParameter_EVSEMaximumVoltageLimit := u\<rparr>)))] 85 x s
      else if grammarID = 86 then
        decode_switch 1
         [(0, decode_child 87
            (decode_sub (decode_dinPhysicalValueType j) DC_EVSEChargeParameter_EVSEMinimumCurrentLimit
              (\<lambda>u a. a\<lparr>DC_EVSEChargeParameter_EVSEMinimumCurrentLimit := u\<rparr>)))] 86 x s
      else if grammarID = 87 then
        decode_switch 1
         [(0, decode_child 88
            (decode_sub (decode_dinPhysicalValueType j) DC_EVSEChargeParameter_EVSEMinimumVoltageLimit
              (\<lambda>u a. a\<lparr>DC_EVSEChargeParameter_EVSEMinimumVoltageLimit := u\<rparr>)))] 87 x s
      else if grammarID = 88 then
        decode_switch 2
         [(0, decode_child 89
            (decode_used (\<lambda>a. a\<lparr>DC_EVSEChargeParameter_EVSECurrentRegulationTolerance_isUsed := True\<rparr>)
              (decode_sub (decode_dinPhysicalValueType j) DC_EVSEChargeParameter_EVSECurrentRegulationTolerance
                (\<lambda>u a. a\<lparr>DC_EVSEChargeParameter_EVSECurrentRegulationTolerance := u\<rparr>)))),
          (1, decode_child 90
             (decode_sub (decode_dinPhysicalValueType j) DC_EVSEChargeParameter_EVSEPeakCurrentRipple
               (\<lambda>u a. a\<lparr>DC_EVSEChargeParameter_EVSEPeakCurrentRipple := u\<rparr>)))] 88 x s
      else if grammarID = 89 then
        decode_switch 1
         [(0, decode_child 90
            (decode_sub (decode_dinPhysicalValueType j) DC_EVSEChargeParameter_EVSEPeakCurrentRipple
              (\<lambda>u a. a\<lparr>DC_EVSEChargeParameter_EVSEPeakCurrentRipple := u\<rparr>)))] 89 x s
      else if grammarID = 90 then
        decode_switch 2
         [(0, decode_child 4
            (decode_used (\<lambda>a. a\<lparr>DC_EVSEChargeParameter_EVSEEnergyToBeDelivered_isUsed := True\<rparr>)
              (decode_sub (decode_dinPhysicalValueType j) DC_EVSEChargeParameter_EVSEEnergyToBeDelivered
                (\<lambda>u a. a\<lparr>DC_EVSEChargeParameter_EVSEEnergyToBeDelivered := u\<rparr>)))),
          (1, decode_end 5)] 90 x s
      else if grammarID = 4 then
        decode_switch 1
         [(0, decode_end 5)] 4 x s
      else Some (EXI_ERROR_UNKOWN_GRAMMAR_ID, (False, grammarID, x), s))"

definition decode_dinDC_EVSEChargeParameterType :: "u32 \<Rightarrow> dinDC_EVSEChargeParameterType decoder" where
  "decode_dinDC_EVSEChargeParameterType j x s
      = grammar_loop (DC_EVSEChargeParameter_dec_step j) 82 (fst x, init_dinDC_EVSEChargeParameterType (snd x)) s"

definition DC_EVSEChargeParameter_ok :: "dinDC_EVSEChargeParameterType \<Rightarrow> bool" where
  "DC_EVSEChargeParameter_ok v \<longleftrightarrow>
     DC_EVSEStatus_ok (DC_EVSEChargeParameter_DC_EVSEStatus v) \<and>
     PhysicalValue_ok (DC_EVSEChargeParameter_EVSEMaximumCurrentLimit v) \<and>
     (DC_EVSEChargeParameter_EVSEMaximumPowerLimit_isUsed v \<longrightarrow>
       PhysicalValue_ok (DC_EVSEChargeParameter_EVSEMaximumPowerLimit v)) \<and>
     PhysicalValue_ok (DC_EVSEChargeParameter_EVSEMaximumVoltageLimit v) \<and>
     PhysicalValue_ok (DC_EVSEChargeParameter_EVSEMinimumCurrentLimit v) \<and>
     PhysicalValue_ok (DC_EVSEChargeParameter_EVSEMinimumVoltageLimit v) \<and>
     (DC_EVSEChargeParameter_EVSECurrentRegulationTolerance_isUsed v \<longrightarrow>
       PhysicalValue_ok (DC_EVSEChargeParameter_EVSECurrentRegulationTolerance v)) \<and>
     PhysicalValue_ok (DC_EVSEChargeParameter_EVSEPeakCurrentRipple v) \<and>
     (DC_EVSEChargeParameter_EVSEEnergyToBeDelivered_isUsed v \<longrightarrow>
       PhysicalValue_ok (DC_EVSEChargeParameter_EVSEEnergyToBeDelivered v))"

definition same_DC_EVSEChargeParameter
    :: "dinDC_EVSEChargeParameterType \<Rightarrow> dinDC_EVSEChargeParameterType \<Rightarrow> bool" where
  "same_DC_EVSEChargeParameter v a \<longleftrightarrow>
     same_DC_EVSEStatus (DC_EVSEChargeParameter_DC_EVSEStatus v) (DC_EVSEChargeParameter_DC_EVSEStatus a) \<and>
     same_PhysicalValue (DC_EVSEChargeParameter_EVSEMaximumCurrentLimit v) (DC_EVSEChargeParameter_EVSEMaximumCurrentLimit a) \<and>
     DC_EVSEChargeParameter_EVSEMaximumPowerLimit_isUsed a
       = DC_EVSEChargeParameter_EVSEMaximumPowerLimit_isUsed v \<and>
         (DC_EVSEChargeParameter_EVSEMaximumPowerLimit_isUsed v \<longrightarrow>
           same_PhysicalValue (DC_EVSEChargeParameter_EVSEMaximumPowerLimit v) (DC_EVSEChargeParameter_EVSEMaximumPowerLimit a)) \<and>
     same_PhysicalValue (DC_EVSEChargeParameter_EVSEMaximumVoltageLimit v) (DC_EVSEChargeParameter_EVSEMaximumVoltageLimit a) \<and>
     same_PhysicalValue (DC_EVSEChargeParameter_EVSEMinimumCurrentLimit v) (DC_EVSEChargeParameter_EVSEMinimumCurrentLimit a) \<and>
     same_PhysicalValue (DC_EVSEChargeParameter_EVSEMinimumVoltageLimit v) (DC_EVSEChargeParameter_EVSEMinimumVoltageLimit a) \<and>
     DC_EVSEChargeParameter_EVSECurrentRegulationTolerance_isUsed a
       = DC_EVSEChargeParameter_EVSECurrentRegulationTolerance_isUsed v \<and>
         (DC_EVSEChargeParameter_EVSECurrentRegulationTolerance_isUsed v \<longrightarrow>
           same_PhysicalValue (DC_EVSEChargeParameter_EVSECurrentRegulationTolerance v) (DC_EVSEChargeParameter_EVSECurrentRegulationTolerance a)) \<and>
     same_PhysicalValue (DC_EVSEChargeParameter_EVSEPeakCurrentRipple v) (DC_EVSEChargeParameter_EVSEPeakCurrentRipple a) \<and>
     DC_EVSEChargeParameter_EVSEEnergyToBeDelivered_isUsed a
       = DC_EVSEChargeParameter_EVSEEnergyToBeDelivered_isUsed v \<and>
         (DC_EVSEChargeParameter_EVSEEnergyToBeDelivered_isUsed v \<longrightarrow>
           same_PhysicalValue (DC_EVSEChargeParameter_EVSEEnergyToBeDelivered v) (DC_EVSEChargeParameter_EVSEEnergyToBeDelivered a))"

definition DC_EVSEChargeParameter_at
    :: "dinDC_EVSEChargeParameterType \<Rightarrow> nat \<Rightarrow> dinDC_EVSEChargeParameterType \<Rightarrow> bool" where
  "DC_EVSEChargeParameter_at v g a \<longleftrightarrow>
     DC_EVSEChargeParameter_ok v \<and>
     g \<in> {82, 83, 84, 85, 86, 87, 88, 89, 90, 4} \<and>
     (g \<notin> {82} \<longrightarrow>
       same_DC_EVSEStatus (DC_EVSEChargeParameter_DC_EVSEStatus v) (DC_EVSEChargeParameter_DC_EVSEStatus a)) \<and>
     (g \<notin> {82, 83} \<longrightarrow>
       same_PhysicalValue (DC_EVSEChargeParameter_EVSEMaximumCurrentLimit v) (DC_EVSEChargeParameter_EVSEMaximumCurrentLimit a)) \<and>
     (if g \<in> {82, 83, 84} then \<not> DC_EVSEChargeParameter_EVSEMaximumPowerLimit_isUsed a
      else DC_EVSEChargeParameter_EVSEMaximumPowerLimit_isUsed a
        = DC_EVSEChargeParameter_EVSEMaximumPowerLimit_isUsed v \<and>
          (DC_EVSEChargeParameter_EVSEMaximumPowerLimit_isUsed v \<longrightarrow>
            same_PhysicalValue (DC_EVSEChargeParameter_EVSEMaximumPowerLimit v) (DC_EVSEChargeParameter_EVSEMaximumPowerLimit a))) \<and>
     (g \<notin> {82, 83, 84, 85} \<longrightarrow>
       same_PhysicalValue (DC_EVSEChargeParameter_EVSEMaximumVoltageLimit v) (DC_EVSEChargeParameter_EVSEMaximumVoltageLimit a)) \<and>
     (g \<notin> {82, 83, 84, 85, 86} \<longrightarrow>
       same_PhysicalValue (DC_EVSEChargeParameter_EVSEMinimumCurrentLimit v) (DC_EVSEChargeParameter_EVSEMinimumCurrentLimit a)) \<and>
     (g \<notin> {82, 83, 84, 85, 86, 87} \<longrightarrow>
       same_PhysicalValue (DC_EVSEChargeParameter_EVSEMinimumVoltageLimit v) (DC_EVSEChargeParameter_EVSEMinimumVoltageLimit a)) \<and>
     (if g \<in> {82, 83, 84, 85, 86, 87,
       88} then \<not> DC_EVSEChargeParameter_EVSECurrentRegulationTolerance_isUsed a
      else DC_EVSEChargeParameter_EVSECurrentRegulationTolerance_isUsed a
        = DC_EVSEChargeParameter_EVSECurrentRegulationTolerance_isUsed v \<and>
          (DC_EVSEChargeParameter_EVSECurrentRegulationTolerance_isUsed v \<longrightarrow>
            same_PhysicalValue (DC_EVSEChargeParameter_EVSECurrentRegulationTolerance v) (DC_EVSEChargeParameter_EVSECurrentRegulationTolerance a))) \<and>
     (g \<notin> {82, 83, 84, 85, 86, 87, 88, 89} \<longrightarrow>
       same_PhysicalValue (DC_EVSEChargeParameter_EVSEPeakCurrentRipple v) (DC_EVSEChargeParameter_EVSEPeakCurrentRipple a)) \<and>
     (if g \<in> {82, 83, 84, 85, 86, 87, 88, 89,
       90} then \<not> DC_EVSEChargeParameter_EVSEEnergyToBeDelivered_isUsed a
      else DC_EVSEChargeParameter_EVSEEnergyToBeDelivered_isUsed a
        = DC_EVSEChargeParameter_EVSEEnergyToBeDelivered_isUsed v \<and>
          (DC_EVSEChargeParameter_EVSEEnergyToBeDelivered_isUsed v \<longrightarrow>
            same_PhysicalValue (DC_EVSEChargeParameter_EVSEEnergyToBeDelivered v) (DC_EVSEChargeParameter_EVSEEnergyToBeDelivered a)))"

lemmas DC_EVSEChargeParameter_steps = DC_EVSEChargeParameter_enc_step_def
  DC_EVSEChargeParameter_dec_step_def

lemmas DC_EVSEChargeParameter_props
    = DC_EVSEChargeParameter_at_def DC_EVSEChargeParameter_ok_def same_DC_EVSEChargeParameter_def left_at_def

interpretation DC_EVSEChargeParameter: paired_machines "DC_EVSEChargeParameter_enc_step v"
    "DC_EVSEChargeParameter_dec_step j" "DC_EVSEChargeParameter_at v"
  "left_at [(82, 419), (83, 356), (84, 312), (85, 267), (86, 223), (87, 179), (88, 135), (89, 90), (90, 46), (4,
      1)]" "same_DC_EVSEChargeParameter v" for v j
proof
  fix g a assume at: "DC_EVSEChargeParameter_at v g a"
  then have "g \<in> {82, 83, 84, 85, 86, 87, 88, 89, 90, 4}" by (simp add: DC_EVSEChargeParameter_at_def)
  then have "g = 82 \<or>
      g = 83 \<or>
      (g = 84 \<and> DC_EVSEChargeParameter_EVSEMaximumPowerLimit_isUsed v) \<or>
      (g = 84 \<and> \<not> DC_EVSEChargeParameter_EVSEMaximumPowerLimit_isUsed v) \<or>
      g = 85 \<or>
      g = 86 \<or>
      g = 87 \<or>
      (g = 88 \<and> DC_EVSEChargeParameter_EVSECurrentRegulationTolerance_isUsed v) \<or>
      (g = 88 \<and> \<not> DC_EVSEChargeParameter_EVSECurrentRegulationTolerance_isUsed v) \<or>
      g = 89 \<or>
      (g = 90 \<and> DC_EVSEChargeParameter_EVSEEnergyToBeDelivered_isUsed v) \<or>
      (g = 90 \<and> \<not> DC_EVSEChargeParameter_EVSEEnergyToBeDelivered_isUsed v) \<or>
      g = 4"
    by (elim insertE emptyE) auto
  then show "hops (DC_EVSEChargeParameter_enc_step v) (DC_EVSEChargeParameter_dec_step j) (DC_EVSEChargeParameter_at v)
    (left_at [(82, 419), (83, 356), (84, 312), (85, 267), (86, 223), (87, 179), (88, 135), (89, 90), (90, 46), (4,
      1)]) (same_DC_EVSEChargeParameter v) g a" using at
    by (elim disjE conjE)
      (rule hops_intros, simp add: DC_EVSEChargeParameter_steps, simp add: DC_EVSEChargeParameter_steps, simp,
        ((rule reads_intros)+)?,
        (clarsimp simp: DC_EVSEChargeParameter_props; fail)+)+
qed

lemma reads_DC_EVSEChargeParameter [reads_intros]:
  "DC_EVSEChargeParameter_ok v \<Longrightarrow>
      reads 419 (\<lambda>s. encode_dinDC_EVSEChargeParameterType s v) (decode_dinDC_EVSEChargeParameterType j) a (same_DC_EVSEChargeParameter v)"
  unfolding encode_dinDC_EVSEChargeParameterType_def decode_dinDC_EVSEChargeParameterType_def [abs_def]
  by (rule reads_start [OF DC_EVSEChargeParameter.machine_reads, of _ 82,
      THEN reads_mono]) (auto simp: DC_EVSEChargeParameter_at_def init_dinDC_EVSEChargeParameterType_def left_at_def)

interpretation DC_EVSEChargeParameter_enc: advancing_machine "DC_EVSEChargeParameter_enc_step v"
    "left_at [(82, 10), (83, 9), (84, 8), (85, 7), (86, 6), (87, 5), (88, 4), (89, 3), (90, 2), (4, 1)]" for v
  by unfold_locales (auto simp: DC_EVSEChargeParameter_steps dest!: advance_dests split: if_splits;
      simp add: left_at_def)

interpretation DC_EVSEChargeParameter_dec: advancing_machine "DC_EVSEChargeParameter_dec_step j"
    "left_at [(82, 10), (83, 9), (84, 8), (85, 7), (86, 6), (87, 5), (88, 4), (89, 3), (90, 2), (4, 1)]" for j
  by unfold_locales (auto simp: DC_EVSEChargeParameter_steps dest!: advance_dests elim!: decode_switch_next split: if_splits;
      simp add: left_at_def)

subsection \<open>\<open>dinDC_EVPowerDeliveryParameterType\<close>\<close>

record dinDC_EVPowerDeliveryParameterType =
  DC_EVPowerDeliveryParameter_DC_EVStatus :: dinDC_EVStatusType
  DC_EVPowerDeliveryParameter_BulkChargingComplete :: int
  DC_EVPowerDeliveryParameter_BulkChargingComplete_isUsed :: bool
  DC_EVPowerDeliveryParameter_ChargingComplete :: int

definition init_dinDC_EVPowerDeliveryParameterType
    :: "dinDC_EVPowerDeliveryParameterType \<Rightarrow> dinDC_EVPowerDeliveryParameterType" where
  "init_dinDC_EVPowerDeliveryParameterType a
      = a\<lparr>DC_EVPowerDeliveryParameter_BulkChargingComplete_isUsed := False\<rparr>"

definition DC_EVPowerDeliveryParameter_enc_step
    :: "dinDC_EVPowerDeliveryParameterType \<Rightarrow> unit machine" where
  "DC_EVPowerDeliveryParameter_enc_step v grammarID x s =
     (if grammarID = 61 then
        goto 62 x (encode_child 1 0
          (\<lambda>s. encode_dinDC_EVStatusType s (DC_EVPowerDeliveryParameter_DC_EVStatus v)) s)
      else if grammarID = 62 then
        if DC_EVPowerDeliveryParameter_BulkChargingComplete_isUsed v then
          goto 63 x (encode_simple 2 0
            (\<lambda>s. encodeBoolean s (DC_EVPowerDeliveryParameter_BulkChargingComplete v)) s)
        else goto 4 x (encode_simple 2 1 (\<lambda>s. encodeBoolean s (DC_EVPowerDeliveryParameter_ChargingComplete v)) s)
      else if grammarID = 63 then
        goto 4 x (encode_simple 1 0 (\<lambda>s. encodeBoolean s (DC_EVPowerDeliveryParameter_ChargingComplete v)) s)
      else if grammarID = 4 then
        finish 5 x (encodeNBitUnsignedInteger s 1 0)
      else Some (EXI_ERROR_UNKOWN_GRAMMAR_ID, (False, grammarID, x), s))"

definition encode_dinDC_EVPowerDeliveryParameterType
    :: "bitstream \<Rightarrow> dinDC_EVPowerDeliveryParameterType \<Rightarrow> (errn \<times> bitstream) option" where
  "encode_dinDC_EVPowerDeliveryParameterType s v = run_encoder (DC_EVPowerDeliveryParameter_enc_step v) 61 () s"

definition DC_EVPowerDeliveryParameter_dec_step
    :: "u32 \<Rightarrow> (dec_static \<times> dinDC_EVPowerDeliveryParameterType) machine" where
  "DC_EVPowerDeliveryParameter_dec_step j grammarID x s =
     (if grammarID = 61 then
        decode_switch 1
         [(0, decode_child 62
            (decode_sub (decode_dinDC_EVStatusType j) DC_EVPowerDeliveryParameter_DC_EVStatus
              (\<lambda>u a. a\<lparr>DC_EVPowerDeliveryParameter_DC_EVStatus := u\<rparr>)))] 61 x s
      else if grammarID = 62 then
        decode_switch 2
         [(0, decode_simple 62 63
            (decode_used (\<lambda>a. a\<lparr>DC_EVPowerDeliveryParameter_BulkChargingComplete_isUsed := True\<rparr>)
              (decode_bool_field j (\<lambda>u a. a\<lparr>DC_EVPowerDeliveryParameter_BulkChargingComplete := u\<rparr>)))),
          (1, decode_simple 62 4
             (decode_bool_field j (\<lambda>u a. a\<lparr>DC_EVPowerDeliveryParameter_ChargingComplete := u\<rparr>)))] 62 x s
      else if grammarID = 63 then
        decode_switch 1
         [(0, decode_simple 63 4
            (decode_bool_field j (\<lambda>u a. a\<lparr>DC_EVPowerDeliveryParameter_ChargingComplete := u\<rparr>)))] 63 x s
      else if grammarID = 4 then
        decode_switch 1
         [(0, decode_end 5)] 4 x s
      else Some (EXI_ERROR_UNKOWN_GRAMMAR_ID, (False, grammarID, x), s))"

definition decode_dinDC_EVPowerDeliveryParameterType
    :: "u32 \<Rightarrow> dinDC_EVPowerDeliveryParameterType decoder" where
  "decode_dinDC_EVPowerDeliveryParameterType j x s
      = grammar_loop (DC_EVPowerDeliveryParameter_dec_step j) 61 (fst x,
        init_dinDC_EVPowerDeliveryParameterType (snd x)) s"

definition DC_EVPowerDeliveryParameter_ok :: "dinDC_EVPowerDeliveryParameterType \<Rightarrow> bool" where
  "DC_EVPowerDeliveryParameter_ok v \<longleftrightarrow>
     DC_EVStatus_ok (DC_EVPowerDeliveryParameter_DC_EVStatus v)"

definition same_DC_EVPowerDeliveryParameter
    :: "dinDC_EVPowerDeliveryParameterType \<Rightarrow> dinDC_EVPowerDeliveryParameterType \<Rightarrow> bool" where
  "same_DC_EVPowerDeliveryParameter v a \<longleftrightarrow>
     same_DC_EVStatus (DC_EVPowerDeliveryParameter_DC_EVStatus v) (DC_EVPowerDeliveryParameter_DC_EVStatus a) \<and>
     DC_EVPowerDeliveryParameter_BulkChargingComplete_isUsed a
       = DC_EVPowerDeliveryParameter_BulkChargingComplete_isUsed v \<and>
         (DC_EVPowerDeliveryParameter_BulkChargingComplete_isUsed v \<longrightarrow>
           (DC_EVPowerDeliveryParameter_BulkChargingComplete a \<noteq> 0)
             = (DC_EVPowerDeliveryParameter_BulkChargingComplete v \<noteq> 0)) \<and>
     (DC_EVPowerDeliveryParameter_ChargingComplete a \<noteq> 0)
       = (DC_EVPowerDeliveryParameter_ChargingComplete v \<noteq> 0)"

definition DC_EVPowerDeliveryParameter_at
    :: "dinDC_EVPowerDeliveryParameterType \<Rightarrow> nat \<Rightarrow> dinDC_EVPowerDeliveryParameterType \<Rightarrow> bool" where
  "DC_EVPowerDeliveryParameter_at v g a \<longleftrightarrow>
     DC_EVPowerDeliveryParameter_ok v \<and>
     g \<in> {61, 62, 63, 4} \<and>
     (g \<notin> {61} \<longrightarrow>
       same_DC_EVStatus (DC_EVPowerDeliveryParameter_DC_EVStatus v) (DC_EVPowerDeliveryParameter_DC_EVStatus a)) \<and>
     (if g \<in> {61, 62} then \<not> DC_EVPowerDeliveryParameter_BulkChargingComplete_isUsed a
      else DC_EVPowerDeliveryParameter_BulkChargingComplete_isUsed a
        = DC_EVPowerDeliveryParameter_BulkChargingComplete_isUsed v \<and>
          (DC_EVPowerDeliveryParameter_BulkChargingComplete_isUsed v \<longrightarrow>
            (DC_EVPowerDeliveryParameter_BulkChargingComplete a \<noteq> 0)
              = (DC_EVPowerDeliveryParameter_BulkChargingComplete v \<noteq> 0))) \<and>
     (g \<notin> {61, 62, 63} \<longrightarrow>
       (DC_EVPowerDeliveryParameter_ChargingComplete a \<noteq> 0)
         = (DC_EVPowerDeliveryParameter_ChargingComplete v \<noteq> 0))"

lemmas DC_EVPowerDeliveryParameter_steps = DC_EVPowerDeliveryParameter_enc_step_def
  DC_EVPowerDeliveryParameter_dec_step_def

lemmas DC_EVPowerDeliveryParameter_props
    = DC_EVPowerDeliveryParameter_at_def DC_EVPowerDeliveryParameter_ok_def same_DC_EVPowerDeliveryParameter_def left_at_def

interpretation DC_EVPowerDeliveryParameter: paired_machines "DC_EVPowerDeliveryParameter_enc_step v"
    "DC_EVPowerDeliveryParameter_dec_step j" "DC_EVPowerDeliveryParameter_at v"
  "left_at [(61, 43), (62, 10), (63, 5), (4, 1)]" "same_DC_EVPowerDeliveryParameter v" for v j
proof
  fix g a assume at: "DC_EVPowerDeliveryParameter_at v g a"
  then have "g \<in> {61, 62, 63, 4}" by (simp add: DC_EVPowerDeliveryParameter_at_def)
  then have "g = 61 \<or>
      (g = 62 \<and> DC_EVPowerDeliveryParameter_BulkChargingComplete_isUsed v) \<or>
      (g = 62 \<and> \<not> DC_EVPowerDeliveryParameter_BulkChargingComplete_isUsed v) \<or>
      g = 63 \<or>
      g = 4"
    by (elim insertE emptyE) auto
  then show "hops (DC_EVPowerDeliveryParameter_enc_step v) (DC_EVPowerDeliveryParameter_dec_step j) (DC_EVPowerDeliveryParameter_at v)
    (left_at [(61, 43), (62, 10), (63, 5), (4, 1)]) (same_DC_EVPowerDeliveryParameter v) g a" using at
    by (elim disjE conjE)
      (rule hops_intros, simp add: DC_EVPowerDeliveryParameter_steps, simp add: DC_EVPowerDeliveryParameter_steps,
        simp, ((rule reads_intros)+)?,
        (clarsimp simp: DC_EVPowerDeliveryParameter_props; fail)+)+
qed

lemma reads_DC_EVPowerDeliveryParameter [reads_intros]:
  "DC_EVPowerDeliveryParameter_ok v \<Longrightarrow>
      reads 43 (\<lambda>s. encode_dinDC_EVPowerDeliveryParameterType s v) (decode_dinDC_EVPowerDeliveryParameterType j) a (same_DC_EVPowerDeliveryParameter v)"
  unfolding encode_dinDC_EVPowerDeliveryParameterType_def decode_dinDC_EVPowerDeliveryParameterType_def [abs_def]
  by (rule reads_start [OF DC_EVPowerDeliveryParameter.machine_reads, of _ 61,
      THEN reads_mono]) (auto simp: DC_EVPowerDeliveryParameter_at_def init_dinDC_EVPowerDeliveryParameterType_def left_at_def)

interpretation DC_EVPowerDeliveryParameter_enc: advancing_machine "DC_EVPowerDeliveryParameter_enc_step v"
    "left_at [(61, 4), (62, 3), (63, 2), (4, 1)]" for v
  by unfold_locales (auto simp: DC_EVPowerDeliveryParameter_steps dest!: advance_dests split: if_splits;
      simp add: left_at_def)

interpretation DC_EVPowerDeliveryParameter_dec: advancing_machine "DC_EVPowerDeliveryParameter_dec_step j"
    "left_at [(61, 4), (62, 3), (63, 2), (4, 1)]" for j
  by unfold_locales (auto simp: DC_EVPowerDeliveryParameter_steps dest!: advance_dests elim!: decode_switch_next split: if_splits;
      simp add: left_at_def)

subsection \<open>\<open>dinAC_EVChargeParameterType\<close>\<close>

record dinAC_EVChargeParameterType =
  AC_EVChargeParameter_DepartureTime :: u32
  AC_EVChargeParameter_EAmount :: dinPhysicalValueType
  AC_EVChargeParameter_EVMaxVoltage :: dinPhysicalValueType
  AC_EVChargeParameter_EVMaxCurrent :: dinPhysicalValueType
  AC_EVChargeParameter_EVMinCurrent :: dinPhysicalValueType

definition init_dinAC_EVChargeParameterType
    :: "dinAC_EVChargeParameterType \<Rightarrow> dinAC_EVChargeParameterType" where
  "init_dinAC_EVChargeParameterType a = a"

definition AC_EVChargeParameter_enc_step :: "dinAC_EVChargeParameterType \<Rightarrow> unit machine" where
  "AC_EVChargeParameter_enc_step v grammarID x s =
     (if grammarID = 41 then
        goto 42 x (encode_simple 1 0 (\<lambda>s. encodeUnsignedInteger32 s (AC_EVChargeParameter_DepartureTime v)) s)
      else if grammarID = 42 then
        goto 43 x (encode_child 1 0 (\<lambda>s. encode_dinPhysicalValueType s (AC_EVChargeParameter_EAmount v)) s)
      else if grammarID = 43 then
        goto 44 x (encode_child 1 0
          (\<lambda>s. encode_dinPhysicalValueType s (AC_EVChargeParameter_EVMaxVoltage v)) s)
      else if grammarID = 44 then
        goto 45 x (encode_child 1 0
          (\<lambda>s. encode_dinPhysicalValueType s (AC_EVChargeParameter_EVMaxCurrent v)) s)
      else if grammarID = 45 then
        goto 4 x (encode_child 1 0
          (\<lambda>s. encode_dinPhysicalValueType s (AC_EVChargeParameter_EVMinCurrent v)) s)
      else if grammarID = 4 then
        finish 5 x (encodeNBitUnsignedInteger s 1 0)
      else Some (EXI_ERROR_UNKOWN_GRAMMAR_ID, (False, grammarID, x), s))"

definition encode_dinAC_EVChargeParameterType
    :: "bitstream \<Rightarrow> dinAC_EVChargeParameterType \<Rightarrow> (errn \<times> bitstream) option" where
  "encode_dinAC_EVChargeParameterType s v = run_encoder (AC_EVChargeParameter_enc_step v) 41 () s"

definition AC_EVChargeParameter_dec_step
    :: "u32 \<Rightarrow> (dec_static \<times> dinAC_EVChargeParameterType) machine" where
  "AC_EVChargeParameter_dec_step j grammarID x s =
     (if grammarID = 41 then
        decode_switch 1
         [(0, decode_simple 41 42
            (decode_u32_field j (\<lambda>u a. a\<lparr>AC_EVChargeParameter_DepartureTime := u\<rparr>)))] 41 x s
      else if grammarID = 42 then
        decode_switch 1
         [(0, decode_child 43
            (decode_sub (decode_dinPhysicalValueType j) AC_EVChargeParameter_EAmount
              (\<lambda>u a. a\<lparr>AC_EVChargeParameter_EAmount := u\<rparr>)))] 42 x s
      else if grammarID = 43 then
        decode_switch 1
         [(0, decode_child 44
            (decode_sub (decode_dinPhysicalValueType j) AC_EVChargeParameter_EVMaxVoltage
              (\<lambda>u a. a\<lparr>AC_EVChargeParameter_EVMaxVoltage := u\<rparr>)))] 43 x s
      else if grammarID = 44 then
        decode_switch 1
         [(0, decode_child 45
            (decode_sub (decode_dinPhysicalValueType j) AC_EVChargeParameter_EVMaxCurrent
              (\<lambda>u a. a\<lparr>AC_EVChargeParameter_EVMaxCurrent := u\<rparr>)))] 44 x s
      else if grammarID = 45 then
        decode_switch 1
         [(0, decode_child 4
            (decode_sub (decode_dinPhysicalValueType j) AC_EVChargeParameter_EVMinCurrent
              (\<lambda>u a. a\<lparr>AC_EVChargeParameter_EVMinCurrent := u\<rparr>)))] 45 x s
      else if grammarID = 4 then
        decode_switch 1
         [(0, decode_end 5)] 4 x s
      else Some (EXI_ERROR_UNKOWN_GRAMMAR_ID, (False, grammarID, x), s))"

definition decode_dinAC_EVChargeParameterType :: "u32 \<Rightarrow> dinAC_EVChargeParameterType decoder" where
  "decode_dinAC_EVChargeParameterType j x s
      = grammar_loop (AC_EVChargeParameter_dec_step j) 41 (fst x, init_dinAC_EVChargeParameterType (snd x)) s"

definition AC_EVChargeParameter_ok :: "dinAC_EVChargeParameterType \<Rightarrow> bool" where
  "AC_EVChargeParameter_ok v \<longleftrightarrow>
     AC_EVChargeParameter_DepartureTime v < 2 ^ 31 \<and>
     PhysicalValue_ok (AC_EVChargeParameter_EAmount v) \<and>
     PhysicalValue_ok (AC_EVChargeParameter_EVMaxVoltage v) \<and>
     PhysicalValue_ok (AC_EVChargeParameter_EVMaxCurrent v) \<and>
     PhysicalValue_ok (AC_EVChargeParameter_EVMinCurrent v)"

definition same_AC_EVChargeParameter
    :: "dinAC_EVChargeParameterType \<Rightarrow> dinAC_EVChargeParameterType \<Rightarrow> bool" where
  "same_AC_EVChargeParameter v a \<longleftrightarrow>
     AC_EVChargeParameter_DepartureTime a = AC_EVChargeParameter_DepartureTime v \<and>
     same_PhysicalValue (AC_EVChargeParameter_EAmount v) (AC_EVChargeParameter_EAmount a) \<and>
     same_PhysicalValue (AC_EVChargeParameter_EVMaxVoltage v) (AC_EVChargeParameter_EVMaxVoltage a) \<and>
     same_PhysicalValue (AC_EVChargeParameter_EVMaxCurrent v) (AC_EVChargeParameter_EVMaxCurrent a) \<and>
     same_PhysicalValue (AC_EVChargeParameter_EVMinCurrent v) (AC_EVChargeParameter_EVMinCurrent a)"

definition AC_EVChargeParameter_at
    :: "dinAC_EVChargeParameterType \<Rightarrow> nat \<Rightarrow> dinAC_EVChargeParameterType \<Rightarrow> bool" where
  "AC_EVChargeParameter_at v g a \<longleftrightarrow>
     AC_EVChargeParameter_ok v \<and>
     g \<in> {41, 42, 43, 44, 45, 4} \<and>
     (g \<notin> {41} \<longrightarrow>
       AC_EVChargeParameter_DepartureTime a = AC_EVChargeParameter_DepartureTime v) \<and>
     (g \<notin> {41, 42} \<longrightarrow>
       same_PhysicalValue (AC_EVChargeParameter_EAmount v) (AC_EVChargeParameter_EAmount a)) \<and>
     (g \<notin> {41, 42, 43} \<longrightarrow>
       same_PhysicalValue (AC_EVChargeParameter_EVMaxVoltage v) (AC_EVChargeParameter_EVMaxVoltage a)) \<and>
     (g \<notin> {41, 42, 43, 44} \<longrightarrow>
       same_PhysicalValue (AC_EVChargeParameter_EVMaxCurrent v) (AC_EVChargeParameter_EVMaxCurrent a)) \<and>
     (g \<notin> {41, 42, 43, 44, 45} \<longrightarrow>
       same_PhysicalValue (AC_EVChargeParameter_EVMinCurrent v) (AC_EVChargeParameter_EVMinCurrent a))"

lemmas AC_EVChargeParameter_steps = AC_EVChargeParameter_enc_step_def
  AC_EVChargeParameter_dec_step_def

lemmas AC_EVChargeParameter_props
    = AC_EVChargeParameter_at_def AC_EVChargeParameter_ok_def same_AC_EVChargeParameter_def left_at_def

interpretation AC_EVChargeParameter: paired_machines "AC_EVChargeParameter_enc_step v"
    "AC_EVChargeParameter_dec_step j" "AC_EVChargeParameter_at v"
  "left_at [(41, 220), (42, 177), (43, 133), (44, 89), (45, 45), (4, 1)]" "same_AC_EVChargeParameter v" for v j
proof
  fix g a assume at: "AC_EVChargeParameter_at v g a"
  then have "g \<in> {41, 42, 43, 44, 45, 4}" by (simp add: AC_EVChargeParameter_at_def)
  then have "g = 41 \<or>
      g = 42 \<or>
      g = 43 \<or>
      g = 44 \<or>
      g = 45 \<or>
      g = 4"
    by (elim insertE emptyE) auto
  then show "hops (AC_EVChargeParameter_enc_step v) (AC_EVChargeParameter_dec_step j) (AC_EVChargeParameter_at v)
    (left_at [(41, 220), (42, 177), (43, 133), (44, 89), (45, 45), (4,
      1)]) (same_AC_EVChargeParameter v) g a" using at
    by (elim disjE conjE)
      (rule hops_intros, simp add: AC_EVChargeParameter_steps, simp add: AC_EVChargeParameter_steps, simp,
        ((rule reads_intros)+)?,
        (clarsimp simp: AC_EVChargeParameter_props; fail)+)+
qed

lemma reads_AC_EVChargeParameter [reads_intros]:
  "AC_EVChargeParameter_ok v \<Longrightarrow>
      reads 220 (\<lambda>s. encode_dinAC_EVChargeParameterType s v) (decode_dinAC_EVChargeParameterType j) a (same_AC_EVChargeParameter v)"
  unfolding encode_dinAC_EVChargeParameterType_def decode_dinAC_EVChargeParameterType_def [abs_def]
  by (rule reads_start [OF AC_EVChargeParameter.machine_reads, of _ 41,
      THEN reads_mono]) (auto simp: AC_EVChargeParameter_at_def init_dinAC_EVChargeParameterType_def left_at_def)

interpretation AC_EVChargeParameter_enc: advancing_machine "AC_EVChargeParameter_enc_step v"
    "left_at [(41, 6), (42, 5), (43, 4), (44, 3), (45, 2), (4, 1)]" for v
  by unfold_locales (auto simp: AC_EVChargeParameter_steps dest!: advance_dests split: if_splits;
      simp add: left_at_def)

interpretation AC_EVChargeParameter_dec: advancing_machine "AC_EVChargeParameter_dec_step j"
    "left_at [(41, 6), (42, 5), (43, 4), (44, 3), (45, 2), (4, 1)]" for j
  by unfold_locales (auto simp: AC_EVChargeParameter_steps dest!: advance_dests elim!: decode_switch_next split: if_splits;
      simp add: left_at_def)

subsection \<open>\<open>dinAC_EVSEChargeParameterType\<close>\<close>

record dinAC_EVSEChargeParameterType =
  AC_EVSEChargeParameter_AC_EVSEStatus :: dinAC_EVSEStatusType
  AC_EVSEChargeParameter_EVSEMaxVoltage :: dinPhysicalValueType
  AC_EVSEChargeParameter_EVSEMaxCurrent :: dinPhysicalValueType
  AC_EVSEChargeParameter_EVSEMinCurrent :: dinPhysicalValueType

definition init_dinAC_EVSEChargeParameterType
    :: "dinAC_EVSEChargeParameterType \<Rightarrow> dinAC_EVSEChargeParameterType" where
  "init_dinAC_EVSEChargeParameterType a = a"

definition AC_EVSEChargeParameter_enc_step :: "dinAC_EVSEChargeParameterType \<Rightarrow> unit machine" where
  "AC_EVSEChargeParameter_enc_step v grammarID x s =
     (if grammarID = 232 then
        goto 233 x (encode_child 1 0
          (\<lambda>s. encode_dinAC_EVSEStatusType s (AC_EVSEChargeParameter_AC_EVSEStatus v)) s)
      else if grammarID = 233 then
        goto 234 x (encode_child 1 0
          (\<lambda>s. encode_dinPhysicalValueType s (AC_EVSEChargeParameter_EVSEMaxVoltage v)) s)
      else if grammarID = 234 then
        goto 235 x (encode_child 1 0
          (\<lambda>s. encode_dinPhysicalValueType s (AC_EVSEChargeParameter_EVSEMaxCurrent v)) s)
      else if grammarID = 235 then
        goto 4 x (encode_child 1 0
          (\<lambda>s. encode_dinPhysicalValueType s (AC_EVSEChargeParameter_EVSEMinCurrent v)) s)
      else if grammarID = 4 then
        finish 5 x (encodeNBitUnsignedInteger s 1 0)
      else Some (EXI_ERROR_UNKOWN_GRAMMAR_ID, (False, grammarID, x), s))"

definition encode_dinAC_EVSEChargeParameterType
    :: "bitstream \<Rightarrow> dinAC_EVSEChargeParameterType \<Rightarrow> (errn \<times> bitstream) option" where
  "encode_dinAC_EVSEChargeParameterType s v = run_encoder (AC_EVSEChargeParameter_enc_step v) 232 () s"

definition AC_EVSEChargeParameter_dec_step
    :: "u32 \<Rightarrow> (dec_static \<times> dinAC_EVSEChargeParameterType) machine" where
  "AC_EVSEChargeParameter_dec_step j grammarID x s =
     (if grammarID = 232 then
        decode_switch 1
         [(0, decode_child 233
            (decode_sub (decode_dinAC_EVSEStatusType j) AC_EVSEChargeParameter_AC_EVSEStatus
              (\<lambda>u a. a\<lparr>AC_EVSEChargeParameter_AC_EVSEStatus := u\<rparr>)))] 232 x s
      else if grammarID = 233 then
        decode_switch 1
         [(0, decode_child 234
            (decode_sub (decode_dinPhysicalValueType j) AC_EVSEChargeParameter_EVSEMaxVoltage
              (\<lambda>u a. a\<lparr>AC_EVSEChargeParameter_EVSEMaxVoltage := u\<rparr>)))] 233 x s
      else if grammarID = 234 then
        decode_switch 1
         [(0, decode_child 235
            (decode_sub (decode_dinPhysicalValueType j) AC_EVSEChargeParameter_EVSEMaxCurrent
              (\<lambda>u a. a\<lparr>AC_EVSEChargeParameter_EVSEMaxCurrent := u\<rparr>)))] 234 x s
      else if grammarID = 235 then
        decode_switch 1
         [(0, decode_child 4
            (decode_sub (decode_dinPhysicalValueType j) AC_EVSEChargeParameter_EVSEMinCurrent
              (\<lambda>u a. a\<lparr>AC_EVSEChargeParameter_EVSEMinCurrent := u\<rparr>)))] 235 x s
      else if grammarID = 4 then
        decode_switch 1
         [(0, decode_end 5)] 4 x s
      else Some (EXI_ERROR_UNKOWN_GRAMMAR_ID, (False, grammarID, x), s))"

definition decode_dinAC_EVSEChargeParameterType :: "u32 \<Rightarrow> dinAC_EVSEChargeParameterType decoder" where
  "decode_dinAC_EVSEChargeParameterType j x s
      = grammar_loop (AC_EVSEChargeParameter_dec_step j) 232 (fst x, init_dinAC_EVSEChargeParameterType (snd x)) s"

definition AC_EVSEChargeParameter_ok :: "dinAC_EVSEChargeParameterType \<Rightarrow> bool" where
  "AC_EVSEChargeParameter_ok v \<longleftrightarrow>
     AC_EVSEStatus_ok (AC_EVSEChargeParameter_AC_EVSEStatus v) \<and>
     PhysicalValue_ok (AC_EVSEChargeParameter_EVSEMaxVoltage v) \<and>
     PhysicalValue_ok (AC_EVSEChargeParameter_EVSEMaxCurrent v) \<and>
     PhysicalValue_ok (AC_EVSEChargeParameter_EVSEMinCurrent v)"

definition same_AC_EVSEChargeParameter
    :: "dinAC_EVSEChargeParameterType \<Rightarrow> dinAC_EVSEChargeParameterType \<Rightarrow> bool" where
  "same_AC_EVSEChargeParameter v a \<longleftrightarrow>
     same_AC_EVSEStatus (AC_EVSEChargeParameter_AC_EVSEStatus v) (AC_EVSEChargeParameter_AC_EVSEStatus a) \<and>
     same_PhysicalValue (AC_EVSEChargeParameter_EVSEMaxVoltage v) (AC_EVSEChargeParameter_EVSEMaxVoltage a) \<and>
     same_PhysicalValue (AC_EVSEChargeParameter_EVSEMaxCurrent v) (AC_EVSEChargeParameter_EVSEMaxCurrent a) \<and>
     same_PhysicalValue (AC_EVSEChargeParameter_EVSEMinCurrent v) (AC_EVSEChargeParameter_EVSEMinCurrent a)"

definition AC_EVSEChargeParameter_at
    :: "dinAC_EVSEChargeParameterType \<Rightarrow> nat \<Rightarrow> dinAC_EVSEChargeParameterType \<Rightarrow> bool" where
  "AC_EVSEChargeParameter_at v g a \<longleftrightarrow>
     AC_EVSEChargeParameter_ok v \<and>
     g \<in> {232, 233, 234, 235, 4} \<and>
     (g \<notin> {232} \<longrightarrow>
       same_AC_EVSEStatus (AC_EVSEChargeParameter_AC_EVSEStatus v) (AC_EVSEChargeParameter_AC_EVSEStatus a)) \<and>
     (g \<notin> {232, 233} \<longrightarrow>
       same_PhysicalValue (AC_EVSEChargeParameter_EVSEMaxVoltage v) (AC_EVSEChargeParameter_EVSEMaxVoltage a)) \<and>
     (g \<notin> {232, 233, 234} \<longrightarrow>
       same_PhysicalValue (AC_EVSEChargeParameter_EVSEMaxCurrent v) (AC_EVSEChargeParameter_EVSEMaxCurrent a)) \<and>
     (g \<notin> {232, 233, 234, 235} \<longrightarrow>
       same_PhysicalValue (AC_EVSEChargeParameter_EVSEMinCurrent v) (AC_EVSEChargeParameter_EVSEMinCurrent a))"

lemmas AC_EVSEChargeParameter_steps = AC_EVSEChargeParameter_enc_step_def
  AC_EVSEChargeParameter_dec_step_def

lemmas AC_EVSEChargeParameter_props
    = AC_EVSEChargeParameter_at_def AC_EVSEChargeParameter_ok_def same_AC_EVSEChargeParameter_def left_at_def

interpretation AC_EVSEChargeParameter: paired_machines "AC_EVSEChargeParameter_enc_step v"
    "AC_EVSEChargeParameter_dec_step j" "AC_EVSEChargeParameter_at v"
  "left_at [(232, 191), (233, 133), (234, 89), (235, 45), (4, 1)]" "same_AC_EVSEChargeParameter v" for v j
proof
  fix g a assume at: "AC_EVSEChargeParameter_at v g a"
  then have "g \<in> {232, 233, 234, 235, 4}" by (simp add: AC_EVSEChargeParameter_at_def)
  then have "g = 232 \<or>
      g = 233 \<or>
      g = 234 \<or>
      g = 235 \<or>
      g = 4"
    by (elim insertE emptyE) auto
  then show "hops (AC_EVSEChargeParameter_enc_step v) (AC_EVSEChargeParameter_dec_step j) (AC_EVSEChargeParameter_at v)
    (left_at [(232, 191), (233, 133), (234, 89), (235, 45), (4, 1)]) (same_AC_EVSEChargeParameter v) g a" using at
    by (elim disjE conjE)
      (rule hops_intros, simp add: AC_EVSEChargeParameter_steps, simp add: AC_EVSEChargeParameter_steps, simp,
        ((rule reads_intros)+)?,
        (clarsimp simp: AC_EVSEChargeParameter_props; fail)+)+
qed

lemma reads_AC_EVSEChargeParameter [reads_intros]:
  "AC_EVSEChargeParameter_ok v \<Longrightarrow>
      reads 191 (\<lambda>s. encode_dinAC_EVSEChargeParameterType s v) (decode_dinAC_EVSEChargeParameterType j) a (same_AC_EVSEChargeParameter v)"
  unfolding encode_dinAC_EVSEChargeParameterType_def decode_dinAC_EVSEChargeParameterType_def [abs_def]
  by (rule reads_start [OF AC_EVSEChargeParameter.machine_reads, of _ 232,
      THEN reads_mono]) (auto simp: AC_EVSEChargeParameter_at_def init_dinAC_EVSEChargeParameterType_def left_at_def)

interpretation AC_EVSEChargeParameter_enc: advancing_machine "AC_EVSEChargeParameter_enc_step v"
    "left_at [(232, 5), (233, 4), (234, 3), (235, 2), (4, 1)]" for v
  by unfold_locales (auto simp: AC_EVSEChargeParameter_steps dest!: advance_dests split: if_splits;
      simp add: left_at_def)

interpretation AC_EVSEChargeParameter_dec: advancing_machine "AC_EVSEChargeParameter_dec_step j"
    "left_at [(232, 5), (233, 4), (234, 3), (235, 2), (4, 1)]" for j
  by unfold_locales (auto simp: AC_EVSEChargeParameter_steps dest!: advance_dests elim!: decode_switch_next split: if_splits;
      simp add: left_at_def)

subsection \<open>\<open>dinEVChargeParameterType\<close>\<close>

record dinEVChargeParameterType =
  EVChargeParameter_noContent :: int

definition init_dinEVChargeParameterType :: "dinEVChargeParameterType \<Rightarrow> dinEVChargeParameterType" where
  "init_dinEVChargeParameterType a = a"

definition EVChargeParameter_enc_step :: "dinEVChargeParameterType \<Rightarrow> unit machine" where
  "EVChargeParameter_enc_step v grammarID x s =
     (if grammarID = 64 then
        finish 5 x (encodeNBitUnsignedInteger s 1 0)
      else Some (EXI_ERROR_UNKOWN_GRAMMAR_ID, (False, grammarID, x), s))"

definition encode_dinEVChargeParameterType
    :: "bitstream \<Rightarrow> dinEVChargeParameterType \<Rightarrow> (errn \<times> bitstream) option" where
  "encode_dinEVChargeParameterType s v = run_encoder (EVChargeParameter_enc_step v) 64 () s"

definition EVChargeParameter_dec_step
    :: "u32 \<Rightarrow> (dec_static \<times> dinEVChargeParameterType) machine" where
  "EVChargeParameter_dec_step j grammarID x s =
     (if grammarID = 64 then
        decode_switch 1
         [(0, decode_end 5)] 64 x s
      else Some (EXI_ERROR_UNKOWN_GRAMMAR_ID, (False, grammarID, x), s))"

definition decode_dinEVChargeParameterType :: "u32 \<Rightarrow> dinEVChargeParameterType decoder" where
  "decode_dinEVChargeParameterType j x s
      = grammar_loop (EVChargeParameter_dec_step j) 64 (fst x, init_dinEVChargeParameterType (snd x)) s"

definition same_EVChargeParameter
    :: "dinEVChargeParameterType \<Rightarrow> dinEVChargeParameterType \<Rightarrow> bool" where
  "same_EVChargeParameter v a \<longleftrightarrow>
     True"

definition EVChargeParameter_at
    :: "dinEVChargeParameterType \<Rightarrow> nat \<Rightarrow> dinEVChargeParameterType \<Rightarrow> bool" where
  "EVChargeParameter_at v g a \<longleftrightarrow>
     g \<in> {64}"

lemmas EVChargeParameter_steps = EVChargeParameter_enc_step_def
  EVChargeParameter_dec_step_def

lemmas EVChargeParameter_props = EVChargeParameter_at_def same_EVChargeParameter_def left_at_def

interpretation EVChargeParameter: paired_machines "EVChargeParameter_enc_step v" "EVChargeParameter_dec_step j"
    "EVChargeParameter_at v"
  "left_at [(64, 1)]" "same_EVChargeParameter v" for v j
proof
  fix g a assume at: "EVChargeParameter_at v g a"
  then have "g \<in> {64}" by (simp add: EVChargeParameter_at_def)
  then have "g = 64"
    by (elim insertE emptyE) auto
  then show "hops (EVChargeParameter_enc_step v) (EVChargeParameter_dec_step j) (EVChargeParameter_at v)
    (left_at [(64, 1)]) (same_EVChargeParameter v) g a" using at
    by -
      (rule hops_intros, simp add: EVChargeParameter_steps, simp add: EVChargeParameter_steps, simp,
        ((rule reads_intros)+)?,
        (clarsimp simp: EVChargeParameter_props; fail)+)+
qed

lemma reads_EVChargeParameter [reads_intros]:
  "reads 1 (\<lambda>s. encode_dinEVChargeParameterType s v) (decode_dinEVChargeParameterType j) a (same_EVChargeParameter v)"
  unfolding encode_dinEVChargeParameterType_def decode_dinEVChargeParameterType_def [abs_def]
  by (rule reads_start [OF EVChargeParameter.machine_reads, of _ 64,
      THEN reads_mono]) (auto simp: EVChargeParameter_at_def init_dinEVChargeParameterType_def left_at_def)

interpretation EVChargeParameter_enc: advancing_machine "EVChargeParameter_enc_step v" "left_at [(64, 1)]" for v
  by unfold_locales (auto simp: EVChargeParameter_steps dest!: advance_dests split: if_splits;
      simp add: left_at_def)

interpretation EVChargeParameter_dec: advancing_machine "EVChargeParameter_dec_step j" "left_at [(64, 1)]" for j
  by unfold_locales (auto simp: EVChargeParameter_steps dest!: advance_dests elim!: decode_switch_next split: if_splits;
      simp add: left_at_def)

subsection \<open>\<open>dinChargeParameterDiscoveryReqType\<close>\<close>

record dinChargeParameterDiscoveryReqType =
  ChargeParameterDiscoveryReq_EVRequestedEnergyTransferType :: u32
  ChargeParameterDiscoveryReq_EVChargeParameter :: dinEVChargeParameterType
  ChargeParameterDiscoveryReq_EVChargeParameter_isUsed :: bool
  ChargeParameterDiscoveryReq_AC_EVChargeParameter :: dinAC_EVChargeParameterType
  ChargeParameterDiscoveryReq_AC_EVChargeParameter_isUsed :: bool
  ChargeParameterDiscoveryReq_DC_EVChargeParameter :: dinDC_EVChargeParameterType
  ChargeParameterDiscoveryReq_DC_EVChargeParameter_isUsed :: bool

definition init_dinChargeParameterDiscoveryReqType
    :: "dinChargeParameterDiscoveryReqType \<Rightarrow> dinChargeParameterDiscoveryReqType" where
  "init_dinChargeParameterDiscoveryReqType a
      = a\<lparr>ChargeParameterDiscoveryReq_EVChargeParameter_isUsed := False,
        ChargeParameterDiscoveryReq_AC_EVChargeParameter_isUsed := False,
          ChargeParameterDiscoveryReq_DC_EVChargeParameter_isUsed := False\<rparr>"

definition ChargeParameterDiscoveryReq_enc_step
    :: "dinChargeParameterDiscoveryReqType \<Rightarrow> unit machine" where
  "ChargeParameterDiscoveryReq_enc_step v grammarID x s =
     (if grammarID = 175 then
        goto 176 x (encode_simple 1 0
          (\<lambda>s. encodeNBitUnsignedInteger s 3 (ChargeParameterDiscoveryReq_EVRequestedEnergyTransferType v)) s)
      else if grammarID = 176 then
        if ChargeParameterDiscoveryReq_AC_EVChargeParameter_isUsed v then
          goto 4 x (encode_child 2 0
            (\<lambda>s. encode_dinAC_EVChargeParameterType s (ChargeParameterDiscoveryReq_AC_EVChargeParameter v)) s)
        else if ChargeParameterDiscoveryReq_DC_EVChargeParameter_isUsed v then
          goto 4 x (encode_child 2 1
            (\<lambda>s. encode_dinDC_EVChargeParameterType s (ChargeParameterDiscoveryReq_DC_EVChargeParameter v)) s)
        else if ChargeParameterDiscoveryReq_EVChargeParameter_isUsed v then
          goto 4 x (encode_child 2 2
            (\<lambda>s. encode_dinEVChargeParameterType s (ChargeParameterDiscoveryReq_EVChargeParameter v)) s)
        else Some (EXI_ERROR_UNKOWN_EVENT, (False, grammarID, x), s)
      else if grammarID = 4 then
        finish 5 x (encodeNBitUnsignedInteger s 1 0)
      else Some (EXI_ERROR_UNKOWN_GRAMMAR_ID, (False, grammarID, x), s))"

definition encode_dinChargeParameterDiscoveryReqType
    :: "bitstream \<Rightarrow> dinChargeParameterDiscoveryReqType \<Rightarrow> (errn \<times> bitstream) option" where
  "encode_dinChargeParameterDiscoveryReqType s v = run_encoder (ChargeParameterDiscoveryReq_enc_step v) 175 () s"

definition ChargeParameterDiscoveryReq_dec_step
    :: "u32 \<Rightarrow> (dec_static \<times> dinChargeParameterDiscoveryReqType) machine" where
  "ChargeParameterDiscoveryReq_dec_step j grammarID x s =
     (if grammarID = 175 then
        decode_switch 1
         [(0, decode_simple 175 176
            (decode_nbit_field 3 (\<lambda>u a. a\<lparr>ChargeParameterDiscoveryReq_EVRequestedEnergyTransferType := u\<rparr>)))] 175 x s
      else if grammarID = 176 then
        decode_switch 2
         [(0, decode_child 4
            (decode_used (\<lambda>a. a\<lparr>ChargeParameterDiscoveryReq_AC_EVChargeParameter_isUsed := True\<rparr>)
              (decode_sub (decode_dinAC_EVChargeParameterType j) ChargeParameterDiscoveryReq_AC_EVChargeParameter
                (\<lambda>u a. a\<lparr>ChargeParameterDiscoveryReq_AC_EVChargeParameter := u\<rparr>)))),
          (1, decode_child 4
             (decode_used (\<lambda>a. a\<lparr>ChargeParameterDiscoveryReq_DC_EVChargeParameter_isUsed := True\<rparr>)
               (decode_sub (decode_dinDC_EVChargeParameterType j) ChargeParameterDiscoveryReq_DC_EVChargeParameter
                 (\<lambda>u a. a\<lparr>ChargeParameterDiscoveryReq_DC_EVChargeParameter := u\<rparr>)))),
          (2, decode_child 4
             (decode_used (\<lambda>a. a\<lparr>ChargeParameterDiscoveryReq_EVChargeParameter_isUsed := True\<rparr>)
               (decode_sub (decode_dinEVChargeParameterType j) ChargeParameterDiscoveryReq_EVChargeParameter
                 (\<lambda>u a. a\<lparr>ChargeParameterDiscoveryReq_EVChargeParameter := u\<rparr>))))] 176 x s
      else if grammarID = 4 then
        decode_switch 1
         [(0, decode_end 5)] 4 x s
      else Some (EXI_ERROR_UNKOWN_GRAMMAR_ID, (False, grammarID, x), s))"

definition decode_dinChargeParameterDiscoveryReqType
    :: "u32 \<Rightarrow> dinChargeParameterDiscoveryReqType decoder" where
  "decode_dinChargeParameterDiscoveryReqType j x s
      = grammar_loop (ChargeParameterDiscoveryReq_dec_step j) 175 (fst x,
        init_dinChargeParameterDiscoveryReqType (snd x)) s"

definition ChargeParameterDiscoveryReq_ok :: "dinChargeParameterDiscoveryReqType \<Rightarrow> bool" where
  "ChargeParameterDiscoveryReq_ok v \<longleftrightarrow>
     ChargeParameterDiscoveryReq_EVRequestedEnergyTransferType v < 2 ^ 3 \<and>
     (ChargeParameterDiscoveryReq_AC_EVChargeParameter_isUsed v \<longrightarrow>
       AC_EVChargeParameter_ok (ChargeParameterDiscoveryReq_AC_EVChargeParameter v)) \<and>
     (ChargeParameterDiscoveryReq_DC_EVChargeParameter_isUsed v \<longrightarrow>
       DC_EVChargeParameter_ok (ChargeParameterDiscoveryReq_DC_EVChargeParameter v)) \<and>
     (ChargeParameterDiscoveryReq_AC_EVChargeParameter_isUsed v \<or>
       ChargeParameterDiscoveryReq_DC_EVChargeParameter_isUsed v \<or>
         ChargeParameterDiscoveryReq_EVChargeParameter_isUsed v) \<and>
     \<not> (ChargeParameterDiscoveryReq_AC_EVChargeParameter_isUsed v \<and>
       ChargeParameterDiscoveryReq_DC_EVChargeParameter_isUsed v) \<and>
     \<not> (ChargeParameterDiscoveryReq_AC_EVChargeParameter_isUsed v \<and>
       ChargeParameterDiscoveryReq_EVChargeParameter_isUsed v) \<and>
     \<not> (ChargeParameterDiscoveryReq_DC_EVChargeParameter_isUsed v \<and>
       ChargeParameterDiscoveryReq_EVChargeParameter_isUsed v)"

definition same_ChargeParameterDiscoveryReq
    :: "dinChargeParameterDiscoveryReqType \<Rightarrow> dinChargeParameterDiscoveryReqType \<Rightarrow> bool" where
  "same_ChargeParameterDiscoveryReq v a \<longleftrightarrow>
     ChargeParameterDiscoveryReq_EVRequestedEnergyTransferType a
       = ChargeParameterDiscoveryReq_EVRequestedEnergyTransferType v \<and>
     ChargeParameterDiscoveryReq_AC_EVChargeParameter_isUsed a
       = ChargeParameterDiscoveryReq_AC_EVChargeParameter_isUsed v \<and>
         (ChargeParameterDiscoveryReq_AC_EVChargeParameter_isUsed v \<longrightarrow>
           same_AC_EVChargeParameter (ChargeParameterDiscoveryReq_AC_EVChargeParameter v) (ChargeParameterDiscoveryReq_AC_EVChargeParameter a)) \<and>
     ChargeParameterDiscoveryReq_DC_EVChargeParameter_isUsed a
       = ChargeParameterDiscoveryReq_DC_EVChargeParameter_isUsed v \<and>
         (ChargeParameterDiscoveryReq_DC_EVChargeParameter_isUsed v \<longrightarrow>
           same_DC_EVChargeParameter (ChargeParameterDiscoveryReq_DC_EVChargeParameter v) (ChargeParameterDiscoveryReq_DC_EVChargeParameter a)) \<and>
     ChargeParameterDiscoveryReq_EVChargeParameter_isUsed a
       = ChargeParameterDiscoveryReq_EVChargeParameter_isUsed v \<and>
         (ChargeParameterDiscoveryReq_EVChargeParameter_isUsed v \<longrightarrow>
           same_EVChargeParameter (ChargeParameterDiscoveryReq_EVChargeParameter v) (ChargeParameterDiscoveryReq_EVChargeParameter a))"

definition ChargeParameterDiscoveryReq_at
    :: "dinChargeParameterDiscoveryReqType \<Rightarrow> nat \<Rightarrow> dinChargeParameterDiscoveryReqType \<Rightarrow> bool" where
  "ChargeParameterDiscoveryReq_at v g a \<longleftrightarrow>
     ChargeParameterDiscoveryReq_ok v \<and>
     g \<in> {175, 176, 4} \<and>
     (g \<notin> {175} \<longrightarrow>
       ChargeParameterDiscoveryReq_EVRequestedEnergyTransferType a
         = ChargeParameterDiscoveryReq_EVRequestedEnergyTransferType v) \<and>
     (if g \<in> {175, 176} then \<not> ChargeParameterDiscoveryReq_AC_EVChargeParameter_isUsed a
      else ChargeParameterDiscoveryReq_AC_EVChargeParameter_isUsed a
        = ChargeParameterDiscoveryReq_AC_EVChargeParameter_isUsed v \<and>
          (ChargeParameterDiscoveryReq_AC_EVChargeParameter_isUsed v \<longrightarrow>
            same_AC_EVChargeParameter (ChargeParameterDiscoveryReq_AC_EVChargeParameter v) (ChargeParameterDiscoveryReq_AC_EVChargeParameter a))) \<and>
     (if g \<in> {175, 176} then \<not> ChargeParameterDiscoveryReq_DC_EVChargeParameter_isUsed a
      else ChargeParameterDiscoveryReq_DC_EVChargeParameter_isUsed a
        = ChargeParameterDiscoveryReq_DC_EVChargeParameter_isUsed v \<and>
          (ChargeParameterDiscoveryReq_DC_EVChargeParameter_isUsed v \<longrightarrow>
            same_DC_EVChargeParameter (ChargeParameterDiscoveryReq_DC_EVChargeParameter v) (ChargeParameterDiscoveryReq_DC_EVChargeParameter a))) \<and>
     (if g \<in> {175, 176} then \<not> ChargeParameterDiscoveryReq_EVChargeParameter_isUsed a
      else ChargeParameterDiscoveryReq_EVChargeParameter_isUsed a
        = ChargeParameterDiscoveryReq_EVChargeParameter_isUsed v \<and>
          (ChargeParameterDiscoveryReq_EVChargeParameter_isUsed v \<longrightarrow>
            same_EVChargeParameter (ChargeParameterDiscoveryReq_EVChargeParameter v) (ChargeParameterDiscoveryReq_EVChargeParameter a)))"

lemmas ChargeParameterDiscoveryReq_steps = ChargeParameterDiscoveryReq_enc_step_def
  ChargeParameterDiscoveryReq_dec_step_def

lemmas ChargeParameterDiscoveryReq_props
    = ChargeParameterDiscoveryReq_at_def ChargeParameterDiscoveryReq_ok_def same_ChargeParameterDiscoveryReq_def left_at_def

interpretation ChargeParameterDiscoveryReq: paired_machines "ChargeParameterDiscoveryReq_enc_step v"
    "ChargeParameterDiscoveryReq_dec_step j" "ChargeParameterDiscoveryReq_at v"
  "left_at [(175, 290), (176, 284), (4, 1)]" "same_ChargeParameterDiscoveryReq v" for v j
proof
  fix g a assume at: "ChargeParameterDiscoveryReq_at v g a"
  then have "g \<in> {175, 176, 4}"
      "ChargeParameterDiscoveryReq_ok v" by (simp_all add: ChargeParameterDiscoveryReq_at_def)
  then have "g = 175 \<or>
      (g = 176 \<and> ChargeParameterDiscoveryReq_AC_EVChargeParameter_isUsed v) \<or>
      (g = 176 \<and> \<not> ChargeParameterDiscoveryReq_AC_EVChargeParameter_isUsed v \<and>
        ChargeParameterDiscoveryReq_DC_EVChargeParameter_isUsed v) \<or>
      (g = 176 \<and> \<not> ChargeParameterDiscoveryReq_AC_EVChargeParameter_isUsed v \<and>
        \<not> ChargeParameterDiscoveryReq_DC_EVChargeParameter_isUsed v \<and>
          ChargeParameterDiscoveryReq_EVChargeParameter_isUsed v) \<or>
      g = 4"
    by (elim insertE emptyE) (auto simp: ChargeParameterDiscoveryReq_ok_def)
  then show "hops (ChargeParameterDiscoveryReq_enc_step v) (ChargeParameterDiscoveryReq_dec_step j) (ChargeParameterDiscoveryReq_at v)
    (left_at [(175, 290), (176, 284), (4, 1)]) (same_ChargeParameterDiscoveryReq v) g a" using at
    by (elim disjE conjE)
      (rule hops_intros, simp add: ChargeParameterDiscoveryReq_steps, simp add: ChargeParameterDiscoveryReq_steps,
        simp, ((rule reads_intros)+)?,
        (clarsimp simp: ChargeParameterDiscoveryReq_props; fail)+)+
qed

lemma reads_ChargeParameterDiscoveryReq [reads_intros]:
  "ChargeParameterDiscoveryReq_ok v \<Longrightarrow>
      reads 290 (\<lambda>s. encode_dinChargeParameterDiscoveryReqType s v) (decode_dinChargeParameterDiscoveryReqType j) a (same_ChargeParameterDiscoveryReq v)"
  unfolding encode_dinChargeParameterDiscoveryReqType_def decode_dinChargeParameterDiscoveryReqType_def [abs_def]
  by (rule reads_start [OF ChargeParameterDiscoveryReq.machine_reads, of _ 175,
      THEN reads_mono]) (auto simp: ChargeParameterDiscoveryReq_at_def init_dinChargeParameterDiscoveryReqType_def left_at_def)

interpretation ChargeParameterDiscoveryReq_enc: advancing_machine "ChargeParameterDiscoveryReq_enc_step v"
    "left_at [(175, 3), (176, 2), (4, 1)]" for v
  by unfold_locales (auto simp: ChargeParameterDiscoveryReq_steps dest!: advance_dests split: if_splits;
      simp add: left_at_def)

interpretation ChargeParameterDiscoveryReq_dec: advancing_machine "ChargeParameterDiscoveryReq_dec_step j"
    "left_at [(175, 3), (176, 2), (4, 1)]" for j
  by unfold_locales (auto simp: ChargeParameterDiscoveryReq_steps dest!: advance_dests elim!: decode_switch_next split: if_splits;
      simp add: left_at_def)

subsection \<open>Properties\<close>

text \<open>C13: the request that carries the charge parameters of the vehicle, in any of its three forms, and
  the parameters of the station arrive with the same content at a reader in any state; 53 bytes of
  room are enough. The fields are in the ranges of their types, departure time and maximal delay
  below \<open>2 ^ 31\<close>.\<close>

theorem charge_parameters_roundtrip:
  assumes "startable s" "stream_pos s + 53 \<le> stream_size s"
    and "ChargeParameterDiscoveryReq_ok v" "DC_EVSEChargeParameter_ok w"
  shows "arrives encode_dinChargeParameterDiscoveryReqType decode_dinChargeParameterDiscoveryReqType
      same_ChargeParameterDiscoveryReq s v \<and>
    arrives encode_dinDC_EVSEChargeParameterType decode_dinDC_EVSEChargeParameterType same_DC_EVSEChargeParameter s w"
  by (intro conjI; rule reads_arrives, rule reads_intros, use assms in simp_all)

definition sample_limits :: dinDC_EVChargeParameterType where
  "sample_limits = \<lparr>DC_EVChargeParameter_DC_EVStatus = sample_vehicle,
     DC_EVChargeParameter_EVMaximumCurrentLimit = sample_value 3 1250,
     DC_EVChargeParameter_EVMaximumPowerLimit = sample_value 7 5000, DC_EVChargeParameter_EVMaximumPowerLimit_isUsed = False,
     DC_EVChargeParameter_EVMaximumVoltageLimit = sample_value 4 4200,
     DC_EVChargeParameter_EVEnergyCapacity = sample_value 9 3000, DC_EVChargeParameter_EVEnergyCapacity_isUsed = True,
     DC_EVChargeParameter_EVEnergyRequest = sample_value 9 1200, DC_EVChargeParameter_EVEnergyRequest_isUsed = True,
     DC_EVChargeParameter_FullSOC = 99, DC_EVChargeParameter_FullSOC_isUsed = True,
     DC_EVChargeParameter_BulkSOC = 80, DC_EVChargeParameter_BulkSOC_isUsed = False\<rparr>"

definition sample_discovery :: dinChargeParameterDiscoveryReqType where
  "sample_discovery = \<lparr>ChargeParameterDiscoveryReq_EVRequestedEnergyTransferType = 3,
     ChargeParameterDiscoveryReq_EVChargeParameter = \<lparr>EVChargeParameter_noContent = 0\<rparr>,
     ChargeParameterDiscoveryReq_EVChargeParameter_isUsed = False,
     ChargeParameterDiscoveryReq_AC_EVChargeParameter = \<lparr>AC_EVChargeParameter_DepartureTime = 0,
       AC_EVChargeParameter_EAmount = sample_value 9 0, AC_EVChargeParameter_EVMaxVoltage = sample_value 4 0,
       AC_EVChargeParameter_EVMaxCurrent = sample_value 3 0, AC_EVChargeParameter_EVMinCurrent = sample_value 3 0\<rparr>,
     ChargeParameterDiscoveryReq_AC_EVChargeParameter_isUsed = False,
     ChargeParameterDiscoveryReq_DC_EVChargeParameter = sample_limits,
     ChargeParameterDiscoveryReq_DC_EVChargeParameter_isUsed = True\<rparr>"

definition sample_offer :: dinDC_EVSEChargeParameterType where
  "sample_offer = \<lparr>DC_EVSEChargeParameter_DC_EVSEStatus = sample_station,
     DC_EVSEChargeParameter_EVSEMaximumCurrentLimit = sample_value 3 2000,
     DC_EVSEChargeParameter_EVSEMaximumPowerLimit = sample_value 7 5000,
     DC_EVSEChargeParameter_EVSEMaximumPowerLimit_isUsed = True,
     DC_EVSEChargeParameter_EVSEMaximumVoltageLimit = sample_value 4 5000,
     DC_EVSEChargeParameter_EVSEMinimumCurrentLimit = sample_value 3 10,
     DC_EVSEChargeParameter_EVSEMinimumVoltageLimit = sample_value 4 2000,
     DC_EVSEChargeParameter_EVSECurrentRegulationTolerance = sample_value 3 1,
     DC_EVSEChargeParameter_EVSECurrentRegulationTolerance_isUsed = False,
     DC_EVSEChargeParameter_EVSEPeakCurrentRipple = sample_value 3 5,
     DC_EVSEChargeParameter_EVSEEnergyToBeDelivered = sample_value 9 1000,
     DC_EVSEChargeParameter_EVSEEnergyToBeDelivered_isUsed = True\<rparr>"

theorem charge_parameters_roundtrip_witness:
  "arrives encode_dinChargeParameterDiscoveryReqType decode_dinChargeParameterDiscoveryReqType
     same_ChargeParameterDiscoveryReq (blank_stream 53) sample_discovery"
proof -
  have "DC_EVChargeParameter_ok sample_limits" by (simp add: sample_limits_def DC_EVChargeParameter_ok_def)
  then have ok: "ChargeParameterDiscoveryReq_ok sample_discovery"
    by (simp add: sample_discovery_def ChargeParameterDiscoveryReq_ok_def)
  have "DC_EVSEChargeParameter_ok sample_offer" by (simp add: sample_offer_def DC_EVSEChargeParameter_ok_def)
  from charge_parameters_roundtrip [OF _ _ ok this, of "blank_stream 53"] show ?thesis by simp
qed

end
