(* ===== verification/DinCharging.thy ===== *)
theory DinCharging
  imports DinValues
begin

section \<open>DIN 70121 codec: from the cable check to the welding detection\<close>

text \<open>
  The requests of the vehicle and the answers of the station before and after the transfer of energy,
  in the form explained in \<open>DinValues\<close>.
\<close>

subsection \<open>\<open>dinCableCheckReqType\<close>\<close>

record dinCableCheckReqType =
  CableCheckReq_DC_EVStatus :: dinDC_EVStatusType

definition init_dinCableCheckReqType :: "dinCableCheckReqType \<Rightarrow> dinCableCheckReqType" where
  "init_dinCableCheckReqType a = a"

definition CableCheckReq_enc_step :: "dinCableCheckReqType \<Rightarrow> unit machine" where
  "CableCheckReq_enc_step v grammarID x s =
     (if grammarID = 55 then
        goto 4 x (encode_child 1 0 (\<lambda>s. encode_dinDC_EVStatusType s (CableCheckReq_DC_EVStatus v)) s)
      else if grammarID = 4 then
        finish 5 x (encodeNBitUnsignedInteger s 1 0)
      else Some (EXI_ERROR_UNKOWN_GRAMMAR_ID, (False, grammarID, x), s))"

definition encode_dinCableCheckReqType
    :: "bitstream \<Rightarrow> dinCableCheckReqType \<Rightarrow> (errn \<times> bitstream) option" where
  "encode_dinCableCheckReqType s v = run_encoder (CableCheckReq_enc_step v) 55 () s"

definition CableCheckReq_dec_step :: "u32 \<Rightarrow> (dec_static \<times> dinCableCheckReqType) machine" where
  "CableCheckReq_dec_step j grammarID x s =
     (if grammarID = 55 then
        decode_switch 1
         [(0, decode_child 4
            (decode_sub (decode_dinDC_EVStatusType j) CableCheckReq_DC_EVStatus
              (\<lambda>u a. a\<lparr>CableCheckReq_DC_EVStatus := u\<rparr>)))] 55 x s
      else if grammarID = 4 then
        decode_switch 1
         [(0, decode_end 5)] 4 x s
      else Some (EXI_ERROR_UNKOWN_GRAMMAR_ID, (False, grammarID, x), s))"

definition decode_dinCableCheckReqType :: "u32 \<Rightarrow> dinCableCheckReqType decoder" where
  "decode_dinCableCheckReqType j x s
      = grammar_loop (CableCheckReq_dec_step j) 55 (fst x, init_dinCableCheckReqType (snd x)) s"

definition CableCheckReq_ok :: "dinCableCheckReqType \<Rightarrow> bool" where
  "CableCheckReq_ok v \<longleftrightarrow>
     DC_EVStatus_ok (CableCheckReq_DC_EVStatus v)"

definition same_CableCheckReq :: "dinCableCheckReqType \<Rightarrow> dinCableCheckReqType \<Rightarrow> bool" where
  "same_CableCheckReq v a \<longleftrightarrow>
     same_DC_EVStatus (CableCheckReq_DC_EVStatus v) (CableCheckReq_DC_EVStatus a)"

definition CableCheckReq_at
    :: "dinCableCheckReqType \<Rightarrow> nat \<Rightarrow> dinCableCheckReqType \<Rightarrow> bool" where
  "CableCheckReq_at v g a \<longleftrightarrow>
     CableCheckReq_ok v \<and>
     g \<in> {55, 4} \<and>
     (g \<notin> {55} \<longrightarrow> same_DC_EVStatus (CableCheckReq_DC_EVStatus v) (CableCheckReq_DC_EVStatus a))"

lemmas CableCheckReq_steps = CableCheckReq_enc_step_def
  CableCheckReq_dec_step_def

lemmas CableCheckReq_props = CableCheckReq_at_def CableCheckReq_ok_def same_CableCheckReq_def left_at_def

interpretation CableCheckReq: paired_machines "CableCheckReq_enc_step v" "CableCheckReq_dec_step j"
    "CableCheckReq_at v"
  "left_at [(55, 34), (4, 1)]" "same_CableCheckReq v" for v j
proof
  fix g a assume at: "CableCheckReq_at v g a"
  then have "g \<in> {55, 4}" by (simp add: CableCheckReq_at_def)
  then have "g = 55 \<or>
      g = 4"
    by (elim insertE emptyE) auto
  then show "hops (CableCheckReq_enc_step v) (CableCheckReq_dec_step j) (CableCheckReq_at v)
    (left_at [(55, 34), (4, 1)]) (same_CableCheckReq v) g a" using at
    by (elim disjE conjE)
      (rule hops_intros, simp add: CableCheckReq_steps, simp add: CableCheckReq_steps, simp, ((rule reads_intros)+)?,
        (clarsimp simp: CableCheckReq_props; fail)+)+
qed

lemma reads_CableCheckReq [reads_intros]:
  "CableCheckReq_ok v \<Longrightarrow>
      reads 34 (\<lambda>s. encode_dinCableCheckReqType s v) (decode_dinCableCheckReqType j) a (same_CableCheckReq v)"
  unfolding encode_dinCableCheckReqType_def decode_dinCableCheckReqType_def [abs_def]
  by (rule reads_start [OF CableCheckReq.machine_reads, of _ 55,
      THEN reads_mono]) (auto simp: CableCheckReq_at_def init_dinCableCheckReqType_def left_at_def)

interpretation CableCheckReq_enc: advancing_machine "CableCheckReq_enc_step v" "left_at [(55, 2), (4, 1)]" for v
  by unfold_locales (auto simp: CableCheckReq_steps dest!: advance_dests split: if_splits;
      simp add: left_at_def)

interpretation CableCheckReq_dec: advancing_machine "CableCheckReq_dec_step j" "left_at [(55, 2), (4, 1)]" for j
  by unfold_locales (auto simp: CableCheckReq_steps dest!: advance_dests elim!: decode_switch_next split: if_splits;
      simp add: left_at_def)

subsection \<open>\<open>dinCableCheckResType\<close>\<close>

record dinCableCheckResType =
  CableCheckRes_ResponseCode :: u32
  CableCheckRes_DC_EVSEStatus :: dinDC_EVSEStatusType
  CableCheckRes_EVSEProcessing :: u32

definition init_dinCableCheckResType :: "dinCableCheckResType \<Rightarrow> dinCableCheckResType" where
  "init_dinCableCheckResType a = a"

definition CableCheckRes_enc_step :: "dinCableCheckResType \<Rightarrow> unit machine" where
  "CableCheckRes_enc_step v grammarID x s =
     (if grammarID = 242 then
        goto 243 x (encode_simple 1 0 (\<lambda>s. encodeNBitUnsignedInteger s 5 (CableCheckRes_ResponseCode v)) s)
      else if grammarID = 243 then
        goto 17 x (encode_child 1 0 (\<lambda>s. encode_dinDC_EVSEStatusType s (CableCheckRes_DC_EVSEStatus v)) s)
      else if grammarID = 17 then
        goto 4 x (encode_simple 1 0 (\<lambda>s. encodeNBitUnsignedInteger s 1 (CableCheckRes_EVSEProcessing v)) s)
      else if grammarID = 4 then
        finish 5 x (encodeNBitUnsignedInteger s 1 0)
      else Some (EXI_ERROR_UNKOWN_GRAMMAR_ID, (False, grammarID, x), s))"

definition encode_dinCableCheckResType
    :: "bitstream \<Rightarrow> dinCableCheckResType \<Rightarrow> (errn \<times> bitstream) option" where
  "encode_dinCableCheckResType s v = run_encoder (CableCheckRes_enc_step v) 242 () s"

definition CableCheckRes_dec_step :: "u32 \<Rightarrow> (dec_static \<times> dinCableCheckResType) machine" where
  "CableCheckRes_dec_step j grammarID x s =
     (if grammarID = 242 then
        decode_switch 1
         [(0, decode_simple 242 243
            (decode_nbit_field 5 (\<lambda>u a. a\<lparr>CableCheckRes_ResponseCode := u\<rparr>)))] 242 x s
      else if grammarID = 243 then
        decode_switch 1
         [(0, decode_child 17
            (decode_sub (decode_dinDC_EVSEStatusType j) CableCheckRes_DC_EVSEStatus
              (\<lambda>u a. a\<lparr>CableCheckRes_DC_EVSEStatus := u\<rparr>)))] 243 x s
      else if grammarID = 17 then
        decode_switch 1
         [(0, decode_simple 17 4
            (decode_nbit_field 1 (\<lambda>u a. a\<lparr>CableCheckRes_EVSEProcessing := u\<rparr>)))] 17 x s
      else if grammarID = 4 then
        decode_switch 1
         [(0, decode_end 5)] 4 x s
      else Some (EXI_ERROR_UNKOWN_GRAMMAR_ID, (False, grammarID, x), s))"

definition decode_dinCableCheckResType :: "u32 \<Rightarrow> dinCableCheckResType decoder" where
  "decode_dinCableCheckResType j x s
      = grammar_loop (CableCheckRes_dec_step j) 242 (fst x, init_dinCableCheckResType (snd x)) s"

definition CableCheckRes_ok :: "dinCableCheckResType \<Rightarrow> bool" where
  "CableCheckRes_ok v \<longleftrightarrow>
     CableCheckRes_ResponseCode v < 2 ^ 5 \<and>
     DC_EVSEStatus_ok (CableCheckRes_DC_EVSEStatus v) \<and>
     CableCheckRes_EVSEProcessing v < 2 ^ 1"

definition same_CableCheckRes :: "dinCableCheckResType \<Rightarrow> dinCableCheckResType \<Rightarrow> bool" where
  "same_CableCheckRes v a \<longleftrightarrow>
     CableCheckRes_ResponseCode a = CableCheckRes_ResponseCode v \<and>
     same_DC_EVSEStatus (CableCheckRes_DC_EVSEStatus v) (CableCheckRes_DC_EVSEStatus a) \<and>
     CableCheckRes_EVSEProcessing a = CableCheckRes_EVSEProcessing v"

definition CableCheckRes_at
    :: "dinCableCheckResType \<Rightarrow> nat \<Rightarrow> dinCableCheckResType \<Rightarrow> bool" where
  "CableCheckRes_at v g a \<longleftrightarrow>
     CableCheckRes_ok v \<and>
     g \<in> {242, 243, 17, 4} \<and>
     (g \<notin> {242} \<longrightarrow> CableCheckRes_ResponseCode a = CableCheckRes_ResponseCode v) \<and>
     (g \<notin> {242, 243} \<longrightarrow>
       same_DC_EVSEStatus (CableCheckRes_DC_EVSEStatus v) (CableCheckRes_DC_EVSEStatus a)) \<and>
     (g \<notin> {242, 243, 17} \<longrightarrow> CableCheckRes_EVSEProcessing a = CableCheckRes_EVSEProcessing v)"

lemmas CableCheckRes_steps = CableCheckRes_enc_step_def
  CableCheckRes_dec_step_def

lemmas CableCheckRes_props = CableCheckRes_at_def CableCheckRes_ok_def same_CableCheckRes_def left_at_def

interpretation CableCheckRes: paired_machines "CableCheckRes_enc_step v" "CableCheckRes_dec_step j"
    "CableCheckRes_at v"
  "left_at [(242, 76), (243, 68), (17, 5), (4, 1)]" "same_CableCheckRes v" for v j
proof
  fix g a assume at: "CableCheckRes_at v g a"
  then have "g \<in> {242, 243, 17, 4}" by (simp add: CableCheckRes_at_def)
  then have "g = 242 \<or>
      g = 243 \<or>
      g = 17 \<or>
      g = 4"
    by (elim insertE emptyE) auto
  then show "hops (CableCheckRes_enc_step v) (CableCheckRes_dec_step j) (CableCheckRes_at v)
    (left_at [(242, 76), (243, 68), (17, 5), (4, 1)]) (same_CableCheckRes v) g a" using at
    by (elim disjE conjE)
      (rule hops_intros, simp add: CableCheckRes_steps, simp add: CableCheckRes_steps, simp, ((rule reads_intros)+)?,
        (clarsimp simp: CableCheckRes_props; fail)+)+
qed

lemma reads_CableCheckRes [reads_intros]:
  "CableCheckRes_ok v \<Longrightarrow>
      reads 76 (\<lambda>s. encode_dinCableCheckResType s v) (decode_dinCableCheckResType j) a (same_CableCheckRes v)"
  unfolding encode_dinCableCheckResType_def decode_dinCableCheckResType_def [abs_def]
  by (rule reads_start [OF CableCheckRes.machine_reads, of _ 242,
      THEN reads_mono]) (auto simp: CableCheckRes_at_def init_dinCableCheckResType_def left_at_def)

interpretation CableCheckRes_enc: advancing_machine "CableCheckRes_enc_step v"
    "left_at [(242, 4), (243, 3), (17, 2), (4, 1)]" for v
  by unfold_locales (auto simp: CableCheckRes_steps dest!: advance_dests split: if_splits;
      simp add: left_at_def)

interpretation CableCheckRes_dec: advancing_machine "CableCheckRes_dec_step j"
    "left_at [(242, 4), (243, 3), (17, 2), (4, 1)]" for j
  by unfold_locales (auto simp: CableCheckRes_steps dest!: advance_dests elim!: decode_switch_next split: if_splits;
      simp add: left_at_def)

subsection \<open>\<open>dinPreChargeReqType\<close>\<close>

record dinPreChargeReqType =
  PreChargeReq_DC_EVStatus :: dinDC_EVStatusType
  PreChargeReq_EVTargetVoltage :: dinPhysicalValueType
  PreChargeReq_EVTargetCurrent :: dinPhysicalValueType

definition init_dinPreChargeReqType :: "dinPreChargeReqType \<Rightarrow> dinPreChargeReqType" where
  "init_dinPreChargeReqType a = a"

definition PreChargeReq_enc_step :: "dinPreChargeReqType \<Rightarrow> unit machine" where
  "PreChargeReq_enc_step v grammarID x s =
     (if grammarID = 157 then
        goto 158 x (encode_child 1 0 (\<lambda>s. encode_dinDC_EVStatusType s (PreChargeReq_DC_EVStatus v)) s)
      else if grammarID = 158 then
        goto 159 x (encode_child 1 0 (\<lambda>s. encode_dinPhysicalValueType s (PreChargeReq_EVTargetVoltage v)) s)
      else if grammarID = 159 then
        goto 4 x (encode_child 1 0 (\<lambda>s. encode_dinPhysicalValueType s (PreChargeReq_EVTargetCurrent v)) s)
      else if grammarID = 4 then
        finish 5 x (encodeNBitUnsignedInteger s 1 0)
      else Some (EXI_ERROR_UNKOWN_GRAMMAR_ID, (False, grammarID, x), s))"

definition encode_dinPreChargeReqType
    :: "bitstream \<Rightarrow> dinPreChargeReqType \<Rightarrow> (errn \<times> bitstream) option" where
  "encode_dinPreChargeReqType s v = run_encoder (PreChargeReq_enc_step v) 157 () s"

definition PreChargeReq_dec_step :: "u32 \<Rightarrow> (dec_static \<times> dinPreChargeReqType) machine" where
  "PreChargeReq_dec_step j grammarID x s =
     (if grammarID = 157 then
        decode_switch 1
         [(0, decode_child 158
            (decode_sub (decode_dinDC_EVStatusType j) PreChargeReq_DC_EVStatus
              (\<lambda>u a. a\<lparr>PreChargeReq_DC_EVStatus := u\<rparr>)))] 157 x s
      else if grammarID = 158 then
        decode_switch 1
         [(0, decode_child 159
            (decode_sub (decode_dinPhysicalValueType j) PreChargeReq_EVTargetVoltage
              (\<lambda>u a. a\<lparr>PreChargeReq_EVTargetVoltage := u\<rparr>)))] 158 x s
      else if grammarID = 159 then
        decode_switch 1
         [(0, decode_child 4
            (decode_sub (decode_dinPhysicalValueType j) PreChargeReq_EVTargetCurrent
              (\<lambda>u a. a\<lparr>PreChargeReq_EVTargetCurrent := u\<rparr>)))] 159 x s
      else if grammarID = 4 then
        decode_switch 1
         [(0, decode_end 5)] 4 x s
      else Some (EXI_ERROR_UNKOWN_GRAMMAR_ID, (False, grammarID, x), s))"

definition decode_dinPreChargeReqType :: "u32 \<Rightarrow> dinPreChargeReqType decoder" where
  "decode_dinPreChargeReqType j x s
      = grammar_loop (PreChargeReq_dec_step j) 157 (fst x, init_dinPreChargeReqType (snd x)) s"

definition PreChargeReq_ok :: "dinPreChargeReqType \<Rightarrow> bool" where
  "PreChargeReq_ok v \<longleftrightarrow>
     DC_EVStatus_ok (PreChargeReq_DC_EVStatus v) \<and>
     PhysicalValue_ok (PreChargeReq_EVTargetVoltage v) \<and>
     PhysicalValue_ok (PreChargeReq_EVTargetCurrent v)"

definition same_PreChargeReq :: "dinPreChargeReqType \<Rightarrow> dinPreChargeReqType \<Rightarrow> bool" where
  "same_PreChargeReq v a \<longleftrightarrow>
     same_DC_EVStatus (PreChargeReq_DC_EVStatus v) (PreChargeReq_DC_EVStatus a) \<and>
     same_PhysicalValue (PreChargeReq_EVTargetVoltage v) (PreChargeReq_EVTargetVoltage a) \<and>
     same_PhysicalValue (PreChargeReq_EVTargetCurrent v) (PreChargeReq_EVTargetCurrent a)"

definition PreChargeReq_at
    :: "dinPreChargeReqType \<Rightarrow> nat \<Rightarrow> dinPreChargeReqType \<Rightarrow> bool" where
  "PreChargeReq_at v g a \<longleftrightarrow>
     PreChargeReq_ok v \<and>
     g \<in> {157, 158, 159, 4} \<and>
     (g \<notin> {157} \<longrightarrow>
       same_DC_EVStatus (PreChargeReq_DC_EVStatus v) (PreChargeReq_DC_EVStatus a)) \<and>
     (g \<notin> {157, 158} \<longrightarrow>
       same_PhysicalValue (PreChargeReq_EVTargetVoltage v) (PreChargeReq_EVTargetVoltage a)) \<and>
     (g \<notin> {157, 158, 159} \<longrightarrow>
       same_PhysicalValue (PreChargeReq_EVTargetCurrent v) (PreChargeReq_EVTargetCurrent a))"

lemmas PreChargeReq_steps = PreChargeReq_enc_step_def
  PreChargeReq_dec_step_def

lemmas PreChargeReq_props = PreChargeReq_at_def PreChargeReq_ok_def same_PreChargeReq_def left_at_def

interpretation PreChargeReq: paired_machines "PreChargeReq_enc_step v" "PreChargeReq_dec_step j" "PreChargeReq_at v"
  "left_at [(157, 122), (158, 89), (159, 45), (4, 1)]" "same_PreChargeReq v" for v j
proof
  fix g a assume at: "PreChargeReq_at v g a"
  then have "g \<in> {157, 158, 159, 4}" by (simp add: PreChargeReq_at_def)
  then have "g = 157 \<or>
      g = 158 \<or>
      g = 159 \<or>
      g = 4"
    by (elim insertE emptyE) auto
  then show "hops (PreChargeReq_enc_step v) (PreChargeReq_dec_step j) (PreChargeReq_at v)
    (left_at [(157, 122), (158, 89), (159, 45), (4, 1)]) (same_PreChargeReq v) g a" using at
    by (elim disjE conjE)
      (rule hops_intros, simp add: PreChargeReq_steps, simp add: PreChargeReq_steps, simp, ((rule reads_intros)+)?,
        (clarsimp simp: PreChargeReq_props; fail)+)+
qed

lemma reads_PreChargeReq [reads_intros]:
  "PreChargeReq_ok v \<Longrightarrow>
      reads 122 (\<lambda>s. encode_dinPreChargeReqType s v) (decode_dinPreChargeReqType j) a (same_PreChargeReq v)"
  unfolding encode_dinPreChargeReqType_def decode_dinPreChargeReqType_def [abs_def]
  by (rule reads_start [OF PreChargeReq.machine_reads, of _ 157,
      THEN reads_mono]) (auto simp: PreChargeReq_at_def init_dinPreChargeReqType_def left_at_def)

interpretation PreChargeReq_enc: advancing_machine "PreChargeReq_enc_step v"
    "left_at [(157, 4), (158, 3), (159, 2), (4, 1)]" for v
  by unfold_locales (auto simp: PreChargeReq_steps dest!: advance_dests split: if_splits;
      simp add: left_at_def)

interpretation PreChargeReq_dec: advancing_machine "PreChargeReq_dec_step j"
    "left_at [(157, 4), (158, 3), (159, 2), (4, 1)]" for j
  by unfold_locales (auto simp: PreChargeReq_steps dest!: advance_dests elim!: decode_switch_next split: if_splits;
      simp add: left_at_def)

subsection \<open>\<open>dinPreChargeResType\<close>\<close>

record dinPreChargeResType =
  PreChargeRes_ResponseCode :: u32
  PreChargeRes_DC_EVSEStatus :: dinDC_EVSEStatusType
  PreChargeRes_EVSEPresentVoltage :: dinPhysicalValueType

definition init_dinPreChargeResType :: "dinPreChargeResType \<Rightarrow> dinPreChargeResType" where
  "init_dinPreChargeResType a = a"

definition PreChargeRes_enc_step :: "dinPreChargeResType \<Rightarrow> unit machine" where
  "PreChargeRes_enc_step v grammarID x s =
     (if grammarID = 13 then
        goto 14 x (encode_simple 1 0 (\<lambda>s. encodeNBitUnsignedInteger s 5 (PreChargeRes_ResponseCode v)) s)
      else if grammarID = 14 then
        goto 15 x (encode_child 1 0 (\<lambda>s. encode_dinDC_EVSEStatusType s (PreChargeRes_DC_EVSEStatus v)) s)
      else if grammarID = 15 then
        goto 4 x (encode_child 1 0 (\<lambda>s. encode_dinPhysicalValueType s (PreChargeRes_EVSEPresentVoltage v)) s)
      else if grammarID = 4 then
        finish 5 x (encodeNBitUnsignedInteger s 1 0)
      else Some (EXI_ERROR_UNKOWN_GRAMMAR_ID, (False, grammarID, x), s))"

definition encode_dinPreChargeResType
    :: "bitstream \<Rightarrow> dinPreChargeResType \<Rightarrow> (errn \<times> bitstream) option" where
  "encode_dinPreChargeResType s v = run_encoder (PreChargeRes_enc_step v) 13 () s"

definition PreChargeRes_dec_step :: "u32 \<Rightarrow> (dec_static \<times> dinPreChargeResType) machine" where
  "PreChargeRes_dec_step j grammarID x s =
     (if grammarID = 13 then
        decode_switch 1
         [(0, decode_simple 13 14
            (decode_nbit_field 5 (\<lambda>u a. a\<lparr>PreChargeRes_ResponseCode := u\<rparr>)))] 13 x s
      else if grammarID = 14 then
        decode_switch 1
         [(0, decode_child 15
            (decode_sub (decode_dinDC_EVSEStatusType j) PreChargeRes_DC_EVSEStatus
              (\<lambda>u a. a\<lparr>PreChargeRes_DC_EVSEStatus := u\<rparr>)))] 14 x s
      else if grammarID = 15 then
        decode_switch 1
         [(0, decode_child 4
            (decode_sub (decode_dinPhysicalValueType j) PreChargeRes_EVSEPresentVoltage
              (\<lambda>u a. a\<lparr>PreChargeRes_EVSEPresentVoltage := u\<rparr>)))] 15 x s
      else if grammarID = 4 then
        decode_switch 1
         [(0, decode_end 5)] 4 x s
      else Some (EXI_ERROR_UNKOWN_GRAMMAR_ID, (False, grammarID, x), s))"

definition decode_dinPreChargeResType :: "u32 \<Rightarrow> dinPreChargeResType decoder" where
  "decode_dinPreChargeResType j x s
      = grammar_loop (PreChargeRes_dec_step j) 13 (fst x, init_dinPreChargeResType (snd x)) s"

definition PreChargeRes_ok :: "dinPreChargeResType \<Rightarrow> bool" where
  "PreChargeRes_ok v \<longleftrightarrow>
     PreChargeRes_ResponseCode v < 2 ^ 5 \<and>
     DC_EVSEStatus_ok (PreChargeRes_DC_EVSEStatus v) \<and>
     PhysicalValue_ok (PreChargeRes_EVSEPresentVoltage v)"

definition same_PreChargeRes :: "dinPreChargeResType \<Rightarrow> dinPreChargeResType \<Rightarrow> bool" where
  "same_PreChargeRes v a \<longleftrightarrow>
     PreChargeRes_ResponseCode a = PreChargeRes_ResponseCode v \<and>
     same_DC_EVSEStatus (PreChargeRes_DC_EVSEStatus v) (PreChargeRes_DC_EVSEStatus a) \<and>
     same_PhysicalValue (PreChargeRes_EVSEPresentVoltage v) (PreChargeRes_EVSEPresentVoltage a)"

definition PreChargeRes_at
    :: "dinPreChargeResType \<Rightarrow> nat \<Rightarrow> dinPreChargeResType \<Rightarrow> bool" where
  "PreChargeRes_at v g a \<longleftrightarrow>
     PreChargeRes_ok v \<and>
     g \<in> {13, 14, 15, 4} \<and>
     (g \<notin> {13} \<longrightarrow> PreChargeRes_ResponseCode a = PreChargeRes_ResponseCode v) \<and>
     (g \<notin> {13, 14} \<longrightarrow>
       same_DC_EVSEStatus (PreChargeRes_DC_EVSEStatus v) (PreChargeRes_DC_EVSEStatus a)) \<and>
     (g \<notin> {13, 14, 15} \<longrightarrow>
       same_PhysicalValue (PreChargeRes_EVSEPresentVoltage v) (PreChargeRes_EVSEPresentVoltage a))"

lemmas PreChargeRes_steps = PreChargeRes_enc_step_def
  PreChargeRes_dec_step_def

lemmas PreChargeRes_props = PreChargeRes_at_def PreChargeRes_ok_def same_PreChargeRes_def left_at_def

interpretation PreChargeRes: paired_machines "PreChargeRes_enc_step v" "PreChargeRes_dec_step j" "PreChargeRes_at v"
  "left_at [(13, 116), (14, 108), (15, 45), (4, 1)]" "same_PreChargeRes v" for v j
proof
  fix g a assume at: "PreChargeRes_at v g a"
  then have "g \<in> {13, 14, 15, 4}" by (simp add: PreChargeRes_at_def)
  then have "g = 13 \<or>
      g = 14 \<or>
      g = 15 \<or>
      g = 4"
    by (elim insertE emptyE) auto
  then show "hops (PreChargeRes_enc_step v) (PreChargeRes_dec_step j) (PreChargeRes_at v)
    (left_at [(13, 116), (14, 108), (15, 45), (4, 1)]) (same_PreChargeRes v) g a" using at
    by (elim disjE conjE)
      (rule hops_intros, simp add: PreChargeRes_steps, simp add: PreChargeRes_steps, simp, ((rule reads_intros)+)?,
        (clarsimp simp: PreChargeRes_props; fail)+)+
qed

lemma reads_PreChargeRes [reads_intros]:
  "PreChargeRes_ok v \<Longrightarrow>
      reads 116 (\<lambda>s. encode_dinPreChargeResType s v) (decode_dinPreChargeResType j) a (same_PreChargeRes v)"
  unfolding encode_dinPreChargeResType_def decode_dinPreChargeResType_def [abs_def]
  by (rule reads_start [OF PreChargeRes.machine_reads, of _ 13,
      THEN reads_mono]) (auto simp: PreChargeRes_at_def init_dinPreChargeResType_def left_at_def)

interpretation PreChargeRes_enc: advancing_machine "PreChargeRes_enc_step v"
    "left_at [(13, 4), (14, 3), (15, 2), (4, 1)]" for v
  by unfold_locales (auto simp: PreChargeRes_steps dest!: advance_dests split: if_splits;
      simp add: left_at_def)

interpretation PreChargeRes_dec: advancing_machine "PreChargeRes_dec_step j"
    "left_at [(13, 4), (14, 3), (15, 2), (4, 1)]" for j
  by unfold_locales (auto simp: PreChargeRes_steps dest!: advance_dests elim!: decode_switch_next split: if_splits;
      simp add: left_at_def)

subsection \<open>\<open>dinWeldingDetectionReqType\<close>\<close>

record dinWeldingDetectionReqType =
  WeldingDetectionReq_DC_EVStatus :: dinDC_EVStatusType

definition init_dinWeldingDetectionReqType
    :: "dinWeldingDetectionReqType \<Rightarrow> dinWeldingDetectionReqType" where
  "init_dinWeldingDetectionReqType a = a"

definition WeldingDetectionReq_enc_step :: "dinWeldingDetectionReqType \<Rightarrow> unit machine" where
  "WeldingDetectionReq_enc_step v grammarID x s =
     (if grammarID = 55 then
        goto 4 x (encode_child 1 0 (\<lambda>s. encode_dinDC_EVStatusType s (WeldingDetectionReq_DC_EVStatus v)) s)
      else if grammarID = 4 then
        finish 5 x (encodeNBitUnsignedInteger s 1 0)
      else Some (EXI_ERROR_UNKOWN_GRAMMAR_ID, (False, grammarID, x), s))"

definition encode_dinWeldingDetectionReqType
    :: "bitstream \<Rightarrow> dinWeldingDetectionReqType \<Rightarrow> (errn \<times> bitstream) option" where
  "encode_dinWeldingDetectionReqType s v = run_encoder (WeldingDetectionReq_enc_step v) 55 () s"

definition WeldingDetectionReq_dec_step
    :: "u32 \<Rightarrow> (dec_static \<times> dinWeldingDetectionReqType) machine" where
  "WeldingDetectionReq_dec_step j grammarID x s =
     (if grammarID = 55 then
        decode_switch 1
         [(0, decode_child 4
            (decode_sub (decode_dinDC_EVStatusType j) WeldingDetectionReq_DC_EVStatus
              (\<lambda>u a. a\<lparr>WeldingDetectionReq_DC_EVStatus := u\<rparr>)))] 55 x s
      else if grammarID = 4 then
        decode_switch 1
         [(0, decode_end 5)] 4 x s
      else Some (EXI_ERROR_UNKOWN_GRAMMAR_ID, (False, grammarID, x), s))"

definition decode_dinWeldingDetectionReqType :: "u32 \<Rightarrow> dinWeldingDetectionReqType decoder" where
  "decode_dinWeldingDetectionReqType j x s
      = grammar_loop (WeldingDetectionReq_dec_step j) 55 (fst x, init_dinWeldingDetectionReqType (snd x)) s"

definition WeldingDetectionReq_ok :: "dinWeldingDetectionReqType \<Rightarrow> bool" where
  "WeldingDetectionReq_ok v \<longleftrightarrow>
     DC_EVStatus_ok (WeldingDetectionReq_DC_EVStatus v)"

definition same_WeldingDetectionReq
    :: "dinWeldingDetectionReqType \<Rightarrow> dinWeldingDetectionReqType \<Rightarrow> bool" where
  "same_WeldingDetectionReq v a \<longleftrightarrow>
     same_DC_EVStatus (WeldingDetectionReq_DC_EVStatus v) (WeldingDetectionReq_DC_EVStatus a)"

definition WeldingDetectionReq_at
    :: "dinWeldingDetectionReqType \<Rightarrow> nat \<Rightarrow> dinWeldingDetectionReqType \<Rightarrow> bool" where
  "WeldingDetectionReq_at v g a \<longleftrightarrow>
     WeldingDetectionReq_ok v \<and>
     g \<in> {55, 4} \<and>
     (g \<notin> {55} \<longrightarrow>
       same_DC_EVStatus (WeldingDetectionReq_DC_EVStatus v) (WeldingDetectionReq_DC_EVStatus a))"

lemmas WeldingDetectionReq_steps = WeldingDetectionReq_enc_step_def
  WeldingDetectionReq_dec_step_def

lemmas WeldingDetectionReq_props
    = WeldingDetectionReq_at_def WeldingDetectionReq_ok_def same_WeldingDetectionReq_def left_at_def

interpretation WeldingDetectionReq: paired_machines "WeldingDetectionReq_enc_step v"
    "WeldingDetectionReq_dec_step j" "WeldingDetectionReq_at v"
  "left_at [(55, 34), (4, 1)]" "same_WeldingDetectionReq v" for v j
proof
  fix g a assume at: "WeldingDetectionReq_at v g a"
  then have "g \<in> {55, 4}" by (simp add: WeldingDetectionReq_at_def)
  then have "g = 55 \<or>
      g = 4"
    by (elim insertE emptyE) auto
  then show "hops (WeldingDetectionReq_enc_step v) (WeldingDetectionReq_dec_step j) (WeldingDetectionReq_at v)
    (left_at [(55, 34), (4, 1)]) (same_WeldingDetectionReq v) g a" using at
    by (elim disjE conjE)
      (rule hops_intros, simp add: WeldingDetectionReq_steps, simp add: WeldingDetectionReq_steps, simp,
        ((rule reads_intros)+)?,
        (clarsimp simp: WeldingDetectionReq_props; fail)+)+
qed

lemma reads_WeldingDetectionReq [reads_intros]:
  "WeldingDetectionReq_ok v \<Longrightarrow>
      reads 34 (\<lambda>s. encode_dinWeldingDetectionReqType s v) (decode_dinWeldingDetectionReqType j) a (same_WeldingDetectionReq v)"
  unfolding encode_dinWeldingDetectionReqType_def decode_dinWeldingDetectionReqType_def [abs_def]
  by (rule reads_start [OF WeldingDetectionReq.machine_reads, of _ 55,
      THEN reads_mono]) (auto simp: WeldingDetectionReq_at_def init_dinWeldingDetectionReqType_def left_at_def)

interpretation WeldingDetectionReq_enc: advancing_machine "WeldingDetectionReq_enc_step v"
    "left_at [(55, 2), (4, 1)]" for v
  by unfold_locales (auto simp: WeldingDetectionReq_steps dest!: advance_dests split: if_splits;
      simp add: left_at_def)

interpretation WeldingDetectionReq_dec: advancing_machine "WeldingDetectionReq_dec_step j"
    "left_at [(55, 2), (4, 1)]" for j
  by unfold_locales (auto simp: WeldingDetectionReq_steps dest!: advance_dests elim!: decode_switch_next split: if_splits;
      simp add: left_at_def)

subsection \<open>\<open>dinWeldingDetectionResType\<close>\<close>

record dinWeldingDetectionResType =
  WeldingDetectionRes_ResponseCode :: u32
  WeldingDetectionRes_DC_EVSEStatus :: dinDC_EVSEStatusType
  WeldingDetectionRes_EVSEPresentVoltage :: dinPhysicalValueType

definition init_dinWeldingDetectionResType
    :: "dinWeldingDetectionResType \<Rightarrow> dinWeldingDetectionResType" where
  "init_dinWeldingDetectionResType a = a"

definition WeldingDetectionRes_enc_step :: "dinWeldingDetectionResType \<Rightarrow> unit machine" where
  "WeldingDetectionRes_enc_step v grammarID x s =
     (if grammarID = 13 then
        goto 14 x (encode_simple 1 0
          (\<lambda>s. encodeNBitUnsignedInteger s 5 (WeldingDetectionRes_ResponseCode v)) s)
      else if grammarID = 14 then
        goto 15 x (encode_child 1 0
          (\<lambda>s. encode_dinDC_EVSEStatusType s (WeldingDetectionRes_DC_EVSEStatus v)) s)
      else if grammarID = 15 then
        goto 4 x (encode_child 1 0
          (\<lambda>s. encode_dinPhysicalValueType s (WeldingDetectionRes_EVSEPresentVoltage v)) s)
      else if grammarID = 4 then
        finish 5 x (encodeNBitUnsignedInteger s 1 0)
      else Some (EXI_ERROR_UNKOWN_GRAMMAR_ID, (False, grammarID, x), s))"

definition encode_dinWeldingDetectionResType
    :: "bitstream \<Rightarrow> dinWeldingDetectionResType \<Rightarrow> (errn \<times> bitstream) option" where
  "encode_dinWeldingDetectionResType s v = run_encoder (WeldingDetectionRes_enc_step v) 13 () s"

definition WeldingDetectionRes_dec_step
    :: "u32 \<Rightarrow> (dec_static \<times> dinWeldingDetectionResType) machine" where
  "WeldingDetectionRes_dec_step j grammarID x s =
     (if grammarID = 13 then
        decode_switch 1
         [(0, decode_simple 13 14
            (decode_nbit_field 5 (\<lambda>u a. a\<lparr>WeldingDetectionRes_ResponseCode := u\<rparr>)))] 13 x s
      else if grammarID = 14 then
        decode_switch 1
         [(0, decode_child 15
            (decode_sub (decode_dinDC_EVSEStatusType j) WeldingDetectionRes_DC_EVSEStatus
              (\<lambda>u a. a\<lparr>WeldingDetectionRes_DC_EVSEStatus := u\<rparr>)))] 14 x s
      else if grammarID = 15 then
        decode_switch 1
         [(0, decode_child 4
            (decode_sub (decode_dinPhysicalValueType j) WeldingDetectionRes_EVSEPresentVoltage
              (\<lambda>u a. a\<lparr>WeldingDetectionRes_EVSEPresentVoltage := u\<rparr>)))] 15 x s
      else if grammarID = 4 then
        decode_switch 1
         [(0, decode_end 5)] 4 x s
      else Some (EXI_ERROR_UNKOWN_GRAMMAR_ID, (False, grammarID, x), s))"

definition decode_dinWeldingDetectionResType :: "u32 \<Rightarrow> dinWeldingDetectionResType decoder" where
  "decode_dinWeldingDetectionResType j x s
      = grammar_loop (WeldingDetectionRes_dec_step j) 13 (fst x, init_dinWeldingDetectionResType (snd x)) s"

definition WeldingDetectionRes_ok :: "dinWeldingDetectionResType \<Rightarrow> bool" where
  "WeldingDetectionRes_ok v \<longleftrightarrow>
     WeldingDetectionRes_ResponseCode v < 2 ^ 5 \<and>
     DC_EVSEStatus_ok (WeldingDetectionRes_DC_EVSEStatus v) \<and>
     PhysicalValue_ok (WeldingDetectionRes_EVSEPresentVoltage v)"

definition same_WeldingDetectionRes
    :: "dinWeldingDetectionResType \<Rightarrow> dinWeldingDetectionResType \<Rightarrow> bool" where
  "same_WeldingDetectionRes v a \<longleftrightarrow>
     WeldingDetectionRes_ResponseCode a = WeldingDetectionRes_ResponseCode v \<and>
     same_DC_EVSEStatus (WeldingDetectionRes_DC_EVSEStatus v) (WeldingDetectionRes_DC_EVSEStatus a) \<and>
     same_PhysicalValue (WeldingDetectionRes_EVSEPresentVoltage v) (WeldingDetectionRes_EVSEPresentVoltage a)"

definition WeldingDetectionRes_at
    :: "dinWeldingDetectionResType \<Rightarrow> nat \<Rightarrow> dinWeldingDetectionResType \<Rightarrow> bool" where
  "WeldingDetectionRes_at v g a \<longleftrightarrow>
     WeldingDetectionRes_ok v \<and>
     g \<in> {13, 14, 15, 4} \<and>
     (g \<notin> {13} \<longrightarrow>
       WeldingDetectionRes_ResponseCode a = WeldingDetectionRes_ResponseCode v) \<and>
     (g \<notin> {13, 14} \<longrightarrow>
       same_DC_EVSEStatus (WeldingDetectionRes_DC_EVSEStatus v) (WeldingDetectionRes_DC_EVSEStatus a)) \<and>
     (g \<notin> {13, 14, 15} \<longrightarrow>
       same_PhysicalValue (WeldingDetectionRes_EVSEPresentVoltage v) (WeldingDetectionRes_EVSEPresentVoltage a))"

lemmas WeldingDetectionRes_steps = WeldingDetectionRes_enc_step_def
  WeldingDetectionRes_dec_step_def

lemmas WeldingDetectionRes_props
    = WeldingDetectionRes_at_def WeldingDetectionRes_ok_def same_WeldingDetectionRes_def left_at_def

interpretation WeldingDetectionRes: paired_machines "WeldingDetectionRes_enc_step v"
    "WeldingDetectionRes_dec_step j" "WeldingDetectionRes_at v"
  "left_at [(13, 116), (14, 108), (15, 45), (4, 1)]" "same_WeldingDetectionRes v" for v j
proof
  fix g a assume at: "WeldingDetectionRes_at v g a"
  then have "g \<in> {13, 14, 15, 4}" by (simp add: WeldingDetectionRes_at_def)
  then have "g = 13 \<or>
      g = 14 \<or>
      g = 15 \<or>
      g = 4"
    by (elim insertE emptyE) auto
  then show "hops (WeldingDetectionRes_enc_step v) (WeldingDetectionRes_dec_step j) (WeldingDetectionRes_at v)
    (left_at [(13, 116), (14, 108), (15, 45), (4, 1)]) (same_WeldingDetectionRes v) g a" using at
    by (elim disjE conjE)
      (rule hops_intros, simp add: WeldingDetectionRes_steps, simp add: WeldingDetectionRes_steps, simp,
        ((rule reads_intros)+)?,
        (clarsimp simp: WeldingDetectionRes_props; fail)+)+
qed

lemma reads_WeldingDetectionRes [reads_intros]:
  "WeldingDetectionRes_ok v \<Longrightarrow>
      reads 116 (\<lambda>s. encode_dinWeldingDetectionResType s v) (decode_dinWeldingDetectionResType j) a (same_WeldingDetectionRes v)"
  unfolding encode_dinWeldingDetectionResType_def decode_dinWeldingDetectionResType_def [abs_def]
  by (rule reads_start [OF WeldingDetectionRes.machine_reads, of _ 13,
      THEN reads_mono]) (auto simp: WeldingDetectionRes_at_def init_dinWeldingDetectionResType_def left_at_def)

interpretation WeldingDetectionRes_enc: advancing_machine "WeldingDetectionRes_enc_step v"
    "left_at [(13, 4), (14, 3), (15, 2), (4, 1)]" for v
  by unfold_locales (auto simp: WeldingDetectionRes_steps dest!: advance_dests split: if_splits;
      simp add: left_at_def)

interpretation WeldingDetectionRes_dec: advancing_machine "WeldingDetectionRes_dec_step j"
    "left_at [(13, 4), (14, 3), (15, 2), (4, 1)]" for j
  by unfold_locales (auto simp: WeldingDetectionRes_steps dest!: advance_dests elim!: decode_switch_next split: if_splits;
      simp add: left_at_def)

subsection \<open>\<open>dinPowerDeliveryResType\<close>\<close>

record dinPowerDeliveryResType =
  PowerDeliveryRes_ResponseCode :: u32
  PowerDeliveryRes_EVSEStatus :: dinEVSEStatusType
  PowerDeliveryRes_EVSEStatus_isUsed :: bool
  PowerDeliveryRes_AC_EVSEStatus :: dinAC_EVSEStatusType
  PowerDeliveryRes_AC_EVSEStatus_isUsed :: bool
  PowerDeliveryRes_DC_EVSEStatus :: dinDC_EVSEStatusType
  PowerDeliveryRes_DC_EVSEStatus_isUsed :: bool


definition PowerDeliveryRes_enc_step :: "dinPowerDeliveryResType \<Rightarrow> unit machine" where
  "PowerDeliveryRes_enc_step v grammarID x s =
     (if grammarID = 8 then
        goto 9 x (encode_simple 1 0 (\<lambda>s. encodeNBitUnsignedInteger s 5 (PowerDeliveryRes_ResponseCode v)) s)
      else if grammarID = 9 then
        if PowerDeliveryRes_AC_EVSEStatus_isUsed v then
          goto 4 x (encode_child 2 0 (\<lambda>s. encode_dinAC_EVSEStatusType s (PowerDeliveryRes_AC_EVSEStatus v)) s)
        else if PowerDeliveryRes_DC_EVSEStatus_isUsed v then
          goto 4 x (encode_child 2 1 (\<lambda>s. encode_dinDC_EVSEStatusType s (PowerDeliveryRes_DC_EVSEStatus v)) s)
        else if PowerDeliveryRes_EVSEStatus_isUsed v then
          goto 4 x (encode_child 2 2 (\<lambda>s. encode_dinEVSEStatusType s (PowerDeliveryRes_EVSEStatus v)) s)
        else Some (EXI_ERROR_UNKOWN_EVENT, (False, grammarID, x), s)
      else if grammarID = 4 then
        finish 5 x (encodeNBitUnsignedInteger s 1 0)
      else Some (EXI_ERROR_UNKOWN_GRAMMAR_ID, (False, grammarID, x), s))"


definition PowerDeliveryRes_dec_step
    :: "u32 \<Rightarrow> (dec_static \<times> dinPowerDeliveryResType) machine" where
  "PowerDeliveryRes_dec_step j grammarID x s =
     (if grammarID = 8 then
        decode_switch 1
         [(0, decode_simple 8 9
            (decode_nbit_field 5 (\<lambda>u a. a\<lparr>PowerDeliveryRes_ResponseCode := u\<rparr>)))] 8 x s
      else if grammarID = 9 then
        decode_switch 2
         [(0, decode_child 4
            (decode_used (\<lambda>a. a\<lparr>PowerDeliveryRes_AC_EVSEStatus_isUsed := True\<rparr>)
              (decode_sub (decode_dinAC_EVSEStatusType j) PowerDeliveryRes_AC_EVSEStatus
                (\<lambda>u a. a\<lparr>PowerDeliveryRes_AC_EVSEStatus := u\<rparr>)))),
          (1, decode_child 4
             (decode_used (\<lambda>a. a\<lparr>PowerDeliveryRes_DC_EVSEStatus_isUsed := True\<rparr>)
               (decode_sub (decode_dinDC_EVSEStatusType j) PowerDeliveryRes_DC_EVSEStatus
                 (\<lambda>u a. a\<lparr>PowerDeliveryRes_DC_EVSEStatus := u\<rparr>)))),
          (2, decode_child 4
             (decode_used (\<lambda>a. a\<lparr>PowerDeliveryRes_EVSEStatus_isUsed := True\<rparr>)
               (decode_sub (decode_dinEVSEStatusType j) PowerDeliveryRes_EVSEStatus
                 (\<lambda>u a. a\<lparr>PowerDeliveryRes_EVSEStatus := u\<rparr>))))] 9 x s
      else if grammarID = 4 then
        decode_switch 1
         [(0, decode_end 5)] 4 x s
      else Some (EXI_ERROR_UNKOWN_GRAMMAR_ID, (False, grammarID, x), s))"





lemmas PowerDeliveryRes_steps = PowerDeliveryRes_enc_step_def
  PowerDeliveryRes_dec_step_def




interpretation PowerDeliveryRes_enc: advancing_machine "PowerDeliveryRes_enc_step v"
    "left_at [(8, 3), (9, 2), (4, 1)]" for v
  by unfold_locales (auto simp: PowerDeliveryRes_steps dest!: advance_dests split: if_splits;
      simp add: left_at_def)

interpretation PowerDeliveryRes_dec: advancing_machine "PowerDeliveryRes_dec_step j"
    "left_at [(8, 3), (9, 2), (4, 1)]" for j
  by unfold_locales (auto simp: PowerDeliveryRes_steps dest!: advance_dests elim!: decode_switch_next split: if_splits;
      simp add: left_at_def)

subsection \<open>Properties\<close>

text \<open>C14: the requests and answers of the cable check, of the pre-charge and of the welding detection
  arrive with the same content at a reader in any state; 16 bytes of room are enough for each.
  The fields are in the ranges of their types, the maximal delay of a status below \<open>2 ^ 31\<close>.\<close>

theorem charging_steps_roundtrip:
  assumes "startable s" "stream_pos s + 16 \<le> stream_size s"
    and "CableCheckReq_ok v1" "CableCheckRes_ok w1" "PreChargeReq_ok v2" "PreChargeRes_ok w2"
    and "WeldingDetectionReq_ok v3" "WeldingDetectionRes_ok w3"
  shows "(arrives encode_dinCableCheckReqType decode_dinCableCheckReqType same_CableCheckReq s v1 \<and>
      arrives encode_dinCableCheckResType decode_dinCableCheckResType same_CableCheckRes s w1) \<and>
    (arrives encode_dinPreChargeReqType decode_dinPreChargeReqType same_PreChargeReq s v2 \<and>
      arrives encode_dinPreChargeResType decode_dinPreChargeResType same_PreChargeRes s w2) \<and>
    (arrives encode_dinWeldingDetectionReqType decode_dinWeldingDetectionReqType same_WeldingDetectionReq s v3 \<and>
      arrives encode_dinWeldingDetectionResType decode_dinWeldingDetectionResType same_WeldingDetectionRes s w3)"
  by (intro conjI; rule reads_arrives, rule reads_intros, use assms in simp_all)

theorem charging_steps_roundtrip_witness:
  "arrives encode_dinPreChargeReqType decode_dinPreChargeReqType same_PreChargeReq (blank_stream 16)
     \<lparr>PreChargeReq_DC_EVStatus = sample_vehicle, PreChargeReq_EVTargetVoltage = sample_value 4 4000,
      PreChargeReq_EVTargetCurrent = sample_value 3 20\<rparr>"
  using charging_steps_roundtrip [of "blank_stream 16" "\<lparr>CableCheckReq_DC_EVStatus = sample_vehicle\<rparr>"
      "\<lparr>CableCheckRes_ResponseCode = 0, CableCheckRes_DC_EVSEStatus = sample_station, CableCheckRes_EVSEProcessing = 1\<rparr>"
      "\<lparr>PreChargeReq_DC_EVStatus = sample_vehicle, PreChargeReq_EVTargetVoltage = sample_value 4 4000,
        PreChargeReq_EVTargetCurrent = sample_value 3 20\<rparr>"
      "\<lparr>PreChargeRes_ResponseCode = 0, PreChargeRes_DC_EVSEStatus = sample_station,
        PreChargeRes_EVSEPresentVoltage = sample_value 4 3990\<rparr>"
      "\<lparr>WeldingDetectionReq_DC_EVStatus = sample_vehicle\<rparr>"
      "\<lparr>WeldingDetectionRes_ResponseCode = 0, WeldingDetectionRes_DC_EVSEStatus = sample_station,
        WeldingDetectionRes_EVSEPresentVoltage = sample_value 4 10\<rparr>"]
  by (simp add: CableCheckReq_ok_def CableCheckRes_ok_def PreChargeReq_ok_def PreChargeRes_ok_def
      WeldingDetectionReq_ok_def WeldingDetectionRes_ok_def)











end
