(* ===== verification/DinCurrentDemand.thy ===== *)
theory DinCurrentDemand
  imports DinValues
begin

section \<open>DIN 70121 codec: the current demand loop\<close>

text \<open>
  The request and the answer that are exchanged while energy flows, the two largest messages of DC
  charging: eleven grammar numbers each, with runs of optional elements. Their form is explained in
  \<open>DinValues\<close>.
\<close>

subsection \<open>\<open>dinCurrentDemandReqType\<close>\<close>

record dinCurrentDemandReqType =
  CurrentDemandReq_DC_EVStatus :: dinDC_EVStatusType
  CurrentDemandReq_EVTargetCurrent :: dinPhysicalValueType
  CurrentDemandReq_EVMaximumVoltageLimit :: dinPhysicalValueType
  CurrentDemandReq_EVMaximumVoltageLimit_isUsed :: bool
  CurrentDemandReq_EVMaximumCurrentLimit :: dinPhysicalValueType
  CurrentDemandReq_EVMaximumCurrentLimit_isUsed :: bool
  CurrentDemandReq_EVMaximumPowerLimit :: dinPhysicalValueType
  CurrentDemandReq_EVMaximumPowerLimit_isUsed :: bool
  CurrentDemandReq_BulkChargingComplete :: int
  CurrentDemandReq_BulkChargingComplete_isUsed :: bool
  CurrentDemandReq_ChargingComplete :: int
  CurrentDemandReq_RemainingTimeToFullSoC :: dinPhysicalValueType
  CurrentDemandReq_RemainingTimeToFullSoC_isUsed :: bool
  CurrentDemandReq_RemainingTimeToBulkSoC :: dinPhysicalValueType
  CurrentDemandReq_RemainingTimeToBulkSoC_isUsed :: bool
  CurrentDemandReq_EVTargetVoltage :: dinPhysicalValueType

definition init_dinCurrentDemandReqType :: "dinCurrentDemandReqType \<Rightarrow> dinCurrentDemandReqType" where
  "init_dinCurrentDemandReqType a
      = a\<lparr>CurrentDemandReq_EVMaximumVoltageLimit_isUsed := False,
        CurrentDemandReq_EVMaximumCurrentLimit_isUsed := False, CurrentDemandReq_EVMaximumPowerLimit_isUsed := False,
          CurrentDemandReq_BulkChargingComplete_isUsed := False,
            CurrentDemandReq_RemainingTimeToFullSoC_isUsed := False,
              CurrentDemandReq_RemainingTimeToBulkSoC_isUsed := False\<rparr>"

definition CurrentDemandReq_enc_step_3 :: "dinCurrentDemandReqType \<Rightarrow> unit machine" where
  "CurrentDemandReq_enc_step_3 v grammarID x s =
     (if grammarID = 4 then
        finish 5 x (encodeNBitUnsignedInteger s 1 0)
      else Some (EXI_ERROR_UNKOWN_GRAMMAR_ID, (False, grammarID, x), s))"

definition CurrentDemandReq_enc_step_2 :: "dinCurrentDemandReqType \<Rightarrow> unit machine" where
  "CurrentDemandReq_enc_step_2 v grammarID x s =
     (if grammarID = 151 then
        if CurrentDemandReq_EVMaximumPowerLimit_isUsed v then
          goto 152 x (encode_child 2 0
            (\<lambda>s. encode_dinPhysicalValueType s (CurrentDemandReq_EVMaximumPowerLimit v)) s)
        else if CurrentDemandReq_BulkChargingComplete_isUsed v then
          goto 153 x (encode_simple 2 1 (\<lambda>s. encodeBoolean s (CurrentDemandReq_BulkChargingComplete v)) s)
        else goto 154 x (encode_simple 2 2 (\<lambda>s. encodeBoolean s (CurrentDemandReq_ChargingComplete v)) s)
      else if grammarID = 152 then
        if CurrentDemandReq_BulkChargingComplete_isUsed v then
          goto 153 x (encode_simple 2 0 (\<lambda>s. encodeBoolean s (CurrentDemandReq_BulkChargingComplete v)) s)
        else goto 154 x (encode_simple 2 1 (\<lambda>s. encodeBoolean s (CurrentDemandReq_ChargingComplete v)) s)
      else if grammarID = 153 then
        goto 154 x (encode_simple 1 0 (\<lambda>s. encodeBoolean s (CurrentDemandReq_ChargingComplete v)) s)
      else if grammarID = 154 then
        if CurrentDemandReq_RemainingTimeToFullSoC_isUsed v then
          goto 155 x (encode_child 2 0
            (\<lambda>s. encode_dinPhysicalValueType s (CurrentDemandReq_RemainingTimeToFullSoC v)) s)
        else if CurrentDemandReq_RemainingTimeToBulkSoC_isUsed v then
          goto 156 x (encode_child 2 1
            (\<lambda>s. encode_dinPhysicalValueType s (CurrentDemandReq_RemainingTimeToBulkSoC v)) s)
        else goto 4 x (encode_child 2 2 (\<lambda>s. encode_dinPhysicalValueType s (CurrentDemandReq_EVTargetVoltage v)) s)
      else if grammarID = 155 then
        if CurrentDemandReq_RemainingTimeToBulkSoC_isUsed v then
          goto 156 x (encode_child 2 0
            (\<lambda>s. encode_dinPhysicalValueType s (CurrentDemandReq_RemainingTimeToBulkSoC v)) s)
        else goto 4 x (encode_child 2 1 (\<lambda>s. encode_dinPhysicalValueType s (CurrentDemandReq_EVTargetVoltage v)) s)
      else if grammarID = 156 then
        goto 4 x (encode_child 1 0 (\<lambda>s. encode_dinPhysicalValueType s (CurrentDemandReq_EVTargetVoltage v)) s)
      else CurrentDemandReq_enc_step_3 v grammarID x s)"

definition CurrentDemandReq_enc_step :: "dinCurrentDemandReqType \<Rightarrow> unit machine" where
  "CurrentDemandReq_enc_step v grammarID x s =
     (if grammarID = 147 then
        goto 148 x (encode_child 1 0 (\<lambda>s. encode_dinDC_EVStatusType s (CurrentDemandReq_DC_EVStatus v)) s)
      else if grammarID = 148 then
        goto 149 x (encode_child 1 0
          (\<lambda>s. encode_dinPhysicalValueType s (CurrentDemandReq_EVTargetCurrent v)) s)
      else if grammarID = 149 then
        if CurrentDemandReq_EVMaximumVoltageLimit_isUsed v then
          goto 150 x (encode_child 3 0
            (\<lambda>s. encode_dinPhysicalValueType s (CurrentDemandReq_EVMaximumVoltageLimit v)) s)
        else if CurrentDemandReq_EVMaximumCurrentLimit_isUsed v then
          goto 151 x (encode_child 3 1
            (\<lambda>s. encode_dinPhysicalValueType s (CurrentDemandReq_EVMaximumCurrentLimit v)) s)
        else if CurrentDemandReq_EVMaximumPowerLimit_isUsed v then
          goto 152 x (encode_child 3 2
            (\<lambda>s. encode_dinPhysicalValueType s (CurrentDemandReq_EVMaximumPowerLimit v)) s)
        else if CurrentDemandReq_BulkChargingComplete_isUsed v then
          goto 153 x (encode_simple 3 3 (\<lambda>s. encodeBoolean s (CurrentDemandReq_BulkChargingComplete v)) s)
        else goto 154 x (encode_simple 3 4 (\<lambda>s. encodeBoolean s (CurrentDemandReq_ChargingComplete v)) s)
      else if grammarID = 150 then
        if CurrentDemandReq_EVMaximumCurrentLimit_isUsed v then
          goto 151 x (encode_child 3 0
            (\<lambda>s. encode_dinPhysicalValueType s (CurrentDemandReq_EVMaximumCurrentLimit v)) s)
        else if CurrentDemandReq_EVMaximumPowerLimit_isUsed v then
          goto 152 x (encode_child 3 1
            (\<lambda>s. encode_dinPhysicalValueType s (CurrentDemandReq_EVMaximumPowerLimit v)) s)
        else if CurrentDemandReq_BulkChargingComplete_isUsed v then
          goto 153 x (encode_simple 3 2 (\<lambda>s. encodeBoolean s (CurrentDemandReq_BulkChargingComplete v)) s)
        else goto 154 x (encode_simple 3 3 (\<lambda>s. encodeBoolean s (CurrentDemandReq_ChargingComplete v)) s)
      else CurrentDemandReq_enc_step_2 v grammarID x s)"

definition encode_dinCurrentDemandReqType
    :: "bitstream \<Rightarrow> dinCurrentDemandReqType \<Rightarrow> (errn \<times> bitstream) option" where
  "encode_dinCurrentDemandReqType s v = run_encoder (CurrentDemandReq_enc_step v) 147 () s"

definition CurrentDemandReq_dec_step_4
    :: "u32 \<Rightarrow> (dec_static \<times> dinCurrentDemandReqType) machine" where
  "CurrentDemandReq_dec_step_4 j grammarID x s =
     (if grammarID = 4 then
        decode_switch 1
         [(0, decode_end 5)] 4 x s
      else Some (EXI_ERROR_UNKOWN_GRAMMAR_ID, (False, grammarID, x), s))"

definition CurrentDemandReq_dec_step_3
    :: "u32 \<Rightarrow> (dec_static \<times> dinCurrentDemandReqType) machine" where
  "CurrentDemandReq_dec_step_3 j grammarID x s =
     (if grammarID = 152 then
        decode_switch 2
         [(0, decode_simple 152 153
            (decode_used (\<lambda>a. a\<lparr>CurrentDemandReq_BulkChargingComplete_isUsed := True\<rparr>)
              (decode_bool_field j (\<lambda>u a. a\<lparr>CurrentDemandReq_BulkChargingComplete := u\<rparr>)))),
          (1, decode_simple 152 154
             (decode_bool_field j (\<lambda>u a. a\<lparr>CurrentDemandReq_ChargingComplete := u\<rparr>)))] 152 x s
      else if grammarID = 153 then
        decode_switch 1
         [(0, decode_simple 153 154
            (decode_bool_field j (\<lambda>u a. a\<lparr>CurrentDemandReq_ChargingComplete := u\<rparr>)))] 153 x s
      else if grammarID = 154 then
        decode_switch 2
         [(0, decode_child 155
            (decode_used (\<lambda>a. a\<lparr>CurrentDemandReq_RemainingTimeToFullSoC_isUsed := True\<rparr>)
              (decode_sub (decode_dinPhysicalValueType j) CurrentDemandReq_RemainingTimeToFullSoC
                (\<lambda>u a. a\<lparr>CurrentDemandReq_RemainingTimeToFullSoC := u\<rparr>)))),
          (1, decode_child 156
             (decode_used (\<lambda>a. a\<lparr>CurrentDemandReq_RemainingTimeToBulkSoC_isUsed := True\<rparr>)
               (decode_sub (decode_dinPhysicalValueType j) CurrentDemandReq_RemainingTimeToBulkSoC
                 (\<lambda>u a. a\<lparr>CurrentDemandReq_RemainingTimeToBulkSoC := u\<rparr>)))),
          (2, decode_child 4
             (decode_sub (decode_dinPhysicalValueType j) CurrentDemandReq_EVTargetVoltage
               (\<lambda>u a. a\<lparr>CurrentDemandReq_EVTargetVoltage := u\<rparr>)))] 154 x s
      else if grammarID = 155 then
        decode_switch 2
         [(0, decode_child 156
            (decode_used (\<lambda>a. a\<lparr>CurrentDemandReq_RemainingTimeToBulkSoC_isUsed := True\<rparr>)
              (decode_sub (decode_dinPhysicalValueType j) CurrentDemandReq_RemainingTimeToBulkSoC
                (\<lambda>u a. a\<lparr>CurrentDemandReq_RemainingTimeToBulkSoC := u\<rparr>)))),
          (1, decode_child 4
             (decode_sub (decode_dinPhysicalValueType j) CurrentDemandReq_EVTargetVoltage
               (\<lambda>u a. a\<lparr>CurrentDemandReq_EVTargetVoltage := u\<rparr>)))] 155 x s
      else if grammarID = 156 then
        decode_switch 1
         [(0, decode_child 4
            (decode_sub (decode_dinPhysicalValueType j) CurrentDemandReq_EVTargetVoltage
              (\<lambda>u a. a\<lparr>CurrentDemandReq_EVTargetVoltage := u\<rparr>)))] 156 x s
      else CurrentDemandReq_dec_step_4 j grammarID x s)"

definition CurrentDemandReq_dec_step_2
    :: "u32 \<Rightarrow> (dec_static \<times> dinCurrentDemandReqType) machine" where
  "CurrentDemandReq_dec_step_2 j grammarID x s =
     (if grammarID = 150 then
        decode_switch 3
         [(0, decode_child 151
            (decode_used (\<lambda>a. a\<lparr>CurrentDemandReq_EVMaximumCurrentLimit_isUsed := True\<rparr>)
              (decode_sub (decode_dinPhysicalValueType j) CurrentDemandReq_EVMaximumCurrentLimit
                (\<lambda>u a. a\<lparr>CurrentDemandReq_EVMaximumCurrentLimit := u\<rparr>)))),
          (1, decode_child 152
             (decode_used (\<lambda>a. a\<lparr>CurrentDemandReq_EVMaximumPowerLimit_isUsed := True\<rparr>)
               (decode_sub (decode_dinPhysicalValueType j) CurrentDemandReq_EVMaximumPowerLimit
                 (\<lambda>u a. a\<lparr>CurrentDemandReq_EVMaximumPowerLimit := u\<rparr>)))),
          (2, decode_simple 150 153
             (decode_used (\<lambda>a. a\<lparr>CurrentDemandReq_BulkChargingComplete_isUsed := True\<rparr>)
               (decode_bool_field j (\<lambda>u a. a\<lparr>CurrentDemandReq_BulkChargingComplete := u\<rparr>)))),
          (3, decode_simple 150 154
             (decode_bool_field j (\<lambda>u a. a\<lparr>CurrentDemandReq_ChargingComplete := u\<rparr>)))] 150 x s
      else if grammarID = 151 then
        decode_switch 2
         [(0, decode_child 152
            (decode_used (\<lambda>a. a\<lparr>CurrentDemandReq_EVMaximumPowerLimit_isUsed := True\<rparr>)
              (decode_sub (decode_dinPhysicalValueType j) CurrentDemandReq_EVMaximumPowerLimit
                (\<lambda>u a. a\<lparr>CurrentDemandReq_EVMaximumPowerLimit := u\<rparr>)))),
          (1, decode_simple 151 153
             (decode_used (\<lambda>a. a\<lparr>CurrentDemandReq_BulkChargingComplete_isUsed := True\<rparr>)
               (decode_bool_field j (\<lambda>u a. a\<lparr>CurrentDemandReq_BulkChargingComplete := u\<rparr>)))),
          (2, decode_simple 151 154
             (decode_bool_field j (\<lambda>u a. a\<lparr>CurrentDemandReq_ChargingComplete := u\<rparr>)))] 151 x s
      else CurrentDemandReq_dec_step_3 j grammarID x s)"

definition CurrentDemandReq_dec_step
    :: "u32 \<Rightarrow> (dec_static \<times> dinCurrentDemandReqType) machine" where
  "CurrentDemandReq_dec_step j grammarID x s =
     (if grammarID = 147 then
        decode_switch 1
         [(0, decode_child 148
            (decode_sub (decode_dinDC_EVStatusType j) CurrentDemandReq_DC_EVStatus
              (\<lambda>u a. a\<lparr>CurrentDemandReq_DC_EVStatus := u\<rparr>)))] 147 x s
      else if grammarID = 148 then
        decode_switch 1
         [(0, decode_child 149
            (decode_sub (decode_dinPhysicalValueType j) CurrentDemandReq_EVTargetCurrent
              (\<lambda>u a. a\<lparr>CurrentDemandReq_EVTargetCurrent := u\<rparr>)))] 148 x s
      else if grammarID = 149 then
        decode_switch 3
         [(0, decode_child 150
            (decode_used (\<lambda>a. a\<lparr>CurrentDemandReq_EVMaximumVoltageLimit_isUsed := True\<rparr>)
              (decode_sub (decode_dinPhysicalValueType j) CurrentDemandReq_EVMaximumVoltageLimit
                (\<lambda>u a. a\<lparr>CurrentDemandReq_EVMaximumVoltageLimit := u\<rparr>)))),
          (1, decode_child 151
             (decode_used (\<lambda>a. a\<lparr>CurrentDemandReq_EVMaximumCurrentLimit_isUsed := True\<rparr>)
               (decode_sub (decode_dinPhysicalValueType j) CurrentDemandReq_EVMaximumCurrentLimit
                 (\<lambda>u a. a\<lparr>CurrentDemandReq_EVMaximumCurrentLimit := u\<rparr>)))),
          (2, decode_child 152
             (decode_used (\<lambda>a. a\<lparr>CurrentDemandReq_EVMaximumPowerLimit_isUsed := True\<rparr>)
               (decode_sub (decode_dinPhysicalValueType j) CurrentDemandReq_EVMaximumPowerLimit
                 (\<lambda>u a. a\<lparr>CurrentDemandReq_EVMaximumPowerLimit := u\<rparr>)))),
          (3, decode_simple 149 153
             (decode_used (\<lambda>a. a\<lparr>CurrentDemandReq_BulkChargingComplete_isUsed := True\<rparr>)
               (decode_bool_field j (\<lambda>u a. a\<lparr>CurrentDemandReq_BulkChargingComplete := u\<rparr>)))),
          (4, decode_simple 149 154
             (decode_bool_field j (\<lambda>u a. a\<lparr>CurrentDemandReq_ChargingComplete := u\<rparr>)))] 149 x s
      else CurrentDemandReq_dec_step_2 j grammarID x s)"

definition decode_dinCurrentDemandReqType :: "u32 \<Rightarrow> dinCurrentDemandReqType decoder" where
  "decode_dinCurrentDemandReqType j x s
      = grammar_loop (CurrentDemandReq_dec_step j) 147 (fst x, init_dinCurrentDemandReqType (snd x)) s"

definition CurrentDemandReq_ok :: "dinCurrentDemandReqType \<Rightarrow> bool" where
  "CurrentDemandReq_ok v \<longleftrightarrow>
     DC_EVStatus_ok (CurrentDemandReq_DC_EVStatus v) \<and>
     PhysicalValue_ok (CurrentDemandReq_EVTargetCurrent v) \<and>
     (CurrentDemandReq_EVMaximumVoltageLimit_isUsed v \<longrightarrow>
       PhysicalValue_ok (CurrentDemandReq_EVMaximumVoltageLimit v)) \<and>
     (CurrentDemandReq_EVMaximumCurrentLimit_isUsed v \<longrightarrow>
       PhysicalValue_ok (CurrentDemandReq_EVMaximumCurrentLimit v)) \<and>
     (CurrentDemandReq_EVMaximumPowerLimit_isUsed v \<longrightarrow>
       PhysicalValue_ok (CurrentDemandReq_EVMaximumPowerLimit v)) \<and>
     (CurrentDemandReq_RemainingTimeToFullSoC_isUsed v \<longrightarrow>
       PhysicalValue_ok (CurrentDemandReq_RemainingTimeToFullSoC v)) \<and>
     (CurrentDemandReq_RemainingTimeToBulkSoC_isUsed v \<longrightarrow>
       PhysicalValue_ok (CurrentDemandReq_RemainingTimeToBulkSoC v)) \<and>
     PhysicalValue_ok (CurrentDemandReq_EVTargetVoltage v)"

definition same_CurrentDemandReq
    :: "dinCurrentDemandReqType \<Rightarrow> dinCurrentDemandReqType \<Rightarrow> bool" where
  "same_CurrentDemandReq v a \<longleftrightarrow>
     same_DC_EVStatus (CurrentDemandReq_DC_EVStatus v) (CurrentDemandReq_DC_EVStatus a) \<and>
     same_PhysicalValue (CurrentDemandReq_EVTargetCurrent v) (CurrentDemandReq_EVTargetCurrent a) \<and>
     CurrentDemandReq_EVMaximumVoltageLimit_isUsed a = CurrentDemandReq_EVMaximumVoltageLimit_isUsed v \<and>
       (CurrentDemandReq_EVMaximumVoltageLimit_isUsed v \<longrightarrow>
         same_PhysicalValue (CurrentDemandReq_EVMaximumVoltageLimit v) (CurrentDemandReq_EVMaximumVoltageLimit a)) \<and>
     CurrentDemandReq_EVMaximumCurrentLimit_isUsed a = CurrentDemandReq_EVMaximumCurrentLimit_isUsed v \<and>
       (CurrentDemandReq_EVMaximumCurrentLimit_isUsed v \<longrightarrow>
         same_PhysicalValue (CurrentDemandReq_EVMaximumCurrentLimit v) (CurrentDemandReq_EVMaximumCurrentLimit a)) \<and>
     CurrentDemandReq_EVMaximumPowerLimit_isUsed a = CurrentDemandReq_EVMaximumPowerLimit_isUsed v \<and>
       (CurrentDemandReq_EVMaximumPowerLimit_isUsed v \<longrightarrow>
         same_PhysicalValue (CurrentDemandReq_EVMaximumPowerLimit v) (CurrentDemandReq_EVMaximumPowerLimit a)) \<and>
     CurrentDemandReq_BulkChargingComplete_isUsed a = CurrentDemandReq_BulkChargingComplete_isUsed v \<and>
       (CurrentDemandReq_BulkChargingComplete_isUsed v \<longrightarrow>
         (CurrentDemandReq_BulkChargingComplete a \<noteq> 0)
           = (CurrentDemandReq_BulkChargingComplete v \<noteq> 0)) \<and>
     (CurrentDemandReq_ChargingComplete a \<noteq> 0) = (CurrentDemandReq_ChargingComplete v \<noteq> 0) \<and>
     CurrentDemandReq_RemainingTimeToFullSoC_isUsed a = CurrentDemandReq_RemainingTimeToFullSoC_isUsed v \<and>
       (CurrentDemandReq_RemainingTimeToFullSoC_isUsed v \<longrightarrow>
         same_PhysicalValue (CurrentDemandReq_RemainingTimeToFullSoC v) (CurrentDemandReq_RemainingTimeToFullSoC a)) \<and>
     CurrentDemandReq_RemainingTimeToBulkSoC_isUsed a = CurrentDemandReq_RemainingTimeToBulkSoC_isUsed v \<and>
       (CurrentDemandReq_RemainingTimeToBulkSoC_isUsed v \<longrightarrow>
         same_PhysicalValue (CurrentDemandReq_RemainingTimeToBulkSoC v) (CurrentDemandReq_RemainingTimeToBulkSoC a)) \<and>
     same_PhysicalValue (CurrentDemandReq_EVTargetVoltage v) (CurrentDemandReq_EVTargetVoltage a)"

definition CurrentDemandReq_at
    :: "dinCurrentDemandReqType \<Rightarrow> nat \<Rightarrow> dinCurrentDemandReqType \<Rightarrow> bool" where
  "CurrentDemandReq_at v g a \<longleftrightarrow>
     CurrentDemandReq_ok v \<and>
     g \<in> {147, 148, 149, 150, 151, 152, 153, 154, 155, 156, 4} \<and>
     (g \<notin> {147} \<longrightarrow>
       same_DC_EVStatus (CurrentDemandReq_DC_EVStatus v) (CurrentDemandReq_DC_EVStatus a)) \<and>
     (g \<notin> {147, 148} \<longrightarrow>
       same_PhysicalValue (CurrentDemandReq_EVTargetCurrent v) (CurrentDemandReq_EVTargetCurrent a)) \<and>
     (if g \<in> {147, 148, 149} then \<not> CurrentDemandReq_EVMaximumVoltageLimit_isUsed a
      else CurrentDemandReq_EVMaximumVoltageLimit_isUsed a = CurrentDemandReq_EVMaximumVoltageLimit_isUsed v \<and>
        (CurrentDemandReq_EVMaximumVoltageLimit_isUsed v \<longrightarrow>
          same_PhysicalValue (CurrentDemandReq_EVMaximumVoltageLimit v) (CurrentDemandReq_EVMaximumVoltageLimit a))) \<and>
     (if g \<in> {147, 148, 149, 150} then \<not> CurrentDemandReq_EVMaximumCurrentLimit_isUsed a
      else CurrentDemandReq_EVMaximumCurrentLimit_isUsed a = CurrentDemandReq_EVMaximumCurrentLimit_isUsed v \<and>
        (CurrentDemandReq_EVMaximumCurrentLimit_isUsed v \<longrightarrow>
          same_PhysicalValue (CurrentDemandReq_EVMaximumCurrentLimit v) (CurrentDemandReq_EVMaximumCurrentLimit a))) \<and>
     (if g \<in> {147, 148, 149, 150, 151} then \<not> CurrentDemandReq_EVMaximumPowerLimit_isUsed a
      else CurrentDemandReq_EVMaximumPowerLimit_isUsed a = CurrentDemandReq_EVMaximumPowerLimit_isUsed v \<and>
        (CurrentDemandReq_EVMaximumPowerLimit_isUsed v \<longrightarrow>
          same_PhysicalValue (CurrentDemandReq_EVMaximumPowerLimit v) (CurrentDemandReq_EVMaximumPowerLimit a))) \<and>
     (if g \<in> {147, 148, 149, 150, 151, 152} then \<not> CurrentDemandReq_BulkChargingComplete_isUsed a
      else CurrentDemandReq_BulkChargingComplete_isUsed a = CurrentDemandReq_BulkChargingComplete_isUsed v \<and>
        (CurrentDemandReq_BulkChargingComplete_isUsed v \<longrightarrow>
          (CurrentDemandReq_BulkChargingComplete a \<noteq> 0)
            = (CurrentDemandReq_BulkChargingComplete v \<noteq> 0))) \<and>
     (g \<notin> {147, 148, 149, 150, 151, 152, 153} \<longrightarrow>
       (CurrentDemandReq_ChargingComplete a \<noteq> 0) = (CurrentDemandReq_ChargingComplete v \<noteq> 0)) \<and>
     (if g \<in> {147, 148, 149, 150, 151, 152, 153, 154} then \<not> CurrentDemandReq_RemainingTimeToFullSoC_isUsed a
      else CurrentDemandReq_RemainingTimeToFullSoC_isUsed a = CurrentDemandReq_RemainingTimeToFullSoC_isUsed v \<and>
        (CurrentDemandReq_RemainingTimeToFullSoC_isUsed v \<longrightarrow>
          same_PhysicalValue (CurrentDemandReq_RemainingTimeToFullSoC v) (CurrentDemandReq_RemainingTimeToFullSoC a))) \<and>
     (if g \<in> {147, 148, 149, 150, 151, 152, 153, 154,
       155} then \<not> CurrentDemandReq_RemainingTimeToBulkSoC_isUsed a
      else CurrentDemandReq_RemainingTimeToBulkSoC_isUsed a = CurrentDemandReq_RemainingTimeToBulkSoC_isUsed v \<and>
        (CurrentDemandReq_RemainingTimeToBulkSoC_isUsed v \<longrightarrow>
          same_PhysicalValue (CurrentDemandReq_RemainingTimeToBulkSoC v) (CurrentDemandReq_RemainingTimeToBulkSoC a))) \<and>
     (g \<notin> {147, 148, 149, 150, 151, 152, 153, 154, 155, 156} \<longrightarrow>
       same_PhysicalValue (CurrentDemandReq_EVTargetVoltage v) (CurrentDemandReq_EVTargetVoltage a))"

lemmas CurrentDemandReq_steps
    = CurrentDemandReq_enc_step_def CurrentDemandReq_enc_step_2_def CurrentDemandReq_enc_step_3_def
  CurrentDemandReq_dec_step_def CurrentDemandReq_dec_step_2_def CurrentDemandReq_dec_step_3_def CurrentDemandReq_dec_step_4_def

lemmas CurrentDemandReq_props = CurrentDemandReq_at_def CurrentDemandReq_ok_def same_CurrentDemandReq_def left_at_def

interpretation CurrentDemandReq: paired_machines "CurrentDemandReq_enc_step v" "CurrentDemandReq_dec_step j"
    "CurrentDemandReq_at v"
  "left_at [(147, 358), (148, 325), (149, 281), (150, 235), (151, 189), (152, 144), (153, 139), (154, 135), (155,
      90), (156, 45), (4, 1)]" "same_CurrentDemandReq v" for v j
proof
  fix g a assume at: "CurrentDemandReq_at v g a"
  then have "g \<in> {147, 148, 149, 150, 151, 152, 153, 154, 155, 156, 4}" by (simp add: CurrentDemandReq_at_def)
  then have "g = 147 \<or>
      g = 148 \<or>
      (g = 149 \<and> CurrentDemandReq_EVMaximumVoltageLimit_isUsed v) \<or>
      (g = 149 \<and> \<not> CurrentDemandReq_EVMaximumVoltageLimit_isUsed v \<and>
        CurrentDemandReq_EVMaximumCurrentLimit_isUsed v) \<or>
      (g = 149 \<and> \<not> CurrentDemandReq_EVMaximumVoltageLimit_isUsed v \<and>
        \<not> CurrentDemandReq_EVMaximumCurrentLimit_isUsed v \<and>
          CurrentDemandReq_EVMaximumPowerLimit_isUsed v) \<or>
      (g = 149 \<and> \<not> CurrentDemandReq_EVMaximumVoltageLimit_isUsed v \<and>
        \<not> CurrentDemandReq_EVMaximumCurrentLimit_isUsed v \<and>
          \<not> CurrentDemandReq_EVMaximumPowerLimit_isUsed v \<and>
            CurrentDemandReq_BulkChargingComplete_isUsed v) \<or>
      (g = 149 \<and> \<not> CurrentDemandReq_EVMaximumVoltageLimit_isUsed v \<and>
        \<not> CurrentDemandReq_EVMaximumCurrentLimit_isUsed v \<and>
          \<not> CurrentDemandReq_EVMaximumPowerLimit_isUsed v \<and>
            \<not> CurrentDemandReq_BulkChargingComplete_isUsed v) \<or>
      (g = 150 \<and> CurrentDemandReq_EVMaximumCurrentLimit_isUsed v) \<or>
      (g = 150 \<and> \<not> CurrentDemandReq_EVMaximumCurrentLimit_isUsed v \<and>
        CurrentDemandReq_EVMaximumPowerLimit_isUsed v) \<or>
      (g = 150 \<and> \<not> CurrentDemandReq_EVMaximumCurrentLimit_isUsed v \<and>
        \<not> CurrentDemandReq_EVMaximumPowerLimit_isUsed v \<and>
          CurrentDemandReq_BulkChargingComplete_isUsed v) \<or>
      (g = 150 \<and> \<not> CurrentDemandReq_EVMaximumCurrentLimit_isUsed v \<and>
        \<not> CurrentDemandReq_EVMaximumPowerLimit_isUsed v \<and>
          \<not> CurrentDemandReq_BulkChargingComplete_isUsed v) \<or>
      (g = 151 \<and> CurrentDemandReq_EVMaximumPowerLimit_isUsed v) \<or>
      (g = 151 \<and> \<not> CurrentDemandReq_EVMaximumPowerLimit_isUsed v \<and>
        CurrentDemandReq_BulkChargingComplete_isUsed v) \<or>
      (g = 151 \<and> \<not> CurrentDemandReq_EVMaximumPowerLimit_isUsed v \<and>
        \<not> CurrentDemandReq_BulkChargingComplete_isUsed v) \<or>
      (g = 152 \<and> CurrentDemandReq_BulkChargingComplete_isUsed v) \<or>
      (g = 152 \<and> \<not> CurrentDemandReq_BulkChargingComplete_isUsed v) \<or>
      g = 153 \<or>
      (g = 154 \<and> CurrentDemandReq_RemainingTimeToFullSoC_isUsed v) \<or>
      (g = 154 \<and> \<not> CurrentDemandReq_RemainingTimeToFullSoC_isUsed v \<and>
        CurrentDemandReq_RemainingTimeToBulkSoC_isUsed v) \<or>
      (g = 154 \<and> \<not> CurrentDemandReq_RemainingTimeToFullSoC_isUsed v \<and>
        \<not> CurrentDemandReq_RemainingTimeToBulkSoC_isUsed v) \<or>
      (g = 155 \<and> CurrentDemandReq_RemainingTimeToBulkSoC_isUsed v) \<or>
      (g = 155 \<and> \<not> CurrentDemandReq_RemainingTimeToBulkSoC_isUsed v) \<or>
      g = 156 \<or>
      g = 4"
    by (elim insertE emptyE) auto
  then show "hops (CurrentDemandReq_enc_step v) (CurrentDemandReq_dec_step j) (CurrentDemandReq_at v)
    (left_at [(147, 358), (148, 325), (149, 281), (150, 235), (151, 189), (152, 144), (153, 139), (154, 135), (155,
      90), (156, 45), (4, 1)]) (same_CurrentDemandReq v) g a" using at
    by (elim disjE conjE)
      (rule hops_intros, simp add: CurrentDemandReq_steps, simp add: CurrentDemandReq_steps, simp,
        ((rule reads_intros)+)?,
        (clarsimp simp: CurrentDemandReq_props; fail)+)+
qed

lemma reads_CurrentDemandReq [reads_intros]:
  "CurrentDemandReq_ok v \<Longrightarrow>
      reads 358 (\<lambda>s. encode_dinCurrentDemandReqType s v) (decode_dinCurrentDemandReqType j) a (same_CurrentDemandReq v)"
  unfolding encode_dinCurrentDemandReqType_def decode_dinCurrentDemandReqType_def [abs_def]
  by (rule reads_start [OF CurrentDemandReq.machine_reads, of _ 147,
      THEN reads_mono]) (auto simp: CurrentDemandReq_at_def init_dinCurrentDemandReqType_def left_at_def)

interpretation CurrentDemandReq_enc: advancing_machine "CurrentDemandReq_enc_step v"
    "left_at [(147, 11), (148, 10), (149, 9), (150, 8), (151, 7), (152, 6), (153, 5), (154, 4), (155, 3), (156, 2),
      (4, 1)]" for v
  by unfold_locales (auto simp: CurrentDemandReq_steps dest!: advance_dests split: if_splits;
      simp add: left_at_def)

interpretation CurrentDemandReq_dec: advancing_machine "CurrentDemandReq_dec_step j"
    "left_at [(147, 11), (148, 10), (149, 9), (150, 8), (151, 7), (152, 6), (153, 5), (154, 4), (155, 3), (156, 2),
      (4, 1)]" for j
  by unfold_locales (auto simp: CurrentDemandReq_steps dest!: advance_dests elim!: decode_switch_next split: if_splits;
      simp add: left_at_def)

subsection \<open>\<open>dinCurrentDemandResType\<close>\<close>

record dinCurrentDemandResType =
  CurrentDemandRes_ResponseCode :: u32
  CurrentDemandRes_DC_EVSEStatus :: dinDC_EVSEStatusType
  CurrentDemandRes_EVSEPresentVoltage :: dinPhysicalValueType
  CurrentDemandRes_EVSEPresentCurrent :: dinPhysicalValueType
  CurrentDemandRes_EVSECurrentLimitAchieved :: int
  CurrentDemandRes_EVSEVoltageLimitAchieved :: int
  CurrentDemandRes_EVSEPowerLimitAchieved :: int
  CurrentDemandRes_EVSEMaximumVoltageLimit :: dinPhysicalValueType
  CurrentDemandRes_EVSEMaximumVoltageLimit_isUsed :: bool
  CurrentDemandRes_EVSEMaximumCurrentLimit :: dinPhysicalValueType
  CurrentDemandRes_EVSEMaximumCurrentLimit_isUsed :: bool
  CurrentDemandRes_EVSEMaximumPowerLimit :: dinPhysicalValueType
  CurrentDemandRes_EVSEMaximumPowerLimit_isUsed :: bool

definition init_dinCurrentDemandResType :: "dinCurrentDemandResType \<Rightarrow> dinCurrentDemandResType" where
  "init_dinCurrentDemandResType a
      = a\<lparr>CurrentDemandRes_EVSEMaximumVoltageLimit_isUsed := False,
        CurrentDemandRes_EVSEMaximumCurrentLimit_isUsed := False,
          CurrentDemandRes_EVSEMaximumPowerLimit_isUsed := False\<rparr>"

definition CurrentDemandRes_enc_step_2 :: "dinCurrentDemandResType \<Rightarrow> unit machine" where
  "CurrentDemandRes_enc_step_2 v grammarID x s =
     (if grammarID = 36 then
        if CurrentDemandRes_EVSEMaximumCurrentLimit_isUsed v then
          goto 37 x (encode_child 2 0
            (\<lambda>s. encode_dinPhysicalValueType s (CurrentDemandRes_EVSEMaximumCurrentLimit v)) s)
        else if CurrentDemandRes_EVSEMaximumPowerLimit_isUsed v then
          goto 4 x (encode_child 2 1
            (\<lambda>s. encode_dinPhysicalValueType s (CurrentDemandRes_EVSEMaximumPowerLimit v)) s)
        else finish 5 x (encodeNBitUnsignedInteger s 2 2)
      else if grammarID = 37 then
        if CurrentDemandRes_EVSEMaximumPowerLimit_isUsed v then
          goto 4 x (encode_child 2 0
            (\<lambda>s. encode_dinPhysicalValueType s (CurrentDemandRes_EVSEMaximumPowerLimit v)) s)
        else finish 5 x (encodeNBitUnsignedInteger s 2 1)
      else if grammarID = 4 then
        finish 5 x (encodeNBitUnsignedInteger s 1 0)
      else Some (EXI_ERROR_UNKOWN_GRAMMAR_ID, (False, grammarID, x), s))"

definition CurrentDemandRes_enc_step :: "dinCurrentDemandResType \<Rightarrow> unit machine" where
  "CurrentDemandRes_enc_step v grammarID x s =
     (if grammarID = 28 then
        goto 29 x (encode_simple 1 0 (\<lambda>s. encodeNBitUnsignedInteger s 5 (CurrentDemandRes_ResponseCode v)) s)
      else if grammarID = 29 then
        goto 30 x (encode_child 1 0 (\<lambda>s. encode_dinDC_EVSEStatusType s (CurrentDemandRes_DC_EVSEStatus v)) s)
      else if grammarID = 30 then
        goto 31 x (encode_child 1 0
          (\<lambda>s. encode_dinPhysicalValueType s (CurrentDemandRes_EVSEPresentVoltage v)) s)
      else if grammarID = 31 then
        goto 32 x (encode_child 1 0
          (\<lambda>s. encode_dinPhysicalValueType s (CurrentDemandRes_EVSEPresentCurrent v)) s)
      else if grammarID = 32 then
        goto 33 x (encode_simple 1 0 (\<lambda>s. encodeBoolean s (CurrentDemandRes_EVSECurrentLimitAchieved v)) s)
      else if grammarID = 33 then
        goto 34 x (encode_simple 1 0 (\<lambda>s. encodeBoolean s (CurrentDemandRes_EVSEVoltageLimitAchieved v)) s)
      else if grammarID = 34 then
        goto 35 x (encode_simple 1 0 (\<lambda>s. encodeBoolean s (CurrentDemandRes_EVSEPowerLimitAchieved v)) s)
      else if grammarID = 35 then
        if CurrentDemandRes_EVSEMaximumVoltageLimit_isUsed v then
          goto 36 x (encode_child 3 0
            (\<lambda>s. encode_dinPhysicalValueType s (CurrentDemandRes_EVSEMaximumVoltageLimit v)) s)
        else if CurrentDemandRes_EVSEMaximumCurrentLimit_isUsed v then
          goto 37 x (encode_child 3 1
            (\<lambda>s. encode_dinPhysicalValueType s (CurrentDemandRes_EVSEMaximumCurrentLimit v)) s)
        else if CurrentDemandRes_EVSEMaximumPowerLimit_isUsed v then
          goto 4 x (encode_child 3 2
            (\<lambda>s. encode_dinPhysicalValueType s (CurrentDemandRes_EVSEMaximumPowerLimit v)) s)
        else finish 5 x (encodeNBitUnsignedInteger s 3 3)
      else CurrentDemandRes_enc_step_2 v grammarID x s)"

definition encode_dinCurrentDemandResType
    :: "bitstream \<Rightarrow> dinCurrentDemandResType \<Rightarrow> (errn \<times> bitstream) option" where
  "encode_dinCurrentDemandResType s v = run_encoder (CurrentDemandRes_enc_step v) 28 () s"

definition CurrentDemandRes_dec_step_2
    :: "u32 \<Rightarrow> (dec_static \<times> dinCurrentDemandResType) machine" where
  "CurrentDemandRes_dec_step_2 j grammarID x s =
     (if grammarID = 34 then
        decode_switch 1
         [(0, decode_simple 34 35
            (decode_bool_field j (\<lambda>u a. a\<lparr>CurrentDemandRes_EVSEPowerLimitAchieved := u\<rparr>)))] 34 x s
      else if grammarID = 35 then
        decode_switch 3
         [(0, decode_child 36
            (decode_used (\<lambda>a. a\<lparr>CurrentDemandRes_EVSEMaximumVoltageLimit_isUsed := True\<rparr>)
              (decode_sub (decode_dinPhysicalValueType j) CurrentDemandRes_EVSEMaximumVoltageLimit
                (\<lambda>u a. a\<lparr>CurrentDemandRes_EVSEMaximumVoltageLimit := u\<rparr>)))),
          (1, decode_child 37
             (decode_used (\<lambda>a. a\<lparr>CurrentDemandRes_EVSEMaximumCurrentLimit_isUsed := True\<rparr>)
               (decode_sub (decode_dinPhysicalValueType j) CurrentDemandRes_EVSEMaximumCurrentLimit
                 (\<lambda>u a. a\<lparr>CurrentDemandRes_EVSEMaximumCurrentLimit := u\<rparr>)))),
          (2, decode_child 4
             (decode_used (\<lambda>a. a\<lparr>CurrentDemandRes_EVSEMaximumPowerLimit_isUsed := True\<rparr>)
               (decode_sub (decode_dinPhysicalValueType j) CurrentDemandRes_EVSEMaximumPowerLimit
                 (\<lambda>u a. a\<lparr>CurrentDemandRes_EVSEMaximumPowerLimit := u\<rparr>)))),
          (3, decode_end 5)] 35 x s
      else if grammarID = 36 then
        decode_switch 2
         [(0, decode_child 37
            (decode_used (\<lambda>a. a\<lparr>CurrentDemandRes_EVSEMaximumCurrentLimit_isUsed := True\<rparr>)
              (decode_sub (decode_dinPhysicalValueType j) CurrentDemandRes_EVSEMaximumCurrentLimit
                (\<lambda>u a. a\<lparr>CurrentDemandRes_EVSEMaximumCurrentLimit := u\<rparr>)))),
          (1, decode_child 4
             (decode_used (\<lambda>a. a\<lparr>CurrentDemandRes_EVSEMaximumPowerLimit_isUsed := True\<rparr>)
               (decode_sub (decode_dinPhysicalValueType j) CurrentDemandRes_EVSEMaximumPowerLimit
                 (\<lambda>u a. a\<lparr>CurrentDemandRes_EVSEMaximumPowerLimit := u\<rparr>)))),
          (2, decode_end 5)] 36 x s
      else if grammarID = 37 then
        decode_switch 2
         [(0, decode_child 4
            (decode_used (\<lambda>a. a\<lparr>CurrentDemandRes_EVSEMaximumPowerLimit_isUsed := True\<rparr>)
              (decode_sub (decode_dinPhysicalValueType j) CurrentDemandRes_EVSEMaximumPowerLimit
                (\<lambda>u a. a\<lparr>CurrentDemandRes_EVSEMaximumPowerLimit := u\<rparr>)))),
          (1, decode_end 5)] 37 x s
      else if grammarID = 4 then
        decode_switch 1
         [(0, decode_end 5)] 4 x s
      else Some (EXI_ERROR_UNKOWN_GRAMMAR_ID, (False, grammarID, x), s))"

definition CurrentDemandRes_dec_step
    :: "u32 \<Rightarrow> (dec_static \<times> dinCurrentDemandResType) machine" where
  "CurrentDemandRes_dec_step j grammarID x s =
     (if grammarID = 28 then
        decode_switch 1
         [(0, decode_simple 28 29
            (decode_nbit_field 5 (\<lambda>u a. a\<lparr>CurrentDemandRes_ResponseCode := u\<rparr>)))] 28 x s
      else if grammarID = 29 then
        decode_switch 1
         [(0, decode_child 30
            (decode_sub (decode_dinDC_EVSEStatusType j) CurrentDemandRes_DC_EVSEStatus
              (\<lambda>u a. a\<lparr>CurrentDemandRes_DC_EVSEStatus := u\<rparr>)))] 29 x s
      else if grammarID = 30 then
        decode_switch 1
         [(0, decode_child 31
            (decode_sub (decode_dinPhysicalValueType j) CurrentDemandRes_EVSEPresentVoltage
              (\<lambda>u a. a\<lparr>CurrentDemandRes_EVSEPresentVoltage := u\<rparr>)))] 30 x s
      else if grammarID = 31 then
        decode_switch 1
         [(0, decode_child 32
            (decode_sub (decode_dinPhysicalValueType j) CurrentDemandRes_EVSEPresentCurrent
              (\<lambda>u a. a\<lparr>CurrentDemandRes_EVSEPresentCurrent := u\<rparr>)))] 31 x s
      else if grammarID = 32 then
        decode_switch 1
         [(0, decode_simple 32 33
            (decode_bool_field j (\<lambda>u a. a\<lparr>CurrentDemandRes_EVSECurrentLimitAchieved := u\<rparr>)))] 32 x s
      else if grammarID = 33 then
        decode_switch 1
         [(0, decode_simple 33 34
            (decode_bool_field j (\<lambda>u a. a\<lparr>CurrentDemandRes_EVSEVoltageLimitAchieved := u\<rparr>)))] 33 x s
      else CurrentDemandRes_dec_step_2 j grammarID x s)"

definition decode_dinCurrentDemandResType :: "u32 \<Rightarrow> dinCurrentDemandResType decoder" where
  "decode_dinCurrentDemandResType j x s
      = grammar_loop (CurrentDemandRes_dec_step j) 28 (fst x, init_dinCurrentDemandResType (snd x)) s"

definition CurrentDemandRes_ok :: "dinCurrentDemandResType \<Rightarrow> bool" where
  "CurrentDemandRes_ok v \<longleftrightarrow>
     CurrentDemandRes_ResponseCode v < 2 ^ 5 \<and>
     DC_EVSEStatus_ok (CurrentDemandRes_DC_EVSEStatus v) \<and>
     PhysicalValue_ok (CurrentDemandRes_EVSEPresentVoltage v) \<and>
     PhysicalValue_ok (CurrentDemandRes_EVSEPresentCurrent v) \<and>
     (CurrentDemandRes_EVSEMaximumVoltageLimit_isUsed v \<longrightarrow>
       PhysicalValue_ok (CurrentDemandRes_EVSEMaximumVoltageLimit v)) \<and>
     (CurrentDemandRes_EVSEMaximumCurrentLimit_isUsed v \<longrightarrow>
       PhysicalValue_ok (CurrentDemandRes_EVSEMaximumCurrentLimit v)) \<and>
     (CurrentDemandRes_EVSEMaximumPowerLimit_isUsed v \<longrightarrow>
       PhysicalValue_ok (CurrentDemandRes_EVSEMaximumPowerLimit v))"

definition same_CurrentDemandRes
    :: "dinCurrentDemandResType \<Rightarrow> dinCurrentDemandResType \<Rightarrow> bool" where
  "same_CurrentDemandRes v a \<longleftrightarrow>
     CurrentDemandRes_ResponseCode a = CurrentDemandRes_ResponseCode v \<and>
     same_DC_EVSEStatus (CurrentDemandRes_DC_EVSEStatus v) (CurrentDemandRes_DC_EVSEStatus a) \<and>
     same_PhysicalValue (CurrentDemandRes_EVSEPresentVoltage v) (CurrentDemandRes_EVSEPresentVoltage a) \<and>
     same_PhysicalValue (CurrentDemandRes_EVSEPresentCurrent v) (CurrentDemandRes_EVSEPresentCurrent a) \<and>
     (CurrentDemandRes_EVSECurrentLimitAchieved a \<noteq> 0)
       = (CurrentDemandRes_EVSECurrentLimitAchieved v \<noteq> 0) \<and>
     (CurrentDemandRes_EVSEVoltageLimitAchieved a \<noteq> 0)
       = (CurrentDemandRes_EVSEVoltageLimitAchieved v \<noteq> 0) \<and>
     (CurrentDemandRes_EVSEPowerLimitAchieved a \<noteq> 0)
       = (CurrentDemandRes_EVSEPowerLimitAchieved v \<noteq> 0) \<and>
     CurrentDemandRes_EVSEMaximumVoltageLimit_isUsed a = CurrentDemandRes_EVSEMaximumVoltageLimit_isUsed v \<and>
       (CurrentDemandRes_EVSEMaximumVoltageLimit_isUsed v \<longrightarrow>
         same_PhysicalValue (CurrentDemandRes_EVSEMaximumVoltageLimit v) (CurrentDemandRes_EVSEMaximumVoltageLimit a)) \<and>
     CurrentDemandRes_EVSEMaximumCurrentLimit_isUsed a = CurrentDemandRes_EVSEMaximumCurrentLimit_isUsed v \<and>
       (CurrentDemandRes_EVSEMaximumCurrentLimit_isUsed v \<longrightarrow>
         same_PhysicalValue (CurrentDemandRes_EVSEMaximumCurrentLimit v) (CurrentDemandRes_EVSEMaximumCurrentLimit a)) \<and>
     CurrentDemandRes_EVSEMaximumPowerLimit_isUsed a = CurrentDemandRes_EVSEMaximumPowerLimit_isUsed v \<and>
       (CurrentDemandRes_EVSEMaximumPowerLimit_isUsed v \<longrightarrow>
         same_PhysicalValue (CurrentDemandRes_EVSEMaximumPowerLimit v) (CurrentDemandRes_EVSEMaximumPowerLimit a))"

definition CurrentDemandRes_at
    :: "dinCurrentDemandResType \<Rightarrow> nat \<Rightarrow> dinCurrentDemandResType \<Rightarrow> bool" where
  "CurrentDemandRes_at v g a \<longleftrightarrow>
     CurrentDemandRes_ok v \<and>
     g \<in> {28, 29, 30, 31, 32, 33, 34, 35, 36, 37, 4} \<and>
     (g \<notin> {28} \<longrightarrow> CurrentDemandRes_ResponseCode a = CurrentDemandRes_ResponseCode v) \<and>
     (g \<notin> {28, 29} \<longrightarrow>
       same_DC_EVSEStatus (CurrentDemandRes_DC_EVSEStatus v) (CurrentDemandRes_DC_EVSEStatus a)) \<and>
     (g \<notin> {28, 29, 30} \<longrightarrow>
       same_PhysicalValue (CurrentDemandRes_EVSEPresentVoltage v) (CurrentDemandRes_EVSEPresentVoltage a)) \<and>
     (g \<notin> {28, 29, 30, 31} \<longrightarrow>
       same_PhysicalValue (CurrentDemandRes_EVSEPresentCurrent v) (CurrentDemandRes_EVSEPresentCurrent a)) \<and>
     (g \<notin> {28, 29, 30, 31, 32} \<longrightarrow>
       (CurrentDemandRes_EVSECurrentLimitAchieved a \<noteq> 0)
         = (CurrentDemandRes_EVSECurrentLimitAchieved v \<noteq> 0)) \<and>
     (g \<notin> {28, 29, 30, 31, 32, 33} \<longrightarrow>
       (CurrentDemandRes_EVSEVoltageLimitAchieved a \<noteq> 0)
         = (CurrentDemandRes_EVSEVoltageLimitAchieved v \<noteq> 0)) \<and>
     (g \<notin> {28, 29, 30, 31, 32, 33, 34} \<longrightarrow>
       (CurrentDemandRes_EVSEPowerLimitAchieved a \<noteq> 0)
         = (CurrentDemandRes_EVSEPowerLimitAchieved v \<noteq> 0)) \<and>
     (if g \<in> {28, 29, 30, 31, 32, 33, 34, 35} then \<not> CurrentDemandRes_EVSEMaximumVoltageLimit_isUsed a
      else CurrentDemandRes_EVSEMaximumVoltageLimit_isUsed a
        = CurrentDemandRes_EVSEMaximumVoltageLimit_isUsed v \<and>
          (CurrentDemandRes_EVSEMaximumVoltageLimit_isUsed v \<longrightarrow>
            same_PhysicalValue (CurrentDemandRes_EVSEMaximumVoltageLimit v) (CurrentDemandRes_EVSEMaximumVoltageLimit a))) \<and>
     (if g \<in> {28, 29, 30, 31, 32, 33, 34, 35, 36} then \<not> CurrentDemandRes_EVSEMaximumCurrentLimit_isUsed a
      else CurrentDemandRes_EVSEMaximumCurrentLimit_isUsed a
        = CurrentDemandRes_EVSEMaximumCurrentLimit_isUsed v \<and>
          (CurrentDemandRes_EVSEMaximumCurrentLimit_isUsed v \<longrightarrow>
            same_PhysicalValue (CurrentDemandRes_EVSEMaximumCurrentLimit v) (CurrentDemandRes_EVSEMaximumCurrentLimit a))) \<and>
     (if g \<in> {28, 29, 30, 31, 32, 33, 34, 35, 36, 37} then \<not> CurrentDemandRes_EVSEMaximumPowerLimit_isUsed a
      else CurrentDemandRes_EVSEMaximumPowerLimit_isUsed a = CurrentDemandRes_EVSEMaximumPowerLimit_isUsed v \<and>
        (CurrentDemandRes_EVSEMaximumPowerLimit_isUsed v \<longrightarrow>
          same_PhysicalValue (CurrentDemandRes_EVSEMaximumPowerLimit v) (CurrentDemandRes_EVSEMaximumPowerLimit a)))"

lemmas CurrentDemandRes_steps = CurrentDemandRes_enc_step_def CurrentDemandRes_enc_step_2_def
  CurrentDemandRes_dec_step_def CurrentDemandRes_dec_step_2_def

lemmas CurrentDemandRes_props = CurrentDemandRes_at_def CurrentDemandRes_ok_def same_CurrentDemandRes_def left_at_def

interpretation CurrentDemandRes: paired_machines "CurrentDemandRes_enc_step v" "CurrentDemandRes_dec_step j"
    "CurrentDemandRes_at v"
  "left_at [(28, 308), (29, 300), (30, 237), (31, 193), (32, 149), (33, 145), (34, 141), (35, 137), (36, 91), (37,
      46), (4, 1)]" "same_CurrentDemandRes v" for v j
proof
  fix g a assume at: "CurrentDemandRes_at v g a"
  then have "g \<in> {28, 29, 30, 31, 32, 33, 34, 35, 36, 37, 4}" by (simp add: CurrentDemandRes_at_def)
  then have "g = 28 \<or>
      g = 29 \<or>
      g = 30 \<or>
      g = 31 \<or>
      g = 32 \<or>
      g = 33 \<or>
      g = 34 \<or>
      (g = 35 \<and> CurrentDemandRes_EVSEMaximumVoltageLimit_isUsed v) \<or>
      (g = 35 \<and> \<not> CurrentDemandRes_EVSEMaximumVoltageLimit_isUsed v \<and>
        CurrentDemandRes_EVSEMaximumCurrentLimit_isUsed v) \<or>
      (g = 35 \<and> \<not> CurrentDemandRes_EVSEMaximumVoltageLimit_isUsed v \<and>
        \<not> CurrentDemandRes_EVSEMaximumCurrentLimit_isUsed v \<and>
          CurrentDemandRes_EVSEMaximumPowerLimit_isUsed v) \<or>
      (g = 35 \<and> \<not> CurrentDemandRes_EVSEMaximumVoltageLimit_isUsed v \<and>
        \<not> CurrentDemandRes_EVSEMaximumCurrentLimit_isUsed v \<and>
          \<not> CurrentDemandRes_EVSEMaximumPowerLimit_isUsed v) \<or>
      (g = 36 \<and> CurrentDemandRes_EVSEMaximumCurrentLimit_isUsed v) \<or>
      (g = 36 \<and> \<not> CurrentDemandRes_EVSEMaximumCurrentLimit_isUsed v \<and>
        CurrentDemandRes_EVSEMaximumPowerLimit_isUsed v) \<or>
      (g = 36 \<and> \<not> CurrentDemandRes_EVSEMaximumCurrentLimit_isUsed v \<and>
        \<not> CurrentDemandRes_EVSEMaximumPowerLimit_isUsed v) \<or>
      (g = 37 \<and> CurrentDemandRes_EVSEMaximumPowerLimit_isUsed v) \<or>
      (g = 37 \<and> \<not> CurrentDemandRes_EVSEMaximumPowerLimit_isUsed v) \<or>
      g = 4"
    by (elim insertE emptyE) auto
  then show "hops (CurrentDemandRes_enc_step v) (CurrentDemandRes_dec_step j) (CurrentDemandRes_at v)
    (left_at [(28, 308), (29, 300), (30, 237), (31, 193), (32, 149), (33, 145), (34, 141), (35, 137), (36, 91), (37,
      46), (4, 1)]) (same_CurrentDemandRes v) g a" using at
    by (elim disjE conjE)
      (rule hops_intros, simp add: CurrentDemandRes_steps, simp add: CurrentDemandRes_steps, simp,
        ((rule reads_intros)+)?,
        (clarsimp simp: CurrentDemandRes_props; fail)+)+
qed

lemma reads_CurrentDemandRes [reads_intros]:
  "CurrentDemandRes_ok v \<Longrightarrow>
      reads 308 (\<lambda>s. encode_dinCurrentDemandResType s v) (decode_dinCurrentDemandResType j) a (same_CurrentDemandRes v)"
  unfolding encode_dinCurrentDemandResType_def decode_dinCurrentDemandResType_def [abs_def]
  by (rule reads_start [OF CurrentDemandRes.machine_reads, of _ 28,
      THEN reads_mono]) (auto simp: CurrentDemandRes_at_def init_dinCurrentDemandResType_def left_at_def)

interpretation CurrentDemandRes_enc: advancing_machine "CurrentDemandRes_enc_step v"
    "left_at [(28, 11), (29, 10), (30, 9), (31, 8), (32, 7), (33, 6), (34, 5), (35, 4), (36, 3), (37, 2), (4,
      1)]" for v
  by unfold_locales (auto simp: CurrentDemandRes_steps dest!: advance_dests split: if_splits;
      simp add: left_at_def)

interpretation CurrentDemandRes_dec: advancing_machine "CurrentDemandRes_dec_step j"
    "left_at [(28, 11), (29, 10), (30, 9), (31, 8), (32, 7), (33, 6), (34, 5), (35, 4), (36, 3), (37, 2), (4,
      1)]" for j
  by unfold_locales (auto simp: CurrentDemandRes_steps dest!: advance_dests elim!: decode_switch_next split: if_splits;
      simp add: left_at_def)

subsection \<open>Properties\<close>

text \<open>C12: the request and the answer of the current demand loop come back from the stream with the same
  content, whatever is in the structs and the static variables of the decoder before; 45 bytes of room
  are enough for the one, 39 for the other. The fields are in the ranges of their types, and the maximal
  delay of the status is below \<open>2 ^ 31\<close>.\<close>

theorem current_demand_roundtrip:
  assumes "startable s" "stream_pos s + 45 \<le> stream_size s"
    and "CurrentDemandReq_ok v" "CurrentDemandRes_ok w"
  shows "arrives encode_dinCurrentDemandReqType decode_dinCurrentDemandReqType same_CurrentDemandReq s v \<and>
    arrives encode_dinCurrentDemandResType decode_dinCurrentDemandResType same_CurrentDemandRes s w"
  by (intro conjI; rule reads_arrives, rule reads_intros, use assms in simp_all)

definition sample_demand :: dinCurrentDemandReqType where
  "sample_demand = \<lparr>CurrentDemandReq_DC_EVStatus = sample_vehicle, CurrentDemandReq_EVTargetCurrent = sample_value 3 1000,
     CurrentDemandReq_EVMaximumVoltageLimit = sample_value 4 4000, CurrentDemandReq_EVMaximumVoltageLimit_isUsed = True,
     CurrentDemandReq_EVMaximumCurrentLimit = sample_value 3 1200, CurrentDemandReq_EVMaximumCurrentLimit_isUsed = False,
     CurrentDemandReq_EVMaximumPowerLimit = sample_value 7 5000, CurrentDemandReq_EVMaximumPowerLimit_isUsed = True,
     CurrentDemandReq_BulkChargingComplete = 0, CurrentDemandReq_BulkChargingComplete_isUsed = False,
     CurrentDemandReq_ChargingComplete = 0,
     CurrentDemandReq_RemainingTimeToFullSoC = sample_value 2 1800, CurrentDemandReq_RemainingTimeToFullSoC_isUsed = False,
     CurrentDemandReq_RemainingTimeToBulkSoC = sample_value 2 900, CurrentDemandReq_RemainingTimeToBulkSoC_isUsed = True,
     CurrentDemandReq_EVTargetVoltage = sample_value 4 3500\<rparr>"

definition sample_supply :: dinCurrentDemandResType where
  "sample_supply = \<lparr>CurrentDemandRes_ResponseCode = 0, CurrentDemandRes_DC_EVSEStatus = sample_station,
     CurrentDemandRes_EVSEPresentVoltage = sample_value 4 3490, CurrentDemandRes_EVSEPresentCurrent = sample_value 3 990,
     CurrentDemandRes_EVSECurrentLimitAchieved = 0, CurrentDemandRes_EVSEVoltageLimitAchieved = 0,
     CurrentDemandRes_EVSEPowerLimitAchieved = 1,
     CurrentDemandRes_EVSEMaximumVoltageLimit = sample_value 4 5000, CurrentDemandRes_EVSEMaximumVoltageLimit_isUsed = False,
     CurrentDemandRes_EVSEMaximumCurrentLimit = sample_value 3 1250, CurrentDemandRes_EVSEMaximumCurrentLimit_isUsed = True,
     CurrentDemandRes_EVSEMaximumPowerLimit = sample_value 7 5000, CurrentDemandRes_EVSEMaximumPowerLimit_isUsed = False\<rparr>"

lemma sample_demand_ok: "CurrentDemandReq_ok sample_demand" "CurrentDemandRes_ok sample_supply"
  by (simp_all add: sample_demand_def CurrentDemandReq_ok_def sample_supply_def CurrentDemandRes_ok_def)

theorem current_demand_roundtrip_witness:
  "arrives encode_dinCurrentDemandReqType decode_dinCurrentDemandReqType same_CurrentDemandReq (blank_stream 45) sample_demand"
  using current_demand_roundtrip [OF _ _ sample_demand_ok, of "blank_stream 45"] by simp

end
