(* ===== verification/Repeats.thy ===== *)
theory Repeats
  imports FieldCodecs
begin

section \<open>Repeated elements and wildcards in the generated codecs\<close>

text \<open>
  An element that may occur several times is an array in the struct, a list of the declared size here,
  with \<open>arrayLen\<close>, the number in use, beside it. The encoder counts the elements it has written in a
  local variable \<open>currArrayIndex\<close>, a natural number here: it stays below \<open>arrayLen\<close>, which has 16 bits.
  The decoder appends at \<open>arrayLen\<close> and refuses an element for which the array has no room. The local
  variables of an encoder are a record; a fragment gets the field (\<open>idx\<close>) and its update (\<open>upd\<close>).
\<close>

subsection \<open>Fragments\<close>

text \<open>
  \<open>array[currArrayIndex++]\<close>: an element with content of its own; a simple one; a simple one of binary
  data or characters, whose index is incremented only if its length could be written.
\<close>

definition encode_array_child ::
  "nat \<Rightarrow> u32 \<Rightarrow> nat \<Rightarrow> (bitstream \<Rightarrow> 'b \<Rightarrow> (errn \<times> bitstream) option) \<Rightarrow> 'b list \<Rightarrow>
   ('x \<Rightarrow> nat) \<Rightarrow> ((nat \<Rightarrow> nat) \<Rightarrow> 'x \<Rightarrow> 'x) \<Rightarrow> 'x \<Rightarrow> bitstream \<Rightarrow> (errn \<times> (bool \<times> nat \<times> 'x) \<times> bitstream) option" where
  "encode_array_child n code next enc array idx upd x s = do {
     (errn, s1) \<leftarrow> encodeNBitUnsignedInteger s n code;
     if errn = EXI_OK then
       if idx x < length array then do {
         (errn, s2) \<leftarrow> enc s1 (array ! idx x);
         Some (errn, (False, next, upd Suc x), s2)
       }
       else None
     else Some (errn, (False, next, x), s1)
   }"

definition encode_array_simple ::
  "nat \<Rightarrow> u32 \<Rightarrow> nat \<Rightarrow> (bitstream \<Rightarrow> 'b \<Rightarrow> (errn \<times> bitstream) option) \<Rightarrow> 'b list \<Rightarrow>
   ('x \<Rightarrow> nat) \<Rightarrow> ((nat \<Rightarrow> nat) \<Rightarrow> 'x \<Rightarrow> 'x) \<Rightarrow> 'x \<Rightarrow> bitstream \<Rightarrow> (errn \<times> (bool \<times> nat \<times> 'x) \<times> bitstream) option" where
  "encode_array_simple n code next enc array idx upd x s = do {
     (errn, s1) \<leftarrow> encodeNBitUnsignedInteger s n code;
     if errn = EXI_OK then do {
       (errn, s2) \<leftarrow> encodeNBitUnsignedInteger s1 1 0;
       if errn = EXI_OK then
         if idx x < length array then do {
           (_, s3) \<leftarrow> enc s2 (array ! idx x);
           (errn, s4) \<leftarrow> encodeNBitUnsignedInteger s3 1 0;
           Some (errn, (False, next, upd Suc x), s4)
         }
         else None
       else Some (errn, (False, next, x), s2)
     }
     else Some (errn, (False, next, x), s1)
   }"

definition encode_array_data ::
  "nat \<Rightarrow> u32 \<Rightarrow> nat \<Rightarrow> (bitstream \<Rightarrow> 'b \<Rightarrow> (errn \<times> bitstream) option) \<Rightarrow> (bitstream \<Rightarrow> 'b \<Rightarrow> (errn \<times> bitstream) option) \<Rightarrow>
   'b list \<Rightarrow> ('x \<Rightarrow> nat) \<Rightarrow> ((nat \<Rightarrow> nat) \<Rightarrow> 'x \<Rightarrow> 'x) \<Rightarrow> 'x \<Rightarrow> bitstream \<Rightarrow>
   (errn \<times> (bool \<times> nat \<times> 'x) \<times> bitstream) option" where
  "encode_array_data n code next enc_len enc_data array idx upd x s = do {
     (errn, s1) \<leftarrow> encodeNBitUnsignedInteger s n code;
     if errn = EXI_OK then do {
       (errn, s2) \<leftarrow> encodeNBitUnsignedInteger s1 1 0;
       if errn = EXI_OK then
         if idx x < length array then do {
           (errn, s3) \<leftarrow> enc_len s2 (array ! idx x);
           (x, s4) \<leftarrow> (if errn = EXI_OK then do {
                (_, s4) \<leftarrow> enc_data s3 (array ! idx x);
                Some (upd Suc x, s4)
              }
              else Some (x, s3));
           (errn, s5) \<leftarrow> encodeNBitUnsignedInteger s4 1 0;
           Some (errn, (False, next, x), s5)
         }
         else None
       else Some (errn, (False, next, x), s2)
     }
     else Some (errn, (False, next, x), s1)
   }"

text \<open>An element of binary data or characters is the array and the length in use.\<close>

type_synonym sized_data = "u8 list \<times> u16"

abbreviation (input) encode_bytesLen :: "bitstream \<Rightarrow> sized_data \<Rightarrow> (errn \<times> bitstream) option" where
  "encode_bytesLen s e \<equiv> encodeUnsignedInteger16 s (snd e)"

abbreviation (input) encode_bytes_of :: "bitstream \<Rightarrow> sized_data \<Rightarrow> (errn \<times> bitstream) option" where
  "encode_bytes_of s e \<equiv> encodeBytes s (fst e) (ucast (snd e))"

abbreviation (input) encode_charactersLen :: "bitstream \<Rightarrow> sized_data \<Rightarrow> (errn \<times> bitstream) option" where
  "encode_charactersLen s e \<equiv> encodeUnsignedInteger16 s (snd e + 2)"

abbreviation (input) encode_characters_of :: "bitstream \<Rightarrow> sized_data \<Rightarrow> (errn \<times> bitstream) option" where
  "encode_characters_of s e \<equiv> encodeCharacters s (fst e) (ucast (snd e))"

text \<open>
  A wildcard: the generators support characters in its place, not elements, which the decoder refuses.
\<close>

definition decode_unsupported ::
  "nat \<Rightarrow> dec_static \<times> 'a \<Rightarrow> bitstream \<Rightarrow> (errn \<times> (bool \<times> nat \<times> dec_static \<times> 'a) \<times> bitstream) option" where
  "decode_unsupported next x s = Some (EXI_UNSUPPORTED_EVENT_CODE_CHARACTERISTICS, (False, next, x), s)"

text \<open>The check \<open>arrayLen < ARRAY_SIZE\<close> around the case of the decoder.\<close>

definition decode_array_child ::
  "nat \<Rightarrow> nat \<Rightarrow> ('a \<Rightarrow> u16) \<Rightarrow> (dec_static \<times> 'a \<Rightarrow> bitstream \<Rightarrow> (errn \<times> (dec_static \<times> 'a) \<times> bitstream) option) \<Rightarrow>
   dec_static \<times> 'a \<Rightarrow> bitstream \<Rightarrow> (errn \<times> (bool \<times> nat \<times> dec_static \<times> 'a) \<times> bitstream) option" where
  "decode_array_child next sz len val x s =
     (if unat (len (snd x)) < sz then decode_child next val x s
      else Some (EXI_ERROR_OUT_OF_BOUNDS, (False, next, x), s))"

definition decode_array_simple ::
  "nat \<Rightarrow> nat \<Rightarrow> nat \<Rightarrow> ('a \<Rightarrow> u16) \<Rightarrow>
   (dec_static \<times> 'a \<Rightarrow> bitstream \<Rightarrow> (errn \<times> (dec_static \<times> 'a) \<times> bitstream) option) \<Rightarrow>
   dec_static \<times> 'a \<Rightarrow> bitstream \<Rightarrow> (errn \<times> (bool \<times> nat \<times> dec_static \<times> 'a) \<times> bitstream) option" where
  "decode_array_simple g next sz len val x s =
     (if unat (len (snd x)) < sz then decode_simple g next val x s
      else Some (EXI_ERROR_OUT_OF_BOUNDS, (False, g, x), s))"

text \<open>\<open>array[arrayLen++]\<close>, filled by the decoder \<open>dec\<close> of an element.\<close>

definition decode_element ::
  "(dec_static \<times> 'b \<Rightarrow> bitstream \<Rightarrow> (errn \<times> (dec_static \<times> 'b) \<times> bitstream) option) \<Rightarrow>
   ('a \<Rightarrow> 'b list) \<Rightarrow> ('a \<Rightarrow> u16) \<Rightarrow> ('b list \<Rightarrow> u16 \<Rightarrow> 'a \<Rightarrow> 'a) \<Rightarrow>
   dec_static \<times> 'a \<Rightarrow> bitstream \<Rightarrow> (errn \<times> (dec_static \<times> 'a) \<times> bitstream) option" where
  "decode_element dec array len put x s =
     (let a = snd x; i = unat (len a) in
      if i < length (array a) then do {
        (errn, (st, c), s1) \<leftarrow> dec (fst x, array a ! i) s;
        Some (errn, (st, put ((array a)[i := c]) (len a + 1) a), s1)
      }
      else None)"

subsection \<open>The elements passed on\<close>

text \<open>\<open>copied R i xs ys\<close>: the first \<open>i\<close> elements of the encoder's array and of the decoder's are related.\<close>

definition copied :: "('b \<Rightarrow> 'b \<Rightarrow> bool) \<Rightarrow> nat \<Rightarrow> 'b list \<Rightarrow> 'b list \<Rightarrow> bool" where
  "copied R i xs ys \<longleftrightarrow> list_all2 R (take i xs) (take i ys)"

lemma copied_0 [simp]: "copied R 0 xs ys"
  by (simp add: copied_def)

lemma copied_Suc:
  "copied R i xs ys \<Longrightarrow> n = Suc i \<Longrightarrow> i < length xs \<Longrightarrow> i < length ys \<Longrightarrow> R (xs ! i) c \<Longrightarrow>
   copied R n xs (ys[i := c])"
  by (simp add: copied_def take_Suc_conv_app_nth list_all2_appendI)

lemma arrayLen_eq: "unat l = unat m \<Longrightarrow> l = m" for l m :: u16
  by (simp add: word_unat_eq_iff)

text \<open>The elements in use have \<open>P\<close>; all slots have \<open>P\<close>, also after a store.\<close>

definition in_use :: "('b \<Rightarrow> bool) \<Rightarrow> 'b list \<Rightarrow> u16 \<Rightarrow> bool" where
  "in_use P xs len \<longleftrightarrow> list_all P (take (unat len) xs)"

lemma in_use_nth: "in_use P xs len \<Longrightarrow> i < unat len \<Longrightarrow> i < length xs \<Longrightarrow> P (xs ! i)"
  by (simp add: in_use_def list_all_length)

lemma slots_nth: "list_all P xs \<Longrightarrow> i < length xs \<Longrightarrow> P (xs ! i)"
  by (simp add: list_all_length)

lemma slots_update: "list_all P xs \<Longrightarrow> P c \<Longrightarrow> list_all P (xs[i := c])"
  by (auto simp: list_all_iff dest!: set_update_subset_insert [THEN subsetD])

text \<open>The elements of binary data and characters.\<close>

definition data_sized :: "nat \<Rightarrow> sized_data \<Rightarrow> bool" where
  "data_sized sz e \<longleftrightarrow> length (fst e) = sz"

definition bytes_data_ok :: "nat \<Rightarrow> sized_data \<Rightarrow> bool" where
  "bytes_data_ok sz e \<longleftrightarrow> unat (snd e) \<le> sz"

definition string_data_ok :: "nat \<Rightarrow> sized_data \<Rightarrow> bool" where
  "string_data_ok sz e \<longleftrightarrow> string_ok sz (fst e) (snd e)"

definition same_data :: "sized_data \<Rightarrow> sized_data \<Rightarrow> bool" where
  "same_data e f \<longleftrightarrow> snd f = snd e \<and> take (unat (snd e)) (fst f) = take (unat (snd e)) (fst e)"

lemma data_pair [simp]:
  "data_sized sz (xs, l) \<longleftrightarrow> length xs = sz"
  "same_data e (xs, l) \<longleftrightarrow> l = snd e \<and> take (unat (snd e)) xs = take (unat (snd e)) (fst e)"
  by (simp_all add: data_sized_def same_data_def)

lemma slots_data: "list_all (data_sized sz) xs \<Longrightarrow> i < length xs \<Longrightarrow> length (fst (xs ! i)) = sz"
  by (simp add: list_all_length data_sized_def)

lemma in_use_bytes:
  "in_use (bytes_data_ok sz) xs len \<Longrightarrow> i < unat len \<Longrightarrow> i < length xs \<Longrightarrow> unat (snd (xs ! i)) \<le> sz"
  by (drule in_use_nth) (auto simp: bytes_data_ok_def)

lemma in_use_string:
  "in_use (string_data_ok sz) xs len \<Longrightarrow> i < unat len \<Longrightarrow> i < length xs \<Longrightarrow>
   string_ok sz (fst (xs ! i)) (snd (xs ! i))"
  by (drule in_use_nth) (auto simp: string_data_ok_def)

lemmas array_intros = copied_Suc arrayLen_eq slots_update slots_data in_use_bytes in_use_string

text \<open>The bits due for the elements of an array from the \<open>i\<close>th on.\<close>

definition due :: "nat \<Rightarrow> u16 \<Rightarrow> nat \<Rightarrow> nat" where
  "due m len i = m * (unat len - i)"

lemma due_next [simp]: "i < unat len \<Longrightarrow> due m len i = m + due m len (Suc i)"
  by (simp add: due_def Suc_diff_Suc flip: mult_Suc_right)

text \<open>The same where every element has its own number of bits.\<close>

definition due_of :: "(nat \<Rightarrow> nat) \<Rightarrow> u16 \<Rightarrow> nat \<Rightarrow> nat" where
  "due_of f len i = sum_list (map f [i..<unat len])"

lemma due_of_next [simp]: "i < unat len \<Longrightarrow> due_of f len i = f i + due_of f len (Suc i)"
  by (simp add: due_of_def upt_conv_Cons)

text \<open>
  The number of elements written at a grammar number, as a table: the generator unrolls a bounded
  repetition. A grammar number that is not listed repeats an element.
\<close>

definition counts :: "(nat \<times> nat) list \<Rightarrow> nat \<Rightarrow> nat \<Rightarrow> bool" where
  "counts ns g i \<longleftrightarrow> (case map_of ns g of Some n \<Rightarrow> i = n | None \<Rightarrow> True)"

text \<open>
  Of several alternatives at most one, and at least one. The proofs unfold them from the front only, as
  far as the flags are known.
\<close>

fun exclusive :: "bool list \<Rightarrow> bool" where
  "exclusive [] \<longleftrightarrow> True"
| "exclusive (b # bs) \<longleftrightarrow> (if b then list_all Not bs else exclusive bs)"

fun some_of :: "bool list \<Rightarrow> bool" where
  "some_of [] \<longleftrightarrow> False"
| "some_of (b # bs) \<longleftrightarrow> b \<or> some_of bs"

declare exclusive.simps(2) [simp del] some_of.simps(2) [simp del]

lemma alternatives_known [simp]:
  "exclusive (True # bs) = list_all Not bs" "exclusive (False # bs) = exclusive bs"
  "some_of (True # bs)" "some_of (False # bs) = some_of bs" "some_of [b] = b"
  by (simp_all add: exclusive.simps some_of.simps)

lemma unat_next_is [simp]: "unat l = i \<Longrightarrow> i < 65535 \<Longrightarrow> unat (l + 1) = Suc i" for l :: u16
  by (subst unat_add_lem [THEN iffD1]) simp_all

lemma unat_next: "unat l < n \<Longrightarrow> n \<le> 65535 \<Longrightarrow> unat (l + 1) = Suc (unat l)" for l :: u16
  by (subst unat_add_lem [THEN iffD1]) simp_all

lemma reads_element [reads_intros]:
  assumes "reads n W dec (array a ! unat (len a)) Q" "unat (len a) < length (array a)"
  shows "reads n W (decode_element dec array len put) a
    (\<lambda>b. \<exists>c. Q c \<and> b = put ((array a)[unat (len a) := c]) (len a + 1) a)"
proof -
  obtain bs c where bs: "length bs \<le> n" "wr.emits W bs" "Q c"
    "\<And>st. \<exists>st'. rd.takes (dec (st, array a ! unat (len a))) bs (st', c)"
    using assms(1) by (rule readsE) blast
  show ?thesis
  proof (rule readsI [OF bs(1,2), where r = "put ((array a)[unat (len a) := c]) (len a + 1) a"])
    fix st
    obtain st' where "rd.takes (dec (st, array a ! unat (len a))) bs (st', c)" using bs(4) by blast
    from rd.takes_map [OF this, where f = "\<lambda>_ x. (fst x, put ((array a)[unat (len a) := snd x]) (len a + 1) a)"]
    show "\<exists>st'. rd.takes (decode_element dec array len put (st, a)) bs
        (st', put ((array a)[unat (len a) := c]) (len a + 1) a)"
      using assms(2) by (auto simp: decode_element_def [abs_def] Let_def split_def)
  qed (use bs(3) in blast)
qed

subsection \<open>Optional elements\<close>

text \<open>
  What is asked of an optional element is asked where it is used; a used one is passed on with its value.
  The two are kept folded in the proofs until the flag is known.
\<close>

definition when_used :: "bool \<Rightarrow> bool \<Rightarrow> bool" where
  "when_used used P \<longleftrightarrow> (used \<longrightarrow> P)"

lemma when_used_simps [simp]: "when_used True P = P" "when_used False P" "when_used u False \<longleftrightarrow> \<not> u"
  by (simp_all add: when_used_def)

definition kept :: "bool \<Rightarrow> bool \<Rightarrow> bool \<Rightarrow> bool" where
  "kept used used' same \<longleftrightarrow> used' = used \<and> (used \<longrightarrow> same)"

lemma kept_simps [simp]:
  "kept True u P \<longleftrightarrow> u \<and> P" "kept False u P \<longleftrightarrow> \<not> u" "kept u False P \<longleftrightarrow> \<not> u"
  "kept u w False \<longleftrightarrow> \<not> u \<and> \<not> w"
  by (auto simp: kept_def)

text \<open>What is known once a condition of the step is.\<close>

lemma known:
  "when_used u P \<Longrightarrow> u \<Longrightarrow> P" "kept u w P \<Longrightarrow> u \<Longrightarrow> w \<and> P" "kept u w P \<Longrightarrow> \<not> u \<Longrightarrow> \<not> w"
  "kept u w (c \<and> P) \<Longrightarrow> \<not> c \<Longrightarrow> \<not> u \<and> \<not> w"
  "\<not> i < n \<Longrightarrow> i \<le> n \<Longrightarrow> n = i" for i n :: nat
  by simp_all

subsection \<open>Steps\<close>

text \<open>
  What a step does at a grammar number is computed first (\<open>walks_by\<close>, \<open>hops_by\<close>), its conditions are
  split (\<open>walks_if\<close>), and the form of each branch decides how the proof goes on (\<open>walks_shapes\<close>).
\<close>

lemma walks_by:
  assumes "\<And>s. es g x s = F s" "\<And>st s. ds g (st, a) s = D st s"
    and "walks (\<lambda>_ _. F) (\<lambda>_ p. D (fst p)) ok_at rank good g x a"
  shows "walks es ds ok_at rank good g x a"
  using assms by (simp add: walks_def goes_def rd.takes_def)

lemma hops_by:
  assumes "\<And>s. es g () s = F s" "\<And>st s. ds g (st, a) s = D st s"
    and "walks (\<lambda>_ _. F) (\<lambda>_ p. D (fst p)) (\<lambda>g _. ok_at g) (\<lambda>g _. rank g) good g () a"
  shows "hops es ds ok_at rank good g a"
  unfolding hops_def using assms by (rule walks_by)

lemma walks_if:
  assumes "\<not> c \<Longrightarrow> walks (\<lambda>_ _ s. B s) D ok_at rank good g x a" "c \<Longrightarrow> walks (\<lambda>_ _ s. A s) D ok_at rank good g x a"
  shows "walks (\<lambda>_ _ s. if c then A s else B s) D ok_at rank good g x a"
  using assms by (cases c) simp_all

text \<open>The condition on a wildcard has two parts, which are split as well.\<close>

lemma walks_if_or:
  assumes "\<not> c \<Longrightarrow> \<not> d \<Longrightarrow> walks (\<lambda>_ _ s. B s) D ok_at rank good g x a"
    and "c \<Longrightarrow> walks (\<lambda>_ _ s. A s) D ok_at rank good g x a" "d \<Longrightarrow> walks (\<lambda>_ _ s. A s) D ok_at rank good g x a"
  shows "walks (\<lambda>_ _ s. if c \<or> d then A s else B s) D ok_at rank good g x a"
  using assms by (cases c; cases d) simp_all

lemma walks_if_imp:
  assumes "c \<Longrightarrow> \<not> d \<Longrightarrow> walks (\<lambda>_ _ s. B s) D ok_at rank good g x a"
    and "\<not> c \<Longrightarrow> walks (\<lambda>_ _ s. A s) D ok_at rank good g x a" "d \<Longrightarrow> walks (\<lambda>_ _ s. A s) D ok_at rank good g x a"
  shows "walks (\<lambda>_ _ s. if c \<longrightarrow> d then A s else B s) D ok_at rank good g x a"
  using assms by (cases c; cases d) simp_all

lemmas walks_ifs = walks_if_or walks_if_imp walks_if

lemma goes_array_child:
  assumes "\<And>s. es g x s = encode_array_child n code g' enc array idx upd x s" "idx x < length array"
  shows "goes es g x (encode_child n code (\<lambda>s. enc s (array ! idx x))) (False, g', upd Suc x)"
  using assms(2) by (auto simp: goes_def assms(1) encode_array_child_def encode_child_def
      split: Option.bind_splits if_splits)

lemma goes_array_simple:
  assumes "\<And>s. es g x s = encode_array_simple n code g' enc array idx upd x s" "idx x < length array"
  shows "goes es g x (encode_simple n code (\<lambda>s. enc s (array ! idx x))) (False, g', upd Suc x)"
  using assms(2) by (auto simp: goes_def assms(1) encode_array_simple_def encode_simple_def
      split: Option.bind_splits if_splits)

lemma walks_array_child:
  assumes cs: "map_of cases code = Some (decode_array_child g' sz len val)"
    and val: "reads l (\<lambda>s. enc s (array ! idx x)) val a Q"
    and rest: "n \<le> 8 \<and> 0 < n \<and> take_bit n code = code \<and> n + l + rank g' (upd Suc x) \<le> rank g x \<and>
      idx x < length array \<and> unat (len a) < sz"
    and "next": "\<And>b. Q b \<Longrightarrow> ok_at g' (upd Suc x) b"
  shows "walks (\<lambda>_ _ s. encode_array_child n code g' enc array idx upd x s) (\<lambda>_ p. decode_switch n cases g (fst p, a)) ok_at rank good g x a"
proof (rule walks_child [where Q = Q])
  show "goes (\<lambda>_ _ s. encode_array_child n code g' enc array idx upd x s) g x (encode_child n code (\<lambda>s. enc s (array ! idx x))) (False, g', upd Suc x)"
    by (rule goes_array_child) (use rest in simp_all)
  show "map_of cases code = Some (decode_array_child g' sz len val)" by (rule cs)
qed (use val rest "next" in \<open>auto simp: decode_array_child_def decode_array_simple_def\<close>)

lemma walks_array_simple:
  assumes cs: "map_of cases code = Some (decode_array_simple g g' sz len val)"
    and val: "reads l (\<lambda>s. enc s (array ! idx x)) val a Q"
    and rest: "n \<le> 8 \<and> take_bit n code = code \<and> n + 2 + l + rank g' (upd Suc x) \<le> rank g x \<and>
      idx x < length array \<and> unat (len a) < sz"
    and "next": "\<And>b. Q b \<Longrightarrow> ok_at g' (upd Suc x) b"
  shows "walks (\<lambda>_ _ s. encode_array_simple n code g' enc array idx upd x s) (\<lambda>_ p. decode_switch n cases g (fst p, a)) ok_at rank good g x a"
proof (rule walks_simple [where Q = Q])
  show "goes (\<lambda>_ _ s. encode_array_simple n code g' enc array idx upd x s) g x (encode_simple n code (\<lambda>s. enc s (array ! idx x))) (False, g', upd Suc x)"
    by (rule goes_array_simple) (use rest in simp_all)
  show "map_of cases code = Some (decode_array_simple g g' sz len val)" by (rule cs)
qed (use val rest "next" in \<open>auto simp: decode_array_child_def decode_array_simple_def\<close>)

text \<open>
  For binary data and characters the step is that of a simple element only where no error is forgotten,
  which is what is needed here.
\<close>

definition encode_strictly ::
  "nat \<Rightarrow> u32 \<Rightarrow> (bitstream \<Rightarrow> (errn \<times> bitstream) option) \<Rightarrow> bitstream \<Rightarrow> (errn \<times> bitstream) option" where
  "encode_strictly n code m s = do {
     (errn, s1) \<leftarrow> encodeNBitUnsignedInteger s n code;
     if errn = EXI_OK then do {
       (errn, s2) \<leftarrow> encodeNBitUnsignedInteger s1 1 0;
       if errn = EXI_OK then do {
         (errn, s3) \<leftarrow> m s2;
         if errn = EXI_OK then encodeNBitUnsignedInteger s3 1 0 else Some (errn, s3)
       }
       else Some (errn, s2)
     }
     else Some (errn, s1)
   }"

lemma emits_encode_strictly:
  assumes "n \<le> 8" "wr.emits m bs"
  shows "wr.emits (encode_strictly n code m) (bits n code @ [False] @ bs @ [False])"
  unfolding encode_strictly_def [abs_def]
  by (intro wr.emits_then emits_bit_0 assms wr.writes_imp_emits [OF writes_encodeNBit])

lemma goes_array_data:
  assumes "\<And>s. es g x s = encode_array_data n code g' enc_len enc_data array idx upd x s" "idx x < length array"
    and "\<And>s. m s = do { (errn, s1) \<leftarrow> enc_len s (array ! idx x);
      if errn = EXI_OK then enc_data s1 (array ! idx x) else Some (errn, s1) }"
  shows "goes es g x (encode_strictly n code m) (False, g', upd Suc x)"
  using assms(2) by (auto simp: goes_def assms(1,3) encode_array_data_def encode_strictly_def
      split: Option.bind_splits if_splits)

lemma walks_array_data:
  assumes cs: "map_of cases code = Some (decode_array_simple g g' sz len val)"
    and m: "\<And>s. m s = do { (errn, s1) \<leftarrow> enc_len s (array ! idx x);
      if errn = EXI_OK then enc_data s1 (array ! idx x) else Some (errn, s1) }"
    and val: "reads l m val a Q"
    and rest: "n \<le> 8 \<and> take_bit n code = code \<and> n + 2 + l + rank g' (upd Suc x) \<le> rank g x \<and>
      idx x < length array \<and> unat (len a) < sz"
    and "next": "\<And>b. Q b \<Longrightarrow> ok_at g' (upd Suc x) b"
  shows "walks (\<lambda>_ _ s. encode_array_data n code g' enc_len enc_data array idx upd x s) (\<lambda>_ p. decode_switch n cases g (fst p, a)) ok_at rank good g x a"
proof -
  obtain bs b where bs: "length bs \<le> l" "wr.emits m bs" "Q b" "\<And>st. \<exists>st'. rd.takes (val (st, a)) bs (st', b)"
    using val by (rule readsE) blast
  have go: "goes (\<lambda>_ _ s. encode_array_data n code g' enc_len enc_data array idx upd x s) g x (encode_strictly n code m) (False, g', upd Suc x)"
    by (rule goes_array_data) (use rest m in simp_all)
  have same: "decode_array_simple g g' sz len val (st, a) s = decode_simple g g' val (st, a) s" for st s
    using rest by (simp add: decode_array_simple_def)
  have e: "wr.emits (encode_strictly n code m) (bits n code @ [False] @ bs @ [False])"
    using rest bs(2) by (intro emits_encode_strictly) auto
  show ?thesis
  proof (rule walks_strict [where bs = bs and b = b and val = val, OF go e])
    show "map_of cases code = Some (decode_array_simple g g' sz len val)" by (rule cs)
  qed (use same bs rest "next" in auto)
qed

lemma walks_array_bytes:
  assumes cs: "map_of cases code = Some (decode_array_simple g g' sz len val)"
    and val: "reads l (encode_bytes_field (fst (array ! idx x)) (snd (array ! idx x))) val a Q"
    and rest: "n \<le> 8 \<and> take_bit n code = code \<and> n + 2 + l + rank g' (upd Suc x) \<le> rank g x \<and>
      idx x < length array \<and> unat (len a) < sz"
    and "next": "\<And>b. Q b \<Longrightarrow> ok_at g' (upd Suc x) b"
  shows "walks (\<lambda>_ _ s. encode_array_data n code g' encode_bytesLen encode_bytes_of array idx upd x s) (\<lambda>_ p. decode_switch n cases g (fst p, a)) ok_at rank good g x a"
proof (rule walks_array_data [where Q = Q])
  show "map_of cases code = Some (decode_array_simple g g' sz len val)" by (rule cs)
  show "reads l (encode_bytes_field (fst (array ! idx x)) (snd (array ! idx x))) val a Q" by (rule val)
qed (use rest "next" in \<open>auto simp: encode_bytes_field_def\<close>)

lemma walks_array_string:
  assumes cs: "map_of cases code = Some (decode_array_simple g g' sz len val)"
    and val: "reads l (encode_string_field (fst (array ! idx x)) (snd (array ! idx x))) val a Q"
    and rest: "n \<le> 8 \<and> take_bit n code = code \<and> n + 2 + l + rank g' (upd Suc x) \<le> rank g x \<and>
      idx x < length array \<and> unat (len a) < sz"
    and "next": "\<And>b. Q b \<Longrightarrow> ok_at g' (upd Suc x) b"
  shows "walks (\<lambda>_ _ s. encode_array_data n code g' encode_charactersLen encode_characters_of array idx upd x s) (\<lambda>_ p. decode_switch n cases g (fst p, a)) ok_at rank good g x a"
proof (rule walks_array_data [where Q = Q])
  show "map_of cases code = Some (decode_array_simple g g' sz len val)" by (rule cs)
  show "reads l (encode_string_field (fst (array ! idx x)) (snd (array ! idx x))) val a Q" by (rule val)
qed (use rest "next" in \<open>auto simp: encode_string_field_def\<close>)

text \<open>The other elements; the text of a wildcard is followed by \<open>wcDone = 1\<close>.\<close>

lemma walks_goto_simple:
  assumes cs: "map_of cases code = Some (decode_simple g g' val)"
    and val: "reads l m val a Q"
    and rest: "n \<le> 8 \<and> take_bit n code = code \<and> n + 2 + l + rank g' y \<le> rank g x"
    and "next": "\<And>b. Q b \<Longrightarrow> ok_at g' y b"
  shows "walks (\<lambda>_ _ s. goto g' y (encode_simple n code m s)) (\<lambda>_ p. decode_switch n cases g (fst p, a)) ok_at rank good g x a"
proof (rule walks_simple [where Q = Q and m = m and val = val])
  show "goes (\<lambda>_ _ s. goto g' y (encode_simple n code m s)) g x (encode_simple n code m) (False, g', y)" by (rule goes_goto) simp
  show "map_of cases code = Some (decode_simple g g' val)" by (rule cs)
qed (use val rest "next" in auto)

lemma walks_goto_child:
  assumes cs: "map_of cases code = Some (decode_child g' val)"
    and val: "reads l m val a Q"
    and rest: "n \<le> 8 \<and> 0 < n \<and> take_bit n code = code \<and> n + l + rank g' y \<le> rank g x"
    and "next": "\<And>b. Q b \<Longrightarrow> ok_at g' y b"
  shows "walks (\<lambda>_ _ s. goto g' y (encode_child n code m s)) (\<lambda>_ p. decode_switch n cases g (fst p, a)) ok_at rank good g x a"
proof (rule walks_child [where Q = Q and m = m and val = val])
  show "goes (\<lambda>_ _ s. goto g' y (encode_child n code m s)) g x (encode_child n code m) (False, g', y)" by (rule goes_goto) simp
  show "map_of cases code = Some (decode_child g' val)" by (rule cs)
qed (use val rest "next" in auto)

lemma walks_finish:
  assumes cs: "map_of cases code = Some (decode_end g')"
    and rest: "n \<le> 8 \<and> take_bit n code = code \<and> n \<le> rank g x \<and> good a"
  shows "walks (\<lambda>_ _ s. finish g' y (encodeNBitUnsignedInteger s n code)) (\<lambda>_ p. decode_switch n cases g (fst p, a)) ok_at rank good g x a"
proof (rule walks_end)
  show "goes (\<lambda>_ _ s. finish g' y (encodeNBitUnsignedInteger s n code)) g x
      (\<lambda>s. encodeNBitUnsignedInteger s n code) (True, g', y)" by (rule goes_finish) simp
  show "map_of cases code = Some (decode_end g')" by (rule cs)
qed (use rest in auto)

lemmas walks_shapes = walks_goto_simple walks_goto_child walks_finish walks_array_child walks_array_simple
  walks_array_bytes walks_array_string

subsection \<open>Where a step with an array can go\<close>

lemma goto_keeps: "goto g x m = Some (EXI_OK, (False, g', x'), s') \<Longrightarrow> g' = g \<and> x' = x"
  by (auto simp: goto_def split: option.splits Option.bind_splits)

lemma encode_array_next:
  "encode_array_child n code g enc array idx upd x s = Some (EXI_OK, (False, g', x'), s') \<Longrightarrow>
   g' = g \<and> x' = upd Suc x \<and> idx x < length array"
  "encode_array_simple n code g enc array idx upd x s = Some (EXI_OK, (False, g', x'), s') \<Longrightarrow>
   g' = g \<and> x' = upd Suc x \<and> idx x < length array"
  by (auto simp: encode_array_child_def encode_array_simple_def split: Option.bind_splits if_splits)

lemma encode_array_data_next:
  "encode_array_data n code g enc_len enc_data array idx upd x s = Some (EXI_OK, (False, g', x'), s') \<Longrightarrow> g' = g"
  by (auto simp: encode_array_data_def split: Option.bind_splits if_splits)

lemma decode_array_to:
  "decode_array_child next sz len val x s = Some (EXI_OK, (False, g', x'), s') \<Longrightarrow> g' = next"
  "decode_array_simple g next sz len val x s = Some (EXI_OK, (False, g', x'), s') \<Longrightarrow> g' = next"
  "decode_unsupported next x s = Some (EXI_OK, (False, g', x'), s') \<Longrightarrow> False"
  by (auto simp: decode_array_child_def decode_array_simple_def decode_unsupported_def
      dest!: advance_dests split: if_splits)

lemmas array_advance_dests = advance_dests encode_array_next encode_array_data_next decode_array_to

lemma decode_element_next:
  "decode_element dec array len put x s = Some (e, x', s') \<Longrightarrow> \<exists>xs. snd x' = put xs (len (snd x) + 1) (snd x)"
  by (auto simp: decode_element_def Let_def split: Option.bind_splits if_splits)

lemma decode_array_child_next:
  "decode_array_child next sz len (decode_element dec array len put) x s = Some (EXI_OK, (False, g', x'), s') \<Longrightarrow>
   g' = next \<and> unat (len (snd x)) < sz \<and> (\<exists>xs. snd x' = put xs (len (snd x) + 1) (snd x))"
  by (auto simp: decode_array_child_def decode_child_def dest: decode_element_next
      split: Option.bind_splits if_splits)

lemma decode_array_simple_next:
  "decode_array_simple g next sz len (decode_element dec array len put) x s = Some (EXI_OK, (False, g', x'), s') \<Longrightarrow>
   g' = next \<and> unat (len (snd x)) < sz \<and> (\<exists>xs. snd x' = put xs (len (snd x) + 1) (snd x))"
  by (fastforce simp: decode_array_simple_def decode_simple_def decode_eventCode_def dest: decode_element_next
      split: Option.bind_splits if_splits)

lemmas array_dests = goto_keeps finish_next encode_array_next decode_simple_next decode_child_next decode_end_next
  decode_array_child_next decode_array_simple_next

end
