(* ===== verification/Iso1SignedInfo.thy ===== *)
theory Iso1SignedInfo
  imports Repeats
begin

section \<open>ISO 15118 codec: what a signature signs\<close>

text \<open>
  The types of XML signatures from the canonicalization method to the manifest, as the schema of
  ISO 15118 includes them, in the form explained in \<open>Iso1Values\<close>. Several have a wildcard: text instead of
  further elements, in a member \<open>ANY\<close>, which the encoder writes once and then marks as done, or, at some
  grammar numbers, again and again until the stream is full. Values that reach such a grammar number
  with a text are not well formed here.
\<close>

subsection \<open>\<open>iso1CanonicalizationMethodType\<close>\<close>

record iso1CanonicalizationMethodType =
  iso1CanonicalizationMethod_Algorithm_characters :: "u8 list"
  iso1CanonicalizationMethod_Algorithm_charactersLen :: u16
  iso1CanonicalizationMethod_ANY_characters :: "u8 list"
  iso1CanonicalizationMethod_ANY_charactersLen :: u16
  iso1CanonicalizationMethod_ANY_isUsed :: bool

definition init_iso1CanonicalizationMethodType :: "iso1CanonicalizationMethodType \<Rightarrow>
    iso1CanonicalizationMethodType" where
  "init_iso1CanonicalizationMethodType a = a\<lparr>iso1CanonicalizationMethod_ANY_isUsed := False\<rparr>"

record iso1CanonicalizationMethod_locals =
  iso1CanonicalizationMethod_wcDone :: bool

definition iso1CanonicalizationMethod_enc_step :: "iso1CanonicalizationMethodType \<Rightarrow>
    iso1CanonicalizationMethod_locals machine" where
  "iso1CanonicalizationMethod_enc_step v grammarID x s =
     (if grammarID = 312 then
        goto 115 x
          (encode_child 1 0 (encode_string_field (iso1CanonicalizationMethod_Algorithm_characters v)
          (iso1CanonicalizationMethod_Algorithm_charactersLen v)) s)
      else if grammarID = 115 then
        if \<not> iso1CanonicalizationMethod_ANY_isUsed v \<or> iso1CanonicalizationMethod_wcDone x then
          finish 4 x (encodeNBitUnsignedInteger s 2 1)
        else if iso1CanonicalizationMethod_ANY_isUsed v then
          goto 116 (x\<lparr>iso1CanonicalizationMethod_wcDone := True\<rparr>)
          (encode_child 2 2 (encode_string_field (iso1CanonicalizationMethod_ANY_characters v)
          (iso1CanonicalizationMethod_ANY_charactersLen v)) s)
        else Some (EXI_ERROR_UNKOWN_EVENT, (False, grammarID, x), s)
      else if grammarID = 116 then
        if \<not> iso1CanonicalizationMethod_ANY_isUsed v \<or> iso1CanonicalizationMethod_wcDone x then
          finish 4 x (encodeNBitUnsignedInteger s 2 1)
        else if iso1CanonicalizationMethod_ANY_isUsed v then
          goto 116 (x\<lparr>iso1CanonicalizationMethod_wcDone := True\<rparr>)
          (encode_child 2 2 (encode_string_field (iso1CanonicalizationMethod_ANY_characters v)
          (iso1CanonicalizationMethod_ANY_charactersLen v)) s)
        else Some (EXI_ERROR_UNKOWN_EVENT, (False, grammarID, x), s)
      else Some (EXI_ERROR_UNKOWN_GRAMMAR_ID, (False, grammarID, x), s))"

definition encode_iso1CanonicalizationMethodType :: "bitstream \<Rightarrow> iso1CanonicalizationMethodType
    \<Rightarrow> (errn \<times> bitstream) option" where
  "encode_iso1CanonicalizationMethodType s v = run_encoder (iso1CanonicalizationMethod_enc_step v) 312
      \<lparr>iso1CanonicalizationMethod_wcDone = False\<rparr> s"

definition iso1CanonicalizationMethod_dec_step :: "u32 \<Rightarrow>
    (dec_static \<times> iso1CanonicalizationMethodType) machine" where
  "iso1CanonicalizationMethod_dec_step j grammarID x s =
     (if grammarID = 312 then
        decode_switch 1
         [(0, decode_child 115 (decode_string_field j 66 iso1CanonicalizationMethod_Algorithm_characters
           (\<lambda>u a. a\<lparr>iso1CanonicalizationMethod_Algorithm_characters := u\<rparr>)
           (\<lambda>u a. a\<lparr>iso1CanonicalizationMethod_Algorithm_charactersLen := u\<rparr>)))] 312 x s
      else if grammarID = 115 then
        decode_switch 2
         [(0, decode_unsupported 116),
          (1, decode_end 4),
          (2, decode_child 116
            (decode_used (\<lambda>a. a\<lparr>iso1CanonicalizationMethod_ANY_isUsed := True\<rparr>)
            (decode_string_field j 51 iso1CanonicalizationMethod_ANY_characters
            (\<lambda>u a. a\<lparr>iso1CanonicalizationMethod_ANY_characters := u\<rparr>)
            (\<lambda>u a. a\<lparr>iso1CanonicalizationMethod_ANY_charactersLen := u\<rparr>))))] 115 x s
      else if grammarID = 116 then
        decode_switch 2
         [(0, decode_unsupported 116),
          (1, decode_end 4),
          (2, decode_child 116
            (decode_used (\<lambda>a. a\<lparr>iso1CanonicalizationMethod_ANY_isUsed := True\<rparr>)
            (decode_string_field j 51 iso1CanonicalizationMethod_ANY_characters
            (\<lambda>u a. a\<lparr>iso1CanonicalizationMethod_ANY_characters := u\<rparr>)
            (\<lambda>u a. a\<lparr>iso1CanonicalizationMethod_ANY_charactersLen := u\<rparr>))))] 116 x s
      else Some (EXI_ERROR_UNKOWN_GRAMMAR_ID, (False, grammarID, x), s))"

definition decode_iso1CanonicalizationMethodType :: "u32 \<Rightarrow> iso1CanonicalizationMethodType decoder" where
  "decode_iso1CanonicalizationMethodType j x s = grammar_loop (iso1CanonicalizationMethod_dec_step j) 312
      (fst x, init_iso1CanonicalizationMethodType (snd x)) s"

definition iso1CanonicalizationMethod_ok :: "iso1CanonicalizationMethodType \<Rightarrow> bool" where
  "iso1CanonicalizationMethod_ok v \<longleftrightarrow>
     string_ok 66 (iso1CanonicalizationMethod_Algorithm_characters v)
       (iso1CanonicalizationMethod_Algorithm_charactersLen v) \<and>
     when_used (iso1CanonicalizationMethod_ANY_isUsed v)
       (string_ok 51 (iso1CanonicalizationMethod_ANY_characters v) (iso1CanonicalizationMethod_ANY_charactersLen v))"

definition iso1CanonicalizationMethod_sized :: "iso1CanonicalizationMethodType \<Rightarrow> bool" where
  "iso1CanonicalizationMethod_sized a \<longleftrightarrow>
     length (iso1CanonicalizationMethod_Algorithm_characters a) = 66 \<and>
     length (iso1CanonicalizationMethod_ANY_characters a) = 51"

definition same_iso1CanonicalizationMethod :: "iso1CanonicalizationMethodType \<Rightarrow>
    iso1CanonicalizationMethodType \<Rightarrow> bool" where
  "same_iso1CanonicalizationMethod v a \<longleftrightarrow>
     iso1CanonicalizationMethod_Algorithm_charactersLen a = iso1CanonicalizationMethod_Algorithm_charactersLen v
       \<and> take (unat (iso1CanonicalizationMethod_Algorithm_charactersLen v))
       (iso1CanonicalizationMethod_Algorithm_characters a) = take
       (unat (iso1CanonicalizationMethod_Algorithm_charactersLen v))
       (iso1CanonicalizationMethod_Algorithm_characters v) \<and>
     kept (iso1CanonicalizationMethod_ANY_isUsed v) (iso1CanonicalizationMethod_ANY_isUsed a)
       (iso1CanonicalizationMethod_ANY_charactersLen a = iso1CanonicalizationMethod_ANY_charactersLen v \<and>
       take (unat (iso1CanonicalizationMethod_ANY_charactersLen v))
       (iso1CanonicalizationMethod_ANY_characters a) = take (unat (iso1CanonicalizationMethod_ANY_charactersLen v))
       (iso1CanonicalizationMethod_ANY_characters v))"

definition iso1CanonicalizationMethod_at :: "iso1CanonicalizationMethodType \<Rightarrow> nat \<Rightarrow>
    iso1CanonicalizationMethod_locals \<Rightarrow> iso1CanonicalizationMethodType \<Rightarrow> bool" where
  "iso1CanonicalizationMethod_at v g x a \<longleftrightarrow>
     iso1CanonicalizationMethod_ok v \<and>
     g \<in> {312, 115, 116} \<and>
     iso1CanonicalizationMethod_sized a \<and>
     (g \<notin> {312} \<longrightarrow> iso1CanonicalizationMethod_Algorithm_charactersLen
       a = iso1CanonicalizationMethod_Algorithm_charactersLen v \<and>
       take (unat (iso1CanonicalizationMethod_Algorithm_charactersLen v))
       (iso1CanonicalizationMethod_Algorithm_characters a) = take
       (unat (iso1CanonicalizationMethod_Algorithm_charactersLen v))
       (iso1CanonicalizationMethod_Algorithm_characters v)) \<and>
     kept (iso1CanonicalizationMethod_wcDone x) (iso1CanonicalizationMethod_ANY_isUsed a)
       (iso1CanonicalizationMethod_ANY_isUsed v \<and> iso1CanonicalizationMethod_ANY_charactersLen
       a = iso1CanonicalizationMethod_ANY_charactersLen v \<and>
       take (unat (iso1CanonicalizationMethod_ANY_charactersLen v))
       (iso1CanonicalizationMethod_ANY_characters a) = take (unat (iso1CanonicalizationMethod_ANY_charactersLen v))
       (iso1CanonicalizationMethod_ANY_characters v))"

definition iso1CanonicalizationMethod_rank :: "iso1CanonicalizationMethodType \<Rightarrow> nat \<Rightarrow>
    iso1CanonicalizationMethod_locals \<Rightarrow> nat" where
  "iso1CanonicalizationMethod_rank v g x = left_at [(312, 555), (115, 2), (116, 2)] g +
      (if iso1CanonicalizationMethod_wcDone x then 0 else 434)"

lemmas iso1CanonicalizationMethod_steps = iso1CanonicalizationMethod_enc_step_def
  iso1CanonicalizationMethod_dec_step_def

lemmas iso1CanonicalizationMethod_props = iso1CanonicalizationMethod_at_def iso1CanonicalizationMethod_sized_def
    same_iso1CanonicalizationMethod_def iso1CanonicalizationMethod_rank_def left_at_def

interpretation iso1CanonicalizationMethod: walking_pair "iso1CanonicalizationMethod_enc_step v"
    "iso1CanonicalizationMethod_dec_step j" "iso1CanonicalizationMethod_at v" "iso1CanonicalizationMethod_rank v"
  "\<lambda>a. same_iso1CanonicalizationMethod v a \<and> iso1CanonicalizationMethod_sized a" for v j
proof
  fix g x a assume at: "iso1CanonicalizationMethod_at v g x a"
  then have "g \<in> {312, 115, 116}" by (simp add: iso1CanonicalizationMethod_at_def)
  then show "walks (iso1CanonicalizationMethod_enc_step v) (iso1CanonicalizationMethod_dec_step j)
      (iso1CanonicalizationMethod_at v) (iso1CanonicalizationMethod_rank v)
    (\<lambda>a. same_iso1CanonicalizationMethod v a \<and> iso1CanonicalizationMethod_sized a) g x a" using at
    by - (elim insertE emptyE; (hypsubst, rule walks_by, simp (no_asm) add: iso1CanonicalizationMethod_steps del:
      One_nat_def,
      simp (no_asm) add: iso1CanonicalizationMethod_steps del: One_nat_def,
        simp (asm_lr) add: iso1CanonicalizationMethod_props del: One_nat_def, (elim conjE)?,
      ((rule walks_ifs)+)?); (frule iso1CanonicalizationMethod_ok_def [THEN iffD1], ((drule (1) known)+)?,
        (elim conjE)?, ((drule (1) known)+)?, (elim conjE)?,
      (((rule walks_shapes, simp (no_asm) del: One_nat_def, ((rule reads_intros)+)?);
      ((elim exE conjE)?,
        ((simp (no_asm_simp) add: iso1CanonicalizationMethod_props; fail) |
        (simp (asm_lr) add: iso1CanonicalizationMethod_props; fail) |
        (auto simp: iso1CanonicalizationMethod_props; fail)))) | (erule (1) notE; fail) |
        ((elim exE conjE)?,
        ((simp (no_asm_simp) add: iso1CanonicalizationMethod_props; fail) |
        (simp (asm_lr) add: iso1CanonicalizationMethod_props; fail) |
        (auto simp: iso1CanonicalizationMethod_props; fail))))))
qed

lemma reads_iso1CanonicalizationMethod [reads_intros]:
  "iso1CanonicalizationMethod_ok v \<Longrightarrow> iso1CanonicalizationMethod_sized a \<Longrightarrow>
      reads 989 (\<lambda>s. encode_iso1CanonicalizationMethodType s v) (decode_iso1CanonicalizationMethodType j) a
      (\<lambda>a. same_iso1CanonicalizationMethod v a \<and> iso1CanonicalizationMethod_sized a)"
  unfolding encode_iso1CanonicalizationMethodType_def decode_iso1CanonicalizationMethodType_def [abs_def]
  by (rule reads_start [OF iso1CanonicalizationMethod.walk_reads, THEN reads_mono])
      (auto simp: iso1CanonicalizationMethod_props  counts_def due_def init_iso1CanonicalizationMethodType_def)

subsection \<open>\<open>iso1SignatureMethodType\<close>\<close>

record iso1SignatureMethodType =
  iso1SignatureMethod_Algorithm_characters :: "u8 list"
  iso1SignatureMethod_Algorithm_charactersLen :: u16
  iso1SignatureMethod_HMACOutputLength :: u64
  iso1SignatureMethod_HMACOutputLength_isUsed :: bool
  iso1SignatureMethod_ANY_characters :: "u8 list"
  iso1SignatureMethod_ANY_charactersLen :: u16
  iso1SignatureMethod_ANY_isUsed :: bool

definition init_iso1SignatureMethodType :: "iso1SignatureMethodType \<Rightarrow> iso1SignatureMethodType" where
  "init_iso1SignatureMethodType a = a\<lparr>iso1SignatureMethod_HMACOutputLength_isUsed := False,
      iso1SignatureMethod_ANY_isUsed := False\<rparr>"

record iso1SignatureMethod_locals =
  iso1SignatureMethod_wcDone :: bool

definition iso1SignatureMethod_enc_step :: "iso1SignatureMethodType \<Rightarrow> iso1SignatureMethod_locals machine"
    where
  "iso1SignatureMethod_enc_step v grammarID x s =
     (if grammarID = 210 then
        goto 211 x
          (encode_child 1 0 (encode_string_field (iso1SignatureMethod_Algorithm_characters v)
          (iso1SignatureMethod_Algorithm_charactersLen v)) s)
      else if grammarID = 211 then
        if iso1SignatureMethod_HMACOutputLength_isUsed v then
          goto 116 x (encode_simple 3 0 (\<lambda>s. encodeInteger64 s (iso1SignatureMethod_HMACOutputLength v)) s)
        else if \<not> iso1SignatureMethod_ANY_isUsed v \<or> iso1SignatureMethod_wcDone x then
          finish 4 x (encodeNBitUnsignedInteger s 3 2)
        else if iso1SignatureMethod_ANY_isUsed v then goto 212 (x\<lparr>iso1SignatureMethod_wcDone := True\<rparr>)
          (encode_child 3 3
          (encode_string_field (iso1SignatureMethod_ANY_characters v) (iso1SignatureMethod_ANY_charactersLen v)) s)
        else Some (EXI_ERROR_UNKOWN_EVENT, (False, grammarID, x), s)
      else if grammarID = 116 then
        if \<not> iso1SignatureMethod_ANY_isUsed v \<or> iso1SignatureMethod_wcDone x then
          finish 4 x (encodeNBitUnsignedInteger s 2 1)
        else if iso1SignatureMethod_ANY_isUsed v then goto 116 (x\<lparr>iso1SignatureMethod_wcDone := True\<rparr>)
          (encode_child 2 2
          (encode_string_field (iso1SignatureMethod_ANY_characters v) (iso1SignatureMethod_ANY_charactersLen v)) s)
        else Some (EXI_ERROR_UNKOWN_EVENT, (False, grammarID, x), s)
      else if grammarID = 212 then
        if iso1SignatureMethod_HMACOutputLength_isUsed v then
          goto 116 x (encode_simple 3 0 (\<lambda>s. encodeInteger64 s (iso1SignatureMethod_HMACOutputLength v)) s)
        else if \<not> iso1SignatureMethod_ANY_isUsed v \<or> iso1SignatureMethod_wcDone x then
          finish 4 x (encodeNBitUnsignedInteger s 3 2)
        else if iso1SignatureMethod_ANY_isUsed v then goto 212 (x\<lparr>iso1SignatureMethod_wcDone := True\<rparr>)
          (encode_child 3 3
          (encode_string_field (iso1SignatureMethod_ANY_characters v) (iso1SignatureMethod_ANY_charactersLen v)) s)
        else Some (EXI_ERROR_UNKOWN_EVENT, (False, grammarID, x), s)
      else Some (EXI_ERROR_UNKOWN_GRAMMAR_ID, (False, grammarID, x), s))"

definition encode_iso1SignatureMethodType :: "bitstream \<Rightarrow> iso1SignatureMethodType \<Rightarrow>
    (errn \<times> bitstream) option" where
  "encode_iso1SignatureMethodType s v = run_encoder (iso1SignatureMethod_enc_step v) 210
      \<lparr>iso1SignatureMethod_wcDone = False\<rparr> s"

definition iso1SignatureMethod_dec_step :: "u32 \<Rightarrow> (dec_static \<times> iso1SignatureMethodType) machine"
    where
  "iso1SignatureMethod_dec_step j grammarID x s =
     (if grammarID = 210 then
        decode_switch 1
         [(0, decode_child 211 (decode_string_field j 66 iso1SignatureMethod_Algorithm_characters
           (\<lambda>u a. a\<lparr>iso1SignatureMethod_Algorithm_characters := u\<rparr>)
           (\<lambda>u a. a\<lparr>iso1SignatureMethod_Algorithm_charactersLen := u\<rparr>)))] 210 x s
      else if grammarID = 211 then
        decode_switch 3
         [(0, decode_simple 211 116
           (decode_used (\<lambda>a. a\<lparr>iso1SignatureMethod_HMACOutputLength_isUsed := True\<rparr>)
           (decode_i64_field j iso1SignatureMethod_HMACOutputLength
           (\<lambda>u a. a\<lparr>iso1SignatureMethod_HMACOutputLength := u\<rparr>)))),
          (1, decode_unsupported 116),
          (2, decode_end 4),
          (3, decode_child 212 (decode_used (\<lambda>a. a\<lparr>iso1SignatureMethod_ANY_isUsed := True\<rparr>)
            (decode_string_field j 51 iso1SignatureMethod_ANY_characters
            (\<lambda>u a. a\<lparr>iso1SignatureMethod_ANY_characters := u\<rparr>)
            (\<lambda>u a. a\<lparr>iso1SignatureMethod_ANY_charactersLen := u\<rparr>))))] 211 x s
      else if grammarID = 116 then
        decode_switch 2
         [(0, decode_unsupported 116),
          (1, decode_end 4),
          (2, decode_child 116 (decode_used (\<lambda>a. a\<lparr>iso1SignatureMethod_ANY_isUsed := True\<rparr>)
            (decode_string_field j 51 iso1SignatureMethod_ANY_characters
            (\<lambda>u a. a\<lparr>iso1SignatureMethod_ANY_characters := u\<rparr>)
            (\<lambda>u a. a\<lparr>iso1SignatureMethod_ANY_charactersLen := u\<rparr>))))] 116 x s
      else if grammarID = 212 then
        decode_switch 3
         [(0, decode_simple 212 116
           (decode_used (\<lambda>a. a\<lparr>iso1SignatureMethod_HMACOutputLength_isUsed := True\<rparr>)
           (decode_i64_field j iso1SignatureMethod_HMACOutputLength
           (\<lambda>u a. a\<lparr>iso1SignatureMethod_HMACOutputLength := u\<rparr>)))),
          (1, decode_unsupported 116),
          (2, decode_end 4),
          (3, decode_child 212 (decode_used (\<lambda>a. a\<lparr>iso1SignatureMethod_ANY_isUsed := True\<rparr>)
            (decode_string_field j 51 iso1SignatureMethod_ANY_characters
            (\<lambda>u a. a\<lparr>iso1SignatureMethod_ANY_characters := u\<rparr>)
            (\<lambda>u a. a\<lparr>iso1SignatureMethod_ANY_charactersLen := u\<rparr>))))] 212 x s
      else Some (EXI_ERROR_UNKOWN_GRAMMAR_ID, (False, grammarID, x), s))"

definition decode_iso1SignatureMethodType :: "u32 \<Rightarrow> iso1SignatureMethodType decoder" where
  "decode_iso1SignatureMethodType j x s = grammar_loop (iso1SignatureMethod_dec_step j) 210
      (fst x, init_iso1SignatureMethodType (snd x)) s"

definition iso1SignatureMethod_ok :: "iso1SignatureMethodType \<Rightarrow> bool" where
  "iso1SignatureMethod_ok v \<longleftrightarrow>
     string_ok 66 (iso1SignatureMethod_Algorithm_characters v) (iso1SignatureMethod_Algorithm_charactersLen v) \<and>
     when_used (iso1SignatureMethod_HMACOutputLength_isUsed v)
       (sint (iso1SignatureMethod_HMACOutputLength v) \<noteq> - (2 ^ 63)) \<and>
     when_used (iso1SignatureMethod_ANY_isUsed v)
       (string_ok 51 (iso1SignatureMethod_ANY_characters v) (iso1SignatureMethod_ANY_charactersLen v))"

definition iso1SignatureMethod_sized :: "iso1SignatureMethodType \<Rightarrow> bool" where
  "iso1SignatureMethod_sized a \<longleftrightarrow>
     length (iso1SignatureMethod_Algorithm_characters a) = 66 \<and>
     length (iso1SignatureMethod_ANY_characters a) = 51"

definition same_iso1SignatureMethod :: "iso1SignatureMethodType \<Rightarrow> iso1SignatureMethodType \<Rightarrow>
    bool" where
  "same_iso1SignatureMethod v a \<longleftrightarrow>
     iso1SignatureMethod_Algorithm_charactersLen a = iso1SignatureMethod_Algorithm_charactersLen v \<and>
       take (unat (iso1SignatureMethod_Algorithm_charactersLen v)) (iso1SignatureMethod_Algorithm_characters a) = take
       (unat (iso1SignatureMethod_Algorithm_charactersLen v)) (iso1SignatureMethod_Algorithm_characters v) \<and>
     kept (iso1SignatureMethod_HMACOutputLength_isUsed v) (iso1SignatureMethod_HMACOutputLength_isUsed a)
       (iso1SignatureMethod_HMACOutputLength a = iso1SignatureMethod_HMACOutputLength v) \<and>
     kept (iso1SignatureMethod_ANY_isUsed v) (iso1SignatureMethod_ANY_isUsed a)
       (iso1SignatureMethod_ANY_charactersLen a = iso1SignatureMethod_ANY_charactersLen v \<and>
       take (unat (iso1SignatureMethod_ANY_charactersLen v)) (iso1SignatureMethod_ANY_characters a) = take
       (unat (iso1SignatureMethod_ANY_charactersLen v)) (iso1SignatureMethod_ANY_characters v))"

definition iso1SignatureMethod_at :: "iso1SignatureMethodType \<Rightarrow> nat \<Rightarrow>
    iso1SignatureMethod_locals \<Rightarrow> iso1SignatureMethodType \<Rightarrow> bool" where
  "iso1SignatureMethod_at v g x a \<longleftrightarrow>
     iso1SignatureMethod_ok v \<and>
     g \<in> {210, 211, 116, 212} \<and>
     iso1SignatureMethod_sized a \<and>
     (g \<notin> {210} \<longrightarrow> iso1SignatureMethod_Algorithm_charactersLen
       a = iso1SignatureMethod_Algorithm_charactersLen v \<and>
       take (unat (iso1SignatureMethod_Algorithm_charactersLen v)) (iso1SignatureMethod_Algorithm_characters a) = take
       (unat (iso1SignatureMethod_Algorithm_charactersLen v)) (iso1SignatureMethod_Algorithm_characters v)) \<and>
     (if g \<in> {210, 211, 212} then \<not> iso1SignatureMethod_HMACOutputLength_isUsed a
      else kept (iso1SignatureMethod_HMACOutputLength_isUsed v) (iso1SignatureMethod_HMACOutputLength_isUsed a)
        (iso1SignatureMethod_HMACOutputLength a = iso1SignatureMethod_HMACOutputLength v)) \<and>
     kept (iso1SignatureMethod_wcDone x) (iso1SignatureMethod_ANY_isUsed a) (iso1SignatureMethod_ANY_isUsed v \<and>
       iso1SignatureMethod_ANY_charactersLen a = iso1SignatureMethod_ANY_charactersLen v \<and>
       take (unat (iso1SignatureMethod_ANY_charactersLen v)) (iso1SignatureMethod_ANY_characters a) = take
       (unat (iso1SignatureMethod_ANY_charactersLen v)) (iso1SignatureMethod_ANY_characters v))"

definition iso1SignatureMethod_rank :: "iso1SignatureMethodType \<Rightarrow> nat \<Rightarrow>
    iso1SignatureMethod_locals \<Rightarrow> nat" where
  "iso1SignatureMethod_rank v g x = left_at [(210, 641), (211, 88), (116, 2), (212, 88)] g +
      (if iso1SignatureMethod_wcDone x then 0 else 435)"

lemmas iso1SignatureMethod_steps = iso1SignatureMethod_enc_step_def
  iso1SignatureMethod_dec_step_def

lemmas iso1SignatureMethod_props = iso1SignatureMethod_at_def iso1SignatureMethod_sized_def
    same_iso1SignatureMethod_def iso1SignatureMethod_rank_def left_at_def

interpretation iso1SignatureMethod: walking_pair "iso1SignatureMethod_enc_step v" "iso1SignatureMethod_dec_step j"
    "iso1SignatureMethod_at v" "iso1SignatureMethod_rank v"
  "\<lambda>a. same_iso1SignatureMethod v a \<and> iso1SignatureMethod_sized a" for v j
proof
  fix g x a assume at: "iso1SignatureMethod_at v g x a"
  then have "g \<in> {210, 211, 116, 212}" by (simp add: iso1SignatureMethod_at_def)
  then show "walks (iso1SignatureMethod_enc_step v) (iso1SignatureMethod_dec_step j) (iso1SignatureMethod_at v)
      (iso1SignatureMethod_rank v)
    (\<lambda>a. same_iso1SignatureMethod v a \<and> iso1SignatureMethod_sized a) g x a" using at
    by - (elim insertE emptyE; (hypsubst, rule walks_by, simp (no_asm) add: iso1SignatureMethod_steps del:
      One_nat_def,
      simp (no_asm) add: iso1SignatureMethod_steps del: One_nat_def, simp (asm_lr) add: iso1SignatureMethod_props del:
        One_nat_def, (elim conjE)?,
      ((rule walks_ifs)+)?); (frule iso1SignatureMethod_ok_def [THEN iffD1], ((drule (1) known)+)?, (elim conjE)?,
        ((drule (1) known)+)?, (elim conjE)?,
      (((rule walks_shapes, simp (no_asm) del: One_nat_def, ((rule reads_intros)+)?);
      ((elim exE conjE)?,
        ((simp (no_asm_simp) add: iso1SignatureMethod_props; fail) |
        (simp (asm_lr) add: iso1SignatureMethod_props; fail) | (auto simp: iso1SignatureMethod_props; fail)))) |
        (erule (1) notE; fail) |
        ((elim exE conjE)?,
        ((simp (no_asm_simp) add: iso1SignatureMethod_props; fail) |
        (simp (asm_lr) add: iso1SignatureMethod_props; fail) | (auto simp: iso1SignatureMethod_props; fail))))))
qed

lemma reads_iso1SignatureMethod [reads_intros]:
  "iso1SignatureMethod_ok v \<Longrightarrow> iso1SignatureMethod_sized a \<Longrightarrow>
      reads 1076 (\<lambda>s. encode_iso1SignatureMethodType s v) (decode_iso1SignatureMethodType j) a
      (\<lambda>a. same_iso1SignatureMethod v a \<and> iso1SignatureMethod_sized a)"
  unfolding encode_iso1SignatureMethodType_def decode_iso1SignatureMethodType_def [abs_def]
  by (rule reads_start [OF iso1SignatureMethod.walk_reads, THEN reads_mono])
      (auto simp: iso1SignatureMethod_props  counts_def due_def init_iso1SignatureMethodType_def)

subsection \<open>\<open>iso1DigestMethodType\<close>\<close>

record iso1DigestMethodType =
  iso1DigestMethod_Algorithm_characters :: "u8 list"
  iso1DigestMethod_Algorithm_charactersLen :: u16
  iso1DigestMethod_ANY_characters :: "u8 list"
  iso1DigestMethod_ANY_charactersLen :: u16
  iso1DigestMethod_ANY_isUsed :: bool

definition init_iso1DigestMethodType :: "iso1DigestMethodType \<Rightarrow> iso1DigestMethodType" where
  "init_iso1DigestMethodType a = a\<lparr>iso1DigestMethod_ANY_isUsed := False\<rparr>"

record iso1DigestMethod_locals =
  iso1DigestMethod_wcDone :: bool

definition iso1DigestMethod_enc_step :: "iso1DigestMethodType \<Rightarrow> iso1DigestMethod_locals machine" where
  "iso1DigestMethod_enc_step v grammarID x s =
     (if grammarID = 312 then
        goto 115 x
          (encode_child 1 0 (encode_string_field (iso1DigestMethod_Algorithm_characters v)
          (iso1DigestMethod_Algorithm_charactersLen v)) s)
      else if grammarID = 115 then
        if \<not> iso1DigestMethod_ANY_isUsed v \<or> iso1DigestMethod_wcDone x then
          finish 4 x (encodeNBitUnsignedInteger s 2 1)
        else if iso1DigestMethod_ANY_isUsed v then goto 116 (x\<lparr>iso1DigestMethod_wcDone := True\<rparr>)
          (encode_child 2 2
          (encode_string_field (iso1DigestMethod_ANY_characters v) (iso1DigestMethod_ANY_charactersLen v)) s)
        else Some (EXI_ERROR_UNKOWN_EVENT, (False, grammarID, x), s)
      else if grammarID = 116 then
        if \<not> iso1DigestMethod_ANY_isUsed v \<or> iso1DigestMethod_wcDone x then
          finish 4 x (encodeNBitUnsignedInteger s 2 1)
        else if iso1DigestMethod_ANY_isUsed v then goto 116 (x\<lparr>iso1DigestMethod_wcDone := True\<rparr>)
          (encode_child 2 2
          (encode_string_field (iso1DigestMethod_ANY_characters v) (iso1DigestMethod_ANY_charactersLen v)) s)
        else Some (EXI_ERROR_UNKOWN_EVENT, (False, grammarID, x), s)
      else Some (EXI_ERROR_UNKOWN_GRAMMAR_ID, (False, grammarID, x), s))"

definition encode_iso1DigestMethodType :: "bitstream \<Rightarrow> iso1DigestMethodType \<Rightarrow>
    (errn \<times> bitstream) option" where
  "encode_iso1DigestMethodType s v = run_encoder (iso1DigestMethod_enc_step v) 312
      \<lparr>iso1DigestMethod_wcDone = False\<rparr> s"

definition iso1DigestMethod_dec_step :: "u32 \<Rightarrow> (dec_static \<times> iso1DigestMethodType) machine" where
  "iso1DigestMethod_dec_step j grammarID x s =
     (if grammarID = 312 then
        decode_switch 1
         [(0, decode_child 115 (decode_string_field j 66 iso1DigestMethod_Algorithm_characters
           (\<lambda>u a. a\<lparr>iso1DigestMethod_Algorithm_characters := u\<rparr>)
           (\<lambda>u a. a\<lparr>iso1DigestMethod_Algorithm_charactersLen := u\<rparr>)))] 312 x s
      else if grammarID = 115 then
        decode_switch 2
         [(0, decode_unsupported 116),
          (1, decode_end 4),
          (2, decode_child 116 (decode_used (\<lambda>a. a\<lparr>iso1DigestMethod_ANY_isUsed := True\<rparr>)
            (decode_string_field j 51 iso1DigestMethod_ANY_characters
            (\<lambda>u a. a\<lparr>iso1DigestMethod_ANY_characters := u\<rparr>)
            (\<lambda>u a. a\<lparr>iso1DigestMethod_ANY_charactersLen := u\<rparr>))))] 115 x s
      else if grammarID = 116 then
        decode_switch 2
         [(0, decode_unsupported 116),
          (1, decode_end 4),
          (2, decode_child 116 (decode_used (\<lambda>a. a\<lparr>iso1DigestMethod_ANY_isUsed := True\<rparr>)
            (decode_string_field j 51 iso1DigestMethod_ANY_characters
            (\<lambda>u a. a\<lparr>iso1DigestMethod_ANY_characters := u\<rparr>)
            (\<lambda>u a. a\<lparr>iso1DigestMethod_ANY_charactersLen := u\<rparr>))))] 116 x s
      else Some (EXI_ERROR_UNKOWN_GRAMMAR_ID, (False, grammarID, x), s))"

definition decode_iso1DigestMethodType :: "u32 \<Rightarrow> iso1DigestMethodType decoder" where
  "decode_iso1DigestMethodType j x s = grammar_loop (iso1DigestMethod_dec_step j) 312
      (fst x, init_iso1DigestMethodType (snd x)) s"

definition iso1DigestMethod_ok :: "iso1DigestMethodType \<Rightarrow> bool" where
  "iso1DigestMethod_ok v \<longleftrightarrow>
     string_ok 66 (iso1DigestMethod_Algorithm_characters v) (iso1DigestMethod_Algorithm_charactersLen v) \<and>
     when_used (iso1DigestMethod_ANY_isUsed v)
       (string_ok 51 (iso1DigestMethod_ANY_characters v) (iso1DigestMethod_ANY_charactersLen v))"

definition iso1DigestMethod_sized :: "iso1DigestMethodType \<Rightarrow> bool" where
  "iso1DigestMethod_sized a \<longleftrightarrow>
     length (iso1DigestMethod_Algorithm_characters a) = 66 \<and>
     length (iso1DigestMethod_ANY_characters a) = 51"

definition same_iso1DigestMethod :: "iso1DigestMethodType \<Rightarrow> iso1DigestMethodType \<Rightarrow> bool" where
  "same_iso1DigestMethod v a \<longleftrightarrow>
     iso1DigestMethod_Algorithm_charactersLen a = iso1DigestMethod_Algorithm_charactersLen v \<and>
       take (unat (iso1DigestMethod_Algorithm_charactersLen v)) (iso1DigestMethod_Algorithm_characters a) = take
       (unat (iso1DigestMethod_Algorithm_charactersLen v)) (iso1DigestMethod_Algorithm_characters v) \<and>
     kept (iso1DigestMethod_ANY_isUsed v) (iso1DigestMethod_ANY_isUsed a)
       (iso1DigestMethod_ANY_charactersLen a = iso1DigestMethod_ANY_charactersLen v \<and>
       take (unat (iso1DigestMethod_ANY_charactersLen v)) (iso1DigestMethod_ANY_characters a) = take
       (unat (iso1DigestMethod_ANY_charactersLen v)) (iso1DigestMethod_ANY_characters v))"

definition iso1DigestMethod_at :: "iso1DigestMethodType \<Rightarrow> nat \<Rightarrow> iso1DigestMethod_locals
    \<Rightarrow> iso1DigestMethodType \<Rightarrow> bool" where
  "iso1DigestMethod_at v g x a \<longleftrightarrow>
     iso1DigestMethod_ok v \<and>
     g \<in> {312, 115, 116} \<and>
     iso1DigestMethod_sized a \<and>
     (g \<notin> {312} \<longrightarrow> iso1DigestMethod_Algorithm_charactersLen
       a = iso1DigestMethod_Algorithm_charactersLen v \<and> take (unat (iso1DigestMethod_Algorithm_charactersLen v))
       (iso1DigestMethod_Algorithm_characters a) = take (unat (iso1DigestMethod_Algorithm_charactersLen v))
       (iso1DigestMethod_Algorithm_characters v)) \<and>
     kept (iso1DigestMethod_wcDone x) (iso1DigestMethod_ANY_isUsed a) (iso1DigestMethod_ANY_isUsed v \<and>
       iso1DigestMethod_ANY_charactersLen a = iso1DigestMethod_ANY_charactersLen v \<and>
       take (unat (iso1DigestMethod_ANY_charactersLen v)) (iso1DigestMethod_ANY_characters a) = take
       (unat (iso1DigestMethod_ANY_charactersLen v)) (iso1DigestMethod_ANY_characters v))"

definition iso1DigestMethod_rank :: "iso1DigestMethodType \<Rightarrow> nat \<Rightarrow> iso1DigestMethod_locals
    \<Rightarrow> nat" where
  "iso1DigestMethod_rank v g x = left_at [(312, 555), (115, 2), (116, 2)] g + (if iso1DigestMethod_wcDone x then
      0 else 434)"

lemmas iso1DigestMethod_steps = iso1DigestMethod_enc_step_def
  iso1DigestMethod_dec_step_def

lemmas iso1DigestMethod_props = iso1DigestMethod_at_def iso1DigestMethod_sized_def same_iso1DigestMethod_def
    iso1DigestMethod_rank_def left_at_def

interpretation iso1DigestMethod: walking_pair "iso1DigestMethod_enc_step v" "iso1DigestMethod_dec_step j"
    "iso1DigestMethod_at v" "iso1DigestMethod_rank v"
  "\<lambda>a. same_iso1DigestMethod v a \<and> iso1DigestMethod_sized a" for v j
proof
  fix g x a assume at: "iso1DigestMethod_at v g x a"
  then have "g \<in> {312, 115, 116}" by (simp add: iso1DigestMethod_at_def)
  then show "walks (iso1DigestMethod_enc_step v) (iso1DigestMethod_dec_step j) (iso1DigestMethod_at v)
      (iso1DigestMethod_rank v)
    (\<lambda>a. same_iso1DigestMethod v a \<and> iso1DigestMethod_sized a) g x a" using at
    by - (elim insertE emptyE; (hypsubst, rule walks_by, simp (no_asm) add: iso1DigestMethod_steps del: One_nat_def,
      simp (no_asm) add: iso1DigestMethod_steps del: One_nat_def, simp (asm_lr) add: iso1DigestMethod_props del:
        One_nat_def, (elim conjE)?,
      ((rule walks_ifs)+)?); (frule iso1DigestMethod_ok_def [THEN iffD1], ((drule (1) known)+)?, (elim conjE)?,
        ((drule (1) known)+)?, (elim conjE)?,
      (((rule walks_shapes, simp (no_asm) del: One_nat_def, ((rule reads_intros)+)?);
      ((elim exE conjE)?,
        ((simp (no_asm_simp) add: iso1DigestMethod_props; fail) | (simp (asm_lr) add: iso1DigestMethod_props; fail) |
        (auto simp: iso1DigestMethod_props; fail)))) | (erule (1) notE; fail) |
        ((elim exE conjE)?,
        ((simp (no_asm_simp) add: iso1DigestMethod_props; fail) | (simp (asm_lr) add: iso1DigestMethod_props; fail) |
        (auto simp: iso1DigestMethod_props; fail))))))
qed

lemma reads_iso1DigestMethod [reads_intros]:
  "iso1DigestMethod_ok v \<Longrightarrow> iso1DigestMethod_sized a \<Longrightarrow>
      reads 989 (\<lambda>s. encode_iso1DigestMethodType s v) (decode_iso1DigestMethodType j) a
      (\<lambda>a. same_iso1DigestMethod v a \<and> iso1DigestMethod_sized a)"
  unfolding encode_iso1DigestMethodType_def decode_iso1DigestMethodType_def [abs_def]
  by (rule reads_start [OF iso1DigestMethod.walk_reads, THEN reads_mono])
      (auto simp: iso1DigestMethod_props  counts_def due_def init_iso1DigestMethodType_def)

subsection \<open>\<open>iso1TransformType\<close>\<close>

record iso1TransformType =
  iso1Transform_Algorithm_characters :: "u8 list"
  iso1Transform_Algorithm_charactersLen :: u16
  iso1Transform_ANY_characters :: "u8 list"
  iso1Transform_ANY_charactersLen :: u16
  iso1Transform_ANY_isUsed :: bool
  iso1Transform_XPath_array :: "sized_data list"
  iso1Transform_XPath_arrayLen :: u16

definition init_iso1TransformType :: "iso1TransformType \<Rightarrow> iso1TransformType" where
  "init_iso1TransformType a = a\<lparr>iso1Transform_ANY_isUsed := False, iso1Transform_XPath_arrayLen := 0\<rparr>"

record iso1Transform_locals =
  iso1Transform_XPath_currArrayIndex :: nat
  iso1Transform_wcDone :: bool

definition iso1Transform_enc_step :: "iso1TransformType \<Rightarrow> iso1Transform_locals machine" where
  "iso1Transform_enc_step v grammarID x s =
     (if grammarID = 245 then
        goto 246 x
          (encode_child 1 0
          (encode_string_field (iso1Transform_Algorithm_characters v) (iso1Transform_Algorithm_charactersLen v)) s)
      else if grammarID = 246 then
        if iso1Transform_XPath_currArrayIndex x < unat (iso1Transform_XPath_arrayLen v) then
          encode_array_data 3 0 247 encode_charactersLen encode_characters_of (iso1Transform_XPath_array v)
          iso1Transform_XPath_currArrayIndex iso1Transform_XPath_currArrayIndex_update x s
        else if \<not> iso1Transform_ANY_isUsed v \<or> iso1Transform_wcDone x then
          finish 4 x (encodeNBitUnsignedInteger s 3 2)
        else if iso1Transform_ANY_isUsed v then goto 247 (x\<lparr>iso1Transform_wcDone := True\<rparr>)
          (encode_child 3 3 (encode_string_field (iso1Transform_ANY_characters v) (iso1Transform_ANY_charactersLen v))
          s)
        else Some (EXI_ERROR_UNKOWN_EVENT, (False, grammarID, x), s)
      else if grammarID = 247 then
        if iso1Transform_XPath_currArrayIndex x < unat (iso1Transform_XPath_arrayLen v) then
          encode_array_data 3 0 247 encode_charactersLen encode_characters_of (iso1Transform_XPath_array v)
          iso1Transform_XPath_currArrayIndex iso1Transform_XPath_currArrayIndex_update x s
        else if \<not> iso1Transform_ANY_isUsed v \<or> iso1Transform_wcDone x then
          finish 4 x (encodeNBitUnsignedInteger s 3 2)
        else if iso1Transform_ANY_isUsed v then goto 247 (x\<lparr>iso1Transform_wcDone := True\<rparr>)
          (encode_child 3 3 (encode_string_field (iso1Transform_ANY_characters v) (iso1Transform_ANY_charactersLen v))
          s)
        else Some (EXI_ERROR_UNKOWN_EVENT, (False, grammarID, x), s)
      else Some (EXI_ERROR_UNKOWN_GRAMMAR_ID, (False, grammarID, x), s))"

definition encode_iso1TransformType :: "bitstream \<Rightarrow> iso1TransformType \<Rightarrow>
    (errn \<times> bitstream) option" where
  "encode_iso1TransformType s v = run_encoder (iso1Transform_enc_step v) 245
      \<lparr>iso1Transform_XPath_currArrayIndex = 0, iso1Transform_wcDone = False\<rparr> s"

abbreviation (input) decode_next_iso1Transform_XPath :: "u32 \<Rightarrow> iso1TransformType decoder" where
  "decode_next_iso1Transform_XPath j \<equiv> decode_element
      (decode_string_field j 51 fst (\<lambda>u e. (u, snd e)) (\<lambda>u e. (fst e, u))) iso1Transform_XPath_array
      iso1Transform_XPath_arrayLen
      (\<lambda>xs n a. a\<lparr>iso1Transform_XPath_array := xs, iso1Transform_XPath_arrayLen := n\<rparr>)"

definition iso1Transform_dec_step :: "u32 \<Rightarrow> (dec_static \<times> iso1TransformType) machine" where
  "iso1Transform_dec_step j grammarID x s =
     (if grammarID = 245 then
        decode_switch 1
         [(0, decode_child 246
           (decode_string_field j 66 iso1Transform_Algorithm_characters
           (\<lambda>u a. a\<lparr>iso1Transform_Algorithm_characters := u\<rparr>)
           (\<lambda>u a. a\<lparr>iso1Transform_Algorithm_charactersLen := u\<rparr>)))] 245 x s
      else if grammarID = 246 then
        decode_switch 3
         [(0, decode_array_simple 246 247 1 iso1Transform_XPath_arrayLen (decode_next_iso1Transform_XPath j)),
          (1, decode_unsupported 247),
          (2, decode_end 4),
          (3, decode_child 247 (decode_used (\<lambda>a. a\<lparr>iso1Transform_ANY_isUsed := True\<rparr>)
            (decode_string_field j 51 iso1Transform_ANY_characters
            (\<lambda>u a. a\<lparr>iso1Transform_ANY_characters := u\<rparr>)
            (\<lambda>u a. a\<lparr>iso1Transform_ANY_charactersLen := u\<rparr>))))] 246 x s
      else if grammarID = 247 then
        decode_switch 3
         [(0, decode_array_simple 247 247 1 iso1Transform_XPath_arrayLen (decode_next_iso1Transform_XPath j)),
          (1, decode_unsupported 247),
          (2, decode_end 4),
          (3, decode_child 247 (decode_used (\<lambda>a. a\<lparr>iso1Transform_ANY_isUsed := True\<rparr>)
            (decode_string_field j 51 iso1Transform_ANY_characters
            (\<lambda>u a. a\<lparr>iso1Transform_ANY_characters := u\<rparr>)
            (\<lambda>u a. a\<lparr>iso1Transform_ANY_charactersLen := u\<rparr>))))] 247 x s
      else Some (EXI_ERROR_UNKOWN_GRAMMAR_ID, (False, grammarID, x), s))"

definition decode_iso1TransformType :: "u32 \<Rightarrow> iso1TransformType decoder" where
  "decode_iso1TransformType j x s = grammar_loop (iso1Transform_dec_step j) 245
      (fst x, init_iso1TransformType (snd x)) s"

definition iso1Transform_ok :: "iso1TransformType \<Rightarrow> bool" where
  "iso1Transform_ok v \<longleftrightarrow>
     string_ok 66 (iso1Transform_Algorithm_characters v) (iso1Transform_Algorithm_charactersLen v) \<and>
     length (iso1Transform_XPath_array v) = 1 \<and> unat (iso1Transform_XPath_arrayLen v) \<le> 1 \<and>
       in_use (string_data_ok 51) (iso1Transform_XPath_array v) (iso1Transform_XPath_arrayLen v) \<and>
     when_used (iso1Transform_ANY_isUsed v)
       (string_ok 51 (iso1Transform_ANY_characters v) (iso1Transform_ANY_charactersLen v))"

definition iso1Transform_sized :: "iso1TransformType \<Rightarrow> bool" where
  "iso1Transform_sized a \<longleftrightarrow>
     length (iso1Transform_Algorithm_characters a) = 66 \<and>
     length (iso1Transform_XPath_array a) = 1 \<and>
     list_all (data_sized 51) (iso1Transform_XPath_array a) \<and>
     length (iso1Transform_ANY_characters a) = 51"

definition same_iso1Transform :: "iso1TransformType \<Rightarrow> iso1TransformType \<Rightarrow> bool" where
  "same_iso1Transform v a \<longleftrightarrow>
     iso1Transform_Algorithm_charactersLen a = iso1Transform_Algorithm_charactersLen v \<and>
       take (unat (iso1Transform_Algorithm_charactersLen v)) (iso1Transform_Algorithm_characters a) = take
       (unat (iso1Transform_Algorithm_charactersLen v)) (iso1Transform_Algorithm_characters v) \<and>
     iso1Transform_XPath_arrayLen a = iso1Transform_XPath_arrayLen v \<and>
       copied same_data (unat (iso1Transform_XPath_arrayLen v)) (iso1Transform_XPath_array v)
       (iso1Transform_XPath_array a) \<and>
     kept (iso1Transform_ANY_isUsed v) (iso1Transform_ANY_isUsed a)
       (iso1Transform_ANY_charactersLen a = iso1Transform_ANY_charactersLen v \<and>
       take (unat (iso1Transform_ANY_charactersLen v)) (iso1Transform_ANY_characters a) = take
       (unat (iso1Transform_ANY_charactersLen v)) (iso1Transform_ANY_characters v))"

definition iso1Transform_at :: "iso1TransformType \<Rightarrow> nat \<Rightarrow> iso1Transform_locals \<Rightarrow>
    iso1TransformType \<Rightarrow> bool" where
  "iso1Transform_at v g x a \<longleftrightarrow>
     counts [(245, 0), (246, 0)] g (iso1Transform_XPath_currArrayIndex x) \<and>
     iso1Transform_ok v \<and>
     g \<in> {245, 246, 247} \<and>
     iso1Transform_sized a \<and>
     (g \<notin> {245} \<longrightarrow> iso1Transform_Algorithm_charactersLen
       a = iso1Transform_Algorithm_charactersLen v \<and> take (unat (iso1Transform_Algorithm_charactersLen v))
       (iso1Transform_Algorithm_characters a) = take (unat (iso1Transform_Algorithm_charactersLen v))
       (iso1Transform_Algorithm_characters v)) \<and>
     unat (iso1Transform_XPath_arrayLen a) = iso1Transform_XPath_currArrayIndex x \<and>
       iso1Transform_XPath_currArrayIndex x \<le> unat (iso1Transform_XPath_arrayLen v) \<and>
     copied same_data (iso1Transform_XPath_currArrayIndex x) (iso1Transform_XPath_array v)
       (iso1Transform_XPath_array a) \<and>
     kept (iso1Transform_wcDone x) (iso1Transform_ANY_isUsed a) (iso1Transform_ANY_isUsed v \<and>
       iso1Transform_ANY_charactersLen a = iso1Transform_ANY_charactersLen v \<and>
       take (unat (iso1Transform_ANY_charactersLen v)) (iso1Transform_ANY_characters a) = take
       (unat (iso1Transform_ANY_charactersLen v)) (iso1Transform_ANY_characters v))"

definition iso1Transform_rank :: "iso1TransformType \<Rightarrow> nat \<Rightarrow> iso1Transform_locals \<Rightarrow>
    nat" where
  "iso1Transform_rank v g x = left_at [(245, 556), (246, 3), (247, 3)] g + due 437 (iso1Transform_XPath_arrayLen v)
      (iso1Transform_XPath_currArrayIndex x) + (if iso1Transform_wcDone x then 0 else 435)"

lemmas iso1Transform_steps = iso1Transform_enc_step_def
  iso1Transform_dec_step_def

lemmas iso1Transform_props = iso1Transform_at_def iso1Transform_sized_def same_iso1Transform_def
    iso1Transform_rank_def left_at_def

interpretation iso1Transform: walking_pair "iso1Transform_enc_step v" "iso1Transform_dec_step j" "iso1Transform_at v"
    "iso1Transform_rank v"
  "\<lambda>a. same_iso1Transform v a \<and> iso1Transform_sized a" for v j
proof
  fix g x a assume at: "iso1Transform_at v g x a"
  then have "g \<in> {245, 246, 247}" by (simp add: iso1Transform_at_def)
  then show "walks (iso1Transform_enc_step v) (iso1Transform_dec_step j) (iso1Transform_at v) (iso1Transform_rank v)
    (\<lambda>a. same_iso1Transform v a \<and> iso1Transform_sized a) g x a" using at
    by - (elim insertE emptyE; (hypsubst, rule walks_by, simp (no_asm) add: iso1Transform_steps del: One_nat_def,
      simp (no_asm) add: iso1Transform_steps del: One_nat_def, simp (asm_lr) add: iso1Transform_props del:
        One_nat_def, (elim conjE)?,
      ((rule walks_ifs)+)?); (frule iso1Transform_ok_def [THEN iffD1], ((drule (1) known)+)?, (elim conjE)?,
        ((drule (1) known)+)?, (elim conjE)?,
      (((rule walks_shapes, simp (no_asm) del: One_nat_def, ((rule reads_intros)+)?);
      ((elim exE conjE)?,
        ((simp (no_asm_simp) add: iso1Transform_props counts_def array_intros; fail) |
        (simp (asm_lr) add: iso1Transform_props counts_def array_intros; fail) |
        (auto simp: iso1Transform_props counts_def array_intros; fail)))) | (erule (1) notE; fail) |
        ((elim exE conjE)?,
        ((simp (no_asm_simp) add: iso1Transform_props counts_def array_intros; fail) |
        (simp (asm_lr) add: iso1Transform_props counts_def array_intros; fail) |
        (auto simp: iso1Transform_props counts_def array_intros; fail))))))
qed

lemma reads_iso1Transform [reads_intros]:
  "iso1Transform_ok v \<Longrightarrow> iso1Transform_sized a \<Longrightarrow>
      reads 1428 (\<lambda>s. encode_iso1TransformType s v) (decode_iso1TransformType j) a
      (\<lambda>a. same_iso1Transform v a \<and> iso1Transform_sized a)"
  unfolding encode_iso1TransformType_def decode_iso1TransformType_def [abs_def]
  by (rule reads_start [OF iso1Transform.walk_reads, THEN reads_mono])
      (auto simp: iso1Transform_props iso1Transform_ok_def counts_def due_def init_iso1TransformType_def)

subsection \<open>\<open>iso1TransformsType\<close>\<close>

record iso1TransformsType =
  iso1Transforms_Transform_array :: "iso1TransformType list"
  iso1Transforms_Transform_arrayLen :: u16

definition init_iso1TransformsType :: "iso1TransformsType \<Rightarrow> iso1TransformsType" where
  "init_iso1TransformsType a = a\<lparr>iso1Transforms_Transform_arrayLen := 0\<rparr>"

record iso1Transforms_locals =
  iso1Transforms_Transform_currArrayIndex :: nat

definition iso1Transforms_enc_step :: "iso1TransformsType \<Rightarrow> iso1Transforms_locals machine" where
  "iso1Transforms_enc_step v grammarID x s =
     (if grammarID = 200 then
        if iso1Transforms_Transform_currArrayIndex x < unat (iso1Transforms_Transform_arrayLen v) then
          encode_array_child 1 0 201 encode_iso1TransformType (iso1Transforms_Transform_array v)
          iso1Transforms_Transform_currArrayIndex iso1Transforms_Transform_currArrayIndex_update x s
        else Some (EXI_ERROR_UNKOWN_EVENT, (False, grammarID, x), s)
      else if grammarID = 201 then
        if iso1Transforms_Transform_currArrayIndex x < unat (iso1Transforms_Transform_arrayLen v) then
          encode_array_child 2 0 201 encode_iso1TransformType (iso1Transforms_Transform_array v)
          iso1Transforms_Transform_currArrayIndex iso1Transforms_Transform_currArrayIndex_update x s
        else finish 4 x (encodeNBitUnsignedInteger s 2 1)
      else Some (EXI_ERROR_UNKOWN_GRAMMAR_ID, (False, grammarID, x), s))"

definition encode_iso1TransformsType :: "bitstream \<Rightarrow> iso1TransformsType \<Rightarrow>
    (errn \<times> bitstream) option" where
  "encode_iso1TransformsType s v = run_encoder (iso1Transforms_enc_step v) 200
      \<lparr>iso1Transforms_Transform_currArrayIndex = 0\<rparr> s"

abbreviation (input) decode_next_iso1Transforms_Transform :: "u32 \<Rightarrow> iso1TransformsType decoder" where
  "decode_next_iso1Transforms_Transform j \<equiv> decode_element (decode_iso1TransformType j)
      iso1Transforms_Transform_array iso1Transforms_Transform_arrayLen
      (\<lambda>xs n a. a\<lparr>iso1Transforms_Transform_array := xs, iso1Transforms_Transform_arrayLen
      := n\<rparr>)"

definition iso1Transforms_dec_step :: "u32 \<Rightarrow> (dec_static \<times> iso1TransformsType) machine" where
  "iso1Transforms_dec_step j grammarID x s =
     (if grammarID = 200 then
        decode_switch 1
         [(0, decode_array_child 201 1 iso1Transforms_Transform_arrayLen (decode_next_iso1Transforms_Transform j))]
           200 x s
      else if grammarID = 201 then
        decode_switch 2
         [(0, decode_array_child 201 1 iso1Transforms_Transform_arrayLen (decode_next_iso1Transforms_Transform j)),
          (1, decode_end 4)] 201 x s
      else Some (EXI_ERROR_UNKOWN_GRAMMAR_ID, (False, grammarID, x), s))"

definition decode_iso1TransformsType :: "u32 \<Rightarrow> iso1TransformsType decoder" where
  "decode_iso1TransformsType j x s = grammar_loop (iso1Transforms_dec_step j) 200
      (fst x, init_iso1TransformsType (snd x)) s"

definition iso1Transforms_ok :: "iso1TransformsType \<Rightarrow> bool" where
  "iso1Transforms_ok v \<longleftrightarrow>
     length (iso1Transforms_Transform_array v) = 1 \<and> unat (iso1Transforms_Transform_arrayLen v) \<le> 1 \<and>
       in_use iso1Transform_ok (iso1Transforms_Transform_array v) (iso1Transforms_Transform_arrayLen v) \<and>
     unat (iso1Transforms_Transform_arrayLen v) \<noteq> 0"

definition iso1Transforms_sized :: "iso1TransformsType \<Rightarrow> bool" where
  "iso1Transforms_sized a \<longleftrightarrow>
     length (iso1Transforms_Transform_array a) = 1 \<and>
     list_all iso1Transform_sized (iso1Transforms_Transform_array a)"

definition same_iso1Transforms :: "iso1TransformsType \<Rightarrow> iso1TransformsType \<Rightarrow> bool" where
  "same_iso1Transforms v a \<longleftrightarrow>
     iso1Transforms_Transform_arrayLen a = iso1Transforms_Transform_arrayLen v \<and>
       copied same_iso1Transform (unat (iso1Transforms_Transform_arrayLen v)) (iso1Transforms_Transform_array v)
       (iso1Transforms_Transform_array a)"

definition iso1Transforms_at :: "iso1TransformsType \<Rightarrow> nat \<Rightarrow> iso1Transforms_locals
    \<Rightarrow> iso1TransformsType \<Rightarrow> bool" where
  "iso1Transforms_at v g x a \<longleftrightarrow>
     counts [(200, 0)] g (iso1Transforms_Transform_currArrayIndex x) \<and>
     iso1Transforms_ok v \<and>
     g \<in> {200, 201} \<and>
     iso1Transforms_sized a \<and>
     unat (iso1Transforms_Transform_arrayLen a) = iso1Transforms_Transform_currArrayIndex x \<and>
       iso1Transforms_Transform_currArrayIndex x \<le> unat (iso1Transforms_Transform_arrayLen v) \<and>
     copied same_iso1Transform (iso1Transforms_Transform_currArrayIndex x) (iso1Transforms_Transform_array v)
       (iso1Transforms_Transform_array a)"

definition iso1Transforms_rank :: "iso1TransformsType \<Rightarrow> nat \<Rightarrow> iso1Transforms_locals
    \<Rightarrow> nat" where
  "iso1Transforms_rank v g x = left_at [(200, 2), (201, 2)] g + due 1430 (iso1Transforms_Transform_arrayLen v)
      (iso1Transforms_Transform_currArrayIndex x)"

lemmas iso1Transforms_steps = iso1Transforms_enc_step_def
  iso1Transforms_dec_step_def

lemmas iso1Transforms_props = iso1Transforms_at_def iso1Transforms_sized_def same_iso1Transforms_def
    iso1Transforms_rank_def left_at_def

lemmas iso1Transforms_elements = in_use_nth [where P = iso1Transform_ok]
  slots_nth [where P = iso1Transform_sized]

interpretation iso1Transforms: walking_pair "iso1Transforms_enc_step v" "iso1Transforms_dec_step j" "iso1Transforms_at
    v" "iso1Transforms_rank v"
  "\<lambda>a. same_iso1Transforms v a \<and> iso1Transforms_sized a" for v j
proof
  fix g x a assume at: "iso1Transforms_at v g x a"
  then have "g \<in> {200, 201}" by (simp add: iso1Transforms_at_def)
  then show "walks (iso1Transforms_enc_step v) (iso1Transforms_dec_step j) (iso1Transforms_at v)
      (iso1Transforms_rank v)
    (\<lambda>a. same_iso1Transforms v a \<and> iso1Transforms_sized a) g x a" using at
    by - (elim insertE emptyE; (hypsubst, rule walks_by, simp (no_asm) add: iso1Transforms_steps del: One_nat_def,
      simp (no_asm) add: iso1Transforms_steps del: One_nat_def, simp (asm_lr) add: iso1Transforms_props del:
        One_nat_def, (elim conjE)?,
      ((rule walks_ifs)+)?); (frule iso1Transforms_ok_def [THEN iffD1], ((drule (1) known)+)?, (elim conjE)?,
        ((drule (1) known)+)?, (elim conjE)?,
      (((rule walks_shapes, simp (no_asm) del: One_nat_def, ((rule reads_intros)+)?);
      ((elim exE conjE)?,
        ((simp (no_asm_simp) add: iso1Transforms_props iso1Transforms_elements counts_def array_intros; fail) |
        (simp (asm_lr) add: iso1Transforms_props iso1Transforms_elements counts_def array_intros; fail) |
        (auto simp: iso1Transforms_props iso1Transforms_elements counts_def array_intros; fail)))) |
        (erule (1) notE; fail) |
        ((elim exE conjE)?,
        ((simp (no_asm_simp) add: iso1Transforms_props iso1Transforms_elements counts_def array_intros; fail) |
        (simp (asm_lr) add: iso1Transforms_props iso1Transforms_elements counts_def array_intros; fail) |
        (auto simp: iso1Transforms_props iso1Transforms_elements counts_def array_intros; fail))))))
qed

lemma reads_iso1Transforms [reads_intros]:
  "iso1Transforms_ok v \<Longrightarrow> iso1Transforms_sized a \<Longrightarrow>
      reads 1432 (\<lambda>s. encode_iso1TransformsType s v) (decode_iso1TransformsType j) a
      (\<lambda>a. same_iso1Transforms v a \<and> iso1Transforms_sized a)"
  unfolding encode_iso1TransformsType_def decode_iso1TransformsType_def [abs_def]
  by (rule reads_start [OF iso1Transforms.walk_reads, THEN reads_mono])
      (auto simp: iso1Transforms_props iso1Transforms_ok_def counts_def due_def init_iso1TransformsType_def)

subsection \<open>\<open>iso1ReferenceType\<close>\<close>

record iso1ReferenceType =
  iso1Reference_Id_characters :: "u8 list"
  iso1Reference_Id_charactersLen :: u16
  iso1Reference_Id_isUsed :: bool
  iso1Reference_URI_characters :: "u8 list"
  iso1Reference_URI_charactersLen :: u16
  iso1Reference_URI_isUsed :: bool
  iso1Reference_Type_characters :: "u8 list"
  iso1Reference_Type_charactersLen :: u16
  iso1Reference_Type_isUsed :: bool
  iso1Reference_Transforms :: iso1TransformsType
  iso1Reference_Transforms_isUsed :: bool
  iso1Reference_DigestMethod :: iso1DigestMethodType
  iso1Reference_DigestValue_bytes :: "u8 list"
  iso1Reference_DigestValue_bytesLen :: u16

definition init_iso1ReferenceType :: "iso1ReferenceType \<Rightarrow> iso1ReferenceType" where
  "init_iso1ReferenceType a = a\<lparr>iso1Reference_Id_isUsed := False, iso1Reference_URI_isUsed := False,
      iso1Reference_Type_isUsed := False, iso1Reference_Transforms_isUsed := False\<rparr>"

definition iso1Reference_enc_step_2 :: "iso1ReferenceType \<Rightarrow> unit machine" where
  "iso1Reference_enc_step_2 v grammarID x s =
     (if grammarID = 271 then
        goto 272 x (encode_child 1 0 (\<lambda>s. encode_iso1DigestMethodType s (iso1Reference_DigestMethod v)) s)
      else if grammarID = 272 then
        goto 3 x (encode_simple 1 0
          (encode_bytes_field (iso1Reference_DigestValue_bytes v) (iso1Reference_DigestValue_bytesLen v)) s)
      else if grammarID = 3 then
        finish 4 x (encodeNBitUnsignedInteger s 1 0)
      else Some (EXI_ERROR_UNKOWN_GRAMMAR_ID, (False, grammarID, x), s))"

definition iso1Reference_enc_step :: "iso1ReferenceType \<Rightarrow> unit machine" where
  "iso1Reference_enc_step v grammarID x s =
     (if grammarID = 267 then
        if iso1Reference_Id_isUsed v then
          goto 268 x
          (encode_child 3 0 (encode_string_field (iso1Reference_Id_characters v) (iso1Reference_Id_charactersLen v))
          s)
        else if iso1Reference_Type_isUsed v then
          goto 269 x
          (encode_child 3 1
          (encode_string_field (iso1Reference_Type_characters v) (iso1Reference_Type_charactersLen v)) s)
        else if iso1Reference_URI_isUsed v then
          goto 270 x
          (encode_child 3 2 (encode_string_field (iso1Reference_URI_characters v) (iso1Reference_URI_charactersLen v))
          s)
        else if iso1Reference_Transforms_isUsed v then
          goto 271 x (encode_child 3 3 (\<lambda>s. encode_iso1TransformsType s (iso1Reference_Transforms v)) s)
        else goto 272 x (encode_child 3 4 (\<lambda>s. encode_iso1DigestMethodType s (iso1Reference_DigestMethod v))
          s)
      else if grammarID = 268 then
        if iso1Reference_Type_isUsed v then
          goto 269 x
          (encode_child 3 0
          (encode_string_field (iso1Reference_Type_characters v) (iso1Reference_Type_charactersLen v)) s)
        else if iso1Reference_URI_isUsed v then
          goto 270 x
          (encode_child 3 1 (encode_string_field (iso1Reference_URI_characters v) (iso1Reference_URI_charactersLen v))
          s)
        else if iso1Reference_Transforms_isUsed v then
          goto 271 x (encode_child 3 2 (\<lambda>s. encode_iso1TransformsType s (iso1Reference_Transforms v)) s)
        else goto 272 x (encode_child 3 3 (\<lambda>s. encode_iso1DigestMethodType s (iso1Reference_DigestMethod v))
          s)
      else if grammarID = 269 then
        if iso1Reference_URI_isUsed v then
          goto 270 x
          (encode_child 2 0 (encode_string_field (iso1Reference_URI_characters v) (iso1Reference_URI_charactersLen v))
          s)
        else if iso1Reference_Transforms_isUsed v then
          goto 271 x (encode_child 2 1 (\<lambda>s. encode_iso1TransformsType s (iso1Reference_Transforms v)) s)
        else goto 272 x (encode_child 2 2 (\<lambda>s. encode_iso1DigestMethodType s (iso1Reference_DigestMethod v))
          s)
      else if grammarID = 270 then
        if iso1Reference_Transforms_isUsed v then
          goto 271 x (encode_child 2 0 (\<lambda>s. encode_iso1TransformsType s (iso1Reference_Transforms v)) s)
        else goto 272 x (encode_child 2 1 (\<lambda>s. encode_iso1DigestMethodType s (iso1Reference_DigestMethod v))
          s)
      else iso1Reference_enc_step_2 v grammarID x s)"

definition encode_iso1ReferenceType :: "bitstream \<Rightarrow> iso1ReferenceType \<Rightarrow>
    (errn \<times> bitstream) option" where
  "encode_iso1ReferenceType s v = run_encoder (iso1Reference_enc_step v) 267 () s"

definition iso1Reference_dec_step_2 :: "u32 \<Rightarrow> (dec_static \<times> iso1ReferenceType) machine" where
  "iso1Reference_dec_step_2 j grammarID x s =
     (if grammarID = 269 then
        decode_switch 2
         [(0, decode_child 270 (decode_used (\<lambda>a. a\<lparr>iso1Reference_URI_isUsed := True\<rparr>)
           (decode_string_field j 51 iso1Reference_URI_characters
           (\<lambda>u a. a\<lparr>iso1Reference_URI_characters := u\<rparr>)
           (\<lambda>u a. a\<lparr>iso1Reference_URI_charactersLen := u\<rparr>)))),
          (1, decode_child 271 (decode_used (\<lambda>a. a\<lparr>iso1Reference_Transforms_isUsed := True\<rparr>)
            (decode_sub (decode_iso1TransformsType j) iso1Reference_Transforms
            (\<lambda>u a. a\<lparr>iso1Reference_Transforms := u\<rparr>)))),
          (2, decode_child 272 (decode_sub (decode_iso1DigestMethodType j) iso1Reference_DigestMethod
            (\<lambda>u a. a\<lparr>iso1Reference_DigestMethod := u\<rparr>)))] 269 x s
      else if grammarID = 270 then
        decode_switch 2
         [(0, decode_child 271 (decode_used (\<lambda>a. a\<lparr>iso1Reference_Transforms_isUsed := True\<rparr>)
           (decode_sub (decode_iso1TransformsType j) iso1Reference_Transforms
           (\<lambda>u a. a\<lparr>iso1Reference_Transforms := u\<rparr>)))),
          (1, decode_child 272 (decode_sub (decode_iso1DigestMethodType j) iso1Reference_DigestMethod
            (\<lambda>u a. a\<lparr>iso1Reference_DigestMethod := u\<rparr>)))] 270 x s
      else if grammarID = 271 then
        decode_switch 1
         [(0, decode_child 272 (decode_sub (decode_iso1DigestMethodType j) iso1Reference_DigestMethod
           (\<lambda>u a. a\<lparr>iso1Reference_DigestMethod := u\<rparr>)))] 271 x s
      else if grammarID = 272 then
        decode_switch 1
         [(0, decode_simple 272 3
           (decode_bytes_field j 350 iso1Reference_DigestValue_bytes
           (\<lambda>u a. a\<lparr>iso1Reference_DigestValue_bytes := u\<rparr>)
           (\<lambda>u a. a\<lparr>iso1Reference_DigestValue_bytesLen := u\<rparr>)))] 272 x s
      else if grammarID = 3 then
        decode_switch 1
         [(0, decode_end 4)] 3 x s
      else Some (EXI_ERROR_UNKOWN_GRAMMAR_ID, (False, grammarID, x), s))"

definition iso1Reference_dec_step :: "u32 \<Rightarrow> (dec_static \<times> iso1ReferenceType) machine" where
  "iso1Reference_dec_step j grammarID x s =
     (if grammarID = 267 then
        decode_switch 3
         [(0, decode_child 268 (decode_used (\<lambda>a. a\<lparr>iso1Reference_Id_isUsed := True\<rparr>)
           (decode_string_field j 51 iso1Reference_Id_characters
           (\<lambda>u a. a\<lparr>iso1Reference_Id_characters := u\<rparr>)
           (\<lambda>u a. a\<lparr>iso1Reference_Id_charactersLen := u\<rparr>)))),
          (1, decode_child 269 (decode_used (\<lambda>a. a\<lparr>iso1Reference_Type_isUsed := True\<rparr>)
            (decode_string_field j 51 iso1Reference_Type_characters
            (\<lambda>u a. a\<lparr>iso1Reference_Type_characters := u\<rparr>)
            (\<lambda>u a. a\<lparr>iso1Reference_Type_charactersLen := u\<rparr>)))),
          (2, decode_child 270 (decode_used (\<lambda>a. a\<lparr>iso1Reference_URI_isUsed := True\<rparr>)
            (decode_string_field j 51 iso1Reference_URI_characters
            (\<lambda>u a. a\<lparr>iso1Reference_URI_characters := u\<rparr>)
            (\<lambda>u a. a\<lparr>iso1Reference_URI_charactersLen := u\<rparr>)))),
          (3, decode_child 271 (decode_used (\<lambda>a. a\<lparr>iso1Reference_Transforms_isUsed := True\<rparr>)
            (decode_sub (decode_iso1TransformsType j) iso1Reference_Transforms
            (\<lambda>u a. a\<lparr>iso1Reference_Transforms := u\<rparr>)))),
          (4, decode_child 272 (decode_sub (decode_iso1DigestMethodType j) iso1Reference_DigestMethod
            (\<lambda>u a. a\<lparr>iso1Reference_DigestMethod := u\<rparr>)))] 267 x s
      else if grammarID = 268 then
        decode_switch 3
         [(0, decode_child 269 (decode_used (\<lambda>a. a\<lparr>iso1Reference_Type_isUsed := True\<rparr>)
           (decode_string_field j 51 iso1Reference_Type_characters
           (\<lambda>u a. a\<lparr>iso1Reference_Type_characters := u\<rparr>)
           (\<lambda>u a. a\<lparr>iso1Reference_Type_charactersLen := u\<rparr>)))),
          (1, decode_child 270 (decode_used (\<lambda>a. a\<lparr>iso1Reference_URI_isUsed := True\<rparr>)
            (decode_string_field j 51 iso1Reference_URI_characters
            (\<lambda>u a. a\<lparr>iso1Reference_URI_characters := u\<rparr>)
            (\<lambda>u a. a\<lparr>iso1Reference_URI_charactersLen := u\<rparr>)))),
          (2, decode_child 271 (decode_used (\<lambda>a. a\<lparr>iso1Reference_Transforms_isUsed := True\<rparr>)
            (decode_sub (decode_iso1TransformsType j) iso1Reference_Transforms
            (\<lambda>u a. a\<lparr>iso1Reference_Transforms := u\<rparr>)))),
          (3, decode_child 272 (decode_sub (decode_iso1DigestMethodType j) iso1Reference_DigestMethod
            (\<lambda>u a. a\<lparr>iso1Reference_DigestMethod := u\<rparr>)))] 268 x s
      else iso1Reference_dec_step_2 j grammarID x s)"

definition decode_iso1ReferenceType :: "u32 \<Rightarrow> iso1ReferenceType decoder" where
  "decode_iso1ReferenceType j x s = grammar_loop (iso1Reference_dec_step j) 267
      (fst x, init_iso1ReferenceType (snd x)) s"

definition iso1Reference_ok :: "iso1ReferenceType \<Rightarrow> bool" where
  "iso1Reference_ok v \<longleftrightarrow>
     when_used (iso1Reference_Id_isUsed v)
       (string_ok 51 (iso1Reference_Id_characters v) (iso1Reference_Id_charactersLen v)) \<and>
     when_used (iso1Reference_Type_isUsed v)
       (string_ok 51 (iso1Reference_Type_characters v) (iso1Reference_Type_charactersLen v)) \<and>
     when_used (iso1Reference_URI_isUsed v)
       (string_ok 51 (iso1Reference_URI_characters v) (iso1Reference_URI_charactersLen v)) \<and>
     when_used (iso1Reference_Transforms_isUsed v) (iso1Transforms_ok (iso1Reference_Transforms v)) \<and>
     iso1DigestMethod_ok (iso1Reference_DigestMethod v) \<and>
     length (iso1Reference_DigestValue_bytes v) = 350 \<and> unat (iso1Reference_DigestValue_bytesLen v) \<le> 350"

definition iso1Reference_sized :: "iso1ReferenceType \<Rightarrow> bool" where
  "iso1Reference_sized a \<longleftrightarrow>
     length (iso1Reference_Id_characters a) = 51 \<and>
     length (iso1Reference_Type_characters a) = 51 \<and>
     length (iso1Reference_URI_characters a) = 51 \<and>
     iso1Transforms_sized (iso1Reference_Transforms a) \<and>
     iso1DigestMethod_sized (iso1Reference_DigestMethod a) \<and>
     length (iso1Reference_DigestValue_bytes a) = 350"

definition same_iso1Reference :: "iso1ReferenceType \<Rightarrow> iso1ReferenceType \<Rightarrow> bool" where
  "same_iso1Reference v a \<longleftrightarrow>
     kept (iso1Reference_Id_isUsed v) (iso1Reference_Id_isUsed a)
       (iso1Reference_Id_charactersLen a = iso1Reference_Id_charactersLen v \<and>
       take (unat (iso1Reference_Id_charactersLen v)) (iso1Reference_Id_characters a) = take
       (unat (iso1Reference_Id_charactersLen v)) (iso1Reference_Id_characters v)) \<and>
     kept (iso1Reference_Type_isUsed v) (iso1Reference_Type_isUsed a)
       (iso1Reference_Type_charactersLen a = iso1Reference_Type_charactersLen v \<and>
       take (unat (iso1Reference_Type_charactersLen v)) (iso1Reference_Type_characters a) = take
       (unat (iso1Reference_Type_charactersLen v)) (iso1Reference_Type_characters v)) \<and>
     kept (iso1Reference_URI_isUsed v) (iso1Reference_URI_isUsed a)
       (iso1Reference_URI_charactersLen a = iso1Reference_URI_charactersLen v \<and>
       take (unat (iso1Reference_URI_charactersLen v)) (iso1Reference_URI_characters a) = take
       (unat (iso1Reference_URI_charactersLen v)) (iso1Reference_URI_characters v)) \<and>
     kept (iso1Reference_Transforms_isUsed v) (iso1Reference_Transforms_isUsed a)
       (same_iso1Transforms (iso1Reference_Transforms v) (iso1Reference_Transforms a)) \<and>
     same_iso1DigestMethod (iso1Reference_DigestMethod v) (iso1Reference_DigestMethod a) \<and>
     iso1Reference_DigestValue_bytesLen a = iso1Reference_DigestValue_bytesLen v \<and>
       take (unat (iso1Reference_DigestValue_bytesLen v)) (iso1Reference_DigestValue_bytes a) = take
       (unat (iso1Reference_DigestValue_bytesLen v)) (iso1Reference_DigestValue_bytes v)"

definition iso1Reference_at :: "iso1ReferenceType \<Rightarrow> nat \<Rightarrow> iso1ReferenceType \<Rightarrow>
    bool" where
  "iso1Reference_at v g a \<longleftrightarrow>
     iso1Reference_ok v \<and>
     g \<in> {267, 268, 269, 270, 271, 272, 3} \<and>
     iso1Reference_sized a \<and>
     (if g \<in> {267} then \<not> iso1Reference_Id_isUsed a
      else kept (iso1Reference_Id_isUsed v) (iso1Reference_Id_isUsed a)
        (iso1Reference_Id_charactersLen a = iso1Reference_Id_charactersLen v \<and>
        take (unat (iso1Reference_Id_charactersLen v)) (iso1Reference_Id_characters a) = take
        (unat (iso1Reference_Id_charactersLen v)) (iso1Reference_Id_characters v))) \<and>
     (if g \<in> {267, 268} then \<not> iso1Reference_Type_isUsed a
      else kept (iso1Reference_Type_isUsed v) (iso1Reference_Type_isUsed a)
        (iso1Reference_Type_charactersLen a = iso1Reference_Type_charactersLen v \<and>
        take (unat (iso1Reference_Type_charactersLen v)) (iso1Reference_Type_characters a) = take
        (unat (iso1Reference_Type_charactersLen v)) (iso1Reference_Type_characters v))) \<and>
     (if g \<in> {267, 268, 269} then \<not> iso1Reference_URI_isUsed a
      else kept (iso1Reference_URI_isUsed v) (iso1Reference_URI_isUsed a)
        (iso1Reference_URI_charactersLen a = iso1Reference_URI_charactersLen v \<and>
        take (unat (iso1Reference_URI_charactersLen v)) (iso1Reference_URI_characters a) = take
        (unat (iso1Reference_URI_charactersLen v)) (iso1Reference_URI_characters v))) \<and>
     (if g \<in> {267, 268, 269, 270} then \<not> iso1Reference_Transforms_isUsed a
      else kept (iso1Reference_Transforms_isUsed v) (iso1Reference_Transforms_isUsed a)
        (same_iso1Transforms (iso1Reference_Transforms v) (iso1Reference_Transforms a))) \<and>
     (g \<notin> {267, 268, 269, 270, 271} \<longrightarrow> same_iso1DigestMethod (iso1Reference_DigestMethod v)
       (iso1Reference_DigestMethod a)) \<and>
     (g \<notin> {267, 268, 269, 270, 271, 272} \<longrightarrow> iso1Reference_DigestValue_bytesLen
       a = iso1Reference_DigestValue_bytesLen v \<and> take (unat (iso1Reference_DigestValue_bytesLen v))
       (iso1Reference_DigestValue_bytes a) = take (unat (iso1Reference_DigestValue_bytesLen v))
       (iso1Reference_DigestValue_bytes v))"

lemmas iso1Reference_steps = iso1Reference_enc_step_def iso1Reference_enc_step_2_def
  iso1Reference_dec_step_def iso1Reference_dec_step_2_def

lemmas iso1Reference_props = iso1Reference_at_def iso1Reference_sized_def same_iso1Reference_def left_at_def

interpretation iso1Reference: paired_machines "iso1Reference_enc_step v" "iso1Reference_dec_step j" "iso1Reference_at
    v"
  "left_at [(267, 6556), (268, 6121), (269, 5686), (270, 5252), (271, 3818), (272, 2828), (3, 1)]" "\<lambda>a.
      same_iso1Reference v a \<and> iso1Reference_sized a" for v j
proof
  fix g a assume at: "iso1Reference_at v g a"
  then have "g \<in> {267, 268, 269, 270, 271, 272, 3}" by (simp add: iso1Reference_at_def)
  then show "hops (iso1Reference_enc_step v) (iso1Reference_dec_step j) (iso1Reference_at v)
    (left_at [(267, 6556), (268, 6121), (269, 5686), (270, 5252), (271, 3818), (272, 2828), (3, 1)])
      (\<lambda>a. same_iso1Reference v a \<and> iso1Reference_sized a) g a" using at
    by - (elim insertE emptyE; (hypsubst, rule hops_by, simp (no_asm) add: iso1Reference_steps del: One_nat_def,
      simp (no_asm) add: iso1Reference_steps del: One_nat_def, simp (asm_lr) add: iso1Reference_props del:
        One_nat_def, (elim conjE)?,
      ((rule walks_ifs)+)?); (frule iso1Reference_ok_def [THEN iffD1], ((drule (1) known)+)?, (elim conjE)?,
        ((drule (1) known)+)?, (elim conjE)?,
      (((rule walks_shapes, simp (no_asm) del: One_nat_def, ((rule reads_intros)+)?);
      ((elim exE conjE)?,
        ((simp (no_asm_simp) add: iso1Reference_props; fail) | (simp (asm_lr) add: iso1Reference_props; fail) |
        (auto simp: iso1Reference_props; fail)))) | (erule (1) notE; fail) |
        ((elim exE conjE)?,
        ((simp (no_asm_simp) add: iso1Reference_props; fail) | (simp (asm_lr) add: iso1Reference_props; fail) |
        (auto simp: iso1Reference_props; fail))))))
qed

lemma reads_iso1Reference [reads_intros]:
  "iso1Reference_ok v \<Longrightarrow> iso1Reference_sized a \<Longrightarrow>
      reads 6556 (\<lambda>s. encode_iso1ReferenceType s v) (decode_iso1ReferenceType j) a
      (\<lambda>a. same_iso1Reference v a \<and> iso1Reference_sized a)"
  unfolding encode_iso1ReferenceType_def decode_iso1ReferenceType_def [abs_def]
  by (rule reads_start [OF iso1Reference.machine_reads, of _ 267, THEN reads_mono])
      (auto simp: iso1Reference_at_def iso1Reference_sized_def init_iso1ReferenceType_def left_at_def)

interpretation iso1Reference_enc: advancing_machine "iso1Reference_enc_step v" "left_at
    [(267, 7), (268, 6), (269, 5), (270, 4), (271, 3), (272, 2), (3, 1)]" for v
  by unfold_locales (auto simp: iso1Reference_steps dest!: advance_dests split: if_splits;
      simp add: left_at_def)

interpretation iso1Reference_dec: advancing_machine "iso1Reference_dec_step j" "left_at
    [(267, 7), (268, 6), (269, 5), (270, 4), (271, 3), (272, 2), (3, 1)]" for j
  by unfold_locales (auto simp: iso1Reference_steps left_at_def dest!: advance_dests elim!: decode_switch_next split:
      if_splits)

subsection \<open>\<open>iso1SignedInfoType\<close>\<close>

record iso1SignedInfoType =
  iso1SignedInfo_Id_characters :: "u8 list"
  iso1SignedInfo_Id_charactersLen :: u16
  iso1SignedInfo_Id_isUsed :: bool
  iso1SignedInfo_CanonicalizationMethod :: iso1CanonicalizationMethodType
  iso1SignedInfo_SignatureMethod :: iso1SignatureMethodType
  iso1SignedInfo_Reference_array :: "iso1ReferenceType list"
  iso1SignedInfo_Reference_arrayLen :: u16

definition init_iso1SignedInfoType :: "iso1SignedInfoType \<Rightarrow> iso1SignedInfoType" where
  "init_iso1SignedInfoType a = a\<lparr>iso1SignedInfo_Id_isUsed := False, iso1SignedInfo_Reference_arrayLen
      := 0\<rparr>"

record iso1SignedInfo_locals =
  iso1SignedInfo_Reference_currArrayIndex :: nat

definition iso1SignedInfo_enc_step :: "iso1SignedInfoType \<Rightarrow> iso1SignedInfo_locals machine" where
  "iso1SignedInfo_enc_step v grammarID x s =
     (if grammarID = 62 then
        if iso1SignedInfo_Id_isUsed v then
          goto 63 x
          (encode_child 2 0 (encode_string_field (iso1SignedInfo_Id_characters v) (iso1SignedInfo_Id_charactersLen v))
          s)
        else goto 64 x
          (encode_child 2 1
          (\<lambda>s. encode_iso1CanonicalizationMethodType s (iso1SignedInfo_CanonicalizationMethod v)) s)
      else if grammarID = 63 then
        goto 64 x
          (encode_child 1 0
          (\<lambda>s. encode_iso1CanonicalizationMethodType s (iso1SignedInfo_CanonicalizationMethod v)) s)
      else if grammarID = 64 then
        goto 65 x (encode_child 1 0 (\<lambda>s. encode_iso1SignatureMethodType s (iso1SignedInfo_SignatureMethod v))
          s)
      else if grammarID = 65 then
        if iso1SignedInfo_Reference_currArrayIndex x < unat (iso1SignedInfo_Reference_arrayLen v) then
          encode_array_child 1 0 66 encode_iso1ReferenceType (iso1SignedInfo_Reference_array v)
          iso1SignedInfo_Reference_currArrayIndex iso1SignedInfo_Reference_currArrayIndex_update x s
        else Some (EXI_ERROR_UNKOWN_EVENT, (False, grammarID, x), s)
      else if grammarID = 66 then
        if iso1SignedInfo_Reference_currArrayIndex x < unat (iso1SignedInfo_Reference_arrayLen v) then
          encode_array_child 2 0 66 encode_iso1ReferenceType (iso1SignedInfo_Reference_array v)
          iso1SignedInfo_Reference_currArrayIndex iso1SignedInfo_Reference_currArrayIndex_update x s
        else finish 4 x (encodeNBitUnsignedInteger s 2 1)
      else Some (EXI_ERROR_UNKOWN_GRAMMAR_ID, (False, grammarID, x), s))"

definition encode_iso1SignedInfoType :: "bitstream \<Rightarrow> iso1SignedInfoType \<Rightarrow>
    (errn \<times> bitstream) option" where
  "encode_iso1SignedInfoType s v = run_encoder (iso1SignedInfo_enc_step v) 62
      \<lparr>iso1SignedInfo_Reference_currArrayIndex = 0\<rparr> s"

abbreviation (input) decode_next_iso1SignedInfo_Reference :: "u32 \<Rightarrow> iso1SignedInfoType decoder" where
  "decode_next_iso1SignedInfo_Reference j \<equiv> decode_element (decode_iso1ReferenceType j)
      iso1SignedInfo_Reference_array iso1SignedInfo_Reference_arrayLen
      (\<lambda>xs n a. a\<lparr>iso1SignedInfo_Reference_array := xs, iso1SignedInfo_Reference_arrayLen
      := n\<rparr>)"

definition iso1SignedInfo_dec_step :: "u32 \<Rightarrow> (dec_static \<times> iso1SignedInfoType) machine" where
  "iso1SignedInfo_dec_step j grammarID x s =
     (if grammarID = 62 then
        decode_switch 2
         [(0, decode_child 63 (decode_used (\<lambda>a. a\<lparr>iso1SignedInfo_Id_isUsed := True\<rparr>)
           (decode_string_field j 51 iso1SignedInfo_Id_characters
           (\<lambda>u a. a\<lparr>iso1SignedInfo_Id_characters := u\<rparr>)
           (\<lambda>u a. a\<lparr>iso1SignedInfo_Id_charactersLen := u\<rparr>)))),
          (1, decode_child 64
            (decode_sub (decode_iso1CanonicalizationMethodType j) iso1SignedInfo_CanonicalizationMethod
            (\<lambda>u a. a\<lparr>iso1SignedInfo_CanonicalizationMethod := u\<rparr>)))] 62 x s
      else if grammarID = 63 then
        decode_switch 1
         [(0, decode_child 64
           (decode_sub (decode_iso1CanonicalizationMethodType j) iso1SignedInfo_CanonicalizationMethod
           (\<lambda>u a. a\<lparr>iso1SignedInfo_CanonicalizationMethod := u\<rparr>)))] 63 x s
      else if grammarID = 64 then
        decode_switch 1
         [(0, decode_child 65 (decode_sub (decode_iso1SignatureMethodType j) iso1SignedInfo_SignatureMethod
           (\<lambda>u a. a\<lparr>iso1SignedInfo_SignatureMethod := u\<rparr>)))] 64 x s
      else if grammarID = 65 then
        decode_switch 1
         [(0, decode_array_child 66 1 iso1SignedInfo_Reference_arrayLen (decode_next_iso1SignedInfo_Reference j))] 65
           x s
      else if grammarID = 66 then
        decode_switch 2
         [(0, decode_array_child 66 1 iso1SignedInfo_Reference_arrayLen (decode_next_iso1SignedInfo_Reference j)),
          (1, decode_end 4)] 66 x s
      else Some (EXI_ERROR_UNKOWN_GRAMMAR_ID, (False, grammarID, x), s))"

definition decode_iso1SignedInfoType :: "u32 \<Rightarrow> iso1SignedInfoType decoder" where
  "decode_iso1SignedInfoType j x s = grammar_loop (iso1SignedInfo_dec_step j) 62
      (fst x, init_iso1SignedInfoType (snd x)) s"

definition iso1SignedInfo_ok :: "iso1SignedInfoType \<Rightarrow> bool" where
  "iso1SignedInfo_ok v \<longleftrightarrow>
     when_used (iso1SignedInfo_Id_isUsed v)
       (string_ok 51 (iso1SignedInfo_Id_characters v) (iso1SignedInfo_Id_charactersLen v)) \<and>
     iso1CanonicalizationMethod_ok (iso1SignedInfo_CanonicalizationMethod v) \<and>
     iso1SignatureMethod_ok (iso1SignedInfo_SignatureMethod v) \<and>
     length (iso1SignedInfo_Reference_array v) = 1 \<and> unat (iso1SignedInfo_Reference_arrayLen v) \<le> 1 \<and>
       in_use iso1Reference_ok (iso1SignedInfo_Reference_array v) (iso1SignedInfo_Reference_arrayLen v) \<and>
     unat (iso1SignedInfo_Reference_arrayLen v) \<noteq> 0"

definition iso1SignedInfo_sized :: "iso1SignedInfoType \<Rightarrow> bool" where
  "iso1SignedInfo_sized a \<longleftrightarrow>
     length (iso1SignedInfo_Id_characters a) = 51 \<and>
     iso1CanonicalizationMethod_sized (iso1SignedInfo_CanonicalizationMethod a) \<and>
     iso1SignatureMethod_sized (iso1SignedInfo_SignatureMethod a) \<and>
     length (iso1SignedInfo_Reference_array a) = 1 \<and>
     list_all iso1Reference_sized (iso1SignedInfo_Reference_array a)"

definition same_iso1SignedInfo :: "iso1SignedInfoType \<Rightarrow> iso1SignedInfoType \<Rightarrow> bool" where
  "same_iso1SignedInfo v a \<longleftrightarrow>
     kept (iso1SignedInfo_Id_isUsed v) (iso1SignedInfo_Id_isUsed a)
       (iso1SignedInfo_Id_charactersLen a = iso1SignedInfo_Id_charactersLen v \<and>
       take (unat (iso1SignedInfo_Id_charactersLen v)) (iso1SignedInfo_Id_characters a) = take
       (unat (iso1SignedInfo_Id_charactersLen v)) (iso1SignedInfo_Id_characters v)) \<and>
     same_iso1CanonicalizationMethod (iso1SignedInfo_CanonicalizationMethod v)
       (iso1SignedInfo_CanonicalizationMethod a) \<and>
     same_iso1SignatureMethod (iso1SignedInfo_SignatureMethod v) (iso1SignedInfo_SignatureMethod a) \<and>
     iso1SignedInfo_Reference_arrayLen a = iso1SignedInfo_Reference_arrayLen v \<and>
       copied same_iso1Reference (unat (iso1SignedInfo_Reference_arrayLen v)) (iso1SignedInfo_Reference_array v)
       (iso1SignedInfo_Reference_array a)"

definition iso1SignedInfo_at :: "iso1SignedInfoType \<Rightarrow> nat \<Rightarrow> iso1SignedInfo_locals
    \<Rightarrow> iso1SignedInfoType \<Rightarrow> bool" where
  "iso1SignedInfo_at v g x a \<longleftrightarrow>
     counts [(62, 0), (63, 0), (64, 0), (65, 0)] g (iso1SignedInfo_Reference_currArrayIndex x) \<and>
     iso1SignedInfo_ok v \<and>
     g \<in> {62, 63, 64, 65, 66} \<and>
     iso1SignedInfo_sized a \<and>
     (if g \<in> {62} then \<not> iso1SignedInfo_Id_isUsed a
      else kept (iso1SignedInfo_Id_isUsed v) (iso1SignedInfo_Id_isUsed a)
        (iso1SignedInfo_Id_charactersLen a = iso1SignedInfo_Id_charactersLen v \<and>
        take (unat (iso1SignedInfo_Id_charactersLen v)) (iso1SignedInfo_Id_characters a) = take
        (unat (iso1SignedInfo_Id_charactersLen v)) (iso1SignedInfo_Id_characters v))) \<and>
     (g \<notin> {62, 63} \<longrightarrow> same_iso1CanonicalizationMethod (iso1SignedInfo_CanonicalizationMethod v)
       (iso1SignedInfo_CanonicalizationMethod a)) \<and>
     (g \<notin> {62, 63, 64} \<longrightarrow> same_iso1SignatureMethod (iso1SignedInfo_SignatureMethod v)
       (iso1SignedInfo_SignatureMethod a)) \<and>
     unat (iso1SignedInfo_Reference_arrayLen a) = iso1SignedInfo_Reference_currArrayIndex x \<and>
       iso1SignedInfo_Reference_currArrayIndex x \<le> unat (iso1SignedInfo_Reference_arrayLen v) \<and>
     copied same_iso1Reference (iso1SignedInfo_Reference_currArrayIndex x) (iso1SignedInfo_Reference_array v)
       (iso1SignedInfo_Reference_array a)"

definition iso1SignedInfo_rank :: "iso1SignedInfoType \<Rightarrow> nat \<Rightarrow> iso1SignedInfo_locals
    \<Rightarrow> nat" where
  "iso1SignedInfo_rank v g x = left_at [(62, 2503), (63, 2069), (64, 1079), (65, 2), (66, 2)] g + due 6558
      (iso1SignedInfo_Reference_arrayLen v) (iso1SignedInfo_Reference_currArrayIndex x)"

lemmas iso1SignedInfo_steps = iso1SignedInfo_enc_step_def
  iso1SignedInfo_dec_step_def

lemmas iso1SignedInfo_props = iso1SignedInfo_at_def iso1SignedInfo_sized_def same_iso1SignedInfo_def
    iso1SignedInfo_rank_def left_at_def

lemmas iso1SignedInfo_elements = in_use_nth [where P = iso1Reference_ok]
  slots_nth [where P = iso1Reference_sized]

interpretation iso1SignedInfo: walking_pair "iso1SignedInfo_enc_step v" "iso1SignedInfo_dec_step j" "iso1SignedInfo_at
    v" "iso1SignedInfo_rank v"
  "\<lambda>a. same_iso1SignedInfo v a \<and> iso1SignedInfo_sized a" for v j
proof
  fix g x a assume at: "iso1SignedInfo_at v g x a"
  then have "g \<in> {62, 63, 64, 65, 66}" by (simp add: iso1SignedInfo_at_def)
  then show "walks (iso1SignedInfo_enc_step v) (iso1SignedInfo_dec_step j) (iso1SignedInfo_at v)
      (iso1SignedInfo_rank v)
    (\<lambda>a. same_iso1SignedInfo v a \<and> iso1SignedInfo_sized a) g x a" using at
    by - (elim insertE emptyE; (hypsubst, rule walks_by, simp (no_asm) add: iso1SignedInfo_steps del: One_nat_def,
      simp (no_asm) add: iso1SignedInfo_steps del: One_nat_def, simp (asm_lr) add: iso1SignedInfo_props del:
        One_nat_def, (elim conjE)?,
      ((rule walks_ifs)+)?); (frule iso1SignedInfo_ok_def [THEN iffD1], ((drule (1) known)+)?, (elim conjE)?,
        ((drule (1) known)+)?, (elim conjE)?,
      (((rule walks_shapes, simp (no_asm) del: One_nat_def, ((rule reads_intros)+)?);
      ((elim exE conjE)?,
        ((simp (no_asm_simp) add: iso1SignedInfo_props iso1SignedInfo_elements counts_def array_intros; fail) |
        (simp (asm_lr) add: iso1SignedInfo_props iso1SignedInfo_elements counts_def array_intros; fail) |
        (auto simp: iso1SignedInfo_props iso1SignedInfo_elements counts_def array_intros; fail)))) |
        (erule (1) notE; fail) |
        ((elim exE conjE)?,
        ((simp (no_asm_simp) add: iso1SignedInfo_props iso1SignedInfo_elements counts_def array_intros; fail) |
        (simp (asm_lr) add: iso1SignedInfo_props iso1SignedInfo_elements counts_def array_intros; fail) |
        (auto simp: iso1SignedInfo_props iso1SignedInfo_elements counts_def array_intros; fail))))))
qed

lemma reads_iso1SignedInfo [reads_intros]:
  "iso1SignedInfo_ok v \<Longrightarrow> iso1SignedInfo_sized a \<Longrightarrow>
      reads 9061 (\<lambda>s. encode_iso1SignedInfoType s v) (decode_iso1SignedInfoType j) a
      (\<lambda>a. same_iso1SignedInfo v a \<and> iso1SignedInfo_sized a)"
  unfolding encode_iso1SignedInfoType_def decode_iso1SignedInfoType_def [abs_def]
  by (rule reads_start [OF iso1SignedInfo.walk_reads, THEN reads_mono])
      (auto simp: iso1SignedInfo_props iso1SignedInfo_ok_def counts_def due_def init_iso1SignedInfoType_def)

subsection \<open>\<open>iso1SignatureValueType\<close>\<close>

record iso1SignatureValueType =
  iso1SignatureValue_Id_characters :: "u8 list"
  iso1SignatureValue_Id_charactersLen :: u16
  iso1SignatureValue_Id_isUsed :: bool
  iso1SignatureValue_CONTENT_bytes :: "u8 list"
  iso1SignatureValue_CONTENT_bytesLen :: u16

definition init_iso1SignatureValueType :: "iso1SignatureValueType \<Rightarrow> iso1SignatureValueType" where
  "init_iso1SignatureValueType a = a\<lparr>iso1SignatureValue_Id_isUsed := False\<rparr>"

definition iso1SignatureValue_enc_step :: "iso1SignatureValueType \<Rightarrow> unit machine" where
  "iso1SignatureValue_enc_step v grammarID x s =
     (if grammarID = 126 then
        if iso1SignatureValue_Id_isUsed v then
          goto 24 x
          (encode_child 2 0
          (encode_string_field (iso1SignatureValue_Id_characters v) (iso1SignatureValue_Id_charactersLen v)) s)
        else goto 3 x
          (encode_child 2 1
          (encode_bytes_field (iso1SignatureValue_CONTENT_bytes v) (iso1SignatureValue_CONTENT_bytesLen v)) s)
      else if grammarID = 24 then
        goto 3 x (encode_child 1 0
          (encode_bytes_field (iso1SignatureValue_CONTENT_bytes v) (iso1SignatureValue_CONTENT_bytesLen v)) s)
      else if grammarID = 3 then
        finish 4 x (encodeNBitUnsignedInteger s 1 0)
      else Some (EXI_ERROR_UNKOWN_GRAMMAR_ID, (False, grammarID, x), s))"

definition encode_iso1SignatureValueType :: "bitstream \<Rightarrow> iso1SignatureValueType \<Rightarrow>
    (errn \<times> bitstream) option" where
  "encode_iso1SignatureValueType s v = run_encoder (iso1SignatureValue_enc_step v) 126 () s"

definition iso1SignatureValue_dec_step :: "u32 \<Rightarrow> (dec_static \<times> iso1SignatureValueType) machine"
    where
  "iso1SignatureValue_dec_step j grammarID x s =
     (if grammarID = 126 then
        decode_switch 2
         [(0, decode_child 24 (decode_used (\<lambda>a. a\<lparr>iso1SignatureValue_Id_isUsed := True\<rparr>)
           (decode_string_field j 51 iso1SignatureValue_Id_characters
           (\<lambda>u a. a\<lparr>iso1SignatureValue_Id_characters := u\<rparr>)
           (\<lambda>u a. a\<lparr>iso1SignatureValue_Id_charactersLen := u\<rparr>)))),
          (1, decode_child 3
            (decode_bytes_field j 350 iso1SignatureValue_CONTENT_bytes
            (\<lambda>u a. a\<lparr>iso1SignatureValue_CONTENT_bytes := u\<rparr>)
            (\<lambda>u a. a\<lparr>iso1SignatureValue_CONTENT_bytesLen := u\<rparr>)))] 126 x s
      else if grammarID = 24 then
        decode_switch 1
         [(0, decode_child 3
           (decode_bytes_field j 350 iso1SignatureValue_CONTENT_bytes
           (\<lambda>u a. a\<lparr>iso1SignatureValue_CONTENT_bytes := u\<rparr>)
           (\<lambda>u a. a\<lparr>iso1SignatureValue_CONTENT_bytesLen := u\<rparr>)))] 24 x s
      else if grammarID = 3 then
        decode_switch 1
         [(0, decode_end 4)] 3 x s
      else Some (EXI_ERROR_UNKOWN_GRAMMAR_ID, (False, grammarID, x), s))"

definition decode_iso1SignatureValueType :: "u32 \<Rightarrow> iso1SignatureValueType decoder" where
  "decode_iso1SignatureValueType j x s = grammar_loop (iso1SignatureValue_dec_step j) 126
      (fst x, init_iso1SignatureValueType (snd x)) s"

definition iso1SignatureValue_ok :: "iso1SignatureValueType \<Rightarrow> bool" where
  "iso1SignatureValue_ok v \<longleftrightarrow>
     when_used (iso1SignatureValue_Id_isUsed v)
       (string_ok 51 (iso1SignatureValue_Id_characters v) (iso1SignatureValue_Id_charactersLen v)) \<and>
     length (iso1SignatureValue_CONTENT_bytes v) = 350 \<and> unat (iso1SignatureValue_CONTENT_bytesLen v) \<le> 350"

definition iso1SignatureValue_sized :: "iso1SignatureValueType \<Rightarrow> bool" where
  "iso1SignatureValue_sized a \<longleftrightarrow>
     length (iso1SignatureValue_Id_characters a) = 51 \<and>
     length (iso1SignatureValue_CONTENT_bytes a) = 350"

definition same_iso1SignatureValue :: "iso1SignatureValueType \<Rightarrow> iso1SignatureValueType \<Rightarrow> bool"
    where
  "same_iso1SignatureValue v a \<longleftrightarrow>
     kept (iso1SignatureValue_Id_isUsed v) (iso1SignatureValue_Id_isUsed a)
       (iso1SignatureValue_Id_charactersLen a = iso1SignatureValue_Id_charactersLen v \<and>
       take (unat (iso1SignatureValue_Id_charactersLen v)) (iso1SignatureValue_Id_characters a) = take
       (unat (iso1SignatureValue_Id_charactersLen v)) (iso1SignatureValue_Id_characters v)) \<and>
     iso1SignatureValue_CONTENT_bytesLen a = iso1SignatureValue_CONTENT_bytesLen v \<and>
       take (unat (iso1SignatureValue_CONTENT_bytesLen v)) (iso1SignatureValue_CONTENT_bytes a) = take
       (unat (iso1SignatureValue_CONTENT_bytesLen v)) (iso1SignatureValue_CONTENT_bytes v)"

definition iso1SignatureValue_at :: "iso1SignatureValueType \<Rightarrow> nat \<Rightarrow> iso1SignatureValueType
    \<Rightarrow> bool" where
  "iso1SignatureValue_at v g a \<longleftrightarrow>
     iso1SignatureValue_ok v \<and>
     g \<in> {126, 24, 3} \<and>
     iso1SignatureValue_sized a \<and>
     (if g \<in> {126} then \<not> iso1SignatureValue_Id_isUsed a
      else kept (iso1SignatureValue_Id_isUsed v) (iso1SignatureValue_Id_isUsed a)
        (iso1SignatureValue_Id_charactersLen a = iso1SignatureValue_Id_charactersLen v \<and>
        take (unat (iso1SignatureValue_Id_charactersLen v)) (iso1SignatureValue_Id_characters a) = take
        (unat (iso1SignatureValue_Id_charactersLen v)) (iso1SignatureValue_Id_characters v))) \<and>
     (g \<notin> {126, 24} \<longrightarrow> iso1SignatureValue_CONTENT_bytesLen
       a = iso1SignatureValue_CONTENT_bytesLen v \<and> take (unat (iso1SignatureValue_CONTENT_bytesLen v))
       (iso1SignatureValue_CONTENT_bytes a) = take (unat (iso1SignatureValue_CONTENT_bytesLen v))
       (iso1SignatureValue_CONTENT_bytes v))"

lemmas iso1SignatureValue_steps = iso1SignatureValue_enc_step_def
  iso1SignatureValue_dec_step_def

lemmas iso1SignatureValue_props = iso1SignatureValue_at_def iso1SignatureValue_sized_def same_iso1SignatureValue_def
    left_at_def

interpretation iso1SignatureValue: paired_machines "iso1SignatureValue_enc_step v" "iso1SignatureValue_dec_step j"
    "iso1SignatureValue_at v"
  "left_at [(126, 3260), (24, 2826), (3, 1)]" "\<lambda>a. same_iso1SignatureValue v a \<and>
      iso1SignatureValue_sized a" for v j
proof
  fix g a assume at: "iso1SignatureValue_at v g a"
  then have "g \<in> {126, 24, 3}" by (simp add: iso1SignatureValue_at_def)
  then show "hops (iso1SignatureValue_enc_step v) (iso1SignatureValue_dec_step j) (iso1SignatureValue_at v)
    (left_at [(126, 3260), (24, 2826), (3, 1)]) (\<lambda>a. same_iso1SignatureValue v a \<and>
      iso1SignatureValue_sized a) g a" using at
    by - (elim insertE emptyE; (hypsubst, rule hops_by, simp (no_asm) add: iso1SignatureValue_steps del: One_nat_def,
      simp (no_asm) add: iso1SignatureValue_steps del: One_nat_def, simp (asm_lr) add: iso1SignatureValue_props del:
        One_nat_def, (elim conjE)?,
      ((rule walks_ifs)+)?); (frule iso1SignatureValue_ok_def [THEN iffD1], ((drule (1) known)+)?, (elim conjE)?,
        ((drule (1) known)+)?, (elim conjE)?,
      (((rule walks_shapes, simp (no_asm) del: One_nat_def, ((rule reads_intros)+)?);
      ((elim exE conjE)?,
        ((simp (no_asm_simp) add: iso1SignatureValue_props; fail) |
        (simp (asm_lr) add: iso1SignatureValue_props; fail) | (auto simp: iso1SignatureValue_props; fail)))) |
        (erule (1) notE; fail) |
        ((elim exE conjE)?,
        ((simp (no_asm_simp) add: iso1SignatureValue_props; fail) |
        (simp (asm_lr) add: iso1SignatureValue_props; fail) | (auto simp: iso1SignatureValue_props; fail))))))
qed

lemma reads_iso1SignatureValue [reads_intros]:
  "iso1SignatureValue_ok v \<Longrightarrow> iso1SignatureValue_sized a \<Longrightarrow>
      reads 3260 (\<lambda>s. encode_iso1SignatureValueType s v) (decode_iso1SignatureValueType j) a
      (\<lambda>a. same_iso1SignatureValue v a \<and> iso1SignatureValue_sized a)"
  unfolding encode_iso1SignatureValueType_def decode_iso1SignatureValueType_def [abs_def]
  by (rule reads_start [OF iso1SignatureValue.machine_reads, of _ 126, THEN reads_mono])
      (auto simp: iso1SignatureValue_at_def iso1SignatureValue_sized_def init_iso1SignatureValueType_def left_at_def)

interpretation iso1SignatureValue_enc: advancing_machine "iso1SignatureValue_enc_step v" "left_at
    [(126, 3), (24, 2), (3, 1)]" for v
  by unfold_locales (auto simp: iso1SignatureValue_steps dest!: advance_dests split: if_splits;
      simp add: left_at_def)

interpretation iso1SignatureValue_dec: advancing_machine "iso1SignatureValue_dec_step j" "left_at
    [(126, 3), (24, 2), (3, 1)]" for j
  by unfold_locales (auto simp: iso1SignatureValue_steps dest!: advance_dests elim!: decode_switch_next
      split: if_splits;
      simp add: left_at_def)

subsection \<open>\<open>iso1ObjectType\<close>\<close>

record iso1ObjectType =
  iso1Object_Id_characters :: "u8 list"
  iso1Object_Id_charactersLen :: u16
  iso1Object_Id_isUsed :: bool
  iso1Object_MimeType_characters :: "u8 list"
  iso1Object_MimeType_charactersLen :: u16
  iso1Object_MimeType_isUsed :: bool
  iso1Object_Encoding_characters :: "u8 list"
  iso1Object_Encoding_charactersLen :: u16
  iso1Object_Encoding_isUsed :: bool
  iso1Object_ANY_characters :: "u8 list"
  iso1Object_ANY_charactersLen :: u16
  iso1Object_ANY_isUsed :: bool

definition init_iso1ObjectType :: "iso1ObjectType \<Rightarrow> iso1ObjectType" where
  "init_iso1ObjectType a = a\<lparr>iso1Object_Id_isUsed := False, iso1Object_MimeType_isUsed := False,
      iso1Object_Encoding_isUsed := False, iso1Object_ANY_isUsed := False\<rparr>"

record iso1Object_locals =
  iso1Object_wcDone :: bool

definition iso1Object_enc_step_2 :: "iso1ObjectType \<Rightarrow> iso1Object_locals machine" where
  "iso1Object_enc_step_2 v grammarID x s =
     (if grammarID = 115 then
        if \<not> iso1Object_ANY_isUsed v \<or> iso1Object_wcDone x then finish 4 x (encodeNBitUnsignedInteger s 2 1)
        else if iso1Object_ANY_isUsed v then goto 116 (x\<lparr>iso1Object_wcDone := True\<rparr>)
          (encode_child 2 2 (encode_string_field (iso1Object_ANY_characters v) (iso1Object_ANY_charactersLen v)) s)
        else Some (EXI_ERROR_UNKOWN_EVENT, (False, grammarID, x), s)
      else if grammarID = 116 then
        if \<not> iso1Object_ANY_isUsed v \<or> iso1Object_wcDone x then finish 4 x (encodeNBitUnsignedInteger s 2 1)
        else if iso1Object_ANY_isUsed v then goto 116 (x\<lparr>iso1Object_wcDone := True\<rparr>)
          (encode_child 2 2 (encode_string_field (iso1Object_ANY_characters v) (iso1Object_ANY_charactersLen v)) s)
        else Some (EXI_ERROR_UNKOWN_EVENT, (False, grammarID, x), s)
      else Some (EXI_ERROR_UNKOWN_GRAMMAR_ID, (False, grammarID, x), s))"

definition iso1Object_enc_step :: "iso1ObjectType \<Rightarrow> iso1Object_locals machine" where
  "iso1Object_enc_step v grammarID x s =
     (if grammarID = 112 then
        if iso1Object_Encoding_isUsed v then
          goto 113 x
          (encode_child 3 0
          (encode_string_field (iso1Object_Encoding_characters v) (iso1Object_Encoding_charactersLen v)) s)
        else if iso1Object_Id_isUsed v then
          goto 114 x
          (encode_child 3 1 (encode_string_field (iso1Object_Id_characters v) (iso1Object_Id_charactersLen v)) s)
        else if iso1Object_MimeType_isUsed v then
          goto 115 x
          (encode_child 3 2
          (encode_string_field (iso1Object_MimeType_characters v) (iso1Object_MimeType_charactersLen v)) s)
        else if \<not> iso1Object_ANY_isUsed v \<or> iso1Object_wcDone x then
          finish 4 x (encodeNBitUnsignedInteger s 3 4)
        else if iso1Object_ANY_isUsed v then goto 116 (x\<lparr>iso1Object_wcDone := True\<rparr>)
          (encode_child 3 5 (encode_string_field (iso1Object_ANY_characters v) (iso1Object_ANY_charactersLen v)) s)
        else Some (EXI_ERROR_UNKOWN_EVENT, (False, grammarID, x), s)
      else if grammarID = 113 then
        if iso1Object_Id_isUsed v then
          goto 114 x
          (encode_child 3 0 (encode_string_field (iso1Object_Id_characters v) (iso1Object_Id_charactersLen v)) s)
        else if iso1Object_MimeType_isUsed v then
          goto 115 x
          (encode_child 3 1
          (encode_string_field (iso1Object_MimeType_characters v) (iso1Object_MimeType_charactersLen v)) s)
        else if \<not> iso1Object_ANY_isUsed v \<or> iso1Object_wcDone x then
          finish 4 x (encodeNBitUnsignedInteger s 3 3)
        else if iso1Object_ANY_isUsed v then goto 116 (x\<lparr>iso1Object_wcDone := True\<rparr>)
          (encode_child 3 4 (encode_string_field (iso1Object_ANY_characters v) (iso1Object_ANY_charactersLen v)) s)
        else Some (EXI_ERROR_UNKOWN_EVENT, (False, grammarID, x), s)
      else if grammarID = 114 then
        if iso1Object_MimeType_isUsed v then
          goto 115 x
          (encode_child 3 0
          (encode_string_field (iso1Object_MimeType_characters v) (iso1Object_MimeType_charactersLen v)) s)
        else if \<not> iso1Object_ANY_isUsed v \<or> iso1Object_wcDone x then
          finish 4 x (encodeNBitUnsignedInteger s 3 2)
        else if iso1Object_ANY_isUsed v then goto 116 (x\<lparr>iso1Object_wcDone := True\<rparr>)
          (encode_child 3 3 (encode_string_field (iso1Object_ANY_characters v) (iso1Object_ANY_charactersLen v)) s)
        else Some (EXI_ERROR_UNKOWN_EVENT, (False, grammarID, x), s)
      else iso1Object_enc_step_2 v grammarID x s)"

definition encode_iso1ObjectType :: "bitstream \<Rightarrow> iso1ObjectType \<Rightarrow> (errn \<times> bitstream)
    option" where
  "encode_iso1ObjectType s v = run_encoder (iso1Object_enc_step v) 112 \<lparr>iso1Object_wcDone = False\<rparr> s"

definition iso1Object_dec_step_2 :: "u32 \<Rightarrow> (dec_static \<times> iso1ObjectType) machine" where
  "iso1Object_dec_step_2 j grammarID x s =
     (if grammarID = 114 then
        decode_switch 3
         [(0, decode_child 115 (decode_used (\<lambda>a. a\<lparr>iso1Object_MimeType_isUsed := True\<rparr>)
           (decode_string_field j 51 iso1Object_MimeType_characters
           (\<lambda>u a. a\<lparr>iso1Object_MimeType_characters := u\<rparr>)
           (\<lambda>u a. a\<lparr>iso1Object_MimeType_charactersLen := u\<rparr>)))),
          (1, decode_unsupported 116),
          (2, decode_end 4),
          (3, decode_child 116 (decode_used (\<lambda>a. a\<lparr>iso1Object_ANY_isUsed := True\<rparr>)
            (decode_string_field j 51 iso1Object_ANY_characters
            (\<lambda>u a. a\<lparr>iso1Object_ANY_characters := u\<rparr>)
            (\<lambda>u a. a\<lparr>iso1Object_ANY_charactersLen := u\<rparr>))))] 114 x s
      else if grammarID = 115 then
        decode_switch 2
         [(0, decode_unsupported 116),
          (1, decode_end 4),
          (2, decode_child 116 (decode_used (\<lambda>a. a\<lparr>iso1Object_ANY_isUsed := True\<rparr>)
            (decode_string_field j 51 iso1Object_ANY_characters
            (\<lambda>u a. a\<lparr>iso1Object_ANY_characters := u\<rparr>)
            (\<lambda>u a. a\<lparr>iso1Object_ANY_charactersLen := u\<rparr>))))] 115 x s
      else if grammarID = 116 then
        decode_switch 2
         [(0, decode_unsupported 116),
          (1, decode_end 4),
          (2, decode_child 116 (decode_used (\<lambda>a. a\<lparr>iso1Object_ANY_isUsed := True\<rparr>)
            (decode_string_field j 51 iso1Object_ANY_characters
            (\<lambda>u a. a\<lparr>iso1Object_ANY_characters := u\<rparr>)
            (\<lambda>u a. a\<lparr>iso1Object_ANY_charactersLen := u\<rparr>))))] 116 x s
      else Some (EXI_ERROR_UNKOWN_GRAMMAR_ID, (False, grammarID, x), s))"

definition iso1Object_dec_step :: "u32 \<Rightarrow> (dec_static \<times> iso1ObjectType) machine" where
  "iso1Object_dec_step j grammarID x s =
     (if grammarID = 112 then
        decode_switch 3
         [(0, decode_child 113 (decode_used (\<lambda>a. a\<lparr>iso1Object_Encoding_isUsed := True\<rparr>)
           (decode_string_field j 51 iso1Object_Encoding_characters
           (\<lambda>u a. a\<lparr>iso1Object_Encoding_characters := u\<rparr>)
           (\<lambda>u a. a\<lparr>iso1Object_Encoding_charactersLen := u\<rparr>)))),
          (1, decode_child 114 (decode_used (\<lambda>a. a\<lparr>iso1Object_Id_isUsed := True\<rparr>)
            (decode_string_field j 51 iso1Object_Id_characters
            (\<lambda>u a. a\<lparr>iso1Object_Id_characters := u\<rparr>)
            (\<lambda>u a. a\<lparr>iso1Object_Id_charactersLen := u\<rparr>)))),
          (2, decode_child 115 (decode_used (\<lambda>a. a\<lparr>iso1Object_MimeType_isUsed := True\<rparr>)
            (decode_string_field j 51 iso1Object_MimeType_characters
            (\<lambda>u a. a\<lparr>iso1Object_MimeType_characters := u\<rparr>)
            (\<lambda>u a. a\<lparr>iso1Object_MimeType_charactersLen := u\<rparr>)))),
          (3, decode_unsupported 116),
          (4, decode_end 4),
          (5, decode_child 116 (decode_used (\<lambda>a. a\<lparr>iso1Object_ANY_isUsed := True\<rparr>)
            (decode_string_field j 51 iso1Object_ANY_characters
            (\<lambda>u a. a\<lparr>iso1Object_ANY_characters := u\<rparr>)
            (\<lambda>u a. a\<lparr>iso1Object_ANY_charactersLen := u\<rparr>))))] 112 x s
      else if grammarID = 113 then
        decode_switch 3
         [(0, decode_child 114 (decode_used (\<lambda>a. a\<lparr>iso1Object_Id_isUsed := True\<rparr>)
           (decode_string_field j 51 iso1Object_Id_characters
           (\<lambda>u a. a\<lparr>iso1Object_Id_characters := u\<rparr>)
           (\<lambda>u a. a\<lparr>iso1Object_Id_charactersLen := u\<rparr>)))),
          (1, decode_child 115 (decode_used (\<lambda>a. a\<lparr>iso1Object_MimeType_isUsed := True\<rparr>)
            (decode_string_field j 51 iso1Object_MimeType_characters
            (\<lambda>u a. a\<lparr>iso1Object_MimeType_characters := u\<rparr>)
            (\<lambda>u a. a\<lparr>iso1Object_MimeType_charactersLen := u\<rparr>)))),
          (2, decode_unsupported 116),
          (3, decode_end 4),
          (4, decode_child 116 (decode_used (\<lambda>a. a\<lparr>iso1Object_ANY_isUsed := True\<rparr>)
            (decode_string_field j 51 iso1Object_ANY_characters
            (\<lambda>u a. a\<lparr>iso1Object_ANY_characters := u\<rparr>)
            (\<lambda>u a. a\<lparr>iso1Object_ANY_charactersLen := u\<rparr>))))] 113 x s
      else iso1Object_dec_step_2 j grammarID x s)"

definition decode_iso1ObjectType :: "u32 \<Rightarrow> iso1ObjectType decoder" where
  "decode_iso1ObjectType j x s = grammar_loop (iso1Object_dec_step j) 112 (fst x, init_iso1ObjectType (snd x)) s"

definition iso1Object_ok :: "iso1ObjectType \<Rightarrow> bool" where
  "iso1Object_ok v \<longleftrightarrow>
     when_used (iso1Object_Encoding_isUsed v)
       (string_ok 51 (iso1Object_Encoding_characters v) (iso1Object_Encoding_charactersLen v)) \<and>
     when_used (iso1Object_Id_isUsed v) (string_ok 51 (iso1Object_Id_characters v) (iso1Object_Id_charactersLen v))
       \<and>
     when_used (iso1Object_MimeType_isUsed v)
       (string_ok 51 (iso1Object_MimeType_characters v) (iso1Object_MimeType_charactersLen v)) \<and>
     when_used (iso1Object_ANY_isUsed v)
       (string_ok 51 (iso1Object_ANY_characters v) (iso1Object_ANY_charactersLen v))"

definition iso1Object_sized :: "iso1ObjectType \<Rightarrow> bool" where
  "iso1Object_sized a \<longleftrightarrow>
     length (iso1Object_Encoding_characters a) = 51 \<and>
     length (iso1Object_Id_characters a) = 51 \<and>
     length (iso1Object_MimeType_characters a) = 51 \<and>
     length (iso1Object_ANY_characters a) = 51"

definition same_iso1Object :: "iso1ObjectType \<Rightarrow> iso1ObjectType \<Rightarrow> bool" where
  "same_iso1Object v a \<longleftrightarrow>
     kept (iso1Object_Encoding_isUsed v) (iso1Object_Encoding_isUsed a)
       (iso1Object_Encoding_charactersLen a = iso1Object_Encoding_charactersLen v \<and>
       take (unat (iso1Object_Encoding_charactersLen v)) (iso1Object_Encoding_characters a) = take
       (unat (iso1Object_Encoding_charactersLen v)) (iso1Object_Encoding_characters v)) \<and>
     kept (iso1Object_Id_isUsed v) (iso1Object_Id_isUsed a)
       (iso1Object_Id_charactersLen a = iso1Object_Id_charactersLen v \<and>
       take (unat (iso1Object_Id_charactersLen v)) (iso1Object_Id_characters a) = take
       (unat (iso1Object_Id_charactersLen v)) (iso1Object_Id_characters v)) \<and>
     kept (iso1Object_MimeType_isUsed v) (iso1Object_MimeType_isUsed a)
       (iso1Object_MimeType_charactersLen a = iso1Object_MimeType_charactersLen v \<and>
       take (unat (iso1Object_MimeType_charactersLen v)) (iso1Object_MimeType_characters a) = take
       (unat (iso1Object_MimeType_charactersLen v)) (iso1Object_MimeType_characters v)) \<and>
     kept (iso1Object_ANY_isUsed v) (iso1Object_ANY_isUsed a)
       (iso1Object_ANY_charactersLen a = iso1Object_ANY_charactersLen v \<and>
       take (unat (iso1Object_ANY_charactersLen v)) (iso1Object_ANY_characters a) = take
       (unat (iso1Object_ANY_charactersLen v)) (iso1Object_ANY_characters v))"

definition iso1Object_at :: "iso1ObjectType \<Rightarrow> nat \<Rightarrow> iso1Object_locals \<Rightarrow>
    iso1ObjectType \<Rightarrow> bool" where
  "iso1Object_at v g x a \<longleftrightarrow>
     iso1Object_ok v \<and>
     g \<in> {112, 113, 114, 115, 116} \<and>
     iso1Object_sized a \<and>
     (if g \<in> {112} then \<not> iso1Object_Encoding_isUsed a
      else kept (iso1Object_Encoding_isUsed v) (iso1Object_Encoding_isUsed a)
        (iso1Object_Encoding_charactersLen a = iso1Object_Encoding_charactersLen v \<and>
        take (unat (iso1Object_Encoding_charactersLen v)) (iso1Object_Encoding_characters a) = take
        (unat (iso1Object_Encoding_charactersLen v)) (iso1Object_Encoding_characters v))) \<and>
     (if g \<in> {112, 113} then \<not> iso1Object_Id_isUsed a
      else kept (iso1Object_Id_isUsed v) (iso1Object_Id_isUsed a)
        (iso1Object_Id_charactersLen a = iso1Object_Id_charactersLen v \<and>
        take (unat (iso1Object_Id_charactersLen v)) (iso1Object_Id_characters a) = take
        (unat (iso1Object_Id_charactersLen v)) (iso1Object_Id_characters v))) \<and>
     (if g \<in> {112, 113, 114} then \<not> iso1Object_MimeType_isUsed a
      else kept (iso1Object_MimeType_isUsed v) (iso1Object_MimeType_isUsed a)
        (iso1Object_MimeType_charactersLen a = iso1Object_MimeType_charactersLen v \<and>
        take (unat (iso1Object_MimeType_charactersLen v)) (iso1Object_MimeType_characters a) = take
        (unat (iso1Object_MimeType_charactersLen v)) (iso1Object_MimeType_characters v))) \<and>
     kept (iso1Object_wcDone x) (iso1Object_ANY_isUsed a) (iso1Object_ANY_isUsed v \<and>
       iso1Object_ANY_charactersLen a = iso1Object_ANY_charactersLen v \<and>
       take (unat (iso1Object_ANY_charactersLen v)) (iso1Object_ANY_characters a) = take
       (unat (iso1Object_ANY_charactersLen v)) (iso1Object_ANY_characters v))"

definition iso1Object_rank :: "iso1ObjectType \<Rightarrow> nat \<Rightarrow> iso1Object_locals \<Rightarrow> nat"
    where
  "iso1Object_rank v g x = left_at [(112, 1307), (113, 872), (114, 437), (115, 2), (116, 2)] g +
      (if iso1Object_wcDone x then 0 else 435)"

lemmas iso1Object_steps = iso1Object_enc_step_def iso1Object_enc_step_2_def
  iso1Object_dec_step_def iso1Object_dec_step_2_def

lemmas iso1Object_props = iso1Object_at_def iso1Object_sized_def same_iso1Object_def iso1Object_rank_def left_at_def

interpretation iso1Object: walking_pair "iso1Object_enc_step v" "iso1Object_dec_step j" "iso1Object_at v"
    "iso1Object_rank v"
  "\<lambda>a. same_iso1Object v a \<and> iso1Object_sized a" for v j
proof
  fix g x a assume at: "iso1Object_at v g x a"
  then have "g \<in> {112, 113, 114, 115, 116}" by (simp add: iso1Object_at_def)
  then show "walks (iso1Object_enc_step v) (iso1Object_dec_step j) (iso1Object_at v) (iso1Object_rank v)
    (\<lambda>a. same_iso1Object v a \<and> iso1Object_sized a) g x a" using at
    by - (elim insertE emptyE; (hypsubst, rule walks_by, simp (no_asm) add: iso1Object_steps del: One_nat_def,
      simp (no_asm) add: iso1Object_steps del: One_nat_def, simp (asm_lr) add: iso1Object_props del: One_nat_def,
        (elim conjE)?,
      ((rule walks_ifs)+)?); (frule iso1Object_ok_def [THEN iffD1], ((drule (1) known)+)?, (elim conjE)?,
        ((drule (1) known)+)?, (elim conjE)?,
      (((rule walks_shapes, simp (no_asm) del: One_nat_def, ((rule reads_intros)+)?);
      ((elim exE conjE)?,
        ((simp (no_asm_simp) add: iso1Object_props; fail) | (simp (asm_lr) add: iso1Object_props; fail) |
        (auto simp: iso1Object_props; fail)))) | (erule (1) notE; fail) |
        ((elim exE conjE)?,
        ((simp (no_asm_simp) add: iso1Object_props; fail) | (simp (asm_lr) add: iso1Object_props; fail) |
        (auto simp: iso1Object_props; fail))))))
qed

lemma reads_iso1Object [reads_intros]:
  "iso1Object_ok v \<Longrightarrow> iso1Object_sized a \<Longrightarrow>
      reads 1742 (\<lambda>s. encode_iso1ObjectType s v) (decode_iso1ObjectType j) a
      (\<lambda>a. same_iso1Object v a \<and> iso1Object_sized a)"
  unfolding encode_iso1ObjectType_def decode_iso1ObjectType_def [abs_def]
  by (rule reads_start [OF iso1Object.walk_reads, THEN reads_mono])
      (auto simp: iso1Object_props  counts_def due_def init_iso1ObjectType_def)

subsection \<open>\<open>iso1ManifestType\<close>\<close>

record iso1ManifestType =
  iso1Manifest_Id_characters :: "u8 list"
  iso1Manifest_Id_charactersLen :: u16
  iso1Manifest_Id_isUsed :: bool
  iso1Manifest_Reference_array :: "iso1ReferenceType list"
  iso1Manifest_Reference_arrayLen :: u16

definition init_iso1ManifestType :: "iso1ManifestType \<Rightarrow> iso1ManifestType" where
  "init_iso1ManifestType a = a\<lparr>iso1Manifest_Id_isUsed := False, iso1Manifest_Reference_arrayLen := 0\<rparr>"

record iso1Manifest_locals =
  iso1Manifest_Reference_currArrayIndex :: nat

definition iso1Manifest_enc_step :: "iso1ManifestType \<Rightarrow> iso1Manifest_locals machine" where
  "iso1Manifest_enc_step v grammarID x s =
     (if grammarID = 87 then
        if iso1Manifest_Id_isUsed v then
          goto 88 x
          (encode_child 2 0 (encode_string_field (iso1Manifest_Id_characters v) (iso1Manifest_Id_charactersLen v)) s)
        else if iso1Manifest_Reference_currArrayIndex x < unat (iso1Manifest_Reference_arrayLen v) then
          encode_array_child 2 1 66 encode_iso1ReferenceType (iso1Manifest_Reference_array v)
          iso1Manifest_Reference_currArrayIndex iso1Manifest_Reference_currArrayIndex_update x s
        else Some (EXI_ERROR_UNKOWN_EVENT, (False, grammarID, x), s)
      else if grammarID = 88 then
        if iso1Manifest_Reference_currArrayIndex x < unat (iso1Manifest_Reference_arrayLen v) then
          encode_array_child 1 0 66 encode_iso1ReferenceType (iso1Manifest_Reference_array v)
          iso1Manifest_Reference_currArrayIndex iso1Manifest_Reference_currArrayIndex_update x s
        else Some (EXI_ERROR_UNKOWN_EVENT, (False, grammarID, x), s)
      else if grammarID = 66 then
        if iso1Manifest_Reference_currArrayIndex x < unat (iso1Manifest_Reference_arrayLen v) then
          encode_array_child 2 0 66 encode_iso1ReferenceType (iso1Manifest_Reference_array v)
          iso1Manifest_Reference_currArrayIndex iso1Manifest_Reference_currArrayIndex_update x s
        else finish 4 x (encodeNBitUnsignedInteger s 2 1)
      else Some (EXI_ERROR_UNKOWN_GRAMMAR_ID, (False, grammarID, x), s))"

definition encode_iso1ManifestType :: "bitstream \<Rightarrow> iso1ManifestType \<Rightarrow>
    (errn \<times> bitstream) option" where
  "encode_iso1ManifestType s v = run_encoder (iso1Manifest_enc_step v) 87
      \<lparr>iso1Manifest_Reference_currArrayIndex = 0\<rparr> s"

abbreviation (input) decode_next_iso1Manifest_Reference :: "u32 \<Rightarrow> iso1ManifestType decoder" where
  "decode_next_iso1Manifest_Reference j \<equiv> decode_element (decode_iso1ReferenceType j)
      iso1Manifest_Reference_array iso1Manifest_Reference_arrayLen
      (\<lambda>xs n a. a\<lparr>iso1Manifest_Reference_array := xs, iso1Manifest_Reference_arrayLen := n\<rparr>)"

definition iso1Manifest_dec_step :: "u32 \<Rightarrow> (dec_static \<times> iso1ManifestType) machine" where
  "iso1Manifest_dec_step j grammarID x s =
     (if grammarID = 87 then
        decode_switch 2
         [(0, decode_child 88 (decode_used (\<lambda>a. a\<lparr>iso1Manifest_Id_isUsed := True\<rparr>)
           (decode_string_field j 51 iso1Manifest_Id_characters
           (\<lambda>u a. a\<lparr>iso1Manifest_Id_characters := u\<rparr>)
           (\<lambda>u a. a\<lparr>iso1Manifest_Id_charactersLen := u\<rparr>)))),
          (1, decode_array_child 66 1 iso1Manifest_Reference_arrayLen (decode_next_iso1Manifest_Reference j))] 87 x s
      else if grammarID = 88 then
        decode_switch 1
         [(0, decode_array_child 66 1 iso1Manifest_Reference_arrayLen (decode_next_iso1Manifest_Reference j))] 88 x s
      else if grammarID = 66 then
        decode_switch 2
         [(0, decode_array_child 66 1 iso1Manifest_Reference_arrayLen (decode_next_iso1Manifest_Reference j)),
          (1, decode_end 4)] 66 x s
      else Some (EXI_ERROR_UNKOWN_GRAMMAR_ID, (False, grammarID, x), s))"

definition decode_iso1ManifestType :: "u32 \<Rightarrow> iso1ManifestType decoder" where
  "decode_iso1ManifestType j x s = grammar_loop (iso1Manifest_dec_step j) 87 (fst x, init_iso1ManifestType (snd x)) s"

definition iso1Manifest_ok :: "iso1ManifestType \<Rightarrow> bool" where
  "iso1Manifest_ok v \<longleftrightarrow>
     when_used (iso1Manifest_Id_isUsed v)
       (string_ok 51 (iso1Manifest_Id_characters v) (iso1Manifest_Id_charactersLen v)) \<and>
     length (iso1Manifest_Reference_array v) = 1 \<and> unat (iso1Manifest_Reference_arrayLen v) \<le> 1 \<and>
       in_use iso1Reference_ok (iso1Manifest_Reference_array v) (iso1Manifest_Reference_arrayLen v) \<and>
     some_of [iso1Manifest_Id_isUsed v, unat (iso1Manifest_Reference_arrayLen v) \<noteq> 0] \<and>
     when_used (iso1Manifest_Id_isUsed v) (unat (iso1Manifest_Reference_arrayLen v) \<noteq> 0)"

definition iso1Manifest_sized :: "iso1ManifestType \<Rightarrow> bool" where
  "iso1Manifest_sized a \<longleftrightarrow>
     length (iso1Manifest_Id_characters a) = 51 \<and>
     length (iso1Manifest_Reference_array a) = 1 \<and>
     list_all iso1Reference_sized (iso1Manifest_Reference_array a)"

definition same_iso1Manifest :: "iso1ManifestType \<Rightarrow> iso1ManifestType \<Rightarrow> bool" where
  "same_iso1Manifest v a \<longleftrightarrow>
     kept (iso1Manifest_Id_isUsed v) (iso1Manifest_Id_isUsed a)
       (iso1Manifest_Id_charactersLen a = iso1Manifest_Id_charactersLen v \<and>
       take (unat (iso1Manifest_Id_charactersLen v)) (iso1Manifest_Id_characters a) = take
       (unat (iso1Manifest_Id_charactersLen v)) (iso1Manifest_Id_characters v)) \<and>
     iso1Manifest_Reference_arrayLen a = iso1Manifest_Reference_arrayLen v \<and>
       copied same_iso1Reference (unat (iso1Manifest_Reference_arrayLen v)) (iso1Manifest_Reference_array v)
       (iso1Manifest_Reference_array a)"

definition iso1Manifest_at :: "iso1ManifestType \<Rightarrow> nat \<Rightarrow> iso1Manifest_locals \<Rightarrow>
    iso1ManifestType \<Rightarrow> bool" where
  "iso1Manifest_at v g x a \<longleftrightarrow>
     counts [(87, 0), (88, 0)] g (iso1Manifest_Reference_currArrayIndex x) \<and>
     iso1Manifest_ok v \<and>
     g \<in> {87, 88, 66} \<and>
     iso1Manifest_sized a \<and>
     (if g \<in> {87} then \<not> iso1Manifest_Id_isUsed a
      else kept (iso1Manifest_Id_isUsed v) (iso1Manifest_Id_isUsed a)
        (iso1Manifest_Id_charactersLen a = iso1Manifest_Id_charactersLen v \<and>
        take (unat (iso1Manifest_Id_charactersLen v)) (iso1Manifest_Id_characters a) = take
        (unat (iso1Manifest_Id_charactersLen v)) (iso1Manifest_Id_characters v))) \<and>
     unat (iso1Manifest_Reference_arrayLen a) = iso1Manifest_Reference_currArrayIndex x \<and>
       iso1Manifest_Reference_currArrayIndex x \<le> unat (iso1Manifest_Reference_arrayLen v) \<and>
     copied same_iso1Reference (iso1Manifest_Reference_currArrayIndex x) (iso1Manifest_Reference_array v)
       (iso1Manifest_Reference_array a) \<and>
     (g = 88 \<longrightarrow> iso1Manifest_Id_isUsed v)"

definition iso1Manifest_rank :: "iso1ManifestType \<Rightarrow> nat \<Rightarrow> iso1Manifest_locals \<Rightarrow>
    nat" where
  "iso1Manifest_rank v g x = left_at [(87, 436), (88, 2), (66, 2)] g + due 6558 (iso1Manifest_Reference_arrayLen v)
      (iso1Manifest_Reference_currArrayIndex x)"

lemmas iso1Manifest_steps = iso1Manifest_enc_step_def
  iso1Manifest_dec_step_def

lemmas iso1Manifest_props = iso1Manifest_at_def iso1Manifest_sized_def same_iso1Manifest_def iso1Manifest_rank_def
    left_at_def

lemmas iso1Manifest_elements = in_use_nth [where P = iso1Reference_ok]
  slots_nth [where P = iso1Reference_sized]

interpretation iso1Manifest: walking_pair "iso1Manifest_enc_step v" "iso1Manifest_dec_step j" "iso1Manifest_at v"
    "iso1Manifest_rank v"
  "\<lambda>a. same_iso1Manifest v a \<and> iso1Manifest_sized a" for v j
proof
  fix g x a assume at: "iso1Manifest_at v g x a"
  then have "g \<in> {87, 88, 66}" by (simp add: iso1Manifest_at_def)
  then show "walks (iso1Manifest_enc_step v) (iso1Manifest_dec_step j) (iso1Manifest_at v) (iso1Manifest_rank v)
    (\<lambda>a. same_iso1Manifest v a \<and> iso1Manifest_sized a) g x a" using at
    by - (elim insertE emptyE; (hypsubst, rule walks_by, simp (no_asm) add: iso1Manifest_steps del: One_nat_def,
      simp (no_asm) add: iso1Manifest_steps del: One_nat_def, simp (asm_lr) add: iso1Manifest_props del: One_nat_def,
        (elim conjE)?,
      ((rule walks_ifs)+)?); (frule iso1Manifest_ok_def [THEN iffD1], ((drule (1) known)+)?, (elim conjE)?,
        ((drule (1) known)+)?, (elim conjE)?,
      (((rule walks_shapes, simp (no_asm) del: One_nat_def, ((rule reads_intros)+)?);
      ((elim exE conjE)?,
        ((simp (no_asm_simp) add: iso1Manifest_props iso1Manifest_elements counts_def array_intros; fail) |
        (simp (asm_lr) add: iso1Manifest_props iso1Manifest_elements counts_def array_intros; fail) |
        (auto simp: iso1Manifest_props iso1Manifest_elements counts_def array_intros; fail)))) |
        (erule (1) notE; fail) |
        ((elim exE conjE)?,
        ((simp (no_asm_simp) add: iso1Manifest_props iso1Manifest_elements counts_def array_intros; fail) |
        (simp (asm_lr) add: iso1Manifest_props iso1Manifest_elements counts_def array_intros; fail) |
        (auto simp: iso1Manifest_props iso1Manifest_elements counts_def array_intros; fail))))))
qed

lemma reads_iso1Manifest [reads_intros]:
  "iso1Manifest_ok v \<Longrightarrow> iso1Manifest_sized a \<Longrightarrow>
      reads 6994 (\<lambda>s. encode_iso1ManifestType s v) (decode_iso1ManifestType j) a
      (\<lambda>a. same_iso1Manifest v a \<and> iso1Manifest_sized a)"
  unfolding encode_iso1ManifestType_def decode_iso1ManifestType_def [abs_def]
  by (rule reads_start [OF iso1Manifest.walk_reads, THEN reads_mono])
      (auto simp: iso1Manifest_props iso1Manifest_ok_def counts_def due_def init_iso1ManifestType_def)

end
