(* ===== verification/Iso1KeyInfo.thy ===== *)
theory Iso1KeyInfo
  imports Iso1SignedInfo
begin

section \<open>ISO 15118 codec: the keys of a signature\<close>

text \<open>
  Key values, certificates, and the other ways to name the key of a signature, in the form explained
  in \<open>Iso1Values\<close>. The decoder refuses a text in place of an element of X509Data, PGPData and SPKIData,
  and the encoder has no code for it.
\<close>

subsection \<open>\<open>iso1DSAKeyValueType\<close>\<close>

record iso1DSAKeyValueType =
  iso1DSAKeyValue_P_bytes :: "u8 list"
  iso1DSAKeyValue_P_bytesLen :: u16
  iso1DSAKeyValue_P_isUsed :: bool
  iso1DSAKeyValue_Q_bytes :: "u8 list"
  iso1DSAKeyValue_Q_bytesLen :: u16
  iso1DSAKeyValue_Q_isUsed :: bool
  iso1DSAKeyValue_G_bytes :: "u8 list"
  iso1DSAKeyValue_G_bytesLen :: u16
  iso1DSAKeyValue_G_isUsed :: bool
  iso1DSAKeyValue_Y_bytes :: "u8 list"
  iso1DSAKeyValue_Y_bytesLen :: u16
  iso1DSAKeyValue_J_bytes :: "u8 list"
  iso1DSAKeyValue_J_bytesLen :: u16
  iso1DSAKeyValue_J_isUsed :: bool
  iso1DSAKeyValue_Seed_bytes :: "u8 list"
  iso1DSAKeyValue_Seed_bytesLen :: u16
  iso1DSAKeyValue_Seed_isUsed :: bool
  iso1DSAKeyValue_PgenCounter_bytes :: "u8 list"
  iso1DSAKeyValue_PgenCounter_bytesLen :: u16
  iso1DSAKeyValue_PgenCounter_isUsed :: bool

definition init_iso1DSAKeyValueType :: "iso1DSAKeyValueType \<Rightarrow> iso1DSAKeyValueType" where
  "init_iso1DSAKeyValueType a = a\<lparr>iso1DSAKeyValue_P_isUsed := False, iso1DSAKeyValue_Q_isUsed := False,
      iso1DSAKeyValue_G_isUsed := False, iso1DSAKeyValue_J_isUsed := False, iso1DSAKeyValue_Seed_isUsed := False,
      iso1DSAKeyValue_PgenCounter_isUsed := False\<rparr>"

definition iso1DSAKeyValue_enc_step_2 :: "iso1DSAKeyValueType \<Rightarrow> unit machine" where
  "iso1DSAKeyValue_enc_step_2 v grammarID x s =
     (if grammarID = 154 then
        if iso1DSAKeyValue_J_isUsed v then
          goto 156 x
          (encode_simple 2 0 (encode_bytes_field (iso1DSAKeyValue_J_bytes v) (iso1DSAKeyValue_J_bytesLen v)) s)
        else if iso1DSAKeyValue_Seed_isUsed v then
          goto 157 x
          (encode_simple 2 1 (encode_bytes_field (iso1DSAKeyValue_Seed_bytes v) (iso1DSAKeyValue_Seed_bytesLen v)) s)
        else finish 4 x (encodeNBitUnsignedInteger s 2 2)
      else if grammarID = 156 then
        if iso1DSAKeyValue_Seed_isUsed v then
          goto 157 x
          (encode_simple 2 0 (encode_bytes_field (iso1DSAKeyValue_Seed_bytes v) (iso1DSAKeyValue_Seed_bytesLen v)) s)
        else finish 4 x (encodeNBitUnsignedInteger s 2 1)
      else if grammarID = 157 then
        if iso1DSAKeyValue_PgenCounter_isUsed v then
          goto 3 x (encode_simple 1 0
          (encode_bytes_field (iso1DSAKeyValue_PgenCounter_bytes v) (iso1DSAKeyValue_PgenCounter_bytesLen v)) s)
        else Some (EXI_ERROR_UNKOWN_EVENT, (False, grammarID, x), s)
      else if grammarID = 3 then
        finish 4 x (encodeNBitUnsignedInteger s 1 0)
      else Some (EXI_ERROR_UNKOWN_GRAMMAR_ID, (False, grammarID, x), s))"

definition iso1DSAKeyValue_enc_step :: "iso1DSAKeyValueType \<Rightarrow> unit machine" where
  "iso1DSAKeyValue_enc_step v grammarID x s =
     (if grammarID = 151 then
        if iso1DSAKeyValue_P_isUsed v then
          goto 152 x
          (encode_simple 2 0 (encode_bytes_field (iso1DSAKeyValue_P_bytes v) (iso1DSAKeyValue_P_bytesLen v)) s)
        else if iso1DSAKeyValue_G_isUsed v then
          goto 153 x
          (encode_simple 2 1 (encode_bytes_field (iso1DSAKeyValue_G_bytes v) (iso1DSAKeyValue_G_bytesLen v)) s)
        else goto 154 x
          (encode_simple 2 2 (encode_bytes_field (iso1DSAKeyValue_Y_bytes v) (iso1DSAKeyValue_Y_bytesLen v)) s)
      else if grammarID = 152 then
        if iso1DSAKeyValue_Q_isUsed v then
          goto 155 x
          (encode_simple 1 0 (encode_bytes_field (iso1DSAKeyValue_Q_bytes v) (iso1DSAKeyValue_Q_bytesLen v)) s)
        else Some (EXI_ERROR_UNKOWN_EVENT, (False, grammarID, x), s)
      else if grammarID = 155 then
        if iso1DSAKeyValue_G_isUsed v then
          goto 153 x
          (encode_simple 2 0 (encode_bytes_field (iso1DSAKeyValue_G_bytes v) (iso1DSAKeyValue_G_bytesLen v)) s)
        else goto 154 x
          (encode_simple 2 1 (encode_bytes_field (iso1DSAKeyValue_Y_bytes v) (iso1DSAKeyValue_Y_bytesLen v)) s)
      else if grammarID = 153 then
        goto 154 x (encode_simple 1 0 (encode_bytes_field (iso1DSAKeyValue_Y_bytes v) (iso1DSAKeyValue_Y_bytesLen v))
          s)
      else iso1DSAKeyValue_enc_step_2 v grammarID x s)"

definition encode_iso1DSAKeyValueType :: "bitstream \<Rightarrow> iso1DSAKeyValueType \<Rightarrow>
    (errn \<times> bitstream) option" where
  "encode_iso1DSAKeyValueType s v = run_encoder (iso1DSAKeyValue_enc_step v) 151 () s"

definition iso1DSAKeyValue_dec_step_4 :: "u32 \<Rightarrow> (dec_static \<times> iso1DSAKeyValueType) machine" where
  "iso1DSAKeyValue_dec_step_4 j grammarID x s =
     (if grammarID = 157 then
        decode_switch 1
         [(0, decode_simple 157 3
           (decode_used (\<lambda>a. a\<lparr>iso1DSAKeyValue_PgenCounter_isUsed := True\<rparr>)
           (decode_bytes_field j 350 iso1DSAKeyValue_PgenCounter_bytes
           (\<lambda>u a. a\<lparr>iso1DSAKeyValue_PgenCounter_bytes := u\<rparr>)
           (\<lambda>u a. a\<lparr>iso1DSAKeyValue_PgenCounter_bytesLen := u\<rparr>))))] 157 x s
      else if grammarID = 3 then
        decode_switch 1
         [(0, decode_end 4)] 3 x s
      else Some (EXI_ERROR_UNKOWN_GRAMMAR_ID, (False, grammarID, x), s))"

definition iso1DSAKeyValue_dec_step_3 :: "u32 \<Rightarrow> (dec_static \<times> iso1DSAKeyValueType) machine" where
  "iso1DSAKeyValue_dec_step_3 j grammarID x s =
     (if grammarID = 154 then
        decode_switch 2
         [(0, decode_simple 154 156 (decode_used (\<lambda>a. a\<lparr>iso1DSAKeyValue_J_isUsed := True\<rparr>)
           (decode_bytes_field j 350 iso1DSAKeyValue_J_bytes
           (\<lambda>u a. a\<lparr>iso1DSAKeyValue_J_bytes := u\<rparr>)
           (\<lambda>u a. a\<lparr>iso1DSAKeyValue_J_bytesLen := u\<rparr>)))),
          (1, decode_simple 154 157 (decode_used (\<lambda>a. a\<lparr>iso1DSAKeyValue_Seed_isUsed := True\<rparr>)
            (decode_bytes_field j 350 iso1DSAKeyValue_Seed_bytes
            (\<lambda>u a. a\<lparr>iso1DSAKeyValue_Seed_bytes := u\<rparr>)
            (\<lambda>u a. a\<lparr>iso1DSAKeyValue_Seed_bytesLen := u\<rparr>)))),
          (2, decode_end 4)] 154 x s
      else if grammarID = 156 then
        decode_switch 2
         [(0, decode_simple 156 157 (decode_used (\<lambda>a. a\<lparr>iso1DSAKeyValue_Seed_isUsed := True\<rparr>)
           (decode_bytes_field j 350 iso1DSAKeyValue_Seed_bytes
           (\<lambda>u a. a\<lparr>iso1DSAKeyValue_Seed_bytes := u\<rparr>)
           (\<lambda>u a. a\<lparr>iso1DSAKeyValue_Seed_bytesLen := u\<rparr>)))),
          (1, decode_end 4)] 156 x s
      else iso1DSAKeyValue_dec_step_4 j grammarID x s)"

definition iso1DSAKeyValue_dec_step_2 :: "u32 \<Rightarrow> (dec_static \<times> iso1DSAKeyValueType) machine" where
  "iso1DSAKeyValue_dec_step_2 j grammarID x s =
     (if grammarID = 155 then
        decode_switch 2
         [(0, decode_simple 155 153 (decode_used (\<lambda>a. a\<lparr>iso1DSAKeyValue_G_isUsed := True\<rparr>)
           (decode_bytes_field j 350 iso1DSAKeyValue_G_bytes
           (\<lambda>u a. a\<lparr>iso1DSAKeyValue_G_bytes := u\<rparr>)
           (\<lambda>u a. a\<lparr>iso1DSAKeyValue_G_bytesLen := u\<rparr>)))),
          (1, decode_simple 155 154
            (decode_bytes_field j 350 iso1DSAKeyValue_Y_bytes
            (\<lambda>u a. a\<lparr>iso1DSAKeyValue_Y_bytes := u\<rparr>)
            (\<lambda>u a. a\<lparr>iso1DSAKeyValue_Y_bytesLen := u\<rparr>)))] 155 x s
      else if grammarID = 153 then
        decode_switch 1
         [(0, decode_simple 153 154
           (decode_bytes_field j 350 iso1DSAKeyValue_Y_bytes
           (\<lambda>u a. a\<lparr>iso1DSAKeyValue_Y_bytes := u\<rparr>)
           (\<lambda>u a. a\<lparr>iso1DSAKeyValue_Y_bytesLen := u\<rparr>)))] 153 x s
      else iso1DSAKeyValue_dec_step_3 j grammarID x s)"

definition iso1DSAKeyValue_dec_step :: "u32 \<Rightarrow> (dec_static \<times> iso1DSAKeyValueType) machine" where
  "iso1DSAKeyValue_dec_step j grammarID x s =
     (if grammarID = 151 then
        decode_switch 2
         [(0, decode_simple 151 152 (decode_used (\<lambda>a. a\<lparr>iso1DSAKeyValue_P_isUsed := True\<rparr>)
           (decode_bytes_field j 350 iso1DSAKeyValue_P_bytes
           (\<lambda>u a. a\<lparr>iso1DSAKeyValue_P_bytes := u\<rparr>)
           (\<lambda>u a. a\<lparr>iso1DSAKeyValue_P_bytesLen := u\<rparr>)))),
          (1, decode_simple 151 153 (decode_used (\<lambda>a. a\<lparr>iso1DSAKeyValue_G_isUsed := True\<rparr>)
            (decode_bytes_field j 350 iso1DSAKeyValue_G_bytes
            (\<lambda>u a. a\<lparr>iso1DSAKeyValue_G_bytes := u\<rparr>)
            (\<lambda>u a. a\<lparr>iso1DSAKeyValue_G_bytesLen := u\<rparr>)))),
          (2, decode_simple 151 154
            (decode_bytes_field j 350 iso1DSAKeyValue_Y_bytes
            (\<lambda>u a. a\<lparr>iso1DSAKeyValue_Y_bytes := u\<rparr>)
            (\<lambda>u a. a\<lparr>iso1DSAKeyValue_Y_bytesLen := u\<rparr>)))] 151 x s
      else if grammarID = 152 then
        decode_switch 1
         [(0, decode_simple 152 155 (decode_used (\<lambda>a. a\<lparr>iso1DSAKeyValue_Q_isUsed := True\<rparr>)
           (decode_bytes_field j 350 iso1DSAKeyValue_Q_bytes
           (\<lambda>u a. a\<lparr>iso1DSAKeyValue_Q_bytes := u\<rparr>)
           (\<lambda>u a. a\<lparr>iso1DSAKeyValue_Q_bytesLen := u\<rparr>))))] 152 x s
      else iso1DSAKeyValue_dec_step_2 j grammarID x s)"

definition decode_iso1DSAKeyValueType :: "u32 \<Rightarrow> iso1DSAKeyValueType decoder" where
  "decode_iso1DSAKeyValueType j x s = grammar_loop (iso1DSAKeyValue_dec_step j) 151
      (fst x, init_iso1DSAKeyValueType (snd x)) s"

definition iso1DSAKeyValue_ok :: "iso1DSAKeyValueType \<Rightarrow> bool" where
  "iso1DSAKeyValue_ok v \<longleftrightarrow>
     when_used (iso1DSAKeyValue_P_isUsed v) (length (iso1DSAKeyValue_P_bytes v) = 350 \<and>
       unat (iso1DSAKeyValue_P_bytesLen v) \<le> 350) \<and>
     when_used (iso1DSAKeyValue_G_isUsed v) (length (iso1DSAKeyValue_G_bytes v) = 350 \<and>
       unat (iso1DSAKeyValue_G_bytesLen v) \<le> 350) \<and>
     length (iso1DSAKeyValue_Y_bytes v) = 350 \<and> unat (iso1DSAKeyValue_Y_bytesLen v) \<le> 350 \<and>
     when_used (iso1DSAKeyValue_Q_isUsed v) (length (iso1DSAKeyValue_Q_bytes v) = 350 \<and>
       unat (iso1DSAKeyValue_Q_bytesLen v) \<le> 350) \<and>
     when_used (iso1DSAKeyValue_J_isUsed v) (length (iso1DSAKeyValue_J_bytes v) = 350 \<and>
       unat (iso1DSAKeyValue_J_bytesLen v) \<le> 350) \<and>
     when_used (iso1DSAKeyValue_Seed_isUsed v) (length (iso1DSAKeyValue_Seed_bytes v) = 350 \<and>
       unat (iso1DSAKeyValue_Seed_bytesLen v) \<le> 350) \<and>
     when_used (iso1DSAKeyValue_PgenCounter_isUsed v) (length (iso1DSAKeyValue_PgenCounter_bytes v) = 350 \<and>
       unat (iso1DSAKeyValue_PgenCounter_bytesLen v) \<le> 350) \<and>
     when_used (iso1DSAKeyValue_P_isUsed v) (iso1DSAKeyValue_Q_isUsed v) \<and>
     when_used (iso1DSAKeyValue_Seed_isUsed v) (iso1DSAKeyValue_PgenCounter_isUsed v) \<and>
     when_used (iso1DSAKeyValue_Q_isUsed v) (iso1DSAKeyValue_P_isUsed v) \<and>
     when_used (iso1DSAKeyValue_PgenCounter_isUsed v)
       (some_of [iso1DSAKeyValue_J_isUsed v, iso1DSAKeyValue_Seed_isUsed v]) \<and>
     when_used (iso1DSAKeyValue_PgenCounter_isUsed v) (iso1DSAKeyValue_Seed_isUsed v)"

definition iso1DSAKeyValue_sized :: "iso1DSAKeyValueType \<Rightarrow> bool" where
  "iso1DSAKeyValue_sized a \<longleftrightarrow>
     length (iso1DSAKeyValue_P_bytes a) = 350 \<and>
     length (iso1DSAKeyValue_G_bytes a) = 350 \<and>
     length (iso1DSAKeyValue_Y_bytes a) = 350 \<and>
     length (iso1DSAKeyValue_Q_bytes a) = 350 \<and>
     length (iso1DSAKeyValue_J_bytes a) = 350 \<and>
     length (iso1DSAKeyValue_Seed_bytes a) = 350 \<and>
     length (iso1DSAKeyValue_PgenCounter_bytes a) = 350"

definition same_iso1DSAKeyValue :: "iso1DSAKeyValueType \<Rightarrow> iso1DSAKeyValueType \<Rightarrow> bool" where
  "same_iso1DSAKeyValue v a \<longleftrightarrow>
     kept (iso1DSAKeyValue_P_isUsed v) (iso1DSAKeyValue_P_isUsed a)
       (iso1DSAKeyValue_P_bytesLen a = iso1DSAKeyValue_P_bytesLen v \<and> take (unat (iso1DSAKeyValue_P_bytesLen v))
       (iso1DSAKeyValue_P_bytes a) = take (unat (iso1DSAKeyValue_P_bytesLen v)) (iso1DSAKeyValue_P_bytes v)) \<and>
     kept (iso1DSAKeyValue_G_isUsed v) (iso1DSAKeyValue_G_isUsed a)
       (iso1DSAKeyValue_G_bytesLen a = iso1DSAKeyValue_G_bytesLen v \<and> take (unat (iso1DSAKeyValue_G_bytesLen v))
       (iso1DSAKeyValue_G_bytes a) = take (unat (iso1DSAKeyValue_G_bytesLen v)) (iso1DSAKeyValue_G_bytes v)) \<and>
     iso1DSAKeyValue_Y_bytesLen a = iso1DSAKeyValue_Y_bytesLen v \<and> take (unat (iso1DSAKeyValue_Y_bytesLen v))
       (iso1DSAKeyValue_Y_bytes a) = take (unat (iso1DSAKeyValue_Y_bytesLen v)) (iso1DSAKeyValue_Y_bytes v) \<and>
     kept (iso1DSAKeyValue_Q_isUsed v) (iso1DSAKeyValue_Q_isUsed a)
       (iso1DSAKeyValue_Q_bytesLen a = iso1DSAKeyValue_Q_bytesLen v \<and> take (unat (iso1DSAKeyValue_Q_bytesLen v))
       (iso1DSAKeyValue_Q_bytes a) = take (unat (iso1DSAKeyValue_Q_bytesLen v)) (iso1DSAKeyValue_Q_bytes v)) \<and>
     kept (iso1DSAKeyValue_J_isUsed v) (iso1DSAKeyValue_J_isUsed a)
       (iso1DSAKeyValue_J_bytesLen a = iso1DSAKeyValue_J_bytesLen v \<and> take (unat (iso1DSAKeyValue_J_bytesLen v))
       (iso1DSAKeyValue_J_bytes a) = take (unat (iso1DSAKeyValue_J_bytesLen v)) (iso1DSAKeyValue_J_bytes v)) \<and>
     kept (iso1DSAKeyValue_Seed_isUsed v) (iso1DSAKeyValue_Seed_isUsed a)
       (iso1DSAKeyValue_Seed_bytesLen a = iso1DSAKeyValue_Seed_bytesLen v \<and>
       take (unat (iso1DSAKeyValue_Seed_bytesLen v)) (iso1DSAKeyValue_Seed_bytes a) = take
       (unat (iso1DSAKeyValue_Seed_bytesLen v)) (iso1DSAKeyValue_Seed_bytes v)) \<and>
     kept (iso1DSAKeyValue_PgenCounter_isUsed v) (iso1DSAKeyValue_PgenCounter_isUsed a)
       (iso1DSAKeyValue_PgenCounter_bytesLen a = iso1DSAKeyValue_PgenCounter_bytesLen v \<and>
       take (unat (iso1DSAKeyValue_PgenCounter_bytesLen v)) (iso1DSAKeyValue_PgenCounter_bytes a) = take
       (unat (iso1DSAKeyValue_PgenCounter_bytesLen v)) (iso1DSAKeyValue_PgenCounter_bytes v))"

definition iso1DSAKeyValue_at :: "iso1DSAKeyValueType \<Rightarrow> nat \<Rightarrow> iso1DSAKeyValueType
    \<Rightarrow> bool" where
  "iso1DSAKeyValue_at v g a \<longleftrightarrow>
     iso1DSAKeyValue_ok v \<and>
     g \<in> {151, 152, 155, 153, 154, 156, 157, 3} \<and>
     iso1DSAKeyValue_sized a \<and>
     (if g \<in> {151} then \<not> iso1DSAKeyValue_P_isUsed a
      else kept (iso1DSAKeyValue_P_isUsed v) (iso1DSAKeyValue_P_isUsed a)
        (iso1DSAKeyValue_P_bytesLen a = iso1DSAKeyValue_P_bytesLen v \<and> take (unat (iso1DSAKeyValue_P_bytesLen v))
        (iso1DSAKeyValue_P_bytes a) = take (unat (iso1DSAKeyValue_P_bytesLen v)) (iso1DSAKeyValue_P_bytes v))) \<and>
     (if g \<in> {151, 152, 155} then \<not> iso1DSAKeyValue_G_isUsed a
      else kept (iso1DSAKeyValue_G_isUsed v) (iso1DSAKeyValue_G_isUsed a)
        (iso1DSAKeyValue_G_bytesLen a = iso1DSAKeyValue_G_bytesLen v \<and> take (unat (iso1DSAKeyValue_G_bytesLen v))
        (iso1DSAKeyValue_G_bytes a) = take (unat (iso1DSAKeyValue_G_bytesLen v)) (iso1DSAKeyValue_G_bytes v))) \<and>
     (g \<notin> {151, 152, 155, 153} \<longrightarrow> iso1DSAKeyValue_Y_bytesLen a = iso1DSAKeyValue_Y_bytesLen v
       \<and> take (unat (iso1DSAKeyValue_Y_bytesLen v)) (iso1DSAKeyValue_Y_bytes a) = take
       (unat (iso1DSAKeyValue_Y_bytesLen v)) (iso1DSAKeyValue_Y_bytes v)) \<and>
     (if g \<in> {151, 152} then \<not> iso1DSAKeyValue_Q_isUsed a
      else kept (iso1DSAKeyValue_Q_isUsed v) (iso1DSAKeyValue_Q_isUsed a)
        (iso1DSAKeyValue_Q_bytesLen a = iso1DSAKeyValue_Q_bytesLen v \<and> take (unat (iso1DSAKeyValue_Q_bytesLen v))
        (iso1DSAKeyValue_Q_bytes a) = take (unat (iso1DSAKeyValue_Q_bytesLen v)) (iso1DSAKeyValue_Q_bytes v))) \<and>
     (if g \<in> {151, 152, 155, 153, 154} then \<not> iso1DSAKeyValue_J_isUsed a
      else kept (iso1DSAKeyValue_J_isUsed v) (iso1DSAKeyValue_J_isUsed a)
        (iso1DSAKeyValue_J_bytesLen a = iso1DSAKeyValue_J_bytesLen v \<and> take (unat (iso1DSAKeyValue_J_bytesLen v))
        (iso1DSAKeyValue_J_bytes a) = take (unat (iso1DSAKeyValue_J_bytesLen v)) (iso1DSAKeyValue_J_bytes v))) \<and>
     (if g \<in> {151, 152, 155, 153, 154, 156} then \<not> iso1DSAKeyValue_Seed_isUsed a
      else kept (iso1DSAKeyValue_Seed_isUsed v) (iso1DSAKeyValue_Seed_isUsed a)
        (iso1DSAKeyValue_Seed_bytesLen a = iso1DSAKeyValue_Seed_bytesLen v \<and>
        take (unat (iso1DSAKeyValue_Seed_bytesLen v)) (iso1DSAKeyValue_Seed_bytes a) = take
        (unat (iso1DSAKeyValue_Seed_bytesLen v)) (iso1DSAKeyValue_Seed_bytes v))) \<and>
     (if g \<in> {151, 152, 155, 153, 154, 156, 157} then \<not> iso1DSAKeyValue_PgenCounter_isUsed a
      else kept (iso1DSAKeyValue_PgenCounter_isUsed v) (iso1DSAKeyValue_PgenCounter_isUsed a)
        (iso1DSAKeyValue_PgenCounter_bytesLen a = iso1DSAKeyValue_PgenCounter_bytesLen v \<and>
        take (unat (iso1DSAKeyValue_PgenCounter_bytesLen v)) (iso1DSAKeyValue_PgenCounter_bytes a) = take
        (unat (iso1DSAKeyValue_PgenCounter_bytesLen v)) (iso1DSAKeyValue_PgenCounter_bytes v))) \<and>
     (g = 152 \<longrightarrow> iso1DSAKeyValue_P_isUsed v) \<and>
     (g = 157 \<longrightarrow> iso1DSAKeyValue_Seed_isUsed v)"

lemmas iso1DSAKeyValue_steps = iso1DSAKeyValue_enc_step_def iso1DSAKeyValue_enc_step_2_def
  iso1DSAKeyValue_dec_step_def iso1DSAKeyValue_dec_step_2_def iso1DSAKeyValue_dec_step_3_def
      iso1DSAKeyValue_dec_step_4_def

lemmas iso1DSAKeyValue_props = iso1DSAKeyValue_at_def iso1DSAKeyValue_sized_def same_iso1DSAKeyValue_def left_at_def

interpretation iso1DSAKeyValue: paired_machines "iso1DSAKeyValue_enc_step v" "iso1DSAKeyValue_dec_step j"
    "iso1DSAKeyValue_at v"
  "left_at [(151, 19794), (152, 16966), (155, 14139), (153, 11311), (154, 8484), (156, 5656), (157, 2828), (3, 1)]"
      "\<lambda>a. same_iso1DSAKeyValue v a \<and> iso1DSAKeyValue_sized a" for v j
proof
  fix g a assume at: "iso1DSAKeyValue_at v g a"
  then have "g \<in> {151, 152, 155, 153, 154, 156, 157, 3}" by (simp add: iso1DSAKeyValue_at_def)
  then show "hops (iso1DSAKeyValue_enc_step v) (iso1DSAKeyValue_dec_step j) (iso1DSAKeyValue_at v)
    (left_at [(151, 19794), (152, 16966), (155, 14139), (153, 11311), (154, 8484), (156, 5656), (157, 2828), (3, 1)])
      (\<lambda>a. same_iso1DSAKeyValue v a \<and> iso1DSAKeyValue_sized a) g a" using at
    by - (elim insertE emptyE; (hypsubst, rule hops_by, simp (no_asm) add: iso1DSAKeyValue_steps del: One_nat_def,
      simp (no_asm) add: iso1DSAKeyValue_steps del: One_nat_def, simp (asm_lr) add: iso1DSAKeyValue_props del:
        One_nat_def, (elim conjE)?,
      ((rule walks_ifs)+)?); (frule iso1DSAKeyValue_ok_def [THEN iffD1], ((drule (1) known)+)?, (elim conjE)?,
        ((drule (1) known)+)?, (elim conjE)?,
      (((rule walks_shapes, simp (no_asm) del: One_nat_def, ((rule reads_intros)+)?);
      ((elim exE conjE)?,
        ((simp (no_asm_simp) add: iso1DSAKeyValue_props; fail) | (simp (asm_lr) add: iso1DSAKeyValue_props; fail) |
        (auto simp: iso1DSAKeyValue_props; fail)))) | (erule (1) notE; fail) |
        ((elim exE conjE)?,
        ((simp (no_asm_simp) add: iso1DSAKeyValue_props; fail) | (simp (asm_lr) add: iso1DSAKeyValue_props; fail) |
        (auto simp: iso1DSAKeyValue_props; fail))))))
qed

lemma reads_iso1DSAKeyValue [reads_intros]:
  "iso1DSAKeyValue_ok v \<Longrightarrow> iso1DSAKeyValue_sized a \<Longrightarrow>
      reads 19794 (\<lambda>s. encode_iso1DSAKeyValueType s v) (decode_iso1DSAKeyValueType j) a
      (\<lambda>a. same_iso1DSAKeyValue v a \<and> iso1DSAKeyValue_sized a)"
  unfolding encode_iso1DSAKeyValueType_def decode_iso1DSAKeyValueType_def [abs_def]
  by (rule reads_start [OF iso1DSAKeyValue.machine_reads, of _ 151, THEN reads_mono])
      (auto simp: iso1DSAKeyValue_at_def iso1DSAKeyValue_sized_def init_iso1DSAKeyValueType_def left_at_def)

interpretation iso1DSAKeyValue_enc: advancing_machine "iso1DSAKeyValue_enc_step v" "left_at
    [(151, 8), (152, 7), (155, 6), (153, 5), (154, 4), (156, 3), (157, 2), (3, 1)]" for v
  by unfold_locales (auto simp: iso1DSAKeyValue_steps dest!: advance_dests split: if_splits;
      simp add: left_at_def)

interpretation iso1DSAKeyValue_dec: advancing_machine "iso1DSAKeyValue_dec_step j" "left_at
    [(151, 8), (152, 7), (155, 6), (153, 5), (154, 4), (156, 3), (157, 2), (3, 1)]" for j
  by unfold_locales (auto simp: iso1DSAKeyValue_steps dest!: advance_dests elim!: decode_switch_next
      split: if_splits;
      simp add: left_at_def)

subsection \<open>\<open>iso1RSAKeyValueType\<close>\<close>

record iso1RSAKeyValueType =
  iso1RSAKeyValue_Modulus_bytes :: "u8 list"
  iso1RSAKeyValue_Modulus_bytesLen :: u16
  iso1RSAKeyValue_Exponent_bytes :: "u8 list"
  iso1RSAKeyValue_Exponent_bytesLen :: u16

definition init_iso1RSAKeyValueType :: "iso1RSAKeyValueType \<Rightarrow> iso1RSAKeyValueType" where
  "init_iso1RSAKeyValueType a = a"

definition iso1RSAKeyValue_enc_step :: "iso1RSAKeyValueType \<Rightarrow> unit machine" where
  "iso1RSAKeyValue_enc_step v grammarID x s =
     (if grammarID = 120 then
        goto 121 x
          (encode_simple 1 0
          (encode_bytes_field (iso1RSAKeyValue_Modulus_bytes v) (iso1RSAKeyValue_Modulus_bytesLen v)) s)
      else if grammarID = 121 then
        goto 3 x (encode_simple 1 0
          (encode_bytes_field (iso1RSAKeyValue_Exponent_bytes v) (iso1RSAKeyValue_Exponent_bytesLen v)) s)
      else if grammarID = 3 then
        finish 4 x (encodeNBitUnsignedInteger s 1 0)
      else Some (EXI_ERROR_UNKOWN_GRAMMAR_ID, (False, grammarID, x), s))"

definition encode_iso1RSAKeyValueType :: "bitstream \<Rightarrow> iso1RSAKeyValueType \<Rightarrow>
    (errn \<times> bitstream) option" where
  "encode_iso1RSAKeyValueType s v = run_encoder (iso1RSAKeyValue_enc_step v) 120 () s"

definition iso1RSAKeyValue_dec_step :: "u32 \<Rightarrow> (dec_static \<times> iso1RSAKeyValueType) machine" where
  "iso1RSAKeyValue_dec_step j grammarID x s =
     (if grammarID = 120 then
        decode_switch 1
         [(0, decode_simple 120 121
           (decode_bytes_field j 350 iso1RSAKeyValue_Modulus_bytes
           (\<lambda>u a. a\<lparr>iso1RSAKeyValue_Modulus_bytes := u\<rparr>)
           (\<lambda>u a. a\<lparr>iso1RSAKeyValue_Modulus_bytesLen := u\<rparr>)))] 120 x s
      else if grammarID = 121 then
        decode_switch 1
         [(0, decode_simple 121 3
           (decode_bytes_field j 350 iso1RSAKeyValue_Exponent_bytes
           (\<lambda>u a. a\<lparr>iso1RSAKeyValue_Exponent_bytes := u\<rparr>)
           (\<lambda>u a. a\<lparr>iso1RSAKeyValue_Exponent_bytesLen := u\<rparr>)))] 121 x s
      else if grammarID = 3 then
        decode_switch 1
         [(0, decode_end 4)] 3 x s
      else Some (EXI_ERROR_UNKOWN_GRAMMAR_ID, (False, grammarID, x), s))"

definition decode_iso1RSAKeyValueType :: "u32 \<Rightarrow> iso1RSAKeyValueType decoder" where
  "decode_iso1RSAKeyValueType j x s = grammar_loop (iso1RSAKeyValue_dec_step j) 120
      (fst x, init_iso1RSAKeyValueType (snd x)) s"

definition iso1RSAKeyValue_ok :: "iso1RSAKeyValueType \<Rightarrow> bool" where
  "iso1RSAKeyValue_ok v \<longleftrightarrow>
     length (iso1RSAKeyValue_Modulus_bytes v) = 350 \<and> unat (iso1RSAKeyValue_Modulus_bytesLen v) \<le> 350 \<and>
     length (iso1RSAKeyValue_Exponent_bytes v) = 350 \<and> unat (iso1RSAKeyValue_Exponent_bytesLen v) \<le> 350"

definition iso1RSAKeyValue_sized :: "iso1RSAKeyValueType \<Rightarrow> bool" where
  "iso1RSAKeyValue_sized a \<longleftrightarrow>
     length (iso1RSAKeyValue_Modulus_bytes a) = 350 \<and>
     length (iso1RSAKeyValue_Exponent_bytes a) = 350"

definition same_iso1RSAKeyValue :: "iso1RSAKeyValueType \<Rightarrow> iso1RSAKeyValueType \<Rightarrow> bool" where
  "same_iso1RSAKeyValue v a \<longleftrightarrow>
     iso1RSAKeyValue_Modulus_bytesLen a = iso1RSAKeyValue_Modulus_bytesLen v \<and>
       take (unat (iso1RSAKeyValue_Modulus_bytesLen v)) (iso1RSAKeyValue_Modulus_bytes a) = take
       (unat (iso1RSAKeyValue_Modulus_bytesLen v)) (iso1RSAKeyValue_Modulus_bytes v) \<and>
     iso1RSAKeyValue_Exponent_bytesLen a = iso1RSAKeyValue_Exponent_bytesLen v \<and>
       take (unat (iso1RSAKeyValue_Exponent_bytesLen v)) (iso1RSAKeyValue_Exponent_bytes a) = take
       (unat (iso1RSAKeyValue_Exponent_bytesLen v)) (iso1RSAKeyValue_Exponent_bytes v)"

definition iso1RSAKeyValue_at :: "iso1RSAKeyValueType \<Rightarrow> nat \<Rightarrow> iso1RSAKeyValueType
    \<Rightarrow> bool" where
  "iso1RSAKeyValue_at v g a \<longleftrightarrow>
     iso1RSAKeyValue_ok v \<and>
     g \<in> {120, 121, 3} \<and>
     iso1RSAKeyValue_sized a \<and>
     (g \<notin> {120} \<longrightarrow> iso1RSAKeyValue_Modulus_bytesLen a = iso1RSAKeyValue_Modulus_bytesLen v
       \<and> take (unat (iso1RSAKeyValue_Modulus_bytesLen v)) (iso1RSAKeyValue_Modulus_bytes a) = take
       (unat (iso1RSAKeyValue_Modulus_bytesLen v)) (iso1RSAKeyValue_Modulus_bytes v)) \<and>
     (g \<notin> {120, 121} \<longrightarrow> iso1RSAKeyValue_Exponent_bytesLen a = iso1RSAKeyValue_Exponent_bytesLen
       v \<and> take (unat (iso1RSAKeyValue_Exponent_bytesLen v)) (iso1RSAKeyValue_Exponent_bytes a) = take
       (unat (iso1RSAKeyValue_Exponent_bytesLen v)) (iso1RSAKeyValue_Exponent_bytes v))"

lemmas iso1RSAKeyValue_steps = iso1RSAKeyValue_enc_step_def
  iso1RSAKeyValue_dec_step_def

lemmas iso1RSAKeyValue_props = iso1RSAKeyValue_at_def iso1RSAKeyValue_sized_def same_iso1RSAKeyValue_def left_at_def

interpretation iso1RSAKeyValue: paired_machines "iso1RSAKeyValue_enc_step v" "iso1RSAKeyValue_dec_step j"
    "iso1RSAKeyValue_at v"
  "left_at [(120, 5655), (121, 2828), (3, 1)]" "\<lambda>a. same_iso1RSAKeyValue v a \<and>
      iso1RSAKeyValue_sized a" for v j
proof
  fix g a assume at: "iso1RSAKeyValue_at v g a"
  then have "g \<in> {120, 121, 3}" by (simp add: iso1RSAKeyValue_at_def)
  then show "hops (iso1RSAKeyValue_enc_step v) (iso1RSAKeyValue_dec_step j) (iso1RSAKeyValue_at v)
    (left_at [(120, 5655), (121, 2828), (3, 1)]) (\<lambda>a. same_iso1RSAKeyValue v a \<and> iso1RSAKeyValue_sized a)
      g a" using at
    by - (elim insertE emptyE; (hypsubst, rule hops_by, simp (no_asm) add: iso1RSAKeyValue_steps del: One_nat_def,
      simp (no_asm) add: iso1RSAKeyValue_steps del: One_nat_def, simp (asm_lr) add: iso1RSAKeyValue_props del:
        One_nat_def, (elim conjE)?,
      ((rule walks_ifs)+)?); (frule iso1RSAKeyValue_ok_def [THEN iffD1], ((drule (1) known)+)?, (elim conjE)?,
        ((drule (1) known)+)?, (elim conjE)?,
      (((rule walks_shapes, simp (no_asm) del: One_nat_def, ((rule reads_intros)+)?);
      ((elim exE conjE)?,
        ((simp (no_asm_simp) add: iso1RSAKeyValue_props; fail) | (simp (asm_lr) add: iso1RSAKeyValue_props; fail) |
        (auto simp: iso1RSAKeyValue_props; fail)))) | (erule (1) notE; fail) |
        ((elim exE conjE)?,
        ((simp (no_asm_simp) add: iso1RSAKeyValue_props; fail) | (simp (asm_lr) add: iso1RSAKeyValue_props; fail) |
        (auto simp: iso1RSAKeyValue_props; fail))))))
qed

lemma reads_iso1RSAKeyValue [reads_intros]:
  "iso1RSAKeyValue_ok v \<Longrightarrow> iso1RSAKeyValue_sized a \<Longrightarrow>
      reads 5655 (\<lambda>s. encode_iso1RSAKeyValueType s v) (decode_iso1RSAKeyValueType j) a
      (\<lambda>a. same_iso1RSAKeyValue v a \<and> iso1RSAKeyValue_sized a)"
  unfolding encode_iso1RSAKeyValueType_def decode_iso1RSAKeyValueType_def [abs_def]
  by (rule reads_start [OF iso1RSAKeyValue.machine_reads, of _ 120, THEN reads_mono])
      (auto simp: iso1RSAKeyValue_at_def iso1RSAKeyValue_sized_def init_iso1RSAKeyValueType_def left_at_def)

interpretation iso1RSAKeyValue_enc: advancing_machine "iso1RSAKeyValue_enc_step v" "left_at
    [(120, 3), (121, 2), (3, 1)]" for v
  by unfold_locales (auto simp: iso1RSAKeyValue_steps dest!: advance_dests split: if_splits;
      simp add: left_at_def)

interpretation iso1RSAKeyValue_dec: advancing_machine "iso1RSAKeyValue_dec_step j" "left_at
    [(120, 3), (121, 2), (3, 1)]" for j
  by unfold_locales (auto simp: iso1RSAKeyValue_steps dest!: advance_dests elim!: decode_switch_next
      split: if_splits;
      simp add: left_at_def)

subsection \<open>\<open>iso1KeyValueType\<close>\<close>

record iso1KeyValueType =
  iso1KeyValue_DSAKeyValue :: iso1DSAKeyValueType
  iso1KeyValue_DSAKeyValue_isUsed :: bool
  iso1KeyValue_RSAKeyValue :: iso1RSAKeyValueType
  iso1KeyValue_RSAKeyValue_isUsed :: bool
  iso1KeyValue_ANY_characters :: "u8 list"
  iso1KeyValue_ANY_charactersLen :: u16
  iso1KeyValue_ANY_isUsed :: bool

definition init_iso1KeyValueType :: "iso1KeyValueType \<Rightarrow> iso1KeyValueType" where
  "init_iso1KeyValueType a = a\<lparr>iso1KeyValue_DSAKeyValue_isUsed := False, iso1KeyValue_RSAKeyValue_isUsed
      := False, iso1KeyValue_ANY_isUsed := False\<rparr>"

record iso1KeyValue_locals =
  iso1KeyValue_wcDone :: bool

definition iso1KeyValue_enc_step :: "iso1KeyValueType \<Rightarrow> iso1KeyValue_locals machine" where
  "iso1KeyValue_enc_step v grammarID x s =
     (if grammarID = 173 then
        if iso1KeyValue_DSAKeyValue_isUsed v then
          goto 174 x (encode_child 3 0 (\<lambda>s. encode_iso1DSAKeyValueType s (iso1KeyValue_DSAKeyValue v)) s)
        else if iso1KeyValue_RSAKeyValue_isUsed v then
          goto 174 x (encode_child 3 1 (\<lambda>s. encode_iso1RSAKeyValueType s (iso1KeyValue_RSAKeyValue v)) s)
        else if iso1KeyValue_ANY_isUsed v then goto 175 (x\<lparr>iso1KeyValue_wcDone := True\<rparr>)
          (encode_child 3 3 (encode_string_field (iso1KeyValue_ANY_characters v) (iso1KeyValue_ANY_charactersLen v))
          s)
        else Some (EXI_ERROR_UNKOWN_EVENT, (False, grammarID, x), s)
      else if grammarID = 174 then
        if \<not> iso1KeyValue_ANY_isUsed v \<or> iso1KeyValue_wcDone x then
          finish 4 x (encodeNBitUnsignedInteger s 2 0)
        else if iso1KeyValue_ANY_isUsed v then goto 174 (x\<lparr>iso1KeyValue_wcDone := True\<rparr>)
          (encode_child 2 1 (encode_string_field (iso1KeyValue_ANY_characters v) (iso1KeyValue_ANY_charactersLen v))
          s)
        else Some (EXI_ERROR_UNKOWN_EVENT, (False, grammarID, x), s)
      else if grammarID = 175 then
        if iso1KeyValue_DSAKeyValue_isUsed v then
          goto 174 x (encode_child 3 0 (\<lambda>s. encode_iso1DSAKeyValueType s (iso1KeyValue_DSAKeyValue v)) s)
        else if iso1KeyValue_RSAKeyValue_isUsed v then
          goto 174 x (encode_child 3 1 (\<lambda>s. encode_iso1RSAKeyValueType s (iso1KeyValue_RSAKeyValue v)) s)
        else if iso1KeyValue_ANY_isUsed v then goto 175 (x\<lparr>iso1KeyValue_wcDone := True\<rparr>)
          (encode_child 3 3 (encode_string_field (iso1KeyValue_ANY_characters v) (iso1KeyValue_ANY_charactersLen v))
          s)
        else Some (EXI_ERROR_UNKOWN_EVENT, (False, grammarID, x), s)
      else Some (EXI_ERROR_UNKOWN_GRAMMAR_ID, (False, grammarID, x), s))"

definition encode_iso1KeyValueType :: "bitstream \<Rightarrow> iso1KeyValueType \<Rightarrow>
    (errn \<times> bitstream) option" where
  "encode_iso1KeyValueType s v = run_encoder (iso1KeyValue_enc_step v) 173 \<lparr>iso1KeyValue_wcDone = False\<rparr>
      s"

definition iso1KeyValue_dec_step :: "u32 \<Rightarrow> (dec_static \<times> iso1KeyValueType) machine" where
  "iso1KeyValue_dec_step j grammarID x s =
     (if grammarID = 173 then
        decode_switch 3
         [(0, decode_child 174 (decode_used (\<lambda>a. a\<lparr>iso1KeyValue_DSAKeyValue_isUsed := True\<rparr>)
           (decode_sub (decode_iso1DSAKeyValueType j) iso1KeyValue_DSAKeyValue
           (\<lambda>u a. a\<lparr>iso1KeyValue_DSAKeyValue := u\<rparr>)))),
          (1, decode_child 174 (decode_used (\<lambda>a. a\<lparr>iso1KeyValue_RSAKeyValue_isUsed := True\<rparr>)
            (decode_sub (decode_iso1RSAKeyValueType j) iso1KeyValue_RSAKeyValue
            (\<lambda>u a. a\<lparr>iso1KeyValue_RSAKeyValue := u\<rparr>)))),
          (2, decode_unsupported 174),
          (3, decode_child 175 (decode_used (\<lambda>a. a\<lparr>iso1KeyValue_ANY_isUsed := True\<rparr>)
            (decode_string_field j 51 iso1KeyValue_ANY_characters
            (\<lambda>u a. a\<lparr>iso1KeyValue_ANY_characters := u\<rparr>)
            (\<lambda>u a. a\<lparr>iso1KeyValue_ANY_charactersLen := u\<rparr>))))] 173 x s
      else if grammarID = 174 then
        decode_switch 2
         [(0, decode_end 4),
          (1, decode_child 174 (decode_used (\<lambda>a. a\<lparr>iso1KeyValue_ANY_isUsed := True\<rparr>)
            (decode_string_field j 51 iso1KeyValue_ANY_characters
            (\<lambda>u a. a\<lparr>iso1KeyValue_ANY_characters := u\<rparr>)
            (\<lambda>u a. a\<lparr>iso1KeyValue_ANY_charactersLen := u\<rparr>))))] 174 x s
      else if grammarID = 175 then
        decode_switch 3
         [(0, decode_child 174 (decode_used (\<lambda>a. a\<lparr>iso1KeyValue_DSAKeyValue_isUsed := True\<rparr>)
           (decode_sub (decode_iso1DSAKeyValueType j) iso1KeyValue_DSAKeyValue
           (\<lambda>u a. a\<lparr>iso1KeyValue_DSAKeyValue := u\<rparr>)))),
          (1, decode_child 174 (decode_used (\<lambda>a. a\<lparr>iso1KeyValue_RSAKeyValue_isUsed := True\<rparr>)
            (decode_sub (decode_iso1RSAKeyValueType j) iso1KeyValue_RSAKeyValue
            (\<lambda>u a. a\<lparr>iso1KeyValue_RSAKeyValue := u\<rparr>)))),
          (2, decode_unsupported 174),
          (3, decode_child 175 (decode_used (\<lambda>a. a\<lparr>iso1KeyValue_ANY_isUsed := True\<rparr>)
            (decode_string_field j 51 iso1KeyValue_ANY_characters
            (\<lambda>u a. a\<lparr>iso1KeyValue_ANY_characters := u\<rparr>)
            (\<lambda>u a. a\<lparr>iso1KeyValue_ANY_charactersLen := u\<rparr>))))] 175 x s
      else Some (EXI_ERROR_UNKOWN_GRAMMAR_ID, (False, grammarID, x), s))"

definition decode_iso1KeyValueType :: "u32 \<Rightarrow> iso1KeyValueType decoder" where
  "decode_iso1KeyValueType j x s = grammar_loop (iso1KeyValue_dec_step j) 173 (fst x, init_iso1KeyValueType (snd x))
      s"

definition iso1KeyValue_ok :: "iso1KeyValueType \<Rightarrow> bool" where
  "iso1KeyValue_ok v \<longleftrightarrow>
     when_used (iso1KeyValue_DSAKeyValue_isUsed v) (iso1DSAKeyValue_ok (iso1KeyValue_DSAKeyValue v)) \<and>
     when_used (iso1KeyValue_RSAKeyValue_isUsed v) (iso1RSAKeyValue_ok (iso1KeyValue_RSAKeyValue v)) \<and>
     when_used (iso1KeyValue_ANY_isUsed v)
       (string_ok 51 (iso1KeyValue_ANY_characters v) (iso1KeyValue_ANY_charactersLen v)) \<and>
     some_of [iso1KeyValue_DSAKeyValue_isUsed v, iso1KeyValue_RSAKeyValue_isUsed v] \<and>
     exclusive [iso1KeyValue_DSAKeyValue_isUsed v, iso1KeyValue_RSAKeyValue_isUsed v]"

definition iso1KeyValue_sized :: "iso1KeyValueType \<Rightarrow> bool" where
  "iso1KeyValue_sized a \<longleftrightarrow>
     iso1DSAKeyValue_sized (iso1KeyValue_DSAKeyValue a) \<and>
     iso1RSAKeyValue_sized (iso1KeyValue_RSAKeyValue a) \<and>
     length (iso1KeyValue_ANY_characters a) = 51"

definition same_iso1KeyValue :: "iso1KeyValueType \<Rightarrow> iso1KeyValueType \<Rightarrow> bool" where
  "same_iso1KeyValue v a \<longleftrightarrow>
     kept (iso1KeyValue_DSAKeyValue_isUsed v) (iso1KeyValue_DSAKeyValue_isUsed a)
       (same_iso1DSAKeyValue (iso1KeyValue_DSAKeyValue v) (iso1KeyValue_DSAKeyValue a)) \<and>
     kept (iso1KeyValue_RSAKeyValue_isUsed v) (iso1KeyValue_RSAKeyValue_isUsed a)
       (same_iso1RSAKeyValue (iso1KeyValue_RSAKeyValue v) (iso1KeyValue_RSAKeyValue a)) \<and>
     kept (iso1KeyValue_ANY_isUsed v) (iso1KeyValue_ANY_isUsed a)
       (iso1KeyValue_ANY_charactersLen a = iso1KeyValue_ANY_charactersLen v \<and>
       take (unat (iso1KeyValue_ANY_charactersLen v)) (iso1KeyValue_ANY_characters a) = take
       (unat (iso1KeyValue_ANY_charactersLen v)) (iso1KeyValue_ANY_characters v))"

definition iso1KeyValue_at :: "iso1KeyValueType \<Rightarrow> nat \<Rightarrow> iso1KeyValue_locals \<Rightarrow>
    iso1KeyValueType \<Rightarrow> bool" where
  "iso1KeyValue_at v g x a \<longleftrightarrow>
     iso1KeyValue_ok v \<and>
     g \<in> {173, 174} \<and>
     iso1KeyValue_sized a \<and>
     (if g \<in> {173} then \<not> iso1KeyValue_DSAKeyValue_isUsed a
      else kept (iso1KeyValue_DSAKeyValue_isUsed v) (iso1KeyValue_DSAKeyValue_isUsed a)
        (same_iso1DSAKeyValue (iso1KeyValue_DSAKeyValue v) (iso1KeyValue_DSAKeyValue a))) \<and>
     (if g \<in> {173} then \<not> iso1KeyValue_RSAKeyValue_isUsed a
      else kept (iso1KeyValue_RSAKeyValue_isUsed v) (iso1KeyValue_RSAKeyValue_isUsed a)
        (same_iso1RSAKeyValue (iso1KeyValue_RSAKeyValue v) (iso1KeyValue_RSAKeyValue a))) \<and>
     kept (iso1KeyValue_wcDone x) (iso1KeyValue_ANY_isUsed a) (iso1KeyValue_ANY_isUsed v \<and>
       iso1KeyValue_ANY_charactersLen a = iso1KeyValue_ANY_charactersLen v \<and>
       take (unat (iso1KeyValue_ANY_charactersLen v)) (iso1KeyValue_ANY_characters a) = take
       (unat (iso1KeyValue_ANY_charactersLen v)) (iso1KeyValue_ANY_characters v))"

definition iso1KeyValue_rank :: "iso1KeyValueType \<Rightarrow> nat \<Rightarrow> iso1KeyValue_locals \<Rightarrow>
    nat" where
  "iso1KeyValue_rank v g x = left_at [(173, 19799), (174, 2)] g + (if iso1KeyValue_wcDone x then 0 else 435)"

lemmas iso1KeyValue_steps = iso1KeyValue_enc_step_def
  iso1KeyValue_dec_step_def

lemmas iso1KeyValue_props = iso1KeyValue_at_def iso1KeyValue_sized_def same_iso1KeyValue_def iso1KeyValue_rank_def
    left_at_def

interpretation iso1KeyValue: walking_pair "iso1KeyValue_enc_step v" "iso1KeyValue_dec_step j" "iso1KeyValue_at v"
    "iso1KeyValue_rank v"
  "\<lambda>a. same_iso1KeyValue v a \<and> iso1KeyValue_sized a" for v j
proof
  fix g x a assume at: "iso1KeyValue_at v g x a"
  then have "g \<in> {173, 174}" by (simp add: iso1KeyValue_at_def)
  then show "walks (iso1KeyValue_enc_step v) (iso1KeyValue_dec_step j) (iso1KeyValue_at v) (iso1KeyValue_rank v)
    (\<lambda>a. same_iso1KeyValue v a \<and> iso1KeyValue_sized a) g x a" using at
    by - (elim insertE emptyE; (hypsubst, rule walks_by, simp (no_asm) add: iso1KeyValue_steps del: One_nat_def,
      simp (no_asm) add: iso1KeyValue_steps del: One_nat_def, simp (asm_lr) add: iso1KeyValue_props del: One_nat_def,
        (elim conjE)?,
      ((rule walks_ifs)+)?); (frule iso1KeyValue_ok_def [THEN iffD1], ((drule (1) known)+)?, (elim conjE)?,
        ((drule (1) known)+)?, (elim conjE)?,
      (((rule walks_shapes, simp (no_asm) del: One_nat_def, ((rule reads_intros)+)?);
      ((elim exE conjE)?,
        ((simp (no_asm_simp) add: iso1KeyValue_props; fail) | (rule FalseE, simp (asm_lr) add: counts_def; fail) |
        (simp (asm_lr) add: iso1KeyValue_props; fail) | (auto simp: iso1KeyValue_props; fail)))) |
        (erule (1) notE; fail) |
        ((elim exE conjE)?,
        ((simp (no_asm_simp) add: iso1KeyValue_props; fail) | (rule FalseE, simp (asm_lr) add: counts_def; fail) |
        (simp (asm_lr) add: iso1KeyValue_props; fail) | (auto simp: iso1KeyValue_props; fail))))))
qed

lemma reads_iso1KeyValue [reads_intros]:
  "iso1KeyValue_ok v \<Longrightarrow> iso1KeyValue_sized a \<Longrightarrow>
      reads 20234 (\<lambda>s. encode_iso1KeyValueType s v) (decode_iso1KeyValueType j) a
      (\<lambda>a. same_iso1KeyValue v a \<and> iso1KeyValue_sized a)"
  unfolding encode_iso1KeyValueType_def decode_iso1KeyValueType_def [abs_def]
  by (rule reads_start [OF iso1KeyValue.walk_reads, THEN reads_mono])
      (auto simp: iso1KeyValue_props  counts_def due_def init_iso1KeyValueType_def)

subsection \<open>\<open>iso1RetrievalMethodType\<close>\<close>

record iso1RetrievalMethodType =
  iso1RetrievalMethod_URI_characters :: "u8 list"
  iso1RetrievalMethod_URI_charactersLen :: u16
  iso1RetrievalMethod_URI_isUsed :: bool
  iso1RetrievalMethod_Type_characters :: "u8 list"
  iso1RetrievalMethod_Type_charactersLen :: u16
  iso1RetrievalMethod_Type_isUsed :: bool
  iso1RetrievalMethod_Transforms :: iso1TransformsType
  iso1RetrievalMethod_Transforms_isUsed :: bool

definition init_iso1RetrievalMethodType :: "iso1RetrievalMethodType \<Rightarrow> iso1RetrievalMethodType" where
  "init_iso1RetrievalMethodType a = a\<lparr>iso1RetrievalMethod_URI_isUsed := False, iso1RetrievalMethod_Type_isUsed
      := False, iso1RetrievalMethod_Transforms_isUsed := False\<rparr>"

definition iso1RetrievalMethod_enc_step :: "iso1RetrievalMethodType \<Rightarrow> unit machine" where
  "iso1RetrievalMethod_enc_step v grammarID x s =
     (if grammarID = 296 then
        if iso1RetrievalMethod_Type_isUsed v then
          goto 297 x
          (encode_child 3 0
          (encode_string_field (iso1RetrievalMethod_Type_characters v) (iso1RetrievalMethod_Type_charactersLen v)) s)
        else if iso1RetrievalMethod_URI_isUsed v then
          goto 298 x
          (encode_child 3 1
          (encode_string_field (iso1RetrievalMethod_URI_characters v) (iso1RetrievalMethod_URI_charactersLen v)) s)
        else if iso1RetrievalMethod_Transforms_isUsed v then
          goto 3 x (encode_child 3 2 (\<lambda>s. encode_iso1TransformsType s (iso1RetrievalMethod_Transforms v)) s)
        else finish 4 x (encodeNBitUnsignedInteger s 3 3)
      else if grammarID = 297 then
        if iso1RetrievalMethod_URI_isUsed v then
          goto 298 x
          (encode_child 2 0
          (encode_string_field (iso1RetrievalMethod_URI_characters v) (iso1RetrievalMethod_URI_charactersLen v)) s)
        else if iso1RetrievalMethod_Transforms_isUsed v then
          goto 3 x (encode_child 2 1 (\<lambda>s. encode_iso1TransformsType s (iso1RetrievalMethod_Transforms v)) s)
        else finish 4 x (encodeNBitUnsignedInteger s 2 2)
      else if grammarID = 298 then
        if iso1RetrievalMethod_Transforms_isUsed v then
          goto 3 x (encode_child 2 0 (\<lambda>s. encode_iso1TransformsType s (iso1RetrievalMethod_Transforms v)) s)
        else finish 4 x (encodeNBitUnsignedInteger s 2 1)
      else if grammarID = 3 then
        finish 4 x (encodeNBitUnsignedInteger s 1 0)
      else Some (EXI_ERROR_UNKOWN_GRAMMAR_ID, (False, grammarID, x), s))"

definition encode_iso1RetrievalMethodType :: "bitstream \<Rightarrow> iso1RetrievalMethodType \<Rightarrow>
    (errn \<times> bitstream) option" where
  "encode_iso1RetrievalMethodType s v = run_encoder (iso1RetrievalMethod_enc_step v) 296 () s"

definition iso1RetrievalMethod_dec_step :: "u32 \<Rightarrow> (dec_static \<times> iso1RetrievalMethodType) machine"
    where
  "iso1RetrievalMethod_dec_step j grammarID x s =
     (if grammarID = 296 then
        decode_switch 3
         [(0, decode_child 297 (decode_used (\<lambda>a. a\<lparr>iso1RetrievalMethod_Type_isUsed := True\<rparr>)
           (decode_string_field j 51 iso1RetrievalMethod_Type_characters
           (\<lambda>u a. a\<lparr>iso1RetrievalMethod_Type_characters := u\<rparr>)
           (\<lambda>u a. a\<lparr>iso1RetrievalMethod_Type_charactersLen := u\<rparr>)))),
          (1, decode_child 298 (decode_used (\<lambda>a. a\<lparr>iso1RetrievalMethod_URI_isUsed := True\<rparr>)
            (decode_string_field j 51 iso1RetrievalMethod_URI_characters
            (\<lambda>u a. a\<lparr>iso1RetrievalMethod_URI_characters := u\<rparr>)
            (\<lambda>u a. a\<lparr>iso1RetrievalMethod_URI_charactersLen := u\<rparr>)))),
          (2, decode_child 3 (decode_used (\<lambda>a. a\<lparr>iso1RetrievalMethod_Transforms_isUsed := True\<rparr>)
            (decode_sub (decode_iso1TransformsType j) iso1RetrievalMethod_Transforms
            (\<lambda>u a. a\<lparr>iso1RetrievalMethod_Transforms := u\<rparr>)))),
          (3, decode_end 4)] 296 x s
      else if grammarID = 297 then
        decode_switch 2
         [(0, decode_child 298 (decode_used (\<lambda>a. a\<lparr>iso1RetrievalMethod_URI_isUsed := True\<rparr>)
           (decode_string_field j 51 iso1RetrievalMethod_URI_characters
           (\<lambda>u a. a\<lparr>iso1RetrievalMethod_URI_characters := u\<rparr>)
           (\<lambda>u a. a\<lparr>iso1RetrievalMethod_URI_charactersLen := u\<rparr>)))),
          (1, decode_child 3 (decode_used (\<lambda>a. a\<lparr>iso1RetrievalMethod_Transforms_isUsed := True\<rparr>)
            (decode_sub (decode_iso1TransformsType j) iso1RetrievalMethod_Transforms
            (\<lambda>u a. a\<lparr>iso1RetrievalMethod_Transforms := u\<rparr>)))),
          (2, decode_end 4)] 297 x s
      else if grammarID = 298 then
        decode_switch 2
         [(0, decode_child 3 (decode_used (\<lambda>a. a\<lparr>iso1RetrievalMethod_Transforms_isUsed := True\<rparr>)
           (decode_sub (decode_iso1TransformsType j) iso1RetrievalMethod_Transforms
           (\<lambda>u a. a\<lparr>iso1RetrievalMethod_Transforms := u\<rparr>)))),
          (1, decode_end 4)] 298 x s
      else if grammarID = 3 then
        decode_switch 1
         [(0, decode_end 4)] 3 x s
      else Some (EXI_ERROR_UNKOWN_GRAMMAR_ID, (False, grammarID, x), s))"

definition decode_iso1RetrievalMethodType :: "u32 \<Rightarrow> iso1RetrievalMethodType decoder" where
  "decode_iso1RetrievalMethodType j x s = grammar_loop (iso1RetrievalMethod_dec_step j) 296
      (fst x, init_iso1RetrievalMethodType (snd x)) s"

definition iso1RetrievalMethod_ok :: "iso1RetrievalMethodType \<Rightarrow> bool" where
  "iso1RetrievalMethod_ok v \<longleftrightarrow>
     when_used (iso1RetrievalMethod_Type_isUsed v)
       (string_ok 51 (iso1RetrievalMethod_Type_characters v) (iso1RetrievalMethod_Type_charactersLen v)) \<and>
     when_used (iso1RetrievalMethod_URI_isUsed v)
       (string_ok 51 (iso1RetrievalMethod_URI_characters v) (iso1RetrievalMethod_URI_charactersLen v)) \<and>
     when_used (iso1RetrievalMethod_Transforms_isUsed v) (iso1Transforms_ok (iso1RetrievalMethod_Transforms v))"

definition iso1RetrievalMethod_sized :: "iso1RetrievalMethodType \<Rightarrow> bool" where
  "iso1RetrievalMethod_sized a \<longleftrightarrow>
     length (iso1RetrievalMethod_Type_characters a) = 51 \<and>
     length (iso1RetrievalMethod_URI_characters a) = 51 \<and>
     iso1Transforms_sized (iso1RetrievalMethod_Transforms a)"

definition same_iso1RetrievalMethod :: "iso1RetrievalMethodType \<Rightarrow> iso1RetrievalMethodType \<Rightarrow>
    bool" where
  "same_iso1RetrievalMethod v a \<longleftrightarrow>
     kept (iso1RetrievalMethod_Type_isUsed v) (iso1RetrievalMethod_Type_isUsed a)
       (iso1RetrievalMethod_Type_charactersLen a = iso1RetrievalMethod_Type_charactersLen v \<and>
       take (unat (iso1RetrievalMethod_Type_charactersLen v)) (iso1RetrievalMethod_Type_characters a) = take
       (unat (iso1RetrievalMethod_Type_charactersLen v)) (iso1RetrievalMethod_Type_characters v)) \<and>
     kept (iso1RetrievalMethod_URI_isUsed v) (iso1RetrievalMethod_URI_isUsed a)
       (iso1RetrievalMethod_URI_charactersLen a = iso1RetrievalMethod_URI_charactersLen v \<and>
       take (unat (iso1RetrievalMethod_URI_charactersLen v)) (iso1RetrievalMethod_URI_characters a) = take
       (unat (iso1RetrievalMethod_URI_charactersLen v)) (iso1RetrievalMethod_URI_characters v)) \<and>
     kept (iso1RetrievalMethod_Transforms_isUsed v) (iso1RetrievalMethod_Transforms_isUsed a)
       (same_iso1Transforms (iso1RetrievalMethod_Transforms v) (iso1RetrievalMethod_Transforms a))"

definition iso1RetrievalMethod_at :: "iso1RetrievalMethodType \<Rightarrow> nat \<Rightarrow> iso1RetrievalMethodType
    \<Rightarrow> bool" where
  "iso1RetrievalMethod_at v g a \<longleftrightarrow>
     iso1RetrievalMethod_ok v \<and>
     g \<in> {296, 297, 298, 3} \<and>
     iso1RetrievalMethod_sized a \<and>
     (if g \<in> {296} then \<not> iso1RetrievalMethod_Type_isUsed a
      else kept (iso1RetrievalMethod_Type_isUsed v) (iso1RetrievalMethod_Type_isUsed a)
        (iso1RetrievalMethod_Type_charactersLen a = iso1RetrievalMethod_Type_charactersLen v \<and>
        take (unat (iso1RetrievalMethod_Type_charactersLen v)) (iso1RetrievalMethod_Type_characters a) = take
        (unat (iso1RetrievalMethod_Type_charactersLen v)) (iso1RetrievalMethod_Type_characters v))) \<and>
     (if g \<in> {296, 297} then \<not> iso1RetrievalMethod_URI_isUsed a
      else kept (iso1RetrievalMethod_URI_isUsed v) (iso1RetrievalMethod_URI_isUsed a)
        (iso1RetrievalMethod_URI_charactersLen a = iso1RetrievalMethod_URI_charactersLen v \<and>
        take (unat (iso1RetrievalMethod_URI_charactersLen v)) (iso1RetrievalMethod_URI_characters a) = take
        (unat (iso1RetrievalMethod_URI_charactersLen v)) (iso1RetrievalMethod_URI_characters v))) \<and>
     (if g \<in> {296, 297, 298} then \<not> iso1RetrievalMethod_Transforms_isUsed a
      else kept (iso1RetrievalMethod_Transforms_isUsed v) (iso1RetrievalMethod_Transforms_isUsed a)
        (same_iso1Transforms (iso1RetrievalMethod_Transforms v) (iso1RetrievalMethod_Transforms a)))"

lemmas iso1RetrievalMethod_steps = iso1RetrievalMethod_enc_step_def
  iso1RetrievalMethod_dec_step_def

lemmas iso1RetrievalMethod_props = iso1RetrievalMethod_at_def iso1RetrievalMethod_sized_def
    same_iso1RetrievalMethod_def left_at_def

interpretation iso1RetrievalMethod: paired_machines "iso1RetrievalMethod_enc_step v" "iso1RetrievalMethod_dec_step j"
    "iso1RetrievalMethod_at v"
  "left_at [(296, 2304), (297, 1869), (298, 1435), (3, 1)]" "\<lambda>a. same_iso1RetrievalMethod v a \<and>
      iso1RetrievalMethod_sized a" for v j
proof
  fix g a assume at: "iso1RetrievalMethod_at v g a"
  then have "g \<in> {296, 297, 298, 3}" by (simp add: iso1RetrievalMethod_at_def)
  then show "hops (iso1RetrievalMethod_enc_step v) (iso1RetrievalMethod_dec_step j) (iso1RetrievalMethod_at v)
    (left_at [(296, 2304), (297, 1869), (298, 1435), (3, 1)]) (\<lambda>a. same_iso1RetrievalMethod v a \<and>
      iso1RetrievalMethod_sized a) g a" using at
    by - (elim insertE emptyE; (hypsubst, rule hops_by, simp (no_asm) add: iso1RetrievalMethod_steps del: One_nat_def,
      simp (no_asm) add: iso1RetrievalMethod_steps del: One_nat_def, simp (asm_lr) add: iso1RetrievalMethod_props del:
        One_nat_def, (elim conjE)?,
      ((rule walks_ifs)+)?); (frule iso1RetrievalMethod_ok_def [THEN iffD1], ((drule (1) known)+)?, (elim conjE)?,
        ((drule (1) known)+)?, (elim conjE)?,
      (((rule walks_shapes, simp (no_asm) del: One_nat_def, ((rule reads_intros)+)?);
      ((elim exE conjE)?,
        ((simp (no_asm_simp) add: iso1RetrievalMethod_props; fail) |
        (simp (asm_lr) add: iso1RetrievalMethod_props; fail) | (auto simp: iso1RetrievalMethod_props; fail)))) |
        (erule (1) notE; fail) |
        ((elim exE conjE)?,
        ((simp (no_asm_simp) add: iso1RetrievalMethod_props; fail) |
        (simp (asm_lr) add: iso1RetrievalMethod_props; fail) | (auto simp: iso1RetrievalMethod_props; fail))))))
qed

lemma reads_iso1RetrievalMethod [reads_intros]:
  "iso1RetrievalMethod_ok v \<Longrightarrow> iso1RetrievalMethod_sized a \<Longrightarrow>
      reads 2304 (\<lambda>s. encode_iso1RetrievalMethodType s v) (decode_iso1RetrievalMethodType j) a
      (\<lambda>a. same_iso1RetrievalMethod v a \<and> iso1RetrievalMethod_sized a)"
  unfolding encode_iso1RetrievalMethodType_def decode_iso1RetrievalMethodType_def [abs_def]
  by (rule reads_start [OF iso1RetrievalMethod.machine_reads, of _ 296, THEN reads_mono])
      (auto simp: iso1RetrievalMethod_at_def iso1RetrievalMethod_sized_def init_iso1RetrievalMethodType_def
      left_at_def)

interpretation iso1RetrievalMethod_enc: advancing_machine "iso1RetrievalMethod_enc_step v" "left_at
    [(296, 4), (297, 3), (298, 2), (3, 1)]" for v
  by unfold_locales (auto simp: iso1RetrievalMethod_steps dest!: advance_dests split: if_splits;
      simp add: left_at_def)

interpretation iso1RetrievalMethod_dec: advancing_machine "iso1RetrievalMethod_dec_step j" "left_at
    [(296, 4), (297, 3), (298, 2), (3, 1)]" for j
  by unfold_locales (auto simp: iso1RetrievalMethod_steps dest!: advance_dests elim!: decode_switch_next
      split: if_splits;
      simp add: left_at_def)

subsection \<open>\<open>iso1X509IssuerSerialType\<close>\<close>

record iso1X509IssuerSerialType =
  iso1X509IssuerSerial_X509IssuerName_characters :: "u8 list"
  iso1X509IssuerSerial_X509IssuerName_charactersLen :: u16
  iso1X509IssuerSerial_X509SerialNumber :: u64

definition init_iso1X509IssuerSerialType :: "iso1X509IssuerSerialType \<Rightarrow> iso1X509IssuerSerialType" where
  "init_iso1X509IssuerSerialType a = a"

definition iso1X509IssuerSerial_enc_step :: "iso1X509IssuerSerialType \<Rightarrow> unit machine" where
  "iso1X509IssuerSerial_enc_step v grammarID x s =
     (if grammarID = 194 then
        goto 195 x
          (encode_simple 1 0 (encode_string_field (iso1X509IssuerSerial_X509IssuerName_characters v)
          (iso1X509IssuerSerial_X509IssuerName_charactersLen v)) s)
      else if grammarID = 195 then
        goto 3 x (encode_simple 1 0 (\<lambda>s. encodeInteger64 s (iso1X509IssuerSerial_X509SerialNumber v)) s)
      else if grammarID = 3 then
        finish 4 x (encodeNBitUnsignedInteger s 1 0)
      else Some (EXI_ERROR_UNKOWN_GRAMMAR_ID, (False, grammarID, x), s))"

definition encode_iso1X509IssuerSerialType :: "bitstream \<Rightarrow> iso1X509IssuerSerialType \<Rightarrow>
    (errn \<times> bitstream) option" where
  "encode_iso1X509IssuerSerialType s v = run_encoder (iso1X509IssuerSerial_enc_step v) 194 () s"

definition iso1X509IssuerSerial_dec_step :: "u32 \<Rightarrow> (dec_static \<times> iso1X509IssuerSerialType) machine"
    where
  "iso1X509IssuerSerial_dec_step j grammarID x s =
     (if grammarID = 194 then
        decode_switch 1
         [(0, decode_simple 194 195 (decode_string_field j 51 iso1X509IssuerSerial_X509IssuerName_characters
           (\<lambda>u a. a\<lparr>iso1X509IssuerSerial_X509IssuerName_characters := u\<rparr>)
           (\<lambda>u a. a\<lparr>iso1X509IssuerSerial_X509IssuerName_charactersLen := u\<rparr>)))] 194 x s
      else if grammarID = 195 then
        decode_switch 1
         [(0, decode_simple 195 3
           (decode_i64_field j iso1X509IssuerSerial_X509SerialNumber
           (\<lambda>u a. a\<lparr>iso1X509IssuerSerial_X509SerialNumber := u\<rparr>)))] 195 x s
      else if grammarID = 3 then
        decode_switch 1
         [(0, decode_end 4)] 3 x s
      else Some (EXI_ERROR_UNKOWN_GRAMMAR_ID, (False, grammarID, x), s))"

definition decode_iso1X509IssuerSerialType :: "u32 \<Rightarrow> iso1X509IssuerSerialType decoder" where
  "decode_iso1X509IssuerSerialType j x s = grammar_loop (iso1X509IssuerSerial_dec_step j) 194
      (fst x, init_iso1X509IssuerSerialType (snd x)) s"

definition iso1X509IssuerSerial_ok :: "iso1X509IssuerSerialType \<Rightarrow> bool" where
  "iso1X509IssuerSerial_ok v \<longleftrightarrow>
     string_ok 51 (iso1X509IssuerSerial_X509IssuerName_characters v)
       (iso1X509IssuerSerial_X509IssuerName_charactersLen v) \<and>
     sint (iso1X509IssuerSerial_X509SerialNumber v) \<noteq> - (2 ^ 63)"

definition iso1X509IssuerSerial_sized :: "iso1X509IssuerSerialType \<Rightarrow> bool" where
  "iso1X509IssuerSerial_sized a \<longleftrightarrow>
     length (iso1X509IssuerSerial_X509IssuerName_characters a) = 51"

definition same_iso1X509IssuerSerial :: "iso1X509IssuerSerialType \<Rightarrow> iso1X509IssuerSerialType \<Rightarrow>
    bool" where
  "same_iso1X509IssuerSerial v a \<longleftrightarrow>
     iso1X509IssuerSerial_X509IssuerName_charactersLen a = iso1X509IssuerSerial_X509IssuerName_charactersLen v \<and>
       take (unat (iso1X509IssuerSerial_X509IssuerName_charactersLen v))
       (iso1X509IssuerSerial_X509IssuerName_characters a) = take
       (unat (iso1X509IssuerSerial_X509IssuerName_charactersLen v)) (iso1X509IssuerSerial_X509IssuerName_characters v)
       \<and>
     iso1X509IssuerSerial_X509SerialNumber a = iso1X509IssuerSerial_X509SerialNumber v"

definition iso1X509IssuerSerial_at :: "iso1X509IssuerSerialType \<Rightarrow> nat \<Rightarrow>
    iso1X509IssuerSerialType \<Rightarrow> bool" where
  "iso1X509IssuerSerial_at v g a \<longleftrightarrow>
     iso1X509IssuerSerial_ok v \<and>
     g \<in> {194, 195, 3} \<and>
     iso1X509IssuerSerial_sized a \<and>
     (g \<notin> {194} \<longrightarrow> iso1X509IssuerSerial_X509IssuerName_charactersLen
       a = iso1X509IssuerSerial_X509IssuerName_charactersLen v \<and>
       take (unat (iso1X509IssuerSerial_X509IssuerName_charactersLen v))
       (iso1X509IssuerSerial_X509IssuerName_characters a) = take
       (unat (iso1X509IssuerSerial_X509IssuerName_charactersLen v))
       (iso1X509IssuerSerial_X509IssuerName_characters v)) \<and>
     (g \<notin> {194, 195} \<longrightarrow> iso1X509IssuerSerial_X509SerialNumber
       a = iso1X509IssuerSerial_X509SerialNumber v)"

lemmas iso1X509IssuerSerial_steps = iso1X509IssuerSerial_enc_step_def
  iso1X509IssuerSerial_dec_step_def

lemmas iso1X509IssuerSerial_props = iso1X509IssuerSerial_at_def iso1X509IssuerSerial_sized_def
    same_iso1X509IssuerSerial_def left_at_def

interpretation iso1X509IssuerSerial: paired_machines "iso1X509IssuerSerial_enc_step v" "iso1X509IssuerSerial_dec_step
    j" "iso1X509IssuerSerial_at v"
  "left_at [(194, 520), (195, 85), (3, 1)]" "\<lambda>a. same_iso1X509IssuerSerial v a \<and>
      iso1X509IssuerSerial_sized a" for v j
proof
  fix g a assume at: "iso1X509IssuerSerial_at v g a"
  then have "g \<in> {194, 195, 3}" by (simp add: iso1X509IssuerSerial_at_def)
  then show "hops (iso1X509IssuerSerial_enc_step v) (iso1X509IssuerSerial_dec_step j) (iso1X509IssuerSerial_at v)
    (left_at [(194, 520), (195, 85), (3, 1)]) (\<lambda>a. same_iso1X509IssuerSerial v a \<and>
      iso1X509IssuerSerial_sized a) g a" using at
    by - (elim insertE emptyE; (hypsubst, rule hops_by, simp (no_asm) add: iso1X509IssuerSerial_steps del:
      One_nat_def,
      simp (no_asm) add: iso1X509IssuerSerial_steps del: One_nat_def, simp (asm_lr) add: iso1X509IssuerSerial_props
        del: One_nat_def, (elim conjE)?,
      ((rule walks_ifs)+)?); (frule iso1X509IssuerSerial_ok_def [THEN iffD1], ((drule (1) known)+)?, (elim conjE)?,
        ((drule (1) known)+)?, (elim conjE)?,
      (((rule walks_shapes, simp (no_asm) del: One_nat_def, ((rule reads_intros)+)?);
      ((elim exE conjE)?,
        ((simp (no_asm_simp) add: iso1X509IssuerSerial_props; fail) |
        (simp (asm_lr) add: iso1X509IssuerSerial_props; fail) | (auto simp: iso1X509IssuerSerial_props; fail)))) |
        (erule (1) notE; fail) |
        ((elim exE conjE)?,
        ((simp (no_asm_simp) add: iso1X509IssuerSerial_props; fail) |
        (simp (asm_lr) add: iso1X509IssuerSerial_props; fail) | (auto simp: iso1X509IssuerSerial_props; fail))))))
qed

lemma reads_iso1X509IssuerSerial [reads_intros]:
  "iso1X509IssuerSerial_ok v \<Longrightarrow> iso1X509IssuerSerial_sized a \<Longrightarrow>
      reads 520 (\<lambda>s. encode_iso1X509IssuerSerialType s v) (decode_iso1X509IssuerSerialType j) a
      (\<lambda>a. same_iso1X509IssuerSerial v a \<and> iso1X509IssuerSerial_sized a)"
  unfolding encode_iso1X509IssuerSerialType_def decode_iso1X509IssuerSerialType_def [abs_def]
  by (rule reads_start [OF iso1X509IssuerSerial.machine_reads, of _ 194, THEN reads_mono])
      (auto simp: iso1X509IssuerSerial_at_def iso1X509IssuerSerial_sized_def init_iso1X509IssuerSerialType_def
      left_at_def)

interpretation iso1X509IssuerSerial_enc: advancing_machine "iso1X509IssuerSerial_enc_step v" "left_at
    [(194, 3), (195, 2), (3, 1)]" for v
  by unfold_locales (auto simp: iso1X509IssuerSerial_steps dest!: advance_dests split: if_splits;
      simp add: left_at_def)

interpretation iso1X509IssuerSerial_dec: advancing_machine "iso1X509IssuerSerial_dec_step j" "left_at
    [(194, 3), (195, 2), (3, 1)]" for j
  by unfold_locales (auto simp: iso1X509IssuerSerial_steps dest!: advance_dests elim!: decode_switch_next
      split: if_splits;
      simp add: left_at_def)

subsection \<open>\<open>iso1X509DataType\<close>\<close>

record iso1X509DataType =
  iso1X509Data_X509IssuerSerial_array :: "iso1X509IssuerSerialType list"
  iso1X509Data_X509IssuerSerial_arrayLen :: u16
  iso1X509Data_X509SKI_array :: "sized_data list"
  iso1X509Data_X509SKI_arrayLen :: u16
  iso1X509Data_X509SubjectName_array :: "sized_data list"
  iso1X509Data_X509SubjectName_arrayLen :: u16
  iso1X509Data_X509Certificate_array :: "sized_data list"
  iso1X509Data_X509Certificate_arrayLen :: u16
  iso1X509Data_X509CRL_array :: "sized_data list"
  iso1X509Data_X509CRL_arrayLen :: u16
  iso1X509Data_ANY_characters :: "u8 list"
  iso1X509Data_ANY_charactersLen :: u16
  iso1X509Data_ANY_isUsed :: bool

definition init_iso1X509DataType :: "iso1X509DataType \<Rightarrow> iso1X509DataType" where
  "init_iso1X509DataType a = a\<lparr>iso1X509Data_ANY_isUsed := False, iso1X509Data_X509IssuerSerial_arrayLen := 0,
      iso1X509Data_X509SKI_arrayLen := 0, iso1X509Data_X509SubjectName_arrayLen := 0,
      iso1X509Data_X509Certificate_arrayLen := 0, iso1X509Data_X509CRL_arrayLen := 0\<rparr>"

record iso1X509Data_locals =
  iso1X509Data_X509IssuerSerial_currArrayIndex :: nat
  iso1X509Data_X509SKI_currArrayIndex :: nat
  iso1X509Data_X509SubjectName_currArrayIndex :: nat
  iso1X509Data_X509Certificate_currArrayIndex :: nat
  iso1X509Data_X509CRL_currArrayIndex :: nat
  iso1X509Data_wcDone :: bool

definition iso1X509Data_enc_step :: "iso1X509DataType \<Rightarrow> iso1X509Data_locals machine" where
  "iso1X509Data_enc_step v grammarID x s =
     (if grammarID = 213 then
        if iso1X509Data_X509IssuerSerial_currArrayIndex x < unat (iso1X509Data_X509IssuerSerial_arrayLen v) then
          encode_array_child 3 0 214 encode_iso1X509IssuerSerialType (iso1X509Data_X509IssuerSerial_array v)
          iso1X509Data_X509IssuerSerial_currArrayIndex iso1X509Data_X509IssuerSerial_currArrayIndex_update x s
        else if iso1X509Data_X509SKI_currArrayIndex x < unat (iso1X509Data_X509SKI_arrayLen v) then
          encode_array_data 3 1 214 encode_bytesLen encode_bytes_of (iso1X509Data_X509SKI_array v)
          iso1X509Data_X509SKI_currArrayIndex iso1X509Data_X509SKI_currArrayIndex_update x s
        else if iso1X509Data_X509SubjectName_currArrayIndex x < unat (iso1X509Data_X509SubjectName_arrayLen v) then
          encode_array_data 3 2 214 encode_charactersLen encode_characters_of (iso1X509Data_X509SubjectName_array v)
          iso1X509Data_X509SubjectName_currArrayIndex iso1X509Data_X509SubjectName_currArrayIndex_update x s
        else if iso1X509Data_X509Certificate_currArrayIndex x < unat (iso1X509Data_X509Certificate_arrayLen v) then
          encode_array_data 3 3 214 encode_bytesLen encode_bytes_of (iso1X509Data_X509Certificate_array v)
          iso1X509Data_X509Certificate_currArrayIndex iso1X509Data_X509Certificate_currArrayIndex_update x s
        else if iso1X509Data_X509CRL_currArrayIndex x < unat (iso1X509Data_X509CRL_arrayLen v) then
          encode_array_data 3 4 214 encode_bytesLen encode_bytes_of (iso1X509Data_X509CRL_array v)
          iso1X509Data_X509CRL_currArrayIndex iso1X509Data_X509CRL_currArrayIndex_update x s
        else Some (EXI_ERROR_UNKOWN_EVENT, (False, grammarID, x), s)
      else if grammarID = 214 then
        if iso1X509Data_X509IssuerSerial_currArrayIndex x < unat (iso1X509Data_X509IssuerSerial_arrayLen v) then
          encode_array_child 3 0 214 encode_iso1X509IssuerSerialType (iso1X509Data_X509IssuerSerial_array v)
          iso1X509Data_X509IssuerSerial_currArrayIndex iso1X509Data_X509IssuerSerial_currArrayIndex_update x s
        else if iso1X509Data_X509SKI_currArrayIndex x < unat (iso1X509Data_X509SKI_arrayLen v) then
          encode_array_data 3 1 214 encode_bytesLen encode_bytes_of (iso1X509Data_X509SKI_array v)
          iso1X509Data_X509SKI_currArrayIndex iso1X509Data_X509SKI_currArrayIndex_update x s
        else if iso1X509Data_X509SubjectName_currArrayIndex x < unat (iso1X509Data_X509SubjectName_arrayLen v) then
          encode_array_data 3 2 214 encode_charactersLen encode_characters_of (iso1X509Data_X509SubjectName_array v)
          iso1X509Data_X509SubjectName_currArrayIndex iso1X509Data_X509SubjectName_currArrayIndex_update x s
        else if iso1X509Data_X509Certificate_currArrayIndex x < unat (iso1X509Data_X509Certificate_arrayLen v) then
          encode_array_data 3 3 214 encode_bytesLen encode_bytes_of (iso1X509Data_X509Certificate_array v)
          iso1X509Data_X509Certificate_currArrayIndex iso1X509Data_X509Certificate_currArrayIndex_update x s
        else if iso1X509Data_X509CRL_currArrayIndex x < unat (iso1X509Data_X509CRL_arrayLen v) then
          encode_array_data 3 4 214 encode_bytesLen encode_bytes_of (iso1X509Data_X509CRL_array v)
          iso1X509Data_X509CRL_currArrayIndex iso1X509Data_X509CRL_currArrayIndex_update x s
        else if \<not> iso1X509Data_ANY_isUsed v \<or> iso1X509Data_wcDone x then
          finish 4 x (encodeNBitUnsignedInteger s 3 6)
        else Some (EXI_ERROR_UNKOWN_EVENT, (False, grammarID, x), s)
      else Some (EXI_ERROR_UNKOWN_GRAMMAR_ID, (False, grammarID, x), s))"

definition encode_iso1X509DataType :: "bitstream \<Rightarrow> iso1X509DataType \<Rightarrow>
    (errn \<times> bitstream) option" where
  "encode_iso1X509DataType s v = run_encoder (iso1X509Data_enc_step v) 213
      \<lparr>iso1X509Data_X509IssuerSerial_currArrayIndex = 0, iso1X509Data_X509SKI_currArrayIndex = 0,
      iso1X509Data_X509SubjectName_currArrayIndex = 0, iso1X509Data_X509Certificate_currArrayIndex = 0,
      iso1X509Data_X509CRL_currArrayIndex = 0, iso1X509Data_wcDone = False\<rparr> s"

abbreviation (input) decode_next_iso1X509Data_X509IssuerSerial :: "u32 \<Rightarrow> iso1X509DataType decoder" where
  "decode_next_iso1X509Data_X509IssuerSerial j \<equiv> decode_element (decode_iso1X509IssuerSerialType j)
      iso1X509Data_X509IssuerSerial_array iso1X509Data_X509IssuerSerial_arrayLen
      (\<lambda>xs n a. a\<lparr>iso1X509Data_X509IssuerSerial_array := xs, iso1X509Data_X509IssuerSerial_arrayLen
      := n\<rparr>)"

abbreviation (input) decode_next_iso1X509Data_X509SKI :: "u32 \<Rightarrow> iso1X509DataType decoder" where
  "decode_next_iso1X509Data_X509SKI j \<equiv> decode_element
      (decode_bytes_field j 350 fst (\<lambda>u e. (u, snd e)) (\<lambda>u e. (fst e, u))) iso1X509Data_X509SKI_array
      iso1X509Data_X509SKI_arrayLen
      (\<lambda>xs n a. a\<lparr>iso1X509Data_X509SKI_array := xs, iso1X509Data_X509SKI_arrayLen := n\<rparr>)"

abbreviation (input) decode_next_iso1X509Data_X509SubjectName :: "u32 \<Rightarrow> iso1X509DataType decoder" where
  "decode_next_iso1X509Data_X509SubjectName j \<equiv> decode_element
      (decode_string_field j 51 fst (\<lambda>u e. (u, snd e)) (\<lambda>u e. (fst e, u)))
      iso1X509Data_X509SubjectName_array iso1X509Data_X509SubjectName_arrayLen
      (\<lambda>xs n a. a\<lparr>iso1X509Data_X509SubjectName_array := xs, iso1X509Data_X509SubjectName_arrayLen
      := n\<rparr>)"

abbreviation (input) decode_next_iso1X509Data_X509Certificate :: "u32 \<Rightarrow> iso1X509DataType decoder" where
  "decode_next_iso1X509Data_X509Certificate j \<equiv> decode_element
      (decode_bytes_field j 350 fst (\<lambda>u e. (u, snd e)) (\<lambda>u e. (fst e, u)))
      iso1X509Data_X509Certificate_array iso1X509Data_X509Certificate_arrayLen
      (\<lambda>xs n a. a\<lparr>iso1X509Data_X509Certificate_array := xs, iso1X509Data_X509Certificate_arrayLen
      := n\<rparr>)"

abbreviation (input) decode_next_iso1X509Data_X509CRL :: "u32 \<Rightarrow> iso1X509DataType decoder" where
  "decode_next_iso1X509Data_X509CRL j \<equiv> decode_element
      (decode_bytes_field j 350 fst (\<lambda>u e. (u, snd e)) (\<lambda>u e. (fst e, u))) iso1X509Data_X509CRL_array
      iso1X509Data_X509CRL_arrayLen
      (\<lambda>xs n a. a\<lparr>iso1X509Data_X509CRL_array := xs, iso1X509Data_X509CRL_arrayLen := n\<rparr>)"

definition iso1X509Data_dec_step_2 :: "u32 \<Rightarrow> (dec_static \<times> iso1X509DataType) machine" where
  "iso1X509Data_dec_step_2 j grammarID x s =
     (if grammarID = 214 then
        decode_switch 3
         [(0, decode_array_child 214 1 iso1X509Data_X509IssuerSerial_arrayLen
           (decode_next_iso1X509Data_X509IssuerSerial j)),
          (1, decode_array_simple 214 214 1 iso1X509Data_X509SKI_arrayLen (decode_next_iso1X509Data_X509SKI j)),
          (2, decode_array_simple 214 214 1 iso1X509Data_X509SubjectName_arrayLen
            (decode_next_iso1X509Data_X509SubjectName j)),
          (3, decode_array_simple 214 214 1 iso1X509Data_X509Certificate_arrayLen
            (decode_next_iso1X509Data_X509Certificate j)),
          (4, decode_array_simple 214 214 1 iso1X509Data_X509CRL_arrayLen (decode_next_iso1X509Data_X509CRL j)),
          (5, decode_unsupported 214),
          (6, decode_end 4)] 214 x s
      else Some (EXI_ERROR_UNKOWN_GRAMMAR_ID, (False, grammarID, x), s))"

definition iso1X509Data_dec_step :: "u32 \<Rightarrow> (dec_static \<times> iso1X509DataType) machine" where
  "iso1X509Data_dec_step j grammarID x s =
     (if grammarID = 213 then
        decode_switch 3
         [(0, decode_array_child 214 1 iso1X509Data_X509IssuerSerial_arrayLen
           (decode_next_iso1X509Data_X509IssuerSerial j)),
          (1, decode_array_simple 213 214 1 iso1X509Data_X509SKI_arrayLen (decode_next_iso1X509Data_X509SKI j)),
          (2, decode_array_simple 213 214 1 iso1X509Data_X509SubjectName_arrayLen
            (decode_next_iso1X509Data_X509SubjectName j)),
          (3, decode_array_simple 213 214 1 iso1X509Data_X509Certificate_arrayLen
            (decode_next_iso1X509Data_X509Certificate j)),
          (4, decode_array_simple 213 214 1 iso1X509Data_X509CRL_arrayLen (decode_next_iso1X509Data_X509CRL j)),
          (5, decode_unsupported 214)] 213 x s
      else iso1X509Data_dec_step_2 j grammarID x s)"

definition decode_iso1X509DataType :: "u32 \<Rightarrow> iso1X509DataType decoder" where
  "decode_iso1X509DataType j x s = grammar_loop (iso1X509Data_dec_step j) 213 (fst x, init_iso1X509DataType (snd x))
      s"

definition iso1X509Data_ok :: "iso1X509DataType \<Rightarrow> bool" where
  "iso1X509Data_ok v \<longleftrightarrow>
     length (iso1X509Data_X509IssuerSerial_array v) = 1 \<and> unat (iso1X509Data_X509IssuerSerial_arrayLen v) \<le> 1
       \<and> in_use iso1X509IssuerSerial_ok (iso1X509Data_X509IssuerSerial_array v)
       (iso1X509Data_X509IssuerSerial_arrayLen v) \<and>
     length (iso1X509Data_X509SKI_array v) = 1 \<and> unat (iso1X509Data_X509SKI_arrayLen v) \<le> 1 \<and>
       in_use (bytes_data_ok 350) (iso1X509Data_X509SKI_array v) (iso1X509Data_X509SKI_arrayLen v) \<and>
       list_all (data_sized 350) (iso1X509Data_X509SKI_array v) \<and>
     length (iso1X509Data_X509SubjectName_array v) = 1 \<and> unat (iso1X509Data_X509SubjectName_arrayLen v) \<le> 1
       \<and> in_use (string_data_ok 51) (iso1X509Data_X509SubjectName_array v)
       (iso1X509Data_X509SubjectName_arrayLen v) \<and>
     length (iso1X509Data_X509Certificate_array v) = 1 \<and> unat (iso1X509Data_X509Certificate_arrayLen v) \<le> 1
       \<and> in_use (bytes_data_ok 350) (iso1X509Data_X509Certificate_array v)
       (iso1X509Data_X509Certificate_arrayLen v) \<and>
       list_all (data_sized 350) (iso1X509Data_X509Certificate_array v) \<and>
     length (iso1X509Data_X509CRL_array v) = 1 \<and> unat (iso1X509Data_X509CRL_arrayLen v) \<le> 1 \<and>
       in_use (bytes_data_ok 350) (iso1X509Data_X509CRL_array v) (iso1X509Data_X509CRL_arrayLen v) \<and>
       list_all (data_sized 350) (iso1X509Data_X509CRL_array v) \<and>
     some_of [unat (iso1X509Data_X509IssuerSerial_arrayLen v) \<noteq> 0, unat (iso1X509Data_X509SKI_arrayLen v)
       \<noteq> 0, unat (iso1X509Data_X509SubjectName_arrayLen v) \<noteq> 0,
       unat (iso1X509Data_X509Certificate_arrayLen v) \<noteq> 0, unat (iso1X509Data_X509CRL_arrayLen v) \<noteq> 0]
       \<and>
     \<not> iso1X509Data_ANY_isUsed v"

definition iso1X509Data_sized :: "iso1X509DataType \<Rightarrow> bool" where
  "iso1X509Data_sized a \<longleftrightarrow>
     length (iso1X509Data_X509IssuerSerial_array a) = 1 \<and>
     list_all iso1X509IssuerSerial_sized (iso1X509Data_X509IssuerSerial_array a) \<and>
     length (iso1X509Data_X509SKI_array a) = 1 \<and>
     list_all (data_sized 350) (iso1X509Data_X509SKI_array a) \<and>
     length (iso1X509Data_X509SubjectName_array a) = 1 \<and>
     list_all (data_sized 51) (iso1X509Data_X509SubjectName_array a) \<and>
     length (iso1X509Data_X509Certificate_array a) = 1 \<and>
     list_all (data_sized 350) (iso1X509Data_X509Certificate_array a) \<and>
     length (iso1X509Data_X509CRL_array a) = 1 \<and>
     list_all (data_sized 350) (iso1X509Data_X509CRL_array a)"

definition same_iso1X509Data :: "iso1X509DataType \<Rightarrow> iso1X509DataType \<Rightarrow> bool" where
  "same_iso1X509Data v a \<longleftrightarrow>
     iso1X509Data_X509IssuerSerial_arrayLen a = iso1X509Data_X509IssuerSerial_arrayLen v \<and>
       copied same_iso1X509IssuerSerial (unat (iso1X509Data_X509IssuerSerial_arrayLen v))
       (iso1X509Data_X509IssuerSerial_array v) (iso1X509Data_X509IssuerSerial_array a) \<and>
     iso1X509Data_X509SKI_arrayLen a = iso1X509Data_X509SKI_arrayLen v \<and>
       copied same_data (unat (iso1X509Data_X509SKI_arrayLen v)) (iso1X509Data_X509SKI_array v)
       (iso1X509Data_X509SKI_array a) \<and>
     iso1X509Data_X509SubjectName_arrayLen a = iso1X509Data_X509SubjectName_arrayLen v \<and>
       copied same_data (unat (iso1X509Data_X509SubjectName_arrayLen v)) (iso1X509Data_X509SubjectName_array v)
       (iso1X509Data_X509SubjectName_array a) \<and>
     iso1X509Data_X509Certificate_arrayLen a = iso1X509Data_X509Certificate_arrayLen v \<and>
       copied same_data (unat (iso1X509Data_X509Certificate_arrayLen v)) (iso1X509Data_X509Certificate_array v)
       (iso1X509Data_X509Certificate_array a) \<and>
     iso1X509Data_X509CRL_arrayLen a = iso1X509Data_X509CRL_arrayLen v \<and>
       copied same_data (unat (iso1X509Data_X509CRL_arrayLen v)) (iso1X509Data_X509CRL_array v)
       (iso1X509Data_X509CRL_array a) \<and>
     iso1X509Data_ANY_isUsed a = iso1X509Data_ANY_isUsed v"

definition iso1X509Data_at :: "iso1X509DataType \<Rightarrow> nat \<Rightarrow> iso1X509Data_locals \<Rightarrow>
    iso1X509DataType \<Rightarrow> bool" where
  "iso1X509Data_at v g x a \<longleftrightarrow>
     counts [(213, 0)] g (iso1X509Data_X509IssuerSerial_currArrayIndex x) \<and>
     counts [(213, 0)] g (iso1X509Data_X509SKI_currArrayIndex x) \<and>
     counts [(213, 0)] g (iso1X509Data_X509SubjectName_currArrayIndex x) \<and>
     counts [(213, 0)] g (iso1X509Data_X509Certificate_currArrayIndex x) \<and>
     counts [(213, 0)] g (iso1X509Data_X509CRL_currArrayIndex x) \<and>
     iso1X509Data_ok v \<and>
     g \<in> {213, 214} \<and>
     iso1X509Data_sized a \<and>
     unat (iso1X509Data_X509IssuerSerial_arrayLen a) = iso1X509Data_X509IssuerSerial_currArrayIndex x \<and>
       iso1X509Data_X509IssuerSerial_currArrayIndex x \<le> unat (iso1X509Data_X509IssuerSerial_arrayLen v) \<and>
     copied same_iso1X509IssuerSerial (iso1X509Data_X509IssuerSerial_currArrayIndex x)
       (iso1X509Data_X509IssuerSerial_array v) (iso1X509Data_X509IssuerSerial_array a) \<and>
     unat (iso1X509Data_X509SKI_arrayLen a) = iso1X509Data_X509SKI_currArrayIndex x \<and>
       iso1X509Data_X509SKI_currArrayIndex x \<le> unat (iso1X509Data_X509SKI_arrayLen v) \<and>
     copied same_data (iso1X509Data_X509SKI_currArrayIndex x) (iso1X509Data_X509SKI_array v)
       (iso1X509Data_X509SKI_array a) \<and>
     unat (iso1X509Data_X509SubjectName_arrayLen a) = iso1X509Data_X509SubjectName_currArrayIndex x \<and>
       iso1X509Data_X509SubjectName_currArrayIndex x \<le> unat (iso1X509Data_X509SubjectName_arrayLen v) \<and>
     copied same_data (iso1X509Data_X509SubjectName_currArrayIndex x) (iso1X509Data_X509SubjectName_array v)
       (iso1X509Data_X509SubjectName_array a) \<and>
     unat (iso1X509Data_X509Certificate_arrayLen a) = iso1X509Data_X509Certificate_currArrayIndex x \<and>
       iso1X509Data_X509Certificate_currArrayIndex x \<le> unat (iso1X509Data_X509Certificate_arrayLen v) \<and>
     copied same_data (iso1X509Data_X509Certificate_currArrayIndex x) (iso1X509Data_X509Certificate_array v)
       (iso1X509Data_X509Certificate_array a) \<and>
     unat (iso1X509Data_X509CRL_arrayLen a) = iso1X509Data_X509CRL_currArrayIndex x \<and>
       iso1X509Data_X509CRL_currArrayIndex x \<le> unat (iso1X509Data_X509CRL_arrayLen v) \<and>
     copied same_data (iso1X509Data_X509CRL_currArrayIndex x) (iso1X509Data_X509CRL_array v)
       (iso1X509Data_X509CRL_array a) \<and>
     \<not> iso1X509Data_ANY_isUsed a"

definition iso1X509Data_rank :: "iso1X509DataType \<Rightarrow> nat \<Rightarrow> iso1X509Data_locals \<Rightarrow>
    nat" where
  "iso1X509Data_rank v g x = left_at [(213, 3), (214, 3)] g + due 523 (iso1X509Data_X509IssuerSerial_arrayLen v)
      (iso1X509Data_X509IssuerSerial_currArrayIndex x) + due 2829 (iso1X509Data_X509SKI_arrayLen v)
      (iso1X509Data_X509SKI_currArrayIndex x) + due 437 (iso1X509Data_X509SubjectName_arrayLen v)
      (iso1X509Data_X509SubjectName_currArrayIndex x) + due 2829 (iso1X509Data_X509Certificate_arrayLen v)
      (iso1X509Data_X509Certificate_currArrayIndex x) + due 2829 (iso1X509Data_X509CRL_arrayLen v)
      (iso1X509Data_X509CRL_currArrayIndex x)"

lemmas iso1X509Data_steps = iso1X509Data_enc_step_def
  iso1X509Data_dec_step_def iso1X509Data_dec_step_2_def

lemmas iso1X509Data_props = iso1X509Data_at_def iso1X509Data_sized_def same_iso1X509Data_def iso1X509Data_rank_def
    left_at_def

lemmas iso1X509Data_elements = in_use_nth [where P = iso1X509IssuerSerial_ok]
  slots_nth [where P = iso1X509IssuerSerial_sized]

interpretation iso1X509Data: walking_pair "iso1X509Data_enc_step v" "iso1X509Data_dec_step j" "iso1X509Data_at v"
    "iso1X509Data_rank v"
  "\<lambda>a. same_iso1X509Data v a \<and> iso1X509Data_sized a" for v j
proof
  fix g x a assume at: "iso1X509Data_at v g x a"
  then have "g \<in> {213, 214}" by (simp add: iso1X509Data_at_def)
  then show "walks (iso1X509Data_enc_step v) (iso1X509Data_dec_step j) (iso1X509Data_at v) (iso1X509Data_rank v)
    (\<lambda>a. same_iso1X509Data v a \<and> iso1X509Data_sized a) g x a" using at
    by - (elim insertE emptyE; (hypsubst, rule walks_by, simp (no_asm) add: iso1X509Data_steps del: One_nat_def,
      simp (no_asm) add: iso1X509Data_steps del: One_nat_def, simp (asm_lr) add: iso1X509Data_props del: One_nat_def,
        (elim conjE)?,
      ((rule walks_ifs)+)?); (frule iso1X509Data_ok_def [THEN iffD1], ((drule (1) known)+)?, (elim conjE)?,
        ((drule (1) known)+)?, (elim conjE)?,
      (((rule walks_shapes, simp (no_asm) del: One_nat_def, ((rule reads_intros)+)?);
      ((elim exE conjE)?,
        ((simp (no_asm_simp) add: iso1X509Data_props iso1X509Data_elements counts_def array_intros; fail) |
        (simp (asm_lr) add: iso1X509Data_props iso1X509Data_elements counts_def array_intros; fail) |
        (auto simp: iso1X509Data_props iso1X509Data_elements counts_def array_intros; fail)))) |
        (erule (1) notE; fail) |
        ((elim exE conjE)?,
        ((simp (no_asm_simp) add: iso1X509Data_props iso1X509Data_elements counts_def array_intros; fail) |
        (simp (asm_lr) add: iso1X509Data_props iso1X509Data_elements counts_def array_intros; fail) |
        (auto simp: iso1X509Data_props iso1X509Data_elements counts_def array_intros; fail))))))
qed

lemma reads_iso1X509Data [reads_intros]:
  "iso1X509Data_ok v \<Longrightarrow> iso1X509Data_sized a \<Longrightarrow>
      reads 9450 (\<lambda>s. encode_iso1X509DataType s v) (decode_iso1X509DataType j) a
      (\<lambda>a. same_iso1X509Data v a \<and> iso1X509Data_sized a)"
  unfolding encode_iso1X509DataType_def decode_iso1X509DataType_def [abs_def]
  by (rule reads_start [OF iso1X509Data.walk_reads, THEN reads_mono])
      (auto simp: iso1X509Data_props iso1X509Data_ok_def counts_def due_def init_iso1X509DataType_def)

subsection \<open>\<open>iso1PGPDataType\<close>\<close>

record iso1PGPDataType =
  iso1PGPData_PGPKeyID_bytes :: "u8 list"
  iso1PGPData_PGPKeyID_bytesLen :: u16
  iso1PGPData_PGPKeyID_isUsed :: bool
  iso1PGPData_PGPKeyPacket_bytes :: "u8 list"
  iso1PGPData_PGPKeyPacket_bytesLen :: u16
  iso1PGPData_PGPKeyPacket_isUsed :: bool
  iso1PGPData_ANY_characters :: "u8 list"
  iso1PGPData_ANY_charactersLen :: u16
  iso1PGPData_ANY_isUsed :: bool

definition init_iso1PGPDataType :: "iso1PGPDataType \<Rightarrow> iso1PGPDataType" where
  "init_iso1PGPDataType a = a\<lparr>iso1PGPData_PGPKeyID_isUsed := False, iso1PGPData_PGPKeyPacket_isUsed := False,
      iso1PGPData_ANY_isUsed := False\<rparr>"

record iso1PGPData_locals =
  iso1PGPData_wcDone :: bool

definition iso1PGPData_enc_step :: "iso1PGPDataType \<Rightarrow> iso1PGPData_locals machine" where
  "iso1PGPData_enc_step v grammarID x s =
     (if grammarID = 367 then
        if iso1PGPData_PGPKeyID_isUsed v then
          goto 368 x
          (encode_simple 2 0 (encode_bytes_field (iso1PGPData_PGPKeyID_bytes v) (iso1PGPData_PGPKeyID_bytesLen v)) s)
        else if iso1PGPData_PGPKeyPacket_isUsed v then
          goto 369 x
          (encode_simple 2 1
          (encode_bytes_field (iso1PGPData_PGPKeyPacket_bytes v) (iso1PGPData_PGPKeyPacket_bytesLen v)) s)
        else Some (EXI_ERROR_UNKOWN_EVENT, (False, grammarID, x), s)
      else if grammarID = 368 then
        if iso1PGPData_PGPKeyPacket_isUsed v then
          goto 369 x
          (encode_simple 2 0
          (encode_bytes_field (iso1PGPData_PGPKeyPacket_bytes v) (iso1PGPData_PGPKeyPacket_bytesLen v)) s)
        else if \<not> iso1PGPData_ANY_isUsed v \<or> iso1PGPData_wcDone x then
          finish 4 x (encodeNBitUnsignedInteger s 2 2)
        else Some (EXI_ERROR_UNKOWN_EVENT, (False, grammarID, x), s)
      else if grammarID = 369 then
        if \<not> iso1PGPData_ANY_isUsed v \<or> iso1PGPData_wcDone x then
          finish 4 x (encodeNBitUnsignedInteger s 2 1)
        else Some (EXI_ERROR_UNKOWN_EVENT, (False, grammarID, x), s)
      else Some (EXI_ERROR_UNKOWN_GRAMMAR_ID, (False, grammarID, x), s))"

definition encode_iso1PGPDataType :: "bitstream \<Rightarrow> iso1PGPDataType \<Rightarrow> (errn \<times> bitstream)
    option" where
  "encode_iso1PGPDataType s v = run_encoder (iso1PGPData_enc_step v) 367 \<lparr>iso1PGPData_wcDone = False\<rparr> s"

definition iso1PGPData_dec_step :: "u32 \<Rightarrow> (dec_static \<times> iso1PGPDataType) machine" where
  "iso1PGPData_dec_step j grammarID x s =
     (if grammarID = 367 then
        decode_switch 2
         [(0, decode_simple 367 368 (decode_used (\<lambda>a. a\<lparr>iso1PGPData_PGPKeyID_isUsed := True\<rparr>)
           (decode_bytes_field j 350 iso1PGPData_PGPKeyID_bytes
           (\<lambda>u a. a\<lparr>iso1PGPData_PGPKeyID_bytes := u\<rparr>)
           (\<lambda>u a. a\<lparr>iso1PGPData_PGPKeyID_bytesLen := u\<rparr>)))),
          (1, decode_simple 367 369
            (decode_used (\<lambda>a. a\<lparr>iso1PGPData_PGPKeyPacket_isUsed := True\<rparr>)
            (decode_bytes_field j 350 iso1PGPData_PGPKeyPacket_bytes
            (\<lambda>u a. a\<lparr>iso1PGPData_PGPKeyPacket_bytes := u\<rparr>)
            (\<lambda>u a. a\<lparr>iso1PGPData_PGPKeyPacket_bytesLen := u\<rparr>))))] 367 x s
      else if grammarID = 368 then
        decode_switch 2
         [(0, decode_simple 368 369
           (decode_used (\<lambda>a. a\<lparr>iso1PGPData_PGPKeyPacket_isUsed := True\<rparr>)
           (decode_bytes_field j 350 iso1PGPData_PGPKeyPacket_bytes
           (\<lambda>u a. a\<lparr>iso1PGPData_PGPKeyPacket_bytes := u\<rparr>)
           (\<lambda>u a. a\<lparr>iso1PGPData_PGPKeyPacket_bytesLen := u\<rparr>)))),
          (1, decode_unsupported 369),
          (2, decode_end 4)] 368 x s
      else if grammarID = 369 then
        decode_switch 2
         [(0, decode_unsupported 369),
          (1, decode_end 4)] 369 x s
      else Some (EXI_ERROR_UNKOWN_GRAMMAR_ID, (False, grammarID, x), s))"

definition decode_iso1PGPDataType :: "u32 \<Rightarrow> iso1PGPDataType decoder" where
  "decode_iso1PGPDataType j x s = grammar_loop (iso1PGPData_dec_step j) 367 (fst x, init_iso1PGPDataType (snd x)) s"

definition iso1PGPData_ok :: "iso1PGPDataType \<Rightarrow> bool" where
  "iso1PGPData_ok v \<longleftrightarrow>
     when_used (iso1PGPData_PGPKeyID_isUsed v) (length (iso1PGPData_PGPKeyID_bytes v) = 350 \<and>
       unat (iso1PGPData_PGPKeyID_bytesLen v) \<le> 350) \<and>
     when_used (iso1PGPData_PGPKeyPacket_isUsed v) (length (iso1PGPData_PGPKeyPacket_bytes v) = 350 \<and>
       unat (iso1PGPData_PGPKeyPacket_bytesLen v) \<le> 350) \<and>
     some_of [iso1PGPData_PGPKeyID_isUsed v, iso1PGPData_PGPKeyPacket_isUsed v] \<and>
     \<not> iso1PGPData_ANY_isUsed v"

definition iso1PGPData_sized :: "iso1PGPDataType \<Rightarrow> bool" where
  "iso1PGPData_sized a \<longleftrightarrow>
     length (iso1PGPData_PGPKeyID_bytes a) = 350 \<and>
     length (iso1PGPData_PGPKeyPacket_bytes a) = 350"

definition same_iso1PGPData :: "iso1PGPDataType \<Rightarrow> iso1PGPDataType \<Rightarrow> bool" where
  "same_iso1PGPData v a \<longleftrightarrow>
     kept (iso1PGPData_PGPKeyID_isUsed v) (iso1PGPData_PGPKeyID_isUsed a)
       (iso1PGPData_PGPKeyID_bytesLen a = iso1PGPData_PGPKeyID_bytesLen v \<and>
       take (unat (iso1PGPData_PGPKeyID_bytesLen v)) (iso1PGPData_PGPKeyID_bytes a) = take
       (unat (iso1PGPData_PGPKeyID_bytesLen v)) (iso1PGPData_PGPKeyID_bytes v)) \<and>
     kept (iso1PGPData_PGPKeyPacket_isUsed v) (iso1PGPData_PGPKeyPacket_isUsed a)
       (iso1PGPData_PGPKeyPacket_bytesLen a = iso1PGPData_PGPKeyPacket_bytesLen v \<and>
       take (unat (iso1PGPData_PGPKeyPacket_bytesLen v)) (iso1PGPData_PGPKeyPacket_bytes a) = take
       (unat (iso1PGPData_PGPKeyPacket_bytesLen v)) (iso1PGPData_PGPKeyPacket_bytes v)) \<and>
     iso1PGPData_ANY_isUsed a = iso1PGPData_ANY_isUsed v"

definition iso1PGPData_at :: "iso1PGPDataType \<Rightarrow> nat \<Rightarrow> iso1PGPData_locals \<Rightarrow>
    iso1PGPDataType \<Rightarrow> bool" where
  "iso1PGPData_at v g x a \<longleftrightarrow>
     iso1PGPData_ok v \<and>
     g \<in> {367, 368, 369} \<and>
     iso1PGPData_sized a \<and>
     (if g \<in> {367} then \<not> iso1PGPData_PGPKeyID_isUsed a
      else kept (iso1PGPData_PGPKeyID_isUsed v) (iso1PGPData_PGPKeyID_isUsed a)
        (iso1PGPData_PGPKeyID_bytesLen a = iso1PGPData_PGPKeyID_bytesLen v \<and>
        take (unat (iso1PGPData_PGPKeyID_bytesLen v)) (iso1PGPData_PGPKeyID_bytes a) = take
        (unat (iso1PGPData_PGPKeyID_bytesLen v)) (iso1PGPData_PGPKeyID_bytes v))) \<and>
     (if g \<in> {367, 368} then \<not> iso1PGPData_PGPKeyPacket_isUsed a
      else kept (iso1PGPData_PGPKeyPacket_isUsed v) (iso1PGPData_PGPKeyPacket_isUsed a)
        (iso1PGPData_PGPKeyPacket_bytesLen a = iso1PGPData_PGPKeyPacket_bytesLen v \<and>
        take (unat (iso1PGPData_PGPKeyPacket_bytesLen v)) (iso1PGPData_PGPKeyPacket_bytes a) = take
        (unat (iso1PGPData_PGPKeyPacket_bytesLen v)) (iso1PGPData_PGPKeyPacket_bytes v))) \<and>
     \<not> iso1PGPData_ANY_isUsed a"

definition iso1PGPData_rank :: "iso1PGPDataType \<Rightarrow> nat \<Rightarrow> iso1PGPData_locals \<Rightarrow> nat"
    where
  "iso1PGPData_rank v g x = left_at [(367, 5658), (368, 2830), (369, 2)] g"

lemmas iso1PGPData_steps = iso1PGPData_enc_step_def
  iso1PGPData_dec_step_def

lemmas iso1PGPData_props = iso1PGPData_at_def iso1PGPData_sized_def same_iso1PGPData_def iso1PGPData_rank_def
    left_at_def

interpretation iso1PGPData: walking_pair "iso1PGPData_enc_step v" "iso1PGPData_dec_step j" "iso1PGPData_at v"
    "iso1PGPData_rank v"
  "\<lambda>a. same_iso1PGPData v a \<and> iso1PGPData_sized a" for v j
proof
  fix g x a assume at: "iso1PGPData_at v g x a"
  then have "g \<in> {367, 368, 369}" by (simp add: iso1PGPData_at_def)
  then show "walks (iso1PGPData_enc_step v) (iso1PGPData_dec_step j) (iso1PGPData_at v) (iso1PGPData_rank v)
    (\<lambda>a. same_iso1PGPData v a \<and> iso1PGPData_sized a) g x a" using at
    by - (elim insertE emptyE; (hypsubst, rule walks_by, simp (no_asm) add: iso1PGPData_steps del: One_nat_def,
      simp (no_asm) add: iso1PGPData_steps del: One_nat_def, simp (asm_lr) add: iso1PGPData_props del: One_nat_def,
        (elim conjE)?,
      ((rule walks_ifs)+)?); (frule iso1PGPData_ok_def [THEN iffD1], ((drule (1) known)+)?, (elim conjE)?,
        ((drule (1) known)+)?, (elim conjE)?,
      (((rule walks_shapes, simp (no_asm) del: One_nat_def, ((rule reads_intros)+)?);
      ((elim exE conjE)?,
        ((simp (no_asm_simp) add: iso1PGPData_props; fail) | (simp (asm_lr) add: iso1PGPData_props; fail) |
        (auto simp: iso1PGPData_props; fail)))) | (erule (1) notE; fail) |
        ((elim exE conjE)?,
        ((simp (no_asm_simp) add: iso1PGPData_props; fail) | (simp (asm_lr) add: iso1PGPData_props; fail) |
        (auto simp: iso1PGPData_props; fail))))))
qed

lemma reads_iso1PGPData [reads_intros]:
  "iso1PGPData_ok v \<Longrightarrow> iso1PGPData_sized a \<Longrightarrow>
      reads 5658 (\<lambda>s. encode_iso1PGPDataType s v) (decode_iso1PGPDataType j) a
      (\<lambda>a. same_iso1PGPData v a \<and> iso1PGPData_sized a)"
  unfolding encode_iso1PGPDataType_def decode_iso1PGPDataType_def [abs_def]
  by (rule reads_start [OF iso1PGPData.walk_reads, THEN reads_mono])
      (auto simp: iso1PGPData_props  counts_def due_def init_iso1PGPDataType_def)

interpretation iso1PGPData_enc: advancing_machine "iso1PGPData_enc_step v" "left_at [(367, 3), (368, 2), (369, 1)]"
    for v
  by unfold_locales (auto simp: iso1PGPData_steps dest!: array_advance_dests split: if_splits;
      simp add: left_at_def)

interpretation iso1PGPData_dec: advancing_machine "iso1PGPData_dec_step j" "left_at [(367, 3), (368, 2), (369, 1)]"
    for j
  by unfold_locales (auto simp: iso1PGPData_steps dest!: array_advance_dests elim!: decode_switch_next
      split: if_splits;
      simp add: left_at_def)

subsection \<open>\<open>iso1SPKIDataType\<close>\<close>

record iso1SPKIDataType =
  iso1SPKIData_SPKISexp_array :: "sized_data list"
  iso1SPKIData_SPKISexp_arrayLen :: u16
  iso1SPKIData_ANY_characters :: "u8 list"
  iso1SPKIData_ANY_charactersLen :: u16
  iso1SPKIData_ANY_isUsed :: bool

definition init_iso1SPKIDataType :: "iso1SPKIDataType \<Rightarrow> iso1SPKIDataType" where
  "init_iso1SPKIDataType a = a\<lparr>iso1SPKIData_ANY_isUsed := False, iso1SPKIData_SPKISexp_arrayLen := 0\<rparr>"

record iso1SPKIData_locals =
  iso1SPKIData_SPKISexp_currArrayIndex :: nat
  iso1SPKIData_wcDone :: bool

definition iso1SPKIData_enc_step :: "iso1SPKIDataType \<Rightarrow> iso1SPKIData_locals machine" where
  "iso1SPKIData_enc_step v grammarID x s =
     (if grammarID = 263 then
        if iso1SPKIData_SPKISexp_currArrayIndex x < unat (iso1SPKIData_SPKISexp_arrayLen v) then
          encode_array_data 1 0 264 encode_bytesLen encode_bytes_of (iso1SPKIData_SPKISexp_array v)
          iso1SPKIData_SPKISexp_currArrayIndex iso1SPKIData_SPKISexp_currArrayIndex_update x s
        else Some (EXI_ERROR_UNKOWN_EVENT, (False, grammarID, x), s)
      else if grammarID = 264 then
        if iso1SPKIData_SPKISexp_currArrayIndex x < unat (iso1SPKIData_SPKISexp_arrayLen v) then
          encode_array_data 2 0 264 encode_bytesLen encode_bytes_of (iso1SPKIData_SPKISexp_array v)
          iso1SPKIData_SPKISexp_currArrayIndex iso1SPKIData_SPKISexp_currArrayIndex_update x s
        else if \<not> iso1SPKIData_ANY_isUsed v \<or> iso1SPKIData_wcDone x then
          finish 4 x (encodeNBitUnsignedInteger s 2 2)
        else Some (EXI_ERROR_UNKOWN_EVENT, (False, grammarID, x), s)
      else if grammarID = 265 then
        if iso1SPKIData_SPKISexp_currArrayIndex x < unat (iso1SPKIData_SPKISexp_arrayLen v) then
          encode_array_data 2 0 264 encode_bytesLen encode_bytes_of (iso1SPKIData_SPKISexp_array v)
          iso1SPKIData_SPKISexp_currArrayIndex iso1SPKIData_SPKISexp_currArrayIndex_update x s
        else if \<not> iso1SPKIData_ANY_isUsed v \<or> iso1SPKIData_wcDone x then
          finish 4 x (encodeNBitUnsignedInteger s 2 1)
        else Some (EXI_ERROR_UNKOWN_EVENT, (False, grammarID, x), s)
      else Some (EXI_ERROR_UNKOWN_GRAMMAR_ID, (False, grammarID, x), s))"

definition encode_iso1SPKIDataType :: "bitstream \<Rightarrow> iso1SPKIDataType \<Rightarrow>
    (errn \<times> bitstream) option" where
  "encode_iso1SPKIDataType s v = run_encoder (iso1SPKIData_enc_step v) 263
      \<lparr>iso1SPKIData_SPKISexp_currArrayIndex = 0, iso1SPKIData_wcDone = False\<rparr> s"

abbreviation (input) decode_next_iso1SPKIData_SPKISexp :: "u32 \<Rightarrow> iso1SPKIDataType decoder" where
  "decode_next_iso1SPKIData_SPKISexp j \<equiv> decode_element
      (decode_bytes_field j 350 fst (\<lambda>u e. (u, snd e)) (\<lambda>u e. (fst e, u))) iso1SPKIData_SPKISexp_array
      iso1SPKIData_SPKISexp_arrayLen
      (\<lambda>xs n a. a\<lparr>iso1SPKIData_SPKISexp_array := xs, iso1SPKIData_SPKISexp_arrayLen := n\<rparr>)"

definition iso1SPKIData_dec_step :: "u32 \<Rightarrow> (dec_static \<times> iso1SPKIDataType) machine" where
  "iso1SPKIData_dec_step j grammarID x s =
     (if grammarID = 263 then
        decode_switch 1
         [(0, decode_array_simple 263 264 1 iso1SPKIData_SPKISexp_arrayLen (decode_next_iso1SPKIData_SPKISexp j))] 263
           x s
      else if grammarID = 264 then
        decode_switch 2
         [(0, decode_array_simple 264 264 1 iso1SPKIData_SPKISexp_arrayLen (decode_next_iso1SPKIData_SPKISexp j)),
          (1, decode_unsupported 265),
          (2, decode_end 4)] 264 x s
      else if grammarID = 265 then
        decode_switch 2
         [(0, decode_array_simple 265 264 1 iso1SPKIData_SPKISexp_arrayLen (decode_next_iso1SPKIData_SPKISexp j)),
          (1, decode_end 4)] 265 x s
      else Some (EXI_ERROR_UNKOWN_GRAMMAR_ID, (False, grammarID, x), s))"

definition decode_iso1SPKIDataType :: "u32 \<Rightarrow> iso1SPKIDataType decoder" where
  "decode_iso1SPKIDataType j x s = grammar_loop (iso1SPKIData_dec_step j) 263 (fst x, init_iso1SPKIDataType (snd x))
      s"

definition iso1SPKIData_ok :: "iso1SPKIDataType \<Rightarrow> bool" where
  "iso1SPKIData_ok v \<longleftrightarrow>
     length (iso1SPKIData_SPKISexp_array v) = 1 \<and> unat (iso1SPKIData_SPKISexp_arrayLen v) \<le> 1 \<and>
       in_use (bytes_data_ok 350) (iso1SPKIData_SPKISexp_array v) (iso1SPKIData_SPKISexp_arrayLen v) \<and>
       list_all (data_sized 350) (iso1SPKIData_SPKISexp_array v) \<and>
     unat (iso1SPKIData_SPKISexp_arrayLen v) \<noteq> 0 \<and>
     \<not> iso1SPKIData_ANY_isUsed v"

definition iso1SPKIData_sized :: "iso1SPKIDataType \<Rightarrow> bool" where
  "iso1SPKIData_sized a \<longleftrightarrow>
     length (iso1SPKIData_SPKISexp_array a) = 1 \<and>
     list_all (data_sized 350) (iso1SPKIData_SPKISexp_array a)"

definition same_iso1SPKIData :: "iso1SPKIDataType \<Rightarrow> iso1SPKIDataType \<Rightarrow> bool" where
  "same_iso1SPKIData v a \<longleftrightarrow>
     iso1SPKIData_SPKISexp_arrayLen a = iso1SPKIData_SPKISexp_arrayLen v \<and>
       copied same_data (unat (iso1SPKIData_SPKISexp_arrayLen v)) (iso1SPKIData_SPKISexp_array v)
       (iso1SPKIData_SPKISexp_array a) \<and>
     iso1SPKIData_ANY_isUsed a = iso1SPKIData_ANY_isUsed v"

definition iso1SPKIData_at :: "iso1SPKIDataType \<Rightarrow> nat \<Rightarrow> iso1SPKIData_locals \<Rightarrow>
    iso1SPKIDataType \<Rightarrow> bool" where
  "iso1SPKIData_at v g x a \<longleftrightarrow>
     counts [(263, 0)] g (iso1SPKIData_SPKISexp_currArrayIndex x) \<and>
     iso1SPKIData_ok v \<and>
     g \<in> {263, 264} \<and>
     iso1SPKIData_sized a \<and>
     unat (iso1SPKIData_SPKISexp_arrayLen a) = iso1SPKIData_SPKISexp_currArrayIndex x \<and>
       iso1SPKIData_SPKISexp_currArrayIndex x \<le> unat (iso1SPKIData_SPKISexp_arrayLen v) \<and>
     copied same_data (iso1SPKIData_SPKISexp_currArrayIndex x) (iso1SPKIData_SPKISexp_array v)
       (iso1SPKIData_SPKISexp_array a) \<and>
     \<not> iso1SPKIData_ANY_isUsed a"

definition iso1SPKIData_rank :: "iso1SPKIDataType \<Rightarrow> nat \<Rightarrow> iso1SPKIData_locals \<Rightarrow>
    nat" where
  "iso1SPKIData_rank v g x = left_at [(263, 2), (264, 2)] g + due 2828 (iso1SPKIData_SPKISexp_arrayLen v)
      (iso1SPKIData_SPKISexp_currArrayIndex x)"

lemmas iso1SPKIData_steps = iso1SPKIData_enc_step_def
  iso1SPKIData_dec_step_def

lemmas iso1SPKIData_props = iso1SPKIData_at_def iso1SPKIData_sized_def same_iso1SPKIData_def iso1SPKIData_rank_def
    left_at_def

interpretation iso1SPKIData: walking_pair "iso1SPKIData_enc_step v" "iso1SPKIData_dec_step j" "iso1SPKIData_at v"
    "iso1SPKIData_rank v"
  "\<lambda>a. same_iso1SPKIData v a \<and> iso1SPKIData_sized a" for v j
proof
  fix g x a assume at: "iso1SPKIData_at v g x a"
  then have "g \<in> {263, 264}" by (simp add: iso1SPKIData_at_def)
  then show "walks (iso1SPKIData_enc_step v) (iso1SPKIData_dec_step j) (iso1SPKIData_at v) (iso1SPKIData_rank v)
    (\<lambda>a. same_iso1SPKIData v a \<and> iso1SPKIData_sized a) g x a" using at
    by - (elim insertE emptyE; (hypsubst, rule walks_by, simp (no_asm) add: iso1SPKIData_steps del: One_nat_def,
      simp (no_asm) add: iso1SPKIData_steps del: One_nat_def, simp (asm_lr) add: iso1SPKIData_props del: One_nat_def,
        (elim conjE)?,
      ((rule walks_ifs)+)?); (frule iso1SPKIData_ok_def [THEN iffD1], ((drule (1) known)+)?, (elim conjE)?,
        ((drule (1) known)+)?, (elim conjE)?,
      (((rule walks_shapes, simp (no_asm) del: One_nat_def, ((rule reads_intros)+)?);
      ((elim exE conjE)?,
        ((simp (no_asm_simp) add: iso1SPKIData_props counts_def array_intros; fail) |
        (simp (asm_lr) add: iso1SPKIData_props counts_def array_intros; fail) |
        (auto simp: iso1SPKIData_props counts_def array_intros; fail)))) | (erule (1) notE; fail) |
        ((elim exE conjE)?,
        ((simp (no_asm_simp) add: iso1SPKIData_props counts_def array_intros; fail) |
        (simp (asm_lr) add: iso1SPKIData_props counts_def array_intros; fail) |
        (auto simp: iso1SPKIData_props counts_def array_intros; fail))))))
qed

lemma reads_iso1SPKIData [reads_intros]:
  "iso1SPKIData_ok v \<Longrightarrow> iso1SPKIData_sized a \<Longrightarrow>
      reads 2830 (\<lambda>s. encode_iso1SPKIDataType s v) (decode_iso1SPKIDataType j) a
      (\<lambda>a. same_iso1SPKIData v a \<and> iso1SPKIData_sized a)"
  unfolding encode_iso1SPKIDataType_def decode_iso1SPKIDataType_def [abs_def]
  by (rule reads_start [OF iso1SPKIData.walk_reads, THEN reads_mono])
      (auto simp: iso1SPKIData_props iso1SPKIData_ok_def counts_def due_def init_iso1SPKIDataType_def)

subsection \<open>\<open>iso1KeyInfoType\<close>\<close>

record iso1KeyInfoType =
  iso1KeyInfo_Id_characters :: "u8 list"
  iso1KeyInfo_Id_charactersLen :: u16
  iso1KeyInfo_Id_isUsed :: bool
  iso1KeyInfo_KeyName_array :: "sized_data list"
  iso1KeyInfo_KeyName_arrayLen :: u16
  iso1KeyInfo_KeyValue_array :: "iso1KeyValueType list"
  iso1KeyInfo_KeyValue_arrayLen :: u16
  iso1KeyInfo_RetrievalMethod_array :: "iso1RetrievalMethodType list"
  iso1KeyInfo_RetrievalMethod_arrayLen :: u16
  iso1KeyInfo_X509Data_array :: "iso1X509DataType list"
  iso1KeyInfo_X509Data_arrayLen :: u16
  iso1KeyInfo_PGPData_array :: "iso1PGPDataType list"
  iso1KeyInfo_PGPData_arrayLen :: u16
  iso1KeyInfo_SPKIData_array :: "iso1SPKIDataType list"
  iso1KeyInfo_SPKIData_arrayLen :: u16
  iso1KeyInfo_MgmtData_array :: "sized_data list"
  iso1KeyInfo_MgmtData_arrayLen :: u16
  iso1KeyInfo_ANY_characters :: "u8 list"
  iso1KeyInfo_ANY_charactersLen :: u16
  iso1KeyInfo_ANY_isUsed :: bool

definition init_iso1KeyInfoType :: "iso1KeyInfoType \<Rightarrow> iso1KeyInfoType" where
  "init_iso1KeyInfoType a = a\<lparr>iso1KeyInfo_Id_isUsed := False, iso1KeyInfo_ANY_isUsed := False,
      iso1KeyInfo_KeyName_arrayLen := 0, iso1KeyInfo_KeyValue_arrayLen := 0, iso1KeyInfo_RetrievalMethod_arrayLen
      := 0, iso1KeyInfo_X509Data_arrayLen := 0, iso1KeyInfo_PGPData_arrayLen := 0, iso1KeyInfo_SPKIData_arrayLen := 0,
      iso1KeyInfo_MgmtData_arrayLen := 0\<rparr>"

record iso1KeyInfo_locals =
  iso1KeyInfo_KeyName_currArrayIndex :: nat
  iso1KeyInfo_KeyValue_currArrayIndex :: nat
  iso1KeyInfo_RetrievalMethod_currArrayIndex :: nat
  iso1KeyInfo_X509Data_currArrayIndex :: nat
  iso1KeyInfo_PGPData_currArrayIndex :: nat
  iso1KeyInfo_SPKIData_currArrayIndex :: nat
  iso1KeyInfo_MgmtData_currArrayIndex :: nat
  iso1KeyInfo_wcDone :: bool

definition iso1KeyInfo_enc_step_4 :: "iso1KeyInfoType \<Rightarrow> iso1KeyInfo_locals machine" where
  "iso1KeyInfo_enc_step_4 v grammarID x s =
     (if grammarID = 199 then
        if iso1KeyInfo_KeyName_currArrayIndex x < unat (iso1KeyInfo_KeyName_arrayLen v) then
          encode_array_data 4 0 198 encode_charactersLen encode_characters_of (iso1KeyInfo_KeyName_array v)
          iso1KeyInfo_KeyName_currArrayIndex iso1KeyInfo_KeyName_currArrayIndex_update x s
        else if iso1KeyInfo_KeyValue_currArrayIndex x < unat (iso1KeyInfo_KeyValue_arrayLen v) then
          encode_array_child 4 1 198 encode_iso1KeyValueType (iso1KeyInfo_KeyValue_array v)
          iso1KeyInfo_KeyValue_currArrayIndex iso1KeyInfo_KeyValue_currArrayIndex_update x s
        else if iso1KeyInfo_RetrievalMethod_currArrayIndex x < unat (iso1KeyInfo_RetrievalMethod_arrayLen v) then
          encode_array_child 4 2 198 encode_iso1RetrievalMethodType (iso1KeyInfo_RetrievalMethod_array v)
          iso1KeyInfo_RetrievalMethod_currArrayIndex iso1KeyInfo_RetrievalMethod_currArrayIndex_update x s
        else if iso1KeyInfo_X509Data_currArrayIndex x < unat (iso1KeyInfo_X509Data_arrayLen v) then
          encode_array_child 4 3 198 encode_iso1X509DataType (iso1KeyInfo_X509Data_array v)
          iso1KeyInfo_X509Data_currArrayIndex iso1KeyInfo_X509Data_currArrayIndex_update x s
        else if iso1KeyInfo_PGPData_currArrayIndex x < unat (iso1KeyInfo_PGPData_arrayLen v) then
          encode_array_child 4 4 198 encode_iso1PGPDataType (iso1KeyInfo_PGPData_array v)
          iso1KeyInfo_PGPData_currArrayIndex iso1KeyInfo_PGPData_currArrayIndex_update x s
        else if iso1KeyInfo_SPKIData_currArrayIndex x < unat (iso1KeyInfo_SPKIData_arrayLen v) then
          encode_array_child 4 5 198 encode_iso1SPKIDataType (iso1KeyInfo_SPKIData_array v)
          iso1KeyInfo_SPKIData_currArrayIndex iso1KeyInfo_SPKIData_currArrayIndex_update x s
        else if iso1KeyInfo_MgmtData_currArrayIndex x < unat (iso1KeyInfo_MgmtData_arrayLen v) then
          encode_array_data 4 6 198 encode_charactersLen encode_characters_of (iso1KeyInfo_MgmtData_array v)
          iso1KeyInfo_MgmtData_currArrayIndex iso1KeyInfo_MgmtData_currArrayIndex_update x s
        else if iso1KeyInfo_ANY_isUsed v then goto 199 (x\<lparr>iso1KeyInfo_wcDone := True\<rparr>)
          (encode_child 4 8 (encode_string_field (iso1KeyInfo_ANY_characters v) (iso1KeyInfo_ANY_charactersLen v)) s)
        else Some (EXI_ERROR_UNKOWN_EVENT, (False, grammarID, x), s)
      else Some (EXI_ERROR_UNKOWN_GRAMMAR_ID, (False, grammarID, x), s))"

definition iso1KeyInfo_enc_step_3 :: "iso1KeyInfoType \<Rightarrow> iso1KeyInfo_locals machine" where
  "iso1KeyInfo_enc_step_3 v grammarID x s =
     (if grammarID = 198 then
        if iso1KeyInfo_KeyName_currArrayIndex x < unat (iso1KeyInfo_KeyName_arrayLen v) then
          encode_array_data 4 0 198 encode_charactersLen encode_characters_of (iso1KeyInfo_KeyName_array v)
          iso1KeyInfo_KeyName_currArrayIndex iso1KeyInfo_KeyName_currArrayIndex_update x s
        else if iso1KeyInfo_KeyValue_currArrayIndex x < unat (iso1KeyInfo_KeyValue_arrayLen v) then
          encode_array_child 4 1 198 encode_iso1KeyValueType (iso1KeyInfo_KeyValue_array v)
          iso1KeyInfo_KeyValue_currArrayIndex iso1KeyInfo_KeyValue_currArrayIndex_update x s
        else if iso1KeyInfo_RetrievalMethod_currArrayIndex x < unat (iso1KeyInfo_RetrievalMethod_arrayLen v) then
          encode_array_child 4 2 198 encode_iso1RetrievalMethodType (iso1KeyInfo_RetrievalMethod_array v)
          iso1KeyInfo_RetrievalMethod_currArrayIndex iso1KeyInfo_RetrievalMethod_currArrayIndex_update x s
        else if iso1KeyInfo_X509Data_currArrayIndex x < unat (iso1KeyInfo_X509Data_arrayLen v) then
          encode_array_child 4 3 198 encode_iso1X509DataType (iso1KeyInfo_X509Data_array v)
          iso1KeyInfo_X509Data_currArrayIndex iso1KeyInfo_X509Data_currArrayIndex_update x s
        else if iso1KeyInfo_PGPData_currArrayIndex x < unat (iso1KeyInfo_PGPData_arrayLen v) then
          encode_array_child 4 4 198 encode_iso1PGPDataType (iso1KeyInfo_PGPData_array v)
          iso1KeyInfo_PGPData_currArrayIndex iso1KeyInfo_PGPData_currArrayIndex_update x s
        else if iso1KeyInfo_SPKIData_currArrayIndex x < unat (iso1KeyInfo_SPKIData_arrayLen v) then
          encode_array_child 4 5 198 encode_iso1SPKIDataType (iso1KeyInfo_SPKIData_array v)
          iso1KeyInfo_SPKIData_currArrayIndex iso1KeyInfo_SPKIData_currArrayIndex_update x s
        else if iso1KeyInfo_MgmtData_currArrayIndex x < unat (iso1KeyInfo_MgmtData_arrayLen v) then
          encode_array_data 4 6 198 encode_charactersLen encode_characters_of (iso1KeyInfo_MgmtData_array v)
          iso1KeyInfo_MgmtData_currArrayIndex iso1KeyInfo_MgmtData_currArrayIndex_update x s
        else if \<not> iso1KeyInfo_ANY_isUsed v \<or> iso1KeyInfo_wcDone x then
          finish 4 x (encodeNBitUnsignedInteger s 4 8)
        else if iso1KeyInfo_ANY_isUsed v then goto 198 (x\<lparr>iso1KeyInfo_wcDone := True\<rparr>)
          (encode_child 4 9 (encode_string_field (iso1KeyInfo_ANY_characters v) (iso1KeyInfo_ANY_charactersLen v)) s)
        else Some (EXI_ERROR_UNKOWN_EVENT, (False, grammarID, x), s)
      else iso1KeyInfo_enc_step_4 v grammarID x s)"

definition iso1KeyInfo_enc_step_2 :: "iso1KeyInfoType \<Rightarrow> iso1KeyInfo_locals machine" where
  "iso1KeyInfo_enc_step_2 v grammarID x s =
     (if grammarID = 197 then
        if iso1KeyInfo_KeyName_currArrayIndex x < unat (iso1KeyInfo_KeyName_arrayLen v) then
          encode_array_data 4 0 198 encode_charactersLen encode_characters_of (iso1KeyInfo_KeyName_array v)
          iso1KeyInfo_KeyName_currArrayIndex iso1KeyInfo_KeyName_currArrayIndex_update x s
        else if iso1KeyInfo_KeyValue_currArrayIndex x < unat (iso1KeyInfo_KeyValue_arrayLen v) then
          encode_array_child 4 1 198 encode_iso1KeyValueType (iso1KeyInfo_KeyValue_array v)
          iso1KeyInfo_KeyValue_currArrayIndex iso1KeyInfo_KeyValue_currArrayIndex_update x s
        else if iso1KeyInfo_RetrievalMethod_currArrayIndex x < unat (iso1KeyInfo_RetrievalMethod_arrayLen v) then
          encode_array_child 4 2 198 encode_iso1RetrievalMethodType (iso1KeyInfo_RetrievalMethod_array v)
          iso1KeyInfo_RetrievalMethod_currArrayIndex iso1KeyInfo_RetrievalMethod_currArrayIndex_update x s
        else if iso1KeyInfo_X509Data_currArrayIndex x < unat (iso1KeyInfo_X509Data_arrayLen v) then
          encode_array_child 4 3 198 encode_iso1X509DataType (iso1KeyInfo_X509Data_array v)
          iso1KeyInfo_X509Data_currArrayIndex iso1KeyInfo_X509Data_currArrayIndex_update x s
        else if iso1KeyInfo_PGPData_currArrayIndex x < unat (iso1KeyInfo_PGPData_arrayLen v) then
          encode_array_child 4 4 198 encode_iso1PGPDataType (iso1KeyInfo_PGPData_array v)
          iso1KeyInfo_PGPData_currArrayIndex iso1KeyInfo_PGPData_currArrayIndex_update x s
        else if iso1KeyInfo_SPKIData_currArrayIndex x < unat (iso1KeyInfo_SPKIData_arrayLen v) then
          encode_array_child 4 5 198 encode_iso1SPKIDataType (iso1KeyInfo_SPKIData_array v)
          iso1KeyInfo_SPKIData_currArrayIndex iso1KeyInfo_SPKIData_currArrayIndex_update x s
        else if iso1KeyInfo_MgmtData_currArrayIndex x < unat (iso1KeyInfo_MgmtData_arrayLen v) then
          encode_array_data 4 6 198 encode_charactersLen encode_characters_of (iso1KeyInfo_MgmtData_array v)
          iso1KeyInfo_MgmtData_currArrayIndex iso1KeyInfo_MgmtData_currArrayIndex_update x s
        else if iso1KeyInfo_ANY_isUsed v then goto 199 (x\<lparr>iso1KeyInfo_wcDone := True\<rparr>)
          (encode_child 4 8 (encode_string_field (iso1KeyInfo_ANY_characters v) (iso1KeyInfo_ANY_charactersLen v)) s)
        else Some (EXI_ERROR_UNKOWN_EVENT, (False, grammarID, x), s)
      else iso1KeyInfo_enc_step_3 v grammarID x s)"

definition iso1KeyInfo_enc_step :: "iso1KeyInfoType \<Rightarrow> iso1KeyInfo_locals machine" where
  "iso1KeyInfo_enc_step v grammarID x s =
     (if grammarID = 196 then
        if iso1KeyInfo_Id_isUsed v then
          goto 197 x
          (encode_child 4 0 (encode_string_field (iso1KeyInfo_Id_characters v) (iso1KeyInfo_Id_charactersLen v)) s)
        else if iso1KeyInfo_KeyName_currArrayIndex x < unat (iso1KeyInfo_KeyName_arrayLen v) then
          encode_array_data 4 1 198 encode_charactersLen encode_characters_of (iso1KeyInfo_KeyName_array v)
          iso1KeyInfo_KeyName_currArrayIndex iso1KeyInfo_KeyName_currArrayIndex_update x s
        else if iso1KeyInfo_KeyValue_currArrayIndex x < unat (iso1KeyInfo_KeyValue_arrayLen v) then
          encode_array_child 4 2 198 encode_iso1KeyValueType (iso1KeyInfo_KeyValue_array v)
          iso1KeyInfo_KeyValue_currArrayIndex iso1KeyInfo_KeyValue_currArrayIndex_update x s
        else if iso1KeyInfo_RetrievalMethod_currArrayIndex x < unat (iso1KeyInfo_RetrievalMethod_arrayLen v) then
          encode_array_child 4 3 198 encode_iso1RetrievalMethodType (iso1KeyInfo_RetrievalMethod_array v)
          iso1KeyInfo_RetrievalMethod_currArrayIndex iso1KeyInfo_RetrievalMethod_currArrayIndex_update x s
        else if iso1KeyInfo_X509Data_currArrayIndex x < unat (iso1KeyInfo_X509Data_arrayLen v) then
          encode_array_child 4 4 198 encode_iso1X509DataType (iso1KeyInfo_X509Data_array v)
          iso1KeyInfo_X509Data_currArrayIndex iso1KeyInfo_X509Data_currArrayIndex_update x s
        else if iso1KeyInfo_PGPData_currArrayIndex x < unat (iso1KeyInfo_PGPData_arrayLen v) then
          encode_array_child 4 5 198 encode_iso1PGPDataType (iso1KeyInfo_PGPData_array v)
          iso1KeyInfo_PGPData_currArrayIndex iso1KeyInfo_PGPData_currArrayIndex_update x s
        else if iso1KeyInfo_SPKIData_currArrayIndex x < unat (iso1KeyInfo_SPKIData_arrayLen v) then
          encode_array_child 4 6 198 encode_iso1SPKIDataType (iso1KeyInfo_SPKIData_array v)
          iso1KeyInfo_SPKIData_currArrayIndex iso1KeyInfo_SPKIData_currArrayIndex_update x s
        else if iso1KeyInfo_MgmtData_currArrayIndex x < unat (iso1KeyInfo_MgmtData_arrayLen v) then
          encode_array_data 4 7 198 encode_charactersLen encode_characters_of (iso1KeyInfo_MgmtData_array v)
          iso1KeyInfo_MgmtData_currArrayIndex iso1KeyInfo_MgmtData_currArrayIndex_update x s
        else if iso1KeyInfo_ANY_isUsed v then goto 199 (x\<lparr>iso1KeyInfo_wcDone := True\<rparr>)
          (encode_child 4 9 (encode_string_field (iso1KeyInfo_ANY_characters v) (iso1KeyInfo_ANY_charactersLen v)) s)
        else Some (EXI_ERROR_UNKOWN_EVENT, (False, grammarID, x), s)
      else iso1KeyInfo_enc_step_2 v grammarID x s)"

definition encode_iso1KeyInfoType :: "bitstream \<Rightarrow> iso1KeyInfoType \<Rightarrow> (errn \<times> bitstream)
    option" where
  "encode_iso1KeyInfoType s v = run_encoder (iso1KeyInfo_enc_step v) 196
      \<lparr>iso1KeyInfo_KeyName_currArrayIndex = 0, iso1KeyInfo_KeyValue_currArrayIndex = 0,
      iso1KeyInfo_RetrievalMethod_currArrayIndex = 0, iso1KeyInfo_X509Data_currArrayIndex = 0,
      iso1KeyInfo_PGPData_currArrayIndex = 0, iso1KeyInfo_SPKIData_currArrayIndex = 0,
      iso1KeyInfo_MgmtData_currArrayIndex = 0, iso1KeyInfo_wcDone = False\<rparr> s"

abbreviation (input) decode_next_iso1KeyInfo_KeyName :: "u32 \<Rightarrow> iso1KeyInfoType decoder" where
  "decode_next_iso1KeyInfo_KeyName j \<equiv> decode_element
      (decode_string_field j 51 fst (\<lambda>u e. (u, snd e)) (\<lambda>u e. (fst e, u))) iso1KeyInfo_KeyName_array
      iso1KeyInfo_KeyName_arrayLen
      (\<lambda>xs n a. a\<lparr>iso1KeyInfo_KeyName_array := xs, iso1KeyInfo_KeyName_arrayLen := n\<rparr>)"

abbreviation (input) decode_next_iso1KeyInfo_KeyValue :: "u32 \<Rightarrow> iso1KeyInfoType decoder" where
  "decode_next_iso1KeyInfo_KeyValue j \<equiv> decode_element (decode_iso1KeyValueType j) iso1KeyInfo_KeyValue_array
      iso1KeyInfo_KeyValue_arrayLen
      (\<lambda>xs n a. a\<lparr>iso1KeyInfo_KeyValue_array := xs, iso1KeyInfo_KeyValue_arrayLen := n\<rparr>)"

abbreviation (input) decode_next_iso1KeyInfo_RetrievalMethod :: "u32 \<Rightarrow> iso1KeyInfoType decoder" where
  "decode_next_iso1KeyInfo_RetrievalMethod j \<equiv> decode_element (decode_iso1RetrievalMethodType j)
      iso1KeyInfo_RetrievalMethod_array iso1KeyInfo_RetrievalMethod_arrayLen
      (\<lambda>xs n a. a\<lparr>iso1KeyInfo_RetrievalMethod_array := xs, iso1KeyInfo_RetrievalMethod_arrayLen
      := n\<rparr>)"

abbreviation (input) decode_next_iso1KeyInfo_X509Data :: "u32 \<Rightarrow> iso1KeyInfoType decoder" where
  "decode_next_iso1KeyInfo_X509Data j \<equiv> decode_element (decode_iso1X509DataType j) iso1KeyInfo_X509Data_array
      iso1KeyInfo_X509Data_arrayLen
      (\<lambda>xs n a. a\<lparr>iso1KeyInfo_X509Data_array := xs, iso1KeyInfo_X509Data_arrayLen := n\<rparr>)"

abbreviation (input) decode_next_iso1KeyInfo_PGPData :: "u32 \<Rightarrow> iso1KeyInfoType decoder" where
  "decode_next_iso1KeyInfo_PGPData j \<equiv> decode_element (decode_iso1PGPDataType j) iso1KeyInfo_PGPData_array
      iso1KeyInfo_PGPData_arrayLen
      (\<lambda>xs n a. a\<lparr>iso1KeyInfo_PGPData_array := xs, iso1KeyInfo_PGPData_arrayLen := n\<rparr>)"

abbreviation (input) decode_next_iso1KeyInfo_SPKIData :: "u32 \<Rightarrow> iso1KeyInfoType decoder" where
  "decode_next_iso1KeyInfo_SPKIData j \<equiv> decode_element (decode_iso1SPKIDataType j) iso1KeyInfo_SPKIData_array
      iso1KeyInfo_SPKIData_arrayLen
      (\<lambda>xs n a. a\<lparr>iso1KeyInfo_SPKIData_array := xs, iso1KeyInfo_SPKIData_arrayLen := n\<rparr>)"

abbreviation (input) decode_next_iso1KeyInfo_MgmtData :: "u32 \<Rightarrow> iso1KeyInfoType decoder" where
  "decode_next_iso1KeyInfo_MgmtData j \<equiv> decode_element
      (decode_string_field j 51 fst (\<lambda>u e. (u, snd e)) (\<lambda>u e. (fst e, u))) iso1KeyInfo_MgmtData_array
      iso1KeyInfo_MgmtData_arrayLen
      (\<lambda>xs n a. a\<lparr>iso1KeyInfo_MgmtData_array := xs, iso1KeyInfo_MgmtData_arrayLen := n\<rparr>)"

definition iso1KeyInfo_dec_step_4 :: "u32 \<Rightarrow> (dec_static \<times> iso1KeyInfoType) machine" where
  "iso1KeyInfo_dec_step_4 j grammarID x s =
     (if grammarID = 199 then
        decode_switch 4
         [(0, decode_array_simple 199 198 1 iso1KeyInfo_KeyName_arrayLen (decode_next_iso1KeyInfo_KeyName j)),
          (1, decode_array_child 198 1 iso1KeyInfo_KeyValue_arrayLen (decode_next_iso1KeyInfo_KeyValue j)),
          (2, decode_array_child 198 1 iso1KeyInfo_RetrievalMethod_arrayLen
            (decode_next_iso1KeyInfo_RetrievalMethod j)),
          (3, decode_array_child 198 1 iso1KeyInfo_X509Data_arrayLen (decode_next_iso1KeyInfo_X509Data j)),
          (4, decode_array_child 198 1 iso1KeyInfo_PGPData_arrayLen (decode_next_iso1KeyInfo_PGPData j)),
          (5, decode_array_child 198 1 iso1KeyInfo_SPKIData_arrayLen (decode_next_iso1KeyInfo_SPKIData j)),
          (6, decode_array_simple 199 198 1 iso1KeyInfo_MgmtData_arrayLen (decode_next_iso1KeyInfo_MgmtData j)),
          (7, decode_unsupported 198),
          (8, decode_child 199 (decode_used (\<lambda>a. a\<lparr>iso1KeyInfo_ANY_isUsed := True\<rparr>)
            (decode_string_field j 51 iso1KeyInfo_ANY_characters
            (\<lambda>u a. a\<lparr>iso1KeyInfo_ANY_characters := u\<rparr>)
            (\<lambda>u a. a\<lparr>iso1KeyInfo_ANY_charactersLen := u\<rparr>))))] 199 x s
      else Some (EXI_ERROR_UNKOWN_GRAMMAR_ID, (False, grammarID, x), s))"

definition iso1KeyInfo_dec_step_3 :: "u32 \<Rightarrow> (dec_static \<times> iso1KeyInfoType) machine" where
  "iso1KeyInfo_dec_step_3 j grammarID x s =
     (if grammarID = 198 then
        decode_switch 4
         [(0, decode_array_simple 198 198 1 iso1KeyInfo_KeyName_arrayLen (decode_next_iso1KeyInfo_KeyName j)),
          (1, decode_array_child 198 1 iso1KeyInfo_KeyValue_arrayLen (decode_next_iso1KeyInfo_KeyValue j)),
          (2, decode_array_child 198 1 iso1KeyInfo_RetrievalMethod_arrayLen
            (decode_next_iso1KeyInfo_RetrievalMethod j)),
          (3, decode_array_child 198 1 iso1KeyInfo_X509Data_arrayLen (decode_next_iso1KeyInfo_X509Data j)),
          (4, decode_array_child 198 1 iso1KeyInfo_PGPData_arrayLen (decode_next_iso1KeyInfo_PGPData j)),
          (5, decode_array_child 198 1 iso1KeyInfo_SPKIData_arrayLen (decode_next_iso1KeyInfo_SPKIData j)),
          (6, decode_array_simple 198 198 1 iso1KeyInfo_MgmtData_arrayLen (decode_next_iso1KeyInfo_MgmtData j)),
          (7, decode_unsupported 198),
          (8, decode_end 4),
          (9, decode_child 198 (decode_used (\<lambda>a. a\<lparr>iso1KeyInfo_ANY_isUsed := True\<rparr>)
            (decode_string_field j 51 iso1KeyInfo_ANY_characters
            (\<lambda>u a. a\<lparr>iso1KeyInfo_ANY_characters := u\<rparr>)
            (\<lambda>u a. a\<lparr>iso1KeyInfo_ANY_charactersLen := u\<rparr>))))] 198 x s
      else iso1KeyInfo_dec_step_4 j grammarID x s)"

definition iso1KeyInfo_dec_step_2 :: "u32 \<Rightarrow> (dec_static \<times> iso1KeyInfoType) machine" where
  "iso1KeyInfo_dec_step_2 j grammarID x s =
     (if grammarID = 197 then
        decode_switch 4
         [(0, decode_array_simple 197 198 1 iso1KeyInfo_KeyName_arrayLen (decode_next_iso1KeyInfo_KeyName j)),
          (1, decode_array_child 198 1 iso1KeyInfo_KeyValue_arrayLen (decode_next_iso1KeyInfo_KeyValue j)),
          (2, decode_array_child 198 1 iso1KeyInfo_RetrievalMethod_arrayLen
            (decode_next_iso1KeyInfo_RetrievalMethod j)),
          (3, decode_array_child 198 1 iso1KeyInfo_X509Data_arrayLen (decode_next_iso1KeyInfo_X509Data j)),
          (4, decode_array_child 198 1 iso1KeyInfo_PGPData_arrayLen (decode_next_iso1KeyInfo_PGPData j)),
          (5, decode_array_child 198 1 iso1KeyInfo_SPKIData_arrayLen (decode_next_iso1KeyInfo_SPKIData j)),
          (6, decode_array_simple 197 198 1 iso1KeyInfo_MgmtData_arrayLen (decode_next_iso1KeyInfo_MgmtData j)),
          (7, decode_unsupported 198),
          (8, decode_child 199 (decode_used (\<lambda>a. a\<lparr>iso1KeyInfo_ANY_isUsed := True\<rparr>)
            (decode_string_field j 51 iso1KeyInfo_ANY_characters
            (\<lambda>u a. a\<lparr>iso1KeyInfo_ANY_characters := u\<rparr>)
            (\<lambda>u a. a\<lparr>iso1KeyInfo_ANY_charactersLen := u\<rparr>))))] 197 x s
      else iso1KeyInfo_dec_step_3 j grammarID x s)"

definition iso1KeyInfo_dec_step :: "u32 \<Rightarrow> (dec_static \<times> iso1KeyInfoType) machine" where
  "iso1KeyInfo_dec_step j grammarID x s =
     (if grammarID = 196 then
        decode_switch 4
         [(0, decode_child 197 (decode_used (\<lambda>a. a\<lparr>iso1KeyInfo_Id_isUsed := True\<rparr>)
           (decode_string_field j 51 iso1KeyInfo_Id_characters
           (\<lambda>u a. a\<lparr>iso1KeyInfo_Id_characters := u\<rparr>)
           (\<lambda>u a. a\<lparr>iso1KeyInfo_Id_charactersLen := u\<rparr>)))),
          (1, decode_array_simple 196 198 1 iso1KeyInfo_KeyName_arrayLen (decode_next_iso1KeyInfo_KeyName j)),
          (2, decode_array_child 198 1 iso1KeyInfo_KeyValue_arrayLen (decode_next_iso1KeyInfo_KeyValue j)),
          (3, decode_array_child 198 1 iso1KeyInfo_RetrievalMethod_arrayLen
            (decode_next_iso1KeyInfo_RetrievalMethod j)),
          (4, decode_array_child 198 1 iso1KeyInfo_X509Data_arrayLen (decode_next_iso1KeyInfo_X509Data j)),
          (5, decode_array_child 198 1 iso1KeyInfo_PGPData_arrayLen (decode_next_iso1KeyInfo_PGPData j)),
          (6, decode_array_child 198 1 iso1KeyInfo_SPKIData_arrayLen (decode_next_iso1KeyInfo_SPKIData j)),
          (7, decode_array_simple 196 198 1 iso1KeyInfo_MgmtData_arrayLen (decode_next_iso1KeyInfo_MgmtData j)),
          (8, decode_unsupported 198),
          (9, decode_child 199 (decode_used (\<lambda>a. a\<lparr>iso1KeyInfo_ANY_isUsed := True\<rparr>)
            (decode_string_field j 51 iso1KeyInfo_ANY_characters
            (\<lambda>u a. a\<lparr>iso1KeyInfo_ANY_characters := u\<rparr>)
            (\<lambda>u a. a\<lparr>iso1KeyInfo_ANY_charactersLen := u\<rparr>))))] 196 x s
      else iso1KeyInfo_dec_step_2 j grammarID x s)"

definition decode_iso1KeyInfoType :: "u32 \<Rightarrow> iso1KeyInfoType decoder" where
  "decode_iso1KeyInfoType j x s = grammar_loop (iso1KeyInfo_dec_step j) 196 (fst x, init_iso1KeyInfoType (snd x)) s"

definition iso1KeyInfo_ok :: "iso1KeyInfoType \<Rightarrow> bool" where
  "iso1KeyInfo_ok v \<longleftrightarrow>
     when_used (iso1KeyInfo_Id_isUsed v) (string_ok 51 (iso1KeyInfo_Id_characters v) (iso1KeyInfo_Id_charactersLen v))
       \<and>
     length (iso1KeyInfo_KeyName_array v) = 1 \<and> unat (iso1KeyInfo_KeyName_arrayLen v) \<le> 1 \<and>
       in_use (string_data_ok 51) (iso1KeyInfo_KeyName_array v) (iso1KeyInfo_KeyName_arrayLen v) \<and>
     length (iso1KeyInfo_KeyValue_array v) = 1 \<and> unat (iso1KeyInfo_KeyValue_arrayLen v) \<le> 1 \<and>
       in_use iso1KeyValue_ok (iso1KeyInfo_KeyValue_array v) (iso1KeyInfo_KeyValue_arrayLen v) \<and>
     length (iso1KeyInfo_RetrievalMethod_array v) = 1 \<and> unat (iso1KeyInfo_RetrievalMethod_arrayLen v) \<le> 1
       \<and> in_use iso1RetrievalMethod_ok (iso1KeyInfo_RetrievalMethod_array v)
       (iso1KeyInfo_RetrievalMethod_arrayLen v) \<and>
     length (iso1KeyInfo_X509Data_array v) = 1 \<and> unat (iso1KeyInfo_X509Data_arrayLen v) \<le> 1 \<and>
       in_use iso1X509Data_ok (iso1KeyInfo_X509Data_array v) (iso1KeyInfo_X509Data_arrayLen v) \<and>
     length (iso1KeyInfo_PGPData_array v) = 1 \<and> unat (iso1KeyInfo_PGPData_arrayLen v) \<le> 1 \<and>
       in_use iso1PGPData_ok (iso1KeyInfo_PGPData_array v) (iso1KeyInfo_PGPData_arrayLen v) \<and>
     length (iso1KeyInfo_SPKIData_array v) = 1 \<and> unat (iso1KeyInfo_SPKIData_arrayLen v) \<le> 1 \<and>
       in_use iso1SPKIData_ok (iso1KeyInfo_SPKIData_array v) (iso1KeyInfo_SPKIData_arrayLen v) \<and>
     length (iso1KeyInfo_MgmtData_array v) = 1 \<and> unat (iso1KeyInfo_MgmtData_arrayLen v) \<le> 1 \<and>
       in_use (string_data_ok 51) (iso1KeyInfo_MgmtData_array v) (iso1KeyInfo_MgmtData_arrayLen v) \<and>
     when_used (iso1KeyInfo_ANY_isUsed v)
       (string_ok 51 (iso1KeyInfo_ANY_characters v) (iso1KeyInfo_ANY_charactersLen v)) \<and>
     some_of [iso1KeyInfo_Id_isUsed v, unat (iso1KeyInfo_KeyName_arrayLen v) \<noteq> 0,
       unat (iso1KeyInfo_KeyValue_arrayLen v) \<noteq> 0, unat (iso1KeyInfo_RetrievalMethod_arrayLen v) \<noteq> 0,
       unat (iso1KeyInfo_X509Data_arrayLen v) \<noteq> 0, unat (iso1KeyInfo_PGPData_arrayLen v) \<noteq> 0,
       unat (iso1KeyInfo_SPKIData_arrayLen v) \<noteq> 0, unat (iso1KeyInfo_MgmtData_arrayLen v) \<noteq> 0] \<and>
     when_used (iso1KeyInfo_Id_isUsed v)
       (some_of [unat (iso1KeyInfo_KeyName_arrayLen v) \<noteq> 0, unat (iso1KeyInfo_KeyValue_arrayLen v) \<noteq> 0,
       unat (iso1KeyInfo_RetrievalMethod_arrayLen v) \<noteq> 0, unat (iso1KeyInfo_X509Data_arrayLen v) \<noteq> 0,
       unat (iso1KeyInfo_PGPData_arrayLen v) \<noteq> 0, unat (iso1KeyInfo_SPKIData_arrayLen v) \<noteq> 0,
       unat (iso1KeyInfo_MgmtData_arrayLen v) \<noteq> 0])"

definition iso1KeyInfo_sized :: "iso1KeyInfoType \<Rightarrow> bool" where
  "iso1KeyInfo_sized a \<longleftrightarrow>
     length (iso1KeyInfo_Id_characters a) = 51 \<and>
     length (iso1KeyInfo_KeyName_array a) = 1 \<and>
     list_all (data_sized 51) (iso1KeyInfo_KeyName_array a) \<and>
     length (iso1KeyInfo_KeyValue_array a) = 1 \<and>
     list_all iso1KeyValue_sized (iso1KeyInfo_KeyValue_array a) \<and>
     length (iso1KeyInfo_RetrievalMethod_array a) = 1 \<and>
     list_all iso1RetrievalMethod_sized (iso1KeyInfo_RetrievalMethod_array a) \<and>
     length (iso1KeyInfo_X509Data_array a) = 1 \<and>
     list_all iso1X509Data_sized (iso1KeyInfo_X509Data_array a) \<and>
     length (iso1KeyInfo_PGPData_array a) = 1 \<and>
     list_all iso1PGPData_sized (iso1KeyInfo_PGPData_array a) \<and>
     length (iso1KeyInfo_SPKIData_array a) = 1 \<and>
     list_all iso1SPKIData_sized (iso1KeyInfo_SPKIData_array a) \<and>
     length (iso1KeyInfo_MgmtData_array a) = 1 \<and>
     list_all (data_sized 51) (iso1KeyInfo_MgmtData_array a) \<and>
     length (iso1KeyInfo_ANY_characters a) = 51"

definition same_iso1KeyInfo :: "iso1KeyInfoType \<Rightarrow> iso1KeyInfoType \<Rightarrow> bool" where
  "same_iso1KeyInfo v a \<longleftrightarrow>
     kept (iso1KeyInfo_Id_isUsed v) (iso1KeyInfo_Id_isUsed a)
       (iso1KeyInfo_Id_charactersLen a = iso1KeyInfo_Id_charactersLen v \<and>
       take (unat (iso1KeyInfo_Id_charactersLen v)) (iso1KeyInfo_Id_characters a) = take
       (unat (iso1KeyInfo_Id_charactersLen v)) (iso1KeyInfo_Id_characters v)) \<and>
     iso1KeyInfo_KeyName_arrayLen a = iso1KeyInfo_KeyName_arrayLen v \<and>
       copied same_data (unat (iso1KeyInfo_KeyName_arrayLen v)) (iso1KeyInfo_KeyName_array v)
       (iso1KeyInfo_KeyName_array a) \<and>
     iso1KeyInfo_KeyValue_arrayLen a = iso1KeyInfo_KeyValue_arrayLen v \<and>
       copied same_iso1KeyValue (unat (iso1KeyInfo_KeyValue_arrayLen v)) (iso1KeyInfo_KeyValue_array v)
       (iso1KeyInfo_KeyValue_array a) \<and>
     iso1KeyInfo_RetrievalMethod_arrayLen a = iso1KeyInfo_RetrievalMethod_arrayLen v \<and>
       copied same_iso1RetrievalMethod (unat (iso1KeyInfo_RetrievalMethod_arrayLen v))
       (iso1KeyInfo_RetrievalMethod_array v) (iso1KeyInfo_RetrievalMethod_array a) \<and>
     iso1KeyInfo_X509Data_arrayLen a = iso1KeyInfo_X509Data_arrayLen v \<and>
       copied same_iso1X509Data (unat (iso1KeyInfo_X509Data_arrayLen v)) (iso1KeyInfo_X509Data_array v)
       (iso1KeyInfo_X509Data_array a) \<and>
     iso1KeyInfo_PGPData_arrayLen a = iso1KeyInfo_PGPData_arrayLen v \<and>
       copied same_iso1PGPData (unat (iso1KeyInfo_PGPData_arrayLen v)) (iso1KeyInfo_PGPData_array v)
       (iso1KeyInfo_PGPData_array a) \<and>
     iso1KeyInfo_SPKIData_arrayLen a = iso1KeyInfo_SPKIData_arrayLen v \<and>
       copied same_iso1SPKIData (unat (iso1KeyInfo_SPKIData_arrayLen v)) (iso1KeyInfo_SPKIData_array v)
       (iso1KeyInfo_SPKIData_array a) \<and>
     iso1KeyInfo_MgmtData_arrayLen a = iso1KeyInfo_MgmtData_arrayLen v \<and>
       copied same_data (unat (iso1KeyInfo_MgmtData_arrayLen v)) (iso1KeyInfo_MgmtData_array v)
       (iso1KeyInfo_MgmtData_array a) \<and>
     kept (iso1KeyInfo_ANY_isUsed v) (iso1KeyInfo_ANY_isUsed a)
       (iso1KeyInfo_ANY_charactersLen a = iso1KeyInfo_ANY_charactersLen v \<and>
       take (unat (iso1KeyInfo_ANY_charactersLen v)) (iso1KeyInfo_ANY_characters a) = take
       (unat (iso1KeyInfo_ANY_charactersLen v)) (iso1KeyInfo_ANY_characters v))"

definition iso1KeyInfo_at :: "iso1KeyInfoType \<Rightarrow> nat \<Rightarrow> iso1KeyInfo_locals \<Rightarrow>
    iso1KeyInfoType \<Rightarrow> bool" where
  "iso1KeyInfo_at v g x a \<longleftrightarrow>
     counts [(196, 0), (197, 0)] g (iso1KeyInfo_KeyName_currArrayIndex x) \<and>
     counts [(196, 0), (197, 0)] g (iso1KeyInfo_KeyValue_currArrayIndex x) \<and>
     counts [(196, 0), (197, 0)] g (iso1KeyInfo_RetrievalMethod_currArrayIndex x) \<and>
     counts [(196, 0), (197, 0)] g (iso1KeyInfo_X509Data_currArrayIndex x) \<and>
     counts [(196, 0), (197, 0)] g (iso1KeyInfo_PGPData_currArrayIndex x) \<and>
     counts [(196, 0), (197, 0)] g (iso1KeyInfo_SPKIData_currArrayIndex x) \<and>
     counts [(196, 0), (197, 0)] g (iso1KeyInfo_MgmtData_currArrayIndex x) \<and>
     iso1KeyInfo_ok v \<and>
     g \<in> {196, 197, 198} \<and>
     iso1KeyInfo_sized a \<and>
     (if g \<in> {196} then \<not> iso1KeyInfo_Id_isUsed a
      else kept (iso1KeyInfo_Id_isUsed v) (iso1KeyInfo_Id_isUsed a)
        (iso1KeyInfo_Id_charactersLen a = iso1KeyInfo_Id_charactersLen v \<and>
        take (unat (iso1KeyInfo_Id_charactersLen v)) (iso1KeyInfo_Id_characters a) = take
        (unat (iso1KeyInfo_Id_charactersLen v)) (iso1KeyInfo_Id_characters v))) \<and>
     unat (iso1KeyInfo_KeyName_arrayLen a) = iso1KeyInfo_KeyName_currArrayIndex x \<and>
       iso1KeyInfo_KeyName_currArrayIndex x \<le> unat (iso1KeyInfo_KeyName_arrayLen v) \<and>
     copied same_data (iso1KeyInfo_KeyName_currArrayIndex x) (iso1KeyInfo_KeyName_array v)
       (iso1KeyInfo_KeyName_array a) \<and>
     unat (iso1KeyInfo_KeyValue_arrayLen a) = iso1KeyInfo_KeyValue_currArrayIndex x \<and>
       iso1KeyInfo_KeyValue_currArrayIndex x \<le> unat (iso1KeyInfo_KeyValue_arrayLen v) \<and>
     copied same_iso1KeyValue (iso1KeyInfo_KeyValue_currArrayIndex x) (iso1KeyInfo_KeyValue_array v)
       (iso1KeyInfo_KeyValue_array a) \<and>
     unat (iso1KeyInfo_RetrievalMethod_arrayLen a) = iso1KeyInfo_RetrievalMethod_currArrayIndex x \<and>
       iso1KeyInfo_RetrievalMethod_currArrayIndex x \<le> unat (iso1KeyInfo_RetrievalMethod_arrayLen v) \<and>
     copied same_iso1RetrievalMethod (iso1KeyInfo_RetrievalMethod_currArrayIndex x)
       (iso1KeyInfo_RetrievalMethod_array v) (iso1KeyInfo_RetrievalMethod_array a) \<and>
     unat (iso1KeyInfo_X509Data_arrayLen a) = iso1KeyInfo_X509Data_currArrayIndex x \<and>
       iso1KeyInfo_X509Data_currArrayIndex x \<le> unat (iso1KeyInfo_X509Data_arrayLen v) \<and>
     copied same_iso1X509Data (iso1KeyInfo_X509Data_currArrayIndex x) (iso1KeyInfo_X509Data_array v)
       (iso1KeyInfo_X509Data_array a) \<and>
     unat (iso1KeyInfo_PGPData_arrayLen a) = iso1KeyInfo_PGPData_currArrayIndex x \<and>
       iso1KeyInfo_PGPData_currArrayIndex x \<le> unat (iso1KeyInfo_PGPData_arrayLen v) \<and>
     copied same_iso1PGPData (iso1KeyInfo_PGPData_currArrayIndex x) (iso1KeyInfo_PGPData_array v)
       (iso1KeyInfo_PGPData_array a) \<and>
     unat (iso1KeyInfo_SPKIData_arrayLen a) = iso1KeyInfo_SPKIData_currArrayIndex x \<and>
       iso1KeyInfo_SPKIData_currArrayIndex x \<le> unat (iso1KeyInfo_SPKIData_arrayLen v) \<and>
     copied same_iso1SPKIData (iso1KeyInfo_SPKIData_currArrayIndex x) (iso1KeyInfo_SPKIData_array v)
       (iso1KeyInfo_SPKIData_array a) \<and>
     unat (iso1KeyInfo_MgmtData_arrayLen a) = iso1KeyInfo_MgmtData_currArrayIndex x \<and>
       iso1KeyInfo_MgmtData_currArrayIndex x \<le> unat (iso1KeyInfo_MgmtData_arrayLen v) \<and>
     copied same_data (iso1KeyInfo_MgmtData_currArrayIndex x) (iso1KeyInfo_MgmtData_array v)
       (iso1KeyInfo_MgmtData_array a) \<and>
     kept (iso1KeyInfo_wcDone x) (iso1KeyInfo_ANY_isUsed a) (iso1KeyInfo_ANY_isUsed v \<and>
       iso1KeyInfo_ANY_charactersLen a = iso1KeyInfo_ANY_charactersLen v \<and>
       take (unat (iso1KeyInfo_ANY_charactersLen v)) (iso1KeyInfo_ANY_characters a) = take
       (unat (iso1KeyInfo_ANY_charactersLen v)) (iso1KeyInfo_ANY_characters v)) \<and>
     (g = 197 \<longrightarrow> iso1KeyInfo_Id_isUsed v)"

definition iso1KeyInfo_rank :: "iso1KeyInfoType \<Rightarrow> nat \<Rightarrow> iso1KeyInfo_locals \<Rightarrow> nat"
    where
  "iso1KeyInfo_rank v g x = left_at [(196, 440), (197, 4), (198, 4)] g + due 438 (iso1KeyInfo_KeyName_arrayLen v)
      (iso1KeyInfo_KeyName_currArrayIndex x) + due 20238 (iso1KeyInfo_KeyValue_arrayLen v)
      (iso1KeyInfo_KeyValue_currArrayIndex x) + due 2308 (iso1KeyInfo_RetrievalMethod_arrayLen v)
      (iso1KeyInfo_RetrievalMethod_currArrayIndex x) + due 9454 (iso1KeyInfo_X509Data_arrayLen v)
      (iso1KeyInfo_X509Data_currArrayIndex x) + due 5662 (iso1KeyInfo_PGPData_arrayLen v)
      (iso1KeyInfo_PGPData_currArrayIndex x) + due 2834 (iso1KeyInfo_SPKIData_arrayLen v)
      (iso1KeyInfo_SPKIData_currArrayIndex x) + due 438 (iso1KeyInfo_MgmtData_arrayLen v)
      (iso1KeyInfo_MgmtData_currArrayIndex x) + (if iso1KeyInfo_wcDone x then 0 else 436)"

lemmas iso1KeyInfo_steps = iso1KeyInfo_enc_step_def iso1KeyInfo_enc_step_2_def iso1KeyInfo_enc_step_3_def
    iso1KeyInfo_enc_step_4_def
  iso1KeyInfo_dec_step_def iso1KeyInfo_dec_step_2_def iso1KeyInfo_dec_step_3_def iso1KeyInfo_dec_step_4_def

lemmas iso1KeyInfo_props = iso1KeyInfo_at_def iso1KeyInfo_sized_def same_iso1KeyInfo_def iso1KeyInfo_rank_def
    left_at_def

lemmas iso1KeyInfo_elements = in_use_nth [where P = iso1KeyValue_ok]
  slots_nth [where P = iso1KeyValue_sized]
  in_use_nth [where P = iso1RetrievalMethod_ok]
  slots_nth [where P = iso1RetrievalMethod_sized]
  in_use_nth [where P = iso1X509Data_ok]
  slots_nth [where P = iso1X509Data_sized]
  in_use_nth [where P = iso1PGPData_ok]
  slots_nth [where P = iso1PGPData_sized]
  in_use_nth [where P = iso1SPKIData_ok]
  slots_nth [where P = iso1SPKIData_sized]

interpretation iso1KeyInfo: walking_pair "iso1KeyInfo_enc_step v" "iso1KeyInfo_dec_step j" "iso1KeyInfo_at v"
    "iso1KeyInfo_rank v"
  "\<lambda>a. same_iso1KeyInfo v a \<and> iso1KeyInfo_sized a" for v j
proof
  fix g x a assume at: "iso1KeyInfo_at v g x a"
  then have "g \<in> {196, 197, 198}" by (simp add: iso1KeyInfo_at_def)
  then show "walks (iso1KeyInfo_enc_step v) (iso1KeyInfo_dec_step j) (iso1KeyInfo_at v) (iso1KeyInfo_rank v)
    (\<lambda>a. same_iso1KeyInfo v a \<and> iso1KeyInfo_sized a) g x a" using at
    by - (elim insertE emptyE; (hypsubst, rule walks_by, simp (no_asm) add: iso1KeyInfo_steps del: One_nat_def,
      simp (no_asm) add: iso1KeyInfo_steps del: One_nat_def, simp (asm_lr) add: iso1KeyInfo_props del: One_nat_def,
        (elim conjE)?,
      ((rule walks_ifs)+)?); (frule iso1KeyInfo_ok_def [THEN iffD1], ((drule (1) known)+)?, (elim conjE)?,
        ((drule (1) known)+)?, (elim conjE)?,
      (((rule walks_shapes, simp (no_asm) del: One_nat_def, ((rule reads_intros)+)?);
      ((elim exE conjE)?,
        ((simp (no_asm_simp) add: iso1KeyInfo_props iso1KeyInfo_elements counts_def array_intros; fail) |
        (rule FalseE, simp (asm_lr) add: counts_def; fail) |
        (simp (asm_lr) add: iso1KeyInfo_props iso1KeyInfo_elements counts_def array_intros; fail) |
        (auto simp: iso1KeyInfo_props iso1KeyInfo_elements counts_def array_intros; fail)))) | (erule (1) notE; fail)
        | ((elim exE conjE)?,
        ((simp (no_asm_simp) add: iso1KeyInfo_props iso1KeyInfo_elements counts_def array_intros; fail) |
        (rule FalseE, simp (asm_lr) add: counts_def; fail) |
        (simp (asm_lr) add: iso1KeyInfo_props iso1KeyInfo_elements counts_def array_intros; fail) |
        (auto simp: iso1KeyInfo_props iso1KeyInfo_elements counts_def array_intros; fail))))))
qed

lemma reads_iso1KeyInfo [reads_intros]:
  "iso1KeyInfo_ok v \<Longrightarrow> iso1KeyInfo_sized a \<Longrightarrow>
      reads 42248 (\<lambda>s. encode_iso1KeyInfoType s v) (decode_iso1KeyInfoType j) a
      (\<lambda>a. same_iso1KeyInfo v a \<and> iso1KeyInfo_sized a)"
  unfolding encode_iso1KeyInfoType_def decode_iso1KeyInfoType_def [abs_def]
  by (rule reads_start [OF iso1KeyInfo.walk_reads, THEN reads_mono])
      (auto simp: iso1KeyInfo_props iso1KeyInfo_ok_def counts_def due_def init_iso1KeyInfoType_def)

end
