(* ===== verification/Iso1Values.thy ===== *)
theory Iso1Values
  imports Repeats
begin

section \<open>ISO 15118 codec: values and status types\<close>

text \<open>
  From here on: the codec \<open>src/iso1\<close> of the schemas \<open>urn:iso:15118:2:2013\<close>, the one \<open>EXIConfig.h\<close> deploys. This
  theory has the values, statuses and descriptions that messages consist of.

  Each type \<open>T\<close> has one group of definitions: the struct as a record (members with the name of the
  struct in front; a string, binary data or repeated element as an array of the declared size with its
  length beside it; a flag \<open>_isUsed\<close> as a truth value), \<open>init_T\<close>, the switch of \<open>encode_T\<close> as \<open>T_enc_step\<close> and of
  \<open>decode_T\<close> as \<open>T_dec_step\<close>, cut where they are long, and the two functions with their loops. The local
  variables of an encoder that counts array elements or marks a written text are a record \<open>T_locals\<close>.

  Then the contract. \<open>T_ok\<close> is what the encoder needs of a value: enumerations within their bits, lengths
  within the arrays, required choices made, alternatives exclusive. \<open>T_sized\<close> is what the decoder needs
  of the struct it fills: arrays of their declared size. \<open>same_T v a\<close> says that the used content of \<open>a\<close> is
  that of \<open>v\<close>. \<open>T_at v g a\<close> relates a value and a partly filled struct at a grammar number, and \<open>T_rank\<close>
  (or the table of \<open>left_at\<close>) bounds the bits that can follow. That both machines keep \<open>T_at\<close> interprets
  the locale \<open>walking_pair\<close> (or \<open>paired_machines\<close> without local variables); \<open>reads_T\<close> is its consequence
  for the two functions, and the fact by which the types that contain \<open>T\<close> use it.
\<close>

subsection \<open>\<open>iso1NotificationType\<close>\<close>

record iso1NotificationType =
  iso1Notification_FaultCode :: u32
  iso1Notification_FaultMsg_characters :: "u8 list"
  iso1Notification_FaultMsg_charactersLen :: u16
  iso1Notification_FaultMsg_isUsed :: bool

definition init_iso1NotificationType :: "iso1NotificationType \<Rightarrow> iso1NotificationType" where
  "init_iso1NotificationType a = a\<lparr>iso1Notification_FaultMsg_isUsed := False\<rparr>"

definition iso1Notification_enc_step :: "iso1NotificationType \<Rightarrow> unit machine" where
  "iso1Notification_enc_step v grammarID x s =
     (if grammarID = 215 then
        goto 216 x (encode_simple 1 0 (\<lambda>s. encodeNBitUnsignedInteger s 2 (iso1Notification_FaultCode v)) s)
      else if grammarID = 216 then
        if iso1Notification_FaultMsg_isUsed v then
          goto 3 x (encode_simple 2 0
          (encode_string_field (iso1Notification_FaultMsg_characters v) (iso1Notification_FaultMsg_charactersLen v))
          s)
        else finish 4 x (encodeNBitUnsignedInteger s 2 1)
      else if grammarID = 3 then
        finish 4 x (encodeNBitUnsignedInteger s 1 0)
      else Some (EXI_ERROR_UNKOWN_GRAMMAR_ID, (False, grammarID, x), s))"

definition encode_iso1NotificationType :: "bitstream \<Rightarrow> iso1NotificationType \<Rightarrow>
    (errn \<times> bitstream) option" where
  "encode_iso1NotificationType s v = run_encoder (iso1Notification_enc_step v) 215 () s"

definition iso1Notification_dec_step :: "u32 \<Rightarrow> (dec_static \<times> iso1NotificationType) machine" where
  "iso1Notification_dec_step j grammarID x s =
     (if grammarID = 215 then
        decode_switch 1
         [(0, decode_simple 215 216
           (decode_nbit_field 2 (\<lambda>u a. a\<lparr>iso1Notification_FaultCode := u\<rparr>)))] 215 x s
      else if grammarID = 216 then
        decode_switch 2
         [(0, decode_simple 216 3 (decode_used (\<lambda>a. a\<lparr>iso1Notification_FaultMsg_isUsed := True\<rparr>)
           (decode_string_field j 65 iso1Notification_FaultMsg_characters
           (\<lambda>u a. a\<lparr>iso1Notification_FaultMsg_characters := u\<rparr>)
           (\<lambda>u a. a\<lparr>iso1Notification_FaultMsg_charactersLen := u\<rparr>)))),
          (1, decode_end 4)] 216 x s
      else if grammarID = 3 then
        decode_switch 1
         [(0, decode_end 4)] 3 x s
      else Some (EXI_ERROR_UNKOWN_GRAMMAR_ID, (False, grammarID, x), s))"

definition decode_iso1NotificationType :: "u32 \<Rightarrow> iso1NotificationType decoder" where
  "decode_iso1NotificationType j x s = grammar_loop (iso1Notification_dec_step j) 215
      (fst x, init_iso1NotificationType (snd x)) s"

definition iso1Notification_ok :: "iso1NotificationType \<Rightarrow> bool" where
  "iso1Notification_ok v \<longleftrightarrow>
     iso1Notification_FaultCode v < 4 \<and>
     when_used (iso1Notification_FaultMsg_isUsed v)
       (string_ok 65 (iso1Notification_FaultMsg_characters v) (iso1Notification_FaultMsg_charactersLen v))"

definition iso1Notification_sized :: "iso1NotificationType \<Rightarrow> bool" where
  "iso1Notification_sized a \<longleftrightarrow>
     length (iso1Notification_FaultMsg_characters a) = 65"

definition same_iso1Notification :: "iso1NotificationType \<Rightarrow> iso1NotificationType \<Rightarrow> bool" where
  "same_iso1Notification v a \<longleftrightarrow>
     iso1Notification_FaultCode a = iso1Notification_FaultCode v \<and>
     kept (iso1Notification_FaultMsg_isUsed v) (iso1Notification_FaultMsg_isUsed a)
       (iso1Notification_FaultMsg_charactersLen a = iso1Notification_FaultMsg_charactersLen v \<and>
       take (unat (iso1Notification_FaultMsg_charactersLen v)) (iso1Notification_FaultMsg_characters a) = take
       (unat (iso1Notification_FaultMsg_charactersLen v)) (iso1Notification_FaultMsg_characters v))"

definition iso1Notification_at :: "iso1NotificationType \<Rightarrow> nat \<Rightarrow> iso1NotificationType
    \<Rightarrow> bool" where
  "iso1Notification_at v g a \<longleftrightarrow>
     iso1Notification_ok v \<and>
     g \<in> {215, 216, 3} \<and>
     iso1Notification_sized a \<and>
     (g \<notin> {215} \<longrightarrow> iso1Notification_FaultCode a = iso1Notification_FaultCode v) \<and>
     (if g \<in> {215, 216} then \<not> iso1Notification_FaultMsg_isUsed a
      else kept (iso1Notification_FaultMsg_isUsed v) (iso1Notification_FaultMsg_isUsed a)
        (iso1Notification_FaultMsg_charactersLen a = iso1Notification_FaultMsg_charactersLen v \<and>
        take (unat (iso1Notification_FaultMsg_charactersLen v)) (iso1Notification_FaultMsg_characters a) = take
        (unat (iso1Notification_FaultMsg_charactersLen v)) (iso1Notification_FaultMsg_characters v)))"

lemmas iso1Notification_steps = iso1Notification_enc_step_def
  iso1Notification_dec_step_def

lemmas iso1Notification_props = iso1Notification_at_def iso1Notification_sized_def same_iso1Notification_def
    left_at_def

interpretation iso1Notification: paired_machines "iso1Notification_enc_step v" "iso1Notification_dec_step j"
    "iso1Notification_at v"
  "left_at [(215, 554), (216, 549), (3, 1)]" "\<lambda>a. same_iso1Notification v a \<and>
      iso1Notification_sized a" for v j
proof
  fix g a assume at: "iso1Notification_at v g a"
  then have "g \<in> {215, 216, 3}" by (simp add: iso1Notification_at_def)
  then show "hops (iso1Notification_enc_step v) (iso1Notification_dec_step j) (iso1Notification_at v)
    (left_at [(215, 554), (216, 549), (3, 1)]) (\<lambda>a. same_iso1Notification v a \<and> iso1Notification_sized a)
      g a" using at
    by - (elim insertE emptyE; (hypsubst, rule hops_by, simp (no_asm) add: iso1Notification_steps del: One_nat_def,
      simp (no_asm) add: iso1Notification_steps del: One_nat_def, simp (asm_lr) add: iso1Notification_props del:
        One_nat_def, (elim conjE)?,
      ((rule walks_ifs)+)?); (frule iso1Notification_ok_def [THEN iffD1], ((drule (1) known)+)?, (elim conjE)?,
        ((drule (1) known)+)?, (elim conjE)?,
      (((rule walks_shapes, simp (no_asm) del: One_nat_def, ((rule reads_intros)+)?);
      ((elim exE conjE)?,
        ((simp (no_asm_simp) add: iso1Notification_props; fail) | (simp (asm_lr) add: iso1Notification_props; fail) |
        (auto simp: iso1Notification_props; fail)))) | (erule (1) notE; fail) |
        ((elim exE conjE)?,
        ((simp (no_asm_simp) add: iso1Notification_props; fail) | (simp (asm_lr) add: iso1Notification_props; fail) |
        (auto simp: iso1Notification_props; fail))))))
qed

lemma reads_iso1Notification [reads_intros]:
  "iso1Notification_ok v \<Longrightarrow> iso1Notification_sized a \<Longrightarrow>
      reads 554 (\<lambda>s. encode_iso1NotificationType s v) (decode_iso1NotificationType j) a
      (\<lambda>a. same_iso1Notification v a \<and> iso1Notification_sized a)"
  unfolding encode_iso1NotificationType_def decode_iso1NotificationType_def [abs_def]
  by (rule reads_start [OF iso1Notification.machine_reads, of _ 215, THEN reads_mono])
      (auto simp: iso1Notification_at_def iso1Notification_sized_def init_iso1NotificationType_def left_at_def)

interpretation iso1Notification_enc: advancing_machine "iso1Notification_enc_step v" "left_at
    [(215, 3), (216, 2), (3, 1)]" for v
  by unfold_locales (auto simp: iso1Notification_steps dest!: advance_dests split: if_splits;
      simp add: left_at_def)

interpretation iso1Notification_dec: advancing_machine "iso1Notification_dec_step j" "left_at
    [(215, 3), (216, 2), (3, 1)]" for j
  by unfold_locales (auto simp: iso1Notification_steps dest!: advance_dests elim!: decode_switch_next
      split: if_splits;
      simp add: left_at_def)

subsection \<open>\<open>iso1PhysicalValueType\<close>\<close>

record iso1PhysicalValueType =
  iso1PhysicalValue_Multiplier :: u8
  iso1PhysicalValue_Unit :: u32
  iso1PhysicalValue_Value :: u16

definition init_iso1PhysicalValueType :: "iso1PhysicalValueType \<Rightarrow> iso1PhysicalValueType" where
  "init_iso1PhysicalValueType a = a"

definition iso1PhysicalValue_enc_step :: "iso1PhysicalValueType \<Rightarrow> unit machine" where
  "iso1PhysicalValue_enc_step v grammarID x s =
     (if grammarID = 117 then
        goto 118 x
          (encode_simple 1 0 (\<lambda>s. encodeNBitUnsignedInteger s 3 (scast (iso1PhysicalValue_Multiplier v) + 3))
          s)
      else if grammarID = 118 then
        goto 119 x (encode_simple 1 0 (\<lambda>s. encodeNBitUnsignedInteger s 3 (iso1PhysicalValue_Unit v)) s)
      else if grammarID = 119 then
        goto 3 x (encode_simple 1 0 (\<lambda>s. encodeInteger16 s (iso1PhysicalValue_Value v)) s)
      else if grammarID = 3 then
        finish 4 x (encodeNBitUnsignedInteger s 1 0)
      else Some (EXI_ERROR_UNKOWN_GRAMMAR_ID, (False, grammarID, x), s))"

definition encode_iso1PhysicalValueType :: "bitstream \<Rightarrow> iso1PhysicalValueType \<Rightarrow>
    (errn \<times> bitstream) option" where
  "encode_iso1PhysicalValueType s v = run_encoder (iso1PhysicalValue_enc_step v) 117 () s"

definition iso1PhysicalValue_dec_step :: "u32 \<Rightarrow> (dec_static \<times> iso1PhysicalValueType) machine" where
  "iso1PhysicalValue_dec_step j grammarID x s =
     (if grammarID = 117 then
        decode_switch 1
         [(0, decode_simple 117 118
           (decode_nbit_field 3 (\<lambda>u a. a\<lparr>iso1PhysicalValue_Multiplier := ucast (u - 3)\<rparr>)))] 117
           x s
      else if grammarID = 118 then
        decode_switch 1
         [(0, decode_simple 118 119
           (decode_nbit_field 3 (\<lambda>u a. a\<lparr>iso1PhysicalValue_Unit := u\<rparr>)))] 118 x s
      else if grammarID = 119 then
        decode_switch 1
         [(0, decode_simple 119 3
           (decode_i16_field j iso1PhysicalValue_Value
           (\<lambda>u a. a\<lparr>iso1PhysicalValue_Value := u\<rparr>)))] 119 x s
      else if grammarID = 3 then
        decode_switch 1
         [(0, decode_end 4)] 3 x s
      else Some (EXI_ERROR_UNKOWN_GRAMMAR_ID, (False, grammarID, x), s))"

definition decode_iso1PhysicalValueType :: "u32 \<Rightarrow> iso1PhysicalValueType decoder" where
  "decode_iso1PhysicalValueType j x s = grammar_loop (iso1PhysicalValue_dec_step j) 117
      (fst x, init_iso1PhysicalValueType (snd x)) s"

definition iso1PhysicalValue_ok :: "iso1PhysicalValueType \<Rightarrow> bool" where
  "iso1PhysicalValue_ok v \<longleftrightarrow>
     scast (iso1PhysicalValue_Multiplier v) + 3 < (2 ^ 3 :: u32) \<and>
     iso1PhysicalValue_Unit v < 8"

definition same_iso1PhysicalValue :: "iso1PhysicalValueType \<Rightarrow> iso1PhysicalValueType \<Rightarrow> bool"
    where
  "same_iso1PhysicalValue v a \<longleftrightarrow>
     iso1PhysicalValue_Multiplier a = iso1PhysicalValue_Multiplier v \<and>
     iso1PhysicalValue_Unit a = iso1PhysicalValue_Unit v \<and>
     iso1PhysicalValue_Value a = iso1PhysicalValue_Value v"

definition iso1PhysicalValue_at :: "iso1PhysicalValueType \<Rightarrow> nat \<Rightarrow> iso1PhysicalValueType
    \<Rightarrow> bool" where
  "iso1PhysicalValue_at v g a \<longleftrightarrow>
     iso1PhysicalValue_ok v \<and>
     g \<in> {117, 118, 119, 3} \<and>
     (g \<notin> {117} \<longrightarrow> iso1PhysicalValue_Multiplier a = iso1PhysicalValue_Multiplier v) \<and>
     (g \<notin> {117, 118} \<longrightarrow> iso1PhysicalValue_Unit a = iso1PhysicalValue_Unit v) \<and>
     (g \<notin> {117, 118, 119} \<longrightarrow> iso1PhysicalValue_Value a = iso1PhysicalValue_Value v)"

lemmas iso1PhysicalValue_steps = iso1PhysicalValue_enc_step_def
  iso1PhysicalValue_dec_step_def

lemmas iso1PhysicalValue_props = iso1PhysicalValue_at_def same_iso1PhysicalValue_def left_at_def

interpretation iso1PhysicalValue: paired_machines "iso1PhysicalValue_enc_step v" "iso1PhysicalValue_dec_step j"
    "iso1PhysicalValue_at v"
  "left_at [(117, 41), (118, 35), (119, 29), (3, 1)]" "same_iso1PhysicalValue v" for v j
proof
  fix g a assume at: "iso1PhysicalValue_at v g a"
  then have "g \<in> {117, 118, 119, 3}" by (simp add: iso1PhysicalValue_at_def)
  then show "hops (iso1PhysicalValue_enc_step v) (iso1PhysicalValue_dec_step j) (iso1PhysicalValue_at v)
    (left_at [(117, 41), (118, 35), (119, 29), (3, 1)]) (same_iso1PhysicalValue v) g a" using at
    by - (elim insertE emptyE; (hypsubst, rule hops_by, simp (no_asm) add: iso1PhysicalValue_steps del: One_nat_def,
      simp (no_asm) add: iso1PhysicalValue_steps del: One_nat_def, simp (asm_lr) add: iso1PhysicalValue_props del:
        One_nat_def, (elim conjE)?,
      ((rule walks_ifs)+)?); (frule iso1PhysicalValue_ok_def [THEN iffD1], ((drule (1) known)+)?, (elim conjE)?,
        ((drule (1) known)+)?, (elim conjE)?,
      (((rule walks_shapes, simp (no_asm) del: One_nat_def, ((rule reads_intros)+)?);
      ((elim exE conjE)?,
        ((simp (no_asm_simp) add: iso1PhysicalValue_props; fail) | (simp (asm_lr) add: iso1PhysicalValue_props; fail)
        | (auto simp: iso1PhysicalValue_props; fail)))) | (erule (1) notE; fail) |
        ((elim exE conjE)?,
        ((simp (no_asm_simp) add: iso1PhysicalValue_props; fail) | (simp (asm_lr) add: iso1PhysicalValue_props; fail)
        | (auto simp: iso1PhysicalValue_props; fail))))))
qed

lemma reads_iso1PhysicalValue [reads_intros]:
  "iso1PhysicalValue_ok v \<Longrightarrow> reads 41 (\<lambda>s. encode_iso1PhysicalValueType s v)
      (decode_iso1PhysicalValueType j) a (same_iso1PhysicalValue v)"
  unfolding encode_iso1PhysicalValueType_def decode_iso1PhysicalValueType_def [abs_def]
  by (rule reads_start [OF iso1PhysicalValue.machine_reads, of _ 117, THEN reads_mono])
      (auto simp: iso1PhysicalValue_at_def  init_iso1PhysicalValueType_def left_at_def)

interpretation iso1PhysicalValue_enc: advancing_machine "iso1PhysicalValue_enc_step v" "left_at
    [(117, 4), (118, 3), (119, 2), (3, 1)]" for v
  by unfold_locales (auto simp: iso1PhysicalValue_steps dest!: advance_dests split: if_splits;
      simp add: left_at_def)

interpretation iso1PhysicalValue_dec: advancing_machine "iso1PhysicalValue_dec_step j" "left_at
    [(117, 4), (118, 3), (119, 2), (3, 1)]" for j
  by unfold_locales (auto simp: iso1PhysicalValue_steps dest!: advance_dests elim!: decode_switch_next
      split: if_splits;
      simp add: left_at_def)

subsection \<open>\<open>iso1DC_EVStatusType\<close>\<close>

record iso1DC_EVStatusType =
  iso1DC_EVStatus_EVReady :: int
  iso1DC_EVStatus_EVErrorCode :: u32
  iso1DC_EVStatus_EVRESSSOC :: u8

definition init_iso1DC_EVStatusType :: "iso1DC_EVStatusType \<Rightarrow> iso1DC_EVStatusType" where
  "init_iso1DC_EVStatusType a = a"

definition iso1DC_EVStatus_enc_step :: "iso1DC_EVStatusType \<Rightarrow> unit machine" where
  "iso1DC_EVStatus_enc_step v grammarID x s =
     (if grammarID = 314 then
        goto 315 x (encode_simple 1 0 (\<lambda>s. encodeBoolean s (iso1DC_EVStatus_EVReady v)) s)
      else if grammarID = 315 then
        goto 316 x (encode_simple 1 0 (\<lambda>s. encodeNBitUnsignedInteger s 4 (iso1DC_EVStatus_EVErrorCode v)) s)
      else if grammarID = 316 then
        goto 3 x (encode_simple 1 0 (\<lambda>s. encodeNBitUnsignedInteger s 7 (scast (iso1DC_EVStatus_EVRESSSOC v)))
          s)
      else if grammarID = 3 then
        finish 4 x (encodeNBitUnsignedInteger s 1 0)
      else Some (EXI_ERROR_UNKOWN_GRAMMAR_ID, (False, grammarID, x), s))"

definition encode_iso1DC_EVStatusType :: "bitstream \<Rightarrow> iso1DC_EVStatusType \<Rightarrow>
    (errn \<times> bitstream) option" where
  "encode_iso1DC_EVStatusType s v = run_encoder (iso1DC_EVStatus_enc_step v) 314 () s"

definition iso1DC_EVStatus_dec_step :: "u32 \<Rightarrow> (dec_static \<times> iso1DC_EVStatusType) machine" where
  "iso1DC_EVStatus_dec_step j grammarID x s =
     (if grammarID = 314 then
        decode_switch 1
         [(0, decode_simple 314 315
           (decode_bool_field j (\<lambda>u a. a\<lparr>iso1DC_EVStatus_EVReady := u\<rparr>)))] 314 x s
      else if grammarID = 315 then
        decode_switch 1
         [(0, decode_simple 315 316
           (decode_nbit_field 4 (\<lambda>u a. a\<lparr>iso1DC_EVStatus_EVErrorCode := u\<rparr>)))] 315 x s
      else if grammarID = 316 then
        decode_switch 1
         [(0, decode_simple 316 3
           (decode_nbit_field 7 (\<lambda>u a. a\<lparr>iso1DC_EVStatus_EVRESSSOC := ucast u\<rparr>)))] 316 x s
      else if grammarID = 3 then
        decode_switch 1
         [(0, decode_end 4)] 3 x s
      else Some (EXI_ERROR_UNKOWN_GRAMMAR_ID, (False, grammarID, x), s))"

definition decode_iso1DC_EVStatusType :: "u32 \<Rightarrow> iso1DC_EVStatusType decoder" where
  "decode_iso1DC_EVStatusType j x s = grammar_loop (iso1DC_EVStatus_dec_step j) 314
      (fst x, init_iso1DC_EVStatusType (snd x)) s"

definition iso1DC_EVStatus_ok :: "iso1DC_EVStatusType \<Rightarrow> bool" where
  "iso1DC_EVStatus_ok v \<longleftrightarrow>
     iso1DC_EVStatus_EVErrorCode v < 16 \<and>
     scast (iso1DC_EVStatus_EVRESSSOC v) < (2 ^ 7 :: u32)"

definition same_iso1DC_EVStatus :: "iso1DC_EVStatusType \<Rightarrow> iso1DC_EVStatusType \<Rightarrow> bool" where
  "same_iso1DC_EVStatus v a \<longleftrightarrow>
     (iso1DC_EVStatus_EVReady a \<noteq> 0) = (iso1DC_EVStatus_EVReady v \<noteq> 0) \<and>
     iso1DC_EVStatus_EVErrorCode a = iso1DC_EVStatus_EVErrorCode v \<and>
     iso1DC_EVStatus_EVRESSSOC a = iso1DC_EVStatus_EVRESSSOC v"

definition iso1DC_EVStatus_at :: "iso1DC_EVStatusType \<Rightarrow> nat \<Rightarrow> iso1DC_EVStatusType
    \<Rightarrow> bool" where
  "iso1DC_EVStatus_at v g a \<longleftrightarrow>
     iso1DC_EVStatus_ok v \<and>
     g \<in> {314, 315, 316, 3} \<and>
     (g \<notin> {314} \<longrightarrow>
       (iso1DC_EVStatus_EVReady a \<noteq> 0) = (iso1DC_EVStatus_EVReady v \<noteq> 0)) \<and>
     (g \<notin> {314, 315} \<longrightarrow> iso1DC_EVStatus_EVErrorCode a = iso1DC_EVStatus_EVErrorCode v) \<and>
     (g \<notin> {314, 315, 316} \<longrightarrow> iso1DC_EVStatus_EVRESSSOC a = iso1DC_EVStatus_EVRESSSOC v)"

lemmas iso1DC_EVStatus_steps = iso1DC_EVStatus_enc_step_def
  iso1DC_EVStatus_dec_step_def

lemmas iso1DC_EVStatus_props = iso1DC_EVStatus_at_def same_iso1DC_EVStatus_def left_at_def

interpretation iso1DC_EVStatus: paired_machines "iso1DC_EVStatus_enc_step v" "iso1DC_EVStatus_dec_step j"
    "iso1DC_EVStatus_at v"
  "left_at [(314, 22), (315, 18), (316, 11), (3, 1)]" "same_iso1DC_EVStatus v" for v j
proof
  fix g a assume at: "iso1DC_EVStatus_at v g a"
  then have "g \<in> {314, 315, 316, 3}" by (simp add: iso1DC_EVStatus_at_def)
  then show "hops (iso1DC_EVStatus_enc_step v) (iso1DC_EVStatus_dec_step j) (iso1DC_EVStatus_at v)
    (left_at [(314, 22), (315, 18), (316, 11), (3, 1)]) (same_iso1DC_EVStatus v) g a" using at
    by - (elim insertE emptyE; (hypsubst, rule hops_by, simp (no_asm) add: iso1DC_EVStatus_steps del: One_nat_def,
      simp (no_asm) add: iso1DC_EVStatus_steps del: One_nat_def, simp (asm_lr) add: iso1DC_EVStatus_props del:
        One_nat_def, (elim conjE)?,
      ((rule walks_ifs)+)?); (frule iso1DC_EVStatus_ok_def [THEN iffD1], ((drule (1) known)+)?, (elim conjE)?,
        ((drule (1) known)+)?, (elim conjE)?,
      (((rule walks_shapes, simp (no_asm) del: One_nat_def, ((rule reads_intros)+)?);
      ((elim exE conjE)?,
        ((simp (no_asm_simp) add: iso1DC_EVStatus_props; fail) | (simp (asm_lr) add: iso1DC_EVStatus_props; fail) |
        (auto simp: iso1DC_EVStatus_props; fail)))) | (erule (1) notE; fail) |
        ((elim exE conjE)?,
        ((simp (no_asm_simp) add: iso1DC_EVStatus_props; fail) | (simp (asm_lr) add: iso1DC_EVStatus_props; fail) |
        (auto simp: iso1DC_EVStatus_props; fail))))))
qed

lemma reads_iso1DC_EVStatus [reads_intros]:
  "iso1DC_EVStatus_ok v \<Longrightarrow> reads 22 (\<lambda>s. encode_iso1DC_EVStatusType s v)
      (decode_iso1DC_EVStatusType j) a (same_iso1DC_EVStatus v)"
  unfolding encode_iso1DC_EVStatusType_def decode_iso1DC_EVStatusType_def [abs_def]
  by (rule reads_start [OF iso1DC_EVStatus.machine_reads, of _ 314, THEN reads_mono])
      (auto simp: iso1DC_EVStatus_at_def  init_iso1DC_EVStatusType_def left_at_def)

interpretation iso1DC_EVStatus_enc: advancing_machine "iso1DC_EVStatus_enc_step v" "left_at
    [(314, 4), (315, 3), (316, 2), (3, 1)]" for v
  by unfold_locales (auto simp: iso1DC_EVStatus_steps dest!: advance_dests split: if_splits;
      simp add: left_at_def)

interpretation iso1DC_EVStatus_dec: advancing_machine "iso1DC_EVStatus_dec_step j" "left_at
    [(314, 4), (315, 3), (316, 2), (3, 1)]" for j
  by unfold_locales (auto simp: iso1DC_EVStatus_steps dest!: advance_dests elim!: decode_switch_next
      split: if_splits;
      simp add: left_at_def)

subsection \<open>\<open>iso1EVStatusType\<close>\<close>

record iso1EVStatusType =
  iso1EVStatus_noContent :: int

definition init_iso1EVStatusType :: "iso1EVStatusType \<Rightarrow> iso1EVStatusType" where
  "init_iso1EVStatusType a = a"

definition iso1EVStatus_enc_step :: "iso1EVStatusType \<Rightarrow> unit machine" where
  "iso1EVStatus_enc_step v grammarID x s =
     (if grammarID = 34 then
        finish 4 x (encodeNBitUnsignedInteger s 1 0)
      else Some (EXI_ERROR_UNKOWN_GRAMMAR_ID, (False, grammarID, x), s))"

definition encode_iso1EVStatusType :: "bitstream \<Rightarrow> iso1EVStatusType \<Rightarrow>
    (errn \<times> bitstream) option" where
  "encode_iso1EVStatusType s v = run_encoder (iso1EVStatus_enc_step v) 34 () s"

definition iso1EVStatus_dec_step :: "u32 \<Rightarrow> (dec_static \<times> iso1EVStatusType) machine" where
  "iso1EVStatus_dec_step j grammarID x s =
     (if grammarID = 34 then
        decode_switch 1
         [(0, decode_end 4)] 34 x s
      else Some (EXI_ERROR_UNKOWN_GRAMMAR_ID, (False, grammarID, x), s))"

definition decode_iso1EVStatusType :: "u32 \<Rightarrow> iso1EVStatusType decoder" where
  "decode_iso1EVStatusType j x s = grammar_loop (iso1EVStatus_dec_step j) 34 (fst x, init_iso1EVStatusType (snd x)) s"

definition same_iso1EVStatus :: "iso1EVStatusType \<Rightarrow> iso1EVStatusType \<Rightarrow> bool" where
  "same_iso1EVStatus v a \<longleftrightarrow>
     True"

definition iso1EVStatus_at :: "iso1EVStatusType \<Rightarrow> nat \<Rightarrow> iso1EVStatusType \<Rightarrow> bool"
    where
  "iso1EVStatus_at v g a \<longleftrightarrow>
     g \<in> {34}"

lemmas iso1EVStatus_steps = iso1EVStatus_enc_step_def
  iso1EVStatus_dec_step_def

lemmas iso1EVStatus_props = iso1EVStatus_at_def same_iso1EVStatus_def left_at_def

interpretation iso1EVStatus: paired_machines "iso1EVStatus_enc_step v" "iso1EVStatus_dec_step j" "iso1EVStatus_at v"
  "left_at [(34, 1)]" "same_iso1EVStatus v" for v j
proof
  fix g a assume at: "iso1EVStatus_at v g a"
  then have "g \<in> {34}" by (simp add: iso1EVStatus_at_def)
  then show "hops (iso1EVStatus_enc_step v) (iso1EVStatus_dec_step j) (iso1EVStatus_at v)
    (left_at [(34, 1)]) (same_iso1EVStatus v) g a" using at
    by - (elim insertE emptyE; (hypsubst, rule hops_by, simp (no_asm) add: iso1EVStatus_steps del: One_nat_def,
      simp (no_asm) add: iso1EVStatus_steps del: One_nat_def, simp (asm_lr) add: iso1EVStatus_props del: One_nat_def,
        (elim conjE)?,
      ((rule walks_ifs)+)?); (((drule (1) known)+)?, (elim conjE)?, ((drule (1) known)+)?, (elim conjE)?,
      (((rule walks_shapes, simp (no_asm) del: One_nat_def, ((rule reads_intros)+)?);
      ((elim exE conjE)?,
        ((simp (no_asm_simp) add: iso1EVStatus_props; fail) | (simp (asm_lr) add: iso1EVStatus_props; fail) |
        (auto simp: iso1EVStatus_props; fail)))) | (erule (1) notE; fail) |
        ((elim exE conjE)?,
        ((simp (no_asm_simp) add: iso1EVStatus_props; fail) | (simp (asm_lr) add: iso1EVStatus_props; fail) |
        (auto simp: iso1EVStatus_props; fail))))))
qed

lemma reads_iso1EVStatus [reads_intros]:
  "reads 1 (\<lambda>s. encode_iso1EVStatusType s v) (decode_iso1EVStatusType j) a (same_iso1EVStatus v)"
  unfolding encode_iso1EVStatusType_def decode_iso1EVStatusType_def [abs_def]
  by (rule reads_start [OF iso1EVStatus.machine_reads, of _ 34, THEN reads_mono])
      (auto simp: iso1EVStatus_at_def  init_iso1EVStatusType_def left_at_def)

interpretation iso1EVStatus_enc: advancing_machine "iso1EVStatus_enc_step v" "left_at [(34, 1)]" for v
  by unfold_locales (auto simp: iso1EVStatus_steps dest!: advance_dests split: if_splits;
      simp add: left_at_def)

interpretation iso1EVStatus_dec: advancing_machine "iso1EVStatus_dec_step j" "left_at [(34, 1)]" for j
  by unfold_locales (auto simp: iso1EVStatus_steps left_at_def dest!: advance_dests elim!: decode_switch_next split:
      if_splits)

subsection \<open>\<open>iso1EVSEStatusType\<close>\<close>

record iso1EVSEStatusType =
  iso1EVSEStatus_NotificationMaxDelay :: u16
  iso1EVSEStatus_EVSENotification :: u32

definition init_iso1EVSEStatusType :: "iso1EVSEStatusType \<Rightarrow> iso1EVSEStatusType" where
  "init_iso1EVSEStatusType a = a"

definition iso1EVSEStatus_enc_step :: "iso1EVSEStatusType \<Rightarrow> unit machine" where
  "iso1EVSEStatus_enc_step v grammarID x s =
     (if grammarID = 208 then
        goto 209 x (encode_simple 1 0 (\<lambda>s. encodeUnsignedInteger16 s (iso1EVSEStatus_NotificationMaxDelay v))
          s)
      else if grammarID = 209 then
        goto 3 x (encode_simple 1 0 (\<lambda>s. encodeNBitUnsignedInteger s 2 (iso1EVSEStatus_EVSENotification v)) s)
      else if grammarID = 3 then
        finish 4 x (encodeNBitUnsignedInteger s 1 0)
      else Some (EXI_ERROR_UNKOWN_GRAMMAR_ID, (False, grammarID, x), s))"

definition encode_iso1EVSEStatusType :: "bitstream \<Rightarrow> iso1EVSEStatusType \<Rightarrow>
    (errn \<times> bitstream) option" where
  "encode_iso1EVSEStatusType s v = run_encoder (iso1EVSEStatus_enc_step v) 208 () s"

definition iso1EVSEStatus_dec_step :: "u32 \<Rightarrow> (dec_static \<times> iso1EVSEStatusType) machine" where
  "iso1EVSEStatus_dec_step j grammarID x s =
     (if grammarID = 208 then
        decode_switch 1
         [(0, decode_simple 208 209
           (decode_u16_field j (\<lambda>u a. a\<lparr>iso1EVSEStatus_NotificationMaxDelay := u\<rparr>)))] 208 x s
      else if grammarID = 209 then
        decode_switch 1
         [(0, decode_simple 209 3
           (decode_nbit_field 2 (\<lambda>u a. a\<lparr>iso1EVSEStatus_EVSENotification := u\<rparr>)))] 209 x s
      else if grammarID = 3 then
        decode_switch 1
         [(0, decode_end 4)] 3 x s
      else Some (EXI_ERROR_UNKOWN_GRAMMAR_ID, (False, grammarID, x), s))"

definition decode_iso1EVSEStatusType :: "u32 \<Rightarrow> iso1EVSEStatusType decoder" where
  "decode_iso1EVSEStatusType j x s = grammar_loop (iso1EVSEStatus_dec_step j) 208
      (fst x, init_iso1EVSEStatusType (snd x)) s"

definition iso1EVSEStatus_ok :: "iso1EVSEStatusType \<Rightarrow> bool" where
  "iso1EVSEStatus_ok v \<longleftrightarrow>
     iso1EVSEStatus_EVSENotification v < 4"

definition same_iso1EVSEStatus :: "iso1EVSEStatusType \<Rightarrow> iso1EVSEStatusType \<Rightarrow> bool" where
  "same_iso1EVSEStatus v a \<longleftrightarrow>
     iso1EVSEStatus_NotificationMaxDelay a = iso1EVSEStatus_NotificationMaxDelay v \<and>
     iso1EVSEStatus_EVSENotification a = iso1EVSEStatus_EVSENotification v"

definition iso1EVSEStatus_at :: "iso1EVSEStatusType \<Rightarrow> nat \<Rightarrow> iso1EVSEStatusType \<Rightarrow>
    bool" where
  "iso1EVSEStatus_at v g a \<longleftrightarrow>
     iso1EVSEStatus_ok v \<and>
     g \<in> {208, 209, 3} \<and>
     (g \<notin> {208} \<longrightarrow> iso1EVSEStatus_NotificationMaxDelay a = iso1EVSEStatus_NotificationMaxDelay
       v) \<and>
     (g \<notin> {208, 209} \<longrightarrow> iso1EVSEStatus_EVSENotification a = iso1EVSEStatus_EVSENotification v)"

lemmas iso1EVSEStatus_steps = iso1EVSEStatus_enc_step_def
  iso1EVSEStatus_dec_step_def

lemmas iso1EVSEStatus_props = iso1EVSEStatus_at_def same_iso1EVSEStatus_def left_at_def

interpretation iso1EVSEStatus: paired_machines "iso1EVSEStatus_enc_step v" "iso1EVSEStatus_dec_step j"
    "iso1EVSEStatus_at v"
  "left_at [(208, 33), (209, 6), (3, 1)]" "same_iso1EVSEStatus v" for v j
proof
  fix g a assume at: "iso1EVSEStatus_at v g a"
  then have "g \<in> {208, 209, 3}" by (simp add: iso1EVSEStatus_at_def)
  then show "hops (iso1EVSEStatus_enc_step v) (iso1EVSEStatus_dec_step j) (iso1EVSEStatus_at v)
    (left_at [(208, 33), (209, 6), (3, 1)]) (same_iso1EVSEStatus v) g a" using at
    by - (elim insertE emptyE; (hypsubst, rule hops_by, simp (no_asm) add: iso1EVSEStatus_steps del: One_nat_def,
      simp (no_asm) add: iso1EVSEStatus_steps del: One_nat_def, simp (asm_lr) add: iso1EVSEStatus_props del:
        One_nat_def, (elim conjE)?,
      ((rule walks_ifs)+)?); (frule iso1EVSEStatus_ok_def [THEN iffD1], ((drule (1) known)+)?, (elim conjE)?,
        ((drule (1) known)+)?, (elim conjE)?,
      (((rule walks_shapes, simp (no_asm) del: One_nat_def, ((rule reads_intros)+)?);
      ((elim exE conjE)?,
        ((simp (no_asm_simp) add: iso1EVSEStatus_props; fail) | (simp (asm_lr) add: iso1EVSEStatus_props; fail) |
        (auto simp: iso1EVSEStatus_props; fail)))) | (erule (1) notE; fail) |
        ((elim exE conjE)?,
        ((simp (no_asm_simp) add: iso1EVSEStatus_props; fail) | (simp (asm_lr) add: iso1EVSEStatus_props; fail) |
        (auto simp: iso1EVSEStatus_props; fail))))))
qed

lemma reads_iso1EVSEStatus [reads_intros]:
  "iso1EVSEStatus_ok v \<Longrightarrow> reads 33 (\<lambda>s. encode_iso1EVSEStatusType s v)
      (decode_iso1EVSEStatusType j) a (same_iso1EVSEStatus v)"
  unfolding encode_iso1EVSEStatusType_def decode_iso1EVSEStatusType_def [abs_def]
  by (rule reads_start [OF iso1EVSEStatus.machine_reads, of _ 208, THEN reads_mono])
      (auto simp: iso1EVSEStatus_at_def  init_iso1EVSEStatusType_def left_at_def)

interpretation iso1EVSEStatus_enc: advancing_machine "iso1EVSEStatus_enc_step v" "left_at
    [(208, 3), (209, 2), (3, 1)]" for v
  by unfold_locales (auto simp: iso1EVSEStatus_steps dest!: advance_dests split: if_splits;
      simp add: left_at_def)

interpretation iso1EVSEStatus_dec: advancing_machine "iso1EVSEStatus_dec_step j" "left_at
    [(208, 3), (209, 2), (3, 1)]" for j
  by unfold_locales (auto simp: iso1EVSEStatus_steps left_at_def dest!: advance_dests elim!: decode_switch_next split:
      if_splits)

subsection \<open>\<open>iso1DC_EVSEStatusType\<close>\<close>

record iso1DC_EVSEStatusType =
  iso1DC_EVSEStatus_NotificationMaxDelay :: u16
  iso1DC_EVSEStatus_EVSENotification :: u32
  iso1DC_EVSEStatus_EVSEIsolationStatus :: u32
  iso1DC_EVSEStatus_EVSEIsolationStatus_isUsed :: bool
  iso1DC_EVSEStatus_EVSEStatusCode :: u32

definition init_iso1DC_EVSEStatusType :: "iso1DC_EVSEStatusType \<Rightarrow> iso1DC_EVSEStatusType" where
  "init_iso1DC_EVSEStatusType a = a\<lparr>iso1DC_EVSEStatus_EVSEIsolationStatus_isUsed := False\<rparr>"

definition iso1DC_EVSEStatus_enc_step :: "iso1DC_EVSEStatusType \<Rightarrow> unit machine" where
  "iso1DC_EVSEStatus_enc_step v grammarID x s =
     (if grammarID = 35 then
        goto 36 x
          (encode_simple 1 0 (\<lambda>s. encodeUnsignedInteger16 s (iso1DC_EVSEStatus_NotificationMaxDelay v)) s)
      else if grammarID = 36 then
        goto 37 x
          (encode_simple 1 0 (\<lambda>s. encodeNBitUnsignedInteger s 2 (iso1DC_EVSEStatus_EVSENotification v)) s)
      else if grammarID = 37 then
        if iso1DC_EVSEStatus_EVSEIsolationStatus_isUsed v then
          goto 38 x
          (encode_simple 2 0 (\<lambda>s. encodeNBitUnsignedInteger s 3 (iso1DC_EVSEStatus_EVSEIsolationStatus v)) s)
        else goto 3 x
          (encode_simple 2 1 (\<lambda>s. encodeNBitUnsignedInteger s 4 (iso1DC_EVSEStatus_EVSEStatusCode v)) s)
      else if grammarID = 38 then
        goto 3 x (encode_simple 1 0 (\<lambda>s. encodeNBitUnsignedInteger s 4 (iso1DC_EVSEStatus_EVSEStatusCode v))
          s)
      else if grammarID = 3 then
        finish 4 x (encodeNBitUnsignedInteger s 1 0)
      else Some (EXI_ERROR_UNKOWN_GRAMMAR_ID, (False, grammarID, x), s))"

definition encode_iso1DC_EVSEStatusType :: "bitstream \<Rightarrow> iso1DC_EVSEStatusType \<Rightarrow>
    (errn \<times> bitstream) option" where
  "encode_iso1DC_EVSEStatusType s v = run_encoder (iso1DC_EVSEStatus_enc_step v) 35 () s"

definition iso1DC_EVSEStatus_dec_step :: "u32 \<Rightarrow> (dec_static \<times> iso1DC_EVSEStatusType) machine" where
  "iso1DC_EVSEStatus_dec_step j grammarID x s =
     (if grammarID = 35 then
        decode_switch 1
         [(0, decode_simple 35 36
           (decode_u16_field j (\<lambda>u a. a\<lparr>iso1DC_EVSEStatus_NotificationMaxDelay := u\<rparr>)))] 35 x s
      else if grammarID = 36 then
        decode_switch 1
         [(0, decode_simple 36 37
           (decode_nbit_field 2 (\<lambda>u a. a\<lparr>iso1DC_EVSEStatus_EVSENotification := u\<rparr>)))] 36 x s
      else if grammarID = 37 then
        decode_switch 2
         [(0, decode_simple 37 38
           (decode_used (\<lambda>a. a\<lparr>iso1DC_EVSEStatus_EVSEIsolationStatus_isUsed := True\<rparr>)
           (decode_nbit_field 3 (\<lambda>u a. a\<lparr>iso1DC_EVSEStatus_EVSEIsolationStatus := u\<rparr>)))),
          (1, decode_simple 37 3
            (decode_nbit_field 4 (\<lambda>u a. a\<lparr>iso1DC_EVSEStatus_EVSEStatusCode := u\<rparr>)))] 37 x s
      else if grammarID = 38 then
        decode_switch 1
         [(0, decode_simple 38 3
           (decode_nbit_field 4 (\<lambda>u a. a\<lparr>iso1DC_EVSEStatus_EVSEStatusCode := u\<rparr>)))] 38 x s
      else if grammarID = 3 then
        decode_switch 1
         [(0, decode_end 4)] 3 x s
      else Some (EXI_ERROR_UNKOWN_GRAMMAR_ID, (False, grammarID, x), s))"

definition decode_iso1DC_EVSEStatusType :: "u32 \<Rightarrow> iso1DC_EVSEStatusType decoder" where
  "decode_iso1DC_EVSEStatusType j x s = grammar_loop (iso1DC_EVSEStatus_dec_step j) 35
      (fst x, init_iso1DC_EVSEStatusType (snd x)) s"

definition iso1DC_EVSEStatus_ok :: "iso1DC_EVSEStatusType \<Rightarrow> bool" where
  "iso1DC_EVSEStatus_ok v \<longleftrightarrow>
     iso1DC_EVSEStatus_EVSENotification v < 4 \<and>
     when_used (iso1DC_EVSEStatus_EVSEIsolationStatus_isUsed v) (iso1DC_EVSEStatus_EVSEIsolationStatus v < 8) \<and>
     iso1DC_EVSEStatus_EVSEStatusCode v < 16"

definition same_iso1DC_EVSEStatus :: "iso1DC_EVSEStatusType \<Rightarrow> iso1DC_EVSEStatusType \<Rightarrow> bool"
    where
  "same_iso1DC_EVSEStatus v a \<longleftrightarrow>
     iso1DC_EVSEStatus_NotificationMaxDelay a = iso1DC_EVSEStatus_NotificationMaxDelay v \<and>
     iso1DC_EVSEStatus_EVSENotification a = iso1DC_EVSEStatus_EVSENotification v \<and>
     kept (iso1DC_EVSEStatus_EVSEIsolationStatus_isUsed v) (iso1DC_EVSEStatus_EVSEIsolationStatus_isUsed a)
       (iso1DC_EVSEStatus_EVSEIsolationStatus a = iso1DC_EVSEStatus_EVSEIsolationStatus v) \<and>
     iso1DC_EVSEStatus_EVSEStatusCode a = iso1DC_EVSEStatus_EVSEStatusCode v"

definition iso1DC_EVSEStatus_at :: "iso1DC_EVSEStatusType \<Rightarrow> nat \<Rightarrow> iso1DC_EVSEStatusType
    \<Rightarrow> bool" where
  "iso1DC_EVSEStatus_at v g a \<longleftrightarrow>
     iso1DC_EVSEStatus_ok v \<and>
     g \<in> {35, 36, 37, 38, 3} \<and>
     (g \<notin> {35} \<longrightarrow> iso1DC_EVSEStatus_NotificationMaxDelay
       a = iso1DC_EVSEStatus_NotificationMaxDelay v) \<and>
     (g \<notin> {35, 36} \<longrightarrow> iso1DC_EVSEStatus_EVSENotification a = iso1DC_EVSEStatus_EVSENotification
       v) \<and>
     (if g \<in> {35, 36, 37} then \<not> iso1DC_EVSEStatus_EVSEIsolationStatus_isUsed a
      else kept (iso1DC_EVSEStatus_EVSEIsolationStatus_isUsed v) (iso1DC_EVSEStatus_EVSEIsolationStatus_isUsed a)
        (iso1DC_EVSEStatus_EVSEIsolationStatus a = iso1DC_EVSEStatus_EVSEIsolationStatus v)) \<and>
     (g \<notin> {35, 36, 37, 38} \<longrightarrow> iso1DC_EVSEStatus_EVSEStatusCode
       a = iso1DC_EVSEStatus_EVSEStatusCode v)"

lemmas iso1DC_EVSEStatus_steps = iso1DC_EVSEStatus_enc_step_def
  iso1DC_EVSEStatus_dec_step_def

lemmas iso1DC_EVSEStatus_props = iso1DC_EVSEStatus_at_def same_iso1DC_EVSEStatus_def left_at_def

interpretation iso1DC_EVSEStatus: paired_machines "iso1DC_EVSEStatus_enc_step v" "iso1DC_EVSEStatus_dec_step j"
    "iso1DC_EVSEStatus_at v"
  "left_at [(35, 47), (36, 20), (37, 15), (38, 8), (3, 1)]" "same_iso1DC_EVSEStatus v" for v j
proof
  fix g a assume at: "iso1DC_EVSEStatus_at v g a"
  then have "g \<in> {35, 36, 37, 38, 3}" by (simp add: iso1DC_EVSEStatus_at_def)
  then show "hops (iso1DC_EVSEStatus_enc_step v) (iso1DC_EVSEStatus_dec_step j) (iso1DC_EVSEStatus_at v)
    (left_at [(35, 47), (36, 20), (37, 15), (38, 8), (3, 1)]) (same_iso1DC_EVSEStatus v) g a" using at
    by - (elim insertE emptyE; (hypsubst, rule hops_by, simp (no_asm) add: iso1DC_EVSEStatus_steps del: One_nat_def,
      simp (no_asm) add: iso1DC_EVSEStatus_steps del: One_nat_def, simp (asm_lr) add: iso1DC_EVSEStatus_props del:
        One_nat_def, (elim conjE)?,
      ((rule walks_ifs)+)?); (frule iso1DC_EVSEStatus_ok_def [THEN iffD1], ((drule (1) known)+)?, (elim conjE)?,
        ((drule (1) known)+)?, (elim conjE)?,
      (((rule walks_shapes, simp (no_asm) del: One_nat_def, ((rule reads_intros)+)?);
      ((elim exE conjE)?,
        ((simp (no_asm_simp) add: iso1DC_EVSEStatus_props; fail) | (simp (asm_lr) add: iso1DC_EVSEStatus_props; fail)
        | (auto simp: iso1DC_EVSEStatus_props; fail)))) | (erule (1) notE; fail) |
        ((elim exE conjE)?,
        ((simp (no_asm_simp) add: iso1DC_EVSEStatus_props; fail) | (simp (asm_lr) add: iso1DC_EVSEStatus_props; fail)
        | (auto simp: iso1DC_EVSEStatus_props; fail))))))
qed

lemma reads_iso1DC_EVSEStatus [reads_intros]:
  "iso1DC_EVSEStatus_ok v \<Longrightarrow> reads 47 (\<lambda>s. encode_iso1DC_EVSEStatusType s v)
      (decode_iso1DC_EVSEStatusType j) a (same_iso1DC_EVSEStatus v)"
  unfolding encode_iso1DC_EVSEStatusType_def decode_iso1DC_EVSEStatusType_def [abs_def]
  by (rule reads_start [OF iso1DC_EVSEStatus.machine_reads, of _ 35, THEN reads_mono])
      (auto simp: iso1DC_EVSEStatus_at_def  init_iso1DC_EVSEStatusType_def left_at_def)

interpretation iso1DC_EVSEStatus_enc: advancing_machine "iso1DC_EVSEStatus_enc_step v" "left_at
    [(35, 5), (36, 4), (37, 3), (38, 2), (3, 1)]" for v
  by unfold_locales (auto simp: iso1DC_EVSEStatus_steps dest!: advance_dests split: if_splits;
      simp add: left_at_def)

interpretation iso1DC_EVSEStatus_dec: advancing_machine "iso1DC_EVSEStatus_dec_step j" "left_at
    [(35, 5), (36, 4), (37, 3), (38, 2), (3, 1)]" for j
  by unfold_locales (auto simp: iso1DC_EVSEStatus_steps dest!: advance_dests elim!: decode_switch_next
      split: if_splits;
      simp add: left_at_def)

subsection \<open>\<open>iso1AC_EVSEStatusType\<close>\<close>

record iso1AC_EVSEStatusType =
  iso1AC_EVSEStatus_NotificationMaxDelay :: u16
  iso1AC_EVSEStatus_EVSENotification :: u32
  iso1AC_EVSEStatus_RCD :: int

definition init_iso1AC_EVSEStatusType :: "iso1AC_EVSEStatusType \<Rightarrow> iso1AC_EVSEStatusType" where
  "init_iso1AC_EVSEStatusType a = a"

definition iso1AC_EVSEStatus_enc_step :: "iso1AC_EVSEStatusType \<Rightarrow> unit machine" where
  "iso1AC_EVSEStatus_enc_step v grammarID x s =
     (if grammarID = 343 then
        goto 344 x
          (encode_simple 1 0 (\<lambda>s. encodeUnsignedInteger16 s (iso1AC_EVSEStatus_NotificationMaxDelay v)) s)
      else if grammarID = 344 then
        goto 345 x
          (encode_simple 1 0 (\<lambda>s. encodeNBitUnsignedInteger s 2 (iso1AC_EVSEStatus_EVSENotification v)) s)
      else if grammarID = 345 then
        goto 3 x (encode_simple 1 0 (\<lambda>s. encodeBoolean s (iso1AC_EVSEStatus_RCD v)) s)
      else if grammarID = 3 then
        finish 4 x (encodeNBitUnsignedInteger s 1 0)
      else Some (EXI_ERROR_UNKOWN_GRAMMAR_ID, (False, grammarID, x), s))"

definition encode_iso1AC_EVSEStatusType :: "bitstream \<Rightarrow> iso1AC_EVSEStatusType \<Rightarrow>
    (errn \<times> bitstream) option" where
  "encode_iso1AC_EVSEStatusType s v = run_encoder (iso1AC_EVSEStatus_enc_step v) 343 () s"

definition iso1AC_EVSEStatus_dec_step :: "u32 \<Rightarrow> (dec_static \<times> iso1AC_EVSEStatusType) machine" where
  "iso1AC_EVSEStatus_dec_step j grammarID x s =
     (if grammarID = 343 then
        decode_switch 1
         [(0, decode_simple 343 344
           (decode_u16_field j (\<lambda>u a. a\<lparr>iso1AC_EVSEStatus_NotificationMaxDelay := u\<rparr>)))] 343 x s
      else if grammarID = 344 then
        decode_switch 1
         [(0, decode_simple 344 345
           (decode_nbit_field 2 (\<lambda>u a. a\<lparr>iso1AC_EVSEStatus_EVSENotification := u\<rparr>)))] 344 x s
      else if grammarID = 345 then
        decode_switch 1
         [(0, decode_simple 345 3 (decode_bool_field j (\<lambda>u a. a\<lparr>iso1AC_EVSEStatus_RCD := u\<rparr>)))]
           345 x s
      else if grammarID = 3 then
        decode_switch 1
         [(0, decode_end 4)] 3 x s
      else Some (EXI_ERROR_UNKOWN_GRAMMAR_ID, (False, grammarID, x), s))"

definition decode_iso1AC_EVSEStatusType :: "u32 \<Rightarrow> iso1AC_EVSEStatusType decoder" where
  "decode_iso1AC_EVSEStatusType j x s = grammar_loop (iso1AC_EVSEStatus_dec_step j) 343
      (fst x, init_iso1AC_EVSEStatusType (snd x)) s"

definition iso1AC_EVSEStatus_ok :: "iso1AC_EVSEStatusType \<Rightarrow> bool" where
  "iso1AC_EVSEStatus_ok v \<longleftrightarrow>
     iso1AC_EVSEStatus_EVSENotification v < 4"

definition same_iso1AC_EVSEStatus :: "iso1AC_EVSEStatusType \<Rightarrow> iso1AC_EVSEStatusType \<Rightarrow> bool"
    where
  "same_iso1AC_EVSEStatus v a \<longleftrightarrow>
     iso1AC_EVSEStatus_NotificationMaxDelay a = iso1AC_EVSEStatus_NotificationMaxDelay v \<and>
     iso1AC_EVSEStatus_EVSENotification a = iso1AC_EVSEStatus_EVSENotification v \<and>
     (iso1AC_EVSEStatus_RCD a \<noteq> 0) = (iso1AC_EVSEStatus_RCD v \<noteq> 0)"

definition iso1AC_EVSEStatus_at :: "iso1AC_EVSEStatusType \<Rightarrow> nat \<Rightarrow> iso1AC_EVSEStatusType
    \<Rightarrow> bool" where
  "iso1AC_EVSEStatus_at v g a \<longleftrightarrow>
     iso1AC_EVSEStatus_ok v \<and>
     g \<in> {343, 344, 345, 3} \<and>
     (g \<notin> {343} \<longrightarrow> iso1AC_EVSEStatus_NotificationMaxDelay
       a = iso1AC_EVSEStatus_NotificationMaxDelay v) \<and>
     (g \<notin> {343, 344} \<longrightarrow> iso1AC_EVSEStatus_EVSENotification
       a = iso1AC_EVSEStatus_EVSENotification v) \<and>
     (g \<notin> {343, 344, 345} \<longrightarrow>
       (iso1AC_EVSEStatus_RCD a \<noteq> 0) = (iso1AC_EVSEStatus_RCD v \<noteq> 0))"

lemmas iso1AC_EVSEStatus_steps = iso1AC_EVSEStatus_enc_step_def
  iso1AC_EVSEStatus_dec_step_def

lemmas iso1AC_EVSEStatus_props = iso1AC_EVSEStatus_at_def same_iso1AC_EVSEStatus_def left_at_def

interpretation iso1AC_EVSEStatus: paired_machines "iso1AC_EVSEStatus_enc_step v" "iso1AC_EVSEStatus_dec_step j"
    "iso1AC_EVSEStatus_at v"
  "left_at [(343, 37), (344, 10), (345, 5), (3, 1)]" "same_iso1AC_EVSEStatus v" for v j
proof
  fix g a assume at: "iso1AC_EVSEStatus_at v g a"
  then have "g \<in> {343, 344, 345, 3}" by (simp add: iso1AC_EVSEStatus_at_def)
  then show "hops (iso1AC_EVSEStatus_enc_step v) (iso1AC_EVSEStatus_dec_step j) (iso1AC_EVSEStatus_at v)
    (left_at [(343, 37), (344, 10), (345, 5), (3, 1)]) (same_iso1AC_EVSEStatus v) g a" using at
    by - (elim insertE emptyE; (hypsubst, rule hops_by, simp (no_asm) add: iso1AC_EVSEStatus_steps del: One_nat_def,
      simp (no_asm) add: iso1AC_EVSEStatus_steps del: One_nat_def, simp (asm_lr) add: iso1AC_EVSEStatus_props del:
        One_nat_def, (elim conjE)?,
      ((rule walks_ifs)+)?); (frule iso1AC_EVSEStatus_ok_def [THEN iffD1], ((drule (1) known)+)?, (elim conjE)?,
        ((drule (1) known)+)?, (elim conjE)?,
      (((rule walks_shapes, simp (no_asm) del: One_nat_def, ((rule reads_intros)+)?);
      ((elim exE conjE)?,
        ((simp (no_asm_simp) add: iso1AC_EVSEStatus_props; fail) | (simp (asm_lr) add: iso1AC_EVSEStatus_props; fail)
        | (auto simp: iso1AC_EVSEStatus_props; fail)))) | (erule (1) notE; fail) |
        ((elim exE conjE)?,
        ((simp (no_asm_simp) add: iso1AC_EVSEStatus_props; fail) | (simp (asm_lr) add: iso1AC_EVSEStatus_props; fail)
        | (auto simp: iso1AC_EVSEStatus_props; fail))))))
qed

lemma reads_iso1AC_EVSEStatus [reads_intros]:
  "iso1AC_EVSEStatus_ok v \<Longrightarrow> reads 37 (\<lambda>s. encode_iso1AC_EVSEStatusType s v)
      (decode_iso1AC_EVSEStatusType j) a (same_iso1AC_EVSEStatus v)"
  unfolding encode_iso1AC_EVSEStatusType_def decode_iso1AC_EVSEStatusType_def [abs_def]
  by (rule reads_start [OF iso1AC_EVSEStatus.machine_reads, of _ 343, THEN reads_mono])
      (auto simp: iso1AC_EVSEStatus_at_def  init_iso1AC_EVSEStatusType_def left_at_def)

interpretation iso1AC_EVSEStatus_enc: advancing_machine "iso1AC_EVSEStatus_enc_step v" "left_at
    [(343, 4), (344, 3), (345, 2), (3, 1)]" for v
  by unfold_locales (auto simp: iso1AC_EVSEStatus_steps dest!: advance_dests split: if_splits;
      simp add: left_at_def)

interpretation iso1AC_EVSEStatus_dec: advancing_machine "iso1AC_EVSEStatus_dec_step j" "left_at
    [(343, 4), (344, 3), (345, 2), (3, 1)]" for j
  by unfold_locales (auto simp: iso1AC_EVSEStatus_steps dest!: advance_dests elim!: decode_switch_next
      split: if_splits;
      simp add: left_at_def)

subsection \<open>\<open>iso1EVPowerDeliveryParameterType\<close>\<close>

record iso1EVPowerDeliveryParameterType =
  iso1EVPowerDeliveryParameter_noContent :: int

definition init_iso1EVPowerDeliveryParameterType :: "iso1EVPowerDeliveryParameterType \<Rightarrow>
    iso1EVPowerDeliveryParameterType" where
  "init_iso1EVPowerDeliveryParameterType a = a"

definition iso1EVPowerDeliveryParameter_enc_step :: "iso1EVPowerDeliveryParameterType \<Rightarrow> unit machine"
    where
  "iso1EVPowerDeliveryParameter_enc_step v grammarID x s =
     (if grammarID = 34 then
        finish 4 x (encodeNBitUnsignedInteger s 1 0)
      else Some (EXI_ERROR_UNKOWN_GRAMMAR_ID, (False, grammarID, x), s))"

definition encode_iso1EVPowerDeliveryParameterType :: "bitstream \<Rightarrow> iso1EVPowerDeliveryParameterType
    \<Rightarrow> (errn \<times> bitstream) option" where
  "encode_iso1EVPowerDeliveryParameterType s v = run_encoder (iso1EVPowerDeliveryParameter_enc_step v) 34 () s"

definition iso1EVPowerDeliveryParameter_dec_step :: "u32 \<Rightarrow>
    (dec_static \<times> iso1EVPowerDeliveryParameterType) machine" where
  "iso1EVPowerDeliveryParameter_dec_step j grammarID x s =
     (if grammarID = 34 then
        decode_switch 1
         [(0, decode_end 4)] 34 x s
      else Some (EXI_ERROR_UNKOWN_GRAMMAR_ID, (False, grammarID, x), s))"

definition decode_iso1EVPowerDeliveryParameterType :: "u32 \<Rightarrow> iso1EVPowerDeliveryParameterType decoder"
    where
  "decode_iso1EVPowerDeliveryParameterType j x s = grammar_loop (iso1EVPowerDeliveryParameter_dec_step j) 34
      (fst x, init_iso1EVPowerDeliveryParameterType (snd x)) s"

definition same_iso1EVPowerDeliveryParameter :: "iso1EVPowerDeliveryParameterType \<Rightarrow>
    iso1EVPowerDeliveryParameterType \<Rightarrow> bool" where
  "same_iso1EVPowerDeliveryParameter v a \<longleftrightarrow>
     True"

definition iso1EVPowerDeliveryParameter_at :: "iso1EVPowerDeliveryParameterType \<Rightarrow> nat \<Rightarrow>
    iso1EVPowerDeliveryParameterType \<Rightarrow> bool" where
  "iso1EVPowerDeliveryParameter_at v g a \<longleftrightarrow>
     g \<in> {34}"

lemmas iso1EVPowerDeliveryParameter_steps = iso1EVPowerDeliveryParameter_enc_step_def
  iso1EVPowerDeliveryParameter_dec_step_def

lemmas iso1EVPowerDeliveryParameter_props = iso1EVPowerDeliveryParameter_at_def same_iso1EVPowerDeliveryParameter_def
    left_at_def

interpretation iso1EVPowerDeliveryParameter: paired_machines "iso1EVPowerDeliveryParameter_enc_step v"
    "iso1EVPowerDeliveryParameter_dec_step j" "iso1EVPowerDeliveryParameter_at v"
  "left_at [(34, 1)]" "same_iso1EVPowerDeliveryParameter v" for v j
proof
  fix g a assume at: "iso1EVPowerDeliveryParameter_at v g a"
  then have "g \<in> {34}" by (simp add: iso1EVPowerDeliveryParameter_at_def)
  then show "hops (iso1EVPowerDeliveryParameter_enc_step v) (iso1EVPowerDeliveryParameter_dec_step j)
      (iso1EVPowerDeliveryParameter_at v)
    (left_at [(34, 1)]) (same_iso1EVPowerDeliveryParameter v) g a" using at
    by - (elim insertE emptyE; (hypsubst, rule hops_by, simp (no_asm) add: iso1EVPowerDeliveryParameter_steps del:
      One_nat_def,
      simp (no_asm) add: iso1EVPowerDeliveryParameter_steps del: One_nat_def,
        simp (asm_lr) add: iso1EVPowerDeliveryParameter_props del: One_nat_def, (elim conjE)?,
      ((rule walks_ifs)+)?); (((drule (1) known)+)?, (elim conjE)?, ((drule (1) known)+)?, (elim conjE)?,
      (((rule walks_shapes, simp (no_asm) del: One_nat_def, ((rule reads_intros)+)?);
      ((elim exE conjE)?,
        ((simp (no_asm_simp) add: iso1EVPowerDeliveryParameter_props; fail) |
        (simp (asm_lr) add: iso1EVPowerDeliveryParameter_props; fail) |
        (auto simp: iso1EVPowerDeliveryParameter_props; fail)))) | (erule (1) notE; fail) |
        ((elim exE conjE)?,
        ((simp (no_asm_simp) add: iso1EVPowerDeliveryParameter_props; fail) |
        (simp (asm_lr) add: iso1EVPowerDeliveryParameter_props; fail) |
        (auto simp: iso1EVPowerDeliveryParameter_props; fail))))))
qed

lemma reads_iso1EVPowerDeliveryParameter [reads_intros]:
  "reads 1 (\<lambda>s. encode_iso1EVPowerDeliveryParameterType s v) (decode_iso1EVPowerDeliveryParameterType j) a
      (same_iso1EVPowerDeliveryParameter v)"
  unfolding encode_iso1EVPowerDeliveryParameterType_def decode_iso1EVPowerDeliveryParameterType_def [abs_def]
  by (rule reads_start [OF iso1EVPowerDeliveryParameter.machine_reads, of _ 34, THEN reads_mono])
      (auto simp: iso1EVPowerDeliveryParameter_at_def  init_iso1EVPowerDeliveryParameterType_def left_at_def)

interpretation iso1EVPowerDeliveryParameter_enc: advancing_machine "iso1EVPowerDeliveryParameter_enc_step v" "left_at
    [(34, 1)]" for v
  by unfold_locales (auto simp: iso1EVPowerDeliveryParameter_steps dest!: advance_dests split: if_splits;
      simp add: left_at_def)

interpretation iso1EVPowerDeliveryParameter_dec: advancing_machine "iso1EVPowerDeliveryParameter_dec_step j" "left_at
    [(34, 1)]" for j
  by unfold_locales (auto simp: iso1EVPowerDeliveryParameter_steps dest!: advance_dests elim!:
      decode_switch_next split: if_splits;
      simp add: left_at_def)

subsection \<open>\<open>iso1DC_EVPowerDeliveryParameterType\<close>\<close>

record iso1DC_EVPowerDeliveryParameterType =
  iso1DC_EVPowerDeliveryParameter_DC_EVStatus :: iso1DC_EVStatusType
  iso1DC_EVPowerDeliveryParameter_BulkChargingComplete :: int
  iso1DC_EVPowerDeliveryParameter_BulkChargingComplete_isUsed :: bool
  iso1DC_EVPowerDeliveryParameter_ChargingComplete :: int

definition init_iso1DC_EVPowerDeliveryParameterType :: "iso1DC_EVPowerDeliveryParameterType \<Rightarrow>
    iso1DC_EVPowerDeliveryParameterType" where
  "init_iso1DC_EVPowerDeliveryParameterType a = a\<lparr>iso1DC_EVPowerDeliveryParameter_BulkChargingComplete_isUsed
      := False\<rparr>"

definition iso1DC_EVPowerDeliveryParameter_enc_step :: "iso1DC_EVPowerDeliveryParameterType \<Rightarrow> unit
    machine" where
  "iso1DC_EVPowerDeliveryParameter_enc_step v grammarID x s =
     (if grammarID = 293 then
        goto 294 x
          (encode_child 1 0 (\<lambda>s. encode_iso1DC_EVStatusType s (iso1DC_EVPowerDeliveryParameter_DC_EVStatus v))
          s)
      else if grammarID = 294 then
        if iso1DC_EVPowerDeliveryParameter_BulkChargingComplete_isUsed v then
          goto 295 x
          (encode_simple 2 0 (\<lambda>s. encodeBoolean s (iso1DC_EVPowerDeliveryParameter_BulkChargingComplete v)) s)
        else goto 3 x
          (encode_simple 2 1 (\<lambda>s. encodeBoolean s (iso1DC_EVPowerDeliveryParameter_ChargingComplete v)) s)
      else if grammarID = 295 then
        goto 3 x (encode_simple 1 0 (\<lambda>s. encodeBoolean s (iso1DC_EVPowerDeliveryParameter_ChargingComplete v))
          s)
      else if grammarID = 3 then
        finish 4 x (encodeNBitUnsignedInteger s 1 0)
      else Some (EXI_ERROR_UNKOWN_GRAMMAR_ID, (False, grammarID, x), s))"

definition encode_iso1DC_EVPowerDeliveryParameterType :: "bitstream \<Rightarrow> iso1DC_EVPowerDeliveryParameterType
    \<Rightarrow> (errn \<times> bitstream) option" where
  "encode_iso1DC_EVPowerDeliveryParameterType s v = run_encoder (iso1DC_EVPowerDeliveryParameter_enc_step v) 293 () s"

definition iso1DC_EVPowerDeliveryParameter_dec_step :: "u32 \<Rightarrow>
    (dec_static \<times> iso1DC_EVPowerDeliveryParameterType) machine" where
  "iso1DC_EVPowerDeliveryParameter_dec_step j grammarID x s =
     (if grammarID = 293 then
        decode_switch 1
         [(0, decode_child 294 (decode_sub (decode_iso1DC_EVStatusType j) iso1DC_EVPowerDeliveryParameter_DC_EVStatus
           (\<lambda>u a. a\<lparr>iso1DC_EVPowerDeliveryParameter_DC_EVStatus := u\<rparr>)))] 293 x s
      else if grammarID = 294 then
        decode_switch 2
         [(0, decode_simple 294 295
           (decode_used
           (\<lambda>a. a\<lparr>iso1DC_EVPowerDeliveryParameter_BulkChargingComplete_isUsed := True\<rparr>)
           (decode_bool_field j
           (\<lambda>u a. a\<lparr>iso1DC_EVPowerDeliveryParameter_BulkChargingComplete := u\<rparr>)))),
          (1, decode_simple 294 3
            (decode_bool_field j
            (\<lambda>u a. a\<lparr>iso1DC_EVPowerDeliveryParameter_ChargingComplete := u\<rparr>)))] 294 x s
      else if grammarID = 295 then
        decode_switch 1
         [(0, decode_simple 295 3
           (decode_bool_field j
           (\<lambda>u a. a\<lparr>iso1DC_EVPowerDeliveryParameter_ChargingComplete := u\<rparr>)))] 295 x s
      else if grammarID = 3 then
        decode_switch 1
         [(0, decode_end 4)] 3 x s
      else Some (EXI_ERROR_UNKOWN_GRAMMAR_ID, (False, grammarID, x), s))"

definition decode_iso1DC_EVPowerDeliveryParameterType :: "u32 \<Rightarrow> iso1DC_EVPowerDeliveryParameterType
    decoder" where
  "decode_iso1DC_EVPowerDeliveryParameterType j x s = grammar_loop (iso1DC_EVPowerDeliveryParameter_dec_step j) 293
      (fst x, init_iso1DC_EVPowerDeliveryParameterType (snd x)) s"

definition iso1DC_EVPowerDeliveryParameter_ok :: "iso1DC_EVPowerDeliveryParameterType \<Rightarrow> bool" where
  "iso1DC_EVPowerDeliveryParameter_ok v \<longleftrightarrow>
     iso1DC_EVStatus_ok (iso1DC_EVPowerDeliveryParameter_DC_EVStatus v)"

definition same_iso1DC_EVPowerDeliveryParameter :: "iso1DC_EVPowerDeliveryParameterType \<Rightarrow>
    iso1DC_EVPowerDeliveryParameterType \<Rightarrow> bool" where
  "same_iso1DC_EVPowerDeliveryParameter v a \<longleftrightarrow>
     same_iso1DC_EVStatus (iso1DC_EVPowerDeliveryParameter_DC_EVStatus v)
       (iso1DC_EVPowerDeliveryParameter_DC_EVStatus a) \<and>
     kept (iso1DC_EVPowerDeliveryParameter_BulkChargingComplete_isUsed v)
       (iso1DC_EVPowerDeliveryParameter_BulkChargingComplete_isUsed a)
       ((iso1DC_EVPowerDeliveryParameter_BulkChargingComplete a \<noteq>
       0) = (iso1DC_EVPowerDeliveryParameter_BulkChargingComplete v \<noteq> 0)) \<and>
     (iso1DC_EVPowerDeliveryParameter_ChargingComplete a \<noteq>
       0) = (iso1DC_EVPowerDeliveryParameter_ChargingComplete v \<noteq> 0)"

definition iso1DC_EVPowerDeliveryParameter_at :: "iso1DC_EVPowerDeliveryParameterType \<Rightarrow> nat \<Rightarrow>
    iso1DC_EVPowerDeliveryParameterType \<Rightarrow> bool" where
  "iso1DC_EVPowerDeliveryParameter_at v g a \<longleftrightarrow>
     iso1DC_EVPowerDeliveryParameter_ok v \<and>
     g \<in> {293, 294, 295, 3} \<and>
     (g \<notin> {293} \<longrightarrow> same_iso1DC_EVStatus (iso1DC_EVPowerDeliveryParameter_DC_EVStatus v)
       (iso1DC_EVPowerDeliveryParameter_DC_EVStatus a)) \<and>
     (if g \<in> {293, 294} then \<not> iso1DC_EVPowerDeliveryParameter_BulkChargingComplete_isUsed a
      else kept (iso1DC_EVPowerDeliveryParameter_BulkChargingComplete_isUsed v)
        (iso1DC_EVPowerDeliveryParameter_BulkChargingComplete_isUsed a)
        ((iso1DC_EVPowerDeliveryParameter_BulkChargingComplete a \<noteq>
        0) = (iso1DC_EVPowerDeliveryParameter_BulkChargingComplete v \<noteq> 0))) \<and>
     (g \<notin> {293, 294, 295} \<longrightarrow>
       (iso1DC_EVPowerDeliveryParameter_ChargingComplete a \<noteq>
       0) = (iso1DC_EVPowerDeliveryParameter_ChargingComplete v \<noteq> 0))"

lemmas iso1DC_EVPowerDeliveryParameter_steps = iso1DC_EVPowerDeliveryParameter_enc_step_def
  iso1DC_EVPowerDeliveryParameter_dec_step_def

lemmas iso1DC_EVPowerDeliveryParameter_props = iso1DC_EVPowerDeliveryParameter_at_def
    same_iso1DC_EVPowerDeliveryParameter_def left_at_def

interpretation iso1DC_EVPowerDeliveryParameter: paired_machines "iso1DC_EVPowerDeliveryParameter_enc_step v"
    "iso1DC_EVPowerDeliveryParameter_dec_step j" "iso1DC_EVPowerDeliveryParameter_at v"
  "left_at [(293, 33), (294, 10), (295, 5), (3, 1)]" "same_iso1DC_EVPowerDeliveryParameter v" for v j
proof
  fix g a assume at: "iso1DC_EVPowerDeliveryParameter_at v g a"
  then have "g \<in> {293, 294, 295, 3}" by (simp add: iso1DC_EVPowerDeliveryParameter_at_def)
  then show "hops (iso1DC_EVPowerDeliveryParameter_enc_step v) (iso1DC_EVPowerDeliveryParameter_dec_step j)
      (iso1DC_EVPowerDeliveryParameter_at v)
    (left_at [(293, 33), (294, 10), (295, 5), (3, 1)]) (same_iso1DC_EVPowerDeliveryParameter v) g a" using at
    by - (elim insertE emptyE; (hypsubst, rule hops_by, simp (no_asm) add: iso1DC_EVPowerDeliveryParameter_steps del:
      One_nat_def,
      simp (no_asm) add: iso1DC_EVPowerDeliveryParameter_steps del: One_nat_def,
        simp (asm_lr) add: iso1DC_EVPowerDeliveryParameter_props del: One_nat_def, (elim conjE)?,
      ((rule walks_ifs)+)?); (frule iso1DC_EVPowerDeliveryParameter_ok_def [THEN iffD1], ((drule (1) known)+)?,
        (elim conjE)?, ((drule (1) known)+)?, (elim conjE)?,
      (((rule walks_shapes, simp (no_asm) del: One_nat_def, ((rule reads_intros)+)?);
      ((elim exE conjE)?,
        ((simp (no_asm_simp) add: iso1DC_EVPowerDeliveryParameter_props; fail) |
        (simp (asm_lr) add: iso1DC_EVPowerDeliveryParameter_props; fail) |
        (auto simp: iso1DC_EVPowerDeliveryParameter_props; fail)))) | (erule (1) notE; fail) |
        ((elim exE conjE)?,
        ((simp (no_asm_simp) add: iso1DC_EVPowerDeliveryParameter_props; fail) |
        (simp (asm_lr) add: iso1DC_EVPowerDeliveryParameter_props; fail) |
        (auto simp: iso1DC_EVPowerDeliveryParameter_props; fail))))))
qed

lemma reads_iso1DC_EVPowerDeliveryParameter [reads_intros]:
  "iso1DC_EVPowerDeliveryParameter_ok v \<Longrightarrow>
      reads 33 (\<lambda>s. encode_iso1DC_EVPowerDeliveryParameterType s v)
      (decode_iso1DC_EVPowerDeliveryParameterType j) a (same_iso1DC_EVPowerDeliveryParameter v)"
  unfolding encode_iso1DC_EVPowerDeliveryParameterType_def decode_iso1DC_EVPowerDeliveryParameterType_def [abs_def]
  by (rule reads_start [OF iso1DC_EVPowerDeliveryParameter.machine_reads, of _ 293, THEN reads_mono])
      (auto simp: iso1DC_EVPowerDeliveryParameter_at_def  init_iso1DC_EVPowerDeliveryParameterType_def left_at_def)

interpretation iso1DC_EVPowerDeliveryParameter_enc: advancing_machine "iso1DC_EVPowerDeliveryParameter_enc_step v"
    "left_at [(293, 4), (294, 3), (295, 2), (3, 1)]" for v
  by unfold_locales (auto simp: iso1DC_EVPowerDeliveryParameter_steps left_at_def dest!: advance_dests split:
      if_splits)

interpretation iso1DC_EVPowerDeliveryParameter_dec: advancing_machine "iso1DC_EVPowerDeliveryParameter_dec_step j"
    "left_at [(293, 4), (294, 3), (295, 2), (3, 1)]" for j
  by unfold_locales (auto simp: iso1DC_EVPowerDeliveryParameter_steps dest!: advance_dests elim!:
      decode_switch_next split: if_splits;
      simp add: left_at_def)

subsection \<open>\<open>iso1IntervalType\<close>\<close>

record iso1IntervalType =
  iso1Interval_noContent :: int

definition init_iso1IntervalType :: "iso1IntervalType \<Rightarrow> iso1IntervalType" where
  "init_iso1IntervalType a = a"

definition iso1Interval_enc_step :: "iso1IntervalType \<Rightarrow> unit machine" where
  "iso1Interval_enc_step v grammarID x s =
     (if grammarID = 34 then
        finish 4 x (encodeNBitUnsignedInteger s 1 0)
      else Some (EXI_ERROR_UNKOWN_GRAMMAR_ID, (False, grammarID, x), s))"

definition encode_iso1IntervalType :: "bitstream \<Rightarrow> iso1IntervalType \<Rightarrow>
    (errn \<times> bitstream) option" where
  "encode_iso1IntervalType s v = run_encoder (iso1Interval_enc_step v) 34 () s"

definition iso1Interval_dec_step :: "u32 \<Rightarrow> (dec_static \<times> iso1IntervalType) machine" where
  "iso1Interval_dec_step j grammarID x s =
     (if grammarID = 34 then
        decode_switch 1
         [(0, decode_end 4)] 34 x s
      else Some (EXI_ERROR_UNKOWN_GRAMMAR_ID, (False, grammarID, x), s))"

definition decode_iso1IntervalType :: "u32 \<Rightarrow> iso1IntervalType decoder" where
  "decode_iso1IntervalType j x s = grammar_loop (iso1Interval_dec_step j) 34 (fst x, init_iso1IntervalType (snd x)) s"

definition same_iso1Interval :: "iso1IntervalType \<Rightarrow> iso1IntervalType \<Rightarrow> bool" where
  "same_iso1Interval v a \<longleftrightarrow>
     True"

definition iso1Interval_at :: "iso1IntervalType \<Rightarrow> nat \<Rightarrow> iso1IntervalType \<Rightarrow> bool"
    where
  "iso1Interval_at v g a \<longleftrightarrow>
     g \<in> {34}"

lemmas iso1Interval_steps = iso1Interval_enc_step_def
  iso1Interval_dec_step_def

lemmas iso1Interval_props = iso1Interval_at_def same_iso1Interval_def left_at_def

interpretation iso1Interval: paired_machines "iso1Interval_enc_step v" "iso1Interval_dec_step j" "iso1Interval_at v"
  "left_at [(34, 1)]" "same_iso1Interval v" for v j
proof
  fix g a assume at: "iso1Interval_at v g a"
  then have "g \<in> {34}" by (simp add: iso1Interval_at_def)
  then show "hops (iso1Interval_enc_step v) (iso1Interval_dec_step j) (iso1Interval_at v)
    (left_at [(34, 1)]) (same_iso1Interval v) g a" using at
    by - (elim insertE emptyE; (hypsubst, rule hops_by, simp (no_asm) add: iso1Interval_steps del: One_nat_def,
      simp (no_asm) add: iso1Interval_steps del: One_nat_def, simp (asm_lr) add: iso1Interval_props del: One_nat_def,
        (elim conjE)?,
      ((rule walks_ifs)+)?); (((drule (1) known)+)?, (elim conjE)?, ((drule (1) known)+)?, (elim conjE)?,
      (((rule walks_shapes, simp (no_asm) del: One_nat_def, ((rule reads_intros)+)?);
      ((elim exE conjE)?,
        ((simp (no_asm_simp) add: iso1Interval_props; fail) | (simp (asm_lr) add: iso1Interval_props; fail) |
        (auto simp: iso1Interval_props; fail)))) | (erule (1) notE; fail) |
        ((elim exE conjE)?,
        ((simp (no_asm_simp) add: iso1Interval_props; fail) | (simp (asm_lr) add: iso1Interval_props; fail) |
        (auto simp: iso1Interval_props; fail))))))
qed

lemma reads_iso1Interval [reads_intros]:
  "reads 1 (\<lambda>s. encode_iso1IntervalType s v) (decode_iso1IntervalType j) a (same_iso1Interval v)"
  unfolding encode_iso1IntervalType_def decode_iso1IntervalType_def [abs_def]
  by (rule reads_start [OF iso1Interval.machine_reads, of _ 34, THEN reads_mono])
      (auto simp: iso1Interval_at_def  init_iso1IntervalType_def left_at_def)

interpretation iso1Interval_enc: advancing_machine "iso1Interval_enc_step v" "left_at [(34, 1)]" for v
  by unfold_locales (auto simp: iso1Interval_steps dest!: advance_dests split: if_splits;
      simp add: left_at_def)

interpretation iso1Interval_dec: advancing_machine "iso1Interval_dec_step j" "left_at [(34, 1)]" for j
  by unfold_locales (auto simp: iso1Interval_steps left_at_def dest!: advance_dests elim!: decode_switch_next split:
      if_splits)

subsection \<open>\<open>iso1RelativeTimeIntervalType\<close>\<close>

record iso1RelativeTimeIntervalType =
  iso1RelativeTimeInterval_start :: u32
  iso1RelativeTimeInterval_duration :: u32
  iso1RelativeTimeInterval_duration_isUsed :: bool

definition init_iso1RelativeTimeIntervalType :: "iso1RelativeTimeIntervalType \<Rightarrow>
    iso1RelativeTimeIntervalType" where
  "init_iso1RelativeTimeIntervalType a = a\<lparr>iso1RelativeTimeInterval_duration_isUsed := False\<rparr>"

definition iso1RelativeTimeInterval_enc_step :: "iso1RelativeTimeIntervalType \<Rightarrow> unit machine" where
  "iso1RelativeTimeInterval_enc_step v grammarID x s =
     (if grammarID = 60 then
        goto 61 x (encode_simple 1 0 (\<lambda>s. encodeUnsignedInteger32 s (iso1RelativeTimeInterval_start v)) s)
      else if grammarID = 61 then
        if iso1RelativeTimeInterval_duration_isUsed v then
          goto 3 x (encode_simple 2 0 (\<lambda>s. encodeUnsignedInteger32 s (iso1RelativeTimeInterval_duration v)) s)
        else finish 4 x (encodeNBitUnsignedInteger s 2 1)
      else if grammarID = 3 then
        finish 4 x (encodeNBitUnsignedInteger s 1 0)
      else Some (EXI_ERROR_UNKOWN_GRAMMAR_ID, (False, grammarID, x), s))"

definition encode_iso1RelativeTimeIntervalType :: "bitstream \<Rightarrow> iso1RelativeTimeIntervalType \<Rightarrow>
    (errn \<times> bitstream) option" where
  "encode_iso1RelativeTimeIntervalType s v = run_encoder (iso1RelativeTimeInterval_enc_step v) 60 () s"

definition iso1RelativeTimeInterval_dec_step :: "u32 \<Rightarrow> (dec_static \<times> iso1RelativeTimeIntervalType)
    machine" where
  "iso1RelativeTimeInterval_dec_step j grammarID x s =
     (if grammarID = 60 then
        decode_switch 1
         [(0, decode_simple 60 61
           (decode_u32_field j (\<lambda>u a. a\<lparr>iso1RelativeTimeInterval_start := u\<rparr>)))] 60 x s
      else if grammarID = 61 then
        decode_switch 2
         [(0, decode_simple 61 3
           (decode_used (\<lambda>a. a\<lparr>iso1RelativeTimeInterval_duration_isUsed := True\<rparr>)
           (decode_u32_field j (\<lambda>u a. a\<lparr>iso1RelativeTimeInterval_duration := u\<rparr>)))),
          (1, decode_end 4)] 61 x s
      else if grammarID = 3 then
        decode_switch 1
         [(0, decode_end 4)] 3 x s
      else Some (EXI_ERROR_UNKOWN_GRAMMAR_ID, (False, grammarID, x), s))"

definition decode_iso1RelativeTimeIntervalType :: "u32 \<Rightarrow> iso1RelativeTimeIntervalType decoder" where
  "decode_iso1RelativeTimeIntervalType j x s = grammar_loop (iso1RelativeTimeInterval_dec_step j) 60
      (fst x, init_iso1RelativeTimeIntervalType (snd x)) s"

definition iso1RelativeTimeInterval_ok :: "iso1RelativeTimeIntervalType \<Rightarrow> bool" where
  "iso1RelativeTimeInterval_ok v \<longleftrightarrow>
     iso1RelativeTimeInterval_start v < 2 ^ 31 \<and>
     when_used (iso1RelativeTimeInterval_duration_isUsed v) (iso1RelativeTimeInterval_duration v < 2 ^ 31)"

definition same_iso1RelativeTimeInterval :: "iso1RelativeTimeIntervalType \<Rightarrow> iso1RelativeTimeIntervalType
    \<Rightarrow> bool" where
  "same_iso1RelativeTimeInterval v a \<longleftrightarrow>
     iso1RelativeTimeInterval_start a = iso1RelativeTimeInterval_start v \<and>
     kept (iso1RelativeTimeInterval_duration_isUsed v) (iso1RelativeTimeInterval_duration_isUsed a)
       (iso1RelativeTimeInterval_duration a = iso1RelativeTimeInterval_duration v)"

definition iso1RelativeTimeInterval_at :: "iso1RelativeTimeIntervalType \<Rightarrow> nat \<Rightarrow>
    iso1RelativeTimeIntervalType \<Rightarrow> bool" where
  "iso1RelativeTimeInterval_at v g a \<longleftrightarrow>
     iso1RelativeTimeInterval_ok v \<and>
     g \<in> {60, 61, 3} \<and>
     (g \<notin> {60} \<longrightarrow> iso1RelativeTimeInterval_start a = iso1RelativeTimeInterval_start v) \<and>
     (if g \<in> {60, 61} then \<not> iso1RelativeTimeInterval_duration_isUsed a
      else kept (iso1RelativeTimeInterval_duration_isUsed v) (iso1RelativeTimeInterval_duration_isUsed a)
        (iso1RelativeTimeInterval_duration a = iso1RelativeTimeInterval_duration v))"

lemmas iso1RelativeTimeInterval_steps = iso1RelativeTimeInterval_enc_step_def
  iso1RelativeTimeInterval_dec_step_def

lemmas iso1RelativeTimeInterval_props = iso1RelativeTimeInterval_at_def same_iso1RelativeTimeInterval_def left_at_def

interpretation iso1RelativeTimeInterval: paired_machines "iso1RelativeTimeInterval_enc_step v"
    "iso1RelativeTimeInterval_dec_step j" "iso1RelativeTimeInterval_at v"
  "left_at [(60, 88), (61, 45), (3, 1)]" "same_iso1RelativeTimeInterval v" for v j
proof
  fix g a assume at: "iso1RelativeTimeInterval_at v g a"
  then have "g \<in> {60, 61, 3}" by (simp add: iso1RelativeTimeInterval_at_def)
  then show "hops (iso1RelativeTimeInterval_enc_step v) (iso1RelativeTimeInterval_dec_step j)
      (iso1RelativeTimeInterval_at v)
    (left_at [(60, 88), (61, 45), (3, 1)]) (same_iso1RelativeTimeInterval v) g a" using at
    by - (elim insertE emptyE; (hypsubst, rule hops_by, simp (no_asm) add: iso1RelativeTimeInterval_steps del:
      One_nat_def,
      simp (no_asm) add: iso1RelativeTimeInterval_steps del: One_nat_def,
        simp (asm_lr) add: iso1RelativeTimeInterval_props del: One_nat_def, (elim conjE)?,
      ((rule walks_ifs)+)?); (frule iso1RelativeTimeInterval_ok_def [THEN iffD1], ((drule (1) known)+)?,
        (elim conjE)?, ((drule (1) known)+)?, (elim conjE)?,
      (((rule walks_shapes, simp (no_asm) del: One_nat_def, ((rule reads_intros)+)?);
      ((elim exE conjE)?,
        ((simp (no_asm_simp) add: iso1RelativeTimeInterval_props; fail) |
        (simp (asm_lr) add: iso1RelativeTimeInterval_props; fail) |
        (auto simp: iso1RelativeTimeInterval_props; fail)))) | (erule (1) notE; fail) |
        ((elim exE conjE)?,
        ((simp (no_asm_simp) add: iso1RelativeTimeInterval_props; fail) |
        (simp (asm_lr) add: iso1RelativeTimeInterval_props; fail) |
        (auto simp: iso1RelativeTimeInterval_props; fail))))))
qed

lemma reads_iso1RelativeTimeInterval [reads_intros]:
  "iso1RelativeTimeInterval_ok v \<Longrightarrow> reads 88 (\<lambda>s. encode_iso1RelativeTimeIntervalType s v)
      (decode_iso1RelativeTimeIntervalType j) a (same_iso1RelativeTimeInterval v)"
  unfolding encode_iso1RelativeTimeIntervalType_def decode_iso1RelativeTimeIntervalType_def [abs_def]
  by (rule reads_start [OF iso1RelativeTimeInterval.machine_reads, of _ 60, THEN reads_mono])
      (auto simp: iso1RelativeTimeInterval_at_def  init_iso1RelativeTimeIntervalType_def left_at_def)

interpretation iso1RelativeTimeInterval_enc: advancing_machine "iso1RelativeTimeInterval_enc_step v" "left_at
    [(60, 3), (61, 2), (3, 1)]" for v
  by unfold_locales (auto simp: iso1RelativeTimeInterval_steps dest!: advance_dests split: if_splits;
      simp add: left_at_def)

interpretation iso1RelativeTimeInterval_dec: advancing_machine "iso1RelativeTimeInterval_dec_step j" "left_at
    [(60, 3), (61, 2), (3, 1)]" for j
  by unfold_locales (auto simp: iso1RelativeTimeInterval_steps dest!: advance_dests elim!:
      decode_switch_next split: if_splits;
      simp add: left_at_def)

subsection \<open>\<open>iso1EMAIDType\<close>\<close>

record iso1EMAIDType =
  iso1EMAID_Id_characters :: "u8 list"
  iso1EMAID_Id_charactersLen :: u16
  iso1EMAID_CONTENT_characters :: "u8 list"
  iso1EMAID_CONTENT_charactersLen :: u16

definition init_iso1EMAIDType :: "iso1EMAIDType \<Rightarrow> iso1EMAIDType" where
  "init_iso1EMAIDType a = a"

definition iso1EMAID_enc_step :: "iso1EMAIDType \<Rightarrow> unit machine" where
  "iso1EMAID_enc_step v grammarID x s =
     (if grammarID = 67 then
        goto 68 x (encode_child 1 0 (encode_string_field (iso1EMAID_Id_characters v) (iso1EMAID_Id_charactersLen v))
          s)
      else if grammarID = 68 then
        goto 3 x (encode_child 1 0
          (encode_string_field (iso1EMAID_CONTENT_characters v) (iso1EMAID_CONTENT_charactersLen v)) s)
      else if grammarID = 3 then
        finish 4 x (encodeNBitUnsignedInteger s 1 0)
      else Some (EXI_ERROR_UNKOWN_GRAMMAR_ID, (False, grammarID, x), s))"

definition encode_iso1EMAIDType :: "bitstream \<Rightarrow> iso1EMAIDType \<Rightarrow> (errn \<times> bitstream)
    option" where
  "encode_iso1EMAIDType s v = run_encoder (iso1EMAID_enc_step v) 67 () s"

definition iso1EMAID_dec_step :: "u32 \<Rightarrow> (dec_static \<times> iso1EMAIDType) machine" where
  "iso1EMAID_dec_step j grammarID x s =
     (if grammarID = 67 then
        decode_switch 1
         [(0, decode_child 68
           (decode_string_field j 51 iso1EMAID_Id_characters
           (\<lambda>u a. a\<lparr>iso1EMAID_Id_characters := u\<rparr>)
           (\<lambda>u a. a\<lparr>iso1EMAID_Id_charactersLen := u\<rparr>)))] 67 x s
      else if grammarID = 68 then
        decode_switch 1
         [(0, decode_child 3
           (decode_string_field j 51 iso1EMAID_CONTENT_characters
           (\<lambda>u a. a\<lparr>iso1EMAID_CONTENT_characters := u\<rparr>)
           (\<lambda>u a. a\<lparr>iso1EMAID_CONTENT_charactersLen := u\<rparr>)))] 68 x s
      else if grammarID = 3 then
        decode_switch 1
         [(0, decode_end 4)] 3 x s
      else Some (EXI_ERROR_UNKOWN_GRAMMAR_ID, (False, grammarID, x), s))"

definition decode_iso1EMAIDType :: "u32 \<Rightarrow> iso1EMAIDType decoder" where
  "decode_iso1EMAIDType j x s = grammar_loop (iso1EMAID_dec_step j) 67 (fst x, init_iso1EMAIDType (snd x)) s"

definition iso1EMAID_ok :: "iso1EMAIDType \<Rightarrow> bool" where
  "iso1EMAID_ok v \<longleftrightarrow>
     string_ok 51 (iso1EMAID_Id_characters v) (iso1EMAID_Id_charactersLen v) \<and>
     string_ok 51 (iso1EMAID_CONTENT_characters v) (iso1EMAID_CONTENT_charactersLen v)"

definition iso1EMAID_sized :: "iso1EMAIDType \<Rightarrow> bool" where
  "iso1EMAID_sized a \<longleftrightarrow>
     length (iso1EMAID_Id_characters a) = 51 \<and>
     length (iso1EMAID_CONTENT_characters a) = 51"

definition same_iso1EMAID :: "iso1EMAIDType \<Rightarrow> iso1EMAIDType \<Rightarrow> bool" where
  "same_iso1EMAID v a \<longleftrightarrow>
     iso1EMAID_Id_charactersLen a = iso1EMAID_Id_charactersLen v \<and> take (unat (iso1EMAID_Id_charactersLen v))
       (iso1EMAID_Id_characters a) = take (unat (iso1EMAID_Id_charactersLen v)) (iso1EMAID_Id_characters v) \<and>
     iso1EMAID_CONTENT_charactersLen a = iso1EMAID_CONTENT_charactersLen v \<and>
       take (unat (iso1EMAID_CONTENT_charactersLen v)) (iso1EMAID_CONTENT_characters a) = take
       (unat (iso1EMAID_CONTENT_charactersLen v)) (iso1EMAID_CONTENT_characters v)"

definition iso1EMAID_at :: "iso1EMAIDType \<Rightarrow> nat \<Rightarrow> iso1EMAIDType \<Rightarrow> bool" where
  "iso1EMAID_at v g a \<longleftrightarrow>
     iso1EMAID_ok v \<and>
     g \<in> {67, 68, 3} \<and>
     iso1EMAID_sized a \<and>
     (g \<notin> {67} \<longrightarrow> iso1EMAID_Id_charactersLen a = iso1EMAID_Id_charactersLen v \<and>
       take (unat (iso1EMAID_Id_charactersLen v)) (iso1EMAID_Id_characters a) = take
       (unat (iso1EMAID_Id_charactersLen v)) (iso1EMAID_Id_characters v)) \<and>
     (g \<notin> {67, 68} \<longrightarrow> iso1EMAID_CONTENT_charactersLen a = iso1EMAID_CONTENT_charactersLen v
       \<and> take (unat (iso1EMAID_CONTENT_charactersLen v)) (iso1EMAID_CONTENT_characters a) = take
       (unat (iso1EMAID_CONTENT_charactersLen v)) (iso1EMAID_CONTENT_characters v))"

lemmas iso1EMAID_steps = iso1EMAID_enc_step_def
  iso1EMAID_dec_step_def

lemmas iso1EMAID_props = iso1EMAID_at_def iso1EMAID_sized_def same_iso1EMAID_def left_at_def

interpretation iso1EMAID: paired_machines "iso1EMAID_enc_step v" "iso1EMAID_dec_step j" "iso1EMAID_at v"
  "left_at [(67, 867), (68, 434), (3, 1)]" "\<lambda>a. same_iso1EMAID v a \<and> iso1EMAID_sized a" for v j
proof
  fix g a assume at: "iso1EMAID_at v g a"
  then have "g \<in> {67, 68, 3}" by (simp add: iso1EMAID_at_def)
  then show "hops (iso1EMAID_enc_step v) (iso1EMAID_dec_step j) (iso1EMAID_at v)
    (left_at [(67, 867), (68, 434), (3, 1)]) (\<lambda>a. same_iso1EMAID v a \<and> iso1EMAID_sized a) g a" using at
    by - (elim insertE emptyE; (hypsubst, rule hops_by, simp (no_asm) add: iso1EMAID_steps del: One_nat_def,
      simp (no_asm) add: iso1EMAID_steps del: One_nat_def, simp (asm_lr) add: iso1EMAID_props del: One_nat_def,
        (elim conjE)?,
      ((rule walks_ifs)+)?); (frule iso1EMAID_ok_def [THEN iffD1], ((drule (1) known)+)?, (elim conjE)?,
        ((drule (1) known)+)?, (elim conjE)?,
      (((rule walks_shapes, simp (no_asm) del: One_nat_def, ((rule reads_intros)+)?);
      ((elim exE conjE)?,
        ((simp (no_asm_simp) add: iso1EMAID_props; fail) | (simp (asm_lr) add: iso1EMAID_props; fail) |
        (auto simp: iso1EMAID_props; fail)))) | (erule (1) notE; fail) |
        ((elim exE conjE)?,
        ((simp (no_asm_simp) add: iso1EMAID_props; fail) | (simp (asm_lr) add: iso1EMAID_props; fail) |
        (auto simp: iso1EMAID_props; fail))))))
qed

lemma reads_iso1EMAID [reads_intros]:
  "iso1EMAID_ok v \<Longrightarrow> iso1EMAID_sized a \<Longrightarrow>
      reads 867 (\<lambda>s. encode_iso1EMAIDType s v) (decode_iso1EMAIDType j) a
      (\<lambda>a. same_iso1EMAID v a \<and> iso1EMAID_sized a)"
  unfolding encode_iso1EMAIDType_def decode_iso1EMAIDType_def [abs_def]
  by (rule reads_start [OF iso1EMAID.machine_reads, of _ 67, THEN reads_mono])
      (auto simp: iso1EMAID_at_def iso1EMAID_sized_def init_iso1EMAIDType_def left_at_def)

interpretation iso1EMAID_enc: advancing_machine "iso1EMAID_enc_step v" "left_at [(67, 3), (68, 2), (3, 1)]" for v
  by unfold_locales (auto simp: iso1EMAID_steps dest!: advance_dests split: if_splits;
      simp add: left_at_def)

interpretation iso1EMAID_dec: advancing_machine "iso1EMAID_dec_step j" "left_at [(67, 3), (68, 2), (3, 1)]" for j
  by unfold_locales (auto simp: iso1EMAID_steps left_at_def dest!: advance_dests elim!: decode_switch_next split:
      if_splits)

subsection \<open>\<open>iso1MeterInfoType\<close>\<close>

record iso1MeterInfoType =
  iso1MeterInfo_MeterID_characters :: "u8 list"
  iso1MeterInfo_MeterID_charactersLen :: u16
  iso1MeterInfo_MeterReading :: u64
  iso1MeterInfo_MeterReading_isUsed :: bool
  iso1MeterInfo_SigMeterReading_bytes :: "u8 list"
  iso1MeterInfo_SigMeterReading_bytesLen :: u16
  iso1MeterInfo_SigMeterReading_isUsed :: bool
  iso1MeterInfo_MeterStatus :: u16
  iso1MeterInfo_MeterStatus_isUsed :: bool
  iso1MeterInfo_TMeter :: u64
  iso1MeterInfo_TMeter_isUsed :: bool

definition init_iso1MeterInfoType :: "iso1MeterInfoType \<Rightarrow> iso1MeterInfoType" where
  "init_iso1MeterInfoType a = a\<lparr>iso1MeterInfo_MeterReading_isUsed := False,
      iso1MeterInfo_SigMeterReading_isUsed := False, iso1MeterInfo_MeterStatus_isUsed := False,
      iso1MeterInfo_TMeter_isUsed := False\<rparr>"

definition iso1MeterInfo_enc_step_2 :: "iso1MeterInfoType \<Rightarrow> unit machine" where
  "iso1MeterInfo_enc_step_2 v grammarID x s =
     (if grammarID = 85 then
        if iso1MeterInfo_MeterStatus_isUsed v then
          goto 86 x (encode_simple 2 0 (\<lambda>s. encodeInteger16 s (iso1MeterInfo_MeterStatus v)) s)
        else if iso1MeterInfo_TMeter_isUsed v then
          goto 3 x (encode_simple 2 1 (\<lambda>s. encodeInteger64 s (iso1MeterInfo_TMeter v)) s)
        else finish 4 x (encodeNBitUnsignedInteger s 2 2)
      else if grammarID = 86 then
        if iso1MeterInfo_TMeter_isUsed v then
          goto 3 x (encode_simple 2 0 (\<lambda>s. encodeInteger64 s (iso1MeterInfo_TMeter v)) s)
        else finish 4 x (encodeNBitUnsignedInteger s 2 1)
      else if grammarID = 3 then
        finish 4 x (encodeNBitUnsignedInteger s 1 0)
      else Some (EXI_ERROR_UNKOWN_GRAMMAR_ID, (False, grammarID, x), s))"

definition iso1MeterInfo_enc_step :: "iso1MeterInfoType \<Rightarrow> unit machine" where
  "iso1MeterInfo_enc_step v grammarID x s =
     (if grammarID = 82 then
        goto 83 x
          (encode_simple 1 0
          (encode_string_field (iso1MeterInfo_MeterID_characters v) (iso1MeterInfo_MeterID_charactersLen v)) s)
      else if grammarID = 83 then
        if iso1MeterInfo_MeterReading_isUsed v then
          goto 84 x (encode_simple 3 0 (\<lambda>s. encodeUnsignedInteger64 s (iso1MeterInfo_MeterReading v)) s)
        else if iso1MeterInfo_SigMeterReading_isUsed v then
          goto 85 x
          (encode_simple 3 1
          (encode_bytes_field (iso1MeterInfo_SigMeterReading_bytes v) (iso1MeterInfo_SigMeterReading_bytesLen v)) s)
        else if iso1MeterInfo_MeterStatus_isUsed v then
          goto 86 x (encode_simple 3 2 (\<lambda>s. encodeInteger16 s (iso1MeterInfo_MeterStatus v)) s)
        else if iso1MeterInfo_TMeter_isUsed v then
          goto 3 x (encode_simple 3 3 (\<lambda>s. encodeInteger64 s (iso1MeterInfo_TMeter v)) s)
        else finish 4 x (encodeNBitUnsignedInteger s 3 4)
      else if grammarID = 84 then
        if iso1MeterInfo_SigMeterReading_isUsed v then
          goto 85 x
          (encode_simple 3 0
          (encode_bytes_field (iso1MeterInfo_SigMeterReading_bytes v) (iso1MeterInfo_SigMeterReading_bytesLen v)) s)
        else if iso1MeterInfo_MeterStatus_isUsed v then
          goto 86 x (encode_simple 3 1 (\<lambda>s. encodeInteger16 s (iso1MeterInfo_MeterStatus v)) s)
        else if iso1MeterInfo_TMeter_isUsed v then
          goto 3 x (encode_simple 3 2 (\<lambda>s. encodeInteger64 s (iso1MeterInfo_TMeter v)) s)
        else finish 4 x (encodeNBitUnsignedInteger s 3 3)
      else iso1MeterInfo_enc_step_2 v grammarID x s)"

definition encode_iso1MeterInfoType :: "bitstream \<Rightarrow> iso1MeterInfoType \<Rightarrow>
    (errn \<times> bitstream) option" where
  "encode_iso1MeterInfoType s v = run_encoder (iso1MeterInfo_enc_step v) 82 () s"

definition iso1MeterInfo_dec_step_4 :: "u32 \<Rightarrow> (dec_static \<times> iso1MeterInfoType) machine" where
  "iso1MeterInfo_dec_step_4 j grammarID x s =
     (if grammarID = 86 then
        decode_switch 2
         [(0, decode_simple 86 3 (decode_used (\<lambda>a. a\<lparr>iso1MeterInfo_TMeter_isUsed := True\<rparr>)
           (decode_i64_field j iso1MeterInfo_TMeter (\<lambda>u a. a\<lparr>iso1MeterInfo_TMeter := u\<rparr>)))),
          (1, decode_end 4)] 86 x s
      else if grammarID = 3 then
        decode_switch 1
         [(0, decode_end 4)] 3 x s
      else Some (EXI_ERROR_UNKOWN_GRAMMAR_ID, (False, grammarID, x), s))"

definition iso1MeterInfo_dec_step_3 :: "u32 \<Rightarrow> (dec_static \<times> iso1MeterInfoType) machine" where
  "iso1MeterInfo_dec_step_3 j grammarID x s =
     (if grammarID = 84 then
        decode_switch 3
         [(0, decode_simple 84 85
           (decode_used (\<lambda>a. a\<lparr>iso1MeterInfo_SigMeterReading_isUsed := True\<rparr>)
           (decode_bytes_field j 64 iso1MeterInfo_SigMeterReading_bytes
           (\<lambda>u a. a\<lparr>iso1MeterInfo_SigMeterReading_bytes := u\<rparr>)
           (\<lambda>u a. a\<lparr>iso1MeterInfo_SigMeterReading_bytesLen := u\<rparr>)))),
          (1, decode_simple 84 86 (decode_used (\<lambda>a. a\<lparr>iso1MeterInfo_MeterStatus_isUsed := True\<rparr>)
            (decode_i16_field j iso1MeterInfo_MeterStatus
            (\<lambda>u a. a\<lparr>iso1MeterInfo_MeterStatus := u\<rparr>)))),
          (2, decode_simple 84 3 (decode_used (\<lambda>a. a\<lparr>iso1MeterInfo_TMeter_isUsed := True\<rparr>)
            (decode_i64_field j iso1MeterInfo_TMeter (\<lambda>u a. a\<lparr>iso1MeterInfo_TMeter := u\<rparr>)))),
          (3, decode_end 4)] 84 x s
      else if grammarID = 85 then
        decode_switch 2
         [(0, decode_simple 85 86 (decode_used (\<lambda>a. a\<lparr>iso1MeterInfo_MeterStatus_isUsed := True\<rparr>)
           (decode_i16_field j iso1MeterInfo_MeterStatus
           (\<lambda>u a. a\<lparr>iso1MeterInfo_MeterStatus := u\<rparr>)))),
          (1, decode_simple 85 3 (decode_used (\<lambda>a. a\<lparr>iso1MeterInfo_TMeter_isUsed := True\<rparr>)
            (decode_i64_field j iso1MeterInfo_TMeter (\<lambda>u a. a\<lparr>iso1MeterInfo_TMeter := u\<rparr>)))),
          (2, decode_end 4)] 85 x s
      else iso1MeterInfo_dec_step_4 j grammarID x s)"

definition iso1MeterInfo_dec_step_2 :: "u32 \<Rightarrow> (dec_static \<times> iso1MeterInfoType) machine" where
  "iso1MeterInfo_dec_step_2 j grammarID x s =
     (if grammarID = 83 then
        decode_switch 3
         [(0, decode_simple 83 84
           (decode_used (\<lambda>a. a\<lparr>iso1MeterInfo_MeterReading_isUsed := True\<rparr>)
           (decode_u64_field j (\<lambda>u a. a\<lparr>iso1MeterInfo_MeterReading := u\<rparr>)))),
          (1, decode_simple 83 85
            (decode_used (\<lambda>a. a\<lparr>iso1MeterInfo_SigMeterReading_isUsed := True\<rparr>)
            (decode_bytes_field j 64 iso1MeterInfo_SigMeterReading_bytes
            (\<lambda>u a. a\<lparr>iso1MeterInfo_SigMeterReading_bytes := u\<rparr>)
            (\<lambda>u a. a\<lparr>iso1MeterInfo_SigMeterReading_bytesLen := u\<rparr>)))),
          (2, decode_simple 83 86 (decode_used (\<lambda>a. a\<lparr>iso1MeterInfo_MeterStatus_isUsed := True\<rparr>)
            (decode_i16_field j iso1MeterInfo_MeterStatus
            (\<lambda>u a. a\<lparr>iso1MeterInfo_MeterStatus := u\<rparr>)))),
          (3, decode_simple 83 3 (decode_used (\<lambda>a. a\<lparr>iso1MeterInfo_TMeter_isUsed := True\<rparr>)
            (decode_i64_field j iso1MeterInfo_TMeter (\<lambda>u a. a\<lparr>iso1MeterInfo_TMeter := u\<rparr>)))),
          (4, decode_end 4)] 83 x s
      else iso1MeterInfo_dec_step_3 j grammarID x s)"

definition iso1MeterInfo_dec_step :: "u32 \<Rightarrow> (dec_static \<times> iso1MeterInfoType) machine" where
  "iso1MeterInfo_dec_step j grammarID x s =
     (if grammarID = 82 then
        decode_switch 1
         [(0, decode_simple 82 83
           (decode_string_field j 33 iso1MeterInfo_MeterID_characters
           (\<lambda>u a. a\<lparr>iso1MeterInfo_MeterID_characters := u\<rparr>)
           (\<lambda>u a. a\<lparr>iso1MeterInfo_MeterID_charactersLen := u\<rparr>)))] 82 x s
      else iso1MeterInfo_dec_step_2 j grammarID x s)"

definition decode_iso1MeterInfoType :: "u32 \<Rightarrow> iso1MeterInfoType decoder" where
  "decode_iso1MeterInfoType j x s = grammar_loop (iso1MeterInfo_dec_step j) 82 (fst x, init_iso1MeterInfoType (snd x))
      s"

definition iso1MeterInfo_ok :: "iso1MeterInfoType \<Rightarrow> bool" where
  "iso1MeterInfo_ok v \<longleftrightarrow>
     string_ok 33 (iso1MeterInfo_MeterID_characters v) (iso1MeterInfo_MeterID_charactersLen v) \<and>
     when_used (iso1MeterInfo_SigMeterReading_isUsed v) (length (iso1MeterInfo_SigMeterReading_bytes v) = 64 \<and>
       unat (iso1MeterInfo_SigMeterReading_bytesLen v) \<le> 64) \<and>
     when_used (iso1MeterInfo_TMeter_isUsed v) (sint (iso1MeterInfo_TMeter v) \<noteq> - (2 ^ 63))"

definition iso1MeterInfo_sized :: "iso1MeterInfoType \<Rightarrow> bool" where
  "iso1MeterInfo_sized a \<longleftrightarrow>
     length (iso1MeterInfo_MeterID_characters a) = 33 \<and>
     length (iso1MeterInfo_SigMeterReading_bytes a) = 64"

definition same_iso1MeterInfo :: "iso1MeterInfoType \<Rightarrow> iso1MeterInfoType \<Rightarrow> bool" where
  "same_iso1MeterInfo v a \<longleftrightarrow>
     iso1MeterInfo_MeterID_charactersLen a = iso1MeterInfo_MeterID_charactersLen v \<and>
       take (unat (iso1MeterInfo_MeterID_charactersLen v)) (iso1MeterInfo_MeterID_characters a) = take
       (unat (iso1MeterInfo_MeterID_charactersLen v)) (iso1MeterInfo_MeterID_characters v) \<and>
     kept (iso1MeterInfo_MeterReading_isUsed v) (iso1MeterInfo_MeterReading_isUsed a)
       (iso1MeterInfo_MeterReading a = iso1MeterInfo_MeterReading v) \<and>
     kept (iso1MeterInfo_SigMeterReading_isUsed v) (iso1MeterInfo_SigMeterReading_isUsed a)
       (iso1MeterInfo_SigMeterReading_bytesLen a = iso1MeterInfo_SigMeterReading_bytesLen v \<and>
       take (unat (iso1MeterInfo_SigMeterReading_bytesLen v)) (iso1MeterInfo_SigMeterReading_bytes a) = take
       (unat (iso1MeterInfo_SigMeterReading_bytesLen v)) (iso1MeterInfo_SigMeterReading_bytes v)) \<and>
     kept (iso1MeterInfo_MeterStatus_isUsed v) (iso1MeterInfo_MeterStatus_isUsed a)
       (iso1MeterInfo_MeterStatus a = iso1MeterInfo_MeterStatus v) \<and>
     kept (iso1MeterInfo_TMeter_isUsed v) (iso1MeterInfo_TMeter_isUsed a)
       (iso1MeterInfo_TMeter a = iso1MeterInfo_TMeter v)"

definition iso1MeterInfo_at :: "iso1MeterInfoType \<Rightarrow> nat \<Rightarrow> iso1MeterInfoType \<Rightarrow>
    bool" where
  "iso1MeterInfo_at v g a \<longleftrightarrow>
     iso1MeterInfo_ok v \<and>
     g \<in> {82, 83, 84, 85, 86, 3} \<and>
     iso1MeterInfo_sized a \<and>
     (g \<notin> {82} \<longrightarrow> iso1MeterInfo_MeterID_charactersLen a = iso1MeterInfo_MeterID_charactersLen v
       \<and> take (unat (iso1MeterInfo_MeterID_charactersLen v)) (iso1MeterInfo_MeterID_characters a) = take
       (unat (iso1MeterInfo_MeterID_charactersLen v)) (iso1MeterInfo_MeterID_characters v)) \<and>
     (if g \<in> {82, 83} then \<not> iso1MeterInfo_MeterReading_isUsed a
      else kept (iso1MeterInfo_MeterReading_isUsed v) (iso1MeterInfo_MeterReading_isUsed a)
        (iso1MeterInfo_MeterReading a = iso1MeterInfo_MeterReading v)) \<and>
     (if g \<in> {82, 83, 84} then \<not> iso1MeterInfo_SigMeterReading_isUsed a
      else kept (iso1MeterInfo_SigMeterReading_isUsed v) (iso1MeterInfo_SigMeterReading_isUsed a)
        (iso1MeterInfo_SigMeterReading_bytesLen a = iso1MeterInfo_SigMeterReading_bytesLen v \<and>
        take (unat (iso1MeterInfo_SigMeterReading_bytesLen v)) (iso1MeterInfo_SigMeterReading_bytes a) = take
        (unat (iso1MeterInfo_SigMeterReading_bytesLen v)) (iso1MeterInfo_SigMeterReading_bytes v))) \<and>
     (if g \<in> {82, 83, 84, 85} then \<not> iso1MeterInfo_MeterStatus_isUsed a
      else kept (iso1MeterInfo_MeterStatus_isUsed v) (iso1MeterInfo_MeterStatus_isUsed a)
        (iso1MeterInfo_MeterStatus a = iso1MeterInfo_MeterStatus v)) \<and>
     (if g \<in> {82, 83, 84, 85, 86} then \<not> iso1MeterInfo_TMeter_isUsed a
      else kept (iso1MeterInfo_TMeter_isUsed v) (iso1MeterInfo_TMeter_isUsed a)
        (iso1MeterInfo_TMeter a = iso1MeterInfo_TMeter v))"

lemmas iso1MeterInfo_steps = iso1MeterInfo_enc_step_def iso1MeterInfo_enc_step_2_def
  iso1MeterInfo_dec_step_def iso1MeterInfo_dec_step_2_def iso1MeterInfo_dec_step_3_def iso1MeterInfo_dec_step_4_def

lemmas iso1MeterInfo_props = iso1MeterInfo_at_def iso1MeterInfo_sized_def same_iso1MeterInfo_def left_at_def

interpretation iso1MeterInfo: paired_machines "iso1MeterInfo_enc_step v" "iso1MeterInfo_dec_step j" "iso1MeterInfo_at
    v"
  "left_at [(82, 1032), (83, 741), (84, 656), (85, 115), (86, 86), (3, 1)]" "\<lambda>a. same_iso1MeterInfo v a \<and>
      iso1MeterInfo_sized a" for v j
proof
  fix g a assume at: "iso1MeterInfo_at v g a"
  then have "g \<in> {82, 83, 84, 85, 86, 3}" by (simp add: iso1MeterInfo_at_def)
  then show "hops (iso1MeterInfo_enc_step v) (iso1MeterInfo_dec_step j) (iso1MeterInfo_at v)
    (left_at [(82, 1032), (83, 741), (84, 656), (85, 115), (86, 86), (3, 1)])
      (\<lambda>a. same_iso1MeterInfo v a \<and> iso1MeterInfo_sized a) g a" using at
    by - (elim insertE emptyE; (hypsubst, rule hops_by, simp (no_asm) add: iso1MeterInfo_steps del: One_nat_def,
      simp (no_asm) add: iso1MeterInfo_steps del: One_nat_def, simp (asm_lr) add: iso1MeterInfo_props del:
        One_nat_def, (elim conjE)?,
      ((rule walks_ifs)+)?); (frule iso1MeterInfo_ok_def [THEN iffD1], ((drule (1) known)+)?, (elim conjE)?,
        ((drule (1) known)+)?, (elim conjE)?,
      (((rule walks_shapes, simp (no_asm) del: One_nat_def, ((rule reads_intros)+)?);
      ((elim exE conjE)?,
        ((simp (no_asm_simp) add: iso1MeterInfo_props; fail) | (simp (asm_lr) add: iso1MeterInfo_props; fail) |
        (auto simp: iso1MeterInfo_props; fail)))) | (erule (1) notE; fail) |
        ((elim exE conjE)?,
        ((simp (no_asm_simp) add: iso1MeterInfo_props; fail) | (simp (asm_lr) add: iso1MeterInfo_props; fail) |
        (auto simp: iso1MeterInfo_props; fail))))))
qed

lemma reads_iso1MeterInfo [reads_intros]:
  "iso1MeterInfo_ok v \<Longrightarrow> iso1MeterInfo_sized a \<Longrightarrow>
      reads 1032 (\<lambda>s. encode_iso1MeterInfoType s v) (decode_iso1MeterInfoType j) a
      (\<lambda>a. same_iso1MeterInfo v a \<and> iso1MeterInfo_sized a)"
  unfolding encode_iso1MeterInfoType_def decode_iso1MeterInfoType_def [abs_def]
  by (rule reads_start [OF iso1MeterInfo.machine_reads, of _ 82, THEN reads_mono])
      (auto simp: iso1MeterInfo_at_def iso1MeterInfo_sized_def init_iso1MeterInfoType_def left_at_def)

interpretation iso1MeterInfo_enc: advancing_machine "iso1MeterInfo_enc_step v" "left_at
    [(82, 6), (83, 5), (84, 4), (85, 3), (86, 2), (3, 1)]" for v
  by unfold_locales (auto simp: iso1MeterInfo_steps dest!: advance_dests split: if_splits;
      simp add: left_at_def)

interpretation iso1MeterInfo_dec: advancing_machine "iso1MeterInfo_dec_step j" "left_at
    [(82, 6), (83, 5), (84, 4), (85, 3), (86, 2), (3, 1)]" for j
  by unfold_locales (auto simp: iso1MeterInfo_steps left_at_def dest!: advance_dests elim!: decode_switch_next split:
      if_splits)

subsection \<open>\<open>iso1EntryType\<close>\<close>

record iso1EntryType =
  iso1Entry_TimeInterval :: iso1IntervalType
  iso1Entry_RelativeTimeInterval :: iso1RelativeTimeIntervalType
  iso1Entry_TimeInterval_isUsed :: bool
  iso1Entry_RelativeTimeInterval_isUsed :: bool

definition init_iso1EntryType :: "iso1EntryType \<Rightarrow> iso1EntryType" where
  "init_iso1EntryType a = a\<lparr>iso1Entry_TimeInterval_isUsed := False, iso1Entry_RelativeTimeInterval_isUsed
      := False\<rparr>"

definition iso1Entry_enc_step :: "iso1EntryType \<Rightarrow> unit machine" where
  "iso1Entry_enc_step v grammarID x s =
     (if grammarID = 288 then
        if iso1Entry_RelativeTimeInterval_isUsed v then
          goto 3 x (encode_child 2 0
          (\<lambda>s. encode_iso1RelativeTimeIntervalType s (iso1Entry_RelativeTimeInterval v)) s)
        else if iso1Entry_TimeInterval_isUsed v then
          goto 3 x (encode_child 2 1 (\<lambda>s. encode_iso1IntervalType s (iso1Entry_TimeInterval v)) s)
        else Some (EXI_ERROR_UNKOWN_EVENT, (False, grammarID, x), s)
      else if grammarID = 3 then
        finish 4 x (encodeNBitUnsignedInteger s 1 0)
      else Some (EXI_ERROR_UNKOWN_GRAMMAR_ID, (False, grammarID, x), s))"

definition encode_iso1EntryType :: "bitstream \<Rightarrow> iso1EntryType \<Rightarrow> (errn \<times> bitstream)
    option" where
  "encode_iso1EntryType s v = run_encoder (iso1Entry_enc_step v) 288 () s"

definition iso1Entry_dec_step :: "u32 \<Rightarrow> (dec_static \<times> iso1EntryType) machine" where
  "iso1Entry_dec_step j grammarID x s =
     (if grammarID = 288 then
        decode_switch 2
         [(0, decode_child 3 (decode_used (\<lambda>a. a\<lparr>iso1Entry_RelativeTimeInterval_isUsed := True\<rparr>)
           (decode_sub (decode_iso1RelativeTimeIntervalType j) iso1Entry_RelativeTimeInterval
           (\<lambda>u a. a\<lparr>iso1Entry_RelativeTimeInterval := u\<rparr>)))),
          (1, decode_child 3 (decode_used (\<lambda>a. a\<lparr>iso1Entry_TimeInterval_isUsed := True\<rparr>)
            (decode_sub (decode_iso1IntervalType j) iso1Entry_TimeInterval
            (\<lambda>u a. a\<lparr>iso1Entry_TimeInterval := u\<rparr>))))] 288 x s
      else if grammarID = 3 then
        decode_switch 1
         [(0, decode_end 4)] 3 x s
      else Some (EXI_ERROR_UNKOWN_GRAMMAR_ID, (False, grammarID, x), s))"

definition decode_iso1EntryType :: "u32 \<Rightarrow> iso1EntryType decoder" where
  "decode_iso1EntryType j x s = grammar_loop (iso1Entry_dec_step j) 288 (fst x, init_iso1EntryType (snd x)) s"

definition iso1Entry_ok :: "iso1EntryType \<Rightarrow> bool" where
  "iso1Entry_ok v \<longleftrightarrow>
     when_used (iso1Entry_RelativeTimeInterval_isUsed v)
       (iso1RelativeTimeInterval_ok (iso1Entry_RelativeTimeInterval v)) \<and>
     some_of [iso1Entry_RelativeTimeInterval_isUsed v, iso1Entry_TimeInterval_isUsed v] \<and>
     exclusive [iso1Entry_RelativeTimeInterval_isUsed v, iso1Entry_TimeInterval_isUsed v]"

definition same_iso1Entry :: "iso1EntryType \<Rightarrow> iso1EntryType \<Rightarrow> bool" where
  "same_iso1Entry v a \<longleftrightarrow>
     kept (iso1Entry_RelativeTimeInterval_isUsed v) (iso1Entry_RelativeTimeInterval_isUsed a)
       (same_iso1RelativeTimeInterval (iso1Entry_RelativeTimeInterval v) (iso1Entry_RelativeTimeInterval a)) \<and>
     kept (iso1Entry_TimeInterval_isUsed v) (iso1Entry_TimeInterval_isUsed a)
       (same_iso1Interval (iso1Entry_TimeInterval v) (iso1Entry_TimeInterval a))"

definition iso1Entry_at :: "iso1EntryType \<Rightarrow> nat \<Rightarrow> iso1EntryType \<Rightarrow> bool" where
  "iso1Entry_at v g a \<longleftrightarrow>
     iso1Entry_ok v \<and>
     g \<in> {288, 3} \<and>
     (if g \<in> {288} then \<not> iso1Entry_RelativeTimeInterval_isUsed a
      else kept (iso1Entry_RelativeTimeInterval_isUsed v) (iso1Entry_RelativeTimeInterval_isUsed a)
        (same_iso1RelativeTimeInterval (iso1Entry_RelativeTimeInterval v) (iso1Entry_RelativeTimeInterval a))) \<and>
     (if g \<in> {288} then \<not> iso1Entry_TimeInterval_isUsed a
      else kept (iso1Entry_TimeInterval_isUsed v) (iso1Entry_TimeInterval_isUsed a)
        (same_iso1Interval (iso1Entry_TimeInterval v) (iso1Entry_TimeInterval a)))"

lemmas iso1Entry_steps = iso1Entry_enc_step_def
  iso1Entry_dec_step_def

lemmas iso1Entry_props = iso1Entry_at_def same_iso1Entry_def left_at_def

interpretation iso1Entry: paired_machines "iso1Entry_enc_step v" "iso1Entry_dec_step j" "iso1Entry_at v"
  "left_at [(288, 91), (3, 1)]" "same_iso1Entry v" for v j
proof
  fix g a assume at: "iso1Entry_at v g a"
  then have "g \<in> {288, 3}" by (simp add: iso1Entry_at_def)
  then show "hops (iso1Entry_enc_step v) (iso1Entry_dec_step j) (iso1Entry_at v)
    (left_at [(288, 91), (3, 1)]) (same_iso1Entry v) g a" using at
    by - (elim insertE emptyE; (hypsubst, rule hops_by, simp (no_asm) add: iso1Entry_steps del: One_nat_def,
      simp (no_asm) add: iso1Entry_steps del: One_nat_def, simp (asm_lr) add: iso1Entry_props del: One_nat_def,
        (elim conjE)?,
      ((rule walks_ifs)+)?); (frule iso1Entry_ok_def [THEN iffD1], ((drule (1) known)+)?, (elim conjE)?,
        ((drule (1) known)+)?, (elim conjE)?,
      (((rule walks_shapes, simp (no_asm) del: One_nat_def, ((rule reads_intros)+)?);
      ((elim exE conjE)?,
        ((simp (no_asm_simp) add: iso1Entry_props; fail) | (simp (asm_lr) add: iso1Entry_props; fail) |
        (auto simp: iso1Entry_props; fail)))) | (erule (1) notE; fail) |
        ((elim exE conjE)?,
        ((simp (no_asm_simp) add: iso1Entry_props; fail) | (simp (asm_lr) add: iso1Entry_props; fail) |
        (auto simp: iso1Entry_props; fail))))))
qed

lemma reads_iso1Entry [reads_intros]:
  "iso1Entry_ok v \<Longrightarrow> reads 91 (\<lambda>s. encode_iso1EntryType s v) (decode_iso1EntryType j) a
      (same_iso1Entry v)"
  unfolding encode_iso1EntryType_def decode_iso1EntryType_def [abs_def]
  by (rule reads_start [OF iso1Entry.machine_reads, of _ 288, THEN reads_mono])
      (auto simp: iso1Entry_at_def  init_iso1EntryType_def left_at_def)

interpretation iso1Entry_enc: advancing_machine "iso1Entry_enc_step v" "left_at [(288, 2), (3, 1)]" for v
  by unfold_locales (auto simp: iso1Entry_steps dest!: advance_dests split: if_splits;
      simp add: left_at_def)

interpretation iso1Entry_dec: advancing_machine "iso1Entry_dec_step j" "left_at [(288, 2), (3, 1)]" for j
  by unfold_locales (auto simp: iso1Entry_steps left_at_def dest!: advance_dests elim!: decode_switch_next split:
      if_splits)

end
