(* ===== verification/Iso1Header.thy ===== *)
theory Iso1Header
  imports Iso1KeyInfo Iso1Values
begin

section \<open>ISO 15118 codec: the header of a message\<close>

text \<open>
  Session, notification and signature of a message, in the form explained in \<open>Iso1Values\<close>.
\<close>

subsection \<open>\<open>iso1SignatureType\<close>\<close>

record iso1SignatureType =
  iso1Signature_Id_characters :: "u8 list"
  iso1Signature_Id_charactersLen :: u16
  iso1Signature_Id_isUsed :: bool
  iso1Signature_SignedInfo :: iso1SignedInfoType
  iso1Signature_SignatureValue :: iso1SignatureValueType
  iso1Signature_KeyInfo :: iso1KeyInfoType
  iso1Signature_KeyInfo_isUsed :: bool
  iso1Signature_Object_array :: "iso1ObjectType list"
  iso1Signature_Object_arrayLen :: u16

definition init_iso1SignatureType :: "iso1SignatureType \<Rightarrow> iso1SignatureType" where
  "init_iso1SignatureType a = a\<lparr>iso1Signature_Id_isUsed := False, iso1Signature_KeyInfo_isUsed := False,
      iso1Signature_Object_arrayLen := 0\<rparr>"

record iso1Signature_locals =
  iso1Signature_Object_currArrayIndex :: nat

definition iso1Signature_enc_step :: "iso1SignatureType \<Rightarrow> iso1Signature_locals machine" where
  "iso1Signature_enc_step v grammarID x s =
     (if grammarID = 5 then
        if iso1Signature_Id_isUsed v then
          goto 6 x (encode_child 2 0
          (encode_string_field (iso1Signature_Id_characters v) (iso1Signature_Id_charactersLen v)) s)
        else goto 7 x (encode_child 2 1 (\<lambda>s. encode_iso1SignedInfoType s (iso1Signature_SignedInfo v)) s)
      else if grammarID = 6 then
        goto 7 x (encode_child 1 0 (\<lambda>s. encode_iso1SignedInfoType s (iso1Signature_SignedInfo v)) s)
      else if grammarID = 7 then
        goto 8 x (encode_child 1 0 (\<lambda>s. encode_iso1SignatureValueType s (iso1Signature_SignatureValue v)) s)
      else if grammarID = 8 then
        if iso1Signature_KeyInfo_isUsed v then
          goto 9 x (encode_child 2 0 (\<lambda>s. encode_iso1KeyInfoType s (iso1Signature_KeyInfo v)) s)
        else if iso1Signature_Object_currArrayIndex x < unat (iso1Signature_Object_arrayLen v) then
          encode_array_child 2 1 9 encode_iso1ObjectType (iso1Signature_Object_array v)
          iso1Signature_Object_currArrayIndex iso1Signature_Object_currArrayIndex_update x s
        else finish 4 x (encodeNBitUnsignedInteger s 2 2)
      else if grammarID = 9 then
        if iso1Signature_Object_currArrayIndex x < unat (iso1Signature_Object_arrayLen v) then
          encode_array_child 2 0 9 encode_iso1ObjectType (iso1Signature_Object_array v)
          iso1Signature_Object_currArrayIndex iso1Signature_Object_currArrayIndex_update x s
        else finish 4 x (encodeNBitUnsignedInteger s 2 1)
      else Some (EXI_ERROR_UNKOWN_GRAMMAR_ID, (False, grammarID, x), s))"

definition encode_iso1SignatureType :: "bitstream \<Rightarrow> iso1SignatureType \<Rightarrow>
    (errn \<times> bitstream) option" where
  "encode_iso1SignatureType s v = run_encoder (iso1Signature_enc_step v) 5
      \<lparr>iso1Signature_Object_currArrayIndex = 0\<rparr> s"

abbreviation (input) decode_next_iso1Signature_Object :: "u32 \<Rightarrow> iso1SignatureType decoder" where
  "decode_next_iso1Signature_Object j \<equiv> decode_element (decode_iso1ObjectType j) iso1Signature_Object_array
      iso1Signature_Object_arrayLen
      (\<lambda>xs n a. a\<lparr>iso1Signature_Object_array := xs, iso1Signature_Object_arrayLen := n\<rparr>)"

definition iso1Signature_dec_step :: "u32 \<Rightarrow> (dec_static \<times> iso1SignatureType) machine" where
  "iso1Signature_dec_step j grammarID x s =
     (if grammarID = 5 then
        decode_switch 2
         [(0, decode_child 6 (decode_used (\<lambda>a. a\<lparr>iso1Signature_Id_isUsed := True\<rparr>)
           (decode_string_field j 51 iso1Signature_Id_characters
           (\<lambda>u a. a\<lparr>iso1Signature_Id_characters := u\<rparr>)
           (\<lambda>u a. a\<lparr>iso1Signature_Id_charactersLen := u\<rparr>)))),
          (1, decode_child 7 (decode_sub (decode_iso1SignedInfoType j) iso1Signature_SignedInfo
            (\<lambda>u a. a\<lparr>iso1Signature_SignedInfo := u\<rparr>)))] 5 x s
      else if grammarID = 6 then
        decode_switch 1
         [(0, decode_child 7 (decode_sub (decode_iso1SignedInfoType j) iso1Signature_SignedInfo
           (\<lambda>u a. a\<lparr>iso1Signature_SignedInfo := u\<rparr>)))] 6 x s
      else if grammarID = 7 then
        decode_switch 1
         [(0, decode_child 8 (decode_sub (decode_iso1SignatureValueType j) iso1Signature_SignatureValue
           (\<lambda>u a. a\<lparr>iso1Signature_SignatureValue := u\<rparr>)))] 7 x s
      else if grammarID = 8 then
        decode_switch 2
         [(0, decode_child 9 (decode_used (\<lambda>a. a\<lparr>iso1Signature_KeyInfo_isUsed := True\<rparr>)
           (decode_sub (decode_iso1KeyInfoType j) iso1Signature_KeyInfo
           (\<lambda>u a. a\<lparr>iso1Signature_KeyInfo := u\<rparr>)))),
          (1, decode_array_child 9 1 iso1Signature_Object_arrayLen (decode_next_iso1Signature_Object j)),
          (2, decode_end 4)] 8 x s
      else if grammarID = 9 then
        decode_switch 2
         [(0, decode_array_child 9 1 iso1Signature_Object_arrayLen (decode_next_iso1Signature_Object j)),
          (1, decode_end 4)] 9 x s
      else Some (EXI_ERROR_UNKOWN_GRAMMAR_ID, (False, grammarID, x), s))"

definition decode_iso1SignatureType :: "u32 \<Rightarrow> iso1SignatureType decoder" where
  "decode_iso1SignatureType j x s = grammar_loop (iso1Signature_dec_step j) 5 (fst x, init_iso1SignatureType (snd x))
      s"

definition iso1Signature_ok :: "iso1SignatureType \<Rightarrow> bool" where
  "iso1Signature_ok v \<longleftrightarrow>
     when_used (iso1Signature_Id_isUsed v)
       (string_ok 51 (iso1Signature_Id_characters v) (iso1Signature_Id_charactersLen v)) \<and>
     iso1SignedInfo_ok (iso1Signature_SignedInfo v) \<and>
     iso1SignatureValue_ok (iso1Signature_SignatureValue v) \<and>
     when_used (iso1Signature_KeyInfo_isUsed v) (iso1KeyInfo_ok (iso1Signature_KeyInfo v)) \<and>
     length (iso1Signature_Object_array v) = 1 \<and> unat (iso1Signature_Object_arrayLen v) \<le> 1 \<and>
       in_use iso1Object_ok (iso1Signature_Object_array v) (iso1Signature_Object_arrayLen v)"

definition iso1Signature_sized :: "iso1SignatureType \<Rightarrow> bool" where
  "iso1Signature_sized a \<longleftrightarrow>
     length (iso1Signature_Id_characters a) = 51 \<and>
     iso1SignedInfo_sized (iso1Signature_SignedInfo a) \<and>
     iso1SignatureValue_sized (iso1Signature_SignatureValue a) \<and>
     iso1KeyInfo_sized (iso1Signature_KeyInfo a) \<and>
     length (iso1Signature_Object_array a) = 1 \<and>
     list_all iso1Object_sized (iso1Signature_Object_array a)"

definition same_iso1Signature :: "iso1SignatureType \<Rightarrow> iso1SignatureType \<Rightarrow> bool" where
  "same_iso1Signature v a \<longleftrightarrow>
     kept (iso1Signature_Id_isUsed v) (iso1Signature_Id_isUsed a)
       (iso1Signature_Id_charactersLen a = iso1Signature_Id_charactersLen v \<and>
       take (unat (iso1Signature_Id_charactersLen v)) (iso1Signature_Id_characters a) = take
       (unat (iso1Signature_Id_charactersLen v)) (iso1Signature_Id_characters v)) \<and>
     same_iso1SignedInfo (iso1Signature_SignedInfo v) (iso1Signature_SignedInfo a) \<and>
     same_iso1SignatureValue (iso1Signature_SignatureValue v) (iso1Signature_SignatureValue a) \<and>
     kept (iso1Signature_KeyInfo_isUsed v) (iso1Signature_KeyInfo_isUsed a)
       (same_iso1KeyInfo (iso1Signature_KeyInfo v) (iso1Signature_KeyInfo a)) \<and>
     iso1Signature_Object_arrayLen a = iso1Signature_Object_arrayLen v \<and>
       copied same_iso1Object (unat (iso1Signature_Object_arrayLen v)) (iso1Signature_Object_array v)
       (iso1Signature_Object_array a)"

definition iso1Signature_at :: "iso1SignatureType \<Rightarrow> nat \<Rightarrow> iso1Signature_locals \<Rightarrow>
    iso1SignatureType \<Rightarrow> bool" where
  "iso1Signature_at v g x a \<longleftrightarrow>
     counts [(5, 0), (6, 0), (7, 0), (8, 0)] g (iso1Signature_Object_currArrayIndex x) \<and>
     iso1Signature_ok v \<and>
     g \<in> {5, 6, 7, 8, 9} \<and>
     iso1Signature_sized a \<and>
     (if g \<in> {5} then \<not> iso1Signature_Id_isUsed a
      else kept (iso1Signature_Id_isUsed v) (iso1Signature_Id_isUsed a)
        (iso1Signature_Id_charactersLen a = iso1Signature_Id_charactersLen v \<and>
        take (unat (iso1Signature_Id_charactersLen v)) (iso1Signature_Id_characters a) = take
        (unat (iso1Signature_Id_charactersLen v)) (iso1Signature_Id_characters v))) \<and>
     (g \<notin> {5, 6} \<longrightarrow> same_iso1SignedInfo (iso1Signature_SignedInfo v)
       (iso1Signature_SignedInfo a)) \<and>
     (g \<notin> {5, 6, 7} \<longrightarrow> same_iso1SignatureValue (iso1Signature_SignatureValue v)
       (iso1Signature_SignatureValue a)) \<and>
     (if g \<in> {5, 6, 7, 8} then \<not> iso1Signature_KeyInfo_isUsed a
      else kept (iso1Signature_KeyInfo_isUsed v) (iso1Signature_KeyInfo_isUsed a)
        (same_iso1KeyInfo (iso1Signature_KeyInfo v) (iso1Signature_KeyInfo a))) \<and>
     unat (iso1Signature_Object_arrayLen a) = iso1Signature_Object_currArrayIndex x \<and>
       iso1Signature_Object_currArrayIndex x \<le> unat (iso1Signature_Object_arrayLen v) \<and>
     copied same_iso1Object (iso1Signature_Object_currArrayIndex x) (iso1Signature_Object_array v)
       (iso1Signature_Object_array a)"

definition iso1Signature_rank :: "iso1SignatureType \<Rightarrow> nat \<Rightarrow> iso1Signature_locals \<Rightarrow>
    nat" where
  "iso1Signature_rank v g x = left_at [(5, 55009), (6, 54575), (7, 45513), (8, 42252), (9, 2)] g + due 1744
      (iso1Signature_Object_arrayLen v) (iso1Signature_Object_currArrayIndex x)"

lemmas iso1Signature_steps = iso1Signature_enc_step_def
  iso1Signature_dec_step_def

lemmas iso1Signature_props = iso1Signature_at_def iso1Signature_sized_def same_iso1Signature_def
    iso1Signature_rank_def left_at_def

lemmas iso1Signature_elements = in_use_nth [where P = iso1Object_ok]
  slots_nth [where P = iso1Object_sized]

interpretation iso1Signature: walking_pair "iso1Signature_enc_step v" "iso1Signature_dec_step j" "iso1Signature_at v"
    "iso1Signature_rank v"
  "\<lambda>a. same_iso1Signature v a \<and> iso1Signature_sized a" for v j
proof
  fix g x a assume at: "iso1Signature_at v g x a"
  then have "g \<in> {5, 6, 7, 8, 9}" by (simp add: iso1Signature_at_def)
  then show "walks (iso1Signature_enc_step v) (iso1Signature_dec_step j) (iso1Signature_at v) (iso1Signature_rank v)
    (\<lambda>a. same_iso1Signature v a \<and> iso1Signature_sized a) g x a" using at
    by - (elim insertE emptyE; (hypsubst, rule walks_by, simp (no_asm) add: iso1Signature_steps del: One_nat_def,
      simp (no_asm) add: iso1Signature_steps del: One_nat_def, simp (asm_lr) add: iso1Signature_props del:
        One_nat_def, (elim conjE)?,
      ((rule walks_ifs)+)?); (frule iso1Signature_ok_def [THEN iffD1], ((drule (1) known)+)?, (elim conjE)?,
        ((drule (1) known)+)?, (elim conjE)?,
      (((rule walks_shapes, simp (no_asm) del: One_nat_def, ((rule reads_intros)+)?);
      ((elim exE conjE)?,
        ((simp (no_asm_simp) add: iso1Signature_props iso1Signature_elements counts_def array_intros; fail) |
        (simp (asm_lr) add: iso1Signature_props iso1Signature_elements counts_def array_intros; fail) |
        (auto simp: iso1Signature_props iso1Signature_elements counts_def array_intros; fail)))) |
        (erule (1) notE; fail) |
        ((elim exE conjE)?,
        ((simp (no_asm_simp) add: iso1Signature_props iso1Signature_elements counts_def array_intros; fail) |
        (simp (asm_lr) add: iso1Signature_props iso1Signature_elements counts_def array_intros; fail) |
        (auto simp: iso1Signature_props iso1Signature_elements counts_def array_intros; fail))))))
qed

lemma reads_iso1Signature [reads_intros]:
  "iso1Signature_ok v \<Longrightarrow> iso1Signature_sized a \<Longrightarrow>
      reads 56753 (\<lambda>s. encode_iso1SignatureType s v) (decode_iso1SignatureType j) a
      (\<lambda>a. same_iso1Signature v a \<and> iso1Signature_sized a)"
  unfolding encode_iso1SignatureType_def decode_iso1SignatureType_def [abs_def]
  by (rule reads_start [OF iso1Signature.walk_reads, THEN reads_mono])
      (auto simp: iso1Signature_props iso1Signature_ok_def counts_def due_def init_iso1SignatureType_def)

subsection \<open>\<open>iso1MessageHeaderType\<close>\<close>

record iso1MessageHeaderType =
  iso1MessageHeader_SessionID_bytes :: "u8 list"
  iso1MessageHeader_SessionID_bytesLen :: u16
  iso1MessageHeader_Notification :: iso1NotificationType
  iso1MessageHeader_Notification_isUsed :: bool
  iso1MessageHeader_Signature :: iso1SignatureType
  iso1MessageHeader_Signature_isUsed :: bool

definition init_iso1MessageHeaderType :: "iso1MessageHeaderType \<Rightarrow> iso1MessageHeaderType" where
  "init_iso1MessageHeaderType a = a\<lparr>iso1MessageHeader_Notification_isUsed := False,
      iso1MessageHeader_Signature_isUsed := False\<rparr>"

definition iso1MessageHeader_enc_step :: "iso1MessageHeaderType \<Rightarrow> unit machine" where
  "iso1MessageHeader_enc_step v grammarID x s =
     (if grammarID = 0 then
        goto 1 x (encode_simple 1 0
          (encode_bytes_field (iso1MessageHeader_SessionID_bytes v) (iso1MessageHeader_SessionID_bytesLen v)) s)
      else if grammarID = 1 then
        if iso1MessageHeader_Notification_isUsed v then
          goto 2 x (encode_child 2 0 (\<lambda>s. encode_iso1NotificationType s (iso1MessageHeader_Notification v)) s)
        else if iso1MessageHeader_Signature_isUsed v then
          goto 3 x (encode_child 2 1 (\<lambda>s. encode_iso1SignatureType s (iso1MessageHeader_Signature v)) s)
        else finish 4 x (encodeNBitUnsignedInteger s 2 2)
      else if grammarID = 2 then
        if iso1MessageHeader_Signature_isUsed v then
          goto 3 x (encode_child 2 0 (\<lambda>s. encode_iso1SignatureType s (iso1MessageHeader_Signature v)) s)
        else finish 4 x (encodeNBitUnsignedInteger s 2 1)
      else if grammarID = 3 then
        finish 4 x (encodeNBitUnsignedInteger s 1 0)
      else Some (EXI_ERROR_UNKOWN_GRAMMAR_ID, (False, grammarID, x), s))"

definition encode_iso1MessageHeaderType :: "bitstream \<Rightarrow> iso1MessageHeaderType \<Rightarrow>
    (errn \<times> bitstream) option" where
  "encode_iso1MessageHeaderType s v = run_encoder (iso1MessageHeader_enc_step v) 0 () s"

definition iso1MessageHeader_dec_step :: "u32 \<Rightarrow> (dec_static \<times> iso1MessageHeaderType) machine" where
  "iso1MessageHeader_dec_step j grammarID x s =
     (if grammarID = 0 then
        decode_switch 1
         [(0, decode_simple 0 1
           (decode_bytes_field j 8 iso1MessageHeader_SessionID_bytes
           (\<lambda>u a. a\<lparr>iso1MessageHeader_SessionID_bytes := u\<rparr>)
           (\<lambda>u a. a\<lparr>iso1MessageHeader_SessionID_bytesLen := u\<rparr>)))] 0 x s
      else if grammarID = 1 then
        decode_switch 2
         [(0, decode_child 2 (decode_used (\<lambda>a. a\<lparr>iso1MessageHeader_Notification_isUsed := True\<rparr>)
           (decode_sub (decode_iso1NotificationType j) iso1MessageHeader_Notification
           (\<lambda>u a. a\<lparr>iso1MessageHeader_Notification := u\<rparr>)))),
          (1, decode_child 3 (decode_used (\<lambda>a. a\<lparr>iso1MessageHeader_Signature_isUsed := True\<rparr>)
            (decode_sub (decode_iso1SignatureType j) iso1MessageHeader_Signature
            (\<lambda>u a. a\<lparr>iso1MessageHeader_Signature := u\<rparr>)))),
          (2, decode_end 4)] 1 x s
      else if grammarID = 2 then
        decode_switch 2
         [(0, decode_child 3 (decode_used (\<lambda>a. a\<lparr>iso1MessageHeader_Signature_isUsed := True\<rparr>)
           (decode_sub (decode_iso1SignatureType j) iso1MessageHeader_Signature
           (\<lambda>u a. a\<lparr>iso1MessageHeader_Signature := u\<rparr>)))),
          (1, decode_end 4)] 2 x s
      else if grammarID = 3 then
        decode_switch 1
         [(0, decode_end 4)] 3 x s
      else Some (EXI_ERROR_UNKOWN_GRAMMAR_ID, (False, grammarID, x), s))"

definition decode_iso1MessageHeaderType :: "u32 \<Rightarrow> iso1MessageHeaderType decoder" where
  "decode_iso1MessageHeaderType j x s = grammar_loop (iso1MessageHeader_dec_step j) 0
      (fst x, init_iso1MessageHeaderType (snd x)) s"

definition iso1MessageHeader_ok :: "iso1MessageHeaderType \<Rightarrow> bool" where
  "iso1MessageHeader_ok v \<longleftrightarrow>
     length (iso1MessageHeader_SessionID_bytes v) = 8 \<and> unat (iso1MessageHeader_SessionID_bytesLen v) \<le> 8
       \<and>
     when_used (iso1MessageHeader_Notification_isUsed v) (iso1Notification_ok (iso1MessageHeader_Notification v))
       \<and>
     when_used (iso1MessageHeader_Signature_isUsed v) (iso1Signature_ok (iso1MessageHeader_Signature v))"

definition iso1MessageHeader_sized :: "iso1MessageHeaderType \<Rightarrow> bool" where
  "iso1MessageHeader_sized a \<longleftrightarrow>
     length (iso1MessageHeader_SessionID_bytes a) = 8 \<and>
     iso1Notification_sized (iso1MessageHeader_Notification a) \<and>
     iso1Signature_sized (iso1MessageHeader_Signature a)"

definition same_iso1MessageHeader :: "iso1MessageHeaderType \<Rightarrow> iso1MessageHeaderType \<Rightarrow> bool"
    where
  "same_iso1MessageHeader v a \<longleftrightarrow>
     iso1MessageHeader_SessionID_bytesLen a = iso1MessageHeader_SessionID_bytesLen v \<and>
       take (unat (iso1MessageHeader_SessionID_bytesLen v)) (iso1MessageHeader_SessionID_bytes a) = take
       (unat (iso1MessageHeader_SessionID_bytesLen v)) (iso1MessageHeader_SessionID_bytes v) \<and>
     kept (iso1MessageHeader_Notification_isUsed v) (iso1MessageHeader_Notification_isUsed a)
       (same_iso1Notification (iso1MessageHeader_Notification v) (iso1MessageHeader_Notification a)) \<and>
     kept (iso1MessageHeader_Signature_isUsed v) (iso1MessageHeader_Signature_isUsed a)
       (same_iso1Signature (iso1MessageHeader_Signature v) (iso1MessageHeader_Signature a))"

definition iso1MessageHeader_at :: "iso1MessageHeaderType \<Rightarrow> nat \<Rightarrow> iso1MessageHeaderType
    \<Rightarrow> bool" where
  "iso1MessageHeader_at v g a \<longleftrightarrow>
     iso1MessageHeader_ok v \<and>
     g \<in> {0, 1, 2, 3} \<and>
     iso1MessageHeader_sized a \<and>
     (g \<notin> {0} \<longrightarrow> iso1MessageHeader_SessionID_bytesLen a = iso1MessageHeader_SessionID_bytesLen v
       \<and> take (unat (iso1MessageHeader_SessionID_bytesLen v)) (iso1MessageHeader_SessionID_bytes a) = take
       (unat (iso1MessageHeader_SessionID_bytesLen v)) (iso1MessageHeader_SessionID_bytes v)) \<and>
     (if g \<in> {0, 1} then \<not> iso1MessageHeader_Notification_isUsed a
      else kept (iso1MessageHeader_Notification_isUsed v) (iso1MessageHeader_Notification_isUsed a)
        (same_iso1Notification (iso1MessageHeader_Notification v) (iso1MessageHeader_Notification a))) \<and>
     (if g \<in> {0, 1, 2} then \<not> iso1MessageHeader_Signature_isUsed a
      else kept (iso1MessageHeader_Signature_isUsed v) (iso1MessageHeader_Signature_isUsed a)
        (same_iso1Signature (iso1MessageHeader_Signature v) (iso1MessageHeader_Signature a)))"

definition iso1MessageHeader_bits :: "iso1MessageHeaderType \<Rightarrow> nat" where
  "iso1MessageHeader_bits v =
     (91 + (if iso1MessageHeader_Notification_isUsed v then
       556 + (if iso1MessageHeader_Signature_isUsed v then 56756 else 2)
     else if iso1MessageHeader_Signature_isUsed v then 56756 else 2))"

lemmas iso1MessageHeader_steps = iso1MessageHeader_enc_step_def
  iso1MessageHeader_dec_step_def

lemmas iso1MessageHeader_props = iso1MessageHeader_at_def iso1MessageHeader_sized_def same_iso1MessageHeader_def
    left_at_def iso1MessageHeader_bits_def

interpretation iso1MessageHeader: paired_machines "iso1MessageHeader_enc_step v" "iso1MessageHeader_dec_step j"
    "iso1MessageHeader_at v"
  "left_at [(0, iso1MessageHeader_bits v),
      (1, if iso1MessageHeader_Notification_isUsed v then
      556 + (if iso1MessageHeader_Signature_isUsed v then 56756 else 2) else if iso1MessageHeader_Signature_isUsed v
      then 56756 else 2), (2, if iso1MessageHeader_Signature_isUsed v then 56756 else 2), (3, 1)]" "\<lambda>a.
      same_iso1MessageHeader v a \<and> iso1MessageHeader_sized a" for v j
proof
  fix g a assume at: "iso1MessageHeader_at v g a"
  then have "g \<in> {0, 1, 2, 3}" by (simp add: iso1MessageHeader_at_def)
  then show "hops (iso1MessageHeader_enc_step v) (iso1MessageHeader_dec_step j) (iso1MessageHeader_at v)
    (left_at [(0, iso1MessageHeader_bits v),
      (1, if iso1MessageHeader_Notification_isUsed v then
      556 + (if iso1MessageHeader_Signature_isUsed v then 56756 else 2) else if iso1MessageHeader_Signature_isUsed v
      then 56756 else 2), (2, if iso1MessageHeader_Signature_isUsed v then 56756 else 2), (3, 1)])
      (\<lambda>a. same_iso1MessageHeader v a \<and> iso1MessageHeader_sized a) g a" using at
    by - (elim insertE emptyE; (hypsubst, rule hops_by, simp (no_asm) add: iso1MessageHeader_steps del: One_nat_def,
      simp (no_asm) add: iso1MessageHeader_steps del: One_nat_def, simp (asm_lr) add: iso1MessageHeader_props del:
        One_nat_def split del: if_split, (elim conjE)?,
      ((rule walks_ifs)+)?); (frule iso1MessageHeader_ok_def [THEN iffD1], ((drule (1) known)+)?, (elim conjE)?,
        ((drule (1) known)+)?, (elim conjE)?,
      (((rule walks_shapes, simp (no_asm) del: One_nat_def, ((rule reads_intros)+)?);
      ((elim exE conjE)?,
        ((simp (no_asm_simp) add: iso1MessageHeader_props; fail) | (simp (asm_lr) add: iso1MessageHeader_props; fail)
        | (auto simp: iso1MessageHeader_props; fail)))) | (erule (1) notE; fail) |
        ((elim exE conjE)?,
        ((simp (no_asm_simp) add: iso1MessageHeader_props; fail) | (simp (asm_lr) add: iso1MessageHeader_props; fail)
        | (auto simp: iso1MessageHeader_props; fail))))))
qed

lemma reads_iso1MessageHeader [reads_intros]:
  "iso1MessageHeader_ok v \<Longrightarrow> iso1MessageHeader_sized a \<Longrightarrow>
      reads (iso1MessageHeader_bits v) (\<lambda>s. encode_iso1MessageHeaderType s v) (decode_iso1MessageHeaderType j)
      a (\<lambda>a. same_iso1MessageHeader v a \<and> iso1MessageHeader_sized a)"
  unfolding encode_iso1MessageHeaderType_def decode_iso1MessageHeaderType_def [abs_def]
  by (rule reads_start [OF iso1MessageHeader.machine_reads, of _ 0, THEN reads_mono])
      (auto simp: iso1MessageHeader_at_def iso1MessageHeader_sized_def init_iso1MessageHeaderType_def left_at_def)

interpretation iso1MessageHeader_enc: advancing_machine "iso1MessageHeader_enc_step v" "left_at
    [(0, 4), (1, 3), (2, 2), (3, 1)]" for v
  by unfold_locales (auto simp: iso1MessageHeader_steps dest!: advance_dests split: if_splits;
      simp add: left_at_def)

interpretation iso1MessageHeader_dec: advancing_machine "iso1MessageHeader_dec_step j" "left_at
    [(0, 4), (1, 3), (2, 2), (3, 1)]" for j
  by unfold_locales (auto simp: iso1MessageHeader_steps dest!: advance_dests elim!: decode_switch_next
      split: if_splits;
      simp add: left_at_def)

end
