(* ===== verification/Iso1Services.thy ===== *)
theory Iso1Services
  imports Iso1Values
begin

section \<open>ISO 15118 codec: session setup and services\<close>

text \<open>
  The messages that open a session, find the services of a charging station with their parameters and
  select among them, in the form explained in \<open>Iso1Values\<close>. A parameter has one of six values, by flags.
\<close>

subsection \<open>\<open>iso1SessionSetupReqType\<close>\<close>

record iso1SessionSetupReqType =
  iso1SessionSetupReq_EVCCID_bytes :: "u8 list"
  iso1SessionSetupReq_EVCCID_bytesLen :: u16

definition init_iso1SessionSetupReqType :: "iso1SessionSetupReqType \<Rightarrow> iso1SessionSetupReqType" where
  "init_iso1SessionSetupReqType a = a"

definition iso1SessionSetupReq_enc_step :: "iso1SessionSetupReqType \<Rightarrow> unit machine" where
  "iso1SessionSetupReq_enc_step v grammarID x s =
     (if grammarID = 289 then
        goto 3 x (encode_simple 1 0
          (encode_bytes_field (iso1SessionSetupReq_EVCCID_bytes v) (iso1SessionSetupReq_EVCCID_bytesLen v)) s)
      else if grammarID = 3 then
        finish 4 x (encodeNBitUnsignedInteger s 1 0)
      else Some (EXI_ERROR_UNKOWN_GRAMMAR_ID, (False, grammarID, x), s))"

definition encode_iso1SessionSetupReqType :: "bitstream \<Rightarrow> iso1SessionSetupReqType \<Rightarrow>
    (errn \<times> bitstream) option" where
  "encode_iso1SessionSetupReqType s v = run_encoder (iso1SessionSetupReq_enc_step v) 289 () s"

definition iso1SessionSetupReq_dec_step :: "u32 \<Rightarrow> (dec_static \<times> iso1SessionSetupReqType) machine"
    where
  "iso1SessionSetupReq_dec_step j grammarID x s =
     (if grammarID = 289 then
        decode_switch 1
         [(0, decode_simple 289 3
           (decode_bytes_field j 6 iso1SessionSetupReq_EVCCID_bytes
           (\<lambda>u a. a\<lparr>iso1SessionSetupReq_EVCCID_bytes := u\<rparr>)
           (\<lambda>u a. a\<lparr>iso1SessionSetupReq_EVCCID_bytesLen := u\<rparr>)))] 289 x s
      else if grammarID = 3 then
        decode_switch 1
         [(0, decode_end 4)] 3 x s
      else Some (EXI_ERROR_UNKOWN_GRAMMAR_ID, (False, grammarID, x), s))"

definition decode_iso1SessionSetupReqType :: "u32 \<Rightarrow> iso1SessionSetupReqType decoder" where
  "decode_iso1SessionSetupReqType j x s = grammar_loop (iso1SessionSetupReq_dec_step j) 289
      (fst x, init_iso1SessionSetupReqType (snd x)) s"

definition iso1SessionSetupReq_ok :: "iso1SessionSetupReqType \<Rightarrow> bool" where
  "iso1SessionSetupReq_ok v \<longleftrightarrow>
     length (iso1SessionSetupReq_EVCCID_bytes v) = 6 \<and> unat (iso1SessionSetupReq_EVCCID_bytesLen v) \<le> 6"

definition iso1SessionSetupReq_sized :: "iso1SessionSetupReqType \<Rightarrow> bool" where
  "iso1SessionSetupReq_sized a \<longleftrightarrow>
     length (iso1SessionSetupReq_EVCCID_bytes a) = 6"

definition same_iso1SessionSetupReq :: "iso1SessionSetupReqType \<Rightarrow> iso1SessionSetupReqType \<Rightarrow>
    bool" where
  "same_iso1SessionSetupReq v a \<longleftrightarrow>
     iso1SessionSetupReq_EVCCID_bytesLen a = iso1SessionSetupReq_EVCCID_bytesLen v \<and>
       take (unat (iso1SessionSetupReq_EVCCID_bytesLen v)) (iso1SessionSetupReq_EVCCID_bytes a) = take
       (unat (iso1SessionSetupReq_EVCCID_bytesLen v)) (iso1SessionSetupReq_EVCCID_bytes v)"

definition iso1SessionSetupReq_at :: "iso1SessionSetupReqType \<Rightarrow> nat \<Rightarrow> iso1SessionSetupReqType
    \<Rightarrow> bool" where
  "iso1SessionSetupReq_at v g a \<longleftrightarrow>
     iso1SessionSetupReq_ok v \<and>
     g \<in> {289, 3} \<and>
     iso1SessionSetupReq_sized a \<and>
     (g \<notin> {289} \<longrightarrow> iso1SessionSetupReq_EVCCID_bytesLen a = iso1SessionSetupReq_EVCCID_bytesLen v
       \<and> take (unat (iso1SessionSetupReq_EVCCID_bytesLen v)) (iso1SessionSetupReq_EVCCID_bytes a) = take
       (unat (iso1SessionSetupReq_EVCCID_bytesLen v)) (iso1SessionSetupReq_EVCCID_bytes v))"

lemmas iso1SessionSetupReq_steps = iso1SessionSetupReq_enc_step_def
  iso1SessionSetupReq_dec_step_def

lemmas iso1SessionSetupReq_props = iso1SessionSetupReq_at_def iso1SessionSetupReq_sized_def
    same_iso1SessionSetupReq_def left_at_def

interpretation iso1SessionSetupReq: paired_machines "iso1SessionSetupReq_enc_step v" "iso1SessionSetupReq_dec_step j"
    "iso1SessionSetupReq_at v"
  "left_at [(289, 76), (3, 1)]" "\<lambda>a. same_iso1SessionSetupReq v a \<and> iso1SessionSetupReq_sized a" for v j
proof
  fix g a assume at: "iso1SessionSetupReq_at v g a"
  then have "g \<in> {289, 3}" by (simp add: iso1SessionSetupReq_at_def)
  then show "hops (iso1SessionSetupReq_enc_step v) (iso1SessionSetupReq_dec_step j) (iso1SessionSetupReq_at v)
    (left_at [(289, 76), (3, 1)]) (\<lambda>a. same_iso1SessionSetupReq v a \<and> iso1SessionSetupReq_sized a) g a"
      using at
    by - (elim insertE emptyE; (hypsubst, rule hops_by, simp (no_asm) add: iso1SessionSetupReq_steps del: One_nat_def,
      simp (no_asm) add: iso1SessionSetupReq_steps del: One_nat_def, simp (asm_lr) add: iso1SessionSetupReq_props del:
        One_nat_def, (elim conjE)?,
      ((rule walks_ifs)+)?); (frule iso1SessionSetupReq_ok_def [THEN iffD1], ((drule (1) known)+)?, (elim conjE)?,
        ((drule (1) known)+)?, (elim conjE)?,
      (((rule walks_shapes, simp (no_asm) del: One_nat_def, ((rule reads_intros)+)?);
      ((elim exE conjE)?,
        ((simp (no_asm_simp) add: iso1SessionSetupReq_props; fail) |
        (simp (asm_lr) add: iso1SessionSetupReq_props; fail) | (auto simp: iso1SessionSetupReq_props; fail)))) |
        (erule (1) notE; fail) |
        ((elim exE conjE)?,
        ((simp (no_asm_simp) add: iso1SessionSetupReq_props; fail) |
        (simp (asm_lr) add: iso1SessionSetupReq_props; fail) | (auto simp: iso1SessionSetupReq_props; fail))))))
qed

lemma reads_iso1SessionSetupReq [reads_intros]:
  "iso1SessionSetupReq_ok v \<Longrightarrow> iso1SessionSetupReq_sized a \<Longrightarrow>
      reads 76 (\<lambda>s. encode_iso1SessionSetupReqType s v) (decode_iso1SessionSetupReqType j) a
      (\<lambda>a. same_iso1SessionSetupReq v a \<and> iso1SessionSetupReq_sized a)"
  unfolding encode_iso1SessionSetupReqType_def decode_iso1SessionSetupReqType_def [abs_def]
  by (rule reads_start [OF iso1SessionSetupReq.machine_reads, of _ 289, THEN reads_mono])
      (auto simp: iso1SessionSetupReq_at_def iso1SessionSetupReq_sized_def init_iso1SessionSetupReqType_def
      left_at_def)

interpretation iso1SessionSetupReq_enc: advancing_machine "iso1SessionSetupReq_enc_step v" "left_at
    [(289, 2), (3, 1)]" for v
  by unfold_locales (auto simp: iso1SessionSetupReq_steps dest!: advance_dests split: if_splits;
      simp add: left_at_def)

interpretation iso1SessionSetupReq_dec: advancing_machine "iso1SessionSetupReq_dec_step j" "left_at
    [(289, 2), (3, 1)]" for j
  by unfold_locales (auto simp: iso1SessionSetupReq_steps dest!: advance_dests elim!: decode_switch_next
      split: if_splits;
      simp add: left_at_def)

subsection \<open>\<open>iso1SessionSetupResType\<close>\<close>

record iso1SessionSetupResType =
  iso1SessionSetupRes_ResponseCode :: u32
  iso1SessionSetupRes_EVSEID_characters :: "u8 list"
  iso1SessionSetupRes_EVSEID_charactersLen :: u16
  iso1SessionSetupRes_EVSETimeStamp :: u64
  iso1SessionSetupRes_EVSETimeStamp_isUsed :: bool

definition init_iso1SessionSetupResType :: "iso1SessionSetupResType \<Rightarrow> iso1SessionSetupResType" where
  "init_iso1SessionSetupResType a = a\<lparr>iso1SessionSetupRes_EVSETimeStamp_isUsed := False\<rparr>"

definition iso1SessionSetupRes_enc_step :: "iso1SessionSetupResType \<Rightarrow> unit machine" where
  "iso1SessionSetupRes_enc_step v grammarID x s =
     (if grammarID = 19 then
        goto 20 x (encode_simple 1 0 (\<lambda>s. encodeNBitUnsignedInteger s 5 (iso1SessionSetupRes_ResponseCode v))
          s)
      else if grammarID = 20 then
        goto 21 x
          (encode_simple 1 0 (encode_string_field (iso1SessionSetupRes_EVSEID_characters v)
          (iso1SessionSetupRes_EVSEID_charactersLen v)) s)
      else if grammarID = 21 then
        if iso1SessionSetupRes_EVSETimeStamp_isUsed v then
          goto 3 x (encode_simple 2 0 (\<lambda>s. encodeInteger64 s (iso1SessionSetupRes_EVSETimeStamp v)) s)
        else finish 4 x (encodeNBitUnsignedInteger s 2 1)
      else if grammarID = 3 then
        finish 4 x (encodeNBitUnsignedInteger s 1 0)
      else Some (EXI_ERROR_UNKOWN_GRAMMAR_ID, (False, grammarID, x), s))"

definition encode_iso1SessionSetupResType :: "bitstream \<Rightarrow> iso1SessionSetupResType \<Rightarrow>
    (errn \<times> bitstream) option" where
  "encode_iso1SessionSetupResType s v = run_encoder (iso1SessionSetupRes_enc_step v) 19 () s"

definition iso1SessionSetupRes_dec_step :: "u32 \<Rightarrow> (dec_static \<times> iso1SessionSetupResType) machine"
    where
  "iso1SessionSetupRes_dec_step j grammarID x s =
     (if grammarID = 19 then
        decode_switch 1
         [(0, decode_simple 19 20
           (decode_nbit_field 5 (\<lambda>u a. a\<lparr>iso1SessionSetupRes_ResponseCode := u\<rparr>)))] 19 x s
      else if grammarID = 20 then
        decode_switch 1
         [(0, decode_simple 20 21 (decode_string_field j 38 iso1SessionSetupRes_EVSEID_characters
           (\<lambda>u a. a\<lparr>iso1SessionSetupRes_EVSEID_characters := u\<rparr>)
           (\<lambda>u a. a\<lparr>iso1SessionSetupRes_EVSEID_charactersLen := u\<rparr>)))] 20 x s
      else if grammarID = 21 then
        decode_switch 2
         [(0, decode_simple 21 3
           (decode_used (\<lambda>a. a\<lparr>iso1SessionSetupRes_EVSETimeStamp_isUsed := True\<rparr>)
           (decode_i64_field j iso1SessionSetupRes_EVSETimeStamp
           (\<lambda>u a. a\<lparr>iso1SessionSetupRes_EVSETimeStamp := u\<rparr>)))),
          (1, decode_end 4)] 21 x s
      else if grammarID = 3 then
        decode_switch 1
         [(0, decode_end 4)] 3 x s
      else Some (EXI_ERROR_UNKOWN_GRAMMAR_ID, (False, grammarID, x), s))"

definition decode_iso1SessionSetupResType :: "u32 \<Rightarrow> iso1SessionSetupResType decoder" where
  "decode_iso1SessionSetupResType j x s = grammar_loop (iso1SessionSetupRes_dec_step j) 19
      (fst x, init_iso1SessionSetupResType (snd x)) s"

definition iso1SessionSetupRes_ok :: "iso1SessionSetupResType \<Rightarrow> bool" where
  "iso1SessionSetupRes_ok v \<longleftrightarrow>
     iso1SessionSetupRes_ResponseCode v < 32 \<and>
     string_ok 38 (iso1SessionSetupRes_EVSEID_characters v) (iso1SessionSetupRes_EVSEID_charactersLen v) \<and>
     when_used (iso1SessionSetupRes_EVSETimeStamp_isUsed v)
       (sint (iso1SessionSetupRes_EVSETimeStamp v) \<noteq> - (2 ^ 63))"

definition iso1SessionSetupRes_sized :: "iso1SessionSetupResType \<Rightarrow> bool" where
  "iso1SessionSetupRes_sized a \<longleftrightarrow>
     length (iso1SessionSetupRes_EVSEID_characters a) = 38"

definition same_iso1SessionSetupRes :: "iso1SessionSetupResType \<Rightarrow> iso1SessionSetupResType \<Rightarrow>
    bool" where
  "same_iso1SessionSetupRes v a \<longleftrightarrow>
     iso1SessionSetupRes_ResponseCode a = iso1SessionSetupRes_ResponseCode v \<and>
     iso1SessionSetupRes_EVSEID_charactersLen a = iso1SessionSetupRes_EVSEID_charactersLen v \<and>
       take (unat (iso1SessionSetupRes_EVSEID_charactersLen v)) (iso1SessionSetupRes_EVSEID_characters a) = take
       (unat (iso1SessionSetupRes_EVSEID_charactersLen v)) (iso1SessionSetupRes_EVSEID_characters v) \<and>
     kept (iso1SessionSetupRes_EVSETimeStamp_isUsed v) (iso1SessionSetupRes_EVSETimeStamp_isUsed a)
       (iso1SessionSetupRes_EVSETimeStamp a = iso1SessionSetupRes_EVSETimeStamp v)"

definition iso1SessionSetupRes_at :: "iso1SessionSetupResType \<Rightarrow> nat \<Rightarrow> iso1SessionSetupResType
    \<Rightarrow> bool" where
  "iso1SessionSetupRes_at v g a \<longleftrightarrow>
     iso1SessionSetupRes_ok v \<and>
     g \<in> {19, 20, 21, 3} \<and>
     iso1SessionSetupRes_sized a \<and>
     (g \<notin> {19} \<longrightarrow> iso1SessionSetupRes_ResponseCode a = iso1SessionSetupRes_ResponseCode v)
       \<and>
     (g \<notin> {19, 20} \<longrightarrow> iso1SessionSetupRes_EVSEID_charactersLen
       a = iso1SessionSetupRes_EVSEID_charactersLen v \<and> take (unat (iso1SessionSetupRes_EVSEID_charactersLen v))
       (iso1SessionSetupRes_EVSEID_characters a) = take (unat (iso1SessionSetupRes_EVSEID_charactersLen v))
       (iso1SessionSetupRes_EVSEID_characters v)) \<and>
     (if g \<in> {19, 20, 21} then \<not> iso1SessionSetupRes_EVSETimeStamp_isUsed a
      else kept (iso1SessionSetupRes_EVSETimeStamp_isUsed v) (iso1SessionSetupRes_EVSETimeStamp_isUsed a)
        (iso1SessionSetupRes_EVSETimeStamp a = iso1SessionSetupRes_EVSETimeStamp v))"

lemmas iso1SessionSetupRes_steps = iso1SessionSetupRes_enc_step_def
  iso1SessionSetupRes_dec_step_def

lemmas iso1SessionSetupRes_props = iso1SessionSetupRes_at_def iso1SessionSetupRes_sized_def
    same_iso1SessionSetupRes_def left_at_def

interpretation iso1SessionSetupRes: paired_machines "iso1SessionSetupRes_enc_step v" "iso1SessionSetupRes_dec_step j"
    "iso1SessionSetupRes_at v"
  "left_at [(19, 425), (20, 417), (21, 86), (3, 1)]" "\<lambda>a. same_iso1SessionSetupRes v a \<and>
      iso1SessionSetupRes_sized a" for v j
proof
  fix g a assume at: "iso1SessionSetupRes_at v g a"
  then have "g \<in> {19, 20, 21, 3}" by (simp add: iso1SessionSetupRes_at_def)
  then show "hops (iso1SessionSetupRes_enc_step v) (iso1SessionSetupRes_dec_step j) (iso1SessionSetupRes_at v)
    (left_at [(19, 425), (20, 417), (21, 86), (3, 1)]) (\<lambda>a. same_iso1SessionSetupRes v a \<and>
      iso1SessionSetupRes_sized a) g a" using at
    by - (elim insertE emptyE; (hypsubst, rule hops_by, simp (no_asm) add: iso1SessionSetupRes_steps del: One_nat_def,
      simp (no_asm) add: iso1SessionSetupRes_steps del: One_nat_def, simp (asm_lr) add: iso1SessionSetupRes_props del:
        One_nat_def, (elim conjE)?,
      ((rule walks_ifs)+)?); (frule iso1SessionSetupRes_ok_def [THEN iffD1], ((drule (1) known)+)?, (elim conjE)?,
        ((drule (1) known)+)?, (elim conjE)?,
      (((rule walks_shapes, simp (no_asm) del: One_nat_def, ((rule reads_intros)+)?);
      ((elim exE conjE)?,
        ((simp (no_asm_simp) add: iso1SessionSetupRes_props; fail) |
        (simp (asm_lr) add: iso1SessionSetupRes_props; fail) | (auto simp: iso1SessionSetupRes_props; fail)))) |
        (erule (1) notE; fail) |
        ((elim exE conjE)?,
        ((simp (no_asm_simp) add: iso1SessionSetupRes_props; fail) |
        (simp (asm_lr) add: iso1SessionSetupRes_props; fail) | (auto simp: iso1SessionSetupRes_props; fail))))))
qed

lemma reads_iso1SessionSetupRes [reads_intros]:
  "iso1SessionSetupRes_ok v \<Longrightarrow> iso1SessionSetupRes_sized a \<Longrightarrow>
      reads 425 (\<lambda>s. encode_iso1SessionSetupResType s v) (decode_iso1SessionSetupResType j) a
      (\<lambda>a. same_iso1SessionSetupRes v a \<and> iso1SessionSetupRes_sized a)"
  unfolding encode_iso1SessionSetupResType_def decode_iso1SessionSetupResType_def [abs_def]
  by (rule reads_start [OF iso1SessionSetupRes.machine_reads, of _ 19, THEN reads_mono])
      (auto simp: iso1SessionSetupRes_at_def iso1SessionSetupRes_sized_def init_iso1SessionSetupResType_def
      left_at_def)

interpretation iso1SessionSetupRes_enc: advancing_machine "iso1SessionSetupRes_enc_step v" "left_at
    [(19, 4), (20, 3), (21, 2), (3, 1)]" for v
  by unfold_locales (auto simp: iso1SessionSetupRes_steps dest!: advance_dests split: if_splits;
      simp add: left_at_def)

interpretation iso1SessionSetupRes_dec: advancing_machine "iso1SessionSetupRes_dec_step j" "left_at
    [(19, 4), (20, 3), (21, 2), (3, 1)]" for j
  by unfold_locales (auto simp: iso1SessionSetupRes_steps dest!: advance_dests elim!: decode_switch_next
      split: if_splits;
      simp add: left_at_def)

subsection \<open>\<open>iso1ServiceDiscoveryReqType\<close>\<close>

record iso1ServiceDiscoveryReqType =
  iso1ServiceDiscoveryReq_ServiceScope_characters :: "u8 list"
  iso1ServiceDiscoveryReq_ServiceScope_charactersLen :: u16
  iso1ServiceDiscoveryReq_ServiceScope_isUsed :: bool
  iso1ServiceDiscoveryReq_ServiceCategory :: u32
  iso1ServiceDiscoveryReq_ServiceCategory_isUsed :: bool

definition init_iso1ServiceDiscoveryReqType :: "iso1ServiceDiscoveryReqType \<Rightarrow> iso1ServiceDiscoveryReqType"
    where
  "init_iso1ServiceDiscoveryReqType a = a\<lparr>iso1ServiceDiscoveryReq_ServiceScope_isUsed := False,
      iso1ServiceDiscoveryReq_ServiceCategory_isUsed := False\<rparr>"

definition iso1ServiceDiscoveryReq_enc_step :: "iso1ServiceDiscoveryReqType \<Rightarrow> unit machine" where
  "iso1ServiceDiscoveryReq_enc_step v grammarID x s =
     (if grammarID = 336 then
        if iso1ServiceDiscoveryReq_ServiceScope_isUsed v then
          goto 337 x
          (encode_simple 2 0 (encode_string_field (iso1ServiceDiscoveryReq_ServiceScope_characters v)
          (iso1ServiceDiscoveryReq_ServiceScope_charactersLen v)) s)
        else if iso1ServiceDiscoveryReq_ServiceCategory_isUsed v then
          goto 3 x (encode_simple 2 1
          (\<lambda>s. encodeNBitUnsignedInteger s 2 (iso1ServiceDiscoveryReq_ServiceCategory v)) s)
        else finish 4 x (encodeNBitUnsignedInteger s 2 2)
      else if grammarID = 337 then
        if iso1ServiceDiscoveryReq_ServiceCategory_isUsed v then
          goto 3 x (encode_simple 2 0
          (\<lambda>s. encodeNBitUnsignedInteger s 2 (iso1ServiceDiscoveryReq_ServiceCategory v)) s)
        else finish 4 x (encodeNBitUnsignedInteger s 2 1)
      else if grammarID = 3 then
        finish 4 x (encodeNBitUnsignedInteger s 1 0)
      else Some (EXI_ERROR_UNKOWN_GRAMMAR_ID, (False, grammarID, x), s))"

definition encode_iso1ServiceDiscoveryReqType :: "bitstream \<Rightarrow> iso1ServiceDiscoveryReqType \<Rightarrow>
    (errn \<times> bitstream) option" where
  "encode_iso1ServiceDiscoveryReqType s v = run_encoder (iso1ServiceDiscoveryReq_enc_step v) 336 () s"

definition iso1ServiceDiscoveryReq_dec_step :: "u32 \<Rightarrow> (dec_static \<times> iso1ServiceDiscoveryReqType)
    machine" where
  "iso1ServiceDiscoveryReq_dec_step j grammarID x s =
     (if grammarID = 336 then
        decode_switch 2
         [(0, decode_simple 336 337
           (decode_used (\<lambda>a. a\<lparr>iso1ServiceDiscoveryReq_ServiceScope_isUsed := True\<rparr>)
           (decode_string_field j 65 iso1ServiceDiscoveryReq_ServiceScope_characters
           (\<lambda>u a. a\<lparr>iso1ServiceDiscoveryReq_ServiceScope_characters := u\<rparr>)
           (\<lambda>u a. a\<lparr>iso1ServiceDiscoveryReq_ServiceScope_charactersLen := u\<rparr>)))),
          (1, decode_simple 336 3
            (decode_used (\<lambda>a. a\<lparr>iso1ServiceDiscoveryReq_ServiceCategory_isUsed := True\<rparr>)
            (decode_nbit_field 2 (\<lambda>u a. a\<lparr>iso1ServiceDiscoveryReq_ServiceCategory := u\<rparr>)))),
          (2, decode_end 4)] 336 x s
      else if grammarID = 337 then
        decode_switch 2
         [(0, decode_simple 337 3
           (decode_used (\<lambda>a. a\<lparr>iso1ServiceDiscoveryReq_ServiceCategory_isUsed := True\<rparr>)
           (decode_nbit_field 2 (\<lambda>u a. a\<lparr>iso1ServiceDiscoveryReq_ServiceCategory := u\<rparr>)))),
          (1, decode_end 4)] 337 x s
      else if grammarID = 3 then
        decode_switch 1
         [(0, decode_end 4)] 3 x s
      else Some (EXI_ERROR_UNKOWN_GRAMMAR_ID, (False, grammarID, x), s))"

definition decode_iso1ServiceDiscoveryReqType :: "u32 \<Rightarrow> iso1ServiceDiscoveryReqType decoder" where
  "decode_iso1ServiceDiscoveryReqType j x s = grammar_loop (iso1ServiceDiscoveryReq_dec_step j) 336
      (fst x, init_iso1ServiceDiscoveryReqType (snd x)) s"

definition iso1ServiceDiscoveryReq_ok :: "iso1ServiceDiscoveryReqType \<Rightarrow> bool" where
  "iso1ServiceDiscoveryReq_ok v \<longleftrightarrow>
     when_used (iso1ServiceDiscoveryReq_ServiceScope_isUsed v)
       (string_ok 65 (iso1ServiceDiscoveryReq_ServiceScope_characters v)
       (iso1ServiceDiscoveryReq_ServiceScope_charactersLen v)) \<and>
     when_used (iso1ServiceDiscoveryReq_ServiceCategory_isUsed v) (iso1ServiceDiscoveryReq_ServiceCategory v < 4)"

definition iso1ServiceDiscoveryReq_sized :: "iso1ServiceDiscoveryReqType \<Rightarrow> bool" where
  "iso1ServiceDiscoveryReq_sized a \<longleftrightarrow>
     length (iso1ServiceDiscoveryReq_ServiceScope_characters a) = 65"

definition same_iso1ServiceDiscoveryReq :: "iso1ServiceDiscoveryReqType \<Rightarrow> iso1ServiceDiscoveryReqType
    \<Rightarrow> bool" where
  "same_iso1ServiceDiscoveryReq v a \<longleftrightarrow>
     kept (iso1ServiceDiscoveryReq_ServiceScope_isUsed v) (iso1ServiceDiscoveryReq_ServiceScope_isUsed a)
       (iso1ServiceDiscoveryReq_ServiceScope_charactersLen a = iso1ServiceDiscoveryReq_ServiceScope_charactersLen v
       \<and> take (unat (iso1ServiceDiscoveryReq_ServiceScope_charactersLen v))
       (iso1ServiceDiscoveryReq_ServiceScope_characters a) = take
       (unat (iso1ServiceDiscoveryReq_ServiceScope_charactersLen v))
       (iso1ServiceDiscoveryReq_ServiceScope_characters v)) \<and>
     kept (iso1ServiceDiscoveryReq_ServiceCategory_isUsed v) (iso1ServiceDiscoveryReq_ServiceCategory_isUsed a)
       (iso1ServiceDiscoveryReq_ServiceCategory a = iso1ServiceDiscoveryReq_ServiceCategory v)"

definition iso1ServiceDiscoveryReq_at :: "iso1ServiceDiscoveryReqType \<Rightarrow> nat \<Rightarrow>
    iso1ServiceDiscoveryReqType \<Rightarrow> bool" where
  "iso1ServiceDiscoveryReq_at v g a \<longleftrightarrow>
     iso1ServiceDiscoveryReq_ok v \<and>
     g \<in> {336, 337, 3} \<and>
     iso1ServiceDiscoveryReq_sized a \<and>
     (if g \<in> {336} then \<not> iso1ServiceDiscoveryReq_ServiceScope_isUsed a
      else kept (iso1ServiceDiscoveryReq_ServiceScope_isUsed v) (iso1ServiceDiscoveryReq_ServiceScope_isUsed a)
        (iso1ServiceDiscoveryReq_ServiceScope_charactersLen a = iso1ServiceDiscoveryReq_ServiceScope_charactersLen v
        \<and> take (unat (iso1ServiceDiscoveryReq_ServiceScope_charactersLen v))
        (iso1ServiceDiscoveryReq_ServiceScope_characters a) = take
        (unat (iso1ServiceDiscoveryReq_ServiceScope_charactersLen v))
        (iso1ServiceDiscoveryReq_ServiceScope_characters v))) \<and>
     (if g \<in> {336, 337} then \<not> iso1ServiceDiscoveryReq_ServiceCategory_isUsed a
      else kept (iso1ServiceDiscoveryReq_ServiceCategory_isUsed v) (iso1ServiceDiscoveryReq_ServiceCategory_isUsed a)
        (iso1ServiceDiscoveryReq_ServiceCategory a = iso1ServiceDiscoveryReq_ServiceCategory v))"

lemmas iso1ServiceDiscoveryReq_steps = iso1ServiceDiscoveryReq_enc_step_def
  iso1ServiceDiscoveryReq_dec_step_def

lemmas iso1ServiceDiscoveryReq_props = iso1ServiceDiscoveryReq_at_def iso1ServiceDiscoveryReq_sized_def
    same_iso1ServiceDiscoveryReq_def left_at_def

interpretation iso1ServiceDiscoveryReq: paired_machines "iso1ServiceDiscoveryReq_enc_step v"
    "iso1ServiceDiscoveryReq_dec_step j" "iso1ServiceDiscoveryReq_at v"
  "left_at [(336, 555), (337, 7), (3, 1)]" "\<lambda>a. same_iso1ServiceDiscoveryReq v a \<and>
      iso1ServiceDiscoveryReq_sized a" for v j
proof
  fix g a assume at: "iso1ServiceDiscoveryReq_at v g a"
  then have "g \<in> {336, 337, 3}" by (simp add: iso1ServiceDiscoveryReq_at_def)
  then show "hops (iso1ServiceDiscoveryReq_enc_step v) (iso1ServiceDiscoveryReq_dec_step j)
      (iso1ServiceDiscoveryReq_at v)
    (left_at [(336, 555), (337, 7), (3, 1)]) (\<lambda>a. same_iso1ServiceDiscoveryReq v a \<and>
      iso1ServiceDiscoveryReq_sized a) g a" using at
    by - (elim insertE emptyE; (hypsubst, rule hops_by, simp (no_asm) add: iso1ServiceDiscoveryReq_steps del:
      One_nat_def,
      simp (no_asm) add: iso1ServiceDiscoveryReq_steps del: One_nat_def,
        simp (asm_lr) add: iso1ServiceDiscoveryReq_props del: One_nat_def, (elim conjE)?,
      ((rule walks_ifs)+)?); (frule iso1ServiceDiscoveryReq_ok_def [THEN iffD1], ((drule (1) known)+)?, (elim conjE)?,
        ((drule (1) known)+)?, (elim conjE)?,
      (((rule walks_shapes, simp (no_asm) del: One_nat_def, ((rule reads_intros)+)?);
      ((elim exE conjE)?,
        ((simp (no_asm_simp) add: iso1ServiceDiscoveryReq_props; fail) |
        (simp (asm_lr) add: iso1ServiceDiscoveryReq_props; fail) | (auto simp: iso1ServiceDiscoveryReq_props; fail))))
        | (erule (1) notE; fail) |
        ((elim exE conjE)?,
        ((simp (no_asm_simp) add: iso1ServiceDiscoveryReq_props; fail) |
        (simp (asm_lr) add: iso1ServiceDiscoveryReq_props; fail) |
        (auto simp: iso1ServiceDiscoveryReq_props; fail))))))
qed

lemma reads_iso1ServiceDiscoveryReq [reads_intros]:
  "iso1ServiceDiscoveryReq_ok v \<Longrightarrow> iso1ServiceDiscoveryReq_sized a \<Longrightarrow>
      reads 555 (\<lambda>s. encode_iso1ServiceDiscoveryReqType s v) (decode_iso1ServiceDiscoveryReqType j) a
      (\<lambda>a. same_iso1ServiceDiscoveryReq v a \<and> iso1ServiceDiscoveryReq_sized a)"
  unfolding encode_iso1ServiceDiscoveryReqType_def decode_iso1ServiceDiscoveryReqType_def [abs_def]
  by (rule reads_start [OF iso1ServiceDiscoveryReq.machine_reads, of _ 336, THEN reads_mono])
      (auto simp: iso1ServiceDiscoveryReq_at_def iso1ServiceDiscoveryReq_sized_def
      init_iso1ServiceDiscoveryReqType_def left_at_def)

interpretation iso1ServiceDiscoveryReq_enc: advancing_machine "iso1ServiceDiscoveryReq_enc_step v" "left_at
    [(336, 3), (337, 2), (3, 1)]" for v
  by unfold_locales (auto simp: iso1ServiceDiscoveryReq_steps dest!: advance_dests split: if_splits;
      simp add: left_at_def)

interpretation iso1ServiceDiscoveryReq_dec: advancing_machine "iso1ServiceDiscoveryReq_dec_step j" "left_at
    [(336, 3), (337, 2), (3, 1)]" for j
  by unfold_locales (auto simp: iso1ServiceDiscoveryReq_steps dest!: advance_dests elim!:
      decode_switch_next split: if_splits;
      simp add: left_at_def)

subsection \<open>\<open>iso1PaymentOptionListType\<close>\<close>

record iso1PaymentOptionListType =
  iso1PaymentOptionList_PaymentOption_array :: "u32 list"
  iso1PaymentOptionList_PaymentOption_arrayLen :: u16

definition init_iso1PaymentOptionListType :: "iso1PaymentOptionListType \<Rightarrow> iso1PaymentOptionListType" where
  "init_iso1PaymentOptionListType a = a\<lparr>iso1PaymentOptionList_PaymentOption_arrayLen := 0\<rparr>"

record iso1PaymentOptionList_locals =
  iso1PaymentOptionList_PaymentOption_currArrayIndex :: nat

definition iso1PaymentOptionList_enc_step :: "iso1PaymentOptionListType \<Rightarrow> iso1PaymentOptionList_locals
    machine" where
  "iso1PaymentOptionList_enc_step v grammarID x s =
     (if grammarID = 110 then
        if iso1PaymentOptionList_PaymentOption_currArrayIndex x < unat
          (iso1PaymentOptionList_PaymentOption_arrayLen v) then
          encode_array_simple 1 0 111 (\<lambda>s u. encodeNBitUnsignedInteger s 1 u)
          (iso1PaymentOptionList_PaymentOption_array v) iso1PaymentOptionList_PaymentOption_currArrayIndex
          iso1PaymentOptionList_PaymentOption_currArrayIndex_update x s
        else Some (EXI_ERROR_UNKOWN_EVENT, (False, grammarID, x), s)
      else if grammarID = 111 then
        if iso1PaymentOptionList_PaymentOption_currArrayIndex x < unat
          (iso1PaymentOptionList_PaymentOption_arrayLen v) then
          encode_array_simple 2 0 3 (\<lambda>s u. encodeNBitUnsignedInteger s 1 u)
          (iso1PaymentOptionList_PaymentOption_array v) iso1PaymentOptionList_PaymentOption_currArrayIndex
          iso1PaymentOptionList_PaymentOption_currArrayIndex_update x s
        else finish 4 x (encodeNBitUnsignedInteger s 2 1)
      else if grammarID = 3 then
        finish 4 x (encodeNBitUnsignedInteger s 1 0)
      else Some (EXI_ERROR_UNKOWN_GRAMMAR_ID, (False, grammarID, x), s))"

definition encode_iso1PaymentOptionListType :: "bitstream \<Rightarrow> iso1PaymentOptionListType \<Rightarrow>
    (errn \<times> bitstream) option" where
  "encode_iso1PaymentOptionListType s v = run_encoder (iso1PaymentOptionList_enc_step v) 110
      \<lparr>iso1PaymentOptionList_PaymentOption_currArrayIndex = 0\<rparr> s"

abbreviation (input) decode_next_iso1PaymentOptionList_PaymentOption :: "u32 \<Rightarrow> iso1PaymentOptionListType
    decoder" where
  "decode_next_iso1PaymentOptionList_PaymentOption j \<equiv> decode_element (decode_nbit_field 1 (\<lambda>u _. u))
      iso1PaymentOptionList_PaymentOption_array iso1PaymentOptionList_PaymentOption_arrayLen
      (\<lambda>xs n a. a\<lparr>iso1PaymentOptionList_PaymentOption_array := xs,
      iso1PaymentOptionList_PaymentOption_arrayLen := n\<rparr>)"

definition iso1PaymentOptionList_dec_step :: "u32 \<Rightarrow> (dec_static \<times> iso1PaymentOptionListType)
    machine" where
  "iso1PaymentOptionList_dec_step j grammarID x s =
     (if grammarID = 110 then
        decode_switch 1
         [(0, decode_array_simple 110 111 2 iso1PaymentOptionList_PaymentOption_arrayLen
           (decode_next_iso1PaymentOptionList_PaymentOption j))] 110 x s
      else if grammarID = 111 then
        decode_switch 2
         [(0, decode_array_simple 111 3 2 iso1PaymentOptionList_PaymentOption_arrayLen
           (decode_next_iso1PaymentOptionList_PaymentOption j)),
          (1, decode_end 4)] 111 x s
      else if grammarID = 3 then
        decode_switch 1
         [(0, decode_end 4)] 3 x s
      else Some (EXI_ERROR_UNKOWN_GRAMMAR_ID, (False, grammarID, x), s))"

definition decode_iso1PaymentOptionListType :: "u32 \<Rightarrow> iso1PaymentOptionListType decoder" where
  "decode_iso1PaymentOptionListType j x s = grammar_loop (iso1PaymentOptionList_dec_step j) 110
      (fst x, init_iso1PaymentOptionListType (snd x)) s"

definition iso1PaymentOptionList_ok :: "iso1PaymentOptionListType \<Rightarrow> bool" where
  "iso1PaymentOptionList_ok v \<longleftrightarrow>
     length (iso1PaymentOptionList_PaymentOption_array v) = 2 \<and>
       unat (iso1PaymentOptionList_PaymentOption_arrayLen v) \<le> 2 \<and>
       in_use (\<lambda>u. u < 2) (iso1PaymentOptionList_PaymentOption_array v)
       (iso1PaymentOptionList_PaymentOption_arrayLen v) \<and>
     unat (iso1PaymentOptionList_PaymentOption_arrayLen v) \<noteq> 0"

definition iso1PaymentOptionList_sized :: "iso1PaymentOptionListType \<Rightarrow> bool" where
  "iso1PaymentOptionList_sized a \<longleftrightarrow>
     length (iso1PaymentOptionList_PaymentOption_array a) = 2"

definition same_iso1PaymentOptionList :: "iso1PaymentOptionListType \<Rightarrow> iso1PaymentOptionListType
    \<Rightarrow> bool" where
  "same_iso1PaymentOptionList v a \<longleftrightarrow>
     iso1PaymentOptionList_PaymentOption_arrayLen a = iso1PaymentOptionList_PaymentOption_arrayLen v \<and>
       copied (=) (unat (iso1PaymentOptionList_PaymentOption_arrayLen v))
       (iso1PaymentOptionList_PaymentOption_array v) (iso1PaymentOptionList_PaymentOption_array a)"

definition iso1PaymentOptionList_at :: "iso1PaymentOptionListType \<Rightarrow> nat \<Rightarrow>
    iso1PaymentOptionList_locals \<Rightarrow> iso1PaymentOptionListType \<Rightarrow> bool" where
  "iso1PaymentOptionList_at v g x a \<longleftrightarrow>
     counts [(110, 0), (111, 1)] g (iso1PaymentOptionList_PaymentOption_currArrayIndex x) \<and>
     iso1PaymentOptionList_ok v \<and>
     g \<in> {110, 111, 3} \<and>
     iso1PaymentOptionList_sized a \<and>
     unat (iso1PaymentOptionList_PaymentOption_arrayLen a) = iso1PaymentOptionList_PaymentOption_currArrayIndex x
       \<and> iso1PaymentOptionList_PaymentOption_currArrayIndex x \<le> unat
       (iso1PaymentOptionList_PaymentOption_arrayLen v) \<and>
     copied (=) (iso1PaymentOptionList_PaymentOption_currArrayIndex x) (iso1PaymentOptionList_PaymentOption_array v)
       (iso1PaymentOptionList_PaymentOption_array a) \<and>
     (g = 3 \<longrightarrow> iso1PaymentOptionList_PaymentOption_currArrayIndex x = unat
       (iso1PaymentOptionList_PaymentOption_arrayLen v))"

definition iso1PaymentOptionList_rank :: "iso1PaymentOptionListType \<Rightarrow> nat \<Rightarrow>
    iso1PaymentOptionList_locals \<Rightarrow> nat" where
  "iso1PaymentOptionList_rank v g x = left_at [(110, 2), (111, 2), (3, 1)] g + due 5
      (iso1PaymentOptionList_PaymentOption_arrayLen v) (iso1PaymentOptionList_PaymentOption_currArrayIndex x)"

lemmas iso1PaymentOptionList_steps = iso1PaymentOptionList_enc_step_def
  iso1PaymentOptionList_dec_step_def

lemmas iso1PaymentOptionList_props = iso1PaymentOptionList_at_def iso1PaymentOptionList_sized_def
    same_iso1PaymentOptionList_def iso1PaymentOptionList_rank_def left_at_def

lemmas iso1PaymentOptionList_elements = in_use_nth [where P = "\<lambda>u. u < 2"]

interpretation iso1PaymentOptionList: walking_pair "iso1PaymentOptionList_enc_step v" "iso1PaymentOptionList_dec_step
    j" "iso1PaymentOptionList_at v" "iso1PaymentOptionList_rank v"
  "\<lambda>a. same_iso1PaymentOptionList v a \<and> iso1PaymentOptionList_sized a" for v j
proof
  fix g x a assume at: "iso1PaymentOptionList_at v g x a"
  then have "g \<in> {110, 111, 3}" by (simp add: iso1PaymentOptionList_at_def)
  then show "walks (iso1PaymentOptionList_enc_step v) (iso1PaymentOptionList_dec_step j) (iso1PaymentOptionList_at v)
      (iso1PaymentOptionList_rank v)
    (\<lambda>a. same_iso1PaymentOptionList v a \<and> iso1PaymentOptionList_sized a) g x a" using at
    by - (elim insertE emptyE; (hypsubst, rule walks_by, simp (no_asm) add: iso1PaymentOptionList_steps del:
      One_nat_def,
      simp (no_asm) add: iso1PaymentOptionList_steps del: One_nat_def, simp (asm_lr) add: iso1PaymentOptionList_props
        del: One_nat_def, (elim conjE)?,
      ((rule walks_ifs)+)?); (frule iso1PaymentOptionList_ok_def [THEN iffD1], ((drule (1) known)+)?, (elim conjE)?,
        ((drule (1) known)+)?, (elim conjE)?,
      (((rule walks_shapes, simp (no_asm) del: One_nat_def, ((rule reads_intros)+)?);
      ((elim exE conjE)?,
        ((simp (no_asm_simp) add: iso1PaymentOptionList_props iso1PaymentOptionList_elements counts_def array_intros;
        fail) | (simp (asm_lr) add: iso1PaymentOptionList_props iso1PaymentOptionList_elements counts_def
        array_intros; fail) | (auto simp: iso1PaymentOptionList_props iso1PaymentOptionList_elements counts_def
        array_intros; fail)))) | (erule (1) notE; fail) |
        ((elim exE conjE)?,
        ((simp (no_asm_simp) add: iso1PaymentOptionList_props iso1PaymentOptionList_elements counts_def array_intros;
        fail) | (simp (asm_lr) add: iso1PaymentOptionList_props iso1PaymentOptionList_elements counts_def
        array_intros; fail) | (auto simp: iso1PaymentOptionList_props iso1PaymentOptionList_elements counts_def
        array_intros; fail))))))
qed

lemma reads_iso1PaymentOptionList [reads_intros]:
  "iso1PaymentOptionList_ok v \<Longrightarrow> iso1PaymentOptionList_sized a \<Longrightarrow>
      reads 12 (\<lambda>s. encode_iso1PaymentOptionListType s v) (decode_iso1PaymentOptionListType j) a
      (\<lambda>a. same_iso1PaymentOptionList v a \<and> iso1PaymentOptionList_sized a)"
  unfolding encode_iso1PaymentOptionListType_def decode_iso1PaymentOptionListType_def [abs_def]
  by (rule reads_start [OF iso1PaymentOptionList.walk_reads, THEN reads_mono])
      (auto simp: iso1PaymentOptionList_props iso1PaymentOptionList_ok_def counts_def due_def
      init_iso1PaymentOptionListType_def)

interpretation iso1PaymentOptionList_enc: advancing_machine "iso1PaymentOptionList_enc_step v" "left_at
    [(110, 3), (111, 2), (3, 1)]" for v
  by unfold_locales (auto simp: iso1PaymentOptionList_steps dest!: array_advance_dests split: if_splits;
      simp add: left_at_def)

interpretation iso1PaymentOptionList_dec: advancing_machine "iso1PaymentOptionList_dec_step j" "left_at
    [(110, 3), (111, 2), (3, 1)]" for j
  by unfold_locales (auto simp: iso1PaymentOptionList_steps dest!: array_advance_dests elim!:
      decode_switch_next split: if_splits;
      simp add: left_at_def)

subsection \<open>\<open>iso1SupportedEnergyTransferModeType\<close>\<close>

record iso1SupportedEnergyTransferModeType =
  iso1SupportedEnergyTransferMode_EnergyTransferMode_array :: "u32 list"
  iso1SupportedEnergyTransferMode_EnergyTransferMode_arrayLen :: u16

definition init_iso1SupportedEnergyTransferModeType :: "iso1SupportedEnergyTransferModeType \<Rightarrow>
    iso1SupportedEnergyTransferModeType" where
  "init_iso1SupportedEnergyTransferModeType a = a\<lparr>iso1SupportedEnergyTransferMode_EnergyTransferMode_arrayLen
      := 0\<rparr>"

record iso1SupportedEnergyTransferMode_locals =
  iso1SupportedEnergyTransferMode_EnergyTransferMode_currArrayIndex :: nat

definition iso1SupportedEnergyTransferMode_enc_step :: "iso1SupportedEnergyTransferModeType \<Rightarrow>
    iso1SupportedEnergyTransferMode_locals machine" where
  "iso1SupportedEnergyTransferMode_enc_step v grammarID x s =
     (if grammarID = 357 then
        if iso1SupportedEnergyTransferMode_EnergyTransferMode_currArrayIndex x < unat
          (iso1SupportedEnergyTransferMode_EnergyTransferMode_arrayLen v) then
          encode_array_simple 1 0 358 (\<lambda>s u. encodeNBitUnsignedInteger s 3 u)
          (iso1SupportedEnergyTransferMode_EnergyTransferMode_array v)
          iso1SupportedEnergyTransferMode_EnergyTransferMode_currArrayIndex
          iso1SupportedEnergyTransferMode_EnergyTransferMode_currArrayIndex_update x s
        else Some (EXI_ERROR_UNKOWN_EVENT, (False, grammarID, x), s)
      else if grammarID = 358 then
        if iso1SupportedEnergyTransferMode_EnergyTransferMode_currArrayIndex x < unat
          (iso1SupportedEnergyTransferMode_EnergyTransferMode_arrayLen v) then
          encode_array_simple 2 0 359 (\<lambda>s u. encodeNBitUnsignedInteger s 3 u)
          (iso1SupportedEnergyTransferMode_EnergyTransferMode_array v)
          iso1SupportedEnergyTransferMode_EnergyTransferMode_currArrayIndex
          iso1SupportedEnergyTransferMode_EnergyTransferMode_currArrayIndex_update x s
        else finish 4 x (encodeNBitUnsignedInteger s 2 1)
      else if grammarID = 359 then
        if iso1SupportedEnergyTransferMode_EnergyTransferMode_currArrayIndex x < unat
          (iso1SupportedEnergyTransferMode_EnergyTransferMode_arrayLen v) then
          encode_array_simple 2 0 360 (\<lambda>s u. encodeNBitUnsignedInteger s 3 u)
          (iso1SupportedEnergyTransferMode_EnergyTransferMode_array v)
          iso1SupportedEnergyTransferMode_EnergyTransferMode_currArrayIndex
          iso1SupportedEnergyTransferMode_EnergyTransferMode_currArrayIndex_update x s
        else finish 4 x (encodeNBitUnsignedInteger s 2 1)
      else if grammarID = 360 then
        if iso1SupportedEnergyTransferMode_EnergyTransferMode_currArrayIndex x < unat
          (iso1SupportedEnergyTransferMode_EnergyTransferMode_arrayLen v) then
          encode_array_simple 2 0 361 (\<lambda>s u. encodeNBitUnsignedInteger s 3 u)
          (iso1SupportedEnergyTransferMode_EnergyTransferMode_array v)
          iso1SupportedEnergyTransferMode_EnergyTransferMode_currArrayIndex
          iso1SupportedEnergyTransferMode_EnergyTransferMode_currArrayIndex_update x s
        else finish 4 x (encodeNBitUnsignedInteger s 2 1)
      else if grammarID = 361 then
        if iso1SupportedEnergyTransferMode_EnergyTransferMode_currArrayIndex x < unat
          (iso1SupportedEnergyTransferMode_EnergyTransferMode_arrayLen v) then
          encode_array_simple 2 0 362 (\<lambda>s u. encodeNBitUnsignedInteger s 3 u)
          (iso1SupportedEnergyTransferMode_EnergyTransferMode_array v)
          iso1SupportedEnergyTransferMode_EnergyTransferMode_currArrayIndex
          iso1SupportedEnergyTransferMode_EnergyTransferMode_currArrayIndex_update x s
        else finish 4 x (encodeNBitUnsignedInteger s 2 1)
      else if grammarID = 362 then
        if iso1SupportedEnergyTransferMode_EnergyTransferMode_currArrayIndex x < unat
          (iso1SupportedEnergyTransferMode_EnergyTransferMode_arrayLen v) then
          encode_array_simple 2 0 3 (\<lambda>s u. encodeNBitUnsignedInteger s 3 u)
          (iso1SupportedEnergyTransferMode_EnergyTransferMode_array v)
          iso1SupportedEnergyTransferMode_EnergyTransferMode_currArrayIndex
          iso1SupportedEnergyTransferMode_EnergyTransferMode_currArrayIndex_update x s
        else finish 4 x (encodeNBitUnsignedInteger s 2 1)
      else if grammarID = 3 then
        finish 4 x (encodeNBitUnsignedInteger s 1 0)
      else Some (EXI_ERROR_UNKOWN_GRAMMAR_ID, (False, grammarID, x), s))"

definition encode_iso1SupportedEnergyTransferModeType :: "bitstream \<Rightarrow> iso1SupportedEnergyTransferModeType
    \<Rightarrow> (errn \<times> bitstream) option" where
  "encode_iso1SupportedEnergyTransferModeType s v = run_encoder (iso1SupportedEnergyTransferMode_enc_step v) 357
      \<lparr>iso1SupportedEnergyTransferMode_EnergyTransferMode_currArrayIndex = 0\<rparr> s"

abbreviation (input) decode_next_iso1SupportedEnergyTransferMode_EnergyTransferMode :: "u32 \<Rightarrow>
    iso1SupportedEnergyTransferModeType decoder" where
  "decode_next_iso1SupportedEnergyTransferMode_EnergyTransferMode j \<equiv> decode_element
      (decode_nbit_field 3 (\<lambda>u _. u)) iso1SupportedEnergyTransferMode_EnergyTransferMode_array
      iso1SupportedEnergyTransferMode_EnergyTransferMode_arrayLen
      (\<lambda>xs n a. a\<lparr>iso1SupportedEnergyTransferMode_EnergyTransferMode_array := xs,
      iso1SupportedEnergyTransferMode_EnergyTransferMode_arrayLen := n\<rparr>)"

definition iso1SupportedEnergyTransferMode_dec_step_3 :: "u32 \<Rightarrow>
    (dec_static \<times> iso1SupportedEnergyTransferModeType) machine" where
  "iso1SupportedEnergyTransferMode_dec_step_3 j grammarID x s =
     (if grammarID = 3 then
        decode_switch 1
         [(0, decode_end 4)] 3 x s
      else Some (EXI_ERROR_UNKOWN_GRAMMAR_ID, (False, grammarID, x), s))"

definition iso1SupportedEnergyTransferMode_dec_step_2 :: "u32 \<Rightarrow>
    (dec_static \<times> iso1SupportedEnergyTransferModeType) machine" where
  "iso1SupportedEnergyTransferMode_dec_step_2 j grammarID x s =
     (if grammarID = 360 then
        decode_switch 2
         [(0, decode_array_simple 360 361 6 iso1SupportedEnergyTransferMode_EnergyTransferMode_arrayLen
           (decode_next_iso1SupportedEnergyTransferMode_EnergyTransferMode j)),
          (1, decode_end 4)] 360 x s
      else if grammarID = 361 then
        decode_switch 2
         [(0, decode_array_simple 361 362 6 iso1SupportedEnergyTransferMode_EnergyTransferMode_arrayLen
           (decode_next_iso1SupportedEnergyTransferMode_EnergyTransferMode j)),
          (1, decode_end 4)] 361 x s
      else if grammarID = 362 then
        decode_switch 2
         [(0, decode_array_simple 362 3 6 iso1SupportedEnergyTransferMode_EnergyTransferMode_arrayLen
           (decode_next_iso1SupportedEnergyTransferMode_EnergyTransferMode j)),
          (1, decode_end 4)] 362 x s
      else iso1SupportedEnergyTransferMode_dec_step_3 j grammarID x s)"

definition iso1SupportedEnergyTransferMode_dec_step :: "u32 \<Rightarrow>
    (dec_static \<times> iso1SupportedEnergyTransferModeType) machine" where
  "iso1SupportedEnergyTransferMode_dec_step j grammarID x s =
     (if grammarID = 357 then
        decode_switch 1
         [(0, decode_array_simple 357 358 6 iso1SupportedEnergyTransferMode_EnergyTransferMode_arrayLen
           (decode_next_iso1SupportedEnergyTransferMode_EnergyTransferMode j))] 357 x s
      else if grammarID = 358 then
        decode_switch 2
         [(0, decode_array_simple 358 359 6 iso1SupportedEnergyTransferMode_EnergyTransferMode_arrayLen
           (decode_next_iso1SupportedEnergyTransferMode_EnergyTransferMode j)),
          (1, decode_end 4)] 358 x s
      else if grammarID = 359 then
        decode_switch 2
         [(0, decode_array_simple 359 360 6 iso1SupportedEnergyTransferMode_EnergyTransferMode_arrayLen
           (decode_next_iso1SupportedEnergyTransferMode_EnergyTransferMode j)),
          (1, decode_end 4)] 359 x s
      else iso1SupportedEnergyTransferMode_dec_step_2 j grammarID x s)"

definition decode_iso1SupportedEnergyTransferModeType :: "u32 \<Rightarrow> iso1SupportedEnergyTransferModeType
    decoder" where
  "decode_iso1SupportedEnergyTransferModeType j x s = grammar_loop (iso1SupportedEnergyTransferMode_dec_step j) 357
      (fst x, init_iso1SupportedEnergyTransferModeType (snd x)) s"

definition iso1SupportedEnergyTransferMode_ok :: "iso1SupportedEnergyTransferModeType \<Rightarrow> bool" where
  "iso1SupportedEnergyTransferMode_ok v \<longleftrightarrow>
     length (iso1SupportedEnergyTransferMode_EnergyTransferMode_array v) = 6 \<and>
       unat (iso1SupportedEnergyTransferMode_EnergyTransferMode_arrayLen v) \<le> 6 \<and>
       in_use (\<lambda>u. u < 8) (iso1SupportedEnergyTransferMode_EnergyTransferMode_array v)
       (iso1SupportedEnergyTransferMode_EnergyTransferMode_arrayLen v) \<and>
     unat (iso1SupportedEnergyTransferMode_EnergyTransferMode_arrayLen v) \<noteq> 0"

definition iso1SupportedEnergyTransferMode_sized :: "iso1SupportedEnergyTransferModeType \<Rightarrow> bool" where
  "iso1SupportedEnergyTransferMode_sized a \<longleftrightarrow>
     length (iso1SupportedEnergyTransferMode_EnergyTransferMode_array a) = 6"

definition same_iso1SupportedEnergyTransferMode :: "iso1SupportedEnergyTransferModeType \<Rightarrow>
    iso1SupportedEnergyTransferModeType \<Rightarrow> bool" where
  "same_iso1SupportedEnergyTransferMode v a \<longleftrightarrow>
     iso1SupportedEnergyTransferMode_EnergyTransferMode_arrayLen
       a = iso1SupportedEnergyTransferMode_EnergyTransferMode_arrayLen v \<and>
       copied (=) (unat (iso1SupportedEnergyTransferMode_EnergyTransferMode_arrayLen v))
       (iso1SupportedEnergyTransferMode_EnergyTransferMode_array v)
       (iso1SupportedEnergyTransferMode_EnergyTransferMode_array a)"

definition iso1SupportedEnergyTransferMode_at :: "iso1SupportedEnergyTransferModeType \<Rightarrow> nat \<Rightarrow>
    iso1SupportedEnergyTransferMode_locals \<Rightarrow> iso1SupportedEnergyTransferModeType \<Rightarrow> bool" where
  "iso1SupportedEnergyTransferMode_at v g x a \<longleftrightarrow>
     counts [(357, 0), (358, 1), (359, 2), (360, 3), (361, 4), (362, 5)] g
       (iso1SupportedEnergyTransferMode_EnergyTransferMode_currArrayIndex x) \<and>
     iso1SupportedEnergyTransferMode_ok v \<and>
     g \<in> {357, 358, 359, 360, 361, 362, 3} \<and>
     iso1SupportedEnergyTransferMode_sized a \<and>
     unat (iso1SupportedEnergyTransferMode_EnergyTransferMode_arrayLen
       a) = iso1SupportedEnergyTransferMode_EnergyTransferMode_currArrayIndex x \<and>
       iso1SupportedEnergyTransferMode_EnergyTransferMode_currArrayIndex x \<le> unat
       (iso1SupportedEnergyTransferMode_EnergyTransferMode_arrayLen v) \<and>
     copied (=) (iso1SupportedEnergyTransferMode_EnergyTransferMode_currArrayIndex x)
       (iso1SupportedEnergyTransferMode_EnergyTransferMode_array v)
       (iso1SupportedEnergyTransferMode_EnergyTransferMode_array a) \<and>
     (g = 3 \<longrightarrow> iso1SupportedEnergyTransferMode_EnergyTransferMode_currArrayIndex x = unat
       (iso1SupportedEnergyTransferMode_EnergyTransferMode_arrayLen v))"

definition iso1SupportedEnergyTransferMode_rank :: "iso1SupportedEnergyTransferModeType \<Rightarrow> nat
    \<Rightarrow> iso1SupportedEnergyTransferMode_locals \<Rightarrow> nat" where
  "iso1SupportedEnergyTransferMode_rank v g x = left_at [(357, 2), (358, 2), (359, 2), (360, 2), (361, 2), (362, 2),
      (3, 1)] g + due 7 (iso1SupportedEnergyTransferMode_EnergyTransferMode_arrayLen v)
      (iso1SupportedEnergyTransferMode_EnergyTransferMode_currArrayIndex x)"

lemmas iso1SupportedEnergyTransferMode_steps = iso1SupportedEnergyTransferMode_enc_step_def
  iso1SupportedEnergyTransferMode_dec_step_def iso1SupportedEnergyTransferMode_dec_step_2_def
      iso1SupportedEnergyTransferMode_dec_step_3_def

lemmas iso1SupportedEnergyTransferMode_props = iso1SupportedEnergyTransferMode_at_def
    iso1SupportedEnergyTransferMode_sized_def same_iso1SupportedEnergyTransferMode_def
    iso1SupportedEnergyTransferMode_rank_def left_at_def

lemmas iso1SupportedEnergyTransferMode_elements = in_use_nth [where P = "\<lambda>u. u < 8"]

interpretation iso1SupportedEnergyTransferMode: walking_pair "iso1SupportedEnergyTransferMode_enc_step v"
    "iso1SupportedEnergyTransferMode_dec_step j" "iso1SupportedEnergyTransferMode_at v"
    "iso1SupportedEnergyTransferMode_rank v"
  "\<lambda>a. same_iso1SupportedEnergyTransferMode v a \<and> iso1SupportedEnergyTransferMode_sized a" for v j
proof
  fix g x a assume at: "iso1SupportedEnergyTransferMode_at v g x a"
  then have "g \<in> {357, 358, 359, 360, 361, 362, 3}" by (simp add: iso1SupportedEnergyTransferMode_at_def)
  then show "walks (iso1SupportedEnergyTransferMode_enc_step v) (iso1SupportedEnergyTransferMode_dec_step j)
      (iso1SupportedEnergyTransferMode_at v) (iso1SupportedEnergyTransferMode_rank v)
    (\<lambda>a. same_iso1SupportedEnergyTransferMode v a \<and> iso1SupportedEnergyTransferMode_sized a) g x a" using
      at
    by - (elim insertE emptyE; (hypsubst, rule walks_by, simp (no_asm) add: iso1SupportedEnergyTransferMode_steps del:
      One_nat_def,
      simp (no_asm) add: iso1SupportedEnergyTransferMode_steps del: One_nat_def,
        simp (asm_lr) add: iso1SupportedEnergyTransferMode_props del: One_nat_def, (elim conjE)?,
      ((rule walks_ifs)+)?); (frule iso1SupportedEnergyTransferMode_ok_def [THEN iffD1], ((drule (1) known)+)?,
        (elim conjE)?, ((drule (1) known)+)?, (elim conjE)?,
      (((rule walks_shapes, simp (no_asm) del: One_nat_def, ((rule reads_intros)+)?);
      ((elim exE conjE)?,
        ((simp (no_asm_simp) add: iso1SupportedEnergyTransferMode_props iso1SupportedEnergyTransferMode_elements
        counts_def array_intros; fail) |
        (simp (asm_lr) add: iso1SupportedEnergyTransferMode_props iso1SupportedEnergyTransferMode_elements counts_def
        array_intros; fail) |
        (auto simp: iso1SupportedEnergyTransferMode_props iso1SupportedEnergyTransferMode_elements counts_def
        array_intros; fail)))) | (erule (1) notE; fail) |
        ((elim exE conjE)?,
        ((simp (no_asm_simp) add: iso1SupportedEnergyTransferMode_props iso1SupportedEnergyTransferMode_elements
        counts_def array_intros; fail) |
        (simp (asm_lr) add: iso1SupportedEnergyTransferMode_props iso1SupportedEnergyTransferMode_elements counts_def
        array_intros; fail) |
        (auto simp: iso1SupportedEnergyTransferMode_props iso1SupportedEnergyTransferMode_elements counts_def
        array_intros; fail))))))
qed

lemma reads_iso1SupportedEnergyTransferMode [reads_intros]:
  "iso1SupportedEnergyTransferMode_ok v \<Longrightarrow> iso1SupportedEnergyTransferMode_sized a \<Longrightarrow>
      reads 44 (\<lambda>s. encode_iso1SupportedEnergyTransferModeType s v)
      (decode_iso1SupportedEnergyTransferModeType j) a (\<lambda>a. same_iso1SupportedEnergyTransferMode v a \<and>
      iso1SupportedEnergyTransferMode_sized a)"
  unfolding encode_iso1SupportedEnergyTransferModeType_def decode_iso1SupportedEnergyTransferModeType_def [abs_def]
  by (rule reads_start [OF iso1SupportedEnergyTransferMode.walk_reads, THEN reads_mono])
      (auto simp: iso1SupportedEnergyTransferMode_props iso1SupportedEnergyTransferMode_ok_def counts_def due_def
      init_iso1SupportedEnergyTransferModeType_def)

interpretation iso1SupportedEnergyTransferMode_enc: advancing_machine "iso1SupportedEnergyTransferMode_enc_step v"
    "left_at [(357, 7), (358, 6), (359, 5), (360, 4), (361, 3), (362, 2), (3, 1)]" for v
  by unfold_locales (auto simp: iso1SupportedEnergyTransferMode_steps left_at_def dest!: array_advance_dests split:
      if_splits)

interpretation iso1SupportedEnergyTransferMode_dec: advancing_machine "iso1SupportedEnergyTransferMode_dec_step j"
    "left_at [(357, 7), (358, 6), (359, 5), (360, 4), (361, 3), (362, 2), (3, 1)]" for j
  by unfold_locales (auto simp: iso1SupportedEnergyTransferMode_steps dest!: array_advance_dests elim!:
      decode_switch_next split: if_splits;
      simp add: left_at_def)

subsection \<open>\<open>iso1ChargeServiceType\<close>\<close>

record iso1ChargeServiceType =
  iso1ChargeService_ServiceID :: u16
  iso1ChargeService_ServiceName_characters :: "u8 list"
  iso1ChargeService_ServiceName_charactersLen :: u16
  iso1ChargeService_ServiceName_isUsed :: bool
  iso1ChargeService_ServiceCategory :: u32
  iso1ChargeService_ServiceScope_characters :: "u8 list"
  iso1ChargeService_ServiceScope_charactersLen :: u16
  iso1ChargeService_ServiceScope_isUsed :: bool
  iso1ChargeService_FreeService :: int
  iso1ChargeService_SupportedEnergyTransferMode :: iso1SupportedEnergyTransferModeType

definition init_iso1ChargeServiceType :: "iso1ChargeServiceType \<Rightarrow> iso1ChargeServiceType" where
  "init_iso1ChargeServiceType a = a\<lparr>iso1ChargeService_ServiceName_isUsed := False,
      iso1ChargeService_ServiceScope_isUsed := False\<rparr>"

definition iso1ChargeService_enc_step :: "iso1ChargeServiceType \<Rightarrow> unit machine" where
  "iso1ChargeService_enc_step v grammarID x s =
     (if grammarID = 160 then
        goto 161 x (encode_simple 1 0 (\<lambda>s. encodeUnsignedInteger16 s (iso1ChargeService_ServiceID v)) s)
      else if grammarID = 161 then
        if iso1ChargeService_ServiceName_isUsed v then
          goto 162 x
          (encode_simple 2 0 (encode_string_field (iso1ChargeService_ServiceName_characters v)
          (iso1ChargeService_ServiceName_charactersLen v)) s)
        else goto 163 x
          (encode_simple 2 1 (\<lambda>s. encodeNBitUnsignedInteger s 2 (iso1ChargeService_ServiceCategory v)) s)
      else if grammarID = 162 then
        goto 163 x
          (encode_simple 1 0 (\<lambda>s. encodeNBitUnsignedInteger s 2 (iso1ChargeService_ServiceCategory v)) s)
      else if grammarID = 163 then
        if iso1ChargeService_ServiceScope_isUsed v then
          goto 164 x
          (encode_simple 2 0 (encode_string_field (iso1ChargeService_ServiceScope_characters v)
          (iso1ChargeService_ServiceScope_charactersLen v)) s)
        else goto 165 x (encode_simple 2 1 (\<lambda>s. encodeBoolean s (iso1ChargeService_FreeService v)) s)
      else if grammarID = 164 then
        goto 165 x (encode_simple 1 0 (\<lambda>s. encodeBoolean s (iso1ChargeService_FreeService v)) s)
      else if grammarID = 165 then
        goto 3 x (encode_child 1 0
          (\<lambda>s. encode_iso1SupportedEnergyTransferModeType s (iso1ChargeService_SupportedEnergyTransferMode v))
          s)
      else if grammarID = 3 then
        finish 4 x (encodeNBitUnsignedInteger s 1 0)
      else Some (EXI_ERROR_UNKOWN_GRAMMAR_ID, (False, grammarID, x), s))"

definition encode_iso1ChargeServiceType :: "bitstream \<Rightarrow> iso1ChargeServiceType \<Rightarrow>
    (errn \<times> bitstream) option" where
  "encode_iso1ChargeServiceType s v = run_encoder (iso1ChargeService_enc_step v) 160 () s"

definition iso1ChargeService_dec_step_2 :: "u32 \<Rightarrow> (dec_static \<times> iso1ChargeServiceType) machine"
    where
  "iso1ChargeService_dec_step_2 j grammarID x s =
     (if grammarID = 163 then
        decode_switch 2
         [(0, decode_simple 163 164
           (decode_used (\<lambda>a. a\<lparr>iso1ChargeService_ServiceScope_isUsed := True\<rparr>)
           (decode_string_field j 65 iso1ChargeService_ServiceScope_characters
           (\<lambda>u a. a\<lparr>iso1ChargeService_ServiceScope_characters := u\<rparr>)
           (\<lambda>u a. a\<lparr>iso1ChargeService_ServiceScope_charactersLen := u\<rparr>)))),
          (1, decode_simple 163 165
            (decode_bool_field j (\<lambda>u a. a\<lparr>iso1ChargeService_FreeService := u\<rparr>)))] 163 x s
      else if grammarID = 164 then
        decode_switch 1
         [(0, decode_simple 164 165
           (decode_bool_field j (\<lambda>u a. a\<lparr>iso1ChargeService_FreeService := u\<rparr>)))] 164 x s
      else if grammarID = 165 then
        decode_switch 1
         [(0, decode_child 3
           (decode_sub (decode_iso1SupportedEnergyTransferModeType j) iso1ChargeService_SupportedEnergyTransferMode
           (\<lambda>u a. a\<lparr>iso1ChargeService_SupportedEnergyTransferMode := u\<rparr>)))] 165 x s
      else if grammarID = 3 then
        decode_switch 1
         [(0, decode_end 4)] 3 x s
      else Some (EXI_ERROR_UNKOWN_GRAMMAR_ID, (False, grammarID, x), s))"

definition iso1ChargeService_dec_step :: "u32 \<Rightarrow> (dec_static \<times> iso1ChargeServiceType) machine" where
  "iso1ChargeService_dec_step j grammarID x s =
     (if grammarID = 160 then
        decode_switch 1
         [(0, decode_simple 160 161
           (decode_u16_field j (\<lambda>u a. a\<lparr>iso1ChargeService_ServiceID := u\<rparr>)))] 160 x s
      else if grammarID = 161 then
        decode_switch 2
         [(0, decode_simple 161 162
           (decode_used (\<lambda>a. a\<lparr>iso1ChargeService_ServiceName_isUsed := True\<rparr>)
           (decode_string_field j 33 iso1ChargeService_ServiceName_characters
           (\<lambda>u a. a\<lparr>iso1ChargeService_ServiceName_characters := u\<rparr>)
           (\<lambda>u a. a\<lparr>iso1ChargeService_ServiceName_charactersLen := u\<rparr>)))),
          (1, decode_simple 161 163
            (decode_nbit_field 2 (\<lambda>u a. a\<lparr>iso1ChargeService_ServiceCategory := u\<rparr>)))] 161 x s
      else if grammarID = 162 then
        decode_switch 1
         [(0, decode_simple 162 163
           (decode_nbit_field 2 (\<lambda>u a. a\<lparr>iso1ChargeService_ServiceCategory := u\<rparr>)))] 162 x s
      else iso1ChargeService_dec_step_2 j grammarID x s)"

definition decode_iso1ChargeServiceType :: "u32 \<Rightarrow> iso1ChargeServiceType decoder" where
  "decode_iso1ChargeServiceType j x s = grammar_loop (iso1ChargeService_dec_step j) 160
      (fst x, init_iso1ChargeServiceType (snd x)) s"

definition iso1ChargeService_ok :: "iso1ChargeServiceType \<Rightarrow> bool" where
  "iso1ChargeService_ok v \<longleftrightarrow>
     when_used (iso1ChargeService_ServiceName_isUsed v)
       (string_ok 33 (iso1ChargeService_ServiceName_characters v) (iso1ChargeService_ServiceName_charactersLen v))
       \<and>
     iso1ChargeService_ServiceCategory v < 4 \<and>
     when_used (iso1ChargeService_ServiceScope_isUsed v)
       (string_ok 65 (iso1ChargeService_ServiceScope_characters v) (iso1ChargeService_ServiceScope_charactersLen v))
       \<and>
     iso1SupportedEnergyTransferMode_ok (iso1ChargeService_SupportedEnergyTransferMode v)"

definition iso1ChargeService_sized :: "iso1ChargeServiceType \<Rightarrow> bool" where
  "iso1ChargeService_sized a \<longleftrightarrow>
     length (iso1ChargeService_ServiceName_characters a) = 33 \<and>
     length (iso1ChargeService_ServiceScope_characters a) = 65 \<and>
     iso1SupportedEnergyTransferMode_sized (iso1ChargeService_SupportedEnergyTransferMode a)"

definition same_iso1ChargeService :: "iso1ChargeServiceType \<Rightarrow> iso1ChargeServiceType \<Rightarrow> bool"
    where
  "same_iso1ChargeService v a \<longleftrightarrow>
     iso1ChargeService_ServiceID a = iso1ChargeService_ServiceID v \<and>
     kept (iso1ChargeService_ServiceName_isUsed v) (iso1ChargeService_ServiceName_isUsed a)
       (iso1ChargeService_ServiceName_charactersLen a = iso1ChargeService_ServiceName_charactersLen v \<and>
       take (unat (iso1ChargeService_ServiceName_charactersLen v)) (iso1ChargeService_ServiceName_characters a) = take
       (unat (iso1ChargeService_ServiceName_charactersLen v)) (iso1ChargeService_ServiceName_characters v)) \<and>
     iso1ChargeService_ServiceCategory a = iso1ChargeService_ServiceCategory v \<and>
     kept (iso1ChargeService_ServiceScope_isUsed v) (iso1ChargeService_ServiceScope_isUsed a)
       (iso1ChargeService_ServiceScope_charactersLen a = iso1ChargeService_ServiceScope_charactersLen v \<and>
       take (unat (iso1ChargeService_ServiceScope_charactersLen v))
       (iso1ChargeService_ServiceScope_characters a) = take (unat (iso1ChargeService_ServiceScope_charactersLen v))
       (iso1ChargeService_ServiceScope_characters v)) \<and>
     (iso1ChargeService_FreeService a \<noteq> 0) = (iso1ChargeService_FreeService v \<noteq> 0) \<and>
     same_iso1SupportedEnergyTransferMode (iso1ChargeService_SupportedEnergyTransferMode v)
       (iso1ChargeService_SupportedEnergyTransferMode a)"

definition iso1ChargeService_at :: "iso1ChargeServiceType \<Rightarrow> nat \<Rightarrow> iso1ChargeServiceType
    \<Rightarrow> bool" where
  "iso1ChargeService_at v g a \<longleftrightarrow>
     iso1ChargeService_ok v \<and>
     g \<in> {160, 161, 162, 163, 164, 165, 3} \<and>
     iso1ChargeService_sized a \<and>
     (g \<notin> {160} \<longrightarrow> iso1ChargeService_ServiceID a = iso1ChargeService_ServiceID v) \<and>
     (if g \<in> {160, 161} then \<not> iso1ChargeService_ServiceName_isUsed a
      else kept (iso1ChargeService_ServiceName_isUsed v) (iso1ChargeService_ServiceName_isUsed a)
        (iso1ChargeService_ServiceName_charactersLen a = iso1ChargeService_ServiceName_charactersLen v \<and>
        take (unat (iso1ChargeService_ServiceName_charactersLen v))
        (iso1ChargeService_ServiceName_characters a) = take (unat (iso1ChargeService_ServiceName_charactersLen v))
        (iso1ChargeService_ServiceName_characters v))) \<and>
     (g \<notin> {160, 161, 162} \<longrightarrow> iso1ChargeService_ServiceCategory
       a = iso1ChargeService_ServiceCategory v) \<and>
     (if g \<in> {160, 161, 162, 163} then \<not> iso1ChargeService_ServiceScope_isUsed a
      else kept (iso1ChargeService_ServiceScope_isUsed v) (iso1ChargeService_ServiceScope_isUsed a)
        (iso1ChargeService_ServiceScope_charactersLen a = iso1ChargeService_ServiceScope_charactersLen v \<and>
        take (unat (iso1ChargeService_ServiceScope_charactersLen v))
        (iso1ChargeService_ServiceScope_characters a) = take (unat (iso1ChargeService_ServiceScope_charactersLen v))
        (iso1ChargeService_ServiceScope_characters v))) \<and>
     (g \<notin> {160, 161, 162, 163, 164} \<longrightarrow>
       (iso1ChargeService_FreeService a \<noteq> 0) = (iso1ChargeService_FreeService v \<noteq> 0)) \<and>
     (g \<notin> {160, 161, 162, 163, 164, 165} \<longrightarrow> same_iso1SupportedEnergyTransferMode
       (iso1ChargeService_SupportedEnergyTransferMode v) (iso1ChargeService_SupportedEnergyTransferMode a))"

lemmas iso1ChargeService_steps = iso1ChargeService_enc_step_def
  iso1ChargeService_dec_step_def iso1ChargeService_dec_step_2_def

lemmas iso1ChargeService_props = iso1ChargeService_at_def iso1ChargeService_sized_def same_iso1ChargeService_def
    left_at_def

interpretation iso1ChargeService: paired_machines "iso1ChargeService_enc_step v" "iso1ChargeService_dec_step j"
    "iso1ChargeService_at v"
  "left_at [(160, 922), (161, 895), (162, 603), (163, 598), (164, 50), (165, 46), (3, 1)]" "\<lambda>a.
      same_iso1ChargeService v a \<and> iso1ChargeService_sized a" for v j
proof
  fix g a assume at: "iso1ChargeService_at v g a"
  then have "g \<in> {160, 161, 162, 163, 164, 165, 3}" by (simp add: iso1ChargeService_at_def)
  then show "hops (iso1ChargeService_enc_step v) (iso1ChargeService_dec_step j) (iso1ChargeService_at v)
    (left_at [(160, 922), (161, 895), (162, 603), (163, 598), (164, 50), (165, 46), (3, 1)])
      (\<lambda>a. same_iso1ChargeService v a \<and> iso1ChargeService_sized a) g a" using at
    by - (elim insertE emptyE; (hypsubst, rule hops_by, simp (no_asm) add: iso1ChargeService_steps del: One_nat_def,
      simp (no_asm) add: iso1ChargeService_steps del: One_nat_def, simp (asm_lr) add: iso1ChargeService_props del:
        One_nat_def, (elim conjE)?,
      ((rule walks_ifs)+)?); (frule iso1ChargeService_ok_def [THEN iffD1], ((drule (1) known)+)?, (elim conjE)?,
        ((drule (1) known)+)?, (elim conjE)?,
      (((rule walks_shapes, simp (no_asm) del: One_nat_def, ((rule reads_intros)+)?);
      ((elim exE conjE)?,
        ((simp (no_asm_simp) add: iso1ChargeService_props; fail) | (simp (asm_lr) add: iso1ChargeService_props; fail)
        | (auto simp: iso1ChargeService_props; fail)))) | (erule (1) notE; fail) |
        ((elim exE conjE)?,
        ((simp (no_asm_simp) add: iso1ChargeService_props; fail) | (simp (asm_lr) add: iso1ChargeService_props; fail)
        | (auto simp: iso1ChargeService_props; fail))))))
qed

lemma reads_iso1ChargeService [reads_intros]:
  "iso1ChargeService_ok v \<Longrightarrow> iso1ChargeService_sized a \<Longrightarrow>
      reads 922 (\<lambda>s. encode_iso1ChargeServiceType s v) (decode_iso1ChargeServiceType j) a
      (\<lambda>a. same_iso1ChargeService v a \<and> iso1ChargeService_sized a)"
  unfolding encode_iso1ChargeServiceType_def decode_iso1ChargeServiceType_def [abs_def]
  by (rule reads_start [OF iso1ChargeService.machine_reads, of _ 160, THEN reads_mono])
      (auto simp: iso1ChargeService_at_def iso1ChargeService_sized_def init_iso1ChargeServiceType_def left_at_def)

interpretation iso1ChargeService_enc: advancing_machine "iso1ChargeService_enc_step v" "left_at
    [(160, 7), (161, 6), (162, 5), (163, 4), (164, 3), (165, 2), (3, 1)]" for v
  by unfold_locales (auto simp: iso1ChargeService_steps dest!: advance_dests split: if_splits;
      simp add: left_at_def)

interpretation iso1ChargeService_dec: advancing_machine "iso1ChargeService_dec_step j" "left_at
    [(160, 7), (161, 6), (162, 5), (163, 4), (164, 3), (165, 2), (3, 1)]" for j
  by unfold_locales (auto simp: iso1ChargeService_steps dest!: advance_dests elim!: decode_switch_next
      split: if_splits;
      simp add: left_at_def)

subsection \<open>\<open>iso1ServiceType\<close>\<close>

record iso1ServiceType =
  iso1Service_ServiceID :: u16
  iso1Service_ServiceName_characters :: "u8 list"
  iso1Service_ServiceName_charactersLen :: u16
  iso1Service_ServiceName_isUsed :: bool
  iso1Service_ServiceCategory :: u32
  iso1Service_ServiceScope_characters :: "u8 list"
  iso1Service_ServiceScope_charactersLen :: u16
  iso1Service_ServiceScope_isUsed :: bool
  iso1Service_FreeService :: int

definition init_iso1ServiceType :: "iso1ServiceType \<Rightarrow> iso1ServiceType" where
  "init_iso1ServiceType a = a\<lparr>iso1Service_ServiceName_isUsed := False, iso1Service_ServiceScope_isUsed
      := False\<rparr>"

definition iso1Service_enc_step :: "iso1ServiceType \<Rightarrow> unit machine" where
  "iso1Service_enc_step v grammarID x s =
     (if grammarID = 331 then
        goto 332 x (encode_simple 1 0 (\<lambda>s. encodeUnsignedInteger16 s (iso1Service_ServiceID v)) s)
      else if grammarID = 332 then
        if iso1Service_ServiceName_isUsed v then
          goto 333 x
          (encode_simple 2 0
          (encode_string_field (iso1Service_ServiceName_characters v) (iso1Service_ServiceName_charactersLen v)) s)
        else goto 334 x (encode_simple 2 1 (\<lambda>s. encodeNBitUnsignedInteger s 2 (iso1Service_ServiceCategory v))
          s)
      else if grammarID = 333 then
        goto 334 x (encode_simple 1 0 (\<lambda>s. encodeNBitUnsignedInteger s 2 (iso1Service_ServiceCategory v)) s)
      else if grammarID = 334 then
        if iso1Service_ServiceScope_isUsed v then
          goto 335 x
          (encode_simple 2 0
          (encode_string_field (iso1Service_ServiceScope_characters v) (iso1Service_ServiceScope_charactersLen v)) s)
        else goto 3 x (encode_simple 2 1 (\<lambda>s. encodeBoolean s (iso1Service_FreeService v)) s)
      else if grammarID = 335 then
        goto 3 x (encode_simple 1 0 (\<lambda>s. encodeBoolean s (iso1Service_FreeService v)) s)
      else if grammarID = 3 then
        finish 4 x (encodeNBitUnsignedInteger s 1 0)
      else Some (EXI_ERROR_UNKOWN_GRAMMAR_ID, (False, grammarID, x), s))"

definition encode_iso1ServiceType :: "bitstream \<Rightarrow> iso1ServiceType \<Rightarrow> (errn \<times> bitstream)
    option" where
  "encode_iso1ServiceType s v = run_encoder (iso1Service_enc_step v) 331 () s"

definition iso1Service_dec_step_2 :: "u32 \<Rightarrow> (dec_static \<times> iso1ServiceType) machine" where
  "iso1Service_dec_step_2 j grammarID x s =
     (if grammarID = 334 then
        decode_switch 2
         [(0, decode_simple 334 335
           (decode_used (\<lambda>a. a\<lparr>iso1Service_ServiceScope_isUsed := True\<rparr>)
           (decode_string_field j 65 iso1Service_ServiceScope_characters
           (\<lambda>u a. a\<lparr>iso1Service_ServiceScope_characters := u\<rparr>)
           (\<lambda>u a. a\<lparr>iso1Service_ServiceScope_charactersLen := u\<rparr>)))),
          (1, decode_simple 334 3
            (decode_bool_field j (\<lambda>u a. a\<lparr>iso1Service_FreeService := u\<rparr>)))] 334 x s
      else if grammarID = 335 then
        decode_switch 1
         [(0, decode_simple 335 3
           (decode_bool_field j (\<lambda>u a. a\<lparr>iso1Service_FreeService := u\<rparr>)))] 335 x s
      else if grammarID = 3 then
        decode_switch 1
         [(0, decode_end 4)] 3 x s
      else Some (EXI_ERROR_UNKOWN_GRAMMAR_ID, (False, grammarID, x), s))"

definition iso1Service_dec_step :: "u32 \<Rightarrow> (dec_static \<times> iso1ServiceType) machine" where
  "iso1Service_dec_step j grammarID x s =
     (if grammarID = 331 then
        decode_switch 1
         [(0, decode_simple 331 332 (decode_u16_field j (\<lambda>u a. a\<lparr>iso1Service_ServiceID := u\<rparr>)))]
           331 x s
      else if grammarID = 332 then
        decode_switch 2
         [(0, decode_simple 332 333 (decode_used (\<lambda>a. a\<lparr>iso1Service_ServiceName_isUsed := True\<rparr>)
           (decode_string_field j 33 iso1Service_ServiceName_characters
           (\<lambda>u a. a\<lparr>iso1Service_ServiceName_characters := u\<rparr>)
           (\<lambda>u a. a\<lparr>iso1Service_ServiceName_charactersLen := u\<rparr>)))),
          (1, decode_simple 332 334
            (decode_nbit_field 2 (\<lambda>u a. a\<lparr>iso1Service_ServiceCategory := u\<rparr>)))] 332 x s
      else if grammarID = 333 then
        decode_switch 1
         [(0, decode_simple 333 334
           (decode_nbit_field 2 (\<lambda>u a. a\<lparr>iso1Service_ServiceCategory := u\<rparr>)))] 333 x s
      else iso1Service_dec_step_2 j grammarID x s)"

definition decode_iso1ServiceType :: "u32 \<Rightarrow> iso1ServiceType decoder" where
  "decode_iso1ServiceType j x s = grammar_loop (iso1Service_dec_step j) 331 (fst x, init_iso1ServiceType (snd x)) s"

definition iso1Service_ok :: "iso1ServiceType \<Rightarrow> bool" where
  "iso1Service_ok v \<longleftrightarrow>
     when_used (iso1Service_ServiceName_isUsed v)
       (string_ok 33 (iso1Service_ServiceName_characters v) (iso1Service_ServiceName_charactersLen v)) \<and>
     iso1Service_ServiceCategory v < 4 \<and>
     when_used (iso1Service_ServiceScope_isUsed v)
       (string_ok 65 (iso1Service_ServiceScope_characters v) (iso1Service_ServiceScope_charactersLen v))"

definition iso1Service_sized :: "iso1ServiceType \<Rightarrow> bool" where
  "iso1Service_sized a \<longleftrightarrow>
     length (iso1Service_ServiceName_characters a) = 33 \<and>
     length (iso1Service_ServiceScope_characters a) = 65"

definition same_iso1Service :: "iso1ServiceType \<Rightarrow> iso1ServiceType \<Rightarrow> bool" where
  "same_iso1Service v a \<longleftrightarrow>
     iso1Service_ServiceID a = iso1Service_ServiceID v \<and>
     kept (iso1Service_ServiceName_isUsed v) (iso1Service_ServiceName_isUsed a)
       (iso1Service_ServiceName_charactersLen a = iso1Service_ServiceName_charactersLen v \<and>
       take (unat (iso1Service_ServiceName_charactersLen v)) (iso1Service_ServiceName_characters a) = take
       (unat (iso1Service_ServiceName_charactersLen v)) (iso1Service_ServiceName_characters v)) \<and>
     iso1Service_ServiceCategory a = iso1Service_ServiceCategory v \<and>
     kept (iso1Service_ServiceScope_isUsed v) (iso1Service_ServiceScope_isUsed a)
       (iso1Service_ServiceScope_charactersLen a = iso1Service_ServiceScope_charactersLen v \<and>
       take (unat (iso1Service_ServiceScope_charactersLen v)) (iso1Service_ServiceScope_characters a) = take
       (unat (iso1Service_ServiceScope_charactersLen v)) (iso1Service_ServiceScope_characters v)) \<and>
     (iso1Service_FreeService a \<noteq> 0) = (iso1Service_FreeService v \<noteq> 0)"

definition iso1Service_at :: "iso1ServiceType \<Rightarrow> nat \<Rightarrow> iso1ServiceType \<Rightarrow> bool"
    where
  "iso1Service_at v g a \<longleftrightarrow>
     iso1Service_ok v \<and>
     g \<in> {331, 332, 333, 334, 335, 3} \<and>
     iso1Service_sized a \<and>
     (g \<notin> {331} \<longrightarrow> iso1Service_ServiceID a = iso1Service_ServiceID v) \<and>
     (if g \<in> {331, 332} then \<not> iso1Service_ServiceName_isUsed a
      else kept (iso1Service_ServiceName_isUsed v) (iso1Service_ServiceName_isUsed a)
        (iso1Service_ServiceName_charactersLen a = iso1Service_ServiceName_charactersLen v \<and>
        take (unat (iso1Service_ServiceName_charactersLen v)) (iso1Service_ServiceName_characters a) = take
        (unat (iso1Service_ServiceName_charactersLen v)) (iso1Service_ServiceName_characters v))) \<and>
     (g \<notin> {331, 332, 333} \<longrightarrow> iso1Service_ServiceCategory a = iso1Service_ServiceCategory v)
       \<and>
     (if g \<in> {331, 332, 333, 334} then \<not> iso1Service_ServiceScope_isUsed a
      else kept (iso1Service_ServiceScope_isUsed v) (iso1Service_ServiceScope_isUsed a)
        (iso1Service_ServiceScope_charactersLen a = iso1Service_ServiceScope_charactersLen v \<and>
        take (unat (iso1Service_ServiceScope_charactersLen v)) (iso1Service_ServiceScope_characters a) = take
        (unat (iso1Service_ServiceScope_charactersLen v)) (iso1Service_ServiceScope_characters v))) \<and>
     (g \<notin> {331, 332, 333, 334, 335} \<longrightarrow>
       (iso1Service_FreeService a \<noteq> 0) = (iso1Service_FreeService v \<noteq> 0))"

lemmas iso1Service_steps = iso1Service_enc_step_def
  iso1Service_dec_step_def iso1Service_dec_step_2_def

lemmas iso1Service_props = iso1Service_at_def iso1Service_sized_def same_iso1Service_def left_at_def

interpretation iso1Service: paired_machines "iso1Service_enc_step v" "iso1Service_dec_step j" "iso1Service_at v"
  "left_at [(331, 877), (332, 850), (333, 558), (334, 553), (335, 5), (3, 1)]" "\<lambda>a. same_iso1Service v a
      \<and> iso1Service_sized a" for v j
proof
  fix g a assume at: "iso1Service_at v g a"
  then have "g \<in> {331, 332, 333, 334, 335, 3}" by (simp add: iso1Service_at_def)
  then show "hops (iso1Service_enc_step v) (iso1Service_dec_step j) (iso1Service_at v)
    (left_at [(331, 877), (332, 850), (333, 558), (334, 553), (335, 5), (3, 1)])
      (\<lambda>a. same_iso1Service v a \<and> iso1Service_sized a) g a" using at
    by - (elim insertE emptyE; (hypsubst, rule hops_by, simp (no_asm) add: iso1Service_steps del: One_nat_def,
      simp (no_asm) add: iso1Service_steps del: One_nat_def, simp (asm_lr) add: iso1Service_props del: One_nat_def,
        (elim conjE)?,
      ((rule walks_ifs)+)?); (frule iso1Service_ok_def [THEN iffD1], ((drule (1) known)+)?, (elim conjE)?,
        ((drule (1) known)+)?, (elim conjE)?,
      (((rule walks_shapes, simp (no_asm) del: One_nat_def, ((rule reads_intros)+)?);
      ((elim exE conjE)?,
        ((simp (no_asm_simp) add: iso1Service_props; fail) | (simp (asm_lr) add: iso1Service_props; fail) |
        (auto simp: iso1Service_props; fail)))) | (erule (1) notE; fail) |
        ((elim exE conjE)?,
        ((simp (no_asm_simp) add: iso1Service_props; fail) | (simp (asm_lr) add: iso1Service_props; fail) |
        (auto simp: iso1Service_props; fail))))))
qed

lemma reads_iso1Service [reads_intros]:
  "iso1Service_ok v \<Longrightarrow> iso1Service_sized a \<Longrightarrow>
      reads 877 (\<lambda>s. encode_iso1ServiceType s v) (decode_iso1ServiceType j) a
      (\<lambda>a. same_iso1Service v a \<and> iso1Service_sized a)"
  unfolding encode_iso1ServiceType_def decode_iso1ServiceType_def [abs_def]
  by (rule reads_start [OF iso1Service.machine_reads, of _ 331, THEN reads_mono])
      (auto simp: iso1Service_at_def iso1Service_sized_def init_iso1ServiceType_def left_at_def)

interpretation iso1Service_enc: advancing_machine "iso1Service_enc_step v" "left_at
    [(331, 6), (332, 5), (333, 4), (334, 3), (335, 2), (3, 1)]" for v
  by unfold_locales (auto simp: iso1Service_steps dest!: advance_dests split: if_splits;
      simp add: left_at_def)

interpretation iso1Service_dec: advancing_machine "iso1Service_dec_step j" "left_at
    [(331, 6), (332, 5), (333, 4), (334, 3), (335, 2), (3, 1)]" for j
  by unfold_locales (auto simp: iso1Service_steps left_at_def dest!: advance_dests elim!: decode_switch_next split:
      if_splits)

subsection \<open>\<open>iso1ServiceListType\<close>\<close>

record iso1ServiceListType =
  iso1ServiceList_Service_array :: "iso1ServiceType list"
  iso1ServiceList_Service_arrayLen :: u16

definition init_iso1ServiceListType :: "iso1ServiceListType \<Rightarrow> iso1ServiceListType" where
  "init_iso1ServiceListType a = a\<lparr>iso1ServiceList_Service_arrayLen := 0\<rparr>"

record iso1ServiceList_locals =
  iso1ServiceList_Service_currArrayIndex :: nat

definition iso1ServiceList_enc_step :: "iso1ServiceListType \<Rightarrow> iso1ServiceList_locals machine" where
  "iso1ServiceList_enc_step v grammarID x s =
     (if grammarID = 69 then
        if iso1ServiceList_Service_currArrayIndex x < unat (iso1ServiceList_Service_arrayLen v) then
          encode_array_child 1 0 70 encode_iso1ServiceType (iso1ServiceList_Service_array v)
          iso1ServiceList_Service_currArrayIndex iso1ServiceList_Service_currArrayIndex_update x s
        else Some (EXI_ERROR_UNKOWN_EVENT, (False, grammarID, x), s)
      else if grammarID = 70 then
        if iso1ServiceList_Service_currArrayIndex x < unat (iso1ServiceList_Service_arrayLen v) then
          encode_array_child 2 0 71 encode_iso1ServiceType (iso1ServiceList_Service_array v)
          iso1ServiceList_Service_currArrayIndex iso1ServiceList_Service_currArrayIndex_update x s
        else finish 4 x (encodeNBitUnsignedInteger s 2 1)
      else if grammarID = 71 then
        if iso1ServiceList_Service_currArrayIndex x < unat (iso1ServiceList_Service_arrayLen v) then
          encode_array_child 2 0 72 encode_iso1ServiceType (iso1ServiceList_Service_array v)
          iso1ServiceList_Service_currArrayIndex iso1ServiceList_Service_currArrayIndex_update x s
        else finish 4 x (encodeNBitUnsignedInteger s 2 1)
      else if grammarID = 72 then
        if iso1ServiceList_Service_currArrayIndex x < unat (iso1ServiceList_Service_arrayLen v) then
          encode_array_child 2 0 73 encode_iso1ServiceType (iso1ServiceList_Service_array v)
          iso1ServiceList_Service_currArrayIndex iso1ServiceList_Service_currArrayIndex_update x s
        else finish 4 x (encodeNBitUnsignedInteger s 2 1)
      else if grammarID = 73 then
        if iso1ServiceList_Service_currArrayIndex x < unat (iso1ServiceList_Service_arrayLen v) then
          encode_array_child 2 0 74 encode_iso1ServiceType (iso1ServiceList_Service_array v)
          iso1ServiceList_Service_currArrayIndex iso1ServiceList_Service_currArrayIndex_update x s
        else finish 4 x (encodeNBitUnsignedInteger s 2 1)
      else if grammarID = 74 then
        if iso1ServiceList_Service_currArrayIndex x < unat (iso1ServiceList_Service_arrayLen v) then
          encode_array_child 2 0 75 encode_iso1ServiceType (iso1ServiceList_Service_array v)
          iso1ServiceList_Service_currArrayIndex iso1ServiceList_Service_currArrayIndex_update x s
        else finish 4 x (encodeNBitUnsignedInteger s 2 1)
      else if grammarID = 75 then
        if iso1ServiceList_Service_currArrayIndex x < unat (iso1ServiceList_Service_arrayLen v) then
          encode_array_child 2 0 76 encode_iso1ServiceType (iso1ServiceList_Service_array v)
          iso1ServiceList_Service_currArrayIndex iso1ServiceList_Service_currArrayIndex_update x s
        else finish 4 x (encodeNBitUnsignedInteger s 2 1)
      else if grammarID = 76 then
        if iso1ServiceList_Service_currArrayIndex x < unat (iso1ServiceList_Service_arrayLen v) then
          encode_array_child 2 0 3 encode_iso1ServiceType (iso1ServiceList_Service_array v)
          iso1ServiceList_Service_currArrayIndex iso1ServiceList_Service_currArrayIndex_update x s
        else finish 4 x (encodeNBitUnsignedInteger s 2 1)
      else if grammarID = 3 then
        finish 4 x (encodeNBitUnsignedInteger s 1 0)
      else Some (EXI_ERROR_UNKOWN_GRAMMAR_ID, (False, grammarID, x), s))"

definition encode_iso1ServiceListType :: "bitstream \<Rightarrow> iso1ServiceListType \<Rightarrow>
    (errn \<times> bitstream) option" where
  "encode_iso1ServiceListType s v = run_encoder (iso1ServiceList_enc_step v) 69
      \<lparr>iso1ServiceList_Service_currArrayIndex = 0\<rparr> s"

abbreviation (input) decode_next_iso1ServiceList_Service :: "u32 \<Rightarrow> iso1ServiceListType decoder" where
  "decode_next_iso1ServiceList_Service j \<equiv> decode_element (decode_iso1ServiceType j)
      iso1ServiceList_Service_array iso1ServiceList_Service_arrayLen
      (\<lambda>xs n a. a\<lparr>iso1ServiceList_Service_array := xs, iso1ServiceList_Service_arrayLen := n\<rparr>)"

definition iso1ServiceList_dec_step_2 :: "u32 \<Rightarrow> (dec_static \<times> iso1ServiceListType) machine" where
  "iso1ServiceList_dec_step_2 j grammarID x s =
     (if grammarID = 75 then
        decode_switch 2
         [(0, decode_array_child 76 8 iso1ServiceList_Service_arrayLen (decode_next_iso1ServiceList_Service j)),
          (1, decode_end 4)] 75 x s
      else if grammarID = 76 then
        decode_switch 2
         [(0, decode_array_child 3 8 iso1ServiceList_Service_arrayLen (decode_next_iso1ServiceList_Service j)),
          (1, decode_end 4)] 76 x s
      else if grammarID = 3 then
        decode_switch 1
         [(0, decode_end 4)] 3 x s
      else Some (EXI_ERROR_UNKOWN_GRAMMAR_ID, (False, grammarID, x), s))"

definition iso1ServiceList_dec_step :: "u32 \<Rightarrow> (dec_static \<times> iso1ServiceListType) machine" where
  "iso1ServiceList_dec_step j grammarID x s =
     (if grammarID = 69 then
        decode_switch 1
         [(0, decode_array_child 70 8 iso1ServiceList_Service_arrayLen (decode_next_iso1ServiceList_Service j))] 69 x
           s
      else if grammarID = 70 then
        decode_switch 2
         [(0, decode_array_child 71 8 iso1ServiceList_Service_arrayLen (decode_next_iso1ServiceList_Service j)),
          (1, decode_end 4)] 70 x s
      else if grammarID = 71 then
        decode_switch 2
         [(0, decode_array_child 72 8 iso1ServiceList_Service_arrayLen (decode_next_iso1ServiceList_Service j)),
          (1, decode_end 4)] 71 x s
      else if grammarID = 72 then
        decode_switch 2
         [(0, decode_array_child 73 8 iso1ServiceList_Service_arrayLen (decode_next_iso1ServiceList_Service j)),
          (1, decode_end 4)] 72 x s
      else if grammarID = 73 then
        decode_switch 2
         [(0, decode_array_child 74 8 iso1ServiceList_Service_arrayLen (decode_next_iso1ServiceList_Service j)),
          (1, decode_end 4)] 73 x s
      else if grammarID = 74 then
        decode_switch 2
         [(0, decode_array_child 75 8 iso1ServiceList_Service_arrayLen (decode_next_iso1ServiceList_Service j)),
          (1, decode_end 4)] 74 x s
      else iso1ServiceList_dec_step_2 j grammarID x s)"

definition decode_iso1ServiceListType :: "u32 \<Rightarrow> iso1ServiceListType decoder" where
  "decode_iso1ServiceListType j x s = grammar_loop (iso1ServiceList_dec_step j) 69
      (fst x, init_iso1ServiceListType (snd x)) s"

definition iso1ServiceList_ok :: "iso1ServiceListType \<Rightarrow> bool" where
  "iso1ServiceList_ok v \<longleftrightarrow>
     length (iso1ServiceList_Service_array v) = 8 \<and> unat (iso1ServiceList_Service_arrayLen v) \<le> 8 \<and>
       in_use iso1Service_ok (iso1ServiceList_Service_array v) (iso1ServiceList_Service_arrayLen v) \<and>
     unat (iso1ServiceList_Service_arrayLen v) \<noteq> 0"

definition iso1ServiceList_sized :: "iso1ServiceListType \<Rightarrow> bool" where
  "iso1ServiceList_sized a \<longleftrightarrow>
     length (iso1ServiceList_Service_array a) = 8 \<and>
     list_all iso1Service_sized (iso1ServiceList_Service_array a)"

definition same_iso1ServiceList :: "iso1ServiceListType \<Rightarrow> iso1ServiceListType \<Rightarrow> bool" where
  "same_iso1ServiceList v a \<longleftrightarrow>
     iso1ServiceList_Service_arrayLen a = iso1ServiceList_Service_arrayLen v \<and>
       copied same_iso1Service (unat (iso1ServiceList_Service_arrayLen v)) (iso1ServiceList_Service_array v)
       (iso1ServiceList_Service_array a)"

definition iso1ServiceList_at :: "iso1ServiceListType \<Rightarrow> nat \<Rightarrow> iso1ServiceList_locals
    \<Rightarrow> iso1ServiceListType \<Rightarrow> bool" where
  "iso1ServiceList_at v g x a \<longleftrightarrow>
     counts [(69, 0), (70, 1), (71, 2), (72, 3), (73, 4), (74, 5), (75, 6), (76, 7)] g
       (iso1ServiceList_Service_currArrayIndex x) \<and>
     iso1ServiceList_ok v \<and>
     g \<in> {69, 70, 71, 72, 73, 74, 75, 76, 3} \<and>
     iso1ServiceList_sized a \<and>
     unat (iso1ServiceList_Service_arrayLen a) = iso1ServiceList_Service_currArrayIndex x \<and>
       iso1ServiceList_Service_currArrayIndex x \<le> unat (iso1ServiceList_Service_arrayLen v) \<and>
     copied same_iso1Service (iso1ServiceList_Service_currArrayIndex x) (iso1ServiceList_Service_array v)
       (iso1ServiceList_Service_array a) \<and>
     (g = 3 \<longrightarrow> iso1ServiceList_Service_currArrayIndex x = unat (iso1ServiceList_Service_arrayLen v))"

definition iso1ServiceList_rank :: "iso1ServiceListType \<Rightarrow> nat \<Rightarrow> iso1ServiceList_locals
    \<Rightarrow> nat" where
  "iso1ServiceList_rank v g x = left_at [(69, 2), (70, 2), (71, 2), (72, 2), (73, 2), (74, 2), (75, 2), (76, 2),
      (3, 1)] g + due 879 (iso1ServiceList_Service_arrayLen v) (iso1ServiceList_Service_currArrayIndex x)"

lemmas iso1ServiceList_steps = iso1ServiceList_enc_step_def
  iso1ServiceList_dec_step_def iso1ServiceList_dec_step_2_def

lemmas iso1ServiceList_props = iso1ServiceList_at_def iso1ServiceList_sized_def same_iso1ServiceList_def
    iso1ServiceList_rank_def left_at_def

lemmas iso1ServiceList_elements = in_use_nth [where P = iso1Service_ok]
  slots_nth [where P = iso1Service_sized]

interpretation iso1ServiceList: walking_pair "iso1ServiceList_enc_step v" "iso1ServiceList_dec_step j"
    "iso1ServiceList_at v" "iso1ServiceList_rank v"
  "\<lambda>a. same_iso1ServiceList v a \<and> iso1ServiceList_sized a" for v j
proof
  fix g x a assume at: "iso1ServiceList_at v g x a"
  then have "g \<in> {69, 70, 71, 72, 73, 74, 75, 76, 3}" by (simp add: iso1ServiceList_at_def)
  then show "walks (iso1ServiceList_enc_step v) (iso1ServiceList_dec_step j) (iso1ServiceList_at v)
      (iso1ServiceList_rank v)
    (\<lambda>a. same_iso1ServiceList v a \<and> iso1ServiceList_sized a) g x a" using at
    by - (elim insertE emptyE; (hypsubst, rule walks_by, simp (no_asm) add: iso1ServiceList_steps del: One_nat_def,
      simp (no_asm) add: iso1ServiceList_steps del: One_nat_def, simp (asm_lr) add: iso1ServiceList_props del:
        One_nat_def, (elim conjE)?,
      ((rule walks_ifs)+)?); (frule iso1ServiceList_ok_def [THEN iffD1], ((drule (1) known)+)?, (elim conjE)?,
        ((drule (1) known)+)?, (elim conjE)?,
      (((rule walks_shapes, simp (no_asm) del: One_nat_def, ((rule reads_intros)+)?);
      ((elim exE conjE)?,
        ((simp (no_asm_simp) add: iso1ServiceList_props iso1ServiceList_elements counts_def array_intros; fail) |
        (simp (asm_lr) add: iso1ServiceList_props iso1ServiceList_elements counts_def array_intros; fail) |
        (auto simp: iso1ServiceList_props iso1ServiceList_elements counts_def array_intros; fail)))) |
        (erule (1) notE; fail) |
        ((elim exE conjE)?,
        ((simp (no_asm_simp) add: iso1ServiceList_props iso1ServiceList_elements counts_def array_intros; fail) |
        (simp (asm_lr) add: iso1ServiceList_props iso1ServiceList_elements counts_def array_intros; fail) |
        (auto simp: iso1ServiceList_props iso1ServiceList_elements counts_def array_intros; fail))))))
qed

lemma reads_iso1ServiceList [reads_intros]:
  "iso1ServiceList_ok v \<Longrightarrow> iso1ServiceList_sized a \<Longrightarrow>
      reads 7034 (\<lambda>s. encode_iso1ServiceListType s v) (decode_iso1ServiceListType j) a
      (\<lambda>a. same_iso1ServiceList v a \<and> iso1ServiceList_sized a)"
  unfolding encode_iso1ServiceListType_def decode_iso1ServiceListType_def [abs_def]
  by (rule reads_start [OF iso1ServiceList.walk_reads, THEN reads_mono])
      (auto simp: iso1ServiceList_props iso1ServiceList_ok_def counts_def due_def init_iso1ServiceListType_def)

interpretation iso1ServiceList_enc: advancing_machine "iso1ServiceList_enc_step v" "left_at
    [(69, 9), (70, 8), (71, 7), (72, 6), (73, 5), (74, 4), (75, 3), (76, 2), (3, 1)]" for v
  by unfold_locales (auto simp: iso1ServiceList_steps dest!: array_advance_dests split: if_splits;
      simp add: left_at_def)

interpretation iso1ServiceList_dec: advancing_machine "iso1ServiceList_dec_step j" "left_at
    [(69, 9), (70, 8), (71, 7), (72, 6), (73, 5), (74, 4), (75, 3), (76, 2), (3, 1)]" for j
  by unfold_locales (auto simp: iso1ServiceList_steps dest!: array_advance_dests elim!: decode_switch_next
      split: if_splits;
      simp add: left_at_def)

subsection \<open>\<open>iso1ServiceDiscoveryResType\<close>\<close>

record iso1ServiceDiscoveryResType =
  iso1ServiceDiscoveryRes_ResponseCode :: u32
  iso1ServiceDiscoveryRes_PaymentOptionList :: iso1PaymentOptionListType
  iso1ServiceDiscoveryRes_ChargeService :: iso1ChargeServiceType
  iso1ServiceDiscoveryRes_ServiceList :: iso1ServiceListType
  iso1ServiceDiscoveryRes_ServiceList_isUsed :: bool

definition init_iso1ServiceDiscoveryResType :: "iso1ServiceDiscoveryResType \<Rightarrow> iso1ServiceDiscoveryResType"
    where
  "init_iso1ServiceDiscoveryResType a = a\<lparr>iso1ServiceDiscoveryRes_ServiceList_isUsed := False\<rparr>"

definition iso1ServiceDiscoveryRes_enc_step :: "iso1ServiceDiscoveryResType \<Rightarrow> unit machine" where
  "iso1ServiceDiscoveryRes_enc_step v grammarID x s =
     (if grammarID = 25 then
        goto 26 x
          (encode_simple 1 0 (\<lambda>s. encodeNBitUnsignedInteger s 5 (iso1ServiceDiscoveryRes_ResponseCode v)) s)
      else if grammarID = 26 then
        goto 27 x
          (encode_child 1 0
          (\<lambda>s. encode_iso1PaymentOptionListType s (iso1ServiceDiscoveryRes_PaymentOptionList v)) s)
      else if grammarID = 27 then
        goto 28 x
          (encode_child 1 0 (\<lambda>s. encode_iso1ChargeServiceType s (iso1ServiceDiscoveryRes_ChargeService v)) s)
      else if grammarID = 28 then
        if iso1ServiceDiscoveryRes_ServiceList_isUsed v then
          goto 3 x (encode_child 2 0
          (\<lambda>s. encode_iso1ServiceListType s (iso1ServiceDiscoveryRes_ServiceList v)) s)
        else finish 4 x (encodeNBitUnsignedInteger s 2 1)
      else if grammarID = 3 then
        finish 4 x (encodeNBitUnsignedInteger s 1 0)
      else Some (EXI_ERROR_UNKOWN_GRAMMAR_ID, (False, grammarID, x), s))"

definition encode_iso1ServiceDiscoveryResType :: "bitstream \<Rightarrow> iso1ServiceDiscoveryResType \<Rightarrow>
    (errn \<times> bitstream) option" where
  "encode_iso1ServiceDiscoveryResType s v = run_encoder (iso1ServiceDiscoveryRes_enc_step v) 25 () s"

definition iso1ServiceDiscoveryRes_dec_step :: "u32 \<Rightarrow> (dec_static \<times> iso1ServiceDiscoveryResType)
    machine" where
  "iso1ServiceDiscoveryRes_dec_step j grammarID x s =
     (if grammarID = 25 then
        decode_switch 1
         [(0, decode_simple 25 26
           (decode_nbit_field 5 (\<lambda>u a. a\<lparr>iso1ServiceDiscoveryRes_ResponseCode := u\<rparr>)))] 25 x s
      else if grammarID = 26 then
        decode_switch 1
         [(0, decode_child 27
           (decode_sub (decode_iso1PaymentOptionListType j) iso1ServiceDiscoveryRes_PaymentOptionList
           (\<lambda>u a. a\<lparr>iso1ServiceDiscoveryRes_PaymentOptionList := u\<rparr>)))] 26 x s
      else if grammarID = 27 then
        decode_switch 1
         [(0, decode_child 28 (decode_sub (decode_iso1ChargeServiceType j) iso1ServiceDiscoveryRes_ChargeService
           (\<lambda>u a. a\<lparr>iso1ServiceDiscoveryRes_ChargeService := u\<rparr>)))] 27 x s
      else if grammarID = 28 then
        decode_switch 2
         [(0, decode_child 3
           (decode_used (\<lambda>a. a\<lparr>iso1ServiceDiscoveryRes_ServiceList_isUsed := True\<rparr>)
           (decode_sub (decode_iso1ServiceListType j) iso1ServiceDiscoveryRes_ServiceList
           (\<lambda>u a. a\<lparr>iso1ServiceDiscoveryRes_ServiceList := u\<rparr>)))),
          (1, decode_end 4)] 28 x s
      else if grammarID = 3 then
        decode_switch 1
         [(0, decode_end 4)] 3 x s
      else Some (EXI_ERROR_UNKOWN_GRAMMAR_ID, (False, grammarID, x), s))"

definition decode_iso1ServiceDiscoveryResType :: "u32 \<Rightarrow> iso1ServiceDiscoveryResType decoder" where
  "decode_iso1ServiceDiscoveryResType j x s = grammar_loop (iso1ServiceDiscoveryRes_dec_step j) 25
      (fst x, init_iso1ServiceDiscoveryResType (snd x)) s"

definition iso1ServiceDiscoveryRes_ok :: "iso1ServiceDiscoveryResType \<Rightarrow> bool" where
  "iso1ServiceDiscoveryRes_ok v \<longleftrightarrow>
     iso1ServiceDiscoveryRes_ResponseCode v < 32 \<and>
     iso1PaymentOptionList_ok (iso1ServiceDiscoveryRes_PaymentOptionList v) \<and>
     iso1ChargeService_ok (iso1ServiceDiscoveryRes_ChargeService v) \<and>
     when_used (iso1ServiceDiscoveryRes_ServiceList_isUsed v)
       (iso1ServiceList_ok (iso1ServiceDiscoveryRes_ServiceList v))"

definition iso1ServiceDiscoveryRes_sized :: "iso1ServiceDiscoveryResType \<Rightarrow> bool" where
  "iso1ServiceDiscoveryRes_sized a \<longleftrightarrow>
     iso1PaymentOptionList_sized (iso1ServiceDiscoveryRes_PaymentOptionList a) \<and>
     iso1ChargeService_sized (iso1ServiceDiscoveryRes_ChargeService a) \<and>
     iso1ServiceList_sized (iso1ServiceDiscoveryRes_ServiceList a)"

definition same_iso1ServiceDiscoveryRes :: "iso1ServiceDiscoveryResType \<Rightarrow> iso1ServiceDiscoveryResType
    \<Rightarrow> bool" where
  "same_iso1ServiceDiscoveryRes v a \<longleftrightarrow>
     iso1ServiceDiscoveryRes_ResponseCode a = iso1ServiceDiscoveryRes_ResponseCode v \<and>
     same_iso1PaymentOptionList (iso1ServiceDiscoveryRes_PaymentOptionList v)
       (iso1ServiceDiscoveryRes_PaymentOptionList a) \<and>
     same_iso1ChargeService (iso1ServiceDiscoveryRes_ChargeService v) (iso1ServiceDiscoveryRes_ChargeService a) \<and>
     kept (iso1ServiceDiscoveryRes_ServiceList_isUsed v) (iso1ServiceDiscoveryRes_ServiceList_isUsed a)
       (same_iso1ServiceList (iso1ServiceDiscoveryRes_ServiceList v) (iso1ServiceDiscoveryRes_ServiceList a))"

definition iso1ServiceDiscoveryRes_at :: "iso1ServiceDiscoveryResType \<Rightarrow> nat \<Rightarrow>
    iso1ServiceDiscoveryResType \<Rightarrow> bool" where
  "iso1ServiceDiscoveryRes_at v g a \<longleftrightarrow>
     iso1ServiceDiscoveryRes_ok v \<and>
     g \<in> {25, 26, 27, 28, 3} \<and>
     iso1ServiceDiscoveryRes_sized a \<and>
     (g \<notin> {25} \<longrightarrow> iso1ServiceDiscoveryRes_ResponseCode a = iso1ServiceDiscoveryRes_ResponseCode
       v) \<and>
     (g \<notin> {25, 26} \<longrightarrow> same_iso1PaymentOptionList (iso1ServiceDiscoveryRes_PaymentOptionList v)
       (iso1ServiceDiscoveryRes_PaymentOptionList a)) \<and>
     (g \<notin> {25, 26, 27} \<longrightarrow> same_iso1ChargeService (iso1ServiceDiscoveryRes_ChargeService v)
       (iso1ServiceDiscoveryRes_ChargeService a)) \<and>
     (if g \<in> {25, 26, 27, 28} then \<not> iso1ServiceDiscoveryRes_ServiceList_isUsed a
      else kept (iso1ServiceDiscoveryRes_ServiceList_isUsed v) (iso1ServiceDiscoveryRes_ServiceList_isUsed a)
        (same_iso1ServiceList (iso1ServiceDiscoveryRes_ServiceList v) (iso1ServiceDiscoveryRes_ServiceList a)))"

lemmas iso1ServiceDiscoveryRes_steps = iso1ServiceDiscoveryRes_enc_step_def
  iso1ServiceDiscoveryRes_dec_step_def

lemmas iso1ServiceDiscoveryRes_props = iso1ServiceDiscoveryRes_at_def iso1ServiceDiscoveryRes_sized_def
    same_iso1ServiceDiscoveryRes_def left_at_def

interpretation iso1ServiceDiscoveryRes: paired_machines "iso1ServiceDiscoveryRes_enc_step v"
    "iso1ServiceDiscoveryRes_dec_step j" "iso1ServiceDiscoveryRes_at v"
  "left_at [(25, 7981), (26, 7973), (27, 7960), (28, 7037), (3, 1)]" "\<lambda>a. same_iso1ServiceDiscoveryRes v a
      \<and> iso1ServiceDiscoveryRes_sized a" for v j
proof
  fix g a assume at: "iso1ServiceDiscoveryRes_at v g a"
  then have "g \<in> {25, 26, 27, 28, 3}" by (simp add: iso1ServiceDiscoveryRes_at_def)
  then show "hops (iso1ServiceDiscoveryRes_enc_step v) (iso1ServiceDiscoveryRes_dec_step j)
      (iso1ServiceDiscoveryRes_at v)
    (left_at [(25, 7981), (26, 7973), (27, 7960), (28, 7037), (3, 1)])
      (\<lambda>a. same_iso1ServiceDiscoveryRes v a \<and> iso1ServiceDiscoveryRes_sized a) g a" using at
    by - (elim insertE emptyE; (hypsubst, rule hops_by, simp (no_asm) add: iso1ServiceDiscoveryRes_steps del:
      One_nat_def,
      simp (no_asm) add: iso1ServiceDiscoveryRes_steps del: One_nat_def,
        simp (asm_lr) add: iso1ServiceDiscoveryRes_props del: One_nat_def, (elim conjE)?,
      ((rule walks_ifs)+)?); (frule iso1ServiceDiscoveryRes_ok_def [THEN iffD1], ((drule (1) known)+)?, (elim conjE)?,
        ((drule (1) known)+)?, (elim conjE)?,
      (((rule walks_shapes, simp (no_asm) del: One_nat_def, ((rule reads_intros)+)?);
      ((elim exE conjE)?,
        ((simp (no_asm_simp) add: iso1ServiceDiscoveryRes_props; fail) |
        (simp (asm_lr) add: iso1ServiceDiscoveryRes_props; fail) | (auto simp: iso1ServiceDiscoveryRes_props; fail))))
        | (erule (1) notE; fail) |
        ((elim exE conjE)?,
        ((simp (no_asm_simp) add: iso1ServiceDiscoveryRes_props; fail) |
        (simp (asm_lr) add: iso1ServiceDiscoveryRes_props; fail) |
        (auto simp: iso1ServiceDiscoveryRes_props; fail))))))
qed

lemma reads_iso1ServiceDiscoveryRes [reads_intros]:
  "iso1ServiceDiscoveryRes_ok v \<Longrightarrow> iso1ServiceDiscoveryRes_sized a \<Longrightarrow>
      reads 7981 (\<lambda>s. encode_iso1ServiceDiscoveryResType s v) (decode_iso1ServiceDiscoveryResType j) a
      (\<lambda>a. same_iso1ServiceDiscoveryRes v a \<and> iso1ServiceDiscoveryRes_sized a)"
  unfolding encode_iso1ServiceDiscoveryResType_def decode_iso1ServiceDiscoveryResType_def [abs_def]
  by (rule reads_start [OF iso1ServiceDiscoveryRes.machine_reads, of _ 25, THEN reads_mono])
      (auto simp: iso1ServiceDiscoveryRes_at_def iso1ServiceDiscoveryRes_sized_def
      init_iso1ServiceDiscoveryResType_def left_at_def)

interpretation iso1ServiceDiscoveryRes_enc: advancing_machine "iso1ServiceDiscoveryRes_enc_step v" "left_at
    [(25, 5), (26, 4), (27, 3), (28, 2), (3, 1)]" for v
  by unfold_locales (auto simp: iso1ServiceDiscoveryRes_steps dest!: advance_dests split: if_splits;
      simp add: left_at_def)

interpretation iso1ServiceDiscoveryRes_dec: advancing_machine "iso1ServiceDiscoveryRes_dec_step j" "left_at
    [(25, 5), (26, 4), (27, 3), (28, 2), (3, 1)]" for j
  by unfold_locales (auto simp: iso1ServiceDiscoveryRes_steps dest!: advance_dests elim!:
      decode_switch_next split: if_splits;
      simp add: left_at_def)

subsection \<open>\<open>iso1ServiceDetailReqType\<close>\<close>

record iso1ServiceDetailReqType =
  iso1ServiceDetailReq_ServiceID :: u16

definition init_iso1ServiceDetailReqType :: "iso1ServiceDetailReqType \<Rightarrow> iso1ServiceDetailReqType" where
  "init_iso1ServiceDetailReqType a = a"

definition iso1ServiceDetailReq_enc_step :: "iso1ServiceDetailReqType \<Rightarrow> unit machine" where
  "iso1ServiceDetailReq_enc_step v grammarID x s =
     (if grammarID = 59 then
        goto 3 x (encode_simple 1 0 (\<lambda>s. encodeUnsignedInteger16 s (iso1ServiceDetailReq_ServiceID v)) s)
      else if grammarID = 3 then
        finish 4 x (encodeNBitUnsignedInteger s 1 0)
      else Some (EXI_ERROR_UNKOWN_GRAMMAR_ID, (False, grammarID, x), s))"

definition encode_iso1ServiceDetailReqType :: "bitstream \<Rightarrow> iso1ServiceDetailReqType \<Rightarrow>
    (errn \<times> bitstream) option" where
  "encode_iso1ServiceDetailReqType s v = run_encoder (iso1ServiceDetailReq_enc_step v) 59 () s"

definition iso1ServiceDetailReq_dec_step :: "u32 \<Rightarrow> (dec_static \<times> iso1ServiceDetailReqType) machine"
    where
  "iso1ServiceDetailReq_dec_step j grammarID x s =
     (if grammarID = 59 then
        decode_switch 1
         [(0, decode_simple 59 3
           (decode_u16_field j (\<lambda>u a. a\<lparr>iso1ServiceDetailReq_ServiceID := u\<rparr>)))] 59 x s
      else if grammarID = 3 then
        decode_switch 1
         [(0, decode_end 4)] 3 x s
      else Some (EXI_ERROR_UNKOWN_GRAMMAR_ID, (False, grammarID, x), s))"

definition decode_iso1ServiceDetailReqType :: "u32 \<Rightarrow> iso1ServiceDetailReqType decoder" where
  "decode_iso1ServiceDetailReqType j x s = grammar_loop (iso1ServiceDetailReq_dec_step j) 59
      (fst x, init_iso1ServiceDetailReqType (snd x)) s"

definition same_iso1ServiceDetailReq :: "iso1ServiceDetailReqType \<Rightarrow> iso1ServiceDetailReqType \<Rightarrow>
    bool" where
  "same_iso1ServiceDetailReq v a \<longleftrightarrow>
     iso1ServiceDetailReq_ServiceID a = iso1ServiceDetailReq_ServiceID v"

definition iso1ServiceDetailReq_at :: "iso1ServiceDetailReqType \<Rightarrow> nat \<Rightarrow>
    iso1ServiceDetailReqType \<Rightarrow> bool" where
  "iso1ServiceDetailReq_at v g a \<longleftrightarrow>
     g \<in> {59, 3} \<and>
     (g \<notin> {59} \<longrightarrow> iso1ServiceDetailReq_ServiceID a = iso1ServiceDetailReq_ServiceID v)"

lemmas iso1ServiceDetailReq_steps = iso1ServiceDetailReq_enc_step_def
  iso1ServiceDetailReq_dec_step_def

lemmas iso1ServiceDetailReq_props = iso1ServiceDetailReq_at_def same_iso1ServiceDetailReq_def left_at_def

interpretation iso1ServiceDetailReq: paired_machines "iso1ServiceDetailReq_enc_step v" "iso1ServiceDetailReq_dec_step
    j" "iso1ServiceDetailReq_at v"
  "left_at [(59, 28), (3, 1)]" "same_iso1ServiceDetailReq v" for v j
proof
  fix g a assume at: "iso1ServiceDetailReq_at v g a"
  then have "g \<in> {59, 3}" by (simp add: iso1ServiceDetailReq_at_def)
  then show "hops (iso1ServiceDetailReq_enc_step v) (iso1ServiceDetailReq_dec_step j) (iso1ServiceDetailReq_at v)
    (left_at [(59, 28), (3, 1)]) (same_iso1ServiceDetailReq v) g a" using at
    by - (elim insertE emptyE; (hypsubst, rule hops_by, simp (no_asm) add: iso1ServiceDetailReq_steps del:
      One_nat_def,
      simp (no_asm) add: iso1ServiceDetailReq_steps del: One_nat_def, simp (asm_lr) add: iso1ServiceDetailReq_props
        del: One_nat_def, (elim conjE)?,
      ((rule walks_ifs)+)?); (((drule (1) known)+)?, (elim conjE)?, ((drule (1) known)+)?, (elim conjE)?,
      (((rule walks_shapes, simp (no_asm) del: One_nat_def, ((rule reads_intros)+)?);
      ((elim exE conjE)?,
        ((simp (no_asm_simp) add: iso1ServiceDetailReq_props; fail) |
        (simp (asm_lr) add: iso1ServiceDetailReq_props; fail) | (auto simp: iso1ServiceDetailReq_props; fail)))) |
        (erule (1) notE; fail) |
        ((elim exE conjE)?,
        ((simp (no_asm_simp) add: iso1ServiceDetailReq_props; fail) |
        (simp (asm_lr) add: iso1ServiceDetailReq_props; fail) | (auto simp: iso1ServiceDetailReq_props; fail))))))
qed

lemma reads_iso1ServiceDetailReq [reads_intros]:
  "reads 28 (\<lambda>s. encode_iso1ServiceDetailReqType s v) (decode_iso1ServiceDetailReqType j) a
      (same_iso1ServiceDetailReq v)"
  unfolding encode_iso1ServiceDetailReqType_def decode_iso1ServiceDetailReqType_def [abs_def]
  by (rule reads_start [OF iso1ServiceDetailReq.machine_reads, of _ 59, THEN reads_mono])
      (auto simp: iso1ServiceDetailReq_at_def  init_iso1ServiceDetailReqType_def left_at_def)

interpretation iso1ServiceDetailReq_enc: advancing_machine "iso1ServiceDetailReq_enc_step v" "left_at
    [(59, 2), (3, 1)]" for v
  by unfold_locales (auto simp: iso1ServiceDetailReq_steps dest!: advance_dests split: if_splits;
      simp add: left_at_def)

interpretation iso1ServiceDetailReq_dec: advancing_machine "iso1ServiceDetailReq_dec_step j" "left_at
    [(59, 2), (3, 1)]" for j
  by unfold_locales (auto simp: iso1ServiceDetailReq_steps dest!: advance_dests elim!: decode_switch_next
      split: if_splits;
      simp add: left_at_def)

subsection \<open>\<open>iso1ParameterType\<close>\<close>

record iso1ParameterType =
  iso1Parameter_Name_characters :: "u8 list"
  iso1Parameter_Name_charactersLen :: u16
  iso1Parameter_boolValue :: int
  iso1Parameter_boolValue_isUsed :: bool
  iso1Parameter_byteValue :: u8
  iso1Parameter_byteValue_isUsed :: bool
  iso1Parameter_shortValue :: u16
  iso1Parameter_shortValue_isUsed :: bool
  iso1Parameter_intValue :: u32
  iso1Parameter_intValue_isUsed :: bool
  iso1Parameter_physicalValue :: iso1PhysicalValueType
  iso1Parameter_physicalValue_isUsed :: bool
  iso1Parameter_stringValue_characters :: "u8 list"
  iso1Parameter_stringValue_charactersLen :: u16
  iso1Parameter_stringValue_isUsed :: bool

definition init_iso1ParameterType :: "iso1ParameterType \<Rightarrow> iso1ParameterType" where
  "init_iso1ParameterType a = a\<lparr>iso1Parameter_boolValue_isUsed := False,
      iso1Parameter_byteValue_isUsed := False, iso1Parameter_shortValue_isUsed := False,
      iso1Parameter_intValue_isUsed := False, iso1Parameter_physicalValue_isUsed := False,
      iso1Parameter_stringValue_isUsed := False\<rparr>"

definition iso1Parameter_enc_step :: "iso1ParameterType \<Rightarrow> unit machine" where
  "iso1Parameter_enc_step v grammarID x s =
     (if grammarID = 14 then
        goto 15 x
          (encode_child 1 0
          (encode_string_field (iso1Parameter_Name_characters v) (iso1Parameter_Name_charactersLen v)) s)
      else if grammarID = 15 then
        if iso1Parameter_boolValue_isUsed v then
          goto 3 x (encode_simple 3 0 (\<lambda>s. encodeBoolean s (iso1Parameter_boolValue v)) s)
        else if iso1Parameter_byteValue_isUsed v then
          goto 3 x (encode_simple 3 1
          (\<lambda>s. encodeNBitUnsignedInteger s 8 (scast (iso1Parameter_byteValue v) + 128)) s)
        else if iso1Parameter_shortValue_isUsed v then
          goto 3 x (encode_simple 3 2 (\<lambda>s. encodeInteger16 s (iso1Parameter_shortValue v)) s)
        else if iso1Parameter_intValue_isUsed v then
          goto 3 x (encode_simple 3 3 (\<lambda>s. encodeInteger32 s (iso1Parameter_intValue v)) s)
        else if iso1Parameter_physicalValue_isUsed v then
          goto 3 x (encode_child 3 4 (\<lambda>s. encode_iso1PhysicalValueType s (iso1Parameter_physicalValue v)) s)
        else if iso1Parameter_stringValue_isUsed v then
          goto 3 x (encode_simple 3 5
          (encode_string_field (iso1Parameter_stringValue_characters v) (iso1Parameter_stringValue_charactersLen v))
          s)
        else Some (EXI_ERROR_UNKOWN_EVENT, (False, grammarID, x), s)
      else if grammarID = 3 then
        finish 4 x (encodeNBitUnsignedInteger s 1 0)
      else Some (EXI_ERROR_UNKOWN_GRAMMAR_ID, (False, grammarID, x), s))"

definition encode_iso1ParameterType :: "bitstream \<Rightarrow> iso1ParameterType \<Rightarrow>
    (errn \<times> bitstream) option" where
  "encode_iso1ParameterType s v = run_encoder (iso1Parameter_enc_step v) 14 () s"

definition iso1Parameter_dec_step_3 :: "u32 \<Rightarrow> (dec_static \<times> iso1ParameterType) machine" where
  "iso1Parameter_dec_step_3 j grammarID x s =
     (if grammarID = 3 then
        decode_switch 1
         [(0, decode_end 4)] 3 x s
      else Some (EXI_ERROR_UNKOWN_GRAMMAR_ID, (False, grammarID, x), s))"

definition iso1Parameter_dec_step_2 :: "u32 \<Rightarrow> (dec_static \<times> iso1ParameterType) machine" where
  "iso1Parameter_dec_step_2 j grammarID x s =
     (if grammarID = 15 then
        decode_switch 3
         [(0, decode_simple 15 3 (decode_used (\<lambda>a. a\<lparr>iso1Parameter_boolValue_isUsed := True\<rparr>)
           (decode_bool_field j (\<lambda>u a. a\<lparr>iso1Parameter_boolValue := u\<rparr>)))),
          (1, decode_simple 15 3 (decode_used (\<lambda>a. a\<lparr>iso1Parameter_byteValue_isUsed := True\<rparr>)
            (decode_nbit_field 8 (\<lambda>u a. a\<lparr>iso1Parameter_byteValue := ucast (u - 128)\<rparr>)))),
          (2, decode_simple 15 3 (decode_used (\<lambda>a. a\<lparr>iso1Parameter_shortValue_isUsed := True\<rparr>)
            (decode_i16_field j iso1Parameter_shortValue
            (\<lambda>u a. a\<lparr>iso1Parameter_shortValue := u\<rparr>)))),
          (3, decode_simple 15 3 (decode_used (\<lambda>a. a\<lparr>iso1Parameter_intValue_isUsed := True\<rparr>)
            (decode_i32_field j iso1Parameter_intValue
            (\<lambda>u a. a\<lparr>iso1Parameter_intValue := u\<rparr>)))),
          (4, decode_child 3 (decode_used (\<lambda>a. a\<lparr>iso1Parameter_physicalValue_isUsed := True\<rparr>)
            (decode_sub (decode_iso1PhysicalValueType j) iso1Parameter_physicalValue
            (\<lambda>u a. a\<lparr>iso1Parameter_physicalValue := u\<rparr>)))),
          (5, decode_simple 15 3 (decode_used (\<lambda>a. a\<lparr>iso1Parameter_stringValue_isUsed := True\<rparr>)
            (decode_string_field j 51 iso1Parameter_stringValue_characters
            (\<lambda>u a. a\<lparr>iso1Parameter_stringValue_characters := u\<rparr>)
            (\<lambda>u a. a\<lparr>iso1Parameter_stringValue_charactersLen := u\<rparr>))))] 15 x s
      else iso1Parameter_dec_step_3 j grammarID x s)"

definition iso1Parameter_dec_step :: "u32 \<Rightarrow> (dec_static \<times> iso1ParameterType) machine" where
  "iso1Parameter_dec_step j grammarID x s =
     (if grammarID = 14 then
        decode_switch 1
         [(0, decode_child 15
           (decode_string_field j 51 iso1Parameter_Name_characters
           (\<lambda>u a. a\<lparr>iso1Parameter_Name_characters := u\<rparr>)
           (\<lambda>u a. a\<lparr>iso1Parameter_Name_charactersLen := u\<rparr>)))] 14 x s
      else iso1Parameter_dec_step_2 j grammarID x s)"

definition decode_iso1ParameterType :: "u32 \<Rightarrow> iso1ParameterType decoder" where
  "decode_iso1ParameterType j x s = grammar_loop (iso1Parameter_dec_step j) 14 (fst x, init_iso1ParameterType (snd x))
      s"

definition iso1Parameter_ok :: "iso1ParameterType \<Rightarrow> bool" where
  "iso1Parameter_ok v \<longleftrightarrow>
     string_ok 51 (iso1Parameter_Name_characters v) (iso1Parameter_Name_charactersLen v) \<and>
     when_used (iso1Parameter_byteValue_isUsed v) (scast (iso1Parameter_byteValue v) + 128 < (2 ^ 8 :: u32)) \<and>
     when_used (iso1Parameter_intValue_isUsed v) (sint (iso1Parameter_intValue v) \<noteq> - (2 ^ 31)) \<and>
     when_used (iso1Parameter_physicalValue_isUsed v) (iso1PhysicalValue_ok (iso1Parameter_physicalValue v)) \<and>
     when_used (iso1Parameter_stringValue_isUsed v)
       (string_ok 51 (iso1Parameter_stringValue_characters v) (iso1Parameter_stringValue_charactersLen v)) \<and>
     exclusive [iso1Parameter_boolValue_isUsed v, iso1Parameter_byteValue_isUsed v, iso1Parameter_shortValue_isUsed v,
       iso1Parameter_intValue_isUsed v, iso1Parameter_physicalValue_isUsed v, iso1Parameter_stringValue_isUsed v]
       \<and>
     some_of [iso1Parameter_boolValue_isUsed v, iso1Parameter_byteValue_isUsed v, iso1Parameter_shortValue_isUsed v,
       iso1Parameter_intValue_isUsed v, iso1Parameter_physicalValue_isUsed v, iso1Parameter_stringValue_isUsed v]"

definition iso1Parameter_sized :: "iso1ParameterType \<Rightarrow> bool" where
  "iso1Parameter_sized a \<longleftrightarrow>
     length (iso1Parameter_Name_characters a) = 51 \<and>
     length (iso1Parameter_stringValue_characters a) = 51"

definition same_iso1Parameter :: "iso1ParameterType \<Rightarrow> iso1ParameterType \<Rightarrow> bool" where
  "same_iso1Parameter v a \<longleftrightarrow>
     iso1Parameter_Name_charactersLen a = iso1Parameter_Name_charactersLen v \<and>
       take (unat (iso1Parameter_Name_charactersLen v)) (iso1Parameter_Name_characters a) = take
       (unat (iso1Parameter_Name_charactersLen v)) (iso1Parameter_Name_characters v) \<and>
     kept (iso1Parameter_boolValue_isUsed v) (iso1Parameter_boolValue_isUsed a)
       ((iso1Parameter_boolValue a \<noteq> 0) = (iso1Parameter_boolValue v \<noteq> 0)) \<and>
     kept (iso1Parameter_byteValue_isUsed v) (iso1Parameter_byteValue_isUsed a)
       (iso1Parameter_byteValue a = iso1Parameter_byteValue v) \<and>
     kept (iso1Parameter_shortValue_isUsed v) (iso1Parameter_shortValue_isUsed a)
       (iso1Parameter_shortValue a = iso1Parameter_shortValue v) \<and>
     kept (iso1Parameter_intValue_isUsed v) (iso1Parameter_intValue_isUsed a)
       (iso1Parameter_intValue a = iso1Parameter_intValue v) \<and>
     kept (iso1Parameter_physicalValue_isUsed v) (iso1Parameter_physicalValue_isUsed a)
       (same_iso1PhysicalValue (iso1Parameter_physicalValue v) (iso1Parameter_physicalValue a)) \<and>
     kept (iso1Parameter_stringValue_isUsed v) (iso1Parameter_stringValue_isUsed a)
       (iso1Parameter_stringValue_charactersLen a = iso1Parameter_stringValue_charactersLen v \<and>
       take (unat (iso1Parameter_stringValue_charactersLen v)) (iso1Parameter_stringValue_characters a) = take
       (unat (iso1Parameter_stringValue_charactersLen v)) (iso1Parameter_stringValue_characters v))"

definition iso1Parameter_at :: "iso1ParameterType \<Rightarrow> nat \<Rightarrow> iso1ParameterType \<Rightarrow>
    bool" where
  "iso1Parameter_at v g a \<longleftrightarrow>
     iso1Parameter_ok v \<and>
     g \<in> {14, 15, 3} \<and>
     iso1Parameter_sized a \<and>
     (g \<notin> {14} \<longrightarrow> iso1Parameter_Name_charactersLen a = iso1Parameter_Name_charactersLen v \<and>
       take (unat (iso1Parameter_Name_charactersLen v)) (iso1Parameter_Name_characters a) = take
       (unat (iso1Parameter_Name_charactersLen v)) (iso1Parameter_Name_characters v)) \<and>
     (if g \<in> {14, 15} then \<not> iso1Parameter_boolValue_isUsed a
      else kept (iso1Parameter_boolValue_isUsed v) (iso1Parameter_boolValue_isUsed a)
        ((iso1Parameter_boolValue a \<noteq> 0) = (iso1Parameter_boolValue v \<noteq> 0))) \<and>
     (if g \<in> {14, 15} then \<not> iso1Parameter_byteValue_isUsed a
      else kept (iso1Parameter_byteValue_isUsed v) (iso1Parameter_byteValue_isUsed a)
        (iso1Parameter_byteValue a = iso1Parameter_byteValue v)) \<and>
     (if g \<in> {14, 15} then \<not> iso1Parameter_shortValue_isUsed a
      else kept (iso1Parameter_shortValue_isUsed v) (iso1Parameter_shortValue_isUsed a)
        (iso1Parameter_shortValue a = iso1Parameter_shortValue v)) \<and>
     (if g \<in> {14, 15} then \<not> iso1Parameter_intValue_isUsed a
      else kept (iso1Parameter_intValue_isUsed v) (iso1Parameter_intValue_isUsed a)
        (iso1Parameter_intValue a = iso1Parameter_intValue v)) \<and>
     (if g \<in> {14, 15} then \<not> iso1Parameter_physicalValue_isUsed a
      else kept (iso1Parameter_physicalValue_isUsed v) (iso1Parameter_physicalValue_isUsed a)
        (same_iso1PhysicalValue (iso1Parameter_physicalValue v) (iso1Parameter_physicalValue a))) \<and>
     (if g \<in> {14, 15} then \<not> iso1Parameter_stringValue_isUsed a
      else kept (iso1Parameter_stringValue_isUsed v) (iso1Parameter_stringValue_isUsed a)
        (iso1Parameter_stringValue_charactersLen a = iso1Parameter_stringValue_charactersLen v \<and>
        take (unat (iso1Parameter_stringValue_charactersLen v)) (iso1Parameter_stringValue_characters a) = take
        (unat (iso1Parameter_stringValue_charactersLen v)) (iso1Parameter_stringValue_characters v)))"

definition iso1Parameter_bits :: "iso1ParameterType \<Rightarrow> nat" where
  "iso1Parameter_bits v =
     (1 + 24 + 8 * unat (iso1Parameter_Name_charactersLen v) + (if iso1Parameter_boolValue_isUsed v then 7
     else if iso1Parameter_byteValue_isUsed v then 14
     else if iso1Parameter_shortValue_isUsed v then 31
     else if iso1Parameter_intValue_isUsed v then 47
     else if iso1Parameter_physicalValue_isUsed v then 45
     else if iso1Parameter_stringValue_isUsed v then 6 + 24 + 8 * unat (iso1Parameter_stringValue_charactersLen v)
       else 0))"

lemmas iso1Parameter_steps = iso1Parameter_enc_step_def
  iso1Parameter_dec_step_def iso1Parameter_dec_step_2_def iso1Parameter_dec_step_3_def

lemmas iso1Parameter_props = iso1Parameter_at_def iso1Parameter_sized_def same_iso1Parameter_def left_at_def
    iso1Parameter_bits_def

interpretation iso1Parameter: paired_machines "iso1Parameter_enc_step v" "iso1Parameter_dec_step j" "iso1Parameter_at
    v"
  "left_at [(14, iso1Parameter_bits v),
      (15, if iso1Parameter_boolValue_isUsed v then 7 else if iso1Parameter_byteValue_isUsed v then
      14 else if iso1Parameter_shortValue_isUsed v then 31 else if iso1Parameter_intValue_isUsed v then
      47 else if iso1Parameter_physicalValue_isUsed v then 45 else if iso1Parameter_stringValue_isUsed v then
      6 + 24 + 8 * unat (iso1Parameter_stringValue_charactersLen v) else 0), (3, 1)]" "\<lambda>a. same_iso1Parameter
      v a \<and> iso1Parameter_sized a" for v j
proof
  fix g a assume at: "iso1Parameter_at v g a"
  then have "g \<in> {14, 15, 3}" by (simp add: iso1Parameter_at_def)
  then show "hops (iso1Parameter_enc_step v) (iso1Parameter_dec_step j) (iso1Parameter_at v)
    (left_at [(14, iso1Parameter_bits v),
      (15, if iso1Parameter_boolValue_isUsed v then 7 else if iso1Parameter_byteValue_isUsed v then
      14 else if iso1Parameter_shortValue_isUsed v then 31 else if iso1Parameter_intValue_isUsed v then
      47 else if iso1Parameter_physicalValue_isUsed v then 45 else if iso1Parameter_stringValue_isUsed v then
      6 + 24 + 8 * unat (iso1Parameter_stringValue_charactersLen v) else 0), (3, 1)])
      (\<lambda>a. same_iso1Parameter v a \<and> iso1Parameter_sized a) g a" using at
    by - (elim insertE emptyE; (hypsubst, rule hops_by, simp (no_asm) add: iso1Parameter_steps del: One_nat_def,
      simp (no_asm) add: iso1Parameter_steps del: One_nat_def, simp (asm_lr) add: iso1Parameter_props del: One_nat_def
        split del: if_split, (elim conjE)?,
      ((rule walks_ifs)+)?); (frule iso1Parameter_ok_def [THEN iffD1], ((drule (1) known)+)?, (elim conjE)?,
        ((drule (1) known)+)?, (elim conjE)?,
      (((rule walks_shapes, simp (no_asm) del: One_nat_def, ((rule reads_string_exact | rule reads_intros)+)?);
      ((elim exE conjE)?,
        ((simp (no_asm_simp) add: iso1Parameter_props; fail) | (simp (asm_lr) add: iso1Parameter_props; fail) |
        (auto simp: iso1Parameter_props; fail)))) | (erule (1) notE; fail) |
        ((elim exE conjE)?,
        ((simp (no_asm_simp) add: iso1Parameter_props; fail) | (simp (asm_lr) add: iso1Parameter_props; fail) |
        (auto simp: iso1Parameter_props; fail))))))
qed

lemma reads_iso1Parameter [reads_intros]:
  "iso1Parameter_ok v \<Longrightarrow> iso1Parameter_sized a \<Longrightarrow>
      reads (iso1Parameter_bits v) (\<lambda>s. encode_iso1ParameterType s v) (decode_iso1ParameterType j) a
      (\<lambda>a. same_iso1Parameter v a \<and> iso1Parameter_sized a)"
  unfolding encode_iso1ParameterType_def decode_iso1ParameterType_def [abs_def]
  by (rule reads_start [OF iso1Parameter.machine_reads, of _ 14, THEN reads_mono])
      (auto simp: iso1Parameter_at_def iso1Parameter_sized_def init_iso1ParameterType_def left_at_def)

interpretation iso1Parameter_enc: advancing_machine "iso1Parameter_enc_step v" "left_at [(14, 3), (15, 2), (3, 1)]"
    for v
  by unfold_locales (auto simp: iso1Parameter_steps dest!: advance_dests split: if_splits;
      simp add: left_at_def)

interpretation iso1Parameter_dec: advancing_machine "iso1Parameter_dec_step j" "left_at [(14, 3), (15, 2), (3, 1)]"
    for j
  by unfold_locales (auto simp: iso1Parameter_steps left_at_def dest!: advance_dests elim!: decode_switch_next split:
      if_splits)

subsection \<open>\<open>iso1ParameterSetType\<close>\<close>

record iso1ParameterSetType =
  iso1ParameterSet_ParameterSetID :: u16
  iso1ParameterSet_Parameter_array :: "iso1ParameterType list"
  iso1ParameterSet_Parameter_arrayLen :: u16

definition init_iso1ParameterSetType :: "iso1ParameterSetType \<Rightarrow> iso1ParameterSetType" where
  "init_iso1ParameterSetType a = a\<lparr>iso1ParameterSet_Parameter_arrayLen := 0\<rparr>"

record iso1ParameterSet_locals =
  iso1ParameterSet_Parameter_currArrayIndex :: nat

definition iso1ParameterSet_enc_step_3 :: "iso1ParameterSetType \<Rightarrow> iso1ParameterSet_locals machine" where
  "iso1ParameterSet_enc_step_3 v grammarID x s =
     (if grammarID = 58 then
        if iso1ParameterSet_Parameter_currArrayIndex x < unat (iso1ParameterSet_Parameter_arrayLen v) then
          encode_array_child 2 0 3 encode_iso1ParameterType (iso1ParameterSet_Parameter_array v)
          iso1ParameterSet_Parameter_currArrayIndex iso1ParameterSet_Parameter_currArrayIndex_update x s
        else finish 4 x (encodeNBitUnsignedInteger s 2 1)
      else if grammarID = 3 then
        finish 4 x (encodeNBitUnsignedInteger s 1 0)
      else Some (EXI_ERROR_UNKOWN_GRAMMAR_ID, (False, grammarID, x), s))"

definition iso1ParameterSet_enc_step_2 :: "iso1ParameterSetType \<Rightarrow> iso1ParameterSet_locals machine" where
  "iso1ParameterSet_enc_step_2 v grammarID x s =
     (if grammarID = 50 then
        if iso1ParameterSet_Parameter_currArrayIndex x < unat (iso1ParameterSet_Parameter_arrayLen v) then
          encode_array_child 2 0 51 encode_iso1ParameterType (iso1ParameterSet_Parameter_array v)
          iso1ParameterSet_Parameter_currArrayIndex iso1ParameterSet_Parameter_currArrayIndex_update x s
        else finish 4 x (encodeNBitUnsignedInteger s 2 1)
      else if grammarID = 51 then
        if iso1ParameterSet_Parameter_currArrayIndex x < unat (iso1ParameterSet_Parameter_arrayLen v) then
          encode_array_child 2 0 52 encode_iso1ParameterType (iso1ParameterSet_Parameter_array v)
          iso1ParameterSet_Parameter_currArrayIndex iso1ParameterSet_Parameter_currArrayIndex_update x s
        else finish 4 x (encodeNBitUnsignedInteger s 2 1)
      else if grammarID = 52 then
        if iso1ParameterSet_Parameter_currArrayIndex x < unat (iso1ParameterSet_Parameter_arrayLen v) then
          encode_array_child 2 0 53 encode_iso1ParameterType (iso1ParameterSet_Parameter_array v)
          iso1ParameterSet_Parameter_currArrayIndex iso1ParameterSet_Parameter_currArrayIndex_update x s
        else finish 4 x (encodeNBitUnsignedInteger s 2 1)
      else if grammarID = 53 then
        if iso1ParameterSet_Parameter_currArrayIndex x < unat (iso1ParameterSet_Parameter_arrayLen v) then
          encode_array_child 2 0 54 encode_iso1ParameterType (iso1ParameterSet_Parameter_array v)
          iso1ParameterSet_Parameter_currArrayIndex iso1ParameterSet_Parameter_currArrayIndex_update x s
        else finish 4 x (encodeNBitUnsignedInteger s 2 1)
      else if grammarID = 54 then
        if iso1ParameterSet_Parameter_currArrayIndex x < unat (iso1ParameterSet_Parameter_arrayLen v) then
          encode_array_child 2 0 55 encode_iso1ParameterType (iso1ParameterSet_Parameter_array v)
          iso1ParameterSet_Parameter_currArrayIndex iso1ParameterSet_Parameter_currArrayIndex_update x s
        else finish 4 x (encodeNBitUnsignedInteger s 2 1)
      else if grammarID = 55 then
        if iso1ParameterSet_Parameter_currArrayIndex x < unat (iso1ParameterSet_Parameter_arrayLen v) then
          encode_array_child 2 0 56 encode_iso1ParameterType (iso1ParameterSet_Parameter_array v)
          iso1ParameterSet_Parameter_currArrayIndex iso1ParameterSet_Parameter_currArrayIndex_update x s
        else finish 4 x (encodeNBitUnsignedInteger s 2 1)
      else if grammarID = 56 then
        if iso1ParameterSet_Parameter_currArrayIndex x < unat (iso1ParameterSet_Parameter_arrayLen v) then
          encode_array_child 2 0 57 encode_iso1ParameterType (iso1ParameterSet_Parameter_array v)
          iso1ParameterSet_Parameter_currArrayIndex iso1ParameterSet_Parameter_currArrayIndex_update x s
        else finish 4 x (encodeNBitUnsignedInteger s 2 1)
      else if grammarID = 57 then
        if iso1ParameterSet_Parameter_currArrayIndex x < unat (iso1ParameterSet_Parameter_arrayLen v) then
          encode_array_child 2 0 58 encode_iso1ParameterType (iso1ParameterSet_Parameter_array v)
          iso1ParameterSet_Parameter_currArrayIndex iso1ParameterSet_Parameter_currArrayIndex_update x s
        else finish 4 x (encodeNBitUnsignedInteger s 2 1)
      else iso1ParameterSet_enc_step_3 v grammarID x s)"

definition iso1ParameterSet_enc_step :: "iso1ParameterSetType \<Rightarrow> iso1ParameterSet_locals machine" where
  "iso1ParameterSet_enc_step v grammarID x s =
     (if grammarID = 42 then
        goto 43 x (encode_simple 1 0 (\<lambda>s. encodeInteger16 s (iso1ParameterSet_ParameterSetID v)) s)
      else if grammarID = 43 then
        if iso1ParameterSet_Parameter_currArrayIndex x < unat (iso1ParameterSet_Parameter_arrayLen v) then
          encode_array_child 1 0 44 encode_iso1ParameterType (iso1ParameterSet_Parameter_array v)
          iso1ParameterSet_Parameter_currArrayIndex iso1ParameterSet_Parameter_currArrayIndex_update x s
        else Some (EXI_ERROR_UNKOWN_EVENT, (False, grammarID, x), s)
      else if grammarID = 44 then
        if iso1ParameterSet_Parameter_currArrayIndex x < unat (iso1ParameterSet_Parameter_arrayLen v) then
          encode_array_child 2 0 45 encode_iso1ParameterType (iso1ParameterSet_Parameter_array v)
          iso1ParameterSet_Parameter_currArrayIndex iso1ParameterSet_Parameter_currArrayIndex_update x s
        else finish 4 x (encodeNBitUnsignedInteger s 2 1)
      else if grammarID = 45 then
        if iso1ParameterSet_Parameter_currArrayIndex x < unat (iso1ParameterSet_Parameter_arrayLen v) then
          encode_array_child 2 0 46 encode_iso1ParameterType (iso1ParameterSet_Parameter_array v)
          iso1ParameterSet_Parameter_currArrayIndex iso1ParameterSet_Parameter_currArrayIndex_update x s
        else finish 4 x (encodeNBitUnsignedInteger s 2 1)
      else if grammarID = 46 then
        if iso1ParameterSet_Parameter_currArrayIndex x < unat (iso1ParameterSet_Parameter_arrayLen v) then
          encode_array_child 2 0 47 encode_iso1ParameterType (iso1ParameterSet_Parameter_array v)
          iso1ParameterSet_Parameter_currArrayIndex iso1ParameterSet_Parameter_currArrayIndex_update x s
        else finish 4 x (encodeNBitUnsignedInteger s 2 1)
      else if grammarID = 47 then
        if iso1ParameterSet_Parameter_currArrayIndex x < unat (iso1ParameterSet_Parameter_arrayLen v) then
          encode_array_child 2 0 48 encode_iso1ParameterType (iso1ParameterSet_Parameter_array v)
          iso1ParameterSet_Parameter_currArrayIndex iso1ParameterSet_Parameter_currArrayIndex_update x s
        else finish 4 x (encodeNBitUnsignedInteger s 2 1)
      else if grammarID = 48 then
        if iso1ParameterSet_Parameter_currArrayIndex x < unat (iso1ParameterSet_Parameter_arrayLen v) then
          encode_array_child 2 0 49 encode_iso1ParameterType (iso1ParameterSet_Parameter_array v)
          iso1ParameterSet_Parameter_currArrayIndex iso1ParameterSet_Parameter_currArrayIndex_update x s
        else finish 4 x (encodeNBitUnsignedInteger s 2 1)
      else if grammarID = 49 then
        if iso1ParameterSet_Parameter_currArrayIndex x < unat (iso1ParameterSet_Parameter_arrayLen v) then
          encode_array_child 2 0 50 encode_iso1ParameterType (iso1ParameterSet_Parameter_array v)
          iso1ParameterSet_Parameter_currArrayIndex iso1ParameterSet_Parameter_currArrayIndex_update x s
        else finish 4 x (encodeNBitUnsignedInteger s 2 1)
      else iso1ParameterSet_enc_step_2 v grammarID x s)"

definition encode_iso1ParameterSetType :: "bitstream \<Rightarrow> iso1ParameterSetType \<Rightarrow>
    (errn \<times> bitstream) option" where
  "encode_iso1ParameterSetType s v = run_encoder (iso1ParameterSet_enc_step v) 42
      \<lparr>iso1ParameterSet_Parameter_currArrayIndex = 0\<rparr> s"

abbreviation (input) decode_next_iso1ParameterSet_Parameter :: "u32 \<Rightarrow> iso1ParameterSetType decoder" where
  "decode_next_iso1ParameterSet_Parameter j \<equiv> decode_element (decode_iso1ParameterType j)
      iso1ParameterSet_Parameter_array iso1ParameterSet_Parameter_arrayLen
      (\<lambda>xs n a. a\<lparr>iso1ParameterSet_Parameter_array := xs, iso1ParameterSet_Parameter_arrayLen
      := n\<rparr>)"

definition iso1ParameterSet_dec_step_4 :: "u32 \<Rightarrow> (dec_static \<times> iso1ParameterSetType) machine" where
  "iso1ParameterSet_dec_step_4 j grammarID x s =
     (if grammarID = 3 then
        decode_switch 1
         [(0, decode_end 4)] 3 x s
      else Some (EXI_ERROR_UNKOWN_GRAMMAR_ID, (False, grammarID, x), s))"

definition iso1ParameterSet_dec_step_3 :: "u32 \<Rightarrow> (dec_static \<times> iso1ParameterSetType) machine" where
  "iso1ParameterSet_dec_step_3 j grammarID x s =
     (if grammarID = 53 then
        decode_switch 2
         [(0, decode_array_child 54 16 iso1ParameterSet_Parameter_arrayLen
           (decode_next_iso1ParameterSet_Parameter j)),
          (1, decode_end 4)] 53 x s
      else if grammarID = 54 then
        decode_switch 2
         [(0, decode_array_child 55 16 iso1ParameterSet_Parameter_arrayLen
           (decode_next_iso1ParameterSet_Parameter j)),
          (1, decode_end 4)] 54 x s
      else if grammarID = 55 then
        decode_switch 2
         [(0, decode_array_child 56 16 iso1ParameterSet_Parameter_arrayLen
           (decode_next_iso1ParameterSet_Parameter j)),
          (1, decode_end 4)] 55 x s
      else if grammarID = 56 then
        decode_switch 2
         [(0, decode_array_child 57 16 iso1ParameterSet_Parameter_arrayLen
           (decode_next_iso1ParameterSet_Parameter j)),
          (1, decode_end 4)] 56 x s
      else if grammarID = 57 then
        decode_switch 2
         [(0, decode_array_child 58 16 iso1ParameterSet_Parameter_arrayLen
           (decode_next_iso1ParameterSet_Parameter j)),
          (1, decode_end 4)] 57 x s
      else if grammarID = 58 then
        decode_switch 2
         [(0, decode_array_child 3 16 iso1ParameterSet_Parameter_arrayLen (decode_next_iso1ParameterSet_Parameter j)),
          (1, decode_end 4)] 58 x s
      else iso1ParameterSet_dec_step_4 j grammarID x s)"

definition iso1ParameterSet_dec_step_2 :: "u32 \<Rightarrow> (dec_static \<times> iso1ParameterSetType) machine" where
  "iso1ParameterSet_dec_step_2 j grammarID x s =
     (if grammarID = 47 then
        decode_switch 2
         [(0, decode_array_child 48 16 iso1ParameterSet_Parameter_arrayLen
           (decode_next_iso1ParameterSet_Parameter j)),
          (1, decode_end 4)] 47 x s
      else if grammarID = 48 then
        decode_switch 2
         [(0, decode_array_child 49 16 iso1ParameterSet_Parameter_arrayLen
           (decode_next_iso1ParameterSet_Parameter j)),
          (1, decode_end 4)] 48 x s
      else if grammarID = 49 then
        decode_switch 2
         [(0, decode_array_child 50 16 iso1ParameterSet_Parameter_arrayLen
           (decode_next_iso1ParameterSet_Parameter j)),
          (1, decode_end 4)] 49 x s
      else if grammarID = 50 then
        decode_switch 2
         [(0, decode_array_child 51 16 iso1ParameterSet_Parameter_arrayLen
           (decode_next_iso1ParameterSet_Parameter j)),
          (1, decode_end 4)] 50 x s
      else if grammarID = 51 then
        decode_switch 2
         [(0, decode_array_child 52 16 iso1ParameterSet_Parameter_arrayLen
           (decode_next_iso1ParameterSet_Parameter j)),
          (1, decode_end 4)] 51 x s
      else if grammarID = 52 then
        decode_switch 2
         [(0, decode_array_child 53 16 iso1ParameterSet_Parameter_arrayLen
           (decode_next_iso1ParameterSet_Parameter j)),
          (1, decode_end 4)] 52 x s
      else iso1ParameterSet_dec_step_3 j grammarID x s)"

definition iso1ParameterSet_dec_step :: "u32 \<Rightarrow> (dec_static \<times> iso1ParameterSetType) machine" where
  "iso1ParameterSet_dec_step j grammarID x s =
     (if grammarID = 42 then
        decode_switch 1
         [(0, decode_simple 42 43
           (decode_i16_field j iso1ParameterSet_ParameterSetID
           (\<lambda>u a. a\<lparr>iso1ParameterSet_ParameterSetID := u\<rparr>)))] 42 x s
      else if grammarID = 43 then
        decode_switch 1
         [(0, decode_array_child 44 16 iso1ParameterSet_Parameter_arrayLen
           (decode_next_iso1ParameterSet_Parameter j))] 43 x s
      else if grammarID = 44 then
        decode_switch 2
         [(0, decode_array_child 45 16 iso1ParameterSet_Parameter_arrayLen
           (decode_next_iso1ParameterSet_Parameter j)),
          (1, decode_end 4)] 44 x s
      else if grammarID = 45 then
        decode_switch 2
         [(0, decode_array_child 46 16 iso1ParameterSet_Parameter_arrayLen
           (decode_next_iso1ParameterSet_Parameter j)),
          (1, decode_end 4)] 45 x s
      else if grammarID = 46 then
        decode_switch 2
         [(0, decode_array_child 47 16 iso1ParameterSet_Parameter_arrayLen
           (decode_next_iso1ParameterSet_Parameter j)),
          (1, decode_end 4)] 46 x s
      else iso1ParameterSet_dec_step_2 j grammarID x s)"

definition decode_iso1ParameterSetType :: "u32 \<Rightarrow> iso1ParameterSetType decoder" where
  "decode_iso1ParameterSetType j x s = grammar_loop (iso1ParameterSet_dec_step j) 42
      (fst x, init_iso1ParameterSetType (snd x)) s"

definition iso1ParameterSet_ok :: "iso1ParameterSetType \<Rightarrow> bool" where
  "iso1ParameterSet_ok v \<longleftrightarrow>
     length (iso1ParameterSet_Parameter_array v) = 16 \<and> unat (iso1ParameterSet_Parameter_arrayLen v) \<le> 16
       \<and> in_use iso1Parameter_ok (iso1ParameterSet_Parameter_array v) (iso1ParameterSet_Parameter_arrayLen v)
       \<and>
     unat (iso1ParameterSet_Parameter_arrayLen v) \<noteq> 0"

definition iso1ParameterSet_sized :: "iso1ParameterSetType \<Rightarrow> bool" where
  "iso1ParameterSet_sized a \<longleftrightarrow>
     length (iso1ParameterSet_Parameter_array a) = 16 \<and>
     list_all iso1Parameter_sized (iso1ParameterSet_Parameter_array a)"

definition same_iso1ParameterSet :: "iso1ParameterSetType \<Rightarrow> iso1ParameterSetType \<Rightarrow> bool" where
  "same_iso1ParameterSet v a \<longleftrightarrow>
     iso1ParameterSet_ParameterSetID a = iso1ParameterSet_ParameterSetID v \<and>
     iso1ParameterSet_Parameter_arrayLen a = iso1ParameterSet_Parameter_arrayLen v \<and>
       copied same_iso1Parameter (unat (iso1ParameterSet_Parameter_arrayLen v)) (iso1ParameterSet_Parameter_array v)
       (iso1ParameterSet_Parameter_array a)"

definition iso1ParameterSet_at :: "iso1ParameterSetType \<Rightarrow> nat \<Rightarrow> iso1ParameterSet_locals
    \<Rightarrow> iso1ParameterSetType \<Rightarrow> bool" where
  "iso1ParameterSet_at v g x a \<longleftrightarrow>
     counts [(42, 0), (43, 0), (44, 1), (45, 2), (46, 3), (47, 4), (48, 5), (49, 6), (50, 7), (51, 8), (52, 9),
       (53, 10), (54, 11), (55, 12), (56, 13), (57, 14), (58, 15)] g (iso1ParameterSet_Parameter_currArrayIndex x)
       \<and>
     iso1ParameterSet_ok v \<and>
     g \<in> {42, 43, 44, 45, 46, 47, 48, 49, 50, 51, 52, 53, 54, 55, 56, 57, 58, 3} \<and>
     iso1ParameterSet_sized a \<and>
     (g \<notin> {42} \<longrightarrow> iso1ParameterSet_ParameterSetID a = iso1ParameterSet_ParameterSetID v) \<and>
     unat (iso1ParameterSet_Parameter_arrayLen a) = iso1ParameterSet_Parameter_currArrayIndex x \<and>
       iso1ParameterSet_Parameter_currArrayIndex x \<le> unat (iso1ParameterSet_Parameter_arrayLen v) \<and>
     copied same_iso1Parameter (iso1ParameterSet_Parameter_currArrayIndex x) (iso1ParameterSet_Parameter_array v)
       (iso1ParameterSet_Parameter_array a) \<and>
     (g = 3 \<longrightarrow> iso1ParameterSet_Parameter_currArrayIndex x = unat
       (iso1ParameterSet_Parameter_arrayLen v))"

definition iso1ParameterSet_bits :: "iso1ParameterSetType \<Rightarrow> nat" where
  "iso1ParameterSet_bits v = 30 + due_of (\<lambda>i. 2 + iso1Parameter_bits (iso1ParameterSet_Parameter_array v ! i))
      (iso1ParameterSet_Parameter_arrayLen v) 0"

definition iso1ParameterSet_rank :: "iso1ParameterSetType \<Rightarrow> nat \<Rightarrow> iso1ParameterSet_locals
    \<Rightarrow> nat" where
  "iso1ParameterSet_rank v g x = left_at [(42, 30), (43, 2), (44, 2), (45, 2), (46, 2), (47, 2), (48, 2), (49, 2),
      (50, 2), (51, 2), (52, 2), (53, 2), (54, 2), (55, 2), (56, 2), (57, 2), (58, 2), (3, 1)] g + due_of
      (\<lambda>i. 2 + iso1Parameter_bits (iso1ParameterSet_Parameter_array v ! i))
      (iso1ParameterSet_Parameter_arrayLen v) (iso1ParameterSet_Parameter_currArrayIndex x)"

lemmas iso1ParameterSet_steps = iso1ParameterSet_enc_step_def iso1ParameterSet_enc_step_2_def
    iso1ParameterSet_enc_step_3_def
  iso1ParameterSet_dec_step_def iso1ParameterSet_dec_step_2_def iso1ParameterSet_dec_step_3_def
      iso1ParameterSet_dec_step_4_def

lemmas iso1ParameterSet_props = iso1ParameterSet_at_def iso1ParameterSet_sized_def same_iso1ParameterSet_def
    iso1ParameterSet_rank_def left_at_def iso1ParameterSet_bits_def

lemmas iso1ParameterSet_elements = in_use_nth [where P = iso1Parameter_ok]
  slots_nth [where P = iso1Parameter_sized]

lemma iso1ParameterSet_steps_1:
  "iso1ParameterSet_at v g x a \<Longrightarrow> g \<in> {42, 43, 44, 45, 46, 47} \<Longrightarrow>
   walks (iso1ParameterSet_enc_step v) (iso1ParameterSet_dec_step j) (iso1ParameterSet_at v) (iso1ParameterSet_rank v)
    (\<lambda>a. same_iso1ParameterSet v a \<and> iso1ParameterSet_sized a) g x a"
  by (elim insertE emptyE; (hypsubst, rule walks_by, simp (no_asm) add: iso1ParameterSet_steps del: One_nat_def,
      simp (no_asm) add: iso1ParameterSet_steps del: One_nat_def, simp (asm_lr) add: iso1ParameterSet_props del:
        One_nat_def, (elim conjE)?,
      ((rule walks_ifs)+)?); (frule iso1ParameterSet_ok_def [THEN iffD1], ((drule (1) known)+)?, (elim conjE)?,
        ((drule (1) known)+)?, (elim conjE)?,
      (((rule walks_shapes, simp (no_asm) del: One_nat_def, ((rule reads_intros)+)?);
      ((elim exE conjE)?,
        ((simp (no_asm_simp) add: iso1ParameterSet_props iso1ParameterSet_elements counts_def array_intros; fail) |
        (simp (asm_lr) add: iso1ParameterSet_props iso1ParameterSet_elements counts_def array_intros; fail) |
        (auto simp: iso1ParameterSet_props iso1ParameterSet_elements counts_def array_intros; fail)))) |
        (erule (1) notE; fail) |
        ((elim exE conjE)?,
        ((simp (no_asm_simp) add: iso1ParameterSet_props iso1ParameterSet_elements counts_def array_intros; fail) |
        (simp (asm_lr) add: iso1ParameterSet_props iso1ParameterSet_elements counts_def array_intros; fail) |
        (auto simp: iso1ParameterSet_props iso1ParameterSet_elements counts_def array_intros; fail))))))

lemma iso1ParameterSet_steps_2:
  "iso1ParameterSet_at v g x a \<Longrightarrow> g \<in> {48, 49, 50, 51, 52, 53} \<Longrightarrow>
   walks (iso1ParameterSet_enc_step v) (iso1ParameterSet_dec_step j) (iso1ParameterSet_at v) (iso1ParameterSet_rank v)
    (\<lambda>a. same_iso1ParameterSet v a \<and> iso1ParameterSet_sized a) g x a"
  by (elim insertE emptyE; (hypsubst, rule walks_by, simp (no_asm) add: iso1ParameterSet_steps del: One_nat_def,
      simp (no_asm) add: iso1ParameterSet_steps del: One_nat_def, simp (asm_lr) add: iso1ParameterSet_props del:
        One_nat_def, (elim conjE)?,
      ((rule walks_ifs)+)?); (frule iso1ParameterSet_ok_def [THEN iffD1], ((drule (1) known)+)?, (elim conjE)?,
        ((drule (1) known)+)?, (elim conjE)?,
      (((rule walks_shapes, simp (no_asm) del: One_nat_def, ((rule reads_intros)+)?);
      ((elim exE conjE)?,
        ((simp (no_asm_simp) add: iso1ParameterSet_props iso1ParameterSet_elements counts_def array_intros; fail) |
        (simp (asm_lr) add: iso1ParameterSet_props iso1ParameterSet_elements counts_def array_intros; fail) |
        (auto simp: iso1ParameterSet_props iso1ParameterSet_elements counts_def array_intros; fail)))) |
        (erule (1) notE; fail) |
        ((elim exE conjE)?,
        ((simp (no_asm_simp) add: iso1ParameterSet_props iso1ParameterSet_elements counts_def array_intros; fail) |
        (simp (asm_lr) add: iso1ParameterSet_props iso1ParameterSet_elements counts_def array_intros; fail) |
        (auto simp: iso1ParameterSet_props iso1ParameterSet_elements counts_def array_intros; fail))))))

lemma iso1ParameterSet_steps_3:
  "iso1ParameterSet_at v g x a \<Longrightarrow> g \<in> {54, 55, 56, 57, 58, 3} \<Longrightarrow>
   walks (iso1ParameterSet_enc_step v) (iso1ParameterSet_dec_step j) (iso1ParameterSet_at v) (iso1ParameterSet_rank v)
    (\<lambda>a. same_iso1ParameterSet v a \<and> iso1ParameterSet_sized a) g x a"
  by (elim insertE emptyE; (hypsubst, rule walks_by, simp (no_asm) add: iso1ParameterSet_steps del: One_nat_def,
      simp (no_asm) add: iso1ParameterSet_steps del: One_nat_def, simp (asm_lr) add: iso1ParameterSet_props del:
        One_nat_def, (elim conjE)?,
      ((rule walks_ifs)+)?); (frule iso1ParameterSet_ok_def [THEN iffD1], ((drule (1) known)+)?, (elim conjE)?,
        ((drule (1) known)+)?, (elim conjE)?,
      (((rule walks_shapes, simp (no_asm) del: One_nat_def, ((rule reads_intros)+)?);
      ((elim exE conjE)?,
        ((simp (no_asm_simp) add: iso1ParameterSet_props iso1ParameterSet_elements counts_def array_intros; fail) |
        (simp (asm_lr) add: iso1ParameterSet_props iso1ParameterSet_elements counts_def array_intros; fail) |
        (auto simp: iso1ParameterSet_props iso1ParameterSet_elements counts_def array_intros; fail)))) |
        (erule (1) notE; fail) |
        ((elim exE conjE)?,
        ((simp (no_asm_simp) add: iso1ParameterSet_props iso1ParameterSet_elements counts_def array_intros; fail) |
        (simp (asm_lr) add: iso1ParameterSet_props iso1ParameterSet_elements counts_def array_intros; fail) |
        (auto simp: iso1ParameterSet_props iso1ParameterSet_elements counts_def array_intros; fail))))))

interpretation iso1ParameterSet: walking_pair "iso1ParameterSet_enc_step v" "iso1ParameterSet_dec_step j"
    "iso1ParameterSet_at v" "iso1ParameterSet_rank v"
  "\<lambda>a. same_iso1ParameterSet v a \<and> iso1ParameterSet_sized a" for v j
proof
  fix g x a assume at: "iso1ParameterSet_at v g x a"
  then have "g \<in> {42, 43, 44, 45, 46, 47} \<or> g \<in> {48, 49, 50, 51, 52, 53} \<or> g \<in> {54, 55, 56, 57,
      58, 3}" by (auto simp: iso1ParameterSet_at_def)
  then show "walks (iso1ParameterSet_enc_step v) (iso1ParameterSet_dec_step j) (iso1ParameterSet_at v)
      (iso1ParameterSet_rank v)
    (\<lambda>a. same_iso1ParameterSet v a \<and> iso1ParameterSet_sized a) g x a"
    by (elim disjE) (erule iso1ParameterSet_steps_1 [OF at] | erule iso1ParameterSet_steps_2 [OF at] | erule
      iso1ParameterSet_steps_3 [OF at])+
qed

lemma reads_iso1ParameterSet [reads_intros]:
  "iso1ParameterSet_ok v \<Longrightarrow> iso1ParameterSet_sized a \<Longrightarrow> reads (iso1ParameterSet_bits v)
      (\<lambda>s. encode_iso1ParameterSetType s v) (decode_iso1ParameterSetType j) a
      (\<lambda>a. same_iso1ParameterSet v a \<and> iso1ParameterSet_sized a)"
  unfolding encode_iso1ParameterSetType_def decode_iso1ParameterSetType_def [abs_def]
  by (rule reads_start [OF iso1ParameterSet.walk_reads, THEN reads_mono])
      (auto simp: iso1ParameterSet_props iso1ParameterSet_ok_def counts_def due_def init_iso1ParameterSetType_def)

interpretation iso1ParameterSet_enc: advancing_machine "iso1ParameterSet_enc_step v" "left_at
    [(42, 18), (43, 17), (44, 16), (45, 15), (46, 14), (47, 13), (48, 12), (49, 11), (50, 10), (51, 9), (52, 8),
    (53, 7), (54, 6), (55, 5), (56, 4), (57, 3), (58, 2), (3, 1)]" for v
  by unfold_locales (auto simp: iso1ParameterSet_steps dest!: array_advance_dests split: if_splits;
      simp add: left_at_def)

interpretation iso1ParameterSet_dec: advancing_machine "iso1ParameterSet_dec_step j" "left_at
    [(42, 18), (43, 17), (44, 16), (45, 15), (46, 14), (47, 13), (48, 12), (49, 11), (50, 10), (51, 9), (52, 8),
    (53, 7), (54, 6), (55, 5), (56, 4), (57, 3), (58, 2), (3, 1)]" for j
  by unfold_locales (auto simp: iso1ParameterSet_steps dest!: array_advance_dests elim!:
      decode_switch_next split: if_splits;
      simp add: left_at_def)

subsection \<open>\<open>iso1ServiceParameterListType\<close>\<close>

record iso1ServiceParameterListType =
  iso1ServiceParameterList_ParameterSet_array :: "iso1ParameterSetType list"
  iso1ServiceParameterList_ParameterSet_arrayLen :: u16

definition init_iso1ServiceParameterListType :: "iso1ServiceParameterListType \<Rightarrow>
    iso1ServiceParameterListType" where
  "init_iso1ServiceParameterListType a = a\<lparr>iso1ServiceParameterList_ParameterSet_arrayLen := 0\<rparr>"

record iso1ServiceParameterList_locals =
  iso1ServiceParameterList_ParameterSet_currArrayIndex :: nat

definition iso1ServiceParameterList_enc_step :: "iso1ServiceParameterListType \<Rightarrow>
    iso1ServiceParameterList_locals machine" where
  "iso1ServiceParameterList_enc_step v grammarID x s =
     (if grammarID = 29 then
        if iso1ServiceParameterList_ParameterSet_currArrayIndex x < unat
          (iso1ServiceParameterList_ParameterSet_arrayLen v) then
          encode_array_child 1 0 30 encode_iso1ParameterSetType (iso1ServiceParameterList_ParameterSet_array v)
          iso1ServiceParameterList_ParameterSet_currArrayIndex
          iso1ServiceParameterList_ParameterSet_currArrayIndex_update x s
        else Some (EXI_ERROR_UNKOWN_EVENT, (False, grammarID, x), s)
      else if grammarID = 30 then
        if iso1ServiceParameterList_ParameterSet_currArrayIndex x < unat
          (iso1ServiceParameterList_ParameterSet_arrayLen v) then
          encode_array_child 2 0 30 encode_iso1ParameterSetType (iso1ServiceParameterList_ParameterSet_array v)
          iso1ServiceParameterList_ParameterSet_currArrayIndex
          iso1ServiceParameterList_ParameterSet_currArrayIndex_update x s
        else finish 4 x (encodeNBitUnsignedInteger s 2 1)
      else Some (EXI_ERROR_UNKOWN_GRAMMAR_ID, (False, grammarID, x), s))"

definition encode_iso1ServiceParameterListType :: "bitstream \<Rightarrow> iso1ServiceParameterListType \<Rightarrow>
    (errn \<times> bitstream) option" where
  "encode_iso1ServiceParameterListType s v = run_encoder (iso1ServiceParameterList_enc_step v) 29
      \<lparr>iso1ServiceParameterList_ParameterSet_currArrayIndex = 0\<rparr> s"

abbreviation (input) decode_next_iso1ServiceParameterList_ParameterSet :: "u32 \<Rightarrow>
    iso1ServiceParameterListType decoder" where
  "decode_next_iso1ServiceParameterList_ParameterSet j \<equiv> decode_element (decode_iso1ParameterSetType j)
      iso1ServiceParameterList_ParameterSet_array iso1ServiceParameterList_ParameterSet_arrayLen
      (\<lambda>xs n a. a\<lparr>iso1ServiceParameterList_ParameterSet_array := xs,
      iso1ServiceParameterList_ParameterSet_arrayLen := n\<rparr>)"

definition iso1ServiceParameterList_dec_step :: "u32 \<Rightarrow> (dec_static \<times> iso1ServiceParameterListType)
    machine" where
  "iso1ServiceParameterList_dec_step j grammarID x s =
     (if grammarID = 29 then
        decode_switch 1
         [(0, decode_array_child 30 5 iso1ServiceParameterList_ParameterSet_arrayLen
           (decode_next_iso1ServiceParameterList_ParameterSet j))] 29 x s
      else if grammarID = 30 then
        decode_switch 2
         [(0, decode_array_child 30 5 iso1ServiceParameterList_ParameterSet_arrayLen
           (decode_next_iso1ServiceParameterList_ParameterSet j)),
          (1, decode_end 4)] 30 x s
      else Some (EXI_ERROR_UNKOWN_GRAMMAR_ID, (False, grammarID, x), s))"

definition decode_iso1ServiceParameterListType :: "u32 \<Rightarrow> iso1ServiceParameterListType decoder" where
  "decode_iso1ServiceParameterListType j x s = grammar_loop (iso1ServiceParameterList_dec_step j) 29
      (fst x, init_iso1ServiceParameterListType (snd x)) s"

definition iso1ServiceParameterList_ok :: "iso1ServiceParameterListType \<Rightarrow> bool" where
  "iso1ServiceParameterList_ok v \<longleftrightarrow>
     length (iso1ServiceParameterList_ParameterSet_array v) = 5 \<and>
       unat (iso1ServiceParameterList_ParameterSet_arrayLen v) \<le> 5 \<and>
       in_use iso1ParameterSet_ok (iso1ServiceParameterList_ParameterSet_array v)
       (iso1ServiceParameterList_ParameterSet_arrayLen v) \<and>
     unat (iso1ServiceParameterList_ParameterSet_arrayLen v) \<noteq> 0"

definition iso1ServiceParameterList_sized :: "iso1ServiceParameterListType \<Rightarrow> bool" where
  "iso1ServiceParameterList_sized a \<longleftrightarrow>
     length (iso1ServiceParameterList_ParameterSet_array a) = 5 \<and>
     list_all iso1ParameterSet_sized (iso1ServiceParameterList_ParameterSet_array a)"

definition same_iso1ServiceParameterList :: "iso1ServiceParameterListType \<Rightarrow> iso1ServiceParameterListType
    \<Rightarrow> bool" where
  "same_iso1ServiceParameterList v a \<longleftrightarrow>
     iso1ServiceParameterList_ParameterSet_arrayLen a = iso1ServiceParameterList_ParameterSet_arrayLen v \<and>
       copied same_iso1ParameterSet (unat (iso1ServiceParameterList_ParameterSet_arrayLen v))
       (iso1ServiceParameterList_ParameterSet_array v) (iso1ServiceParameterList_ParameterSet_array a)"

definition iso1ServiceParameterList_at :: "iso1ServiceParameterListType \<Rightarrow> nat \<Rightarrow>
    iso1ServiceParameterList_locals \<Rightarrow> iso1ServiceParameterListType \<Rightarrow> bool" where
  "iso1ServiceParameterList_at v g x a \<longleftrightarrow>
     counts [(29, 0)] g (iso1ServiceParameterList_ParameterSet_currArrayIndex x) \<and>
     iso1ServiceParameterList_ok v \<and>
     g \<in> {29, 30} \<and>
     iso1ServiceParameterList_sized a \<and>
     unat (iso1ServiceParameterList_ParameterSet_arrayLen a) = iso1ServiceParameterList_ParameterSet_currArrayIndex x
       \<and> iso1ServiceParameterList_ParameterSet_currArrayIndex x \<le> unat
       (iso1ServiceParameterList_ParameterSet_arrayLen v) \<and>
     copied same_iso1ParameterSet (iso1ServiceParameterList_ParameterSet_currArrayIndex x)
       (iso1ServiceParameterList_ParameterSet_array v) (iso1ServiceParameterList_ParameterSet_array a)"

definition iso1ServiceParameterList_bits :: "iso1ServiceParameterListType \<Rightarrow> nat" where
  "iso1ServiceParameterList_bits v = 2 + due_of
      (\<lambda>i. 2 + iso1ParameterSet_bits (iso1ServiceParameterList_ParameterSet_array v ! i))
      (iso1ServiceParameterList_ParameterSet_arrayLen v) 0"

definition iso1ServiceParameterList_rank :: "iso1ServiceParameterListType \<Rightarrow> nat \<Rightarrow>
    iso1ServiceParameterList_locals \<Rightarrow> nat" where
  "iso1ServiceParameterList_rank v g x = left_at [(29, 2), (30, 2)] g + due_of
      (\<lambda>i. 2 + iso1ParameterSet_bits (iso1ServiceParameterList_ParameterSet_array v ! i))
      (iso1ServiceParameterList_ParameterSet_arrayLen v) (iso1ServiceParameterList_ParameterSet_currArrayIndex x)"

lemmas iso1ServiceParameterList_steps = iso1ServiceParameterList_enc_step_def
  iso1ServiceParameterList_dec_step_def

lemmas iso1ServiceParameterList_props = iso1ServiceParameterList_at_def iso1ServiceParameterList_sized_def
    same_iso1ServiceParameterList_def iso1ServiceParameterList_rank_def left_at_def iso1ServiceParameterList_bits_def

lemmas iso1ServiceParameterList_elements = in_use_nth [where P = iso1ParameterSet_ok]
  slots_nth [where P = iso1ParameterSet_sized]

interpretation iso1ServiceParameterList: walking_pair "iso1ServiceParameterList_enc_step v"
    "iso1ServiceParameterList_dec_step j" "iso1ServiceParameterList_at v" "iso1ServiceParameterList_rank v"
  "\<lambda>a. same_iso1ServiceParameterList v a \<and> iso1ServiceParameterList_sized a" for v j
proof
  fix g x a assume at: "iso1ServiceParameterList_at v g x a"
  then have "g \<in> {29, 30}" by (simp add: iso1ServiceParameterList_at_def)
  then show "walks (iso1ServiceParameterList_enc_step v) (iso1ServiceParameterList_dec_step j)
      (iso1ServiceParameterList_at v) (iso1ServiceParameterList_rank v)
    (\<lambda>a. same_iso1ServiceParameterList v a \<and> iso1ServiceParameterList_sized a) g x a" using at
    by - (elim insertE emptyE; (hypsubst, rule walks_by, simp (no_asm) add: iso1ServiceParameterList_steps del:
      One_nat_def,
      simp (no_asm) add: iso1ServiceParameterList_steps del: One_nat_def,
        simp (asm_lr) add: iso1ServiceParameterList_props del: One_nat_def, (elim conjE)?,
      ((rule walks_ifs)+)?); (frule iso1ServiceParameterList_ok_def [THEN iffD1], ((drule (1) known)+)?,
        (elim conjE)?, ((drule (1) known)+)?, (elim conjE)?,
      (((rule walks_shapes, simp (no_asm) del: One_nat_def, ((rule reads_intros)+)?);
      ((elim exE conjE)?,
        ((simp (no_asm_simp) add: iso1ServiceParameterList_props iso1ServiceParameterList_elements counts_def
        array_intros; fail) | (simp (asm_lr) add: iso1ServiceParameterList_props iso1ServiceParameterList_elements
        counts_def array_intros; fail) | (auto simp: iso1ServiceParameterList_props iso1ServiceParameterList_elements
        counts_def array_intros; fail)))) | (erule (1) notE; fail) |
        ((elim exE conjE)?,
        ((simp (no_asm_simp) add: iso1ServiceParameterList_props iso1ServiceParameterList_elements counts_def
        array_intros; fail) | (simp (asm_lr) add: iso1ServiceParameterList_props iso1ServiceParameterList_elements
        counts_def array_intros; fail) | (auto simp: iso1ServiceParameterList_props iso1ServiceParameterList_elements
        counts_def array_intros; fail))))))
qed

lemma reads_iso1ServiceParameterList [reads_intros]:
  "iso1ServiceParameterList_ok v \<Longrightarrow> iso1ServiceParameterList_sized a \<Longrightarrow>
      reads (iso1ServiceParameterList_bits v) (\<lambda>s. encode_iso1ServiceParameterListType s v)
      (decode_iso1ServiceParameterListType j) a (\<lambda>a. same_iso1ServiceParameterList v a \<and>
      iso1ServiceParameterList_sized a)"
  unfolding encode_iso1ServiceParameterListType_def decode_iso1ServiceParameterListType_def [abs_def]
  by (rule reads_start [OF iso1ServiceParameterList.walk_reads, THEN reads_mono])
      (auto simp: iso1ServiceParameterList_props iso1ServiceParameterList_ok_def counts_def due_def
      init_iso1ServiceParameterListType_def)

subsection \<open>\<open>iso1ServiceDetailResType\<close>\<close>

record iso1ServiceDetailResType =
  iso1ServiceDetailRes_ResponseCode :: u32
  iso1ServiceDetailRes_ServiceID :: u16
  iso1ServiceDetailRes_ServiceParameterList :: iso1ServiceParameterListType
  iso1ServiceDetailRes_ServiceParameterList_isUsed :: bool

definition init_iso1ServiceDetailResType :: "iso1ServiceDetailResType \<Rightarrow> iso1ServiceDetailResType" where
  "init_iso1ServiceDetailResType a = a\<lparr>iso1ServiceDetailRes_ServiceParameterList_isUsed := False\<rparr>"

definition iso1ServiceDetailRes_enc_step :: "iso1ServiceDetailResType \<Rightarrow> unit machine" where
  "iso1ServiceDetailRes_enc_step v grammarID x s =
     (if grammarID = 170 then
        goto 171 x
          (encode_simple 1 0 (\<lambda>s. encodeNBitUnsignedInteger s 5 (iso1ServiceDetailRes_ResponseCode v)) s)
      else if grammarID = 171 then
        goto 172 x (encode_simple 1 0 (\<lambda>s. encodeUnsignedInteger16 s (iso1ServiceDetailRes_ServiceID v)) s)
      else if grammarID = 172 then
        if iso1ServiceDetailRes_ServiceParameterList_isUsed v then
          goto 3 x (encode_child 2 0
          (\<lambda>s. encode_iso1ServiceParameterListType s (iso1ServiceDetailRes_ServiceParameterList v)) s)
        else finish 4 x (encodeNBitUnsignedInteger s 2 1)
      else if grammarID = 3 then
        finish 4 x (encodeNBitUnsignedInteger s 1 0)
      else Some (EXI_ERROR_UNKOWN_GRAMMAR_ID, (False, grammarID, x), s))"

definition encode_iso1ServiceDetailResType :: "bitstream \<Rightarrow> iso1ServiceDetailResType \<Rightarrow>
    (errn \<times> bitstream) option" where
  "encode_iso1ServiceDetailResType s v = run_encoder (iso1ServiceDetailRes_enc_step v) 170 () s"

definition iso1ServiceDetailRes_dec_step :: "u32 \<Rightarrow> (dec_static \<times> iso1ServiceDetailResType) machine"
    where
  "iso1ServiceDetailRes_dec_step j grammarID x s =
     (if grammarID = 170 then
        decode_switch 1
         [(0, decode_simple 170 171
           (decode_nbit_field 5 (\<lambda>u a. a\<lparr>iso1ServiceDetailRes_ResponseCode := u\<rparr>)))] 170 x s
      else if grammarID = 171 then
        decode_switch 1
         [(0, decode_simple 171 172
           (decode_u16_field j (\<lambda>u a. a\<lparr>iso1ServiceDetailRes_ServiceID := u\<rparr>)))] 171 x s
      else if grammarID = 172 then
        decode_switch 2
         [(0, decode_child 3
           (decode_used (\<lambda>a. a\<lparr>iso1ServiceDetailRes_ServiceParameterList_isUsed := True\<rparr>)
           (decode_sub (decode_iso1ServiceParameterListType j) iso1ServiceDetailRes_ServiceParameterList
           (\<lambda>u a. a\<lparr>iso1ServiceDetailRes_ServiceParameterList := u\<rparr>)))),
          (1, decode_end 4)] 172 x s
      else if grammarID = 3 then
        decode_switch 1
         [(0, decode_end 4)] 3 x s
      else Some (EXI_ERROR_UNKOWN_GRAMMAR_ID, (False, grammarID, x), s))"

definition decode_iso1ServiceDetailResType :: "u32 \<Rightarrow> iso1ServiceDetailResType decoder" where
  "decode_iso1ServiceDetailResType j x s = grammar_loop (iso1ServiceDetailRes_dec_step j) 170
      (fst x, init_iso1ServiceDetailResType (snd x)) s"

definition iso1ServiceDetailRes_ok :: "iso1ServiceDetailResType \<Rightarrow> bool" where
  "iso1ServiceDetailRes_ok v \<longleftrightarrow>
     iso1ServiceDetailRes_ResponseCode v < 32 \<and>
     when_used (iso1ServiceDetailRes_ServiceParameterList_isUsed v)
       (iso1ServiceParameterList_ok (iso1ServiceDetailRes_ServiceParameterList v))"

definition iso1ServiceDetailRes_sized :: "iso1ServiceDetailResType \<Rightarrow> bool" where
  "iso1ServiceDetailRes_sized a \<longleftrightarrow>
     iso1ServiceParameterList_sized (iso1ServiceDetailRes_ServiceParameterList a)"

definition same_iso1ServiceDetailRes :: "iso1ServiceDetailResType \<Rightarrow> iso1ServiceDetailResType \<Rightarrow>
    bool" where
  "same_iso1ServiceDetailRes v a \<longleftrightarrow>
     iso1ServiceDetailRes_ResponseCode a = iso1ServiceDetailRes_ResponseCode v \<and>
     iso1ServiceDetailRes_ServiceID a = iso1ServiceDetailRes_ServiceID v \<and>
     kept (iso1ServiceDetailRes_ServiceParameterList_isUsed v) (iso1ServiceDetailRes_ServiceParameterList_isUsed a)
       (same_iso1ServiceParameterList (iso1ServiceDetailRes_ServiceParameterList v)
       (iso1ServiceDetailRes_ServiceParameterList a))"

definition iso1ServiceDetailRes_at :: "iso1ServiceDetailResType \<Rightarrow> nat \<Rightarrow>
    iso1ServiceDetailResType \<Rightarrow> bool" where
  "iso1ServiceDetailRes_at v g a \<longleftrightarrow>
     iso1ServiceDetailRes_ok v \<and>
     g \<in> {170, 171, 172, 3} \<and>
     iso1ServiceDetailRes_sized a \<and>
     (g \<notin> {170} \<longrightarrow> iso1ServiceDetailRes_ResponseCode a = iso1ServiceDetailRes_ResponseCode v)
       \<and>
     (g \<notin> {170, 171} \<longrightarrow> iso1ServiceDetailRes_ServiceID a = iso1ServiceDetailRes_ServiceID v)
       \<and>
     (if g \<in> {170, 171, 172} then \<not> iso1ServiceDetailRes_ServiceParameterList_isUsed a
      else kept (iso1ServiceDetailRes_ServiceParameterList_isUsed v)
        (iso1ServiceDetailRes_ServiceParameterList_isUsed a)
        (same_iso1ServiceParameterList (iso1ServiceDetailRes_ServiceParameterList v)
        (iso1ServiceDetailRes_ServiceParameterList a)))"

definition iso1ServiceDetailRes_bits :: "iso1ServiceDetailResType \<Rightarrow> nat" where
  "iso1ServiceDetailRes_bits v =
     (8 + (27 + (if iso1ServiceDetailRes_ServiceParameterList_isUsed v then 3 + iso1ServiceParameterList_bits
       (iso1ServiceDetailRes_ServiceParameterList v) else 2)))"

lemmas iso1ServiceDetailRes_steps = iso1ServiceDetailRes_enc_step_def
  iso1ServiceDetailRes_dec_step_def

lemmas iso1ServiceDetailRes_props = iso1ServiceDetailRes_at_def iso1ServiceDetailRes_sized_def
    same_iso1ServiceDetailRes_def left_at_def iso1ServiceDetailRes_bits_def

interpretation iso1ServiceDetailRes: paired_machines "iso1ServiceDetailRes_enc_step v" "iso1ServiceDetailRes_dec_step
    j" "iso1ServiceDetailRes_at v"
  "left_at [(170, iso1ServiceDetailRes_bits v),
      (171, 27 + (if iso1ServiceDetailRes_ServiceParameterList_isUsed v then 3 + iso1ServiceParameterList_bits
      (iso1ServiceDetailRes_ServiceParameterList v) else 2)),
      (172, if iso1ServiceDetailRes_ServiceParameterList_isUsed v then 3 + iso1ServiceParameterList_bits
      (iso1ServiceDetailRes_ServiceParameterList v) else 2), (3, 1)]" "\<lambda>a. same_iso1ServiceDetailRes v a
      \<and> iso1ServiceDetailRes_sized a" for v j
proof
  fix g a assume at: "iso1ServiceDetailRes_at v g a"
  then have "g \<in> {170, 171, 172, 3}" by (simp add: iso1ServiceDetailRes_at_def)
  then show "hops (iso1ServiceDetailRes_enc_step v) (iso1ServiceDetailRes_dec_step j) (iso1ServiceDetailRes_at v)
    (left_at [(170, iso1ServiceDetailRes_bits v),
      (171, 27 + (if iso1ServiceDetailRes_ServiceParameterList_isUsed v then 3 + iso1ServiceParameterList_bits
      (iso1ServiceDetailRes_ServiceParameterList v) else 2)),
      (172, if iso1ServiceDetailRes_ServiceParameterList_isUsed v then 3 + iso1ServiceParameterList_bits
      (iso1ServiceDetailRes_ServiceParameterList v) else 2), (3, 1)])
      (\<lambda>a. same_iso1ServiceDetailRes v a \<and> iso1ServiceDetailRes_sized a) g a" using at
    by - (elim insertE emptyE; (hypsubst, rule hops_by, simp (no_asm) add: iso1ServiceDetailRes_steps del:
      One_nat_def,
      simp (no_asm) add: iso1ServiceDetailRes_steps del: One_nat_def, simp (asm_lr) add: iso1ServiceDetailRes_props
        del: One_nat_def split del: if_split, (elim conjE)?,
      ((rule walks_ifs)+)?); (frule iso1ServiceDetailRes_ok_def [THEN iffD1], ((drule (1) known)+)?, (elim conjE)?,
        ((drule (1) known)+)?, (elim conjE)?,
      (((rule walks_shapes, simp (no_asm) del: One_nat_def, ((rule reads_intros)+)?);
      ((elim exE conjE)?,
        ((simp (no_asm_simp) add: iso1ServiceDetailRes_props; fail) |
        (simp (asm_lr) add: iso1ServiceDetailRes_props; fail) | (auto simp: iso1ServiceDetailRes_props; fail)))) |
        (erule (1) notE; fail) |
        ((elim exE conjE)?,
        ((simp (no_asm_simp) add: iso1ServiceDetailRes_props; fail) |
        (simp (asm_lr) add: iso1ServiceDetailRes_props; fail) | (auto simp: iso1ServiceDetailRes_props; fail))))))
qed

lemma reads_iso1ServiceDetailRes [reads_intros]:
  "iso1ServiceDetailRes_ok v \<Longrightarrow> iso1ServiceDetailRes_sized a \<Longrightarrow>
      reads (iso1ServiceDetailRes_bits v) (\<lambda>s. encode_iso1ServiceDetailResType s v)
      (decode_iso1ServiceDetailResType j) a (\<lambda>a. same_iso1ServiceDetailRes v a \<and>
      iso1ServiceDetailRes_sized a)"
  unfolding encode_iso1ServiceDetailResType_def decode_iso1ServiceDetailResType_def [abs_def]
  by (rule reads_start [OF iso1ServiceDetailRes.machine_reads, of _ 170, THEN reads_mono])
      (auto simp: iso1ServiceDetailRes_at_def iso1ServiceDetailRes_sized_def init_iso1ServiceDetailResType_def
      left_at_def)

interpretation iso1ServiceDetailRes_enc: advancing_machine "iso1ServiceDetailRes_enc_step v" "left_at
    [(170, 4), (171, 3), (172, 2), (3, 1)]" for v
  by unfold_locales (auto simp: iso1ServiceDetailRes_steps dest!: advance_dests split: if_splits;
      simp add: left_at_def)

interpretation iso1ServiceDetailRes_dec: advancing_machine "iso1ServiceDetailRes_dec_step j" "left_at
    [(170, 4), (171, 3), (172, 2), (3, 1)]" for j
  by unfold_locales (auto simp: iso1ServiceDetailRes_steps dest!: advance_dests elim!: decode_switch_next
      split: if_splits;
      simp add: left_at_def)

subsection \<open>\<open>iso1SelectedServiceType\<close>\<close>

record iso1SelectedServiceType =
  iso1SelectedService_ServiceID :: u16
  iso1SelectedService_ParameterSetID :: u16
  iso1SelectedService_ParameterSetID_isUsed :: bool

definition init_iso1SelectedServiceType :: "iso1SelectedServiceType \<Rightarrow> iso1SelectedServiceType" where
  "init_iso1SelectedServiceType a = a\<lparr>iso1SelectedService_ParameterSetID_isUsed := False\<rparr>"

definition iso1SelectedService_enc_step :: "iso1SelectedServiceType \<Rightarrow> unit machine" where
  "iso1SelectedService_enc_step v grammarID x s =
     (if grammarID = 341 then
        goto 342 x (encode_simple 1 0 (\<lambda>s. encodeUnsignedInteger16 s (iso1SelectedService_ServiceID v)) s)
      else if grammarID = 342 then
        if iso1SelectedService_ParameterSetID_isUsed v then
          goto 3 x (encode_simple 2 0 (\<lambda>s. encodeInteger16 s (iso1SelectedService_ParameterSetID v)) s)
        else finish 4 x (encodeNBitUnsignedInteger s 2 1)
      else if grammarID = 3 then
        finish 4 x (encodeNBitUnsignedInteger s 1 0)
      else Some (EXI_ERROR_UNKOWN_GRAMMAR_ID, (False, grammarID, x), s))"

definition encode_iso1SelectedServiceType :: "bitstream \<Rightarrow> iso1SelectedServiceType \<Rightarrow>
    (errn \<times> bitstream) option" where
  "encode_iso1SelectedServiceType s v = run_encoder (iso1SelectedService_enc_step v) 341 () s"

definition iso1SelectedService_dec_step :: "u32 \<Rightarrow> (dec_static \<times> iso1SelectedServiceType) machine"
    where
  "iso1SelectedService_dec_step j grammarID x s =
     (if grammarID = 341 then
        decode_switch 1
         [(0, decode_simple 341 342
           (decode_u16_field j (\<lambda>u a. a\<lparr>iso1SelectedService_ServiceID := u\<rparr>)))] 341 x s
      else if grammarID = 342 then
        decode_switch 2
         [(0, decode_simple 342 3
           (decode_used (\<lambda>a. a\<lparr>iso1SelectedService_ParameterSetID_isUsed := True\<rparr>)
           (decode_i16_field j iso1SelectedService_ParameterSetID
           (\<lambda>u a. a\<lparr>iso1SelectedService_ParameterSetID := u\<rparr>)))),
          (1, decode_end 4)] 342 x s
      else if grammarID = 3 then
        decode_switch 1
         [(0, decode_end 4)] 3 x s
      else Some (EXI_ERROR_UNKOWN_GRAMMAR_ID, (False, grammarID, x), s))"

definition decode_iso1SelectedServiceType :: "u32 \<Rightarrow> iso1SelectedServiceType decoder" where
  "decode_iso1SelectedServiceType j x s = grammar_loop (iso1SelectedService_dec_step j) 341
      (fst x, init_iso1SelectedServiceType (snd x)) s"

definition same_iso1SelectedService :: "iso1SelectedServiceType \<Rightarrow> iso1SelectedServiceType \<Rightarrow>
    bool" where
  "same_iso1SelectedService v a \<longleftrightarrow>
     iso1SelectedService_ServiceID a = iso1SelectedService_ServiceID v \<and>
     kept (iso1SelectedService_ParameterSetID_isUsed v) (iso1SelectedService_ParameterSetID_isUsed a)
       (iso1SelectedService_ParameterSetID a = iso1SelectedService_ParameterSetID v)"

definition iso1SelectedService_at :: "iso1SelectedServiceType \<Rightarrow> nat \<Rightarrow> iso1SelectedServiceType
    \<Rightarrow> bool" where
  "iso1SelectedService_at v g a \<longleftrightarrow>
     g \<in> {341, 342, 3} \<and>
     (g \<notin> {341} \<longrightarrow> iso1SelectedService_ServiceID a = iso1SelectedService_ServiceID v) \<and>
     (if g \<in> {341, 342} then \<not> iso1SelectedService_ParameterSetID_isUsed a
      else kept (iso1SelectedService_ParameterSetID_isUsed v) (iso1SelectedService_ParameterSetID_isUsed a)
        (iso1SelectedService_ParameterSetID a = iso1SelectedService_ParameterSetID v))"

lemmas iso1SelectedService_steps = iso1SelectedService_enc_step_def
  iso1SelectedService_dec_step_def

lemmas iso1SelectedService_props = iso1SelectedService_at_def same_iso1SelectedService_def left_at_def

interpretation iso1SelectedService: paired_machines "iso1SelectedService_enc_step v" "iso1SelectedService_dec_step j"
    "iso1SelectedService_at v"
  "left_at [(341, 57), (342, 30), (3, 1)]" "same_iso1SelectedService v" for v j
proof
  fix g a assume at: "iso1SelectedService_at v g a"
  then have "g \<in> {341, 342, 3}" by (simp add: iso1SelectedService_at_def)
  then show "hops (iso1SelectedService_enc_step v) (iso1SelectedService_dec_step j) (iso1SelectedService_at v)
    (left_at [(341, 57), (342, 30), (3, 1)]) (same_iso1SelectedService v) g a" using at
    by - (elim insertE emptyE; (hypsubst, rule hops_by, simp (no_asm) add: iso1SelectedService_steps del: One_nat_def,
      simp (no_asm) add: iso1SelectedService_steps del: One_nat_def, simp (asm_lr) add: iso1SelectedService_props del:
        One_nat_def, (elim conjE)?,
      ((rule walks_ifs)+)?); (((drule (1) known)+)?, (elim conjE)?, ((drule (1) known)+)?, (elim conjE)?,
      (((rule walks_shapes, simp (no_asm) del: One_nat_def, ((rule reads_intros)+)?);
      ((elim exE conjE)?,
        ((simp (no_asm_simp) add: iso1SelectedService_props; fail) |
        (simp (asm_lr) add: iso1SelectedService_props; fail) | (auto simp: iso1SelectedService_props; fail)))) |
        (erule (1) notE; fail) |
        ((elim exE conjE)?,
        ((simp (no_asm_simp) add: iso1SelectedService_props; fail) |
        (simp (asm_lr) add: iso1SelectedService_props; fail) | (auto simp: iso1SelectedService_props; fail))))))
qed

lemma reads_iso1SelectedService [reads_intros]:
  "reads 57 (\<lambda>s. encode_iso1SelectedServiceType s v) (decode_iso1SelectedServiceType j) a
      (same_iso1SelectedService v)"
  unfolding encode_iso1SelectedServiceType_def decode_iso1SelectedServiceType_def [abs_def]
  by (rule reads_start [OF iso1SelectedService.machine_reads, of _ 341, THEN reads_mono])
      (auto simp: iso1SelectedService_at_def  init_iso1SelectedServiceType_def left_at_def)

interpretation iso1SelectedService_enc: advancing_machine "iso1SelectedService_enc_step v" "left_at
    [(341, 3), (342, 2), (3, 1)]" for v
  by unfold_locales (auto simp: iso1SelectedService_steps dest!: advance_dests split: if_splits;
      simp add: left_at_def)

interpretation iso1SelectedService_dec: advancing_machine "iso1SelectedService_dec_step j" "left_at
    [(341, 3), (342, 2), (3, 1)]" for j
  by unfold_locales (auto simp: iso1SelectedService_steps dest!: advance_dests elim!: decode_switch_next
      split: if_splits;
      simp add: left_at_def)

subsection \<open>\<open>iso1SelectedServiceListType\<close>\<close>

record iso1SelectedServiceListType =
  iso1SelectedServiceList_SelectedService_array :: "iso1SelectedServiceType list"
  iso1SelectedServiceList_SelectedService_arrayLen :: u16

definition init_iso1SelectedServiceListType :: "iso1SelectedServiceListType \<Rightarrow> iso1SelectedServiceListType"
    where
  "init_iso1SelectedServiceListType a = a\<lparr>iso1SelectedServiceList_SelectedService_arrayLen := 0\<rparr>"

record iso1SelectedServiceList_locals =
  iso1SelectedServiceList_SelectedService_currArrayIndex :: nat

definition iso1SelectedServiceList_enc_step_3 :: "iso1SelectedServiceListType \<Rightarrow>
    iso1SelectedServiceList_locals machine" where
  "iso1SelectedServiceList_enc_step_3 v grammarID x s =
     (if grammarID = 3 then
        finish 4 x (encodeNBitUnsignedInteger s 1 0)
      else Some (EXI_ERROR_UNKOWN_GRAMMAR_ID, (False, grammarID, x), s))"

definition iso1SelectedServiceList_enc_step_2 :: "iso1SelectedServiceListType \<Rightarrow>
    iso1SelectedServiceList_locals machine" where
  "iso1SelectedServiceList_enc_step_2 v grammarID x s =
     (if grammarID = 184 then
        if iso1SelectedServiceList_SelectedService_currArrayIndex x < unat
          (iso1SelectedServiceList_SelectedService_arrayLen v) then
          encode_array_child 2 0 185 encode_iso1SelectedServiceType (iso1SelectedServiceList_SelectedService_array v)
          iso1SelectedServiceList_SelectedService_currArrayIndex
          iso1SelectedServiceList_SelectedService_currArrayIndex_update x s
        else finish 4 x (encodeNBitUnsignedInteger s 2 1)
      else if grammarID = 185 then
        if iso1SelectedServiceList_SelectedService_currArrayIndex x < unat
          (iso1SelectedServiceList_SelectedService_arrayLen v) then
          encode_array_child 2 0 186 encode_iso1SelectedServiceType (iso1SelectedServiceList_SelectedService_array v)
          iso1SelectedServiceList_SelectedService_currArrayIndex
          iso1SelectedServiceList_SelectedService_currArrayIndex_update x s
        else finish 4 x (encodeNBitUnsignedInteger s 2 1)
      else if grammarID = 186 then
        if iso1SelectedServiceList_SelectedService_currArrayIndex x < unat
          (iso1SelectedServiceList_SelectedService_arrayLen v) then
          encode_array_child 2 0 187 encode_iso1SelectedServiceType (iso1SelectedServiceList_SelectedService_array v)
          iso1SelectedServiceList_SelectedService_currArrayIndex
          iso1SelectedServiceList_SelectedService_currArrayIndex_update x s
        else finish 4 x (encodeNBitUnsignedInteger s 2 1)
      else if grammarID = 187 then
        if iso1SelectedServiceList_SelectedService_currArrayIndex x < unat
          (iso1SelectedServiceList_SelectedService_arrayLen v) then
          encode_array_child 2 0 188 encode_iso1SelectedServiceType (iso1SelectedServiceList_SelectedService_array v)
          iso1SelectedServiceList_SelectedService_currArrayIndex
          iso1SelectedServiceList_SelectedService_currArrayIndex_update x s
        else finish 4 x (encodeNBitUnsignedInteger s 2 1)
      else if grammarID = 188 then
        if iso1SelectedServiceList_SelectedService_currArrayIndex x < unat
          (iso1SelectedServiceList_SelectedService_arrayLen v) then
          encode_array_child 2 0 189 encode_iso1SelectedServiceType (iso1SelectedServiceList_SelectedService_array v)
          iso1SelectedServiceList_SelectedService_currArrayIndex
          iso1SelectedServiceList_SelectedService_currArrayIndex_update x s
        else finish 4 x (encodeNBitUnsignedInteger s 2 1)
      else if grammarID = 189 then
        if iso1SelectedServiceList_SelectedService_currArrayIndex x < unat
          (iso1SelectedServiceList_SelectedService_arrayLen v) then
          encode_array_child 2 0 190 encode_iso1SelectedServiceType (iso1SelectedServiceList_SelectedService_array v)
          iso1SelectedServiceList_SelectedService_currArrayIndex
          iso1SelectedServiceList_SelectedService_currArrayIndex_update x s
        else finish 4 x (encodeNBitUnsignedInteger s 2 1)
      else if grammarID = 190 then
        if iso1SelectedServiceList_SelectedService_currArrayIndex x < unat
          (iso1SelectedServiceList_SelectedService_arrayLen v) then
          encode_array_child 2 0 191 encode_iso1SelectedServiceType (iso1SelectedServiceList_SelectedService_array v)
          iso1SelectedServiceList_SelectedService_currArrayIndex
          iso1SelectedServiceList_SelectedService_currArrayIndex_update x s
        else finish 4 x (encodeNBitUnsignedInteger s 2 1)
      else if grammarID = 191 then
        if iso1SelectedServiceList_SelectedService_currArrayIndex x < unat
          (iso1SelectedServiceList_SelectedService_arrayLen v) then
          encode_array_child 2 0 3 encode_iso1SelectedServiceType (iso1SelectedServiceList_SelectedService_array v)
          iso1SelectedServiceList_SelectedService_currArrayIndex
          iso1SelectedServiceList_SelectedService_currArrayIndex_update x s
        else finish 4 x (encodeNBitUnsignedInteger s 2 1)
      else iso1SelectedServiceList_enc_step_3 v grammarID x s)"

definition iso1SelectedServiceList_enc_step :: "iso1SelectedServiceListType \<Rightarrow>
    iso1SelectedServiceList_locals machine" where
  "iso1SelectedServiceList_enc_step v grammarID x s =
     (if grammarID = 176 then
        if iso1SelectedServiceList_SelectedService_currArrayIndex x < unat
          (iso1SelectedServiceList_SelectedService_arrayLen v) then
          encode_array_child 1 0 177 encode_iso1SelectedServiceType (iso1SelectedServiceList_SelectedService_array v)
          iso1SelectedServiceList_SelectedService_currArrayIndex
          iso1SelectedServiceList_SelectedService_currArrayIndex_update x s
        else Some (EXI_ERROR_UNKOWN_EVENT, (False, grammarID, x), s)
      else if grammarID = 177 then
        if iso1SelectedServiceList_SelectedService_currArrayIndex x < unat
          (iso1SelectedServiceList_SelectedService_arrayLen v) then
          encode_array_child 2 0 178 encode_iso1SelectedServiceType (iso1SelectedServiceList_SelectedService_array v)
          iso1SelectedServiceList_SelectedService_currArrayIndex
          iso1SelectedServiceList_SelectedService_currArrayIndex_update x s
        else finish 4 x (encodeNBitUnsignedInteger s 2 1)
      else if grammarID = 178 then
        if iso1SelectedServiceList_SelectedService_currArrayIndex x < unat
          (iso1SelectedServiceList_SelectedService_arrayLen v) then
          encode_array_child 2 0 179 encode_iso1SelectedServiceType (iso1SelectedServiceList_SelectedService_array v)
          iso1SelectedServiceList_SelectedService_currArrayIndex
          iso1SelectedServiceList_SelectedService_currArrayIndex_update x s
        else finish 4 x (encodeNBitUnsignedInteger s 2 1)
      else if grammarID = 179 then
        if iso1SelectedServiceList_SelectedService_currArrayIndex x < unat
          (iso1SelectedServiceList_SelectedService_arrayLen v) then
          encode_array_child 2 0 180 encode_iso1SelectedServiceType (iso1SelectedServiceList_SelectedService_array v)
          iso1SelectedServiceList_SelectedService_currArrayIndex
          iso1SelectedServiceList_SelectedService_currArrayIndex_update x s
        else finish 4 x (encodeNBitUnsignedInteger s 2 1)
      else if grammarID = 180 then
        if iso1SelectedServiceList_SelectedService_currArrayIndex x < unat
          (iso1SelectedServiceList_SelectedService_arrayLen v) then
          encode_array_child 2 0 181 encode_iso1SelectedServiceType (iso1SelectedServiceList_SelectedService_array v)
          iso1SelectedServiceList_SelectedService_currArrayIndex
          iso1SelectedServiceList_SelectedService_currArrayIndex_update x s
        else finish 4 x (encodeNBitUnsignedInteger s 2 1)
      else if grammarID = 181 then
        if iso1SelectedServiceList_SelectedService_currArrayIndex x < unat
          (iso1SelectedServiceList_SelectedService_arrayLen v) then
          encode_array_child 2 0 182 encode_iso1SelectedServiceType (iso1SelectedServiceList_SelectedService_array v)
          iso1SelectedServiceList_SelectedService_currArrayIndex
          iso1SelectedServiceList_SelectedService_currArrayIndex_update x s
        else finish 4 x (encodeNBitUnsignedInteger s 2 1)
      else if grammarID = 182 then
        if iso1SelectedServiceList_SelectedService_currArrayIndex x < unat
          (iso1SelectedServiceList_SelectedService_arrayLen v) then
          encode_array_child 2 0 183 encode_iso1SelectedServiceType (iso1SelectedServiceList_SelectedService_array v)
          iso1SelectedServiceList_SelectedService_currArrayIndex
          iso1SelectedServiceList_SelectedService_currArrayIndex_update x s
        else finish 4 x (encodeNBitUnsignedInteger s 2 1)
      else if grammarID = 183 then
        if iso1SelectedServiceList_SelectedService_currArrayIndex x < unat
          (iso1SelectedServiceList_SelectedService_arrayLen v) then
          encode_array_child 2 0 184 encode_iso1SelectedServiceType (iso1SelectedServiceList_SelectedService_array v)
          iso1SelectedServiceList_SelectedService_currArrayIndex
          iso1SelectedServiceList_SelectedService_currArrayIndex_update x s
        else finish 4 x (encodeNBitUnsignedInteger s 2 1)
      else iso1SelectedServiceList_enc_step_2 v grammarID x s)"

definition encode_iso1SelectedServiceListType :: "bitstream \<Rightarrow> iso1SelectedServiceListType \<Rightarrow>
    (errn \<times> bitstream) option" where
  "encode_iso1SelectedServiceListType s v = run_encoder (iso1SelectedServiceList_enc_step v) 176
      \<lparr>iso1SelectedServiceList_SelectedService_currArrayIndex = 0\<rparr> s"

abbreviation (input) decode_next_iso1SelectedServiceList_SelectedService :: "u32 \<Rightarrow>
    iso1SelectedServiceListType decoder" where
  "decode_next_iso1SelectedServiceList_SelectedService j \<equiv> decode_element (decode_iso1SelectedServiceType j)
      iso1SelectedServiceList_SelectedService_array iso1SelectedServiceList_SelectedService_arrayLen
      (\<lambda>xs n a. a\<lparr>iso1SelectedServiceList_SelectedService_array := xs,
      iso1SelectedServiceList_SelectedService_arrayLen := n\<rparr>)"

definition iso1SelectedServiceList_dec_step_3 :: "u32 \<Rightarrow> (dec_static \<times> iso1SelectedServiceListType)
    machine" where
  "iso1SelectedServiceList_dec_step_3 j grammarID x s =
     (if grammarID = 188 then
        decode_switch 2
         [(0, decode_array_child 189 16 iso1SelectedServiceList_SelectedService_arrayLen
           (decode_next_iso1SelectedServiceList_SelectedService j)),
          (1, decode_end 4)] 188 x s
      else if grammarID = 189 then
        decode_switch 2
         [(0, decode_array_child 190 16 iso1SelectedServiceList_SelectedService_arrayLen
           (decode_next_iso1SelectedServiceList_SelectedService j)),
          (1, decode_end 4)] 189 x s
      else if grammarID = 190 then
        decode_switch 2
         [(0, decode_array_child 191 16 iso1SelectedServiceList_SelectedService_arrayLen
           (decode_next_iso1SelectedServiceList_SelectedService j)),
          (1, decode_end 4)] 190 x s
      else if grammarID = 191 then
        decode_switch 2
         [(0, decode_array_child 3 16 iso1SelectedServiceList_SelectedService_arrayLen
           (decode_next_iso1SelectedServiceList_SelectedService j)),
          (1, decode_end 4)] 191 x s
      else if grammarID = 3 then
        decode_switch 1
         [(0, decode_end 4)] 3 x s
      else Some (EXI_ERROR_UNKOWN_GRAMMAR_ID, (False, grammarID, x), s))"

definition iso1SelectedServiceList_dec_step_2 :: "u32 \<Rightarrow> (dec_static \<times> iso1SelectedServiceListType)
    machine" where
  "iso1SelectedServiceList_dec_step_2 j grammarID x s =
     (if grammarID = 182 then
        decode_switch 2
         [(0, decode_array_child 183 16 iso1SelectedServiceList_SelectedService_arrayLen
           (decode_next_iso1SelectedServiceList_SelectedService j)),
          (1, decode_end 4)] 182 x s
      else if grammarID = 183 then
        decode_switch 2
         [(0, decode_array_child 184 16 iso1SelectedServiceList_SelectedService_arrayLen
           (decode_next_iso1SelectedServiceList_SelectedService j)),
          (1, decode_end 4)] 183 x s
      else if grammarID = 184 then
        decode_switch 2
         [(0, decode_array_child 185 16 iso1SelectedServiceList_SelectedService_arrayLen
           (decode_next_iso1SelectedServiceList_SelectedService j)),
          (1, decode_end 4)] 184 x s
      else if grammarID = 185 then
        decode_switch 2
         [(0, decode_array_child 186 16 iso1SelectedServiceList_SelectedService_arrayLen
           (decode_next_iso1SelectedServiceList_SelectedService j)),
          (1, decode_end 4)] 185 x s
      else if grammarID = 186 then
        decode_switch 2
         [(0, decode_array_child 187 16 iso1SelectedServiceList_SelectedService_arrayLen
           (decode_next_iso1SelectedServiceList_SelectedService j)),
          (1, decode_end 4)] 186 x s
      else if grammarID = 187 then
        decode_switch 2
         [(0, decode_array_child 188 16 iso1SelectedServiceList_SelectedService_arrayLen
           (decode_next_iso1SelectedServiceList_SelectedService j)),
          (1, decode_end 4)] 187 x s
      else iso1SelectedServiceList_dec_step_3 j grammarID x s)"

definition iso1SelectedServiceList_dec_step :: "u32 \<Rightarrow> (dec_static \<times> iso1SelectedServiceListType)
    machine" where
  "iso1SelectedServiceList_dec_step j grammarID x s =
     (if grammarID = 176 then
        decode_switch 1
         [(0, decode_array_child 177 16 iso1SelectedServiceList_SelectedService_arrayLen
           (decode_next_iso1SelectedServiceList_SelectedService j))] 176 x s
      else if grammarID = 177 then
        decode_switch 2
         [(0, decode_array_child 178 16 iso1SelectedServiceList_SelectedService_arrayLen
           (decode_next_iso1SelectedServiceList_SelectedService j)),
          (1, decode_end 4)] 177 x s
      else if grammarID = 178 then
        decode_switch 2
         [(0, decode_array_child 179 16 iso1SelectedServiceList_SelectedService_arrayLen
           (decode_next_iso1SelectedServiceList_SelectedService j)),
          (1, decode_end 4)] 178 x s
      else if grammarID = 179 then
        decode_switch 2
         [(0, decode_array_child 180 16 iso1SelectedServiceList_SelectedService_arrayLen
           (decode_next_iso1SelectedServiceList_SelectedService j)),
          (1, decode_end 4)] 179 x s
      else if grammarID = 180 then
        decode_switch 2
         [(0, decode_array_child 181 16 iso1SelectedServiceList_SelectedService_arrayLen
           (decode_next_iso1SelectedServiceList_SelectedService j)),
          (1, decode_end 4)] 180 x s
      else if grammarID = 181 then
        decode_switch 2
         [(0, decode_array_child 182 16 iso1SelectedServiceList_SelectedService_arrayLen
           (decode_next_iso1SelectedServiceList_SelectedService j)),
          (1, decode_end 4)] 181 x s
      else iso1SelectedServiceList_dec_step_2 j grammarID x s)"

definition decode_iso1SelectedServiceListType :: "u32 \<Rightarrow> iso1SelectedServiceListType decoder" where
  "decode_iso1SelectedServiceListType j x s = grammar_loop (iso1SelectedServiceList_dec_step j) 176
      (fst x, init_iso1SelectedServiceListType (snd x)) s"

definition iso1SelectedServiceList_ok :: "iso1SelectedServiceListType \<Rightarrow> bool" where
  "iso1SelectedServiceList_ok v \<longleftrightarrow>
     length (iso1SelectedServiceList_SelectedService_array v) = 16 \<and>
       unat (iso1SelectedServiceList_SelectedService_arrayLen v) \<le> 16 \<and>
     unat (iso1SelectedServiceList_SelectedService_arrayLen v) \<noteq> 0"

definition iso1SelectedServiceList_sized :: "iso1SelectedServiceListType \<Rightarrow> bool" where
  "iso1SelectedServiceList_sized a \<longleftrightarrow>
     length (iso1SelectedServiceList_SelectedService_array a) = 16"

definition same_iso1SelectedServiceList :: "iso1SelectedServiceListType \<Rightarrow> iso1SelectedServiceListType
    \<Rightarrow> bool" where
  "same_iso1SelectedServiceList v a \<longleftrightarrow>
     iso1SelectedServiceList_SelectedService_arrayLen a = iso1SelectedServiceList_SelectedService_arrayLen v \<and>
       copied same_iso1SelectedService (unat (iso1SelectedServiceList_SelectedService_arrayLen v))
       (iso1SelectedServiceList_SelectedService_array v) (iso1SelectedServiceList_SelectedService_array a)"

definition iso1SelectedServiceList_at :: "iso1SelectedServiceListType \<Rightarrow> nat \<Rightarrow>
    iso1SelectedServiceList_locals \<Rightarrow> iso1SelectedServiceListType \<Rightarrow> bool" where
  "iso1SelectedServiceList_at v g x a \<longleftrightarrow>
     counts [(176, 0), (177, 1), (178, 2), (179, 3), (180, 4), (181, 5), (182, 6), (183, 7), (184, 8), (185, 9),
       (186, 10), (187, 11), (188, 12), (189, 13), (190, 14), (191, 15)] g
       (iso1SelectedServiceList_SelectedService_currArrayIndex x) \<and>
     iso1SelectedServiceList_ok v \<and>
     g \<in> {176, 177, 178, 179, 180, 181, 182, 183, 184, 185, 186, 187, 188, 189, 190, 191, 3} \<and>
     iso1SelectedServiceList_sized a \<and>
     unat (iso1SelectedServiceList_SelectedService_arrayLen
       a) = iso1SelectedServiceList_SelectedService_currArrayIndex x \<and>
       iso1SelectedServiceList_SelectedService_currArrayIndex x \<le> unat
       (iso1SelectedServiceList_SelectedService_arrayLen v) \<and>
     copied same_iso1SelectedService (iso1SelectedServiceList_SelectedService_currArrayIndex x)
       (iso1SelectedServiceList_SelectedService_array v) (iso1SelectedServiceList_SelectedService_array a) \<and>
     (g = 3 \<longrightarrow> iso1SelectedServiceList_SelectedService_currArrayIndex x = unat
       (iso1SelectedServiceList_SelectedService_arrayLen v))"

definition iso1SelectedServiceList_rank :: "iso1SelectedServiceListType \<Rightarrow> nat \<Rightarrow>
    iso1SelectedServiceList_locals \<Rightarrow> nat" where
  "iso1SelectedServiceList_rank v g x = left_at [(176, 2), (177, 2), (178, 2), (179, 2), (180, 2), (181, 2), (182, 2),
      (183, 2), (184, 2), (185, 2), (186, 2), (187, 2), (188, 2), (189, 2), (190, 2), (191, 2), (3, 1)] g + due 59
      (iso1SelectedServiceList_SelectedService_arrayLen v) (iso1SelectedServiceList_SelectedService_currArrayIndex x)"

lemmas iso1SelectedServiceList_steps = iso1SelectedServiceList_enc_step_def iso1SelectedServiceList_enc_step_2_def
    iso1SelectedServiceList_enc_step_3_def
  iso1SelectedServiceList_dec_step_def iso1SelectedServiceList_dec_step_2_def iso1SelectedServiceList_dec_step_3_def

lemmas iso1SelectedServiceList_props = iso1SelectedServiceList_at_def iso1SelectedServiceList_sized_def
    same_iso1SelectedServiceList_def iso1SelectedServiceList_rank_def left_at_def

lemma iso1SelectedServiceList_steps_1:
  "iso1SelectedServiceList_at v g x a \<Longrightarrow> g \<in> {176, 177, 178, 179, 180, 181} \<Longrightarrow>
   walks (iso1SelectedServiceList_enc_step v) (iso1SelectedServiceList_dec_step j) (iso1SelectedServiceList_at v)
       (iso1SelectedServiceList_rank v)
    (\<lambda>a. same_iso1SelectedServiceList v a \<and> iso1SelectedServiceList_sized a) g x a"
  by (elim insertE emptyE; (hypsubst, rule walks_by, simp (no_asm) add: iso1SelectedServiceList_steps del:
      One_nat_def,
      simp (no_asm) add: iso1SelectedServiceList_steps del: One_nat_def,
        simp (asm_lr) add: iso1SelectedServiceList_props del: One_nat_def, (elim conjE)?,
      ((rule walks_ifs)+)?); (frule iso1SelectedServiceList_ok_def [THEN iffD1], ((drule (1) known)+)?, (elim conjE)?,
        ((drule (1) known)+)?, (elim conjE)?,
      (((rule walks_shapes, simp (no_asm) del: One_nat_def, ((rule reads_intros)+)?);
      ((elim exE conjE)?,
        ((simp (no_asm_simp) add: iso1SelectedServiceList_props counts_def array_intros; fail) |
        (simp (asm_lr) add: iso1SelectedServiceList_props counts_def array_intros; fail) |
        (auto simp: iso1SelectedServiceList_props counts_def array_intros; fail)))) | (erule (1) notE; fail) |
        ((elim exE conjE)?,
        ((simp (no_asm_simp) add: iso1SelectedServiceList_props counts_def array_intros; fail) |
        (simp (asm_lr) add: iso1SelectedServiceList_props counts_def array_intros; fail) |
        (auto simp: iso1SelectedServiceList_props counts_def array_intros; fail))))))

lemma iso1SelectedServiceList_steps_2:
  "iso1SelectedServiceList_at v g x a \<Longrightarrow> g \<in> {182, 183, 184, 185, 186, 187} \<Longrightarrow>
   walks (iso1SelectedServiceList_enc_step v) (iso1SelectedServiceList_dec_step j) (iso1SelectedServiceList_at v)
       (iso1SelectedServiceList_rank v)
    (\<lambda>a. same_iso1SelectedServiceList v a \<and> iso1SelectedServiceList_sized a) g x a"
  by (elim insertE emptyE; (hypsubst, rule walks_by, simp (no_asm) add: iso1SelectedServiceList_steps del:
      One_nat_def,
      simp (no_asm) add: iso1SelectedServiceList_steps del: One_nat_def,
        simp (asm_lr) add: iso1SelectedServiceList_props del: One_nat_def, (elim conjE)?,
      ((rule walks_ifs)+)?); (frule iso1SelectedServiceList_ok_def [THEN iffD1], ((drule (1) known)+)?, (elim conjE)?,
        ((drule (1) known)+)?, (elim conjE)?,
      (((rule walks_shapes, simp (no_asm) del: One_nat_def, ((rule reads_intros)+)?);
      ((elim exE conjE)?,
        ((simp (no_asm_simp) add: iso1SelectedServiceList_props counts_def array_intros; fail) |
        (simp (asm_lr) add: iso1SelectedServiceList_props counts_def array_intros; fail) |
        (auto simp: iso1SelectedServiceList_props counts_def array_intros; fail)))) | (erule (1) notE; fail) |
        ((elim exE conjE)?,
        ((simp (no_asm_simp) add: iso1SelectedServiceList_props counts_def array_intros; fail) |
        (simp (asm_lr) add: iso1SelectedServiceList_props counts_def array_intros; fail) |
        (auto simp: iso1SelectedServiceList_props counts_def array_intros; fail))))))

lemma iso1SelectedServiceList_steps_3:
  "iso1SelectedServiceList_at v g x a \<Longrightarrow> g \<in> {188, 189, 190, 191, 3} \<Longrightarrow>
   walks (iso1SelectedServiceList_enc_step v) (iso1SelectedServiceList_dec_step j) (iso1SelectedServiceList_at v)
       (iso1SelectedServiceList_rank v)
    (\<lambda>a. same_iso1SelectedServiceList v a \<and> iso1SelectedServiceList_sized a) g x a"
  by (elim insertE emptyE; (hypsubst, rule walks_by, simp (no_asm) add: iso1SelectedServiceList_steps del:
      One_nat_def,
      simp (no_asm) add: iso1SelectedServiceList_steps del: One_nat_def,
        simp (asm_lr) add: iso1SelectedServiceList_props del: One_nat_def, (elim conjE)?,
      ((rule walks_ifs)+)?); (frule iso1SelectedServiceList_ok_def [THEN iffD1], ((drule (1) known)+)?, (elim conjE)?,
        ((drule (1) known)+)?, (elim conjE)?,
      (((rule walks_shapes, simp (no_asm) del: One_nat_def, ((rule reads_intros)+)?);
      ((elim exE conjE)?,
        ((simp (no_asm_simp) add: iso1SelectedServiceList_props counts_def array_intros; fail) |
        (simp (asm_lr) add: iso1SelectedServiceList_props counts_def array_intros; fail) |
        (auto simp: iso1SelectedServiceList_props counts_def array_intros; fail)))) | (erule (1) notE; fail) |
        ((elim exE conjE)?,
        ((simp (no_asm_simp) add: iso1SelectedServiceList_props counts_def array_intros; fail) |
        (simp (asm_lr) add: iso1SelectedServiceList_props counts_def array_intros; fail) |
        (auto simp: iso1SelectedServiceList_props counts_def array_intros; fail))))))

interpretation iso1SelectedServiceList: walking_pair "iso1SelectedServiceList_enc_step v"
    "iso1SelectedServiceList_dec_step j" "iso1SelectedServiceList_at v" "iso1SelectedServiceList_rank v"
  "\<lambda>a. same_iso1SelectedServiceList v a \<and> iso1SelectedServiceList_sized a" for v j
proof
  fix g x a assume at: "iso1SelectedServiceList_at v g x a"
  then have "g \<in> {176, 177, 178, 179, 180, 181} \<or> g \<in> {182, 183, 184, 185, 186, 187} \<or> g \<in> {188,
      189, 190, 191, 3}" by (auto simp: iso1SelectedServiceList_at_def)
  then show "walks (iso1SelectedServiceList_enc_step v) (iso1SelectedServiceList_dec_step j)
      (iso1SelectedServiceList_at v) (iso1SelectedServiceList_rank v)
    (\<lambda>a. same_iso1SelectedServiceList v a \<and> iso1SelectedServiceList_sized a) g x a"
    by (elim disjE) (erule iso1SelectedServiceList_steps_1 [OF at] | erule iso1SelectedServiceList_steps_2 [OF at] |
      erule iso1SelectedServiceList_steps_3 [OF at])+
qed

lemma reads_iso1SelectedServiceList [reads_intros]:
  "iso1SelectedServiceList_ok v \<Longrightarrow> iso1SelectedServiceList_sized a \<Longrightarrow>
      reads 946 (\<lambda>s. encode_iso1SelectedServiceListType s v) (decode_iso1SelectedServiceListType j) a
      (\<lambda>a. same_iso1SelectedServiceList v a \<and> iso1SelectedServiceList_sized a)"
  unfolding encode_iso1SelectedServiceListType_def decode_iso1SelectedServiceListType_def [abs_def]
  by (rule reads_start [OF iso1SelectedServiceList.walk_reads, THEN reads_mono])
      (auto simp: iso1SelectedServiceList_props iso1SelectedServiceList_ok_def counts_def due_def
      init_iso1SelectedServiceListType_def)

interpretation iso1SelectedServiceList_enc: advancing_machine "iso1SelectedServiceList_enc_step v" "left_at
    [(176, 17), (177, 16), (178, 15), (179, 14), (180, 13), (181, 12), (182, 11), (183, 10), (184, 9), (185, 8),
    (186, 7), (187, 6), (188, 5), (189, 4), (190, 3), (191, 2), (3, 1)]" for v
  by unfold_locales (auto simp: iso1SelectedServiceList_steps dest!: array_advance_dests split: if_splits;
      simp add: left_at_def)

interpretation iso1SelectedServiceList_dec: advancing_machine "iso1SelectedServiceList_dec_step j" "left_at
    [(176, 17), (177, 16), (178, 15), (179, 14), (180, 13), (181, 12), (182, 11), (183, 10), (184, 9), (185, 8),
    (186, 7), (187, 6), (188, 5), (189, 4), (190, 3), (191, 2), (3, 1)]" for j
  by unfold_locales (auto simp: iso1SelectedServiceList_steps dest!: array_advance_dests elim!:
      decode_switch_next split: if_splits;
      simp add: left_at_def)

subsection \<open>\<open>iso1PaymentServiceSelectionReqType\<close>\<close>

record iso1PaymentServiceSelectionReqType =
  iso1PaymentServiceSelectionReq_SelectedPaymentOption :: u32
  iso1PaymentServiceSelectionReq_SelectedServiceList :: iso1SelectedServiceListType

definition init_iso1PaymentServiceSelectionReqType :: "iso1PaymentServiceSelectionReqType \<Rightarrow>
    iso1PaymentServiceSelectionReqType" where
  "init_iso1PaymentServiceSelectionReqType a = a"

definition iso1PaymentServiceSelectionReq_enc_step :: "iso1PaymentServiceSelectionReqType \<Rightarrow> unit machine"
    where
  "iso1PaymentServiceSelectionReq_enc_step v grammarID x s =
     (if grammarID = 352 then
        goto 353 x
          (encode_simple 1 0
          (\<lambda>s. encodeNBitUnsignedInteger s 1 (iso1PaymentServiceSelectionReq_SelectedPaymentOption v)) s)
      else if grammarID = 353 then
        goto 3 x (encode_child 1 0
          (\<lambda>s. encode_iso1SelectedServiceListType s (iso1PaymentServiceSelectionReq_SelectedServiceList v)) s)
      else if grammarID = 3 then
        finish 4 x (encodeNBitUnsignedInteger s 1 0)
      else Some (EXI_ERROR_UNKOWN_GRAMMAR_ID, (False, grammarID, x), s))"

definition encode_iso1PaymentServiceSelectionReqType :: "bitstream \<Rightarrow> iso1PaymentServiceSelectionReqType
    \<Rightarrow> (errn \<times> bitstream) option" where
  "encode_iso1PaymentServiceSelectionReqType s v = run_encoder (iso1PaymentServiceSelectionReq_enc_step v) 352 () s"

definition iso1PaymentServiceSelectionReq_dec_step :: "u32 \<Rightarrow>
    (dec_static \<times> iso1PaymentServiceSelectionReqType) machine" where
  "iso1PaymentServiceSelectionReq_dec_step j grammarID x s =
     (if grammarID = 352 then
        decode_switch 1
         [(0, decode_simple 352 353
           (decode_nbit_field 1
           (\<lambda>u a. a\<lparr>iso1PaymentServiceSelectionReq_SelectedPaymentOption := u\<rparr>)))] 352 x s
      else if grammarID = 353 then
        decode_switch 1
         [(0, decode_child 3
           (decode_sub (decode_iso1SelectedServiceListType j) iso1PaymentServiceSelectionReq_SelectedServiceList
           (\<lambda>u a. a\<lparr>iso1PaymentServiceSelectionReq_SelectedServiceList := u\<rparr>)))] 353 x s
      else if grammarID = 3 then
        decode_switch 1
         [(0, decode_end 4)] 3 x s
      else Some (EXI_ERROR_UNKOWN_GRAMMAR_ID, (False, grammarID, x), s))"

definition decode_iso1PaymentServiceSelectionReqType :: "u32 \<Rightarrow> iso1PaymentServiceSelectionReqType decoder"
    where
  "decode_iso1PaymentServiceSelectionReqType j x s = grammar_loop (iso1PaymentServiceSelectionReq_dec_step j) 352
      (fst x, init_iso1PaymentServiceSelectionReqType (snd x)) s"

definition iso1PaymentServiceSelectionReq_ok :: "iso1PaymentServiceSelectionReqType \<Rightarrow> bool" where
  "iso1PaymentServiceSelectionReq_ok v \<longleftrightarrow>
     iso1PaymentServiceSelectionReq_SelectedPaymentOption v < 2 \<and>
     iso1SelectedServiceList_ok (iso1PaymentServiceSelectionReq_SelectedServiceList v)"

definition iso1PaymentServiceSelectionReq_sized :: "iso1PaymentServiceSelectionReqType \<Rightarrow> bool" where
  "iso1PaymentServiceSelectionReq_sized a \<longleftrightarrow>
     iso1SelectedServiceList_sized (iso1PaymentServiceSelectionReq_SelectedServiceList a)"

definition same_iso1PaymentServiceSelectionReq :: "iso1PaymentServiceSelectionReqType \<Rightarrow>
    iso1PaymentServiceSelectionReqType \<Rightarrow> bool" where
  "same_iso1PaymentServiceSelectionReq v a \<longleftrightarrow>
     iso1PaymentServiceSelectionReq_SelectedPaymentOption a = iso1PaymentServiceSelectionReq_SelectedPaymentOption v
       \<and>
     same_iso1SelectedServiceList (iso1PaymentServiceSelectionReq_SelectedServiceList v)
       (iso1PaymentServiceSelectionReq_SelectedServiceList a)"

definition iso1PaymentServiceSelectionReq_at :: "iso1PaymentServiceSelectionReqType \<Rightarrow> nat \<Rightarrow>
    iso1PaymentServiceSelectionReqType \<Rightarrow> bool" where
  "iso1PaymentServiceSelectionReq_at v g a \<longleftrightarrow>
     iso1PaymentServiceSelectionReq_ok v \<and>
     g \<in> {352, 353, 3} \<and>
     iso1PaymentServiceSelectionReq_sized a \<and>
     (g \<notin> {352} \<longrightarrow> iso1PaymentServiceSelectionReq_SelectedPaymentOption
       a = iso1PaymentServiceSelectionReq_SelectedPaymentOption v) \<and>
     (g \<notin> {352, 353} \<longrightarrow>
       same_iso1SelectedServiceList (iso1PaymentServiceSelectionReq_SelectedServiceList v)
       (iso1PaymentServiceSelectionReq_SelectedServiceList a))"

lemmas iso1PaymentServiceSelectionReq_steps = iso1PaymentServiceSelectionReq_enc_step_def
  iso1PaymentServiceSelectionReq_dec_step_def

lemmas iso1PaymentServiceSelectionReq_props = iso1PaymentServiceSelectionReq_at_def
    iso1PaymentServiceSelectionReq_sized_def same_iso1PaymentServiceSelectionReq_def left_at_def

interpretation iso1PaymentServiceSelectionReq: paired_machines "iso1PaymentServiceSelectionReq_enc_step v"
    "iso1PaymentServiceSelectionReq_dec_step j" "iso1PaymentServiceSelectionReq_at v"
  "left_at [(352, 952), (353, 948), (3, 1)]" "\<lambda>a. same_iso1PaymentServiceSelectionReq v a \<and>
      iso1PaymentServiceSelectionReq_sized a" for v j
proof
  fix g a assume at: "iso1PaymentServiceSelectionReq_at v g a"
  then have "g \<in> {352, 353, 3}" by (simp add: iso1PaymentServiceSelectionReq_at_def)
  then show "hops (iso1PaymentServiceSelectionReq_enc_step v) (iso1PaymentServiceSelectionReq_dec_step j)
      (iso1PaymentServiceSelectionReq_at v)
    (left_at [(352, 952), (353, 948), (3, 1)]) (\<lambda>a. same_iso1PaymentServiceSelectionReq v a \<and>
      iso1PaymentServiceSelectionReq_sized a) g a" using at
    by - (elim insertE emptyE; (hypsubst, rule hops_by, simp (no_asm) add: iso1PaymentServiceSelectionReq_steps del:
      One_nat_def,
      simp (no_asm) add: iso1PaymentServiceSelectionReq_steps del: One_nat_def,
        simp (asm_lr) add: iso1PaymentServiceSelectionReq_props del: One_nat_def, (elim conjE)?,
      ((rule walks_ifs)+)?); (frule iso1PaymentServiceSelectionReq_ok_def [THEN iffD1], ((drule (1) known)+)?,
        (elim conjE)?, ((drule (1) known)+)?, (elim conjE)?,
      (((rule walks_shapes, simp (no_asm) del: One_nat_def, ((rule reads_intros)+)?);
      ((elim exE conjE)?,
        ((simp (no_asm_simp) add: iso1PaymentServiceSelectionReq_props; fail) |
        (simp (asm_lr) add: iso1PaymentServiceSelectionReq_props; fail) |
        (auto simp: iso1PaymentServiceSelectionReq_props; fail)))) | (erule (1) notE; fail) |
        ((elim exE conjE)?,
        ((simp (no_asm_simp) add: iso1PaymentServiceSelectionReq_props; fail) |
        (simp (asm_lr) add: iso1PaymentServiceSelectionReq_props; fail) |
        (auto simp: iso1PaymentServiceSelectionReq_props; fail))))))
qed

lemma reads_iso1PaymentServiceSelectionReq [reads_intros]:
  "iso1PaymentServiceSelectionReq_ok v \<Longrightarrow> iso1PaymentServiceSelectionReq_sized a \<Longrightarrow>
      reads 952 (\<lambda>s. encode_iso1PaymentServiceSelectionReqType s v)
      (decode_iso1PaymentServiceSelectionReqType j) a (\<lambda>a. same_iso1PaymentServiceSelectionReq v a \<and>
      iso1PaymentServiceSelectionReq_sized a)"
  unfolding encode_iso1PaymentServiceSelectionReqType_def decode_iso1PaymentServiceSelectionReqType_def [abs_def]
  by (rule reads_start [OF iso1PaymentServiceSelectionReq.machine_reads, of _ 352, THEN reads_mono])
      (auto simp: iso1PaymentServiceSelectionReq_at_def iso1PaymentServiceSelectionReq_sized_def
      init_iso1PaymentServiceSelectionReqType_def left_at_def)

interpretation iso1PaymentServiceSelectionReq_enc: advancing_machine "iso1PaymentServiceSelectionReq_enc_step v"
    "left_at [(352, 3), (353, 2), (3, 1)]" for v
  by unfold_locales (auto simp: iso1PaymentServiceSelectionReq_steps left_at_def dest!: advance_dests split:
      if_splits)

interpretation iso1PaymentServiceSelectionReq_dec: advancing_machine "iso1PaymentServiceSelectionReq_dec_step j"
    "left_at [(352, 3), (353, 2), (3, 1)]" for j
  by unfold_locales (auto simp: iso1PaymentServiceSelectionReq_steps dest!: advance_dests elim!:
      decode_switch_next split: if_splits;
      simp add: left_at_def)

subsection \<open>\<open>iso1PaymentServiceSelectionResType\<close>\<close>

record iso1PaymentServiceSelectionResType =
  iso1PaymentServiceSelectionRes_ResponseCode :: u32

definition init_iso1PaymentServiceSelectionResType :: "iso1PaymentServiceSelectionResType \<Rightarrow>
    iso1PaymentServiceSelectionResType" where
  "init_iso1PaymentServiceSelectionResType a = a"

definition iso1PaymentServiceSelectionRes_enc_step :: "iso1PaymentServiceSelectionResType \<Rightarrow> unit machine"
    where
  "iso1PaymentServiceSelectionRes_enc_step v grammarID x s =
     (if grammarID = 122 then
        goto 3 x (encode_simple 1 0
          (\<lambda>s. encodeNBitUnsignedInteger s 5 (iso1PaymentServiceSelectionRes_ResponseCode v)) s)
      else if grammarID = 3 then
        finish 4 x (encodeNBitUnsignedInteger s 1 0)
      else Some (EXI_ERROR_UNKOWN_GRAMMAR_ID, (False, grammarID, x), s))"

definition encode_iso1PaymentServiceSelectionResType :: "bitstream \<Rightarrow> iso1PaymentServiceSelectionResType
    \<Rightarrow> (errn \<times> bitstream) option" where
  "encode_iso1PaymentServiceSelectionResType s v = run_encoder (iso1PaymentServiceSelectionRes_enc_step v) 122 () s"

definition iso1PaymentServiceSelectionRes_dec_step :: "u32 \<Rightarrow>
    (dec_static \<times> iso1PaymentServiceSelectionResType) machine" where
  "iso1PaymentServiceSelectionRes_dec_step j grammarID x s =
     (if grammarID = 122 then
        decode_switch 1
         [(0, decode_simple 122 3
           (decode_nbit_field 5 (\<lambda>u a. a\<lparr>iso1PaymentServiceSelectionRes_ResponseCode := u\<rparr>)))]
           122 x s
      else if grammarID = 3 then
        decode_switch 1
         [(0, decode_end 4)] 3 x s
      else Some (EXI_ERROR_UNKOWN_GRAMMAR_ID, (False, grammarID, x), s))"

definition decode_iso1PaymentServiceSelectionResType :: "u32 \<Rightarrow> iso1PaymentServiceSelectionResType decoder"
    where
  "decode_iso1PaymentServiceSelectionResType j x s = grammar_loop (iso1PaymentServiceSelectionRes_dec_step j) 122
      (fst x, init_iso1PaymentServiceSelectionResType (snd x)) s"

definition iso1PaymentServiceSelectionRes_ok :: "iso1PaymentServiceSelectionResType \<Rightarrow> bool" where
  "iso1PaymentServiceSelectionRes_ok v \<longleftrightarrow>
     iso1PaymentServiceSelectionRes_ResponseCode v < 32"

definition same_iso1PaymentServiceSelectionRes :: "iso1PaymentServiceSelectionResType \<Rightarrow>
    iso1PaymentServiceSelectionResType \<Rightarrow> bool" where
  "same_iso1PaymentServiceSelectionRes v a \<longleftrightarrow>
     iso1PaymentServiceSelectionRes_ResponseCode a = iso1PaymentServiceSelectionRes_ResponseCode v"

definition iso1PaymentServiceSelectionRes_at :: "iso1PaymentServiceSelectionResType \<Rightarrow> nat \<Rightarrow>
    iso1PaymentServiceSelectionResType \<Rightarrow> bool" where
  "iso1PaymentServiceSelectionRes_at v g a \<longleftrightarrow>
     iso1PaymentServiceSelectionRes_ok v \<and>
     g \<in> {122, 3} \<and>
     (g \<notin> {122} \<longrightarrow> iso1PaymentServiceSelectionRes_ResponseCode
       a = iso1PaymentServiceSelectionRes_ResponseCode v)"

lemmas iso1PaymentServiceSelectionRes_steps = iso1PaymentServiceSelectionRes_enc_step_def
  iso1PaymentServiceSelectionRes_dec_step_def

lemmas iso1PaymentServiceSelectionRes_props = iso1PaymentServiceSelectionRes_at_def
    same_iso1PaymentServiceSelectionRes_def left_at_def

interpretation iso1PaymentServiceSelectionRes: paired_machines "iso1PaymentServiceSelectionRes_enc_step v"
    "iso1PaymentServiceSelectionRes_dec_step j" "iso1PaymentServiceSelectionRes_at v"
  "left_at [(122, 9), (3, 1)]" "same_iso1PaymentServiceSelectionRes v" for v j
proof
  fix g a assume at: "iso1PaymentServiceSelectionRes_at v g a"
  then have "g \<in> {122, 3}" by (simp add: iso1PaymentServiceSelectionRes_at_def)
  then show "hops (iso1PaymentServiceSelectionRes_enc_step v) (iso1PaymentServiceSelectionRes_dec_step j)
      (iso1PaymentServiceSelectionRes_at v)
    (left_at [(122, 9), (3, 1)]) (same_iso1PaymentServiceSelectionRes v) g a" using at
    by - (elim insertE emptyE; (hypsubst, rule hops_by, simp (no_asm) add: iso1PaymentServiceSelectionRes_steps del:
      One_nat_def,
      simp (no_asm) add: iso1PaymentServiceSelectionRes_steps del: One_nat_def,
        simp (asm_lr) add: iso1PaymentServiceSelectionRes_props del: One_nat_def, (elim conjE)?,
      ((rule walks_ifs)+)?); (frule iso1PaymentServiceSelectionRes_ok_def [THEN iffD1], ((drule (1) known)+)?,
        (elim conjE)?, ((drule (1) known)+)?, (elim conjE)?,
      (((rule walks_shapes, simp (no_asm) del: One_nat_def, ((rule reads_intros)+)?);
      ((elim exE conjE)?,
        ((simp (no_asm_simp) add: iso1PaymentServiceSelectionRes_props; fail) |
        (simp (asm_lr) add: iso1PaymentServiceSelectionRes_props; fail) |
        (auto simp: iso1PaymentServiceSelectionRes_props; fail)))) | (erule (1) notE; fail) |
        ((elim exE conjE)?,
        ((simp (no_asm_simp) add: iso1PaymentServiceSelectionRes_props; fail) |
        (simp (asm_lr) add: iso1PaymentServiceSelectionRes_props; fail) |
        (auto simp: iso1PaymentServiceSelectionRes_props; fail))))))
qed

lemma reads_iso1PaymentServiceSelectionRes [reads_intros]:
  "iso1PaymentServiceSelectionRes_ok v \<Longrightarrow>
      reads 9 (\<lambda>s. encode_iso1PaymentServiceSelectionResType s v)
      (decode_iso1PaymentServiceSelectionResType j) a (same_iso1PaymentServiceSelectionRes v)"
  unfolding encode_iso1PaymentServiceSelectionResType_def decode_iso1PaymentServiceSelectionResType_def [abs_def]
  by (rule reads_start [OF iso1PaymentServiceSelectionRes.machine_reads, of _ 122, THEN reads_mono])
      (auto simp: iso1PaymentServiceSelectionRes_at_def  init_iso1PaymentServiceSelectionResType_def left_at_def)

interpretation iso1PaymentServiceSelectionRes_enc: advancing_machine "iso1PaymentServiceSelectionRes_enc_step v"
    "left_at [(122, 2), (3, 1)]" for v
  by unfold_locales (auto simp: iso1PaymentServiceSelectionRes_steps left_at_def dest!: advance_dests split:
      if_splits)

interpretation iso1PaymentServiceSelectionRes_dec: advancing_machine "iso1PaymentServiceSelectionRes_dec_step j"
    "left_at [(122, 2), (3, 1)]" for j
  by unfold_locales (auto simp: iso1PaymentServiceSelectionRes_steps dest!: advance_dests elim!:
      decode_switch_next split: if_splits;
      simp add: left_at_def)

end
