(* ===== verification/Iso1Certificates.thy ===== *)
theory Iso1Certificates
  imports Iso1KeyInfo Iso1Values
begin

section \<open>ISO 15118 codec: payment details, authorization, certificates\<close>

text \<open>
  The messages that identify the contract and install or update its certificate, in the form explained
  in \<open>Iso1Values\<close>.
\<close>

subsection \<open>\<open>iso1SubCertificatesType\<close>\<close>

record iso1SubCertificatesType =
  iso1SubCertificates_Certificate_array :: "sized_data list"
  iso1SubCertificates_Certificate_arrayLen :: u16

definition init_iso1SubCertificatesType :: "iso1SubCertificatesType \<Rightarrow> iso1SubCertificatesType" where
  "init_iso1SubCertificatesType a = a\<lparr>iso1SubCertificates_Certificate_arrayLen := 0\<rparr>"

record iso1SubCertificates_locals =
  iso1SubCertificates_Certificate_currArrayIndex :: nat

definition iso1SubCertificates_enc_step :: "iso1SubCertificatesType \<Rightarrow> iso1SubCertificates_locals machine"
    where
  "iso1SubCertificates_enc_step v grammarID x s =
     (if grammarID = 140 then
        if iso1SubCertificates_Certificate_currArrayIndex x < unat (iso1SubCertificates_Certificate_arrayLen v) then
          encode_array_data 1 0 141 encode_bytesLen encode_bytes_of (iso1SubCertificates_Certificate_array v)
          iso1SubCertificates_Certificate_currArrayIndex iso1SubCertificates_Certificate_currArrayIndex_update x s
        else Some (EXI_ERROR_UNKOWN_EVENT, (False, grammarID, x), s)
      else if grammarID = 141 then
        if iso1SubCertificates_Certificate_currArrayIndex x < unat (iso1SubCertificates_Certificate_arrayLen v) then
          encode_array_data 2 0 142 encode_bytesLen encode_bytes_of (iso1SubCertificates_Certificate_array v)
          iso1SubCertificates_Certificate_currArrayIndex iso1SubCertificates_Certificate_currArrayIndex_update x s
        else finish 4 x (encodeNBitUnsignedInteger s 2 1)
      else if grammarID = 142 then
        if iso1SubCertificates_Certificate_currArrayIndex x < unat (iso1SubCertificates_Certificate_arrayLen v) then
          encode_array_data 2 0 143 encode_bytesLen encode_bytes_of (iso1SubCertificates_Certificate_array v)
          iso1SubCertificates_Certificate_currArrayIndex iso1SubCertificates_Certificate_currArrayIndex_update x s
        else finish 4 x (encodeNBitUnsignedInteger s 2 1)
      else if grammarID = 143 then
        if iso1SubCertificates_Certificate_currArrayIndex x < unat (iso1SubCertificates_Certificate_arrayLen v) then
          encode_array_data 2 0 3 encode_bytesLen encode_bytes_of (iso1SubCertificates_Certificate_array v)
          iso1SubCertificates_Certificate_currArrayIndex iso1SubCertificates_Certificate_currArrayIndex_update x s
        else finish 4 x (encodeNBitUnsignedInteger s 2 1)
      else if grammarID = 3 then
        finish 4 x (encodeNBitUnsignedInteger s 1 0)
      else Some (EXI_ERROR_UNKOWN_GRAMMAR_ID, (False, grammarID, x), s))"

definition encode_iso1SubCertificatesType :: "bitstream \<Rightarrow> iso1SubCertificatesType \<Rightarrow>
    (errn \<times> bitstream) option" where
  "encode_iso1SubCertificatesType s v = run_encoder (iso1SubCertificates_enc_step v) 140
      \<lparr>iso1SubCertificates_Certificate_currArrayIndex = 0\<rparr> s"

abbreviation (input) decode_next_iso1SubCertificates_Certificate :: "u32 \<Rightarrow> iso1SubCertificatesType
    decoder" where
  "decode_next_iso1SubCertificates_Certificate j \<equiv> decode_element
      (decode_bytes_field j 800 fst (\<lambda>u e. (u, snd e)) (\<lambda>u e. (fst e, u)))
      iso1SubCertificates_Certificate_array iso1SubCertificates_Certificate_arrayLen
      (\<lambda>xs n a. a\<lparr>iso1SubCertificates_Certificate_array := xs, iso1SubCertificates_Certificate_arrayLen
      := n\<rparr>)"

definition iso1SubCertificates_dec_step_2 :: "u32 \<Rightarrow> (dec_static \<times> iso1SubCertificatesType) machine"
    where
  "iso1SubCertificates_dec_step_2 j grammarID x s =
     (if grammarID = 143 then
        decode_switch 2
         [(0, decode_array_simple 143 3 4 iso1SubCertificates_Certificate_arrayLen
           (decode_next_iso1SubCertificates_Certificate j)),
          (1, decode_end 4)] 143 x s
      else if grammarID = 3 then
        decode_switch 1
         [(0, decode_end 4)] 3 x s
      else Some (EXI_ERROR_UNKOWN_GRAMMAR_ID, (False, grammarID, x), s))"

definition iso1SubCertificates_dec_step :: "u32 \<Rightarrow> (dec_static \<times> iso1SubCertificatesType) machine"
    where
  "iso1SubCertificates_dec_step j grammarID x s =
     (if grammarID = 140 then
        decode_switch 1
         [(0, decode_array_simple 140 141 4 iso1SubCertificates_Certificate_arrayLen
           (decode_next_iso1SubCertificates_Certificate j))] 140 x s
      else if grammarID = 141 then
        decode_switch 2
         [(0, decode_array_simple 141 142 4 iso1SubCertificates_Certificate_arrayLen
           (decode_next_iso1SubCertificates_Certificate j)),
          (1, decode_end 4)] 141 x s
      else if grammarID = 142 then
        decode_switch 2
         [(0, decode_array_simple 142 143 4 iso1SubCertificates_Certificate_arrayLen
           (decode_next_iso1SubCertificates_Certificate j)),
          (1, decode_end 4)] 142 x s
      else iso1SubCertificates_dec_step_2 j grammarID x s)"

definition decode_iso1SubCertificatesType :: "u32 \<Rightarrow> iso1SubCertificatesType decoder" where
  "decode_iso1SubCertificatesType j x s = grammar_loop (iso1SubCertificates_dec_step j) 140
      (fst x, init_iso1SubCertificatesType (snd x)) s"

definition iso1SubCertificates_ok :: "iso1SubCertificatesType \<Rightarrow> bool" where
  "iso1SubCertificates_ok v \<longleftrightarrow>
     length (iso1SubCertificates_Certificate_array v) = 4 \<and> unat (iso1SubCertificates_Certificate_arrayLen v)
       \<le> 4 \<and> in_use (bytes_data_ok 800) (iso1SubCertificates_Certificate_array v)
       (iso1SubCertificates_Certificate_arrayLen v) \<and>
       list_all (data_sized 800) (iso1SubCertificates_Certificate_array v) \<and>
     unat (iso1SubCertificates_Certificate_arrayLen v) \<noteq> 0"

definition iso1SubCertificates_sized :: "iso1SubCertificatesType \<Rightarrow> bool" where
  "iso1SubCertificates_sized a \<longleftrightarrow>
     length (iso1SubCertificates_Certificate_array a) = 4 \<and>
     list_all (data_sized 800) (iso1SubCertificates_Certificate_array a)"

definition same_iso1SubCertificates :: "iso1SubCertificatesType \<Rightarrow> iso1SubCertificatesType \<Rightarrow>
    bool" where
  "same_iso1SubCertificates v a \<longleftrightarrow>
     iso1SubCertificates_Certificate_arrayLen a = iso1SubCertificates_Certificate_arrayLen v \<and>
       copied same_data (unat (iso1SubCertificates_Certificate_arrayLen v)) (iso1SubCertificates_Certificate_array v)
       (iso1SubCertificates_Certificate_array a)"

definition iso1SubCertificates_at :: "iso1SubCertificatesType \<Rightarrow> nat \<Rightarrow>
    iso1SubCertificates_locals \<Rightarrow> iso1SubCertificatesType \<Rightarrow> bool" where
  "iso1SubCertificates_at v g x a \<longleftrightarrow>
     counts [(140, 0), (141, 1), (142, 2), (143, 3)] g (iso1SubCertificates_Certificate_currArrayIndex x) \<and>
     iso1SubCertificates_ok v \<and>
     g \<in> {140, 141, 142, 143, 3} \<and>
     iso1SubCertificates_sized a \<and>
     unat (iso1SubCertificates_Certificate_arrayLen a) = iso1SubCertificates_Certificate_currArrayIndex x \<and>
       iso1SubCertificates_Certificate_currArrayIndex x \<le> unat (iso1SubCertificates_Certificate_arrayLen v) \<and>
     copied same_data (iso1SubCertificates_Certificate_currArrayIndex x) (iso1SubCertificates_Certificate_array v)
       (iso1SubCertificates_Certificate_array a) \<and>
     (g = 3 \<longrightarrow> iso1SubCertificates_Certificate_currArrayIndex x = unat
       (iso1SubCertificates_Certificate_arrayLen v))"

definition iso1SubCertificates_rank :: "iso1SubCertificatesType \<Rightarrow> nat \<Rightarrow>
    iso1SubCertificates_locals \<Rightarrow> nat" where
  "iso1SubCertificates_rank v g x = left_at [(140, 2), (141, 2), (142, 2), (143, 2), (3, 1)] g + due 6428
      (iso1SubCertificates_Certificate_arrayLen v) (iso1SubCertificates_Certificate_currArrayIndex x)"

lemmas iso1SubCertificates_steps = iso1SubCertificates_enc_step_def
  iso1SubCertificates_dec_step_def iso1SubCertificates_dec_step_2_def

lemmas iso1SubCertificates_props = iso1SubCertificates_at_def iso1SubCertificates_sized_def
    same_iso1SubCertificates_def iso1SubCertificates_rank_def left_at_def

interpretation iso1SubCertificates: walking_pair "iso1SubCertificates_enc_step v" "iso1SubCertificates_dec_step j"
    "iso1SubCertificates_at v" "iso1SubCertificates_rank v"
  "\<lambda>a. same_iso1SubCertificates v a \<and> iso1SubCertificates_sized a" for v j
proof
  fix g x a assume at: "iso1SubCertificates_at v g x a"
  then have "g \<in> {140, 141, 142, 143, 3}" by (simp add: iso1SubCertificates_at_def)
  then show "walks (iso1SubCertificates_enc_step v) (iso1SubCertificates_dec_step j) (iso1SubCertificates_at v)
      (iso1SubCertificates_rank v)
    (\<lambda>a. same_iso1SubCertificates v a \<and> iso1SubCertificates_sized a) g x a" using at
    by - (elim insertE emptyE; (hypsubst, rule walks_by, simp (no_asm) add: iso1SubCertificates_steps del:
      One_nat_def,
      simp (no_asm) add: iso1SubCertificates_steps del: One_nat_def, simp (asm_lr) add: iso1SubCertificates_props del:
        One_nat_def, (elim conjE)?,
      ((rule walks_ifs)+)?); (frule iso1SubCertificates_ok_def [THEN iffD1], ((drule (1) known)+)?, (elim conjE)?,
        ((drule (1) known)+)?, (elim conjE)?,
      (((rule walks_shapes, simp (no_asm) del: One_nat_def, ((rule reads_intros)+)?);
      ((elim exE conjE)?,
        ((simp (no_asm_simp) add: iso1SubCertificates_props counts_def array_intros; fail) |
        (simp (asm_lr) add: iso1SubCertificates_props counts_def array_intros; fail) |
        (auto simp: iso1SubCertificates_props counts_def array_intros; fail)))) | (erule (1) notE; fail) |
        ((elim exE conjE)?,
        ((simp (no_asm_simp) add: iso1SubCertificates_props counts_def array_intros; fail) |
        (simp (asm_lr) add: iso1SubCertificates_props counts_def array_intros; fail) |
        (auto simp: iso1SubCertificates_props counts_def array_intros; fail))))))
qed

lemma reads_iso1SubCertificates [reads_intros]:
  "iso1SubCertificates_ok v \<Longrightarrow> iso1SubCertificates_sized a \<Longrightarrow>
      reads 25714 (\<lambda>s. encode_iso1SubCertificatesType s v) (decode_iso1SubCertificatesType j) a
      (\<lambda>a. same_iso1SubCertificates v a \<and> iso1SubCertificates_sized a)"
  unfolding encode_iso1SubCertificatesType_def decode_iso1SubCertificatesType_def [abs_def]
  by (rule reads_start [OF iso1SubCertificates.walk_reads, THEN reads_mono])
      (auto simp: iso1SubCertificates_props iso1SubCertificates_ok_def counts_def due_def
      init_iso1SubCertificatesType_def)

interpretation iso1SubCertificates_enc: advancing_machine "iso1SubCertificates_enc_step v" "left_at
    [(140, 5), (141, 4), (142, 3), (143, 2), (3, 1)]" for v
  by unfold_locales (auto simp: iso1SubCertificates_steps dest!: array_advance_dests split: if_splits;
      simp add: left_at_def)

interpretation iso1SubCertificates_dec: advancing_machine "iso1SubCertificates_dec_step j" "left_at
    [(140, 5), (141, 4), (142, 3), (143, 2), (3, 1)]" for j
  by unfold_locales (auto simp: iso1SubCertificates_steps dest!: array_advance_dests elim!:
      decode_switch_next split: if_splits;
      simp add: left_at_def)

subsection \<open>\<open>iso1CertificateChainType\<close>\<close>

record iso1CertificateChainType =
  iso1CertificateChain_Id_characters :: "u8 list"
  iso1CertificateChain_Id_charactersLen :: u16
  iso1CertificateChain_Id_isUsed :: bool
  iso1CertificateChain_Certificate_bytes :: "u8 list"
  iso1CertificateChain_Certificate_bytesLen :: u16
  iso1CertificateChain_SubCertificates :: iso1SubCertificatesType
  iso1CertificateChain_SubCertificates_isUsed :: bool

definition init_iso1CertificateChainType :: "iso1CertificateChainType \<Rightarrow> iso1CertificateChainType" where
  "init_iso1CertificateChainType a = a\<lparr>iso1CertificateChain_Id_isUsed := False,
      iso1CertificateChain_SubCertificates_isUsed := False\<rparr>"

definition iso1CertificateChain_enc_step :: "iso1CertificateChainType \<Rightarrow> unit machine" where
  "iso1CertificateChain_enc_step v grammarID x s =
     (if grammarID = 31 then
        if iso1CertificateChain_Id_isUsed v then
          goto 32 x
          (encode_child 2 0
          (encode_string_field (iso1CertificateChain_Id_characters v) (iso1CertificateChain_Id_charactersLen v)) s)
        else goto 33 x
          (encode_simple 2 1 (encode_bytes_field (iso1CertificateChain_Certificate_bytes v)
          (iso1CertificateChain_Certificate_bytesLen v)) s)
      else if grammarID = 32 then
        goto 33 x
          (encode_simple 1 0 (encode_bytes_field (iso1CertificateChain_Certificate_bytes v)
          (iso1CertificateChain_Certificate_bytesLen v)) s)
      else if grammarID = 33 then
        if iso1CertificateChain_SubCertificates_isUsed v then
          goto 3 x (encode_child 2 0
          (\<lambda>s. encode_iso1SubCertificatesType s (iso1CertificateChain_SubCertificates v)) s)
        else finish 4 x (encodeNBitUnsignedInteger s 2 1)
      else if grammarID = 3 then
        finish 4 x (encodeNBitUnsignedInteger s 1 0)
      else Some (EXI_ERROR_UNKOWN_GRAMMAR_ID, (False, grammarID, x), s))"

definition encode_iso1CertificateChainType :: "bitstream \<Rightarrow> iso1CertificateChainType \<Rightarrow>
    (errn \<times> bitstream) option" where
  "encode_iso1CertificateChainType s v = run_encoder (iso1CertificateChain_enc_step v) 31 () s"

definition iso1CertificateChain_dec_step :: "u32 \<Rightarrow> (dec_static \<times> iso1CertificateChainType) machine"
    where
  "iso1CertificateChain_dec_step j grammarID x s =
     (if grammarID = 31 then
        decode_switch 2
         [(0, decode_child 32 (decode_used (\<lambda>a. a\<lparr>iso1CertificateChain_Id_isUsed := True\<rparr>)
           (decode_string_field j 51 iso1CertificateChain_Id_characters
           (\<lambda>u a. a\<lparr>iso1CertificateChain_Id_characters := u\<rparr>)
           (\<lambda>u a. a\<lparr>iso1CertificateChain_Id_charactersLen := u\<rparr>)))),
          (1, decode_simple 31 33 (decode_bytes_field j 800 iso1CertificateChain_Certificate_bytes
            (\<lambda>u a. a\<lparr>iso1CertificateChain_Certificate_bytes := u\<rparr>)
            (\<lambda>u a. a\<lparr>iso1CertificateChain_Certificate_bytesLen := u\<rparr>)))] 31 x s
      else if grammarID = 32 then
        decode_switch 1
         [(0, decode_simple 32 33 (decode_bytes_field j 800 iso1CertificateChain_Certificate_bytes
           (\<lambda>u a. a\<lparr>iso1CertificateChain_Certificate_bytes := u\<rparr>)
           (\<lambda>u a. a\<lparr>iso1CertificateChain_Certificate_bytesLen := u\<rparr>)))] 32 x s
      else if grammarID = 33 then
        decode_switch 2
         [(0, decode_child 3
           (decode_used (\<lambda>a. a\<lparr>iso1CertificateChain_SubCertificates_isUsed := True\<rparr>)
           (decode_sub (decode_iso1SubCertificatesType j) iso1CertificateChain_SubCertificates
           (\<lambda>u a. a\<lparr>iso1CertificateChain_SubCertificates := u\<rparr>)))),
          (1, decode_end 4)] 33 x s
      else if grammarID = 3 then
        decode_switch 1
         [(0, decode_end 4)] 3 x s
      else Some (EXI_ERROR_UNKOWN_GRAMMAR_ID, (False, grammarID, x), s))"

definition decode_iso1CertificateChainType :: "u32 \<Rightarrow> iso1CertificateChainType decoder" where
  "decode_iso1CertificateChainType j x s = grammar_loop (iso1CertificateChain_dec_step j) 31
      (fst x, init_iso1CertificateChainType (snd x)) s"

definition iso1CertificateChain_ok :: "iso1CertificateChainType \<Rightarrow> bool" where
  "iso1CertificateChain_ok v \<longleftrightarrow>
     when_used (iso1CertificateChain_Id_isUsed v)
       (string_ok 51 (iso1CertificateChain_Id_characters v) (iso1CertificateChain_Id_charactersLen v)) \<and>
     length (iso1CertificateChain_Certificate_bytes v) = 800 \<and> unat (iso1CertificateChain_Certificate_bytesLen v)
       \<le> 800 \<and>
     when_used (iso1CertificateChain_SubCertificates_isUsed v)
       (iso1SubCertificates_ok (iso1CertificateChain_SubCertificates v))"

definition iso1CertificateChain_sized :: "iso1CertificateChainType \<Rightarrow> bool" where
  "iso1CertificateChain_sized a \<longleftrightarrow>
     length (iso1CertificateChain_Id_characters a) = 51 \<and>
     length (iso1CertificateChain_Certificate_bytes a) = 800 \<and>
     iso1SubCertificates_sized (iso1CertificateChain_SubCertificates a)"

definition same_iso1CertificateChain :: "iso1CertificateChainType \<Rightarrow> iso1CertificateChainType \<Rightarrow>
    bool" where
  "same_iso1CertificateChain v a \<longleftrightarrow>
     kept (iso1CertificateChain_Id_isUsed v) (iso1CertificateChain_Id_isUsed a)
       (iso1CertificateChain_Id_charactersLen a = iso1CertificateChain_Id_charactersLen v \<and>
       take (unat (iso1CertificateChain_Id_charactersLen v)) (iso1CertificateChain_Id_characters a) = take
       (unat (iso1CertificateChain_Id_charactersLen v)) (iso1CertificateChain_Id_characters v)) \<and>
     iso1CertificateChain_Certificate_bytesLen a = iso1CertificateChain_Certificate_bytesLen v \<and>
       take (unat (iso1CertificateChain_Certificate_bytesLen v)) (iso1CertificateChain_Certificate_bytes a) = take
       (unat (iso1CertificateChain_Certificate_bytesLen v)) (iso1CertificateChain_Certificate_bytes v) \<and>
     kept (iso1CertificateChain_SubCertificates_isUsed v) (iso1CertificateChain_SubCertificates_isUsed a)
       (same_iso1SubCertificates (iso1CertificateChain_SubCertificates v) (iso1CertificateChain_SubCertificates a))"

definition iso1CertificateChain_at :: "iso1CertificateChainType \<Rightarrow> nat \<Rightarrow>
    iso1CertificateChainType \<Rightarrow> bool" where
  "iso1CertificateChain_at v g a \<longleftrightarrow>
     iso1CertificateChain_ok v \<and>
     g \<in> {31, 32, 33, 3} \<and>
     iso1CertificateChain_sized a \<and>
     (if g \<in> {31} then \<not> iso1CertificateChain_Id_isUsed a
      else kept (iso1CertificateChain_Id_isUsed v) (iso1CertificateChain_Id_isUsed a)
        (iso1CertificateChain_Id_charactersLen a = iso1CertificateChain_Id_charactersLen v \<and>
        take (unat (iso1CertificateChain_Id_charactersLen v)) (iso1CertificateChain_Id_characters a) = take
        (unat (iso1CertificateChain_Id_charactersLen v)) (iso1CertificateChain_Id_characters v))) \<and>
     (g \<notin> {31, 32} \<longrightarrow> iso1CertificateChain_Certificate_bytesLen
       a = iso1CertificateChain_Certificate_bytesLen v \<and>
       take (unat (iso1CertificateChain_Certificate_bytesLen v)) (iso1CertificateChain_Certificate_bytes a) = take
       (unat (iso1CertificateChain_Certificate_bytesLen v)) (iso1CertificateChain_Certificate_bytes v)) \<and>
     (if g \<in> {31, 32, 33} then \<not> iso1CertificateChain_SubCertificates_isUsed a
      else kept (iso1CertificateChain_SubCertificates_isUsed v) (iso1CertificateChain_SubCertificates_isUsed a)
        (same_iso1SubCertificates (iso1CertificateChain_SubCertificates v) (iso1CertificateChain_SubCertificates a)))"

lemmas iso1CertificateChain_steps = iso1CertificateChain_enc_step_def
  iso1CertificateChain_dec_step_def

lemmas iso1CertificateChain_props = iso1CertificateChain_at_def iso1CertificateChain_sized_def
    same_iso1CertificateChain_def left_at_def

interpretation iso1CertificateChain: paired_machines "iso1CertificateChain_enc_step v" "iso1CertificateChain_dec_step
    j" "iso1CertificateChain_at v"
  "left_at [(31, 32578), (32, 32144), (33, 25717), (3, 1)]" "\<lambda>a. same_iso1CertificateChain v a \<and>
      iso1CertificateChain_sized a" for v j
proof
  fix g a assume at: "iso1CertificateChain_at v g a"
  then have "g \<in> {31, 32, 33, 3}" by (simp add: iso1CertificateChain_at_def)
  then show "hops (iso1CertificateChain_enc_step v) (iso1CertificateChain_dec_step j) (iso1CertificateChain_at v)
    (left_at [(31, 32578), (32, 32144), (33, 25717), (3, 1)]) (\<lambda>a. same_iso1CertificateChain v a \<and>
      iso1CertificateChain_sized a) g a" using at
    by - (elim insertE emptyE; (hypsubst, rule hops_by, simp (no_asm) add: iso1CertificateChain_steps del:
      One_nat_def,
      simp (no_asm) add: iso1CertificateChain_steps del: One_nat_def, simp (asm_lr) add: iso1CertificateChain_props
        del: One_nat_def, (elim conjE)?,
      ((rule walks_ifs)+)?); (frule iso1CertificateChain_ok_def [THEN iffD1], ((drule (1) known)+)?, (elim conjE)?,
        ((drule (1) known)+)?, (elim conjE)?,
      (((rule walks_shapes, simp (no_asm) del: One_nat_def, ((rule reads_intros)+)?);
      ((elim exE conjE)?,
        ((simp (no_asm_simp) add: iso1CertificateChain_props; fail) |
        (simp (asm_lr) add: iso1CertificateChain_props; fail) | (auto simp: iso1CertificateChain_props; fail)))) |
        (erule (1) notE; fail) |
        ((elim exE conjE)?,
        ((simp (no_asm_simp) add: iso1CertificateChain_props; fail) |
        (simp (asm_lr) add: iso1CertificateChain_props; fail) | (auto simp: iso1CertificateChain_props; fail))))))
qed

lemma reads_iso1CertificateChain [reads_intros]:
  "iso1CertificateChain_ok v \<Longrightarrow> iso1CertificateChain_sized a \<Longrightarrow>
      reads 32578 (\<lambda>s. encode_iso1CertificateChainType s v) (decode_iso1CertificateChainType j) a
      (\<lambda>a. same_iso1CertificateChain v a \<and> iso1CertificateChain_sized a)"
  unfolding encode_iso1CertificateChainType_def decode_iso1CertificateChainType_def [abs_def]
  by (rule reads_start [OF iso1CertificateChain.machine_reads, of _ 31, THEN reads_mono])
      (auto simp: iso1CertificateChain_at_def iso1CertificateChain_sized_def init_iso1CertificateChainType_def
      left_at_def)

interpretation iso1CertificateChain_enc: advancing_machine "iso1CertificateChain_enc_step v" "left_at
    [(31, 4), (32, 3), (33, 2), (3, 1)]" for v
  by unfold_locales (auto simp: iso1CertificateChain_steps dest!: advance_dests split: if_splits;
      simp add: left_at_def)

interpretation iso1CertificateChain_dec: advancing_machine "iso1CertificateChain_dec_step j" "left_at
    [(31, 4), (32, 3), (33, 2), (3, 1)]" for j
  by unfold_locales (auto simp: iso1CertificateChain_steps dest!: advance_dests elim!: decode_switch_next
      split: if_splits;
      simp add: left_at_def)

subsection \<open>\<open>iso1PaymentDetailsReqType\<close>\<close>

record iso1PaymentDetailsReqType =
  iso1PaymentDetailsReq_eMAID_characters :: "u8 list"
  iso1PaymentDetailsReq_eMAID_charactersLen :: u16
  iso1PaymentDetailsReq_ContractSignatureCertChain :: iso1CertificateChainType

definition init_iso1PaymentDetailsReqType :: "iso1PaymentDetailsReqType \<Rightarrow> iso1PaymentDetailsReqType" where
  "init_iso1PaymentDetailsReqType a = a"

definition iso1PaymentDetailsReq_enc_step :: "iso1PaymentDetailsReqType \<Rightarrow> unit machine" where
  "iso1PaymentDetailsReq_enc_step v grammarID x s =
     (if grammarID = 127 then
        goto 128 x
          (encode_simple 1 0 (encode_string_field (iso1PaymentDetailsReq_eMAID_characters v)
          (iso1PaymentDetailsReq_eMAID_charactersLen v)) s)
      else if grammarID = 128 then
        goto 3 x (encode_child 1 0
          (\<lambda>s. encode_iso1CertificateChainType s (iso1PaymentDetailsReq_ContractSignatureCertChain v)) s)
      else if grammarID = 3 then
        finish 4 x (encodeNBitUnsignedInteger s 1 0)
      else Some (EXI_ERROR_UNKOWN_GRAMMAR_ID, (False, grammarID, x), s))"

definition encode_iso1PaymentDetailsReqType :: "bitstream \<Rightarrow> iso1PaymentDetailsReqType \<Rightarrow>
    (errn \<times> bitstream) option" where
  "encode_iso1PaymentDetailsReqType s v = run_encoder (iso1PaymentDetailsReq_enc_step v) 127 () s"

definition iso1PaymentDetailsReq_dec_step :: "u32 \<Rightarrow> (dec_static \<times> iso1PaymentDetailsReqType)
    machine" where
  "iso1PaymentDetailsReq_dec_step j grammarID x s =
     (if grammarID = 127 then
        decode_switch 1
         [(0, decode_simple 127 128 (decode_string_field j 16 iso1PaymentDetailsReq_eMAID_characters
           (\<lambda>u a. a\<lparr>iso1PaymentDetailsReq_eMAID_characters := u\<rparr>)
           (\<lambda>u a. a\<lparr>iso1PaymentDetailsReq_eMAID_charactersLen := u\<rparr>)))] 127 x s
      else if grammarID = 128 then
        decode_switch 1
         [(0, decode_child 3
           (decode_sub (decode_iso1CertificateChainType j) iso1PaymentDetailsReq_ContractSignatureCertChain
           (\<lambda>u a. a\<lparr>iso1PaymentDetailsReq_ContractSignatureCertChain := u\<rparr>)))] 128 x s
      else if grammarID = 3 then
        decode_switch 1
         [(0, decode_end 4)] 3 x s
      else Some (EXI_ERROR_UNKOWN_GRAMMAR_ID, (False, grammarID, x), s))"

definition decode_iso1PaymentDetailsReqType :: "u32 \<Rightarrow> iso1PaymentDetailsReqType decoder" where
  "decode_iso1PaymentDetailsReqType j x s = grammar_loop (iso1PaymentDetailsReq_dec_step j) 127
      (fst x, init_iso1PaymentDetailsReqType (snd x)) s"

definition iso1PaymentDetailsReq_ok :: "iso1PaymentDetailsReqType \<Rightarrow> bool" where
  "iso1PaymentDetailsReq_ok v \<longleftrightarrow>
     string_ok 16 (iso1PaymentDetailsReq_eMAID_characters v) (iso1PaymentDetailsReq_eMAID_charactersLen v) \<and>
     iso1CertificateChain_ok (iso1PaymentDetailsReq_ContractSignatureCertChain v)"

definition iso1PaymentDetailsReq_sized :: "iso1PaymentDetailsReqType \<Rightarrow> bool" where
  "iso1PaymentDetailsReq_sized a \<longleftrightarrow>
     length (iso1PaymentDetailsReq_eMAID_characters a) = 16 \<and>
     iso1CertificateChain_sized (iso1PaymentDetailsReq_ContractSignatureCertChain a)"

definition same_iso1PaymentDetailsReq :: "iso1PaymentDetailsReqType \<Rightarrow> iso1PaymentDetailsReqType
    \<Rightarrow> bool" where
  "same_iso1PaymentDetailsReq v a \<longleftrightarrow>
     iso1PaymentDetailsReq_eMAID_charactersLen a = iso1PaymentDetailsReq_eMAID_charactersLen v \<and>
       take (unat (iso1PaymentDetailsReq_eMAID_charactersLen v)) (iso1PaymentDetailsReq_eMAID_characters a) = take
       (unat (iso1PaymentDetailsReq_eMAID_charactersLen v)) (iso1PaymentDetailsReq_eMAID_characters v) \<and>
     same_iso1CertificateChain (iso1PaymentDetailsReq_ContractSignatureCertChain v)
       (iso1PaymentDetailsReq_ContractSignatureCertChain a)"

definition iso1PaymentDetailsReq_at :: "iso1PaymentDetailsReqType \<Rightarrow> nat \<Rightarrow>
    iso1PaymentDetailsReqType \<Rightarrow> bool" where
  "iso1PaymentDetailsReq_at v g a \<longleftrightarrow>
     iso1PaymentDetailsReq_ok v \<and>
     g \<in> {127, 128, 3} \<and>
     iso1PaymentDetailsReq_sized a \<and>
     (g \<notin> {127} \<longrightarrow> iso1PaymentDetailsReq_eMAID_charactersLen
       a = iso1PaymentDetailsReq_eMAID_charactersLen v \<and>
       take (unat (iso1PaymentDetailsReq_eMAID_charactersLen v)) (iso1PaymentDetailsReq_eMAID_characters a) = take
       (unat (iso1PaymentDetailsReq_eMAID_charactersLen v)) (iso1PaymentDetailsReq_eMAID_characters v)) \<and>
     (g \<notin> {127, 128} \<longrightarrow>
       same_iso1CertificateChain (iso1PaymentDetailsReq_ContractSignatureCertChain v)
       (iso1PaymentDetailsReq_ContractSignatureCertChain a))"

lemmas iso1PaymentDetailsReq_steps = iso1PaymentDetailsReq_enc_step_def
  iso1PaymentDetailsReq_dec_step_def

lemmas iso1PaymentDetailsReq_props = iso1PaymentDetailsReq_at_def iso1PaymentDetailsReq_sized_def
    same_iso1PaymentDetailsReq_def left_at_def

interpretation iso1PaymentDetailsReq: paired_machines "iso1PaymentDetailsReq_enc_step v"
    "iso1PaymentDetailsReq_dec_step j" "iso1PaymentDetailsReq_at v"
  "left_at [(127, 32735), (128, 32580), (3, 1)]" "\<lambda>a. same_iso1PaymentDetailsReq v a \<and>
      iso1PaymentDetailsReq_sized a" for v j
proof
  fix g a assume at: "iso1PaymentDetailsReq_at v g a"
  then have "g \<in> {127, 128, 3}" by (simp add: iso1PaymentDetailsReq_at_def)
  then show "hops (iso1PaymentDetailsReq_enc_step v) (iso1PaymentDetailsReq_dec_step j) (iso1PaymentDetailsReq_at v)
    (left_at [(127, 32735), (128, 32580), (3, 1)]) (\<lambda>a. same_iso1PaymentDetailsReq v a \<and>
      iso1PaymentDetailsReq_sized a) g a" using at
    by - (elim insertE emptyE; (hypsubst, rule hops_by, simp (no_asm) add: iso1PaymentDetailsReq_steps del:
      One_nat_def,
      simp (no_asm) add: iso1PaymentDetailsReq_steps del: One_nat_def, simp (asm_lr) add: iso1PaymentDetailsReq_props
        del: One_nat_def, (elim conjE)?,
      ((rule walks_ifs)+)?); (frule iso1PaymentDetailsReq_ok_def [THEN iffD1], ((drule (1) known)+)?, (elim conjE)?,
        ((drule (1) known)+)?, (elim conjE)?,
      (((rule walks_shapes, simp (no_asm) del: One_nat_def, ((rule reads_intros)+)?);
      ((elim exE conjE)?,
        ((simp (no_asm_simp) add: iso1PaymentDetailsReq_props; fail) |
        (simp (asm_lr) add: iso1PaymentDetailsReq_props; fail) | (auto simp: iso1PaymentDetailsReq_props; fail)))) |
        (erule (1) notE; fail) |
        ((elim exE conjE)?,
        ((simp (no_asm_simp) add: iso1PaymentDetailsReq_props; fail) |
        (simp (asm_lr) add: iso1PaymentDetailsReq_props; fail) | (auto simp: iso1PaymentDetailsReq_props; fail))))))
qed

lemma reads_iso1PaymentDetailsReq [reads_intros]:
  "iso1PaymentDetailsReq_ok v \<Longrightarrow> iso1PaymentDetailsReq_sized a \<Longrightarrow>
      reads 32735 (\<lambda>s. encode_iso1PaymentDetailsReqType s v) (decode_iso1PaymentDetailsReqType j) a
      (\<lambda>a. same_iso1PaymentDetailsReq v a \<and> iso1PaymentDetailsReq_sized a)"
  unfolding encode_iso1PaymentDetailsReqType_def decode_iso1PaymentDetailsReqType_def [abs_def]
  by (rule reads_start [OF iso1PaymentDetailsReq.machine_reads, of _ 127, THEN reads_mono])
      (auto simp: iso1PaymentDetailsReq_at_def iso1PaymentDetailsReq_sized_def init_iso1PaymentDetailsReqType_def
      left_at_def)

interpretation iso1PaymentDetailsReq_enc: advancing_machine "iso1PaymentDetailsReq_enc_step v" "left_at
    [(127, 3), (128, 2), (3, 1)]" for v
  by unfold_locales (auto simp: iso1PaymentDetailsReq_steps dest!: advance_dests split: if_splits;
      simp add: left_at_def)

interpretation iso1PaymentDetailsReq_dec: advancing_machine "iso1PaymentDetailsReq_dec_step j" "left_at
    [(127, 3), (128, 2), (3, 1)]" for j
  by unfold_locales (auto simp: iso1PaymentDetailsReq_steps dest!: advance_dests elim!: decode_switch_next
      split: if_splits;
      simp add: left_at_def)

subsection \<open>\<open>iso1PaymentDetailsResType\<close>\<close>

record iso1PaymentDetailsResType =
  iso1PaymentDetailsRes_ResponseCode :: u32
  iso1PaymentDetailsRes_GenChallenge_bytes :: "u8 list"
  iso1PaymentDetailsRes_GenChallenge_bytesLen :: u16
  iso1PaymentDetailsRes_EVSETimeStamp :: u64

definition init_iso1PaymentDetailsResType :: "iso1PaymentDetailsResType \<Rightarrow> iso1PaymentDetailsResType" where
  "init_iso1PaymentDetailsResType a = a"

definition iso1PaymentDetailsRes_enc_step :: "iso1PaymentDetailsResType \<Rightarrow> unit machine" where
  "iso1PaymentDetailsRes_enc_step v grammarID x s =
     (if grammarID = 258 then
        goto 259 x
          (encode_simple 1 0 (\<lambda>s. encodeNBitUnsignedInteger s 5 (iso1PaymentDetailsRes_ResponseCode v)) s)
      else if grammarID = 259 then
        goto 260 x
          (encode_simple 1 0 (encode_bytes_field (iso1PaymentDetailsRes_GenChallenge_bytes v)
          (iso1PaymentDetailsRes_GenChallenge_bytesLen v)) s)
      else if grammarID = 260 then
        goto 3 x (encode_simple 1 0 (\<lambda>s. encodeInteger64 s (iso1PaymentDetailsRes_EVSETimeStamp v)) s)
      else if grammarID = 3 then
        finish 4 x (encodeNBitUnsignedInteger s 1 0)
      else Some (EXI_ERROR_UNKOWN_GRAMMAR_ID, (False, grammarID, x), s))"

definition encode_iso1PaymentDetailsResType :: "bitstream \<Rightarrow> iso1PaymentDetailsResType \<Rightarrow>
    (errn \<times> bitstream) option" where
  "encode_iso1PaymentDetailsResType s v = run_encoder (iso1PaymentDetailsRes_enc_step v) 258 () s"

definition iso1PaymentDetailsRes_dec_step :: "u32 \<Rightarrow> (dec_static \<times> iso1PaymentDetailsResType)
    machine" where
  "iso1PaymentDetailsRes_dec_step j grammarID x s =
     (if grammarID = 258 then
        decode_switch 1
         [(0, decode_simple 258 259
           (decode_nbit_field 5 (\<lambda>u a. a\<lparr>iso1PaymentDetailsRes_ResponseCode := u\<rparr>)))] 258 x s
      else if grammarID = 259 then
        decode_switch 1
         [(0, decode_simple 259 260 (decode_bytes_field j 16 iso1PaymentDetailsRes_GenChallenge_bytes
           (\<lambda>u a. a\<lparr>iso1PaymentDetailsRes_GenChallenge_bytes := u\<rparr>)
           (\<lambda>u a. a\<lparr>iso1PaymentDetailsRes_GenChallenge_bytesLen := u\<rparr>)))] 259 x s
      else if grammarID = 260 then
        decode_switch 1
         [(0, decode_simple 260 3
           (decode_i64_field j iso1PaymentDetailsRes_EVSETimeStamp
           (\<lambda>u a. a\<lparr>iso1PaymentDetailsRes_EVSETimeStamp := u\<rparr>)))] 260 x s
      else if grammarID = 3 then
        decode_switch 1
         [(0, decode_end 4)] 3 x s
      else Some (EXI_ERROR_UNKOWN_GRAMMAR_ID, (False, grammarID, x), s))"

definition decode_iso1PaymentDetailsResType :: "u32 \<Rightarrow> iso1PaymentDetailsResType decoder" where
  "decode_iso1PaymentDetailsResType j x s = grammar_loop (iso1PaymentDetailsRes_dec_step j) 258
      (fst x, init_iso1PaymentDetailsResType (snd x)) s"

definition iso1PaymentDetailsRes_ok :: "iso1PaymentDetailsResType \<Rightarrow> bool" where
  "iso1PaymentDetailsRes_ok v \<longleftrightarrow>
     iso1PaymentDetailsRes_ResponseCode v < 32 \<and>
     length (iso1PaymentDetailsRes_GenChallenge_bytes v) = 16 \<and>
       unat (iso1PaymentDetailsRes_GenChallenge_bytesLen v) \<le> 16 \<and>
     sint (iso1PaymentDetailsRes_EVSETimeStamp v) \<noteq> - (2 ^ 63)"

definition iso1PaymentDetailsRes_sized :: "iso1PaymentDetailsResType \<Rightarrow> bool" where
  "iso1PaymentDetailsRes_sized a \<longleftrightarrow>
     length (iso1PaymentDetailsRes_GenChallenge_bytes a) = 16"

definition same_iso1PaymentDetailsRes :: "iso1PaymentDetailsResType \<Rightarrow> iso1PaymentDetailsResType
    \<Rightarrow> bool" where
  "same_iso1PaymentDetailsRes v a \<longleftrightarrow>
     iso1PaymentDetailsRes_ResponseCode a = iso1PaymentDetailsRes_ResponseCode v \<and>
     iso1PaymentDetailsRes_GenChallenge_bytesLen a = iso1PaymentDetailsRes_GenChallenge_bytesLen v \<and>
       take (unat (iso1PaymentDetailsRes_GenChallenge_bytesLen v)) (iso1PaymentDetailsRes_GenChallenge_bytes a) = take
       (unat (iso1PaymentDetailsRes_GenChallenge_bytesLen v)) (iso1PaymentDetailsRes_GenChallenge_bytes v) \<and>
     iso1PaymentDetailsRes_EVSETimeStamp a = iso1PaymentDetailsRes_EVSETimeStamp v"

definition iso1PaymentDetailsRes_at :: "iso1PaymentDetailsResType \<Rightarrow> nat \<Rightarrow>
    iso1PaymentDetailsResType \<Rightarrow> bool" where
  "iso1PaymentDetailsRes_at v g a \<longleftrightarrow>
     iso1PaymentDetailsRes_ok v \<and>
     g \<in> {258, 259, 260, 3} \<and>
     iso1PaymentDetailsRes_sized a \<and>
     (g \<notin> {258} \<longrightarrow> iso1PaymentDetailsRes_ResponseCode a = iso1PaymentDetailsRes_ResponseCode v)
       \<and>
     (g \<notin> {258, 259} \<longrightarrow> iso1PaymentDetailsRes_GenChallenge_bytesLen
       a = iso1PaymentDetailsRes_GenChallenge_bytesLen v \<and>
       take (unat (iso1PaymentDetailsRes_GenChallenge_bytesLen v)) (iso1PaymentDetailsRes_GenChallenge_bytes a) = take
       (unat (iso1PaymentDetailsRes_GenChallenge_bytesLen v)) (iso1PaymentDetailsRes_GenChallenge_bytes v)) \<and>
     (g \<notin> {258, 259, 260} \<longrightarrow> iso1PaymentDetailsRes_EVSETimeStamp
       a = iso1PaymentDetailsRes_EVSETimeStamp v)"

lemmas iso1PaymentDetailsRes_steps = iso1PaymentDetailsRes_enc_step_def
  iso1PaymentDetailsRes_dec_step_def

lemmas iso1PaymentDetailsRes_props = iso1PaymentDetailsRes_at_def iso1PaymentDetailsRes_sized_def
    same_iso1PaymentDetailsRes_def left_at_def

interpretation iso1PaymentDetailsRes: paired_machines "iso1PaymentDetailsRes_enc_step v"
    "iso1PaymentDetailsRes_dec_step j" "iso1PaymentDetailsRes_at v"
  "left_at [(258, 248), (259, 240), (260, 85), (3, 1)]" "\<lambda>a. same_iso1PaymentDetailsRes v a \<and>
      iso1PaymentDetailsRes_sized a" for v j
proof
  fix g a assume at: "iso1PaymentDetailsRes_at v g a"
  then have "g \<in> {258, 259, 260, 3}" by (simp add: iso1PaymentDetailsRes_at_def)
  then show "hops (iso1PaymentDetailsRes_enc_step v) (iso1PaymentDetailsRes_dec_step j) (iso1PaymentDetailsRes_at v)
    (left_at [(258, 248), (259, 240), (260, 85), (3, 1)]) (\<lambda>a. same_iso1PaymentDetailsRes v a \<and>
      iso1PaymentDetailsRes_sized a) g a" using at
    by - (elim insertE emptyE; (hypsubst, rule hops_by, simp (no_asm) add: iso1PaymentDetailsRes_steps del:
      One_nat_def,
      simp (no_asm) add: iso1PaymentDetailsRes_steps del: One_nat_def, simp (asm_lr) add: iso1PaymentDetailsRes_props
        del: One_nat_def, (elim conjE)?,
      ((rule walks_ifs)+)?); (frule iso1PaymentDetailsRes_ok_def [THEN iffD1], ((drule (1) known)+)?, (elim conjE)?,
        ((drule (1) known)+)?, (elim conjE)?,
      (((rule walks_shapes, simp (no_asm) del: One_nat_def, ((rule reads_intros)+)?);
      ((elim exE conjE)?,
        ((simp (no_asm_simp) add: iso1PaymentDetailsRes_props; fail) |
        (simp (asm_lr) add: iso1PaymentDetailsRes_props; fail) | (auto simp: iso1PaymentDetailsRes_props; fail)))) |
        (erule (1) notE; fail) |
        ((elim exE conjE)?,
        ((simp (no_asm_simp) add: iso1PaymentDetailsRes_props; fail) |
        (simp (asm_lr) add: iso1PaymentDetailsRes_props; fail) | (auto simp: iso1PaymentDetailsRes_props; fail))))))
qed

lemma reads_iso1PaymentDetailsRes [reads_intros]:
  "iso1PaymentDetailsRes_ok v \<Longrightarrow> iso1PaymentDetailsRes_sized a \<Longrightarrow>
      reads 248 (\<lambda>s. encode_iso1PaymentDetailsResType s v) (decode_iso1PaymentDetailsResType j) a
      (\<lambda>a. same_iso1PaymentDetailsRes v a \<and> iso1PaymentDetailsRes_sized a)"
  unfolding encode_iso1PaymentDetailsResType_def decode_iso1PaymentDetailsResType_def [abs_def]
  by (rule reads_start [OF iso1PaymentDetailsRes.machine_reads, of _ 258, THEN reads_mono])
      (auto simp: iso1PaymentDetailsRes_at_def iso1PaymentDetailsRes_sized_def init_iso1PaymentDetailsResType_def
      left_at_def)

interpretation iso1PaymentDetailsRes_enc: advancing_machine "iso1PaymentDetailsRes_enc_step v" "left_at
    [(258, 4), (259, 3), (260, 2), (3, 1)]" for v
  by unfold_locales (auto simp: iso1PaymentDetailsRes_steps dest!: advance_dests split: if_splits;
      simp add: left_at_def)

interpretation iso1PaymentDetailsRes_dec: advancing_machine "iso1PaymentDetailsRes_dec_step j" "left_at
    [(258, 4), (259, 3), (260, 2), (3, 1)]" for j
  by unfold_locales (auto simp: iso1PaymentDetailsRes_steps dest!: advance_dests elim!: decode_switch_next
      split: if_splits;
      simp add: left_at_def)

subsection \<open>\<open>iso1AuthorizationReqType\<close>\<close>

record iso1AuthorizationReqType =
  iso1AuthorizationReq_Id_characters :: "u8 list"
  iso1AuthorizationReq_Id_charactersLen :: u16
  iso1AuthorizationReq_Id_isUsed :: bool
  iso1AuthorizationReq_GenChallenge_bytes :: "u8 list"
  iso1AuthorizationReq_GenChallenge_bytesLen :: u16
  iso1AuthorizationReq_GenChallenge_isUsed :: bool

definition init_iso1AuthorizationReqType :: "iso1AuthorizationReqType \<Rightarrow> iso1AuthorizationReqType" where
  "init_iso1AuthorizationReqType a = a\<lparr>iso1AuthorizationReq_Id_isUsed := False,
      iso1AuthorizationReq_GenChallenge_isUsed := False\<rparr>"

definition iso1AuthorizationReq_enc_step :: "iso1AuthorizationReqType \<Rightarrow> unit machine" where
  "iso1AuthorizationReq_enc_step v grammarID x s =
     (if grammarID = 80 then
        if iso1AuthorizationReq_Id_isUsed v then
          goto 81 x
          (encode_child 2 0
          (encode_string_field (iso1AuthorizationReq_Id_characters v) (iso1AuthorizationReq_Id_charactersLen v)) s)
        else if iso1AuthorizationReq_GenChallenge_isUsed v then
          goto 3 x (encode_simple 2 1 (encode_bytes_field (iso1AuthorizationReq_GenChallenge_bytes v)
          (iso1AuthorizationReq_GenChallenge_bytesLen v)) s)
        else finish 4 x (encodeNBitUnsignedInteger s 2 2)
      else if grammarID = 81 then
        if iso1AuthorizationReq_GenChallenge_isUsed v then
          goto 3 x (encode_simple 2 0 (encode_bytes_field (iso1AuthorizationReq_GenChallenge_bytes v)
          (iso1AuthorizationReq_GenChallenge_bytesLen v)) s)
        else finish 4 x (encodeNBitUnsignedInteger s 2 1)
      else if grammarID = 3 then
        finish 4 x (encodeNBitUnsignedInteger s 1 0)
      else Some (EXI_ERROR_UNKOWN_GRAMMAR_ID, (False, grammarID, x), s))"

definition encode_iso1AuthorizationReqType :: "bitstream \<Rightarrow> iso1AuthorizationReqType \<Rightarrow>
    (errn \<times> bitstream) option" where
  "encode_iso1AuthorizationReqType s v = run_encoder (iso1AuthorizationReq_enc_step v) 80 () s"

definition iso1AuthorizationReq_dec_step :: "u32 \<Rightarrow> (dec_static \<times> iso1AuthorizationReqType) machine"
    where
  "iso1AuthorizationReq_dec_step j grammarID x s =
     (if grammarID = 80 then
        decode_switch 2
         [(0, decode_child 81 (decode_used (\<lambda>a. a\<lparr>iso1AuthorizationReq_Id_isUsed := True\<rparr>)
           (decode_string_field j 51 iso1AuthorizationReq_Id_characters
           (\<lambda>u a. a\<lparr>iso1AuthorizationReq_Id_characters := u\<rparr>)
           (\<lambda>u a. a\<lparr>iso1AuthorizationReq_Id_charactersLen := u\<rparr>)))),
          (1, decode_simple 80 3
            (decode_used (\<lambda>a. a\<lparr>iso1AuthorizationReq_GenChallenge_isUsed := True\<rparr>)
            (decode_bytes_field j 16 iso1AuthorizationReq_GenChallenge_bytes
            (\<lambda>u a. a\<lparr>iso1AuthorizationReq_GenChallenge_bytes := u\<rparr>)
            (\<lambda>u a. a\<lparr>iso1AuthorizationReq_GenChallenge_bytesLen := u\<rparr>)))),
          (2, decode_end 4)] 80 x s
      else if grammarID = 81 then
        decode_switch 2
         [(0, decode_simple 81 3
           (decode_used (\<lambda>a. a\<lparr>iso1AuthorizationReq_GenChallenge_isUsed := True\<rparr>)
           (decode_bytes_field j 16 iso1AuthorizationReq_GenChallenge_bytes
           (\<lambda>u a. a\<lparr>iso1AuthorizationReq_GenChallenge_bytes := u\<rparr>)
           (\<lambda>u a. a\<lparr>iso1AuthorizationReq_GenChallenge_bytesLen := u\<rparr>)))),
          (1, decode_end 4)] 81 x s
      else if grammarID = 3 then
        decode_switch 1
         [(0, decode_end 4)] 3 x s
      else Some (EXI_ERROR_UNKOWN_GRAMMAR_ID, (False, grammarID, x), s))"

definition decode_iso1AuthorizationReqType :: "u32 \<Rightarrow> iso1AuthorizationReqType decoder" where
  "decode_iso1AuthorizationReqType j x s = grammar_loop (iso1AuthorizationReq_dec_step j) 80
      (fst x, init_iso1AuthorizationReqType (snd x)) s"

definition iso1AuthorizationReq_ok :: "iso1AuthorizationReqType \<Rightarrow> bool" where
  "iso1AuthorizationReq_ok v \<longleftrightarrow>
     when_used (iso1AuthorizationReq_Id_isUsed v)
       (string_ok 51 (iso1AuthorizationReq_Id_characters v) (iso1AuthorizationReq_Id_charactersLen v)) \<and>
     when_used (iso1AuthorizationReq_GenChallenge_isUsed v)
       (length (iso1AuthorizationReq_GenChallenge_bytes v) = 16 \<and>
       unat (iso1AuthorizationReq_GenChallenge_bytesLen v) \<le> 16)"

definition iso1AuthorizationReq_sized :: "iso1AuthorizationReqType \<Rightarrow> bool" where
  "iso1AuthorizationReq_sized a \<longleftrightarrow>
     length (iso1AuthorizationReq_Id_characters a) = 51 \<and>
     length (iso1AuthorizationReq_GenChallenge_bytes a) = 16"

definition same_iso1AuthorizationReq :: "iso1AuthorizationReqType \<Rightarrow> iso1AuthorizationReqType \<Rightarrow>
    bool" where
  "same_iso1AuthorizationReq v a \<longleftrightarrow>
     kept (iso1AuthorizationReq_Id_isUsed v) (iso1AuthorizationReq_Id_isUsed a)
       (iso1AuthorizationReq_Id_charactersLen a = iso1AuthorizationReq_Id_charactersLen v \<and>
       take (unat (iso1AuthorizationReq_Id_charactersLen v)) (iso1AuthorizationReq_Id_characters a) = take
       (unat (iso1AuthorizationReq_Id_charactersLen v)) (iso1AuthorizationReq_Id_characters v)) \<and>
     kept (iso1AuthorizationReq_GenChallenge_isUsed v) (iso1AuthorizationReq_GenChallenge_isUsed a)
       (iso1AuthorizationReq_GenChallenge_bytesLen a = iso1AuthorizationReq_GenChallenge_bytesLen v \<and>
       take (unat (iso1AuthorizationReq_GenChallenge_bytesLen v)) (iso1AuthorizationReq_GenChallenge_bytes a) = take
       (unat (iso1AuthorizationReq_GenChallenge_bytesLen v)) (iso1AuthorizationReq_GenChallenge_bytes v))"

definition iso1AuthorizationReq_at :: "iso1AuthorizationReqType \<Rightarrow> nat \<Rightarrow>
    iso1AuthorizationReqType \<Rightarrow> bool" where
  "iso1AuthorizationReq_at v g a \<longleftrightarrow>
     iso1AuthorizationReq_ok v \<and>
     g \<in> {80, 81, 3} \<and>
     iso1AuthorizationReq_sized a \<and>
     (if g \<in> {80} then \<not> iso1AuthorizationReq_Id_isUsed a
      else kept (iso1AuthorizationReq_Id_isUsed v) (iso1AuthorizationReq_Id_isUsed a)
        (iso1AuthorizationReq_Id_charactersLen a = iso1AuthorizationReq_Id_charactersLen v \<and>
        take (unat (iso1AuthorizationReq_Id_charactersLen v)) (iso1AuthorizationReq_Id_characters a) = take
        (unat (iso1AuthorizationReq_Id_charactersLen v)) (iso1AuthorizationReq_Id_characters v))) \<and>
     (if g \<in> {80, 81} then \<not> iso1AuthorizationReq_GenChallenge_isUsed a
      else kept (iso1AuthorizationReq_GenChallenge_isUsed v) (iso1AuthorizationReq_GenChallenge_isUsed a)
        (iso1AuthorizationReq_GenChallenge_bytesLen a = iso1AuthorizationReq_GenChallenge_bytesLen v \<and>
        take (unat (iso1AuthorizationReq_GenChallenge_bytesLen v)) (iso1AuthorizationReq_GenChallenge_bytes a) = take
        (unat (iso1AuthorizationReq_GenChallenge_bytesLen v)) (iso1AuthorizationReq_GenChallenge_bytes v)))"

lemmas iso1AuthorizationReq_steps = iso1AuthorizationReq_enc_step_def
  iso1AuthorizationReq_dec_step_def

lemmas iso1AuthorizationReq_props = iso1AuthorizationReq_at_def iso1AuthorizationReq_sized_def
    same_iso1AuthorizationReq_def left_at_def

interpretation iso1AuthorizationReq: paired_machines "iso1AuthorizationReq_enc_step v" "iso1AuthorizationReq_dec_step
    j" "iso1AuthorizationReq_at v"
  "left_at [(80, 591), (81, 157), (3, 1)]" "\<lambda>a. same_iso1AuthorizationReq v a \<and>
      iso1AuthorizationReq_sized a" for v j
proof
  fix g a assume at: "iso1AuthorizationReq_at v g a"
  then have "g \<in> {80, 81, 3}" by (simp add: iso1AuthorizationReq_at_def)
  then show "hops (iso1AuthorizationReq_enc_step v) (iso1AuthorizationReq_dec_step j) (iso1AuthorizationReq_at v)
    (left_at [(80, 591), (81, 157), (3, 1)]) (\<lambda>a. same_iso1AuthorizationReq v a \<and>
      iso1AuthorizationReq_sized a) g a" using at
    by - (elim insertE emptyE; (hypsubst, rule hops_by, simp (no_asm) add: iso1AuthorizationReq_steps del:
      One_nat_def,
      simp (no_asm) add: iso1AuthorizationReq_steps del: One_nat_def, simp (asm_lr) add: iso1AuthorizationReq_props
        del: One_nat_def, (elim conjE)?,
      ((rule walks_ifs)+)?); (frule iso1AuthorizationReq_ok_def [THEN iffD1], ((drule (1) known)+)?, (elim conjE)?,
        ((drule (1) known)+)?, (elim conjE)?,
      (((rule walks_shapes, simp (no_asm) del: One_nat_def, ((rule reads_intros)+)?);
      ((elim exE conjE)?,
        ((simp (no_asm_simp) add: iso1AuthorizationReq_props; fail) |
        (simp (asm_lr) add: iso1AuthorizationReq_props; fail) | (auto simp: iso1AuthorizationReq_props; fail)))) |
        (erule (1) notE; fail) |
        ((elim exE conjE)?,
        ((simp (no_asm_simp) add: iso1AuthorizationReq_props; fail) |
        (simp (asm_lr) add: iso1AuthorizationReq_props; fail) | (auto simp: iso1AuthorizationReq_props; fail))))))
qed

lemma reads_iso1AuthorizationReq [reads_intros]:
  "iso1AuthorizationReq_ok v \<Longrightarrow> iso1AuthorizationReq_sized a \<Longrightarrow>
      reads 591 (\<lambda>s. encode_iso1AuthorizationReqType s v) (decode_iso1AuthorizationReqType j) a
      (\<lambda>a. same_iso1AuthorizationReq v a \<and> iso1AuthorizationReq_sized a)"
  unfolding encode_iso1AuthorizationReqType_def decode_iso1AuthorizationReqType_def [abs_def]
  by (rule reads_start [OF iso1AuthorizationReq.machine_reads, of _ 80, THEN reads_mono])
      (auto simp: iso1AuthorizationReq_at_def iso1AuthorizationReq_sized_def init_iso1AuthorizationReqType_def
      left_at_def)

interpretation iso1AuthorizationReq_enc: advancing_machine "iso1AuthorizationReq_enc_step v" "left_at
    [(80, 3), (81, 2), (3, 1)]" for v
  by unfold_locales (auto simp: iso1AuthorizationReq_steps dest!: advance_dests split: if_splits;
      simp add: left_at_def)

interpretation iso1AuthorizationReq_dec: advancing_machine "iso1AuthorizationReq_dec_step j" "left_at
    [(80, 3), (81, 2), (3, 1)]" for j
  by unfold_locales (auto simp: iso1AuthorizationReq_steps dest!: advance_dests elim!: decode_switch_next
      split: if_splits;
      simp add: left_at_def)

subsection \<open>\<open>iso1AuthorizationResType\<close>\<close>

record iso1AuthorizationResType =
  iso1AuthorizationRes_ResponseCode :: u32
  iso1AuthorizationRes_EVSEProcessing :: u32

definition init_iso1AuthorizationResType :: "iso1AuthorizationResType \<Rightarrow> iso1AuthorizationResType" where
  "init_iso1AuthorizationResType a = a"

definition iso1AuthorizationRes_enc_step :: "iso1AuthorizationResType \<Rightarrow> unit machine" where
  "iso1AuthorizationRes_enc_step v grammarID x s =
     (if grammarID = 129 then
        goto 130 x
          (encode_simple 1 0 (\<lambda>s. encodeNBitUnsignedInteger s 5 (iso1AuthorizationRes_ResponseCode v)) s)
      else if grammarID = 130 then
        goto 3 x (encode_simple 1 0
          (\<lambda>s. encodeNBitUnsignedInteger s 2 (iso1AuthorizationRes_EVSEProcessing v)) s)
      else if grammarID = 3 then
        finish 4 x (encodeNBitUnsignedInteger s 1 0)
      else Some (EXI_ERROR_UNKOWN_GRAMMAR_ID, (False, grammarID, x), s))"

definition encode_iso1AuthorizationResType :: "bitstream \<Rightarrow> iso1AuthorizationResType \<Rightarrow>
    (errn \<times> bitstream) option" where
  "encode_iso1AuthorizationResType s v = run_encoder (iso1AuthorizationRes_enc_step v) 129 () s"

definition iso1AuthorizationRes_dec_step :: "u32 \<Rightarrow> (dec_static \<times> iso1AuthorizationResType) machine"
    where
  "iso1AuthorizationRes_dec_step j grammarID x s =
     (if grammarID = 129 then
        decode_switch 1
         [(0, decode_simple 129 130
           (decode_nbit_field 5 (\<lambda>u a. a\<lparr>iso1AuthorizationRes_ResponseCode := u\<rparr>)))] 129 x s
      else if grammarID = 130 then
        decode_switch 1
         [(0, decode_simple 130 3
           (decode_nbit_field 2 (\<lambda>u a. a\<lparr>iso1AuthorizationRes_EVSEProcessing := u\<rparr>)))] 130 x s
      else if grammarID = 3 then
        decode_switch 1
         [(0, decode_end 4)] 3 x s
      else Some (EXI_ERROR_UNKOWN_GRAMMAR_ID, (False, grammarID, x), s))"

definition decode_iso1AuthorizationResType :: "u32 \<Rightarrow> iso1AuthorizationResType decoder" where
  "decode_iso1AuthorizationResType j x s = grammar_loop (iso1AuthorizationRes_dec_step j) 129
      (fst x, init_iso1AuthorizationResType (snd x)) s"

definition iso1AuthorizationRes_ok :: "iso1AuthorizationResType \<Rightarrow> bool" where
  "iso1AuthorizationRes_ok v \<longleftrightarrow>
     iso1AuthorizationRes_ResponseCode v < 32 \<and>
     iso1AuthorizationRes_EVSEProcessing v < 4"

definition same_iso1AuthorizationRes :: "iso1AuthorizationResType \<Rightarrow> iso1AuthorizationResType \<Rightarrow>
    bool" where
  "same_iso1AuthorizationRes v a \<longleftrightarrow>
     iso1AuthorizationRes_ResponseCode a = iso1AuthorizationRes_ResponseCode v \<and>
     iso1AuthorizationRes_EVSEProcessing a = iso1AuthorizationRes_EVSEProcessing v"

definition iso1AuthorizationRes_at :: "iso1AuthorizationResType \<Rightarrow> nat \<Rightarrow>
    iso1AuthorizationResType \<Rightarrow> bool" where
  "iso1AuthorizationRes_at v g a \<longleftrightarrow>
     iso1AuthorizationRes_ok v \<and>
     g \<in> {129, 130, 3} \<and>
     (g \<notin> {129} \<longrightarrow> iso1AuthorizationRes_ResponseCode a = iso1AuthorizationRes_ResponseCode v)
       \<and>
     (g \<notin> {129, 130} \<longrightarrow> iso1AuthorizationRes_EVSEProcessing
       a = iso1AuthorizationRes_EVSEProcessing v)"

lemmas iso1AuthorizationRes_steps = iso1AuthorizationRes_enc_step_def
  iso1AuthorizationRes_dec_step_def

lemmas iso1AuthorizationRes_props = iso1AuthorizationRes_at_def same_iso1AuthorizationRes_def left_at_def

interpretation iso1AuthorizationRes: paired_machines "iso1AuthorizationRes_enc_step v" "iso1AuthorizationRes_dec_step
    j" "iso1AuthorizationRes_at v"
  "left_at [(129, 14), (130, 6), (3, 1)]" "same_iso1AuthorizationRes v" for v j
proof
  fix g a assume at: "iso1AuthorizationRes_at v g a"
  then have "g \<in> {129, 130, 3}" by (simp add: iso1AuthorizationRes_at_def)
  then show "hops (iso1AuthorizationRes_enc_step v) (iso1AuthorizationRes_dec_step j) (iso1AuthorizationRes_at v)
    (left_at [(129, 14), (130, 6), (3, 1)]) (same_iso1AuthorizationRes v) g a" using at
    by - (elim insertE emptyE; (hypsubst, rule hops_by, simp (no_asm) add: iso1AuthorizationRes_steps del:
      One_nat_def,
      simp (no_asm) add: iso1AuthorizationRes_steps del: One_nat_def, simp (asm_lr) add: iso1AuthorizationRes_props
        del: One_nat_def, (elim conjE)?,
      ((rule walks_ifs)+)?); (frule iso1AuthorizationRes_ok_def [THEN iffD1], ((drule (1) known)+)?, (elim conjE)?,
        ((drule (1) known)+)?, (elim conjE)?,
      (((rule walks_shapes, simp (no_asm) del: One_nat_def, ((rule reads_intros)+)?);
      ((elim exE conjE)?,
        ((simp (no_asm_simp) add: iso1AuthorizationRes_props; fail) |
        (simp (asm_lr) add: iso1AuthorizationRes_props; fail) | (auto simp: iso1AuthorizationRes_props; fail)))) |
        (erule (1) notE; fail) |
        ((elim exE conjE)?,
        ((simp (no_asm_simp) add: iso1AuthorizationRes_props; fail) |
        (simp (asm_lr) add: iso1AuthorizationRes_props; fail) | (auto simp: iso1AuthorizationRes_props; fail))))))
qed

lemma reads_iso1AuthorizationRes [reads_intros]:
  "iso1AuthorizationRes_ok v \<Longrightarrow> reads 14 (\<lambda>s. encode_iso1AuthorizationResType s v)
      (decode_iso1AuthorizationResType j) a (same_iso1AuthorizationRes v)"
  unfolding encode_iso1AuthorizationResType_def decode_iso1AuthorizationResType_def [abs_def]
  by (rule reads_start [OF iso1AuthorizationRes.machine_reads, of _ 129, THEN reads_mono])
      (auto simp: iso1AuthorizationRes_at_def  init_iso1AuthorizationResType_def left_at_def)

interpretation iso1AuthorizationRes_enc: advancing_machine "iso1AuthorizationRes_enc_step v" "left_at
    [(129, 3), (130, 2), (3, 1)]" for v
  by unfold_locales (auto simp: iso1AuthorizationRes_steps dest!: advance_dests split: if_splits;
      simp add: left_at_def)

interpretation iso1AuthorizationRes_dec: advancing_machine "iso1AuthorizationRes_dec_step j" "left_at
    [(129, 3), (130, 2), (3, 1)]" for j
  by unfold_locales (auto simp: iso1AuthorizationRes_steps dest!: advance_dests elim!: decode_switch_next
      split: if_splits;
      simp add: left_at_def)

subsection \<open>\<open>iso1ListOfRootCertificateIDsType\<close>\<close>

record iso1ListOfRootCertificateIDsType =
  iso1ListOfRootCertificateIDs_RootCertificateID_array :: "iso1X509IssuerSerialType list"
  iso1ListOfRootCertificateIDs_RootCertificateID_arrayLen :: u16

definition init_iso1ListOfRootCertificateIDsType :: "iso1ListOfRootCertificateIDsType \<Rightarrow>
    iso1ListOfRootCertificateIDsType" where
  "init_iso1ListOfRootCertificateIDsType a = a\<lparr>iso1ListOfRootCertificateIDs_RootCertificateID_arrayLen
      := 0\<rparr>"

record iso1ListOfRootCertificateIDs_locals =
  iso1ListOfRootCertificateIDs_RootCertificateID_currArrayIndex :: nat

definition iso1ListOfRootCertificateIDs_enc_step :: "iso1ListOfRootCertificateIDsType \<Rightarrow>
    iso1ListOfRootCertificateIDs_locals machine" where
  "iso1ListOfRootCertificateIDs_enc_step v grammarID x s =
     (if grammarID = 158 then
        if iso1ListOfRootCertificateIDs_RootCertificateID_currArrayIndex x < unat
          (iso1ListOfRootCertificateIDs_RootCertificateID_arrayLen v) then
          encode_array_child 1 0 159 encode_iso1X509IssuerSerialType
          (iso1ListOfRootCertificateIDs_RootCertificateID_array v)
          iso1ListOfRootCertificateIDs_RootCertificateID_currArrayIndex
          iso1ListOfRootCertificateIDs_RootCertificateID_currArrayIndex_update x s
        else Some (EXI_ERROR_UNKOWN_EVENT, (False, grammarID, x), s)
      else if grammarID = 159 then
        if iso1ListOfRootCertificateIDs_RootCertificateID_currArrayIndex x < unat
          (iso1ListOfRootCertificateIDs_RootCertificateID_arrayLen v) then
          encode_array_child 2 0 159 encode_iso1X509IssuerSerialType
          (iso1ListOfRootCertificateIDs_RootCertificateID_array v)
          iso1ListOfRootCertificateIDs_RootCertificateID_currArrayIndex
          iso1ListOfRootCertificateIDs_RootCertificateID_currArrayIndex_update x s
        else finish 4 x (encodeNBitUnsignedInteger s 2 1)
      else Some (EXI_ERROR_UNKOWN_GRAMMAR_ID, (False, grammarID, x), s))"

definition encode_iso1ListOfRootCertificateIDsType :: "bitstream \<Rightarrow> iso1ListOfRootCertificateIDsType
    \<Rightarrow> (errn \<times> bitstream) option" where
  "encode_iso1ListOfRootCertificateIDsType s v = run_encoder (iso1ListOfRootCertificateIDs_enc_step v) 158
      \<lparr>iso1ListOfRootCertificateIDs_RootCertificateID_currArrayIndex = 0\<rparr> s"

abbreviation (input) decode_next_iso1ListOfRootCertificateIDs_RootCertificateID :: "u32 \<Rightarrow>
    iso1ListOfRootCertificateIDsType decoder" where
  "decode_next_iso1ListOfRootCertificateIDs_RootCertificateID j \<equiv> decode_element
      (decode_iso1X509IssuerSerialType j) iso1ListOfRootCertificateIDs_RootCertificateID_array
      iso1ListOfRootCertificateIDs_RootCertificateID_arrayLen
      (\<lambda>xs n a. a\<lparr>iso1ListOfRootCertificateIDs_RootCertificateID_array := xs,
      iso1ListOfRootCertificateIDs_RootCertificateID_arrayLen := n\<rparr>)"

definition iso1ListOfRootCertificateIDs_dec_step :: "u32 \<Rightarrow>
    (dec_static \<times> iso1ListOfRootCertificateIDsType) machine" where
  "iso1ListOfRootCertificateIDs_dec_step j grammarID x s =
     (if grammarID = 158 then
        decode_switch 1
         [(0, decode_array_child 159 5 iso1ListOfRootCertificateIDs_RootCertificateID_arrayLen
           (decode_next_iso1ListOfRootCertificateIDs_RootCertificateID j))] 158 x s
      else if grammarID = 159 then
        decode_switch 2
         [(0, decode_array_child 159 5 iso1ListOfRootCertificateIDs_RootCertificateID_arrayLen
           (decode_next_iso1ListOfRootCertificateIDs_RootCertificateID j)),
          (1, decode_end 4)] 159 x s
      else Some (EXI_ERROR_UNKOWN_GRAMMAR_ID, (False, grammarID, x), s))"

definition decode_iso1ListOfRootCertificateIDsType :: "u32 \<Rightarrow> iso1ListOfRootCertificateIDsType decoder"
    where
  "decode_iso1ListOfRootCertificateIDsType j x s = grammar_loop (iso1ListOfRootCertificateIDs_dec_step j) 158
      (fst x, init_iso1ListOfRootCertificateIDsType (snd x)) s"

definition iso1ListOfRootCertificateIDs_ok :: "iso1ListOfRootCertificateIDsType \<Rightarrow> bool" where
  "iso1ListOfRootCertificateIDs_ok v \<longleftrightarrow>
     length (iso1ListOfRootCertificateIDs_RootCertificateID_array v) = 5 \<and>
       unat (iso1ListOfRootCertificateIDs_RootCertificateID_arrayLen v) \<le> 5 \<and>
       in_use iso1X509IssuerSerial_ok (iso1ListOfRootCertificateIDs_RootCertificateID_array v)
       (iso1ListOfRootCertificateIDs_RootCertificateID_arrayLen v) \<and>
     unat (iso1ListOfRootCertificateIDs_RootCertificateID_arrayLen v) \<noteq> 0"

definition iso1ListOfRootCertificateIDs_sized :: "iso1ListOfRootCertificateIDsType \<Rightarrow> bool" where
  "iso1ListOfRootCertificateIDs_sized a \<longleftrightarrow>
     length (iso1ListOfRootCertificateIDs_RootCertificateID_array a) = 5 \<and>
     list_all iso1X509IssuerSerial_sized (iso1ListOfRootCertificateIDs_RootCertificateID_array a)"

definition same_iso1ListOfRootCertificateIDs :: "iso1ListOfRootCertificateIDsType \<Rightarrow>
    iso1ListOfRootCertificateIDsType \<Rightarrow> bool" where
  "same_iso1ListOfRootCertificateIDs v a \<longleftrightarrow>
     iso1ListOfRootCertificateIDs_RootCertificateID_arrayLen
       a = iso1ListOfRootCertificateIDs_RootCertificateID_arrayLen v \<and> copied same_iso1X509IssuerSerial
       (unat (iso1ListOfRootCertificateIDs_RootCertificateID_arrayLen v))
       (iso1ListOfRootCertificateIDs_RootCertificateID_array v)
       (iso1ListOfRootCertificateIDs_RootCertificateID_array a)"

definition iso1ListOfRootCertificateIDs_at :: "iso1ListOfRootCertificateIDsType \<Rightarrow> nat \<Rightarrow>
    iso1ListOfRootCertificateIDs_locals \<Rightarrow> iso1ListOfRootCertificateIDsType \<Rightarrow> bool" where
  "iso1ListOfRootCertificateIDs_at v g x a \<longleftrightarrow>
     counts [(158, 0)] g (iso1ListOfRootCertificateIDs_RootCertificateID_currArrayIndex x) \<and>
     iso1ListOfRootCertificateIDs_ok v \<and>
     g \<in> {158, 159} \<and>
     iso1ListOfRootCertificateIDs_sized a \<and>
     unat (iso1ListOfRootCertificateIDs_RootCertificateID_arrayLen
       a) = iso1ListOfRootCertificateIDs_RootCertificateID_currArrayIndex x \<and>
       iso1ListOfRootCertificateIDs_RootCertificateID_currArrayIndex x \<le> unat
       (iso1ListOfRootCertificateIDs_RootCertificateID_arrayLen v) \<and>
     copied same_iso1X509IssuerSerial (iso1ListOfRootCertificateIDs_RootCertificateID_currArrayIndex x)
       (iso1ListOfRootCertificateIDs_RootCertificateID_array v)
       (iso1ListOfRootCertificateIDs_RootCertificateID_array a)"

definition iso1ListOfRootCertificateIDs_rank :: "iso1ListOfRootCertificateIDsType \<Rightarrow> nat \<Rightarrow>
    iso1ListOfRootCertificateIDs_locals \<Rightarrow> nat" where
  "iso1ListOfRootCertificateIDs_rank v g x = left_at [(158, 2), (159, 2)] g + due 522
      (iso1ListOfRootCertificateIDs_RootCertificateID_arrayLen v)
      (iso1ListOfRootCertificateIDs_RootCertificateID_currArrayIndex x)"

lemmas iso1ListOfRootCertificateIDs_steps = iso1ListOfRootCertificateIDs_enc_step_def
  iso1ListOfRootCertificateIDs_dec_step_def

lemmas iso1ListOfRootCertificateIDs_props = iso1ListOfRootCertificateIDs_at_def iso1ListOfRootCertificateIDs_sized_def
    same_iso1ListOfRootCertificateIDs_def iso1ListOfRootCertificateIDs_rank_def left_at_def

lemmas iso1ListOfRootCertificateIDs_elements = in_use_nth [where P = iso1X509IssuerSerial_ok]
  slots_nth [where P = iso1X509IssuerSerial_sized]

interpretation iso1ListOfRootCertificateIDs: walking_pair "iso1ListOfRootCertificateIDs_enc_step v"
    "iso1ListOfRootCertificateIDs_dec_step j" "iso1ListOfRootCertificateIDs_at v" "iso1ListOfRootCertificateIDs_rank
    v"
  "\<lambda>a. same_iso1ListOfRootCertificateIDs v a \<and> iso1ListOfRootCertificateIDs_sized a" for v j
proof
  fix g x a assume at: "iso1ListOfRootCertificateIDs_at v g x a"
  then have "g \<in> {158, 159}" by (simp add: iso1ListOfRootCertificateIDs_at_def)
  then show "walks (iso1ListOfRootCertificateIDs_enc_step v) (iso1ListOfRootCertificateIDs_dec_step j)
      (iso1ListOfRootCertificateIDs_at v) (iso1ListOfRootCertificateIDs_rank v)
    (\<lambda>a. same_iso1ListOfRootCertificateIDs v a \<and> iso1ListOfRootCertificateIDs_sized a) g x a" using at
    by - (elim insertE emptyE; (hypsubst, rule walks_by, simp (no_asm) add: iso1ListOfRootCertificateIDs_steps del:
      One_nat_def,
      simp (no_asm) add: iso1ListOfRootCertificateIDs_steps del: One_nat_def,
        simp (asm_lr) add: iso1ListOfRootCertificateIDs_props del: One_nat_def, (elim conjE)?,
      ((rule walks_ifs)+)?); (frule iso1ListOfRootCertificateIDs_ok_def [THEN iffD1], ((drule (1) known)+)?,
        (elim conjE)?, ((drule (1) known)+)?, (elim conjE)?,
      (((rule walks_shapes, simp (no_asm) del: One_nat_def, ((rule reads_intros)+)?);
      ((elim exE conjE)?,
        ((simp (no_asm_simp) add: iso1ListOfRootCertificateIDs_props iso1ListOfRootCertificateIDs_elements counts_def
        array_intros; fail) |
        (simp (asm_lr) add: iso1ListOfRootCertificateIDs_props iso1ListOfRootCertificateIDs_elements counts_def
        array_intros; fail) | (auto simp: iso1ListOfRootCertificateIDs_props iso1ListOfRootCertificateIDs_elements
        counts_def array_intros; fail)))) | (erule (1) notE; fail) |
        ((elim exE conjE)?,
        ((simp (no_asm_simp) add: iso1ListOfRootCertificateIDs_props iso1ListOfRootCertificateIDs_elements counts_def
        array_intros; fail) |
        (simp (asm_lr) add: iso1ListOfRootCertificateIDs_props iso1ListOfRootCertificateIDs_elements counts_def
        array_intros; fail) | (auto simp: iso1ListOfRootCertificateIDs_props iso1ListOfRootCertificateIDs_elements
        counts_def array_intros; fail))))))
qed

lemma reads_iso1ListOfRootCertificateIDs [reads_intros]:
  "iso1ListOfRootCertificateIDs_ok v \<Longrightarrow> iso1ListOfRootCertificateIDs_sized a \<Longrightarrow>
      reads 2612 (\<lambda>s. encode_iso1ListOfRootCertificateIDsType s v) (decode_iso1ListOfRootCertificateIDsType j)
      a (\<lambda>a. same_iso1ListOfRootCertificateIDs v a \<and> iso1ListOfRootCertificateIDs_sized a)"
  unfolding encode_iso1ListOfRootCertificateIDsType_def decode_iso1ListOfRootCertificateIDsType_def [abs_def]
  by (rule reads_start [OF iso1ListOfRootCertificateIDs.walk_reads, THEN reads_mono])
      (auto simp: iso1ListOfRootCertificateIDs_props iso1ListOfRootCertificateIDs_ok_def counts_def due_def
      init_iso1ListOfRootCertificateIDsType_def)

subsection \<open>\<open>iso1CertificateUpdateReqType\<close>\<close>

record iso1CertificateUpdateReqType =
  iso1CertificateUpdateReq_Id_characters :: "u8 list"
  iso1CertificateUpdateReq_Id_charactersLen :: u16
  iso1CertificateUpdateReq_ContractSignatureCertChain :: iso1CertificateChainType
  iso1CertificateUpdateReq_eMAID_characters :: "u8 list"
  iso1CertificateUpdateReq_eMAID_charactersLen :: u16
  iso1CertificateUpdateReq_ListOfRootCertificateIDs :: iso1ListOfRootCertificateIDsType

definition init_iso1CertificateUpdateReqType :: "iso1CertificateUpdateReqType \<Rightarrow>
    iso1CertificateUpdateReqType" where
  "init_iso1CertificateUpdateReqType a = a"

definition iso1CertificateUpdateReq_enc_step :: "iso1CertificateUpdateReqType \<Rightarrow> unit machine" where
  "iso1CertificateUpdateReq_enc_step v grammarID x s =
     (if grammarID = 123 then
        goto 124 x
          (encode_child 1 0 (encode_string_field (iso1CertificateUpdateReq_Id_characters v)
          (iso1CertificateUpdateReq_Id_charactersLen v)) s)
      else if grammarID = 124 then
        goto 125 x
          (encode_child 1 0
          (\<lambda>s. encode_iso1CertificateChainType s (iso1CertificateUpdateReq_ContractSignatureCertChain v)) s)
      else if grammarID = 125 then
        goto 18 x
          (encode_simple 1 0 (encode_string_field (iso1CertificateUpdateReq_eMAID_characters v)
          (iso1CertificateUpdateReq_eMAID_charactersLen v)) s)
      else if grammarID = 18 then
        goto 3 x (encode_child 1 0
          (\<lambda>s. encode_iso1ListOfRootCertificateIDsType s
          (iso1CertificateUpdateReq_ListOfRootCertificateIDs v)) s)
      else if grammarID = 3 then
        finish 4 x (encodeNBitUnsignedInteger s 1 0)
      else Some (EXI_ERROR_UNKOWN_GRAMMAR_ID, (False, grammarID, x), s))"

definition encode_iso1CertificateUpdateReqType :: "bitstream \<Rightarrow> iso1CertificateUpdateReqType \<Rightarrow>
    (errn \<times> bitstream) option" where
  "encode_iso1CertificateUpdateReqType s v = run_encoder (iso1CertificateUpdateReq_enc_step v) 123 () s"

definition iso1CertificateUpdateReq_dec_step :: "u32 \<Rightarrow> (dec_static \<times> iso1CertificateUpdateReqType)
    machine" where
  "iso1CertificateUpdateReq_dec_step j grammarID x s =
     (if grammarID = 123 then
        decode_switch 1
         [(0, decode_child 124 (decode_string_field j 51 iso1CertificateUpdateReq_Id_characters
           (\<lambda>u a. a\<lparr>iso1CertificateUpdateReq_Id_characters := u\<rparr>)
           (\<lambda>u a. a\<lparr>iso1CertificateUpdateReq_Id_charactersLen := u\<rparr>)))] 123 x s
      else if grammarID = 124 then
        decode_switch 1
         [(0, decode_child 125
           (decode_sub (decode_iso1CertificateChainType j) iso1CertificateUpdateReq_ContractSignatureCertChain
           (\<lambda>u a. a\<lparr>iso1CertificateUpdateReq_ContractSignatureCertChain := u\<rparr>)))] 124 x s
      else if grammarID = 125 then
        decode_switch 1
         [(0, decode_simple 125 18 (decode_string_field j 16 iso1CertificateUpdateReq_eMAID_characters
           (\<lambda>u a. a\<lparr>iso1CertificateUpdateReq_eMAID_characters := u\<rparr>)
           (\<lambda>u a. a\<lparr>iso1CertificateUpdateReq_eMAID_charactersLen := u\<rparr>)))] 125 x s
      else if grammarID = 18 then
        decode_switch 1
         [(0, decode_child 3
           (decode_sub (decode_iso1ListOfRootCertificateIDsType j) iso1CertificateUpdateReq_ListOfRootCertificateIDs
           (\<lambda>u a. a\<lparr>iso1CertificateUpdateReq_ListOfRootCertificateIDs := u\<rparr>)))] 18 x s
      else if grammarID = 3 then
        decode_switch 1
         [(0, decode_end 4)] 3 x s
      else Some (EXI_ERROR_UNKOWN_GRAMMAR_ID, (False, grammarID, x), s))"

definition decode_iso1CertificateUpdateReqType :: "u32 \<Rightarrow> iso1CertificateUpdateReqType decoder" where
  "decode_iso1CertificateUpdateReqType j x s = grammar_loop (iso1CertificateUpdateReq_dec_step j) 123
      (fst x, init_iso1CertificateUpdateReqType (snd x)) s"

definition iso1CertificateUpdateReq_ok :: "iso1CertificateUpdateReqType \<Rightarrow> bool" where
  "iso1CertificateUpdateReq_ok v \<longleftrightarrow>
     string_ok 51 (iso1CertificateUpdateReq_Id_characters v) (iso1CertificateUpdateReq_Id_charactersLen v) \<and>
     iso1CertificateChain_ok (iso1CertificateUpdateReq_ContractSignatureCertChain v) \<and>
     string_ok 16 (iso1CertificateUpdateReq_eMAID_characters v) (iso1CertificateUpdateReq_eMAID_charactersLen v)
       \<and>
     iso1ListOfRootCertificateIDs_ok (iso1CertificateUpdateReq_ListOfRootCertificateIDs v)"

definition iso1CertificateUpdateReq_sized :: "iso1CertificateUpdateReqType \<Rightarrow> bool" where
  "iso1CertificateUpdateReq_sized a \<longleftrightarrow>
     length (iso1CertificateUpdateReq_Id_characters a) = 51 \<and>
     iso1CertificateChain_sized (iso1CertificateUpdateReq_ContractSignatureCertChain a) \<and>
     length (iso1CertificateUpdateReq_eMAID_characters a) = 16 \<and>
     iso1ListOfRootCertificateIDs_sized (iso1CertificateUpdateReq_ListOfRootCertificateIDs a)"

definition same_iso1CertificateUpdateReq :: "iso1CertificateUpdateReqType \<Rightarrow> iso1CertificateUpdateReqType
    \<Rightarrow> bool" where
  "same_iso1CertificateUpdateReq v a \<longleftrightarrow>
     iso1CertificateUpdateReq_Id_charactersLen a = iso1CertificateUpdateReq_Id_charactersLen v \<and>
       take (unat (iso1CertificateUpdateReq_Id_charactersLen v)) (iso1CertificateUpdateReq_Id_characters a) = take
       (unat (iso1CertificateUpdateReq_Id_charactersLen v)) (iso1CertificateUpdateReq_Id_characters v) \<and>
     same_iso1CertificateChain (iso1CertificateUpdateReq_ContractSignatureCertChain v)
       (iso1CertificateUpdateReq_ContractSignatureCertChain a) \<and>
     iso1CertificateUpdateReq_eMAID_charactersLen a = iso1CertificateUpdateReq_eMAID_charactersLen v \<and>
       take (unat (iso1CertificateUpdateReq_eMAID_charactersLen v))
       (iso1CertificateUpdateReq_eMAID_characters a) = take (unat (iso1CertificateUpdateReq_eMAID_charactersLen v))
       (iso1CertificateUpdateReq_eMAID_characters v) \<and>
     same_iso1ListOfRootCertificateIDs (iso1CertificateUpdateReq_ListOfRootCertificateIDs v)
       (iso1CertificateUpdateReq_ListOfRootCertificateIDs a)"

definition iso1CertificateUpdateReq_at :: "iso1CertificateUpdateReqType \<Rightarrow> nat \<Rightarrow>
    iso1CertificateUpdateReqType \<Rightarrow> bool" where
  "iso1CertificateUpdateReq_at v g a \<longleftrightarrow>
     iso1CertificateUpdateReq_ok v \<and>
     g \<in> {123, 124, 125, 18, 3} \<and>
     iso1CertificateUpdateReq_sized a \<and>
     (g \<notin> {123} \<longrightarrow> iso1CertificateUpdateReq_Id_charactersLen
       a = iso1CertificateUpdateReq_Id_charactersLen v \<and>
       take (unat (iso1CertificateUpdateReq_Id_charactersLen v)) (iso1CertificateUpdateReq_Id_characters a) = take
       (unat (iso1CertificateUpdateReq_Id_charactersLen v)) (iso1CertificateUpdateReq_Id_characters v)) \<and>
     (g \<notin> {123, 124} \<longrightarrow>
       same_iso1CertificateChain (iso1CertificateUpdateReq_ContractSignatureCertChain v)
       (iso1CertificateUpdateReq_ContractSignatureCertChain a)) \<and>
     (g \<notin> {123, 124, 125} \<longrightarrow> iso1CertificateUpdateReq_eMAID_charactersLen
       a = iso1CertificateUpdateReq_eMAID_charactersLen v \<and>
       take (unat (iso1CertificateUpdateReq_eMAID_charactersLen v))
       (iso1CertificateUpdateReq_eMAID_characters a) = take (unat (iso1CertificateUpdateReq_eMAID_charactersLen v))
       (iso1CertificateUpdateReq_eMAID_characters v)) \<and>
     (g \<notin> {123, 124, 125, 18} \<longrightarrow> same_iso1ListOfRootCertificateIDs
       (iso1CertificateUpdateReq_ListOfRootCertificateIDs v) (iso1CertificateUpdateReq_ListOfRootCertificateIDs a))"

lemmas iso1CertificateUpdateReq_steps = iso1CertificateUpdateReq_enc_step_def
  iso1CertificateUpdateReq_dec_step_def

lemmas iso1CertificateUpdateReq_props = iso1CertificateUpdateReq_at_def iso1CertificateUpdateReq_sized_def
    same_iso1CertificateUpdateReq_def left_at_def

interpretation iso1CertificateUpdateReq: paired_machines "iso1CertificateUpdateReq_enc_step v"
    "iso1CertificateUpdateReq_dec_step j" "iso1CertificateUpdateReq_at v"
  "left_at [(123, 35781), (124, 35348), (125, 2769), (18, 2614), (3, 1)]" "\<lambda>a. same_iso1CertificateUpdateReq v
      a \<and> iso1CertificateUpdateReq_sized a" for v j
proof
  fix g a assume at: "iso1CertificateUpdateReq_at v g a"
  then have "g \<in> {123, 124, 125, 18, 3}" by (simp add: iso1CertificateUpdateReq_at_def)
  then show "hops (iso1CertificateUpdateReq_enc_step v) (iso1CertificateUpdateReq_dec_step j)
      (iso1CertificateUpdateReq_at v)
    (left_at [(123, 35781), (124, 35348), (125, 2769), (18, 2614), (3, 1)])
      (\<lambda>a. same_iso1CertificateUpdateReq v a \<and> iso1CertificateUpdateReq_sized a) g a" using at
    by - (elim insertE emptyE; (hypsubst, rule hops_by, simp (no_asm) add: iso1CertificateUpdateReq_steps del:
      One_nat_def,
      simp (no_asm) add: iso1CertificateUpdateReq_steps del: One_nat_def,
        simp (asm_lr) add: iso1CertificateUpdateReq_props del: One_nat_def, (elim conjE)?,
      ((rule walks_ifs)+)?); (frule iso1CertificateUpdateReq_ok_def [THEN iffD1], ((drule (1) known)+)?,
        (elim conjE)?, ((drule (1) known)+)?, (elim conjE)?,
      (((rule walks_shapes, simp (no_asm) del: One_nat_def, ((rule reads_intros)+)?);
      ((elim exE conjE)?,
        ((simp (no_asm_simp) add: iso1CertificateUpdateReq_props; fail) |
        (simp (asm_lr) add: iso1CertificateUpdateReq_props; fail) |
        (auto simp: iso1CertificateUpdateReq_props; fail)))) | (erule (1) notE; fail) |
        ((elim exE conjE)?,
        ((simp (no_asm_simp) add: iso1CertificateUpdateReq_props; fail) |
        (simp (asm_lr) add: iso1CertificateUpdateReq_props; fail) |
        (auto simp: iso1CertificateUpdateReq_props; fail))))))
qed

lemma reads_iso1CertificateUpdateReq [reads_intros]:
  "iso1CertificateUpdateReq_ok v \<Longrightarrow> iso1CertificateUpdateReq_sized a \<Longrightarrow>
      reads 35781 (\<lambda>s. encode_iso1CertificateUpdateReqType s v) (decode_iso1CertificateUpdateReqType j) a
      (\<lambda>a. same_iso1CertificateUpdateReq v a \<and> iso1CertificateUpdateReq_sized a)"
  unfolding encode_iso1CertificateUpdateReqType_def decode_iso1CertificateUpdateReqType_def [abs_def]
  by (rule reads_start [OF iso1CertificateUpdateReq.machine_reads, of _ 123, THEN reads_mono])
      (auto simp: iso1CertificateUpdateReq_at_def iso1CertificateUpdateReq_sized_def
      init_iso1CertificateUpdateReqType_def left_at_def)

interpretation iso1CertificateUpdateReq_enc: advancing_machine "iso1CertificateUpdateReq_enc_step v" "left_at
    [(123, 5), (124, 4), (125, 3), (18, 2), (3, 1)]" for v
  by unfold_locales (auto simp: iso1CertificateUpdateReq_steps dest!: advance_dests split: if_splits;
      simp add: left_at_def)

interpretation iso1CertificateUpdateReq_dec: advancing_machine "iso1CertificateUpdateReq_dec_step j" "left_at
    [(123, 5), (124, 4), (125, 3), (18, 2), (3, 1)]" for j
  by unfold_locales (auto simp: iso1CertificateUpdateReq_steps dest!: advance_dests elim!:
      decode_switch_next split: if_splits;
      simp add: left_at_def)

subsection \<open>\<open>iso1ContractSignatureEncryptedPrivateKeyType\<close>\<close>

record iso1ContractSignatureEncryptedPrivateKeyType =
  iso1ContractSignatureEncryptedPrivateKey_Id_characters :: "u8 list"
  iso1ContractSignatureEncryptedPrivateKey_Id_charactersLen :: u16
  iso1ContractSignatureEncryptedPrivateKey_CONTENT_bytes :: "u8 list"
  iso1ContractSignatureEncryptedPrivateKey_CONTENT_bytesLen :: u16

definition init_iso1ContractSignatureEncryptedPrivateKeyType :: "iso1ContractSignatureEncryptedPrivateKeyType
    \<Rightarrow> iso1ContractSignatureEncryptedPrivateKeyType" where
  "init_iso1ContractSignatureEncryptedPrivateKeyType a = a"

definition iso1ContractSignatureEncryptedPrivateKey_enc_step :: "iso1ContractSignatureEncryptedPrivateKeyType
    \<Rightarrow> unit machine" where
  "iso1ContractSignatureEncryptedPrivateKey_enc_step v grammarID x s =
     (if grammarID = 23 then
        goto 24 x
          (encode_child 1 0 (encode_string_field (iso1ContractSignatureEncryptedPrivateKey_Id_characters v)
          (iso1ContractSignatureEncryptedPrivateKey_Id_charactersLen v)) s)
      else if grammarID = 24 then
        goto 3 x (encode_child 1 0 (encode_bytes_field (iso1ContractSignatureEncryptedPrivateKey_CONTENT_bytes v)
          (iso1ContractSignatureEncryptedPrivateKey_CONTENT_bytesLen v)) s)
      else if grammarID = 3 then
        finish 4 x (encodeNBitUnsignedInteger s 1 0)
      else Some (EXI_ERROR_UNKOWN_GRAMMAR_ID, (False, grammarID, x), s))"

definition encode_iso1ContractSignatureEncryptedPrivateKeyType :: "bitstream \<Rightarrow>
    iso1ContractSignatureEncryptedPrivateKeyType \<Rightarrow> (errn \<times> bitstream) option" where
  "encode_iso1ContractSignatureEncryptedPrivateKeyType s v = run_encoder
      (iso1ContractSignatureEncryptedPrivateKey_enc_step v) 23 () s"

definition iso1ContractSignatureEncryptedPrivateKey_dec_step :: "u32 \<Rightarrow>
    (dec_static \<times> iso1ContractSignatureEncryptedPrivateKeyType) machine" where
  "iso1ContractSignatureEncryptedPrivateKey_dec_step j grammarID x s =
     (if grammarID = 23 then
        decode_switch 1
         [(0, decode_child 24 (decode_string_field j 51 iso1ContractSignatureEncryptedPrivateKey_Id_characters
           (\<lambda>u a. a\<lparr>iso1ContractSignatureEncryptedPrivateKey_Id_characters := u\<rparr>)
           (\<lambda>u a. a\<lparr>iso1ContractSignatureEncryptedPrivateKey_Id_charactersLen := u\<rparr>)))] 23 x s
      else if grammarID = 24 then
        decode_switch 1
         [(0, decode_child 3 (decode_bytes_field j 350 iso1ContractSignatureEncryptedPrivateKey_CONTENT_bytes
           (\<lambda>u a. a\<lparr>iso1ContractSignatureEncryptedPrivateKey_CONTENT_bytes := u\<rparr>)
           (\<lambda>u a. a\<lparr>iso1ContractSignatureEncryptedPrivateKey_CONTENT_bytesLen := u\<rparr>)))] 24 x s
      else if grammarID = 3 then
        decode_switch 1
         [(0, decode_end 4)] 3 x s
      else Some (EXI_ERROR_UNKOWN_GRAMMAR_ID, (False, grammarID, x), s))"

definition decode_iso1ContractSignatureEncryptedPrivateKeyType :: "u32 \<Rightarrow>
    iso1ContractSignatureEncryptedPrivateKeyType decoder" where
  "decode_iso1ContractSignatureEncryptedPrivateKeyType j x s = grammar_loop
      (iso1ContractSignatureEncryptedPrivateKey_dec_step j) 23
      (fst x, init_iso1ContractSignatureEncryptedPrivateKeyType (snd x)) s"

definition iso1ContractSignatureEncryptedPrivateKey_ok :: "iso1ContractSignatureEncryptedPrivateKeyType \<Rightarrow>
    bool" where
  "iso1ContractSignatureEncryptedPrivateKey_ok v \<longleftrightarrow>
     string_ok 51 (iso1ContractSignatureEncryptedPrivateKey_Id_characters v)
       (iso1ContractSignatureEncryptedPrivateKey_Id_charactersLen v) \<and>
     length (iso1ContractSignatureEncryptedPrivateKey_CONTENT_bytes v) = 350 \<and>
       unat (iso1ContractSignatureEncryptedPrivateKey_CONTENT_bytesLen v) \<le> 350"

definition iso1ContractSignatureEncryptedPrivateKey_sized :: "iso1ContractSignatureEncryptedPrivateKeyType
    \<Rightarrow> bool" where
  "iso1ContractSignatureEncryptedPrivateKey_sized a \<longleftrightarrow>
     length (iso1ContractSignatureEncryptedPrivateKey_Id_characters a) = 51 \<and>
     length (iso1ContractSignatureEncryptedPrivateKey_CONTENT_bytes a) = 350"

definition same_iso1ContractSignatureEncryptedPrivateKey :: "iso1ContractSignatureEncryptedPrivateKeyType
    \<Rightarrow> iso1ContractSignatureEncryptedPrivateKeyType \<Rightarrow> bool" where
  "same_iso1ContractSignatureEncryptedPrivateKey v a \<longleftrightarrow>
     iso1ContractSignatureEncryptedPrivateKey_Id_charactersLen
       a = iso1ContractSignatureEncryptedPrivateKey_Id_charactersLen v \<and>
       take (unat (iso1ContractSignatureEncryptedPrivateKey_Id_charactersLen v))
       (iso1ContractSignatureEncryptedPrivateKey_Id_characters a) = take
       (unat (iso1ContractSignatureEncryptedPrivateKey_Id_charactersLen v))
       (iso1ContractSignatureEncryptedPrivateKey_Id_characters v) \<and>
     iso1ContractSignatureEncryptedPrivateKey_CONTENT_bytesLen
       a = iso1ContractSignatureEncryptedPrivateKey_CONTENT_bytesLen v \<and>
       take (unat (iso1ContractSignatureEncryptedPrivateKey_CONTENT_bytesLen v))
       (iso1ContractSignatureEncryptedPrivateKey_CONTENT_bytes a) = take
       (unat (iso1ContractSignatureEncryptedPrivateKey_CONTENT_bytesLen v))
       (iso1ContractSignatureEncryptedPrivateKey_CONTENT_bytes v)"

definition iso1ContractSignatureEncryptedPrivateKey_at :: "iso1ContractSignatureEncryptedPrivateKeyType \<Rightarrow>
    nat \<Rightarrow> iso1ContractSignatureEncryptedPrivateKeyType \<Rightarrow> bool" where
  "iso1ContractSignatureEncryptedPrivateKey_at v g a \<longleftrightarrow>
     iso1ContractSignatureEncryptedPrivateKey_ok v \<and>
     g \<in> {23, 24, 3} \<and>
     iso1ContractSignatureEncryptedPrivateKey_sized a \<and>
     (g \<notin> {23} \<longrightarrow> iso1ContractSignatureEncryptedPrivateKey_Id_charactersLen
       a = iso1ContractSignatureEncryptedPrivateKey_Id_charactersLen v \<and>
       take (unat (iso1ContractSignatureEncryptedPrivateKey_Id_charactersLen v))
       (iso1ContractSignatureEncryptedPrivateKey_Id_characters a) = take
       (unat (iso1ContractSignatureEncryptedPrivateKey_Id_charactersLen v))
       (iso1ContractSignatureEncryptedPrivateKey_Id_characters v)) \<and>
     (g \<notin> {23, 24} \<longrightarrow> iso1ContractSignatureEncryptedPrivateKey_CONTENT_bytesLen
       a = iso1ContractSignatureEncryptedPrivateKey_CONTENT_bytesLen v \<and>
       take (unat (iso1ContractSignatureEncryptedPrivateKey_CONTENT_bytesLen v))
       (iso1ContractSignatureEncryptedPrivateKey_CONTENT_bytes a) = take
       (unat (iso1ContractSignatureEncryptedPrivateKey_CONTENT_bytesLen v))
       (iso1ContractSignatureEncryptedPrivateKey_CONTENT_bytes v))"

lemmas iso1ContractSignatureEncryptedPrivateKey_steps = iso1ContractSignatureEncryptedPrivateKey_enc_step_def
  iso1ContractSignatureEncryptedPrivateKey_dec_step_def

lemmas iso1ContractSignatureEncryptedPrivateKey_props = iso1ContractSignatureEncryptedPrivateKey_at_def
    iso1ContractSignatureEncryptedPrivateKey_sized_def same_iso1ContractSignatureEncryptedPrivateKey_def left_at_def

interpretation iso1ContractSignatureEncryptedPrivateKey: paired_machines
    "iso1ContractSignatureEncryptedPrivateKey_enc_step v" "iso1ContractSignatureEncryptedPrivateKey_dec_step j"
    "iso1ContractSignatureEncryptedPrivateKey_at v"
  "left_at [(23, 3259), (24, 2826), (3, 1)]" "\<lambda>a. same_iso1ContractSignatureEncryptedPrivateKey v a \<and>
      iso1ContractSignatureEncryptedPrivateKey_sized a" for v j
proof
  fix g a assume at: "iso1ContractSignatureEncryptedPrivateKey_at v g a"
  then have "g \<in> {23, 24, 3}" by (simp add: iso1ContractSignatureEncryptedPrivateKey_at_def)
  then show "hops (iso1ContractSignatureEncryptedPrivateKey_enc_step v)
      (iso1ContractSignatureEncryptedPrivateKey_dec_step j) (iso1ContractSignatureEncryptedPrivateKey_at v)
    (left_at [(23, 3259), (24, 2826), (3, 1)]) (\<lambda>a. same_iso1ContractSignatureEncryptedPrivateKey v a \<and>
      iso1ContractSignatureEncryptedPrivateKey_sized a) g a" using at
    by - (elim insertE emptyE;
      (hypsubst, rule hops_by, simp (no_asm) add: iso1ContractSignatureEncryptedPrivateKey_steps del: One_nat_def,
      simp (no_asm) add: iso1ContractSignatureEncryptedPrivateKey_steps del: One_nat_def,
        simp (asm_lr) add: iso1ContractSignatureEncryptedPrivateKey_props del: One_nat_def, (elim conjE)?,
      ((rule walks_ifs)+)?); (frule iso1ContractSignatureEncryptedPrivateKey_ok_def [THEN iffD1],
        ((drule (1) known)+)?, (elim conjE)?, ((drule (1) known)+)?, (elim conjE)?,
      (((rule walks_shapes, simp (no_asm) del: One_nat_def, ((rule reads_intros)+)?);
      ((elim exE conjE)?,
        ((simp (no_asm_simp) add: iso1ContractSignatureEncryptedPrivateKey_props; fail) |
        (simp (asm_lr) add: iso1ContractSignatureEncryptedPrivateKey_props; fail) |
        (auto simp: iso1ContractSignatureEncryptedPrivateKey_props; fail)))) | (erule (1) notE; fail) |
        ((elim exE conjE)?,
        ((simp (no_asm_simp) add: iso1ContractSignatureEncryptedPrivateKey_props; fail) |
        (simp (asm_lr) add: iso1ContractSignatureEncryptedPrivateKey_props; fail) |
        (auto simp: iso1ContractSignatureEncryptedPrivateKey_props; fail))))))
qed

lemma reads_iso1ContractSignatureEncryptedPrivateKey [reads_intros]:
  "iso1ContractSignatureEncryptedPrivateKey_ok v \<Longrightarrow> iso1ContractSignatureEncryptedPrivateKey_sized a
      \<Longrightarrow> reads 3259 (\<lambda>s. encode_iso1ContractSignatureEncryptedPrivateKeyType s v)
      (decode_iso1ContractSignatureEncryptedPrivateKeyType j) a
      (\<lambda>a. same_iso1ContractSignatureEncryptedPrivateKey v a \<and>
      iso1ContractSignatureEncryptedPrivateKey_sized a)"
  unfolding encode_iso1ContractSignatureEncryptedPrivateKeyType_def
      decode_iso1ContractSignatureEncryptedPrivateKeyType_def [abs_def]
  by (rule reads_start [OF iso1ContractSignatureEncryptedPrivateKey.machine_reads, of _ 23, THEN reads_mono])
      (auto simp: iso1ContractSignatureEncryptedPrivateKey_at_def iso1ContractSignatureEncryptedPrivateKey_sized_def
      init_iso1ContractSignatureEncryptedPrivateKeyType_def left_at_def)

interpretation iso1ContractSignatureEncryptedPrivateKey_enc: advancing_machine
    "iso1ContractSignatureEncryptedPrivateKey_enc_step v" "left_at [(23, 3), (24, 2), (3, 1)]" for v
  by unfold_locales (auto simp: iso1ContractSignatureEncryptedPrivateKey_steps left_at_def dest!: advance_dests split:
      if_splits)

interpretation iso1ContractSignatureEncryptedPrivateKey_dec: advancing_machine
    "iso1ContractSignatureEncryptedPrivateKey_dec_step j" "left_at [(23, 3), (24, 2), (3, 1)]" for j
  by unfold_locales (auto simp: iso1ContractSignatureEncryptedPrivateKey_steps dest!: advance_dests elim!:
      decode_switch_next split: if_splits;
      simp add: left_at_def)

subsection \<open>\<open>iso1DiffieHellmanPublickeyType\<close>\<close>

record iso1DiffieHellmanPublickeyType =
  iso1DiffieHellmanPublickey_Id_characters :: "u8 list"
  iso1DiffieHellmanPublickey_Id_charactersLen :: u16
  iso1DiffieHellmanPublickey_CONTENT_bytes :: "u8 list"
  iso1DiffieHellmanPublickey_CONTENT_bytesLen :: u16

definition init_iso1DiffieHellmanPublickeyType :: "iso1DiffieHellmanPublickeyType \<Rightarrow>
    iso1DiffieHellmanPublickeyType" where
  "init_iso1DiffieHellmanPublickeyType a = a"

definition iso1DiffieHellmanPublickey_enc_step :: "iso1DiffieHellmanPublickeyType \<Rightarrow> unit machine" where
  "iso1DiffieHellmanPublickey_enc_step v grammarID x s =
     (if grammarID = 23 then
        goto 24 x
          (encode_child 1 0 (encode_string_field (iso1DiffieHellmanPublickey_Id_characters v)
          (iso1DiffieHellmanPublickey_Id_charactersLen v)) s)
      else if grammarID = 24 then
        goto 3 x (encode_child 1 0 (encode_bytes_field (iso1DiffieHellmanPublickey_CONTENT_bytes v)
          (iso1DiffieHellmanPublickey_CONTENT_bytesLen v)) s)
      else if grammarID = 3 then
        finish 4 x (encodeNBitUnsignedInteger s 1 0)
      else Some (EXI_ERROR_UNKOWN_GRAMMAR_ID, (False, grammarID, x), s))"

definition encode_iso1DiffieHellmanPublickeyType :: "bitstream \<Rightarrow> iso1DiffieHellmanPublickeyType
    \<Rightarrow> (errn \<times> bitstream) option" where
  "encode_iso1DiffieHellmanPublickeyType s v = run_encoder (iso1DiffieHellmanPublickey_enc_step v) 23 () s"

definition iso1DiffieHellmanPublickey_dec_step :: "u32 \<Rightarrow>
    (dec_static \<times> iso1DiffieHellmanPublickeyType) machine" where
  "iso1DiffieHellmanPublickey_dec_step j grammarID x s =
     (if grammarID = 23 then
        decode_switch 1
         [(0, decode_child 24 (decode_string_field j 51 iso1DiffieHellmanPublickey_Id_characters
           (\<lambda>u a. a\<lparr>iso1DiffieHellmanPublickey_Id_characters := u\<rparr>)
           (\<lambda>u a. a\<lparr>iso1DiffieHellmanPublickey_Id_charactersLen := u\<rparr>)))] 23 x s
      else if grammarID = 24 then
        decode_switch 1
         [(0, decode_child 3 (decode_bytes_field j 350 iso1DiffieHellmanPublickey_CONTENT_bytes
           (\<lambda>u a. a\<lparr>iso1DiffieHellmanPublickey_CONTENT_bytes := u\<rparr>)
           (\<lambda>u a. a\<lparr>iso1DiffieHellmanPublickey_CONTENT_bytesLen := u\<rparr>)))] 24 x s
      else if grammarID = 3 then
        decode_switch 1
         [(0, decode_end 4)] 3 x s
      else Some (EXI_ERROR_UNKOWN_GRAMMAR_ID, (False, grammarID, x), s))"

definition decode_iso1DiffieHellmanPublickeyType :: "u32 \<Rightarrow> iso1DiffieHellmanPublickeyType decoder" where
  "decode_iso1DiffieHellmanPublickeyType j x s = grammar_loop (iso1DiffieHellmanPublickey_dec_step j) 23
      (fst x, init_iso1DiffieHellmanPublickeyType (snd x)) s"

definition iso1DiffieHellmanPublickey_ok :: "iso1DiffieHellmanPublickeyType \<Rightarrow> bool" where
  "iso1DiffieHellmanPublickey_ok v \<longleftrightarrow>
     string_ok 51 (iso1DiffieHellmanPublickey_Id_characters v) (iso1DiffieHellmanPublickey_Id_charactersLen v) \<and>
     length (iso1DiffieHellmanPublickey_CONTENT_bytes v) = 350 \<and>
       unat (iso1DiffieHellmanPublickey_CONTENT_bytesLen v) \<le> 350"

definition iso1DiffieHellmanPublickey_sized :: "iso1DiffieHellmanPublickeyType \<Rightarrow> bool" where
  "iso1DiffieHellmanPublickey_sized a \<longleftrightarrow>
     length (iso1DiffieHellmanPublickey_Id_characters a) = 51 \<and>
     length (iso1DiffieHellmanPublickey_CONTENT_bytes a) = 350"

definition same_iso1DiffieHellmanPublickey :: "iso1DiffieHellmanPublickeyType \<Rightarrow>
    iso1DiffieHellmanPublickeyType \<Rightarrow> bool" where
  "same_iso1DiffieHellmanPublickey v a \<longleftrightarrow>
     iso1DiffieHellmanPublickey_Id_charactersLen a = iso1DiffieHellmanPublickey_Id_charactersLen v \<and>
       take (unat (iso1DiffieHellmanPublickey_Id_charactersLen v)) (iso1DiffieHellmanPublickey_Id_characters a) = take
       (unat (iso1DiffieHellmanPublickey_Id_charactersLen v)) (iso1DiffieHellmanPublickey_Id_characters v) \<and>
     iso1DiffieHellmanPublickey_CONTENT_bytesLen a = iso1DiffieHellmanPublickey_CONTENT_bytesLen v \<and>
       take (unat (iso1DiffieHellmanPublickey_CONTENT_bytesLen v)) (iso1DiffieHellmanPublickey_CONTENT_bytes a) = take
       (unat (iso1DiffieHellmanPublickey_CONTENT_bytesLen v)) (iso1DiffieHellmanPublickey_CONTENT_bytes v)"

definition iso1DiffieHellmanPublickey_at :: "iso1DiffieHellmanPublickeyType \<Rightarrow> nat \<Rightarrow>
    iso1DiffieHellmanPublickeyType \<Rightarrow> bool" where
  "iso1DiffieHellmanPublickey_at v g a \<longleftrightarrow>
     iso1DiffieHellmanPublickey_ok v \<and>
     g \<in> {23, 24, 3} \<and>
     iso1DiffieHellmanPublickey_sized a \<and>
     (g \<notin> {23} \<longrightarrow> iso1DiffieHellmanPublickey_Id_charactersLen
       a = iso1DiffieHellmanPublickey_Id_charactersLen v \<and>
       take (unat (iso1DiffieHellmanPublickey_Id_charactersLen v)) (iso1DiffieHellmanPublickey_Id_characters a) = take
       (unat (iso1DiffieHellmanPublickey_Id_charactersLen v)) (iso1DiffieHellmanPublickey_Id_characters v)) \<and>
     (g \<notin> {23, 24} \<longrightarrow> iso1DiffieHellmanPublickey_CONTENT_bytesLen
       a = iso1DiffieHellmanPublickey_CONTENT_bytesLen v \<and>
       take (unat (iso1DiffieHellmanPublickey_CONTENT_bytesLen v)) (iso1DiffieHellmanPublickey_CONTENT_bytes a) = take
       (unat (iso1DiffieHellmanPublickey_CONTENT_bytesLen v)) (iso1DiffieHellmanPublickey_CONTENT_bytes v))"

lemmas iso1DiffieHellmanPublickey_steps = iso1DiffieHellmanPublickey_enc_step_def
  iso1DiffieHellmanPublickey_dec_step_def

lemmas iso1DiffieHellmanPublickey_props = iso1DiffieHellmanPublickey_at_def iso1DiffieHellmanPublickey_sized_def
    same_iso1DiffieHellmanPublickey_def left_at_def

interpretation iso1DiffieHellmanPublickey: paired_machines "iso1DiffieHellmanPublickey_enc_step v"
    "iso1DiffieHellmanPublickey_dec_step j" "iso1DiffieHellmanPublickey_at v"
  "left_at [(23, 3259), (24, 2826), (3, 1)]" "\<lambda>a. same_iso1DiffieHellmanPublickey v a \<and>
      iso1DiffieHellmanPublickey_sized a" for v j
proof
  fix g a assume at: "iso1DiffieHellmanPublickey_at v g a"
  then have "g \<in> {23, 24, 3}" by (simp add: iso1DiffieHellmanPublickey_at_def)
  then show "hops (iso1DiffieHellmanPublickey_enc_step v) (iso1DiffieHellmanPublickey_dec_step j)
      (iso1DiffieHellmanPublickey_at v)
    (left_at [(23, 3259), (24, 2826), (3, 1)]) (\<lambda>a. same_iso1DiffieHellmanPublickey v a \<and>
      iso1DiffieHellmanPublickey_sized a) g a" using at
    by - (elim insertE emptyE; (hypsubst, rule hops_by, simp (no_asm) add: iso1DiffieHellmanPublickey_steps del:
      One_nat_def,
      simp (no_asm) add: iso1DiffieHellmanPublickey_steps del: One_nat_def,
        simp (asm_lr) add: iso1DiffieHellmanPublickey_props del: One_nat_def, (elim conjE)?,
      ((rule walks_ifs)+)?); (frule iso1DiffieHellmanPublickey_ok_def [THEN iffD1], ((drule (1) known)+)?,
        (elim conjE)?, ((drule (1) known)+)?, (elim conjE)?,
      (((rule walks_shapes, simp (no_asm) del: One_nat_def, ((rule reads_intros)+)?);
      ((elim exE conjE)?,
        ((simp (no_asm_simp) add: iso1DiffieHellmanPublickey_props; fail) |
        (simp (asm_lr) add: iso1DiffieHellmanPublickey_props; fail) |
        (auto simp: iso1DiffieHellmanPublickey_props; fail)))) | (erule (1) notE; fail) |
        ((elim exE conjE)?,
        ((simp (no_asm_simp) add: iso1DiffieHellmanPublickey_props; fail) |
        (simp (asm_lr) add: iso1DiffieHellmanPublickey_props; fail) |
        (auto simp: iso1DiffieHellmanPublickey_props; fail))))))
qed

lemma reads_iso1DiffieHellmanPublickey [reads_intros]:
  "iso1DiffieHellmanPublickey_ok v \<Longrightarrow> iso1DiffieHellmanPublickey_sized a \<Longrightarrow>
      reads 3259 (\<lambda>s. encode_iso1DiffieHellmanPublickeyType s v) (decode_iso1DiffieHellmanPublickeyType j) a
      (\<lambda>a. same_iso1DiffieHellmanPublickey v a \<and> iso1DiffieHellmanPublickey_sized a)"
  unfolding encode_iso1DiffieHellmanPublickeyType_def decode_iso1DiffieHellmanPublickeyType_def [abs_def]
  by (rule reads_start [OF iso1DiffieHellmanPublickey.machine_reads, of _ 23, THEN reads_mono])
      (auto simp: iso1DiffieHellmanPublickey_at_def iso1DiffieHellmanPublickey_sized_def
      init_iso1DiffieHellmanPublickeyType_def left_at_def)

interpretation iso1DiffieHellmanPublickey_enc: advancing_machine "iso1DiffieHellmanPublickey_enc_step v" "left_at
    [(23, 3), (24, 2), (3, 1)]" for v
  by unfold_locales (auto simp: iso1DiffieHellmanPublickey_steps dest!: advance_dests split: if_splits;
      simp add: left_at_def)

interpretation iso1DiffieHellmanPublickey_dec: advancing_machine "iso1DiffieHellmanPublickey_dec_step j" "left_at
    [(23, 3), (24, 2), (3, 1)]" for j
  by unfold_locales (auto simp: iso1DiffieHellmanPublickey_steps dest!: advance_dests elim!:
      decode_switch_next split: if_splits;
      simp add: left_at_def)

subsection \<open>\<open>iso1CertificateUpdateResType\<close>\<close>

record iso1CertificateUpdateResType =
  iso1CertificateUpdateRes_ResponseCode :: u32
  iso1CertificateUpdateRes_SAProvisioningCertificateChain :: iso1CertificateChainType
  iso1CertificateUpdateRes_ContractSignatureCertChain :: iso1CertificateChainType
  iso1CertificateUpdateRes_ContractSignatureEncryptedPrivateKey :: iso1ContractSignatureEncryptedPrivateKeyType
  iso1CertificateUpdateRes_DHpublickey :: iso1DiffieHellmanPublickeyType
  iso1CertificateUpdateRes_eMAID :: iso1EMAIDType
  iso1CertificateUpdateRes_RetryCounter :: u16
  iso1CertificateUpdateRes_RetryCounter_isUsed :: bool

definition init_iso1CertificateUpdateResType :: "iso1CertificateUpdateResType \<Rightarrow>
    iso1CertificateUpdateResType" where
  "init_iso1CertificateUpdateResType a = a\<lparr>iso1CertificateUpdateRes_RetryCounter_isUsed := False\<rparr>"

definition iso1CertificateUpdateRes_enc_step :: "iso1CertificateUpdateResType \<Rightarrow> unit machine" where
  "iso1CertificateUpdateRes_enc_step v grammarID x s =
     (if grammarID = 299 then
        goto 300 x
          (encode_simple 1 0 (\<lambda>s. encodeNBitUnsignedInteger s 5 (iso1CertificateUpdateRes_ResponseCode v)) s)
      else if grammarID = 300 then
        goto 301 x
          (encode_child 1 0
          (\<lambda>s. encode_iso1CertificateChainType s (iso1CertificateUpdateRes_SAProvisioningCertificateChain v))
          s)
      else if grammarID = 301 then
        goto 302 x
          (encode_child 1 0
          (\<lambda>s. encode_iso1CertificateChainType s (iso1CertificateUpdateRes_ContractSignatureCertChain v)) s)
      else if grammarID = 302 then
        goto 303 x
          (encode_child 1 0 (\<lambda>s. encode_iso1ContractSignatureEncryptedPrivateKeyType s
          (iso1CertificateUpdateRes_ContractSignatureEncryptedPrivateKey v)) s)
      else if grammarID = 303 then
        goto 304 x
          (encode_child 1 0
          (\<lambda>s. encode_iso1DiffieHellmanPublickeyType s (iso1CertificateUpdateRes_DHpublickey v)) s)
      else if grammarID = 304 then
        goto 305 x (encode_child 1 0 (\<lambda>s. encode_iso1EMAIDType s (iso1CertificateUpdateRes_eMAID v)) s)
      else if grammarID = 305 then
        if iso1CertificateUpdateRes_RetryCounter_isUsed v then
          goto 3 x (encode_simple 2 0 (\<lambda>s. encodeInteger16 s (iso1CertificateUpdateRes_RetryCounter v)) s)
        else finish 4 x (encodeNBitUnsignedInteger s 2 1)
      else if grammarID = 3 then
        finish 4 x (encodeNBitUnsignedInteger s 1 0)
      else Some (EXI_ERROR_UNKOWN_GRAMMAR_ID, (False, grammarID, x), s))"

definition encode_iso1CertificateUpdateResType :: "bitstream \<Rightarrow> iso1CertificateUpdateResType \<Rightarrow>
    (errn \<times> bitstream) option" where
  "encode_iso1CertificateUpdateResType s v = run_encoder (iso1CertificateUpdateRes_enc_step v) 299 () s"

definition iso1CertificateUpdateRes_dec_step :: "u32 \<Rightarrow> (dec_static \<times> iso1CertificateUpdateResType)
    machine" where
  "iso1CertificateUpdateRes_dec_step j grammarID x s =
     (if grammarID = 299 then
        decode_switch 1
         [(0, decode_simple 299 300
           (decode_nbit_field 5 (\<lambda>u a. a\<lparr>iso1CertificateUpdateRes_ResponseCode := u\<rparr>)))] 299 x s
      else if grammarID = 300 then
        decode_switch 1
         [(0, decode_child 301
           (decode_sub (decode_iso1CertificateChainType j) iso1CertificateUpdateRes_SAProvisioningCertificateChain
           (\<lambda>u a. a\<lparr>iso1CertificateUpdateRes_SAProvisioningCertificateChain := u\<rparr>)))] 300 x s
      else if grammarID = 301 then
        decode_switch 1
         [(0, decode_child 302
           (decode_sub (decode_iso1CertificateChainType j) iso1CertificateUpdateRes_ContractSignatureCertChain
           (\<lambda>u a. a\<lparr>iso1CertificateUpdateRes_ContractSignatureCertChain := u\<rparr>)))] 301 x s
      else if grammarID = 302 then
        decode_switch 1
         [(0, decode_child 303 (decode_sub (decode_iso1ContractSignatureEncryptedPrivateKeyType j)
           iso1CertificateUpdateRes_ContractSignatureEncryptedPrivateKey
           (\<lambda>u a. a\<lparr>iso1CertificateUpdateRes_ContractSignatureEncryptedPrivateKey := u\<rparr>)))] 302
           x s
      else if grammarID = 303 then
        decode_switch 1
         [(0, decode_child 304
           (decode_sub (decode_iso1DiffieHellmanPublickeyType j) iso1CertificateUpdateRes_DHpublickey
           (\<lambda>u a. a\<lparr>iso1CertificateUpdateRes_DHpublickey := u\<rparr>)))] 303 x s
      else if grammarID = 304 then
        decode_switch 1
         [(0, decode_child 305 (decode_sub (decode_iso1EMAIDType j) iso1CertificateUpdateRes_eMAID
           (\<lambda>u a. a\<lparr>iso1CertificateUpdateRes_eMAID := u\<rparr>)))] 304 x s
      else if grammarID = 305 then
        decode_switch 2
         [(0, decode_simple 305 3
           (decode_used (\<lambda>a. a\<lparr>iso1CertificateUpdateRes_RetryCounter_isUsed := True\<rparr>)
           (decode_i16_field j iso1CertificateUpdateRes_RetryCounter
           (\<lambda>u a. a\<lparr>iso1CertificateUpdateRes_RetryCounter := u\<rparr>)))),
          (1, decode_end 4)] 305 x s
      else if grammarID = 3 then
        decode_switch 1
         [(0, decode_end 4)] 3 x s
      else Some (EXI_ERROR_UNKOWN_GRAMMAR_ID, (False, grammarID, x), s))"

definition decode_iso1CertificateUpdateResType :: "u32 \<Rightarrow> iso1CertificateUpdateResType decoder" where
  "decode_iso1CertificateUpdateResType j x s = grammar_loop (iso1CertificateUpdateRes_dec_step j) 299
      (fst x, init_iso1CertificateUpdateResType (snd x)) s"

definition iso1CertificateUpdateRes_ok :: "iso1CertificateUpdateResType \<Rightarrow> bool" where
  "iso1CertificateUpdateRes_ok v \<longleftrightarrow>
     iso1CertificateUpdateRes_ResponseCode v < 32 \<and>
     iso1CertificateChain_ok (iso1CertificateUpdateRes_SAProvisioningCertificateChain v) \<and>
     iso1CertificateChain_ok (iso1CertificateUpdateRes_ContractSignatureCertChain v) \<and>
     iso1ContractSignatureEncryptedPrivateKey_ok (iso1CertificateUpdateRes_ContractSignatureEncryptedPrivateKey v)
       \<and>
     iso1DiffieHellmanPublickey_ok (iso1CertificateUpdateRes_DHpublickey v) \<and>
     iso1EMAID_ok (iso1CertificateUpdateRes_eMAID v)"

definition iso1CertificateUpdateRes_sized :: "iso1CertificateUpdateResType \<Rightarrow> bool" where
  "iso1CertificateUpdateRes_sized a \<longleftrightarrow>
     iso1CertificateChain_sized (iso1CertificateUpdateRes_SAProvisioningCertificateChain a) \<and>
     iso1CertificateChain_sized (iso1CertificateUpdateRes_ContractSignatureCertChain a) \<and>
     iso1ContractSignatureEncryptedPrivateKey_sized (iso1CertificateUpdateRes_ContractSignatureEncryptedPrivateKey a)
       \<and>
     iso1DiffieHellmanPublickey_sized (iso1CertificateUpdateRes_DHpublickey a) \<and>
     iso1EMAID_sized (iso1CertificateUpdateRes_eMAID a)"

definition same_iso1CertificateUpdateRes :: "iso1CertificateUpdateResType \<Rightarrow> iso1CertificateUpdateResType
    \<Rightarrow> bool" where
  "same_iso1CertificateUpdateRes v a \<longleftrightarrow>
     iso1CertificateUpdateRes_ResponseCode a = iso1CertificateUpdateRes_ResponseCode v \<and>
     same_iso1CertificateChain (iso1CertificateUpdateRes_SAProvisioningCertificateChain v)
       (iso1CertificateUpdateRes_SAProvisioningCertificateChain a) \<and>
     same_iso1CertificateChain (iso1CertificateUpdateRes_ContractSignatureCertChain v)
       (iso1CertificateUpdateRes_ContractSignatureCertChain a) \<and>
     same_iso1ContractSignatureEncryptedPrivateKey (iso1CertificateUpdateRes_ContractSignatureEncryptedPrivateKey v)
       (iso1CertificateUpdateRes_ContractSignatureEncryptedPrivateKey a) \<and>
     same_iso1DiffieHellmanPublickey (iso1CertificateUpdateRes_DHpublickey v) (iso1CertificateUpdateRes_DHpublickey a)
       \<and>
     same_iso1EMAID (iso1CertificateUpdateRes_eMAID v) (iso1CertificateUpdateRes_eMAID a) \<and>
     kept (iso1CertificateUpdateRes_RetryCounter_isUsed v) (iso1CertificateUpdateRes_RetryCounter_isUsed a)
       (iso1CertificateUpdateRes_RetryCounter a = iso1CertificateUpdateRes_RetryCounter v)"

definition iso1CertificateUpdateRes_at :: "iso1CertificateUpdateResType \<Rightarrow> nat \<Rightarrow>
    iso1CertificateUpdateResType \<Rightarrow> bool" where
  "iso1CertificateUpdateRes_at v g a \<longleftrightarrow>
     iso1CertificateUpdateRes_ok v \<and>
     g \<in> {299, 300, 301, 302, 303, 304, 305, 3} \<and>
     iso1CertificateUpdateRes_sized a \<and>
     (g \<notin> {299} \<longrightarrow> iso1CertificateUpdateRes_ResponseCode
       a = iso1CertificateUpdateRes_ResponseCode v) \<and>
     (g \<notin> {299, 300} \<longrightarrow>
       same_iso1CertificateChain (iso1CertificateUpdateRes_SAProvisioningCertificateChain v)
       (iso1CertificateUpdateRes_SAProvisioningCertificateChain a)) \<and>
     (g \<notin> {299, 300, 301} \<longrightarrow>
       same_iso1CertificateChain (iso1CertificateUpdateRes_ContractSignatureCertChain v)
       (iso1CertificateUpdateRes_ContractSignatureCertChain a)) \<and>
     (g \<notin> {299, 300, 301, 302} \<longrightarrow> same_iso1ContractSignatureEncryptedPrivateKey
       (iso1CertificateUpdateRes_ContractSignatureEncryptedPrivateKey v)
       (iso1CertificateUpdateRes_ContractSignatureEncryptedPrivateKey a)) \<and>
     (g \<notin> {299, 300, 301, 302, 303} \<longrightarrow> same_iso1DiffieHellmanPublickey
       (iso1CertificateUpdateRes_DHpublickey v) (iso1CertificateUpdateRes_DHpublickey a)) \<and>
     (g \<notin> {299, 300, 301, 302, 303, 304} \<longrightarrow> same_iso1EMAID (iso1CertificateUpdateRes_eMAID v)
       (iso1CertificateUpdateRes_eMAID a)) \<and>
     (if g \<in> {299, 300, 301, 302, 303, 304, 305} then \<not> iso1CertificateUpdateRes_RetryCounter_isUsed a
      else kept (iso1CertificateUpdateRes_RetryCounter_isUsed v) (iso1CertificateUpdateRes_RetryCounter_isUsed a)
        (iso1CertificateUpdateRes_RetryCounter a = iso1CertificateUpdateRes_RetryCounter v))"

lemmas iso1CertificateUpdateRes_steps = iso1CertificateUpdateRes_enc_step_def
  iso1CertificateUpdateRes_dec_step_def

lemmas iso1CertificateUpdateRes_props = iso1CertificateUpdateRes_at_def iso1CertificateUpdateRes_sized_def
    same_iso1CertificateUpdateRes_def left_at_def

interpretation iso1CertificateUpdateRes: paired_machines "iso1CertificateUpdateRes_enc_step v"
    "iso1CertificateUpdateRes_dec_step j" "iso1CertificateUpdateRes_at v"
  "left_at [(299, 72584), (300, 72576), (301, 39997), (302, 7418), (303, 4158), (304, 898), (305, 30), (3, 1)]"
      "\<lambda>a. same_iso1CertificateUpdateRes v a \<and> iso1CertificateUpdateRes_sized a" for v j
proof
  fix g a assume at: "iso1CertificateUpdateRes_at v g a"
  then have "g \<in> {299, 300, 301, 302, 303, 304, 305, 3}" by (simp add: iso1CertificateUpdateRes_at_def)
  then show "hops (iso1CertificateUpdateRes_enc_step v) (iso1CertificateUpdateRes_dec_step j)
      (iso1CertificateUpdateRes_at v)
    (left_at [(299, 72584), (300, 72576), (301, 39997), (302, 7418), (303, 4158), (304, 898), (305, 30), (3, 1)])
      (\<lambda>a. same_iso1CertificateUpdateRes v a \<and> iso1CertificateUpdateRes_sized a) g a" using at
    by - (elim insertE emptyE; (hypsubst, rule hops_by, simp (no_asm) add: iso1CertificateUpdateRes_steps del:
      One_nat_def,
      simp (no_asm) add: iso1CertificateUpdateRes_steps del: One_nat_def,
        simp (asm_lr) add: iso1CertificateUpdateRes_props del: One_nat_def, (elim conjE)?,
      ((rule walks_ifs)+)?); (frule iso1CertificateUpdateRes_ok_def [THEN iffD1], ((drule (1) known)+)?,
        (elim conjE)?, ((drule (1) known)+)?, (elim conjE)?,
      (((rule walks_shapes, simp (no_asm) del: One_nat_def, ((rule reads_intros)+)?);
      ((elim exE conjE)?,
        ((simp (no_asm_simp) add: iso1CertificateUpdateRes_props; fail) |
        (simp (asm_lr) add: iso1CertificateUpdateRes_props; fail) |
        (auto simp: iso1CertificateUpdateRes_props; fail)))) | (erule (1) notE; fail) |
        ((elim exE conjE)?,
        ((simp (no_asm_simp) add: iso1CertificateUpdateRes_props; fail) |
        (simp (asm_lr) add: iso1CertificateUpdateRes_props; fail) |
        (auto simp: iso1CertificateUpdateRes_props; fail))))))
qed

lemma reads_iso1CertificateUpdateRes [reads_intros]:
  "iso1CertificateUpdateRes_ok v \<Longrightarrow> iso1CertificateUpdateRes_sized a \<Longrightarrow>
      reads 72584 (\<lambda>s. encode_iso1CertificateUpdateResType s v) (decode_iso1CertificateUpdateResType j) a
      (\<lambda>a. same_iso1CertificateUpdateRes v a \<and> iso1CertificateUpdateRes_sized a)"
  unfolding encode_iso1CertificateUpdateResType_def decode_iso1CertificateUpdateResType_def [abs_def]
  by (rule reads_start [OF iso1CertificateUpdateRes.machine_reads, of _ 299, THEN reads_mono])
      (auto simp: iso1CertificateUpdateRes_at_def iso1CertificateUpdateRes_sized_def
      init_iso1CertificateUpdateResType_def left_at_def)

interpretation iso1CertificateUpdateRes_enc: advancing_machine "iso1CertificateUpdateRes_enc_step v" "left_at
    [(299, 8), (300, 7), (301, 6), (302, 5), (303, 4), (304, 3), (305, 2), (3, 1)]" for v
  by unfold_locales (auto simp: iso1CertificateUpdateRes_steps dest!: advance_dests split: if_splits;
      simp add: left_at_def)

interpretation iso1CertificateUpdateRes_dec: advancing_machine "iso1CertificateUpdateRes_dec_step j" "left_at
    [(299, 8), (300, 7), (301, 6), (302, 5), (303, 4), (304, 3), (305, 2), (3, 1)]" for j
  by unfold_locales (auto simp: iso1CertificateUpdateRes_steps dest!: advance_dests elim!:
      decode_switch_next split: if_splits;
      simp add: left_at_def)

subsection \<open>\<open>iso1CertificateInstallationReqType\<close>\<close>

record iso1CertificateInstallationReqType =
  iso1CertificateInstallationReq_Id_characters :: "u8 list"
  iso1CertificateInstallationReq_Id_charactersLen :: u16
  iso1CertificateInstallationReq_OEMProvisioningCert_bytes :: "u8 list"
  iso1CertificateInstallationReq_OEMProvisioningCert_bytesLen :: u16
  iso1CertificateInstallationReq_ListOfRootCertificateIDs :: iso1ListOfRootCertificateIDsType

definition init_iso1CertificateInstallationReqType :: "iso1CertificateInstallationReqType \<Rightarrow>
    iso1CertificateInstallationReqType" where
  "init_iso1CertificateInstallationReqType a = a"

definition iso1CertificateInstallationReq_enc_step :: "iso1CertificateInstallationReqType \<Rightarrow> unit machine"
    where
  "iso1CertificateInstallationReq_enc_step v grammarID x s =
     (if grammarID = 16 then
        goto 17 x
          (encode_child 1 0 (encode_string_field (iso1CertificateInstallationReq_Id_characters v)
          (iso1CertificateInstallationReq_Id_charactersLen v)) s)
      else if grammarID = 17 then
        goto 18 x
          (encode_simple 1 0 (encode_bytes_field (iso1CertificateInstallationReq_OEMProvisioningCert_bytes v)
          (iso1CertificateInstallationReq_OEMProvisioningCert_bytesLen v)) s)
      else if grammarID = 18 then
        goto 3 x (encode_child 1 0
          (\<lambda>s. encode_iso1ListOfRootCertificateIDsType s
          (iso1CertificateInstallationReq_ListOfRootCertificateIDs v)) s)
      else if grammarID = 3 then
        finish 4 x (encodeNBitUnsignedInteger s 1 0)
      else Some (EXI_ERROR_UNKOWN_GRAMMAR_ID, (False, grammarID, x), s))"

definition encode_iso1CertificateInstallationReqType :: "bitstream \<Rightarrow> iso1CertificateInstallationReqType
    \<Rightarrow> (errn \<times> bitstream) option" where
  "encode_iso1CertificateInstallationReqType s v = run_encoder (iso1CertificateInstallationReq_enc_step v) 16 () s"

definition iso1CertificateInstallationReq_dec_step :: "u32 \<Rightarrow>
    (dec_static \<times> iso1CertificateInstallationReqType) machine" where
  "iso1CertificateInstallationReq_dec_step j grammarID x s =
     (if grammarID = 16 then
        decode_switch 1
         [(0, decode_child 17 (decode_string_field j 51 iso1CertificateInstallationReq_Id_characters
           (\<lambda>u a. a\<lparr>iso1CertificateInstallationReq_Id_characters := u\<rparr>)
           (\<lambda>u a. a\<lparr>iso1CertificateInstallationReq_Id_charactersLen := u\<rparr>)))] 16 x s
      else if grammarID = 17 then
        decode_switch 1
         [(0, decode_simple 17 18 (decode_bytes_field j 800 iso1CertificateInstallationReq_OEMProvisioningCert_bytes
           (\<lambda>u a. a\<lparr>iso1CertificateInstallationReq_OEMProvisioningCert_bytes := u\<rparr>)
           (\<lambda>u a. a\<lparr>iso1CertificateInstallationReq_OEMProvisioningCert_bytesLen := u\<rparr>)))] 17 x s
      else if grammarID = 18 then
        decode_switch 1
         [(0, decode_child 3
           (decode_sub (decode_iso1ListOfRootCertificateIDsType j)
           iso1CertificateInstallationReq_ListOfRootCertificateIDs
           (\<lambda>u a. a\<lparr>iso1CertificateInstallationReq_ListOfRootCertificateIDs := u\<rparr>)))] 18 x s
      else if grammarID = 3 then
        decode_switch 1
         [(0, decode_end 4)] 3 x s
      else Some (EXI_ERROR_UNKOWN_GRAMMAR_ID, (False, grammarID, x), s))"

definition decode_iso1CertificateInstallationReqType :: "u32 \<Rightarrow> iso1CertificateInstallationReqType decoder"
    where
  "decode_iso1CertificateInstallationReqType j x s = grammar_loop (iso1CertificateInstallationReq_dec_step j) 16
      (fst x, init_iso1CertificateInstallationReqType (snd x)) s"

definition iso1CertificateInstallationReq_ok :: "iso1CertificateInstallationReqType \<Rightarrow> bool" where
  "iso1CertificateInstallationReq_ok v \<longleftrightarrow>
     string_ok 51 (iso1CertificateInstallationReq_Id_characters v) (iso1CertificateInstallationReq_Id_charactersLen v)
       \<and>
     length (iso1CertificateInstallationReq_OEMProvisioningCert_bytes v) = 800 \<and>
       unat (iso1CertificateInstallationReq_OEMProvisioningCert_bytesLen v) \<le> 800 \<and>
     iso1ListOfRootCertificateIDs_ok (iso1CertificateInstallationReq_ListOfRootCertificateIDs v)"

definition iso1CertificateInstallationReq_sized :: "iso1CertificateInstallationReqType \<Rightarrow> bool" where
  "iso1CertificateInstallationReq_sized a \<longleftrightarrow>
     length (iso1CertificateInstallationReq_Id_characters a) = 51 \<and>
     length (iso1CertificateInstallationReq_OEMProvisioningCert_bytes a) = 800 \<and>
     iso1ListOfRootCertificateIDs_sized (iso1CertificateInstallationReq_ListOfRootCertificateIDs a)"

definition same_iso1CertificateInstallationReq :: "iso1CertificateInstallationReqType \<Rightarrow>
    iso1CertificateInstallationReqType \<Rightarrow> bool" where
  "same_iso1CertificateInstallationReq v a \<longleftrightarrow>
     iso1CertificateInstallationReq_Id_charactersLen a = iso1CertificateInstallationReq_Id_charactersLen v \<and>
       take (unat (iso1CertificateInstallationReq_Id_charactersLen v))
       (iso1CertificateInstallationReq_Id_characters a) = take
       (unat (iso1CertificateInstallationReq_Id_charactersLen v)) (iso1CertificateInstallationReq_Id_characters v)
       \<and>
     iso1CertificateInstallationReq_OEMProvisioningCert_bytesLen
       a = iso1CertificateInstallationReq_OEMProvisioningCert_bytesLen v \<and>
       take (unat (iso1CertificateInstallationReq_OEMProvisioningCert_bytesLen v))
       (iso1CertificateInstallationReq_OEMProvisioningCert_bytes a) = take
       (unat (iso1CertificateInstallationReq_OEMProvisioningCert_bytesLen v))
       (iso1CertificateInstallationReq_OEMProvisioningCert_bytes v) \<and>
     same_iso1ListOfRootCertificateIDs (iso1CertificateInstallationReq_ListOfRootCertificateIDs v)
       (iso1CertificateInstallationReq_ListOfRootCertificateIDs a)"

definition iso1CertificateInstallationReq_at :: "iso1CertificateInstallationReqType \<Rightarrow> nat \<Rightarrow>
    iso1CertificateInstallationReqType \<Rightarrow> bool" where
  "iso1CertificateInstallationReq_at v g a \<longleftrightarrow>
     iso1CertificateInstallationReq_ok v \<and>
     g \<in> {16, 17, 18, 3} \<and>
     iso1CertificateInstallationReq_sized a \<and>
     (g \<notin> {16} \<longrightarrow> iso1CertificateInstallationReq_Id_charactersLen
       a = iso1CertificateInstallationReq_Id_charactersLen v \<and>
       take (unat (iso1CertificateInstallationReq_Id_charactersLen v))
       (iso1CertificateInstallationReq_Id_characters a) = take
       (unat (iso1CertificateInstallationReq_Id_charactersLen v)) (iso1CertificateInstallationReq_Id_characters v))
       \<and>
     (g \<notin> {16, 17} \<longrightarrow> iso1CertificateInstallationReq_OEMProvisioningCert_bytesLen
       a = iso1CertificateInstallationReq_OEMProvisioningCert_bytesLen v \<and>
       take (unat (iso1CertificateInstallationReq_OEMProvisioningCert_bytesLen v))
       (iso1CertificateInstallationReq_OEMProvisioningCert_bytes a) = take
       (unat (iso1CertificateInstallationReq_OEMProvisioningCert_bytesLen v))
       (iso1CertificateInstallationReq_OEMProvisioningCert_bytes v)) \<and>
     (g \<notin> {16, 17, 18} \<longrightarrow> same_iso1ListOfRootCertificateIDs
       (iso1CertificateInstallationReq_ListOfRootCertificateIDs v)
       (iso1CertificateInstallationReq_ListOfRootCertificateIDs a))"

lemmas iso1CertificateInstallationReq_steps = iso1CertificateInstallationReq_enc_step_def
  iso1CertificateInstallationReq_dec_step_def

lemmas iso1CertificateInstallationReq_props = iso1CertificateInstallationReq_at_def
    iso1CertificateInstallationReq_sized_def same_iso1CertificateInstallationReq_def left_at_def

interpretation iso1CertificateInstallationReq: paired_machines "iso1CertificateInstallationReq_enc_step v"
    "iso1CertificateInstallationReq_dec_step j" "iso1CertificateInstallationReq_at v"
  "left_at [(16, 9474), (17, 9041), (18, 2614), (3, 1)]" "\<lambda>a. same_iso1CertificateInstallationReq v a \<and>
      iso1CertificateInstallationReq_sized a" for v j
proof
  fix g a assume at: "iso1CertificateInstallationReq_at v g a"
  then have "g \<in> {16, 17, 18, 3}" by (simp add: iso1CertificateInstallationReq_at_def)
  then show "hops (iso1CertificateInstallationReq_enc_step v) (iso1CertificateInstallationReq_dec_step j)
      (iso1CertificateInstallationReq_at v)
    (left_at [(16, 9474), (17, 9041), (18, 2614), (3, 1)]) (\<lambda>a. same_iso1CertificateInstallationReq v a \<and>
      iso1CertificateInstallationReq_sized a) g a" using at
    by - (elim insertE emptyE; (hypsubst, rule hops_by, simp (no_asm) add: iso1CertificateInstallationReq_steps del:
      One_nat_def,
      simp (no_asm) add: iso1CertificateInstallationReq_steps del: One_nat_def,
        simp (asm_lr) add: iso1CertificateInstallationReq_props del: One_nat_def, (elim conjE)?,
      ((rule walks_ifs)+)?); (frule iso1CertificateInstallationReq_ok_def [THEN iffD1], ((drule (1) known)+)?,
        (elim conjE)?, ((drule (1) known)+)?, (elim conjE)?,
      (((rule walks_shapes, simp (no_asm) del: One_nat_def, ((rule reads_intros)+)?);
      ((elim exE conjE)?,
        ((simp (no_asm_simp) add: iso1CertificateInstallationReq_props; fail) |
        (simp (asm_lr) add: iso1CertificateInstallationReq_props; fail) |
        (auto simp: iso1CertificateInstallationReq_props; fail)))) | (erule (1) notE; fail) |
        ((elim exE conjE)?,
        ((simp (no_asm_simp) add: iso1CertificateInstallationReq_props; fail) |
        (simp (asm_lr) add: iso1CertificateInstallationReq_props; fail) |
        (auto simp: iso1CertificateInstallationReq_props; fail))))))
qed

lemma reads_iso1CertificateInstallationReq [reads_intros]:
  "iso1CertificateInstallationReq_ok v \<Longrightarrow> iso1CertificateInstallationReq_sized a \<Longrightarrow>
      reads 9474 (\<lambda>s. encode_iso1CertificateInstallationReqType s v)
      (decode_iso1CertificateInstallationReqType j) a (\<lambda>a. same_iso1CertificateInstallationReq v a \<and>
      iso1CertificateInstallationReq_sized a)"
  unfolding encode_iso1CertificateInstallationReqType_def decode_iso1CertificateInstallationReqType_def [abs_def]
  by (rule reads_start [OF iso1CertificateInstallationReq.machine_reads, of _ 16, THEN reads_mono])
      (auto simp: iso1CertificateInstallationReq_at_def iso1CertificateInstallationReq_sized_def
      init_iso1CertificateInstallationReqType_def left_at_def)

interpretation iso1CertificateInstallationReq_enc: advancing_machine "iso1CertificateInstallationReq_enc_step v"
    "left_at [(16, 4), (17, 3), (18, 2), (3, 1)]" for v
  by unfold_locales (auto simp: iso1CertificateInstallationReq_steps left_at_def dest!: advance_dests split:
      if_splits)

interpretation iso1CertificateInstallationReq_dec: advancing_machine "iso1CertificateInstallationReq_dec_step j"
    "left_at [(16, 4), (17, 3), (18, 2), (3, 1)]" for j
  by unfold_locales (auto simp: iso1CertificateInstallationReq_steps dest!: advance_dests elim!:
      decode_switch_next split: if_splits;
      simp add: left_at_def)

subsection \<open>\<open>iso1CertificateInstallationResType\<close>\<close>

record iso1CertificateInstallationResType =
  iso1CertificateInstallationRes_ResponseCode :: u32
  iso1CertificateInstallationRes_SAProvisioningCertificateChain :: iso1CertificateChainType
  iso1CertificateInstallationRes_ContractSignatureCertChain :: iso1CertificateChainType
  iso1CertificateInstallationRes_ContractSignatureEncryptedPrivateKey :: iso1ContractSignatureEncryptedPrivateKeyType
  iso1CertificateInstallationRes_DHpublickey :: iso1DiffieHellmanPublickeyType
  iso1CertificateInstallationRes_eMAID :: iso1EMAIDType

definition init_iso1CertificateInstallationResType :: "iso1CertificateInstallationResType \<Rightarrow>
    iso1CertificateInstallationResType" where
  "init_iso1CertificateInstallationResType a = a"

definition iso1CertificateInstallationRes_enc_step :: "iso1CertificateInstallationResType \<Rightarrow> unit machine"
    where
  "iso1CertificateInstallationRes_enc_step v grammarID x s =
     (if grammarID = 306 then
        goto 307 x
          (encode_simple 1 0
          (\<lambda>s. encodeNBitUnsignedInteger s 5 (iso1CertificateInstallationRes_ResponseCode v)) s)
      else if grammarID = 307 then
        goto 308 x
          (encode_child 1 0
          (\<lambda>s. encode_iso1CertificateChainType s
          (iso1CertificateInstallationRes_SAProvisioningCertificateChain v)) s)
      else if grammarID = 308 then
        goto 309 x
          (encode_child 1 0
          (\<lambda>s. encode_iso1CertificateChainType s
          (iso1CertificateInstallationRes_ContractSignatureCertChain v)) s)
      else if grammarID = 309 then
        goto 310 x
          (encode_child 1 0 (\<lambda>s. encode_iso1ContractSignatureEncryptedPrivateKeyType s
          (iso1CertificateInstallationRes_ContractSignatureEncryptedPrivateKey v)) s)
      else if grammarID = 310 then
        goto 311 x
          (encode_child 1 0
          (\<lambda>s. encode_iso1DiffieHellmanPublickeyType s (iso1CertificateInstallationRes_DHpublickey v)) s)
      else if grammarID = 311 then
        goto 3 x (encode_child 1 0 (\<lambda>s. encode_iso1EMAIDType s (iso1CertificateInstallationRes_eMAID v)) s)
      else if grammarID = 3 then
        finish 4 x (encodeNBitUnsignedInteger s 1 0)
      else Some (EXI_ERROR_UNKOWN_GRAMMAR_ID, (False, grammarID, x), s))"

definition encode_iso1CertificateInstallationResType :: "bitstream \<Rightarrow> iso1CertificateInstallationResType
    \<Rightarrow> (errn \<times> bitstream) option" where
  "encode_iso1CertificateInstallationResType s v = run_encoder (iso1CertificateInstallationRes_enc_step v) 306 () s"

definition iso1CertificateInstallationRes_dec_step :: "u32 \<Rightarrow>
    (dec_static \<times> iso1CertificateInstallationResType) machine" where
  "iso1CertificateInstallationRes_dec_step j grammarID x s =
     (if grammarID = 306 then
        decode_switch 1
         [(0, decode_simple 306 307
           (decode_nbit_field 5 (\<lambda>u a. a\<lparr>iso1CertificateInstallationRes_ResponseCode := u\<rparr>)))]
           306 x s
      else if grammarID = 307 then
        decode_switch 1
         [(0, decode_child 308
           (decode_sub (decode_iso1CertificateChainType j)
           iso1CertificateInstallationRes_SAProvisioningCertificateChain
           (\<lambda>u a. a\<lparr>iso1CertificateInstallationRes_SAProvisioningCertificateChain := u\<rparr>)))] 307
           x s
      else if grammarID = 308 then
        decode_switch 1
         [(0, decode_child 309
           (decode_sub (decode_iso1CertificateChainType j) iso1CertificateInstallationRes_ContractSignatureCertChain
           (\<lambda>u a. a\<lparr>iso1CertificateInstallationRes_ContractSignatureCertChain := u\<rparr>)))] 308 x s
      else if grammarID = 309 then
        decode_switch 1
         [(0, decode_child 310 (decode_sub (decode_iso1ContractSignatureEncryptedPrivateKeyType j)
           iso1CertificateInstallationRes_ContractSignatureEncryptedPrivateKey
           (\<lambda>u a. a\<lparr>iso1CertificateInstallationRes_ContractSignatureEncryptedPrivateKey
           := u\<rparr>)))] 309 x s
      else if grammarID = 310 then
        decode_switch 1
         [(0, decode_child 311
           (decode_sub (decode_iso1DiffieHellmanPublickeyType j) iso1CertificateInstallationRes_DHpublickey
           (\<lambda>u a. a\<lparr>iso1CertificateInstallationRes_DHpublickey := u\<rparr>)))] 310 x s
      else if grammarID = 311 then
        decode_switch 1
         [(0, decode_child 3 (decode_sub (decode_iso1EMAIDType j) iso1CertificateInstallationRes_eMAID
           (\<lambda>u a. a\<lparr>iso1CertificateInstallationRes_eMAID := u\<rparr>)))] 311 x s
      else if grammarID = 3 then
        decode_switch 1
         [(0, decode_end 4)] 3 x s
      else Some (EXI_ERROR_UNKOWN_GRAMMAR_ID, (False, grammarID, x), s))"

definition decode_iso1CertificateInstallationResType :: "u32 \<Rightarrow> iso1CertificateInstallationResType decoder"
    where
  "decode_iso1CertificateInstallationResType j x s = grammar_loop (iso1CertificateInstallationRes_dec_step j) 306
      (fst x, init_iso1CertificateInstallationResType (snd x)) s"

definition iso1CertificateInstallationRes_ok :: "iso1CertificateInstallationResType \<Rightarrow> bool" where
  "iso1CertificateInstallationRes_ok v \<longleftrightarrow>
     iso1CertificateInstallationRes_ResponseCode v < 32 \<and>
     iso1CertificateChain_ok (iso1CertificateInstallationRes_SAProvisioningCertificateChain v) \<and>
     iso1CertificateChain_ok (iso1CertificateInstallationRes_ContractSignatureCertChain v) \<and>
     iso1ContractSignatureEncryptedPrivateKey_ok (iso1CertificateInstallationRes_ContractSignatureEncryptedPrivateKey
       v) \<and>
     iso1DiffieHellmanPublickey_ok (iso1CertificateInstallationRes_DHpublickey v) \<and>
     iso1EMAID_ok (iso1CertificateInstallationRes_eMAID v)"

definition iso1CertificateInstallationRes_sized :: "iso1CertificateInstallationResType \<Rightarrow> bool" where
  "iso1CertificateInstallationRes_sized a \<longleftrightarrow>
     iso1CertificateChain_sized (iso1CertificateInstallationRes_SAProvisioningCertificateChain a) \<and>
     iso1CertificateChain_sized (iso1CertificateInstallationRes_ContractSignatureCertChain a) \<and>
     iso1ContractSignatureEncryptedPrivateKey_sized
       (iso1CertificateInstallationRes_ContractSignatureEncryptedPrivateKey a) \<and>
     iso1DiffieHellmanPublickey_sized (iso1CertificateInstallationRes_DHpublickey a) \<and>
     iso1EMAID_sized (iso1CertificateInstallationRes_eMAID a)"

definition same_iso1CertificateInstallationRes :: "iso1CertificateInstallationResType \<Rightarrow>
    iso1CertificateInstallationResType \<Rightarrow> bool" where
  "same_iso1CertificateInstallationRes v a \<longleftrightarrow>
     iso1CertificateInstallationRes_ResponseCode a = iso1CertificateInstallationRes_ResponseCode v \<and>
     same_iso1CertificateChain (iso1CertificateInstallationRes_SAProvisioningCertificateChain v)
       (iso1CertificateInstallationRes_SAProvisioningCertificateChain a) \<and>
     same_iso1CertificateChain (iso1CertificateInstallationRes_ContractSignatureCertChain v)
       (iso1CertificateInstallationRes_ContractSignatureCertChain a) \<and>
     same_iso1ContractSignatureEncryptedPrivateKey
       (iso1CertificateInstallationRes_ContractSignatureEncryptedPrivateKey v)
       (iso1CertificateInstallationRes_ContractSignatureEncryptedPrivateKey a) \<and>
     same_iso1DiffieHellmanPublickey (iso1CertificateInstallationRes_DHpublickey v)
       (iso1CertificateInstallationRes_DHpublickey a) \<and>
     same_iso1EMAID (iso1CertificateInstallationRes_eMAID v) (iso1CertificateInstallationRes_eMAID a)"

definition iso1CertificateInstallationRes_at :: "iso1CertificateInstallationResType \<Rightarrow> nat \<Rightarrow>
    iso1CertificateInstallationResType \<Rightarrow> bool" where
  "iso1CertificateInstallationRes_at v g a \<longleftrightarrow>
     iso1CertificateInstallationRes_ok v \<and>
     g \<in> {306, 307, 308, 309, 310, 311, 3} \<and>
     iso1CertificateInstallationRes_sized a \<and>
     (g \<notin> {306} \<longrightarrow> iso1CertificateInstallationRes_ResponseCode
       a = iso1CertificateInstallationRes_ResponseCode v) \<and>
     (g \<notin> {306, 307} \<longrightarrow>
       same_iso1CertificateChain (iso1CertificateInstallationRes_SAProvisioningCertificateChain v)
       (iso1CertificateInstallationRes_SAProvisioningCertificateChain a)) \<and>
     (g \<notin> {306, 307, 308} \<longrightarrow>
       same_iso1CertificateChain (iso1CertificateInstallationRes_ContractSignatureCertChain v)
       (iso1CertificateInstallationRes_ContractSignatureCertChain a)) \<and>
     (g \<notin> {306, 307, 308, 309} \<longrightarrow> same_iso1ContractSignatureEncryptedPrivateKey
       (iso1CertificateInstallationRes_ContractSignatureEncryptedPrivateKey v)
       (iso1CertificateInstallationRes_ContractSignatureEncryptedPrivateKey a)) \<and>
     (g \<notin> {306, 307, 308, 309, 310} \<longrightarrow> same_iso1DiffieHellmanPublickey
       (iso1CertificateInstallationRes_DHpublickey v) (iso1CertificateInstallationRes_DHpublickey a)) \<and>
     (g \<notin> {306, 307, 308, 309, 310, 311} \<longrightarrow>
       same_iso1EMAID (iso1CertificateInstallationRes_eMAID v) (iso1CertificateInstallationRes_eMAID a))"

lemmas iso1CertificateInstallationRes_steps = iso1CertificateInstallationRes_enc_step_def
  iso1CertificateInstallationRes_dec_step_def

lemmas iso1CertificateInstallationRes_props = iso1CertificateInstallationRes_at_def
    iso1CertificateInstallationRes_sized_def same_iso1CertificateInstallationRes_def left_at_def

interpretation iso1CertificateInstallationRes: paired_machines "iso1CertificateInstallationRes_enc_step v"
    "iso1CertificateInstallationRes_dec_step j" "iso1CertificateInstallationRes_at v"
  "left_at [(306, 72555), (307, 72547), (308, 39968), (309, 7389), (310, 4129), (311, 869), (3, 1)]" "\<lambda>a.
      same_iso1CertificateInstallationRes v a \<and> iso1CertificateInstallationRes_sized a" for v j
proof
  fix g a assume at: "iso1CertificateInstallationRes_at v g a"
  then have "g \<in> {306, 307, 308, 309, 310, 311, 3}" by (simp add: iso1CertificateInstallationRes_at_def)
  then show "hops (iso1CertificateInstallationRes_enc_step v) (iso1CertificateInstallationRes_dec_step j)
      (iso1CertificateInstallationRes_at v)
    (left_at [(306, 72555), (307, 72547), (308, 39968), (309, 7389), (310, 4129), (311, 869), (3, 1)])
      (\<lambda>a. same_iso1CertificateInstallationRes v a \<and> iso1CertificateInstallationRes_sized a) g a" using
      at
    by - (elim insertE emptyE; (hypsubst, rule hops_by, simp (no_asm) add: iso1CertificateInstallationRes_steps del:
      One_nat_def,
      simp (no_asm) add: iso1CertificateInstallationRes_steps del: One_nat_def,
        simp (asm_lr) add: iso1CertificateInstallationRes_props del: One_nat_def, (elim conjE)?,
      ((rule walks_ifs)+)?); (frule iso1CertificateInstallationRes_ok_def [THEN iffD1], ((drule (1) known)+)?,
        (elim conjE)?, ((drule (1) known)+)?, (elim conjE)?,
      (((rule walks_shapes, simp (no_asm) del: One_nat_def, ((rule reads_intros)+)?);
      ((elim exE conjE)?,
        ((simp (no_asm_simp) add: iso1CertificateInstallationRes_props; fail) |
        (simp (asm_lr) add: iso1CertificateInstallationRes_props; fail) |
        (auto simp: iso1CertificateInstallationRes_props; fail)))) | (erule (1) notE; fail) |
        ((elim exE conjE)?,
        ((simp (no_asm_simp) add: iso1CertificateInstallationRes_props; fail) |
        (simp (asm_lr) add: iso1CertificateInstallationRes_props; fail) |
        (auto simp: iso1CertificateInstallationRes_props; fail))))))
qed

lemma reads_iso1CertificateInstallationRes [reads_intros]:
  "iso1CertificateInstallationRes_ok v \<Longrightarrow> iso1CertificateInstallationRes_sized a \<Longrightarrow>
      reads 72555 (\<lambda>s. encode_iso1CertificateInstallationResType s v)
      (decode_iso1CertificateInstallationResType j) a (\<lambda>a. same_iso1CertificateInstallationRes v a \<and>
      iso1CertificateInstallationRes_sized a)"
  unfolding encode_iso1CertificateInstallationResType_def decode_iso1CertificateInstallationResType_def [abs_def]
  by (rule reads_start [OF iso1CertificateInstallationRes.machine_reads, of _ 306, THEN reads_mono])
      (auto simp: iso1CertificateInstallationRes_at_def iso1CertificateInstallationRes_sized_def
      init_iso1CertificateInstallationResType_def left_at_def)

interpretation iso1CertificateInstallationRes_enc: advancing_machine "iso1CertificateInstallationRes_enc_step v"
    "left_at [(306, 7), (307, 6), (308, 5), (309, 4), (310, 3), (311, 2), (3, 1)]" for v
  by unfold_locales (auto simp: iso1CertificateInstallationRes_steps left_at_def dest!: advance_dests split:
      if_splits)

interpretation iso1CertificateInstallationRes_dec: advancing_machine "iso1CertificateInstallationRes_dec_step j"
    "left_at [(306, 7), (307, 6), (308, 5), (309, 4), (310, 3), (311, 2), (3, 1)]" for j
  by unfold_locales (auto simp: iso1CertificateInstallationRes_steps dest!: advance_dests elim!:
      decode_switch_next split: if_splits;
      simp add: left_at_def)

end
