(* ===== verification/Iso1Schedules.thy ===== *)
theory Iso1Schedules
  imports Iso1Values
begin

section \<open>ISO 15118 codec: schedules and tariffs\<close>

text \<open>
  Power schedules, sales tariffs and the charging profile of the vehicle, in the form explained in
  \<open>Iso1Values\<close>. Bounded repetitions are unrolled by the generator: the charging profile has a grammar number
  for each of its 24 entries.
\<close>

subsection \<open>\<open>iso1PMaxScheduleEntryType\<close>\<close>

record iso1PMaxScheduleEntryType =
  iso1PMaxScheduleEntry_TimeInterval :: iso1IntervalType
  iso1PMaxScheduleEntry_TimeInterval_isUsed :: bool
  iso1PMaxScheduleEntry_RelativeTimeInterval :: iso1RelativeTimeIntervalType
  iso1PMaxScheduleEntry_RelativeTimeInterval_isUsed :: bool
  iso1PMaxScheduleEntry_PMax :: iso1PhysicalValueType

definition init_iso1PMaxScheduleEntryType :: "iso1PMaxScheduleEntryType \<Rightarrow> iso1PMaxScheduleEntryType" where
  "init_iso1PMaxScheduleEntryType a = a\<lparr>iso1PMaxScheduleEntry_TimeInterval_isUsed := False,
      iso1PMaxScheduleEntry_RelativeTimeInterval_isUsed := False\<rparr>"

definition iso1PMaxScheduleEntry_enc_step :: "iso1PMaxScheduleEntryType \<Rightarrow> unit machine" where
  "iso1PMaxScheduleEntry_enc_step v grammarID x s =
     (if grammarID = 261 then
        if iso1PMaxScheduleEntry_RelativeTimeInterval_isUsed v then
          goto 262 x
          (encode_child 2 0
          (\<lambda>s. encode_iso1RelativeTimeIntervalType s (iso1PMaxScheduleEntry_RelativeTimeInterval v)) s)
        else if iso1PMaxScheduleEntry_TimeInterval_isUsed v then
          goto 262 x (encode_child 2 1 (\<lambda>s. encode_iso1IntervalType s (iso1PMaxScheduleEntry_TimeInterval v))
          s)
        else Some (EXI_ERROR_UNKOWN_EVENT, (False, grammarID, x), s)
      else if grammarID = 262 then
        goto 3 x (encode_child 1 0 (\<lambda>s. encode_iso1PhysicalValueType s (iso1PMaxScheduleEntry_PMax v)) s)
      else if grammarID = 3 then
        finish 4 x (encodeNBitUnsignedInteger s 1 0)
      else Some (EXI_ERROR_UNKOWN_GRAMMAR_ID, (False, grammarID, x), s))"

definition encode_iso1PMaxScheduleEntryType :: "bitstream \<Rightarrow> iso1PMaxScheduleEntryType \<Rightarrow>
    (errn \<times> bitstream) option" where
  "encode_iso1PMaxScheduleEntryType s v = run_encoder (iso1PMaxScheduleEntry_enc_step v) 261 () s"

definition iso1PMaxScheduleEntry_dec_step :: "u32 \<Rightarrow> (dec_static \<times> iso1PMaxScheduleEntryType)
    machine" where
  "iso1PMaxScheduleEntry_dec_step j grammarID x s =
     (if grammarID = 261 then
        decode_switch 2
         [(0, decode_child 262
           (decode_used (\<lambda>a. a\<lparr>iso1PMaxScheduleEntry_RelativeTimeInterval_isUsed := True\<rparr>)
           (decode_sub (decode_iso1RelativeTimeIntervalType j) iso1PMaxScheduleEntry_RelativeTimeInterval
           (\<lambda>u a. a\<lparr>iso1PMaxScheduleEntry_RelativeTimeInterval := u\<rparr>)))),
          (1, decode_child 262
            (decode_used (\<lambda>a. a\<lparr>iso1PMaxScheduleEntry_TimeInterval_isUsed := True\<rparr>)
            (decode_sub (decode_iso1IntervalType j) iso1PMaxScheduleEntry_TimeInterval
            (\<lambda>u a. a\<lparr>iso1PMaxScheduleEntry_TimeInterval := u\<rparr>))))] 261 x s
      else if grammarID = 262 then
        decode_switch 1
         [(0, decode_child 3 (decode_sub (decode_iso1PhysicalValueType j) iso1PMaxScheduleEntry_PMax
           (\<lambda>u a. a\<lparr>iso1PMaxScheduleEntry_PMax := u\<rparr>)))] 262 x s
      else if grammarID = 3 then
        decode_switch 1
         [(0, decode_end 4)] 3 x s
      else Some (EXI_ERROR_UNKOWN_GRAMMAR_ID, (False, grammarID, x), s))"

definition decode_iso1PMaxScheduleEntryType :: "u32 \<Rightarrow> iso1PMaxScheduleEntryType decoder" where
  "decode_iso1PMaxScheduleEntryType j x s = grammar_loop (iso1PMaxScheduleEntry_dec_step j) 261
      (fst x, init_iso1PMaxScheduleEntryType (snd x)) s"

definition iso1PMaxScheduleEntry_ok :: "iso1PMaxScheduleEntryType \<Rightarrow> bool" where
  "iso1PMaxScheduleEntry_ok v \<longleftrightarrow>
     when_used (iso1PMaxScheduleEntry_RelativeTimeInterval_isUsed v)
       (iso1RelativeTimeInterval_ok (iso1PMaxScheduleEntry_RelativeTimeInterval v)) \<and>
     iso1PhysicalValue_ok (iso1PMaxScheduleEntry_PMax v) \<and>
     some_of [iso1PMaxScheduleEntry_RelativeTimeInterval_isUsed v, iso1PMaxScheduleEntry_TimeInterval_isUsed v] \<and>
     exclusive [iso1PMaxScheduleEntry_RelativeTimeInterval_isUsed v, iso1PMaxScheduleEntry_TimeInterval_isUsed v]"

definition same_iso1PMaxScheduleEntry :: "iso1PMaxScheduleEntryType \<Rightarrow> iso1PMaxScheduleEntryType
    \<Rightarrow> bool" where
  "same_iso1PMaxScheduleEntry v a \<longleftrightarrow>
     kept (iso1PMaxScheduleEntry_RelativeTimeInterval_isUsed v) (iso1PMaxScheduleEntry_RelativeTimeInterval_isUsed a)
       (same_iso1RelativeTimeInterval (iso1PMaxScheduleEntry_RelativeTimeInterval v)
       (iso1PMaxScheduleEntry_RelativeTimeInterval a)) \<and>
     kept (iso1PMaxScheduleEntry_TimeInterval_isUsed v) (iso1PMaxScheduleEntry_TimeInterval_isUsed a)
       (same_iso1Interval (iso1PMaxScheduleEntry_TimeInterval v) (iso1PMaxScheduleEntry_TimeInterval a)) \<and>
     same_iso1PhysicalValue (iso1PMaxScheduleEntry_PMax v) (iso1PMaxScheduleEntry_PMax a)"

definition iso1PMaxScheduleEntry_at :: "iso1PMaxScheduleEntryType \<Rightarrow> nat \<Rightarrow>
    iso1PMaxScheduleEntryType \<Rightarrow> bool" where
  "iso1PMaxScheduleEntry_at v g a \<longleftrightarrow>
     iso1PMaxScheduleEntry_ok v \<and>
     g \<in> {261, 262, 3} \<and>
     (if g \<in> {261} then \<not> iso1PMaxScheduleEntry_RelativeTimeInterval_isUsed a
      else kept (iso1PMaxScheduleEntry_RelativeTimeInterval_isUsed v)
        (iso1PMaxScheduleEntry_RelativeTimeInterval_isUsed a)
        (same_iso1RelativeTimeInterval (iso1PMaxScheduleEntry_RelativeTimeInterval v)
        (iso1PMaxScheduleEntry_RelativeTimeInterval a))) \<and>
     (if g \<in> {261} then \<not> iso1PMaxScheduleEntry_TimeInterval_isUsed a
      else kept (iso1PMaxScheduleEntry_TimeInterval_isUsed v) (iso1PMaxScheduleEntry_TimeInterval_isUsed a)
        (same_iso1Interval (iso1PMaxScheduleEntry_TimeInterval v) (iso1PMaxScheduleEntry_TimeInterval a))) \<and>
     (g \<notin> {261, 262} \<longrightarrow> same_iso1PhysicalValue (iso1PMaxScheduleEntry_PMax v)
       (iso1PMaxScheduleEntry_PMax a))"

lemmas iso1PMaxScheduleEntry_steps = iso1PMaxScheduleEntry_enc_step_def
  iso1PMaxScheduleEntry_dec_step_def

lemmas iso1PMaxScheduleEntry_props = iso1PMaxScheduleEntry_at_def same_iso1PMaxScheduleEntry_def left_at_def

interpretation iso1PMaxScheduleEntry: paired_machines "iso1PMaxScheduleEntry_enc_step v"
    "iso1PMaxScheduleEntry_dec_step j" "iso1PMaxScheduleEntry_at v"
  "left_at [(261, 133), (262, 43), (3, 1)]" "same_iso1PMaxScheduleEntry v" for v j
proof
  fix g a assume at: "iso1PMaxScheduleEntry_at v g a"
  then have "g \<in> {261, 262, 3}" by (simp add: iso1PMaxScheduleEntry_at_def)
  then show "hops (iso1PMaxScheduleEntry_enc_step v) (iso1PMaxScheduleEntry_dec_step j) (iso1PMaxScheduleEntry_at v)
    (left_at [(261, 133), (262, 43), (3, 1)]) (same_iso1PMaxScheduleEntry v) g a" using at
    by - (elim insertE emptyE; (hypsubst, rule hops_by, simp (no_asm) add: iso1PMaxScheduleEntry_steps del:
      One_nat_def,
      simp (no_asm) add: iso1PMaxScheduleEntry_steps del: One_nat_def, simp (asm_lr) add: iso1PMaxScheduleEntry_props
        del: One_nat_def, (elim conjE)?,
      ((rule walks_ifs)+)?); (frule iso1PMaxScheduleEntry_ok_def [THEN iffD1], ((drule (1) known)+)?, (elim conjE)?,
        ((drule (1) known)+)?, (elim conjE)?,
      (((rule walks_shapes, simp (no_asm) del: One_nat_def, ((rule reads_intros)+)?);
      ((elim exE conjE)?,
        ((simp (no_asm_simp) add: iso1PMaxScheduleEntry_props; fail) |
        (simp (asm_lr) add: iso1PMaxScheduleEntry_props; fail) | (auto simp: iso1PMaxScheduleEntry_props; fail)))) |
        (erule (1) notE; fail) |
        ((elim exE conjE)?,
        ((simp (no_asm_simp) add: iso1PMaxScheduleEntry_props; fail) |
        (simp (asm_lr) add: iso1PMaxScheduleEntry_props; fail) | (auto simp: iso1PMaxScheduleEntry_props; fail))))))
qed

lemma reads_iso1PMaxScheduleEntry [reads_intros]:
  "iso1PMaxScheduleEntry_ok v \<Longrightarrow> reads 133 (\<lambda>s. encode_iso1PMaxScheduleEntryType s v)
      (decode_iso1PMaxScheduleEntryType j) a (same_iso1PMaxScheduleEntry v)"
  unfolding encode_iso1PMaxScheduleEntryType_def decode_iso1PMaxScheduleEntryType_def [abs_def]
  by (rule reads_start [OF iso1PMaxScheduleEntry.machine_reads, of _ 261, THEN reads_mono])
      (auto simp: iso1PMaxScheduleEntry_at_def  init_iso1PMaxScheduleEntryType_def left_at_def)

interpretation iso1PMaxScheduleEntry_enc: advancing_machine "iso1PMaxScheduleEntry_enc_step v" "left_at
    [(261, 3), (262, 2), (3, 1)]" for v
  by unfold_locales (auto simp: iso1PMaxScheduleEntry_steps dest!: advance_dests split: if_splits;
      simp add: left_at_def)

interpretation iso1PMaxScheduleEntry_dec: advancing_machine "iso1PMaxScheduleEntry_dec_step j" "left_at
    [(261, 3), (262, 2), (3, 1)]" for j
  by unfold_locales (auto simp: iso1PMaxScheduleEntry_steps dest!: advance_dests elim!: decode_switch_next
      split: if_splits;
      simp add: left_at_def)

subsection \<open>\<open>iso1PMaxScheduleType\<close>\<close>

record iso1PMaxScheduleType =
  iso1PMaxSchedule_PMaxScheduleEntry_array :: "iso1PMaxScheduleEntryType list"
  iso1PMaxSchedule_PMaxScheduleEntry_arrayLen :: u16

definition init_iso1PMaxScheduleType :: "iso1PMaxScheduleType \<Rightarrow> iso1PMaxScheduleType" where
  "init_iso1PMaxScheduleType a = a\<lparr>iso1PMaxSchedule_PMaxScheduleEntry_arrayLen := 0\<rparr>"

record iso1PMaxSchedule_locals =
  iso1PMaxSchedule_PMaxScheduleEntry_currArrayIndex :: nat

definition iso1PMaxSchedule_enc_step :: "iso1PMaxScheduleType \<Rightarrow> iso1PMaxSchedule_locals machine" where
  "iso1PMaxSchedule_enc_step v grammarID x s =
     (if grammarID = 108 then
        if iso1PMaxSchedule_PMaxScheduleEntry_currArrayIndex x < unat (iso1PMaxSchedule_PMaxScheduleEntry_arrayLen v)
          then encode_array_child 1 0 109 encode_iso1PMaxScheduleEntryType
          (iso1PMaxSchedule_PMaxScheduleEntry_array v) iso1PMaxSchedule_PMaxScheduleEntry_currArrayIndex
          iso1PMaxSchedule_PMaxScheduleEntry_currArrayIndex_update x s
        else Some (EXI_ERROR_UNKOWN_EVENT, (False, grammarID, x), s)
      else if grammarID = 109 then
        if iso1PMaxSchedule_PMaxScheduleEntry_currArrayIndex x < unat (iso1PMaxSchedule_PMaxScheduleEntry_arrayLen v)
          then encode_array_child 2 0 109 encode_iso1PMaxScheduleEntryType
          (iso1PMaxSchedule_PMaxScheduleEntry_array v) iso1PMaxSchedule_PMaxScheduleEntry_currArrayIndex
          iso1PMaxSchedule_PMaxScheduleEntry_currArrayIndex_update x s
        else finish 4 x (encodeNBitUnsignedInteger s 2 1)
      else Some (EXI_ERROR_UNKOWN_GRAMMAR_ID, (False, grammarID, x), s))"

definition encode_iso1PMaxScheduleType :: "bitstream \<Rightarrow> iso1PMaxScheduleType \<Rightarrow>
    (errn \<times> bitstream) option" where
  "encode_iso1PMaxScheduleType s v = run_encoder (iso1PMaxSchedule_enc_step v) 108
      \<lparr>iso1PMaxSchedule_PMaxScheduleEntry_currArrayIndex = 0\<rparr> s"

abbreviation (input) decode_next_iso1PMaxSchedule_PMaxScheduleEntry :: "u32 \<Rightarrow> iso1PMaxScheduleType
    decoder" where
  "decode_next_iso1PMaxSchedule_PMaxScheduleEntry j \<equiv> decode_element (decode_iso1PMaxScheduleEntryType j)
      iso1PMaxSchedule_PMaxScheduleEntry_array iso1PMaxSchedule_PMaxScheduleEntry_arrayLen
      (\<lambda>xs n a. a\<lparr>iso1PMaxSchedule_PMaxScheduleEntry_array := xs,
      iso1PMaxSchedule_PMaxScheduleEntry_arrayLen := n\<rparr>)"

definition iso1PMaxSchedule_dec_step :: "u32 \<Rightarrow> (dec_static \<times> iso1PMaxScheduleType) machine" where
  "iso1PMaxSchedule_dec_step j grammarID x s =
     (if grammarID = 108 then
        decode_switch 1
         [(0, decode_array_child 109 5 iso1PMaxSchedule_PMaxScheduleEntry_arrayLen
           (decode_next_iso1PMaxSchedule_PMaxScheduleEntry j))] 108 x s
      else if grammarID = 109 then
        decode_switch 2
         [(0, decode_array_child 109 5 iso1PMaxSchedule_PMaxScheduleEntry_arrayLen
           (decode_next_iso1PMaxSchedule_PMaxScheduleEntry j)),
          (1, decode_end 4)] 109 x s
      else Some (EXI_ERROR_UNKOWN_GRAMMAR_ID, (False, grammarID, x), s))"

definition decode_iso1PMaxScheduleType :: "u32 \<Rightarrow> iso1PMaxScheduleType decoder" where
  "decode_iso1PMaxScheduleType j x s = grammar_loop (iso1PMaxSchedule_dec_step j) 108
      (fst x, init_iso1PMaxScheduleType (snd x)) s"

definition iso1PMaxSchedule_ok :: "iso1PMaxScheduleType \<Rightarrow> bool" where
  "iso1PMaxSchedule_ok v \<longleftrightarrow>
     length (iso1PMaxSchedule_PMaxScheduleEntry_array v) = 5 \<and>
       unat (iso1PMaxSchedule_PMaxScheduleEntry_arrayLen v) \<le> 5 \<and> in_use iso1PMaxScheduleEntry_ok
       (iso1PMaxSchedule_PMaxScheduleEntry_array v) (iso1PMaxSchedule_PMaxScheduleEntry_arrayLen v) \<and>
     unat (iso1PMaxSchedule_PMaxScheduleEntry_arrayLen v) \<noteq> 0"

definition iso1PMaxSchedule_sized :: "iso1PMaxScheduleType \<Rightarrow> bool" where
  "iso1PMaxSchedule_sized a \<longleftrightarrow>
     length (iso1PMaxSchedule_PMaxScheduleEntry_array a) = 5"

definition same_iso1PMaxSchedule :: "iso1PMaxScheduleType \<Rightarrow> iso1PMaxScheduleType \<Rightarrow> bool" where
  "same_iso1PMaxSchedule v a \<longleftrightarrow>
     iso1PMaxSchedule_PMaxScheduleEntry_arrayLen a = iso1PMaxSchedule_PMaxScheduleEntry_arrayLen v \<and>
       copied same_iso1PMaxScheduleEntry (unat (iso1PMaxSchedule_PMaxScheduleEntry_arrayLen v))
       (iso1PMaxSchedule_PMaxScheduleEntry_array v) (iso1PMaxSchedule_PMaxScheduleEntry_array a)"

definition iso1PMaxSchedule_at :: "iso1PMaxScheduleType \<Rightarrow> nat \<Rightarrow> iso1PMaxSchedule_locals
    \<Rightarrow> iso1PMaxScheduleType \<Rightarrow> bool" where
  "iso1PMaxSchedule_at v g x a \<longleftrightarrow>
     counts [(108, 0)] g (iso1PMaxSchedule_PMaxScheduleEntry_currArrayIndex x) \<and>
     iso1PMaxSchedule_ok v \<and>
     g \<in> {108, 109} \<and>
     iso1PMaxSchedule_sized a \<and>
     unat (iso1PMaxSchedule_PMaxScheduleEntry_arrayLen a) = iso1PMaxSchedule_PMaxScheduleEntry_currArrayIndex x \<and>
       iso1PMaxSchedule_PMaxScheduleEntry_currArrayIndex x \<le> unat (iso1PMaxSchedule_PMaxScheduleEntry_arrayLen v)
       \<and>
     copied same_iso1PMaxScheduleEntry (iso1PMaxSchedule_PMaxScheduleEntry_currArrayIndex x)
       (iso1PMaxSchedule_PMaxScheduleEntry_array v) (iso1PMaxSchedule_PMaxScheduleEntry_array a)"

definition iso1PMaxSchedule_rank :: "iso1PMaxScheduleType \<Rightarrow> nat \<Rightarrow> iso1PMaxSchedule_locals
    \<Rightarrow> nat" where
  "iso1PMaxSchedule_rank v g x = left_at [(108, 2), (109, 2)] g + due 135
      (iso1PMaxSchedule_PMaxScheduleEntry_arrayLen v) (iso1PMaxSchedule_PMaxScheduleEntry_currArrayIndex x)"

lemmas iso1PMaxSchedule_steps = iso1PMaxSchedule_enc_step_def
  iso1PMaxSchedule_dec_step_def

lemmas iso1PMaxSchedule_props = iso1PMaxSchedule_at_def iso1PMaxSchedule_sized_def same_iso1PMaxSchedule_def
    iso1PMaxSchedule_rank_def left_at_def

lemmas iso1PMaxSchedule_elements = in_use_nth [where P = iso1PMaxScheduleEntry_ok]

interpretation iso1PMaxSchedule: walking_pair "iso1PMaxSchedule_enc_step v" "iso1PMaxSchedule_dec_step j"
    "iso1PMaxSchedule_at v" "iso1PMaxSchedule_rank v"
  "\<lambda>a. same_iso1PMaxSchedule v a \<and> iso1PMaxSchedule_sized a" for v j
proof
  fix g x a assume at: "iso1PMaxSchedule_at v g x a"
  then have "g \<in> {108, 109}" by (simp add: iso1PMaxSchedule_at_def)
  then show "walks (iso1PMaxSchedule_enc_step v) (iso1PMaxSchedule_dec_step j) (iso1PMaxSchedule_at v)
      (iso1PMaxSchedule_rank v)
    (\<lambda>a. same_iso1PMaxSchedule v a \<and> iso1PMaxSchedule_sized a) g x a" using at
    by - (elim insertE emptyE; (hypsubst, rule walks_by, simp (no_asm) add: iso1PMaxSchedule_steps del: One_nat_def,
      simp (no_asm) add: iso1PMaxSchedule_steps del: One_nat_def, simp (asm_lr) add: iso1PMaxSchedule_props del:
        One_nat_def, (elim conjE)?,
      ((rule walks_ifs)+)?); (frule iso1PMaxSchedule_ok_def [THEN iffD1], ((drule (1) known)+)?, (elim conjE)?,
        ((drule (1) known)+)?, (elim conjE)?,
      (((rule walks_shapes, simp (no_asm) del: One_nat_def, ((rule reads_intros)+)?);
      ((elim exE conjE)?,
        ((simp (no_asm_simp) add: iso1PMaxSchedule_props iso1PMaxSchedule_elements counts_def array_intros; fail) |
        (simp (asm_lr) add: iso1PMaxSchedule_props iso1PMaxSchedule_elements counts_def array_intros; fail) |
        (auto simp: iso1PMaxSchedule_props iso1PMaxSchedule_elements counts_def array_intros; fail)))) |
        (erule (1) notE; fail) |
        ((elim exE conjE)?,
        ((simp (no_asm_simp) add: iso1PMaxSchedule_props iso1PMaxSchedule_elements counts_def array_intros; fail) |
        (simp (asm_lr) add: iso1PMaxSchedule_props iso1PMaxSchedule_elements counts_def array_intros; fail) |
        (auto simp: iso1PMaxSchedule_props iso1PMaxSchedule_elements counts_def array_intros; fail))))))
qed

lemma reads_iso1PMaxSchedule [reads_intros]:
  "iso1PMaxSchedule_ok v \<Longrightarrow> iso1PMaxSchedule_sized a \<Longrightarrow>
      reads 677 (\<lambda>s. encode_iso1PMaxScheduleType s v) (decode_iso1PMaxScheduleType j) a
      (\<lambda>a. same_iso1PMaxSchedule v a \<and> iso1PMaxSchedule_sized a)"
  unfolding encode_iso1PMaxScheduleType_def decode_iso1PMaxScheduleType_def [abs_def]
  by (rule reads_start [OF iso1PMaxSchedule.walk_reads, THEN reads_mono])
      (auto simp: iso1PMaxSchedule_props iso1PMaxSchedule_ok_def counts_def due_def init_iso1PMaxScheduleType_def)

subsection \<open>\<open>iso1CostType\<close>\<close>

record iso1CostType =
  iso1Cost_costKind :: u32
  iso1Cost_amount :: u32
  iso1Cost_amountMultiplier :: u8
  iso1Cost_amountMultiplier_isUsed :: bool

definition init_iso1CostType :: "iso1CostType \<Rightarrow> iso1CostType" where
  "init_iso1CostType a = a\<lparr>iso1Cost_amountMultiplier_isUsed := False\<rparr>"

definition iso1Cost_enc_step :: "iso1CostType \<Rightarrow> unit machine" where
  "iso1Cost_enc_step v grammarID x s =
     (if grammarID = 290 then
        goto 291 x (encode_simple 1 0 (\<lambda>s. encodeNBitUnsignedInteger s 2 (iso1Cost_costKind v)) s)
      else if grammarID = 291 then
        goto 292 x (encode_simple 1 0 (\<lambda>s. encodeUnsignedInteger32 s (iso1Cost_amount v)) s)
      else if grammarID = 292 then
        if iso1Cost_amountMultiplier_isUsed v then
          goto 3 x (encode_simple 2 0
          (\<lambda>s. encodeNBitUnsignedInteger s 3 (scast (iso1Cost_amountMultiplier v) + 3)) s)
        else finish 4 x (encodeNBitUnsignedInteger s 2 1)
      else if grammarID = 3 then
        finish 4 x (encodeNBitUnsignedInteger s 1 0)
      else Some (EXI_ERROR_UNKOWN_GRAMMAR_ID, (False, grammarID, x), s))"

definition encode_iso1CostType :: "bitstream \<Rightarrow> iso1CostType \<Rightarrow> (errn \<times> bitstream)
    option" where
  "encode_iso1CostType s v = run_encoder (iso1Cost_enc_step v) 290 () s"

definition iso1Cost_dec_step :: "u32 \<Rightarrow> (dec_static \<times> iso1CostType) machine" where
  "iso1Cost_dec_step j grammarID x s =
     (if grammarID = 290 then
        decode_switch 1
         [(0, decode_simple 290 291 (decode_nbit_field 2 (\<lambda>u a. a\<lparr>iso1Cost_costKind := u\<rparr>)))]
           290 x s
      else if grammarID = 291 then
        decode_switch 1
         [(0, decode_simple 291 292 (decode_u32_field j (\<lambda>u a. a\<lparr>iso1Cost_amount := u\<rparr>)))] 291 x
           s
      else if grammarID = 292 then
        decode_switch 2
         [(0, decode_simple 292 3 (decode_used (\<lambda>a. a\<lparr>iso1Cost_amountMultiplier_isUsed := True\<rparr>)
           (decode_nbit_field 3 (\<lambda>u a. a\<lparr>iso1Cost_amountMultiplier := ucast (u - 3)\<rparr>)))),
          (1, decode_end 4)] 292 x s
      else if grammarID = 3 then
        decode_switch 1
         [(0, decode_end 4)] 3 x s
      else Some (EXI_ERROR_UNKOWN_GRAMMAR_ID, (False, grammarID, x), s))"

definition decode_iso1CostType :: "u32 \<Rightarrow> iso1CostType decoder" where
  "decode_iso1CostType j x s = grammar_loop (iso1Cost_dec_step j) 290 (fst x, init_iso1CostType (snd x)) s"

definition iso1Cost_ok :: "iso1CostType \<Rightarrow> bool" where
  "iso1Cost_ok v \<longleftrightarrow>
     iso1Cost_costKind v < 4 \<and>
     iso1Cost_amount v < 2 ^ 31 \<and>
     when_used (iso1Cost_amountMultiplier_isUsed v) (scast (iso1Cost_amountMultiplier v) + 3 < (2 ^ 3 :: u32))"

definition same_iso1Cost :: "iso1CostType \<Rightarrow> iso1CostType \<Rightarrow> bool" where
  "same_iso1Cost v a \<longleftrightarrow>
     iso1Cost_costKind a = iso1Cost_costKind v \<and>
     iso1Cost_amount a = iso1Cost_amount v \<and>
     kept (iso1Cost_amountMultiplier_isUsed v) (iso1Cost_amountMultiplier_isUsed a)
       (iso1Cost_amountMultiplier a = iso1Cost_amountMultiplier v)"

definition iso1Cost_at :: "iso1CostType \<Rightarrow> nat \<Rightarrow> iso1CostType \<Rightarrow> bool" where
  "iso1Cost_at v g a \<longleftrightarrow>
     iso1Cost_ok v \<and>
     g \<in> {290, 291, 292, 3} \<and>
     (g \<notin> {290} \<longrightarrow> iso1Cost_costKind a = iso1Cost_costKind v) \<and>
     (g \<notin> {290, 291} \<longrightarrow> iso1Cost_amount a = iso1Cost_amount v) \<and>
     (if g \<in> {290, 291, 292} then \<not> iso1Cost_amountMultiplier_isUsed a
      else kept (iso1Cost_amountMultiplier_isUsed v) (iso1Cost_amountMultiplier_isUsed a)
        (iso1Cost_amountMultiplier a = iso1Cost_amountMultiplier v))"

lemmas iso1Cost_steps = iso1Cost_enc_step_def
  iso1Cost_dec_step_def

lemmas iso1Cost_props = iso1Cost_at_def same_iso1Cost_def left_at_def

interpretation iso1Cost: paired_machines "iso1Cost_enc_step v" "iso1Cost_dec_step j" "iso1Cost_at v"
  "left_at [(290, 56), (291, 51), (292, 8), (3, 1)]" "same_iso1Cost v" for v j
proof
  fix g a assume at: "iso1Cost_at v g a"
  then have "g \<in> {290, 291, 292, 3}" by (simp add: iso1Cost_at_def)
  then show "hops (iso1Cost_enc_step v) (iso1Cost_dec_step j) (iso1Cost_at v)
    (left_at [(290, 56), (291, 51), (292, 8), (3, 1)]) (same_iso1Cost v) g a" using at
    by - (elim insertE emptyE; (hypsubst, rule hops_by, simp (no_asm) add: iso1Cost_steps del: One_nat_def,
      simp (no_asm) add: iso1Cost_steps del: One_nat_def, simp (asm_lr) add: iso1Cost_props del: One_nat_def,
        (elim conjE)?,
      ((rule walks_ifs)+)?); (frule iso1Cost_ok_def [THEN iffD1], ((drule (1) known)+)?, (elim conjE)?,
        ((drule (1) known)+)?, (elim conjE)?,
      (((rule walks_shapes, simp (no_asm) del: One_nat_def, ((rule reads_intros)+)?);
      ((elim exE conjE)?,
        ((simp (no_asm_simp) add: iso1Cost_props; fail) | (simp (asm_lr) add: iso1Cost_props; fail) |
        (auto simp: iso1Cost_props; fail)))) | (erule (1) notE; fail) |
        ((elim exE conjE)?,
        ((simp (no_asm_simp) add: iso1Cost_props; fail) | (simp (asm_lr) add: iso1Cost_props; fail) |
        (auto simp: iso1Cost_props; fail))))))
qed

lemma reads_iso1Cost [reads_intros]:
  "iso1Cost_ok v \<Longrightarrow> reads 56 (\<lambda>s. encode_iso1CostType s v) (decode_iso1CostType j) a
      (same_iso1Cost v)"
  unfolding encode_iso1CostType_def decode_iso1CostType_def [abs_def]
  by (rule reads_start [OF iso1Cost.machine_reads, of _ 290, THEN reads_mono])
      (auto simp: iso1Cost_at_def  init_iso1CostType_def left_at_def)

interpretation iso1Cost_enc: advancing_machine "iso1Cost_enc_step v" "left_at [(290, 4), (291, 3), (292, 2), (3, 1)]"
    for v
  by unfold_locales (auto simp: iso1Cost_steps dest!: advance_dests split: if_splits;
      simp add: left_at_def)

interpretation iso1Cost_dec: advancing_machine "iso1Cost_dec_step j" "left_at [(290, 4), (291, 3), (292, 2), (3, 1)]"
    for j
  by unfold_locales (auto simp: iso1Cost_steps left_at_def dest!: advance_dests elim!: decode_switch_next split:
      if_splits)

subsection \<open>\<open>iso1ConsumptionCostType\<close>\<close>

record iso1ConsumptionCostType =
  iso1ConsumptionCost_startValue :: iso1PhysicalValueType
  iso1ConsumptionCost_Cost_array :: "iso1CostType list"
  iso1ConsumptionCost_Cost_arrayLen :: u16

definition init_iso1ConsumptionCostType :: "iso1ConsumptionCostType \<Rightarrow> iso1ConsumptionCostType" where
  "init_iso1ConsumptionCostType a = a\<lparr>iso1ConsumptionCost_Cost_arrayLen := 0\<rparr>"

record iso1ConsumptionCost_locals =
  iso1ConsumptionCost_Cost_currArrayIndex :: nat

definition iso1ConsumptionCost_enc_step :: "iso1ConsumptionCostType \<Rightarrow> iso1ConsumptionCost_locals machine"
    where
  "iso1ConsumptionCost_enc_step v grammarID x s =
     (if grammarID = 104 then
        goto 105 x (encode_child 1 0 (\<lambda>s. encode_iso1PhysicalValueType s (iso1ConsumptionCost_startValue v))
          s)
      else if grammarID = 105 then
        if iso1ConsumptionCost_Cost_currArrayIndex x < unat (iso1ConsumptionCost_Cost_arrayLen v) then
          encode_array_child 1 0 106 encode_iso1CostType (iso1ConsumptionCost_Cost_array v)
          iso1ConsumptionCost_Cost_currArrayIndex iso1ConsumptionCost_Cost_currArrayIndex_update x s
        else Some (EXI_ERROR_UNKOWN_EVENT, (False, grammarID, x), s)
      else if grammarID = 106 then
        if iso1ConsumptionCost_Cost_currArrayIndex x < unat (iso1ConsumptionCost_Cost_arrayLen v) then
          encode_array_child 2 0 107 encode_iso1CostType (iso1ConsumptionCost_Cost_array v)
          iso1ConsumptionCost_Cost_currArrayIndex iso1ConsumptionCost_Cost_currArrayIndex_update x s
        else finish 4 x (encodeNBitUnsignedInteger s 2 1)
      else if grammarID = 107 then
        if iso1ConsumptionCost_Cost_currArrayIndex x < unat (iso1ConsumptionCost_Cost_arrayLen v) then
          encode_array_child 2 0 3 encode_iso1CostType (iso1ConsumptionCost_Cost_array v)
          iso1ConsumptionCost_Cost_currArrayIndex iso1ConsumptionCost_Cost_currArrayIndex_update x s
        else finish 4 x (encodeNBitUnsignedInteger s 2 1)
      else if grammarID = 3 then
        finish 4 x (encodeNBitUnsignedInteger s 1 0)
      else Some (EXI_ERROR_UNKOWN_GRAMMAR_ID, (False, grammarID, x), s))"

definition encode_iso1ConsumptionCostType :: "bitstream \<Rightarrow> iso1ConsumptionCostType \<Rightarrow>
    (errn \<times> bitstream) option" where
  "encode_iso1ConsumptionCostType s v = run_encoder (iso1ConsumptionCost_enc_step v) 104
      \<lparr>iso1ConsumptionCost_Cost_currArrayIndex = 0\<rparr> s"

abbreviation (input) decode_next_iso1ConsumptionCost_Cost :: "u32 \<Rightarrow> iso1ConsumptionCostType decoder" where
  "decode_next_iso1ConsumptionCost_Cost j \<equiv> decode_element (decode_iso1CostType j)
      iso1ConsumptionCost_Cost_array iso1ConsumptionCost_Cost_arrayLen
      (\<lambda>xs n a. a\<lparr>iso1ConsumptionCost_Cost_array := xs, iso1ConsumptionCost_Cost_arrayLen
      := n\<rparr>)"

definition iso1ConsumptionCost_dec_step :: "u32 \<Rightarrow> (dec_static \<times> iso1ConsumptionCostType) machine"
    where
  "iso1ConsumptionCost_dec_step j grammarID x s =
     (if grammarID = 104 then
        decode_switch 1
         [(0, decode_child 105 (decode_sub (decode_iso1PhysicalValueType j) iso1ConsumptionCost_startValue
           (\<lambda>u a. a\<lparr>iso1ConsumptionCost_startValue := u\<rparr>)))] 104 x s
      else if grammarID = 105 then
        decode_switch 1
         [(0, decode_array_child 106 3 iso1ConsumptionCost_Cost_arrayLen (decode_next_iso1ConsumptionCost_Cost j))]
           105 x s
      else if grammarID = 106 then
        decode_switch 2
         [(0, decode_array_child 107 3 iso1ConsumptionCost_Cost_arrayLen (decode_next_iso1ConsumptionCost_Cost j)),
          (1, decode_end 4)] 106 x s
      else if grammarID = 107 then
        decode_switch 2
         [(0, decode_array_child 3 3 iso1ConsumptionCost_Cost_arrayLen (decode_next_iso1ConsumptionCost_Cost j)),
          (1, decode_end 4)] 107 x s
      else if grammarID = 3 then
        decode_switch 1
         [(0, decode_end 4)] 3 x s
      else Some (EXI_ERROR_UNKOWN_GRAMMAR_ID, (False, grammarID, x), s))"

definition decode_iso1ConsumptionCostType :: "u32 \<Rightarrow> iso1ConsumptionCostType decoder" where
  "decode_iso1ConsumptionCostType j x s = grammar_loop (iso1ConsumptionCost_dec_step j) 104
      (fst x, init_iso1ConsumptionCostType (snd x)) s"

definition iso1ConsumptionCost_ok :: "iso1ConsumptionCostType \<Rightarrow> bool" where
  "iso1ConsumptionCost_ok v \<longleftrightarrow>
     iso1PhysicalValue_ok (iso1ConsumptionCost_startValue v) \<and>
     length (iso1ConsumptionCost_Cost_array v) = 3 \<and> unat (iso1ConsumptionCost_Cost_arrayLen v) \<le> 3 \<and>
       in_use iso1Cost_ok (iso1ConsumptionCost_Cost_array v) (iso1ConsumptionCost_Cost_arrayLen v) \<and>
     unat (iso1ConsumptionCost_Cost_arrayLen v) \<noteq> 0"

definition iso1ConsumptionCost_sized :: "iso1ConsumptionCostType \<Rightarrow> bool" where
  "iso1ConsumptionCost_sized a \<longleftrightarrow>
     length (iso1ConsumptionCost_Cost_array a) = 3"

definition same_iso1ConsumptionCost :: "iso1ConsumptionCostType \<Rightarrow> iso1ConsumptionCostType \<Rightarrow>
    bool" where
  "same_iso1ConsumptionCost v a \<longleftrightarrow>
     same_iso1PhysicalValue (iso1ConsumptionCost_startValue v) (iso1ConsumptionCost_startValue a) \<and>
     iso1ConsumptionCost_Cost_arrayLen a = iso1ConsumptionCost_Cost_arrayLen v \<and>
       copied same_iso1Cost (unat (iso1ConsumptionCost_Cost_arrayLen v)) (iso1ConsumptionCost_Cost_array v)
       (iso1ConsumptionCost_Cost_array a)"

definition iso1ConsumptionCost_at :: "iso1ConsumptionCostType \<Rightarrow> nat \<Rightarrow>
    iso1ConsumptionCost_locals \<Rightarrow> iso1ConsumptionCostType \<Rightarrow> bool" where
  "iso1ConsumptionCost_at v g x a \<longleftrightarrow>
     counts [(104, 0), (105, 0), (106, 1), (107, 2)] g (iso1ConsumptionCost_Cost_currArrayIndex x) \<and>
     iso1ConsumptionCost_ok v \<and>
     g \<in> {104, 105, 106, 107, 3} \<and>
     iso1ConsumptionCost_sized a \<and>
     (g \<notin> {104} \<longrightarrow> same_iso1PhysicalValue (iso1ConsumptionCost_startValue v)
       (iso1ConsumptionCost_startValue a)) \<and>
     unat (iso1ConsumptionCost_Cost_arrayLen a) = iso1ConsumptionCost_Cost_currArrayIndex x \<and>
       iso1ConsumptionCost_Cost_currArrayIndex x \<le> unat (iso1ConsumptionCost_Cost_arrayLen v) \<and>
     copied same_iso1Cost (iso1ConsumptionCost_Cost_currArrayIndex x) (iso1ConsumptionCost_Cost_array v)
       (iso1ConsumptionCost_Cost_array a) \<and>
     (g = 3 \<longrightarrow> iso1ConsumptionCost_Cost_currArrayIndex x = unat (iso1ConsumptionCost_Cost_arrayLen v))"

definition iso1ConsumptionCost_rank :: "iso1ConsumptionCostType \<Rightarrow> nat \<Rightarrow>
    iso1ConsumptionCost_locals \<Rightarrow> nat" where
  "iso1ConsumptionCost_rank v g x = left_at [(104, 44), (105, 2), (106, 2), (107, 2), (3, 1)] g + due 58
      (iso1ConsumptionCost_Cost_arrayLen v) (iso1ConsumptionCost_Cost_currArrayIndex x)"

lemmas iso1ConsumptionCost_steps = iso1ConsumptionCost_enc_step_def
  iso1ConsumptionCost_dec_step_def

lemmas iso1ConsumptionCost_props = iso1ConsumptionCost_at_def iso1ConsumptionCost_sized_def
    same_iso1ConsumptionCost_def iso1ConsumptionCost_rank_def left_at_def

lemmas iso1ConsumptionCost_elements = in_use_nth [where P = iso1Cost_ok]

interpretation iso1ConsumptionCost: walking_pair "iso1ConsumptionCost_enc_step v" "iso1ConsumptionCost_dec_step j"
    "iso1ConsumptionCost_at v" "iso1ConsumptionCost_rank v"
  "\<lambda>a. same_iso1ConsumptionCost v a \<and> iso1ConsumptionCost_sized a" for v j
proof
  fix g x a assume at: "iso1ConsumptionCost_at v g x a"
  then have "g \<in> {104, 105, 106, 107, 3}" by (simp add: iso1ConsumptionCost_at_def)
  then show "walks (iso1ConsumptionCost_enc_step v) (iso1ConsumptionCost_dec_step j) (iso1ConsumptionCost_at v)
      (iso1ConsumptionCost_rank v)
    (\<lambda>a. same_iso1ConsumptionCost v a \<and> iso1ConsumptionCost_sized a) g x a" using at
    by - (elim insertE emptyE; (hypsubst, rule walks_by, simp (no_asm) add: iso1ConsumptionCost_steps del:
      One_nat_def,
      simp (no_asm) add: iso1ConsumptionCost_steps del: One_nat_def, simp (asm_lr) add: iso1ConsumptionCost_props del:
        One_nat_def, (elim conjE)?,
      ((rule walks_ifs)+)?); (frule iso1ConsumptionCost_ok_def [THEN iffD1], ((drule (1) known)+)?, (elim conjE)?,
        ((drule (1) known)+)?, (elim conjE)?,
      (((rule walks_shapes, simp (no_asm) del: One_nat_def, ((rule reads_intros)+)?);
      ((elim exE conjE)?,
        ((simp (no_asm_simp) add: iso1ConsumptionCost_props iso1ConsumptionCost_elements counts_def array_intros;
        fail) | (simp (asm_lr) add: iso1ConsumptionCost_props iso1ConsumptionCost_elements counts_def array_intros;
        fail) | (auto simp: iso1ConsumptionCost_props iso1ConsumptionCost_elements counts_def array_intros; fail)))) |
        (erule (1) notE; fail) |
        ((elim exE conjE)?,
        ((simp (no_asm_simp) add: iso1ConsumptionCost_props iso1ConsumptionCost_elements counts_def array_intros;
        fail) | (simp (asm_lr) add: iso1ConsumptionCost_props iso1ConsumptionCost_elements counts_def array_intros;
        fail) | (auto simp: iso1ConsumptionCost_props iso1ConsumptionCost_elements counts_def array_intros; fail))))))
qed

lemma reads_iso1ConsumptionCost [reads_intros]:
  "iso1ConsumptionCost_ok v \<Longrightarrow> iso1ConsumptionCost_sized a \<Longrightarrow>
      reads 218 (\<lambda>s. encode_iso1ConsumptionCostType s v) (decode_iso1ConsumptionCostType j) a
      (\<lambda>a. same_iso1ConsumptionCost v a \<and> iso1ConsumptionCost_sized a)"
  unfolding encode_iso1ConsumptionCostType_def decode_iso1ConsumptionCostType_def [abs_def]
  by (rule reads_start [OF iso1ConsumptionCost.walk_reads, THEN reads_mono])
      (auto simp: iso1ConsumptionCost_props iso1ConsumptionCost_ok_def counts_def due_def
      init_iso1ConsumptionCostType_def)

interpretation iso1ConsumptionCost_enc: advancing_machine "iso1ConsumptionCost_enc_step v" "left_at
    [(104, 5), (105, 4), (106, 3), (107, 2), (3, 1)]" for v
  by unfold_locales (auto simp: iso1ConsumptionCost_steps dest!: array_advance_dests split: if_splits;
      simp add: left_at_def)

interpretation iso1ConsumptionCost_dec: advancing_machine "iso1ConsumptionCost_dec_step j" "left_at
    [(104, 5), (105, 4), (106, 3), (107, 2), (3, 1)]" for j
  by unfold_locales (auto simp: iso1ConsumptionCost_steps dest!: array_advance_dests elim!:
      decode_switch_next split: if_splits;
      simp add: left_at_def)

subsection \<open>\<open>iso1SalesTariffEntryType\<close>\<close>

record iso1SalesTariffEntryType =
  iso1SalesTariffEntry_TimeInterval :: iso1IntervalType
  iso1SalesTariffEntry_TimeInterval_isUsed :: bool
  iso1SalesTariffEntry_RelativeTimeInterval :: iso1RelativeTimeIntervalType
  iso1SalesTariffEntry_RelativeTimeInterval_isUsed :: bool
  iso1SalesTariffEntry_EPriceLevel :: u8
  iso1SalesTariffEntry_EPriceLevel_isUsed :: bool
  iso1SalesTariffEntry_ConsumptionCost_array :: "iso1ConsumptionCostType list"
  iso1SalesTariffEntry_ConsumptionCost_arrayLen :: u16

definition init_iso1SalesTariffEntryType :: "iso1SalesTariffEntryType \<Rightarrow> iso1SalesTariffEntryType" where
  "init_iso1SalesTariffEntryType a = a\<lparr>iso1SalesTariffEntry_TimeInterval_isUsed := False,
      iso1SalesTariffEntry_RelativeTimeInterval_isUsed := False, iso1SalesTariffEntry_EPriceLevel_isUsed := False,
      iso1SalesTariffEntry_ConsumptionCost_arrayLen := 0\<rparr>"

record iso1SalesTariffEntry_locals =
  iso1SalesTariffEntry_ConsumptionCost_currArrayIndex :: nat

definition iso1SalesTariffEntry_enc_step :: "iso1SalesTariffEntryType \<Rightarrow> iso1SalesTariffEntry_locals
    machine" where
  "iso1SalesTariffEntry_enc_step v grammarID x s =
     (if grammarID = 283 then
        if iso1SalesTariffEntry_RelativeTimeInterval_isUsed v then
          goto 284 x
          (encode_child 2 0
          (\<lambda>s. encode_iso1RelativeTimeIntervalType s (iso1SalesTariffEntry_RelativeTimeInterval v)) s)
        else if iso1SalesTariffEntry_TimeInterval_isUsed v then
          goto 284 x (encode_child 2 1 (\<lambda>s. encode_iso1IntervalType s (iso1SalesTariffEntry_TimeInterval v))
          s)
        else Some (EXI_ERROR_UNKOWN_EVENT, (False, grammarID, x), s)
      else if grammarID = 284 then
        if iso1SalesTariffEntry_EPriceLevel_isUsed v then
          goto 285 x
          (encode_simple 2 0 (\<lambda>s. encodeNBitUnsignedInteger s 8 (ucast (iso1SalesTariffEntry_EPriceLevel v)))
          s)
        else if iso1SalesTariffEntry_ConsumptionCost_currArrayIndex x < unat
          (iso1SalesTariffEntry_ConsumptionCost_arrayLen v) then
          encode_array_child 2 1 286 encode_iso1ConsumptionCostType (iso1SalesTariffEntry_ConsumptionCost_array v)
          iso1SalesTariffEntry_ConsumptionCost_currArrayIndex
          iso1SalesTariffEntry_ConsumptionCost_currArrayIndex_update x s
        else finish 4 x (encodeNBitUnsignedInteger s 2 2)
      else if grammarID = 285 then
        if iso1SalesTariffEntry_ConsumptionCost_currArrayIndex x < unat
          (iso1SalesTariffEntry_ConsumptionCost_arrayLen v) then
          encode_array_child 2 0 286 encode_iso1ConsumptionCostType (iso1SalesTariffEntry_ConsumptionCost_array v)
          iso1SalesTariffEntry_ConsumptionCost_currArrayIndex
          iso1SalesTariffEntry_ConsumptionCost_currArrayIndex_update x s
        else finish 4 x (encodeNBitUnsignedInteger s 2 1)
      else if grammarID = 286 then
        if iso1SalesTariffEntry_ConsumptionCost_currArrayIndex x < unat
          (iso1SalesTariffEntry_ConsumptionCost_arrayLen v) then
          encode_array_child 2 0 287 encode_iso1ConsumptionCostType (iso1SalesTariffEntry_ConsumptionCost_array v)
          iso1SalesTariffEntry_ConsumptionCost_currArrayIndex
          iso1SalesTariffEntry_ConsumptionCost_currArrayIndex_update x s
        else finish 4 x (encodeNBitUnsignedInteger s 2 1)
      else if grammarID = 287 then
        if iso1SalesTariffEntry_ConsumptionCost_currArrayIndex x < unat
          (iso1SalesTariffEntry_ConsumptionCost_arrayLen v) then
          encode_array_child 2 0 3 encode_iso1ConsumptionCostType (iso1SalesTariffEntry_ConsumptionCost_array v)
          iso1SalesTariffEntry_ConsumptionCost_currArrayIndex
          iso1SalesTariffEntry_ConsumptionCost_currArrayIndex_update x s
        else finish 4 x (encodeNBitUnsignedInteger s 2 1)
      else if grammarID = 3 then
        finish 4 x (encodeNBitUnsignedInteger s 1 0)
      else Some (EXI_ERROR_UNKOWN_GRAMMAR_ID, (False, grammarID, x), s))"

definition encode_iso1SalesTariffEntryType :: "bitstream \<Rightarrow> iso1SalesTariffEntryType \<Rightarrow>
    (errn \<times> bitstream) option" where
  "encode_iso1SalesTariffEntryType s v = run_encoder (iso1SalesTariffEntry_enc_step v) 283
      \<lparr>iso1SalesTariffEntry_ConsumptionCost_currArrayIndex = 0\<rparr> s"

abbreviation (input) decode_next_iso1SalesTariffEntry_ConsumptionCost :: "u32 \<Rightarrow> iso1SalesTariffEntryType
    decoder" where
  "decode_next_iso1SalesTariffEntry_ConsumptionCost j \<equiv> decode_element (decode_iso1ConsumptionCostType j)
      iso1SalesTariffEntry_ConsumptionCost_array iso1SalesTariffEntry_ConsumptionCost_arrayLen
      (\<lambda>xs n a. a\<lparr>iso1SalesTariffEntry_ConsumptionCost_array := xs,
      iso1SalesTariffEntry_ConsumptionCost_arrayLen := n\<rparr>)"

definition iso1SalesTariffEntry_dec_step :: "u32 \<Rightarrow> (dec_static \<times> iso1SalesTariffEntryType) machine"
    where
  "iso1SalesTariffEntry_dec_step j grammarID x s =
     (if grammarID = 283 then
        decode_switch 2
         [(0, decode_child 284
           (decode_used (\<lambda>a. a\<lparr>iso1SalesTariffEntry_RelativeTimeInterval_isUsed := True\<rparr>)
           (decode_sub (decode_iso1RelativeTimeIntervalType j) iso1SalesTariffEntry_RelativeTimeInterval
           (\<lambda>u a. a\<lparr>iso1SalesTariffEntry_RelativeTimeInterval := u\<rparr>)))),
          (1, decode_child 284
            (decode_used (\<lambda>a. a\<lparr>iso1SalesTariffEntry_TimeInterval_isUsed := True\<rparr>)
            (decode_sub (decode_iso1IntervalType j) iso1SalesTariffEntry_TimeInterval
            (\<lambda>u a. a\<lparr>iso1SalesTariffEntry_TimeInterval := u\<rparr>))))] 283 x s
      else if grammarID = 284 then
        decode_switch 2
         [(0, decode_simple 284 285
           (decode_used (\<lambda>a. a\<lparr>iso1SalesTariffEntry_EPriceLevel_isUsed := True\<rparr>)
           (decode_nbit_field 8 (\<lambda>u a. a\<lparr>iso1SalesTariffEntry_EPriceLevel := ucast u\<rparr>)))),
          (1, decode_array_child 286 3 iso1SalesTariffEntry_ConsumptionCost_arrayLen
            (decode_next_iso1SalesTariffEntry_ConsumptionCost j)),
          (2, decode_end 4)] 284 x s
      else if grammarID = 285 then
        decode_switch 2
         [(0, decode_array_child 286 3 iso1SalesTariffEntry_ConsumptionCost_arrayLen
           (decode_next_iso1SalesTariffEntry_ConsumptionCost j)),
          (1, decode_end 4)] 285 x s
      else if grammarID = 286 then
        decode_switch 2
         [(0, decode_array_child 287 3 iso1SalesTariffEntry_ConsumptionCost_arrayLen
           (decode_next_iso1SalesTariffEntry_ConsumptionCost j)),
          (1, decode_end 4)] 286 x s
      else if grammarID = 287 then
        decode_switch 2
         [(0, decode_array_child 3 3 iso1SalesTariffEntry_ConsumptionCost_arrayLen
           (decode_next_iso1SalesTariffEntry_ConsumptionCost j)),
          (1, decode_end 4)] 287 x s
      else if grammarID = 3 then
        decode_switch 1
         [(0, decode_end 4)] 3 x s
      else Some (EXI_ERROR_UNKOWN_GRAMMAR_ID, (False, grammarID, x), s))"

definition decode_iso1SalesTariffEntryType :: "u32 \<Rightarrow> iso1SalesTariffEntryType decoder" where
  "decode_iso1SalesTariffEntryType j x s = grammar_loop (iso1SalesTariffEntry_dec_step j) 283
      (fst x, init_iso1SalesTariffEntryType (snd x)) s"

definition iso1SalesTariffEntry_ok :: "iso1SalesTariffEntryType \<Rightarrow> bool" where
  "iso1SalesTariffEntry_ok v \<longleftrightarrow>
     when_used (iso1SalesTariffEntry_RelativeTimeInterval_isUsed v)
       (iso1RelativeTimeInterval_ok (iso1SalesTariffEntry_RelativeTimeInterval v)) \<and>
     when_used (iso1SalesTariffEntry_EPriceLevel_isUsed v)
       (ucast (iso1SalesTariffEntry_EPriceLevel v) < (2 ^ 8 :: u32)) \<and>
     length (iso1SalesTariffEntry_ConsumptionCost_array v) = 3 \<and>
       unat (iso1SalesTariffEntry_ConsumptionCost_arrayLen v) \<le> 3 \<and>
       in_use iso1ConsumptionCost_ok (iso1SalesTariffEntry_ConsumptionCost_array v)
       (iso1SalesTariffEntry_ConsumptionCost_arrayLen v) \<and>
     some_of [iso1SalesTariffEntry_RelativeTimeInterval_isUsed v, iso1SalesTariffEntry_TimeInterval_isUsed v] \<and>
     exclusive [iso1SalesTariffEntry_RelativeTimeInterval_isUsed v, iso1SalesTariffEntry_TimeInterval_isUsed v]"

definition iso1SalesTariffEntry_sized :: "iso1SalesTariffEntryType \<Rightarrow> bool" where
  "iso1SalesTariffEntry_sized a \<longleftrightarrow>
     length (iso1SalesTariffEntry_ConsumptionCost_array a) = 3 \<and>
     list_all iso1ConsumptionCost_sized (iso1SalesTariffEntry_ConsumptionCost_array a)"

definition same_iso1SalesTariffEntry :: "iso1SalesTariffEntryType \<Rightarrow> iso1SalesTariffEntryType \<Rightarrow>
    bool" where
  "same_iso1SalesTariffEntry v a \<longleftrightarrow>
     kept (iso1SalesTariffEntry_RelativeTimeInterval_isUsed v) (iso1SalesTariffEntry_RelativeTimeInterval_isUsed a)
       (same_iso1RelativeTimeInterval (iso1SalesTariffEntry_RelativeTimeInterval v)
       (iso1SalesTariffEntry_RelativeTimeInterval a)) \<and>
     kept (iso1SalesTariffEntry_TimeInterval_isUsed v) (iso1SalesTariffEntry_TimeInterval_isUsed a)
       (same_iso1Interval (iso1SalesTariffEntry_TimeInterval v) (iso1SalesTariffEntry_TimeInterval a)) \<and>
     kept (iso1SalesTariffEntry_EPriceLevel_isUsed v) (iso1SalesTariffEntry_EPriceLevel_isUsed a)
       (iso1SalesTariffEntry_EPriceLevel a = iso1SalesTariffEntry_EPriceLevel v) \<and>
     iso1SalesTariffEntry_ConsumptionCost_arrayLen a = iso1SalesTariffEntry_ConsumptionCost_arrayLen v \<and>
       copied same_iso1ConsumptionCost (unat (iso1SalesTariffEntry_ConsumptionCost_arrayLen v))
       (iso1SalesTariffEntry_ConsumptionCost_array v) (iso1SalesTariffEntry_ConsumptionCost_array a)"

definition iso1SalesTariffEntry_at :: "iso1SalesTariffEntryType \<Rightarrow> nat \<Rightarrow>
    iso1SalesTariffEntry_locals \<Rightarrow> iso1SalesTariffEntryType \<Rightarrow> bool" where
  "iso1SalesTariffEntry_at v g x a \<longleftrightarrow>
     counts [(283, 0), (284, 0), (285, 0), (286, 1), (287, 2)] g
       (iso1SalesTariffEntry_ConsumptionCost_currArrayIndex x) \<and>
     iso1SalesTariffEntry_ok v \<and>
     g \<in> {283, 284, 285, 286, 287, 3} \<and>
     iso1SalesTariffEntry_sized a \<and>
     (if g \<in> {283} then \<not> iso1SalesTariffEntry_RelativeTimeInterval_isUsed a
      else kept (iso1SalesTariffEntry_RelativeTimeInterval_isUsed v)
        (iso1SalesTariffEntry_RelativeTimeInterval_isUsed a)
        (same_iso1RelativeTimeInterval (iso1SalesTariffEntry_RelativeTimeInterval v)
        (iso1SalesTariffEntry_RelativeTimeInterval a))) \<and>
     (if g \<in> {283} then \<not> iso1SalesTariffEntry_TimeInterval_isUsed a
      else kept (iso1SalesTariffEntry_TimeInterval_isUsed v) (iso1SalesTariffEntry_TimeInterval_isUsed a)
        (same_iso1Interval (iso1SalesTariffEntry_TimeInterval v) (iso1SalesTariffEntry_TimeInterval a))) \<and>
     (if g \<in> {283, 284} then \<not> iso1SalesTariffEntry_EPriceLevel_isUsed a
      else kept (iso1SalesTariffEntry_EPriceLevel_isUsed v) (iso1SalesTariffEntry_EPriceLevel_isUsed a)
        (iso1SalesTariffEntry_EPriceLevel a = iso1SalesTariffEntry_EPriceLevel v)) \<and>
     unat (iso1SalesTariffEntry_ConsumptionCost_arrayLen a) = iso1SalesTariffEntry_ConsumptionCost_currArrayIndex x
       \<and> iso1SalesTariffEntry_ConsumptionCost_currArrayIndex x \<le> unat
       (iso1SalesTariffEntry_ConsumptionCost_arrayLen v) \<and>
     copied same_iso1ConsumptionCost (iso1SalesTariffEntry_ConsumptionCost_currArrayIndex x)
       (iso1SalesTariffEntry_ConsumptionCost_array v) (iso1SalesTariffEntry_ConsumptionCost_array a) \<and>
     (g = 3 \<longrightarrow> iso1SalesTariffEntry_ConsumptionCost_currArrayIndex x = unat
       (iso1SalesTariffEntry_ConsumptionCost_arrayLen v))"

definition iso1SalesTariffEntry_rank :: "iso1SalesTariffEntryType \<Rightarrow> nat \<Rightarrow>
    iso1SalesTariffEntry_locals \<Rightarrow> nat" where
  "iso1SalesTariffEntry_rank v g x = left_at [(283, 104), (284, 14), (285, 2), (286, 2), (287, 2), (3, 1)] g + due 220
      (iso1SalesTariffEntry_ConsumptionCost_arrayLen v) (iso1SalesTariffEntry_ConsumptionCost_currArrayIndex x)"

lemmas iso1SalesTariffEntry_steps = iso1SalesTariffEntry_enc_step_def
  iso1SalesTariffEntry_dec_step_def

lemmas iso1SalesTariffEntry_props = iso1SalesTariffEntry_at_def iso1SalesTariffEntry_sized_def
    same_iso1SalesTariffEntry_def iso1SalesTariffEntry_rank_def left_at_def

lemmas iso1SalesTariffEntry_elements = in_use_nth [where P = iso1ConsumptionCost_ok]
  slots_nth [where P = iso1ConsumptionCost_sized]

interpretation iso1SalesTariffEntry: walking_pair "iso1SalesTariffEntry_enc_step v" "iso1SalesTariffEntry_dec_step j"
    "iso1SalesTariffEntry_at v" "iso1SalesTariffEntry_rank v"
  "\<lambda>a. same_iso1SalesTariffEntry v a \<and> iso1SalesTariffEntry_sized a" for v j
proof
  fix g x a assume at: "iso1SalesTariffEntry_at v g x a"
  then have "g \<in> {283, 284, 285, 286, 287, 3}" by (simp add: iso1SalesTariffEntry_at_def)
  then show "walks (iso1SalesTariffEntry_enc_step v) (iso1SalesTariffEntry_dec_step j) (iso1SalesTariffEntry_at v)
      (iso1SalesTariffEntry_rank v)
    (\<lambda>a. same_iso1SalesTariffEntry v a \<and> iso1SalesTariffEntry_sized a) g x a" using at
    by - (elim insertE emptyE; (hypsubst, rule walks_by, simp (no_asm) add: iso1SalesTariffEntry_steps del:
      One_nat_def,
      simp (no_asm) add: iso1SalesTariffEntry_steps del: One_nat_def, simp (asm_lr) add: iso1SalesTariffEntry_props
        del: One_nat_def, (elim conjE)?,
      ((rule walks_ifs)+)?); (frule iso1SalesTariffEntry_ok_def [THEN iffD1], ((drule (1) known)+)?, (elim conjE)?,
        ((drule (1) known)+)?, (elim conjE)?,
      (((rule walks_shapes, simp (no_asm) del: One_nat_def, ((rule reads_intros)+)?);
      ((elim exE conjE)?,
        ((simp (no_asm_simp) add: iso1SalesTariffEntry_props iso1SalesTariffEntry_elements counts_def array_intros;
        fail) | (simp (asm_lr) add: iso1SalesTariffEntry_props iso1SalesTariffEntry_elements counts_def array_intros;
        fail) | (auto simp: iso1SalesTariffEntry_props iso1SalesTariffEntry_elements counts_def array_intros; fail))))
        | (erule (1) notE; fail) |
        ((elim exE conjE)?,
        ((simp (no_asm_simp) add: iso1SalesTariffEntry_props iso1SalesTariffEntry_elements counts_def array_intros;
        fail) | (simp (asm_lr) add: iso1SalesTariffEntry_props iso1SalesTariffEntry_elements counts_def array_intros;
        fail) | (auto simp: iso1SalesTariffEntry_props iso1SalesTariffEntry_elements counts_def array_intros;
        fail))))))
qed

lemma reads_iso1SalesTariffEntry [reads_intros]:
  "iso1SalesTariffEntry_ok v \<Longrightarrow> iso1SalesTariffEntry_sized a \<Longrightarrow>
      reads 764 (\<lambda>s. encode_iso1SalesTariffEntryType s v) (decode_iso1SalesTariffEntryType j) a
      (\<lambda>a. same_iso1SalesTariffEntry v a \<and> iso1SalesTariffEntry_sized a)"
  unfolding encode_iso1SalesTariffEntryType_def decode_iso1SalesTariffEntryType_def [abs_def]
  by (rule reads_start [OF iso1SalesTariffEntry.walk_reads, THEN reads_mono])
      (auto simp: iso1SalesTariffEntry_props iso1SalesTariffEntry_ok_def counts_def due_def
      init_iso1SalesTariffEntryType_def)

interpretation iso1SalesTariffEntry_enc: advancing_machine "iso1SalesTariffEntry_enc_step v" "left_at
    [(283, 6), (284, 5), (285, 4), (286, 3), (287, 2), (3, 1)]" for v
  by unfold_locales (auto simp: iso1SalesTariffEntry_steps dest!: array_advance_dests split: if_splits;
      simp add: left_at_def)

interpretation iso1SalesTariffEntry_dec: advancing_machine "iso1SalesTariffEntry_dec_step j" "left_at
    [(283, 6), (284, 5), (285, 4), (286, 3), (287, 2), (3, 1)]" for j
  by unfold_locales (auto simp: iso1SalesTariffEntry_steps dest!: array_advance_dests elim!:
      decode_switch_next split: if_splits;
      simp add: left_at_def)

subsection \<open>\<open>iso1SalesTariffType\<close>\<close>

record iso1SalesTariffType =
  iso1SalesTariff_Id_characters :: "u8 list"
  iso1SalesTariff_Id_charactersLen :: u16
  iso1SalesTariff_Id_isUsed :: bool
  iso1SalesTariff_SalesTariffID :: u8
  iso1SalesTariff_SalesTariffDescription_characters :: "u8 list"
  iso1SalesTariff_SalesTariffDescription_charactersLen :: u16
  iso1SalesTariff_SalesTariffDescription_isUsed :: bool
  iso1SalesTariff_NumEPriceLevels :: u8
  iso1SalesTariff_NumEPriceLevels_isUsed :: bool
  iso1SalesTariff_SalesTariffEntry_array :: "iso1SalesTariffEntryType list"
  iso1SalesTariff_SalesTariffEntry_arrayLen :: u16

definition init_iso1SalesTariffType :: "iso1SalesTariffType \<Rightarrow> iso1SalesTariffType" where
  "init_iso1SalesTariffType a = a\<lparr>iso1SalesTariff_Id_isUsed := False,
      iso1SalesTariff_SalesTariffDescription_isUsed := False, iso1SalesTariff_NumEPriceLevels_isUsed := False,
      iso1SalesTariff_SalesTariffEntry_arrayLen := 0\<rparr>"

record iso1SalesTariff_locals =
  iso1SalesTariff_SalesTariffEntry_currArrayIndex :: nat

definition iso1SalesTariff_enc_step :: "iso1SalesTariffType \<Rightarrow> iso1SalesTariff_locals machine" where
  "iso1SalesTariff_enc_step v grammarID x s =
     (if grammarID = 346 then
        if iso1SalesTariff_Id_isUsed v then
          goto 347 x
          (encode_child 2 0
          (encode_string_field (iso1SalesTariff_Id_characters v) (iso1SalesTariff_Id_charactersLen v)) s)
        else goto 348 x
          (encode_simple 2 1 (\<lambda>s. encodeNBitUnsignedInteger s 8 (ucast (iso1SalesTariff_SalesTariffID v) - 1))
          s)
      else if grammarID = 347 then
        goto 348 x
          (encode_simple 1 0 (\<lambda>s. encodeNBitUnsignedInteger s 8 (ucast (iso1SalesTariff_SalesTariffID v) - 1))
          s)
      else if grammarID = 348 then
        if iso1SalesTariff_SalesTariffDescription_isUsed v then
          goto 349 x
          (encode_simple 2 0 (encode_string_field (iso1SalesTariff_SalesTariffDescription_characters v)
          (iso1SalesTariff_SalesTariffDescription_charactersLen v)) s)
        else if iso1SalesTariff_NumEPriceLevels_isUsed v then
          goto 350 x
          (encode_simple 2 1 (\<lambda>s. encodeNBitUnsignedInteger s 8 (ucast (iso1SalesTariff_NumEPriceLevels v)))
          s)
        else if iso1SalesTariff_SalesTariffEntry_currArrayIndex x < unat (iso1SalesTariff_SalesTariffEntry_arrayLen v)
          then encode_array_child 2 2 351 encode_iso1SalesTariffEntryType (iso1SalesTariff_SalesTariffEntry_array v)
          iso1SalesTariff_SalesTariffEntry_currArrayIndex iso1SalesTariff_SalesTariffEntry_currArrayIndex_update x s
        else Some (EXI_ERROR_UNKOWN_EVENT, (False, grammarID, x), s)
      else if grammarID = 349 then
        if iso1SalesTariff_NumEPriceLevels_isUsed v then
          goto 350 x
          (encode_simple 2 0 (\<lambda>s. encodeNBitUnsignedInteger s 8 (ucast (iso1SalesTariff_NumEPriceLevels v)))
          s)
        else if iso1SalesTariff_SalesTariffEntry_currArrayIndex x < unat (iso1SalesTariff_SalesTariffEntry_arrayLen v)
          then encode_array_child 2 1 351 encode_iso1SalesTariffEntryType (iso1SalesTariff_SalesTariffEntry_array v)
          iso1SalesTariff_SalesTariffEntry_currArrayIndex iso1SalesTariff_SalesTariffEntry_currArrayIndex_update x s
        else Some (EXI_ERROR_UNKOWN_EVENT, (False, grammarID, x), s)
      else if grammarID = 350 then
        if iso1SalesTariff_SalesTariffEntry_currArrayIndex x < unat (iso1SalesTariff_SalesTariffEntry_arrayLen v) then
          encode_array_child 1 0 351 encode_iso1SalesTariffEntryType (iso1SalesTariff_SalesTariffEntry_array v)
          iso1SalesTariff_SalesTariffEntry_currArrayIndex iso1SalesTariff_SalesTariffEntry_currArrayIndex_update x s
        else Some (EXI_ERROR_UNKOWN_EVENT, (False, grammarID, x), s)
      else if grammarID = 351 then
        if iso1SalesTariff_SalesTariffEntry_currArrayIndex x < unat (iso1SalesTariff_SalesTariffEntry_arrayLen v) then
          encode_array_child 2 0 351 encode_iso1SalesTariffEntryType (iso1SalesTariff_SalesTariffEntry_array v)
          iso1SalesTariff_SalesTariffEntry_currArrayIndex iso1SalesTariff_SalesTariffEntry_currArrayIndex_update x s
        else finish 4 x (encodeNBitUnsignedInteger s 2 1)
      else Some (EXI_ERROR_UNKOWN_GRAMMAR_ID, (False, grammarID, x), s))"

definition encode_iso1SalesTariffType :: "bitstream \<Rightarrow> iso1SalesTariffType \<Rightarrow>
    (errn \<times> bitstream) option" where
  "encode_iso1SalesTariffType s v = run_encoder (iso1SalesTariff_enc_step v) 346
      \<lparr>iso1SalesTariff_SalesTariffEntry_currArrayIndex = 0\<rparr> s"

abbreviation (input) decode_next_iso1SalesTariff_SalesTariffEntry :: "u32 \<Rightarrow> iso1SalesTariffType decoder"
    where
  "decode_next_iso1SalesTariff_SalesTariffEntry j \<equiv> decode_element (decode_iso1SalesTariffEntryType j)
      iso1SalesTariff_SalesTariffEntry_array iso1SalesTariff_SalesTariffEntry_arrayLen
      (\<lambda>xs n a. a\<lparr>iso1SalesTariff_SalesTariffEntry_array := xs,
      iso1SalesTariff_SalesTariffEntry_arrayLen := n\<rparr>)"

definition iso1SalesTariff_dec_step_3 :: "u32 \<Rightarrow> (dec_static \<times> iso1SalesTariffType) machine" where
  "iso1SalesTariff_dec_step_3 j grammarID x s =
     (if grammarID = 351 then
        decode_switch 2
         [(0, decode_array_child 351 5 iso1SalesTariff_SalesTariffEntry_arrayLen
           (decode_next_iso1SalesTariff_SalesTariffEntry j)),
          (1, decode_end 4)] 351 x s
      else Some (EXI_ERROR_UNKOWN_GRAMMAR_ID, (False, grammarID, x), s))"

definition iso1SalesTariff_dec_step_2 :: "u32 \<Rightarrow> (dec_static \<times> iso1SalesTariffType) machine" where
  "iso1SalesTariff_dec_step_2 j grammarID x s =
     (if grammarID = 348 then
        decode_switch 2
         [(0, decode_simple 348 349
           (decode_used (\<lambda>a. a\<lparr>iso1SalesTariff_SalesTariffDescription_isUsed := True\<rparr>)
           (decode_string_field j 33 iso1SalesTariff_SalesTariffDescription_characters
           (\<lambda>u a. a\<lparr>iso1SalesTariff_SalesTariffDescription_characters := u\<rparr>)
           (\<lambda>u a. a\<lparr>iso1SalesTariff_SalesTariffDescription_charactersLen := u\<rparr>)))),
          (1, decode_simple 348 350
            (decode_used (\<lambda>a. a\<lparr>iso1SalesTariff_NumEPriceLevels_isUsed := True\<rparr>)
            (decode_nbit_field 8 (\<lambda>u a. a\<lparr>iso1SalesTariff_NumEPriceLevels := ucast u\<rparr>)))),
          (2, decode_array_child 351 5 iso1SalesTariff_SalesTariffEntry_arrayLen
            (decode_next_iso1SalesTariff_SalesTariffEntry j))] 348 x s
      else if grammarID = 349 then
        decode_switch 2
         [(0, decode_simple 349 350
           (decode_used (\<lambda>a. a\<lparr>iso1SalesTariff_NumEPriceLevels_isUsed := True\<rparr>)
           (decode_nbit_field 8 (\<lambda>u a. a\<lparr>iso1SalesTariff_NumEPriceLevels := ucast u\<rparr>)))),
          (1, decode_array_child 351 5 iso1SalesTariff_SalesTariffEntry_arrayLen
            (decode_next_iso1SalesTariff_SalesTariffEntry j))] 349 x s
      else if grammarID = 350 then
        decode_switch 1
         [(0, decode_array_child 351 5 iso1SalesTariff_SalesTariffEntry_arrayLen
           (decode_next_iso1SalesTariff_SalesTariffEntry j))] 350 x s
      else iso1SalesTariff_dec_step_3 j grammarID x s)"

definition iso1SalesTariff_dec_step :: "u32 \<Rightarrow> (dec_static \<times> iso1SalesTariffType) machine" where
  "iso1SalesTariff_dec_step j grammarID x s =
     (if grammarID = 346 then
        decode_switch 2
         [(0, decode_child 347 (decode_used (\<lambda>a. a\<lparr>iso1SalesTariff_Id_isUsed := True\<rparr>)
           (decode_string_field j 51 iso1SalesTariff_Id_characters
           (\<lambda>u a. a\<lparr>iso1SalesTariff_Id_characters := u\<rparr>)
           (\<lambda>u a. a\<lparr>iso1SalesTariff_Id_charactersLen := u\<rparr>)))),
          (1, decode_simple 346 348
            (decode_nbit_field 8 (\<lambda>u a. a\<lparr>iso1SalesTariff_SalesTariffID := ucast (u + 1)\<rparr>)))]
            346 x s
      else if grammarID = 347 then
        decode_switch 1
         [(0, decode_simple 347 348
           (decode_nbit_field 8 (\<lambda>u a. a\<lparr>iso1SalesTariff_SalesTariffID := ucast (u + 1)\<rparr>)))] 347
           x s
      else iso1SalesTariff_dec_step_2 j grammarID x s)"

definition decode_iso1SalesTariffType :: "u32 \<Rightarrow> iso1SalesTariffType decoder" where
  "decode_iso1SalesTariffType j x s = grammar_loop (iso1SalesTariff_dec_step j) 346
      (fst x, init_iso1SalesTariffType (snd x)) s"

definition iso1SalesTariff_ok :: "iso1SalesTariffType \<Rightarrow> bool" where
  "iso1SalesTariff_ok v \<longleftrightarrow>
     when_used (iso1SalesTariff_Id_isUsed v)
       (string_ok 51 (iso1SalesTariff_Id_characters v) (iso1SalesTariff_Id_charactersLen v)) \<and>
     ucast (iso1SalesTariff_SalesTariffID v) - 1 < (2 ^ 8 :: u32) \<and>
     when_used (iso1SalesTariff_SalesTariffDescription_isUsed v)
       (string_ok 33 (iso1SalesTariff_SalesTariffDescription_characters v)
       (iso1SalesTariff_SalesTariffDescription_charactersLen v)) \<and>
     when_used (iso1SalesTariff_NumEPriceLevels_isUsed v) (ucast (iso1SalesTariff_NumEPriceLevels v) < (2 ^ 8 :: u32))
       \<and>
     length (iso1SalesTariff_SalesTariffEntry_array v) = 5 \<and> unat (iso1SalesTariff_SalesTariffEntry_arrayLen v)
       \<le> 5 \<and> in_use iso1SalesTariffEntry_ok (iso1SalesTariff_SalesTariffEntry_array v)
       (iso1SalesTariff_SalesTariffEntry_arrayLen v) \<and>
     some_of [iso1SalesTariff_SalesTariffDescription_isUsed v, iso1SalesTariff_NumEPriceLevels_isUsed v,
       unat (iso1SalesTariff_SalesTariffEntry_arrayLen v) \<noteq> 0] \<and>
     when_used (iso1SalesTariff_SalesTariffDescription_isUsed v)
       (some_of [iso1SalesTariff_NumEPriceLevels_isUsed v, unat (iso1SalesTariff_SalesTariffEntry_arrayLen v) \<noteq>
       0]) \<and>
     when_used (iso1SalesTariff_NumEPriceLevels_isUsed v)
       (unat (iso1SalesTariff_SalesTariffEntry_arrayLen v) \<noteq> 0)"

definition iso1SalesTariff_sized :: "iso1SalesTariffType \<Rightarrow> bool" where
  "iso1SalesTariff_sized a \<longleftrightarrow>
     length (iso1SalesTariff_Id_characters a) = 51 \<and>
     length (iso1SalesTariff_SalesTariffDescription_characters a) = 33 \<and>
     length (iso1SalesTariff_SalesTariffEntry_array a) = 5 \<and>
     list_all iso1SalesTariffEntry_sized (iso1SalesTariff_SalesTariffEntry_array a)"

definition same_iso1SalesTariff :: "iso1SalesTariffType \<Rightarrow> iso1SalesTariffType \<Rightarrow> bool" where
  "same_iso1SalesTariff v a \<longleftrightarrow>
     kept (iso1SalesTariff_Id_isUsed v) (iso1SalesTariff_Id_isUsed a)
       (iso1SalesTariff_Id_charactersLen a = iso1SalesTariff_Id_charactersLen v \<and>
       take (unat (iso1SalesTariff_Id_charactersLen v)) (iso1SalesTariff_Id_characters a) = take
       (unat (iso1SalesTariff_Id_charactersLen v)) (iso1SalesTariff_Id_characters v)) \<and>
     iso1SalesTariff_SalesTariffID a = iso1SalesTariff_SalesTariffID v \<and>
     kept (iso1SalesTariff_SalesTariffDescription_isUsed v) (iso1SalesTariff_SalesTariffDescription_isUsed a)
       (iso1SalesTariff_SalesTariffDescription_charactersLen a = iso1SalesTariff_SalesTariffDescription_charactersLen
       v \<and> take (unat (iso1SalesTariff_SalesTariffDescription_charactersLen v))
       (iso1SalesTariff_SalesTariffDescription_characters a) = take
       (unat (iso1SalesTariff_SalesTariffDescription_charactersLen v))
       (iso1SalesTariff_SalesTariffDescription_characters v)) \<and>
     kept (iso1SalesTariff_NumEPriceLevels_isUsed v) (iso1SalesTariff_NumEPriceLevels_isUsed a)
       (iso1SalesTariff_NumEPriceLevels a = iso1SalesTariff_NumEPriceLevels v) \<and>
     iso1SalesTariff_SalesTariffEntry_arrayLen a = iso1SalesTariff_SalesTariffEntry_arrayLen v \<and>
       copied same_iso1SalesTariffEntry (unat (iso1SalesTariff_SalesTariffEntry_arrayLen v))
       (iso1SalesTariff_SalesTariffEntry_array v) (iso1SalesTariff_SalesTariffEntry_array a)"

definition iso1SalesTariff_at :: "iso1SalesTariffType \<Rightarrow> nat \<Rightarrow> iso1SalesTariff_locals
    \<Rightarrow> iso1SalesTariffType \<Rightarrow> bool" where
  "iso1SalesTariff_at v g x a \<longleftrightarrow>
     counts [(346, 0), (347, 0), (348, 0), (349, 0), (350, 0)] g (iso1SalesTariff_SalesTariffEntry_currArrayIndex x)
       \<and>
     iso1SalesTariff_ok v \<and>
     g \<in> {346, 347, 348, 349, 350, 351} \<and>
     iso1SalesTariff_sized a \<and>
     (if g \<in> {346} then \<not> iso1SalesTariff_Id_isUsed a
      else kept (iso1SalesTariff_Id_isUsed v) (iso1SalesTariff_Id_isUsed a)
        (iso1SalesTariff_Id_charactersLen a = iso1SalesTariff_Id_charactersLen v \<and>
        take (unat (iso1SalesTariff_Id_charactersLen v)) (iso1SalesTariff_Id_characters a) = take
        (unat (iso1SalesTariff_Id_charactersLen v)) (iso1SalesTariff_Id_characters v))) \<and>
     (g \<notin> {346, 347} \<longrightarrow> iso1SalesTariff_SalesTariffID a = iso1SalesTariff_SalesTariffID v)
       \<and>
     (if g \<in> {346, 347, 348} then \<not> iso1SalesTariff_SalesTariffDescription_isUsed a
      else kept (iso1SalesTariff_SalesTariffDescription_isUsed v) (iso1SalesTariff_SalesTariffDescription_isUsed a)
        (iso1SalesTariff_SalesTariffDescription_charactersLen a = iso1SalesTariff_SalesTariffDescription_charactersLen
        v \<and> take (unat (iso1SalesTariff_SalesTariffDescription_charactersLen v))
        (iso1SalesTariff_SalesTariffDescription_characters a) = take
        (unat (iso1SalesTariff_SalesTariffDescription_charactersLen v))
        (iso1SalesTariff_SalesTariffDescription_characters v))) \<and>
     (if g \<in> {346, 347, 348, 349} then \<not> iso1SalesTariff_NumEPriceLevels_isUsed a
      else kept (iso1SalesTariff_NumEPriceLevels_isUsed v) (iso1SalesTariff_NumEPriceLevels_isUsed a)
        (iso1SalesTariff_NumEPriceLevels a = iso1SalesTariff_NumEPriceLevels v)) \<and>
     unat (iso1SalesTariff_SalesTariffEntry_arrayLen a) = iso1SalesTariff_SalesTariffEntry_currArrayIndex x \<and>
       iso1SalesTariff_SalesTariffEntry_currArrayIndex x \<le> unat (iso1SalesTariff_SalesTariffEntry_arrayLen v)
       \<and>
     copied same_iso1SalesTariffEntry (iso1SalesTariff_SalesTariffEntry_currArrayIndex x)
       (iso1SalesTariff_SalesTariffEntry_array v) (iso1SalesTariff_SalesTariffEntry_array a) \<and>
     (g = 349 \<longrightarrow> iso1SalesTariff_SalesTariffDescription_isUsed v) \<and>
     (g = 350 \<longrightarrow> iso1SalesTariff_NumEPriceLevels_isUsed v)"

definition iso1SalesTariff_rank :: "iso1SalesTariffType \<Rightarrow> nat \<Rightarrow> iso1SalesTariff_locals
    \<Rightarrow> nat" where
  "iso1SalesTariff_rank v g x = left_at [(346, 751), (347, 317), (348, 306), (349, 14), (350, 2), (351, 2)] g + due
      766 (iso1SalesTariff_SalesTariffEntry_arrayLen v) (iso1SalesTariff_SalesTariffEntry_currArrayIndex x)"

lemmas iso1SalesTariff_steps = iso1SalesTariff_enc_step_def
  iso1SalesTariff_dec_step_def iso1SalesTariff_dec_step_2_def iso1SalesTariff_dec_step_3_def

lemmas iso1SalesTariff_props = iso1SalesTariff_at_def iso1SalesTariff_sized_def same_iso1SalesTariff_def
    iso1SalesTariff_rank_def left_at_def

lemmas iso1SalesTariff_elements = in_use_nth [where P = iso1SalesTariffEntry_ok]
  slots_nth [where P = iso1SalesTariffEntry_sized]

interpretation iso1SalesTariff: walking_pair "iso1SalesTariff_enc_step v" "iso1SalesTariff_dec_step j"
    "iso1SalesTariff_at v" "iso1SalesTariff_rank v"
  "\<lambda>a. same_iso1SalesTariff v a \<and> iso1SalesTariff_sized a" for v j
proof
  fix g x a assume at: "iso1SalesTariff_at v g x a"
  then have "g \<in> {346, 347, 348, 349, 350, 351}" by (simp add: iso1SalesTariff_at_def)
  then show "walks (iso1SalesTariff_enc_step v) (iso1SalesTariff_dec_step j) (iso1SalesTariff_at v)
      (iso1SalesTariff_rank v)
    (\<lambda>a. same_iso1SalesTariff v a \<and> iso1SalesTariff_sized a) g x a" using at
    by - (elim insertE emptyE; (hypsubst, rule walks_by, simp (no_asm) add: iso1SalesTariff_steps del: One_nat_def,
      simp (no_asm) add: iso1SalesTariff_steps del: One_nat_def, simp (asm_lr) add: iso1SalesTariff_props del:
        One_nat_def, (elim conjE)?,
      ((rule walks_ifs)+)?); (frule iso1SalesTariff_ok_def [THEN iffD1], ((drule (1) known)+)?, (elim conjE)?,
        ((drule (1) known)+)?, (elim conjE)?,
      (((rule walks_shapes, simp (no_asm) del: One_nat_def, ((rule reads_intros)+)?);
      ((elim exE conjE)?,
        ((simp (no_asm_simp) add: iso1SalesTariff_props iso1SalesTariff_elements counts_def array_intros; fail) |
        (simp (asm_lr) add: iso1SalesTariff_props iso1SalesTariff_elements counts_def array_intros; fail) |
        (auto simp: iso1SalesTariff_props iso1SalesTariff_elements counts_def array_intros; fail)))) |
        (erule (1) notE; fail) |
        ((elim exE conjE)?,
        ((simp (no_asm_simp) add: iso1SalesTariff_props iso1SalesTariff_elements counts_def array_intros; fail) |
        (simp (asm_lr) add: iso1SalesTariff_props iso1SalesTariff_elements counts_def array_intros; fail) |
        (auto simp: iso1SalesTariff_props iso1SalesTariff_elements counts_def array_intros; fail))))))
qed

lemma reads_iso1SalesTariff [reads_intros]:
  "iso1SalesTariff_ok v \<Longrightarrow> iso1SalesTariff_sized a \<Longrightarrow>
      reads 4581 (\<lambda>s. encode_iso1SalesTariffType s v) (decode_iso1SalesTariffType j) a
      (\<lambda>a. same_iso1SalesTariff v a \<and> iso1SalesTariff_sized a)"
  unfolding encode_iso1SalesTariffType_def decode_iso1SalesTariffType_def [abs_def]
  by (rule reads_start [OF iso1SalesTariff.walk_reads, THEN reads_mono])
      (auto simp: iso1SalesTariff_props iso1SalesTariff_ok_def counts_def due_def init_iso1SalesTariffType_def)

subsection \<open>\<open>iso1SAScheduleTupleType\<close>\<close>

record iso1SAScheduleTupleType =
  iso1SAScheduleTuple_SAScheduleTupleID :: u8
  iso1SAScheduleTuple_PMaxSchedule :: iso1PMaxScheduleType
  iso1SAScheduleTuple_SalesTariff :: iso1SalesTariffType
  iso1SAScheduleTuple_SalesTariff_isUsed :: bool

definition init_iso1SAScheduleTupleType :: "iso1SAScheduleTupleType \<Rightarrow> iso1SAScheduleTupleType" where
  "init_iso1SAScheduleTupleType a = a\<lparr>iso1SAScheduleTuple_SalesTariff_isUsed := False\<rparr>"

definition iso1SAScheduleTuple_enc_step :: "iso1SAScheduleTupleType \<Rightarrow> unit machine" where
  "iso1SAScheduleTuple_enc_step v grammarID x s =
     (if grammarID = 248 then
        goto 249 x
          (encode_simple 1 0
          (\<lambda>s. encodeNBitUnsignedInteger s 8 (ucast (iso1SAScheduleTuple_SAScheduleTupleID v) - 1)) s)
      else if grammarID = 249 then
        goto 250 x (encode_child 1 0 (\<lambda>s. encode_iso1PMaxScheduleType s (iso1SAScheduleTuple_PMaxSchedule v))
          s)
      else if grammarID = 250 then
        if iso1SAScheduleTuple_SalesTariff_isUsed v then
          goto 3 x (encode_child 2 0 (\<lambda>s. encode_iso1SalesTariffType s (iso1SAScheduleTuple_SalesTariff v)) s)
        else finish 4 x (encodeNBitUnsignedInteger s 2 1)
      else if grammarID = 3 then
        finish 4 x (encodeNBitUnsignedInteger s 1 0)
      else Some (EXI_ERROR_UNKOWN_GRAMMAR_ID, (False, grammarID, x), s))"

definition encode_iso1SAScheduleTupleType :: "bitstream \<Rightarrow> iso1SAScheduleTupleType \<Rightarrow>
    (errn \<times> bitstream) option" where
  "encode_iso1SAScheduleTupleType s v = run_encoder (iso1SAScheduleTuple_enc_step v) 248 () s"

definition iso1SAScheduleTuple_dec_step :: "u32 \<Rightarrow> (dec_static \<times> iso1SAScheduleTupleType) machine"
    where
  "iso1SAScheduleTuple_dec_step j grammarID x s =
     (if grammarID = 248 then
        decode_switch 1
         [(0, decode_simple 248 249
           (decode_nbit_field 8
           (\<lambda>u a. a\<lparr>iso1SAScheduleTuple_SAScheduleTupleID := ucast (u + 1)\<rparr>)))] 248 x s
      else if grammarID = 249 then
        decode_switch 1
         [(0, decode_child 250 (decode_sub (decode_iso1PMaxScheduleType j) iso1SAScheduleTuple_PMaxSchedule
           (\<lambda>u a. a\<lparr>iso1SAScheduleTuple_PMaxSchedule := u\<rparr>)))] 249 x s
      else if grammarID = 250 then
        decode_switch 2
         [(0, decode_child 3
           (decode_used (\<lambda>a. a\<lparr>iso1SAScheduleTuple_SalesTariff_isUsed := True\<rparr>)
           (decode_sub (decode_iso1SalesTariffType j) iso1SAScheduleTuple_SalesTariff
           (\<lambda>u a. a\<lparr>iso1SAScheduleTuple_SalesTariff := u\<rparr>)))),
          (1, decode_end 4)] 250 x s
      else if grammarID = 3 then
        decode_switch 1
         [(0, decode_end 4)] 3 x s
      else Some (EXI_ERROR_UNKOWN_GRAMMAR_ID, (False, grammarID, x), s))"

definition decode_iso1SAScheduleTupleType :: "u32 \<Rightarrow> iso1SAScheduleTupleType decoder" where
  "decode_iso1SAScheduleTupleType j x s = grammar_loop (iso1SAScheduleTuple_dec_step j) 248
      (fst x, init_iso1SAScheduleTupleType (snd x)) s"

definition iso1SAScheduleTuple_ok :: "iso1SAScheduleTupleType \<Rightarrow> bool" where
  "iso1SAScheduleTuple_ok v \<longleftrightarrow>
     ucast (iso1SAScheduleTuple_SAScheduleTupleID v) - 1 < (2 ^ 8 :: u32) \<and>
     iso1PMaxSchedule_ok (iso1SAScheduleTuple_PMaxSchedule v) \<and>
     when_used (iso1SAScheduleTuple_SalesTariff_isUsed v) (iso1SalesTariff_ok (iso1SAScheduleTuple_SalesTariff v))"

definition iso1SAScheduleTuple_sized :: "iso1SAScheduleTupleType \<Rightarrow> bool" where
  "iso1SAScheduleTuple_sized a \<longleftrightarrow>
     iso1PMaxSchedule_sized (iso1SAScheduleTuple_PMaxSchedule a) \<and>
     iso1SalesTariff_sized (iso1SAScheduleTuple_SalesTariff a)"

definition same_iso1SAScheduleTuple :: "iso1SAScheduleTupleType \<Rightarrow> iso1SAScheduleTupleType \<Rightarrow>
    bool" where
  "same_iso1SAScheduleTuple v a \<longleftrightarrow>
     iso1SAScheduleTuple_SAScheduleTupleID a = iso1SAScheduleTuple_SAScheduleTupleID v \<and>
     same_iso1PMaxSchedule (iso1SAScheduleTuple_PMaxSchedule v) (iso1SAScheduleTuple_PMaxSchedule a) \<and>
     kept (iso1SAScheduleTuple_SalesTariff_isUsed v) (iso1SAScheduleTuple_SalesTariff_isUsed a)
       (same_iso1SalesTariff (iso1SAScheduleTuple_SalesTariff v) (iso1SAScheduleTuple_SalesTariff a))"

definition iso1SAScheduleTuple_at :: "iso1SAScheduleTupleType \<Rightarrow> nat \<Rightarrow> iso1SAScheduleTupleType
    \<Rightarrow> bool" where
  "iso1SAScheduleTuple_at v g a \<longleftrightarrow>
     iso1SAScheduleTuple_ok v \<and>
     g \<in> {248, 249, 250, 3} \<and>
     iso1SAScheduleTuple_sized a \<and>
     (g \<notin> {248} \<longrightarrow> iso1SAScheduleTuple_SAScheduleTupleID
       a = iso1SAScheduleTuple_SAScheduleTupleID v) \<and>
     (g \<notin> {248, 249} \<longrightarrow> same_iso1PMaxSchedule (iso1SAScheduleTuple_PMaxSchedule v)
       (iso1SAScheduleTuple_PMaxSchedule a)) \<and>
     (if g \<in> {248, 249, 250} then \<not> iso1SAScheduleTuple_SalesTariff_isUsed a
      else kept (iso1SAScheduleTuple_SalesTariff_isUsed v) (iso1SAScheduleTuple_SalesTariff_isUsed a)
        (same_iso1SalesTariff (iso1SAScheduleTuple_SalesTariff v) (iso1SAScheduleTuple_SalesTariff a)))"

lemmas iso1SAScheduleTuple_steps = iso1SAScheduleTuple_enc_step_def
  iso1SAScheduleTuple_dec_step_def

lemmas iso1SAScheduleTuple_props = iso1SAScheduleTuple_at_def iso1SAScheduleTuple_sized_def
    same_iso1SAScheduleTuple_def left_at_def

interpretation iso1SAScheduleTuple: paired_machines "iso1SAScheduleTuple_enc_step v" "iso1SAScheduleTuple_dec_step j"
    "iso1SAScheduleTuple_at v"
  "left_at [(248, 5273), (249, 5262), (250, 4584), (3, 1)]" "\<lambda>a. same_iso1SAScheduleTuple v a \<and>
      iso1SAScheduleTuple_sized a" for v j
proof
  fix g a assume at: "iso1SAScheduleTuple_at v g a"
  then have "g \<in> {248, 249, 250, 3}" by (simp add: iso1SAScheduleTuple_at_def)
  then show "hops (iso1SAScheduleTuple_enc_step v) (iso1SAScheduleTuple_dec_step j) (iso1SAScheduleTuple_at v)
    (left_at [(248, 5273), (249, 5262), (250, 4584), (3, 1)]) (\<lambda>a. same_iso1SAScheduleTuple v a \<and>
      iso1SAScheduleTuple_sized a) g a" using at
    by - (elim insertE emptyE; (hypsubst, rule hops_by, simp (no_asm) add: iso1SAScheduleTuple_steps del: One_nat_def,
      simp (no_asm) add: iso1SAScheduleTuple_steps del: One_nat_def, simp (asm_lr) add: iso1SAScheduleTuple_props del:
        One_nat_def, (elim conjE)?,
      ((rule walks_ifs)+)?); (frule iso1SAScheduleTuple_ok_def [THEN iffD1], ((drule (1) known)+)?, (elim conjE)?,
        ((drule (1) known)+)?, (elim conjE)?,
      (((rule walks_shapes, simp (no_asm) del: One_nat_def, ((rule reads_intros)+)?);
      ((elim exE conjE)?,
        ((simp (no_asm_simp) add: iso1SAScheduleTuple_props; fail) |
        (simp (asm_lr) add: iso1SAScheduleTuple_props; fail) | (auto simp: iso1SAScheduleTuple_props; fail)))) |
        (erule (1) notE; fail) |
        ((elim exE conjE)?,
        ((simp (no_asm_simp) add: iso1SAScheduleTuple_props; fail) |
        (simp (asm_lr) add: iso1SAScheduleTuple_props; fail) | (auto simp: iso1SAScheduleTuple_props; fail))))))
qed

lemma reads_iso1SAScheduleTuple [reads_intros]:
  "iso1SAScheduleTuple_ok v \<Longrightarrow> iso1SAScheduleTuple_sized a \<Longrightarrow>
      reads 5273 (\<lambda>s. encode_iso1SAScheduleTupleType s v) (decode_iso1SAScheduleTupleType j) a
      (\<lambda>a. same_iso1SAScheduleTuple v a \<and> iso1SAScheduleTuple_sized a)"
  unfolding encode_iso1SAScheduleTupleType_def decode_iso1SAScheduleTupleType_def [abs_def]
  by (rule reads_start [OF iso1SAScheduleTuple.machine_reads, of _ 248, THEN reads_mono])
      (auto simp: iso1SAScheduleTuple_at_def iso1SAScheduleTuple_sized_def init_iso1SAScheduleTupleType_def
      left_at_def)

interpretation iso1SAScheduleTuple_enc: advancing_machine "iso1SAScheduleTuple_enc_step v" "left_at
    [(248, 4), (249, 3), (250, 2), (3, 1)]" for v
  by unfold_locales (auto simp: iso1SAScheduleTuple_steps dest!: advance_dests split: if_splits;
      simp add: left_at_def)

interpretation iso1SAScheduleTuple_dec: advancing_machine "iso1SAScheduleTuple_dec_step j" "left_at
    [(248, 4), (249, 3), (250, 2), (3, 1)]" for j
  by unfold_locales (auto simp: iso1SAScheduleTuple_steps dest!: advance_dests elim!: decode_switch_next
      split: if_splits;
      simp add: left_at_def)

subsection \<open>\<open>iso1SAScheduleListType\<close>\<close>

record iso1SAScheduleListType =
  iso1SAScheduleList_SAScheduleTuple_array :: "iso1SAScheduleTupleType list"
  iso1SAScheduleList_SAScheduleTuple_arrayLen :: u16

definition init_iso1SAScheduleListType :: "iso1SAScheduleListType \<Rightarrow> iso1SAScheduleListType" where
  "init_iso1SAScheduleListType a = a\<lparr>iso1SAScheduleList_SAScheduleTuple_arrayLen := 0\<rparr>"

record iso1SAScheduleList_locals =
  iso1SAScheduleList_SAScheduleTuple_currArrayIndex :: nat

definition iso1SAScheduleList_enc_step :: "iso1SAScheduleListType \<Rightarrow> iso1SAScheduleList_locals machine"
    where
  "iso1SAScheduleList_enc_step v grammarID x s =
     (if grammarID = 217 then
        if iso1SAScheduleList_SAScheduleTuple_currArrayIndex x < unat (iso1SAScheduleList_SAScheduleTuple_arrayLen v)
          then encode_array_child 1 0 218 encode_iso1SAScheduleTupleType (iso1SAScheduleList_SAScheduleTuple_array v)
          iso1SAScheduleList_SAScheduleTuple_currArrayIndex iso1SAScheduleList_SAScheduleTuple_currArrayIndex_update x
          s
        else Some (EXI_ERROR_UNKOWN_EVENT, (False, grammarID, x), s)
      else if grammarID = 218 then
        if iso1SAScheduleList_SAScheduleTuple_currArrayIndex x < unat (iso1SAScheduleList_SAScheduleTuple_arrayLen v)
          then encode_array_child 2 0 219 encode_iso1SAScheduleTupleType (iso1SAScheduleList_SAScheduleTuple_array v)
          iso1SAScheduleList_SAScheduleTuple_currArrayIndex iso1SAScheduleList_SAScheduleTuple_currArrayIndex_update x
          s
        else finish 4 x (encodeNBitUnsignedInteger s 2 1)
      else if grammarID = 219 then
        if iso1SAScheduleList_SAScheduleTuple_currArrayIndex x < unat (iso1SAScheduleList_SAScheduleTuple_arrayLen v)
          then encode_array_child 2 0 3 encode_iso1SAScheduleTupleType (iso1SAScheduleList_SAScheduleTuple_array v)
          iso1SAScheduleList_SAScheduleTuple_currArrayIndex iso1SAScheduleList_SAScheduleTuple_currArrayIndex_update x
          s
        else finish 4 x (encodeNBitUnsignedInteger s 2 1)
      else if grammarID = 3 then
        finish 4 x (encodeNBitUnsignedInteger s 1 0)
      else Some (EXI_ERROR_UNKOWN_GRAMMAR_ID, (False, grammarID, x), s))"

definition encode_iso1SAScheduleListType :: "bitstream \<Rightarrow> iso1SAScheduleListType \<Rightarrow>
    (errn \<times> bitstream) option" where
  "encode_iso1SAScheduleListType s v = run_encoder (iso1SAScheduleList_enc_step v) 217
      \<lparr>iso1SAScheduleList_SAScheduleTuple_currArrayIndex = 0\<rparr> s"

abbreviation (input) decode_next_iso1SAScheduleList_SAScheduleTuple :: "u32 \<Rightarrow> iso1SAScheduleListType
    decoder" where
  "decode_next_iso1SAScheduleList_SAScheduleTuple j \<equiv> decode_element (decode_iso1SAScheduleTupleType j)
      iso1SAScheduleList_SAScheduleTuple_array iso1SAScheduleList_SAScheduleTuple_arrayLen
      (\<lambda>xs n a. a\<lparr>iso1SAScheduleList_SAScheduleTuple_array := xs,
      iso1SAScheduleList_SAScheduleTuple_arrayLen := n\<rparr>)"

definition iso1SAScheduleList_dec_step :: "u32 \<Rightarrow> (dec_static \<times> iso1SAScheduleListType) machine"
    where
  "iso1SAScheduleList_dec_step j grammarID x s =
     (if grammarID = 217 then
        decode_switch 1
         [(0, decode_array_child 218 3 iso1SAScheduleList_SAScheduleTuple_arrayLen
           (decode_next_iso1SAScheduleList_SAScheduleTuple j))] 217 x s
      else if grammarID = 218 then
        decode_switch 2
         [(0, decode_array_child 219 3 iso1SAScheduleList_SAScheduleTuple_arrayLen
           (decode_next_iso1SAScheduleList_SAScheduleTuple j)),
          (1, decode_end 4)] 218 x s
      else if grammarID = 219 then
        decode_switch 2
         [(0, decode_array_child 3 3 iso1SAScheduleList_SAScheduleTuple_arrayLen
           (decode_next_iso1SAScheduleList_SAScheduleTuple j)),
          (1, decode_end 4)] 219 x s
      else if grammarID = 3 then
        decode_switch 1
         [(0, decode_end 4)] 3 x s
      else Some (EXI_ERROR_UNKOWN_GRAMMAR_ID, (False, grammarID, x), s))"

definition decode_iso1SAScheduleListType :: "u32 \<Rightarrow> iso1SAScheduleListType decoder" where
  "decode_iso1SAScheduleListType j x s = grammar_loop (iso1SAScheduleList_dec_step j) 217
      (fst x, init_iso1SAScheduleListType (snd x)) s"

definition iso1SAScheduleList_ok :: "iso1SAScheduleListType \<Rightarrow> bool" where
  "iso1SAScheduleList_ok v \<longleftrightarrow>
     length (iso1SAScheduleList_SAScheduleTuple_array v) = 3 \<and>
       unat (iso1SAScheduleList_SAScheduleTuple_arrayLen v) \<le> 3 \<and>
       in_use iso1SAScheduleTuple_ok (iso1SAScheduleList_SAScheduleTuple_array v)
       (iso1SAScheduleList_SAScheduleTuple_arrayLen v) \<and>
     unat (iso1SAScheduleList_SAScheduleTuple_arrayLen v) \<noteq> 0"

definition iso1SAScheduleList_sized :: "iso1SAScheduleListType \<Rightarrow> bool" where
  "iso1SAScheduleList_sized a \<longleftrightarrow>
     length (iso1SAScheduleList_SAScheduleTuple_array a) = 3 \<and>
     list_all iso1SAScheduleTuple_sized (iso1SAScheduleList_SAScheduleTuple_array a)"

definition same_iso1SAScheduleList :: "iso1SAScheduleListType \<Rightarrow> iso1SAScheduleListType \<Rightarrow> bool"
    where
  "same_iso1SAScheduleList v a \<longleftrightarrow>
     iso1SAScheduleList_SAScheduleTuple_arrayLen a = iso1SAScheduleList_SAScheduleTuple_arrayLen v \<and>
       copied same_iso1SAScheduleTuple (unat (iso1SAScheduleList_SAScheduleTuple_arrayLen v))
       (iso1SAScheduleList_SAScheduleTuple_array v) (iso1SAScheduleList_SAScheduleTuple_array a)"

definition iso1SAScheduleList_at :: "iso1SAScheduleListType \<Rightarrow> nat \<Rightarrow> iso1SAScheduleList_locals
    \<Rightarrow> iso1SAScheduleListType \<Rightarrow> bool" where
  "iso1SAScheduleList_at v g x a \<longleftrightarrow>
     counts [(217, 0), (218, 1), (219, 2)] g (iso1SAScheduleList_SAScheduleTuple_currArrayIndex x) \<and>
     iso1SAScheduleList_ok v \<and>
     g \<in> {217, 218, 219, 3} \<and>
     iso1SAScheduleList_sized a \<and>
     unat (iso1SAScheduleList_SAScheduleTuple_arrayLen a) = iso1SAScheduleList_SAScheduleTuple_currArrayIndex x \<and>
       iso1SAScheduleList_SAScheduleTuple_currArrayIndex x \<le> unat (iso1SAScheduleList_SAScheduleTuple_arrayLen v)
       \<and>
     copied same_iso1SAScheduleTuple (iso1SAScheduleList_SAScheduleTuple_currArrayIndex x)
       (iso1SAScheduleList_SAScheduleTuple_array v) (iso1SAScheduleList_SAScheduleTuple_array a) \<and>
     (g = 3 \<longrightarrow> iso1SAScheduleList_SAScheduleTuple_currArrayIndex x = unat
       (iso1SAScheduleList_SAScheduleTuple_arrayLen v))"

definition iso1SAScheduleList_rank :: "iso1SAScheduleListType \<Rightarrow> nat \<Rightarrow>
    iso1SAScheduleList_locals \<Rightarrow> nat" where
  "iso1SAScheduleList_rank v g x = left_at [(217, 2), (218, 2), (219, 2), (3, 1)] g + due 5275
      (iso1SAScheduleList_SAScheduleTuple_arrayLen v) (iso1SAScheduleList_SAScheduleTuple_currArrayIndex x)"

lemmas iso1SAScheduleList_steps = iso1SAScheduleList_enc_step_def
  iso1SAScheduleList_dec_step_def

lemmas iso1SAScheduleList_props = iso1SAScheduleList_at_def iso1SAScheduleList_sized_def same_iso1SAScheduleList_def
    iso1SAScheduleList_rank_def left_at_def

lemmas iso1SAScheduleList_elements = in_use_nth [where P = iso1SAScheduleTuple_ok]
  slots_nth [where P = iso1SAScheduleTuple_sized]

interpretation iso1SAScheduleList: walking_pair "iso1SAScheduleList_enc_step v" "iso1SAScheduleList_dec_step j"
    "iso1SAScheduleList_at v" "iso1SAScheduleList_rank v"
  "\<lambda>a. same_iso1SAScheduleList v a \<and> iso1SAScheduleList_sized a" for v j
proof
  fix g x a assume at: "iso1SAScheduleList_at v g x a"
  then have "g \<in> {217, 218, 219, 3}" by (simp add: iso1SAScheduleList_at_def)
  then show "walks (iso1SAScheduleList_enc_step v) (iso1SAScheduleList_dec_step j) (iso1SAScheduleList_at v)
      (iso1SAScheduleList_rank v)
    (\<lambda>a. same_iso1SAScheduleList v a \<and> iso1SAScheduleList_sized a) g x a" using at
    by - (elim insertE emptyE; (hypsubst, rule walks_by, simp (no_asm) add: iso1SAScheduleList_steps del: One_nat_def,
      simp (no_asm) add: iso1SAScheduleList_steps del: One_nat_def, simp (asm_lr) add: iso1SAScheduleList_props del:
        One_nat_def, (elim conjE)?,
      ((rule walks_ifs)+)?); (frule iso1SAScheduleList_ok_def [THEN iffD1], ((drule (1) known)+)?, (elim conjE)?,
        ((drule (1) known)+)?, (elim conjE)?,
      (((rule walks_shapes, simp (no_asm) del: One_nat_def, ((rule reads_intros)+)?);
      ((elim exE conjE)?,
        ((simp (no_asm_simp) add: iso1SAScheduleList_props iso1SAScheduleList_elements counts_def array_intros; fail)
        | (simp (asm_lr) add: iso1SAScheduleList_props iso1SAScheduleList_elements counts_def array_intros; fail) |
        (auto simp: iso1SAScheduleList_props iso1SAScheduleList_elements counts_def array_intros; fail)))) |
        (erule (1) notE; fail) |
        ((elim exE conjE)?,
        ((simp (no_asm_simp) add: iso1SAScheduleList_props iso1SAScheduleList_elements counts_def array_intros; fail)
        | (simp (asm_lr) add: iso1SAScheduleList_props iso1SAScheduleList_elements counts_def array_intros; fail) |
        (auto simp: iso1SAScheduleList_props iso1SAScheduleList_elements counts_def array_intros; fail))))))
qed

lemma reads_iso1SAScheduleList [reads_intros]:
  "iso1SAScheduleList_ok v \<Longrightarrow> iso1SAScheduleList_sized a \<Longrightarrow>
      reads 15827 (\<lambda>s. encode_iso1SAScheduleListType s v) (decode_iso1SAScheduleListType j) a
      (\<lambda>a. same_iso1SAScheduleList v a \<and> iso1SAScheduleList_sized a)"
  unfolding encode_iso1SAScheduleListType_def decode_iso1SAScheduleListType_def [abs_def]
  by (rule reads_start [OF iso1SAScheduleList.walk_reads, THEN reads_mono])
      (auto simp: iso1SAScheduleList_props iso1SAScheduleList_ok_def counts_def due_def
      init_iso1SAScheduleListType_def)

interpretation iso1SAScheduleList_enc: advancing_machine "iso1SAScheduleList_enc_step v" "left_at
    [(217, 4), (218, 3), (219, 2), (3, 1)]" for v
  by unfold_locales (auto simp: iso1SAScheduleList_steps dest!: array_advance_dests split: if_splits;
      simp add: left_at_def)

interpretation iso1SAScheduleList_dec: advancing_machine "iso1SAScheduleList_dec_step j" "left_at
    [(217, 4), (218, 3), (219, 2), (3, 1)]" for j
  by unfold_locales (auto simp: iso1SAScheduleList_steps dest!: array_advance_dests elim!:
      decode_switch_next split: if_splits;
      simp add: left_at_def)

subsection \<open>\<open>iso1ProfileEntryType\<close>\<close>

record iso1ProfileEntryType =
  iso1ProfileEntry_ChargingProfileEntryStart :: u32
  iso1ProfileEntry_ChargingProfileEntryMaxPower :: iso1PhysicalValueType
  iso1ProfileEntry_ChargingProfileEntryMaxNumberOfPhasesInUse :: u8
  iso1ProfileEntry_ChargingProfileEntryMaxNumberOfPhasesInUse_isUsed :: bool

definition init_iso1ProfileEntryType :: "iso1ProfileEntryType \<Rightarrow> iso1ProfileEntryType" where
  "init_iso1ProfileEntryType a = a\<lparr>iso1ProfileEntry_ChargingProfileEntryMaxNumberOfPhasesInUse_isUsed
      := False\<rparr>"

definition iso1ProfileEntry_enc_step :: "iso1ProfileEntryType \<Rightarrow> unit machine" where
  "iso1ProfileEntry_enc_step v grammarID x s =
     (if grammarID = 77 then
        goto 78 x
          (encode_simple 1 0 (\<lambda>s. encodeUnsignedInteger32 s (iso1ProfileEntry_ChargingProfileEntryStart v)) s)
      else if grammarID = 78 then
        goto 79 x
          (encode_child 1 0
          (\<lambda>s. encode_iso1PhysicalValueType s (iso1ProfileEntry_ChargingProfileEntryMaxPower v)) s)
      else if grammarID = 79 then
        if iso1ProfileEntry_ChargingProfileEntryMaxNumberOfPhasesInUse_isUsed v then
          goto 3 x (encode_simple 2 0
          (\<lambda>s. encodeNBitUnsignedInteger s 2
          (scast (iso1ProfileEntry_ChargingProfileEntryMaxNumberOfPhasesInUse v) - 1)) s)
        else finish 4 x (encodeNBitUnsignedInteger s 2 1)
      else if grammarID = 3 then
        finish 4 x (encodeNBitUnsignedInteger s 1 0)
      else Some (EXI_ERROR_UNKOWN_GRAMMAR_ID, (False, grammarID, x), s))"

definition encode_iso1ProfileEntryType :: "bitstream \<Rightarrow> iso1ProfileEntryType \<Rightarrow>
    (errn \<times> bitstream) option" where
  "encode_iso1ProfileEntryType s v = run_encoder (iso1ProfileEntry_enc_step v) 77 () s"

definition iso1ProfileEntry_dec_step :: "u32 \<Rightarrow> (dec_static \<times> iso1ProfileEntryType) machine" where
  "iso1ProfileEntry_dec_step j grammarID x s =
     (if grammarID = 77 then
        decode_switch 1
         [(0, decode_simple 77 78
           (decode_u32_field j (\<lambda>u a. a\<lparr>iso1ProfileEntry_ChargingProfileEntryStart := u\<rparr>)))] 77
           x s
      else if grammarID = 78 then
        decode_switch 1
         [(0, decode_child 79
           (decode_sub (decode_iso1PhysicalValueType j) iso1ProfileEntry_ChargingProfileEntryMaxPower
           (\<lambda>u a. a\<lparr>iso1ProfileEntry_ChargingProfileEntryMaxPower := u\<rparr>)))] 78 x s
      else if grammarID = 79 then
        decode_switch 2
         [(0, decode_simple 79 3
           (decode_used
           (\<lambda>a. a\<lparr>iso1ProfileEntry_ChargingProfileEntryMaxNumberOfPhasesInUse_isUsed := True\<rparr>)
           (decode_nbit_field 2
           (\<lambda>u a. a\<lparr>iso1ProfileEntry_ChargingProfileEntryMaxNumberOfPhasesInUse := ucast
           (u + 1)\<rparr>)))),
          (1, decode_end 4)] 79 x s
      else if grammarID = 3 then
        decode_switch 1
         [(0, decode_end 4)] 3 x s
      else Some (EXI_ERROR_UNKOWN_GRAMMAR_ID, (False, grammarID, x), s))"

definition decode_iso1ProfileEntryType :: "u32 \<Rightarrow> iso1ProfileEntryType decoder" where
  "decode_iso1ProfileEntryType j x s = grammar_loop (iso1ProfileEntry_dec_step j) 77
      (fst x, init_iso1ProfileEntryType (snd x)) s"

definition iso1ProfileEntry_ok :: "iso1ProfileEntryType \<Rightarrow> bool" where
  "iso1ProfileEntry_ok v \<longleftrightarrow>
     iso1ProfileEntry_ChargingProfileEntryStart v < 2 ^ 31 \<and>
     iso1PhysicalValue_ok (iso1ProfileEntry_ChargingProfileEntryMaxPower v) \<and>
     when_used (iso1ProfileEntry_ChargingProfileEntryMaxNumberOfPhasesInUse_isUsed v)
       (scast (iso1ProfileEntry_ChargingProfileEntryMaxNumberOfPhasesInUse v) - 1 < (2 ^ 2 :: u32))"

definition same_iso1ProfileEntry :: "iso1ProfileEntryType \<Rightarrow> iso1ProfileEntryType \<Rightarrow> bool" where
  "same_iso1ProfileEntry v a \<longleftrightarrow>
     iso1ProfileEntry_ChargingProfileEntryStart a = iso1ProfileEntry_ChargingProfileEntryStart v \<and>
     same_iso1PhysicalValue (iso1ProfileEntry_ChargingProfileEntryMaxPower v)
       (iso1ProfileEntry_ChargingProfileEntryMaxPower a) \<and>
     kept (iso1ProfileEntry_ChargingProfileEntryMaxNumberOfPhasesInUse_isUsed v)
       (iso1ProfileEntry_ChargingProfileEntryMaxNumberOfPhasesInUse_isUsed a)
       (iso1ProfileEntry_ChargingProfileEntryMaxNumberOfPhasesInUse
       a = iso1ProfileEntry_ChargingProfileEntryMaxNumberOfPhasesInUse v)"

definition iso1ProfileEntry_at :: "iso1ProfileEntryType \<Rightarrow> nat \<Rightarrow> iso1ProfileEntryType
    \<Rightarrow> bool" where
  "iso1ProfileEntry_at v g a \<longleftrightarrow>
     iso1ProfileEntry_ok v \<and>
     g \<in> {77, 78, 79, 3} \<and>
     (g \<notin> {77} \<longrightarrow> iso1ProfileEntry_ChargingProfileEntryStart
       a = iso1ProfileEntry_ChargingProfileEntryStart v) \<and>
     (g \<notin> {77, 78} \<longrightarrow> same_iso1PhysicalValue (iso1ProfileEntry_ChargingProfileEntryMaxPower v)
       (iso1ProfileEntry_ChargingProfileEntryMaxPower a)) \<and>
     (if g \<in> {77, 78, 79} then \<not> iso1ProfileEntry_ChargingProfileEntryMaxNumberOfPhasesInUse_isUsed a
      else kept (iso1ProfileEntry_ChargingProfileEntryMaxNumberOfPhasesInUse_isUsed v)
        (iso1ProfileEntry_ChargingProfileEntryMaxNumberOfPhasesInUse_isUsed a)
        (iso1ProfileEntry_ChargingProfileEntryMaxNumberOfPhasesInUse
        a = iso1ProfileEntry_ChargingProfileEntryMaxNumberOfPhasesInUse v))"

lemmas iso1ProfileEntry_steps = iso1ProfileEntry_enc_step_def
  iso1ProfileEntry_dec_step_def

lemmas iso1ProfileEntry_props = iso1ProfileEntry_at_def same_iso1ProfileEntry_def left_at_def

interpretation iso1ProfileEntry: paired_machines "iso1ProfileEntry_enc_step v" "iso1ProfileEntry_dec_step j"
    "iso1ProfileEntry_at v"
  "left_at [(77, 92), (78, 49), (79, 7), (3, 1)]" "same_iso1ProfileEntry v" for v j
proof
  fix g a assume at: "iso1ProfileEntry_at v g a"
  then have "g \<in> {77, 78, 79, 3}" by (simp add: iso1ProfileEntry_at_def)
  then show "hops (iso1ProfileEntry_enc_step v) (iso1ProfileEntry_dec_step j) (iso1ProfileEntry_at v)
    (left_at [(77, 92), (78, 49), (79, 7), (3, 1)]) (same_iso1ProfileEntry v) g a" using at
    by - (elim insertE emptyE; (hypsubst, rule hops_by, simp (no_asm) add: iso1ProfileEntry_steps del: One_nat_def,
      simp (no_asm) add: iso1ProfileEntry_steps del: One_nat_def, simp (asm_lr) add: iso1ProfileEntry_props del:
        One_nat_def, (elim conjE)?,
      ((rule walks_ifs)+)?); (frule iso1ProfileEntry_ok_def [THEN iffD1], ((drule (1) known)+)?, (elim conjE)?,
        ((drule (1) known)+)?, (elim conjE)?,
      (((rule walks_shapes, simp (no_asm) del: One_nat_def, ((rule reads_intros)+)?);
      ((elim exE conjE)?,
        ((simp (no_asm_simp) add: iso1ProfileEntry_props; fail) | (simp (asm_lr) add: iso1ProfileEntry_props; fail) |
        (auto simp: iso1ProfileEntry_props; fail)))) | (erule (1) notE; fail) |
        ((elim exE conjE)?,
        ((simp (no_asm_simp) add: iso1ProfileEntry_props; fail) | (simp (asm_lr) add: iso1ProfileEntry_props; fail) |
        (auto simp: iso1ProfileEntry_props; fail))))))
qed

lemma reads_iso1ProfileEntry [reads_intros]:
  "iso1ProfileEntry_ok v \<Longrightarrow> reads 92 (\<lambda>s. encode_iso1ProfileEntryType s v)
      (decode_iso1ProfileEntryType j) a (same_iso1ProfileEntry v)"
  unfolding encode_iso1ProfileEntryType_def decode_iso1ProfileEntryType_def [abs_def]
  by (rule reads_start [OF iso1ProfileEntry.machine_reads, of _ 77, THEN reads_mono])
      (auto simp: iso1ProfileEntry_at_def  init_iso1ProfileEntryType_def left_at_def)

interpretation iso1ProfileEntry_enc: advancing_machine "iso1ProfileEntry_enc_step v" "left_at
    [(77, 4), (78, 3), (79, 2), (3, 1)]" for v
  by unfold_locales (auto simp: iso1ProfileEntry_steps dest!: advance_dests split: if_splits;
      simp add: left_at_def)

interpretation iso1ProfileEntry_dec: advancing_machine "iso1ProfileEntry_dec_step j" "left_at
    [(77, 4), (78, 3), (79, 2), (3, 1)]" for j
  by unfold_locales (auto simp: iso1ProfileEntry_steps dest!: advance_dests elim!: decode_switch_next
      split: if_splits;
      simp add: left_at_def)

subsection \<open>\<open>iso1ChargingProfileType\<close>\<close>

record iso1ChargingProfileType =
  iso1ChargingProfile_ProfileEntry_array :: "iso1ProfileEntryType list"
  iso1ChargingProfile_ProfileEntry_arrayLen :: u16

definition init_iso1ChargingProfileType :: "iso1ChargingProfileType \<Rightarrow> iso1ChargingProfileType" where
  "init_iso1ChargingProfileType a = a\<lparr>iso1ChargingProfile_ProfileEntry_arrayLen := 0\<rparr>"

record iso1ChargingProfile_locals =
  iso1ChargingProfile_ProfileEntry_currArrayIndex :: nat

definition iso1ChargingProfile_enc_step_4 :: "iso1ChargingProfileType \<Rightarrow> iso1ChargingProfile_locals
    machine" where
  "iso1ChargingProfile_enc_step_4 v grammarID x s =
     (if grammarID = 3 then
        finish 4 x (encodeNBitUnsignedInteger s 1 0)
      else Some (EXI_ERROR_UNKOWN_GRAMMAR_ID, (False, grammarID, x), s))"

definition iso1ChargingProfile_enc_step_3 :: "iso1ChargingProfileType \<Rightarrow> iso1ChargingProfile_locals
    machine" where
  "iso1ChargingProfile_enc_step_3 v grammarID x s =
     (if grammarID = 237 then
        if iso1ChargingProfile_ProfileEntry_currArrayIndex x < unat (iso1ChargingProfile_ProfileEntry_arrayLen v) then
          encode_array_child 2 0 238 encode_iso1ProfileEntryType (iso1ChargingProfile_ProfileEntry_array v)
          iso1ChargingProfile_ProfileEntry_currArrayIndex iso1ChargingProfile_ProfileEntry_currArrayIndex_update x s
        else finish 4 x (encodeNBitUnsignedInteger s 2 1)
      else if grammarID = 238 then
        if iso1ChargingProfile_ProfileEntry_currArrayIndex x < unat (iso1ChargingProfile_ProfileEntry_arrayLen v) then
          encode_array_child 2 0 239 encode_iso1ProfileEntryType (iso1ChargingProfile_ProfileEntry_array v)
          iso1ChargingProfile_ProfileEntry_currArrayIndex iso1ChargingProfile_ProfileEntry_currArrayIndex_update x s
        else finish 4 x (encodeNBitUnsignedInteger s 2 1)
      else if grammarID = 239 then
        if iso1ChargingProfile_ProfileEntry_currArrayIndex x < unat (iso1ChargingProfile_ProfileEntry_arrayLen v) then
          encode_array_child 2 0 240 encode_iso1ProfileEntryType (iso1ChargingProfile_ProfileEntry_array v)
          iso1ChargingProfile_ProfileEntry_currArrayIndex iso1ChargingProfile_ProfileEntry_currArrayIndex_update x s
        else finish 4 x (encodeNBitUnsignedInteger s 2 1)
      else if grammarID = 240 then
        if iso1ChargingProfile_ProfileEntry_currArrayIndex x < unat (iso1ChargingProfile_ProfileEntry_arrayLen v) then
          encode_array_child 2 0 241 encode_iso1ProfileEntryType (iso1ChargingProfile_ProfileEntry_array v)
          iso1ChargingProfile_ProfileEntry_currArrayIndex iso1ChargingProfile_ProfileEntry_currArrayIndex_update x s
        else finish 4 x (encodeNBitUnsignedInteger s 2 1)
      else if grammarID = 241 then
        if iso1ChargingProfile_ProfileEntry_currArrayIndex x < unat (iso1ChargingProfile_ProfileEntry_arrayLen v) then
          encode_array_child 2 0 242 encode_iso1ProfileEntryType (iso1ChargingProfile_ProfileEntry_array v)
          iso1ChargingProfile_ProfileEntry_currArrayIndex iso1ChargingProfile_ProfileEntry_currArrayIndex_update x s
        else finish 4 x (encodeNBitUnsignedInteger s 2 1)
      else if grammarID = 242 then
        if iso1ChargingProfile_ProfileEntry_currArrayIndex x < unat (iso1ChargingProfile_ProfileEntry_arrayLen v) then
          encode_array_child 2 0 243 encode_iso1ProfileEntryType (iso1ChargingProfile_ProfileEntry_array v)
          iso1ChargingProfile_ProfileEntry_currArrayIndex iso1ChargingProfile_ProfileEntry_currArrayIndex_update x s
        else finish 4 x (encodeNBitUnsignedInteger s 2 1)
      else if grammarID = 243 then
        if iso1ChargingProfile_ProfileEntry_currArrayIndex x < unat (iso1ChargingProfile_ProfileEntry_arrayLen v) then
          encode_array_child 2 0 244 encode_iso1ProfileEntryType (iso1ChargingProfile_ProfileEntry_array v)
          iso1ChargingProfile_ProfileEntry_currArrayIndex iso1ChargingProfile_ProfileEntry_currArrayIndex_update x s
        else finish 4 x (encodeNBitUnsignedInteger s 2 1)
      else if grammarID = 244 then
        if iso1ChargingProfile_ProfileEntry_currArrayIndex x < unat (iso1ChargingProfile_ProfileEntry_arrayLen v) then
          encode_array_child 2 0 3 encode_iso1ProfileEntryType (iso1ChargingProfile_ProfileEntry_array v)
          iso1ChargingProfile_ProfileEntry_currArrayIndex iso1ChargingProfile_ProfileEntry_currArrayIndex_update x s
        else finish 4 x (encodeNBitUnsignedInteger s 2 1)
      else iso1ChargingProfile_enc_step_4 v grammarID x s)"

definition iso1ChargingProfile_enc_step_2 :: "iso1ChargingProfileType \<Rightarrow> iso1ChargingProfile_locals
    machine" where
  "iso1ChargingProfile_enc_step_2 v grammarID x s =
     (if grammarID = 229 then
        if iso1ChargingProfile_ProfileEntry_currArrayIndex x < unat (iso1ChargingProfile_ProfileEntry_arrayLen v) then
          encode_array_child 2 0 230 encode_iso1ProfileEntryType (iso1ChargingProfile_ProfileEntry_array v)
          iso1ChargingProfile_ProfileEntry_currArrayIndex iso1ChargingProfile_ProfileEntry_currArrayIndex_update x s
        else finish 4 x (encodeNBitUnsignedInteger s 2 1)
      else if grammarID = 230 then
        if iso1ChargingProfile_ProfileEntry_currArrayIndex x < unat (iso1ChargingProfile_ProfileEntry_arrayLen v) then
          encode_array_child 2 0 231 encode_iso1ProfileEntryType (iso1ChargingProfile_ProfileEntry_array v)
          iso1ChargingProfile_ProfileEntry_currArrayIndex iso1ChargingProfile_ProfileEntry_currArrayIndex_update x s
        else finish 4 x (encodeNBitUnsignedInteger s 2 1)
      else if grammarID = 231 then
        if iso1ChargingProfile_ProfileEntry_currArrayIndex x < unat (iso1ChargingProfile_ProfileEntry_arrayLen v) then
          encode_array_child 2 0 232 encode_iso1ProfileEntryType (iso1ChargingProfile_ProfileEntry_array v)
          iso1ChargingProfile_ProfileEntry_currArrayIndex iso1ChargingProfile_ProfileEntry_currArrayIndex_update x s
        else finish 4 x (encodeNBitUnsignedInteger s 2 1)
      else if grammarID = 232 then
        if iso1ChargingProfile_ProfileEntry_currArrayIndex x < unat (iso1ChargingProfile_ProfileEntry_arrayLen v) then
          encode_array_child 2 0 233 encode_iso1ProfileEntryType (iso1ChargingProfile_ProfileEntry_array v)
          iso1ChargingProfile_ProfileEntry_currArrayIndex iso1ChargingProfile_ProfileEntry_currArrayIndex_update x s
        else finish 4 x (encodeNBitUnsignedInteger s 2 1)
      else if grammarID = 233 then
        if iso1ChargingProfile_ProfileEntry_currArrayIndex x < unat (iso1ChargingProfile_ProfileEntry_arrayLen v) then
          encode_array_child 2 0 234 encode_iso1ProfileEntryType (iso1ChargingProfile_ProfileEntry_array v)
          iso1ChargingProfile_ProfileEntry_currArrayIndex iso1ChargingProfile_ProfileEntry_currArrayIndex_update x s
        else finish 4 x (encodeNBitUnsignedInteger s 2 1)
      else if grammarID = 234 then
        if iso1ChargingProfile_ProfileEntry_currArrayIndex x < unat (iso1ChargingProfile_ProfileEntry_arrayLen v) then
          encode_array_child 2 0 235 encode_iso1ProfileEntryType (iso1ChargingProfile_ProfileEntry_array v)
          iso1ChargingProfile_ProfileEntry_currArrayIndex iso1ChargingProfile_ProfileEntry_currArrayIndex_update x s
        else finish 4 x (encodeNBitUnsignedInteger s 2 1)
      else if grammarID = 235 then
        if iso1ChargingProfile_ProfileEntry_currArrayIndex x < unat (iso1ChargingProfile_ProfileEntry_arrayLen v) then
          encode_array_child 2 0 236 encode_iso1ProfileEntryType (iso1ChargingProfile_ProfileEntry_array v)
          iso1ChargingProfile_ProfileEntry_currArrayIndex iso1ChargingProfile_ProfileEntry_currArrayIndex_update x s
        else finish 4 x (encodeNBitUnsignedInteger s 2 1)
      else if grammarID = 236 then
        if iso1ChargingProfile_ProfileEntry_currArrayIndex x < unat (iso1ChargingProfile_ProfileEntry_arrayLen v) then
          encode_array_child 2 0 237 encode_iso1ProfileEntryType (iso1ChargingProfile_ProfileEntry_array v)
          iso1ChargingProfile_ProfileEntry_currArrayIndex iso1ChargingProfile_ProfileEntry_currArrayIndex_update x s
        else finish 4 x (encodeNBitUnsignedInteger s 2 1)
      else iso1ChargingProfile_enc_step_3 v grammarID x s)"

definition iso1ChargingProfile_enc_step :: "iso1ChargingProfileType \<Rightarrow> iso1ChargingProfile_locals machine"
    where
  "iso1ChargingProfile_enc_step v grammarID x s =
     (if grammarID = 221 then
        if iso1ChargingProfile_ProfileEntry_currArrayIndex x < unat (iso1ChargingProfile_ProfileEntry_arrayLen v) then
          encode_array_child 1 0 222 encode_iso1ProfileEntryType (iso1ChargingProfile_ProfileEntry_array v)
          iso1ChargingProfile_ProfileEntry_currArrayIndex iso1ChargingProfile_ProfileEntry_currArrayIndex_update x s
        else Some (EXI_ERROR_UNKOWN_EVENT, (False, grammarID, x), s)
      else if grammarID = 222 then
        if iso1ChargingProfile_ProfileEntry_currArrayIndex x < unat (iso1ChargingProfile_ProfileEntry_arrayLen v) then
          encode_array_child 2 0 223 encode_iso1ProfileEntryType (iso1ChargingProfile_ProfileEntry_array v)
          iso1ChargingProfile_ProfileEntry_currArrayIndex iso1ChargingProfile_ProfileEntry_currArrayIndex_update x s
        else finish 4 x (encodeNBitUnsignedInteger s 2 1)
      else if grammarID = 223 then
        if iso1ChargingProfile_ProfileEntry_currArrayIndex x < unat (iso1ChargingProfile_ProfileEntry_arrayLen v) then
          encode_array_child 2 0 224 encode_iso1ProfileEntryType (iso1ChargingProfile_ProfileEntry_array v)
          iso1ChargingProfile_ProfileEntry_currArrayIndex iso1ChargingProfile_ProfileEntry_currArrayIndex_update x s
        else finish 4 x (encodeNBitUnsignedInteger s 2 1)
      else if grammarID = 224 then
        if iso1ChargingProfile_ProfileEntry_currArrayIndex x < unat (iso1ChargingProfile_ProfileEntry_arrayLen v) then
          encode_array_child 2 0 225 encode_iso1ProfileEntryType (iso1ChargingProfile_ProfileEntry_array v)
          iso1ChargingProfile_ProfileEntry_currArrayIndex iso1ChargingProfile_ProfileEntry_currArrayIndex_update x s
        else finish 4 x (encodeNBitUnsignedInteger s 2 1)
      else if grammarID = 225 then
        if iso1ChargingProfile_ProfileEntry_currArrayIndex x < unat (iso1ChargingProfile_ProfileEntry_arrayLen v) then
          encode_array_child 2 0 226 encode_iso1ProfileEntryType (iso1ChargingProfile_ProfileEntry_array v)
          iso1ChargingProfile_ProfileEntry_currArrayIndex iso1ChargingProfile_ProfileEntry_currArrayIndex_update x s
        else finish 4 x (encodeNBitUnsignedInteger s 2 1)
      else if grammarID = 226 then
        if iso1ChargingProfile_ProfileEntry_currArrayIndex x < unat (iso1ChargingProfile_ProfileEntry_arrayLen v) then
          encode_array_child 2 0 227 encode_iso1ProfileEntryType (iso1ChargingProfile_ProfileEntry_array v)
          iso1ChargingProfile_ProfileEntry_currArrayIndex iso1ChargingProfile_ProfileEntry_currArrayIndex_update x s
        else finish 4 x (encodeNBitUnsignedInteger s 2 1)
      else if grammarID = 227 then
        if iso1ChargingProfile_ProfileEntry_currArrayIndex x < unat (iso1ChargingProfile_ProfileEntry_arrayLen v) then
          encode_array_child 2 0 228 encode_iso1ProfileEntryType (iso1ChargingProfile_ProfileEntry_array v)
          iso1ChargingProfile_ProfileEntry_currArrayIndex iso1ChargingProfile_ProfileEntry_currArrayIndex_update x s
        else finish 4 x (encodeNBitUnsignedInteger s 2 1)
      else if grammarID = 228 then
        if iso1ChargingProfile_ProfileEntry_currArrayIndex x < unat (iso1ChargingProfile_ProfileEntry_arrayLen v) then
          encode_array_child 2 0 229 encode_iso1ProfileEntryType (iso1ChargingProfile_ProfileEntry_array v)
          iso1ChargingProfile_ProfileEntry_currArrayIndex iso1ChargingProfile_ProfileEntry_currArrayIndex_update x s
        else finish 4 x (encodeNBitUnsignedInteger s 2 1)
      else iso1ChargingProfile_enc_step_2 v grammarID x s)"

definition encode_iso1ChargingProfileType :: "bitstream \<Rightarrow> iso1ChargingProfileType \<Rightarrow>
    (errn \<times> bitstream) option" where
  "encode_iso1ChargingProfileType s v = run_encoder (iso1ChargingProfile_enc_step v) 221
      \<lparr>iso1ChargingProfile_ProfileEntry_currArrayIndex = 0\<rparr> s"

abbreviation (input) decode_next_iso1ChargingProfile_ProfileEntry :: "u32 \<Rightarrow> iso1ChargingProfileType
    decoder" where
  "decode_next_iso1ChargingProfile_ProfileEntry j \<equiv> decode_element (decode_iso1ProfileEntryType j)
      iso1ChargingProfile_ProfileEntry_array iso1ChargingProfile_ProfileEntry_arrayLen
      (\<lambda>xs n a. a\<lparr>iso1ChargingProfile_ProfileEntry_array := xs,
      iso1ChargingProfile_ProfileEntry_arrayLen := n\<rparr>)"

definition iso1ChargingProfile_dec_step_5 :: "u32 \<Rightarrow> (dec_static \<times> iso1ChargingProfileType) machine"
    where
  "iso1ChargingProfile_dec_step_5 j grammarID x s =
     (if grammarID = 3 then
        decode_switch 1
         [(0, decode_end 4)] 3 x s
      else Some (EXI_ERROR_UNKOWN_GRAMMAR_ID, (False, grammarID, x), s))"

definition iso1ChargingProfile_dec_step_4 :: "u32 \<Rightarrow> (dec_static \<times> iso1ChargingProfileType) machine"
    where
  "iso1ChargingProfile_dec_step_4 j grammarID x s =
     (if grammarID = 239 then
        decode_switch 2
         [(0, decode_array_child 240 24 iso1ChargingProfile_ProfileEntry_arrayLen
           (decode_next_iso1ChargingProfile_ProfileEntry j)),
          (1, decode_end 4)] 239 x s
      else if grammarID = 240 then
        decode_switch 2
         [(0, decode_array_child 241 24 iso1ChargingProfile_ProfileEntry_arrayLen
           (decode_next_iso1ChargingProfile_ProfileEntry j)),
          (1, decode_end 4)] 240 x s
      else if grammarID = 241 then
        decode_switch 2
         [(0, decode_array_child 242 24 iso1ChargingProfile_ProfileEntry_arrayLen
           (decode_next_iso1ChargingProfile_ProfileEntry j)),
          (1, decode_end 4)] 241 x s
      else if grammarID = 242 then
        decode_switch 2
         [(0, decode_array_child 243 24 iso1ChargingProfile_ProfileEntry_arrayLen
           (decode_next_iso1ChargingProfile_ProfileEntry j)),
          (1, decode_end 4)] 242 x s
      else if grammarID = 243 then
        decode_switch 2
         [(0, decode_array_child 244 24 iso1ChargingProfile_ProfileEntry_arrayLen
           (decode_next_iso1ChargingProfile_ProfileEntry j)),
          (1, decode_end 4)] 243 x s
      else if grammarID = 244 then
        decode_switch 2
         [(0, decode_array_child 3 24 iso1ChargingProfile_ProfileEntry_arrayLen
           (decode_next_iso1ChargingProfile_ProfileEntry j)),
          (1, decode_end 4)] 244 x s
      else iso1ChargingProfile_dec_step_5 j grammarID x s)"

definition iso1ChargingProfile_dec_step_3 :: "u32 \<Rightarrow> (dec_static \<times> iso1ChargingProfileType) machine"
    where
  "iso1ChargingProfile_dec_step_3 j grammarID x s =
     (if grammarID = 233 then
        decode_switch 2
         [(0, decode_array_child 234 24 iso1ChargingProfile_ProfileEntry_arrayLen
           (decode_next_iso1ChargingProfile_ProfileEntry j)),
          (1, decode_end 4)] 233 x s
      else if grammarID = 234 then
        decode_switch 2
         [(0, decode_array_child 235 24 iso1ChargingProfile_ProfileEntry_arrayLen
           (decode_next_iso1ChargingProfile_ProfileEntry j)),
          (1, decode_end 4)] 234 x s
      else if grammarID = 235 then
        decode_switch 2
         [(0, decode_array_child 236 24 iso1ChargingProfile_ProfileEntry_arrayLen
           (decode_next_iso1ChargingProfile_ProfileEntry j)),
          (1, decode_end 4)] 235 x s
      else if grammarID = 236 then
        decode_switch 2
         [(0, decode_array_child 237 24 iso1ChargingProfile_ProfileEntry_arrayLen
           (decode_next_iso1ChargingProfile_ProfileEntry j)),
          (1, decode_end 4)] 236 x s
      else if grammarID = 237 then
        decode_switch 2
         [(0, decode_array_child 238 24 iso1ChargingProfile_ProfileEntry_arrayLen
           (decode_next_iso1ChargingProfile_ProfileEntry j)),
          (1, decode_end 4)] 237 x s
      else if grammarID = 238 then
        decode_switch 2
         [(0, decode_array_child 239 24 iso1ChargingProfile_ProfileEntry_arrayLen
           (decode_next_iso1ChargingProfile_ProfileEntry j)),
          (1, decode_end 4)] 238 x s
      else iso1ChargingProfile_dec_step_4 j grammarID x s)"

definition iso1ChargingProfile_dec_step_2 :: "u32 \<Rightarrow> (dec_static \<times> iso1ChargingProfileType) machine"
    where
  "iso1ChargingProfile_dec_step_2 j grammarID x s =
     (if grammarID = 227 then
        decode_switch 2
         [(0, decode_array_child 228 24 iso1ChargingProfile_ProfileEntry_arrayLen
           (decode_next_iso1ChargingProfile_ProfileEntry j)),
          (1, decode_end 4)] 227 x s
      else if grammarID = 228 then
        decode_switch 2
         [(0, decode_array_child 229 24 iso1ChargingProfile_ProfileEntry_arrayLen
           (decode_next_iso1ChargingProfile_ProfileEntry j)),
          (1, decode_end 4)] 228 x s
      else if grammarID = 229 then
        decode_switch 2
         [(0, decode_array_child 230 24 iso1ChargingProfile_ProfileEntry_arrayLen
           (decode_next_iso1ChargingProfile_ProfileEntry j)),
          (1, decode_end 4)] 229 x s
      else if grammarID = 230 then
        decode_switch 2
         [(0, decode_array_child 231 24 iso1ChargingProfile_ProfileEntry_arrayLen
           (decode_next_iso1ChargingProfile_ProfileEntry j)),
          (1, decode_end 4)] 230 x s
      else if grammarID = 231 then
        decode_switch 2
         [(0, decode_array_child 232 24 iso1ChargingProfile_ProfileEntry_arrayLen
           (decode_next_iso1ChargingProfile_ProfileEntry j)),
          (1, decode_end 4)] 231 x s
      else if grammarID = 232 then
        decode_switch 2
         [(0, decode_array_child 233 24 iso1ChargingProfile_ProfileEntry_arrayLen
           (decode_next_iso1ChargingProfile_ProfileEntry j)),
          (1, decode_end 4)] 232 x s
      else iso1ChargingProfile_dec_step_3 j grammarID x s)"

definition iso1ChargingProfile_dec_step :: "u32 \<Rightarrow> (dec_static \<times> iso1ChargingProfileType) machine"
    where
  "iso1ChargingProfile_dec_step j grammarID x s =
     (if grammarID = 221 then
        decode_switch 1
         [(0, decode_array_child 222 24 iso1ChargingProfile_ProfileEntry_arrayLen
           (decode_next_iso1ChargingProfile_ProfileEntry j))] 221 x s
      else if grammarID = 222 then
        decode_switch 2
         [(0, decode_array_child 223 24 iso1ChargingProfile_ProfileEntry_arrayLen
           (decode_next_iso1ChargingProfile_ProfileEntry j)),
          (1, decode_end 4)] 222 x s
      else if grammarID = 223 then
        decode_switch 2
         [(0, decode_array_child 224 24 iso1ChargingProfile_ProfileEntry_arrayLen
           (decode_next_iso1ChargingProfile_ProfileEntry j)),
          (1, decode_end 4)] 223 x s
      else if grammarID = 224 then
        decode_switch 2
         [(0, decode_array_child 225 24 iso1ChargingProfile_ProfileEntry_arrayLen
           (decode_next_iso1ChargingProfile_ProfileEntry j)),
          (1, decode_end 4)] 224 x s
      else if grammarID = 225 then
        decode_switch 2
         [(0, decode_array_child 226 24 iso1ChargingProfile_ProfileEntry_arrayLen
           (decode_next_iso1ChargingProfile_ProfileEntry j)),
          (1, decode_end 4)] 225 x s
      else if grammarID = 226 then
        decode_switch 2
         [(0, decode_array_child 227 24 iso1ChargingProfile_ProfileEntry_arrayLen
           (decode_next_iso1ChargingProfile_ProfileEntry j)),
          (1, decode_end 4)] 226 x s
      else iso1ChargingProfile_dec_step_2 j grammarID x s)"

definition decode_iso1ChargingProfileType :: "u32 \<Rightarrow> iso1ChargingProfileType decoder" where
  "decode_iso1ChargingProfileType j x s = grammar_loop (iso1ChargingProfile_dec_step j) 221
      (fst x, init_iso1ChargingProfileType (snd x)) s"

definition iso1ChargingProfile_ok :: "iso1ChargingProfileType \<Rightarrow> bool" where
  "iso1ChargingProfile_ok v \<longleftrightarrow>
     length (iso1ChargingProfile_ProfileEntry_array v) = 24 \<and> unat (iso1ChargingProfile_ProfileEntry_arrayLen v)
       \<le> 24 \<and> in_use iso1ProfileEntry_ok (iso1ChargingProfile_ProfileEntry_array v)
       (iso1ChargingProfile_ProfileEntry_arrayLen v) \<and>
     unat (iso1ChargingProfile_ProfileEntry_arrayLen v) \<noteq> 0"

definition iso1ChargingProfile_sized :: "iso1ChargingProfileType \<Rightarrow> bool" where
  "iso1ChargingProfile_sized a \<longleftrightarrow>
     length (iso1ChargingProfile_ProfileEntry_array a) = 24"

definition same_iso1ChargingProfile :: "iso1ChargingProfileType \<Rightarrow> iso1ChargingProfileType \<Rightarrow>
    bool" where
  "same_iso1ChargingProfile v a \<longleftrightarrow>
     iso1ChargingProfile_ProfileEntry_arrayLen a = iso1ChargingProfile_ProfileEntry_arrayLen v \<and>
       copied same_iso1ProfileEntry (unat (iso1ChargingProfile_ProfileEntry_arrayLen v))
       (iso1ChargingProfile_ProfileEntry_array v) (iso1ChargingProfile_ProfileEntry_array a)"

definition iso1ChargingProfile_at :: "iso1ChargingProfileType \<Rightarrow> nat \<Rightarrow>
    iso1ChargingProfile_locals \<Rightarrow> iso1ChargingProfileType \<Rightarrow> bool" where
  "iso1ChargingProfile_at v g x a \<longleftrightarrow>
     counts [(221, 0), (222, 1), (223, 2), (224, 3), (225, 4), (226, 5), (227, 6), (228, 7), (229, 8), (230, 9),
       (231, 10), (232, 11), (233, 12), (234, 13), (235, 14), (236, 15), (237, 16), (238, 17), (239, 18), (240, 19),
       (241, 20), (242, 21), (243, 22), (244, 23)] g (iso1ChargingProfile_ProfileEntry_currArrayIndex x) \<and>
     iso1ChargingProfile_ok v \<and>
     g \<in> {221, 222, 223, 224, 225, 226, 227, 228, 229, 230, 231, 232, 233, 234, 235, 236, 237, 238, 239, 240, 241,
       242, 243, 244, 3} \<and>
     iso1ChargingProfile_sized a \<and>
     unat (iso1ChargingProfile_ProfileEntry_arrayLen a) = iso1ChargingProfile_ProfileEntry_currArrayIndex x \<and>
       iso1ChargingProfile_ProfileEntry_currArrayIndex x \<le> unat (iso1ChargingProfile_ProfileEntry_arrayLen v)
       \<and>
     copied same_iso1ProfileEntry (iso1ChargingProfile_ProfileEntry_currArrayIndex x)
       (iso1ChargingProfile_ProfileEntry_array v) (iso1ChargingProfile_ProfileEntry_array a) \<and>
     (g = 3 \<longrightarrow> iso1ChargingProfile_ProfileEntry_currArrayIndex x = unat
       (iso1ChargingProfile_ProfileEntry_arrayLen v))"

definition iso1ChargingProfile_rank :: "iso1ChargingProfileType \<Rightarrow> nat \<Rightarrow>
    iso1ChargingProfile_locals \<Rightarrow> nat" where
  "iso1ChargingProfile_rank v g x = left_at [(221, 2), (222, 2), (223, 2), (224, 2), (225, 2), (226, 2), (227, 2),
      (228, 2), (229, 2), (230, 2), (231, 2), (232, 2), (233, 2), (234, 2), (235, 2), (236, 2), (237, 2), (238, 2),
      (239, 2), (240, 2), (241, 2), (242, 2), (243, 2), (244, 2), (3, 1)] g + due 94
      (iso1ChargingProfile_ProfileEntry_arrayLen v) (iso1ChargingProfile_ProfileEntry_currArrayIndex x)"

lemmas iso1ChargingProfile_steps = iso1ChargingProfile_enc_step_def iso1ChargingProfile_enc_step_2_def
    iso1ChargingProfile_enc_step_3_def iso1ChargingProfile_enc_step_4_def
  iso1ChargingProfile_dec_step_def iso1ChargingProfile_dec_step_2_def iso1ChargingProfile_dec_step_3_def
      iso1ChargingProfile_dec_step_4_def iso1ChargingProfile_dec_step_5_def

lemmas iso1ChargingProfile_props = iso1ChargingProfile_at_def iso1ChargingProfile_sized_def
    same_iso1ChargingProfile_def iso1ChargingProfile_rank_def left_at_def

lemmas iso1ChargingProfile_elements = in_use_nth [where P = iso1ProfileEntry_ok]

lemma iso1ChargingProfile_steps_1:
  "iso1ChargingProfile_at v g x a \<Longrightarrow> g \<in> {221, 222, 223, 224, 225} \<Longrightarrow>
   walks (iso1ChargingProfile_enc_step v) (iso1ChargingProfile_dec_step j) (iso1ChargingProfile_at v)
       (iso1ChargingProfile_rank v)
    (\<lambda>a. same_iso1ChargingProfile v a \<and> iso1ChargingProfile_sized a) g x a"
  by (elim insertE emptyE; (hypsubst, rule walks_by, simp (no_asm) add: iso1ChargingProfile_steps del: One_nat_def,
      simp (no_asm) add: iso1ChargingProfile_steps del: One_nat_def, simp (asm_lr) add: iso1ChargingProfile_props del:
        One_nat_def, (elim conjE)?,
      ((rule walks_ifs)+)?); (frule iso1ChargingProfile_ok_def [THEN iffD1], ((drule (1) known)+)?, (elim conjE)?,
        ((drule (1) known)+)?, (elim conjE)?,
      (((rule walks_shapes, simp (no_asm) del: One_nat_def, ((rule reads_intros)+)?);
      ((elim exE conjE)?,
        ((simp (no_asm_simp) add: iso1ChargingProfile_props iso1ChargingProfile_elements counts_def array_intros;
        fail) | (simp (asm_lr) add: iso1ChargingProfile_props iso1ChargingProfile_elements counts_def array_intros;
        fail) | (auto simp: iso1ChargingProfile_props iso1ChargingProfile_elements counts_def array_intros; fail)))) |
        (erule (1) notE; fail) |
        ((elim exE conjE)?,
        ((simp (no_asm_simp) add: iso1ChargingProfile_props iso1ChargingProfile_elements counts_def array_intros;
        fail) | (simp (asm_lr) add: iso1ChargingProfile_props iso1ChargingProfile_elements counts_def array_intros;
        fail) | (auto simp: iso1ChargingProfile_props iso1ChargingProfile_elements counts_def array_intros; fail))))))

lemma iso1ChargingProfile_steps_2:
  "iso1ChargingProfile_at v g x a \<Longrightarrow> g \<in> {226, 227, 228, 229, 230} \<Longrightarrow>
   walks (iso1ChargingProfile_enc_step v) (iso1ChargingProfile_dec_step j) (iso1ChargingProfile_at v)
       (iso1ChargingProfile_rank v)
    (\<lambda>a. same_iso1ChargingProfile v a \<and> iso1ChargingProfile_sized a) g x a"
  by (elim insertE emptyE; (hypsubst, rule walks_by, simp (no_asm) add: iso1ChargingProfile_steps del: One_nat_def,
      simp (no_asm) add: iso1ChargingProfile_steps del: One_nat_def, simp (asm_lr) add: iso1ChargingProfile_props del:
        One_nat_def, (elim conjE)?,
      ((rule walks_ifs)+)?); (frule iso1ChargingProfile_ok_def [THEN iffD1], ((drule (1) known)+)?, (elim conjE)?,
        ((drule (1) known)+)?, (elim conjE)?,
      (((rule walks_shapes, simp (no_asm) del: One_nat_def, ((rule reads_intros)+)?);
      ((elim exE conjE)?,
        ((simp (no_asm_simp) add: iso1ChargingProfile_props iso1ChargingProfile_elements counts_def array_intros;
        fail) | (simp (asm_lr) add: iso1ChargingProfile_props iso1ChargingProfile_elements counts_def array_intros;
        fail) | (auto simp: iso1ChargingProfile_props iso1ChargingProfile_elements counts_def array_intros; fail)))) |
        (erule (1) notE; fail) |
        ((elim exE conjE)?,
        ((simp (no_asm_simp) add: iso1ChargingProfile_props iso1ChargingProfile_elements counts_def array_intros;
        fail) | (simp (asm_lr) add: iso1ChargingProfile_props iso1ChargingProfile_elements counts_def array_intros;
        fail) | (auto simp: iso1ChargingProfile_props iso1ChargingProfile_elements counts_def array_intros; fail))))))

lemma iso1ChargingProfile_steps_3:
  "iso1ChargingProfile_at v g x a \<Longrightarrow> g \<in> {231, 232, 233, 234, 235} \<Longrightarrow>
   walks (iso1ChargingProfile_enc_step v) (iso1ChargingProfile_dec_step j) (iso1ChargingProfile_at v)
       (iso1ChargingProfile_rank v)
    (\<lambda>a. same_iso1ChargingProfile v a \<and> iso1ChargingProfile_sized a) g x a"
  by (elim insertE emptyE; (hypsubst, rule walks_by, simp (no_asm) add: iso1ChargingProfile_steps del: One_nat_def,
      simp (no_asm) add: iso1ChargingProfile_steps del: One_nat_def, simp (asm_lr) add: iso1ChargingProfile_props del:
        One_nat_def, (elim conjE)?,
      ((rule walks_ifs)+)?); (frule iso1ChargingProfile_ok_def [THEN iffD1], ((drule (1) known)+)?, (elim conjE)?,
        ((drule (1) known)+)?, (elim conjE)?,
      (((rule walks_shapes, simp (no_asm) del: One_nat_def, ((rule reads_intros)+)?);
      ((elim exE conjE)?,
        ((simp (no_asm_simp) add: iso1ChargingProfile_props iso1ChargingProfile_elements counts_def array_intros;
        fail) | (simp (asm_lr) add: iso1ChargingProfile_props iso1ChargingProfile_elements counts_def array_intros;
        fail) | (auto simp: iso1ChargingProfile_props iso1ChargingProfile_elements counts_def array_intros; fail)))) |
        (erule (1) notE; fail) |
        ((elim exE conjE)?,
        ((simp (no_asm_simp) add: iso1ChargingProfile_props iso1ChargingProfile_elements counts_def array_intros;
        fail) | (simp (asm_lr) add: iso1ChargingProfile_props iso1ChargingProfile_elements counts_def array_intros;
        fail) | (auto simp: iso1ChargingProfile_props iso1ChargingProfile_elements counts_def array_intros; fail))))))

lemma iso1ChargingProfile_steps_4:
  "iso1ChargingProfile_at v g x a \<Longrightarrow> g \<in> {236, 237, 238, 239, 240} \<Longrightarrow>
   walks (iso1ChargingProfile_enc_step v) (iso1ChargingProfile_dec_step j) (iso1ChargingProfile_at v)
       (iso1ChargingProfile_rank v)
    (\<lambda>a. same_iso1ChargingProfile v a \<and> iso1ChargingProfile_sized a) g x a"
  by (elim insertE emptyE; (hypsubst, rule walks_by, simp (no_asm) add: iso1ChargingProfile_steps del: One_nat_def,
      simp (no_asm) add: iso1ChargingProfile_steps del: One_nat_def, simp (asm_lr) add: iso1ChargingProfile_props del:
        One_nat_def, (elim conjE)?,
      ((rule walks_ifs)+)?); (frule iso1ChargingProfile_ok_def [THEN iffD1], ((drule (1) known)+)?, (elim conjE)?,
        ((drule (1) known)+)?, (elim conjE)?,
      (((rule walks_shapes, simp (no_asm) del: One_nat_def, ((rule reads_intros)+)?);
      ((elim exE conjE)?,
        ((simp (no_asm_simp) add: iso1ChargingProfile_props iso1ChargingProfile_elements counts_def array_intros;
        fail) | (simp (asm_lr) add: iso1ChargingProfile_props iso1ChargingProfile_elements counts_def array_intros;
        fail) | (auto simp: iso1ChargingProfile_props iso1ChargingProfile_elements counts_def array_intros; fail)))) |
        (erule (1) notE; fail) |
        ((elim exE conjE)?,
        ((simp (no_asm_simp) add: iso1ChargingProfile_props iso1ChargingProfile_elements counts_def array_intros;
        fail) | (simp (asm_lr) add: iso1ChargingProfile_props iso1ChargingProfile_elements counts_def array_intros;
        fail) | (auto simp: iso1ChargingProfile_props iso1ChargingProfile_elements counts_def array_intros; fail))))))

lemma iso1ChargingProfile_steps_5:
  "iso1ChargingProfile_at v g x a \<Longrightarrow> g \<in> {241, 242, 243, 244, 3} \<Longrightarrow>
   walks (iso1ChargingProfile_enc_step v) (iso1ChargingProfile_dec_step j) (iso1ChargingProfile_at v)
       (iso1ChargingProfile_rank v)
    (\<lambda>a. same_iso1ChargingProfile v a \<and> iso1ChargingProfile_sized a) g x a"
  by (elim insertE emptyE; (hypsubst, rule walks_by, simp (no_asm) add: iso1ChargingProfile_steps del: One_nat_def,
      simp (no_asm) add: iso1ChargingProfile_steps del: One_nat_def, simp (asm_lr) add: iso1ChargingProfile_props del:
        One_nat_def, (elim conjE)?,
      ((rule walks_ifs)+)?); (frule iso1ChargingProfile_ok_def [THEN iffD1], ((drule (1) known)+)?, (elim conjE)?,
        ((drule (1) known)+)?, (elim conjE)?,
      (((rule walks_shapes, simp (no_asm) del: One_nat_def, ((rule reads_intros)+)?);
      ((elim exE conjE)?,
        ((simp (no_asm_simp) add: iso1ChargingProfile_props iso1ChargingProfile_elements counts_def array_intros;
        fail) | (simp (asm_lr) add: iso1ChargingProfile_props iso1ChargingProfile_elements counts_def array_intros;
        fail) | (auto simp: iso1ChargingProfile_props iso1ChargingProfile_elements counts_def array_intros; fail)))) |
        (erule (1) notE; fail) |
        ((elim exE conjE)?,
        ((simp (no_asm_simp) add: iso1ChargingProfile_props iso1ChargingProfile_elements counts_def array_intros;
        fail) | (simp (asm_lr) add: iso1ChargingProfile_props iso1ChargingProfile_elements counts_def array_intros;
        fail) | (auto simp: iso1ChargingProfile_props iso1ChargingProfile_elements counts_def array_intros; fail))))))

interpretation iso1ChargingProfile: walking_pair "iso1ChargingProfile_enc_step v" "iso1ChargingProfile_dec_step j"
    "iso1ChargingProfile_at v" "iso1ChargingProfile_rank v"
  "\<lambda>a. same_iso1ChargingProfile v a \<and> iso1ChargingProfile_sized a" for v j
proof
  fix g x a assume at: "iso1ChargingProfile_at v g x a"
  then have "g \<in> {221, 222, 223, 224, 225} \<or> g \<in> {226, 227, 228, 229, 230} \<or> g \<in> {231, 232, 233,
      234, 235} \<or> g \<in> {236, 237, 238, 239, 240} \<or> g \<in> {241, 242, 243, 244,
      3}" by (auto simp: iso1ChargingProfile_at_def)
  then show "walks (iso1ChargingProfile_enc_step v) (iso1ChargingProfile_dec_step j) (iso1ChargingProfile_at v)
      (iso1ChargingProfile_rank v)
    (\<lambda>a. same_iso1ChargingProfile v a \<and> iso1ChargingProfile_sized a) g x a"
    by (elim disjE) (erule iso1ChargingProfile_steps_1 [OF at] | erule iso1ChargingProfile_steps_2 [OF at] | erule
      iso1ChargingProfile_steps_3 [OF at] | erule iso1ChargingProfile_steps_4 [OF at] | erule
      iso1ChargingProfile_steps_5 [OF at])+
qed

lemma reads_iso1ChargingProfile [reads_intros]:
  "iso1ChargingProfile_ok v \<Longrightarrow> iso1ChargingProfile_sized a \<Longrightarrow>
      reads 2258 (\<lambda>s. encode_iso1ChargingProfileType s v) (decode_iso1ChargingProfileType j) a
      (\<lambda>a. same_iso1ChargingProfile v a \<and> iso1ChargingProfile_sized a)"
  unfolding encode_iso1ChargingProfileType_def decode_iso1ChargingProfileType_def [abs_def]
  by (rule reads_start [OF iso1ChargingProfile.walk_reads, THEN reads_mono])
      (auto simp: iso1ChargingProfile_props iso1ChargingProfile_ok_def counts_def due_def
      init_iso1ChargingProfileType_def)

end
