(* ===== verification/Iso1ChargeParameters.thy ===== *)
theory Iso1ChargeParameters
  imports Iso1Schedules
begin

section \<open>ISO 15118 codec: charge parameters and power delivery\<close>

text \<open>
  The limits of vehicle and station, the schedules they agree on, and the start and stop of the power,
  in the form explained in \<open>Iso1Values\<close>.
\<close>

subsection \<open>\<open>iso1AC_EVChargeParameterType\<close>\<close>

record iso1AC_EVChargeParameterType =
  iso1AC_EVChargeParameter_DepartureTime :: u32
  iso1AC_EVChargeParameter_DepartureTime_isUsed :: bool
  iso1AC_EVChargeParameter_EAmount :: iso1PhysicalValueType
  iso1AC_EVChargeParameter_EVMaxVoltage :: iso1PhysicalValueType
  iso1AC_EVChargeParameter_EVMaxCurrent :: iso1PhysicalValueType
  iso1AC_EVChargeParameter_EVMinCurrent :: iso1PhysicalValueType

definition init_iso1AC_EVChargeParameterType :: "iso1AC_EVChargeParameterType \<Rightarrow>
    iso1AC_EVChargeParameterType" where
  "init_iso1AC_EVChargeParameterType a = a\<lparr>iso1AC_EVChargeParameter_DepartureTime_isUsed := False\<rparr>"

definition iso1AC_EVChargeParameter_enc_step :: "iso1AC_EVChargeParameterType \<Rightarrow> unit machine" where
  "iso1AC_EVChargeParameter_enc_step v grammarID x s =
     (if grammarID = 251 then
        if iso1AC_EVChargeParameter_DepartureTime_isUsed v then
          goto 252 x
          (encode_simple 2 0 (\<lambda>s. encodeUnsignedInteger32 s (iso1AC_EVChargeParameter_DepartureTime v)) s)
        else goto 253 x
          (encode_child 2 1 (\<lambda>s. encode_iso1PhysicalValueType s (iso1AC_EVChargeParameter_EAmount v)) s)
      else if grammarID = 252 then
        goto 253 x (encode_child 1 0 (\<lambda>s. encode_iso1PhysicalValueType s (iso1AC_EVChargeParameter_EAmount v))
          s)
      else if grammarID = 253 then
        goto 254 x
          (encode_child 1 0 (\<lambda>s. encode_iso1PhysicalValueType s (iso1AC_EVChargeParameter_EVMaxVoltage v)) s)
      else if grammarID = 254 then
        goto 255 x
          (encode_child 1 0 (\<lambda>s. encode_iso1PhysicalValueType s (iso1AC_EVChargeParameter_EVMaxCurrent v)) s)
      else if grammarID = 255 then
        goto 3 x (encode_child 1 0
          (\<lambda>s. encode_iso1PhysicalValueType s (iso1AC_EVChargeParameter_EVMinCurrent v)) s)
      else if grammarID = 3 then
        finish 4 x (encodeNBitUnsignedInteger s 1 0)
      else Some (EXI_ERROR_UNKOWN_GRAMMAR_ID, (False, grammarID, x), s))"

definition encode_iso1AC_EVChargeParameterType :: "bitstream \<Rightarrow> iso1AC_EVChargeParameterType \<Rightarrow>
    (errn \<times> bitstream) option" where
  "encode_iso1AC_EVChargeParameterType s v = run_encoder (iso1AC_EVChargeParameter_enc_step v) 251 () s"

definition iso1AC_EVChargeParameter_dec_step :: "u32 \<Rightarrow> (dec_static \<times> iso1AC_EVChargeParameterType)
    machine" where
  "iso1AC_EVChargeParameter_dec_step j grammarID x s =
     (if grammarID = 251 then
        decode_switch 2
         [(0, decode_simple 251 252
           (decode_used (\<lambda>a. a\<lparr>iso1AC_EVChargeParameter_DepartureTime_isUsed := True\<rparr>)
           (decode_u32_field j (\<lambda>u a. a\<lparr>iso1AC_EVChargeParameter_DepartureTime := u\<rparr>)))),
          (1, decode_child 253 (decode_sub (decode_iso1PhysicalValueType j) iso1AC_EVChargeParameter_EAmount
            (\<lambda>u a. a\<lparr>iso1AC_EVChargeParameter_EAmount := u\<rparr>)))] 251 x s
      else if grammarID = 252 then
        decode_switch 1
         [(0, decode_child 253 (decode_sub (decode_iso1PhysicalValueType j) iso1AC_EVChargeParameter_EAmount
           (\<lambda>u a. a\<lparr>iso1AC_EVChargeParameter_EAmount := u\<rparr>)))] 252 x s
      else if grammarID = 253 then
        decode_switch 1
         [(0, decode_child 254 (decode_sub (decode_iso1PhysicalValueType j) iso1AC_EVChargeParameter_EVMaxVoltage
           (\<lambda>u a. a\<lparr>iso1AC_EVChargeParameter_EVMaxVoltage := u\<rparr>)))] 253 x s
      else if grammarID = 254 then
        decode_switch 1
         [(0, decode_child 255 (decode_sub (decode_iso1PhysicalValueType j) iso1AC_EVChargeParameter_EVMaxCurrent
           (\<lambda>u a. a\<lparr>iso1AC_EVChargeParameter_EVMaxCurrent := u\<rparr>)))] 254 x s
      else if grammarID = 255 then
        decode_switch 1
         [(0, decode_child 3 (decode_sub (decode_iso1PhysicalValueType j) iso1AC_EVChargeParameter_EVMinCurrent
           (\<lambda>u a. a\<lparr>iso1AC_EVChargeParameter_EVMinCurrent := u\<rparr>)))] 255 x s
      else if grammarID = 3 then
        decode_switch 1
         [(0, decode_end 4)] 3 x s
      else Some (EXI_ERROR_UNKOWN_GRAMMAR_ID, (False, grammarID, x), s))"

definition decode_iso1AC_EVChargeParameterType :: "u32 \<Rightarrow> iso1AC_EVChargeParameterType decoder" where
  "decode_iso1AC_EVChargeParameterType j x s = grammar_loop (iso1AC_EVChargeParameter_dec_step j) 251
      (fst x, init_iso1AC_EVChargeParameterType (snd x)) s"

definition iso1AC_EVChargeParameter_ok :: "iso1AC_EVChargeParameterType \<Rightarrow> bool" where
  "iso1AC_EVChargeParameter_ok v \<longleftrightarrow>
     when_used (iso1AC_EVChargeParameter_DepartureTime_isUsed v) (iso1AC_EVChargeParameter_DepartureTime v < 2 ^ 31)
       \<and>
     iso1PhysicalValue_ok (iso1AC_EVChargeParameter_EAmount v) \<and>
     iso1PhysicalValue_ok (iso1AC_EVChargeParameter_EVMaxVoltage v) \<and>
     iso1PhysicalValue_ok (iso1AC_EVChargeParameter_EVMaxCurrent v) \<and>
     iso1PhysicalValue_ok (iso1AC_EVChargeParameter_EVMinCurrent v)"

definition same_iso1AC_EVChargeParameter :: "iso1AC_EVChargeParameterType \<Rightarrow> iso1AC_EVChargeParameterType
    \<Rightarrow> bool" where
  "same_iso1AC_EVChargeParameter v a \<longleftrightarrow>
     kept (iso1AC_EVChargeParameter_DepartureTime_isUsed v) (iso1AC_EVChargeParameter_DepartureTime_isUsed a)
       (iso1AC_EVChargeParameter_DepartureTime a = iso1AC_EVChargeParameter_DepartureTime v) \<and>
     same_iso1PhysicalValue (iso1AC_EVChargeParameter_EAmount v) (iso1AC_EVChargeParameter_EAmount a) \<and>
     same_iso1PhysicalValue (iso1AC_EVChargeParameter_EVMaxVoltage v) (iso1AC_EVChargeParameter_EVMaxVoltage a) \<and>
     same_iso1PhysicalValue (iso1AC_EVChargeParameter_EVMaxCurrent v) (iso1AC_EVChargeParameter_EVMaxCurrent a) \<and>
     same_iso1PhysicalValue (iso1AC_EVChargeParameter_EVMinCurrent v) (iso1AC_EVChargeParameter_EVMinCurrent a)"

definition iso1AC_EVChargeParameter_at :: "iso1AC_EVChargeParameterType \<Rightarrow> nat \<Rightarrow>
    iso1AC_EVChargeParameterType \<Rightarrow> bool" where
  "iso1AC_EVChargeParameter_at v g a \<longleftrightarrow>
     iso1AC_EVChargeParameter_ok v \<and>
     g \<in> {251, 252, 253, 254, 255, 3} \<and>
     (if g \<in> {251} then \<not> iso1AC_EVChargeParameter_DepartureTime_isUsed a
      else kept (iso1AC_EVChargeParameter_DepartureTime_isUsed v) (iso1AC_EVChargeParameter_DepartureTime_isUsed a)
        (iso1AC_EVChargeParameter_DepartureTime a = iso1AC_EVChargeParameter_DepartureTime v)) \<and>
     (g \<notin> {251, 252} \<longrightarrow> same_iso1PhysicalValue (iso1AC_EVChargeParameter_EAmount v)
       (iso1AC_EVChargeParameter_EAmount a)) \<and>
     (g \<notin> {251, 252, 253} \<longrightarrow> same_iso1PhysicalValue (iso1AC_EVChargeParameter_EVMaxVoltage v)
       (iso1AC_EVChargeParameter_EVMaxVoltage a)) \<and>
     (g \<notin> {251, 252, 253, 254} \<longrightarrow>
       same_iso1PhysicalValue (iso1AC_EVChargeParameter_EVMaxCurrent v) (iso1AC_EVChargeParameter_EVMaxCurrent a))
       \<and>
     (g \<notin> {251, 252, 253, 254, 255} \<longrightarrow>
       same_iso1PhysicalValue (iso1AC_EVChargeParameter_EVMinCurrent v) (iso1AC_EVChargeParameter_EVMinCurrent a))"

lemmas iso1AC_EVChargeParameter_steps = iso1AC_EVChargeParameter_enc_step_def
  iso1AC_EVChargeParameter_dec_step_def

lemmas iso1AC_EVChargeParameter_props = iso1AC_EVChargeParameter_at_def same_iso1AC_EVChargeParameter_def left_at_def

interpretation iso1AC_EVChargeParameter: paired_machines "iso1AC_EVChargeParameter_enc_step v"
    "iso1AC_EVChargeParameter_dec_step j" "iso1AC_EVChargeParameter_at v"
  "left_at [(251, 213), (252, 169), (253, 127), (254, 85), (255, 43), (3, 1)]" "same_iso1AC_EVChargeParameter v" for v
      j
proof
  fix g a assume at: "iso1AC_EVChargeParameter_at v g a"
  then have "g \<in> {251, 252, 253, 254, 255, 3}" by (simp add: iso1AC_EVChargeParameter_at_def)
  then show "hops (iso1AC_EVChargeParameter_enc_step v) (iso1AC_EVChargeParameter_dec_step j)
      (iso1AC_EVChargeParameter_at v)
    (left_at [(251, 213), (252, 169), (253, 127), (254, 85), (255, 43), (3, 1)]) (same_iso1AC_EVChargeParameter v) g
      a" using at
    by - (elim insertE emptyE; (hypsubst, rule hops_by, simp (no_asm) add: iso1AC_EVChargeParameter_steps del:
      One_nat_def,
      simp (no_asm) add: iso1AC_EVChargeParameter_steps del: One_nat_def,
        simp (asm_lr) add: iso1AC_EVChargeParameter_props del: One_nat_def, (elim conjE)?,
      ((rule walks_ifs)+)?); (frule iso1AC_EVChargeParameter_ok_def [THEN iffD1], ((drule (1) known)+)?,
        (elim conjE)?, ((drule (1) known)+)?, (elim conjE)?,
      (((rule walks_shapes, simp (no_asm) del: One_nat_def, ((rule reads_intros)+)?);
      ((elim exE conjE)?,
        ((simp (no_asm_simp) add: iso1AC_EVChargeParameter_props; fail) |
        (simp (asm_lr) add: iso1AC_EVChargeParameter_props; fail) |
        (auto simp: iso1AC_EVChargeParameter_props; fail)))) | (erule (1) notE; fail) |
        ((elim exE conjE)?,
        ((simp (no_asm_simp) add: iso1AC_EVChargeParameter_props; fail) |
        (simp (asm_lr) add: iso1AC_EVChargeParameter_props; fail) |
        (auto simp: iso1AC_EVChargeParameter_props; fail))))))
qed

lemma reads_iso1AC_EVChargeParameter [reads_intros]:
  "iso1AC_EVChargeParameter_ok v \<Longrightarrow> reads 213 (\<lambda>s. encode_iso1AC_EVChargeParameterType s v)
      (decode_iso1AC_EVChargeParameterType j) a (same_iso1AC_EVChargeParameter v)"
  unfolding encode_iso1AC_EVChargeParameterType_def decode_iso1AC_EVChargeParameterType_def [abs_def]
  by (rule reads_start [OF iso1AC_EVChargeParameter.machine_reads, of _ 251, THEN reads_mono])
      (auto simp: iso1AC_EVChargeParameter_at_def  init_iso1AC_EVChargeParameterType_def left_at_def)

interpretation iso1AC_EVChargeParameter_enc: advancing_machine "iso1AC_EVChargeParameter_enc_step v" "left_at
    [(251, 6), (252, 5), (253, 4), (254, 3), (255, 2), (3, 1)]" for v
  by unfold_locales (auto simp: iso1AC_EVChargeParameter_steps dest!: advance_dests split: if_splits;
      simp add: left_at_def)

interpretation iso1AC_EVChargeParameter_dec: advancing_machine "iso1AC_EVChargeParameter_dec_step j" "left_at
    [(251, 6), (252, 5), (253, 4), (254, 3), (255, 2), (3, 1)]" for j
  by unfold_locales (auto simp: iso1AC_EVChargeParameter_steps dest!: advance_dests elim!:
      decode_switch_next split: if_splits;
      simp add: left_at_def)

subsection \<open>\<open>iso1DC_EVChargeParameterType\<close>\<close>

record iso1DC_EVChargeParameterType =
  iso1DC_EVChargeParameter_DepartureTime :: u32
  iso1DC_EVChargeParameter_DepartureTime_isUsed :: bool
  iso1DC_EVChargeParameter_DC_EVStatus :: iso1DC_EVStatusType
  iso1DC_EVChargeParameter_EVMaximumCurrentLimit :: iso1PhysicalValueType
  iso1DC_EVChargeParameter_EVMaximumPowerLimit :: iso1PhysicalValueType
  iso1DC_EVChargeParameter_EVMaximumPowerLimit_isUsed :: bool
  iso1DC_EVChargeParameter_EVMaximumVoltageLimit :: iso1PhysicalValueType
  iso1DC_EVChargeParameter_EVEnergyCapacity :: iso1PhysicalValueType
  iso1DC_EVChargeParameter_EVEnergyCapacity_isUsed :: bool
  iso1DC_EVChargeParameter_EVEnergyRequest :: iso1PhysicalValueType
  iso1DC_EVChargeParameter_EVEnergyRequest_isUsed :: bool
  iso1DC_EVChargeParameter_FullSOC :: u8
  iso1DC_EVChargeParameter_FullSOC_isUsed :: bool
  iso1DC_EVChargeParameter_BulkSOC :: u8
  iso1DC_EVChargeParameter_BulkSOC_isUsed :: bool

definition init_iso1DC_EVChargeParameterType :: "iso1DC_EVChargeParameterType \<Rightarrow>
    iso1DC_EVChargeParameterType" where
  "init_iso1DC_EVChargeParameterType a = a\<lparr>iso1DC_EVChargeParameter_DepartureTime_isUsed := False,
      iso1DC_EVChargeParameter_EVMaximumPowerLimit_isUsed := False, iso1DC_EVChargeParameter_EVEnergyCapacity_isUsed
      := False, iso1DC_EVChargeParameter_EVEnergyRequest_isUsed := False, iso1DC_EVChargeParameter_FullSOC_isUsed
      := False, iso1DC_EVChargeParameter_BulkSOC_isUsed := False\<rparr>"

definition iso1DC_EVChargeParameter_enc_step_2 :: "iso1DC_EVChargeParameterType \<Rightarrow> unit machine" where
  "iso1DC_EVChargeParameter_enc_step_2 v grammarID x s =
     (if grammarID = 101 then
        if iso1DC_EVChargeParameter_EVEnergyRequest_isUsed v then
          goto 102 x
          (encode_child 3 0 (\<lambda>s. encode_iso1PhysicalValueType s (iso1DC_EVChargeParameter_EVEnergyRequest v))
          s)
        else if iso1DC_EVChargeParameter_FullSOC_isUsed v then
          goto 103 x
          (encode_simple 3 1 (\<lambda>s. encodeNBitUnsignedInteger s 7 (scast (iso1DC_EVChargeParameter_FullSOC v)))
          s)
        else if iso1DC_EVChargeParameter_BulkSOC_isUsed v then
          goto 3 x (encode_simple 3 2
          (\<lambda>s. encodeNBitUnsignedInteger s 7 (scast (iso1DC_EVChargeParameter_BulkSOC v))) s)
        else finish 4 x (encodeNBitUnsignedInteger s 3 3)
      else if grammarID = 102 then
        if iso1DC_EVChargeParameter_FullSOC_isUsed v then
          goto 103 x
          (encode_simple 2 0 (\<lambda>s. encodeNBitUnsignedInteger s 7 (scast (iso1DC_EVChargeParameter_FullSOC v)))
          s)
        else if iso1DC_EVChargeParameter_BulkSOC_isUsed v then
          goto 3 x (encode_simple 2 1
          (\<lambda>s. encodeNBitUnsignedInteger s 7 (scast (iso1DC_EVChargeParameter_BulkSOC v))) s)
        else finish 4 x (encodeNBitUnsignedInteger s 2 2)
      else if grammarID = 103 then
        if iso1DC_EVChargeParameter_BulkSOC_isUsed v then
          goto 3 x (encode_simple 2 0
          (\<lambda>s. encodeNBitUnsignedInteger s 7 (scast (iso1DC_EVChargeParameter_BulkSOC v))) s)
        else finish 4 x (encodeNBitUnsignedInteger s 2 1)
      else if grammarID = 3 then
        finish 4 x (encodeNBitUnsignedInteger s 1 0)
      else Some (EXI_ERROR_UNKOWN_GRAMMAR_ID, (False, grammarID, x), s))"

definition iso1DC_EVChargeParameter_enc_step :: "iso1DC_EVChargeParameterType \<Rightarrow> unit machine" where
  "iso1DC_EVChargeParameter_enc_step v grammarID x s =
     (if grammarID = 95 then
        if iso1DC_EVChargeParameter_DepartureTime_isUsed v then
          goto 96 x
          (encode_simple 2 0 (\<lambda>s. encodeUnsignedInteger32 s (iso1DC_EVChargeParameter_DepartureTime v)) s)
        else goto 97 x
          (encode_child 2 1 (\<lambda>s. encode_iso1DC_EVStatusType s (iso1DC_EVChargeParameter_DC_EVStatus v)) s)
      else if grammarID = 96 then
        goto 97 x
          (encode_child 1 0 (\<lambda>s. encode_iso1DC_EVStatusType s (iso1DC_EVChargeParameter_DC_EVStatus v)) s)
      else if grammarID = 97 then
        goto 98 x
          (encode_child 1 0
          (\<lambda>s. encode_iso1PhysicalValueType s (iso1DC_EVChargeParameter_EVMaximumCurrentLimit v)) s)
      else if grammarID = 98 then
        if iso1DC_EVChargeParameter_EVMaximumPowerLimit_isUsed v then
          goto 99 x
          (encode_child 2 0
          (\<lambda>s. encode_iso1PhysicalValueType s (iso1DC_EVChargeParameter_EVMaximumPowerLimit v)) s)
        else goto 100 x
          (encode_child 2 1
          (\<lambda>s. encode_iso1PhysicalValueType s (iso1DC_EVChargeParameter_EVMaximumVoltageLimit v)) s)
      else if grammarID = 99 then
        goto 100 x
          (encode_child 1 0
          (\<lambda>s. encode_iso1PhysicalValueType s (iso1DC_EVChargeParameter_EVMaximumVoltageLimit v)) s)
      else if grammarID = 100 then
        if iso1DC_EVChargeParameter_EVEnergyCapacity_isUsed v then
          goto 101 x
          (encode_child 3 0 (\<lambda>s. encode_iso1PhysicalValueType s (iso1DC_EVChargeParameter_EVEnergyCapacity v))
          s)
        else if iso1DC_EVChargeParameter_EVEnergyRequest_isUsed v then
          goto 102 x
          (encode_child 3 1 (\<lambda>s. encode_iso1PhysicalValueType s (iso1DC_EVChargeParameter_EVEnergyRequest v))
          s)
        else if iso1DC_EVChargeParameter_FullSOC_isUsed v then
          goto 103 x
          (encode_simple 3 2 (\<lambda>s. encodeNBitUnsignedInteger s 7 (scast (iso1DC_EVChargeParameter_FullSOC v)))
          s)
        else if iso1DC_EVChargeParameter_BulkSOC_isUsed v then
          goto 3 x (encode_simple 3 3
          (\<lambda>s. encodeNBitUnsignedInteger s 7 (scast (iso1DC_EVChargeParameter_BulkSOC v))) s)
        else finish 4 x (encodeNBitUnsignedInteger s 3 4)
      else iso1DC_EVChargeParameter_enc_step_2 v grammarID x s)"

definition encode_iso1DC_EVChargeParameterType :: "bitstream \<Rightarrow> iso1DC_EVChargeParameterType \<Rightarrow>
    (errn \<times> bitstream) option" where
  "encode_iso1DC_EVChargeParameterType s v = run_encoder (iso1DC_EVChargeParameter_enc_step v) 95 () s"

definition iso1DC_EVChargeParameter_dec_step_3 :: "u32 \<Rightarrow>
    (dec_static \<times> iso1DC_EVChargeParameterType) machine" where
  "iso1DC_EVChargeParameter_dec_step_3 j grammarID x s =
     (if grammarID = 102 then
        decode_switch 2
         [(0, decode_simple 102 103
           (decode_used (\<lambda>a. a\<lparr>iso1DC_EVChargeParameter_FullSOC_isUsed := True\<rparr>)
           (decode_nbit_field 7 (\<lambda>u a. a\<lparr>iso1DC_EVChargeParameter_FullSOC := ucast u\<rparr>)))),
          (1, decode_simple 102 3
            (decode_used (\<lambda>a. a\<lparr>iso1DC_EVChargeParameter_BulkSOC_isUsed := True\<rparr>)
            (decode_nbit_field 7 (\<lambda>u a. a\<lparr>iso1DC_EVChargeParameter_BulkSOC := ucast u\<rparr>)))),
          (2, decode_end 4)] 102 x s
      else if grammarID = 103 then
        decode_switch 2
         [(0, decode_simple 103 3
           (decode_used (\<lambda>a. a\<lparr>iso1DC_EVChargeParameter_BulkSOC_isUsed := True\<rparr>)
           (decode_nbit_field 7 (\<lambda>u a. a\<lparr>iso1DC_EVChargeParameter_BulkSOC := ucast u\<rparr>)))),
          (1, decode_end 4)] 103 x s
      else if grammarID = 3 then
        decode_switch 1
         [(0, decode_end 4)] 3 x s
      else Some (EXI_ERROR_UNKOWN_GRAMMAR_ID, (False, grammarID, x), s))"

definition iso1DC_EVChargeParameter_dec_step_2 :: "u32 \<Rightarrow>
    (dec_static \<times> iso1DC_EVChargeParameterType) machine" where
  "iso1DC_EVChargeParameter_dec_step_2 j grammarID x s =
     (if grammarID = 100 then
        decode_switch 3
         [(0, decode_child 101
           (decode_used (\<lambda>a. a\<lparr>iso1DC_EVChargeParameter_EVEnergyCapacity_isUsed := True\<rparr>)
           (decode_sub (decode_iso1PhysicalValueType j) iso1DC_EVChargeParameter_EVEnergyCapacity
           (\<lambda>u a. a\<lparr>iso1DC_EVChargeParameter_EVEnergyCapacity := u\<rparr>)))),
          (1, decode_child 102
            (decode_used (\<lambda>a. a\<lparr>iso1DC_EVChargeParameter_EVEnergyRequest_isUsed := True\<rparr>)
            (decode_sub (decode_iso1PhysicalValueType j) iso1DC_EVChargeParameter_EVEnergyRequest
            (\<lambda>u a. a\<lparr>iso1DC_EVChargeParameter_EVEnergyRequest := u\<rparr>)))),
          (2, decode_simple 100 103
            (decode_used (\<lambda>a. a\<lparr>iso1DC_EVChargeParameter_FullSOC_isUsed := True\<rparr>)
            (decode_nbit_field 7 (\<lambda>u a. a\<lparr>iso1DC_EVChargeParameter_FullSOC := ucast u\<rparr>)))),
          (3, decode_simple 100 3
            (decode_used (\<lambda>a. a\<lparr>iso1DC_EVChargeParameter_BulkSOC_isUsed := True\<rparr>)
            (decode_nbit_field 7 (\<lambda>u a. a\<lparr>iso1DC_EVChargeParameter_BulkSOC := ucast u\<rparr>)))),
          (4, decode_end 4)] 100 x s
      else if grammarID = 101 then
        decode_switch 3
         [(0, decode_child 102
           (decode_used (\<lambda>a. a\<lparr>iso1DC_EVChargeParameter_EVEnergyRequest_isUsed := True\<rparr>)
           (decode_sub (decode_iso1PhysicalValueType j) iso1DC_EVChargeParameter_EVEnergyRequest
           (\<lambda>u a. a\<lparr>iso1DC_EVChargeParameter_EVEnergyRequest := u\<rparr>)))),
          (1, decode_simple 101 103
            (decode_used (\<lambda>a. a\<lparr>iso1DC_EVChargeParameter_FullSOC_isUsed := True\<rparr>)
            (decode_nbit_field 7 (\<lambda>u a. a\<lparr>iso1DC_EVChargeParameter_FullSOC := ucast u\<rparr>)))),
          (2, decode_simple 101 3
            (decode_used (\<lambda>a. a\<lparr>iso1DC_EVChargeParameter_BulkSOC_isUsed := True\<rparr>)
            (decode_nbit_field 7 (\<lambda>u a. a\<lparr>iso1DC_EVChargeParameter_BulkSOC := ucast u\<rparr>)))),
          (3, decode_end 4)] 101 x s
      else iso1DC_EVChargeParameter_dec_step_3 j grammarID x s)"

definition iso1DC_EVChargeParameter_dec_step :: "u32 \<Rightarrow> (dec_static \<times> iso1DC_EVChargeParameterType)
    machine" where
  "iso1DC_EVChargeParameter_dec_step j grammarID x s =
     (if grammarID = 95 then
        decode_switch 2
         [(0, decode_simple 95 96
           (decode_used (\<lambda>a. a\<lparr>iso1DC_EVChargeParameter_DepartureTime_isUsed := True\<rparr>)
           (decode_u32_field j (\<lambda>u a. a\<lparr>iso1DC_EVChargeParameter_DepartureTime := u\<rparr>)))),
          (1, decode_child 97 (decode_sub (decode_iso1DC_EVStatusType j) iso1DC_EVChargeParameter_DC_EVStatus
            (\<lambda>u a. a\<lparr>iso1DC_EVChargeParameter_DC_EVStatus := u\<rparr>)))] 95 x s
      else if grammarID = 96 then
        decode_switch 1
         [(0, decode_child 97 (decode_sub (decode_iso1DC_EVStatusType j) iso1DC_EVChargeParameter_DC_EVStatus
           (\<lambda>u a. a\<lparr>iso1DC_EVChargeParameter_DC_EVStatus := u\<rparr>)))] 96 x s
      else if grammarID = 97 then
        decode_switch 1
         [(0, decode_child 98
           (decode_sub (decode_iso1PhysicalValueType j) iso1DC_EVChargeParameter_EVMaximumCurrentLimit
           (\<lambda>u a. a\<lparr>iso1DC_EVChargeParameter_EVMaximumCurrentLimit := u\<rparr>)))] 97 x s
      else if grammarID = 98 then
        decode_switch 2
         [(0, decode_child 99
           (decode_used (\<lambda>a. a\<lparr>iso1DC_EVChargeParameter_EVMaximumPowerLimit_isUsed := True\<rparr>)
           (decode_sub (decode_iso1PhysicalValueType j) iso1DC_EVChargeParameter_EVMaximumPowerLimit
           (\<lambda>u a. a\<lparr>iso1DC_EVChargeParameter_EVMaximumPowerLimit := u\<rparr>)))),
          (1, decode_child 100
            (decode_sub (decode_iso1PhysicalValueType j) iso1DC_EVChargeParameter_EVMaximumVoltageLimit
            (\<lambda>u a. a\<lparr>iso1DC_EVChargeParameter_EVMaximumVoltageLimit := u\<rparr>)))] 98 x s
      else if grammarID = 99 then
        decode_switch 1
         [(0, decode_child 100
           (decode_sub (decode_iso1PhysicalValueType j) iso1DC_EVChargeParameter_EVMaximumVoltageLimit
           (\<lambda>u a. a\<lparr>iso1DC_EVChargeParameter_EVMaximumVoltageLimit := u\<rparr>)))] 99 x s
      else iso1DC_EVChargeParameter_dec_step_2 j grammarID x s)"

definition decode_iso1DC_EVChargeParameterType :: "u32 \<Rightarrow> iso1DC_EVChargeParameterType decoder" where
  "decode_iso1DC_EVChargeParameterType j x s = grammar_loop (iso1DC_EVChargeParameter_dec_step j) 95
      (fst x, init_iso1DC_EVChargeParameterType (snd x)) s"

definition iso1DC_EVChargeParameter_ok :: "iso1DC_EVChargeParameterType \<Rightarrow> bool" where
  "iso1DC_EVChargeParameter_ok v \<longleftrightarrow>
     when_used (iso1DC_EVChargeParameter_DepartureTime_isUsed v) (iso1DC_EVChargeParameter_DepartureTime v < 2 ^ 31)
       \<and>
     iso1DC_EVStatus_ok (iso1DC_EVChargeParameter_DC_EVStatus v) \<and>
     iso1PhysicalValue_ok (iso1DC_EVChargeParameter_EVMaximumCurrentLimit v) \<and>
     when_used (iso1DC_EVChargeParameter_EVMaximumPowerLimit_isUsed v)
       (iso1PhysicalValue_ok (iso1DC_EVChargeParameter_EVMaximumPowerLimit v)) \<and>
     iso1PhysicalValue_ok (iso1DC_EVChargeParameter_EVMaximumVoltageLimit v) \<and>
     when_used (iso1DC_EVChargeParameter_EVEnergyCapacity_isUsed v)
       (iso1PhysicalValue_ok (iso1DC_EVChargeParameter_EVEnergyCapacity v)) \<and>
     when_used (iso1DC_EVChargeParameter_EVEnergyRequest_isUsed v)
       (iso1PhysicalValue_ok (iso1DC_EVChargeParameter_EVEnergyRequest v)) \<and>
     when_used (iso1DC_EVChargeParameter_FullSOC_isUsed v)
       (scast (iso1DC_EVChargeParameter_FullSOC v) < (2 ^ 7 :: u32)) \<and>
     when_used (iso1DC_EVChargeParameter_BulkSOC_isUsed v)
       (scast (iso1DC_EVChargeParameter_BulkSOC v) < (2 ^ 7 :: u32))"

definition same_iso1DC_EVChargeParameter :: "iso1DC_EVChargeParameterType \<Rightarrow> iso1DC_EVChargeParameterType
    \<Rightarrow> bool" where
  "same_iso1DC_EVChargeParameter v a \<longleftrightarrow>
     kept (iso1DC_EVChargeParameter_DepartureTime_isUsed v) (iso1DC_EVChargeParameter_DepartureTime_isUsed a)
       (iso1DC_EVChargeParameter_DepartureTime a = iso1DC_EVChargeParameter_DepartureTime v) \<and>
     same_iso1DC_EVStatus (iso1DC_EVChargeParameter_DC_EVStatus v) (iso1DC_EVChargeParameter_DC_EVStatus a) \<and>
     same_iso1PhysicalValue (iso1DC_EVChargeParameter_EVMaximumCurrentLimit v)
       (iso1DC_EVChargeParameter_EVMaximumCurrentLimit a) \<and>
     kept (iso1DC_EVChargeParameter_EVMaximumPowerLimit_isUsed v)
       (iso1DC_EVChargeParameter_EVMaximumPowerLimit_isUsed a)
       (same_iso1PhysicalValue (iso1DC_EVChargeParameter_EVMaximumPowerLimit v)
       (iso1DC_EVChargeParameter_EVMaximumPowerLimit a)) \<and>
     same_iso1PhysicalValue (iso1DC_EVChargeParameter_EVMaximumVoltageLimit v)
       (iso1DC_EVChargeParameter_EVMaximumVoltageLimit a) \<and>
     kept (iso1DC_EVChargeParameter_EVEnergyCapacity_isUsed v) (iso1DC_EVChargeParameter_EVEnergyCapacity_isUsed a)
       (same_iso1PhysicalValue (iso1DC_EVChargeParameter_EVEnergyCapacity v)
       (iso1DC_EVChargeParameter_EVEnergyCapacity a)) \<and>
     kept (iso1DC_EVChargeParameter_EVEnergyRequest_isUsed v) (iso1DC_EVChargeParameter_EVEnergyRequest_isUsed a)
       (same_iso1PhysicalValue (iso1DC_EVChargeParameter_EVEnergyRequest v)
       (iso1DC_EVChargeParameter_EVEnergyRequest a)) \<and>
     kept (iso1DC_EVChargeParameter_FullSOC_isUsed v) (iso1DC_EVChargeParameter_FullSOC_isUsed a)
       (iso1DC_EVChargeParameter_FullSOC a = iso1DC_EVChargeParameter_FullSOC v) \<and>
     kept (iso1DC_EVChargeParameter_BulkSOC_isUsed v) (iso1DC_EVChargeParameter_BulkSOC_isUsed a)
       (iso1DC_EVChargeParameter_BulkSOC a = iso1DC_EVChargeParameter_BulkSOC v)"

definition iso1DC_EVChargeParameter_at :: "iso1DC_EVChargeParameterType \<Rightarrow> nat \<Rightarrow>
    iso1DC_EVChargeParameterType \<Rightarrow> bool" where
  "iso1DC_EVChargeParameter_at v g a \<longleftrightarrow>
     iso1DC_EVChargeParameter_ok v \<and>
     g \<in> {95, 96, 97, 98, 99, 100, 101, 102, 103, 3} \<and>
     (if g \<in> {95} then \<not> iso1DC_EVChargeParameter_DepartureTime_isUsed a
      else kept (iso1DC_EVChargeParameter_DepartureTime_isUsed v) (iso1DC_EVChargeParameter_DepartureTime_isUsed a)
        (iso1DC_EVChargeParameter_DepartureTime a = iso1DC_EVChargeParameter_DepartureTime v)) \<and>
     (g \<notin> {95, 96} \<longrightarrow> same_iso1DC_EVStatus (iso1DC_EVChargeParameter_DC_EVStatus v)
       (iso1DC_EVChargeParameter_DC_EVStatus a)) \<and>
     (g \<notin> {95, 96, 97} \<longrightarrow>
       same_iso1PhysicalValue (iso1DC_EVChargeParameter_EVMaximumCurrentLimit v)
       (iso1DC_EVChargeParameter_EVMaximumCurrentLimit a)) \<and>
     (if g \<in> {95, 96, 97, 98} then \<not> iso1DC_EVChargeParameter_EVMaximumPowerLimit_isUsed a
      else kept (iso1DC_EVChargeParameter_EVMaximumPowerLimit_isUsed v)
        (iso1DC_EVChargeParameter_EVMaximumPowerLimit_isUsed a)
        (same_iso1PhysicalValue (iso1DC_EVChargeParameter_EVMaximumPowerLimit v)
        (iso1DC_EVChargeParameter_EVMaximumPowerLimit a))) \<and>
     (g \<notin> {95, 96, 97, 98, 99} \<longrightarrow>
       same_iso1PhysicalValue (iso1DC_EVChargeParameter_EVMaximumVoltageLimit v)
       (iso1DC_EVChargeParameter_EVMaximumVoltageLimit a)) \<and>
     (if g \<in> {95, 96, 97, 98, 99, 100} then \<not> iso1DC_EVChargeParameter_EVEnergyCapacity_isUsed a
      else kept (iso1DC_EVChargeParameter_EVEnergyCapacity_isUsed v)
        (iso1DC_EVChargeParameter_EVEnergyCapacity_isUsed a)
        (same_iso1PhysicalValue (iso1DC_EVChargeParameter_EVEnergyCapacity v)
        (iso1DC_EVChargeParameter_EVEnergyCapacity a))) \<and>
     (if g \<in> {95, 96, 97, 98, 99, 100, 101} then \<not> iso1DC_EVChargeParameter_EVEnergyRequest_isUsed a
      else kept (iso1DC_EVChargeParameter_EVEnergyRequest_isUsed v)
        (iso1DC_EVChargeParameter_EVEnergyRequest_isUsed a)
        (same_iso1PhysicalValue (iso1DC_EVChargeParameter_EVEnergyRequest v)
        (iso1DC_EVChargeParameter_EVEnergyRequest a))) \<and>
     (if g \<in> {95, 96, 97, 98, 99, 100, 101, 102} then \<not> iso1DC_EVChargeParameter_FullSOC_isUsed a
      else kept (iso1DC_EVChargeParameter_FullSOC_isUsed v) (iso1DC_EVChargeParameter_FullSOC_isUsed a)
        (iso1DC_EVChargeParameter_FullSOC a = iso1DC_EVChargeParameter_FullSOC v)) \<and>
     (if g \<in> {95, 96, 97, 98, 99, 100, 101, 102, 103} then \<not> iso1DC_EVChargeParameter_BulkSOC_isUsed a
      else kept (iso1DC_EVChargeParameter_BulkSOC_isUsed v) (iso1DC_EVChargeParameter_BulkSOC_isUsed a)
        (iso1DC_EVChargeParameter_BulkSOC a = iso1DC_EVChargeParameter_BulkSOC v))"

lemmas iso1DC_EVChargeParameter_steps = iso1DC_EVChargeParameter_enc_step_def iso1DC_EVChargeParameter_enc_step_2_def
  iso1DC_EVChargeParameter_dec_step_def iso1DC_EVChargeParameter_dec_step_2_def
      iso1DC_EVChargeParameter_dec_step_3_def

lemmas iso1DC_EVChargeParameter_props = iso1DC_EVChargeParameter_at_def same_iso1DC_EVChargeParameter_def left_at_def

lemma iso1DC_EVChargeParameter_steps_1:
  "iso1DC_EVChargeParameter_at v g a \<Longrightarrow> g \<in> {95, 96, 97, 98, 99} \<Longrightarrow>
   hops (iso1DC_EVChargeParameter_enc_step v) (iso1DC_EVChargeParameter_dec_step j) (iso1DC_EVChargeParameter_at v)
    (left_at [(95, 305), (96, 261), (97, 238), (98, 196), (99, 153), (100, 111), (101, 67), (102, 23), (103, 12),
      (3, 1)]) (same_iso1DC_EVChargeParameter v) g a"
  by (elim insertE emptyE; (hypsubst, rule hops_by, simp (no_asm) add: iso1DC_EVChargeParameter_steps del:
      One_nat_def,
      simp (no_asm) add: iso1DC_EVChargeParameter_steps del: One_nat_def,
        simp (asm_lr) add: iso1DC_EVChargeParameter_props del: One_nat_def, (elim conjE)?,
      ((rule walks_ifs)+)?); (frule iso1DC_EVChargeParameter_ok_def [THEN iffD1], ((drule (1) known)+)?,
        (elim conjE)?, ((drule (1) known)+)?, (elim conjE)?,
      (((rule walks_shapes, simp (no_asm) del: One_nat_def, ((rule reads_intros)+)?);
      ((elim exE conjE)?,
        ((simp (no_asm_simp) add: iso1DC_EVChargeParameter_props; fail) |
        (simp (asm_lr) add: iso1DC_EVChargeParameter_props; fail) |
        (auto simp: iso1DC_EVChargeParameter_props; fail)))) | (erule (1) notE; fail) |
        ((elim exE conjE)?,
        ((simp (no_asm_simp) add: iso1DC_EVChargeParameter_props; fail) |
        (simp (asm_lr) add: iso1DC_EVChargeParameter_props; fail) |
        (auto simp: iso1DC_EVChargeParameter_props; fail))))))

lemma iso1DC_EVChargeParameter_steps_2:
  "iso1DC_EVChargeParameter_at v g a \<Longrightarrow> g \<in> {100, 101, 102, 103, 3} \<Longrightarrow>
   hops (iso1DC_EVChargeParameter_enc_step v) (iso1DC_EVChargeParameter_dec_step j) (iso1DC_EVChargeParameter_at v)
    (left_at [(95, 305), (96, 261), (97, 238), (98, 196), (99, 153), (100, 111), (101, 67), (102, 23), (103, 12),
      (3, 1)]) (same_iso1DC_EVChargeParameter v) g a"
  by (elim insertE emptyE; (hypsubst, rule hops_by, simp (no_asm) add: iso1DC_EVChargeParameter_steps del:
      One_nat_def,
      simp (no_asm) add: iso1DC_EVChargeParameter_steps del: One_nat_def,
        simp (asm_lr) add: iso1DC_EVChargeParameter_props del: One_nat_def, (elim conjE)?,
      ((rule walks_ifs)+)?); (frule iso1DC_EVChargeParameter_ok_def [THEN iffD1], ((drule (1) known)+)?,
        (elim conjE)?, ((drule (1) known)+)?, (elim conjE)?,
      (((rule walks_shapes, simp (no_asm) del: One_nat_def, ((rule reads_intros)+)?);
      ((elim exE conjE)?,
        ((simp (no_asm_simp) add: iso1DC_EVChargeParameter_props; fail) |
        (simp (asm_lr) add: iso1DC_EVChargeParameter_props; fail) |
        (auto simp: iso1DC_EVChargeParameter_props; fail)))) | (erule (1) notE; fail) |
        ((elim exE conjE)?,
        ((simp (no_asm_simp) add: iso1DC_EVChargeParameter_props; fail) |
        (simp (asm_lr) add: iso1DC_EVChargeParameter_props; fail) |
        (auto simp: iso1DC_EVChargeParameter_props; fail))))))

interpretation iso1DC_EVChargeParameter: paired_machines "iso1DC_EVChargeParameter_enc_step v"
    "iso1DC_EVChargeParameter_dec_step j" "iso1DC_EVChargeParameter_at v"
  "left_at [(95, 305), (96, 261), (97, 238), (98, 196), (99, 153), (100, 111), (101, 67), (102, 23), (103, 12),
      (3, 1)]" "same_iso1DC_EVChargeParameter v" for v j
proof
  fix g a assume at: "iso1DC_EVChargeParameter_at v g a"
  then have "g \<in> {95, 96, 97, 98, 99} \<or> g \<in> {100, 101, 102, 103,
      3}" by (auto simp: iso1DC_EVChargeParameter_at_def)
  then show "hops (iso1DC_EVChargeParameter_enc_step v) (iso1DC_EVChargeParameter_dec_step j)
      (iso1DC_EVChargeParameter_at v)
    (left_at [(95, 305), (96, 261), (97, 238), (98, 196), (99, 153), (100, 111), (101, 67), (102, 23), (103, 12),
      (3, 1)]) (same_iso1DC_EVChargeParameter v) g a"
    by (elim disjE) (erule iso1DC_EVChargeParameter_steps_1 [OF at] | erule iso1DC_EVChargeParameter_steps_2 [OF at])+
qed

lemma reads_iso1DC_EVChargeParameter [reads_intros]:
  "iso1DC_EVChargeParameter_ok v \<Longrightarrow> reads 305 (\<lambda>s. encode_iso1DC_EVChargeParameterType s v)
      (decode_iso1DC_EVChargeParameterType j) a (same_iso1DC_EVChargeParameter v)"
  unfolding encode_iso1DC_EVChargeParameterType_def decode_iso1DC_EVChargeParameterType_def [abs_def]
  by (rule reads_start [OF iso1DC_EVChargeParameter.machine_reads, of _ 95, THEN reads_mono])
      (auto simp: iso1DC_EVChargeParameter_at_def  init_iso1DC_EVChargeParameterType_def left_at_def)

interpretation iso1DC_EVChargeParameter_enc: advancing_machine "iso1DC_EVChargeParameter_enc_step v" "left_at
    [(95, 10), (96, 9), (97, 8), (98, 7), (99, 6), (100, 5), (101, 4), (102, 3), (103, 2), (3, 1)]" for v
  by unfold_locales (auto simp: iso1DC_EVChargeParameter_steps dest!: advance_dests split: if_splits;
      simp add: left_at_def)

interpretation iso1DC_EVChargeParameter_dec: advancing_machine "iso1DC_EVChargeParameter_dec_step j" "left_at
    [(95, 10), (96, 9), (97, 8), (98, 7), (99, 6), (100, 5), (101, 4), (102, 3), (103, 2), (3, 1)]" for j
  by unfold_locales (auto simp: iso1DC_EVChargeParameter_steps dest!: advance_dests elim!:
      decode_switch_next split: if_splits;
      simp add: left_at_def)

subsection \<open>\<open>iso1EVChargeParameterType\<close>\<close>

record iso1EVChargeParameterType =
  iso1EVChargeParameter_DepartureTime :: u32
  iso1EVChargeParameter_DepartureTime_isUsed :: bool

definition init_iso1EVChargeParameterType :: "iso1EVChargeParameterType \<Rightarrow> iso1EVChargeParameterType" where
  "init_iso1EVChargeParameterType a = a\<lparr>iso1EVChargeParameter_DepartureTime_isUsed := False\<rparr>"

definition iso1EVChargeParameter_enc_step :: "iso1EVChargeParameterType \<Rightarrow> unit machine" where
  "iso1EVChargeParameter_enc_step v grammarID x s =
     (if grammarID = 22 then
        if iso1EVChargeParameter_DepartureTime_isUsed v then
          goto 3 x (encode_simple 2 0 (\<lambda>s. encodeUnsignedInteger32 s (iso1EVChargeParameter_DepartureTime v))
          s)
        else finish 4 x (encodeNBitUnsignedInteger s 2 1)
      else if grammarID = 3 then
        finish 4 x (encodeNBitUnsignedInteger s 1 0)
      else Some (EXI_ERROR_UNKOWN_GRAMMAR_ID, (False, grammarID, x), s))"

definition encode_iso1EVChargeParameterType :: "bitstream \<Rightarrow> iso1EVChargeParameterType \<Rightarrow>
    (errn \<times> bitstream) option" where
  "encode_iso1EVChargeParameterType s v = run_encoder (iso1EVChargeParameter_enc_step v) 22 () s"

definition iso1EVChargeParameter_dec_step :: "u32 \<Rightarrow> (dec_static \<times> iso1EVChargeParameterType)
    machine" where
  "iso1EVChargeParameter_dec_step j grammarID x s =
     (if grammarID = 22 then
        decode_switch 2
         [(0, decode_simple 22 3
           (decode_used (\<lambda>a. a\<lparr>iso1EVChargeParameter_DepartureTime_isUsed := True\<rparr>)
           (decode_u32_field j (\<lambda>u a. a\<lparr>iso1EVChargeParameter_DepartureTime := u\<rparr>)))),
          (1, decode_end 4)] 22 x s
      else if grammarID = 3 then
        decode_switch 1
         [(0, decode_end 4)] 3 x s
      else Some (EXI_ERROR_UNKOWN_GRAMMAR_ID, (False, grammarID, x), s))"

definition decode_iso1EVChargeParameterType :: "u32 \<Rightarrow> iso1EVChargeParameterType decoder" where
  "decode_iso1EVChargeParameterType j x s = grammar_loop (iso1EVChargeParameter_dec_step j) 22
      (fst x, init_iso1EVChargeParameterType (snd x)) s"

definition iso1EVChargeParameter_ok :: "iso1EVChargeParameterType \<Rightarrow> bool" where
  "iso1EVChargeParameter_ok v \<longleftrightarrow>
     when_used (iso1EVChargeParameter_DepartureTime_isUsed v) (iso1EVChargeParameter_DepartureTime v < 2 ^ 31)"

definition same_iso1EVChargeParameter :: "iso1EVChargeParameterType \<Rightarrow> iso1EVChargeParameterType
    \<Rightarrow> bool" where
  "same_iso1EVChargeParameter v a \<longleftrightarrow>
     kept (iso1EVChargeParameter_DepartureTime_isUsed v) (iso1EVChargeParameter_DepartureTime_isUsed a)
       (iso1EVChargeParameter_DepartureTime a = iso1EVChargeParameter_DepartureTime v)"

definition iso1EVChargeParameter_at :: "iso1EVChargeParameterType \<Rightarrow> nat \<Rightarrow>
    iso1EVChargeParameterType \<Rightarrow> bool" where
  "iso1EVChargeParameter_at v g a \<longleftrightarrow>
     iso1EVChargeParameter_ok v \<and>
     g \<in> {22, 3} \<and>
     (if g \<in> {22} then \<not> iso1EVChargeParameter_DepartureTime_isUsed a
      else kept (iso1EVChargeParameter_DepartureTime_isUsed v) (iso1EVChargeParameter_DepartureTime_isUsed a)
        (iso1EVChargeParameter_DepartureTime a = iso1EVChargeParameter_DepartureTime v))"

lemmas iso1EVChargeParameter_steps = iso1EVChargeParameter_enc_step_def
  iso1EVChargeParameter_dec_step_def

lemmas iso1EVChargeParameter_props = iso1EVChargeParameter_at_def same_iso1EVChargeParameter_def left_at_def

interpretation iso1EVChargeParameter: paired_machines "iso1EVChargeParameter_enc_step v"
    "iso1EVChargeParameter_dec_step j" "iso1EVChargeParameter_at v"
  "left_at [(22, 45), (3, 1)]" "same_iso1EVChargeParameter v" for v j
proof
  fix g a assume at: "iso1EVChargeParameter_at v g a"
  then have "g \<in> {22, 3}" by (simp add: iso1EVChargeParameter_at_def)
  then show "hops (iso1EVChargeParameter_enc_step v) (iso1EVChargeParameter_dec_step j) (iso1EVChargeParameter_at v)
    (left_at [(22, 45), (3, 1)]) (same_iso1EVChargeParameter v) g a" using at
    by - (elim insertE emptyE; (hypsubst, rule hops_by, simp (no_asm) add: iso1EVChargeParameter_steps del:
      One_nat_def,
      simp (no_asm) add: iso1EVChargeParameter_steps del: One_nat_def, simp (asm_lr) add: iso1EVChargeParameter_props
        del: One_nat_def, (elim conjE)?,
      ((rule walks_ifs)+)?); (frule iso1EVChargeParameter_ok_def [THEN iffD1], ((drule (1) known)+)?, (elim conjE)?,
        ((drule (1) known)+)?, (elim conjE)?,
      (((rule walks_shapes, simp (no_asm) del: One_nat_def, ((rule reads_intros)+)?);
      ((elim exE conjE)?,
        ((simp (no_asm_simp) add: iso1EVChargeParameter_props; fail) |
        (simp (asm_lr) add: iso1EVChargeParameter_props; fail) | (auto simp: iso1EVChargeParameter_props; fail)))) |
        (erule (1) notE; fail) |
        ((elim exE conjE)?,
        ((simp (no_asm_simp) add: iso1EVChargeParameter_props; fail) |
        (simp (asm_lr) add: iso1EVChargeParameter_props; fail) | (auto simp: iso1EVChargeParameter_props; fail))))))
qed

lemma reads_iso1EVChargeParameter [reads_intros]:
  "iso1EVChargeParameter_ok v \<Longrightarrow> reads 45 (\<lambda>s. encode_iso1EVChargeParameterType s v)
      (decode_iso1EVChargeParameterType j) a (same_iso1EVChargeParameter v)"
  unfolding encode_iso1EVChargeParameterType_def decode_iso1EVChargeParameterType_def [abs_def]
  by (rule reads_start [OF iso1EVChargeParameter.machine_reads, of _ 22, THEN reads_mono])
      (auto simp: iso1EVChargeParameter_at_def  init_iso1EVChargeParameterType_def left_at_def)

interpretation iso1EVChargeParameter_enc: advancing_machine "iso1EVChargeParameter_enc_step v" "left_at
    [(22, 2), (3, 1)]" for v
  by unfold_locales (auto simp: iso1EVChargeParameter_steps dest!: advance_dests split: if_splits;
      simp add: left_at_def)

interpretation iso1EVChargeParameter_dec: advancing_machine "iso1EVChargeParameter_dec_step j" "left_at
    [(22, 2), (3, 1)]" for j
  by unfold_locales (auto simp: iso1EVChargeParameter_steps dest!: advance_dests elim!: decode_switch_next
      split: if_splits;
      simp add: left_at_def)

subsection \<open>\<open>iso1ChargeParameterDiscoveryReqType\<close>\<close>

record iso1ChargeParameterDiscoveryReqType =
  iso1ChargeParameterDiscoveryReq_MaxEntriesSAScheduleTuple :: u16
  iso1ChargeParameterDiscoveryReq_MaxEntriesSAScheduleTuple_isUsed :: bool
  iso1ChargeParameterDiscoveryReq_RequestedEnergyTransferMode :: u32
  iso1ChargeParameterDiscoveryReq_EVChargeParameter :: iso1EVChargeParameterType
  iso1ChargeParameterDiscoveryReq_EVChargeParameter_isUsed :: bool
  iso1ChargeParameterDiscoveryReq_AC_EVChargeParameter :: iso1AC_EVChargeParameterType
  iso1ChargeParameterDiscoveryReq_AC_EVChargeParameter_isUsed :: bool
  iso1ChargeParameterDiscoveryReq_DC_EVChargeParameter :: iso1DC_EVChargeParameterType
  iso1ChargeParameterDiscoveryReq_DC_EVChargeParameter_isUsed :: bool

definition init_iso1ChargeParameterDiscoveryReqType :: "iso1ChargeParameterDiscoveryReqType \<Rightarrow>
    iso1ChargeParameterDiscoveryReqType" where
  "init_iso1ChargeParameterDiscoveryReqType
      a = a\<lparr>iso1ChargeParameterDiscoveryReq_MaxEntriesSAScheduleTuple_isUsed := False,
      iso1ChargeParameterDiscoveryReq_EVChargeParameter_isUsed := False,
      iso1ChargeParameterDiscoveryReq_AC_EVChargeParameter_isUsed := False,
      iso1ChargeParameterDiscoveryReq_DC_EVChargeParameter_isUsed := False\<rparr>"

definition iso1ChargeParameterDiscoveryReq_enc_step :: "iso1ChargeParameterDiscoveryReqType \<Rightarrow> unit
    machine" where
  "iso1ChargeParameterDiscoveryReq_enc_step v grammarID x s =
     (if grammarID = 202 then
        if iso1ChargeParameterDiscoveryReq_MaxEntriesSAScheduleTuple_isUsed v then
          goto 203 x
          (encode_simple 2 0
          (\<lambda>s. encodeUnsignedInteger16 s (iso1ChargeParameterDiscoveryReq_MaxEntriesSAScheduleTuple v)) s)
        else goto 204 x
          (encode_simple 2 1
          (\<lambda>s. encodeNBitUnsignedInteger s 3 (iso1ChargeParameterDiscoveryReq_RequestedEnergyTransferMode v))
          s)
      else if grammarID = 203 then
        goto 204 x
          (encode_simple 1 0
          (\<lambda>s. encodeNBitUnsignedInteger s 3 (iso1ChargeParameterDiscoveryReq_RequestedEnergyTransferMode v))
          s)
      else if grammarID = 204 then
        if iso1ChargeParameterDiscoveryReq_AC_EVChargeParameter_isUsed v then
          goto 3 x (encode_child 2 0
          (\<lambda>s. encode_iso1AC_EVChargeParameterType s (iso1ChargeParameterDiscoveryReq_AC_EVChargeParameter v))
          s)
        else if iso1ChargeParameterDiscoveryReq_DC_EVChargeParameter_isUsed v then
          goto 3 x (encode_child 2 1
          (\<lambda>s. encode_iso1DC_EVChargeParameterType s (iso1ChargeParameterDiscoveryReq_DC_EVChargeParameter v))
          s)
        else if iso1ChargeParameterDiscoveryReq_EVChargeParameter_isUsed v then
          goto 3 x (encode_child 2 2
          (\<lambda>s. encode_iso1EVChargeParameterType s (iso1ChargeParameterDiscoveryReq_EVChargeParameter v)) s)
        else Some (EXI_ERROR_UNKOWN_EVENT, (False, grammarID, x), s)
      else if grammarID = 3 then
        finish 4 x (encodeNBitUnsignedInteger s 1 0)
      else Some (EXI_ERROR_UNKOWN_GRAMMAR_ID, (False, grammarID, x), s))"

definition encode_iso1ChargeParameterDiscoveryReqType :: "bitstream \<Rightarrow> iso1ChargeParameterDiscoveryReqType
    \<Rightarrow> (errn \<times> bitstream) option" where
  "encode_iso1ChargeParameterDiscoveryReqType s v = run_encoder (iso1ChargeParameterDiscoveryReq_enc_step v) 202 () s"

definition iso1ChargeParameterDiscoveryReq_dec_step :: "u32 \<Rightarrow>
    (dec_static \<times> iso1ChargeParameterDiscoveryReqType) machine" where
  "iso1ChargeParameterDiscoveryReq_dec_step j grammarID x s =
     (if grammarID = 202 then
        decode_switch 2
         [(0, decode_simple 202 203
           (decode_used
           (\<lambda>a. a\<lparr>iso1ChargeParameterDiscoveryReq_MaxEntriesSAScheduleTuple_isUsed := True\<rparr>)
           (decode_u16_field j
           (\<lambda>u a. a\<lparr>iso1ChargeParameterDiscoveryReq_MaxEntriesSAScheduleTuple := u\<rparr>)))),
          (1, decode_simple 202 204
            (decode_nbit_field 3
            (\<lambda>u a. a\<lparr>iso1ChargeParameterDiscoveryReq_RequestedEnergyTransferMode := u\<rparr>)))] 202 x
            s
      else if grammarID = 203 then
        decode_switch 1
         [(0, decode_simple 203 204
           (decode_nbit_field 3
           (\<lambda>u a. a\<lparr>iso1ChargeParameterDiscoveryReq_RequestedEnergyTransferMode := u\<rparr>)))] 203 x
           s
      else if grammarID = 204 then
        decode_switch 2
         [(0, decode_child 3
           (decode_used
           (\<lambda>a. a\<lparr>iso1ChargeParameterDiscoveryReq_AC_EVChargeParameter_isUsed := True\<rparr>)
           (decode_sub (decode_iso1AC_EVChargeParameterType j) iso1ChargeParameterDiscoveryReq_AC_EVChargeParameter
           (\<lambda>u a. a\<lparr>iso1ChargeParameterDiscoveryReq_AC_EVChargeParameter := u\<rparr>)))),
          (1, decode_child 3
            (decode_used
            (\<lambda>a. a\<lparr>iso1ChargeParameterDiscoveryReq_DC_EVChargeParameter_isUsed := True\<rparr>)
            (decode_sub (decode_iso1DC_EVChargeParameterType j) iso1ChargeParameterDiscoveryReq_DC_EVChargeParameter
            (\<lambda>u a. a\<lparr>iso1ChargeParameterDiscoveryReq_DC_EVChargeParameter := u\<rparr>)))),
          (2, decode_child 3
            (decode_used
            (\<lambda>a. a\<lparr>iso1ChargeParameterDiscoveryReq_EVChargeParameter_isUsed := True\<rparr>)
            (decode_sub (decode_iso1EVChargeParameterType j) iso1ChargeParameterDiscoveryReq_EVChargeParameter
            (\<lambda>u a. a\<lparr>iso1ChargeParameterDiscoveryReq_EVChargeParameter := u\<rparr>))))] 204 x s
      else if grammarID = 3 then
        decode_switch 1
         [(0, decode_end 4)] 3 x s
      else Some (EXI_ERROR_UNKOWN_GRAMMAR_ID, (False, grammarID, x), s))"

definition decode_iso1ChargeParameterDiscoveryReqType :: "u32 \<Rightarrow> iso1ChargeParameterDiscoveryReqType
    decoder" where
  "decode_iso1ChargeParameterDiscoveryReqType j x s = grammar_loop (iso1ChargeParameterDiscoveryReq_dec_step j) 202
      (fst x, init_iso1ChargeParameterDiscoveryReqType (snd x)) s"

definition iso1ChargeParameterDiscoveryReq_ok :: "iso1ChargeParameterDiscoveryReqType \<Rightarrow> bool" where
  "iso1ChargeParameterDiscoveryReq_ok v \<longleftrightarrow>
     iso1ChargeParameterDiscoveryReq_RequestedEnergyTransferMode v < 8 \<and>
     when_used (iso1ChargeParameterDiscoveryReq_AC_EVChargeParameter_isUsed v)
       (iso1AC_EVChargeParameter_ok (iso1ChargeParameterDiscoveryReq_AC_EVChargeParameter v)) \<and>
     when_used (iso1ChargeParameterDiscoveryReq_DC_EVChargeParameter_isUsed v)
       (iso1DC_EVChargeParameter_ok (iso1ChargeParameterDiscoveryReq_DC_EVChargeParameter v)) \<and>
     when_used (iso1ChargeParameterDiscoveryReq_EVChargeParameter_isUsed v)
       (iso1EVChargeParameter_ok (iso1ChargeParameterDiscoveryReq_EVChargeParameter v)) \<and>
     exclusive [iso1ChargeParameterDiscoveryReq_AC_EVChargeParameter_isUsed v,
       iso1ChargeParameterDiscoveryReq_DC_EVChargeParameter_isUsed v,
       iso1ChargeParameterDiscoveryReq_EVChargeParameter_isUsed v] \<and>
     some_of [iso1ChargeParameterDiscoveryReq_AC_EVChargeParameter_isUsed v,
       iso1ChargeParameterDiscoveryReq_DC_EVChargeParameter_isUsed v,
       iso1ChargeParameterDiscoveryReq_EVChargeParameter_isUsed v]"

definition same_iso1ChargeParameterDiscoveryReq :: "iso1ChargeParameterDiscoveryReqType \<Rightarrow>
    iso1ChargeParameterDiscoveryReqType \<Rightarrow> bool" where
  "same_iso1ChargeParameterDiscoveryReq v a \<longleftrightarrow>
     kept (iso1ChargeParameterDiscoveryReq_MaxEntriesSAScheduleTuple_isUsed v)
       (iso1ChargeParameterDiscoveryReq_MaxEntriesSAScheduleTuple_isUsed a)
       (iso1ChargeParameterDiscoveryReq_MaxEntriesSAScheduleTuple
       a = iso1ChargeParameterDiscoveryReq_MaxEntriesSAScheduleTuple v) \<and>
     iso1ChargeParameterDiscoveryReq_RequestedEnergyTransferMode
       a = iso1ChargeParameterDiscoveryReq_RequestedEnergyTransferMode v \<and>
     kept (iso1ChargeParameterDiscoveryReq_AC_EVChargeParameter_isUsed v)
       (iso1ChargeParameterDiscoveryReq_AC_EVChargeParameter_isUsed a)
       (same_iso1AC_EVChargeParameter (iso1ChargeParameterDiscoveryReq_AC_EVChargeParameter v)
       (iso1ChargeParameterDiscoveryReq_AC_EVChargeParameter a)) \<and>
     kept (iso1ChargeParameterDiscoveryReq_DC_EVChargeParameter_isUsed v)
       (iso1ChargeParameterDiscoveryReq_DC_EVChargeParameter_isUsed a)
       (same_iso1DC_EVChargeParameter (iso1ChargeParameterDiscoveryReq_DC_EVChargeParameter v)
       (iso1ChargeParameterDiscoveryReq_DC_EVChargeParameter a)) \<and>
     kept (iso1ChargeParameterDiscoveryReq_EVChargeParameter_isUsed v)
       (iso1ChargeParameterDiscoveryReq_EVChargeParameter_isUsed a)
       (same_iso1EVChargeParameter (iso1ChargeParameterDiscoveryReq_EVChargeParameter v)
       (iso1ChargeParameterDiscoveryReq_EVChargeParameter a))"

definition iso1ChargeParameterDiscoveryReq_at :: "iso1ChargeParameterDiscoveryReqType \<Rightarrow> nat \<Rightarrow>
    iso1ChargeParameterDiscoveryReqType \<Rightarrow> bool" where
  "iso1ChargeParameterDiscoveryReq_at v g a \<longleftrightarrow>
     iso1ChargeParameterDiscoveryReq_ok v \<and>
     g \<in> {202, 203, 204, 3} \<and>
     (if g \<in> {202} then \<not> iso1ChargeParameterDiscoveryReq_MaxEntriesSAScheduleTuple_isUsed a
      else kept (iso1ChargeParameterDiscoveryReq_MaxEntriesSAScheduleTuple_isUsed v)
        (iso1ChargeParameterDiscoveryReq_MaxEntriesSAScheduleTuple_isUsed a)
        (iso1ChargeParameterDiscoveryReq_MaxEntriesSAScheduleTuple
        a = iso1ChargeParameterDiscoveryReq_MaxEntriesSAScheduleTuple v)) \<and>
     (g \<notin> {202, 203} \<longrightarrow> iso1ChargeParameterDiscoveryReq_RequestedEnergyTransferMode
       a = iso1ChargeParameterDiscoveryReq_RequestedEnergyTransferMode v) \<and>
     (if g \<in> {202, 203, 204} then \<not> iso1ChargeParameterDiscoveryReq_AC_EVChargeParameter_isUsed a
      else kept (iso1ChargeParameterDiscoveryReq_AC_EVChargeParameter_isUsed v)
        (iso1ChargeParameterDiscoveryReq_AC_EVChargeParameter_isUsed a)
        (same_iso1AC_EVChargeParameter (iso1ChargeParameterDiscoveryReq_AC_EVChargeParameter v)
        (iso1ChargeParameterDiscoveryReq_AC_EVChargeParameter a))) \<and>
     (if g \<in> {202, 203, 204} then \<not> iso1ChargeParameterDiscoveryReq_DC_EVChargeParameter_isUsed a
      else kept (iso1ChargeParameterDiscoveryReq_DC_EVChargeParameter_isUsed v)
        (iso1ChargeParameterDiscoveryReq_DC_EVChargeParameter_isUsed a)
        (same_iso1DC_EVChargeParameter (iso1ChargeParameterDiscoveryReq_DC_EVChargeParameter v)
        (iso1ChargeParameterDiscoveryReq_DC_EVChargeParameter a))) \<and>
     (if g \<in> {202, 203, 204} then \<not> iso1ChargeParameterDiscoveryReq_EVChargeParameter_isUsed a
      else kept (iso1ChargeParameterDiscoveryReq_EVChargeParameter_isUsed v)
        (iso1ChargeParameterDiscoveryReq_EVChargeParameter_isUsed a)
        (same_iso1EVChargeParameter (iso1ChargeParameterDiscoveryReq_EVChargeParameter v)
        (iso1ChargeParameterDiscoveryReq_EVChargeParameter a)))"

lemmas iso1ChargeParameterDiscoveryReq_steps = iso1ChargeParameterDiscoveryReq_enc_step_def
  iso1ChargeParameterDiscoveryReq_dec_step_def

lemmas iso1ChargeParameterDiscoveryReq_props = iso1ChargeParameterDiscoveryReq_at_def
    same_iso1ChargeParameterDiscoveryReq_def left_at_def

interpretation iso1ChargeParameterDiscoveryReq: paired_machines "iso1ChargeParameterDiscoveryReq_enc_step v"
    "iso1ChargeParameterDiscoveryReq_dec_step j" "iso1ChargeParameterDiscoveryReq_at v"
  "left_at [(202, 342), (203, 314), (204, 308), (3, 1)]" "same_iso1ChargeParameterDiscoveryReq v" for v j
proof
  fix g a assume at: "iso1ChargeParameterDiscoveryReq_at v g a"
  then have "g \<in> {202, 203, 204, 3}" by (simp add: iso1ChargeParameterDiscoveryReq_at_def)
  then show "hops (iso1ChargeParameterDiscoveryReq_enc_step v) (iso1ChargeParameterDiscoveryReq_dec_step j)
      (iso1ChargeParameterDiscoveryReq_at v)
    (left_at [(202, 342), (203, 314), (204, 308), (3, 1)]) (same_iso1ChargeParameterDiscoveryReq v) g a" using at
    by - (elim insertE emptyE; (hypsubst, rule hops_by, simp (no_asm) add: iso1ChargeParameterDiscoveryReq_steps del:
      One_nat_def,
      simp (no_asm) add: iso1ChargeParameterDiscoveryReq_steps del: One_nat_def,
        simp (asm_lr) add: iso1ChargeParameterDiscoveryReq_props del: One_nat_def, (elim conjE)?,
      ((rule walks_ifs)+)?); (frule iso1ChargeParameterDiscoveryReq_ok_def [THEN iffD1], ((drule (1) known)+)?,
        (elim conjE)?, ((drule (1) known)+)?, (elim conjE)?,
      (((rule walks_shapes, simp (no_asm) del: One_nat_def, ((rule reads_intros)+)?);
      ((elim exE conjE)?,
        ((simp (no_asm_simp) add: iso1ChargeParameterDiscoveryReq_props; fail) |
        (simp (asm_lr) add: iso1ChargeParameterDiscoveryReq_props; fail) |
        (auto simp: iso1ChargeParameterDiscoveryReq_props; fail)))) | (erule (1) notE; fail) |
        ((elim exE conjE)?,
        ((simp (no_asm_simp) add: iso1ChargeParameterDiscoveryReq_props; fail) |
        (simp (asm_lr) add: iso1ChargeParameterDiscoveryReq_props; fail) |
        (auto simp: iso1ChargeParameterDiscoveryReq_props; fail))))))
qed

lemma reads_iso1ChargeParameterDiscoveryReq [reads_intros]:
  "iso1ChargeParameterDiscoveryReq_ok v \<Longrightarrow>
      reads 342 (\<lambda>s. encode_iso1ChargeParameterDiscoveryReqType s v)
      (decode_iso1ChargeParameterDiscoveryReqType j) a (same_iso1ChargeParameterDiscoveryReq v)"
  unfolding encode_iso1ChargeParameterDiscoveryReqType_def decode_iso1ChargeParameterDiscoveryReqType_def [abs_def]
  by (rule reads_start [OF iso1ChargeParameterDiscoveryReq.machine_reads, of _ 202, THEN reads_mono])
      (auto simp: iso1ChargeParameterDiscoveryReq_at_def  init_iso1ChargeParameterDiscoveryReqType_def left_at_def)

interpretation iso1ChargeParameterDiscoveryReq_enc: advancing_machine "iso1ChargeParameterDiscoveryReq_enc_step v"
    "left_at [(202, 4), (203, 3), (204, 2), (3, 1)]" for v
  by unfold_locales (auto simp: iso1ChargeParameterDiscoveryReq_steps left_at_def dest!: advance_dests split:
      if_splits)

interpretation iso1ChargeParameterDiscoveryReq_dec: advancing_machine "iso1ChargeParameterDiscoveryReq_dec_step j"
    "left_at [(202, 4), (203, 3), (204, 2), (3, 1)]" for j
  by unfold_locales (auto simp: iso1ChargeParameterDiscoveryReq_steps dest!: advance_dests elim!:
      decode_switch_next split: if_splits;
      simp add: left_at_def)

subsection \<open>\<open>iso1SASchedulesType\<close>\<close>

record iso1SASchedulesType =
  iso1SASchedules_noContent :: int

definition init_iso1SASchedulesType :: "iso1SASchedulesType \<Rightarrow> iso1SASchedulesType" where
  "init_iso1SASchedulesType a = a"

definition iso1SASchedules_enc_step :: "iso1SASchedulesType \<Rightarrow> unit machine" where
  "iso1SASchedules_enc_step v grammarID x s =
     (if grammarID = 34 then
        finish 4 x (encodeNBitUnsignedInteger s 1 0)
      else Some (EXI_ERROR_UNKOWN_GRAMMAR_ID, (False, grammarID, x), s))"

definition encode_iso1SASchedulesType :: "bitstream \<Rightarrow> iso1SASchedulesType \<Rightarrow>
    (errn \<times> bitstream) option" where
  "encode_iso1SASchedulesType s v = run_encoder (iso1SASchedules_enc_step v) 34 () s"

definition iso1SASchedules_dec_step :: "u32 \<Rightarrow> (dec_static \<times> iso1SASchedulesType) machine" where
  "iso1SASchedules_dec_step j grammarID x s =
     (if grammarID = 34 then
        decode_switch 1
         [(0, decode_end 4)] 34 x s
      else Some (EXI_ERROR_UNKOWN_GRAMMAR_ID, (False, grammarID, x), s))"

definition decode_iso1SASchedulesType :: "u32 \<Rightarrow> iso1SASchedulesType decoder" where
  "decode_iso1SASchedulesType j x s = grammar_loop (iso1SASchedules_dec_step j) 34
      (fst x, init_iso1SASchedulesType (snd x)) s"

definition same_iso1SASchedules :: "iso1SASchedulesType \<Rightarrow> iso1SASchedulesType \<Rightarrow> bool" where
  "same_iso1SASchedules v a \<longleftrightarrow>
     True"

definition iso1SASchedules_at :: "iso1SASchedulesType \<Rightarrow> nat \<Rightarrow> iso1SASchedulesType
    \<Rightarrow> bool" where
  "iso1SASchedules_at v g a \<longleftrightarrow>
     g \<in> {34}"

lemmas iso1SASchedules_steps = iso1SASchedules_enc_step_def
  iso1SASchedules_dec_step_def

lemmas iso1SASchedules_props = iso1SASchedules_at_def same_iso1SASchedules_def left_at_def

interpretation iso1SASchedules: paired_machines "iso1SASchedules_enc_step v" "iso1SASchedules_dec_step j"
    "iso1SASchedules_at v"
  "left_at [(34, 1)]" "same_iso1SASchedules v" for v j
proof
  fix g a assume at: "iso1SASchedules_at v g a"
  then have "g \<in> {34}" by (simp add: iso1SASchedules_at_def)
  then show "hops (iso1SASchedules_enc_step v) (iso1SASchedules_dec_step j) (iso1SASchedules_at v)
    (left_at [(34, 1)]) (same_iso1SASchedules v) g a" using at
    by - (elim insertE emptyE; (hypsubst, rule hops_by, simp (no_asm) add: iso1SASchedules_steps del: One_nat_def,
      simp (no_asm) add: iso1SASchedules_steps del: One_nat_def, simp (asm_lr) add: iso1SASchedules_props del:
        One_nat_def, (elim conjE)?,
      ((rule walks_ifs)+)?); (((drule (1) known)+)?, (elim conjE)?, ((drule (1) known)+)?, (elim conjE)?,
      (((rule walks_shapes, simp (no_asm) del: One_nat_def, ((rule reads_intros)+)?);
      ((elim exE conjE)?,
        ((simp (no_asm_simp) add: iso1SASchedules_props; fail) | (simp (asm_lr) add: iso1SASchedules_props; fail) |
        (auto simp: iso1SASchedules_props; fail)))) | (erule (1) notE; fail) |
        ((elim exE conjE)?,
        ((simp (no_asm_simp) add: iso1SASchedules_props; fail) | (simp (asm_lr) add: iso1SASchedules_props; fail) |
        (auto simp: iso1SASchedules_props; fail))))))
qed

lemma reads_iso1SASchedules [reads_intros]:
  "reads 1 (\<lambda>s. encode_iso1SASchedulesType s v) (decode_iso1SASchedulesType j) a (same_iso1SASchedules v)"
  unfolding encode_iso1SASchedulesType_def decode_iso1SASchedulesType_def [abs_def]
  by (rule reads_start [OF iso1SASchedules.machine_reads, of _ 34, THEN reads_mono])
      (auto simp: iso1SASchedules_at_def  init_iso1SASchedulesType_def left_at_def)

interpretation iso1SASchedules_enc: advancing_machine "iso1SASchedules_enc_step v" "left_at [(34, 1)]" for v
  by unfold_locales (auto simp: iso1SASchedules_steps dest!: advance_dests split: if_splits;
      simp add: left_at_def)

interpretation iso1SASchedules_dec: advancing_machine "iso1SASchedules_dec_step j" "left_at [(34, 1)]" for j
  by unfold_locales (auto simp: iso1SASchedules_steps dest!: advance_dests elim!: decode_switch_next
      split: if_splits;
      simp add: left_at_def)

subsection \<open>\<open>iso1AC_EVSEChargeParameterType\<close>\<close>

record iso1AC_EVSEChargeParameterType =
  iso1AC_EVSEChargeParameter_AC_EVSEStatus :: iso1AC_EVSEStatusType
  iso1AC_EVSEChargeParameter_EVSENominalVoltage :: iso1PhysicalValueType
  iso1AC_EVSEChargeParameter_EVSEMaxCurrent :: iso1PhysicalValueType

definition init_iso1AC_EVSEChargeParameterType :: "iso1AC_EVSEChargeParameterType \<Rightarrow>
    iso1AC_EVSEChargeParameterType" where
  "init_iso1AC_EVSEChargeParameterType a = a"

definition iso1AC_EVSEChargeParameter_enc_step :: "iso1AC_EVSEChargeParameterType \<Rightarrow> unit machine" where
  "iso1AC_EVSEChargeParameter_enc_step v grammarID x s =
     (if grammarID = 338 then
        goto 339 x
          (encode_child 1 0 (\<lambda>s. encode_iso1AC_EVSEStatusType s (iso1AC_EVSEChargeParameter_AC_EVSEStatus v))
          s)
      else if grammarID = 339 then
        goto 340 x
          (encode_child 1 0
          (\<lambda>s. encode_iso1PhysicalValueType s (iso1AC_EVSEChargeParameter_EVSENominalVoltage v)) s)
      else if grammarID = 340 then
        goto 3 x (encode_child 1 0
          (\<lambda>s. encode_iso1PhysicalValueType s (iso1AC_EVSEChargeParameter_EVSEMaxCurrent v)) s)
      else if grammarID = 3 then
        finish 4 x (encodeNBitUnsignedInteger s 1 0)
      else Some (EXI_ERROR_UNKOWN_GRAMMAR_ID, (False, grammarID, x), s))"

definition encode_iso1AC_EVSEChargeParameterType :: "bitstream \<Rightarrow> iso1AC_EVSEChargeParameterType
    \<Rightarrow> (errn \<times> bitstream) option" where
  "encode_iso1AC_EVSEChargeParameterType s v = run_encoder (iso1AC_EVSEChargeParameter_enc_step v) 338 () s"

definition iso1AC_EVSEChargeParameter_dec_step :: "u32 \<Rightarrow>
    (dec_static \<times> iso1AC_EVSEChargeParameterType) machine" where
  "iso1AC_EVSEChargeParameter_dec_step j grammarID x s =
     (if grammarID = 338 then
        decode_switch 1
         [(0, decode_child 339 (decode_sub (decode_iso1AC_EVSEStatusType j) iso1AC_EVSEChargeParameter_AC_EVSEStatus
           (\<lambda>u a. a\<lparr>iso1AC_EVSEChargeParameter_AC_EVSEStatus := u\<rparr>)))] 338 x s
      else if grammarID = 339 then
        decode_switch 1
         [(0, decode_child 340
           (decode_sub (decode_iso1PhysicalValueType j) iso1AC_EVSEChargeParameter_EVSENominalVoltage
           (\<lambda>u a. a\<lparr>iso1AC_EVSEChargeParameter_EVSENominalVoltage := u\<rparr>)))] 339 x s
      else if grammarID = 340 then
        decode_switch 1
         [(0, decode_child 3 (decode_sub (decode_iso1PhysicalValueType j) iso1AC_EVSEChargeParameter_EVSEMaxCurrent
           (\<lambda>u a. a\<lparr>iso1AC_EVSEChargeParameter_EVSEMaxCurrent := u\<rparr>)))] 340 x s
      else if grammarID = 3 then
        decode_switch 1
         [(0, decode_end 4)] 3 x s
      else Some (EXI_ERROR_UNKOWN_GRAMMAR_ID, (False, grammarID, x), s))"

definition decode_iso1AC_EVSEChargeParameterType :: "u32 \<Rightarrow> iso1AC_EVSEChargeParameterType decoder" where
  "decode_iso1AC_EVSEChargeParameterType j x s = grammar_loop (iso1AC_EVSEChargeParameter_dec_step j) 338
      (fst x, init_iso1AC_EVSEChargeParameterType (snd x)) s"

definition iso1AC_EVSEChargeParameter_ok :: "iso1AC_EVSEChargeParameterType \<Rightarrow> bool" where
  "iso1AC_EVSEChargeParameter_ok v \<longleftrightarrow>
     iso1AC_EVSEStatus_ok (iso1AC_EVSEChargeParameter_AC_EVSEStatus v) \<and>
     iso1PhysicalValue_ok (iso1AC_EVSEChargeParameter_EVSENominalVoltage v) \<and>
     iso1PhysicalValue_ok (iso1AC_EVSEChargeParameter_EVSEMaxCurrent v)"

definition same_iso1AC_EVSEChargeParameter :: "iso1AC_EVSEChargeParameterType \<Rightarrow>
    iso1AC_EVSEChargeParameterType \<Rightarrow> bool" where
  "same_iso1AC_EVSEChargeParameter v a \<longleftrightarrow>
     same_iso1AC_EVSEStatus (iso1AC_EVSEChargeParameter_AC_EVSEStatus v) (iso1AC_EVSEChargeParameter_AC_EVSEStatus a)
       \<and>
     same_iso1PhysicalValue (iso1AC_EVSEChargeParameter_EVSENominalVoltage v)
       (iso1AC_EVSEChargeParameter_EVSENominalVoltage a) \<and>
     same_iso1PhysicalValue (iso1AC_EVSEChargeParameter_EVSEMaxCurrent v)
       (iso1AC_EVSEChargeParameter_EVSEMaxCurrent a)"

definition iso1AC_EVSEChargeParameter_at :: "iso1AC_EVSEChargeParameterType \<Rightarrow> nat \<Rightarrow>
    iso1AC_EVSEChargeParameterType \<Rightarrow> bool" where
  "iso1AC_EVSEChargeParameter_at v g a \<longleftrightarrow>
     iso1AC_EVSEChargeParameter_ok v \<and>
     g \<in> {338, 339, 340, 3} \<and>
     (g \<notin> {338} \<longrightarrow> same_iso1AC_EVSEStatus (iso1AC_EVSEChargeParameter_AC_EVSEStatus v)
       (iso1AC_EVSEChargeParameter_AC_EVSEStatus a)) \<and>
     (g \<notin> {338, 339} \<longrightarrow> same_iso1PhysicalValue (iso1AC_EVSEChargeParameter_EVSENominalVoltage v)
       (iso1AC_EVSEChargeParameter_EVSENominalVoltage a)) \<and>
     (g \<notin> {338, 339, 340} \<longrightarrow>
       same_iso1PhysicalValue (iso1AC_EVSEChargeParameter_EVSEMaxCurrent v)
       (iso1AC_EVSEChargeParameter_EVSEMaxCurrent a))"

lemmas iso1AC_EVSEChargeParameter_steps = iso1AC_EVSEChargeParameter_enc_step_def
  iso1AC_EVSEChargeParameter_dec_step_def

lemmas iso1AC_EVSEChargeParameter_props = iso1AC_EVSEChargeParameter_at_def same_iso1AC_EVSEChargeParameter_def
    left_at_def

interpretation iso1AC_EVSEChargeParameter: paired_machines "iso1AC_EVSEChargeParameter_enc_step v"
    "iso1AC_EVSEChargeParameter_dec_step j" "iso1AC_EVSEChargeParameter_at v"
  "left_at [(338, 123), (339, 85), (340, 43), (3, 1)]" "same_iso1AC_EVSEChargeParameter v" for v j
proof
  fix g a assume at: "iso1AC_EVSEChargeParameter_at v g a"
  then have "g \<in> {338, 339, 340, 3}" by (simp add: iso1AC_EVSEChargeParameter_at_def)
  then show "hops (iso1AC_EVSEChargeParameter_enc_step v) (iso1AC_EVSEChargeParameter_dec_step j)
      (iso1AC_EVSEChargeParameter_at v)
    (left_at [(338, 123), (339, 85), (340, 43), (3, 1)]) (same_iso1AC_EVSEChargeParameter v) g a" using at
    by - (elim insertE emptyE; (hypsubst, rule hops_by, simp (no_asm) add: iso1AC_EVSEChargeParameter_steps del:
      One_nat_def,
      simp (no_asm) add: iso1AC_EVSEChargeParameter_steps del: One_nat_def,
        simp (asm_lr) add: iso1AC_EVSEChargeParameter_props del: One_nat_def, (elim conjE)?,
      ((rule walks_ifs)+)?); (frule iso1AC_EVSEChargeParameter_ok_def [THEN iffD1], ((drule (1) known)+)?,
        (elim conjE)?, ((drule (1) known)+)?, (elim conjE)?,
      (((rule walks_shapes, simp (no_asm) del: One_nat_def, ((rule reads_intros)+)?);
      ((elim exE conjE)?,
        ((simp (no_asm_simp) add: iso1AC_EVSEChargeParameter_props; fail) |
        (simp (asm_lr) add: iso1AC_EVSEChargeParameter_props; fail) |
        (auto simp: iso1AC_EVSEChargeParameter_props; fail)))) | (erule (1) notE; fail) |
        ((elim exE conjE)?,
        ((simp (no_asm_simp) add: iso1AC_EVSEChargeParameter_props; fail) |
        (simp (asm_lr) add: iso1AC_EVSEChargeParameter_props; fail) |
        (auto simp: iso1AC_EVSEChargeParameter_props; fail))))))
qed

lemma reads_iso1AC_EVSEChargeParameter [reads_intros]:
  "iso1AC_EVSEChargeParameter_ok v \<Longrightarrow> reads 123 (\<lambda>s. encode_iso1AC_EVSEChargeParameterType s v)
      (decode_iso1AC_EVSEChargeParameterType j) a (same_iso1AC_EVSEChargeParameter v)"
  unfolding encode_iso1AC_EVSEChargeParameterType_def decode_iso1AC_EVSEChargeParameterType_def [abs_def]
  by (rule reads_start [OF iso1AC_EVSEChargeParameter.machine_reads, of _ 338, THEN reads_mono])
      (auto simp: iso1AC_EVSEChargeParameter_at_def  init_iso1AC_EVSEChargeParameterType_def left_at_def)

interpretation iso1AC_EVSEChargeParameter_enc: advancing_machine "iso1AC_EVSEChargeParameter_enc_step v" "left_at
    [(338, 4), (339, 3), (340, 2), (3, 1)]" for v
  by unfold_locales (auto simp: iso1AC_EVSEChargeParameter_steps dest!: advance_dests split: if_splits;
      simp add: left_at_def)

interpretation iso1AC_EVSEChargeParameter_dec: advancing_machine "iso1AC_EVSEChargeParameter_dec_step j" "left_at
    [(338, 4), (339, 3), (340, 2), (3, 1)]" for j
  by unfold_locales (auto simp: iso1AC_EVSEChargeParameter_steps dest!: advance_dests elim!:
      decode_switch_next split: if_splits;
      simp add: left_at_def)

subsection \<open>\<open>iso1DC_EVSEChargeParameterType\<close>\<close>

record iso1DC_EVSEChargeParameterType =
  iso1DC_EVSEChargeParameter_DC_EVSEStatus :: iso1DC_EVSEStatusType
  iso1DC_EVSEChargeParameter_EVSEMaximumCurrentLimit :: iso1PhysicalValueType
  iso1DC_EVSEChargeParameter_EVSEMaximumPowerLimit :: iso1PhysicalValueType
  iso1DC_EVSEChargeParameter_EVSEMaximumVoltageLimit :: iso1PhysicalValueType
  iso1DC_EVSEChargeParameter_EVSEMinimumCurrentLimit :: iso1PhysicalValueType
  iso1DC_EVSEChargeParameter_EVSEMinimumVoltageLimit :: iso1PhysicalValueType
  iso1DC_EVSEChargeParameter_EVSECurrentRegulationTolerance :: iso1PhysicalValueType
  iso1DC_EVSEChargeParameter_EVSECurrentRegulationTolerance_isUsed :: bool
  iso1DC_EVSEChargeParameter_EVSEPeakCurrentRipple :: iso1PhysicalValueType
  iso1DC_EVSEChargeParameter_EVSEEnergyToBeDelivered :: iso1PhysicalValueType
  iso1DC_EVSEChargeParameter_EVSEEnergyToBeDelivered_isUsed :: bool

definition init_iso1DC_EVSEChargeParameterType :: "iso1DC_EVSEChargeParameterType \<Rightarrow>
    iso1DC_EVSEChargeParameterType" where
  "init_iso1DC_EVSEChargeParameterType a = a\<lparr>iso1DC_EVSEChargeParameter_EVSECurrentRegulationTolerance_isUsed
      := False, iso1DC_EVSEChargeParameter_EVSEEnergyToBeDelivered_isUsed := False\<rparr>"

definition iso1DC_EVSEChargeParameter_enc_step :: "iso1DC_EVSEChargeParameterType \<Rightarrow> unit machine" where
  "iso1DC_EVSEChargeParameter_enc_step v grammarID x s =
     (if grammarID = 131 then
        goto 132 x
          (encode_child 1 0 (\<lambda>s. encode_iso1DC_EVSEStatusType s (iso1DC_EVSEChargeParameter_DC_EVSEStatus v))
          s)
      else if grammarID = 132 then
        goto 133 x
          (encode_child 1 0
          (\<lambda>s. encode_iso1PhysicalValueType s (iso1DC_EVSEChargeParameter_EVSEMaximumCurrentLimit v)) s)
      else if grammarID = 133 then
        goto 134 x
          (encode_child 1 0
          (\<lambda>s. encode_iso1PhysicalValueType s (iso1DC_EVSEChargeParameter_EVSEMaximumPowerLimit v)) s)
      else if grammarID = 134 then
        goto 135 x
          (encode_child 1 0
          (\<lambda>s. encode_iso1PhysicalValueType s (iso1DC_EVSEChargeParameter_EVSEMaximumVoltageLimit v)) s)
      else if grammarID = 135 then
        goto 136 x
          (encode_child 1 0
          (\<lambda>s. encode_iso1PhysicalValueType s (iso1DC_EVSEChargeParameter_EVSEMinimumCurrentLimit v)) s)
      else if grammarID = 136 then
        goto 137 x
          (encode_child 1 0
          (\<lambda>s. encode_iso1PhysicalValueType s (iso1DC_EVSEChargeParameter_EVSEMinimumVoltageLimit v)) s)
      else if grammarID = 137 then
        if iso1DC_EVSEChargeParameter_EVSECurrentRegulationTolerance_isUsed v then
          goto 138 x
          (encode_child 2 0
          (\<lambda>s. encode_iso1PhysicalValueType s (iso1DC_EVSEChargeParameter_EVSECurrentRegulationTolerance v))
          s)
        else goto 139 x
          (encode_child 2 1
          (\<lambda>s. encode_iso1PhysicalValueType s (iso1DC_EVSEChargeParameter_EVSEPeakCurrentRipple v)) s)
      else if grammarID = 138 then
        goto 139 x
          (encode_child 1 0
          (\<lambda>s. encode_iso1PhysicalValueType s (iso1DC_EVSEChargeParameter_EVSEPeakCurrentRipple v)) s)
      else if grammarID = 139 then
        if iso1DC_EVSEChargeParameter_EVSEEnergyToBeDelivered_isUsed v then
          goto 3 x (encode_child 2 0
          (\<lambda>s. encode_iso1PhysicalValueType s (iso1DC_EVSEChargeParameter_EVSEEnergyToBeDelivered v)) s)
        else finish 4 x (encodeNBitUnsignedInteger s 2 1)
      else if grammarID = 3 then
        finish 4 x (encodeNBitUnsignedInteger s 1 0)
      else Some (EXI_ERROR_UNKOWN_GRAMMAR_ID, (False, grammarID, x), s))"

definition encode_iso1DC_EVSEChargeParameterType :: "bitstream \<Rightarrow> iso1DC_EVSEChargeParameterType
    \<Rightarrow> (errn \<times> bitstream) option" where
  "encode_iso1DC_EVSEChargeParameterType s v = run_encoder (iso1DC_EVSEChargeParameter_enc_step v) 131 () s"

definition iso1DC_EVSEChargeParameter_dec_step :: "u32 \<Rightarrow>
    (dec_static \<times> iso1DC_EVSEChargeParameterType) machine" where
  "iso1DC_EVSEChargeParameter_dec_step j grammarID x s =
     (if grammarID = 131 then
        decode_switch 1
         [(0, decode_child 132 (decode_sub (decode_iso1DC_EVSEStatusType j) iso1DC_EVSEChargeParameter_DC_EVSEStatus
           (\<lambda>u a. a\<lparr>iso1DC_EVSEChargeParameter_DC_EVSEStatus := u\<rparr>)))] 131 x s
      else if grammarID = 132 then
        decode_switch 1
         [(0, decode_child 133
           (decode_sub (decode_iso1PhysicalValueType j) iso1DC_EVSEChargeParameter_EVSEMaximumCurrentLimit
           (\<lambda>u a. a\<lparr>iso1DC_EVSEChargeParameter_EVSEMaximumCurrentLimit := u\<rparr>)))] 132 x s
      else if grammarID = 133 then
        decode_switch 1
         [(0, decode_child 134
           (decode_sub (decode_iso1PhysicalValueType j) iso1DC_EVSEChargeParameter_EVSEMaximumPowerLimit
           (\<lambda>u a. a\<lparr>iso1DC_EVSEChargeParameter_EVSEMaximumPowerLimit := u\<rparr>)))] 133 x s
      else if grammarID = 134 then
        decode_switch 1
         [(0, decode_child 135
           (decode_sub (decode_iso1PhysicalValueType j) iso1DC_EVSEChargeParameter_EVSEMaximumVoltageLimit
           (\<lambda>u a. a\<lparr>iso1DC_EVSEChargeParameter_EVSEMaximumVoltageLimit := u\<rparr>)))] 134 x s
      else if grammarID = 135 then
        decode_switch 1
         [(0, decode_child 136
           (decode_sub (decode_iso1PhysicalValueType j) iso1DC_EVSEChargeParameter_EVSEMinimumCurrentLimit
           (\<lambda>u a. a\<lparr>iso1DC_EVSEChargeParameter_EVSEMinimumCurrentLimit := u\<rparr>)))] 135 x s
      else if grammarID = 136 then
        decode_switch 1
         [(0, decode_child 137
           (decode_sub (decode_iso1PhysicalValueType j) iso1DC_EVSEChargeParameter_EVSEMinimumVoltageLimit
           (\<lambda>u a. a\<lparr>iso1DC_EVSEChargeParameter_EVSEMinimumVoltageLimit := u\<rparr>)))] 136 x s
      else if grammarID = 137 then
        decode_switch 2
         [(0, decode_child 138
           (decode_used
           (\<lambda>a. a\<lparr>iso1DC_EVSEChargeParameter_EVSECurrentRegulationTolerance_isUsed := True\<rparr>)
           (decode_sub (decode_iso1PhysicalValueType j) iso1DC_EVSEChargeParameter_EVSECurrentRegulationTolerance
           (\<lambda>u a. a\<lparr>iso1DC_EVSEChargeParameter_EVSECurrentRegulationTolerance := u\<rparr>)))),
          (1, decode_child 139
            (decode_sub (decode_iso1PhysicalValueType j) iso1DC_EVSEChargeParameter_EVSEPeakCurrentRipple
            (\<lambda>u a. a\<lparr>iso1DC_EVSEChargeParameter_EVSEPeakCurrentRipple := u\<rparr>)))] 137 x s
      else if grammarID = 138 then
        decode_switch 1
         [(0, decode_child 139
           (decode_sub (decode_iso1PhysicalValueType j) iso1DC_EVSEChargeParameter_EVSEPeakCurrentRipple
           (\<lambda>u a. a\<lparr>iso1DC_EVSEChargeParameter_EVSEPeakCurrentRipple := u\<rparr>)))] 138 x s
      else if grammarID = 139 then
        decode_switch 2
         [(0, decode_child 3
           (decode_used
           (\<lambda>a. a\<lparr>iso1DC_EVSEChargeParameter_EVSEEnergyToBeDelivered_isUsed := True\<rparr>)
           (decode_sub (decode_iso1PhysicalValueType j) iso1DC_EVSEChargeParameter_EVSEEnergyToBeDelivered
           (\<lambda>u a. a\<lparr>iso1DC_EVSEChargeParameter_EVSEEnergyToBeDelivered := u\<rparr>)))),
          (1, decode_end 4)] 139 x s
      else if grammarID = 3 then
        decode_switch 1
         [(0, decode_end 4)] 3 x s
      else Some (EXI_ERROR_UNKOWN_GRAMMAR_ID, (False, grammarID, x), s))"

definition decode_iso1DC_EVSEChargeParameterType :: "u32 \<Rightarrow> iso1DC_EVSEChargeParameterType decoder" where
  "decode_iso1DC_EVSEChargeParameterType j x s = grammar_loop (iso1DC_EVSEChargeParameter_dec_step j) 131
      (fst x, init_iso1DC_EVSEChargeParameterType (snd x)) s"

definition iso1DC_EVSEChargeParameter_ok :: "iso1DC_EVSEChargeParameterType \<Rightarrow> bool" where
  "iso1DC_EVSEChargeParameter_ok v \<longleftrightarrow>
     iso1DC_EVSEStatus_ok (iso1DC_EVSEChargeParameter_DC_EVSEStatus v) \<and>
     iso1PhysicalValue_ok (iso1DC_EVSEChargeParameter_EVSEMaximumCurrentLimit v) \<and>
     iso1PhysicalValue_ok (iso1DC_EVSEChargeParameter_EVSEMaximumPowerLimit v) \<and>
     iso1PhysicalValue_ok (iso1DC_EVSEChargeParameter_EVSEMaximumVoltageLimit v) \<and>
     iso1PhysicalValue_ok (iso1DC_EVSEChargeParameter_EVSEMinimumCurrentLimit v) \<and>
     iso1PhysicalValue_ok (iso1DC_EVSEChargeParameter_EVSEMinimumVoltageLimit v) \<and>
     when_used (iso1DC_EVSEChargeParameter_EVSECurrentRegulationTolerance_isUsed v)
       (iso1PhysicalValue_ok (iso1DC_EVSEChargeParameter_EVSECurrentRegulationTolerance v)) \<and>
     iso1PhysicalValue_ok (iso1DC_EVSEChargeParameter_EVSEPeakCurrentRipple v) \<and>
     when_used (iso1DC_EVSEChargeParameter_EVSEEnergyToBeDelivered_isUsed v)
       (iso1PhysicalValue_ok (iso1DC_EVSEChargeParameter_EVSEEnergyToBeDelivered v))"

definition same_iso1DC_EVSEChargeParameter :: "iso1DC_EVSEChargeParameterType \<Rightarrow>
    iso1DC_EVSEChargeParameterType \<Rightarrow> bool" where
  "same_iso1DC_EVSEChargeParameter v a \<longleftrightarrow>
     same_iso1DC_EVSEStatus (iso1DC_EVSEChargeParameter_DC_EVSEStatus v) (iso1DC_EVSEChargeParameter_DC_EVSEStatus a)
       \<and>
     same_iso1PhysicalValue (iso1DC_EVSEChargeParameter_EVSEMaximumCurrentLimit v)
       (iso1DC_EVSEChargeParameter_EVSEMaximumCurrentLimit a) \<and>
     same_iso1PhysicalValue (iso1DC_EVSEChargeParameter_EVSEMaximumPowerLimit v)
       (iso1DC_EVSEChargeParameter_EVSEMaximumPowerLimit a) \<and>
     same_iso1PhysicalValue (iso1DC_EVSEChargeParameter_EVSEMaximumVoltageLimit v)
       (iso1DC_EVSEChargeParameter_EVSEMaximumVoltageLimit a) \<and>
     same_iso1PhysicalValue (iso1DC_EVSEChargeParameter_EVSEMinimumCurrentLimit v)
       (iso1DC_EVSEChargeParameter_EVSEMinimumCurrentLimit a) \<and>
     same_iso1PhysicalValue (iso1DC_EVSEChargeParameter_EVSEMinimumVoltageLimit v)
       (iso1DC_EVSEChargeParameter_EVSEMinimumVoltageLimit a) \<and>
     kept (iso1DC_EVSEChargeParameter_EVSECurrentRegulationTolerance_isUsed v)
       (iso1DC_EVSEChargeParameter_EVSECurrentRegulationTolerance_isUsed a)
       (same_iso1PhysicalValue (iso1DC_EVSEChargeParameter_EVSECurrentRegulationTolerance v)
       (iso1DC_EVSEChargeParameter_EVSECurrentRegulationTolerance a)) \<and>
     same_iso1PhysicalValue (iso1DC_EVSEChargeParameter_EVSEPeakCurrentRipple v)
       (iso1DC_EVSEChargeParameter_EVSEPeakCurrentRipple a) \<and>
     kept (iso1DC_EVSEChargeParameter_EVSEEnergyToBeDelivered_isUsed v)
       (iso1DC_EVSEChargeParameter_EVSEEnergyToBeDelivered_isUsed a)
       (same_iso1PhysicalValue (iso1DC_EVSEChargeParameter_EVSEEnergyToBeDelivered v)
       (iso1DC_EVSEChargeParameter_EVSEEnergyToBeDelivered a))"

definition iso1DC_EVSEChargeParameter_at :: "iso1DC_EVSEChargeParameterType \<Rightarrow> nat \<Rightarrow>
    iso1DC_EVSEChargeParameterType \<Rightarrow> bool" where
  "iso1DC_EVSEChargeParameter_at v g a \<longleftrightarrow>
     iso1DC_EVSEChargeParameter_ok v \<and>
     g \<in> {131, 132, 133, 134, 135, 136, 137, 138, 139, 3} \<and>
     (g \<notin> {131} \<longrightarrow> same_iso1DC_EVSEStatus (iso1DC_EVSEChargeParameter_DC_EVSEStatus v)
       (iso1DC_EVSEChargeParameter_DC_EVSEStatus a)) \<and>
     (g \<notin> {131, 132} \<longrightarrow>
       same_iso1PhysicalValue (iso1DC_EVSEChargeParameter_EVSEMaximumCurrentLimit v)
       (iso1DC_EVSEChargeParameter_EVSEMaximumCurrentLimit a)) \<and>
     (g \<notin> {131, 132, 133} \<longrightarrow>
       same_iso1PhysicalValue (iso1DC_EVSEChargeParameter_EVSEMaximumPowerLimit v)
       (iso1DC_EVSEChargeParameter_EVSEMaximumPowerLimit a)) \<and>
     (g \<notin> {131, 132, 133, 134} \<longrightarrow>
       same_iso1PhysicalValue (iso1DC_EVSEChargeParameter_EVSEMaximumVoltageLimit v)
       (iso1DC_EVSEChargeParameter_EVSEMaximumVoltageLimit a)) \<and>
     (g \<notin> {131, 132, 133, 134, 135} \<longrightarrow>
       same_iso1PhysicalValue (iso1DC_EVSEChargeParameter_EVSEMinimumCurrentLimit v)
       (iso1DC_EVSEChargeParameter_EVSEMinimumCurrentLimit a)) \<and>
     (g \<notin> {131, 132, 133, 134, 135, 136} \<longrightarrow>
       same_iso1PhysicalValue (iso1DC_EVSEChargeParameter_EVSEMinimumVoltageLimit v)
       (iso1DC_EVSEChargeParameter_EVSEMinimumVoltageLimit a)) \<and>
     (if g \<in> {131, 132, 133, 134, 135, 136, 137} then
       \<not> iso1DC_EVSEChargeParameter_EVSECurrentRegulationTolerance_isUsed a
      else kept (iso1DC_EVSEChargeParameter_EVSECurrentRegulationTolerance_isUsed v)
        (iso1DC_EVSEChargeParameter_EVSECurrentRegulationTolerance_isUsed a)
        (same_iso1PhysicalValue (iso1DC_EVSEChargeParameter_EVSECurrentRegulationTolerance v)
        (iso1DC_EVSEChargeParameter_EVSECurrentRegulationTolerance a))) \<and>
     (g \<notin> {131, 132, 133, 134, 135, 136, 137, 138} \<longrightarrow>
       same_iso1PhysicalValue (iso1DC_EVSEChargeParameter_EVSEPeakCurrentRipple v)
       (iso1DC_EVSEChargeParameter_EVSEPeakCurrentRipple a)) \<and>
     (if g \<in> {131, 132, 133, 134, 135, 136, 137, 138, 139} then
       \<not> iso1DC_EVSEChargeParameter_EVSEEnergyToBeDelivered_isUsed a
      else kept (iso1DC_EVSEChargeParameter_EVSEEnergyToBeDelivered_isUsed v)
        (iso1DC_EVSEChargeParameter_EVSEEnergyToBeDelivered_isUsed a)
        (same_iso1PhysicalValue (iso1DC_EVSEChargeParameter_EVSEEnergyToBeDelivered v)
        (iso1DC_EVSEChargeParameter_EVSEEnergyToBeDelivered a)))"

lemmas iso1DC_EVSEChargeParameter_steps = iso1DC_EVSEChargeParameter_enc_step_def
  iso1DC_EVSEChargeParameter_dec_step_def

lemmas iso1DC_EVSEChargeParameter_props = iso1DC_EVSEChargeParameter_at_def same_iso1DC_EVSEChargeParameter_def
    left_at_def

lemma iso1DC_EVSEChargeParameter_steps_1:
  "iso1DC_EVSEChargeParameter_at v g a \<Longrightarrow> g \<in> {131, 132, 133, 134, 135} \<Longrightarrow>
   hops (iso1DC_EVSEChargeParameter_enc_step v) (iso1DC_EVSEChargeParameter_dec_step j)
       (iso1DC_EVSEChargeParameter_at v)
    (left_at [(131, 387), (132, 339), (133, 297), (134, 255), (135, 213), (136, 171), (137, 129), (138, 86),
      (139, 44), (3, 1)]) (same_iso1DC_EVSEChargeParameter v) g a"
  by (elim insertE emptyE; (hypsubst, rule hops_by, simp (no_asm) add: iso1DC_EVSEChargeParameter_steps del:
      One_nat_def,
      simp (no_asm) add: iso1DC_EVSEChargeParameter_steps del: One_nat_def,
        simp (asm_lr) add: iso1DC_EVSEChargeParameter_props del: One_nat_def, (elim conjE)?,
      ((rule walks_ifs)+)?); (frule iso1DC_EVSEChargeParameter_ok_def [THEN iffD1], ((drule (1) known)+)?,
        (elim conjE)?, ((drule (1) known)+)?, (elim conjE)?,
      (((rule walks_shapes, simp (no_asm) del: One_nat_def, ((rule reads_intros)+)?);
      ((elim exE conjE)?,
        ((simp (no_asm_simp) add: iso1DC_EVSEChargeParameter_props; fail) |
        (simp (asm_lr) add: iso1DC_EVSEChargeParameter_props; fail) |
        (auto simp: iso1DC_EVSEChargeParameter_props; fail)))) | (erule (1) notE; fail) |
        ((elim exE conjE)?,
        ((simp (no_asm_simp) add: iso1DC_EVSEChargeParameter_props; fail) |
        (simp (asm_lr) add: iso1DC_EVSEChargeParameter_props; fail) |
        (auto simp: iso1DC_EVSEChargeParameter_props; fail))))))

lemma iso1DC_EVSEChargeParameter_steps_2:
  "iso1DC_EVSEChargeParameter_at v g a \<Longrightarrow> g \<in> {136, 137, 138, 139, 3} \<Longrightarrow>
   hops (iso1DC_EVSEChargeParameter_enc_step v) (iso1DC_EVSEChargeParameter_dec_step j)
       (iso1DC_EVSEChargeParameter_at v)
    (left_at [(131, 387), (132, 339), (133, 297), (134, 255), (135, 213), (136, 171), (137, 129), (138, 86),
      (139, 44), (3, 1)]) (same_iso1DC_EVSEChargeParameter v) g a"
  by (elim insertE emptyE; (hypsubst, rule hops_by, simp (no_asm) add: iso1DC_EVSEChargeParameter_steps del:
      One_nat_def,
      simp (no_asm) add: iso1DC_EVSEChargeParameter_steps del: One_nat_def,
        simp (asm_lr) add: iso1DC_EVSEChargeParameter_props del: One_nat_def, (elim conjE)?,
      ((rule walks_ifs)+)?); (frule iso1DC_EVSEChargeParameter_ok_def [THEN iffD1], ((drule (1) known)+)?,
        (elim conjE)?, ((drule (1) known)+)?, (elim conjE)?,
      (((rule walks_shapes, simp (no_asm) del: One_nat_def, ((rule reads_intros)+)?);
      ((elim exE conjE)?,
        ((simp (no_asm_simp) add: iso1DC_EVSEChargeParameter_props; fail) |
        (simp (asm_lr) add: iso1DC_EVSEChargeParameter_props; fail) |
        (auto simp: iso1DC_EVSEChargeParameter_props; fail)))) | (erule (1) notE; fail) |
        ((elim exE conjE)?,
        ((simp (no_asm_simp) add: iso1DC_EVSEChargeParameter_props; fail) |
        (simp (asm_lr) add: iso1DC_EVSEChargeParameter_props; fail) |
        (auto simp: iso1DC_EVSEChargeParameter_props; fail))))))

interpretation iso1DC_EVSEChargeParameter: paired_machines "iso1DC_EVSEChargeParameter_enc_step v"
    "iso1DC_EVSEChargeParameter_dec_step j" "iso1DC_EVSEChargeParameter_at v"
  "left_at [(131, 387), (132, 339), (133, 297), (134, 255), (135, 213), (136, 171), (137, 129), (138, 86), (139, 44),
      (3, 1)]" "same_iso1DC_EVSEChargeParameter v" for v j
proof
  fix g a assume at: "iso1DC_EVSEChargeParameter_at v g a"
  then have "g \<in> {131, 132, 133, 134, 135} \<or> g \<in> {136, 137, 138, 139,
      3}" by (auto simp: iso1DC_EVSEChargeParameter_at_def)
  then show "hops (iso1DC_EVSEChargeParameter_enc_step v) (iso1DC_EVSEChargeParameter_dec_step j)
      (iso1DC_EVSEChargeParameter_at v)
    (left_at [(131, 387), (132, 339), (133, 297), (134, 255), (135, 213), (136, 171), (137, 129), (138, 86),
      (139, 44), (3, 1)]) (same_iso1DC_EVSEChargeParameter v) g a"
    by (elim disjE) (erule iso1DC_EVSEChargeParameter_steps_1 [OF at] | erule iso1DC_EVSEChargeParameter_steps_2
      [OF at])+
qed

lemma reads_iso1DC_EVSEChargeParameter [reads_intros]:
  "iso1DC_EVSEChargeParameter_ok v \<Longrightarrow> reads 387 (\<lambda>s. encode_iso1DC_EVSEChargeParameterType s v)
      (decode_iso1DC_EVSEChargeParameterType j) a (same_iso1DC_EVSEChargeParameter v)"
  unfolding encode_iso1DC_EVSEChargeParameterType_def decode_iso1DC_EVSEChargeParameterType_def [abs_def]
  by (rule reads_start [OF iso1DC_EVSEChargeParameter.machine_reads, of _ 131, THEN reads_mono])
      (auto simp: iso1DC_EVSEChargeParameter_at_def  init_iso1DC_EVSEChargeParameterType_def left_at_def)

interpretation iso1DC_EVSEChargeParameter_enc: advancing_machine "iso1DC_EVSEChargeParameter_enc_step v" "left_at
    [(131, 10), (132, 9), (133, 8), (134, 7), (135, 6), (136, 5), (137, 4), (138, 3), (139, 2), (3, 1)]" for v
  by unfold_locales (auto simp: iso1DC_EVSEChargeParameter_steps dest!: advance_dests split: if_splits;
      simp add: left_at_def)

interpretation iso1DC_EVSEChargeParameter_dec: advancing_machine "iso1DC_EVSEChargeParameter_dec_step j" "left_at
    [(131, 10), (132, 9), (133, 8), (134, 7), (135, 6), (136, 5), (137, 4), (138, 3), (139, 2), (3, 1)]" for j
  by unfold_locales (auto simp: iso1DC_EVSEChargeParameter_steps dest!: advance_dests elim!:
      decode_switch_next split: if_splits;
      simp add: left_at_def)

subsection \<open>\<open>iso1EVSEChargeParameterType\<close>\<close>

record iso1EVSEChargeParameterType =
  iso1EVSEChargeParameter_noContent :: int

definition init_iso1EVSEChargeParameterType :: "iso1EVSEChargeParameterType \<Rightarrow> iso1EVSEChargeParameterType"
    where
  "init_iso1EVSEChargeParameterType a = a"

definition iso1EVSEChargeParameter_enc_step :: "iso1EVSEChargeParameterType \<Rightarrow> unit machine" where
  "iso1EVSEChargeParameter_enc_step v grammarID x s =
     (if grammarID = 34 then
        finish 4 x (encodeNBitUnsignedInteger s 1 0)
      else Some (EXI_ERROR_UNKOWN_GRAMMAR_ID, (False, grammarID, x), s))"

definition encode_iso1EVSEChargeParameterType :: "bitstream \<Rightarrow> iso1EVSEChargeParameterType \<Rightarrow>
    (errn \<times> bitstream) option" where
  "encode_iso1EVSEChargeParameterType s v = run_encoder (iso1EVSEChargeParameter_enc_step v) 34 () s"

definition iso1EVSEChargeParameter_dec_step :: "u32 \<Rightarrow> (dec_static \<times> iso1EVSEChargeParameterType)
    machine" where
  "iso1EVSEChargeParameter_dec_step j grammarID x s =
     (if grammarID = 34 then
        decode_switch 1
         [(0, decode_end 4)] 34 x s
      else Some (EXI_ERROR_UNKOWN_GRAMMAR_ID, (False, grammarID, x), s))"

definition decode_iso1EVSEChargeParameterType :: "u32 \<Rightarrow> iso1EVSEChargeParameterType decoder" where
  "decode_iso1EVSEChargeParameterType j x s = grammar_loop (iso1EVSEChargeParameter_dec_step j) 34
      (fst x, init_iso1EVSEChargeParameterType (snd x)) s"

definition same_iso1EVSEChargeParameter :: "iso1EVSEChargeParameterType \<Rightarrow> iso1EVSEChargeParameterType
    \<Rightarrow> bool" where
  "same_iso1EVSEChargeParameter v a \<longleftrightarrow>
     True"

definition iso1EVSEChargeParameter_at :: "iso1EVSEChargeParameterType \<Rightarrow> nat \<Rightarrow>
    iso1EVSEChargeParameterType \<Rightarrow> bool" where
  "iso1EVSEChargeParameter_at v g a \<longleftrightarrow>
     g \<in> {34}"

lemmas iso1EVSEChargeParameter_steps = iso1EVSEChargeParameter_enc_step_def
  iso1EVSEChargeParameter_dec_step_def

lemmas iso1EVSEChargeParameter_props = iso1EVSEChargeParameter_at_def same_iso1EVSEChargeParameter_def left_at_def

interpretation iso1EVSEChargeParameter: paired_machines "iso1EVSEChargeParameter_enc_step v"
    "iso1EVSEChargeParameter_dec_step j" "iso1EVSEChargeParameter_at v"
  "left_at [(34, 1)]" "same_iso1EVSEChargeParameter v" for v j
proof
  fix g a assume at: "iso1EVSEChargeParameter_at v g a"
  then have "g \<in> {34}" by (simp add: iso1EVSEChargeParameter_at_def)
  then show "hops (iso1EVSEChargeParameter_enc_step v) (iso1EVSEChargeParameter_dec_step j)
      (iso1EVSEChargeParameter_at v)
    (left_at [(34, 1)]) (same_iso1EVSEChargeParameter v) g a" using at
    by - (elim insertE emptyE; (hypsubst, rule hops_by, simp (no_asm) add: iso1EVSEChargeParameter_steps del:
      One_nat_def,
      simp (no_asm) add: iso1EVSEChargeParameter_steps del: One_nat_def,
        simp (asm_lr) add: iso1EVSEChargeParameter_props del: One_nat_def, (elim conjE)?,
      ((rule walks_ifs)+)?); (((drule (1) known)+)?, (elim conjE)?, ((drule (1) known)+)?, (elim conjE)?,
      (((rule walks_shapes, simp (no_asm) del: One_nat_def, ((rule reads_intros)+)?);
      ((elim exE conjE)?,
        ((simp (no_asm_simp) add: iso1EVSEChargeParameter_props; fail) |
        (simp (asm_lr) add: iso1EVSEChargeParameter_props; fail) | (auto simp: iso1EVSEChargeParameter_props; fail))))
        | (erule (1) notE; fail) |
        ((elim exE conjE)?,
        ((simp (no_asm_simp) add: iso1EVSEChargeParameter_props; fail) |
        (simp (asm_lr) add: iso1EVSEChargeParameter_props; fail) |
        (auto simp: iso1EVSEChargeParameter_props; fail))))))
qed

lemma reads_iso1EVSEChargeParameter [reads_intros]:
  "reads 1 (\<lambda>s. encode_iso1EVSEChargeParameterType s v) (decode_iso1EVSEChargeParameterType j) a
      (same_iso1EVSEChargeParameter v)"
  unfolding encode_iso1EVSEChargeParameterType_def decode_iso1EVSEChargeParameterType_def [abs_def]
  by (rule reads_start [OF iso1EVSEChargeParameter.machine_reads, of _ 34, THEN reads_mono])
      (auto simp: iso1EVSEChargeParameter_at_def  init_iso1EVSEChargeParameterType_def left_at_def)

interpretation iso1EVSEChargeParameter_enc: advancing_machine "iso1EVSEChargeParameter_enc_step v" "left_at [(34, 1)]"
    for v
  by unfold_locales (auto simp: iso1EVSEChargeParameter_steps dest!: advance_dests split: if_splits;
      simp add: left_at_def)

interpretation iso1EVSEChargeParameter_dec: advancing_machine "iso1EVSEChargeParameter_dec_step j" "left_at [(34, 1)]"
    for j
  by unfold_locales (auto simp: iso1EVSEChargeParameter_steps dest!: advance_dests elim!:
      decode_switch_next split: if_splits;
      simp add: left_at_def)

subsection \<open>\<open>iso1ChargeParameterDiscoveryResType\<close>\<close>

record iso1ChargeParameterDiscoveryResType =
  iso1ChargeParameterDiscoveryRes_ResponseCode :: u32
  iso1ChargeParameterDiscoveryRes_EVSEProcessing :: u32
  iso1ChargeParameterDiscoveryRes_SASchedules :: iso1SASchedulesType
  iso1ChargeParameterDiscoveryRes_SASchedules_isUsed :: bool
  iso1ChargeParameterDiscoveryRes_SAScheduleList :: iso1SAScheduleListType
  iso1ChargeParameterDiscoveryRes_SAScheduleList_isUsed :: bool
  iso1ChargeParameterDiscoveryRes_EVSEChargeParameter :: iso1EVSEChargeParameterType
  iso1ChargeParameterDiscoveryRes_EVSEChargeParameter_isUsed :: bool
  iso1ChargeParameterDiscoveryRes_AC_EVSEChargeParameter :: iso1AC_EVSEChargeParameterType
  iso1ChargeParameterDiscoveryRes_AC_EVSEChargeParameter_isUsed :: bool
  iso1ChargeParameterDiscoveryRes_DC_EVSEChargeParameter :: iso1DC_EVSEChargeParameterType
  iso1ChargeParameterDiscoveryRes_DC_EVSEChargeParameter_isUsed :: bool

definition init_iso1ChargeParameterDiscoveryResType :: "iso1ChargeParameterDiscoveryResType \<Rightarrow>
    iso1ChargeParameterDiscoveryResType" where
  "init_iso1ChargeParameterDiscoveryResType a = a\<lparr>iso1ChargeParameterDiscoveryRes_SASchedules_isUsed := False,
      iso1ChargeParameterDiscoveryRes_SAScheduleList_isUsed := False,
      iso1ChargeParameterDiscoveryRes_EVSEChargeParameter_isUsed := False,
      iso1ChargeParameterDiscoveryRes_AC_EVSEChargeParameter_isUsed := False,
      iso1ChargeParameterDiscoveryRes_DC_EVSEChargeParameter_isUsed := False\<rparr>"

definition iso1ChargeParameterDiscoveryRes_enc_step :: "iso1ChargeParameterDiscoveryResType \<Rightarrow> unit
    machine" where
  "iso1ChargeParameterDiscoveryRes_enc_step v grammarID x s =
     (if grammarID = 89 then
        goto 90 x
          (encode_simple 1 0
          (\<lambda>s. encodeNBitUnsignedInteger s 5 (iso1ChargeParameterDiscoveryRes_ResponseCode v)) s)
      else if grammarID = 90 then
        goto 91 x
          (encode_simple 1 0
          (\<lambda>s. encodeNBitUnsignedInteger s 2 (iso1ChargeParameterDiscoveryRes_EVSEProcessing v)) s)
      else if grammarID = 91 then
        if iso1ChargeParameterDiscoveryRes_SAScheduleList_isUsed v then
          goto 92 x
          (encode_child 3 0
          (\<lambda>s. encode_iso1SAScheduleListType s (iso1ChargeParameterDiscoveryRes_SAScheduleList v)) s)
        else if iso1ChargeParameterDiscoveryRes_SASchedules_isUsed v then
          goto 92 x
          (encode_child 3 1 (\<lambda>s. encode_iso1SASchedulesType s (iso1ChargeParameterDiscoveryRes_SASchedules v))
          s)
        else if iso1ChargeParameterDiscoveryRes_AC_EVSEChargeParameter_isUsed v then
          goto 3 x (encode_child 3 2
          (\<lambda>s. encode_iso1AC_EVSEChargeParameterType s
          (iso1ChargeParameterDiscoveryRes_AC_EVSEChargeParameter v)) s)
        else if iso1ChargeParameterDiscoveryRes_DC_EVSEChargeParameter_isUsed v then
          goto 3 x (encode_child 3 3
          (\<lambda>s. encode_iso1DC_EVSEChargeParameterType s
          (iso1ChargeParameterDiscoveryRes_DC_EVSEChargeParameter v)) s)
        else if iso1ChargeParameterDiscoveryRes_EVSEChargeParameter_isUsed v then
          goto 3 x (encode_child 3 4
          (\<lambda>s. encode_iso1EVSEChargeParameterType s (iso1ChargeParameterDiscoveryRes_EVSEChargeParameter v))
          s)
        else Some (EXI_ERROR_UNKOWN_EVENT, (False, grammarID, x), s)
      else if grammarID = 92 then
        if iso1ChargeParameterDiscoveryRes_AC_EVSEChargeParameter_isUsed v then
          goto 3 x (encode_child 2 0
          (\<lambda>s. encode_iso1AC_EVSEChargeParameterType s
          (iso1ChargeParameterDiscoveryRes_AC_EVSEChargeParameter v)) s)
        else if iso1ChargeParameterDiscoveryRes_DC_EVSEChargeParameter_isUsed v then
          goto 3 x (encode_child 2 1
          (\<lambda>s. encode_iso1DC_EVSEChargeParameterType s
          (iso1ChargeParameterDiscoveryRes_DC_EVSEChargeParameter v)) s)
        else if iso1ChargeParameterDiscoveryRes_EVSEChargeParameter_isUsed v then
          goto 3 x (encode_child 2 2
          (\<lambda>s. encode_iso1EVSEChargeParameterType s (iso1ChargeParameterDiscoveryRes_EVSEChargeParameter v))
          s)
        else Some (EXI_ERROR_UNKOWN_EVENT, (False, grammarID, x), s)
      else if grammarID = 3 then
        finish 4 x (encodeNBitUnsignedInteger s 1 0)
      else Some (EXI_ERROR_UNKOWN_GRAMMAR_ID, (False, grammarID, x), s))"

definition encode_iso1ChargeParameterDiscoveryResType :: "bitstream \<Rightarrow> iso1ChargeParameterDiscoveryResType
    \<Rightarrow> (errn \<times> bitstream) option" where
  "encode_iso1ChargeParameterDiscoveryResType s v = run_encoder (iso1ChargeParameterDiscoveryRes_enc_step v) 89 () s"

definition iso1ChargeParameterDiscoveryRes_dec_step :: "u32 \<Rightarrow>
    (dec_static \<times> iso1ChargeParameterDiscoveryResType) machine" where
  "iso1ChargeParameterDiscoveryRes_dec_step j grammarID x s =
     (if grammarID = 89 then
        decode_switch 1
         [(0, decode_simple 89 90
           (decode_nbit_field 5 (\<lambda>u a. a\<lparr>iso1ChargeParameterDiscoveryRes_ResponseCode := u\<rparr>)))]
           89 x s
      else if grammarID = 90 then
        decode_switch 1
         [(0, decode_simple 90 91
           (decode_nbit_field 2
           (\<lambda>u a. a\<lparr>iso1ChargeParameterDiscoveryRes_EVSEProcessing := u\<rparr>)))] 90 x s
      else if grammarID = 91 then
        decode_switch 3
         [(0, decode_child 92
           (decode_used (\<lambda>a. a\<lparr>iso1ChargeParameterDiscoveryRes_SAScheduleList_isUsed := True\<rparr>)
           (decode_sub (decode_iso1SAScheduleListType j) iso1ChargeParameterDiscoveryRes_SAScheduleList
           (\<lambda>u a. a\<lparr>iso1ChargeParameterDiscoveryRes_SAScheduleList := u\<rparr>)))),
          (1, decode_child 92
            (decode_used (\<lambda>a. a\<lparr>iso1ChargeParameterDiscoveryRes_SASchedules_isUsed := True\<rparr>)
            (decode_sub (decode_iso1SASchedulesType j) iso1ChargeParameterDiscoveryRes_SASchedules
            (\<lambda>u a. a\<lparr>iso1ChargeParameterDiscoveryRes_SASchedules := u\<rparr>)))),
          (2, decode_child 3
            (decode_used
            (\<lambda>a. a\<lparr>iso1ChargeParameterDiscoveryRes_AC_EVSEChargeParameter_isUsed := True\<rparr>)
            (decode_sub (decode_iso1AC_EVSEChargeParameterType j)
            iso1ChargeParameterDiscoveryRes_AC_EVSEChargeParameter
            (\<lambda>u a. a\<lparr>iso1ChargeParameterDiscoveryRes_AC_EVSEChargeParameter := u\<rparr>)))),
          (3, decode_child 3
            (decode_used
            (\<lambda>a. a\<lparr>iso1ChargeParameterDiscoveryRes_DC_EVSEChargeParameter_isUsed := True\<rparr>)
            (decode_sub (decode_iso1DC_EVSEChargeParameterType j)
            iso1ChargeParameterDiscoveryRes_DC_EVSEChargeParameter
            (\<lambda>u a. a\<lparr>iso1ChargeParameterDiscoveryRes_DC_EVSEChargeParameter := u\<rparr>)))),
          (4, decode_child 3
            (decode_used
            (\<lambda>a. a\<lparr>iso1ChargeParameterDiscoveryRes_EVSEChargeParameter_isUsed := True\<rparr>)
            (decode_sub (decode_iso1EVSEChargeParameterType j) iso1ChargeParameterDiscoveryRes_EVSEChargeParameter
            (\<lambda>u a. a\<lparr>iso1ChargeParameterDiscoveryRes_EVSEChargeParameter := u\<rparr>))))] 91 x s
      else if grammarID = 92 then
        decode_switch 2
         [(0, decode_child 3
           (decode_used
           (\<lambda>a. a\<lparr>iso1ChargeParameterDiscoveryRes_AC_EVSEChargeParameter_isUsed := True\<rparr>)
           (decode_sub (decode_iso1AC_EVSEChargeParameterType j)
           iso1ChargeParameterDiscoveryRes_AC_EVSEChargeParameter
           (\<lambda>u a. a\<lparr>iso1ChargeParameterDiscoveryRes_AC_EVSEChargeParameter := u\<rparr>)))),
          (1, decode_child 3
            (decode_used
            (\<lambda>a. a\<lparr>iso1ChargeParameterDiscoveryRes_DC_EVSEChargeParameter_isUsed := True\<rparr>)
            (decode_sub (decode_iso1DC_EVSEChargeParameterType j)
            iso1ChargeParameterDiscoveryRes_DC_EVSEChargeParameter
            (\<lambda>u a. a\<lparr>iso1ChargeParameterDiscoveryRes_DC_EVSEChargeParameter := u\<rparr>)))),
          (2, decode_child 3
            (decode_used
            (\<lambda>a. a\<lparr>iso1ChargeParameterDiscoveryRes_EVSEChargeParameter_isUsed := True\<rparr>)
            (decode_sub (decode_iso1EVSEChargeParameterType j) iso1ChargeParameterDiscoveryRes_EVSEChargeParameter
            (\<lambda>u a. a\<lparr>iso1ChargeParameterDiscoveryRes_EVSEChargeParameter := u\<rparr>))))] 92 x s
      else if grammarID = 3 then
        decode_switch 1
         [(0, decode_end 4)] 3 x s
      else Some (EXI_ERROR_UNKOWN_GRAMMAR_ID, (False, grammarID, x), s))"

definition decode_iso1ChargeParameterDiscoveryResType :: "u32 \<Rightarrow> iso1ChargeParameterDiscoveryResType
    decoder" where
  "decode_iso1ChargeParameterDiscoveryResType j x s = grammar_loop (iso1ChargeParameterDiscoveryRes_dec_step j) 89
      (fst x, init_iso1ChargeParameterDiscoveryResType (snd x)) s"

definition iso1ChargeParameterDiscoveryRes_ok :: "iso1ChargeParameterDiscoveryResType \<Rightarrow> bool" where
  "iso1ChargeParameterDiscoveryRes_ok v \<longleftrightarrow>
     iso1ChargeParameterDiscoveryRes_ResponseCode v < 32 \<and>
     iso1ChargeParameterDiscoveryRes_EVSEProcessing v < 4 \<and>
     when_used (iso1ChargeParameterDiscoveryRes_SAScheduleList_isUsed v)
       (iso1SAScheduleList_ok (iso1ChargeParameterDiscoveryRes_SAScheduleList v)) \<and>
     when_used (iso1ChargeParameterDiscoveryRes_AC_EVSEChargeParameter_isUsed v)
       (iso1AC_EVSEChargeParameter_ok (iso1ChargeParameterDiscoveryRes_AC_EVSEChargeParameter v)) \<and>
     when_used (iso1ChargeParameterDiscoveryRes_DC_EVSEChargeParameter_isUsed v)
       (iso1DC_EVSEChargeParameter_ok (iso1ChargeParameterDiscoveryRes_DC_EVSEChargeParameter v)) \<and>
     some_of [iso1ChargeParameterDiscoveryRes_SAScheduleList_isUsed v,
       iso1ChargeParameterDiscoveryRes_SASchedules_isUsed v,
       iso1ChargeParameterDiscoveryRes_AC_EVSEChargeParameter_isUsed v,
       iso1ChargeParameterDiscoveryRes_DC_EVSEChargeParameter_isUsed v,
       iso1ChargeParameterDiscoveryRes_EVSEChargeParameter_isUsed v] \<and>
     exclusive [iso1ChargeParameterDiscoveryRes_AC_EVSEChargeParameter_isUsed v,
       iso1ChargeParameterDiscoveryRes_DC_EVSEChargeParameter_isUsed v,
       iso1ChargeParameterDiscoveryRes_EVSEChargeParameter_isUsed v] \<and>
     when_used
       (some_of [iso1ChargeParameterDiscoveryRes_SAScheduleList_isUsed v,
       iso1ChargeParameterDiscoveryRes_SASchedules_isUsed v])
       (some_of [iso1ChargeParameterDiscoveryRes_AC_EVSEChargeParameter_isUsed v,
       iso1ChargeParameterDiscoveryRes_DC_EVSEChargeParameter_isUsed v,
       iso1ChargeParameterDiscoveryRes_EVSEChargeParameter_isUsed v]) \<and>
     when_used (iso1ChargeParameterDiscoveryRes_DC_EVSEChargeParameter_isUsed v)
       (some_of [iso1ChargeParameterDiscoveryRes_SAScheduleList_isUsed v,
       iso1ChargeParameterDiscoveryRes_SASchedules_isUsed v]) \<and>
     when_used (iso1ChargeParameterDiscoveryRes_EVSEChargeParameter_isUsed v)
       (some_of [iso1ChargeParameterDiscoveryRes_SAScheduleList_isUsed v,
       iso1ChargeParameterDiscoveryRes_SASchedules_isUsed v]) \<and>
     exclusive [iso1ChargeParameterDiscoveryRes_SAScheduleList_isUsed v,
       iso1ChargeParameterDiscoveryRes_SASchedules_isUsed v]"

definition iso1ChargeParameterDiscoveryRes_sized :: "iso1ChargeParameterDiscoveryResType \<Rightarrow> bool" where
  "iso1ChargeParameterDiscoveryRes_sized a \<longleftrightarrow>
     iso1SAScheduleList_sized (iso1ChargeParameterDiscoveryRes_SAScheduleList a)"

definition same_iso1ChargeParameterDiscoveryRes :: "iso1ChargeParameterDiscoveryResType \<Rightarrow>
    iso1ChargeParameterDiscoveryResType \<Rightarrow> bool" where
  "same_iso1ChargeParameterDiscoveryRes v a \<longleftrightarrow>
     iso1ChargeParameterDiscoveryRes_ResponseCode a = iso1ChargeParameterDiscoveryRes_ResponseCode v \<and>
     iso1ChargeParameterDiscoveryRes_EVSEProcessing a = iso1ChargeParameterDiscoveryRes_EVSEProcessing v \<and>
     kept (iso1ChargeParameterDiscoveryRes_SAScheduleList_isUsed v)
       (iso1ChargeParameterDiscoveryRes_SAScheduleList_isUsed a)
       (same_iso1SAScheduleList (iso1ChargeParameterDiscoveryRes_SAScheduleList v)
       (iso1ChargeParameterDiscoveryRes_SAScheduleList a)) \<and>
     kept (iso1ChargeParameterDiscoveryRes_SASchedules_isUsed v)
       (iso1ChargeParameterDiscoveryRes_SASchedules_isUsed a)
       (same_iso1SASchedules (iso1ChargeParameterDiscoveryRes_SASchedules v)
       (iso1ChargeParameterDiscoveryRes_SASchedules a)) \<and>
     kept (iso1ChargeParameterDiscoveryRes_AC_EVSEChargeParameter_isUsed v)
       (iso1ChargeParameterDiscoveryRes_AC_EVSEChargeParameter_isUsed a)
       (same_iso1AC_EVSEChargeParameter (iso1ChargeParameterDiscoveryRes_AC_EVSEChargeParameter v)
       (iso1ChargeParameterDiscoveryRes_AC_EVSEChargeParameter a)) \<and>
     kept (iso1ChargeParameterDiscoveryRes_DC_EVSEChargeParameter_isUsed v)
       (iso1ChargeParameterDiscoveryRes_DC_EVSEChargeParameter_isUsed a)
       (same_iso1DC_EVSEChargeParameter (iso1ChargeParameterDiscoveryRes_DC_EVSEChargeParameter v)
       (iso1ChargeParameterDiscoveryRes_DC_EVSEChargeParameter a)) \<and>
     kept (iso1ChargeParameterDiscoveryRes_EVSEChargeParameter_isUsed v)
       (iso1ChargeParameterDiscoveryRes_EVSEChargeParameter_isUsed a)
       (same_iso1EVSEChargeParameter (iso1ChargeParameterDiscoveryRes_EVSEChargeParameter v)
       (iso1ChargeParameterDiscoveryRes_EVSEChargeParameter a))"

definition iso1ChargeParameterDiscoveryRes_at :: "iso1ChargeParameterDiscoveryResType \<Rightarrow> nat \<Rightarrow>
    iso1ChargeParameterDiscoveryResType \<Rightarrow> bool" where
  "iso1ChargeParameterDiscoveryRes_at v g a \<longleftrightarrow>
     iso1ChargeParameterDiscoveryRes_ok v \<and>
     g \<in> {89, 90, 91, 92, 3} \<and>
     iso1ChargeParameterDiscoveryRes_sized a \<and>
     (g \<notin> {89} \<longrightarrow> iso1ChargeParameterDiscoveryRes_ResponseCode
       a = iso1ChargeParameterDiscoveryRes_ResponseCode v) \<and>
     (g \<notin> {89, 90} \<longrightarrow> iso1ChargeParameterDiscoveryRes_EVSEProcessing
       a = iso1ChargeParameterDiscoveryRes_EVSEProcessing v) \<and>
     (if g \<in> {89, 90, 91} then \<not> iso1ChargeParameterDiscoveryRes_SAScheduleList_isUsed a
      else kept (iso1ChargeParameterDiscoveryRes_SAScheduleList_isUsed v)
        (iso1ChargeParameterDiscoveryRes_SAScheduleList_isUsed a)
        (same_iso1SAScheduleList (iso1ChargeParameterDiscoveryRes_SAScheduleList v)
        (iso1ChargeParameterDiscoveryRes_SAScheduleList a))) \<and>
     (if g \<in> {89, 90, 91} then \<not> iso1ChargeParameterDiscoveryRes_SASchedules_isUsed a
      else kept (iso1ChargeParameterDiscoveryRes_SASchedules_isUsed v)
        (iso1ChargeParameterDiscoveryRes_SASchedules_isUsed a)
        (same_iso1SASchedules (iso1ChargeParameterDiscoveryRes_SASchedules v)
        (iso1ChargeParameterDiscoveryRes_SASchedules a))) \<and>
     (if g \<in> {89, 90, 91, 92} then \<not> iso1ChargeParameterDiscoveryRes_AC_EVSEChargeParameter_isUsed a
      else kept (iso1ChargeParameterDiscoveryRes_AC_EVSEChargeParameter_isUsed v)
        (iso1ChargeParameterDiscoveryRes_AC_EVSEChargeParameter_isUsed a)
        (same_iso1AC_EVSEChargeParameter (iso1ChargeParameterDiscoveryRes_AC_EVSEChargeParameter v)
        (iso1ChargeParameterDiscoveryRes_AC_EVSEChargeParameter a))) \<and>
     (if g \<in> {89, 90, 91, 92} then \<not> iso1ChargeParameterDiscoveryRes_DC_EVSEChargeParameter_isUsed a
      else kept (iso1ChargeParameterDiscoveryRes_DC_EVSEChargeParameter_isUsed v)
        (iso1ChargeParameterDiscoveryRes_DC_EVSEChargeParameter_isUsed a)
        (same_iso1DC_EVSEChargeParameter (iso1ChargeParameterDiscoveryRes_DC_EVSEChargeParameter v)
        (iso1ChargeParameterDiscoveryRes_DC_EVSEChargeParameter a))) \<and>
     (if g \<in> {89, 90, 91, 92} then \<not> iso1ChargeParameterDiscoveryRes_EVSEChargeParameter_isUsed a
      else kept (iso1ChargeParameterDiscoveryRes_EVSEChargeParameter_isUsed v)
        (iso1ChargeParameterDiscoveryRes_EVSEChargeParameter_isUsed a)
        (same_iso1EVSEChargeParameter (iso1ChargeParameterDiscoveryRes_EVSEChargeParameter v)
        (iso1ChargeParameterDiscoveryRes_EVSEChargeParameter a))) \<and>
     (g = 92 \<longrightarrow> some_of [iso1ChargeParameterDiscoveryRes_SAScheduleList_isUsed v,
       iso1ChargeParameterDiscoveryRes_SASchedules_isUsed v])"

lemmas iso1ChargeParameterDiscoveryRes_steps = iso1ChargeParameterDiscoveryRes_enc_step_def
  iso1ChargeParameterDiscoveryRes_dec_step_def

lemmas iso1ChargeParameterDiscoveryRes_props = iso1ChargeParameterDiscoveryRes_at_def
    iso1ChargeParameterDiscoveryRes_sized_def same_iso1ChargeParameterDiscoveryRes_def left_at_def

interpretation iso1ChargeParameterDiscoveryRes: paired_machines "iso1ChargeParameterDiscoveryRes_enc_step v"
    "iso1ChargeParameterDiscoveryRes_dec_step j" "iso1ChargeParameterDiscoveryRes_at v"
  "left_at [(89, 16233), (90, 16225), (91, 16220), (92, 390), (3, 1)]" "\<lambda>a.
      same_iso1ChargeParameterDiscoveryRes v a \<and> iso1ChargeParameterDiscoveryRes_sized a" for v j
proof
  fix g a assume at: "iso1ChargeParameterDiscoveryRes_at v g a"
  then have "g \<in> {89, 90, 91, 92, 3}" by (simp add: iso1ChargeParameterDiscoveryRes_at_def)
  then show "hops (iso1ChargeParameterDiscoveryRes_enc_step v) (iso1ChargeParameterDiscoveryRes_dec_step j)
      (iso1ChargeParameterDiscoveryRes_at v)
    (left_at [(89, 16233), (90, 16225), (91, 16220), (92, 390), (3, 1)])
      (\<lambda>a. same_iso1ChargeParameterDiscoveryRes v a \<and> iso1ChargeParameterDiscoveryRes_sized a) g a" using
      at
    by - (elim insertE emptyE; (hypsubst, rule hops_by, simp (no_asm) add: iso1ChargeParameterDiscoveryRes_steps del:
      One_nat_def,
      simp (no_asm) add: iso1ChargeParameterDiscoveryRes_steps del: One_nat_def,
        simp (asm_lr) add: iso1ChargeParameterDiscoveryRes_props del: One_nat_def, (elim conjE)?,
      ((rule walks_ifs)+)?); (frule iso1ChargeParameterDiscoveryRes_ok_def [THEN iffD1], ((drule (1) known)+)?,
        (elim conjE)?, ((drule (1) known)+)?, (elim conjE)?,
      (((rule walks_shapes, simp (no_asm) del: One_nat_def, ((rule reads_intros)+)?);
      ((elim exE conjE)?,
        ((simp (no_asm_simp) add: iso1ChargeParameterDiscoveryRes_props; fail) |
        (simp (asm_lr) add: iso1ChargeParameterDiscoveryRes_props; fail) |
        (auto simp: iso1ChargeParameterDiscoveryRes_props; fail)))) | (erule (1) notE; fail) |
        ((elim exE conjE)?,
        ((simp (no_asm_simp) add: iso1ChargeParameterDiscoveryRes_props; fail) |
        (simp (asm_lr) add: iso1ChargeParameterDiscoveryRes_props; fail) |
        (auto simp: iso1ChargeParameterDiscoveryRes_props; fail))))))
qed

lemma reads_iso1ChargeParameterDiscoveryRes [reads_intros]:
  "iso1ChargeParameterDiscoveryRes_ok v \<Longrightarrow> iso1ChargeParameterDiscoveryRes_sized a \<Longrightarrow>
      reads 16233 (\<lambda>s. encode_iso1ChargeParameterDiscoveryResType s v)
      (decode_iso1ChargeParameterDiscoveryResType j) a (\<lambda>a. same_iso1ChargeParameterDiscoveryRes v a \<and>
      iso1ChargeParameterDiscoveryRes_sized a)"
  unfolding encode_iso1ChargeParameterDiscoveryResType_def decode_iso1ChargeParameterDiscoveryResType_def [abs_def]
  by (rule reads_start [OF iso1ChargeParameterDiscoveryRes.machine_reads, of _ 89, THEN reads_mono])
      (auto simp: iso1ChargeParameterDiscoveryRes_at_def iso1ChargeParameterDiscoveryRes_sized_def
      init_iso1ChargeParameterDiscoveryResType_def left_at_def)

interpretation iso1ChargeParameterDiscoveryRes_enc: advancing_machine "iso1ChargeParameterDiscoveryRes_enc_step v"
    "left_at [(89, 5), (90, 4), (91, 3), (92, 2), (3, 1)]" for v
  by unfold_locales (auto simp: iso1ChargeParameterDiscoveryRes_steps left_at_def dest!: advance_dests split:
      if_splits)

interpretation iso1ChargeParameterDiscoveryRes_dec: advancing_machine "iso1ChargeParameterDiscoveryRes_dec_step j"
    "left_at [(89, 5), (90, 4), (91, 3), (92, 2), (3, 1)]" for j
  by unfold_locales (auto simp: iso1ChargeParameterDiscoveryRes_steps dest!: advance_dests elim!:
      decode_switch_next split: if_splits;
      simp add: left_at_def)

subsection \<open>\<open>iso1PowerDeliveryReqType\<close>\<close>

record iso1PowerDeliveryReqType =
  iso1PowerDeliveryReq_ChargeProgress :: u32
  iso1PowerDeliveryReq_SAScheduleTupleID :: u8
  iso1PowerDeliveryReq_ChargingProfile :: iso1ChargingProfileType
  iso1PowerDeliveryReq_ChargingProfile_isUsed :: bool
  iso1PowerDeliveryReq_EVPowerDeliveryParameter :: iso1EVPowerDeliveryParameterType
  iso1PowerDeliveryReq_EVPowerDeliveryParameter_isUsed :: bool
  iso1PowerDeliveryReq_DC_EVPowerDeliveryParameter :: iso1DC_EVPowerDeliveryParameterType
  iso1PowerDeliveryReq_DC_EVPowerDeliveryParameter_isUsed :: bool

definition init_iso1PowerDeliveryReqType :: "iso1PowerDeliveryReqType \<Rightarrow> iso1PowerDeliveryReqType" where
  "init_iso1PowerDeliveryReqType a = a\<lparr>iso1PowerDeliveryReq_ChargingProfile_isUsed := False,
      iso1PowerDeliveryReq_EVPowerDeliveryParameter_isUsed := False,
      iso1PowerDeliveryReq_DC_EVPowerDeliveryParameter_isUsed := False\<rparr>"

definition iso1PowerDeliveryReq_enc_step :: "iso1PowerDeliveryReqType \<Rightarrow> unit machine" where
  "iso1PowerDeliveryReq_enc_step v grammarID x s =
     (if grammarID = 10 then
        goto 11 x
          (encode_simple 1 0 (\<lambda>s. encodeNBitUnsignedInteger s 2 (iso1PowerDeliveryReq_ChargeProgress v)) s)
      else if grammarID = 11 then
        goto 12 x
          (encode_simple 1 0
          (\<lambda>s. encodeNBitUnsignedInteger s 8 (ucast (iso1PowerDeliveryReq_SAScheduleTupleID v) - 1)) s)
      else if grammarID = 12 then
        if iso1PowerDeliveryReq_ChargingProfile_isUsed v then
          goto 13 x
          (encode_child 3 0 (\<lambda>s. encode_iso1ChargingProfileType s (iso1PowerDeliveryReq_ChargingProfile v)) s)
        else if iso1PowerDeliveryReq_DC_EVPowerDeliveryParameter_isUsed v then
          goto 3 x (encode_child 3 1
          (\<lambda>s. encode_iso1DC_EVPowerDeliveryParameterType s
          (iso1PowerDeliveryReq_DC_EVPowerDeliveryParameter v)) s)
        else if iso1PowerDeliveryReq_EVPowerDeliveryParameter_isUsed v then
          goto 3 x (encode_child 3 2
          (\<lambda>s. encode_iso1EVPowerDeliveryParameterType s (iso1PowerDeliveryReq_EVPowerDeliveryParameter v)) s)
        else finish 4 x (encodeNBitUnsignedInteger s 3 3)
      else if grammarID = 13 then
        if iso1PowerDeliveryReq_DC_EVPowerDeliveryParameter_isUsed v then
          goto 3 x (encode_child 2 0
          (\<lambda>s. encode_iso1DC_EVPowerDeliveryParameterType s
          (iso1PowerDeliveryReq_DC_EVPowerDeliveryParameter v)) s)
        else if iso1PowerDeliveryReq_EVPowerDeliveryParameter_isUsed v then
          goto 3 x (encode_child 2 1
          (\<lambda>s. encode_iso1EVPowerDeliveryParameterType s (iso1PowerDeliveryReq_EVPowerDeliveryParameter v)) s)
        else finish 4 x (encodeNBitUnsignedInteger s 2 2)
      else if grammarID = 3 then
        finish 4 x (encodeNBitUnsignedInteger s 1 0)
      else Some (EXI_ERROR_UNKOWN_GRAMMAR_ID, (False, grammarID, x), s))"

definition encode_iso1PowerDeliveryReqType :: "bitstream \<Rightarrow> iso1PowerDeliveryReqType \<Rightarrow>
    (errn \<times> bitstream) option" where
  "encode_iso1PowerDeliveryReqType s v = run_encoder (iso1PowerDeliveryReq_enc_step v) 10 () s"

definition iso1PowerDeliveryReq_dec_step :: "u32 \<Rightarrow> (dec_static \<times> iso1PowerDeliveryReqType) machine"
    where
  "iso1PowerDeliveryReq_dec_step j grammarID x s =
     (if grammarID = 10 then
        decode_switch 1
         [(0, decode_simple 10 11
           (decode_nbit_field 2 (\<lambda>u a. a\<lparr>iso1PowerDeliveryReq_ChargeProgress := u\<rparr>)))] 10 x s
      else if grammarID = 11 then
        decode_switch 1
         [(0, decode_simple 11 12
           (decode_nbit_field 8
           (\<lambda>u a. a\<lparr>iso1PowerDeliveryReq_SAScheduleTupleID := ucast (u + 1)\<rparr>)))] 11 x s
      else if grammarID = 12 then
        decode_switch 3
         [(0, decode_child 13
           (decode_used (\<lambda>a. a\<lparr>iso1PowerDeliveryReq_ChargingProfile_isUsed := True\<rparr>)
           (decode_sub (decode_iso1ChargingProfileType j) iso1PowerDeliveryReq_ChargingProfile
           (\<lambda>u a. a\<lparr>iso1PowerDeliveryReq_ChargingProfile := u\<rparr>)))),
          (1, decode_child 3
            (decode_used
            (\<lambda>a. a\<lparr>iso1PowerDeliveryReq_DC_EVPowerDeliveryParameter_isUsed := True\<rparr>)
            (decode_sub (decode_iso1DC_EVPowerDeliveryParameterType j)
            iso1PowerDeliveryReq_DC_EVPowerDeliveryParameter
            (\<lambda>u a. a\<lparr>iso1PowerDeliveryReq_DC_EVPowerDeliveryParameter := u\<rparr>)))),
          (2, decode_child 3
            (decode_used (\<lambda>a. a\<lparr>iso1PowerDeliveryReq_EVPowerDeliveryParameter_isUsed := True\<rparr>)
            (decode_sub (decode_iso1EVPowerDeliveryParameterType j) iso1PowerDeliveryReq_EVPowerDeliveryParameter
            (\<lambda>u a. a\<lparr>iso1PowerDeliveryReq_EVPowerDeliveryParameter := u\<rparr>)))),
          (3, decode_end 4)] 12 x s
      else if grammarID = 13 then
        decode_switch 2
         [(0, decode_child 3
           (decode_used (\<lambda>a. a\<lparr>iso1PowerDeliveryReq_DC_EVPowerDeliveryParameter_isUsed := True\<rparr>)
           (decode_sub (decode_iso1DC_EVPowerDeliveryParameterType j) iso1PowerDeliveryReq_DC_EVPowerDeliveryParameter
           (\<lambda>u a. a\<lparr>iso1PowerDeliveryReq_DC_EVPowerDeliveryParameter := u\<rparr>)))),
          (1, decode_child 3
            (decode_used (\<lambda>a. a\<lparr>iso1PowerDeliveryReq_EVPowerDeliveryParameter_isUsed := True\<rparr>)
            (decode_sub (decode_iso1EVPowerDeliveryParameterType j) iso1PowerDeliveryReq_EVPowerDeliveryParameter
            (\<lambda>u a. a\<lparr>iso1PowerDeliveryReq_EVPowerDeliveryParameter := u\<rparr>)))),
          (2, decode_end 4)] 13 x s
      else if grammarID = 3 then
        decode_switch 1
         [(0, decode_end 4)] 3 x s
      else Some (EXI_ERROR_UNKOWN_GRAMMAR_ID, (False, grammarID, x), s))"

definition decode_iso1PowerDeliveryReqType :: "u32 \<Rightarrow> iso1PowerDeliveryReqType decoder" where
  "decode_iso1PowerDeliveryReqType j x s = grammar_loop (iso1PowerDeliveryReq_dec_step j) 10
      (fst x, init_iso1PowerDeliveryReqType (snd x)) s"

definition iso1PowerDeliveryReq_ok :: "iso1PowerDeliveryReqType \<Rightarrow> bool" where
  "iso1PowerDeliveryReq_ok v \<longleftrightarrow>
     iso1PowerDeliveryReq_ChargeProgress v < 4 \<and>
     ucast (iso1PowerDeliveryReq_SAScheduleTupleID v) - 1 < (2 ^ 8 :: u32) \<and>
     when_used (iso1PowerDeliveryReq_ChargingProfile_isUsed v)
       (iso1ChargingProfile_ok (iso1PowerDeliveryReq_ChargingProfile v)) \<and>
     when_used (iso1PowerDeliveryReq_DC_EVPowerDeliveryParameter_isUsed v)
       (iso1DC_EVPowerDeliveryParameter_ok (iso1PowerDeliveryReq_DC_EVPowerDeliveryParameter v)) \<and>
     when_used (iso1PowerDeliveryReq_EVPowerDeliveryParameter_isUsed v)
       (iso1PowerDeliveryReq_ChargingProfile_isUsed v) \<and>
     exclusive [iso1PowerDeliveryReq_DC_EVPowerDeliveryParameter_isUsed v,
       iso1PowerDeliveryReq_EVPowerDeliveryParameter_isUsed v]"

definition iso1PowerDeliveryReq_sized :: "iso1PowerDeliveryReqType \<Rightarrow> bool" where
  "iso1PowerDeliveryReq_sized a \<longleftrightarrow>
     iso1ChargingProfile_sized (iso1PowerDeliveryReq_ChargingProfile a)"

definition same_iso1PowerDeliveryReq :: "iso1PowerDeliveryReqType \<Rightarrow> iso1PowerDeliveryReqType \<Rightarrow>
    bool" where
  "same_iso1PowerDeliveryReq v a \<longleftrightarrow>
     iso1PowerDeliveryReq_ChargeProgress a = iso1PowerDeliveryReq_ChargeProgress v \<and>
     iso1PowerDeliveryReq_SAScheduleTupleID a = iso1PowerDeliveryReq_SAScheduleTupleID v \<and>
     kept (iso1PowerDeliveryReq_ChargingProfile_isUsed v) (iso1PowerDeliveryReq_ChargingProfile_isUsed a)
       (same_iso1ChargingProfile (iso1PowerDeliveryReq_ChargingProfile v) (iso1PowerDeliveryReq_ChargingProfile a))
       \<and>
     kept (iso1PowerDeliveryReq_DC_EVPowerDeliveryParameter_isUsed v)
       (iso1PowerDeliveryReq_DC_EVPowerDeliveryParameter_isUsed a)
       (same_iso1DC_EVPowerDeliveryParameter (iso1PowerDeliveryReq_DC_EVPowerDeliveryParameter v)
       (iso1PowerDeliveryReq_DC_EVPowerDeliveryParameter a)) \<and>
     kept (iso1PowerDeliveryReq_EVPowerDeliveryParameter_isUsed v)
       (iso1PowerDeliveryReq_EVPowerDeliveryParameter_isUsed a)
       (same_iso1EVPowerDeliveryParameter (iso1PowerDeliveryReq_EVPowerDeliveryParameter v)
       (iso1PowerDeliveryReq_EVPowerDeliveryParameter a))"

definition iso1PowerDeliveryReq_at :: "iso1PowerDeliveryReqType \<Rightarrow> nat \<Rightarrow>
    iso1PowerDeliveryReqType \<Rightarrow> bool" where
  "iso1PowerDeliveryReq_at v g a \<longleftrightarrow>
     iso1PowerDeliveryReq_ok v \<and>
     g \<in> {10, 11, 12, 13, 3} \<and>
     iso1PowerDeliveryReq_sized a \<and>
     (g \<notin> {10} \<longrightarrow> iso1PowerDeliveryReq_ChargeProgress a = iso1PowerDeliveryReq_ChargeProgress v)
       \<and>
     (g \<notin> {10, 11} \<longrightarrow> iso1PowerDeliveryReq_SAScheduleTupleID
       a = iso1PowerDeliveryReq_SAScheduleTupleID v) \<and>
     (if g \<in> {10, 11, 12} then \<not> iso1PowerDeliveryReq_ChargingProfile_isUsed a
      else kept (iso1PowerDeliveryReq_ChargingProfile_isUsed v) (iso1PowerDeliveryReq_ChargingProfile_isUsed a)
        (same_iso1ChargingProfile (iso1PowerDeliveryReq_ChargingProfile v) (iso1PowerDeliveryReq_ChargingProfile a)))
        \<and>
     (if g \<in> {10, 11, 12, 13} then \<not> iso1PowerDeliveryReq_DC_EVPowerDeliveryParameter_isUsed a
      else kept (iso1PowerDeliveryReq_DC_EVPowerDeliveryParameter_isUsed v)
        (iso1PowerDeliveryReq_DC_EVPowerDeliveryParameter_isUsed a)
        (same_iso1DC_EVPowerDeliveryParameter (iso1PowerDeliveryReq_DC_EVPowerDeliveryParameter v)
        (iso1PowerDeliveryReq_DC_EVPowerDeliveryParameter a))) \<and>
     (if g \<in> {10, 11, 12, 13} then \<not> iso1PowerDeliveryReq_EVPowerDeliveryParameter_isUsed a
      else kept (iso1PowerDeliveryReq_EVPowerDeliveryParameter_isUsed v)
        (iso1PowerDeliveryReq_EVPowerDeliveryParameter_isUsed a)
        (same_iso1EVPowerDeliveryParameter (iso1PowerDeliveryReq_EVPowerDeliveryParameter v)
        (iso1PowerDeliveryReq_EVPowerDeliveryParameter a)))"

definition iso1PowerDeliveryReq_bits :: "iso1PowerDeliveryReqType \<Rightarrow> nat" where
  "iso1PowerDeliveryReq_bits v =
     (5 + (11 + (if iso1PowerDeliveryReq_ChargingProfile_isUsed v then
       2261 + (if iso1PowerDeliveryReq_DC_EVPowerDeliveryParameter_isUsed v then 36
     else if iso1PowerDeliveryReq_EVPowerDeliveryParameter_isUsed v then 4 else 2)
     else if iso1PowerDeliveryReq_DC_EVPowerDeliveryParameter_isUsed v then 37
     else if iso1PowerDeliveryReq_EVPowerDeliveryParameter_isUsed v then 5 else 3)))"

lemmas iso1PowerDeliveryReq_steps = iso1PowerDeliveryReq_enc_step_def
  iso1PowerDeliveryReq_dec_step_def

lemmas iso1PowerDeliveryReq_props = iso1PowerDeliveryReq_at_def iso1PowerDeliveryReq_sized_def
    same_iso1PowerDeliveryReq_def left_at_def iso1PowerDeliveryReq_bits_def

interpretation iso1PowerDeliveryReq: paired_machines "iso1PowerDeliveryReq_enc_step v" "iso1PowerDeliveryReq_dec_step
    j" "iso1PowerDeliveryReq_at v"
  "left_at [(10, iso1PowerDeliveryReq_bits v),
      (11, 11 + (if iso1PowerDeliveryReq_ChargingProfile_isUsed v then
      2261 + (if iso1PowerDeliveryReq_DC_EVPowerDeliveryParameter_isUsed v then
      36 else if iso1PowerDeliveryReq_EVPowerDeliveryParameter_isUsed v then 4 else 2) else if
      iso1PowerDeliveryReq_DC_EVPowerDeliveryParameter_isUsed v then
      37 else if iso1PowerDeliveryReq_EVPowerDeliveryParameter_isUsed v then 5 else 3)),
      (12, if iso1PowerDeliveryReq_ChargingProfile_isUsed v then
      2261 + (if iso1PowerDeliveryReq_DC_EVPowerDeliveryParameter_isUsed v then
      36 else if iso1PowerDeliveryReq_EVPowerDeliveryParameter_isUsed v then 4 else 2) else if
      iso1PowerDeliveryReq_DC_EVPowerDeliveryParameter_isUsed v then
      37 else if iso1PowerDeliveryReq_EVPowerDeliveryParameter_isUsed v then 5 else 3),
      (13, if iso1PowerDeliveryReq_DC_EVPowerDeliveryParameter_isUsed v then
      36 else if iso1PowerDeliveryReq_EVPowerDeliveryParameter_isUsed v then 4 else 2), (3, 1)]" "\<lambda>a.
      same_iso1PowerDeliveryReq v a \<and> iso1PowerDeliveryReq_sized a" for v j
proof
  fix g a assume at: "iso1PowerDeliveryReq_at v g a"
  then have "g \<in> {10, 11, 12, 13, 3}" by (simp add: iso1PowerDeliveryReq_at_def)
  then show "hops (iso1PowerDeliveryReq_enc_step v) (iso1PowerDeliveryReq_dec_step j) (iso1PowerDeliveryReq_at v)
    (left_at [(10, iso1PowerDeliveryReq_bits v),
      (11, 11 + (if iso1PowerDeliveryReq_ChargingProfile_isUsed v then
      2261 + (if iso1PowerDeliveryReq_DC_EVPowerDeliveryParameter_isUsed v then
      36 else if iso1PowerDeliveryReq_EVPowerDeliveryParameter_isUsed v then 4 else 2) else if
      iso1PowerDeliveryReq_DC_EVPowerDeliveryParameter_isUsed v then
      37 else if iso1PowerDeliveryReq_EVPowerDeliveryParameter_isUsed v then 5 else 3)),
      (12, if iso1PowerDeliveryReq_ChargingProfile_isUsed v then
      2261 + (if iso1PowerDeliveryReq_DC_EVPowerDeliveryParameter_isUsed v then
      36 else if iso1PowerDeliveryReq_EVPowerDeliveryParameter_isUsed v then 4 else 2) else if
      iso1PowerDeliveryReq_DC_EVPowerDeliveryParameter_isUsed v then
      37 else if iso1PowerDeliveryReq_EVPowerDeliveryParameter_isUsed v then 5 else 3),
      (13, if iso1PowerDeliveryReq_DC_EVPowerDeliveryParameter_isUsed v then
      36 else if iso1PowerDeliveryReq_EVPowerDeliveryParameter_isUsed v then 4 else 2), (3, 1)])
      (\<lambda>a. same_iso1PowerDeliveryReq v a \<and> iso1PowerDeliveryReq_sized a) g a" using at
    by - (elim insertE emptyE; (hypsubst, rule hops_by, simp (no_asm) add: iso1PowerDeliveryReq_steps del:
      One_nat_def,
      simp (no_asm) add: iso1PowerDeliveryReq_steps del: One_nat_def, simp (asm_lr) add: iso1PowerDeliveryReq_props
        del: One_nat_def split del: if_split, (elim conjE)?,
      ((rule walks_ifs)+)?); (frule iso1PowerDeliveryReq_ok_def [THEN iffD1], ((drule (1) known)+)?, (elim conjE)?,
        ((drule (1) known)+)?, (elim conjE)?,
      (((rule walks_shapes, simp (no_asm) del: One_nat_def, ((rule reads_intros)+)?);
      ((elim exE conjE)?,
        ((simp (no_asm_simp) add: iso1PowerDeliveryReq_props; fail) |
        (simp (asm_lr) add: iso1PowerDeliveryReq_props; fail) | (auto simp: iso1PowerDeliveryReq_props; fail)))) |
        (erule (1) notE; fail) |
        ((elim exE conjE)?,
        ((simp (no_asm_simp) add: iso1PowerDeliveryReq_props; fail) |
        (simp (asm_lr) add: iso1PowerDeliveryReq_props; fail) | (auto simp: iso1PowerDeliveryReq_props; fail))))))
qed

lemma reads_iso1PowerDeliveryReq [reads_intros]:
  "iso1PowerDeliveryReq_ok v \<Longrightarrow> iso1PowerDeliveryReq_sized a \<Longrightarrow>
      reads (iso1PowerDeliveryReq_bits v) (\<lambda>s. encode_iso1PowerDeliveryReqType s v)
      (decode_iso1PowerDeliveryReqType j) a (\<lambda>a. same_iso1PowerDeliveryReq v a \<and>
      iso1PowerDeliveryReq_sized a)"
  unfolding encode_iso1PowerDeliveryReqType_def decode_iso1PowerDeliveryReqType_def [abs_def]
  by (rule reads_start [OF iso1PowerDeliveryReq.machine_reads, of _ 10, THEN reads_mono])
      (auto simp: iso1PowerDeliveryReq_at_def iso1PowerDeliveryReq_sized_def init_iso1PowerDeliveryReqType_def
      left_at_def)

interpretation iso1PowerDeliveryReq_enc: advancing_machine "iso1PowerDeliveryReq_enc_step v" "left_at
    [(10, 5), (11, 4), (12, 3), (13, 2), (3, 1)]" for v
  by unfold_locales (auto simp: iso1PowerDeliveryReq_steps dest!: advance_dests split: if_splits;
      simp add: left_at_def)

interpretation iso1PowerDeliveryReq_dec: advancing_machine "iso1PowerDeliveryReq_dec_step j" "left_at
    [(10, 5), (11, 4), (12, 3), (13, 2), (3, 1)]" for j
  by unfold_locales (auto simp: iso1PowerDeliveryReq_steps dest!: advance_dests elim!: decode_switch_next
      split: if_splits;
      simp add: left_at_def)

subsection \<open>\<open>iso1PowerDeliveryResType\<close>\<close>

record iso1PowerDeliveryResType =
  iso1PowerDeliveryRes_ResponseCode :: u32
  iso1PowerDeliveryRes_EVSEStatus :: iso1EVSEStatusType
  iso1PowerDeliveryRes_EVSEStatus_isUsed :: bool
  iso1PowerDeliveryRes_AC_EVSEStatus :: iso1AC_EVSEStatusType
  iso1PowerDeliveryRes_AC_EVSEStatus_isUsed :: bool
  iso1PowerDeliveryRes_DC_EVSEStatus :: iso1DC_EVSEStatusType
  iso1PowerDeliveryRes_DC_EVSEStatus_isUsed :: bool

definition init_iso1PowerDeliveryResType :: "iso1PowerDeliveryResType \<Rightarrow> iso1PowerDeliveryResType" where
  "init_iso1PowerDeliveryResType a = a\<lparr>iso1PowerDeliveryRes_EVSEStatus_isUsed := False,
      iso1PowerDeliveryRes_AC_EVSEStatus_isUsed := False, iso1PowerDeliveryRes_DC_EVSEStatus_isUsed := False\<rparr>"

definition iso1PowerDeliveryRes_enc_step :: "iso1PowerDeliveryResType \<Rightarrow> unit machine" where
  "iso1PowerDeliveryRes_enc_step v grammarID x s =
     (if grammarID = 93 then
        goto 94 x (encode_simple 1 0 (\<lambda>s. encodeNBitUnsignedInteger s 5 (iso1PowerDeliveryRes_ResponseCode v))
          s)
      else if grammarID = 94 then
        if iso1PowerDeliveryRes_AC_EVSEStatus_isUsed v then
          goto 3 x (encode_child 2 0
          (\<lambda>s. encode_iso1AC_EVSEStatusType s (iso1PowerDeliveryRes_AC_EVSEStatus v)) s)
        else if iso1PowerDeliveryRes_DC_EVSEStatus_isUsed v then
          goto 3 x (encode_child 2 1
          (\<lambda>s. encode_iso1DC_EVSEStatusType s (iso1PowerDeliveryRes_DC_EVSEStatus v)) s)
        else if iso1PowerDeliveryRes_EVSEStatus_isUsed v then
          goto 3 x (encode_child 2 2 (\<lambda>s. encode_iso1EVSEStatusType s (iso1PowerDeliveryRes_EVSEStatus v)) s)
        else Some (EXI_ERROR_UNKOWN_EVENT, (False, grammarID, x), s)
      else if grammarID = 3 then
        finish 4 x (encodeNBitUnsignedInteger s 1 0)
      else Some (EXI_ERROR_UNKOWN_GRAMMAR_ID, (False, grammarID, x), s))"

definition encode_iso1PowerDeliveryResType :: "bitstream \<Rightarrow> iso1PowerDeliveryResType \<Rightarrow>
    (errn \<times> bitstream) option" where
  "encode_iso1PowerDeliveryResType s v = run_encoder (iso1PowerDeliveryRes_enc_step v) 93 () s"

definition iso1PowerDeliveryRes_dec_step :: "u32 \<Rightarrow> (dec_static \<times> iso1PowerDeliveryResType) machine"
    where
  "iso1PowerDeliveryRes_dec_step j grammarID x s =
     (if grammarID = 93 then
        decode_switch 1
         [(0, decode_simple 93 94
           (decode_nbit_field 5 (\<lambda>u a. a\<lparr>iso1PowerDeliveryRes_ResponseCode := u\<rparr>)))] 93 x s
      else if grammarID = 94 then
        decode_switch 2
         [(0, decode_child 3
           (decode_used (\<lambda>a. a\<lparr>iso1PowerDeliveryRes_AC_EVSEStatus_isUsed := True\<rparr>)
           (decode_sub (decode_iso1AC_EVSEStatusType j) iso1PowerDeliveryRes_AC_EVSEStatus
           (\<lambda>u a. a\<lparr>iso1PowerDeliveryRes_AC_EVSEStatus := u\<rparr>)))),
          (1, decode_child 3
            (decode_used (\<lambda>a. a\<lparr>iso1PowerDeliveryRes_DC_EVSEStatus_isUsed := True\<rparr>)
            (decode_sub (decode_iso1DC_EVSEStatusType j) iso1PowerDeliveryRes_DC_EVSEStatus
            (\<lambda>u a. a\<lparr>iso1PowerDeliveryRes_DC_EVSEStatus := u\<rparr>)))),
          (2, decode_child 3
            (decode_used (\<lambda>a. a\<lparr>iso1PowerDeliveryRes_EVSEStatus_isUsed := True\<rparr>)
            (decode_sub (decode_iso1EVSEStatusType j) iso1PowerDeliveryRes_EVSEStatus
            (\<lambda>u a. a\<lparr>iso1PowerDeliveryRes_EVSEStatus := u\<rparr>))))] 94 x s
      else if grammarID = 3 then
        decode_switch 1
         [(0, decode_end 4)] 3 x s
      else Some (EXI_ERROR_UNKOWN_GRAMMAR_ID, (False, grammarID, x), s))"

definition decode_iso1PowerDeliveryResType :: "u32 \<Rightarrow> iso1PowerDeliveryResType decoder" where
  "decode_iso1PowerDeliveryResType j x s = grammar_loop (iso1PowerDeliveryRes_dec_step j) 93
      (fst x, init_iso1PowerDeliveryResType (snd x)) s"

definition iso1PowerDeliveryRes_ok :: "iso1PowerDeliveryResType \<Rightarrow> bool" where
  "iso1PowerDeliveryRes_ok v \<longleftrightarrow>
     iso1PowerDeliveryRes_ResponseCode v < 32 \<and>
     when_used (iso1PowerDeliveryRes_AC_EVSEStatus_isUsed v)
       (iso1AC_EVSEStatus_ok (iso1PowerDeliveryRes_AC_EVSEStatus v)) \<and>
     when_used (iso1PowerDeliveryRes_DC_EVSEStatus_isUsed v)
       (iso1DC_EVSEStatus_ok (iso1PowerDeliveryRes_DC_EVSEStatus v)) \<and>
     when_used (iso1PowerDeliveryRes_EVSEStatus_isUsed v) (iso1EVSEStatus_ok (iso1PowerDeliveryRes_EVSEStatus v))
       \<and>
     exclusive [iso1PowerDeliveryRes_AC_EVSEStatus_isUsed v, iso1PowerDeliveryRes_DC_EVSEStatus_isUsed v,
       iso1PowerDeliveryRes_EVSEStatus_isUsed v] \<and>
     some_of [iso1PowerDeliveryRes_AC_EVSEStatus_isUsed v, iso1PowerDeliveryRes_DC_EVSEStatus_isUsed v,
       iso1PowerDeliveryRes_EVSEStatus_isUsed v]"

definition same_iso1PowerDeliveryRes :: "iso1PowerDeliveryResType \<Rightarrow> iso1PowerDeliveryResType \<Rightarrow>
    bool" where
  "same_iso1PowerDeliveryRes v a \<longleftrightarrow>
     iso1PowerDeliveryRes_ResponseCode a = iso1PowerDeliveryRes_ResponseCode v \<and>
     kept (iso1PowerDeliveryRes_AC_EVSEStatus_isUsed v) (iso1PowerDeliveryRes_AC_EVSEStatus_isUsed a)
       (same_iso1AC_EVSEStatus (iso1PowerDeliveryRes_AC_EVSEStatus v) (iso1PowerDeliveryRes_AC_EVSEStatus a)) \<and>
     kept (iso1PowerDeliveryRes_DC_EVSEStatus_isUsed v) (iso1PowerDeliveryRes_DC_EVSEStatus_isUsed a)
       (same_iso1DC_EVSEStatus (iso1PowerDeliveryRes_DC_EVSEStatus v) (iso1PowerDeliveryRes_DC_EVSEStatus a)) \<and>
     kept (iso1PowerDeliveryRes_EVSEStatus_isUsed v) (iso1PowerDeliveryRes_EVSEStatus_isUsed a)
       (same_iso1EVSEStatus (iso1PowerDeliveryRes_EVSEStatus v) (iso1PowerDeliveryRes_EVSEStatus a))"

definition iso1PowerDeliveryRes_at :: "iso1PowerDeliveryResType \<Rightarrow> nat \<Rightarrow>
    iso1PowerDeliveryResType \<Rightarrow> bool" where
  "iso1PowerDeliveryRes_at v g a \<longleftrightarrow>
     iso1PowerDeliveryRes_ok v \<and>
     g \<in> {93, 94, 3} \<and>
     (g \<notin> {93} \<longrightarrow> iso1PowerDeliveryRes_ResponseCode a = iso1PowerDeliveryRes_ResponseCode v)
       \<and>
     (if g \<in> {93, 94} then \<not> iso1PowerDeliveryRes_AC_EVSEStatus_isUsed a
      else kept (iso1PowerDeliveryRes_AC_EVSEStatus_isUsed v) (iso1PowerDeliveryRes_AC_EVSEStatus_isUsed a)
        (same_iso1AC_EVSEStatus (iso1PowerDeliveryRes_AC_EVSEStatus v) (iso1PowerDeliveryRes_AC_EVSEStatus a))) \<and>
     (if g \<in> {93, 94} then \<not> iso1PowerDeliveryRes_DC_EVSEStatus_isUsed a
      else kept (iso1PowerDeliveryRes_DC_EVSEStatus_isUsed v) (iso1PowerDeliveryRes_DC_EVSEStatus_isUsed a)
        (same_iso1DC_EVSEStatus (iso1PowerDeliveryRes_DC_EVSEStatus v) (iso1PowerDeliveryRes_DC_EVSEStatus a))) \<and>
     (if g \<in> {93, 94} then \<not> iso1PowerDeliveryRes_EVSEStatus_isUsed a
      else kept (iso1PowerDeliveryRes_EVSEStatus_isUsed v) (iso1PowerDeliveryRes_EVSEStatus_isUsed a)
        (same_iso1EVSEStatus (iso1PowerDeliveryRes_EVSEStatus v) (iso1PowerDeliveryRes_EVSEStatus a)))"

lemmas iso1PowerDeliveryRes_steps = iso1PowerDeliveryRes_enc_step_def
  iso1PowerDeliveryRes_dec_step_def

lemmas iso1PowerDeliveryRes_props = iso1PowerDeliveryRes_at_def same_iso1PowerDeliveryRes_def left_at_def

interpretation iso1PowerDeliveryRes: paired_machines "iso1PowerDeliveryRes_enc_step v" "iso1PowerDeliveryRes_dec_step
    j" "iso1PowerDeliveryRes_at v"
  "left_at [(93, 58), (94, 50), (3, 1)]" "same_iso1PowerDeliveryRes v" for v j
proof
  fix g a assume at: "iso1PowerDeliveryRes_at v g a"
  then have "g \<in> {93, 94, 3}" by (simp add: iso1PowerDeliveryRes_at_def)
  then show "hops (iso1PowerDeliveryRes_enc_step v) (iso1PowerDeliveryRes_dec_step j) (iso1PowerDeliveryRes_at v)
    (left_at [(93, 58), (94, 50), (3, 1)]) (same_iso1PowerDeliveryRes v) g a" using at
    by - (elim insertE emptyE; (hypsubst, rule hops_by, simp (no_asm) add: iso1PowerDeliveryRes_steps del:
      One_nat_def,
      simp (no_asm) add: iso1PowerDeliveryRes_steps del: One_nat_def, simp (asm_lr) add: iso1PowerDeliveryRes_props
        del: One_nat_def, (elim conjE)?,
      ((rule walks_ifs)+)?); (frule iso1PowerDeliveryRes_ok_def [THEN iffD1], ((drule (1) known)+)?, (elim conjE)?,
        ((drule (1) known)+)?, (elim conjE)?,
      (((rule walks_shapes, simp (no_asm) del: One_nat_def, ((rule reads_intros)+)?);
      ((elim exE conjE)?,
        ((simp (no_asm_simp) add: iso1PowerDeliveryRes_props; fail) |
        (simp (asm_lr) add: iso1PowerDeliveryRes_props; fail) | (auto simp: iso1PowerDeliveryRes_props; fail)))) |
        (erule (1) notE; fail) |
        ((elim exE conjE)?,
        ((simp (no_asm_simp) add: iso1PowerDeliveryRes_props; fail) |
        (simp (asm_lr) add: iso1PowerDeliveryRes_props; fail) | (auto simp: iso1PowerDeliveryRes_props; fail))))))
qed

lemma reads_iso1PowerDeliveryRes [reads_intros]:
  "iso1PowerDeliveryRes_ok v \<Longrightarrow> reads 58 (\<lambda>s. encode_iso1PowerDeliveryResType s v)
      (decode_iso1PowerDeliveryResType j) a (same_iso1PowerDeliveryRes v)"
  unfolding encode_iso1PowerDeliveryResType_def decode_iso1PowerDeliveryResType_def [abs_def]
  by (rule reads_start [OF iso1PowerDeliveryRes.machine_reads, of _ 93, THEN reads_mono])
      (auto simp: iso1PowerDeliveryRes_at_def  init_iso1PowerDeliveryResType_def left_at_def)

interpretation iso1PowerDeliveryRes_enc: advancing_machine "iso1PowerDeliveryRes_enc_step v" "left_at
    [(93, 3), (94, 2), (3, 1)]" for v
  by unfold_locales (auto simp: iso1PowerDeliveryRes_steps dest!: advance_dests split: if_splits;
      simp add: left_at_def)

interpretation iso1PowerDeliveryRes_dec: advancing_machine "iso1PowerDeliveryRes_dec_step j" "left_at
    [(93, 3), (94, 2), (3, 1)]" for j
  by unfold_locales (auto simp: iso1PowerDeliveryRes_steps dest!: advance_dests elim!: decode_switch_next
      split: if_splits;
      simp add: left_at_def)

end
