(* ===== verification/Iso1Charging.thy ===== *)
theory Iso1Charging
  imports Iso1Values
begin

section \<open>ISO 15118 codec: the charging loops and the end of a session\<close>

text \<open>
  The messages of AC and DC charging from the cable check to the welding detection, metering receipts,
  and the end of the session, in the form explained in \<open>Iso1Values\<close>.
\<close>

subsection \<open>\<open>iso1ChargingStatusReqType\<close>\<close>

record iso1ChargingStatusReqType =
  iso1ChargingStatusReq_noContent :: int

definition init_iso1ChargingStatusReqType :: "iso1ChargingStatusReqType \<Rightarrow> iso1ChargingStatusReqType" where
  "init_iso1ChargingStatusReqType a = a"

definition iso1ChargingStatusReq_enc_step :: "iso1ChargingStatusReqType \<Rightarrow> unit machine" where
  "iso1ChargingStatusReq_enc_step v grammarID x s =
     (if grammarID = 34 then
        finish 4 x (encodeNBitUnsignedInteger s 1 0)
      else Some (EXI_ERROR_UNKOWN_GRAMMAR_ID, (False, grammarID, x), s))"

definition encode_iso1ChargingStatusReqType :: "bitstream \<Rightarrow> iso1ChargingStatusReqType \<Rightarrow>
    (errn \<times> bitstream) option" where
  "encode_iso1ChargingStatusReqType s v = run_encoder (iso1ChargingStatusReq_enc_step v) 34 () s"

definition iso1ChargingStatusReq_dec_step :: "u32 \<Rightarrow> (dec_static \<times> iso1ChargingStatusReqType)
    machine" where
  "iso1ChargingStatusReq_dec_step j grammarID x s =
     (if grammarID = 34 then
        decode_switch 1
         [(0, decode_end 4)] 34 x s
      else Some (EXI_ERROR_UNKOWN_GRAMMAR_ID, (False, grammarID, x), s))"

definition decode_iso1ChargingStatusReqType :: "u32 \<Rightarrow> iso1ChargingStatusReqType decoder" where
  "decode_iso1ChargingStatusReqType j x s = grammar_loop (iso1ChargingStatusReq_dec_step j) 34
      (fst x, init_iso1ChargingStatusReqType (snd x)) s"

definition same_iso1ChargingStatusReq :: "iso1ChargingStatusReqType \<Rightarrow> iso1ChargingStatusReqType
    \<Rightarrow> bool" where
  "same_iso1ChargingStatusReq v a \<longleftrightarrow>
     True"

definition iso1ChargingStatusReq_at :: "iso1ChargingStatusReqType \<Rightarrow> nat \<Rightarrow>
    iso1ChargingStatusReqType \<Rightarrow> bool" where
  "iso1ChargingStatusReq_at v g a \<longleftrightarrow>
     g \<in> {34}"

lemmas iso1ChargingStatusReq_steps = iso1ChargingStatusReq_enc_step_def
  iso1ChargingStatusReq_dec_step_def

lemmas iso1ChargingStatusReq_props = iso1ChargingStatusReq_at_def same_iso1ChargingStatusReq_def left_at_def

interpretation iso1ChargingStatusReq: paired_machines "iso1ChargingStatusReq_enc_step v"
    "iso1ChargingStatusReq_dec_step j" "iso1ChargingStatusReq_at v"
  "left_at [(34, 1)]" "same_iso1ChargingStatusReq v" for v j
proof
  fix g a assume at: "iso1ChargingStatusReq_at v g a"
  then have "g \<in> {34}" by (simp add: iso1ChargingStatusReq_at_def)
  then show "hops (iso1ChargingStatusReq_enc_step v) (iso1ChargingStatusReq_dec_step j) (iso1ChargingStatusReq_at v)
    (left_at [(34, 1)]) (same_iso1ChargingStatusReq v) g a" using at
    by - (elim insertE emptyE; (hypsubst, rule hops_by, simp (no_asm) add: iso1ChargingStatusReq_steps del:
      One_nat_def,
      simp (no_asm) add: iso1ChargingStatusReq_steps del: One_nat_def, simp (asm_lr) add: iso1ChargingStatusReq_props
        del: One_nat_def, (elim conjE)?,
      ((rule walks_ifs)+)?); (((drule (1) known)+)?, (elim conjE)?, ((drule (1) known)+)?, (elim conjE)?,
      (((rule walks_shapes, simp (no_asm) del: One_nat_def, ((rule reads_intros)+)?);
      ((elim exE conjE)?,
        ((simp (no_asm_simp) add: iso1ChargingStatusReq_props; fail) |
        (simp (asm_lr) add: iso1ChargingStatusReq_props; fail) | (auto simp: iso1ChargingStatusReq_props; fail)))) |
        (erule (1) notE; fail) |
        ((elim exE conjE)?,
        ((simp (no_asm_simp) add: iso1ChargingStatusReq_props; fail) |
        (simp (asm_lr) add: iso1ChargingStatusReq_props; fail) | (auto simp: iso1ChargingStatusReq_props; fail))))))
qed

lemma reads_iso1ChargingStatusReq [reads_intros]:
  "reads 1 (\<lambda>s. encode_iso1ChargingStatusReqType s v) (decode_iso1ChargingStatusReqType j) a
      (same_iso1ChargingStatusReq v)"
  unfolding encode_iso1ChargingStatusReqType_def decode_iso1ChargingStatusReqType_def [abs_def]
  by (rule reads_start [OF iso1ChargingStatusReq.machine_reads, of _ 34, THEN reads_mono])
      (auto simp: iso1ChargingStatusReq_at_def  init_iso1ChargingStatusReqType_def left_at_def)

interpretation iso1ChargingStatusReq_enc: advancing_machine "iso1ChargingStatusReq_enc_step v" "left_at [(34, 1)]" for
    v
  by unfold_locales (auto simp: iso1ChargingStatusReq_steps dest!: advance_dests split: if_splits;
      simp add: left_at_def)

interpretation iso1ChargingStatusReq_dec: advancing_machine "iso1ChargingStatusReq_dec_step j" "left_at [(34, 1)]" for
    j
  by unfold_locales (auto simp: iso1ChargingStatusReq_steps dest!: advance_dests elim!: decode_switch_next
      split: if_splits;
      simp add: left_at_def)

subsection \<open>\<open>iso1ChargingStatusResType\<close>\<close>

record iso1ChargingStatusResType =
  iso1ChargingStatusRes_ResponseCode :: u32
  iso1ChargingStatusRes_EVSEID_characters :: "u8 list"
  iso1ChargingStatusRes_EVSEID_charactersLen :: u16
  iso1ChargingStatusRes_SAScheduleTupleID :: u8
  iso1ChargingStatusRes_EVSEMaxCurrent :: iso1PhysicalValueType
  iso1ChargingStatusRes_EVSEMaxCurrent_isUsed :: bool
  iso1ChargingStatusRes_MeterInfo :: iso1MeterInfoType
  iso1ChargingStatusRes_MeterInfo_isUsed :: bool
  iso1ChargingStatusRes_ReceiptRequired :: int
  iso1ChargingStatusRes_ReceiptRequired_isUsed :: bool
  iso1ChargingStatusRes_AC_EVSEStatus :: iso1AC_EVSEStatusType

definition init_iso1ChargingStatusResType :: "iso1ChargingStatusResType \<Rightarrow> iso1ChargingStatusResType" where
  "init_iso1ChargingStatusResType a = a\<lparr>iso1ChargingStatusRes_EVSEMaxCurrent_isUsed := False,
      iso1ChargingStatusRes_MeterInfo_isUsed := False, iso1ChargingStatusRes_ReceiptRequired_isUsed := False\<rparr>"

definition iso1ChargingStatusRes_enc_step :: "iso1ChargingStatusResType \<Rightarrow> unit machine" where
  "iso1ChargingStatusRes_enc_step v grammarID x s =
     (if grammarID = 144 then
        goto 145 x
          (encode_simple 1 0 (\<lambda>s. encodeNBitUnsignedInteger s 5 (iso1ChargingStatusRes_ResponseCode v)) s)
      else if grammarID = 145 then
        goto 146 x
          (encode_simple 1 0 (encode_string_field (iso1ChargingStatusRes_EVSEID_characters v)
          (iso1ChargingStatusRes_EVSEID_charactersLen v)) s)
      else if grammarID = 146 then
        goto 147 x
          (encode_simple 1 0
          (\<lambda>s. encodeNBitUnsignedInteger s 8 (ucast (iso1ChargingStatusRes_SAScheduleTupleID v) - 1)) s)
      else if grammarID = 147 then
        if iso1ChargingStatusRes_EVSEMaxCurrent_isUsed v then
          goto 148 x
          (encode_child 3 0 (\<lambda>s. encode_iso1PhysicalValueType s (iso1ChargingStatusRes_EVSEMaxCurrent v)) s)
        else if iso1ChargingStatusRes_MeterInfo_isUsed v then
          goto 149 x (encode_child 3 1 (\<lambda>s. encode_iso1MeterInfoType s (iso1ChargingStatusRes_MeterInfo v)) s)
        else if iso1ChargingStatusRes_ReceiptRequired_isUsed v then
          goto 150 x (encode_simple 3 2 (\<lambda>s. encodeBoolean s (iso1ChargingStatusRes_ReceiptRequired v)) s)
        else goto 3 x
          (encode_child 3 3 (\<lambda>s. encode_iso1AC_EVSEStatusType s (iso1ChargingStatusRes_AC_EVSEStatus v)) s)
      else if grammarID = 148 then
        if iso1ChargingStatusRes_MeterInfo_isUsed v then
          goto 149 x (encode_child 2 0 (\<lambda>s. encode_iso1MeterInfoType s (iso1ChargingStatusRes_MeterInfo v)) s)
        else if iso1ChargingStatusRes_ReceiptRequired_isUsed v then
          goto 150 x (encode_simple 2 1 (\<lambda>s. encodeBoolean s (iso1ChargingStatusRes_ReceiptRequired v)) s)
        else goto 3 x
          (encode_child 2 2 (\<lambda>s. encode_iso1AC_EVSEStatusType s (iso1ChargingStatusRes_AC_EVSEStatus v)) s)
      else if grammarID = 149 then
        if iso1ChargingStatusRes_ReceiptRequired_isUsed v then
          goto 150 x (encode_simple 2 0 (\<lambda>s. encodeBoolean s (iso1ChargingStatusRes_ReceiptRequired v)) s)
        else goto 3 x
          (encode_child 2 1 (\<lambda>s. encode_iso1AC_EVSEStatusType s (iso1ChargingStatusRes_AC_EVSEStatus v)) s)
      else if grammarID = 150 then
        goto 3 x (encode_child 1 0
          (\<lambda>s. encode_iso1AC_EVSEStatusType s (iso1ChargingStatusRes_AC_EVSEStatus v)) s)
      else if grammarID = 3 then
        finish 4 x (encodeNBitUnsignedInteger s 1 0)
      else Some (EXI_ERROR_UNKOWN_GRAMMAR_ID, (False, grammarID, x), s))"

definition encode_iso1ChargingStatusResType :: "bitstream \<Rightarrow> iso1ChargingStatusResType \<Rightarrow>
    (errn \<times> bitstream) option" where
  "encode_iso1ChargingStatusResType s v = run_encoder (iso1ChargingStatusRes_enc_step v) 144 () s"

definition iso1ChargingStatusRes_dec_step_3 :: "u32 \<Rightarrow> (dec_static \<times> iso1ChargingStatusResType)
    machine" where
  "iso1ChargingStatusRes_dec_step_3 j grammarID x s =
     (if grammarID = 3 then
        decode_switch 1
         [(0, decode_end 4)] 3 x s
      else Some (EXI_ERROR_UNKOWN_GRAMMAR_ID, (False, grammarID, x), s))"

definition iso1ChargingStatusRes_dec_step_2 :: "u32 \<Rightarrow> (dec_static \<times> iso1ChargingStatusResType)
    machine" where
  "iso1ChargingStatusRes_dec_step_2 j grammarID x s =
     (if grammarID = 147 then
        decode_switch 3
         [(0, decode_child 148
           (decode_used (\<lambda>a. a\<lparr>iso1ChargingStatusRes_EVSEMaxCurrent_isUsed := True\<rparr>)
           (decode_sub (decode_iso1PhysicalValueType j) iso1ChargingStatusRes_EVSEMaxCurrent
           (\<lambda>u a. a\<lparr>iso1ChargingStatusRes_EVSEMaxCurrent := u\<rparr>)))),
          (1, decode_child 149
            (decode_used (\<lambda>a. a\<lparr>iso1ChargingStatusRes_MeterInfo_isUsed := True\<rparr>)
            (decode_sub (decode_iso1MeterInfoType j) iso1ChargingStatusRes_MeterInfo
            (\<lambda>u a. a\<lparr>iso1ChargingStatusRes_MeterInfo := u\<rparr>)))),
          (2, decode_simple 147 150
            (decode_used (\<lambda>a. a\<lparr>iso1ChargingStatusRes_ReceiptRequired_isUsed := True\<rparr>)
            (decode_bool_field j (\<lambda>u a. a\<lparr>iso1ChargingStatusRes_ReceiptRequired := u\<rparr>)))),
          (3, decode_child 3 (decode_sub (decode_iso1AC_EVSEStatusType j) iso1ChargingStatusRes_AC_EVSEStatus
            (\<lambda>u a. a\<lparr>iso1ChargingStatusRes_AC_EVSEStatus := u\<rparr>)))] 147 x s
      else if grammarID = 148 then
        decode_switch 2
         [(0, decode_child 149
           (decode_used (\<lambda>a. a\<lparr>iso1ChargingStatusRes_MeterInfo_isUsed := True\<rparr>)
           (decode_sub (decode_iso1MeterInfoType j) iso1ChargingStatusRes_MeterInfo
           (\<lambda>u a. a\<lparr>iso1ChargingStatusRes_MeterInfo := u\<rparr>)))),
          (1, decode_simple 148 150
            (decode_used (\<lambda>a. a\<lparr>iso1ChargingStatusRes_ReceiptRequired_isUsed := True\<rparr>)
            (decode_bool_field j (\<lambda>u a. a\<lparr>iso1ChargingStatusRes_ReceiptRequired := u\<rparr>)))),
          (2, decode_child 3 (decode_sub (decode_iso1AC_EVSEStatusType j) iso1ChargingStatusRes_AC_EVSEStatus
            (\<lambda>u a. a\<lparr>iso1ChargingStatusRes_AC_EVSEStatus := u\<rparr>)))] 148 x s
      else if grammarID = 149 then
        decode_switch 2
         [(0, decode_simple 149 150
           (decode_used (\<lambda>a. a\<lparr>iso1ChargingStatusRes_ReceiptRequired_isUsed := True\<rparr>)
           (decode_bool_field j (\<lambda>u a. a\<lparr>iso1ChargingStatusRes_ReceiptRequired := u\<rparr>)))),
          (1, decode_child 3 (decode_sub (decode_iso1AC_EVSEStatusType j) iso1ChargingStatusRes_AC_EVSEStatus
            (\<lambda>u a. a\<lparr>iso1ChargingStatusRes_AC_EVSEStatus := u\<rparr>)))] 149 x s
      else if grammarID = 150 then
        decode_switch 1
         [(0, decode_child 3 (decode_sub (decode_iso1AC_EVSEStatusType j) iso1ChargingStatusRes_AC_EVSEStatus
           (\<lambda>u a. a\<lparr>iso1ChargingStatusRes_AC_EVSEStatus := u\<rparr>)))] 150 x s
      else iso1ChargingStatusRes_dec_step_3 j grammarID x s)"

definition iso1ChargingStatusRes_dec_step :: "u32 \<Rightarrow> (dec_static \<times> iso1ChargingStatusResType)
    machine" where
  "iso1ChargingStatusRes_dec_step j grammarID x s =
     (if grammarID = 144 then
        decode_switch 1
         [(0, decode_simple 144 145
           (decode_nbit_field 5 (\<lambda>u a. a\<lparr>iso1ChargingStatusRes_ResponseCode := u\<rparr>)))] 144 x s
      else if grammarID = 145 then
        decode_switch 1
         [(0, decode_simple 145 146 (decode_string_field j 38 iso1ChargingStatusRes_EVSEID_characters
           (\<lambda>u a. a\<lparr>iso1ChargingStatusRes_EVSEID_characters := u\<rparr>)
           (\<lambda>u a. a\<lparr>iso1ChargingStatusRes_EVSEID_charactersLen := u\<rparr>)))] 145 x s
      else if grammarID = 146 then
        decode_switch 1
         [(0, decode_simple 146 147
           (decode_nbit_field 8
           (\<lambda>u a. a\<lparr>iso1ChargingStatusRes_SAScheduleTupleID := ucast (u + 1)\<rparr>)))] 146 x s
      else iso1ChargingStatusRes_dec_step_2 j grammarID x s)"

definition decode_iso1ChargingStatusResType :: "u32 \<Rightarrow> iso1ChargingStatusResType decoder" where
  "decode_iso1ChargingStatusResType j x s = grammar_loop (iso1ChargingStatusRes_dec_step j) 144
      (fst x, init_iso1ChargingStatusResType (snd x)) s"

definition iso1ChargingStatusRes_ok :: "iso1ChargingStatusResType \<Rightarrow> bool" where
  "iso1ChargingStatusRes_ok v \<longleftrightarrow>
     iso1ChargingStatusRes_ResponseCode v < 32 \<and>
     string_ok 38 (iso1ChargingStatusRes_EVSEID_characters v) (iso1ChargingStatusRes_EVSEID_charactersLen v) \<and>
     ucast (iso1ChargingStatusRes_SAScheduleTupleID v) - 1 < (2 ^ 8 :: u32) \<and>
     when_used (iso1ChargingStatusRes_EVSEMaxCurrent_isUsed v)
       (iso1PhysicalValue_ok (iso1ChargingStatusRes_EVSEMaxCurrent v)) \<and>
     when_used (iso1ChargingStatusRes_MeterInfo_isUsed v) (iso1MeterInfo_ok (iso1ChargingStatusRes_MeterInfo v))
       \<and>
     iso1AC_EVSEStatus_ok (iso1ChargingStatusRes_AC_EVSEStatus v)"

definition iso1ChargingStatusRes_sized :: "iso1ChargingStatusResType \<Rightarrow> bool" where
  "iso1ChargingStatusRes_sized a \<longleftrightarrow>
     length (iso1ChargingStatusRes_EVSEID_characters a) = 38 \<and>
     iso1MeterInfo_sized (iso1ChargingStatusRes_MeterInfo a)"

definition same_iso1ChargingStatusRes :: "iso1ChargingStatusResType \<Rightarrow> iso1ChargingStatusResType
    \<Rightarrow> bool" where
  "same_iso1ChargingStatusRes v a \<longleftrightarrow>
     iso1ChargingStatusRes_ResponseCode a = iso1ChargingStatusRes_ResponseCode v \<and>
     iso1ChargingStatusRes_EVSEID_charactersLen a = iso1ChargingStatusRes_EVSEID_charactersLen v \<and>
       take (unat (iso1ChargingStatusRes_EVSEID_charactersLen v)) (iso1ChargingStatusRes_EVSEID_characters a) = take
       (unat (iso1ChargingStatusRes_EVSEID_charactersLen v)) (iso1ChargingStatusRes_EVSEID_characters v) \<and>
     iso1ChargingStatusRes_SAScheduleTupleID a = iso1ChargingStatusRes_SAScheduleTupleID v \<and>
     kept (iso1ChargingStatusRes_EVSEMaxCurrent_isUsed v) (iso1ChargingStatusRes_EVSEMaxCurrent_isUsed a)
       (same_iso1PhysicalValue (iso1ChargingStatusRes_EVSEMaxCurrent v) (iso1ChargingStatusRes_EVSEMaxCurrent a))
       \<and>
     kept (iso1ChargingStatusRes_MeterInfo_isUsed v) (iso1ChargingStatusRes_MeterInfo_isUsed a)
       (same_iso1MeterInfo (iso1ChargingStatusRes_MeterInfo v) (iso1ChargingStatusRes_MeterInfo a)) \<and>
     kept (iso1ChargingStatusRes_ReceiptRequired_isUsed v) (iso1ChargingStatusRes_ReceiptRequired_isUsed a)
       ((iso1ChargingStatusRes_ReceiptRequired a \<noteq> 0) = (iso1ChargingStatusRes_ReceiptRequired v \<noteq> 0))
       \<and>
     same_iso1AC_EVSEStatus (iso1ChargingStatusRes_AC_EVSEStatus v) (iso1ChargingStatusRes_AC_EVSEStatus a)"

definition iso1ChargingStatusRes_at :: "iso1ChargingStatusResType \<Rightarrow> nat \<Rightarrow>
    iso1ChargingStatusResType \<Rightarrow> bool" where
  "iso1ChargingStatusRes_at v g a \<longleftrightarrow>
     iso1ChargingStatusRes_ok v \<and>
     g \<in> {144, 145, 146, 147, 148, 149, 150, 3} \<and>
     iso1ChargingStatusRes_sized a \<and>
     (g \<notin> {144} \<longrightarrow> iso1ChargingStatusRes_ResponseCode a = iso1ChargingStatusRes_ResponseCode v)
       \<and>
     (g \<notin> {144, 145} \<longrightarrow> iso1ChargingStatusRes_EVSEID_charactersLen
       a = iso1ChargingStatusRes_EVSEID_charactersLen v \<and>
       take (unat (iso1ChargingStatusRes_EVSEID_charactersLen v)) (iso1ChargingStatusRes_EVSEID_characters a) = take
       (unat (iso1ChargingStatusRes_EVSEID_charactersLen v)) (iso1ChargingStatusRes_EVSEID_characters v)) \<and>
     (g \<notin> {144, 145, 146} \<longrightarrow> iso1ChargingStatusRes_SAScheduleTupleID
       a = iso1ChargingStatusRes_SAScheduleTupleID v) \<and>
     (if g \<in> {144, 145, 146, 147} then \<not> iso1ChargingStatusRes_EVSEMaxCurrent_isUsed a
      else kept (iso1ChargingStatusRes_EVSEMaxCurrent_isUsed v) (iso1ChargingStatusRes_EVSEMaxCurrent_isUsed a)
        (same_iso1PhysicalValue (iso1ChargingStatusRes_EVSEMaxCurrent v) (iso1ChargingStatusRes_EVSEMaxCurrent a)))
        \<and>
     (if g \<in> {144, 145, 146, 147, 148} then \<not> iso1ChargingStatusRes_MeterInfo_isUsed a
      else kept (iso1ChargingStatusRes_MeterInfo_isUsed v) (iso1ChargingStatusRes_MeterInfo_isUsed a)
        (same_iso1MeterInfo (iso1ChargingStatusRes_MeterInfo v) (iso1ChargingStatusRes_MeterInfo a))) \<and>
     (if g \<in> {144, 145, 146, 147, 148, 149} then \<not> iso1ChargingStatusRes_ReceiptRequired_isUsed a
      else kept (iso1ChargingStatusRes_ReceiptRequired_isUsed v) (iso1ChargingStatusRes_ReceiptRequired_isUsed a)
        ((iso1ChargingStatusRes_ReceiptRequired a \<noteq> 0) = (iso1ChargingStatusRes_ReceiptRequired v \<noteq> 0)))
        \<and>
     (g \<notin> {144, 145, 146, 147, 148, 149, 150} \<longrightarrow>
       same_iso1AC_EVSEStatus (iso1ChargingStatusRes_AC_EVSEStatus v) (iso1ChargingStatusRes_AC_EVSEStatus a))"

lemmas iso1ChargingStatusRes_steps = iso1ChargingStatusRes_enc_step_def
  iso1ChargingStatusRes_dec_step_def iso1ChargingStatusRes_dec_step_2_def iso1ChargingStatusRes_dec_step_3_def

lemmas iso1ChargingStatusRes_props = iso1ChargingStatusRes_at_def iso1ChargingStatusRes_sized_def
    same_iso1ChargingStatusRes_def left_at_def

interpretation iso1ChargingStatusRes: paired_machines "iso1ChargingStatusRes_enc_step v"
    "iso1ChargingStatusRes_dec_step j" "iso1ChargingStatusRes_at v"
  "left_at [(144, 1472), (145, 1464), (146, 1133), (147, 1122), (148, 1078), (149, 44), (150, 39), (3, 1)]"
      "\<lambda>a. same_iso1ChargingStatusRes v a \<and> iso1ChargingStatusRes_sized a" for v j
proof
  fix g a assume at: "iso1ChargingStatusRes_at v g a"
  then have "g \<in> {144, 145, 146, 147, 148, 149, 150, 3}" by (simp add: iso1ChargingStatusRes_at_def)
  then show "hops (iso1ChargingStatusRes_enc_step v) (iso1ChargingStatusRes_dec_step j) (iso1ChargingStatusRes_at v)
    (left_at [(144, 1472), (145, 1464), (146, 1133), (147, 1122), (148, 1078), (149, 44), (150, 39), (3, 1)])
      (\<lambda>a. same_iso1ChargingStatusRes v a \<and> iso1ChargingStatusRes_sized a) g a" using at
    by - (elim insertE emptyE; (hypsubst, rule hops_by, simp (no_asm) add: iso1ChargingStatusRes_steps del:
      One_nat_def,
      simp (no_asm) add: iso1ChargingStatusRes_steps del: One_nat_def, simp (asm_lr) add: iso1ChargingStatusRes_props
        del: One_nat_def, (elim conjE)?,
      ((rule walks_ifs)+)?); (frule iso1ChargingStatusRes_ok_def [THEN iffD1], ((drule (1) known)+)?, (elim conjE)?,
        ((drule (1) known)+)?, (elim conjE)?,
      (((rule walks_shapes, simp (no_asm) del: One_nat_def, ((rule reads_intros)+)?);
      ((elim exE conjE)?,
        ((simp (no_asm_simp) add: iso1ChargingStatusRes_props; fail) |
        (simp (asm_lr) add: iso1ChargingStatusRes_props; fail) | (auto simp: iso1ChargingStatusRes_props; fail)))) |
        (erule (1) notE; fail) |
        ((elim exE conjE)?,
        ((simp (no_asm_simp) add: iso1ChargingStatusRes_props; fail) |
        (simp (asm_lr) add: iso1ChargingStatusRes_props; fail) | (auto simp: iso1ChargingStatusRes_props; fail))))))
qed

lemma reads_iso1ChargingStatusRes [reads_intros]:
  "iso1ChargingStatusRes_ok v \<Longrightarrow> iso1ChargingStatusRes_sized a \<Longrightarrow>
      reads 1472 (\<lambda>s. encode_iso1ChargingStatusResType s v) (decode_iso1ChargingStatusResType j) a
      (\<lambda>a. same_iso1ChargingStatusRes v a \<and> iso1ChargingStatusRes_sized a)"
  unfolding encode_iso1ChargingStatusResType_def decode_iso1ChargingStatusResType_def [abs_def]
  by (rule reads_start [OF iso1ChargingStatusRes.machine_reads, of _ 144, THEN reads_mono])
      (auto simp: iso1ChargingStatusRes_at_def iso1ChargingStatusRes_sized_def init_iso1ChargingStatusResType_def
      left_at_def)

interpretation iso1ChargingStatusRes_enc: advancing_machine "iso1ChargingStatusRes_enc_step v" "left_at
    [(144, 8), (145, 7), (146, 6), (147, 5), (148, 4), (149, 3), (150, 2), (3, 1)]" for v
  by unfold_locales (auto simp: iso1ChargingStatusRes_steps dest!: advance_dests split: if_splits;
      simp add: left_at_def)

interpretation iso1ChargingStatusRes_dec: advancing_machine "iso1ChargingStatusRes_dec_step j" "left_at
    [(144, 8), (145, 7), (146, 6), (147, 5), (148, 4), (149, 3), (150, 2), (3, 1)]" for j
  by unfold_locales (auto simp: iso1ChargingStatusRes_steps dest!: advance_dests elim!: decode_switch_next
      split: if_splits;
      simp add: left_at_def)

subsection \<open>\<open>iso1MeteringReceiptReqType\<close>\<close>

record iso1MeteringReceiptReqType =
  iso1MeteringReceiptReq_Id_characters :: "u8 list"
  iso1MeteringReceiptReq_Id_charactersLen :: u16
  iso1MeteringReceiptReq_Id_isUsed :: bool
  iso1MeteringReceiptReq_SessionID_bytes :: "u8 list"
  iso1MeteringReceiptReq_SessionID_bytesLen :: u16
  iso1MeteringReceiptReq_SAScheduleTupleID :: u8
  iso1MeteringReceiptReq_SAScheduleTupleID_isUsed :: bool
  iso1MeteringReceiptReq_MeterInfo :: iso1MeterInfoType

definition init_iso1MeteringReceiptReqType :: "iso1MeteringReceiptReqType \<Rightarrow> iso1MeteringReceiptReqType"
    where
  "init_iso1MeteringReceiptReqType a = a\<lparr>iso1MeteringReceiptReq_Id_isUsed := False,
      iso1MeteringReceiptReq_SAScheduleTupleID_isUsed := False\<rparr>"

definition iso1MeteringReceiptReq_enc_step :: "iso1MeteringReceiptReqType \<Rightarrow> unit machine" where
  "iso1MeteringReceiptReq_enc_step v grammarID x s =
     (if grammarID = 166 then
        if iso1MeteringReceiptReq_Id_isUsed v then
          goto 167 x
          (encode_child 2 0
          (encode_string_field (iso1MeteringReceiptReq_Id_characters v) (iso1MeteringReceiptReq_Id_charactersLen v))
          s)
        else goto 168 x
          (encode_simple 2 1 (encode_bytes_field (iso1MeteringReceiptReq_SessionID_bytes v)
          (iso1MeteringReceiptReq_SessionID_bytesLen v)) s)
      else if grammarID = 167 then
        goto 168 x
          (encode_simple 1 0 (encode_bytes_field (iso1MeteringReceiptReq_SessionID_bytes v)
          (iso1MeteringReceiptReq_SessionID_bytesLen v)) s)
      else if grammarID = 168 then
        if iso1MeteringReceiptReq_SAScheduleTupleID_isUsed v then
          goto 169 x
          (encode_simple 2 0
          (\<lambda>s. encodeNBitUnsignedInteger s 8 (ucast (iso1MeteringReceiptReq_SAScheduleTupleID v) - 1)) s)
        else goto 3 x (encode_child 2 1 (\<lambda>s. encode_iso1MeterInfoType s (iso1MeteringReceiptReq_MeterInfo v))
          s)
      else if grammarID = 169 then
        goto 3 x (encode_child 1 0 (\<lambda>s. encode_iso1MeterInfoType s (iso1MeteringReceiptReq_MeterInfo v)) s)
      else if grammarID = 3 then
        finish 4 x (encodeNBitUnsignedInteger s 1 0)
      else Some (EXI_ERROR_UNKOWN_GRAMMAR_ID, (False, grammarID, x), s))"

definition encode_iso1MeteringReceiptReqType :: "bitstream \<Rightarrow> iso1MeteringReceiptReqType \<Rightarrow>
    (errn \<times> bitstream) option" where
  "encode_iso1MeteringReceiptReqType s v = run_encoder (iso1MeteringReceiptReq_enc_step v) 166 () s"

definition iso1MeteringReceiptReq_dec_step :: "u32 \<Rightarrow> (dec_static \<times> iso1MeteringReceiptReqType)
    machine" where
  "iso1MeteringReceiptReq_dec_step j grammarID x s =
     (if grammarID = 166 then
        decode_switch 2
         [(0, decode_child 167 (decode_used (\<lambda>a. a\<lparr>iso1MeteringReceiptReq_Id_isUsed := True\<rparr>)
           (decode_string_field j 51 iso1MeteringReceiptReq_Id_characters
           (\<lambda>u a. a\<lparr>iso1MeteringReceiptReq_Id_characters := u\<rparr>)
           (\<lambda>u a. a\<lparr>iso1MeteringReceiptReq_Id_charactersLen := u\<rparr>)))),
          (1, decode_simple 166 168 (decode_bytes_field j 8 iso1MeteringReceiptReq_SessionID_bytes
            (\<lambda>u a. a\<lparr>iso1MeteringReceiptReq_SessionID_bytes := u\<rparr>)
            (\<lambda>u a. a\<lparr>iso1MeteringReceiptReq_SessionID_bytesLen := u\<rparr>)))] 166 x s
      else if grammarID = 167 then
        decode_switch 1
         [(0, decode_simple 167 168 (decode_bytes_field j 8 iso1MeteringReceiptReq_SessionID_bytes
           (\<lambda>u a. a\<lparr>iso1MeteringReceiptReq_SessionID_bytes := u\<rparr>)
           (\<lambda>u a. a\<lparr>iso1MeteringReceiptReq_SessionID_bytesLen := u\<rparr>)))] 167 x s
      else if grammarID = 168 then
        decode_switch 2
         [(0, decode_simple 168 169
           (decode_used (\<lambda>a. a\<lparr>iso1MeteringReceiptReq_SAScheduleTupleID_isUsed := True\<rparr>)
           (decode_nbit_field 8
           (\<lambda>u a. a\<lparr>iso1MeteringReceiptReq_SAScheduleTupleID := ucast (u + 1)\<rparr>)))),
          (1, decode_child 3 (decode_sub (decode_iso1MeterInfoType j) iso1MeteringReceiptReq_MeterInfo
            (\<lambda>u a. a\<lparr>iso1MeteringReceiptReq_MeterInfo := u\<rparr>)))] 168 x s
      else if grammarID = 169 then
        decode_switch 1
         [(0, decode_child 3 (decode_sub (decode_iso1MeterInfoType j) iso1MeteringReceiptReq_MeterInfo
           (\<lambda>u a. a\<lparr>iso1MeteringReceiptReq_MeterInfo := u\<rparr>)))] 169 x s
      else if grammarID = 3 then
        decode_switch 1
         [(0, decode_end 4)] 3 x s
      else Some (EXI_ERROR_UNKOWN_GRAMMAR_ID, (False, grammarID, x), s))"

definition decode_iso1MeteringReceiptReqType :: "u32 \<Rightarrow> iso1MeteringReceiptReqType decoder" where
  "decode_iso1MeteringReceiptReqType j x s = grammar_loop (iso1MeteringReceiptReq_dec_step j) 166
      (fst x, init_iso1MeteringReceiptReqType (snd x)) s"

definition iso1MeteringReceiptReq_ok :: "iso1MeteringReceiptReqType \<Rightarrow> bool" where
  "iso1MeteringReceiptReq_ok v \<longleftrightarrow>
     when_used (iso1MeteringReceiptReq_Id_isUsed v)
       (string_ok 51 (iso1MeteringReceiptReq_Id_characters v) (iso1MeteringReceiptReq_Id_charactersLen v)) \<and>
     length (iso1MeteringReceiptReq_SessionID_bytes v) = 8 \<and> unat (iso1MeteringReceiptReq_SessionID_bytesLen v)
       \<le> 8 \<and>
     when_used (iso1MeteringReceiptReq_SAScheduleTupleID_isUsed v)
       (ucast (iso1MeteringReceiptReq_SAScheduleTupleID v) - 1 < (2 ^ 8 :: u32)) \<and>
     iso1MeterInfo_ok (iso1MeteringReceiptReq_MeterInfo v)"

definition iso1MeteringReceiptReq_sized :: "iso1MeteringReceiptReqType \<Rightarrow> bool" where
  "iso1MeteringReceiptReq_sized a \<longleftrightarrow>
     length (iso1MeteringReceiptReq_Id_characters a) = 51 \<and>
     length (iso1MeteringReceiptReq_SessionID_bytes a) = 8 \<and>
     iso1MeterInfo_sized (iso1MeteringReceiptReq_MeterInfo a)"

definition same_iso1MeteringReceiptReq :: "iso1MeteringReceiptReqType \<Rightarrow> iso1MeteringReceiptReqType
    \<Rightarrow> bool" where
  "same_iso1MeteringReceiptReq v a \<longleftrightarrow>
     kept (iso1MeteringReceiptReq_Id_isUsed v) (iso1MeteringReceiptReq_Id_isUsed a)
       (iso1MeteringReceiptReq_Id_charactersLen a = iso1MeteringReceiptReq_Id_charactersLen v \<and>
       take (unat (iso1MeteringReceiptReq_Id_charactersLen v)) (iso1MeteringReceiptReq_Id_characters a) = take
       (unat (iso1MeteringReceiptReq_Id_charactersLen v)) (iso1MeteringReceiptReq_Id_characters v)) \<and>
     iso1MeteringReceiptReq_SessionID_bytesLen a = iso1MeteringReceiptReq_SessionID_bytesLen v \<and>
       take (unat (iso1MeteringReceiptReq_SessionID_bytesLen v)) (iso1MeteringReceiptReq_SessionID_bytes a) = take
       (unat (iso1MeteringReceiptReq_SessionID_bytesLen v)) (iso1MeteringReceiptReq_SessionID_bytes v) \<and>
     kept (iso1MeteringReceiptReq_SAScheduleTupleID_isUsed v) (iso1MeteringReceiptReq_SAScheduleTupleID_isUsed a)
       (iso1MeteringReceiptReq_SAScheduleTupleID a = iso1MeteringReceiptReq_SAScheduleTupleID v) \<and>
     same_iso1MeterInfo (iso1MeteringReceiptReq_MeterInfo v) (iso1MeteringReceiptReq_MeterInfo a)"

definition iso1MeteringReceiptReq_at :: "iso1MeteringReceiptReqType \<Rightarrow> nat \<Rightarrow>
    iso1MeteringReceiptReqType \<Rightarrow> bool" where
  "iso1MeteringReceiptReq_at v g a \<longleftrightarrow>
     iso1MeteringReceiptReq_ok v \<and>
     g \<in> {166, 167, 168, 169, 3} \<and>
     iso1MeteringReceiptReq_sized a \<and>
     (if g \<in> {166} then \<not> iso1MeteringReceiptReq_Id_isUsed a
      else kept (iso1MeteringReceiptReq_Id_isUsed v) (iso1MeteringReceiptReq_Id_isUsed a)
        (iso1MeteringReceiptReq_Id_charactersLen a = iso1MeteringReceiptReq_Id_charactersLen v \<and>
        take (unat (iso1MeteringReceiptReq_Id_charactersLen v)) (iso1MeteringReceiptReq_Id_characters a) = take
        (unat (iso1MeteringReceiptReq_Id_charactersLen v)) (iso1MeteringReceiptReq_Id_characters v))) \<and>
     (g \<notin> {166, 167} \<longrightarrow> iso1MeteringReceiptReq_SessionID_bytesLen
       a = iso1MeteringReceiptReq_SessionID_bytesLen v \<and>
       take (unat (iso1MeteringReceiptReq_SessionID_bytesLen v)) (iso1MeteringReceiptReq_SessionID_bytes a) = take
       (unat (iso1MeteringReceiptReq_SessionID_bytesLen v)) (iso1MeteringReceiptReq_SessionID_bytes v)) \<and>
     (if g \<in> {166, 167, 168} then \<not> iso1MeteringReceiptReq_SAScheduleTupleID_isUsed a
      else kept (iso1MeteringReceiptReq_SAScheduleTupleID_isUsed v)
        (iso1MeteringReceiptReq_SAScheduleTupleID_isUsed a)
        (iso1MeteringReceiptReq_SAScheduleTupleID a = iso1MeteringReceiptReq_SAScheduleTupleID v)) \<and>
     (g \<notin> {166, 167, 168, 169} \<longrightarrow> same_iso1MeterInfo (iso1MeteringReceiptReq_MeterInfo v)
       (iso1MeteringReceiptReq_MeterInfo a))"

lemmas iso1MeteringReceiptReq_steps = iso1MeteringReceiptReq_enc_step_def
  iso1MeteringReceiptReq_dec_step_def

lemmas iso1MeteringReceiptReq_props = iso1MeteringReceiptReq_at_def iso1MeteringReceiptReq_sized_def
    same_iso1MeteringReceiptReq_def left_at_def

interpretation iso1MeteringReceiptReq: paired_machines "iso1MeteringReceiptReq_enc_step v"
    "iso1MeteringReceiptReq_dec_step j" "iso1MeteringReceiptReq_at v"
  "left_at [(166, 1571), (167, 1137), (168, 1046), (169, 1034), (3, 1)]" "\<lambda>a. same_iso1MeteringReceiptReq v a
      \<and> iso1MeteringReceiptReq_sized a" for v j
proof
  fix g a assume at: "iso1MeteringReceiptReq_at v g a"
  then have "g \<in> {166, 167, 168, 169, 3}" by (simp add: iso1MeteringReceiptReq_at_def)
  then show "hops (iso1MeteringReceiptReq_enc_step v) (iso1MeteringReceiptReq_dec_step j)
      (iso1MeteringReceiptReq_at v)
    (left_at [(166, 1571), (167, 1137), (168, 1046), (169, 1034), (3, 1)])
      (\<lambda>a. same_iso1MeteringReceiptReq v a \<and> iso1MeteringReceiptReq_sized a) g a" using at
    by - (elim insertE emptyE; (hypsubst, rule hops_by, simp (no_asm) add: iso1MeteringReceiptReq_steps del:
      One_nat_def,
      simp (no_asm) add: iso1MeteringReceiptReq_steps del: One_nat_def,
        simp (asm_lr) add: iso1MeteringReceiptReq_props del: One_nat_def, (elim conjE)?,
      ((rule walks_ifs)+)?); (frule iso1MeteringReceiptReq_ok_def [THEN iffD1], ((drule (1) known)+)?, (elim conjE)?,
        ((drule (1) known)+)?, (elim conjE)?,
      (((rule walks_shapes, simp (no_asm) del: One_nat_def, ((rule reads_intros)+)?);
      ((elim exE conjE)?,
        ((simp (no_asm_simp) add: iso1MeteringReceiptReq_props; fail) |
        (simp (asm_lr) add: iso1MeteringReceiptReq_props; fail) | (auto simp: iso1MeteringReceiptReq_props; fail)))) |
        (erule (1) notE; fail) |
        ((elim exE conjE)?,
        ((simp (no_asm_simp) add: iso1MeteringReceiptReq_props; fail) |
        (simp (asm_lr) add: iso1MeteringReceiptReq_props; fail) | (auto simp: iso1MeteringReceiptReq_props; fail))))))
qed

lemma reads_iso1MeteringReceiptReq [reads_intros]:
  "iso1MeteringReceiptReq_ok v \<Longrightarrow> iso1MeteringReceiptReq_sized a \<Longrightarrow>
      reads 1571 (\<lambda>s. encode_iso1MeteringReceiptReqType s v) (decode_iso1MeteringReceiptReqType j) a
      (\<lambda>a. same_iso1MeteringReceiptReq v a \<and> iso1MeteringReceiptReq_sized a)"
  unfolding encode_iso1MeteringReceiptReqType_def decode_iso1MeteringReceiptReqType_def [abs_def]
  by (rule reads_start [OF iso1MeteringReceiptReq.machine_reads, of _ 166, THEN reads_mono])
      (auto simp: iso1MeteringReceiptReq_at_def iso1MeteringReceiptReq_sized_def init_iso1MeteringReceiptReqType_def
      left_at_def)

interpretation iso1MeteringReceiptReq_enc: advancing_machine "iso1MeteringReceiptReq_enc_step v" "left_at
    [(166, 5), (167, 4), (168, 3), (169, 2), (3, 1)]" for v
  by unfold_locales (auto simp: iso1MeteringReceiptReq_steps dest!: advance_dests split: if_splits;
      simp add: left_at_def)

interpretation iso1MeteringReceiptReq_dec: advancing_machine "iso1MeteringReceiptReq_dec_step j" "left_at
    [(166, 5), (167, 4), (168, 3), (169, 2), (3, 1)]" for j
  by unfold_locales (auto simp: iso1MeteringReceiptReq_steps dest!: advance_dests elim!:
      decode_switch_next split: if_splits;
      simp add: left_at_def)

subsection \<open>\<open>iso1MeteringReceiptResType\<close>\<close>

record iso1MeteringReceiptResType =
  iso1MeteringReceiptRes_ResponseCode :: u32
  iso1MeteringReceiptRes_EVSEStatus :: iso1EVSEStatusType
  iso1MeteringReceiptRes_EVSEStatus_isUsed :: bool
  iso1MeteringReceiptRes_AC_EVSEStatus :: iso1AC_EVSEStatusType
  iso1MeteringReceiptRes_AC_EVSEStatus_isUsed :: bool
  iso1MeteringReceiptRes_DC_EVSEStatus :: iso1DC_EVSEStatusType
  iso1MeteringReceiptRes_DC_EVSEStatus_isUsed :: bool

definition init_iso1MeteringReceiptResType :: "iso1MeteringReceiptResType \<Rightarrow> iso1MeteringReceiptResType"
    where
  "init_iso1MeteringReceiptResType a = a\<lparr>iso1MeteringReceiptRes_EVSEStatus_isUsed := False,
      iso1MeteringReceiptRes_AC_EVSEStatus_isUsed := False, iso1MeteringReceiptRes_DC_EVSEStatus_isUsed
      := False\<rparr>"

definition iso1MeteringReceiptRes_enc_step :: "iso1MeteringReceiptResType \<Rightarrow> unit machine" where
  "iso1MeteringReceiptRes_enc_step v grammarID x s =
     (if grammarID = 93 then
        goto 94 x
          (encode_simple 1 0 (\<lambda>s. encodeNBitUnsignedInteger s 5 (iso1MeteringReceiptRes_ResponseCode v)) s)
      else if grammarID = 94 then
        if iso1MeteringReceiptRes_AC_EVSEStatus_isUsed v then
          goto 3 x (encode_child 2 0
          (\<lambda>s. encode_iso1AC_EVSEStatusType s (iso1MeteringReceiptRes_AC_EVSEStatus v)) s)
        else if iso1MeteringReceiptRes_DC_EVSEStatus_isUsed v then
          goto 3 x (encode_child 2 1
          (\<lambda>s. encode_iso1DC_EVSEStatusType s (iso1MeteringReceiptRes_DC_EVSEStatus v)) s)
        else if iso1MeteringReceiptRes_EVSEStatus_isUsed v then
          goto 3 x (encode_child 2 2 (\<lambda>s. encode_iso1EVSEStatusType s (iso1MeteringReceiptRes_EVSEStatus v))
          s)
        else Some (EXI_ERROR_UNKOWN_EVENT, (False, grammarID, x), s)
      else if grammarID = 3 then
        finish 4 x (encodeNBitUnsignedInteger s 1 0)
      else Some (EXI_ERROR_UNKOWN_GRAMMAR_ID, (False, grammarID, x), s))"

definition encode_iso1MeteringReceiptResType :: "bitstream \<Rightarrow> iso1MeteringReceiptResType \<Rightarrow>
    (errn \<times> bitstream) option" where
  "encode_iso1MeteringReceiptResType s v = run_encoder (iso1MeteringReceiptRes_enc_step v) 93 () s"

definition iso1MeteringReceiptRes_dec_step :: "u32 \<Rightarrow> (dec_static \<times> iso1MeteringReceiptResType)
    machine" where
  "iso1MeteringReceiptRes_dec_step j grammarID x s =
     (if grammarID = 93 then
        decode_switch 1
         [(0, decode_simple 93 94
           (decode_nbit_field 5 (\<lambda>u a. a\<lparr>iso1MeteringReceiptRes_ResponseCode := u\<rparr>)))] 93 x s
      else if grammarID = 94 then
        decode_switch 2
         [(0, decode_child 3
           (decode_used (\<lambda>a. a\<lparr>iso1MeteringReceiptRes_AC_EVSEStatus_isUsed := True\<rparr>)
           (decode_sub (decode_iso1AC_EVSEStatusType j) iso1MeteringReceiptRes_AC_EVSEStatus
           (\<lambda>u a. a\<lparr>iso1MeteringReceiptRes_AC_EVSEStatus := u\<rparr>)))),
          (1, decode_child 3
            (decode_used (\<lambda>a. a\<lparr>iso1MeteringReceiptRes_DC_EVSEStatus_isUsed := True\<rparr>)
            (decode_sub (decode_iso1DC_EVSEStatusType j) iso1MeteringReceiptRes_DC_EVSEStatus
            (\<lambda>u a. a\<lparr>iso1MeteringReceiptRes_DC_EVSEStatus := u\<rparr>)))),
          (2, decode_child 3
            (decode_used (\<lambda>a. a\<lparr>iso1MeteringReceiptRes_EVSEStatus_isUsed := True\<rparr>)
            (decode_sub (decode_iso1EVSEStatusType j) iso1MeteringReceiptRes_EVSEStatus
            (\<lambda>u a. a\<lparr>iso1MeteringReceiptRes_EVSEStatus := u\<rparr>))))] 94 x s
      else if grammarID = 3 then
        decode_switch 1
         [(0, decode_end 4)] 3 x s
      else Some (EXI_ERROR_UNKOWN_GRAMMAR_ID, (False, grammarID, x), s))"

definition decode_iso1MeteringReceiptResType :: "u32 \<Rightarrow> iso1MeteringReceiptResType decoder" where
  "decode_iso1MeteringReceiptResType j x s = grammar_loop (iso1MeteringReceiptRes_dec_step j) 93
      (fst x, init_iso1MeteringReceiptResType (snd x)) s"

definition iso1MeteringReceiptRes_ok :: "iso1MeteringReceiptResType \<Rightarrow> bool" where
  "iso1MeteringReceiptRes_ok v \<longleftrightarrow>
     iso1MeteringReceiptRes_ResponseCode v < 32 \<and>
     when_used (iso1MeteringReceiptRes_AC_EVSEStatus_isUsed v)
       (iso1AC_EVSEStatus_ok (iso1MeteringReceiptRes_AC_EVSEStatus v)) \<and>
     when_used (iso1MeteringReceiptRes_DC_EVSEStatus_isUsed v)
       (iso1DC_EVSEStatus_ok (iso1MeteringReceiptRes_DC_EVSEStatus v)) \<and>
     when_used (iso1MeteringReceiptRes_EVSEStatus_isUsed v) (iso1EVSEStatus_ok (iso1MeteringReceiptRes_EVSEStatus v))
       \<and>
     exclusive [iso1MeteringReceiptRes_AC_EVSEStatus_isUsed v, iso1MeteringReceiptRes_DC_EVSEStatus_isUsed v,
       iso1MeteringReceiptRes_EVSEStatus_isUsed v] \<and>
     some_of [iso1MeteringReceiptRes_AC_EVSEStatus_isUsed v, iso1MeteringReceiptRes_DC_EVSEStatus_isUsed v,
       iso1MeteringReceiptRes_EVSEStatus_isUsed v]"

definition same_iso1MeteringReceiptRes :: "iso1MeteringReceiptResType \<Rightarrow> iso1MeteringReceiptResType
    \<Rightarrow> bool" where
  "same_iso1MeteringReceiptRes v a \<longleftrightarrow>
     iso1MeteringReceiptRes_ResponseCode a = iso1MeteringReceiptRes_ResponseCode v \<and>
     kept (iso1MeteringReceiptRes_AC_EVSEStatus_isUsed v) (iso1MeteringReceiptRes_AC_EVSEStatus_isUsed a)
       (same_iso1AC_EVSEStatus (iso1MeteringReceiptRes_AC_EVSEStatus v) (iso1MeteringReceiptRes_AC_EVSEStatus a))
       \<and>
     kept (iso1MeteringReceiptRes_DC_EVSEStatus_isUsed v) (iso1MeteringReceiptRes_DC_EVSEStatus_isUsed a)
       (same_iso1DC_EVSEStatus (iso1MeteringReceiptRes_DC_EVSEStatus v) (iso1MeteringReceiptRes_DC_EVSEStatus a))
       \<and>
     kept (iso1MeteringReceiptRes_EVSEStatus_isUsed v) (iso1MeteringReceiptRes_EVSEStatus_isUsed a)
       (same_iso1EVSEStatus (iso1MeteringReceiptRes_EVSEStatus v) (iso1MeteringReceiptRes_EVSEStatus a))"

definition iso1MeteringReceiptRes_at :: "iso1MeteringReceiptResType \<Rightarrow> nat \<Rightarrow>
    iso1MeteringReceiptResType \<Rightarrow> bool" where
  "iso1MeteringReceiptRes_at v g a \<longleftrightarrow>
     iso1MeteringReceiptRes_ok v \<and>
     g \<in> {93, 94, 3} \<and>
     (g \<notin> {93} \<longrightarrow> iso1MeteringReceiptRes_ResponseCode a = iso1MeteringReceiptRes_ResponseCode v)
       \<and>
     (if g \<in> {93, 94} then \<not> iso1MeteringReceiptRes_AC_EVSEStatus_isUsed a
      else kept (iso1MeteringReceiptRes_AC_EVSEStatus_isUsed v) (iso1MeteringReceiptRes_AC_EVSEStatus_isUsed a)
        (same_iso1AC_EVSEStatus (iso1MeteringReceiptRes_AC_EVSEStatus v) (iso1MeteringReceiptRes_AC_EVSEStatus a)))
        \<and>
     (if g \<in> {93, 94} then \<not> iso1MeteringReceiptRes_DC_EVSEStatus_isUsed a
      else kept (iso1MeteringReceiptRes_DC_EVSEStatus_isUsed v) (iso1MeteringReceiptRes_DC_EVSEStatus_isUsed a)
        (same_iso1DC_EVSEStatus (iso1MeteringReceiptRes_DC_EVSEStatus v) (iso1MeteringReceiptRes_DC_EVSEStatus a)))
        \<and>
     (if g \<in> {93, 94} then \<not> iso1MeteringReceiptRes_EVSEStatus_isUsed a
      else kept (iso1MeteringReceiptRes_EVSEStatus_isUsed v) (iso1MeteringReceiptRes_EVSEStatus_isUsed a)
        (same_iso1EVSEStatus (iso1MeteringReceiptRes_EVSEStatus v) (iso1MeteringReceiptRes_EVSEStatus a)))"

lemmas iso1MeteringReceiptRes_steps = iso1MeteringReceiptRes_enc_step_def
  iso1MeteringReceiptRes_dec_step_def

lemmas iso1MeteringReceiptRes_props = iso1MeteringReceiptRes_at_def same_iso1MeteringReceiptRes_def left_at_def

interpretation iso1MeteringReceiptRes: paired_machines "iso1MeteringReceiptRes_enc_step v"
    "iso1MeteringReceiptRes_dec_step j" "iso1MeteringReceiptRes_at v"
  "left_at [(93, 58), (94, 50), (3, 1)]" "same_iso1MeteringReceiptRes v" for v j
proof
  fix g a assume at: "iso1MeteringReceiptRes_at v g a"
  then have "g \<in> {93, 94, 3}" by (simp add: iso1MeteringReceiptRes_at_def)
  then show "hops (iso1MeteringReceiptRes_enc_step v) (iso1MeteringReceiptRes_dec_step j)
      (iso1MeteringReceiptRes_at v)
    (left_at [(93, 58), (94, 50), (3, 1)]) (same_iso1MeteringReceiptRes v) g a" using at
    by - (elim insertE emptyE; (hypsubst, rule hops_by, simp (no_asm) add: iso1MeteringReceiptRes_steps del:
      One_nat_def,
      simp (no_asm) add: iso1MeteringReceiptRes_steps del: One_nat_def,
        simp (asm_lr) add: iso1MeteringReceiptRes_props del: One_nat_def, (elim conjE)?,
      ((rule walks_ifs)+)?); (frule iso1MeteringReceiptRes_ok_def [THEN iffD1], ((drule (1) known)+)?, (elim conjE)?,
        ((drule (1) known)+)?, (elim conjE)?,
      (((rule walks_shapes, simp (no_asm) del: One_nat_def, ((rule reads_intros)+)?);
      ((elim exE conjE)?,
        ((simp (no_asm_simp) add: iso1MeteringReceiptRes_props; fail) |
        (simp (asm_lr) add: iso1MeteringReceiptRes_props; fail) | (auto simp: iso1MeteringReceiptRes_props; fail)))) |
        (erule (1) notE; fail) |
        ((elim exE conjE)?,
        ((simp (no_asm_simp) add: iso1MeteringReceiptRes_props; fail) |
        (simp (asm_lr) add: iso1MeteringReceiptRes_props; fail) | (auto simp: iso1MeteringReceiptRes_props; fail))))))
qed

lemma reads_iso1MeteringReceiptRes [reads_intros]:
  "iso1MeteringReceiptRes_ok v \<Longrightarrow> reads 58 (\<lambda>s. encode_iso1MeteringReceiptResType s v)
      (decode_iso1MeteringReceiptResType j) a (same_iso1MeteringReceiptRes v)"
  unfolding encode_iso1MeteringReceiptResType_def decode_iso1MeteringReceiptResType_def [abs_def]
  by (rule reads_start [OF iso1MeteringReceiptRes.machine_reads, of _ 93, THEN reads_mono])
      (auto simp: iso1MeteringReceiptRes_at_def  init_iso1MeteringReceiptResType_def left_at_def)

interpretation iso1MeteringReceiptRes_enc: advancing_machine "iso1MeteringReceiptRes_enc_step v" "left_at
    [(93, 3), (94, 2), (3, 1)]" for v
  by unfold_locales (auto simp: iso1MeteringReceiptRes_steps dest!: advance_dests split: if_splits;
      simp add: left_at_def)

interpretation iso1MeteringReceiptRes_dec: advancing_machine "iso1MeteringReceiptRes_dec_step j" "left_at
    [(93, 3), (94, 2), (3, 1)]" for j
  by unfold_locales (auto simp: iso1MeteringReceiptRes_steps dest!: advance_dests elim!:
      decode_switch_next split: if_splits;
      simp add: left_at_def)

subsection \<open>\<open>iso1SessionStopReqType\<close>\<close>

record iso1SessionStopReqType =
  iso1SessionStopReq_ChargingSession :: u32

definition init_iso1SessionStopReqType :: "iso1SessionStopReqType \<Rightarrow> iso1SessionStopReqType" where
  "init_iso1SessionStopReqType a = a"

definition iso1SessionStopReq_enc_step :: "iso1SessionStopReqType \<Rightarrow> unit machine" where
  "iso1SessionStopReq_enc_step v grammarID x s =
     (if grammarID = 266 then
        goto 3 x (encode_simple 1 0 (\<lambda>s. encodeNBitUnsignedInteger s 1 (iso1SessionStopReq_ChargingSession v))
          s)
      else if grammarID = 3 then
        finish 4 x (encodeNBitUnsignedInteger s 1 0)
      else Some (EXI_ERROR_UNKOWN_GRAMMAR_ID, (False, grammarID, x), s))"

definition encode_iso1SessionStopReqType :: "bitstream \<Rightarrow> iso1SessionStopReqType \<Rightarrow>
    (errn \<times> bitstream) option" where
  "encode_iso1SessionStopReqType s v = run_encoder (iso1SessionStopReq_enc_step v) 266 () s"

definition iso1SessionStopReq_dec_step :: "u32 \<Rightarrow> (dec_static \<times> iso1SessionStopReqType) machine"
    where
  "iso1SessionStopReq_dec_step j grammarID x s =
     (if grammarID = 266 then
        decode_switch 1
         [(0, decode_simple 266 3
           (decode_nbit_field 1 (\<lambda>u a. a\<lparr>iso1SessionStopReq_ChargingSession := u\<rparr>)))] 266 x s
      else if grammarID = 3 then
        decode_switch 1
         [(0, decode_end 4)] 3 x s
      else Some (EXI_ERROR_UNKOWN_GRAMMAR_ID, (False, grammarID, x), s))"

definition decode_iso1SessionStopReqType :: "u32 \<Rightarrow> iso1SessionStopReqType decoder" where
  "decode_iso1SessionStopReqType j x s = grammar_loop (iso1SessionStopReq_dec_step j) 266
      (fst x, init_iso1SessionStopReqType (snd x)) s"

definition iso1SessionStopReq_ok :: "iso1SessionStopReqType \<Rightarrow> bool" where
  "iso1SessionStopReq_ok v \<longleftrightarrow>
     iso1SessionStopReq_ChargingSession v < 2"

definition same_iso1SessionStopReq :: "iso1SessionStopReqType \<Rightarrow> iso1SessionStopReqType \<Rightarrow> bool"
    where
  "same_iso1SessionStopReq v a \<longleftrightarrow>
     iso1SessionStopReq_ChargingSession a = iso1SessionStopReq_ChargingSession v"

definition iso1SessionStopReq_at :: "iso1SessionStopReqType \<Rightarrow> nat \<Rightarrow> iso1SessionStopReqType
    \<Rightarrow> bool" where
  "iso1SessionStopReq_at v g a \<longleftrightarrow>
     iso1SessionStopReq_ok v \<and>
     g \<in> {266, 3} \<and>
     (g \<notin> {266} \<longrightarrow> iso1SessionStopReq_ChargingSession a = iso1SessionStopReq_ChargingSession v)"

lemmas iso1SessionStopReq_steps = iso1SessionStopReq_enc_step_def
  iso1SessionStopReq_dec_step_def

lemmas iso1SessionStopReq_props = iso1SessionStopReq_at_def same_iso1SessionStopReq_def left_at_def

interpretation iso1SessionStopReq: paired_machines "iso1SessionStopReq_enc_step v" "iso1SessionStopReq_dec_step j"
    "iso1SessionStopReq_at v"
  "left_at [(266, 5), (3, 1)]" "same_iso1SessionStopReq v" for v j
proof
  fix g a assume at: "iso1SessionStopReq_at v g a"
  then have "g \<in> {266, 3}" by (simp add: iso1SessionStopReq_at_def)
  then show "hops (iso1SessionStopReq_enc_step v) (iso1SessionStopReq_dec_step j) (iso1SessionStopReq_at v)
    (left_at [(266, 5), (3, 1)]) (same_iso1SessionStopReq v) g a" using at
    by - (elim insertE emptyE; (hypsubst, rule hops_by, simp (no_asm) add: iso1SessionStopReq_steps del: One_nat_def,
      simp (no_asm) add: iso1SessionStopReq_steps del: One_nat_def, simp (asm_lr) add: iso1SessionStopReq_props del:
        One_nat_def, (elim conjE)?,
      ((rule walks_ifs)+)?); (frule iso1SessionStopReq_ok_def [THEN iffD1], ((drule (1) known)+)?, (elim conjE)?,
        ((drule (1) known)+)?, (elim conjE)?,
      (((rule walks_shapes, simp (no_asm) del: One_nat_def, ((rule reads_intros)+)?);
      ((elim exE conjE)?,
        ((simp (no_asm_simp) add: iso1SessionStopReq_props; fail) |
        (simp (asm_lr) add: iso1SessionStopReq_props; fail) | (auto simp: iso1SessionStopReq_props; fail)))) |
        (erule (1) notE; fail) |
        ((elim exE conjE)?,
        ((simp (no_asm_simp) add: iso1SessionStopReq_props; fail) |
        (simp (asm_lr) add: iso1SessionStopReq_props; fail) | (auto simp: iso1SessionStopReq_props; fail))))))
qed

lemma reads_iso1SessionStopReq [reads_intros]:
  "iso1SessionStopReq_ok v \<Longrightarrow> reads 5 (\<lambda>s. encode_iso1SessionStopReqType s v)
      (decode_iso1SessionStopReqType j) a (same_iso1SessionStopReq v)"
  unfolding encode_iso1SessionStopReqType_def decode_iso1SessionStopReqType_def [abs_def]
  by (rule reads_start [OF iso1SessionStopReq.machine_reads, of _ 266, THEN reads_mono])
      (auto simp: iso1SessionStopReq_at_def  init_iso1SessionStopReqType_def left_at_def)

interpretation iso1SessionStopReq_enc: advancing_machine "iso1SessionStopReq_enc_step v" "left_at [(266, 2), (3, 1)]"
    for v
  by unfold_locales (auto simp: iso1SessionStopReq_steps dest!: advance_dests split: if_splits;
      simp add: left_at_def)

interpretation iso1SessionStopReq_dec: advancing_machine "iso1SessionStopReq_dec_step j" "left_at [(266, 2), (3, 1)]"
    for j
  by unfold_locales (auto simp: iso1SessionStopReq_steps dest!: advance_dests elim!: decode_switch_next
      split: if_splits;
      simp add: left_at_def)

subsection \<open>\<open>iso1SessionStopResType\<close>\<close>

record iso1SessionStopResType =
  iso1SessionStopRes_ResponseCode :: u32

definition init_iso1SessionStopResType :: "iso1SessionStopResType \<Rightarrow> iso1SessionStopResType" where
  "init_iso1SessionStopResType a = a"

definition iso1SessionStopRes_enc_step :: "iso1SessionStopResType \<Rightarrow> unit machine" where
  "iso1SessionStopRes_enc_step v grammarID x s =
     (if grammarID = 122 then
        goto 3 x (encode_simple 1 0 (\<lambda>s. encodeNBitUnsignedInteger s 5 (iso1SessionStopRes_ResponseCode v)) s)
      else if grammarID = 3 then
        finish 4 x (encodeNBitUnsignedInteger s 1 0)
      else Some (EXI_ERROR_UNKOWN_GRAMMAR_ID, (False, grammarID, x), s))"

definition encode_iso1SessionStopResType :: "bitstream \<Rightarrow> iso1SessionStopResType \<Rightarrow>
    (errn \<times> bitstream) option" where
  "encode_iso1SessionStopResType s v = run_encoder (iso1SessionStopRes_enc_step v) 122 () s"

definition iso1SessionStopRes_dec_step :: "u32 \<Rightarrow> (dec_static \<times> iso1SessionStopResType) machine"
    where
  "iso1SessionStopRes_dec_step j grammarID x s =
     (if grammarID = 122 then
        decode_switch 1
         [(0, decode_simple 122 3
           (decode_nbit_field 5 (\<lambda>u a. a\<lparr>iso1SessionStopRes_ResponseCode := u\<rparr>)))] 122 x s
      else if grammarID = 3 then
        decode_switch 1
         [(0, decode_end 4)] 3 x s
      else Some (EXI_ERROR_UNKOWN_GRAMMAR_ID, (False, grammarID, x), s))"

definition decode_iso1SessionStopResType :: "u32 \<Rightarrow> iso1SessionStopResType decoder" where
  "decode_iso1SessionStopResType j x s = grammar_loop (iso1SessionStopRes_dec_step j) 122
      (fst x, init_iso1SessionStopResType (snd x)) s"

definition iso1SessionStopRes_ok :: "iso1SessionStopResType \<Rightarrow> bool" where
  "iso1SessionStopRes_ok v \<longleftrightarrow>
     iso1SessionStopRes_ResponseCode v < 32"

definition same_iso1SessionStopRes :: "iso1SessionStopResType \<Rightarrow> iso1SessionStopResType \<Rightarrow> bool"
    where
  "same_iso1SessionStopRes v a \<longleftrightarrow>
     iso1SessionStopRes_ResponseCode a = iso1SessionStopRes_ResponseCode v"

definition iso1SessionStopRes_at :: "iso1SessionStopResType \<Rightarrow> nat \<Rightarrow> iso1SessionStopResType
    \<Rightarrow> bool" where
  "iso1SessionStopRes_at v g a \<longleftrightarrow>
     iso1SessionStopRes_ok v \<and>
     g \<in> {122, 3} \<and>
     (g \<notin> {122} \<longrightarrow> iso1SessionStopRes_ResponseCode a = iso1SessionStopRes_ResponseCode v)"

lemmas iso1SessionStopRes_steps = iso1SessionStopRes_enc_step_def
  iso1SessionStopRes_dec_step_def

lemmas iso1SessionStopRes_props = iso1SessionStopRes_at_def same_iso1SessionStopRes_def left_at_def

interpretation iso1SessionStopRes: paired_machines "iso1SessionStopRes_enc_step v" "iso1SessionStopRes_dec_step j"
    "iso1SessionStopRes_at v"
  "left_at [(122, 9), (3, 1)]" "same_iso1SessionStopRes v" for v j
proof
  fix g a assume at: "iso1SessionStopRes_at v g a"
  then have "g \<in> {122, 3}" by (simp add: iso1SessionStopRes_at_def)
  then show "hops (iso1SessionStopRes_enc_step v) (iso1SessionStopRes_dec_step j) (iso1SessionStopRes_at v)
    (left_at [(122, 9), (3, 1)]) (same_iso1SessionStopRes v) g a" using at
    by - (elim insertE emptyE; (hypsubst, rule hops_by, simp (no_asm) add: iso1SessionStopRes_steps del: One_nat_def,
      simp (no_asm) add: iso1SessionStopRes_steps del: One_nat_def, simp (asm_lr) add: iso1SessionStopRes_props del:
        One_nat_def, (elim conjE)?,
      ((rule walks_ifs)+)?); (frule iso1SessionStopRes_ok_def [THEN iffD1], ((drule (1) known)+)?, (elim conjE)?,
        ((drule (1) known)+)?, (elim conjE)?,
      (((rule walks_shapes, simp (no_asm) del: One_nat_def, ((rule reads_intros)+)?);
      ((elim exE conjE)?,
        ((simp (no_asm_simp) add: iso1SessionStopRes_props; fail) |
        (simp (asm_lr) add: iso1SessionStopRes_props; fail) | (auto simp: iso1SessionStopRes_props; fail)))) |
        (erule (1) notE; fail) |
        ((elim exE conjE)?,
        ((simp (no_asm_simp) add: iso1SessionStopRes_props; fail) |
        (simp (asm_lr) add: iso1SessionStopRes_props; fail) | (auto simp: iso1SessionStopRes_props; fail))))))
qed

lemma reads_iso1SessionStopRes [reads_intros]:
  "iso1SessionStopRes_ok v \<Longrightarrow> reads 9 (\<lambda>s. encode_iso1SessionStopResType s v)
      (decode_iso1SessionStopResType j) a (same_iso1SessionStopRes v)"
  unfolding encode_iso1SessionStopResType_def decode_iso1SessionStopResType_def [abs_def]
  by (rule reads_start [OF iso1SessionStopRes.machine_reads, of _ 122, THEN reads_mono])
      (auto simp: iso1SessionStopRes_at_def  init_iso1SessionStopResType_def left_at_def)

interpretation iso1SessionStopRes_enc: advancing_machine "iso1SessionStopRes_enc_step v" "left_at [(122, 2), (3, 1)]"
    for v
  by unfold_locales (auto simp: iso1SessionStopRes_steps dest!: advance_dests split: if_splits;
      simp add: left_at_def)

interpretation iso1SessionStopRes_dec: advancing_machine "iso1SessionStopRes_dec_step j" "left_at [(122, 2), (3, 1)]"
    for j
  by unfold_locales (auto simp: iso1SessionStopRes_steps dest!: advance_dests elim!: decode_switch_next
      split: if_splits;
      simp add: left_at_def)

subsection \<open>\<open>iso1CableCheckReqType\<close>\<close>

record iso1CableCheckReqType =
  iso1CableCheckReq_DC_EVStatus :: iso1DC_EVStatusType

definition init_iso1CableCheckReqType :: "iso1CableCheckReqType \<Rightarrow> iso1CableCheckReqType" where
  "init_iso1CableCheckReqType a = a"

definition iso1CableCheckReq_enc_step :: "iso1CableCheckReqType \<Rightarrow> unit machine" where
  "iso1CableCheckReq_enc_step v grammarID x s =
     (if grammarID = 313 then
        goto 3 x (encode_child 1 0 (\<lambda>s. encode_iso1DC_EVStatusType s (iso1CableCheckReq_DC_EVStatus v)) s)
      else if grammarID = 3 then
        finish 4 x (encodeNBitUnsignedInteger s 1 0)
      else Some (EXI_ERROR_UNKOWN_GRAMMAR_ID, (False, grammarID, x), s))"

definition encode_iso1CableCheckReqType :: "bitstream \<Rightarrow> iso1CableCheckReqType \<Rightarrow>
    (errn \<times> bitstream) option" where
  "encode_iso1CableCheckReqType s v = run_encoder (iso1CableCheckReq_enc_step v) 313 () s"

definition iso1CableCheckReq_dec_step :: "u32 \<Rightarrow> (dec_static \<times> iso1CableCheckReqType) machine" where
  "iso1CableCheckReq_dec_step j grammarID x s =
     (if grammarID = 313 then
        decode_switch 1
         [(0, decode_child 3 (decode_sub (decode_iso1DC_EVStatusType j) iso1CableCheckReq_DC_EVStatus
           (\<lambda>u a. a\<lparr>iso1CableCheckReq_DC_EVStatus := u\<rparr>)))] 313 x s
      else if grammarID = 3 then
        decode_switch 1
         [(0, decode_end 4)] 3 x s
      else Some (EXI_ERROR_UNKOWN_GRAMMAR_ID, (False, grammarID, x), s))"

definition decode_iso1CableCheckReqType :: "u32 \<Rightarrow> iso1CableCheckReqType decoder" where
  "decode_iso1CableCheckReqType j x s = grammar_loop (iso1CableCheckReq_dec_step j) 313
      (fst x, init_iso1CableCheckReqType (snd x)) s"

definition iso1CableCheckReq_ok :: "iso1CableCheckReqType \<Rightarrow> bool" where
  "iso1CableCheckReq_ok v \<longleftrightarrow>
     iso1DC_EVStatus_ok (iso1CableCheckReq_DC_EVStatus v)"

definition same_iso1CableCheckReq :: "iso1CableCheckReqType \<Rightarrow> iso1CableCheckReqType \<Rightarrow> bool"
    where
  "same_iso1CableCheckReq v a \<longleftrightarrow>
     same_iso1DC_EVStatus (iso1CableCheckReq_DC_EVStatus v) (iso1CableCheckReq_DC_EVStatus a)"

definition iso1CableCheckReq_at :: "iso1CableCheckReqType \<Rightarrow> nat \<Rightarrow> iso1CableCheckReqType
    \<Rightarrow> bool" where
  "iso1CableCheckReq_at v g a \<longleftrightarrow>
     iso1CableCheckReq_ok v \<and>
     g \<in> {313, 3} \<and>
     (g \<notin> {313} \<longrightarrow> same_iso1DC_EVStatus (iso1CableCheckReq_DC_EVStatus v)
       (iso1CableCheckReq_DC_EVStatus a))"

lemmas iso1CableCheckReq_steps = iso1CableCheckReq_enc_step_def
  iso1CableCheckReq_dec_step_def

lemmas iso1CableCheckReq_props = iso1CableCheckReq_at_def same_iso1CableCheckReq_def left_at_def

interpretation iso1CableCheckReq: paired_machines "iso1CableCheckReq_enc_step v" "iso1CableCheckReq_dec_step j"
    "iso1CableCheckReq_at v"
  "left_at [(313, 24), (3, 1)]" "same_iso1CableCheckReq v" for v j
proof
  fix g a assume at: "iso1CableCheckReq_at v g a"
  then have "g \<in> {313, 3}" by (simp add: iso1CableCheckReq_at_def)
  then show "hops (iso1CableCheckReq_enc_step v) (iso1CableCheckReq_dec_step j) (iso1CableCheckReq_at v)
    (left_at [(313, 24), (3, 1)]) (same_iso1CableCheckReq v) g a" using at
    by - (elim insertE emptyE; (hypsubst, rule hops_by, simp (no_asm) add: iso1CableCheckReq_steps del: One_nat_def,
      simp (no_asm) add: iso1CableCheckReq_steps del: One_nat_def, simp (asm_lr) add: iso1CableCheckReq_props del:
        One_nat_def, (elim conjE)?,
      ((rule walks_ifs)+)?); (frule iso1CableCheckReq_ok_def [THEN iffD1], ((drule (1) known)+)?, (elim conjE)?,
        ((drule (1) known)+)?, (elim conjE)?,
      (((rule walks_shapes, simp (no_asm) del: One_nat_def, ((rule reads_intros)+)?);
      ((elim exE conjE)?,
        ((simp (no_asm_simp) add: iso1CableCheckReq_props; fail) | (simp (asm_lr) add: iso1CableCheckReq_props; fail)
        | (auto simp: iso1CableCheckReq_props; fail)))) | (erule (1) notE; fail) |
        ((elim exE conjE)?,
        ((simp (no_asm_simp) add: iso1CableCheckReq_props; fail) | (simp (asm_lr) add: iso1CableCheckReq_props; fail)
        | (auto simp: iso1CableCheckReq_props; fail))))))
qed

lemma reads_iso1CableCheckReq [reads_intros]:
  "iso1CableCheckReq_ok v \<Longrightarrow> reads 24 (\<lambda>s. encode_iso1CableCheckReqType s v)
      (decode_iso1CableCheckReqType j) a (same_iso1CableCheckReq v)"
  unfolding encode_iso1CableCheckReqType_def decode_iso1CableCheckReqType_def [abs_def]
  by (rule reads_start [OF iso1CableCheckReq.machine_reads, of _ 313, THEN reads_mono])
      (auto simp: iso1CableCheckReq_at_def  init_iso1CableCheckReqType_def left_at_def)

interpretation iso1CableCheckReq_enc: advancing_machine "iso1CableCheckReq_enc_step v" "left_at [(313, 2), (3, 1)]"
    for v
  by unfold_locales (auto simp: iso1CableCheckReq_steps dest!: advance_dests split: if_splits;
      simp add: left_at_def)

interpretation iso1CableCheckReq_dec: advancing_machine "iso1CableCheckReq_dec_step j" "left_at [(313, 2), (3, 1)]"
    for j
  by unfold_locales (auto simp: iso1CableCheckReq_steps dest!: advance_dests elim!: decode_switch_next
      split: if_splits;
      simp add: left_at_def)

subsection \<open>\<open>iso1CableCheckResType\<close>\<close>

record iso1CableCheckResType =
  iso1CableCheckRes_ResponseCode :: u32
  iso1CableCheckRes_DC_EVSEStatus :: iso1DC_EVSEStatusType
  iso1CableCheckRes_EVSEProcessing :: u32

definition init_iso1CableCheckResType :: "iso1CableCheckResType \<Rightarrow> iso1CableCheckResType" where
  "init_iso1CableCheckResType a = a"

definition iso1CableCheckRes_enc_step :: "iso1CableCheckResType \<Rightarrow> unit machine" where
  "iso1CableCheckRes_enc_step v grammarID x s =
     (if grammarID = 192 then
        goto 193 x (encode_simple 1 0 (\<lambda>s. encodeNBitUnsignedInteger s 5 (iso1CableCheckRes_ResponseCode v))
          s)
      else if grammarID = 193 then
        goto 130 x (encode_child 1 0 (\<lambda>s. encode_iso1DC_EVSEStatusType s (iso1CableCheckRes_DC_EVSEStatus v))
          s)
      else if grammarID = 130 then
        goto 3 x (encode_simple 1 0 (\<lambda>s. encodeNBitUnsignedInteger s 2 (iso1CableCheckRes_EVSEProcessing v))
          s)
      else if grammarID = 3 then
        finish 4 x (encodeNBitUnsignedInteger s 1 0)
      else Some (EXI_ERROR_UNKOWN_GRAMMAR_ID, (False, grammarID, x), s))"

definition encode_iso1CableCheckResType :: "bitstream \<Rightarrow> iso1CableCheckResType \<Rightarrow>
    (errn \<times> bitstream) option" where
  "encode_iso1CableCheckResType s v = run_encoder (iso1CableCheckRes_enc_step v) 192 () s"

definition iso1CableCheckRes_dec_step :: "u32 \<Rightarrow> (dec_static \<times> iso1CableCheckResType) machine" where
  "iso1CableCheckRes_dec_step j grammarID x s =
     (if grammarID = 192 then
        decode_switch 1
         [(0, decode_simple 192 193
           (decode_nbit_field 5 (\<lambda>u a. a\<lparr>iso1CableCheckRes_ResponseCode := u\<rparr>)))] 192 x s
      else if grammarID = 193 then
        decode_switch 1
         [(0, decode_child 130 (decode_sub (decode_iso1DC_EVSEStatusType j) iso1CableCheckRes_DC_EVSEStatus
           (\<lambda>u a. a\<lparr>iso1CableCheckRes_DC_EVSEStatus := u\<rparr>)))] 193 x s
      else if grammarID = 130 then
        decode_switch 1
         [(0, decode_simple 130 3
           (decode_nbit_field 2 (\<lambda>u a. a\<lparr>iso1CableCheckRes_EVSEProcessing := u\<rparr>)))] 130 x s
      else if grammarID = 3 then
        decode_switch 1
         [(0, decode_end 4)] 3 x s
      else Some (EXI_ERROR_UNKOWN_GRAMMAR_ID, (False, grammarID, x), s))"

definition decode_iso1CableCheckResType :: "u32 \<Rightarrow> iso1CableCheckResType decoder" where
  "decode_iso1CableCheckResType j x s = grammar_loop (iso1CableCheckRes_dec_step j) 192
      (fst x, init_iso1CableCheckResType (snd x)) s"

definition iso1CableCheckRes_ok :: "iso1CableCheckResType \<Rightarrow> bool" where
  "iso1CableCheckRes_ok v \<longleftrightarrow>
     iso1CableCheckRes_ResponseCode v < 32 \<and>
     iso1DC_EVSEStatus_ok (iso1CableCheckRes_DC_EVSEStatus v) \<and>
     iso1CableCheckRes_EVSEProcessing v < 4"

definition same_iso1CableCheckRes :: "iso1CableCheckResType \<Rightarrow> iso1CableCheckResType \<Rightarrow> bool"
    where
  "same_iso1CableCheckRes v a \<longleftrightarrow>
     iso1CableCheckRes_ResponseCode a = iso1CableCheckRes_ResponseCode v \<and>
     same_iso1DC_EVSEStatus (iso1CableCheckRes_DC_EVSEStatus v) (iso1CableCheckRes_DC_EVSEStatus a) \<and>
     iso1CableCheckRes_EVSEProcessing a = iso1CableCheckRes_EVSEProcessing v"

definition iso1CableCheckRes_at :: "iso1CableCheckResType \<Rightarrow> nat \<Rightarrow> iso1CableCheckResType
    \<Rightarrow> bool" where
  "iso1CableCheckRes_at v g a \<longleftrightarrow>
     iso1CableCheckRes_ok v \<and>
     g \<in> {192, 193, 130, 3} \<and>
     (g \<notin> {192} \<longrightarrow> iso1CableCheckRes_ResponseCode a = iso1CableCheckRes_ResponseCode v) \<and>
     (g \<notin> {192, 193} \<longrightarrow> same_iso1DC_EVSEStatus (iso1CableCheckRes_DC_EVSEStatus v)
       (iso1CableCheckRes_DC_EVSEStatus a)) \<and>
     (g \<notin> {192, 193, 130} \<longrightarrow> iso1CableCheckRes_EVSEProcessing
       a = iso1CableCheckRes_EVSEProcessing v)"

lemmas iso1CableCheckRes_steps = iso1CableCheckRes_enc_step_def
  iso1CableCheckRes_dec_step_def

lemmas iso1CableCheckRes_props = iso1CableCheckRes_at_def same_iso1CableCheckRes_def left_at_def

interpretation iso1CableCheckRes: paired_machines "iso1CableCheckRes_enc_step v" "iso1CableCheckRes_dec_step j"
    "iso1CableCheckRes_at v"
  "left_at [(192, 62), (193, 54), (130, 6), (3, 1)]" "same_iso1CableCheckRes v" for v j
proof
  fix g a assume at: "iso1CableCheckRes_at v g a"
  then have "g \<in> {192, 193, 130, 3}" by (simp add: iso1CableCheckRes_at_def)
  then show "hops (iso1CableCheckRes_enc_step v) (iso1CableCheckRes_dec_step j) (iso1CableCheckRes_at v)
    (left_at [(192, 62), (193, 54), (130, 6), (3, 1)]) (same_iso1CableCheckRes v) g a" using at
    by - (elim insertE emptyE; (hypsubst, rule hops_by, simp (no_asm) add: iso1CableCheckRes_steps del: One_nat_def,
      simp (no_asm) add: iso1CableCheckRes_steps del: One_nat_def, simp (asm_lr) add: iso1CableCheckRes_props del:
        One_nat_def, (elim conjE)?,
      ((rule walks_ifs)+)?); (frule iso1CableCheckRes_ok_def [THEN iffD1], ((drule (1) known)+)?, (elim conjE)?,
        ((drule (1) known)+)?, (elim conjE)?,
      (((rule walks_shapes, simp (no_asm) del: One_nat_def, ((rule reads_intros)+)?);
      ((elim exE conjE)?,
        ((simp (no_asm_simp) add: iso1CableCheckRes_props; fail) | (simp (asm_lr) add: iso1CableCheckRes_props; fail)
        | (auto simp: iso1CableCheckRes_props; fail)))) | (erule (1) notE; fail) |
        ((elim exE conjE)?,
        ((simp (no_asm_simp) add: iso1CableCheckRes_props; fail) | (simp (asm_lr) add: iso1CableCheckRes_props; fail)
        | (auto simp: iso1CableCheckRes_props; fail))))))
qed

lemma reads_iso1CableCheckRes [reads_intros]:
  "iso1CableCheckRes_ok v \<Longrightarrow> reads 62 (\<lambda>s. encode_iso1CableCheckResType s v)
      (decode_iso1CableCheckResType j) a (same_iso1CableCheckRes v)"
  unfolding encode_iso1CableCheckResType_def decode_iso1CableCheckResType_def [abs_def]
  by (rule reads_start [OF iso1CableCheckRes.machine_reads, of _ 192, THEN reads_mono])
      (auto simp: iso1CableCheckRes_at_def  init_iso1CableCheckResType_def left_at_def)

interpretation iso1CableCheckRes_enc: advancing_machine "iso1CableCheckRes_enc_step v" "left_at
    [(192, 4), (193, 3), (130, 2), (3, 1)]" for v
  by unfold_locales (auto simp: iso1CableCheckRes_steps dest!: advance_dests split: if_splits;
      simp add: left_at_def)

interpretation iso1CableCheckRes_dec: advancing_machine "iso1CableCheckRes_dec_step j" "left_at
    [(192, 4), (193, 3), (130, 2), (3, 1)]" for j
  by unfold_locales (auto simp: iso1CableCheckRes_steps dest!: advance_dests elim!: decode_switch_next
      split: if_splits;
      simp add: left_at_def)

subsection \<open>\<open>iso1PreChargeReqType\<close>\<close>

record iso1PreChargeReqType =
  iso1PreChargeReq_DC_EVStatus :: iso1DC_EVStatusType
  iso1PreChargeReq_EVTargetVoltage :: iso1PhysicalValueType
  iso1PreChargeReq_EVTargetCurrent :: iso1PhysicalValueType

definition init_iso1PreChargeReqType :: "iso1PreChargeReqType \<Rightarrow> iso1PreChargeReqType" where
  "init_iso1PreChargeReqType a = a"

definition iso1PreChargeReq_enc_step :: "iso1PreChargeReqType \<Rightarrow> unit machine" where
  "iso1PreChargeReq_enc_step v grammarID x s =
     (if grammarID = 205 then
        goto 206 x (encode_child 1 0 (\<lambda>s. encode_iso1DC_EVStatusType s (iso1PreChargeReq_DC_EVStatus v)) s)
      else if grammarID = 206 then
        goto 207 x (encode_child 1 0 (\<lambda>s. encode_iso1PhysicalValueType s (iso1PreChargeReq_EVTargetVoltage v))
          s)
      else if grammarID = 207 then
        goto 3 x (encode_child 1 0 (\<lambda>s. encode_iso1PhysicalValueType s (iso1PreChargeReq_EVTargetCurrent v))
          s)
      else if grammarID = 3 then
        finish 4 x (encodeNBitUnsignedInteger s 1 0)
      else Some (EXI_ERROR_UNKOWN_GRAMMAR_ID, (False, grammarID, x), s))"

definition encode_iso1PreChargeReqType :: "bitstream \<Rightarrow> iso1PreChargeReqType \<Rightarrow>
    (errn \<times> bitstream) option" where
  "encode_iso1PreChargeReqType s v = run_encoder (iso1PreChargeReq_enc_step v) 205 () s"

definition iso1PreChargeReq_dec_step :: "u32 \<Rightarrow> (dec_static \<times> iso1PreChargeReqType) machine" where
  "iso1PreChargeReq_dec_step j grammarID x s =
     (if grammarID = 205 then
        decode_switch 1
         [(0, decode_child 206 (decode_sub (decode_iso1DC_EVStatusType j) iso1PreChargeReq_DC_EVStatus
           (\<lambda>u a. a\<lparr>iso1PreChargeReq_DC_EVStatus := u\<rparr>)))] 205 x s
      else if grammarID = 206 then
        decode_switch 1
         [(0, decode_child 207 (decode_sub (decode_iso1PhysicalValueType j) iso1PreChargeReq_EVTargetVoltage
           (\<lambda>u a. a\<lparr>iso1PreChargeReq_EVTargetVoltage := u\<rparr>)))] 206 x s
      else if grammarID = 207 then
        decode_switch 1
         [(0, decode_child 3 (decode_sub (decode_iso1PhysicalValueType j) iso1PreChargeReq_EVTargetCurrent
           (\<lambda>u a. a\<lparr>iso1PreChargeReq_EVTargetCurrent := u\<rparr>)))] 207 x s
      else if grammarID = 3 then
        decode_switch 1
         [(0, decode_end 4)] 3 x s
      else Some (EXI_ERROR_UNKOWN_GRAMMAR_ID, (False, grammarID, x), s))"

definition decode_iso1PreChargeReqType :: "u32 \<Rightarrow> iso1PreChargeReqType decoder" where
  "decode_iso1PreChargeReqType j x s = grammar_loop (iso1PreChargeReq_dec_step j) 205
      (fst x, init_iso1PreChargeReqType (snd x)) s"

definition iso1PreChargeReq_ok :: "iso1PreChargeReqType \<Rightarrow> bool" where
  "iso1PreChargeReq_ok v \<longleftrightarrow>
     iso1DC_EVStatus_ok (iso1PreChargeReq_DC_EVStatus v) \<and>
     iso1PhysicalValue_ok (iso1PreChargeReq_EVTargetVoltage v) \<and>
     iso1PhysicalValue_ok (iso1PreChargeReq_EVTargetCurrent v)"

definition same_iso1PreChargeReq :: "iso1PreChargeReqType \<Rightarrow> iso1PreChargeReqType \<Rightarrow> bool" where
  "same_iso1PreChargeReq v a \<longleftrightarrow>
     same_iso1DC_EVStatus (iso1PreChargeReq_DC_EVStatus v) (iso1PreChargeReq_DC_EVStatus a) \<and>
     same_iso1PhysicalValue (iso1PreChargeReq_EVTargetVoltage v) (iso1PreChargeReq_EVTargetVoltage a) \<and>
     same_iso1PhysicalValue (iso1PreChargeReq_EVTargetCurrent v) (iso1PreChargeReq_EVTargetCurrent a)"

definition iso1PreChargeReq_at :: "iso1PreChargeReqType \<Rightarrow> nat \<Rightarrow> iso1PreChargeReqType
    \<Rightarrow> bool" where
  "iso1PreChargeReq_at v g a \<longleftrightarrow>
     iso1PreChargeReq_ok v \<and>
     g \<in> {205, 206, 207, 3} \<and>
     (g \<notin> {205} \<longrightarrow> same_iso1DC_EVStatus (iso1PreChargeReq_DC_EVStatus v)
       (iso1PreChargeReq_DC_EVStatus a)) \<and>
     (g \<notin> {205, 206} \<longrightarrow> same_iso1PhysicalValue (iso1PreChargeReq_EVTargetVoltage v)
       (iso1PreChargeReq_EVTargetVoltage a)) \<and>
     (g \<notin> {205, 206, 207} \<longrightarrow> same_iso1PhysicalValue (iso1PreChargeReq_EVTargetCurrent v)
       (iso1PreChargeReq_EVTargetCurrent a))"

lemmas iso1PreChargeReq_steps = iso1PreChargeReq_enc_step_def
  iso1PreChargeReq_dec_step_def

lemmas iso1PreChargeReq_props = iso1PreChargeReq_at_def same_iso1PreChargeReq_def left_at_def

interpretation iso1PreChargeReq: paired_machines "iso1PreChargeReq_enc_step v" "iso1PreChargeReq_dec_step j"
    "iso1PreChargeReq_at v"
  "left_at [(205, 108), (206, 85), (207, 43), (3, 1)]" "same_iso1PreChargeReq v" for v j
proof
  fix g a assume at: "iso1PreChargeReq_at v g a"
  then have "g \<in> {205, 206, 207, 3}" by (simp add: iso1PreChargeReq_at_def)
  then show "hops (iso1PreChargeReq_enc_step v) (iso1PreChargeReq_dec_step j) (iso1PreChargeReq_at v)
    (left_at [(205, 108), (206, 85), (207, 43), (3, 1)]) (same_iso1PreChargeReq v) g a" using at
    by - (elim insertE emptyE; (hypsubst, rule hops_by, simp (no_asm) add: iso1PreChargeReq_steps del: One_nat_def,
      simp (no_asm) add: iso1PreChargeReq_steps del: One_nat_def, simp (asm_lr) add: iso1PreChargeReq_props del:
        One_nat_def, (elim conjE)?,
      ((rule walks_ifs)+)?); (frule iso1PreChargeReq_ok_def [THEN iffD1], ((drule (1) known)+)?, (elim conjE)?,
        ((drule (1) known)+)?, (elim conjE)?,
      (((rule walks_shapes, simp (no_asm) del: One_nat_def, ((rule reads_intros)+)?);
      ((elim exE conjE)?,
        ((simp (no_asm_simp) add: iso1PreChargeReq_props; fail) | (simp (asm_lr) add: iso1PreChargeReq_props; fail) |
        (auto simp: iso1PreChargeReq_props; fail)))) | (erule (1) notE; fail) |
        ((elim exE conjE)?,
        ((simp (no_asm_simp) add: iso1PreChargeReq_props; fail) | (simp (asm_lr) add: iso1PreChargeReq_props; fail) |
        (auto simp: iso1PreChargeReq_props; fail))))))
qed

lemma reads_iso1PreChargeReq [reads_intros]:
  "iso1PreChargeReq_ok v \<Longrightarrow> reads 108 (\<lambda>s. encode_iso1PreChargeReqType s v)
      (decode_iso1PreChargeReqType j) a (same_iso1PreChargeReq v)"
  unfolding encode_iso1PreChargeReqType_def decode_iso1PreChargeReqType_def [abs_def]
  by (rule reads_start [OF iso1PreChargeReq.machine_reads, of _ 205, THEN reads_mono])
      (auto simp: iso1PreChargeReq_at_def  init_iso1PreChargeReqType_def left_at_def)

interpretation iso1PreChargeReq_enc: advancing_machine "iso1PreChargeReq_enc_step v" "left_at
    [(205, 4), (206, 3), (207, 2), (3, 1)]" for v
  by unfold_locales (auto simp: iso1PreChargeReq_steps dest!: advance_dests split: if_splits;
      simp add: left_at_def)

interpretation iso1PreChargeReq_dec: advancing_machine "iso1PreChargeReq_dec_step j" "left_at
    [(205, 4), (206, 3), (207, 2), (3, 1)]" for j
  by unfold_locales (auto simp: iso1PreChargeReq_steps dest!: advance_dests elim!: decode_switch_next
      split: if_splits;
      simp add: left_at_def)

subsection \<open>\<open>iso1PreChargeResType\<close>\<close>

record iso1PreChargeResType =
  iso1PreChargeRes_ResponseCode :: u32
  iso1PreChargeRes_DC_EVSEStatus :: iso1DC_EVSEStatusType
  iso1PreChargeRes_EVSEPresentVoltage :: iso1PhysicalValueType

definition init_iso1PreChargeResType :: "iso1PreChargeResType \<Rightarrow> iso1PreChargeResType" where
  "init_iso1PreChargeResType a = a"

definition iso1PreChargeRes_enc_step :: "iso1PreChargeResType \<Rightarrow> unit machine" where
  "iso1PreChargeRes_enc_step v grammarID x s =
     (if grammarID = 39 then
        goto 40 x (encode_simple 1 0 (\<lambda>s. encodeNBitUnsignedInteger s 5 (iso1PreChargeRes_ResponseCode v)) s)
      else if grammarID = 40 then
        goto 41 x (encode_child 1 0 (\<lambda>s. encode_iso1DC_EVSEStatusType s (iso1PreChargeRes_DC_EVSEStatus v)) s)
      else if grammarID = 41 then
        goto 3 x (encode_child 1 0
          (\<lambda>s. encode_iso1PhysicalValueType s (iso1PreChargeRes_EVSEPresentVoltage v)) s)
      else if grammarID = 3 then
        finish 4 x (encodeNBitUnsignedInteger s 1 0)
      else Some (EXI_ERROR_UNKOWN_GRAMMAR_ID, (False, grammarID, x), s))"

definition encode_iso1PreChargeResType :: "bitstream \<Rightarrow> iso1PreChargeResType \<Rightarrow>
    (errn \<times> bitstream) option" where
  "encode_iso1PreChargeResType s v = run_encoder (iso1PreChargeRes_enc_step v) 39 () s"

definition iso1PreChargeRes_dec_step :: "u32 \<Rightarrow> (dec_static \<times> iso1PreChargeResType) machine" where
  "iso1PreChargeRes_dec_step j grammarID x s =
     (if grammarID = 39 then
        decode_switch 1
         [(0, decode_simple 39 40
           (decode_nbit_field 5 (\<lambda>u a. a\<lparr>iso1PreChargeRes_ResponseCode := u\<rparr>)))] 39 x s
      else if grammarID = 40 then
        decode_switch 1
         [(0, decode_child 41 (decode_sub (decode_iso1DC_EVSEStatusType j) iso1PreChargeRes_DC_EVSEStatus
           (\<lambda>u a. a\<lparr>iso1PreChargeRes_DC_EVSEStatus := u\<rparr>)))] 40 x s
      else if grammarID = 41 then
        decode_switch 1
         [(0, decode_child 3 (decode_sub (decode_iso1PhysicalValueType j) iso1PreChargeRes_EVSEPresentVoltage
           (\<lambda>u a. a\<lparr>iso1PreChargeRes_EVSEPresentVoltage := u\<rparr>)))] 41 x s
      else if grammarID = 3 then
        decode_switch 1
         [(0, decode_end 4)] 3 x s
      else Some (EXI_ERROR_UNKOWN_GRAMMAR_ID, (False, grammarID, x), s))"

definition decode_iso1PreChargeResType :: "u32 \<Rightarrow> iso1PreChargeResType decoder" where
  "decode_iso1PreChargeResType j x s = grammar_loop (iso1PreChargeRes_dec_step j) 39
      (fst x, init_iso1PreChargeResType (snd x)) s"

definition iso1PreChargeRes_ok :: "iso1PreChargeResType \<Rightarrow> bool" where
  "iso1PreChargeRes_ok v \<longleftrightarrow>
     iso1PreChargeRes_ResponseCode v < 32 \<and>
     iso1DC_EVSEStatus_ok (iso1PreChargeRes_DC_EVSEStatus v) \<and>
     iso1PhysicalValue_ok (iso1PreChargeRes_EVSEPresentVoltage v)"

definition same_iso1PreChargeRes :: "iso1PreChargeResType \<Rightarrow> iso1PreChargeResType \<Rightarrow> bool" where
  "same_iso1PreChargeRes v a \<longleftrightarrow>
     iso1PreChargeRes_ResponseCode a = iso1PreChargeRes_ResponseCode v \<and>
     same_iso1DC_EVSEStatus (iso1PreChargeRes_DC_EVSEStatus v) (iso1PreChargeRes_DC_EVSEStatus a) \<and>
     same_iso1PhysicalValue (iso1PreChargeRes_EVSEPresentVoltage v) (iso1PreChargeRes_EVSEPresentVoltage a)"

definition iso1PreChargeRes_at :: "iso1PreChargeResType \<Rightarrow> nat \<Rightarrow> iso1PreChargeResType
    \<Rightarrow> bool" where
  "iso1PreChargeRes_at v g a \<longleftrightarrow>
     iso1PreChargeRes_ok v \<and>
     g \<in> {39, 40, 41, 3} \<and>
     (g \<notin> {39} \<longrightarrow> iso1PreChargeRes_ResponseCode a = iso1PreChargeRes_ResponseCode v) \<and>
     (g \<notin> {39, 40} \<longrightarrow> same_iso1DC_EVSEStatus (iso1PreChargeRes_DC_EVSEStatus v)
       (iso1PreChargeRes_DC_EVSEStatus a)) \<and>
     (g \<notin> {39, 40, 41} \<longrightarrow> same_iso1PhysicalValue (iso1PreChargeRes_EVSEPresentVoltage v)
       (iso1PreChargeRes_EVSEPresentVoltage a))"

lemmas iso1PreChargeRes_steps = iso1PreChargeRes_enc_step_def
  iso1PreChargeRes_dec_step_def

lemmas iso1PreChargeRes_props = iso1PreChargeRes_at_def same_iso1PreChargeRes_def left_at_def

interpretation iso1PreChargeRes: paired_machines "iso1PreChargeRes_enc_step v" "iso1PreChargeRes_dec_step j"
    "iso1PreChargeRes_at v"
  "left_at [(39, 99), (40, 91), (41, 43), (3, 1)]" "same_iso1PreChargeRes v" for v j
proof
  fix g a assume at: "iso1PreChargeRes_at v g a"
  then have "g \<in> {39, 40, 41, 3}" by (simp add: iso1PreChargeRes_at_def)
  then show "hops (iso1PreChargeRes_enc_step v) (iso1PreChargeRes_dec_step j) (iso1PreChargeRes_at v)
    (left_at [(39, 99), (40, 91), (41, 43), (3, 1)]) (same_iso1PreChargeRes v) g a" using at
    by - (elim insertE emptyE; (hypsubst, rule hops_by, simp (no_asm) add: iso1PreChargeRes_steps del: One_nat_def,
      simp (no_asm) add: iso1PreChargeRes_steps del: One_nat_def, simp (asm_lr) add: iso1PreChargeRes_props del:
        One_nat_def, (elim conjE)?,
      ((rule walks_ifs)+)?); (frule iso1PreChargeRes_ok_def [THEN iffD1], ((drule (1) known)+)?, (elim conjE)?,
        ((drule (1) known)+)?, (elim conjE)?,
      (((rule walks_shapes, simp (no_asm) del: One_nat_def, ((rule reads_intros)+)?);
      ((elim exE conjE)?,
        ((simp (no_asm_simp) add: iso1PreChargeRes_props; fail) | (simp (asm_lr) add: iso1PreChargeRes_props; fail) |
        (auto simp: iso1PreChargeRes_props; fail)))) | (erule (1) notE; fail) |
        ((elim exE conjE)?,
        ((simp (no_asm_simp) add: iso1PreChargeRes_props; fail) | (simp (asm_lr) add: iso1PreChargeRes_props; fail) |
        (auto simp: iso1PreChargeRes_props; fail))))))
qed

lemma reads_iso1PreChargeRes [reads_intros]:
  "iso1PreChargeRes_ok v \<Longrightarrow> reads 99 (\<lambda>s. encode_iso1PreChargeResType s v)
      (decode_iso1PreChargeResType j) a (same_iso1PreChargeRes v)"
  unfolding encode_iso1PreChargeResType_def decode_iso1PreChargeResType_def [abs_def]
  by (rule reads_start [OF iso1PreChargeRes.machine_reads, of _ 39, THEN reads_mono])
      (auto simp: iso1PreChargeRes_at_def  init_iso1PreChargeResType_def left_at_def)

interpretation iso1PreChargeRes_enc: advancing_machine "iso1PreChargeRes_enc_step v" "left_at
    [(39, 4), (40, 3), (41, 2), (3, 1)]" for v
  by unfold_locales (auto simp: iso1PreChargeRes_steps dest!: advance_dests split: if_splits;
      simp add: left_at_def)

interpretation iso1PreChargeRes_dec: advancing_machine "iso1PreChargeRes_dec_step j" "left_at
    [(39, 4), (40, 3), (41, 2), (3, 1)]" for j
  by unfold_locales (auto simp: iso1PreChargeRes_steps dest!: advance_dests elim!: decode_switch_next
      split: if_splits;
      simp add: left_at_def)

subsection \<open>\<open>iso1CurrentDemandReqType\<close>\<close>

record iso1CurrentDemandReqType =
  iso1CurrentDemandReq_DC_EVStatus :: iso1DC_EVStatusType
  iso1CurrentDemandReq_EVTargetCurrent :: iso1PhysicalValueType
  iso1CurrentDemandReq_EVMaximumVoltageLimit :: iso1PhysicalValueType
  iso1CurrentDemandReq_EVMaximumVoltageLimit_isUsed :: bool
  iso1CurrentDemandReq_EVMaximumCurrentLimit :: iso1PhysicalValueType
  iso1CurrentDemandReq_EVMaximumCurrentLimit_isUsed :: bool
  iso1CurrentDemandReq_EVMaximumPowerLimit :: iso1PhysicalValueType
  iso1CurrentDemandReq_EVMaximumPowerLimit_isUsed :: bool
  iso1CurrentDemandReq_BulkChargingComplete :: int
  iso1CurrentDemandReq_BulkChargingComplete_isUsed :: bool
  iso1CurrentDemandReq_ChargingComplete :: int
  iso1CurrentDemandReq_RemainingTimeToFullSoC :: iso1PhysicalValueType
  iso1CurrentDemandReq_RemainingTimeToFullSoC_isUsed :: bool
  iso1CurrentDemandReq_RemainingTimeToBulkSoC :: iso1PhysicalValueType
  iso1CurrentDemandReq_RemainingTimeToBulkSoC_isUsed :: bool
  iso1CurrentDemandReq_EVTargetVoltage :: iso1PhysicalValueType

definition init_iso1CurrentDemandReqType :: "iso1CurrentDemandReqType \<Rightarrow> iso1CurrentDemandReqType" where
  "init_iso1CurrentDemandReqType a = a\<lparr>iso1CurrentDemandReq_EVMaximumVoltageLimit_isUsed := False,
      iso1CurrentDemandReq_EVMaximumCurrentLimit_isUsed := False, iso1CurrentDemandReq_EVMaximumPowerLimit_isUsed
      := False, iso1CurrentDemandReq_BulkChargingComplete_isUsed := False,
      iso1CurrentDemandReq_RemainingTimeToFullSoC_isUsed := False, iso1CurrentDemandReq_RemainingTimeToBulkSoC_isUsed
      := False\<rparr>"

definition iso1CurrentDemandReq_enc_step_3 :: "iso1CurrentDemandReqType \<Rightarrow> unit machine" where
  "iso1CurrentDemandReq_enc_step_3 v grammarID x s =
     (if grammarID = 3 then
        finish 4 x (encodeNBitUnsignedInteger s 1 0)
      else Some (EXI_ERROR_UNKOWN_GRAMMAR_ID, (False, grammarID, x), s))"

definition iso1CurrentDemandReq_enc_step_2 :: "iso1CurrentDemandReqType \<Rightarrow> unit machine" where
  "iso1CurrentDemandReq_enc_step_2 v grammarID x s =
     (if grammarID = 277 then
        if iso1CurrentDemandReq_EVMaximumPowerLimit_isUsed v then
          goto 278 x
          (encode_child 2 0 (\<lambda>s. encode_iso1PhysicalValueType s (iso1CurrentDemandReq_EVMaximumPowerLimit v))
          s)
        else if iso1CurrentDemandReq_BulkChargingComplete_isUsed v then
          goto 279 x (encode_simple 2 1 (\<lambda>s. encodeBoolean s (iso1CurrentDemandReq_BulkChargingComplete v)) s)
        else goto 280 x (encode_simple 2 2 (\<lambda>s. encodeBoolean s (iso1CurrentDemandReq_ChargingComplete v)) s)
      else if grammarID = 278 then
        if iso1CurrentDemandReq_BulkChargingComplete_isUsed v then
          goto 279 x (encode_simple 2 0 (\<lambda>s. encodeBoolean s (iso1CurrentDemandReq_BulkChargingComplete v)) s)
        else goto 280 x (encode_simple 2 1 (\<lambda>s. encodeBoolean s (iso1CurrentDemandReq_ChargingComplete v)) s)
      else if grammarID = 279 then
        goto 280 x (encode_simple 1 0 (\<lambda>s. encodeBoolean s (iso1CurrentDemandReq_ChargingComplete v)) s)
      else if grammarID = 280 then
        if iso1CurrentDemandReq_RemainingTimeToFullSoC_isUsed v then
          goto 281 x
          (encode_child 2 0
          (\<lambda>s. encode_iso1PhysicalValueType s (iso1CurrentDemandReq_RemainingTimeToFullSoC v)) s)
        else if iso1CurrentDemandReq_RemainingTimeToBulkSoC_isUsed v then
          goto 282 x
          (encode_child 2 1
          (\<lambda>s. encode_iso1PhysicalValueType s (iso1CurrentDemandReq_RemainingTimeToBulkSoC v)) s)
        else goto 3 x
          (encode_child 2 2 (\<lambda>s. encode_iso1PhysicalValueType s (iso1CurrentDemandReq_EVTargetVoltage v)) s)
      else if grammarID = 281 then
        if iso1CurrentDemandReq_RemainingTimeToBulkSoC_isUsed v then
          goto 282 x
          (encode_child 2 0
          (\<lambda>s. encode_iso1PhysicalValueType s (iso1CurrentDemandReq_RemainingTimeToBulkSoC v)) s)
        else goto 3 x
          (encode_child 2 1 (\<lambda>s. encode_iso1PhysicalValueType s (iso1CurrentDemandReq_EVTargetVoltage v)) s)
      else if grammarID = 282 then
        goto 3 x (encode_child 1 0
          (\<lambda>s. encode_iso1PhysicalValueType s (iso1CurrentDemandReq_EVTargetVoltage v)) s)
      else iso1CurrentDemandReq_enc_step_3 v grammarID x s)"

definition iso1CurrentDemandReq_enc_step :: "iso1CurrentDemandReqType \<Rightarrow> unit machine" where
  "iso1CurrentDemandReq_enc_step v grammarID x s =
     (if grammarID = 273 then
        goto 274 x (encode_child 1 0 (\<lambda>s. encode_iso1DC_EVStatusType s (iso1CurrentDemandReq_DC_EVStatus v))
          s)
      else if grammarID = 274 then
        goto 275 x
          (encode_child 1 0 (\<lambda>s. encode_iso1PhysicalValueType s (iso1CurrentDemandReq_EVTargetCurrent v)) s)
      else if grammarID = 275 then
        if iso1CurrentDemandReq_EVMaximumVoltageLimit_isUsed v then
          goto 276 x
          (encode_child 3 0
          (\<lambda>s. encode_iso1PhysicalValueType s (iso1CurrentDemandReq_EVMaximumVoltageLimit v)) s)
        else if iso1CurrentDemandReq_EVMaximumCurrentLimit_isUsed v then
          goto 277 x
          (encode_child 3 1
          (\<lambda>s. encode_iso1PhysicalValueType s (iso1CurrentDemandReq_EVMaximumCurrentLimit v)) s)
        else if iso1CurrentDemandReq_EVMaximumPowerLimit_isUsed v then
          goto 278 x
          (encode_child 3 2 (\<lambda>s. encode_iso1PhysicalValueType s (iso1CurrentDemandReq_EVMaximumPowerLimit v))
          s)
        else if iso1CurrentDemandReq_BulkChargingComplete_isUsed v then
          goto 279 x (encode_simple 3 3 (\<lambda>s. encodeBoolean s (iso1CurrentDemandReq_BulkChargingComplete v)) s)
        else goto 280 x (encode_simple 3 4 (\<lambda>s. encodeBoolean s (iso1CurrentDemandReq_ChargingComplete v)) s)
      else if grammarID = 276 then
        if iso1CurrentDemandReq_EVMaximumCurrentLimit_isUsed v then
          goto 277 x
          (encode_child 3 0
          (\<lambda>s. encode_iso1PhysicalValueType s (iso1CurrentDemandReq_EVMaximumCurrentLimit v)) s)
        else if iso1CurrentDemandReq_EVMaximumPowerLimit_isUsed v then
          goto 278 x
          (encode_child 3 1 (\<lambda>s. encode_iso1PhysicalValueType s (iso1CurrentDemandReq_EVMaximumPowerLimit v))
          s)
        else if iso1CurrentDemandReq_BulkChargingComplete_isUsed v then
          goto 279 x (encode_simple 3 2 (\<lambda>s. encodeBoolean s (iso1CurrentDemandReq_BulkChargingComplete v)) s)
        else goto 280 x (encode_simple 3 3 (\<lambda>s. encodeBoolean s (iso1CurrentDemandReq_ChargingComplete v)) s)
      else iso1CurrentDemandReq_enc_step_2 v grammarID x s)"

definition encode_iso1CurrentDemandReqType :: "bitstream \<Rightarrow> iso1CurrentDemandReqType \<Rightarrow>
    (errn \<times> bitstream) option" where
  "encode_iso1CurrentDemandReqType s v = run_encoder (iso1CurrentDemandReq_enc_step v) 273 () s"

definition iso1CurrentDemandReq_dec_step_4 :: "u32 \<Rightarrow> (dec_static \<times> iso1CurrentDemandReqType)
    machine" where
  "iso1CurrentDemandReq_dec_step_4 j grammarID x s =
     (if grammarID = 3 then
        decode_switch 1
         [(0, decode_end 4)] 3 x s
      else Some (EXI_ERROR_UNKOWN_GRAMMAR_ID, (False, grammarID, x), s))"

definition iso1CurrentDemandReq_dec_step_3 :: "u32 \<Rightarrow> (dec_static \<times> iso1CurrentDemandReqType)
    machine" where
  "iso1CurrentDemandReq_dec_step_3 j grammarID x s =
     (if grammarID = 278 then
        decode_switch 2
         [(0, decode_simple 278 279
           (decode_used (\<lambda>a. a\<lparr>iso1CurrentDemandReq_BulkChargingComplete_isUsed := True\<rparr>)
           (decode_bool_field j (\<lambda>u a. a\<lparr>iso1CurrentDemandReq_BulkChargingComplete := u\<rparr>)))),
          (1, decode_simple 278 280
            (decode_bool_field j (\<lambda>u a. a\<lparr>iso1CurrentDemandReq_ChargingComplete := u\<rparr>)))] 278 x
            s
      else if grammarID = 279 then
        decode_switch 1
         [(0, decode_simple 279 280
           (decode_bool_field j (\<lambda>u a. a\<lparr>iso1CurrentDemandReq_ChargingComplete := u\<rparr>)))] 279 x s
      else if grammarID = 280 then
        decode_switch 2
         [(0, decode_child 281
           (decode_used (\<lambda>a. a\<lparr>iso1CurrentDemandReq_RemainingTimeToFullSoC_isUsed := True\<rparr>)
           (decode_sub (decode_iso1PhysicalValueType j) iso1CurrentDemandReq_RemainingTimeToFullSoC
           (\<lambda>u a. a\<lparr>iso1CurrentDemandReq_RemainingTimeToFullSoC := u\<rparr>)))),
          (1, decode_child 282
            (decode_used (\<lambda>a. a\<lparr>iso1CurrentDemandReq_RemainingTimeToBulkSoC_isUsed := True\<rparr>)
            (decode_sub (decode_iso1PhysicalValueType j) iso1CurrentDemandReq_RemainingTimeToBulkSoC
            (\<lambda>u a. a\<lparr>iso1CurrentDemandReq_RemainingTimeToBulkSoC := u\<rparr>)))),
          (2, decode_child 3 (decode_sub (decode_iso1PhysicalValueType j) iso1CurrentDemandReq_EVTargetVoltage
            (\<lambda>u a. a\<lparr>iso1CurrentDemandReq_EVTargetVoltage := u\<rparr>)))] 280 x s
      else if grammarID = 281 then
        decode_switch 2
         [(0, decode_child 282
           (decode_used (\<lambda>a. a\<lparr>iso1CurrentDemandReq_RemainingTimeToBulkSoC_isUsed := True\<rparr>)
           (decode_sub (decode_iso1PhysicalValueType j) iso1CurrentDemandReq_RemainingTimeToBulkSoC
           (\<lambda>u a. a\<lparr>iso1CurrentDemandReq_RemainingTimeToBulkSoC := u\<rparr>)))),
          (1, decode_child 3 (decode_sub (decode_iso1PhysicalValueType j) iso1CurrentDemandReq_EVTargetVoltage
            (\<lambda>u a. a\<lparr>iso1CurrentDemandReq_EVTargetVoltage := u\<rparr>)))] 281 x s
      else if grammarID = 282 then
        decode_switch 1
         [(0, decode_child 3 (decode_sub (decode_iso1PhysicalValueType j) iso1CurrentDemandReq_EVTargetVoltage
           (\<lambda>u a. a\<lparr>iso1CurrentDemandReq_EVTargetVoltage := u\<rparr>)))] 282 x s
      else iso1CurrentDemandReq_dec_step_4 j grammarID x s)"

definition iso1CurrentDemandReq_dec_step_2 :: "u32 \<Rightarrow> (dec_static \<times> iso1CurrentDemandReqType)
    machine" where
  "iso1CurrentDemandReq_dec_step_2 j grammarID x s =
     (if grammarID = 276 then
        decode_switch 3
         [(0, decode_child 277
           (decode_used (\<lambda>a. a\<lparr>iso1CurrentDemandReq_EVMaximumCurrentLimit_isUsed := True\<rparr>)
           (decode_sub (decode_iso1PhysicalValueType j) iso1CurrentDemandReq_EVMaximumCurrentLimit
           (\<lambda>u a. a\<lparr>iso1CurrentDemandReq_EVMaximumCurrentLimit := u\<rparr>)))),
          (1, decode_child 278
            (decode_used (\<lambda>a. a\<lparr>iso1CurrentDemandReq_EVMaximumPowerLimit_isUsed := True\<rparr>)
            (decode_sub (decode_iso1PhysicalValueType j) iso1CurrentDemandReq_EVMaximumPowerLimit
            (\<lambda>u a. a\<lparr>iso1CurrentDemandReq_EVMaximumPowerLimit := u\<rparr>)))),
          (2, decode_simple 276 279
            (decode_used (\<lambda>a. a\<lparr>iso1CurrentDemandReq_BulkChargingComplete_isUsed := True\<rparr>)
            (decode_bool_field j (\<lambda>u a. a\<lparr>iso1CurrentDemandReq_BulkChargingComplete := u\<rparr>)))),
          (3, decode_simple 276 280
            (decode_bool_field j (\<lambda>u a. a\<lparr>iso1CurrentDemandReq_ChargingComplete := u\<rparr>)))] 276 x
            s
      else if grammarID = 277 then
        decode_switch 2
         [(0, decode_child 278
           (decode_used (\<lambda>a. a\<lparr>iso1CurrentDemandReq_EVMaximumPowerLimit_isUsed := True\<rparr>)
           (decode_sub (decode_iso1PhysicalValueType j) iso1CurrentDemandReq_EVMaximumPowerLimit
           (\<lambda>u a. a\<lparr>iso1CurrentDemandReq_EVMaximumPowerLimit := u\<rparr>)))),
          (1, decode_simple 277 279
            (decode_used (\<lambda>a. a\<lparr>iso1CurrentDemandReq_BulkChargingComplete_isUsed := True\<rparr>)
            (decode_bool_field j (\<lambda>u a. a\<lparr>iso1CurrentDemandReq_BulkChargingComplete := u\<rparr>)))),
          (2, decode_simple 277 280
            (decode_bool_field j (\<lambda>u a. a\<lparr>iso1CurrentDemandReq_ChargingComplete := u\<rparr>)))] 277 x
            s
      else iso1CurrentDemandReq_dec_step_3 j grammarID x s)"

definition iso1CurrentDemandReq_dec_step :: "u32 \<Rightarrow> (dec_static \<times> iso1CurrentDemandReqType) machine"
    where
  "iso1CurrentDemandReq_dec_step j grammarID x s =
     (if grammarID = 273 then
        decode_switch 1
         [(0, decode_child 274 (decode_sub (decode_iso1DC_EVStatusType j) iso1CurrentDemandReq_DC_EVStatus
           (\<lambda>u a. a\<lparr>iso1CurrentDemandReq_DC_EVStatus := u\<rparr>)))] 273 x s
      else if grammarID = 274 then
        decode_switch 1
         [(0, decode_child 275 (decode_sub (decode_iso1PhysicalValueType j) iso1CurrentDemandReq_EVTargetCurrent
           (\<lambda>u a. a\<lparr>iso1CurrentDemandReq_EVTargetCurrent := u\<rparr>)))] 274 x s
      else if grammarID = 275 then
        decode_switch 3
         [(0, decode_child 276
           (decode_used (\<lambda>a. a\<lparr>iso1CurrentDemandReq_EVMaximumVoltageLimit_isUsed := True\<rparr>)
           (decode_sub (decode_iso1PhysicalValueType j) iso1CurrentDemandReq_EVMaximumVoltageLimit
           (\<lambda>u a. a\<lparr>iso1CurrentDemandReq_EVMaximumVoltageLimit := u\<rparr>)))),
          (1, decode_child 277
            (decode_used (\<lambda>a. a\<lparr>iso1CurrentDemandReq_EVMaximumCurrentLimit_isUsed := True\<rparr>)
            (decode_sub (decode_iso1PhysicalValueType j) iso1CurrentDemandReq_EVMaximumCurrentLimit
            (\<lambda>u a. a\<lparr>iso1CurrentDemandReq_EVMaximumCurrentLimit := u\<rparr>)))),
          (2, decode_child 278
            (decode_used (\<lambda>a. a\<lparr>iso1CurrentDemandReq_EVMaximumPowerLimit_isUsed := True\<rparr>)
            (decode_sub (decode_iso1PhysicalValueType j) iso1CurrentDemandReq_EVMaximumPowerLimit
            (\<lambda>u a. a\<lparr>iso1CurrentDemandReq_EVMaximumPowerLimit := u\<rparr>)))),
          (3, decode_simple 275 279
            (decode_used (\<lambda>a. a\<lparr>iso1CurrentDemandReq_BulkChargingComplete_isUsed := True\<rparr>)
            (decode_bool_field j (\<lambda>u a. a\<lparr>iso1CurrentDemandReq_BulkChargingComplete := u\<rparr>)))),
          (4, decode_simple 275 280
            (decode_bool_field j (\<lambda>u a. a\<lparr>iso1CurrentDemandReq_ChargingComplete := u\<rparr>)))] 275 x
            s
      else iso1CurrentDemandReq_dec_step_2 j grammarID x s)"

definition decode_iso1CurrentDemandReqType :: "u32 \<Rightarrow> iso1CurrentDemandReqType decoder" where
  "decode_iso1CurrentDemandReqType j x s = grammar_loop (iso1CurrentDemandReq_dec_step j) 273
      (fst x, init_iso1CurrentDemandReqType (snd x)) s"

definition iso1CurrentDemandReq_ok :: "iso1CurrentDemandReqType \<Rightarrow> bool" where
  "iso1CurrentDemandReq_ok v \<longleftrightarrow>
     iso1DC_EVStatus_ok (iso1CurrentDemandReq_DC_EVStatus v) \<and>
     iso1PhysicalValue_ok (iso1CurrentDemandReq_EVTargetCurrent v) \<and>
     when_used (iso1CurrentDemandReq_EVMaximumVoltageLimit_isUsed v)
       (iso1PhysicalValue_ok (iso1CurrentDemandReq_EVMaximumVoltageLimit v)) \<and>
     when_used (iso1CurrentDemandReq_EVMaximumCurrentLimit_isUsed v)
       (iso1PhysicalValue_ok (iso1CurrentDemandReq_EVMaximumCurrentLimit v)) \<and>
     when_used (iso1CurrentDemandReq_EVMaximumPowerLimit_isUsed v)
       (iso1PhysicalValue_ok (iso1CurrentDemandReq_EVMaximumPowerLimit v)) \<and>
     when_used (iso1CurrentDemandReq_RemainingTimeToFullSoC_isUsed v)
       (iso1PhysicalValue_ok (iso1CurrentDemandReq_RemainingTimeToFullSoC v)) \<and>
     when_used (iso1CurrentDemandReq_RemainingTimeToBulkSoC_isUsed v)
       (iso1PhysicalValue_ok (iso1CurrentDemandReq_RemainingTimeToBulkSoC v)) \<and>
     iso1PhysicalValue_ok (iso1CurrentDemandReq_EVTargetVoltage v)"

definition same_iso1CurrentDemandReq :: "iso1CurrentDemandReqType \<Rightarrow> iso1CurrentDemandReqType \<Rightarrow>
    bool" where
  "same_iso1CurrentDemandReq v a \<longleftrightarrow>
     same_iso1DC_EVStatus (iso1CurrentDemandReq_DC_EVStatus v) (iso1CurrentDemandReq_DC_EVStatus a) \<and>
     same_iso1PhysicalValue (iso1CurrentDemandReq_EVTargetCurrent v) (iso1CurrentDemandReq_EVTargetCurrent a) \<and>
     kept (iso1CurrentDemandReq_EVMaximumVoltageLimit_isUsed v) (iso1CurrentDemandReq_EVMaximumVoltageLimit_isUsed a)
       (same_iso1PhysicalValue (iso1CurrentDemandReq_EVMaximumVoltageLimit v)
       (iso1CurrentDemandReq_EVMaximumVoltageLimit a)) \<and>
     kept (iso1CurrentDemandReq_EVMaximumCurrentLimit_isUsed v) (iso1CurrentDemandReq_EVMaximumCurrentLimit_isUsed a)
       (same_iso1PhysicalValue (iso1CurrentDemandReq_EVMaximumCurrentLimit v)
       (iso1CurrentDemandReq_EVMaximumCurrentLimit a)) \<and>
     kept (iso1CurrentDemandReq_EVMaximumPowerLimit_isUsed v) (iso1CurrentDemandReq_EVMaximumPowerLimit_isUsed a)
       (same_iso1PhysicalValue (iso1CurrentDemandReq_EVMaximumPowerLimit v)
       (iso1CurrentDemandReq_EVMaximumPowerLimit a)) \<and>
     kept (iso1CurrentDemandReq_BulkChargingComplete_isUsed v) (iso1CurrentDemandReq_BulkChargingComplete_isUsed a)
       ((iso1CurrentDemandReq_BulkChargingComplete a \<noteq> 0) = (iso1CurrentDemandReq_BulkChargingComplete v
       \<noteq> 0)) \<and>
     (iso1CurrentDemandReq_ChargingComplete a \<noteq> 0) = (iso1CurrentDemandReq_ChargingComplete v \<noteq> 0)
       \<and>
     kept (iso1CurrentDemandReq_RemainingTimeToFullSoC_isUsed v)
       (iso1CurrentDemandReq_RemainingTimeToFullSoC_isUsed a)
       (same_iso1PhysicalValue (iso1CurrentDemandReq_RemainingTimeToFullSoC v)
       (iso1CurrentDemandReq_RemainingTimeToFullSoC a)) \<and>
     kept (iso1CurrentDemandReq_RemainingTimeToBulkSoC_isUsed v)
       (iso1CurrentDemandReq_RemainingTimeToBulkSoC_isUsed a)
       (same_iso1PhysicalValue (iso1CurrentDemandReq_RemainingTimeToBulkSoC v)
       (iso1CurrentDemandReq_RemainingTimeToBulkSoC a)) \<and>
     same_iso1PhysicalValue (iso1CurrentDemandReq_EVTargetVoltage v) (iso1CurrentDemandReq_EVTargetVoltage a)"

definition iso1CurrentDemandReq_at :: "iso1CurrentDemandReqType \<Rightarrow> nat \<Rightarrow>
    iso1CurrentDemandReqType \<Rightarrow> bool" where
  "iso1CurrentDemandReq_at v g a \<longleftrightarrow>
     iso1CurrentDemandReq_ok v \<and>
     g \<in> {273, 274, 275, 276, 277, 278, 279, 280, 281, 282, 3} \<and>
     (g \<notin> {273} \<longrightarrow> same_iso1DC_EVStatus (iso1CurrentDemandReq_DC_EVStatus v)
       (iso1CurrentDemandReq_DC_EVStatus a)) \<and>
     (g \<notin> {273, 274} \<longrightarrow> same_iso1PhysicalValue (iso1CurrentDemandReq_EVTargetCurrent v)
       (iso1CurrentDemandReq_EVTargetCurrent a)) \<and>
     (if g \<in> {273, 274, 275} then \<not> iso1CurrentDemandReq_EVMaximumVoltageLimit_isUsed a
      else kept (iso1CurrentDemandReq_EVMaximumVoltageLimit_isUsed v)
        (iso1CurrentDemandReq_EVMaximumVoltageLimit_isUsed a)
        (same_iso1PhysicalValue (iso1CurrentDemandReq_EVMaximumVoltageLimit v)
        (iso1CurrentDemandReq_EVMaximumVoltageLimit a))) \<and>
     (if g \<in> {273, 274, 275, 276} then \<not> iso1CurrentDemandReq_EVMaximumCurrentLimit_isUsed a
      else kept (iso1CurrentDemandReq_EVMaximumCurrentLimit_isUsed v)
        (iso1CurrentDemandReq_EVMaximumCurrentLimit_isUsed a)
        (same_iso1PhysicalValue (iso1CurrentDemandReq_EVMaximumCurrentLimit v)
        (iso1CurrentDemandReq_EVMaximumCurrentLimit a))) \<and>
     (if g \<in> {273, 274, 275, 276, 277} then \<not> iso1CurrentDemandReq_EVMaximumPowerLimit_isUsed a
      else kept (iso1CurrentDemandReq_EVMaximumPowerLimit_isUsed v)
        (iso1CurrentDemandReq_EVMaximumPowerLimit_isUsed a)
        (same_iso1PhysicalValue (iso1CurrentDemandReq_EVMaximumPowerLimit v)
        (iso1CurrentDemandReq_EVMaximumPowerLimit a))) \<and>
     (if g \<in> {273, 274, 275, 276, 277, 278} then \<not> iso1CurrentDemandReq_BulkChargingComplete_isUsed a
      else kept (iso1CurrentDemandReq_BulkChargingComplete_isUsed v)
        (iso1CurrentDemandReq_BulkChargingComplete_isUsed a)
        ((iso1CurrentDemandReq_BulkChargingComplete a \<noteq> 0) = (iso1CurrentDemandReq_BulkChargingComplete v
        \<noteq> 0))) \<and>
     (g \<notin> {273, 274, 275, 276, 277, 278, 279} \<longrightarrow>
       (iso1CurrentDemandReq_ChargingComplete a \<noteq> 0) = (iso1CurrentDemandReq_ChargingComplete v \<noteq> 0))
       \<and>
     (if g \<in> {273, 274, 275, 276, 277, 278, 279, 280} then
       \<not> iso1CurrentDemandReq_RemainingTimeToFullSoC_isUsed a
      else kept (iso1CurrentDemandReq_RemainingTimeToFullSoC_isUsed v)
        (iso1CurrentDemandReq_RemainingTimeToFullSoC_isUsed a)
        (same_iso1PhysicalValue (iso1CurrentDemandReq_RemainingTimeToFullSoC v)
        (iso1CurrentDemandReq_RemainingTimeToFullSoC a))) \<and>
     (if g \<in> {273, 274, 275, 276, 277, 278, 279, 280, 281} then
       \<not> iso1CurrentDemandReq_RemainingTimeToBulkSoC_isUsed a
      else kept (iso1CurrentDemandReq_RemainingTimeToBulkSoC_isUsed v)
        (iso1CurrentDemandReq_RemainingTimeToBulkSoC_isUsed a)
        (same_iso1PhysicalValue (iso1CurrentDemandReq_RemainingTimeToBulkSoC v)
        (iso1CurrentDemandReq_RemainingTimeToBulkSoC a))) \<and>
     (g \<notin> {273, 274, 275, 276, 277, 278, 279, 280, 281, 282} \<longrightarrow>
       same_iso1PhysicalValue (iso1CurrentDemandReq_EVTargetVoltage v) (iso1CurrentDemandReq_EVTargetVoltage a))"

lemmas iso1CurrentDemandReq_steps = iso1CurrentDemandReq_enc_step_def iso1CurrentDemandReq_enc_step_2_def
    iso1CurrentDemandReq_enc_step_3_def
  iso1CurrentDemandReq_dec_step_def iso1CurrentDemandReq_dec_step_2_def iso1CurrentDemandReq_dec_step_3_def
      iso1CurrentDemandReq_dec_step_4_def

lemmas iso1CurrentDemandReq_props = iso1CurrentDemandReq_at_def same_iso1CurrentDemandReq_def left_at_def

lemma iso1CurrentDemandReq_steps_1:
  "iso1CurrentDemandReq_at v g a \<Longrightarrow> g \<in> {273, 274, 275, 276, 277, 278} \<Longrightarrow>
   hops (iso1CurrentDemandReq_enc_step v) (iso1CurrentDemandReq_dec_step j) (iso1CurrentDemandReq_at v)
    (left_at [(273, 334), (274, 311), (275, 269), (276, 225), (277, 181), (278, 138), (279, 133), (280, 129),
      (281, 86), (282, 43), (3, 1)]) (same_iso1CurrentDemandReq v) g a"
  by (elim insertE emptyE; (hypsubst, rule hops_by, simp (no_asm) add: iso1CurrentDemandReq_steps del: One_nat_def,
      simp (no_asm) add: iso1CurrentDemandReq_steps del: One_nat_def, simp (asm_lr) add: iso1CurrentDemandReq_props
        del: One_nat_def, (elim conjE)?,
      ((rule walks_ifs)+)?); (frule iso1CurrentDemandReq_ok_def [THEN iffD1], ((drule (1) known)+)?, (elim conjE)?,
        ((drule (1) known)+)?, (elim conjE)?,
      (((rule walks_shapes, simp (no_asm) del: One_nat_def, ((rule reads_intros)+)?);
      ((elim exE conjE)?,
        ((simp (no_asm_simp) add: iso1CurrentDemandReq_props; fail) |
        (simp (asm_lr) add: iso1CurrentDemandReq_props; fail) | (auto simp: iso1CurrentDemandReq_props; fail)))) |
        (erule (1) notE; fail) |
        ((elim exE conjE)?,
        ((simp (no_asm_simp) add: iso1CurrentDemandReq_props; fail) |
        (simp (asm_lr) add: iso1CurrentDemandReq_props; fail) | (auto simp: iso1CurrentDemandReq_props; fail))))))

lemma iso1CurrentDemandReq_steps_2:
  "iso1CurrentDemandReq_at v g a \<Longrightarrow> g \<in> {279, 280, 281, 282, 3} \<Longrightarrow>
   hops (iso1CurrentDemandReq_enc_step v) (iso1CurrentDemandReq_dec_step j) (iso1CurrentDemandReq_at v)
    (left_at [(273, 334), (274, 311), (275, 269), (276, 225), (277, 181), (278, 138), (279, 133), (280, 129),
      (281, 86), (282, 43), (3, 1)]) (same_iso1CurrentDemandReq v) g a"
  by (elim insertE emptyE; (hypsubst, rule hops_by, simp (no_asm) add: iso1CurrentDemandReq_steps del: One_nat_def,
      simp (no_asm) add: iso1CurrentDemandReq_steps del: One_nat_def, simp (asm_lr) add: iso1CurrentDemandReq_props
        del: One_nat_def, (elim conjE)?,
      ((rule walks_ifs)+)?); (frule iso1CurrentDemandReq_ok_def [THEN iffD1], ((drule (1) known)+)?, (elim conjE)?,
        ((drule (1) known)+)?, (elim conjE)?,
      (((rule walks_shapes, simp (no_asm) del: One_nat_def, ((rule reads_intros)+)?);
      ((elim exE conjE)?,
        ((simp (no_asm_simp) add: iso1CurrentDemandReq_props; fail) |
        (simp (asm_lr) add: iso1CurrentDemandReq_props; fail) | (auto simp: iso1CurrentDemandReq_props; fail)))) |
        (erule (1) notE; fail) |
        ((elim exE conjE)?,
        ((simp (no_asm_simp) add: iso1CurrentDemandReq_props; fail) |
        (simp (asm_lr) add: iso1CurrentDemandReq_props; fail) | (auto simp: iso1CurrentDemandReq_props; fail))))))

interpretation iso1CurrentDemandReq: paired_machines "iso1CurrentDemandReq_enc_step v" "iso1CurrentDemandReq_dec_step
    j" "iso1CurrentDemandReq_at v"
  "left_at [(273, 334), (274, 311), (275, 269), (276, 225), (277, 181), (278, 138), (279, 133), (280, 129), (281, 86),
      (282, 43), (3, 1)]" "same_iso1CurrentDemandReq v" for v j
proof
  fix g a assume at: "iso1CurrentDemandReq_at v g a"
  then have "g \<in> {273, 274, 275, 276, 277, 278} \<or> g \<in> {279, 280, 281, 282,
      3}" by (auto simp: iso1CurrentDemandReq_at_def)
  then show "hops (iso1CurrentDemandReq_enc_step v) (iso1CurrentDemandReq_dec_step j) (iso1CurrentDemandReq_at v)
    (left_at [(273, 334), (274, 311), (275, 269), (276, 225), (277, 181), (278, 138), (279, 133), (280, 129),
      (281, 86), (282, 43), (3, 1)]) (same_iso1CurrentDemandReq v) g a"
    by (elim disjE) (erule iso1CurrentDemandReq_steps_1 [OF at] | erule iso1CurrentDemandReq_steps_2 [OF at])+
qed

lemma reads_iso1CurrentDemandReq [reads_intros]:
  "iso1CurrentDemandReq_ok v \<Longrightarrow> reads 334 (\<lambda>s. encode_iso1CurrentDemandReqType s v)
      (decode_iso1CurrentDemandReqType j) a (same_iso1CurrentDemandReq v)"
  unfolding encode_iso1CurrentDemandReqType_def decode_iso1CurrentDemandReqType_def [abs_def]
  by (rule reads_start [OF iso1CurrentDemandReq.machine_reads, of _ 273, THEN reads_mono])
      (auto simp: iso1CurrentDemandReq_at_def  init_iso1CurrentDemandReqType_def left_at_def)

interpretation iso1CurrentDemandReq_enc: advancing_machine "iso1CurrentDemandReq_enc_step v" "left_at
    [(273, 11), (274, 10), (275, 9), (276, 8), (277, 7), (278, 6), (279, 5), (280, 4), (281, 3), (282, 2), (3, 1)]"
    for v
  by unfold_locales (auto simp: iso1CurrentDemandReq_steps dest!: advance_dests split: if_splits;
      simp add: left_at_def)

interpretation iso1CurrentDemandReq_dec: advancing_machine "iso1CurrentDemandReq_dec_step j" "left_at
    [(273, 11), (274, 10), (275, 9), (276, 8), (277, 7), (278, 6), (279, 5), (280, 4), (281, 3), (282, 2), (3, 1)]"
    for j
  by unfold_locales (auto simp: iso1CurrentDemandReq_steps dest!: advance_dests elim!: decode_switch_next
      split: if_splits;
      simp add: left_at_def)

subsection \<open>\<open>iso1CurrentDemandResType\<close>\<close>

record iso1CurrentDemandResType =
  iso1CurrentDemandRes_ResponseCode :: u32
  iso1CurrentDemandRes_DC_EVSEStatus :: iso1DC_EVSEStatusType
  iso1CurrentDemandRes_EVSEPresentVoltage :: iso1PhysicalValueType
  iso1CurrentDemandRes_EVSEPresentCurrent :: iso1PhysicalValueType
  iso1CurrentDemandRes_EVSECurrentLimitAchieved :: int
  iso1CurrentDemandRes_EVSEVoltageLimitAchieved :: int
  iso1CurrentDemandRes_EVSEPowerLimitAchieved :: int
  iso1CurrentDemandRes_EVSEMaximumVoltageLimit :: iso1PhysicalValueType
  iso1CurrentDemandRes_EVSEMaximumVoltageLimit_isUsed :: bool
  iso1CurrentDemandRes_EVSEMaximumCurrentLimit :: iso1PhysicalValueType
  iso1CurrentDemandRes_EVSEMaximumCurrentLimit_isUsed :: bool
  iso1CurrentDemandRes_EVSEMaximumPowerLimit :: iso1PhysicalValueType
  iso1CurrentDemandRes_EVSEMaximumPowerLimit_isUsed :: bool
  iso1CurrentDemandRes_EVSEID_characters :: "u8 list"
  iso1CurrentDemandRes_EVSEID_charactersLen :: u16
  iso1CurrentDemandRes_SAScheduleTupleID :: u8
  iso1CurrentDemandRes_MeterInfo :: iso1MeterInfoType
  iso1CurrentDemandRes_MeterInfo_isUsed :: bool
  iso1CurrentDemandRes_ReceiptRequired :: int
  iso1CurrentDemandRes_ReceiptRequired_isUsed :: bool

definition init_iso1CurrentDemandResType :: "iso1CurrentDemandResType \<Rightarrow> iso1CurrentDemandResType" where
  "init_iso1CurrentDemandResType a = a\<lparr>iso1CurrentDemandRes_EVSEMaximumVoltageLimit_isUsed := False,
      iso1CurrentDemandRes_EVSEMaximumCurrentLimit_isUsed := False, iso1CurrentDemandRes_EVSEMaximumPowerLimit_isUsed
      := False, iso1CurrentDemandRes_MeterInfo_isUsed := False, iso1CurrentDemandRes_ReceiptRequired_isUsed
      := False\<rparr>"

definition iso1CurrentDemandRes_enc_step_3 :: "iso1CurrentDemandResType \<Rightarrow> unit machine" where
  "iso1CurrentDemandRes_enc_step_3 v grammarID x s =
     (if grammarID = 329 then
        if iso1CurrentDemandRes_MeterInfo_isUsed v then
          goto 330 x (encode_child 2 0 (\<lambda>s. encode_iso1MeterInfoType s (iso1CurrentDemandRes_MeterInfo v)) s)
        else if iso1CurrentDemandRes_ReceiptRequired_isUsed v then
          goto 3 x (encode_simple 2 1 (\<lambda>s. encodeBoolean s (iso1CurrentDemandRes_ReceiptRequired v)) s)
        else finish 4 x (encodeNBitUnsignedInteger s 2 2)
      else if grammarID = 330 then
        if iso1CurrentDemandRes_ReceiptRequired_isUsed v then
          goto 3 x (encode_simple 2 0 (\<lambda>s. encodeBoolean s (iso1CurrentDemandRes_ReceiptRequired v)) s)
        else finish 4 x (encodeNBitUnsignedInteger s 2 1)
      else if grammarID = 3 then
        finish 4 x (encodeNBitUnsignedInteger s 1 0)
      else Some (EXI_ERROR_UNKOWN_GRAMMAR_ID, (False, grammarID, x), s))"

definition iso1CurrentDemandRes_enc_step_2 :: "iso1CurrentDemandResType \<Rightarrow> unit machine" where
  "iso1CurrentDemandRes_enc_step_2 v grammarID x s =
     (if grammarID = 324 then
        if iso1CurrentDemandRes_EVSEMaximumVoltageLimit_isUsed v then
          goto 325 x
          (encode_child 3 0
          (\<lambda>s. encode_iso1PhysicalValueType s (iso1CurrentDemandRes_EVSEMaximumVoltageLimit v)) s)
        else if iso1CurrentDemandRes_EVSEMaximumCurrentLimit_isUsed v then
          goto 326 x
          (encode_child 3 1
          (\<lambda>s. encode_iso1PhysicalValueType s (iso1CurrentDemandRes_EVSEMaximumCurrentLimit v)) s)
        else if iso1CurrentDemandRes_EVSEMaximumPowerLimit_isUsed v then
          goto 327 x
          (encode_child 3 2
          (\<lambda>s. encode_iso1PhysicalValueType s (iso1CurrentDemandRes_EVSEMaximumPowerLimit v)) s)
        else goto 328 x
          (encode_simple 3 3 (encode_string_field (iso1CurrentDemandRes_EVSEID_characters v)
          (iso1CurrentDemandRes_EVSEID_charactersLen v)) s)
      else if grammarID = 325 then
        if iso1CurrentDemandRes_EVSEMaximumCurrentLimit_isUsed v then
          goto 326 x
          (encode_child 2 0
          (\<lambda>s. encode_iso1PhysicalValueType s (iso1CurrentDemandRes_EVSEMaximumCurrentLimit v)) s)
        else if iso1CurrentDemandRes_EVSEMaximumPowerLimit_isUsed v then
          goto 327 x
          (encode_child 2 1
          (\<lambda>s. encode_iso1PhysicalValueType s (iso1CurrentDemandRes_EVSEMaximumPowerLimit v)) s)
        else goto 328 x
          (encode_simple 2 2 (encode_string_field (iso1CurrentDemandRes_EVSEID_characters v)
          (iso1CurrentDemandRes_EVSEID_charactersLen v)) s)
      else if grammarID = 326 then
        if iso1CurrentDemandRes_EVSEMaximumPowerLimit_isUsed v then
          goto 327 x
          (encode_child 2 0
          (\<lambda>s. encode_iso1PhysicalValueType s (iso1CurrentDemandRes_EVSEMaximumPowerLimit v)) s)
        else goto 328 x
          (encode_simple 2 1 (encode_string_field (iso1CurrentDemandRes_EVSEID_characters v)
          (iso1CurrentDemandRes_EVSEID_charactersLen v)) s)
      else if grammarID = 327 then
        goto 328 x
          (encode_simple 1 0 (encode_string_field (iso1CurrentDemandRes_EVSEID_characters v)
          (iso1CurrentDemandRes_EVSEID_charactersLen v)) s)
      else if grammarID = 328 then
        goto 329 x
          (encode_simple 1 0
          (\<lambda>s. encodeNBitUnsignedInteger s 8 (ucast (iso1CurrentDemandRes_SAScheduleTupleID v) - 1)) s)
      else iso1CurrentDemandRes_enc_step_3 v grammarID x s)"

definition iso1CurrentDemandRes_enc_step :: "iso1CurrentDemandResType \<Rightarrow> unit machine" where
  "iso1CurrentDemandRes_enc_step v grammarID x s =
     (if grammarID = 317 then
        goto 318 x
          (encode_simple 1 0 (\<lambda>s. encodeNBitUnsignedInteger s 5 (iso1CurrentDemandRes_ResponseCode v)) s)
      else if grammarID = 318 then
        goto 319 x
          (encode_child 1 0 (\<lambda>s. encode_iso1DC_EVSEStatusType s (iso1CurrentDemandRes_DC_EVSEStatus v)) s)
      else if grammarID = 319 then
        goto 320 x
          (encode_child 1 0 (\<lambda>s. encode_iso1PhysicalValueType s (iso1CurrentDemandRes_EVSEPresentVoltage v))
          s)
      else if grammarID = 320 then
        goto 321 x
          (encode_child 1 0 (\<lambda>s. encode_iso1PhysicalValueType s (iso1CurrentDemandRes_EVSEPresentCurrent v))
          s)
      else if grammarID = 321 then
        goto 322 x (encode_simple 1 0 (\<lambda>s. encodeBoolean s (iso1CurrentDemandRes_EVSECurrentLimitAchieved v))
          s)
      else if grammarID = 322 then
        goto 323 x (encode_simple 1 0 (\<lambda>s. encodeBoolean s (iso1CurrentDemandRes_EVSEVoltageLimitAchieved v))
          s)
      else if grammarID = 323 then
        goto 324 x (encode_simple 1 0 (\<lambda>s. encodeBoolean s (iso1CurrentDemandRes_EVSEPowerLimitAchieved v)) s)
      else iso1CurrentDemandRes_enc_step_2 v grammarID x s)"

definition encode_iso1CurrentDemandResType :: "bitstream \<Rightarrow> iso1CurrentDemandResType \<Rightarrow>
    (errn \<times> bitstream) option" where
  "encode_iso1CurrentDemandResType s v = run_encoder (iso1CurrentDemandRes_enc_step v) 317 () s"

definition iso1CurrentDemandRes_dec_step_4 :: "u32 \<Rightarrow> (dec_static \<times> iso1CurrentDemandResType)
    machine" where
  "iso1CurrentDemandRes_dec_step_4 j grammarID x s =
     (if grammarID = 329 then
        decode_switch 2
         [(0, decode_child 330
           (decode_used (\<lambda>a. a\<lparr>iso1CurrentDemandRes_MeterInfo_isUsed := True\<rparr>)
           (decode_sub (decode_iso1MeterInfoType j) iso1CurrentDemandRes_MeterInfo
           (\<lambda>u a. a\<lparr>iso1CurrentDemandRes_MeterInfo := u\<rparr>)))),
          (1, decode_simple 329 3
            (decode_used (\<lambda>a. a\<lparr>iso1CurrentDemandRes_ReceiptRequired_isUsed := True\<rparr>)
            (decode_bool_field j (\<lambda>u a. a\<lparr>iso1CurrentDemandRes_ReceiptRequired := u\<rparr>)))),
          (2, decode_end 4)] 329 x s
      else if grammarID = 330 then
        decode_switch 2
         [(0, decode_simple 330 3
           (decode_used (\<lambda>a. a\<lparr>iso1CurrentDemandRes_ReceiptRequired_isUsed := True\<rparr>)
           (decode_bool_field j (\<lambda>u a. a\<lparr>iso1CurrentDemandRes_ReceiptRequired := u\<rparr>)))),
          (1, decode_end 4)] 330 x s
      else if grammarID = 3 then
        decode_switch 1
         [(0, decode_end 4)] 3 x s
      else Some (EXI_ERROR_UNKOWN_GRAMMAR_ID, (False, grammarID, x), s))"

definition iso1CurrentDemandRes_dec_step_3 :: "u32 \<Rightarrow> (dec_static \<times> iso1CurrentDemandResType)
    machine" where
  "iso1CurrentDemandRes_dec_step_3 j grammarID x s =
     (if grammarID = 326 then
        decode_switch 2
         [(0, decode_child 327
           (decode_used (\<lambda>a. a\<lparr>iso1CurrentDemandRes_EVSEMaximumPowerLimit_isUsed := True\<rparr>)
           (decode_sub (decode_iso1PhysicalValueType j) iso1CurrentDemandRes_EVSEMaximumPowerLimit
           (\<lambda>u a. a\<lparr>iso1CurrentDemandRes_EVSEMaximumPowerLimit := u\<rparr>)))),
          (1, decode_simple 326 328 (decode_string_field j 38 iso1CurrentDemandRes_EVSEID_characters
            (\<lambda>u a. a\<lparr>iso1CurrentDemandRes_EVSEID_characters := u\<rparr>)
            (\<lambda>u a. a\<lparr>iso1CurrentDemandRes_EVSEID_charactersLen := u\<rparr>)))] 326 x s
      else if grammarID = 327 then
        decode_switch 1
         [(0, decode_simple 327 328 (decode_string_field j 38 iso1CurrentDemandRes_EVSEID_characters
           (\<lambda>u a. a\<lparr>iso1CurrentDemandRes_EVSEID_characters := u\<rparr>)
           (\<lambda>u a. a\<lparr>iso1CurrentDemandRes_EVSEID_charactersLen := u\<rparr>)))] 327 x s
      else if grammarID = 328 then
        decode_switch 1
         [(0, decode_simple 328 329
           (decode_nbit_field 8
           (\<lambda>u a. a\<lparr>iso1CurrentDemandRes_SAScheduleTupleID := ucast (u + 1)\<rparr>)))] 328 x s
      else iso1CurrentDemandRes_dec_step_4 j grammarID x s)"

definition iso1CurrentDemandRes_dec_step_2 :: "u32 \<Rightarrow> (dec_static \<times> iso1CurrentDemandResType)
    machine" where
  "iso1CurrentDemandRes_dec_step_2 j grammarID x s =
     (if grammarID = 323 then
        decode_switch 1
         [(0, decode_simple 323 324
           (decode_bool_field j (\<lambda>u a. a\<lparr>iso1CurrentDemandRes_EVSEPowerLimitAchieved := u\<rparr>)))]
           323 x s
      else if grammarID = 324 then
        decode_switch 3
         [(0, decode_child 325
           (decode_used (\<lambda>a. a\<lparr>iso1CurrentDemandRes_EVSEMaximumVoltageLimit_isUsed := True\<rparr>)
           (decode_sub (decode_iso1PhysicalValueType j) iso1CurrentDemandRes_EVSEMaximumVoltageLimit
           (\<lambda>u a. a\<lparr>iso1CurrentDemandRes_EVSEMaximumVoltageLimit := u\<rparr>)))),
          (1, decode_child 326
            (decode_used (\<lambda>a. a\<lparr>iso1CurrentDemandRes_EVSEMaximumCurrentLimit_isUsed := True\<rparr>)
            (decode_sub (decode_iso1PhysicalValueType j) iso1CurrentDemandRes_EVSEMaximumCurrentLimit
            (\<lambda>u a. a\<lparr>iso1CurrentDemandRes_EVSEMaximumCurrentLimit := u\<rparr>)))),
          (2, decode_child 327
            (decode_used (\<lambda>a. a\<lparr>iso1CurrentDemandRes_EVSEMaximumPowerLimit_isUsed := True\<rparr>)
            (decode_sub (decode_iso1PhysicalValueType j) iso1CurrentDemandRes_EVSEMaximumPowerLimit
            (\<lambda>u a. a\<lparr>iso1CurrentDemandRes_EVSEMaximumPowerLimit := u\<rparr>)))),
          (3, decode_simple 324 328 (decode_string_field j 38 iso1CurrentDemandRes_EVSEID_characters
            (\<lambda>u a. a\<lparr>iso1CurrentDemandRes_EVSEID_characters := u\<rparr>)
            (\<lambda>u a. a\<lparr>iso1CurrentDemandRes_EVSEID_charactersLen := u\<rparr>)))] 324 x s
      else if grammarID = 325 then
        decode_switch 2
         [(0, decode_child 326
           (decode_used (\<lambda>a. a\<lparr>iso1CurrentDemandRes_EVSEMaximumCurrentLimit_isUsed := True\<rparr>)
           (decode_sub (decode_iso1PhysicalValueType j) iso1CurrentDemandRes_EVSEMaximumCurrentLimit
           (\<lambda>u a. a\<lparr>iso1CurrentDemandRes_EVSEMaximumCurrentLimit := u\<rparr>)))),
          (1, decode_child 327
            (decode_used (\<lambda>a. a\<lparr>iso1CurrentDemandRes_EVSEMaximumPowerLimit_isUsed := True\<rparr>)
            (decode_sub (decode_iso1PhysicalValueType j) iso1CurrentDemandRes_EVSEMaximumPowerLimit
            (\<lambda>u a. a\<lparr>iso1CurrentDemandRes_EVSEMaximumPowerLimit := u\<rparr>)))),
          (2, decode_simple 325 328 (decode_string_field j 38 iso1CurrentDemandRes_EVSEID_characters
            (\<lambda>u a. a\<lparr>iso1CurrentDemandRes_EVSEID_characters := u\<rparr>)
            (\<lambda>u a. a\<lparr>iso1CurrentDemandRes_EVSEID_charactersLen := u\<rparr>)))] 325 x s
      else iso1CurrentDemandRes_dec_step_3 j grammarID x s)"

definition iso1CurrentDemandRes_dec_step :: "u32 \<Rightarrow> (dec_static \<times> iso1CurrentDemandResType) machine"
    where
  "iso1CurrentDemandRes_dec_step j grammarID x s =
     (if grammarID = 317 then
        decode_switch 1
         [(0, decode_simple 317 318
           (decode_nbit_field 5 (\<lambda>u a. a\<lparr>iso1CurrentDemandRes_ResponseCode := u\<rparr>)))] 317 x s
      else if grammarID = 318 then
        decode_switch 1
         [(0, decode_child 319 (decode_sub (decode_iso1DC_EVSEStatusType j) iso1CurrentDemandRes_DC_EVSEStatus
           (\<lambda>u a. a\<lparr>iso1CurrentDemandRes_DC_EVSEStatus := u\<rparr>)))] 318 x s
      else if grammarID = 319 then
        decode_switch 1
         [(0, decode_child 320 (decode_sub (decode_iso1PhysicalValueType j) iso1CurrentDemandRes_EVSEPresentVoltage
           (\<lambda>u a. a\<lparr>iso1CurrentDemandRes_EVSEPresentVoltage := u\<rparr>)))] 319 x s
      else if grammarID = 320 then
        decode_switch 1
         [(0, decode_child 321 (decode_sub (decode_iso1PhysicalValueType j) iso1CurrentDemandRes_EVSEPresentCurrent
           (\<lambda>u a. a\<lparr>iso1CurrentDemandRes_EVSEPresentCurrent := u\<rparr>)))] 320 x s
      else if grammarID = 321 then
        decode_switch 1
         [(0, decode_simple 321 322
           (decode_bool_field j (\<lambda>u a. a\<lparr>iso1CurrentDemandRes_EVSECurrentLimitAchieved := u\<rparr>)))]
           321 x s
      else if grammarID = 322 then
        decode_switch 1
         [(0, decode_simple 322 323
           (decode_bool_field j (\<lambda>u a. a\<lparr>iso1CurrentDemandRes_EVSEVoltageLimitAchieved := u\<rparr>)))]
           322 x s
      else iso1CurrentDemandRes_dec_step_2 j grammarID x s)"

definition decode_iso1CurrentDemandResType :: "u32 \<Rightarrow> iso1CurrentDemandResType decoder" where
  "decode_iso1CurrentDemandResType j x s = grammar_loop (iso1CurrentDemandRes_dec_step j) 317
      (fst x, init_iso1CurrentDemandResType (snd x)) s"

definition iso1CurrentDemandRes_ok :: "iso1CurrentDemandResType \<Rightarrow> bool" where
  "iso1CurrentDemandRes_ok v \<longleftrightarrow>
     iso1CurrentDemandRes_ResponseCode v < 32 \<and>
     iso1DC_EVSEStatus_ok (iso1CurrentDemandRes_DC_EVSEStatus v) \<and>
     iso1PhysicalValue_ok (iso1CurrentDemandRes_EVSEPresentVoltage v) \<and>
     iso1PhysicalValue_ok (iso1CurrentDemandRes_EVSEPresentCurrent v) \<and>
     when_used (iso1CurrentDemandRes_EVSEMaximumVoltageLimit_isUsed v)
       (iso1PhysicalValue_ok (iso1CurrentDemandRes_EVSEMaximumVoltageLimit v)) \<and>
     when_used (iso1CurrentDemandRes_EVSEMaximumCurrentLimit_isUsed v)
       (iso1PhysicalValue_ok (iso1CurrentDemandRes_EVSEMaximumCurrentLimit v)) \<and>
     when_used (iso1CurrentDemandRes_EVSEMaximumPowerLimit_isUsed v)
       (iso1PhysicalValue_ok (iso1CurrentDemandRes_EVSEMaximumPowerLimit v)) \<and>
     string_ok 38 (iso1CurrentDemandRes_EVSEID_characters v) (iso1CurrentDemandRes_EVSEID_charactersLen v) \<and>
     ucast (iso1CurrentDemandRes_SAScheduleTupleID v) - 1 < (2 ^ 8 :: u32) \<and>
     when_used (iso1CurrentDemandRes_MeterInfo_isUsed v) (iso1MeterInfo_ok (iso1CurrentDemandRes_MeterInfo v))"

definition iso1CurrentDemandRes_sized :: "iso1CurrentDemandResType \<Rightarrow> bool" where
  "iso1CurrentDemandRes_sized a \<longleftrightarrow>
     length (iso1CurrentDemandRes_EVSEID_characters a) = 38 \<and>
     iso1MeterInfo_sized (iso1CurrentDemandRes_MeterInfo a)"

definition same_iso1CurrentDemandRes :: "iso1CurrentDemandResType \<Rightarrow> iso1CurrentDemandResType \<Rightarrow>
    bool" where
  "same_iso1CurrentDemandRes v a \<longleftrightarrow>
     iso1CurrentDemandRes_ResponseCode a = iso1CurrentDemandRes_ResponseCode v \<and>
     same_iso1DC_EVSEStatus (iso1CurrentDemandRes_DC_EVSEStatus v) (iso1CurrentDemandRes_DC_EVSEStatus a) \<and>
     same_iso1PhysicalValue (iso1CurrentDemandRes_EVSEPresentVoltage v) (iso1CurrentDemandRes_EVSEPresentVoltage a)
       \<and>
     same_iso1PhysicalValue (iso1CurrentDemandRes_EVSEPresentCurrent v) (iso1CurrentDemandRes_EVSEPresentCurrent a)
       \<and>
     (iso1CurrentDemandRes_EVSECurrentLimitAchieved a \<noteq> 0) = (iso1CurrentDemandRes_EVSECurrentLimitAchieved v
       \<noteq> 0) \<and>
     (iso1CurrentDemandRes_EVSEVoltageLimitAchieved a \<noteq> 0) = (iso1CurrentDemandRes_EVSEVoltageLimitAchieved v
       \<noteq> 0) \<and>
     (iso1CurrentDemandRes_EVSEPowerLimitAchieved a \<noteq> 0) = (iso1CurrentDemandRes_EVSEPowerLimitAchieved v
       \<noteq> 0) \<and>
     kept (iso1CurrentDemandRes_EVSEMaximumVoltageLimit_isUsed v)
       (iso1CurrentDemandRes_EVSEMaximumVoltageLimit_isUsed a)
       (same_iso1PhysicalValue (iso1CurrentDemandRes_EVSEMaximumVoltageLimit v)
       (iso1CurrentDemandRes_EVSEMaximumVoltageLimit a)) \<and>
     kept (iso1CurrentDemandRes_EVSEMaximumCurrentLimit_isUsed v)
       (iso1CurrentDemandRes_EVSEMaximumCurrentLimit_isUsed a)
       (same_iso1PhysicalValue (iso1CurrentDemandRes_EVSEMaximumCurrentLimit v)
       (iso1CurrentDemandRes_EVSEMaximumCurrentLimit a)) \<and>
     kept (iso1CurrentDemandRes_EVSEMaximumPowerLimit_isUsed v) (iso1CurrentDemandRes_EVSEMaximumPowerLimit_isUsed a)
       (same_iso1PhysicalValue (iso1CurrentDemandRes_EVSEMaximumPowerLimit v)
       (iso1CurrentDemandRes_EVSEMaximumPowerLimit a)) \<and>
     iso1CurrentDemandRes_EVSEID_charactersLen a = iso1CurrentDemandRes_EVSEID_charactersLen v \<and>
       take (unat (iso1CurrentDemandRes_EVSEID_charactersLen v)) (iso1CurrentDemandRes_EVSEID_characters a) = take
       (unat (iso1CurrentDemandRes_EVSEID_charactersLen v)) (iso1CurrentDemandRes_EVSEID_characters v) \<and>
     iso1CurrentDemandRes_SAScheduleTupleID a = iso1CurrentDemandRes_SAScheduleTupleID v \<and>
     kept (iso1CurrentDemandRes_MeterInfo_isUsed v) (iso1CurrentDemandRes_MeterInfo_isUsed a)
       (same_iso1MeterInfo (iso1CurrentDemandRes_MeterInfo v) (iso1CurrentDemandRes_MeterInfo a)) \<and>
     kept (iso1CurrentDemandRes_ReceiptRequired_isUsed v) (iso1CurrentDemandRes_ReceiptRequired_isUsed a)
       ((iso1CurrentDemandRes_ReceiptRequired a \<noteq> 0) = (iso1CurrentDemandRes_ReceiptRequired v \<noteq> 0))"

definition iso1CurrentDemandRes_at :: "iso1CurrentDemandResType \<Rightarrow> nat \<Rightarrow>
    iso1CurrentDemandResType \<Rightarrow> bool" where
  "iso1CurrentDemandRes_at v g a \<longleftrightarrow>
     iso1CurrentDemandRes_ok v \<and>
     g \<in> {317, 318, 319, 320, 321, 322, 323, 324, 325, 326, 327, 328, 329, 330, 3} \<and>
     iso1CurrentDemandRes_sized a \<and>
     (g \<notin> {317} \<longrightarrow> iso1CurrentDemandRes_ResponseCode a = iso1CurrentDemandRes_ResponseCode v)
       \<and>
     (g \<notin> {317, 318} \<longrightarrow> same_iso1DC_EVSEStatus (iso1CurrentDemandRes_DC_EVSEStatus v)
       (iso1CurrentDemandRes_DC_EVSEStatus a)) \<and>
     (g \<notin> {317, 318, 319} \<longrightarrow> same_iso1PhysicalValue (iso1CurrentDemandRes_EVSEPresentVoltage v)
       (iso1CurrentDemandRes_EVSEPresentVoltage a)) \<and>
     (g \<notin> {317, 318, 319, 320} \<longrightarrow>
       same_iso1PhysicalValue (iso1CurrentDemandRes_EVSEPresentCurrent v) (iso1CurrentDemandRes_EVSEPresentCurrent a))
       \<and>
     (g \<notin> {317, 318, 319, 320, 321} \<longrightarrow>
       (iso1CurrentDemandRes_EVSECurrentLimitAchieved a \<noteq> 0) = (iso1CurrentDemandRes_EVSECurrentLimitAchieved v
       \<noteq> 0)) \<and>
     (g \<notin> {317, 318, 319, 320, 321, 322} \<longrightarrow>
       (iso1CurrentDemandRes_EVSEVoltageLimitAchieved a \<noteq> 0) = (iso1CurrentDemandRes_EVSEVoltageLimitAchieved v
       \<noteq> 0)) \<and>
     (g \<notin> {317, 318, 319, 320, 321, 322, 323} \<longrightarrow>
       (iso1CurrentDemandRes_EVSEPowerLimitAchieved a \<noteq> 0) = (iso1CurrentDemandRes_EVSEPowerLimitAchieved v
       \<noteq> 0)) \<and>
     (if g \<in> {317, 318, 319, 320, 321, 322, 323, 324} then
       \<not> iso1CurrentDemandRes_EVSEMaximumVoltageLimit_isUsed a
      else kept (iso1CurrentDemandRes_EVSEMaximumVoltageLimit_isUsed v)
        (iso1CurrentDemandRes_EVSEMaximumVoltageLimit_isUsed a)
        (same_iso1PhysicalValue (iso1CurrentDemandRes_EVSEMaximumVoltageLimit v)
        (iso1CurrentDemandRes_EVSEMaximumVoltageLimit a))) \<and>
     (if g \<in> {317, 318, 319, 320, 321, 322, 323, 324, 325} then
       \<not> iso1CurrentDemandRes_EVSEMaximumCurrentLimit_isUsed a
      else kept (iso1CurrentDemandRes_EVSEMaximumCurrentLimit_isUsed v)
        (iso1CurrentDemandRes_EVSEMaximumCurrentLimit_isUsed a)
        (same_iso1PhysicalValue (iso1CurrentDemandRes_EVSEMaximumCurrentLimit v)
        (iso1CurrentDemandRes_EVSEMaximumCurrentLimit a))) \<and>
     (if g \<in> {317, 318, 319, 320, 321, 322, 323, 324, 325, 326} then
       \<not> iso1CurrentDemandRes_EVSEMaximumPowerLimit_isUsed a
      else kept (iso1CurrentDemandRes_EVSEMaximumPowerLimit_isUsed v)
        (iso1CurrentDemandRes_EVSEMaximumPowerLimit_isUsed a)
        (same_iso1PhysicalValue (iso1CurrentDemandRes_EVSEMaximumPowerLimit v)
        (iso1CurrentDemandRes_EVSEMaximumPowerLimit a))) \<and>
     (g \<notin> {317, 318, 319, 320, 321, 322, 323, 324, 325, 326, 327} \<longrightarrow>
       iso1CurrentDemandRes_EVSEID_charactersLen a = iso1CurrentDemandRes_EVSEID_charactersLen v \<and>
       take (unat (iso1CurrentDemandRes_EVSEID_charactersLen v)) (iso1CurrentDemandRes_EVSEID_characters a) = take
       (unat (iso1CurrentDemandRes_EVSEID_charactersLen v)) (iso1CurrentDemandRes_EVSEID_characters v)) \<and>
     (g \<notin> {317, 318, 319, 320, 321, 322, 323, 324, 325, 326, 327, 328} \<longrightarrow>
       iso1CurrentDemandRes_SAScheduleTupleID a = iso1CurrentDemandRes_SAScheduleTupleID v) \<and>
     (if g \<in> {317, 318, 319, 320, 321, 322, 323, 324, 325, 326, 327, 328, 329} then
       \<not> iso1CurrentDemandRes_MeterInfo_isUsed a
      else kept (iso1CurrentDemandRes_MeterInfo_isUsed v) (iso1CurrentDemandRes_MeterInfo_isUsed a)
        (same_iso1MeterInfo (iso1CurrentDemandRes_MeterInfo v) (iso1CurrentDemandRes_MeterInfo a))) \<and>
     (if g \<in> {317, 318, 319, 320, 321, 322, 323, 324, 325, 326, 327, 328, 329, 330} then
       \<not> iso1CurrentDemandRes_ReceiptRequired_isUsed a
      else kept (iso1CurrentDemandRes_ReceiptRequired_isUsed v) (iso1CurrentDemandRes_ReceiptRequired_isUsed a)
        ((iso1CurrentDemandRes_ReceiptRequired a \<noteq> 0) = (iso1CurrentDemandRes_ReceiptRequired v \<noteq> 0)))"

lemmas iso1CurrentDemandRes_steps = iso1CurrentDemandRes_enc_step_def iso1CurrentDemandRes_enc_step_2_def
    iso1CurrentDemandRes_enc_step_3_def
  iso1CurrentDemandRes_dec_step_def iso1CurrentDemandRes_dec_step_2_def iso1CurrentDemandRes_dec_step_3_def
      iso1CurrentDemandRes_dec_step_4_def

lemmas iso1CurrentDemandRes_props = iso1CurrentDemandRes_at_def iso1CurrentDemandRes_sized_def
    same_iso1CurrentDemandRes_def left_at_def

lemma iso1CurrentDemandRes_steps_1:
  "iso1CurrentDemandRes_at v g a \<Longrightarrow> g \<in> {317, 318, 319, 320, 321, 322, 323, 324} \<Longrightarrow>
   hops (iso1CurrentDemandRes_enc_step v) (iso1CurrentDemandRes_dec_step j) (iso1CurrentDemandRes_at v)
    (left_at [(317, 1664), (318, 1656), (319, 1608), (320, 1566), (321, 1524), (322, 1520), (323, 1516), (324, 1512),
      (325, 1468), (326, 1425), (327, 1382), (328, 1051), (329, 1040), (330, 6), (3, 1)])
      (\<lambda>a. same_iso1CurrentDemandRes v a \<and> iso1CurrentDemandRes_sized a) g a"
  by (elim insertE emptyE; (hypsubst, rule hops_by, simp (no_asm) add: iso1CurrentDemandRes_steps del: One_nat_def,
      simp (no_asm) add: iso1CurrentDemandRes_steps del: One_nat_def, simp (asm_lr) add: iso1CurrentDemandRes_props
        del: One_nat_def, (elim conjE)?,
      ((rule walks_ifs)+)?); (frule iso1CurrentDemandRes_ok_def [THEN iffD1], ((drule (1) known)+)?, (elim conjE)?,
        ((drule (1) known)+)?, (elim conjE)?,
      (((rule walks_shapes, simp (no_asm) del: One_nat_def, ((rule reads_intros)+)?);
      ((elim exE conjE)?,
        ((simp (no_asm_simp) add: iso1CurrentDemandRes_props; fail) |
        (simp (asm_lr) add: iso1CurrentDemandRes_props; fail) | (auto simp: iso1CurrentDemandRes_props; fail)))) |
        (erule (1) notE; fail) |
        ((elim exE conjE)?,
        ((simp (no_asm_simp) add: iso1CurrentDemandRes_props; fail) |
        (simp (asm_lr) add: iso1CurrentDemandRes_props; fail) | (auto simp: iso1CurrentDemandRes_props; fail))))))

lemma iso1CurrentDemandRes_steps_2:
  "iso1CurrentDemandRes_at v g a \<Longrightarrow> g \<in> {325, 326, 327, 328, 329, 330, 3} \<Longrightarrow>
   hops (iso1CurrentDemandRes_enc_step v) (iso1CurrentDemandRes_dec_step j) (iso1CurrentDemandRes_at v)
    (left_at [(317, 1664), (318, 1656), (319, 1608), (320, 1566), (321, 1524), (322, 1520), (323, 1516), (324, 1512),
      (325, 1468), (326, 1425), (327, 1382), (328, 1051), (329, 1040), (330, 6), (3, 1)])
      (\<lambda>a. same_iso1CurrentDemandRes v a \<and> iso1CurrentDemandRes_sized a) g a"
  by (elim insertE emptyE; (hypsubst, rule hops_by, simp (no_asm) add: iso1CurrentDemandRes_steps del: One_nat_def,
      simp (no_asm) add: iso1CurrentDemandRes_steps del: One_nat_def, simp (asm_lr) add: iso1CurrentDemandRes_props
        del: One_nat_def, (elim conjE)?,
      ((rule walks_ifs)+)?); (frule iso1CurrentDemandRes_ok_def [THEN iffD1], ((drule (1) known)+)?, (elim conjE)?,
        ((drule (1) known)+)?, (elim conjE)?,
      (((rule walks_shapes, simp (no_asm) del: One_nat_def, ((rule reads_intros)+)?);
      ((elim exE conjE)?,
        ((simp (no_asm_simp) add: iso1CurrentDemandRes_props; fail) |
        (simp (asm_lr) add: iso1CurrentDemandRes_props; fail) | (auto simp: iso1CurrentDemandRes_props; fail)))) |
        (erule (1) notE; fail) |
        ((elim exE conjE)?,
        ((simp (no_asm_simp) add: iso1CurrentDemandRes_props; fail) |
        (simp (asm_lr) add: iso1CurrentDemandRes_props; fail) | (auto simp: iso1CurrentDemandRes_props; fail))))))

interpretation iso1CurrentDemandRes: paired_machines "iso1CurrentDemandRes_enc_step v" "iso1CurrentDemandRes_dec_step
    j" "iso1CurrentDemandRes_at v"
  "left_at [(317, 1664), (318, 1656), (319, 1608), (320, 1566), (321, 1524), (322, 1520), (323, 1516), (324, 1512),
      (325, 1468), (326, 1425), (327, 1382), (328, 1051), (329, 1040), (330, 6), (3, 1)]" "\<lambda>a.
      same_iso1CurrentDemandRes v a \<and> iso1CurrentDemandRes_sized a" for v j
proof
  fix g a assume at: "iso1CurrentDemandRes_at v g a"
  then have "g \<in> {317, 318, 319, 320, 321, 322, 323, 324} \<or> g \<in> {325, 326, 327, 328, 329, 330,
      3}" by (auto simp: iso1CurrentDemandRes_at_def)
  then show "hops (iso1CurrentDemandRes_enc_step v) (iso1CurrentDemandRes_dec_step j) (iso1CurrentDemandRes_at v)
    (left_at [(317, 1664), (318, 1656), (319, 1608), (320, 1566), (321, 1524), (322, 1520), (323, 1516), (324, 1512),
      (325, 1468), (326, 1425), (327, 1382), (328, 1051), (329, 1040), (330, 6), (3, 1)])
      (\<lambda>a. same_iso1CurrentDemandRes v a \<and> iso1CurrentDemandRes_sized a) g a"
    by (elim disjE) (erule iso1CurrentDemandRes_steps_1 [OF at] | erule iso1CurrentDemandRes_steps_2 [OF at])+
qed

lemma reads_iso1CurrentDemandRes [reads_intros]:
  "iso1CurrentDemandRes_ok v \<Longrightarrow> iso1CurrentDemandRes_sized a \<Longrightarrow>
      reads 1664 (\<lambda>s. encode_iso1CurrentDemandResType s v) (decode_iso1CurrentDemandResType j) a
      (\<lambda>a. same_iso1CurrentDemandRes v a \<and> iso1CurrentDemandRes_sized a)"
  unfolding encode_iso1CurrentDemandResType_def decode_iso1CurrentDemandResType_def [abs_def]
  by (rule reads_start [OF iso1CurrentDemandRes.machine_reads, of _ 317, THEN reads_mono])
      (auto simp: iso1CurrentDemandRes_at_def iso1CurrentDemandRes_sized_def init_iso1CurrentDemandResType_def
      left_at_def)

interpretation iso1CurrentDemandRes_enc: advancing_machine "iso1CurrentDemandRes_enc_step v" "left_at
    [(317, 15), (318, 14), (319, 13), (320, 12), (321, 11), (322, 10), (323, 9), (324, 8), (325, 7), (326, 6),
    (327, 5), (328, 4), (329, 3), (330, 2), (3, 1)]" for v
  by unfold_locales (auto simp: iso1CurrentDemandRes_steps dest!: advance_dests split: if_splits;
      simp add: left_at_def)

interpretation iso1CurrentDemandRes_dec: advancing_machine "iso1CurrentDemandRes_dec_step j" "left_at
    [(317, 15), (318, 14), (319, 13), (320, 12), (321, 11), (322, 10), (323, 9), (324, 8), (325, 7), (326, 6),
    (327, 5), (328, 4), (329, 3), (330, 2), (3, 1)]" for j
  by unfold_locales (auto simp: iso1CurrentDemandRes_steps dest!: advance_dests elim!: decode_switch_next
      split: if_splits;
      simp add: left_at_def)

subsection \<open>\<open>iso1WeldingDetectionReqType\<close>\<close>

record iso1WeldingDetectionReqType =
  iso1WeldingDetectionReq_DC_EVStatus :: iso1DC_EVStatusType

definition init_iso1WeldingDetectionReqType :: "iso1WeldingDetectionReqType \<Rightarrow> iso1WeldingDetectionReqType"
    where
  "init_iso1WeldingDetectionReqType a = a"

definition iso1WeldingDetectionReq_enc_step :: "iso1WeldingDetectionReqType \<Rightarrow> unit machine" where
  "iso1WeldingDetectionReq_enc_step v grammarID x s =
     (if grammarID = 313 then
        goto 3 x (encode_child 1 0 (\<lambda>s. encode_iso1DC_EVStatusType s (iso1WeldingDetectionReq_DC_EVStatus v))
          s)
      else if grammarID = 3 then
        finish 4 x (encodeNBitUnsignedInteger s 1 0)
      else Some (EXI_ERROR_UNKOWN_GRAMMAR_ID, (False, grammarID, x), s))"

definition encode_iso1WeldingDetectionReqType :: "bitstream \<Rightarrow> iso1WeldingDetectionReqType \<Rightarrow>
    (errn \<times> bitstream) option" where
  "encode_iso1WeldingDetectionReqType s v = run_encoder (iso1WeldingDetectionReq_enc_step v) 313 () s"

definition iso1WeldingDetectionReq_dec_step :: "u32 \<Rightarrow> (dec_static \<times> iso1WeldingDetectionReqType)
    machine" where
  "iso1WeldingDetectionReq_dec_step j grammarID x s =
     (if grammarID = 313 then
        decode_switch 1
         [(0, decode_child 3 (decode_sub (decode_iso1DC_EVStatusType j) iso1WeldingDetectionReq_DC_EVStatus
           (\<lambda>u a. a\<lparr>iso1WeldingDetectionReq_DC_EVStatus := u\<rparr>)))] 313 x s
      else if grammarID = 3 then
        decode_switch 1
         [(0, decode_end 4)] 3 x s
      else Some (EXI_ERROR_UNKOWN_GRAMMAR_ID, (False, grammarID, x), s))"

definition decode_iso1WeldingDetectionReqType :: "u32 \<Rightarrow> iso1WeldingDetectionReqType decoder" where
  "decode_iso1WeldingDetectionReqType j x s = grammar_loop (iso1WeldingDetectionReq_dec_step j) 313
      (fst x, init_iso1WeldingDetectionReqType (snd x)) s"

definition iso1WeldingDetectionReq_ok :: "iso1WeldingDetectionReqType \<Rightarrow> bool" where
  "iso1WeldingDetectionReq_ok v \<longleftrightarrow>
     iso1DC_EVStatus_ok (iso1WeldingDetectionReq_DC_EVStatus v)"

definition same_iso1WeldingDetectionReq :: "iso1WeldingDetectionReqType \<Rightarrow> iso1WeldingDetectionReqType
    \<Rightarrow> bool" where
  "same_iso1WeldingDetectionReq v a \<longleftrightarrow>
     same_iso1DC_EVStatus (iso1WeldingDetectionReq_DC_EVStatus v) (iso1WeldingDetectionReq_DC_EVStatus a)"

definition iso1WeldingDetectionReq_at :: "iso1WeldingDetectionReqType \<Rightarrow> nat \<Rightarrow>
    iso1WeldingDetectionReqType \<Rightarrow> bool" where
  "iso1WeldingDetectionReq_at v g a \<longleftrightarrow>
     iso1WeldingDetectionReq_ok v \<and>
     g \<in> {313, 3} \<and>
     (g \<notin> {313} \<longrightarrow> same_iso1DC_EVStatus (iso1WeldingDetectionReq_DC_EVStatus v)
       (iso1WeldingDetectionReq_DC_EVStatus a))"

lemmas iso1WeldingDetectionReq_steps = iso1WeldingDetectionReq_enc_step_def
  iso1WeldingDetectionReq_dec_step_def

lemmas iso1WeldingDetectionReq_props = iso1WeldingDetectionReq_at_def same_iso1WeldingDetectionReq_def left_at_def

interpretation iso1WeldingDetectionReq: paired_machines "iso1WeldingDetectionReq_enc_step v"
    "iso1WeldingDetectionReq_dec_step j" "iso1WeldingDetectionReq_at v"
  "left_at [(313, 24), (3, 1)]" "same_iso1WeldingDetectionReq v" for v j
proof
  fix g a assume at: "iso1WeldingDetectionReq_at v g a"
  then have "g \<in> {313, 3}" by (simp add: iso1WeldingDetectionReq_at_def)
  then show "hops (iso1WeldingDetectionReq_enc_step v) (iso1WeldingDetectionReq_dec_step j)
      (iso1WeldingDetectionReq_at v)
    (left_at [(313, 24), (3, 1)]) (same_iso1WeldingDetectionReq v) g a" using at
    by - (elim insertE emptyE; (hypsubst, rule hops_by, simp (no_asm) add: iso1WeldingDetectionReq_steps del:
      One_nat_def,
      simp (no_asm) add: iso1WeldingDetectionReq_steps del: One_nat_def,
        simp (asm_lr) add: iso1WeldingDetectionReq_props del: One_nat_def, (elim conjE)?,
      ((rule walks_ifs)+)?); (frule iso1WeldingDetectionReq_ok_def [THEN iffD1], ((drule (1) known)+)?, (elim conjE)?,
        ((drule (1) known)+)?, (elim conjE)?,
      (((rule walks_shapes, simp (no_asm) del: One_nat_def, ((rule reads_intros)+)?);
      ((elim exE conjE)?,
        ((simp (no_asm_simp) add: iso1WeldingDetectionReq_props; fail) |
        (simp (asm_lr) add: iso1WeldingDetectionReq_props; fail) | (auto simp: iso1WeldingDetectionReq_props; fail))))
        | (erule (1) notE; fail) |
        ((elim exE conjE)?,
        ((simp (no_asm_simp) add: iso1WeldingDetectionReq_props; fail) |
        (simp (asm_lr) add: iso1WeldingDetectionReq_props; fail) |
        (auto simp: iso1WeldingDetectionReq_props; fail))))))
qed

lemma reads_iso1WeldingDetectionReq [reads_intros]:
  "iso1WeldingDetectionReq_ok v \<Longrightarrow> reads 24 (\<lambda>s. encode_iso1WeldingDetectionReqType s v)
      (decode_iso1WeldingDetectionReqType j) a (same_iso1WeldingDetectionReq v)"
  unfolding encode_iso1WeldingDetectionReqType_def decode_iso1WeldingDetectionReqType_def [abs_def]
  by (rule reads_start [OF iso1WeldingDetectionReq.machine_reads, of _ 313, THEN reads_mono])
      (auto simp: iso1WeldingDetectionReq_at_def  init_iso1WeldingDetectionReqType_def left_at_def)

interpretation iso1WeldingDetectionReq_enc: advancing_machine "iso1WeldingDetectionReq_enc_step v" "left_at
    [(313, 2), (3, 1)]" for v
  by unfold_locales (auto simp: iso1WeldingDetectionReq_steps dest!: advance_dests split: if_splits;
      simp add: left_at_def)

interpretation iso1WeldingDetectionReq_dec: advancing_machine "iso1WeldingDetectionReq_dec_step j" "left_at
    [(313, 2), (3, 1)]" for j
  by unfold_locales (auto simp: iso1WeldingDetectionReq_steps dest!: advance_dests elim!:
      decode_switch_next split: if_splits;
      simp add: left_at_def)

subsection \<open>\<open>iso1WeldingDetectionResType\<close>\<close>

record iso1WeldingDetectionResType =
  iso1WeldingDetectionRes_ResponseCode :: u32
  iso1WeldingDetectionRes_DC_EVSEStatus :: iso1DC_EVSEStatusType
  iso1WeldingDetectionRes_EVSEPresentVoltage :: iso1PhysicalValueType

definition init_iso1WeldingDetectionResType :: "iso1WeldingDetectionResType \<Rightarrow> iso1WeldingDetectionResType"
    where
  "init_iso1WeldingDetectionResType a = a"

definition iso1WeldingDetectionRes_enc_step :: "iso1WeldingDetectionResType \<Rightarrow> unit machine" where
  "iso1WeldingDetectionRes_enc_step v grammarID x s =
     (if grammarID = 39 then
        goto 40 x
          (encode_simple 1 0 (\<lambda>s. encodeNBitUnsignedInteger s 5 (iso1WeldingDetectionRes_ResponseCode v)) s)
      else if grammarID = 40 then
        goto 41 x
          (encode_child 1 0 (\<lambda>s. encode_iso1DC_EVSEStatusType s (iso1WeldingDetectionRes_DC_EVSEStatus v)) s)
      else if grammarID = 41 then
        goto 3 x (encode_child 1 0
          (\<lambda>s. encode_iso1PhysicalValueType s (iso1WeldingDetectionRes_EVSEPresentVoltage v)) s)
      else if grammarID = 3 then
        finish 4 x (encodeNBitUnsignedInteger s 1 0)
      else Some (EXI_ERROR_UNKOWN_GRAMMAR_ID, (False, grammarID, x), s))"

definition encode_iso1WeldingDetectionResType :: "bitstream \<Rightarrow> iso1WeldingDetectionResType \<Rightarrow>
    (errn \<times> bitstream) option" where
  "encode_iso1WeldingDetectionResType s v = run_encoder (iso1WeldingDetectionRes_enc_step v) 39 () s"

definition iso1WeldingDetectionRes_dec_step :: "u32 \<Rightarrow> (dec_static \<times> iso1WeldingDetectionResType)
    machine" where
  "iso1WeldingDetectionRes_dec_step j grammarID x s =
     (if grammarID = 39 then
        decode_switch 1
         [(0, decode_simple 39 40
           (decode_nbit_field 5 (\<lambda>u a. a\<lparr>iso1WeldingDetectionRes_ResponseCode := u\<rparr>)))] 39 x s
      else if grammarID = 40 then
        decode_switch 1
         [(0, decode_child 41 (decode_sub (decode_iso1DC_EVSEStatusType j) iso1WeldingDetectionRes_DC_EVSEStatus
           (\<lambda>u a. a\<lparr>iso1WeldingDetectionRes_DC_EVSEStatus := u\<rparr>)))] 40 x s
      else if grammarID = 41 then
        decode_switch 1
         [(0, decode_child 3 (decode_sub (decode_iso1PhysicalValueType j) iso1WeldingDetectionRes_EVSEPresentVoltage
           (\<lambda>u a. a\<lparr>iso1WeldingDetectionRes_EVSEPresentVoltage := u\<rparr>)))] 41 x s
      else if grammarID = 3 then
        decode_switch 1
         [(0, decode_end 4)] 3 x s
      else Some (EXI_ERROR_UNKOWN_GRAMMAR_ID, (False, grammarID, x), s))"

definition decode_iso1WeldingDetectionResType :: "u32 \<Rightarrow> iso1WeldingDetectionResType decoder" where
  "decode_iso1WeldingDetectionResType j x s = grammar_loop (iso1WeldingDetectionRes_dec_step j) 39
      (fst x, init_iso1WeldingDetectionResType (snd x)) s"

definition iso1WeldingDetectionRes_ok :: "iso1WeldingDetectionResType \<Rightarrow> bool" where
  "iso1WeldingDetectionRes_ok v \<longleftrightarrow>
     iso1WeldingDetectionRes_ResponseCode v < 32 \<and>
     iso1DC_EVSEStatus_ok (iso1WeldingDetectionRes_DC_EVSEStatus v) \<and>
     iso1PhysicalValue_ok (iso1WeldingDetectionRes_EVSEPresentVoltage v)"

definition same_iso1WeldingDetectionRes :: "iso1WeldingDetectionResType \<Rightarrow> iso1WeldingDetectionResType
    \<Rightarrow> bool" where
  "same_iso1WeldingDetectionRes v a \<longleftrightarrow>
     iso1WeldingDetectionRes_ResponseCode a = iso1WeldingDetectionRes_ResponseCode v \<and>
     same_iso1DC_EVSEStatus (iso1WeldingDetectionRes_DC_EVSEStatus v) (iso1WeldingDetectionRes_DC_EVSEStatus a) \<and>
     same_iso1PhysicalValue (iso1WeldingDetectionRes_EVSEPresentVoltage v)
       (iso1WeldingDetectionRes_EVSEPresentVoltage a)"

definition iso1WeldingDetectionRes_at :: "iso1WeldingDetectionResType \<Rightarrow> nat \<Rightarrow>
    iso1WeldingDetectionResType \<Rightarrow> bool" where
  "iso1WeldingDetectionRes_at v g a \<longleftrightarrow>
     iso1WeldingDetectionRes_ok v \<and>
     g \<in> {39, 40, 41, 3} \<and>
     (g \<notin> {39} \<longrightarrow> iso1WeldingDetectionRes_ResponseCode a = iso1WeldingDetectionRes_ResponseCode
       v) \<and>
     (g \<notin> {39, 40} \<longrightarrow> same_iso1DC_EVSEStatus (iso1WeldingDetectionRes_DC_EVSEStatus v)
       (iso1WeldingDetectionRes_DC_EVSEStatus a)) \<and>
     (g \<notin> {39, 40, 41} \<longrightarrow> same_iso1PhysicalValue (iso1WeldingDetectionRes_EVSEPresentVoltage v)
       (iso1WeldingDetectionRes_EVSEPresentVoltage a))"

lemmas iso1WeldingDetectionRes_steps = iso1WeldingDetectionRes_enc_step_def
  iso1WeldingDetectionRes_dec_step_def

lemmas iso1WeldingDetectionRes_props = iso1WeldingDetectionRes_at_def same_iso1WeldingDetectionRes_def left_at_def

interpretation iso1WeldingDetectionRes: paired_machines "iso1WeldingDetectionRes_enc_step v"
    "iso1WeldingDetectionRes_dec_step j" "iso1WeldingDetectionRes_at v"
  "left_at [(39, 99), (40, 91), (41, 43), (3, 1)]" "same_iso1WeldingDetectionRes v" for v j
proof
  fix g a assume at: "iso1WeldingDetectionRes_at v g a"
  then have "g \<in> {39, 40, 41, 3}" by (simp add: iso1WeldingDetectionRes_at_def)
  then show "hops (iso1WeldingDetectionRes_enc_step v) (iso1WeldingDetectionRes_dec_step j)
      (iso1WeldingDetectionRes_at v)
    (left_at [(39, 99), (40, 91), (41, 43), (3, 1)]) (same_iso1WeldingDetectionRes v) g a" using at
    by - (elim insertE emptyE; (hypsubst, rule hops_by, simp (no_asm) add: iso1WeldingDetectionRes_steps del:
      One_nat_def,
      simp (no_asm) add: iso1WeldingDetectionRes_steps del: One_nat_def,
        simp (asm_lr) add: iso1WeldingDetectionRes_props del: One_nat_def, (elim conjE)?,
      ((rule walks_ifs)+)?); (frule iso1WeldingDetectionRes_ok_def [THEN iffD1], ((drule (1) known)+)?, (elim conjE)?,
        ((drule (1) known)+)?, (elim conjE)?,
      (((rule walks_shapes, simp (no_asm) del: One_nat_def, ((rule reads_intros)+)?);
      ((elim exE conjE)?,
        ((simp (no_asm_simp) add: iso1WeldingDetectionRes_props; fail) |
        (simp (asm_lr) add: iso1WeldingDetectionRes_props; fail) | (auto simp: iso1WeldingDetectionRes_props; fail))))
        | (erule (1) notE; fail) |
        ((elim exE conjE)?,
        ((simp (no_asm_simp) add: iso1WeldingDetectionRes_props; fail) |
        (simp (asm_lr) add: iso1WeldingDetectionRes_props; fail) |
        (auto simp: iso1WeldingDetectionRes_props; fail))))))
qed

lemma reads_iso1WeldingDetectionRes [reads_intros]:
  "iso1WeldingDetectionRes_ok v \<Longrightarrow> reads 99 (\<lambda>s. encode_iso1WeldingDetectionResType s v)
      (decode_iso1WeldingDetectionResType j) a (same_iso1WeldingDetectionRes v)"
  unfolding encode_iso1WeldingDetectionResType_def decode_iso1WeldingDetectionResType_def [abs_def]
  by (rule reads_start [OF iso1WeldingDetectionRes.machine_reads, of _ 39, THEN reads_mono])
      (auto simp: iso1WeldingDetectionRes_at_def  init_iso1WeldingDetectionResType_def left_at_def)

interpretation iso1WeldingDetectionRes_enc: advancing_machine "iso1WeldingDetectionRes_enc_step v" "left_at
    [(39, 4), (40, 3), (41, 2), (3, 1)]" for v
  by unfold_locales (auto simp: iso1WeldingDetectionRes_steps dest!: advance_dests split: if_splits;
      simp add: left_at_def)

interpretation iso1WeldingDetectionRes_dec: advancing_machine "iso1WeldingDetectionRes_dec_step j" "left_at
    [(39, 4), (40, 3), (41, 2), (3, 1)]" for j
  by unfold_locales (auto simp: iso1WeldingDetectionRes_steps dest!: advance_dests elim!:
      decode_switch_next split: if_splits;
      simp add: left_at_def)

end
