(* ===== verification/Iso1Message.thy ===== *)
theory Iso1Message
  imports Iso1Header Iso1Services Iso1Certificates Iso1ChargeParameters Iso1Charging
begin

section \<open>ISO 15118 codec: the message\<close>

text \<open>
  The body, a choice of the 34 messages and an abstract one, and the message of header and body. The members of the
  body are an unnamed union in C, here separate members with their flags; a body is well formed when
  one of them is used.
\<close>

subsection \<open>\<open>iso1BodyBaseType\<close>\<close>

record iso1BodyBaseType =
  iso1BodyBase_noContent :: int

definition init_iso1BodyBaseType :: "iso1BodyBaseType \<Rightarrow> iso1BodyBaseType" where
  "init_iso1BodyBaseType a = a"

definition iso1BodyBase_enc_step :: "iso1BodyBaseType \<Rightarrow> unit machine" where
  "iso1BodyBase_enc_step v grammarID x s =
     (if grammarID = 34 then
        finish 4 x (encodeNBitUnsignedInteger s 1 0)
      else Some (EXI_ERROR_UNKOWN_GRAMMAR_ID, (False, grammarID, x), s))"

definition encode_iso1BodyBaseType :: "bitstream \<Rightarrow> iso1BodyBaseType \<Rightarrow>
    (errn \<times> bitstream) option" where
  "encode_iso1BodyBaseType s v = run_encoder (iso1BodyBase_enc_step v) 34 () s"

definition iso1BodyBase_dec_step :: "u32 \<Rightarrow> (dec_static \<times> iso1BodyBaseType) machine" where
  "iso1BodyBase_dec_step j grammarID x s =
     (if grammarID = 34 then
        decode_switch 1
         [(0, decode_end 4)] 34 x s
      else Some (EXI_ERROR_UNKOWN_GRAMMAR_ID, (False, grammarID, x), s))"

definition decode_iso1BodyBaseType :: "u32 \<Rightarrow> iso1BodyBaseType decoder" where
  "decode_iso1BodyBaseType j x s = grammar_loop (iso1BodyBase_dec_step j) 34 (fst x, init_iso1BodyBaseType (snd x)) s"

definition same_iso1BodyBase :: "iso1BodyBaseType \<Rightarrow> iso1BodyBaseType \<Rightarrow> bool" where
  "same_iso1BodyBase v a \<longleftrightarrow>
     True"

definition iso1BodyBase_at :: "iso1BodyBaseType \<Rightarrow> nat \<Rightarrow> iso1BodyBaseType \<Rightarrow> bool"
    where
  "iso1BodyBase_at v g a \<longleftrightarrow>
     g \<in> {34}"

lemmas iso1BodyBase_steps = iso1BodyBase_enc_step_def
  iso1BodyBase_dec_step_def

lemmas iso1BodyBase_props = iso1BodyBase_at_def same_iso1BodyBase_def left_at_def

interpretation iso1BodyBase: paired_machines "iso1BodyBase_enc_step v" "iso1BodyBase_dec_step j" "iso1BodyBase_at v"
  "left_at [(34, 1)]" "same_iso1BodyBase v" for v j
proof
  fix g a assume at: "iso1BodyBase_at v g a"
  then have "g \<in> {34}" by (simp add: iso1BodyBase_at_def)
  then show "hops (iso1BodyBase_enc_step v) (iso1BodyBase_dec_step j) (iso1BodyBase_at v)
    (left_at [(34, 1)]) (same_iso1BodyBase v) g a" using at
    by - (elim insertE emptyE; (hypsubst, rule hops_by, simp (no_asm) add: iso1BodyBase_steps del: One_nat_def,
      simp (no_asm) add: iso1BodyBase_steps del: One_nat_def, simp (asm_lr) add: iso1BodyBase_props del: One_nat_def,
        (elim conjE)?,
      ((rule walks_ifs)+)?); (((drule (1) known)+)?, (elim conjE)?, ((drule (1) known)+)?, (elim conjE)?,
      (((rule walks_shapes, simp (no_asm) del: One_nat_def, ((rule reads_intros)+)?);
      ((elim exE conjE)?,
        ((simp (no_asm_simp) add: iso1BodyBase_props; fail) | (simp (asm_lr) add: iso1BodyBase_props; fail) |
        (auto simp: iso1BodyBase_props; fail)))) | (erule (1) notE; fail) |
        ((elim exE conjE)?,
        ((simp (no_asm_simp) add: iso1BodyBase_props; fail) | (simp (asm_lr) add: iso1BodyBase_props; fail) |
        (auto simp: iso1BodyBase_props; fail))))))
qed

lemma reads_iso1BodyBase [reads_intros]:
  "reads 1 (\<lambda>s. encode_iso1BodyBaseType s v) (decode_iso1BodyBaseType j) a (same_iso1BodyBase v)"
  unfolding encode_iso1BodyBaseType_def decode_iso1BodyBaseType_def [abs_def]
  by (rule reads_start [OF iso1BodyBase.machine_reads, of _ 34, THEN reads_mono])
      (auto simp: iso1BodyBase_at_def  init_iso1BodyBaseType_def left_at_def)

interpretation iso1BodyBase_enc: advancing_machine "iso1BodyBase_enc_step v" "left_at [(34, 1)]" for v
  by unfold_locales (auto simp: iso1BodyBase_steps dest!: advance_dests split: if_splits;
      simp add: left_at_def)

interpretation iso1BodyBase_dec: advancing_machine "iso1BodyBase_dec_step j" "left_at [(34, 1)]" for j
  by unfold_locales (auto simp: iso1BodyBase_steps left_at_def dest!: advance_dests elim!: decode_switch_next split:
      if_splits)

subsection \<open>\<open>iso1BodyType\<close>\<close>

record iso1BodyType =
  iso1Body_BodyElement :: iso1BodyBaseType
  iso1Body_SessionSetupReq :: iso1SessionSetupReqType
  iso1Body_SessionSetupRes :: iso1SessionSetupResType
  iso1Body_ServiceDiscoveryReq :: iso1ServiceDiscoveryReqType
  iso1Body_ServiceDiscoveryRes :: iso1ServiceDiscoveryResType
  iso1Body_ServiceDetailReq :: iso1ServiceDetailReqType
  iso1Body_ServiceDetailRes :: iso1ServiceDetailResType
  iso1Body_PaymentServiceSelectionReq :: iso1PaymentServiceSelectionReqType
  iso1Body_PaymentServiceSelectionRes :: iso1PaymentServiceSelectionResType
  iso1Body_PaymentDetailsReq :: iso1PaymentDetailsReqType
  iso1Body_PaymentDetailsRes :: iso1PaymentDetailsResType
  iso1Body_AuthorizationReq :: iso1AuthorizationReqType
  iso1Body_AuthorizationRes :: iso1AuthorizationResType
  iso1Body_ChargeParameterDiscoveryReq :: iso1ChargeParameterDiscoveryReqType
  iso1Body_ChargeParameterDiscoveryRes :: iso1ChargeParameterDiscoveryResType
  iso1Body_PowerDeliveryReq :: iso1PowerDeliveryReqType
  iso1Body_PowerDeliveryRes :: iso1PowerDeliveryResType
  iso1Body_MeteringReceiptReq :: iso1MeteringReceiptReqType
  iso1Body_MeteringReceiptRes :: iso1MeteringReceiptResType
  iso1Body_SessionStopReq :: iso1SessionStopReqType
  iso1Body_SessionStopRes :: iso1SessionStopResType
  iso1Body_CertificateUpdateReq :: iso1CertificateUpdateReqType
  iso1Body_CertificateUpdateRes :: iso1CertificateUpdateResType
  iso1Body_CertificateInstallationReq :: iso1CertificateInstallationReqType
  iso1Body_CertificateInstallationRes :: iso1CertificateInstallationResType
  iso1Body_ChargingStatusReq :: iso1ChargingStatusReqType
  iso1Body_ChargingStatusRes :: iso1ChargingStatusResType
  iso1Body_CableCheckReq :: iso1CableCheckReqType
  iso1Body_CableCheckRes :: iso1CableCheckResType
  iso1Body_PreChargeReq :: iso1PreChargeReqType
  iso1Body_PreChargeRes :: iso1PreChargeResType
  iso1Body_CurrentDemandReq :: iso1CurrentDemandReqType
  iso1Body_CurrentDemandRes :: iso1CurrentDemandResType
  iso1Body_WeldingDetectionReq :: iso1WeldingDetectionReqType
  iso1Body_WeldingDetectionRes :: iso1WeldingDetectionResType
  iso1Body_BodyElement_isUsed :: bool
  iso1Body_SessionSetupReq_isUsed :: bool
  iso1Body_SessionSetupRes_isUsed :: bool
  iso1Body_ServiceDiscoveryReq_isUsed :: bool
  iso1Body_ServiceDiscoveryRes_isUsed :: bool
  iso1Body_ServiceDetailReq_isUsed :: bool
  iso1Body_ServiceDetailRes_isUsed :: bool
  iso1Body_PaymentServiceSelectionReq_isUsed :: bool
  iso1Body_PaymentServiceSelectionRes_isUsed :: bool
  iso1Body_PaymentDetailsReq_isUsed :: bool
  iso1Body_PaymentDetailsRes_isUsed :: bool
  iso1Body_AuthorizationReq_isUsed :: bool
  iso1Body_AuthorizationRes_isUsed :: bool
  iso1Body_ChargeParameterDiscoveryReq_isUsed :: bool
  iso1Body_ChargeParameterDiscoveryRes_isUsed :: bool
  iso1Body_PowerDeliveryReq_isUsed :: bool
  iso1Body_PowerDeliveryRes_isUsed :: bool
  iso1Body_MeteringReceiptReq_isUsed :: bool
  iso1Body_MeteringReceiptRes_isUsed :: bool
  iso1Body_SessionStopReq_isUsed :: bool
  iso1Body_SessionStopRes_isUsed :: bool
  iso1Body_CertificateUpdateReq_isUsed :: bool
  iso1Body_CertificateUpdateRes_isUsed :: bool
  iso1Body_CertificateInstallationReq_isUsed :: bool
  iso1Body_CertificateInstallationRes_isUsed :: bool
  iso1Body_ChargingStatusReq_isUsed :: bool
  iso1Body_ChargingStatusRes_isUsed :: bool
  iso1Body_CableCheckReq_isUsed :: bool
  iso1Body_CableCheckRes_isUsed :: bool
  iso1Body_PreChargeReq_isUsed :: bool
  iso1Body_PreChargeRes_isUsed :: bool
  iso1Body_CurrentDemandReq_isUsed :: bool
  iso1Body_CurrentDemandRes_isUsed :: bool
  iso1Body_WeldingDetectionReq_isUsed :: bool
  iso1Body_WeldingDetectionRes_isUsed :: bool

definition init_iso1BodyType :: "iso1BodyType \<Rightarrow> iso1BodyType" where
  "init_iso1BodyType a = a\<lparr>iso1Body_BodyElement_isUsed := False, iso1Body_SessionSetupReq_isUsed := False,
      iso1Body_SessionSetupRes_isUsed := False, iso1Body_ServiceDiscoveryReq_isUsed := False,
      iso1Body_ServiceDiscoveryRes_isUsed := False, iso1Body_ServiceDetailReq_isUsed := False,
      iso1Body_ServiceDetailRes_isUsed := False, iso1Body_PaymentServiceSelectionReq_isUsed := False,
      iso1Body_PaymentServiceSelectionRes_isUsed := False, iso1Body_PaymentDetailsReq_isUsed := False,
      iso1Body_PaymentDetailsRes_isUsed := False, iso1Body_AuthorizationReq_isUsed := False,
      iso1Body_AuthorizationRes_isUsed := False, iso1Body_ChargeParameterDiscoveryReq_isUsed := False,
      iso1Body_ChargeParameterDiscoveryRes_isUsed := False, iso1Body_PowerDeliveryReq_isUsed := False,
      iso1Body_PowerDeliveryRes_isUsed := False, iso1Body_MeteringReceiptReq_isUsed := False,
      iso1Body_MeteringReceiptRes_isUsed := False, iso1Body_SessionStopReq_isUsed := False,
      iso1Body_SessionStopRes_isUsed := False, iso1Body_CertificateUpdateReq_isUsed := False,
      iso1Body_CertificateUpdateRes_isUsed := False, iso1Body_CertificateInstallationReq_isUsed := False,
      iso1Body_CertificateInstallationRes_isUsed := False, iso1Body_ChargingStatusReq_isUsed := False,
      iso1Body_ChargingStatusRes_isUsed := False, iso1Body_CableCheckReq_isUsed := False,
      iso1Body_CableCheckRes_isUsed := False, iso1Body_PreChargeReq_isUsed := False,
      iso1Body_PreChargeRes_isUsed := False, iso1Body_CurrentDemandReq_isUsed := False,
      iso1Body_CurrentDemandRes_isUsed := False, iso1Body_WeldingDetectionReq_isUsed := False,
      iso1Body_WeldingDetectionRes_isUsed := False\<rparr>"

definition iso1Body_enc_step_2 :: "iso1BodyType \<Rightarrow> unit machine" where
  "iso1Body_enc_step_2 v grammarID x s =
     (if grammarID = 3 then
        finish 4 x (encodeNBitUnsignedInteger s 1 0)
      else Some (EXI_ERROR_UNKOWN_GRAMMAR_ID, (False, grammarID, x), s))"

definition iso1Body_enc_step :: "iso1BodyType \<Rightarrow> unit machine" where
  "iso1Body_enc_step v grammarID x s =
     (if grammarID = 220 then
        if iso1Body_AuthorizationReq_isUsed v then
          goto 3 x (encode_child 6 0 (\<lambda>s. encode_iso1AuthorizationReqType s (iso1Body_AuthorizationReq v)) s)
        else if iso1Body_AuthorizationRes_isUsed v then
          goto 3 x (encode_child 6 1 (\<lambda>s. encode_iso1AuthorizationResType s (iso1Body_AuthorizationRes v)) s)
        else if iso1Body_BodyElement_isUsed v then
          goto 3 x (encode_child 6 2 (\<lambda>s. encode_iso1BodyBaseType s (iso1Body_BodyElement v)) s)
        else if iso1Body_CableCheckReq_isUsed v then
          goto 3 x (encode_child 6 3 (\<lambda>s. encode_iso1CableCheckReqType s (iso1Body_CableCheckReq v)) s)
        else if iso1Body_CableCheckRes_isUsed v then
          goto 3 x (encode_child 6 4 (\<lambda>s. encode_iso1CableCheckResType s (iso1Body_CableCheckRes v)) s)
        else if iso1Body_CertificateInstallationReq_isUsed v then
          goto 3 x (encode_child 6 5
          (\<lambda>s. encode_iso1CertificateInstallationReqType s (iso1Body_CertificateInstallationReq v)) s)
        else if iso1Body_CertificateInstallationRes_isUsed v then
          goto 3 x (encode_child 6 6
          (\<lambda>s. encode_iso1CertificateInstallationResType s (iso1Body_CertificateInstallationRes v)) s)
        else if iso1Body_CertificateUpdateReq_isUsed v then
          goto 3 x (encode_child 6 7
          (\<lambda>s. encode_iso1CertificateUpdateReqType s (iso1Body_CertificateUpdateReq v)) s)
        else if iso1Body_CertificateUpdateRes_isUsed v then
          goto 3 x (encode_child 6 8
          (\<lambda>s. encode_iso1CertificateUpdateResType s (iso1Body_CertificateUpdateRes v)) s)
        else if iso1Body_ChargeParameterDiscoveryReq_isUsed v then
          goto 3 x (encode_child 6 9
          (\<lambda>s. encode_iso1ChargeParameterDiscoveryReqType s (iso1Body_ChargeParameterDiscoveryReq v)) s)
        else if iso1Body_ChargeParameterDiscoveryRes_isUsed v then
          goto 3 x (encode_child 6 10
          (\<lambda>s. encode_iso1ChargeParameterDiscoveryResType s (iso1Body_ChargeParameterDiscoveryRes v)) s)
        else if iso1Body_ChargingStatusReq_isUsed v then
          goto 3 x (encode_child 6 11 (\<lambda>s. encode_iso1ChargingStatusReqType s (iso1Body_ChargingStatusReq v))
          s)
        else if iso1Body_ChargingStatusRes_isUsed v then
          goto 3 x (encode_child 6 12 (\<lambda>s. encode_iso1ChargingStatusResType s (iso1Body_ChargingStatusRes v))
          s)
        else if iso1Body_CurrentDemandReq_isUsed v then
          goto 3 x (encode_child 6 13 (\<lambda>s. encode_iso1CurrentDemandReqType s (iso1Body_CurrentDemandReq v)) s)
        else if iso1Body_CurrentDemandRes_isUsed v then
          goto 3 x (encode_child 6 14 (\<lambda>s. encode_iso1CurrentDemandResType s (iso1Body_CurrentDemandRes v)) s)
        else if iso1Body_MeteringReceiptReq_isUsed v then
          goto 3 x (encode_child 6 15
          (\<lambda>s. encode_iso1MeteringReceiptReqType s (iso1Body_MeteringReceiptReq v)) s)
        else if iso1Body_MeteringReceiptRes_isUsed v then
          goto 3 x (encode_child 6 16
          (\<lambda>s. encode_iso1MeteringReceiptResType s (iso1Body_MeteringReceiptRes v)) s)
        else if iso1Body_PaymentDetailsReq_isUsed v then
          goto 3 x (encode_child 6 17 (\<lambda>s. encode_iso1PaymentDetailsReqType s (iso1Body_PaymentDetailsReq v))
          s)
        else if iso1Body_PaymentDetailsRes_isUsed v then
          goto 3 x (encode_child 6 18 (\<lambda>s. encode_iso1PaymentDetailsResType s (iso1Body_PaymentDetailsRes v))
          s)
        else if iso1Body_PaymentServiceSelectionReq_isUsed v then
          goto 3 x (encode_child 6 19
          (\<lambda>s. encode_iso1PaymentServiceSelectionReqType s (iso1Body_PaymentServiceSelectionReq v)) s)
        else if iso1Body_PaymentServiceSelectionRes_isUsed v then
          goto 3 x (encode_child 6 20
          (\<lambda>s. encode_iso1PaymentServiceSelectionResType s (iso1Body_PaymentServiceSelectionRes v)) s)
        else if iso1Body_PowerDeliveryReq_isUsed v then
          goto 3 x (encode_child 6 21 (\<lambda>s. encode_iso1PowerDeliveryReqType s (iso1Body_PowerDeliveryReq v)) s)
        else if iso1Body_PowerDeliveryRes_isUsed v then
          goto 3 x (encode_child 6 22 (\<lambda>s. encode_iso1PowerDeliveryResType s (iso1Body_PowerDeliveryRes v)) s)
        else if iso1Body_PreChargeReq_isUsed v then
          goto 3 x (encode_child 6 23 (\<lambda>s. encode_iso1PreChargeReqType s (iso1Body_PreChargeReq v)) s)
        else if iso1Body_PreChargeRes_isUsed v then
          goto 3 x (encode_child 6 24 (\<lambda>s. encode_iso1PreChargeResType s (iso1Body_PreChargeRes v)) s)
        else if iso1Body_ServiceDetailReq_isUsed v then
          goto 3 x (encode_child 6 25 (\<lambda>s. encode_iso1ServiceDetailReqType s (iso1Body_ServiceDetailReq v)) s)
        else if iso1Body_ServiceDetailRes_isUsed v then
          goto 3 x (encode_child 6 26 (\<lambda>s. encode_iso1ServiceDetailResType s (iso1Body_ServiceDetailRes v)) s)
        else if iso1Body_ServiceDiscoveryReq_isUsed v then
          goto 3 x (encode_child 6 27
          (\<lambda>s. encode_iso1ServiceDiscoveryReqType s (iso1Body_ServiceDiscoveryReq v)) s)
        else if iso1Body_ServiceDiscoveryRes_isUsed v then
          goto 3 x (encode_child 6 28
          (\<lambda>s. encode_iso1ServiceDiscoveryResType s (iso1Body_ServiceDiscoveryRes v)) s)
        else if iso1Body_SessionSetupReq_isUsed v then
          goto 3 x (encode_child 6 29 (\<lambda>s. encode_iso1SessionSetupReqType s (iso1Body_SessionSetupReq v)) s)
        else if iso1Body_SessionSetupRes_isUsed v then
          goto 3 x (encode_child 6 30 (\<lambda>s. encode_iso1SessionSetupResType s (iso1Body_SessionSetupRes v)) s)
        else if iso1Body_SessionStopReq_isUsed v then
          goto 3 x (encode_child 6 31 (\<lambda>s. encode_iso1SessionStopReqType s (iso1Body_SessionStopReq v)) s)
        else if iso1Body_SessionStopRes_isUsed v then
          goto 3 x (encode_child 6 32 (\<lambda>s. encode_iso1SessionStopResType s (iso1Body_SessionStopRes v)) s)
        else if iso1Body_WeldingDetectionReq_isUsed v then
          goto 3 x (encode_child 6 33
          (\<lambda>s. encode_iso1WeldingDetectionReqType s (iso1Body_WeldingDetectionReq v)) s)
        else if iso1Body_WeldingDetectionRes_isUsed v then
          goto 3 x (encode_child 6 34
          (\<lambda>s. encode_iso1WeldingDetectionResType s (iso1Body_WeldingDetectionRes v)) s)
        else finish 4 x (encodeNBitUnsignedInteger s 6 35)
      else iso1Body_enc_step_2 v grammarID x s)"

definition encode_iso1BodyType :: "bitstream \<Rightarrow> iso1BodyType \<Rightarrow> (errn \<times> bitstream)
    option" where
  "encode_iso1BodyType s v = run_encoder (iso1Body_enc_step v) 220 () s"

definition iso1Body_dec_step_2 :: "u32 \<Rightarrow> (dec_static \<times> iso1BodyType) machine" where
  "iso1Body_dec_step_2 j grammarID x s =
     (if grammarID = 3 then
        decode_switch 1
         [(0, decode_end 4)] 3 x s
      else Some (EXI_ERROR_UNKOWN_GRAMMAR_ID, (False, grammarID, x), s))"

definition iso1Body_dec_step :: "u32 \<Rightarrow> (dec_static \<times> iso1BodyType) machine" where
  "iso1Body_dec_step j grammarID x s =
     (if grammarID = 220 then
        decode_switch 6
         [(0, decode_child 3 (decode_used (\<lambda>a. a\<lparr>iso1Body_AuthorizationReq_isUsed := True\<rparr>)
           (decode_sub (decode_iso1AuthorizationReqType j) iso1Body_AuthorizationReq
           (\<lambda>u a. a\<lparr>iso1Body_AuthorizationReq := u\<rparr>)))),
          (1, decode_child 3 (decode_used (\<lambda>a. a\<lparr>iso1Body_AuthorizationRes_isUsed := True\<rparr>)
            (decode_sub (decode_iso1AuthorizationResType j) iso1Body_AuthorizationRes
            (\<lambda>u a. a\<lparr>iso1Body_AuthorizationRes := u\<rparr>)))),
          (2, decode_child 3 (decode_used (\<lambda>a. a\<lparr>iso1Body_BodyElement_isUsed := True\<rparr>)
            (decode_sub (decode_iso1BodyBaseType j) iso1Body_BodyElement
            (\<lambda>u a. a\<lparr>iso1Body_BodyElement := u\<rparr>)))),
          (3, decode_child 3 (decode_used (\<lambda>a. a\<lparr>iso1Body_CableCheckReq_isUsed := True\<rparr>)
            (decode_sub (decode_iso1CableCheckReqType j) iso1Body_CableCheckReq
            (\<lambda>u a. a\<lparr>iso1Body_CableCheckReq := u\<rparr>)))),
          (4, decode_child 3 (decode_used (\<lambda>a. a\<lparr>iso1Body_CableCheckRes_isUsed := True\<rparr>)
            (decode_sub (decode_iso1CableCheckResType j) iso1Body_CableCheckRes
            (\<lambda>u a. a\<lparr>iso1Body_CableCheckRes := u\<rparr>)))),
          (5, decode_child 3
            (decode_used (\<lambda>a. a\<lparr>iso1Body_CertificateInstallationReq_isUsed := True\<rparr>)
            (decode_sub (decode_iso1CertificateInstallationReqType j) iso1Body_CertificateInstallationReq
            (\<lambda>u a. a\<lparr>iso1Body_CertificateInstallationReq := u\<rparr>)))),
          (6, decode_child 3
            (decode_used (\<lambda>a. a\<lparr>iso1Body_CertificateInstallationRes_isUsed := True\<rparr>)
            (decode_sub (decode_iso1CertificateInstallationResType j) iso1Body_CertificateInstallationRes
            (\<lambda>u a. a\<lparr>iso1Body_CertificateInstallationRes := u\<rparr>)))),
          (7, decode_child 3 (decode_used (\<lambda>a. a\<lparr>iso1Body_CertificateUpdateReq_isUsed := True\<rparr>)
            (decode_sub (decode_iso1CertificateUpdateReqType j) iso1Body_CertificateUpdateReq
            (\<lambda>u a. a\<lparr>iso1Body_CertificateUpdateReq := u\<rparr>)))),
          (8, decode_child 3 (decode_used (\<lambda>a. a\<lparr>iso1Body_CertificateUpdateRes_isUsed := True\<rparr>)
            (decode_sub (decode_iso1CertificateUpdateResType j) iso1Body_CertificateUpdateRes
            (\<lambda>u a. a\<lparr>iso1Body_CertificateUpdateRes := u\<rparr>)))),
          (9, decode_child 3
            (decode_used (\<lambda>a. a\<lparr>iso1Body_ChargeParameterDiscoveryReq_isUsed := True\<rparr>)
            (decode_sub (decode_iso1ChargeParameterDiscoveryReqType j) iso1Body_ChargeParameterDiscoveryReq
            (\<lambda>u a. a\<lparr>iso1Body_ChargeParameterDiscoveryReq := u\<rparr>)))),
          (10, decode_child 3
            (decode_used (\<lambda>a. a\<lparr>iso1Body_ChargeParameterDiscoveryRes_isUsed := True\<rparr>)
            (decode_sub (decode_iso1ChargeParameterDiscoveryResType j) iso1Body_ChargeParameterDiscoveryRes
            (\<lambda>u a. a\<lparr>iso1Body_ChargeParameterDiscoveryRes := u\<rparr>)))),
          (11, decode_child 3 (decode_used (\<lambda>a. a\<lparr>iso1Body_ChargingStatusReq_isUsed := True\<rparr>)
            (decode_sub (decode_iso1ChargingStatusReqType j) iso1Body_ChargingStatusReq
            (\<lambda>u a. a\<lparr>iso1Body_ChargingStatusReq := u\<rparr>)))),
          (12, decode_child 3 (decode_used (\<lambda>a. a\<lparr>iso1Body_ChargingStatusRes_isUsed := True\<rparr>)
            (decode_sub (decode_iso1ChargingStatusResType j) iso1Body_ChargingStatusRes
            (\<lambda>u a. a\<lparr>iso1Body_ChargingStatusRes := u\<rparr>)))),
          (13, decode_child 3 (decode_used (\<lambda>a. a\<lparr>iso1Body_CurrentDemandReq_isUsed := True\<rparr>)
            (decode_sub (decode_iso1CurrentDemandReqType j) iso1Body_CurrentDemandReq
            (\<lambda>u a. a\<lparr>iso1Body_CurrentDemandReq := u\<rparr>)))),
          (14, decode_child 3 (decode_used (\<lambda>a. a\<lparr>iso1Body_CurrentDemandRes_isUsed := True\<rparr>)
            (decode_sub (decode_iso1CurrentDemandResType j) iso1Body_CurrentDemandRes
            (\<lambda>u a. a\<lparr>iso1Body_CurrentDemandRes := u\<rparr>)))),
          (15, decode_child 3 (decode_used (\<lambda>a. a\<lparr>iso1Body_MeteringReceiptReq_isUsed := True\<rparr>)
            (decode_sub (decode_iso1MeteringReceiptReqType j) iso1Body_MeteringReceiptReq
            (\<lambda>u a. a\<lparr>iso1Body_MeteringReceiptReq := u\<rparr>)))),
          (16, decode_child 3 (decode_used (\<lambda>a. a\<lparr>iso1Body_MeteringReceiptRes_isUsed := True\<rparr>)
            (decode_sub (decode_iso1MeteringReceiptResType j) iso1Body_MeteringReceiptRes
            (\<lambda>u a. a\<lparr>iso1Body_MeteringReceiptRes := u\<rparr>)))),
          (17, decode_child 3 (decode_used (\<lambda>a. a\<lparr>iso1Body_PaymentDetailsReq_isUsed := True\<rparr>)
            (decode_sub (decode_iso1PaymentDetailsReqType j) iso1Body_PaymentDetailsReq
            (\<lambda>u a. a\<lparr>iso1Body_PaymentDetailsReq := u\<rparr>)))),
          (18, decode_child 3 (decode_used (\<lambda>a. a\<lparr>iso1Body_PaymentDetailsRes_isUsed := True\<rparr>)
            (decode_sub (decode_iso1PaymentDetailsResType j) iso1Body_PaymentDetailsRes
            (\<lambda>u a. a\<lparr>iso1Body_PaymentDetailsRes := u\<rparr>)))),
          (19, decode_child 3
            (decode_used (\<lambda>a. a\<lparr>iso1Body_PaymentServiceSelectionReq_isUsed := True\<rparr>)
            (decode_sub (decode_iso1PaymentServiceSelectionReqType j) iso1Body_PaymentServiceSelectionReq
            (\<lambda>u a. a\<lparr>iso1Body_PaymentServiceSelectionReq := u\<rparr>)))),
          (20, decode_child 3
            (decode_used (\<lambda>a. a\<lparr>iso1Body_PaymentServiceSelectionRes_isUsed := True\<rparr>)
            (decode_sub (decode_iso1PaymentServiceSelectionResType j) iso1Body_PaymentServiceSelectionRes
            (\<lambda>u a. a\<lparr>iso1Body_PaymentServiceSelectionRes := u\<rparr>)))),
          (21, decode_child 3 (decode_used (\<lambda>a. a\<lparr>iso1Body_PowerDeliveryReq_isUsed := True\<rparr>)
            (decode_sub (decode_iso1PowerDeliveryReqType j) iso1Body_PowerDeliveryReq
            (\<lambda>u a. a\<lparr>iso1Body_PowerDeliveryReq := u\<rparr>)))),
          (22, decode_child 3 (decode_used (\<lambda>a. a\<lparr>iso1Body_PowerDeliveryRes_isUsed := True\<rparr>)
            (decode_sub (decode_iso1PowerDeliveryResType j) iso1Body_PowerDeliveryRes
            (\<lambda>u a. a\<lparr>iso1Body_PowerDeliveryRes := u\<rparr>)))),
          (23, decode_child 3 (decode_used (\<lambda>a. a\<lparr>iso1Body_PreChargeReq_isUsed := True\<rparr>)
            (decode_sub (decode_iso1PreChargeReqType j) iso1Body_PreChargeReq
            (\<lambda>u a. a\<lparr>iso1Body_PreChargeReq := u\<rparr>)))),
          (24, decode_child 3 (decode_used (\<lambda>a. a\<lparr>iso1Body_PreChargeRes_isUsed := True\<rparr>)
            (decode_sub (decode_iso1PreChargeResType j) iso1Body_PreChargeRes
            (\<lambda>u a. a\<lparr>iso1Body_PreChargeRes := u\<rparr>)))),
          (25, decode_child 3 (decode_used (\<lambda>a. a\<lparr>iso1Body_ServiceDetailReq_isUsed := True\<rparr>)
            (decode_sub (decode_iso1ServiceDetailReqType j) iso1Body_ServiceDetailReq
            (\<lambda>u a. a\<lparr>iso1Body_ServiceDetailReq := u\<rparr>)))),
          (26, decode_child 3 (decode_used (\<lambda>a. a\<lparr>iso1Body_ServiceDetailRes_isUsed := True\<rparr>)
            (decode_sub (decode_iso1ServiceDetailResType j) iso1Body_ServiceDetailRes
            (\<lambda>u a. a\<lparr>iso1Body_ServiceDetailRes := u\<rparr>)))),
          (27, decode_child 3 (decode_used (\<lambda>a. a\<lparr>iso1Body_ServiceDiscoveryReq_isUsed := True\<rparr>)
            (decode_sub (decode_iso1ServiceDiscoveryReqType j) iso1Body_ServiceDiscoveryReq
            (\<lambda>u a. a\<lparr>iso1Body_ServiceDiscoveryReq := u\<rparr>)))),
          (28, decode_child 3 (decode_used (\<lambda>a. a\<lparr>iso1Body_ServiceDiscoveryRes_isUsed := True\<rparr>)
            (decode_sub (decode_iso1ServiceDiscoveryResType j) iso1Body_ServiceDiscoveryRes
            (\<lambda>u a. a\<lparr>iso1Body_ServiceDiscoveryRes := u\<rparr>)))),
          (29, decode_child 3 (decode_used (\<lambda>a. a\<lparr>iso1Body_SessionSetupReq_isUsed := True\<rparr>)
            (decode_sub (decode_iso1SessionSetupReqType j) iso1Body_SessionSetupReq
            (\<lambda>u a. a\<lparr>iso1Body_SessionSetupReq := u\<rparr>)))),
          (30, decode_child 3 (decode_used (\<lambda>a. a\<lparr>iso1Body_SessionSetupRes_isUsed := True\<rparr>)
            (decode_sub (decode_iso1SessionSetupResType j) iso1Body_SessionSetupRes
            (\<lambda>u a. a\<lparr>iso1Body_SessionSetupRes := u\<rparr>)))),
          (31, decode_child 3 (decode_used (\<lambda>a. a\<lparr>iso1Body_SessionStopReq_isUsed := True\<rparr>)
            (decode_sub (decode_iso1SessionStopReqType j) iso1Body_SessionStopReq
            (\<lambda>u a. a\<lparr>iso1Body_SessionStopReq := u\<rparr>)))),
          (32, decode_child 3 (decode_used (\<lambda>a. a\<lparr>iso1Body_SessionStopRes_isUsed := True\<rparr>)
            (decode_sub (decode_iso1SessionStopResType j) iso1Body_SessionStopRes
            (\<lambda>u a. a\<lparr>iso1Body_SessionStopRes := u\<rparr>)))),
          (33, decode_child 3 (decode_used (\<lambda>a. a\<lparr>iso1Body_WeldingDetectionReq_isUsed := True\<rparr>)
            (decode_sub (decode_iso1WeldingDetectionReqType j) iso1Body_WeldingDetectionReq
            (\<lambda>u a. a\<lparr>iso1Body_WeldingDetectionReq := u\<rparr>)))),
          (34, decode_child 3 (decode_used (\<lambda>a. a\<lparr>iso1Body_WeldingDetectionRes_isUsed := True\<rparr>)
            (decode_sub (decode_iso1WeldingDetectionResType j) iso1Body_WeldingDetectionRes
            (\<lambda>u a. a\<lparr>iso1Body_WeldingDetectionRes := u\<rparr>)))),
          (35, decode_end 4)] 220 x s
      else iso1Body_dec_step_2 j grammarID x s)"

definition decode_iso1BodyType :: "u32 \<Rightarrow> iso1BodyType decoder" where
  "decode_iso1BodyType j x s = grammar_loop (iso1Body_dec_step j) 220 (fst x, init_iso1BodyType (snd x)) s"

definition iso1Body_ok :: "iso1BodyType \<Rightarrow> bool" where
  "iso1Body_ok v \<longleftrightarrow>
     when_used (iso1Body_AuthorizationReq_isUsed v) (iso1AuthorizationReq_ok (iso1Body_AuthorizationReq v)) \<and>
     when_used (iso1Body_AuthorizationRes_isUsed v) (iso1AuthorizationRes_ok (iso1Body_AuthorizationRes v)) \<and>
     when_used (iso1Body_CableCheckReq_isUsed v) (iso1CableCheckReq_ok (iso1Body_CableCheckReq v)) \<and>
     when_used (iso1Body_CableCheckRes_isUsed v) (iso1CableCheckRes_ok (iso1Body_CableCheckRes v)) \<and>
     when_used (iso1Body_CertificateInstallationReq_isUsed v)
       (iso1CertificateInstallationReq_ok (iso1Body_CertificateInstallationReq v)) \<and>
     when_used (iso1Body_CertificateInstallationRes_isUsed v)
       (iso1CertificateInstallationRes_ok (iso1Body_CertificateInstallationRes v)) \<and>
     when_used (iso1Body_CertificateUpdateReq_isUsed v)
       (iso1CertificateUpdateReq_ok (iso1Body_CertificateUpdateReq v)) \<and>
     when_used (iso1Body_CertificateUpdateRes_isUsed v)
       (iso1CertificateUpdateRes_ok (iso1Body_CertificateUpdateRes v)) \<and>
     when_used (iso1Body_ChargeParameterDiscoveryReq_isUsed v)
       (iso1ChargeParameterDiscoveryReq_ok (iso1Body_ChargeParameterDiscoveryReq v)) \<and>
     when_used (iso1Body_ChargeParameterDiscoveryRes_isUsed v)
       (iso1ChargeParameterDiscoveryRes_ok (iso1Body_ChargeParameterDiscoveryRes v)) \<and>
     when_used (iso1Body_ChargingStatusRes_isUsed v) (iso1ChargingStatusRes_ok (iso1Body_ChargingStatusRes v)) \<and>
     when_used (iso1Body_CurrentDemandReq_isUsed v) (iso1CurrentDemandReq_ok (iso1Body_CurrentDemandReq v)) \<and>
     when_used (iso1Body_CurrentDemandRes_isUsed v) (iso1CurrentDemandRes_ok (iso1Body_CurrentDemandRes v)) \<and>
     when_used (iso1Body_MeteringReceiptReq_isUsed v) (iso1MeteringReceiptReq_ok (iso1Body_MeteringReceiptReq v))
       \<and>
     when_used (iso1Body_MeteringReceiptRes_isUsed v) (iso1MeteringReceiptRes_ok (iso1Body_MeteringReceiptRes v))
       \<and>
     when_used (iso1Body_PaymentDetailsReq_isUsed v) (iso1PaymentDetailsReq_ok (iso1Body_PaymentDetailsReq v)) \<and>
     when_used (iso1Body_PaymentDetailsRes_isUsed v) (iso1PaymentDetailsRes_ok (iso1Body_PaymentDetailsRes v)) \<and>
     when_used (iso1Body_PaymentServiceSelectionReq_isUsed v)
       (iso1PaymentServiceSelectionReq_ok (iso1Body_PaymentServiceSelectionReq v)) \<and>
     when_used (iso1Body_PaymentServiceSelectionRes_isUsed v)
       (iso1PaymentServiceSelectionRes_ok (iso1Body_PaymentServiceSelectionRes v)) \<and>
     when_used (iso1Body_PowerDeliveryReq_isUsed v) (iso1PowerDeliveryReq_ok (iso1Body_PowerDeliveryReq v)) \<and>
     when_used (iso1Body_PowerDeliveryRes_isUsed v) (iso1PowerDeliveryRes_ok (iso1Body_PowerDeliveryRes v)) \<and>
     when_used (iso1Body_PreChargeReq_isUsed v) (iso1PreChargeReq_ok (iso1Body_PreChargeReq v)) \<and>
     when_used (iso1Body_PreChargeRes_isUsed v) (iso1PreChargeRes_ok (iso1Body_PreChargeRes v)) \<and>
     when_used (iso1Body_ServiceDetailRes_isUsed v) (iso1ServiceDetailRes_ok (iso1Body_ServiceDetailRes v)) \<and>
     when_used (iso1Body_ServiceDiscoveryReq_isUsed v) (iso1ServiceDiscoveryReq_ok (iso1Body_ServiceDiscoveryReq v))
       \<and>
     when_used (iso1Body_ServiceDiscoveryRes_isUsed v) (iso1ServiceDiscoveryRes_ok (iso1Body_ServiceDiscoveryRes v))
       \<and>
     when_used (iso1Body_SessionSetupReq_isUsed v) (iso1SessionSetupReq_ok (iso1Body_SessionSetupReq v)) \<and>
     when_used (iso1Body_SessionSetupRes_isUsed v) (iso1SessionSetupRes_ok (iso1Body_SessionSetupRes v)) \<and>
     when_used (iso1Body_SessionStopReq_isUsed v) (iso1SessionStopReq_ok (iso1Body_SessionStopReq v)) \<and>
     when_used (iso1Body_SessionStopRes_isUsed v) (iso1SessionStopRes_ok (iso1Body_SessionStopRes v)) \<and>
     when_used (iso1Body_WeldingDetectionReq_isUsed v) (iso1WeldingDetectionReq_ok (iso1Body_WeldingDetectionReq v))
       \<and>
     when_used (iso1Body_WeldingDetectionRes_isUsed v) (iso1WeldingDetectionRes_ok (iso1Body_WeldingDetectionRes v))
       \<and>
     exclusive [iso1Body_AuthorizationReq_isUsed v, iso1Body_AuthorizationRes_isUsed v, iso1Body_BodyElement_isUsed v,
       iso1Body_CableCheckReq_isUsed v, iso1Body_CableCheckRes_isUsed v, iso1Body_CertificateInstallationReq_isUsed v,
       iso1Body_CertificateInstallationRes_isUsed v, iso1Body_CertificateUpdateReq_isUsed v,
       iso1Body_CertificateUpdateRes_isUsed v, iso1Body_ChargeParameterDiscoveryReq_isUsed v,
       iso1Body_ChargeParameterDiscoveryRes_isUsed v, iso1Body_ChargingStatusReq_isUsed v,
       iso1Body_ChargingStatusRes_isUsed v, iso1Body_CurrentDemandReq_isUsed v, iso1Body_CurrentDemandRes_isUsed v,
       iso1Body_MeteringReceiptReq_isUsed v, iso1Body_MeteringReceiptRes_isUsed v, iso1Body_PaymentDetailsReq_isUsed
       v, iso1Body_PaymentDetailsRes_isUsed v, iso1Body_PaymentServiceSelectionReq_isUsed v,
       iso1Body_PaymentServiceSelectionRes_isUsed v, iso1Body_PowerDeliveryReq_isUsed v,
       iso1Body_PowerDeliveryRes_isUsed v, iso1Body_PreChargeReq_isUsed v, iso1Body_PreChargeRes_isUsed v,
       iso1Body_ServiceDetailReq_isUsed v, iso1Body_ServiceDetailRes_isUsed v, iso1Body_ServiceDiscoveryReq_isUsed v,
       iso1Body_ServiceDiscoveryRes_isUsed v, iso1Body_SessionSetupReq_isUsed v, iso1Body_SessionSetupRes_isUsed v,
       iso1Body_SessionStopReq_isUsed v, iso1Body_SessionStopRes_isUsed v, iso1Body_WeldingDetectionReq_isUsed v,
       iso1Body_WeldingDetectionRes_isUsed v]"

definition iso1Body_sized :: "iso1BodyType \<Rightarrow> bool" where
  "iso1Body_sized a \<longleftrightarrow>
     iso1AuthorizationReq_sized (iso1Body_AuthorizationReq a) \<and>
     iso1CertificateInstallationReq_sized (iso1Body_CertificateInstallationReq a) \<and>
     iso1CertificateInstallationRes_sized (iso1Body_CertificateInstallationRes a) \<and>
     iso1CertificateUpdateReq_sized (iso1Body_CertificateUpdateReq a) \<and>
     iso1CertificateUpdateRes_sized (iso1Body_CertificateUpdateRes a) \<and>
     iso1ChargeParameterDiscoveryRes_sized (iso1Body_ChargeParameterDiscoveryRes a) \<and>
     iso1ChargingStatusRes_sized (iso1Body_ChargingStatusRes a) \<and>
     iso1CurrentDemandRes_sized (iso1Body_CurrentDemandRes a) \<and>
     iso1MeteringReceiptReq_sized (iso1Body_MeteringReceiptReq a) \<and>
     iso1PaymentDetailsReq_sized (iso1Body_PaymentDetailsReq a) \<and>
     iso1PaymentDetailsRes_sized (iso1Body_PaymentDetailsRes a) \<and>
     iso1PaymentServiceSelectionReq_sized (iso1Body_PaymentServiceSelectionReq a) \<and>
     iso1PowerDeliveryReq_sized (iso1Body_PowerDeliveryReq a) \<and>
     iso1ServiceDetailRes_sized (iso1Body_ServiceDetailRes a) \<and>
     iso1ServiceDiscoveryReq_sized (iso1Body_ServiceDiscoveryReq a) \<and>
     iso1ServiceDiscoveryRes_sized (iso1Body_ServiceDiscoveryRes a) \<and>
     iso1SessionSetupReq_sized (iso1Body_SessionSetupReq a) \<and>
     iso1SessionSetupRes_sized (iso1Body_SessionSetupRes a)"

definition same_iso1Body :: "iso1BodyType \<Rightarrow> iso1BodyType \<Rightarrow> bool" where
  "same_iso1Body v a \<longleftrightarrow>
     kept (iso1Body_AuthorizationReq_isUsed v) (iso1Body_AuthorizationReq_isUsed a)
       (same_iso1AuthorizationReq (iso1Body_AuthorizationReq v) (iso1Body_AuthorizationReq a)) \<and>
     kept (iso1Body_AuthorizationRes_isUsed v) (iso1Body_AuthorizationRes_isUsed a)
       (same_iso1AuthorizationRes (iso1Body_AuthorizationRes v) (iso1Body_AuthorizationRes a)) \<and>
     kept (iso1Body_BodyElement_isUsed v) (iso1Body_BodyElement_isUsed a)
       (same_iso1BodyBase (iso1Body_BodyElement v) (iso1Body_BodyElement a)) \<and>
     kept (iso1Body_CableCheckReq_isUsed v) (iso1Body_CableCheckReq_isUsed a)
       (same_iso1CableCheckReq (iso1Body_CableCheckReq v) (iso1Body_CableCheckReq a)) \<and>
     kept (iso1Body_CableCheckRes_isUsed v) (iso1Body_CableCheckRes_isUsed a)
       (same_iso1CableCheckRes (iso1Body_CableCheckRes v) (iso1Body_CableCheckRes a)) \<and>
     kept (iso1Body_CertificateInstallationReq_isUsed v) (iso1Body_CertificateInstallationReq_isUsed a)
       (same_iso1CertificateInstallationReq (iso1Body_CertificateInstallationReq v)
       (iso1Body_CertificateInstallationReq a)) \<and>
     kept (iso1Body_CertificateInstallationRes_isUsed v) (iso1Body_CertificateInstallationRes_isUsed a)
       (same_iso1CertificateInstallationRes (iso1Body_CertificateInstallationRes v)
       (iso1Body_CertificateInstallationRes a)) \<and>
     kept (iso1Body_CertificateUpdateReq_isUsed v) (iso1Body_CertificateUpdateReq_isUsed a)
       (same_iso1CertificateUpdateReq (iso1Body_CertificateUpdateReq v) (iso1Body_CertificateUpdateReq a)) \<and>
     kept (iso1Body_CertificateUpdateRes_isUsed v) (iso1Body_CertificateUpdateRes_isUsed a)
       (same_iso1CertificateUpdateRes (iso1Body_CertificateUpdateRes v) (iso1Body_CertificateUpdateRes a)) \<and>
     kept (iso1Body_ChargeParameterDiscoveryReq_isUsed v) (iso1Body_ChargeParameterDiscoveryReq_isUsed a)
       (same_iso1ChargeParameterDiscoveryReq (iso1Body_ChargeParameterDiscoveryReq v)
       (iso1Body_ChargeParameterDiscoveryReq a)) \<and>
     kept (iso1Body_ChargeParameterDiscoveryRes_isUsed v) (iso1Body_ChargeParameterDiscoveryRes_isUsed a)
       (same_iso1ChargeParameterDiscoveryRes (iso1Body_ChargeParameterDiscoveryRes v)
       (iso1Body_ChargeParameterDiscoveryRes a)) \<and>
     kept (iso1Body_ChargingStatusReq_isUsed v) (iso1Body_ChargingStatusReq_isUsed a)
       (same_iso1ChargingStatusReq (iso1Body_ChargingStatusReq v) (iso1Body_ChargingStatusReq a)) \<and>
     kept (iso1Body_ChargingStatusRes_isUsed v) (iso1Body_ChargingStatusRes_isUsed a)
       (same_iso1ChargingStatusRes (iso1Body_ChargingStatusRes v) (iso1Body_ChargingStatusRes a)) \<and>
     kept (iso1Body_CurrentDemandReq_isUsed v) (iso1Body_CurrentDemandReq_isUsed a)
       (same_iso1CurrentDemandReq (iso1Body_CurrentDemandReq v) (iso1Body_CurrentDemandReq a)) \<and>
     kept (iso1Body_CurrentDemandRes_isUsed v) (iso1Body_CurrentDemandRes_isUsed a)
       (same_iso1CurrentDemandRes (iso1Body_CurrentDemandRes v) (iso1Body_CurrentDemandRes a)) \<and>
     kept (iso1Body_MeteringReceiptReq_isUsed v) (iso1Body_MeteringReceiptReq_isUsed a)
       (same_iso1MeteringReceiptReq (iso1Body_MeteringReceiptReq v) (iso1Body_MeteringReceiptReq a)) \<and>
     kept (iso1Body_MeteringReceiptRes_isUsed v) (iso1Body_MeteringReceiptRes_isUsed a)
       (same_iso1MeteringReceiptRes (iso1Body_MeteringReceiptRes v) (iso1Body_MeteringReceiptRes a)) \<and>
     kept (iso1Body_PaymentDetailsReq_isUsed v) (iso1Body_PaymentDetailsReq_isUsed a)
       (same_iso1PaymentDetailsReq (iso1Body_PaymentDetailsReq v) (iso1Body_PaymentDetailsReq a)) \<and>
     kept (iso1Body_PaymentDetailsRes_isUsed v) (iso1Body_PaymentDetailsRes_isUsed a)
       (same_iso1PaymentDetailsRes (iso1Body_PaymentDetailsRes v) (iso1Body_PaymentDetailsRes a)) \<and>
     kept (iso1Body_PaymentServiceSelectionReq_isUsed v) (iso1Body_PaymentServiceSelectionReq_isUsed a)
       (same_iso1PaymentServiceSelectionReq (iso1Body_PaymentServiceSelectionReq v)
       (iso1Body_PaymentServiceSelectionReq a)) \<and>
     kept (iso1Body_PaymentServiceSelectionRes_isUsed v) (iso1Body_PaymentServiceSelectionRes_isUsed a)
       (same_iso1PaymentServiceSelectionRes (iso1Body_PaymentServiceSelectionRes v)
       (iso1Body_PaymentServiceSelectionRes a)) \<and>
     kept (iso1Body_PowerDeliveryReq_isUsed v) (iso1Body_PowerDeliveryReq_isUsed a)
       (same_iso1PowerDeliveryReq (iso1Body_PowerDeliveryReq v) (iso1Body_PowerDeliveryReq a)) \<and>
     kept (iso1Body_PowerDeliveryRes_isUsed v) (iso1Body_PowerDeliveryRes_isUsed a)
       (same_iso1PowerDeliveryRes (iso1Body_PowerDeliveryRes v) (iso1Body_PowerDeliveryRes a)) \<and>
     kept (iso1Body_PreChargeReq_isUsed v) (iso1Body_PreChargeReq_isUsed a)
       (same_iso1PreChargeReq (iso1Body_PreChargeReq v) (iso1Body_PreChargeReq a)) \<and>
     kept (iso1Body_PreChargeRes_isUsed v) (iso1Body_PreChargeRes_isUsed a)
       (same_iso1PreChargeRes (iso1Body_PreChargeRes v) (iso1Body_PreChargeRes a)) \<and>
     kept (iso1Body_ServiceDetailReq_isUsed v) (iso1Body_ServiceDetailReq_isUsed a)
       (same_iso1ServiceDetailReq (iso1Body_ServiceDetailReq v) (iso1Body_ServiceDetailReq a)) \<and>
     kept (iso1Body_ServiceDetailRes_isUsed v) (iso1Body_ServiceDetailRes_isUsed a)
       (same_iso1ServiceDetailRes (iso1Body_ServiceDetailRes v) (iso1Body_ServiceDetailRes a)) \<and>
     kept (iso1Body_ServiceDiscoveryReq_isUsed v) (iso1Body_ServiceDiscoveryReq_isUsed a)
       (same_iso1ServiceDiscoveryReq (iso1Body_ServiceDiscoveryReq v) (iso1Body_ServiceDiscoveryReq a)) \<and>
     kept (iso1Body_ServiceDiscoveryRes_isUsed v) (iso1Body_ServiceDiscoveryRes_isUsed a)
       (same_iso1ServiceDiscoveryRes (iso1Body_ServiceDiscoveryRes v) (iso1Body_ServiceDiscoveryRes a)) \<and>
     kept (iso1Body_SessionSetupReq_isUsed v) (iso1Body_SessionSetupReq_isUsed a)
       (same_iso1SessionSetupReq (iso1Body_SessionSetupReq v) (iso1Body_SessionSetupReq a)) \<and>
     kept (iso1Body_SessionSetupRes_isUsed v) (iso1Body_SessionSetupRes_isUsed a)
       (same_iso1SessionSetupRes (iso1Body_SessionSetupRes v) (iso1Body_SessionSetupRes a)) \<and>
     kept (iso1Body_SessionStopReq_isUsed v) (iso1Body_SessionStopReq_isUsed a)
       (same_iso1SessionStopReq (iso1Body_SessionStopReq v) (iso1Body_SessionStopReq a)) \<and>
     kept (iso1Body_SessionStopRes_isUsed v) (iso1Body_SessionStopRes_isUsed a)
       (same_iso1SessionStopRes (iso1Body_SessionStopRes v) (iso1Body_SessionStopRes a)) \<and>
     kept (iso1Body_WeldingDetectionReq_isUsed v) (iso1Body_WeldingDetectionReq_isUsed a)
       (same_iso1WeldingDetectionReq (iso1Body_WeldingDetectionReq v) (iso1Body_WeldingDetectionReq a)) \<and>
     kept (iso1Body_WeldingDetectionRes_isUsed v) (iso1Body_WeldingDetectionRes_isUsed a)
       (same_iso1WeldingDetectionRes (iso1Body_WeldingDetectionRes v) (iso1Body_WeldingDetectionRes a))"

definition iso1Body_at :: "iso1BodyType \<Rightarrow> nat \<Rightarrow> iso1BodyType \<Rightarrow> bool" where
  "iso1Body_at v g a \<longleftrightarrow>
     iso1Body_ok v \<and>
     g \<in> {220, 3} \<and>
     iso1Body_sized a \<and>
     (if g \<in> {220} then \<not> iso1Body_AuthorizationReq_isUsed a
      else kept (iso1Body_AuthorizationReq_isUsed v) (iso1Body_AuthorizationReq_isUsed a)
        (same_iso1AuthorizationReq (iso1Body_AuthorizationReq v) (iso1Body_AuthorizationReq a))) \<and>
     (if g \<in> {220} then \<not> iso1Body_AuthorizationRes_isUsed a
      else kept (iso1Body_AuthorizationRes_isUsed v) (iso1Body_AuthorizationRes_isUsed a)
        (same_iso1AuthorizationRes (iso1Body_AuthorizationRes v) (iso1Body_AuthorizationRes a))) \<and>
     (if g \<in> {220} then \<not> iso1Body_BodyElement_isUsed a
      else kept (iso1Body_BodyElement_isUsed v) (iso1Body_BodyElement_isUsed a)
        (same_iso1BodyBase (iso1Body_BodyElement v) (iso1Body_BodyElement a))) \<and>
     (if g \<in> {220} then \<not> iso1Body_CableCheckReq_isUsed a
      else kept (iso1Body_CableCheckReq_isUsed v) (iso1Body_CableCheckReq_isUsed a)
        (same_iso1CableCheckReq (iso1Body_CableCheckReq v) (iso1Body_CableCheckReq a))) \<and>
     (if g \<in> {220} then \<not> iso1Body_CableCheckRes_isUsed a
      else kept (iso1Body_CableCheckRes_isUsed v) (iso1Body_CableCheckRes_isUsed a)
        (same_iso1CableCheckRes (iso1Body_CableCheckRes v) (iso1Body_CableCheckRes a))) \<and>
     (if g \<in> {220} then \<not> iso1Body_CertificateInstallationReq_isUsed a
      else kept (iso1Body_CertificateInstallationReq_isUsed v) (iso1Body_CertificateInstallationReq_isUsed a)
        (same_iso1CertificateInstallationReq (iso1Body_CertificateInstallationReq v)
        (iso1Body_CertificateInstallationReq a))) \<and>
     (if g \<in> {220} then \<not> iso1Body_CertificateInstallationRes_isUsed a
      else kept (iso1Body_CertificateInstallationRes_isUsed v) (iso1Body_CertificateInstallationRes_isUsed a)
        (same_iso1CertificateInstallationRes (iso1Body_CertificateInstallationRes v)
        (iso1Body_CertificateInstallationRes a))) \<and>
     (if g \<in> {220} then \<not> iso1Body_CertificateUpdateReq_isUsed a
      else kept (iso1Body_CertificateUpdateReq_isUsed v) (iso1Body_CertificateUpdateReq_isUsed a)
        (same_iso1CertificateUpdateReq (iso1Body_CertificateUpdateReq v) (iso1Body_CertificateUpdateReq a))) \<and>
     (if g \<in> {220} then \<not> iso1Body_CertificateUpdateRes_isUsed a
      else kept (iso1Body_CertificateUpdateRes_isUsed v) (iso1Body_CertificateUpdateRes_isUsed a)
        (same_iso1CertificateUpdateRes (iso1Body_CertificateUpdateRes v) (iso1Body_CertificateUpdateRes a))) \<and>
     (if g \<in> {220} then \<not> iso1Body_ChargeParameterDiscoveryReq_isUsed a
      else kept (iso1Body_ChargeParameterDiscoveryReq_isUsed v) (iso1Body_ChargeParameterDiscoveryReq_isUsed a)
        (same_iso1ChargeParameterDiscoveryReq (iso1Body_ChargeParameterDiscoveryReq v)
        (iso1Body_ChargeParameterDiscoveryReq a))) \<and>
     (if g \<in> {220} then \<not> iso1Body_ChargeParameterDiscoveryRes_isUsed a
      else kept (iso1Body_ChargeParameterDiscoveryRes_isUsed v) (iso1Body_ChargeParameterDiscoveryRes_isUsed a)
        (same_iso1ChargeParameterDiscoveryRes (iso1Body_ChargeParameterDiscoveryRes v)
        (iso1Body_ChargeParameterDiscoveryRes a))) \<and>
     (if g \<in> {220} then \<not> iso1Body_ChargingStatusReq_isUsed a
      else kept (iso1Body_ChargingStatusReq_isUsed v) (iso1Body_ChargingStatusReq_isUsed a)
        (same_iso1ChargingStatusReq (iso1Body_ChargingStatusReq v) (iso1Body_ChargingStatusReq a))) \<and>
     (if g \<in> {220} then \<not> iso1Body_ChargingStatusRes_isUsed a
      else kept (iso1Body_ChargingStatusRes_isUsed v) (iso1Body_ChargingStatusRes_isUsed a)
        (same_iso1ChargingStatusRes (iso1Body_ChargingStatusRes v) (iso1Body_ChargingStatusRes a))) \<and>
     (if g \<in> {220} then \<not> iso1Body_CurrentDemandReq_isUsed a
      else kept (iso1Body_CurrentDemandReq_isUsed v) (iso1Body_CurrentDemandReq_isUsed a)
        (same_iso1CurrentDemandReq (iso1Body_CurrentDemandReq v) (iso1Body_CurrentDemandReq a))) \<and>
     (if g \<in> {220} then \<not> iso1Body_CurrentDemandRes_isUsed a
      else kept (iso1Body_CurrentDemandRes_isUsed v) (iso1Body_CurrentDemandRes_isUsed a)
        (same_iso1CurrentDemandRes (iso1Body_CurrentDemandRes v) (iso1Body_CurrentDemandRes a))) \<and>
     (if g \<in> {220} then \<not> iso1Body_MeteringReceiptReq_isUsed a
      else kept (iso1Body_MeteringReceiptReq_isUsed v) (iso1Body_MeteringReceiptReq_isUsed a)
        (same_iso1MeteringReceiptReq (iso1Body_MeteringReceiptReq v) (iso1Body_MeteringReceiptReq a))) \<and>
     (if g \<in> {220} then \<not> iso1Body_MeteringReceiptRes_isUsed a
      else kept (iso1Body_MeteringReceiptRes_isUsed v) (iso1Body_MeteringReceiptRes_isUsed a)
        (same_iso1MeteringReceiptRes (iso1Body_MeteringReceiptRes v) (iso1Body_MeteringReceiptRes a))) \<and>
     (if g \<in> {220} then \<not> iso1Body_PaymentDetailsReq_isUsed a
      else kept (iso1Body_PaymentDetailsReq_isUsed v) (iso1Body_PaymentDetailsReq_isUsed a)
        (same_iso1PaymentDetailsReq (iso1Body_PaymentDetailsReq v) (iso1Body_PaymentDetailsReq a))) \<and>
     (if g \<in> {220} then \<not> iso1Body_PaymentDetailsRes_isUsed a
      else kept (iso1Body_PaymentDetailsRes_isUsed v) (iso1Body_PaymentDetailsRes_isUsed a)
        (same_iso1PaymentDetailsRes (iso1Body_PaymentDetailsRes v) (iso1Body_PaymentDetailsRes a))) \<and>
     (if g \<in> {220} then \<not> iso1Body_PaymentServiceSelectionReq_isUsed a
      else kept (iso1Body_PaymentServiceSelectionReq_isUsed v) (iso1Body_PaymentServiceSelectionReq_isUsed a)
        (same_iso1PaymentServiceSelectionReq (iso1Body_PaymentServiceSelectionReq v)
        (iso1Body_PaymentServiceSelectionReq a))) \<and>
     (if g \<in> {220} then \<not> iso1Body_PaymentServiceSelectionRes_isUsed a
      else kept (iso1Body_PaymentServiceSelectionRes_isUsed v) (iso1Body_PaymentServiceSelectionRes_isUsed a)
        (same_iso1PaymentServiceSelectionRes (iso1Body_PaymentServiceSelectionRes v)
        (iso1Body_PaymentServiceSelectionRes a))) \<and>
     (if g \<in> {220} then \<not> iso1Body_PowerDeliveryReq_isUsed a
      else kept (iso1Body_PowerDeliveryReq_isUsed v) (iso1Body_PowerDeliveryReq_isUsed a)
        (same_iso1PowerDeliveryReq (iso1Body_PowerDeliveryReq v) (iso1Body_PowerDeliveryReq a))) \<and>
     (if g \<in> {220} then \<not> iso1Body_PowerDeliveryRes_isUsed a
      else kept (iso1Body_PowerDeliveryRes_isUsed v) (iso1Body_PowerDeliveryRes_isUsed a)
        (same_iso1PowerDeliveryRes (iso1Body_PowerDeliveryRes v) (iso1Body_PowerDeliveryRes a))) \<and>
     (if g \<in> {220} then \<not> iso1Body_PreChargeReq_isUsed a
      else kept (iso1Body_PreChargeReq_isUsed v) (iso1Body_PreChargeReq_isUsed a)
        (same_iso1PreChargeReq (iso1Body_PreChargeReq v) (iso1Body_PreChargeReq a))) \<and>
     (if g \<in> {220} then \<not> iso1Body_PreChargeRes_isUsed a
      else kept (iso1Body_PreChargeRes_isUsed v) (iso1Body_PreChargeRes_isUsed a)
        (same_iso1PreChargeRes (iso1Body_PreChargeRes v) (iso1Body_PreChargeRes a))) \<and>
     (if g \<in> {220} then \<not> iso1Body_ServiceDetailReq_isUsed a
      else kept (iso1Body_ServiceDetailReq_isUsed v) (iso1Body_ServiceDetailReq_isUsed a)
        (same_iso1ServiceDetailReq (iso1Body_ServiceDetailReq v) (iso1Body_ServiceDetailReq a))) \<and>
     (if g \<in> {220} then \<not> iso1Body_ServiceDetailRes_isUsed a
      else kept (iso1Body_ServiceDetailRes_isUsed v) (iso1Body_ServiceDetailRes_isUsed a)
        (same_iso1ServiceDetailRes (iso1Body_ServiceDetailRes v) (iso1Body_ServiceDetailRes a))) \<and>
     (if g \<in> {220} then \<not> iso1Body_ServiceDiscoveryReq_isUsed a
      else kept (iso1Body_ServiceDiscoveryReq_isUsed v) (iso1Body_ServiceDiscoveryReq_isUsed a)
        (same_iso1ServiceDiscoveryReq (iso1Body_ServiceDiscoveryReq v) (iso1Body_ServiceDiscoveryReq a))) \<and>
     (if g \<in> {220} then \<not> iso1Body_ServiceDiscoveryRes_isUsed a
      else kept (iso1Body_ServiceDiscoveryRes_isUsed v) (iso1Body_ServiceDiscoveryRes_isUsed a)
        (same_iso1ServiceDiscoveryRes (iso1Body_ServiceDiscoveryRes v) (iso1Body_ServiceDiscoveryRes a))) \<and>
     (if g \<in> {220} then \<not> iso1Body_SessionSetupReq_isUsed a
      else kept (iso1Body_SessionSetupReq_isUsed v) (iso1Body_SessionSetupReq_isUsed a)
        (same_iso1SessionSetupReq (iso1Body_SessionSetupReq v) (iso1Body_SessionSetupReq a))) \<and>
     (if g \<in> {220} then \<not> iso1Body_SessionSetupRes_isUsed a
      else kept (iso1Body_SessionSetupRes_isUsed v) (iso1Body_SessionSetupRes_isUsed a)
        (same_iso1SessionSetupRes (iso1Body_SessionSetupRes v) (iso1Body_SessionSetupRes a))) \<and>
     (if g \<in> {220} then \<not> iso1Body_SessionStopReq_isUsed a
      else kept (iso1Body_SessionStopReq_isUsed v) (iso1Body_SessionStopReq_isUsed a)
        (same_iso1SessionStopReq (iso1Body_SessionStopReq v) (iso1Body_SessionStopReq a))) \<and>
     (if g \<in> {220} then \<not> iso1Body_SessionStopRes_isUsed a
      else kept (iso1Body_SessionStopRes_isUsed v) (iso1Body_SessionStopRes_isUsed a)
        (same_iso1SessionStopRes (iso1Body_SessionStopRes v) (iso1Body_SessionStopRes a))) \<and>
     (if g \<in> {220} then \<not> iso1Body_WeldingDetectionReq_isUsed a
      else kept (iso1Body_WeldingDetectionReq_isUsed v) (iso1Body_WeldingDetectionReq_isUsed a)
        (same_iso1WeldingDetectionReq (iso1Body_WeldingDetectionReq v) (iso1Body_WeldingDetectionReq a))) \<and>
     (if g \<in> {220} then \<not> iso1Body_WeldingDetectionRes_isUsed a
      else kept (iso1Body_WeldingDetectionRes_isUsed v) (iso1Body_WeldingDetectionRes_isUsed a)
        (same_iso1WeldingDetectionRes (iso1Body_WeldingDetectionRes v) (iso1Body_WeldingDetectionRes a)))"

definition iso1Body_bits :: "iso1BodyType \<Rightarrow> nat" where
  "iso1Body_bits v =
     (if iso1Body_AuthorizationReq_isUsed v then 598
     else if iso1Body_AuthorizationRes_isUsed v then 21
     else if iso1Body_BodyElement_isUsed v then 8
     else if iso1Body_CableCheckReq_isUsed v then 31
     else if iso1Body_CableCheckRes_isUsed v then 69
     else if iso1Body_CertificateInstallationReq_isUsed v then 9481
     else if iso1Body_CertificateInstallationRes_isUsed v then 72562
     else if iso1Body_CertificateUpdateReq_isUsed v then 35788
     else if iso1Body_CertificateUpdateRes_isUsed v then 72591
     else if iso1Body_ChargeParameterDiscoveryReq_isUsed v then 349
     else if iso1Body_ChargeParameterDiscoveryRes_isUsed v then 16240
     else if iso1Body_ChargingStatusReq_isUsed v then 8
     else if iso1Body_ChargingStatusRes_isUsed v then 1479
     else if iso1Body_CurrentDemandReq_isUsed v then 341
     else if iso1Body_CurrentDemandRes_isUsed v then 1671
     else if iso1Body_MeteringReceiptReq_isUsed v then 1578
     else if iso1Body_MeteringReceiptRes_isUsed v then 65
     else if iso1Body_PaymentDetailsReq_isUsed v then 32742
     else if iso1Body_PaymentDetailsRes_isUsed v then 255
     else if iso1Body_PaymentServiceSelectionReq_isUsed v then 959
     else if iso1Body_PaymentServiceSelectionRes_isUsed v then 16
     else if iso1Body_PowerDeliveryReq_isUsed v then 7 + iso1PowerDeliveryReq_bits (iso1Body_PowerDeliveryReq v)
     else if iso1Body_PowerDeliveryRes_isUsed v then 65
     else if iso1Body_PreChargeReq_isUsed v then 115
     else if iso1Body_PreChargeRes_isUsed v then 106
     else if iso1Body_ServiceDetailReq_isUsed v then 35
     else if iso1Body_ServiceDetailRes_isUsed v then 7 + iso1ServiceDetailRes_bits (iso1Body_ServiceDetailRes v)
     else if iso1Body_ServiceDiscoveryReq_isUsed v then 562
     else if iso1Body_ServiceDiscoveryRes_isUsed v then 7988
     else if iso1Body_SessionSetupReq_isUsed v then 83
     else if iso1Body_SessionSetupRes_isUsed v then 432
     else if iso1Body_SessionStopReq_isUsed v then 12
     else if iso1Body_SessionStopRes_isUsed v then 16
     else if iso1Body_WeldingDetectionReq_isUsed v then 31
     else if iso1Body_WeldingDetectionRes_isUsed v then 106 else 6)"

lemmas iso1Body_steps = iso1Body_enc_step_def iso1Body_enc_step_2_def
  iso1Body_dec_step_def iso1Body_dec_step_2_def

lemmas iso1Body_props = iso1Body_at_def iso1Body_sized_def same_iso1Body_def left_at_def iso1Body_bits_def

interpretation iso1Body: paired_machines "iso1Body_enc_step v" "iso1Body_dec_step j" "iso1Body_at v"
  "left_at [(220, iso1Body_bits v), (3, 1)]" "\<lambda>a. same_iso1Body v a \<and> iso1Body_sized a" for v j
proof
  fix g a assume at: "iso1Body_at v g a"
  then have "g \<in> {220, 3}" by (simp add: iso1Body_at_def)
  then show "hops (iso1Body_enc_step v) (iso1Body_dec_step j) (iso1Body_at v)
    (left_at [(220, iso1Body_bits v), (3, 1)]) (\<lambda>a. same_iso1Body v a \<and> iso1Body_sized a) g a" using at
    by - (elim insertE emptyE; (hypsubst, rule hops_by, simp (no_asm) add: iso1Body_steps del: One_nat_def,
      simp (no_asm) add: iso1Body_steps del: One_nat_def, simp (asm_lr) add: iso1Body_props del: One_nat_def split
        del: if_split, (elim conjE)?,
      ((rule walks_ifs)+)?); (frule iso1Body_ok_def [THEN iffD1], ((drule (1) known)+)?, (elim conjE)?,
        ((drule (1) known)+)?, (elim conjE)?,
      (((rule walks_shapes, simp (no_asm) del: One_nat_def, ((rule reads_intros)+)?);
      ((elim exE conjE)?,
        ((simp (no_asm_simp) add: iso1Body_props; fail) | (simp (asm_lr) add: iso1Body_props; fail) |
        (auto simp: iso1Body_props; fail)))) | (erule (1) notE; fail) |
        ((elim exE conjE)?,
        ((simp (no_asm_simp) add: iso1Body_props; fail) | (simp (asm_lr) add: iso1Body_props; fail) |
        (auto simp: iso1Body_props; fail))))))
qed

lemma reads_iso1Body [reads_intros]:
  "iso1Body_ok v \<Longrightarrow> iso1Body_sized a \<Longrightarrow>
      reads (iso1Body_bits v) (\<lambda>s. encode_iso1BodyType s v) (decode_iso1BodyType j) a
      (\<lambda>a. same_iso1Body v a \<and> iso1Body_sized a)"
  unfolding encode_iso1BodyType_def decode_iso1BodyType_def [abs_def]
  by (rule reads_start [OF iso1Body.machine_reads, of _ 220, THEN reads_mono])
      (auto simp: iso1Body_at_def iso1Body_sized_def init_iso1BodyType_def left_at_def)

interpretation iso1Body_enc: advancing_machine "iso1Body_enc_step v" "left_at [(220, 2), (3, 1)]" for v
  by unfold_locales (auto simp: iso1Body_steps dest!: advance_dests split: if_splits;
      simp add: left_at_def)

interpretation iso1Body_dec: advancing_machine "iso1Body_dec_step j" "left_at [(220, 2), (3, 1)]" for j
  by unfold_locales (auto simp: iso1Body_steps left_at_def dest!: advance_dests elim!: decode_switch_next split:
      if_splits)

subsection \<open>\<open>iso1AnonType_V2G_Message\<close>\<close>

record iso1AnonType_V2G_Message =
  iso1V2G_Message_Header :: iso1MessageHeaderType
  iso1V2G_Message_Body :: iso1BodyType

definition init_iso1AnonType_V2G_Message :: "iso1AnonType_V2G_Message \<Rightarrow> iso1AnonType_V2G_Message" where
  "init_iso1AnonType_V2G_Message a = a"

definition iso1V2G_Message_enc_step :: "iso1AnonType_V2G_Message \<Rightarrow> unit machine" where
  "iso1V2G_Message_enc_step v grammarID x s =
     (if grammarID = 256 then
        goto 257 x (encode_child 1 0 (\<lambda>s. encode_iso1MessageHeaderType s (iso1V2G_Message_Header v)) s)
      else if grammarID = 257 then
        goto 3 x (encode_child 1 0 (\<lambda>s. encode_iso1BodyType s (iso1V2G_Message_Body v)) s)
      else if grammarID = 3 then
        finish 4 x (encodeNBitUnsignedInteger s 1 0)
      else Some (EXI_ERROR_UNKOWN_GRAMMAR_ID, (False, grammarID, x), s))"

definition encode_iso1AnonType_V2G_Message :: "bitstream \<Rightarrow> iso1AnonType_V2G_Message \<Rightarrow>
    (errn \<times> bitstream) option" where
  "encode_iso1AnonType_V2G_Message s v = run_encoder (iso1V2G_Message_enc_step v) 256 () s"

definition iso1V2G_Message_dec_step :: "u32 \<Rightarrow> (dec_static \<times> iso1AnonType_V2G_Message) machine"
    where
  "iso1V2G_Message_dec_step j grammarID x s =
     (if grammarID = 256 then
        decode_switch 1
         [(0, decode_child 257 (decode_sub (decode_iso1MessageHeaderType j) iso1V2G_Message_Header
           (\<lambda>u a. a\<lparr>iso1V2G_Message_Header := u\<rparr>)))] 256 x s
      else if grammarID = 257 then
        decode_switch 1
         [(0, decode_child 3
           (decode_sub (decode_iso1BodyType j) iso1V2G_Message_Body
           (\<lambda>u a. a\<lparr>iso1V2G_Message_Body := u\<rparr>)))] 257 x s
      else if grammarID = 3 then
        decode_switch 1
         [(0, decode_end 4)] 3 x s
      else Some (EXI_ERROR_UNKOWN_GRAMMAR_ID, (False, grammarID, x), s))"

definition decode_iso1AnonType_V2G_Message :: "u32 \<Rightarrow> iso1AnonType_V2G_Message decoder" where
  "decode_iso1AnonType_V2G_Message j x s = grammar_loop (iso1V2G_Message_dec_step j) 256
      (fst x, init_iso1AnonType_V2G_Message (snd x)) s"

definition iso1V2G_Message_ok :: "iso1AnonType_V2G_Message \<Rightarrow> bool" where
  "iso1V2G_Message_ok v \<longleftrightarrow>
     iso1MessageHeader_ok (iso1V2G_Message_Header v) \<and>
     iso1Body_ok (iso1V2G_Message_Body v)"

definition iso1V2G_Message_sized :: "iso1AnonType_V2G_Message \<Rightarrow> bool" where
  "iso1V2G_Message_sized a \<longleftrightarrow>
     iso1MessageHeader_sized (iso1V2G_Message_Header a) \<and>
     iso1Body_sized (iso1V2G_Message_Body a)"

definition same_iso1V2G_Message :: "iso1AnonType_V2G_Message \<Rightarrow> iso1AnonType_V2G_Message \<Rightarrow>
    bool" where
  "same_iso1V2G_Message v a \<longleftrightarrow>
     same_iso1MessageHeader (iso1V2G_Message_Header v) (iso1V2G_Message_Header a) \<and>
     same_iso1Body (iso1V2G_Message_Body v) (iso1V2G_Message_Body a)"

definition iso1V2G_Message_at :: "iso1AnonType_V2G_Message \<Rightarrow> nat \<Rightarrow> iso1AnonType_V2G_Message
    \<Rightarrow> bool" where
  "iso1V2G_Message_at v g a \<longleftrightarrow>
     iso1V2G_Message_ok v \<and>
     g \<in> {256, 257, 3} \<and>
     iso1V2G_Message_sized a \<and>
     (g \<notin> {256} \<longrightarrow> same_iso1MessageHeader (iso1V2G_Message_Header v) (iso1V2G_Message_Header a))
       \<and>
     (g \<notin> {256, 257} \<longrightarrow> same_iso1Body (iso1V2G_Message_Body v) (iso1V2G_Message_Body a))"

definition iso1V2G_Message_bits :: "iso1AnonType_V2G_Message \<Rightarrow> nat" where
  "iso1V2G_Message_bits v =
     (1 + iso1MessageHeader_bits (iso1V2G_Message_Header v) + (2 + iso1Body_bits (iso1V2G_Message_Body v)))"

lemmas iso1V2G_Message_steps = iso1V2G_Message_enc_step_def
  iso1V2G_Message_dec_step_def

lemmas iso1V2G_Message_props = iso1V2G_Message_at_def iso1V2G_Message_sized_def same_iso1V2G_Message_def left_at_def
    iso1V2G_Message_bits_def

interpretation iso1V2G_Message: paired_machines "iso1V2G_Message_enc_step v" "iso1V2G_Message_dec_step j"
    "iso1V2G_Message_at v"
  "left_at [(256, iso1V2G_Message_bits v), (257, 2 + iso1Body_bits (iso1V2G_Message_Body v)), (3, 1)]" "\<lambda>a.
      same_iso1V2G_Message v a \<and> iso1V2G_Message_sized a" for v j
proof
  fix g a assume at: "iso1V2G_Message_at v g a"
  then have "g \<in> {256, 257, 3}" by (simp add: iso1V2G_Message_at_def)
  then show "hops (iso1V2G_Message_enc_step v) (iso1V2G_Message_dec_step j) (iso1V2G_Message_at v)
    (left_at [(256, iso1V2G_Message_bits v), (257, 2 + iso1Body_bits (iso1V2G_Message_Body v)), (3, 1)])
      (\<lambda>a. same_iso1V2G_Message v a \<and> iso1V2G_Message_sized a) g a" using at
    by - (elim insertE emptyE; (hypsubst, rule hops_by, simp (no_asm) add: iso1V2G_Message_steps del: One_nat_def,
      simp (no_asm) add: iso1V2G_Message_steps del: One_nat_def, simp (asm_lr) add: iso1V2G_Message_props del:
        One_nat_def split del: if_split, (elim conjE)?,
      ((rule walks_ifs)+)?); (frule iso1V2G_Message_ok_def [THEN iffD1], ((drule (1) known)+)?, (elim conjE)?,
        ((drule (1) known)+)?, (elim conjE)?,
      (((rule walks_shapes, simp (no_asm) del: One_nat_def, ((rule reads_intros)+)?);
      ((elim exE conjE)?,
        ((simp (no_asm_simp) add: iso1V2G_Message_props; fail) | (simp (asm_lr) add: iso1V2G_Message_props; fail) |
        (auto simp: iso1V2G_Message_props; fail)))) | (erule (1) notE; fail) |
        ((elim exE conjE)?,
        ((simp (no_asm_simp) add: iso1V2G_Message_props; fail) | (simp (asm_lr) add: iso1V2G_Message_props; fail) |
        (auto simp: iso1V2G_Message_props; fail))))))
qed

lemma reads_iso1V2G_Message [reads_intros]:
  "iso1V2G_Message_ok v \<Longrightarrow> iso1V2G_Message_sized a \<Longrightarrow>
      reads (iso1V2G_Message_bits v) (\<lambda>s. encode_iso1AnonType_V2G_Message s v)
      (decode_iso1AnonType_V2G_Message j) a (\<lambda>a. same_iso1V2G_Message v a \<and> iso1V2G_Message_sized a)"
  unfolding encode_iso1AnonType_V2G_Message_def decode_iso1AnonType_V2G_Message_def [abs_def]
  by (rule reads_start [OF iso1V2G_Message.machine_reads, of _ 256, THEN reads_mono])
      (auto simp: iso1V2G_Message_at_def iso1V2G_Message_sized_def init_iso1AnonType_V2G_Message_def left_at_def)

interpretation iso1V2G_Message_enc: advancing_machine "iso1V2G_Message_enc_step v" "left_at
    [(256, 3), (257, 2), (3, 1)]" for v
  by unfold_locales (auto simp: iso1V2G_Message_steps dest!: advance_dests split: if_splits;
      simp add: left_at_def)

interpretation iso1V2G_Message_dec: advancing_machine "iso1V2G_Message_dec_step j" "left_at
    [(256, 3), (257, 2), (3, 1)]" for j
  by unfold_locales (auto simp: iso1V2G_Message_steps dest!: advance_dests elim!: decode_switch_next
      split: if_splits;
      simp add: left_at_def)

end
