(* ===== verification/Iso1Zero.thy ===== *)
theory Iso1Zero
  imports Iso1Message
begin

section \<open>ISO 15118 codec: zeroed structs\<close>

text \<open>
  Structs whose memory is all zeros, with their arrays at the declared sizes: what static storage holds
  before anything is written to it. A decoder can fill them.
\<close>

definition zero_iso1Notification :: iso1NotificationType where
  "zero_iso1Notification = \<lparr>iso1Notification_FaultCode = 0, iso1Notification_FaultMsg_characters = replicate 65
      0, iso1Notification_FaultMsg_charactersLen = 0, iso1Notification_FaultMsg_isUsed = False\<rparr>"

lemma sized_zero_iso1Notification [simp]: "iso1Notification_sized zero_iso1Notification"
  by (simp add: iso1Notification_sized_def zero_iso1Notification_def)

definition zero_iso1PhysicalValue :: iso1PhysicalValueType where
  "zero_iso1PhysicalValue = \<lparr>iso1PhysicalValue_Multiplier = 0, iso1PhysicalValue_Unit = 0,
      iso1PhysicalValue_Value = 0\<rparr>"

definition zero_iso1DC_EVStatus :: iso1DC_EVStatusType where
  "zero_iso1DC_EVStatus = \<lparr>iso1DC_EVStatus_EVReady = 0, iso1DC_EVStatus_EVErrorCode = 0,
      iso1DC_EVStatus_EVRESSSOC = 0\<rparr>"

definition zero_iso1EVStatus :: iso1EVStatusType where
  "zero_iso1EVStatus = \<lparr>iso1EVStatus_noContent = 0\<rparr>"

definition zero_iso1EVSEStatus :: iso1EVSEStatusType where
  "zero_iso1EVSEStatus = \<lparr>iso1EVSEStatus_NotificationMaxDelay = 0, iso1EVSEStatus_EVSENotification = 0\<rparr>"

definition zero_iso1DC_EVSEStatus :: iso1DC_EVSEStatusType where
  "zero_iso1DC_EVSEStatus = \<lparr>iso1DC_EVSEStatus_NotificationMaxDelay = 0,
      iso1DC_EVSEStatus_EVSENotification = 0, iso1DC_EVSEStatus_EVSEIsolationStatus = 0,
      iso1DC_EVSEStatus_EVSEIsolationStatus_isUsed = False, iso1DC_EVSEStatus_EVSEStatusCode = 0\<rparr>"

definition zero_iso1AC_EVSEStatus :: iso1AC_EVSEStatusType where
  "zero_iso1AC_EVSEStatus = \<lparr>iso1AC_EVSEStatus_NotificationMaxDelay = 0,
      iso1AC_EVSEStatus_EVSENotification = 0, iso1AC_EVSEStatus_RCD = 0\<rparr>"

definition zero_iso1EVPowerDeliveryParameter :: iso1EVPowerDeliveryParameterType where
  "zero_iso1EVPowerDeliveryParameter = \<lparr>iso1EVPowerDeliveryParameter_noContent = 0\<rparr>"

definition zero_iso1DC_EVPowerDeliveryParameter :: iso1DC_EVPowerDeliveryParameterType where
  "zero_iso1DC_EVPowerDeliveryParameter = \<lparr>iso1DC_EVPowerDeliveryParameter_DC_EVStatus = zero_iso1DC_EVStatus,
      iso1DC_EVPowerDeliveryParameter_BulkChargingComplete = 0,
      iso1DC_EVPowerDeliveryParameter_BulkChargingComplete_isUsed = False,
      iso1DC_EVPowerDeliveryParameter_ChargingComplete = 0\<rparr>"

definition zero_iso1Interval :: iso1IntervalType where
  "zero_iso1Interval = \<lparr>iso1Interval_noContent = 0\<rparr>"

definition zero_iso1RelativeTimeInterval :: iso1RelativeTimeIntervalType where
  "zero_iso1RelativeTimeInterval = \<lparr>iso1RelativeTimeInterval_start = 0, iso1RelativeTimeInterval_duration = 0,
      iso1RelativeTimeInterval_duration_isUsed = False\<rparr>"

definition zero_iso1EMAID :: iso1EMAIDType where
  "zero_iso1EMAID = \<lparr>iso1EMAID_Id_characters = replicate 51 0, iso1EMAID_Id_charactersLen = 0,
      iso1EMAID_CONTENT_characters = replicate 51 0, iso1EMAID_CONTENT_charactersLen = 0\<rparr>"

lemma sized_zero_iso1EMAID [simp]: "iso1EMAID_sized zero_iso1EMAID"
  by (simp add: iso1EMAID_sized_def zero_iso1EMAID_def)

definition zero_iso1MeterInfo :: iso1MeterInfoType where
  "zero_iso1MeterInfo = \<lparr>iso1MeterInfo_MeterID_characters = replicate 33 0,
      iso1MeterInfo_MeterID_charactersLen = 0, iso1MeterInfo_MeterReading = 0,
      iso1MeterInfo_MeterReading_isUsed = False, iso1MeterInfo_SigMeterReading_bytes = replicate 64 0,
      iso1MeterInfo_SigMeterReading_bytesLen = 0, iso1MeterInfo_SigMeterReading_isUsed = False,
      iso1MeterInfo_MeterStatus = 0, iso1MeterInfo_MeterStatus_isUsed = False, iso1MeterInfo_TMeter = 0,
      iso1MeterInfo_TMeter_isUsed = False\<rparr>"

lemma sized_zero_iso1MeterInfo [simp]: "iso1MeterInfo_sized zero_iso1MeterInfo"
  by (simp add: iso1MeterInfo_sized_def zero_iso1MeterInfo_def)

definition zero_iso1Entry :: iso1EntryType where
  "zero_iso1Entry = \<lparr>iso1Entry_TimeInterval = zero_iso1Interval,
      iso1Entry_RelativeTimeInterval = zero_iso1RelativeTimeInterval, iso1Entry_TimeInterval_isUsed = False,
      iso1Entry_RelativeTimeInterval_isUsed = False\<rparr>"

definition zero_iso1CanonicalizationMethod :: iso1CanonicalizationMethodType where
  "zero_iso1CanonicalizationMethod = \<lparr>iso1CanonicalizationMethod_Algorithm_characters = replicate 66 0,
      iso1CanonicalizationMethod_Algorithm_charactersLen = 0, iso1CanonicalizationMethod_ANY_characters = replicate 51
      0, iso1CanonicalizationMethod_ANY_charactersLen = 0, iso1CanonicalizationMethod_ANY_isUsed = False\<rparr>"

lemma sized_zero_iso1CanonicalizationMethod [simp]: "iso1CanonicalizationMethod_sized zero_iso1CanonicalizationMethod"
  by (simp add: iso1CanonicalizationMethod_sized_def zero_iso1CanonicalizationMethod_def)

definition zero_iso1SignatureMethod :: iso1SignatureMethodType where
  "zero_iso1SignatureMethod = \<lparr>iso1SignatureMethod_Algorithm_characters = replicate 66 0,
      iso1SignatureMethod_Algorithm_charactersLen = 0, iso1SignatureMethod_HMACOutputLength = 0,
      iso1SignatureMethod_HMACOutputLength_isUsed = False, iso1SignatureMethod_ANY_characters = replicate 51 0,
      iso1SignatureMethod_ANY_charactersLen = 0, iso1SignatureMethod_ANY_isUsed = False\<rparr>"

lemma sized_zero_iso1SignatureMethod [simp]: "iso1SignatureMethod_sized zero_iso1SignatureMethod"
  by (simp add: iso1SignatureMethod_sized_def zero_iso1SignatureMethod_def)

definition zero_iso1DigestMethod :: iso1DigestMethodType where
  "zero_iso1DigestMethod = \<lparr>iso1DigestMethod_Algorithm_characters = replicate 66 0,
      iso1DigestMethod_Algorithm_charactersLen = 0, iso1DigestMethod_ANY_characters = replicate 51 0,
      iso1DigestMethod_ANY_charactersLen = 0, iso1DigestMethod_ANY_isUsed = False\<rparr>"

lemma sized_zero_iso1DigestMethod [simp]: "iso1DigestMethod_sized zero_iso1DigestMethod"
  by (simp add: iso1DigestMethod_sized_def zero_iso1DigestMethod_def)

definition zero_iso1Transform :: iso1TransformType where
  "zero_iso1Transform = \<lparr>iso1Transform_Algorithm_characters = replicate 66 0,
      iso1Transform_Algorithm_charactersLen = 0, iso1Transform_ANY_characters = replicate 51 0,
      iso1Transform_ANY_charactersLen = 0, iso1Transform_ANY_isUsed = False, iso1Transform_XPath_array = replicate 1
      (replicate 51 0, 0), iso1Transform_XPath_arrayLen = 0\<rparr>"

lemma sized_zero_iso1Transform [simp]: "iso1Transform_sized zero_iso1Transform"
  by (simp add: iso1Transform_sized_def zero_iso1Transform_def list_all_iff data_sized_def)

definition zero_iso1Transforms :: iso1TransformsType where
  "zero_iso1Transforms = \<lparr>iso1Transforms_Transform_array = replicate 1 zero_iso1Transform,
      iso1Transforms_Transform_arrayLen = 0\<rparr>"

lemma sized_zero_iso1Transforms [simp]: "iso1Transforms_sized zero_iso1Transforms"
  by (simp add: iso1Transforms_sized_def zero_iso1Transforms_def list_all_iff data_sized_def)

definition zero_iso1Reference :: iso1ReferenceType where
  "zero_iso1Reference = \<lparr>iso1Reference_Id_characters = replicate 51 0, iso1Reference_Id_charactersLen = 0,
      iso1Reference_Id_isUsed = False, iso1Reference_URI_characters = replicate 51 0,
      iso1Reference_URI_charactersLen = 0, iso1Reference_URI_isUsed = False, iso1Reference_Type_characters = replicate
      51 0, iso1Reference_Type_charactersLen = 0, iso1Reference_Type_isUsed = False,
      iso1Reference_Transforms = zero_iso1Transforms, iso1Reference_Transforms_isUsed = False,
      iso1Reference_DigestMethod = zero_iso1DigestMethod, iso1Reference_DigestValue_bytes = replicate 350 0,
      iso1Reference_DigestValue_bytesLen = 0\<rparr>"

lemma sized_zero_iso1Reference [simp]: "iso1Reference_sized zero_iso1Reference"
  by (simp add: iso1Reference_sized_def zero_iso1Reference_def)

definition zero_iso1SignedInfo :: iso1SignedInfoType where
  "zero_iso1SignedInfo = \<lparr>iso1SignedInfo_Id_characters = replicate 51 0, iso1SignedInfo_Id_charactersLen = 0,
      iso1SignedInfo_Id_isUsed = False, iso1SignedInfo_CanonicalizationMethod = zero_iso1CanonicalizationMethod,
      iso1SignedInfo_SignatureMethod = zero_iso1SignatureMethod, iso1SignedInfo_Reference_array = replicate 1
      zero_iso1Reference, iso1SignedInfo_Reference_arrayLen = 0\<rparr>"

lemma sized_zero_iso1SignedInfo [simp]: "iso1SignedInfo_sized zero_iso1SignedInfo"
  by (simp add: iso1SignedInfo_sized_def zero_iso1SignedInfo_def list_all_iff data_sized_def)

definition zero_iso1SignatureValue :: iso1SignatureValueType where
  "zero_iso1SignatureValue = \<lparr>iso1SignatureValue_Id_characters = replicate 51 0,
      iso1SignatureValue_Id_charactersLen = 0, iso1SignatureValue_Id_isUsed = False,
      iso1SignatureValue_CONTENT_bytes = replicate 350 0, iso1SignatureValue_CONTENT_bytesLen = 0\<rparr>"

lemma sized_zero_iso1SignatureValue [simp]: "iso1SignatureValue_sized zero_iso1SignatureValue"
  by (simp add: iso1SignatureValue_sized_def zero_iso1SignatureValue_def)

definition zero_iso1Object :: iso1ObjectType where
  "zero_iso1Object = \<lparr>iso1Object_Id_characters = replicate 51 0, iso1Object_Id_charactersLen = 0,
      iso1Object_Id_isUsed = False, iso1Object_MimeType_characters = replicate 51 0,
      iso1Object_MimeType_charactersLen = 0, iso1Object_MimeType_isUsed = False,
      iso1Object_Encoding_characters = replicate 51 0, iso1Object_Encoding_charactersLen = 0,
      iso1Object_Encoding_isUsed = False, iso1Object_ANY_characters = replicate 51 0,
      iso1Object_ANY_charactersLen = 0, iso1Object_ANY_isUsed = False\<rparr>"

lemma sized_zero_iso1Object [simp]: "iso1Object_sized zero_iso1Object"
  by (simp add: iso1Object_sized_def zero_iso1Object_def)

definition zero_iso1Manifest :: iso1ManifestType where
  "zero_iso1Manifest = \<lparr>iso1Manifest_Id_characters = replicate 51 0, iso1Manifest_Id_charactersLen = 0,
      iso1Manifest_Id_isUsed = False, iso1Manifest_Reference_array = replicate 1 zero_iso1Reference,
      iso1Manifest_Reference_arrayLen = 0\<rparr>"

lemma sized_zero_iso1Manifest [simp]: "iso1Manifest_sized zero_iso1Manifest"
  by (simp add: iso1Manifest_sized_def zero_iso1Manifest_def list_all_iff data_sized_def)

definition zero_iso1DSAKeyValue :: iso1DSAKeyValueType where
  "zero_iso1DSAKeyValue = \<lparr>iso1DSAKeyValue_P_bytes = replicate 350 0, iso1DSAKeyValue_P_bytesLen = 0,
      iso1DSAKeyValue_P_isUsed = False, iso1DSAKeyValue_Q_bytes = replicate 350 0, iso1DSAKeyValue_Q_bytesLen = 0,
      iso1DSAKeyValue_Q_isUsed = False, iso1DSAKeyValue_G_bytes = replicate 350 0, iso1DSAKeyValue_G_bytesLen = 0,
      iso1DSAKeyValue_G_isUsed = False, iso1DSAKeyValue_Y_bytes = replicate 350 0, iso1DSAKeyValue_Y_bytesLen = 0,
      iso1DSAKeyValue_J_bytes = replicate 350 0, iso1DSAKeyValue_J_bytesLen = 0, iso1DSAKeyValue_J_isUsed = False,
      iso1DSAKeyValue_Seed_bytes = replicate 350 0, iso1DSAKeyValue_Seed_bytesLen = 0,
      iso1DSAKeyValue_Seed_isUsed = False, iso1DSAKeyValue_PgenCounter_bytes = replicate 350 0,
      iso1DSAKeyValue_PgenCounter_bytesLen = 0, iso1DSAKeyValue_PgenCounter_isUsed = False\<rparr>"

lemma sized_zero_iso1DSAKeyValue [simp]: "iso1DSAKeyValue_sized zero_iso1DSAKeyValue"
  by (simp add: iso1DSAKeyValue_sized_def zero_iso1DSAKeyValue_def)

definition zero_iso1RSAKeyValue :: iso1RSAKeyValueType where
  "zero_iso1RSAKeyValue = \<lparr>iso1RSAKeyValue_Modulus_bytes = replicate 350 0,
      iso1RSAKeyValue_Modulus_bytesLen = 0, iso1RSAKeyValue_Exponent_bytes = replicate 350 0,
      iso1RSAKeyValue_Exponent_bytesLen = 0\<rparr>"

lemma sized_zero_iso1RSAKeyValue [simp]: "iso1RSAKeyValue_sized zero_iso1RSAKeyValue"
  by (simp add: iso1RSAKeyValue_sized_def zero_iso1RSAKeyValue_def)

definition zero_iso1KeyValue :: iso1KeyValueType where
  "zero_iso1KeyValue = \<lparr>iso1KeyValue_DSAKeyValue = zero_iso1DSAKeyValue,
      iso1KeyValue_DSAKeyValue_isUsed = False, iso1KeyValue_RSAKeyValue = zero_iso1RSAKeyValue,
      iso1KeyValue_RSAKeyValue_isUsed = False, iso1KeyValue_ANY_characters = replicate 51 0,
      iso1KeyValue_ANY_charactersLen = 0, iso1KeyValue_ANY_isUsed = False\<rparr>"

lemma sized_zero_iso1KeyValue [simp]: "iso1KeyValue_sized zero_iso1KeyValue"
  by (simp add: iso1KeyValue_sized_def zero_iso1KeyValue_def)

definition zero_iso1RetrievalMethod :: iso1RetrievalMethodType where
  "zero_iso1RetrievalMethod = \<lparr>iso1RetrievalMethod_URI_characters = replicate 51 0,
      iso1RetrievalMethod_URI_charactersLen = 0, iso1RetrievalMethod_URI_isUsed = False,
      iso1RetrievalMethod_Type_characters = replicate 51 0, iso1RetrievalMethod_Type_charactersLen = 0,
      iso1RetrievalMethod_Type_isUsed = False, iso1RetrievalMethod_Transforms = zero_iso1Transforms,
      iso1RetrievalMethod_Transforms_isUsed = False\<rparr>"

lemma sized_zero_iso1RetrievalMethod [simp]: "iso1RetrievalMethod_sized zero_iso1RetrievalMethod"
  by (simp add: iso1RetrievalMethod_sized_def zero_iso1RetrievalMethod_def)

definition zero_iso1X509IssuerSerial :: iso1X509IssuerSerialType where
  "zero_iso1X509IssuerSerial = \<lparr>iso1X509IssuerSerial_X509IssuerName_characters = replicate 51 0,
      iso1X509IssuerSerial_X509IssuerName_charactersLen = 0, iso1X509IssuerSerial_X509SerialNumber = 0\<rparr>"

lemma sized_zero_iso1X509IssuerSerial [simp]: "iso1X509IssuerSerial_sized zero_iso1X509IssuerSerial"
  by (simp add: iso1X509IssuerSerial_sized_def zero_iso1X509IssuerSerial_def)

definition zero_iso1X509Data :: iso1X509DataType where
  "zero_iso1X509Data = \<lparr>iso1X509Data_X509IssuerSerial_array = replicate 1 zero_iso1X509IssuerSerial,
      iso1X509Data_X509IssuerSerial_arrayLen = 0, iso1X509Data_X509SKI_array = replicate 1 (replicate 350 0, 0),
      iso1X509Data_X509SKI_arrayLen = 0, iso1X509Data_X509SubjectName_array = replicate 1 (replicate 51 0, 0),
      iso1X509Data_X509SubjectName_arrayLen = 0, iso1X509Data_X509Certificate_array = replicate 1
      (replicate 350 0, 0), iso1X509Data_X509Certificate_arrayLen = 0, iso1X509Data_X509CRL_array = replicate 1
      (replicate 350 0, 0), iso1X509Data_X509CRL_arrayLen = 0, iso1X509Data_ANY_characters = replicate 51 0,
      iso1X509Data_ANY_charactersLen = 0, iso1X509Data_ANY_isUsed = False\<rparr>"

lemma sized_zero_iso1X509Data [simp]: "iso1X509Data_sized zero_iso1X509Data"
  by (simp add: iso1X509Data_sized_def zero_iso1X509Data_def list_all_iff data_sized_def)

definition zero_iso1PGPData :: iso1PGPDataType where
  "zero_iso1PGPData = \<lparr>iso1PGPData_PGPKeyID_bytes = replicate 350 0, iso1PGPData_PGPKeyID_bytesLen = 0,
      iso1PGPData_PGPKeyID_isUsed = False, iso1PGPData_PGPKeyPacket_bytes = replicate 350 0,
      iso1PGPData_PGPKeyPacket_bytesLen = 0, iso1PGPData_PGPKeyPacket_isUsed = False,
      iso1PGPData_ANY_characters = replicate 51 0, iso1PGPData_ANY_charactersLen = 0,
      iso1PGPData_ANY_isUsed = False\<rparr>"

lemma sized_zero_iso1PGPData [simp]: "iso1PGPData_sized zero_iso1PGPData"
  by (simp add: iso1PGPData_sized_def zero_iso1PGPData_def)

definition zero_iso1SPKIData :: iso1SPKIDataType where
  "zero_iso1SPKIData = \<lparr>iso1SPKIData_SPKISexp_array = replicate 1 (replicate 350 0, 0),
      iso1SPKIData_SPKISexp_arrayLen = 0, iso1SPKIData_ANY_characters = replicate 51 0,
      iso1SPKIData_ANY_charactersLen = 0, iso1SPKIData_ANY_isUsed = False\<rparr>"

lemma sized_zero_iso1SPKIData [simp]: "iso1SPKIData_sized zero_iso1SPKIData"
  by (simp add: iso1SPKIData_sized_def zero_iso1SPKIData_def list_all_iff data_sized_def)

definition zero_iso1KeyInfo :: iso1KeyInfoType where
  "zero_iso1KeyInfo = \<lparr>iso1KeyInfo_Id_characters = replicate 51 0, iso1KeyInfo_Id_charactersLen = 0,
      iso1KeyInfo_Id_isUsed = False, iso1KeyInfo_KeyName_array = replicate 1 (replicate 51 0, 0),
      iso1KeyInfo_KeyName_arrayLen = 0, iso1KeyInfo_KeyValue_array = replicate 1 zero_iso1KeyValue,
      iso1KeyInfo_KeyValue_arrayLen = 0, iso1KeyInfo_RetrievalMethod_array = replicate 1 zero_iso1RetrievalMethod,
      iso1KeyInfo_RetrievalMethod_arrayLen = 0, iso1KeyInfo_X509Data_array = replicate 1 zero_iso1X509Data,
      iso1KeyInfo_X509Data_arrayLen = 0, iso1KeyInfo_PGPData_array = replicate 1 zero_iso1PGPData,
      iso1KeyInfo_PGPData_arrayLen = 0, iso1KeyInfo_SPKIData_array = replicate 1 zero_iso1SPKIData,
      iso1KeyInfo_SPKIData_arrayLen = 0, iso1KeyInfo_MgmtData_array = replicate 1 (replicate 51 0, 0),
      iso1KeyInfo_MgmtData_arrayLen = 0, iso1KeyInfo_ANY_characters = replicate 51 0,
      iso1KeyInfo_ANY_charactersLen = 0, iso1KeyInfo_ANY_isUsed = False\<rparr>"

lemma sized_zero_iso1KeyInfo [simp]: "iso1KeyInfo_sized zero_iso1KeyInfo"
  by (simp add: iso1KeyInfo_sized_def zero_iso1KeyInfo_def list_all_iff data_sized_def)

definition zero_iso1Signature :: iso1SignatureType where
  "zero_iso1Signature = \<lparr>iso1Signature_Id_characters = replicate 51 0, iso1Signature_Id_charactersLen = 0,
      iso1Signature_Id_isUsed = False, iso1Signature_SignedInfo = zero_iso1SignedInfo,
      iso1Signature_SignatureValue = zero_iso1SignatureValue, iso1Signature_KeyInfo = zero_iso1KeyInfo,
      iso1Signature_KeyInfo_isUsed = False, iso1Signature_Object_array = replicate 1 zero_iso1Object,
      iso1Signature_Object_arrayLen = 0\<rparr>"

lemma sized_zero_iso1Signature [simp]: "iso1Signature_sized zero_iso1Signature"
  by (simp add: iso1Signature_sized_def zero_iso1Signature_def list_all_iff data_sized_def)

definition zero_iso1MessageHeader :: iso1MessageHeaderType where
  "zero_iso1MessageHeader = \<lparr>iso1MessageHeader_SessionID_bytes = replicate 8 0,
      iso1MessageHeader_SessionID_bytesLen = 0, iso1MessageHeader_Notification = zero_iso1Notification,
      iso1MessageHeader_Notification_isUsed = False, iso1MessageHeader_Signature = zero_iso1Signature,
      iso1MessageHeader_Signature_isUsed = False\<rparr>"

lemma sized_zero_iso1MessageHeader [simp]: "iso1MessageHeader_sized zero_iso1MessageHeader"
  by (simp add: iso1MessageHeader_sized_def zero_iso1MessageHeader_def)

definition zero_iso1SessionSetupReq :: iso1SessionSetupReqType where
  "zero_iso1SessionSetupReq = \<lparr>iso1SessionSetupReq_EVCCID_bytes = replicate 6 0,
      iso1SessionSetupReq_EVCCID_bytesLen = 0\<rparr>"

lemma sized_zero_iso1SessionSetupReq [simp]: "iso1SessionSetupReq_sized zero_iso1SessionSetupReq"
  by (simp add: iso1SessionSetupReq_sized_def zero_iso1SessionSetupReq_def)

definition zero_iso1SessionSetupRes :: iso1SessionSetupResType where
  "zero_iso1SessionSetupRes = \<lparr>iso1SessionSetupRes_ResponseCode = 0,
      iso1SessionSetupRes_EVSEID_characters = replicate 38 0, iso1SessionSetupRes_EVSEID_charactersLen = 0,
      iso1SessionSetupRes_EVSETimeStamp = 0, iso1SessionSetupRes_EVSETimeStamp_isUsed = False\<rparr>"

lemma sized_zero_iso1SessionSetupRes [simp]: "iso1SessionSetupRes_sized zero_iso1SessionSetupRes"
  by (simp add: iso1SessionSetupRes_sized_def zero_iso1SessionSetupRes_def)

definition zero_iso1ServiceDiscoveryReq :: iso1ServiceDiscoveryReqType where
  "zero_iso1ServiceDiscoveryReq = \<lparr>iso1ServiceDiscoveryReq_ServiceScope_characters = replicate 65 0,
      iso1ServiceDiscoveryReq_ServiceScope_charactersLen = 0, iso1ServiceDiscoveryReq_ServiceScope_isUsed = False,
      iso1ServiceDiscoveryReq_ServiceCategory = 0, iso1ServiceDiscoveryReq_ServiceCategory_isUsed = False\<rparr>"

lemma sized_zero_iso1ServiceDiscoveryReq [simp]: "iso1ServiceDiscoveryReq_sized zero_iso1ServiceDiscoveryReq"
  by (simp add: iso1ServiceDiscoveryReq_sized_def zero_iso1ServiceDiscoveryReq_def)

definition zero_iso1PaymentOptionList :: iso1PaymentOptionListType where
  "zero_iso1PaymentOptionList = \<lparr>iso1PaymentOptionList_PaymentOption_array = replicate 2 0,
      iso1PaymentOptionList_PaymentOption_arrayLen = 0\<rparr>"

lemma sized_zero_iso1PaymentOptionList [simp]: "iso1PaymentOptionList_sized zero_iso1PaymentOptionList"
  by (simp add: iso1PaymentOptionList_sized_def zero_iso1PaymentOptionList_def list_all_iff data_sized_def)

definition zero_iso1SupportedEnergyTransferMode :: iso1SupportedEnergyTransferModeType where
  "zero_iso1SupportedEnergyTransferMode = \<lparr>iso1SupportedEnergyTransferMode_EnergyTransferMode_array = replicate
      6 0, iso1SupportedEnergyTransferMode_EnergyTransferMode_arrayLen = 0\<rparr>"

lemma sized_zero_iso1SupportedEnergyTransferMode [simp]: "iso1SupportedEnergyTransferMode_sized
    zero_iso1SupportedEnergyTransferMode"
  by (simp add: iso1SupportedEnergyTransferMode_sized_def zero_iso1SupportedEnergyTransferMode_def list_all_iff
      data_sized_def)

definition zero_iso1ChargeService :: iso1ChargeServiceType where
  "zero_iso1ChargeService = \<lparr>iso1ChargeService_ServiceID = 0,
      iso1ChargeService_ServiceName_characters = replicate 33 0, iso1ChargeService_ServiceName_charactersLen = 0,
      iso1ChargeService_ServiceName_isUsed = False, iso1ChargeService_ServiceCategory = 0,
      iso1ChargeService_ServiceScope_characters = replicate 65 0, iso1ChargeService_ServiceScope_charactersLen = 0,
      iso1ChargeService_ServiceScope_isUsed = False, iso1ChargeService_FreeService = 0,
      iso1ChargeService_SupportedEnergyTransferMode = zero_iso1SupportedEnergyTransferMode\<rparr>"

lemma sized_zero_iso1ChargeService [simp]: "iso1ChargeService_sized zero_iso1ChargeService"
  by (simp add: iso1ChargeService_sized_def zero_iso1ChargeService_def)

definition zero_iso1Service :: iso1ServiceType where
  "zero_iso1Service = \<lparr>iso1Service_ServiceID = 0, iso1Service_ServiceName_characters = replicate 33 0,
      iso1Service_ServiceName_charactersLen = 0, iso1Service_ServiceName_isUsed = False,
      iso1Service_ServiceCategory = 0, iso1Service_ServiceScope_characters = replicate 65 0,
      iso1Service_ServiceScope_charactersLen = 0, iso1Service_ServiceScope_isUsed = False,
      iso1Service_FreeService = 0\<rparr>"

lemma sized_zero_iso1Service [simp]: "iso1Service_sized zero_iso1Service"
  by (simp add: iso1Service_sized_def zero_iso1Service_def)

definition zero_iso1ServiceList :: iso1ServiceListType where
  "zero_iso1ServiceList = \<lparr>iso1ServiceList_Service_array = replicate 8 zero_iso1Service,
      iso1ServiceList_Service_arrayLen = 0\<rparr>"

lemma sized_zero_iso1ServiceList [simp]: "iso1ServiceList_sized zero_iso1ServiceList"
  by (simp add: iso1ServiceList_sized_def zero_iso1ServiceList_def list_all_iff data_sized_def)

definition zero_iso1ServiceDiscoveryRes :: iso1ServiceDiscoveryResType where
  "zero_iso1ServiceDiscoveryRes = \<lparr>iso1ServiceDiscoveryRes_ResponseCode = 0,
      iso1ServiceDiscoveryRes_PaymentOptionList = zero_iso1PaymentOptionList,
      iso1ServiceDiscoveryRes_ChargeService = zero_iso1ChargeService,
      iso1ServiceDiscoveryRes_ServiceList = zero_iso1ServiceList,
      iso1ServiceDiscoveryRes_ServiceList_isUsed = False\<rparr>"

lemma sized_zero_iso1ServiceDiscoveryRes [simp]: "iso1ServiceDiscoveryRes_sized zero_iso1ServiceDiscoveryRes"
  by (simp add: iso1ServiceDiscoveryRes_sized_def zero_iso1ServiceDiscoveryRes_def)

definition zero_iso1ServiceDetailReq :: iso1ServiceDetailReqType where
  "zero_iso1ServiceDetailReq = \<lparr>iso1ServiceDetailReq_ServiceID = 0\<rparr>"

definition zero_iso1Parameter :: iso1ParameterType where
  "zero_iso1Parameter = \<lparr>iso1Parameter_Name_characters = replicate 51 0, iso1Parameter_Name_charactersLen = 0,
      iso1Parameter_boolValue = 0, iso1Parameter_boolValue_isUsed = False, iso1Parameter_byteValue = 0,
      iso1Parameter_byteValue_isUsed = False, iso1Parameter_shortValue = 0, iso1Parameter_shortValue_isUsed = False,
      iso1Parameter_intValue = 0, iso1Parameter_intValue_isUsed = False,
      iso1Parameter_physicalValue = zero_iso1PhysicalValue, iso1Parameter_physicalValue_isUsed = False,
      iso1Parameter_stringValue_characters = replicate 51 0, iso1Parameter_stringValue_charactersLen = 0,
      iso1Parameter_stringValue_isUsed = False\<rparr>"

lemma sized_zero_iso1Parameter [simp]: "iso1Parameter_sized zero_iso1Parameter"
  by (simp add: iso1Parameter_sized_def zero_iso1Parameter_def)

definition zero_iso1ParameterSet :: iso1ParameterSetType where
  "zero_iso1ParameterSet = \<lparr>iso1ParameterSet_ParameterSetID = 0, iso1ParameterSet_Parameter_array = replicate
      16 zero_iso1Parameter, iso1ParameterSet_Parameter_arrayLen = 0\<rparr>"

lemma sized_zero_iso1ParameterSet [simp]: "iso1ParameterSet_sized zero_iso1ParameterSet"
  by (simp add: iso1ParameterSet_sized_def zero_iso1ParameterSet_def list_all_iff data_sized_def)

definition zero_iso1ServiceParameterList :: iso1ServiceParameterListType where
  "zero_iso1ServiceParameterList = \<lparr>iso1ServiceParameterList_ParameterSet_array = replicate 5
      zero_iso1ParameterSet, iso1ServiceParameterList_ParameterSet_arrayLen = 0\<rparr>"

lemma sized_zero_iso1ServiceParameterList [simp]: "iso1ServiceParameterList_sized zero_iso1ServiceParameterList"
  by (simp add: iso1ServiceParameterList_sized_def zero_iso1ServiceParameterList_def list_all_iff data_sized_def)

definition zero_iso1ServiceDetailRes :: iso1ServiceDetailResType where
  "zero_iso1ServiceDetailRes = \<lparr>iso1ServiceDetailRes_ResponseCode = 0, iso1ServiceDetailRes_ServiceID = 0,
      iso1ServiceDetailRes_ServiceParameterList = zero_iso1ServiceParameterList,
      iso1ServiceDetailRes_ServiceParameterList_isUsed = False\<rparr>"

lemma sized_zero_iso1ServiceDetailRes [simp]: "iso1ServiceDetailRes_sized zero_iso1ServiceDetailRes"
  by (simp add: iso1ServiceDetailRes_sized_def zero_iso1ServiceDetailRes_def)

definition zero_iso1SelectedService :: iso1SelectedServiceType where
  "zero_iso1SelectedService = \<lparr>iso1SelectedService_ServiceID = 0, iso1SelectedService_ParameterSetID = 0,
      iso1SelectedService_ParameterSetID_isUsed = False\<rparr>"

definition zero_iso1SelectedServiceList :: iso1SelectedServiceListType where
  "zero_iso1SelectedServiceList = \<lparr>iso1SelectedServiceList_SelectedService_array = replicate 16
      zero_iso1SelectedService, iso1SelectedServiceList_SelectedService_arrayLen = 0\<rparr>"

lemma sized_zero_iso1SelectedServiceList [simp]: "iso1SelectedServiceList_sized zero_iso1SelectedServiceList"
  by (simp add: iso1SelectedServiceList_sized_def zero_iso1SelectedServiceList_def list_all_iff data_sized_def)

definition zero_iso1PaymentServiceSelectionReq :: iso1PaymentServiceSelectionReqType where
  "zero_iso1PaymentServiceSelectionReq = \<lparr>iso1PaymentServiceSelectionReq_SelectedPaymentOption = 0,
      iso1PaymentServiceSelectionReq_SelectedServiceList = zero_iso1SelectedServiceList\<rparr>"

lemma sized_zero_iso1PaymentServiceSelectionReq [simp]: "iso1PaymentServiceSelectionReq_sized
    zero_iso1PaymentServiceSelectionReq"
  by (simp add: iso1PaymentServiceSelectionReq_sized_def zero_iso1PaymentServiceSelectionReq_def)

definition zero_iso1PaymentServiceSelectionRes :: iso1PaymentServiceSelectionResType where
  "zero_iso1PaymentServiceSelectionRes = \<lparr>iso1PaymentServiceSelectionRes_ResponseCode = 0\<rparr>"

definition zero_iso1SubCertificates :: iso1SubCertificatesType where
  "zero_iso1SubCertificates = \<lparr>iso1SubCertificates_Certificate_array = replicate 4 (replicate 800 0, 0),
      iso1SubCertificates_Certificate_arrayLen = 0\<rparr>"

lemma sized_zero_iso1SubCertificates [simp]: "iso1SubCertificates_sized zero_iso1SubCertificates"
  by (simp add: iso1SubCertificates_sized_def zero_iso1SubCertificates_def list_all_iff data_sized_def)

definition zero_iso1CertificateChain :: iso1CertificateChainType where
  "zero_iso1CertificateChain = \<lparr>iso1CertificateChain_Id_characters = replicate 51 0,
      iso1CertificateChain_Id_charactersLen = 0, iso1CertificateChain_Id_isUsed = False,
      iso1CertificateChain_Certificate_bytes = replicate 800 0, iso1CertificateChain_Certificate_bytesLen = 0,
      iso1CertificateChain_SubCertificates = zero_iso1SubCertificates,
      iso1CertificateChain_SubCertificates_isUsed = False\<rparr>"

lemma sized_zero_iso1CertificateChain [simp]: "iso1CertificateChain_sized zero_iso1CertificateChain"
  by (simp add: iso1CertificateChain_sized_def zero_iso1CertificateChain_def)

definition zero_iso1PaymentDetailsReq :: iso1PaymentDetailsReqType where
  "zero_iso1PaymentDetailsReq = \<lparr>iso1PaymentDetailsReq_eMAID_characters = replicate 16 0,
      iso1PaymentDetailsReq_eMAID_charactersLen = 0,
      iso1PaymentDetailsReq_ContractSignatureCertChain = zero_iso1CertificateChain\<rparr>"

lemma sized_zero_iso1PaymentDetailsReq [simp]: "iso1PaymentDetailsReq_sized zero_iso1PaymentDetailsReq"
  by (simp add: iso1PaymentDetailsReq_sized_def zero_iso1PaymentDetailsReq_def)

definition zero_iso1PaymentDetailsRes :: iso1PaymentDetailsResType where
  "zero_iso1PaymentDetailsRes = \<lparr>iso1PaymentDetailsRes_ResponseCode = 0,
      iso1PaymentDetailsRes_GenChallenge_bytes = replicate 16 0, iso1PaymentDetailsRes_GenChallenge_bytesLen = 0,
      iso1PaymentDetailsRes_EVSETimeStamp = 0\<rparr>"

lemma sized_zero_iso1PaymentDetailsRes [simp]: "iso1PaymentDetailsRes_sized zero_iso1PaymentDetailsRes"
  by (simp add: iso1PaymentDetailsRes_sized_def zero_iso1PaymentDetailsRes_def)

definition zero_iso1AuthorizationReq :: iso1AuthorizationReqType where
  "zero_iso1AuthorizationReq = \<lparr>iso1AuthorizationReq_Id_characters = replicate 51 0,
      iso1AuthorizationReq_Id_charactersLen = 0, iso1AuthorizationReq_Id_isUsed = False,
      iso1AuthorizationReq_GenChallenge_bytes = replicate 16 0, iso1AuthorizationReq_GenChallenge_bytesLen = 0,
      iso1AuthorizationReq_GenChallenge_isUsed = False\<rparr>"

lemma sized_zero_iso1AuthorizationReq [simp]: "iso1AuthorizationReq_sized zero_iso1AuthorizationReq"
  by (simp add: iso1AuthorizationReq_sized_def zero_iso1AuthorizationReq_def)

definition zero_iso1AuthorizationRes :: iso1AuthorizationResType where
  "zero_iso1AuthorizationRes = \<lparr>iso1AuthorizationRes_ResponseCode = 0,
      iso1AuthorizationRes_EVSEProcessing = 0\<rparr>"

definition zero_iso1ListOfRootCertificateIDs :: iso1ListOfRootCertificateIDsType where
  "zero_iso1ListOfRootCertificateIDs = \<lparr>iso1ListOfRootCertificateIDs_RootCertificateID_array = replicate 5
      zero_iso1X509IssuerSerial, iso1ListOfRootCertificateIDs_RootCertificateID_arrayLen = 0\<rparr>"

lemma sized_zero_iso1ListOfRootCertificateIDs [simp]: "iso1ListOfRootCertificateIDs_sized
    zero_iso1ListOfRootCertificateIDs"
  by (simp add: iso1ListOfRootCertificateIDs_sized_def zero_iso1ListOfRootCertificateIDs_def list_all_iff
      data_sized_def)

definition zero_iso1CertificateUpdateReq :: iso1CertificateUpdateReqType where
  "zero_iso1CertificateUpdateReq = \<lparr>iso1CertificateUpdateReq_Id_characters = replicate 51 0,
      iso1CertificateUpdateReq_Id_charactersLen = 0,
      iso1CertificateUpdateReq_ContractSignatureCertChain = zero_iso1CertificateChain,
      iso1CertificateUpdateReq_eMAID_characters = replicate 16 0, iso1CertificateUpdateReq_eMAID_charactersLen = 0,
      iso1CertificateUpdateReq_ListOfRootCertificateIDs = zero_iso1ListOfRootCertificateIDs\<rparr>"

lemma sized_zero_iso1CertificateUpdateReq [simp]: "iso1CertificateUpdateReq_sized zero_iso1CertificateUpdateReq"
  by (simp add: iso1CertificateUpdateReq_sized_def zero_iso1CertificateUpdateReq_def)

definition zero_iso1ContractSignatureEncryptedPrivateKey :: iso1ContractSignatureEncryptedPrivateKeyType where
  "zero_iso1ContractSignatureEncryptedPrivateKey = \<lparr>iso1ContractSignatureEncryptedPrivateKey_Id_characters = replicate 51 0, iso1ContractSignatureEncryptedPrivateKey_Id_charactersLen = 0, iso1ContractSignatureEncryptedPrivateKey_CONTENT_bytes = replicate 350 0, iso1ContractSignatureEncryptedPrivateKey_CONTENT_bytesLen = 0\<rparr>"

lemma sized_zero_iso1ContractSignatureEncryptedPrivateKey [simp]: "iso1ContractSignatureEncryptedPrivateKey_sized
    zero_iso1ContractSignatureEncryptedPrivateKey"
  by (simp add: iso1ContractSignatureEncryptedPrivateKey_sized_def zero_iso1ContractSignatureEncryptedPrivateKey_def)

definition zero_iso1DiffieHellmanPublickey :: iso1DiffieHellmanPublickeyType where
  "zero_iso1DiffieHellmanPublickey = \<lparr>iso1DiffieHellmanPublickey_Id_characters = replicate 51 0,
      iso1DiffieHellmanPublickey_Id_charactersLen = 0, iso1DiffieHellmanPublickey_CONTENT_bytes = replicate 350 0,
      iso1DiffieHellmanPublickey_CONTENT_bytesLen = 0\<rparr>"

lemma sized_zero_iso1DiffieHellmanPublickey [simp]: "iso1DiffieHellmanPublickey_sized zero_iso1DiffieHellmanPublickey"
  by (simp add: iso1DiffieHellmanPublickey_sized_def zero_iso1DiffieHellmanPublickey_def)

definition zero_iso1CertificateUpdateRes :: iso1CertificateUpdateResType where
  "zero_iso1CertificateUpdateRes = \<lparr>iso1CertificateUpdateRes_ResponseCode = 0,
      iso1CertificateUpdateRes_SAProvisioningCertificateChain = zero_iso1CertificateChain,
      iso1CertificateUpdateRes_ContractSignatureCertChain = zero_iso1CertificateChain,
      iso1CertificateUpdateRes_ContractSignatureEncryptedPrivateKey = zero_iso1ContractSignatureEncryptedPrivateKey,
      iso1CertificateUpdateRes_DHpublickey = zero_iso1DiffieHellmanPublickey,
      iso1CertificateUpdateRes_eMAID = zero_iso1EMAID, iso1CertificateUpdateRes_RetryCounter = 0,
      iso1CertificateUpdateRes_RetryCounter_isUsed = False\<rparr>"

lemma sized_zero_iso1CertificateUpdateRes [simp]: "iso1CertificateUpdateRes_sized zero_iso1CertificateUpdateRes"
  by (simp add: iso1CertificateUpdateRes_sized_def zero_iso1CertificateUpdateRes_def)

definition zero_iso1CertificateInstallationReq :: iso1CertificateInstallationReqType where
  "zero_iso1CertificateInstallationReq = \<lparr>iso1CertificateInstallationReq_Id_characters = replicate 51 0,
      iso1CertificateInstallationReq_Id_charactersLen = 0,
      iso1CertificateInstallationReq_OEMProvisioningCert_bytes = replicate 800 0,
      iso1CertificateInstallationReq_OEMProvisioningCert_bytesLen = 0,
      iso1CertificateInstallationReq_ListOfRootCertificateIDs = zero_iso1ListOfRootCertificateIDs\<rparr>"

lemma sized_zero_iso1CertificateInstallationReq [simp]: "iso1CertificateInstallationReq_sized
    zero_iso1CertificateInstallationReq"
  by (simp add: iso1CertificateInstallationReq_sized_def zero_iso1CertificateInstallationReq_def)

definition zero_iso1CertificateInstallationRes :: iso1CertificateInstallationResType where
  "zero_iso1CertificateInstallationRes = \<lparr>iso1CertificateInstallationRes_ResponseCode = 0,
      iso1CertificateInstallationRes_SAProvisioningCertificateChain = zero_iso1CertificateChain,
      iso1CertificateInstallationRes_ContractSignatureCertChain = zero_iso1CertificateChain,
      iso1CertificateInstallationRes_ContractSignatureEncryptedPrivateKey = zero_iso1ContractSignatureEncryptedPrivateKey, iso1CertificateInstallationRes_DHpublickey = zero_iso1DiffieHellmanPublickey, iso1CertificateInstallationRes_eMAID = zero_iso1EMAID\<rparr>"

lemma sized_zero_iso1CertificateInstallationRes [simp]: "iso1CertificateInstallationRes_sized
    zero_iso1CertificateInstallationRes"
  by (simp add: iso1CertificateInstallationRes_sized_def zero_iso1CertificateInstallationRes_def)

definition zero_iso1PMaxScheduleEntry :: iso1PMaxScheduleEntryType where
  "zero_iso1PMaxScheduleEntry = \<lparr>iso1PMaxScheduleEntry_TimeInterval = zero_iso1Interval,
      iso1PMaxScheduleEntry_TimeInterval_isUsed = False,
      iso1PMaxScheduleEntry_RelativeTimeInterval = zero_iso1RelativeTimeInterval,
      iso1PMaxScheduleEntry_RelativeTimeInterval_isUsed = False,
      iso1PMaxScheduleEntry_PMax = zero_iso1PhysicalValue\<rparr>"

definition zero_iso1PMaxSchedule :: iso1PMaxScheduleType where
  "zero_iso1PMaxSchedule = \<lparr>iso1PMaxSchedule_PMaxScheduleEntry_array = replicate 5 zero_iso1PMaxScheduleEntry,
      iso1PMaxSchedule_PMaxScheduleEntry_arrayLen = 0\<rparr>"

lemma sized_zero_iso1PMaxSchedule [simp]: "iso1PMaxSchedule_sized zero_iso1PMaxSchedule"
  by (simp add: iso1PMaxSchedule_sized_def zero_iso1PMaxSchedule_def list_all_iff data_sized_def)

definition zero_iso1Cost :: iso1CostType where
  "zero_iso1Cost = \<lparr>iso1Cost_costKind = 0, iso1Cost_amount = 0, iso1Cost_amountMultiplier = 0,
      iso1Cost_amountMultiplier_isUsed = False\<rparr>"

definition zero_iso1ConsumptionCost :: iso1ConsumptionCostType where
  "zero_iso1ConsumptionCost = \<lparr>iso1ConsumptionCost_startValue = zero_iso1PhysicalValue,
      iso1ConsumptionCost_Cost_array = replicate 3 zero_iso1Cost, iso1ConsumptionCost_Cost_arrayLen = 0\<rparr>"

lemma sized_zero_iso1ConsumptionCost [simp]: "iso1ConsumptionCost_sized zero_iso1ConsumptionCost"
  by (simp add: iso1ConsumptionCost_sized_def zero_iso1ConsumptionCost_def list_all_iff data_sized_def)

definition zero_iso1SalesTariffEntry :: iso1SalesTariffEntryType where
  "zero_iso1SalesTariffEntry = \<lparr>iso1SalesTariffEntry_TimeInterval = zero_iso1Interval,
      iso1SalesTariffEntry_TimeInterval_isUsed = False,
      iso1SalesTariffEntry_RelativeTimeInterval = zero_iso1RelativeTimeInterval,
      iso1SalesTariffEntry_RelativeTimeInterval_isUsed = False, iso1SalesTariffEntry_EPriceLevel = 0,
      iso1SalesTariffEntry_EPriceLevel_isUsed = False, iso1SalesTariffEntry_ConsumptionCost_array = replicate 3
      zero_iso1ConsumptionCost, iso1SalesTariffEntry_ConsumptionCost_arrayLen = 0\<rparr>"

lemma sized_zero_iso1SalesTariffEntry [simp]: "iso1SalesTariffEntry_sized zero_iso1SalesTariffEntry"
  by (simp add: iso1SalesTariffEntry_sized_def zero_iso1SalesTariffEntry_def list_all_iff data_sized_def)

definition zero_iso1SalesTariff :: iso1SalesTariffType where
  "zero_iso1SalesTariff = \<lparr>iso1SalesTariff_Id_characters = replicate 51 0,
      iso1SalesTariff_Id_charactersLen = 0, iso1SalesTariff_Id_isUsed = False, iso1SalesTariff_SalesTariffID = 0,
      iso1SalesTariff_SalesTariffDescription_characters = replicate 33 0,
      iso1SalesTariff_SalesTariffDescription_charactersLen = 0, iso1SalesTariff_SalesTariffDescription_isUsed = False,
      iso1SalesTariff_NumEPriceLevels = 0, iso1SalesTariff_NumEPriceLevels_isUsed = False,
      iso1SalesTariff_SalesTariffEntry_array = replicate 5 zero_iso1SalesTariffEntry,
      iso1SalesTariff_SalesTariffEntry_arrayLen = 0\<rparr>"

lemma sized_zero_iso1SalesTariff [simp]: "iso1SalesTariff_sized zero_iso1SalesTariff"
  by (simp add: iso1SalesTariff_sized_def zero_iso1SalesTariff_def list_all_iff data_sized_def)

definition zero_iso1SAScheduleTuple :: iso1SAScheduleTupleType where
  "zero_iso1SAScheduleTuple = \<lparr>iso1SAScheduleTuple_SAScheduleTupleID = 0,
      iso1SAScheduleTuple_PMaxSchedule = zero_iso1PMaxSchedule,
      iso1SAScheduleTuple_SalesTariff = zero_iso1SalesTariff, iso1SAScheduleTuple_SalesTariff_isUsed = False\<rparr>"

lemma sized_zero_iso1SAScheduleTuple [simp]: "iso1SAScheduleTuple_sized zero_iso1SAScheduleTuple"
  by (simp add: iso1SAScheduleTuple_sized_def zero_iso1SAScheduleTuple_def)

definition zero_iso1SAScheduleList :: iso1SAScheduleListType where
  "zero_iso1SAScheduleList = \<lparr>iso1SAScheduleList_SAScheduleTuple_array = replicate 3 zero_iso1SAScheduleTuple,
      iso1SAScheduleList_SAScheduleTuple_arrayLen = 0\<rparr>"

lemma sized_zero_iso1SAScheduleList [simp]: "iso1SAScheduleList_sized zero_iso1SAScheduleList"
  by (simp add: iso1SAScheduleList_sized_def zero_iso1SAScheduleList_def list_all_iff data_sized_def)

definition zero_iso1ProfileEntry :: iso1ProfileEntryType where
  "zero_iso1ProfileEntry = \<lparr>iso1ProfileEntry_ChargingProfileEntryStart = 0,
      iso1ProfileEntry_ChargingProfileEntryMaxPower = zero_iso1PhysicalValue,
      iso1ProfileEntry_ChargingProfileEntryMaxNumberOfPhasesInUse = 0,
      iso1ProfileEntry_ChargingProfileEntryMaxNumberOfPhasesInUse_isUsed = False\<rparr>"

definition zero_iso1ChargingProfile :: iso1ChargingProfileType where
  "zero_iso1ChargingProfile = \<lparr>iso1ChargingProfile_ProfileEntry_array = replicate 24 zero_iso1ProfileEntry,
      iso1ChargingProfile_ProfileEntry_arrayLen = 0\<rparr>"

lemma sized_zero_iso1ChargingProfile [simp]: "iso1ChargingProfile_sized zero_iso1ChargingProfile"
  by (simp add: iso1ChargingProfile_sized_def zero_iso1ChargingProfile_def list_all_iff data_sized_def)

definition zero_iso1AC_EVChargeParameter :: iso1AC_EVChargeParameterType where
  "zero_iso1AC_EVChargeParameter = \<lparr>iso1AC_EVChargeParameter_DepartureTime = 0,
      iso1AC_EVChargeParameter_DepartureTime_isUsed = False,
      iso1AC_EVChargeParameter_EAmount = zero_iso1PhysicalValue,
      iso1AC_EVChargeParameter_EVMaxVoltage = zero_iso1PhysicalValue,
      iso1AC_EVChargeParameter_EVMaxCurrent = zero_iso1PhysicalValue,
      iso1AC_EVChargeParameter_EVMinCurrent = zero_iso1PhysicalValue\<rparr>"

definition zero_iso1DC_EVChargeParameter :: iso1DC_EVChargeParameterType where
  "zero_iso1DC_EVChargeParameter = \<lparr>iso1DC_EVChargeParameter_DepartureTime = 0,
      iso1DC_EVChargeParameter_DepartureTime_isUsed = False,
      iso1DC_EVChargeParameter_DC_EVStatus = zero_iso1DC_EVStatus,
      iso1DC_EVChargeParameter_EVMaximumCurrentLimit = zero_iso1PhysicalValue,
      iso1DC_EVChargeParameter_EVMaximumPowerLimit = zero_iso1PhysicalValue,
      iso1DC_EVChargeParameter_EVMaximumPowerLimit_isUsed = False,
      iso1DC_EVChargeParameter_EVMaximumVoltageLimit = zero_iso1PhysicalValue,
      iso1DC_EVChargeParameter_EVEnergyCapacity = zero_iso1PhysicalValue,
      iso1DC_EVChargeParameter_EVEnergyCapacity_isUsed = False,
      iso1DC_EVChargeParameter_EVEnergyRequest = zero_iso1PhysicalValue,
      iso1DC_EVChargeParameter_EVEnergyRequest_isUsed = False, iso1DC_EVChargeParameter_FullSOC = 0,
      iso1DC_EVChargeParameter_FullSOC_isUsed = False, iso1DC_EVChargeParameter_BulkSOC = 0,
      iso1DC_EVChargeParameter_BulkSOC_isUsed = False\<rparr>"

definition zero_iso1EVChargeParameter :: iso1EVChargeParameterType where
  "zero_iso1EVChargeParameter = \<lparr>iso1EVChargeParameter_DepartureTime = 0,
      iso1EVChargeParameter_DepartureTime_isUsed = False\<rparr>"

definition zero_iso1ChargeParameterDiscoveryReq :: iso1ChargeParameterDiscoveryReqType where
  "zero_iso1ChargeParameterDiscoveryReq = \<lparr>iso1ChargeParameterDiscoveryReq_MaxEntriesSAScheduleTuple = 0,
      iso1ChargeParameterDiscoveryReq_MaxEntriesSAScheduleTuple_isUsed = False,
      iso1ChargeParameterDiscoveryReq_RequestedEnergyTransferMode = 0,
      iso1ChargeParameterDiscoveryReq_EVChargeParameter = zero_iso1EVChargeParameter,
      iso1ChargeParameterDiscoveryReq_EVChargeParameter_isUsed = False,
      iso1ChargeParameterDiscoveryReq_AC_EVChargeParameter = zero_iso1AC_EVChargeParameter,
      iso1ChargeParameterDiscoveryReq_AC_EVChargeParameter_isUsed = False,
      iso1ChargeParameterDiscoveryReq_DC_EVChargeParameter = zero_iso1DC_EVChargeParameter,
      iso1ChargeParameterDiscoveryReq_DC_EVChargeParameter_isUsed = False\<rparr>"

definition zero_iso1SASchedules :: iso1SASchedulesType where
  "zero_iso1SASchedules = \<lparr>iso1SASchedules_noContent = 0\<rparr>"

definition zero_iso1AC_EVSEChargeParameter :: iso1AC_EVSEChargeParameterType where
  "zero_iso1AC_EVSEChargeParameter = \<lparr>iso1AC_EVSEChargeParameter_AC_EVSEStatus = zero_iso1AC_EVSEStatus,
      iso1AC_EVSEChargeParameter_EVSENominalVoltage = zero_iso1PhysicalValue,
      iso1AC_EVSEChargeParameter_EVSEMaxCurrent = zero_iso1PhysicalValue\<rparr>"

definition zero_iso1DC_EVSEChargeParameter :: iso1DC_EVSEChargeParameterType where
  "zero_iso1DC_EVSEChargeParameter = \<lparr>iso1DC_EVSEChargeParameter_DC_EVSEStatus = zero_iso1DC_EVSEStatus,
      iso1DC_EVSEChargeParameter_EVSEMaximumCurrentLimit = zero_iso1PhysicalValue,
      iso1DC_EVSEChargeParameter_EVSEMaximumPowerLimit = zero_iso1PhysicalValue,
      iso1DC_EVSEChargeParameter_EVSEMaximumVoltageLimit = zero_iso1PhysicalValue,
      iso1DC_EVSEChargeParameter_EVSEMinimumCurrentLimit = zero_iso1PhysicalValue,
      iso1DC_EVSEChargeParameter_EVSEMinimumVoltageLimit = zero_iso1PhysicalValue,
      iso1DC_EVSEChargeParameter_EVSECurrentRegulationTolerance = zero_iso1PhysicalValue,
      iso1DC_EVSEChargeParameter_EVSECurrentRegulationTolerance_isUsed = False,
      iso1DC_EVSEChargeParameter_EVSEPeakCurrentRipple = zero_iso1PhysicalValue,
      iso1DC_EVSEChargeParameter_EVSEEnergyToBeDelivered = zero_iso1PhysicalValue,
      iso1DC_EVSEChargeParameter_EVSEEnergyToBeDelivered_isUsed = False\<rparr>"

definition zero_iso1EVSEChargeParameter :: iso1EVSEChargeParameterType where
  "zero_iso1EVSEChargeParameter = \<lparr>iso1EVSEChargeParameter_noContent = 0\<rparr>"

definition zero_iso1ChargeParameterDiscoveryRes :: iso1ChargeParameterDiscoveryResType where
  "zero_iso1ChargeParameterDiscoveryRes = \<lparr>iso1ChargeParameterDiscoveryRes_ResponseCode = 0,
      iso1ChargeParameterDiscoveryRes_EVSEProcessing = 0,
      iso1ChargeParameterDiscoveryRes_SASchedules = zero_iso1SASchedules,
      iso1ChargeParameterDiscoveryRes_SASchedules_isUsed = False,
      iso1ChargeParameterDiscoveryRes_SAScheduleList = zero_iso1SAScheduleList,
      iso1ChargeParameterDiscoveryRes_SAScheduleList_isUsed = False,
      iso1ChargeParameterDiscoveryRes_EVSEChargeParameter = zero_iso1EVSEChargeParameter,
      iso1ChargeParameterDiscoveryRes_EVSEChargeParameter_isUsed = False,
      iso1ChargeParameterDiscoveryRes_AC_EVSEChargeParameter = zero_iso1AC_EVSEChargeParameter,
      iso1ChargeParameterDiscoveryRes_AC_EVSEChargeParameter_isUsed = False,
      iso1ChargeParameterDiscoveryRes_DC_EVSEChargeParameter = zero_iso1DC_EVSEChargeParameter,
      iso1ChargeParameterDiscoveryRes_DC_EVSEChargeParameter_isUsed = False\<rparr>"

lemma sized_zero_iso1ChargeParameterDiscoveryRes [simp]: "iso1ChargeParameterDiscoveryRes_sized
    zero_iso1ChargeParameterDiscoveryRes"
  by (simp add: iso1ChargeParameterDiscoveryRes_sized_def zero_iso1ChargeParameterDiscoveryRes_def)

definition zero_iso1PowerDeliveryReq :: iso1PowerDeliveryReqType where
  "zero_iso1PowerDeliveryReq = \<lparr>iso1PowerDeliveryReq_ChargeProgress = 0,
      iso1PowerDeliveryReq_SAScheduleTupleID = 0, iso1PowerDeliveryReq_ChargingProfile = zero_iso1ChargingProfile,
      iso1PowerDeliveryReq_ChargingProfile_isUsed = False,
      iso1PowerDeliveryReq_EVPowerDeliveryParameter = zero_iso1EVPowerDeliveryParameter,
      iso1PowerDeliveryReq_EVPowerDeliveryParameter_isUsed = False,
      iso1PowerDeliveryReq_DC_EVPowerDeliveryParameter = zero_iso1DC_EVPowerDeliveryParameter,
      iso1PowerDeliveryReq_DC_EVPowerDeliveryParameter_isUsed = False\<rparr>"

lemma sized_zero_iso1PowerDeliveryReq [simp]: "iso1PowerDeliveryReq_sized zero_iso1PowerDeliveryReq"
  by (simp add: iso1PowerDeliveryReq_sized_def zero_iso1PowerDeliveryReq_def)

definition zero_iso1PowerDeliveryRes :: iso1PowerDeliveryResType where
  "zero_iso1PowerDeliveryRes = \<lparr>iso1PowerDeliveryRes_ResponseCode = 0,
      iso1PowerDeliveryRes_EVSEStatus = zero_iso1EVSEStatus, iso1PowerDeliveryRes_EVSEStatus_isUsed = False,
      iso1PowerDeliveryRes_AC_EVSEStatus = zero_iso1AC_EVSEStatus, iso1PowerDeliveryRes_AC_EVSEStatus_isUsed = False,
      iso1PowerDeliveryRes_DC_EVSEStatus = zero_iso1DC_EVSEStatus,
      iso1PowerDeliveryRes_DC_EVSEStatus_isUsed = False\<rparr>"

definition zero_iso1ChargingStatusReq :: iso1ChargingStatusReqType where
  "zero_iso1ChargingStatusReq = \<lparr>iso1ChargingStatusReq_noContent = 0\<rparr>"

definition zero_iso1ChargingStatusRes :: iso1ChargingStatusResType where
  "zero_iso1ChargingStatusRes = \<lparr>iso1ChargingStatusRes_ResponseCode = 0,
      iso1ChargingStatusRes_EVSEID_characters = replicate 38 0, iso1ChargingStatusRes_EVSEID_charactersLen = 0,
      iso1ChargingStatusRes_SAScheduleTupleID = 0, iso1ChargingStatusRes_EVSEMaxCurrent = zero_iso1PhysicalValue,
      iso1ChargingStatusRes_EVSEMaxCurrent_isUsed = False, iso1ChargingStatusRes_MeterInfo = zero_iso1MeterInfo,
      iso1ChargingStatusRes_MeterInfo_isUsed = False, iso1ChargingStatusRes_ReceiptRequired = 0,
      iso1ChargingStatusRes_ReceiptRequired_isUsed = False,
      iso1ChargingStatusRes_AC_EVSEStatus = zero_iso1AC_EVSEStatus\<rparr>"

lemma sized_zero_iso1ChargingStatusRes [simp]: "iso1ChargingStatusRes_sized zero_iso1ChargingStatusRes"
  by (simp add: iso1ChargingStatusRes_sized_def zero_iso1ChargingStatusRes_def)

definition zero_iso1MeteringReceiptReq :: iso1MeteringReceiptReqType where
  "zero_iso1MeteringReceiptReq = \<lparr>iso1MeteringReceiptReq_Id_characters = replicate 51 0,
      iso1MeteringReceiptReq_Id_charactersLen = 0, iso1MeteringReceiptReq_Id_isUsed = False,
      iso1MeteringReceiptReq_SessionID_bytes = replicate 8 0, iso1MeteringReceiptReq_SessionID_bytesLen = 0,
      iso1MeteringReceiptReq_SAScheduleTupleID = 0, iso1MeteringReceiptReq_SAScheduleTupleID_isUsed = False,
      iso1MeteringReceiptReq_MeterInfo = zero_iso1MeterInfo\<rparr>"

lemma sized_zero_iso1MeteringReceiptReq [simp]: "iso1MeteringReceiptReq_sized zero_iso1MeteringReceiptReq"
  by (simp add: iso1MeteringReceiptReq_sized_def zero_iso1MeteringReceiptReq_def)

definition zero_iso1MeteringReceiptRes :: iso1MeteringReceiptResType where
  "zero_iso1MeteringReceiptRes = \<lparr>iso1MeteringReceiptRes_ResponseCode = 0,
      iso1MeteringReceiptRes_EVSEStatus = zero_iso1EVSEStatus, iso1MeteringReceiptRes_EVSEStatus_isUsed = False,
      iso1MeteringReceiptRes_AC_EVSEStatus = zero_iso1AC_EVSEStatus,
      iso1MeteringReceiptRes_AC_EVSEStatus_isUsed = False,
      iso1MeteringReceiptRes_DC_EVSEStatus = zero_iso1DC_EVSEStatus,
      iso1MeteringReceiptRes_DC_EVSEStatus_isUsed = False\<rparr>"

definition zero_iso1SessionStopReq :: iso1SessionStopReqType where
  "zero_iso1SessionStopReq = \<lparr>iso1SessionStopReq_ChargingSession = 0\<rparr>"

definition zero_iso1SessionStopRes :: iso1SessionStopResType where
  "zero_iso1SessionStopRes = \<lparr>iso1SessionStopRes_ResponseCode = 0\<rparr>"

definition zero_iso1CableCheckReq :: iso1CableCheckReqType where
  "zero_iso1CableCheckReq = \<lparr>iso1CableCheckReq_DC_EVStatus = zero_iso1DC_EVStatus\<rparr>"

definition zero_iso1CableCheckRes :: iso1CableCheckResType where
  "zero_iso1CableCheckRes = \<lparr>iso1CableCheckRes_ResponseCode = 0,
      iso1CableCheckRes_DC_EVSEStatus = zero_iso1DC_EVSEStatus, iso1CableCheckRes_EVSEProcessing = 0\<rparr>"

definition zero_iso1PreChargeReq :: iso1PreChargeReqType where
  "zero_iso1PreChargeReq = \<lparr>iso1PreChargeReq_DC_EVStatus = zero_iso1DC_EVStatus,
      iso1PreChargeReq_EVTargetVoltage = zero_iso1PhysicalValue,
      iso1PreChargeReq_EVTargetCurrent = zero_iso1PhysicalValue\<rparr>"

definition zero_iso1PreChargeRes :: iso1PreChargeResType where
  "zero_iso1PreChargeRes = \<lparr>iso1PreChargeRes_ResponseCode = 0,
      iso1PreChargeRes_DC_EVSEStatus = zero_iso1DC_EVSEStatus,
      iso1PreChargeRes_EVSEPresentVoltage = zero_iso1PhysicalValue\<rparr>"

definition zero_iso1CurrentDemandReq :: iso1CurrentDemandReqType where
  "zero_iso1CurrentDemandReq = \<lparr>iso1CurrentDemandReq_DC_EVStatus = zero_iso1DC_EVStatus,
      iso1CurrentDemandReq_EVTargetCurrent = zero_iso1PhysicalValue,
      iso1CurrentDemandReq_EVMaximumVoltageLimit = zero_iso1PhysicalValue,
      iso1CurrentDemandReq_EVMaximumVoltageLimit_isUsed = False,
      iso1CurrentDemandReq_EVMaximumCurrentLimit = zero_iso1PhysicalValue,
      iso1CurrentDemandReq_EVMaximumCurrentLimit_isUsed = False,
      iso1CurrentDemandReq_EVMaximumPowerLimit = zero_iso1PhysicalValue,
      iso1CurrentDemandReq_EVMaximumPowerLimit_isUsed = False, iso1CurrentDemandReq_BulkChargingComplete = 0,
      iso1CurrentDemandReq_BulkChargingComplete_isUsed = False, iso1CurrentDemandReq_ChargingComplete = 0,
      iso1CurrentDemandReq_RemainingTimeToFullSoC = zero_iso1PhysicalValue,
      iso1CurrentDemandReq_RemainingTimeToFullSoC_isUsed = False,
      iso1CurrentDemandReq_RemainingTimeToBulkSoC = zero_iso1PhysicalValue,
      iso1CurrentDemandReq_RemainingTimeToBulkSoC_isUsed = False,
      iso1CurrentDemandReq_EVTargetVoltage = zero_iso1PhysicalValue\<rparr>"

definition zero_iso1CurrentDemandRes :: iso1CurrentDemandResType where
  "zero_iso1CurrentDemandRes = \<lparr>iso1CurrentDemandRes_ResponseCode = 0,
      iso1CurrentDemandRes_DC_EVSEStatus = zero_iso1DC_EVSEStatus,
      iso1CurrentDemandRes_EVSEPresentVoltage = zero_iso1PhysicalValue,
      iso1CurrentDemandRes_EVSEPresentCurrent = zero_iso1PhysicalValue,
      iso1CurrentDemandRes_EVSECurrentLimitAchieved = 0, iso1CurrentDemandRes_EVSEVoltageLimitAchieved = 0,
      iso1CurrentDemandRes_EVSEPowerLimitAchieved = 0,
      iso1CurrentDemandRes_EVSEMaximumVoltageLimit = zero_iso1PhysicalValue,
      iso1CurrentDemandRes_EVSEMaximumVoltageLimit_isUsed = False,
      iso1CurrentDemandRes_EVSEMaximumCurrentLimit = zero_iso1PhysicalValue,
      iso1CurrentDemandRes_EVSEMaximumCurrentLimit_isUsed = False,
      iso1CurrentDemandRes_EVSEMaximumPowerLimit = zero_iso1PhysicalValue,
      iso1CurrentDemandRes_EVSEMaximumPowerLimit_isUsed = False, iso1CurrentDemandRes_EVSEID_characters = replicate 38
      0, iso1CurrentDemandRes_EVSEID_charactersLen = 0, iso1CurrentDemandRes_SAScheduleTupleID = 0,
      iso1CurrentDemandRes_MeterInfo = zero_iso1MeterInfo, iso1CurrentDemandRes_MeterInfo_isUsed = False,
      iso1CurrentDemandRes_ReceiptRequired = 0, iso1CurrentDemandRes_ReceiptRequired_isUsed = False\<rparr>"

lemma sized_zero_iso1CurrentDemandRes [simp]: "iso1CurrentDemandRes_sized zero_iso1CurrentDemandRes"
  by (simp add: iso1CurrentDemandRes_sized_def zero_iso1CurrentDemandRes_def)

definition zero_iso1WeldingDetectionReq :: iso1WeldingDetectionReqType where
  "zero_iso1WeldingDetectionReq = \<lparr>iso1WeldingDetectionReq_DC_EVStatus = zero_iso1DC_EVStatus\<rparr>"

definition zero_iso1WeldingDetectionRes :: iso1WeldingDetectionResType where
  "zero_iso1WeldingDetectionRes = \<lparr>iso1WeldingDetectionRes_ResponseCode = 0,
      iso1WeldingDetectionRes_DC_EVSEStatus = zero_iso1DC_EVSEStatus,
      iso1WeldingDetectionRes_EVSEPresentVoltage = zero_iso1PhysicalValue\<rparr>"

definition zero_iso1BodyBase :: iso1BodyBaseType where
  "zero_iso1BodyBase = \<lparr>iso1BodyBase_noContent = 0\<rparr>"

definition zero_iso1Body :: iso1BodyType where
  "zero_iso1Body = \<lparr>iso1Body_BodyElement = zero_iso1BodyBase,
      iso1Body_SessionSetupReq = zero_iso1SessionSetupReq, iso1Body_SessionSetupRes = zero_iso1SessionSetupRes,
      iso1Body_ServiceDiscoveryReq = zero_iso1ServiceDiscoveryReq,
      iso1Body_ServiceDiscoveryRes = zero_iso1ServiceDiscoveryRes,
      iso1Body_ServiceDetailReq = zero_iso1ServiceDetailReq, iso1Body_ServiceDetailRes = zero_iso1ServiceDetailRes,
      iso1Body_PaymentServiceSelectionReq = zero_iso1PaymentServiceSelectionReq,
      iso1Body_PaymentServiceSelectionRes = zero_iso1PaymentServiceSelectionRes,
      iso1Body_PaymentDetailsReq = zero_iso1PaymentDetailsReq,
      iso1Body_PaymentDetailsRes = zero_iso1PaymentDetailsRes, iso1Body_AuthorizationReq = zero_iso1AuthorizationReq,
      iso1Body_AuthorizationRes = zero_iso1AuthorizationRes,
      iso1Body_ChargeParameterDiscoveryReq = zero_iso1ChargeParameterDiscoveryReq,
      iso1Body_ChargeParameterDiscoveryRes = zero_iso1ChargeParameterDiscoveryRes,
      iso1Body_PowerDeliveryReq = zero_iso1PowerDeliveryReq, iso1Body_PowerDeliveryRes = zero_iso1PowerDeliveryRes,
      iso1Body_MeteringReceiptReq = zero_iso1MeteringReceiptReq,
      iso1Body_MeteringReceiptRes = zero_iso1MeteringReceiptRes, iso1Body_SessionStopReq = zero_iso1SessionStopReq,
      iso1Body_SessionStopRes = zero_iso1SessionStopRes,
      iso1Body_CertificateUpdateReq = zero_iso1CertificateUpdateReq,
      iso1Body_CertificateUpdateRes = zero_iso1CertificateUpdateRes,
      iso1Body_CertificateInstallationReq = zero_iso1CertificateInstallationReq,
      iso1Body_CertificateInstallationRes = zero_iso1CertificateInstallationRes,
      iso1Body_ChargingStatusReq = zero_iso1ChargingStatusReq,
      iso1Body_ChargingStatusRes = zero_iso1ChargingStatusRes, iso1Body_CableCheckReq = zero_iso1CableCheckReq,
      iso1Body_CableCheckRes = zero_iso1CableCheckRes, iso1Body_PreChargeReq = zero_iso1PreChargeReq,
      iso1Body_PreChargeRes = zero_iso1PreChargeRes, iso1Body_CurrentDemandReq = zero_iso1CurrentDemandReq,
      iso1Body_CurrentDemandRes = zero_iso1CurrentDemandRes,
      iso1Body_WeldingDetectionReq = zero_iso1WeldingDetectionReq,
      iso1Body_WeldingDetectionRes = zero_iso1WeldingDetectionRes, iso1Body_BodyElement_isUsed = False,
      iso1Body_SessionSetupReq_isUsed = False, iso1Body_SessionSetupRes_isUsed = False,
      iso1Body_ServiceDiscoveryReq_isUsed = False, iso1Body_ServiceDiscoveryRes_isUsed = False,
      iso1Body_ServiceDetailReq_isUsed = False, iso1Body_ServiceDetailRes_isUsed = False,
      iso1Body_PaymentServiceSelectionReq_isUsed = False, iso1Body_PaymentServiceSelectionRes_isUsed = False,
      iso1Body_PaymentDetailsReq_isUsed = False, iso1Body_PaymentDetailsRes_isUsed = False,
      iso1Body_AuthorizationReq_isUsed = False, iso1Body_AuthorizationRes_isUsed = False,
      iso1Body_ChargeParameterDiscoveryReq_isUsed = False, iso1Body_ChargeParameterDiscoveryRes_isUsed = False,
      iso1Body_PowerDeliveryReq_isUsed = False, iso1Body_PowerDeliveryRes_isUsed = False,
      iso1Body_MeteringReceiptReq_isUsed = False, iso1Body_MeteringReceiptRes_isUsed = False,
      iso1Body_SessionStopReq_isUsed = False, iso1Body_SessionStopRes_isUsed = False,
      iso1Body_CertificateUpdateReq_isUsed = False, iso1Body_CertificateUpdateRes_isUsed = False,
      iso1Body_CertificateInstallationReq_isUsed = False, iso1Body_CertificateInstallationRes_isUsed = False,
      iso1Body_ChargingStatusReq_isUsed = False, iso1Body_ChargingStatusRes_isUsed = False,
      iso1Body_CableCheckReq_isUsed = False, iso1Body_CableCheckRes_isUsed = False,
      iso1Body_PreChargeReq_isUsed = False, iso1Body_PreChargeRes_isUsed = False,
      iso1Body_CurrentDemandReq_isUsed = False, iso1Body_CurrentDemandRes_isUsed = False,
      iso1Body_WeldingDetectionReq_isUsed = False, iso1Body_WeldingDetectionRes_isUsed = False\<rparr>"

lemma sized_zero_iso1Body [simp]: "iso1Body_sized zero_iso1Body"
  by (simp add: iso1Body_sized_def zero_iso1Body_def)

definition zero_iso1V2G_Message :: iso1AnonType_V2G_Message where
  "zero_iso1V2G_Message = \<lparr>iso1V2G_Message_Header = zero_iso1MessageHeader,
      iso1V2G_Message_Body = zero_iso1Body\<rparr>"

lemma sized_zero_iso1V2G_Message [simp]: "iso1V2G_Message_sized zero_iso1V2G_Message"
  by (simp add: iso1V2G_Message_sized_def zero_iso1V2G_Message_def)

end
