(* ===== verification/Iso1Document.thy ===== *)
theory Iso1Document
  imports Iso1Zero DocumentCodec ValueCodecs
begin

section \<open>ISO 15118 codec: documents\<close>

text \<open>
  A document is the EXI header, the number of one global element of the schemas, and that element; the
  struct is an unnamed union of the elements, here separate members with their flags. The messages of
  the communication are documents with a \<open>V2G_Message\<close>. The encoder takes the first element in the order of
  the schema whose flag is set.

  The two types of signature properties are defined here and have no theorem: their grammar cannot be
  left once the text of their wildcard is written, so no value of them has an encoding.
\<close>

subsection \<open>\<open>iso1SignaturePropertyType\<close>\<close>

record iso1SignaturePropertyType =
  iso1SignatureProperty_Target_characters :: "u8 list"
  iso1SignatureProperty_Target_charactersLen :: u16
  iso1SignatureProperty_Id_characters :: "u8 list"
  iso1SignatureProperty_Id_charactersLen :: u16
  iso1SignatureProperty_Id_isUsed :: bool
  iso1SignatureProperty_ANY_characters :: "u8 list"
  iso1SignatureProperty_ANY_charactersLen :: u16
  iso1SignatureProperty_ANY_isUsed :: bool

definition init_iso1SignaturePropertyType :: "iso1SignaturePropertyType \<Rightarrow> iso1SignaturePropertyType" where
  "init_iso1SignaturePropertyType a = a\<lparr>iso1SignatureProperty_Id_isUsed := False,
      iso1SignatureProperty_ANY_isUsed := False\<rparr>"

record iso1SignatureProperty_locals =
  iso1SignatureProperty_wcDone :: bool

definition iso1SignatureProperty_enc_step :: "iso1SignaturePropertyType \<Rightarrow> iso1SignatureProperty_locals
    machine" where
  "iso1SignatureProperty_enc_step v grammarID x s =
     (if grammarID = 363 then
        if iso1SignatureProperty_Id_isUsed v then
          goto 364 x
          (encode_child 2 0
          (encode_string_field (iso1SignatureProperty_Id_characters v) (iso1SignatureProperty_Id_charactersLen v)) s)
        else goto 365 x
          (encode_child 2 1 (encode_string_field (iso1SignatureProperty_Target_characters v)
          (iso1SignatureProperty_Target_charactersLen v)) s)
      else if grammarID = 364 then
        goto 365 x
          (encode_child 1 0 (encode_string_field (iso1SignatureProperty_Target_characters v)
          (iso1SignatureProperty_Target_charactersLen v)) s)
      else if grammarID = 365 then
        if iso1SignatureProperty_ANY_isUsed v then goto 366 (x\<lparr>iso1SignatureProperty_wcDone := True\<rparr>)
          (encode_child 2 1
          (encode_string_field (iso1SignatureProperty_ANY_characters v) (iso1SignatureProperty_ANY_charactersLen v))
          s)
        else Some (EXI_ERROR_UNKOWN_EVENT, (False, grammarID, x), s)
      else if grammarID = 116 then
        if \<not> iso1SignatureProperty_ANY_isUsed v \<or> iso1SignatureProperty_wcDone x then
          finish 4 x (encodeNBitUnsignedInteger s 2 1)
        else if iso1SignatureProperty_ANY_isUsed v then
          goto 116 (x\<lparr>iso1SignatureProperty_wcDone := True\<rparr>)
          (encode_child 2 2
          (encode_string_field (iso1SignatureProperty_ANY_characters v) (iso1SignatureProperty_ANY_charactersLen v))
          s)
        else Some (EXI_ERROR_UNKOWN_EVENT, (False, grammarID, x), s)
      else if grammarID = 366 then
        if iso1SignatureProperty_ANY_isUsed v then goto 366 (x\<lparr>iso1SignatureProperty_wcDone := True\<rparr>)
          (encode_child 2 1
          (encode_string_field (iso1SignatureProperty_ANY_characters v) (iso1SignatureProperty_ANY_charactersLen v))
          s)
        else Some (EXI_ERROR_UNKOWN_EVENT, (False, grammarID, x), s)
      else Some (EXI_ERROR_UNKOWN_GRAMMAR_ID, (False, grammarID, x), s))"

definition encode_iso1SignaturePropertyType :: "bitstream \<Rightarrow> iso1SignaturePropertyType \<Rightarrow>
    (errn \<times> bitstream) option" where
  "encode_iso1SignaturePropertyType s v = run_encoder (iso1SignatureProperty_enc_step v) 363
      \<lparr>iso1SignatureProperty_wcDone = False\<rparr> s"

definition iso1SignatureProperty_dec_step :: "u32 \<Rightarrow> (dec_static \<times> iso1SignaturePropertyType)
    machine" where
  "iso1SignatureProperty_dec_step j grammarID x s =
     (if grammarID = 363 then
        decode_switch 2
         [(0, decode_child 364 (decode_used (\<lambda>a. a\<lparr>iso1SignatureProperty_Id_isUsed := True\<rparr>)
           (decode_string_field j 51 iso1SignatureProperty_Id_characters
           (\<lambda>u a. a\<lparr>iso1SignatureProperty_Id_characters := u\<rparr>)
           (\<lambda>u a. a\<lparr>iso1SignatureProperty_Id_charactersLen := u\<rparr>)))),
          (1, decode_child 365 (decode_string_field j 51 iso1SignatureProperty_Target_characters
            (\<lambda>u a. a\<lparr>iso1SignatureProperty_Target_characters := u\<rparr>)
            (\<lambda>u a. a\<lparr>iso1SignatureProperty_Target_charactersLen := u\<rparr>)))] 363 x s
      else if grammarID = 364 then
        decode_switch 1
         [(0, decode_child 365 (decode_string_field j 51 iso1SignatureProperty_Target_characters
           (\<lambda>u a. a\<lparr>iso1SignatureProperty_Target_characters := u\<rparr>)
           (\<lambda>u a. a\<lparr>iso1SignatureProperty_Target_charactersLen := u\<rparr>)))] 364 x s
      else if grammarID = 365 then
        decode_switch 2
         [(0, decode_unsupported 116),
          (1, decode_child 366 (decode_used (\<lambda>a. a\<lparr>iso1SignatureProperty_ANY_isUsed := True\<rparr>)
            (decode_string_field j 51 iso1SignatureProperty_ANY_characters
            (\<lambda>u a. a\<lparr>iso1SignatureProperty_ANY_characters := u\<rparr>)
            (\<lambda>u a. a\<lparr>iso1SignatureProperty_ANY_charactersLen := u\<rparr>))))] 365 x s
      else if grammarID = 116 then
        decode_switch 2
         [(0, decode_unsupported 116),
          (1, decode_end 4),
          (2, decode_child 116 (decode_used (\<lambda>a. a\<lparr>iso1SignatureProperty_ANY_isUsed := True\<rparr>)
            (decode_string_field j 51 iso1SignatureProperty_ANY_characters
            (\<lambda>u a. a\<lparr>iso1SignatureProperty_ANY_characters := u\<rparr>)
            (\<lambda>u a. a\<lparr>iso1SignatureProperty_ANY_charactersLen := u\<rparr>))))] 116 x s
      else if grammarID = 366 then
        decode_switch 2
         [(0, decode_unsupported 116),
          (1, decode_child 366 (decode_used (\<lambda>a. a\<lparr>iso1SignatureProperty_ANY_isUsed := True\<rparr>)
            (decode_string_field j 51 iso1SignatureProperty_ANY_characters
            (\<lambda>u a. a\<lparr>iso1SignatureProperty_ANY_characters := u\<rparr>)
            (\<lambda>u a. a\<lparr>iso1SignatureProperty_ANY_charactersLen := u\<rparr>))))] 366 x s
      else Some (EXI_ERROR_UNKOWN_GRAMMAR_ID, (False, grammarID, x), s))"

definition decode_iso1SignaturePropertyType :: "u32 \<Rightarrow> iso1SignaturePropertyType decoder" where
  "decode_iso1SignaturePropertyType j x s = grammar_loop (iso1SignatureProperty_dec_step j) 363
      (fst x, init_iso1SignaturePropertyType (snd x)) s"

subsection \<open>\<open>iso1SignaturePropertiesType\<close>\<close>

record iso1SignaturePropertiesType =
  iso1SignatureProperties_Id_characters :: "u8 list"
  iso1SignatureProperties_Id_charactersLen :: u16
  iso1SignatureProperties_Id_isUsed :: bool
  iso1SignatureProperties_SignatureProperty_array :: "iso1SignaturePropertyType list"
  iso1SignatureProperties_SignatureProperty_arrayLen :: u16

definition init_iso1SignaturePropertiesType :: "iso1SignaturePropertiesType \<Rightarrow> iso1SignaturePropertiesType"
    where
  "init_iso1SignaturePropertiesType a = a\<lparr>iso1SignatureProperties_Id_isUsed := False,
      iso1SignatureProperties_SignatureProperty_arrayLen := 0\<rparr>"

record iso1SignatureProperties_locals =
  iso1SignatureProperties_SignatureProperty_currArrayIndex :: nat

definition iso1SignatureProperties_enc_step :: "iso1SignaturePropertiesType \<Rightarrow>
    iso1SignatureProperties_locals machine" where
  "iso1SignatureProperties_enc_step v grammarID x s =
     (if grammarID = 354 then
        if iso1SignatureProperties_Id_isUsed v then
          goto 355 x
          (encode_child 2 0 (encode_string_field (iso1SignatureProperties_Id_characters v)
          (iso1SignatureProperties_Id_charactersLen v)) s)
        else if iso1SignatureProperties_SignatureProperty_currArrayIndex x < unat
          (iso1SignatureProperties_SignatureProperty_arrayLen v) then
          encode_array_child 2 1 356 encode_iso1SignaturePropertyType
          (iso1SignatureProperties_SignatureProperty_array v) iso1SignatureProperties_SignatureProperty_currArrayIndex
          iso1SignatureProperties_SignatureProperty_currArrayIndex_update x s
        else Some (EXI_ERROR_UNKOWN_EVENT, (False, grammarID, x), s)
      else if grammarID = 355 then
        if iso1SignatureProperties_SignatureProperty_currArrayIndex x < unat
          (iso1SignatureProperties_SignatureProperty_arrayLen v) then
          encode_array_child 1 0 356 encode_iso1SignaturePropertyType
          (iso1SignatureProperties_SignatureProperty_array v) iso1SignatureProperties_SignatureProperty_currArrayIndex
          iso1SignatureProperties_SignatureProperty_currArrayIndex_update x s
        else Some (EXI_ERROR_UNKOWN_EVENT, (False, grammarID, x), s)
      else if grammarID = 356 then
        if iso1SignatureProperties_SignatureProperty_currArrayIndex x < unat
          (iso1SignatureProperties_SignatureProperty_arrayLen v) then
          encode_array_child 2 0 356 encode_iso1SignaturePropertyType
          (iso1SignatureProperties_SignatureProperty_array v) iso1SignatureProperties_SignatureProperty_currArrayIndex
          iso1SignatureProperties_SignatureProperty_currArrayIndex_update x s
        else finish 4 x (encodeNBitUnsignedInteger s 2 1)
      else Some (EXI_ERROR_UNKOWN_GRAMMAR_ID, (False, grammarID, x), s))"

definition encode_iso1SignaturePropertiesType :: "bitstream \<Rightarrow> iso1SignaturePropertiesType \<Rightarrow>
    (errn \<times> bitstream) option" where
  "encode_iso1SignaturePropertiesType s v = run_encoder (iso1SignatureProperties_enc_step v) 354
      \<lparr>iso1SignatureProperties_SignatureProperty_currArrayIndex = 0\<rparr> s"

abbreviation (input) decode_next_iso1SignatureProperties_SignatureProperty :: "u32 \<Rightarrow>
    iso1SignaturePropertiesType decoder" where
  "decode_next_iso1SignatureProperties_SignatureProperty j \<equiv> decode_element
      (decode_iso1SignaturePropertyType j) iso1SignatureProperties_SignatureProperty_array
      iso1SignatureProperties_SignatureProperty_arrayLen
      (\<lambda>xs n a. a\<lparr>iso1SignatureProperties_SignatureProperty_array := xs,
      iso1SignatureProperties_SignatureProperty_arrayLen := n\<rparr>)"

definition iso1SignatureProperties_dec_step :: "u32 \<Rightarrow> (dec_static \<times> iso1SignaturePropertiesType)
    machine" where
  "iso1SignatureProperties_dec_step j grammarID x s =
     (if grammarID = 354 then
        decode_switch 2
         [(0, decode_child 355 (decode_used (\<lambda>a. a\<lparr>iso1SignatureProperties_Id_isUsed := True\<rparr>)
           (decode_string_field j 51 iso1SignatureProperties_Id_characters
           (\<lambda>u a. a\<lparr>iso1SignatureProperties_Id_characters := u\<rparr>)
           (\<lambda>u a. a\<lparr>iso1SignatureProperties_Id_charactersLen := u\<rparr>)))),
          (1, decode_array_child 356 1 iso1SignatureProperties_SignatureProperty_arrayLen
            (decode_next_iso1SignatureProperties_SignatureProperty j))] 354 x s
      else if grammarID = 355 then
        decode_switch 1
         [(0, decode_array_child 356 1 iso1SignatureProperties_SignatureProperty_arrayLen
           (decode_next_iso1SignatureProperties_SignatureProperty j))] 355 x s
      else if grammarID = 356 then
        decode_switch 2
         [(0, decode_array_child 356 1 iso1SignatureProperties_SignatureProperty_arrayLen
           (decode_next_iso1SignatureProperties_SignatureProperty j)),
          (1, decode_end 4)] 356 x s
      else Some (EXI_ERROR_UNKOWN_GRAMMAR_ID, (False, grammarID, x), s))"

definition decode_iso1SignaturePropertiesType :: "u32 \<Rightarrow> iso1SignaturePropertiesType decoder" where
  "decode_iso1SignaturePropertiesType j x s = grammar_loop (iso1SignatureProperties_dec_step j) 354
      (fst x, init_iso1SignaturePropertiesType (snd x)) s"

text \<open>A simple element at the root of a document: its characters are read, its end is not.\<close>

definition decode_content ::
  "(dec_static \<times> 'a \<Rightarrow> bitstream \<Rightarrow> (errn \<times> (dec_static \<times> 'a) \<times> bitstream) option) \<Rightarrow>
   dec_static \<times> 'a \<Rightarrow> bitstream \<Rightarrow> (errn \<times> (dec_static \<times> 'a) \<times> bitstream) option" where
  "decode_content val x s = do {
     (errn, st, s1) \<leftarrow> decode_eventCode 1 (fst x) s;
     if errn = EXI_OK then
       if eventCode st = 0 then val (st, snd x) s1
       else Some (EXI_UNSUPPORTED_EVENT_CODE_CHARACTERISTICS, (st, snd x), s1)
     else Some (errn, (st, snd x), s1)
   }"

subsection \<open>\<open>iso1EXIDocument\<close>\<close>

record iso1EXIDocument =
  iso1EXIDocument_V2G_Message :: iso1AnonType_V2G_Message
  iso1EXIDocument_ServiceDiscoveryReq :: iso1ServiceDiscoveryReqType
  iso1EXIDocument_ServiceDiscoveryRes :: iso1ServiceDiscoveryResType
  iso1EXIDocument_MeteringReceiptReq :: iso1MeteringReceiptReqType
  iso1EXIDocument_PaymentDetailsReq :: iso1PaymentDetailsReqType
  iso1EXIDocument_MeteringReceiptRes :: iso1MeteringReceiptResType
  iso1EXIDocument_PaymentDetailsRes :: iso1PaymentDetailsResType
  iso1EXIDocument_SessionSetupReq :: iso1SessionSetupReqType
  iso1EXIDocument_SessionSetupRes :: iso1SessionSetupResType
  iso1EXIDocument_CableCheckReq :: iso1CableCheckReqType
  iso1EXIDocument_CableCheckRes :: iso1CableCheckResType
  iso1EXIDocument_CertificateInstallationReq :: iso1CertificateInstallationReqType
  iso1EXIDocument_CertificateInstallationRes :: iso1CertificateInstallationResType
  iso1EXIDocument_WeldingDetectionReq :: iso1WeldingDetectionReqType
  iso1EXIDocument_WeldingDetectionRes :: iso1WeldingDetectionResType
  iso1EXIDocument_CertificateUpdateReq :: iso1CertificateUpdateReqType
  iso1EXIDocument_CertificateUpdateRes :: iso1CertificateUpdateResType
  iso1EXIDocument_PaymentServiceSelectionReq :: iso1PaymentServiceSelectionReqType
  iso1EXIDocument_PowerDeliveryReq :: iso1PowerDeliveryReqType
  iso1EXIDocument_PaymentServiceSelectionRes :: iso1PaymentServiceSelectionResType
  iso1EXIDocument_PowerDeliveryRes :: iso1PowerDeliveryResType
  iso1EXIDocument_ChargingStatusReq :: iso1ChargingStatusReqType
  iso1EXIDocument_ChargingStatusRes :: iso1ChargingStatusResType
  iso1EXIDocument_BodyElement :: iso1BodyBaseType
  iso1EXIDocument_CurrentDemandReq :: iso1CurrentDemandReqType
  iso1EXIDocument_PreChargeReq :: iso1PreChargeReqType
  iso1EXIDocument_CurrentDemandRes :: iso1CurrentDemandResType
  iso1EXIDocument_PreChargeRes :: iso1PreChargeResType
  iso1EXIDocument_SessionStopReq :: iso1SessionStopReqType
  iso1EXIDocument_AuthorizationReq :: iso1AuthorizationReqType
  iso1EXIDocument_SessionStopRes :: iso1SessionStopResType
  iso1EXIDocument_AuthorizationRes :: iso1AuthorizationResType
  iso1EXIDocument_ChargeParameterDiscoveryReq :: iso1ChargeParameterDiscoveryReqType
  iso1EXIDocument_ChargeParameterDiscoveryRes :: iso1ChargeParameterDiscoveryResType
  iso1EXIDocument_ServiceDetailReq :: iso1ServiceDetailReqType
  iso1EXIDocument_ServiceDetailRes :: iso1ServiceDetailResType
  iso1EXIDocument_DC_EVSEStatus :: iso1DC_EVSEStatusType
  iso1EXIDocument_RelativeTimeInterval :: iso1RelativeTimeIntervalType
  iso1EXIDocument_SalesTariffEntry :: iso1SalesTariffEntryType
  iso1EXIDocument_DC_EVPowerDeliveryParameter :: iso1DC_EVPowerDeliveryParameterType
  iso1EXIDocument_SASchedules :: iso1SASchedulesType
  iso1EXIDocument_AC_EVChargeParameter :: iso1AC_EVChargeParameterType
  iso1EXIDocument_SAScheduleList :: iso1SAScheduleListType
  iso1EXIDocument_DC_EVStatus :: iso1DC_EVStatusType
  iso1EXIDocument_EVStatus :: iso1EVStatusType
  iso1EXIDocument_DC_EVChargeParameter :: iso1DC_EVChargeParameterType
  iso1EXIDocument_DC_EVSEChargeParameter :: iso1DC_EVSEChargeParameterType
  iso1EXIDocument_EVSEStatus :: iso1EVSEStatusType
  iso1EXIDocument_TimeInterval :: iso1IntervalType
  iso1EXIDocument_EVPowerDeliveryParameter :: iso1EVPowerDeliveryParameterType
  iso1EXIDocument_EVSEChargeParameter :: iso1EVSEChargeParameterType
  iso1EXIDocument_AC_EVSEStatus :: iso1AC_EVSEStatusType
  iso1EXIDocument_Entry :: iso1EntryType
  iso1EXIDocument_AC_EVSEChargeParameter :: iso1AC_EVSEChargeParameterType
  iso1EXIDocument_PMaxScheduleEntry :: iso1PMaxScheduleEntryType
  iso1EXIDocument_EVChargeParameter :: iso1EVChargeParameterType
  iso1EXIDocument_SignatureProperty :: iso1SignaturePropertyType
  iso1EXIDocument_DSAKeyValue :: iso1DSAKeyValueType
  iso1EXIDocument_SignatureProperties :: iso1SignaturePropertiesType
  iso1EXIDocument_KeyValue :: iso1KeyValueType
  iso1EXIDocument_Transforms :: iso1TransformsType
  iso1EXIDocument_DigestMethod :: iso1DigestMethodType
  iso1EXIDocument_Signature :: iso1SignatureType
  iso1EXIDocument_RetrievalMethod :: iso1RetrievalMethodType
  iso1EXIDocument_Manifest :: iso1ManifestType
  iso1EXIDocument_Reference :: iso1ReferenceType
  iso1EXIDocument_CanonicalizationMethod :: iso1CanonicalizationMethodType
  iso1EXIDocument_RSAKeyValue :: iso1RSAKeyValueType
  iso1EXIDocument_Transform :: iso1TransformType
  iso1EXIDocument_PGPData :: iso1PGPDataType
  iso1EXIDocument_MgmtData_characters :: "u8 list"
  iso1EXIDocument_MgmtData_charactersLen :: u16
  iso1EXIDocument_SignatureMethod :: iso1SignatureMethodType
  iso1EXIDocument_KeyInfo :: iso1KeyInfoType
  iso1EXIDocument_SPKIData :: iso1SPKIDataType
  iso1EXIDocument_X509Data :: iso1X509DataType
  iso1EXIDocument_SignatureValue :: iso1SignatureValueType
  iso1EXIDocument_KeyName_characters :: "u8 list"
  iso1EXIDocument_KeyName_charactersLen :: u16
  iso1EXIDocument_DigestValue_bytes :: "u8 list"
  iso1EXIDocument_DigestValue_bytesLen :: u16
  iso1EXIDocument_SignedInfo :: iso1SignedInfoType
  iso1EXIDocument_Object :: iso1ObjectType
  iso1EXIDocument_V2G_Message_isUsed :: bool
  iso1EXIDocument_ServiceDiscoveryReq_isUsed :: bool
  iso1EXIDocument_ServiceDiscoveryRes_isUsed :: bool
  iso1EXIDocument_MeteringReceiptReq_isUsed :: bool
  iso1EXIDocument_PaymentDetailsReq_isUsed :: bool
  iso1EXIDocument_MeteringReceiptRes_isUsed :: bool
  iso1EXIDocument_PaymentDetailsRes_isUsed :: bool
  iso1EXIDocument_SessionSetupReq_isUsed :: bool
  iso1EXIDocument_SessionSetupRes_isUsed :: bool
  iso1EXIDocument_CableCheckReq_isUsed :: bool
  iso1EXIDocument_CableCheckRes_isUsed :: bool
  iso1EXIDocument_CertificateInstallationReq_isUsed :: bool
  iso1EXIDocument_CertificateInstallationRes_isUsed :: bool
  iso1EXIDocument_WeldingDetectionReq_isUsed :: bool
  iso1EXIDocument_WeldingDetectionRes_isUsed :: bool
  iso1EXIDocument_CertificateUpdateReq_isUsed :: bool
  iso1EXIDocument_CertificateUpdateRes_isUsed :: bool
  iso1EXIDocument_PaymentServiceSelectionReq_isUsed :: bool
  iso1EXIDocument_PowerDeliveryReq_isUsed :: bool
  iso1EXIDocument_PaymentServiceSelectionRes_isUsed :: bool
  iso1EXIDocument_PowerDeliveryRes_isUsed :: bool
  iso1EXIDocument_ChargingStatusReq_isUsed :: bool
  iso1EXIDocument_ChargingStatusRes_isUsed :: bool
  iso1EXIDocument_BodyElement_isUsed :: bool
  iso1EXIDocument_CurrentDemandReq_isUsed :: bool
  iso1EXIDocument_PreChargeReq_isUsed :: bool
  iso1EXIDocument_CurrentDemandRes_isUsed :: bool
  iso1EXIDocument_PreChargeRes_isUsed :: bool
  iso1EXIDocument_SessionStopReq_isUsed :: bool
  iso1EXIDocument_AuthorizationReq_isUsed :: bool
  iso1EXIDocument_SessionStopRes_isUsed :: bool
  iso1EXIDocument_AuthorizationRes_isUsed :: bool
  iso1EXIDocument_ChargeParameterDiscoveryReq_isUsed :: bool
  iso1EXIDocument_ChargeParameterDiscoveryRes_isUsed :: bool
  iso1EXIDocument_ServiceDetailReq_isUsed :: bool
  iso1EXIDocument_ServiceDetailRes_isUsed :: bool
  iso1EXIDocument_DC_EVSEStatus_isUsed :: bool
  iso1EXIDocument_RelativeTimeInterval_isUsed :: bool
  iso1EXIDocument_SalesTariffEntry_isUsed :: bool
  iso1EXIDocument_DC_EVPowerDeliveryParameter_isUsed :: bool
  iso1EXIDocument_SASchedules_isUsed :: bool
  iso1EXIDocument_AC_EVChargeParameter_isUsed :: bool
  iso1EXIDocument_SAScheduleList_isUsed :: bool
  iso1EXIDocument_DC_EVStatus_isUsed :: bool
  iso1EXIDocument_EVStatus_isUsed :: bool
  iso1EXIDocument_DC_EVChargeParameter_isUsed :: bool
  iso1EXIDocument_DC_EVSEChargeParameter_isUsed :: bool
  iso1EXIDocument_EVSEStatus_isUsed :: bool
  iso1EXIDocument_TimeInterval_isUsed :: bool
  iso1EXIDocument_EVPowerDeliveryParameter_isUsed :: bool
  iso1EXIDocument_EVSEChargeParameter_isUsed :: bool
  iso1EXIDocument_AC_EVSEStatus_isUsed :: bool
  iso1EXIDocument_Entry_isUsed :: bool
  iso1EXIDocument_AC_EVSEChargeParameter_isUsed :: bool
  iso1EXIDocument_PMaxScheduleEntry_isUsed :: bool
  iso1EXIDocument_EVChargeParameter_isUsed :: bool
  iso1EXIDocument_SignatureProperty_isUsed :: bool
  iso1EXIDocument_DSAKeyValue_isUsed :: bool
  iso1EXIDocument_SignatureProperties_isUsed :: bool
  iso1EXIDocument_KeyValue_isUsed :: bool
  iso1EXIDocument_Transforms_isUsed :: bool
  iso1EXIDocument_DigestMethod_isUsed :: bool
  iso1EXIDocument_Signature_isUsed :: bool
  iso1EXIDocument_RetrievalMethod_isUsed :: bool
  iso1EXIDocument_Manifest_isUsed :: bool
  iso1EXIDocument_Reference_isUsed :: bool
  iso1EXIDocument_CanonicalizationMethod_isUsed :: bool
  iso1EXIDocument_RSAKeyValue_isUsed :: bool
  iso1EXIDocument_Transform_isUsed :: bool
  iso1EXIDocument_PGPData_isUsed :: bool
  iso1EXIDocument_MgmtData_isUsed :: bool
  iso1EXIDocument_SignatureMethod_isUsed :: bool
  iso1EXIDocument_KeyInfo_isUsed :: bool
  iso1EXIDocument_SPKIData_isUsed :: bool
  iso1EXIDocument_X509Data_isUsed :: bool
  iso1EXIDocument_SignatureValue_isUsed :: bool
  iso1EXIDocument_KeyName_isUsed :: bool
  iso1EXIDocument_DigestValue_isUsed :: bool
  iso1EXIDocument_SignedInfo_isUsed :: bool
  iso1EXIDocument_Object_isUsed :: bool
  iso1EXIDocument_warning :: int

definition init_iso1EXIDocument :: "iso1EXIDocument \<Rightarrow> iso1EXIDocument" where
  "init_iso1EXIDocument d = d\<lparr>iso1EXIDocument_V2G_Message_isUsed := False,
      iso1EXIDocument_ServiceDiscoveryReq_isUsed := False, iso1EXIDocument_ServiceDiscoveryRes_isUsed := False,
      iso1EXIDocument_MeteringReceiptReq_isUsed := False, iso1EXIDocument_PaymentDetailsReq_isUsed := False,
      iso1EXIDocument_MeteringReceiptRes_isUsed := False, iso1EXIDocument_PaymentDetailsRes_isUsed := False,
      iso1EXIDocument_SessionSetupReq_isUsed := False, iso1EXIDocument_SessionSetupRes_isUsed := False,
      iso1EXIDocument_CableCheckReq_isUsed := False, iso1EXIDocument_CableCheckRes_isUsed := False,
      iso1EXIDocument_CertificateInstallationReq_isUsed := False, iso1EXIDocument_CertificateInstallationRes_isUsed
      := False, iso1EXIDocument_WeldingDetectionReq_isUsed := False, iso1EXIDocument_WeldingDetectionRes_isUsed
      := False, iso1EXIDocument_CertificateUpdateReq_isUsed := False, iso1EXIDocument_CertificateUpdateRes_isUsed
      := False, iso1EXIDocument_PaymentServiceSelectionReq_isUsed := False, iso1EXIDocument_PowerDeliveryReq_isUsed
      := False, iso1EXIDocument_PaymentServiceSelectionRes_isUsed := False, iso1EXIDocument_PowerDeliveryRes_isUsed
      := False, iso1EXIDocument_ChargingStatusReq_isUsed := False, iso1EXIDocument_ChargingStatusRes_isUsed := False,
      iso1EXIDocument_BodyElement_isUsed := False, iso1EXIDocument_CurrentDemandReq_isUsed := False,
      iso1EXIDocument_PreChargeReq_isUsed := False, iso1EXIDocument_CurrentDemandRes_isUsed := False,
      iso1EXIDocument_PreChargeRes_isUsed := False, iso1EXIDocument_SessionStopReq_isUsed := False,
      iso1EXIDocument_AuthorizationReq_isUsed := False, iso1EXIDocument_SessionStopRes_isUsed := False,
      iso1EXIDocument_AuthorizationRes_isUsed := False, iso1EXIDocument_ChargeParameterDiscoveryReq_isUsed := False,
      iso1EXIDocument_ChargeParameterDiscoveryRes_isUsed := False, iso1EXIDocument_ServiceDetailReq_isUsed := False,
      iso1EXIDocument_ServiceDetailRes_isUsed := False, iso1EXIDocument_DC_EVSEStatus_isUsed := False,
      iso1EXIDocument_RelativeTimeInterval_isUsed := False, iso1EXIDocument_SalesTariffEntry_isUsed := False,
      iso1EXIDocument_DC_EVPowerDeliveryParameter_isUsed := False, iso1EXIDocument_SASchedules_isUsed := False,
      iso1EXIDocument_AC_EVChargeParameter_isUsed := False, iso1EXIDocument_SAScheduleList_isUsed := False,
      iso1EXIDocument_DC_EVStatus_isUsed := False, iso1EXIDocument_EVStatus_isUsed := False,
      iso1EXIDocument_DC_EVChargeParameter_isUsed := False, iso1EXIDocument_DC_EVSEChargeParameter_isUsed := False,
      iso1EXIDocument_EVSEStatus_isUsed := False, iso1EXIDocument_TimeInterval_isUsed := False,
      iso1EXIDocument_EVPowerDeliveryParameter_isUsed := False, iso1EXIDocument_EVSEChargeParameter_isUsed := False,
      iso1EXIDocument_AC_EVSEStatus_isUsed := False, iso1EXIDocument_Entry_isUsed := False,
      iso1EXIDocument_AC_EVSEChargeParameter_isUsed := False, iso1EXIDocument_PMaxScheduleEntry_isUsed := False,
      iso1EXIDocument_EVChargeParameter_isUsed := False, iso1EXIDocument_SignatureProperty_isUsed := False,
      iso1EXIDocument_DSAKeyValue_isUsed := False, iso1EXIDocument_SignatureProperties_isUsed := False,
      iso1EXIDocument_KeyValue_isUsed := False, iso1EXIDocument_Transforms_isUsed := False,
      iso1EXIDocument_DigestMethod_isUsed := False, iso1EXIDocument_Signature_isUsed := False,
      iso1EXIDocument_RetrievalMethod_isUsed := False, iso1EXIDocument_Manifest_isUsed := False,
      iso1EXIDocument_Reference_isUsed := False, iso1EXIDocument_CanonicalizationMethod_isUsed := False,
      iso1EXIDocument_RSAKeyValue_isUsed := False, iso1EXIDocument_Transform_isUsed := False,
      iso1EXIDocument_PGPData_isUsed := False, iso1EXIDocument_MgmtData_isUsed := False,
      iso1EXIDocument_SignatureMethod_isUsed := False, iso1EXIDocument_KeyInfo_isUsed := False,
      iso1EXIDocument_SPKIData_isUsed := False, iso1EXIDocument_X509Data_isUsed := False,
      iso1EXIDocument_SignatureValue_isUsed := False, iso1EXIDocument_KeyName_isUsed := False,
      iso1EXIDocument_DigestValue_isUsed := False, iso1EXIDocument_SignedInfo_isUsed := False,
      iso1EXIDocument_Object_isUsed := False\<rparr>"

definition iso1EXIDocument_enc_element_4 :: "bitstream \<Rightarrow> iso1EXIDocument \<Rightarrow>
    (errn \<times> bitstream) option" where
  "iso1EXIDocument_enc_element_4 s d =
     (if iso1EXIDocument_Signature_isUsed d then
       encode_child 7 67 (\<lambda>s. encode_iso1SignatureType s (iso1EXIDocument_Signature d)) s
      else if iso1EXIDocument_SignatureMethod_isUsed d then
        encode_child 7 68 (\<lambda>s. encode_iso1SignatureMethodType s (iso1EXIDocument_SignatureMethod d)) s
      else if iso1EXIDocument_SignatureProperties_isUsed d then
        encode_child 7 69 (\<lambda>s. encode_iso1SignaturePropertiesType s (iso1EXIDocument_SignatureProperties d)) s
      else if iso1EXIDocument_SignatureProperty_isUsed d then
        encode_child 7 70 (\<lambda>s. encode_iso1SignaturePropertyType s (iso1EXIDocument_SignatureProperty d)) s
      else if iso1EXIDocument_SignatureValue_isUsed d then
        encode_child 7 71 (\<lambda>s. encode_iso1SignatureValueType s (iso1EXIDocument_SignatureValue d)) s
      else if iso1EXIDocument_SignedInfo_isUsed d then
        encode_child 7 72 (\<lambda>s. encode_iso1SignedInfoType s (iso1EXIDocument_SignedInfo d)) s
      else if iso1EXIDocument_TimeInterval_isUsed d then
        encode_child 7 73 (\<lambda>s. encode_iso1IntervalType s (iso1EXIDocument_TimeInterval d)) s
      else if iso1EXIDocument_Transform_isUsed d then
        encode_child 7 74 (\<lambda>s. encode_iso1TransformType s (iso1EXIDocument_Transform d)) s
      else if iso1EXIDocument_Transforms_isUsed d then
        encode_child 7 75 (\<lambda>s. encode_iso1TransformsType s (iso1EXIDocument_Transforms d)) s
      else if iso1EXIDocument_V2G_Message_isUsed d then
        encode_child 7 76 (\<lambda>s. encode_iso1AnonType_V2G_Message s (iso1EXIDocument_V2G_Message d)) s
      else if iso1EXIDocument_WeldingDetectionReq_isUsed d then
        encode_child 7 77 (\<lambda>s. encode_iso1WeldingDetectionReqType s (iso1EXIDocument_WeldingDetectionReq d)) s
      else if iso1EXIDocument_WeldingDetectionRes_isUsed d then
        encode_child 7 78 (\<lambda>s. encode_iso1WeldingDetectionResType s (iso1EXIDocument_WeldingDetectionRes d)) s
      else if iso1EXIDocument_X509Data_isUsed d then
        encode_child 7 79 (\<lambda>s. encode_iso1X509DataType s (iso1EXIDocument_X509Data d)) s
      else Some (EXI_ERROR_UNKOWN_EVENT, s))"

definition iso1EXIDocument_enc_element_3 :: "bitstream \<Rightarrow> iso1EXIDocument \<Rightarrow>
    (errn \<times> bitstream) option" where
  "iso1EXIDocument_enc_element_3 s d =
     (if iso1EXIDocument_PaymentDetailsReq_isUsed d then
       encode_child 7 43 (\<lambda>s. encode_iso1PaymentDetailsReqType s (iso1EXIDocument_PaymentDetailsReq d)) s
      else if iso1EXIDocument_PaymentDetailsRes_isUsed d then
        encode_child 7 44 (\<lambda>s. encode_iso1PaymentDetailsResType s (iso1EXIDocument_PaymentDetailsRes d)) s
      else if iso1EXIDocument_PaymentServiceSelectionReq_isUsed d then
        encode_child 7 45
        (\<lambda>s. encode_iso1PaymentServiceSelectionReqType s (iso1EXIDocument_PaymentServiceSelectionReq d)) s
      else if iso1EXIDocument_PaymentServiceSelectionRes_isUsed d then
        encode_child 7 46
        (\<lambda>s. encode_iso1PaymentServiceSelectionResType s (iso1EXIDocument_PaymentServiceSelectionRes d)) s
      else if iso1EXIDocument_PowerDeliveryReq_isUsed d then
        encode_child 7 47 (\<lambda>s. encode_iso1PowerDeliveryReqType s (iso1EXIDocument_PowerDeliveryReq d)) s
      else if iso1EXIDocument_PowerDeliveryRes_isUsed d then
        encode_child 7 48 (\<lambda>s. encode_iso1PowerDeliveryResType s (iso1EXIDocument_PowerDeliveryRes d)) s
      else if iso1EXIDocument_PreChargeReq_isUsed d then
        encode_child 7 49 (\<lambda>s. encode_iso1PreChargeReqType s (iso1EXIDocument_PreChargeReq d)) s
      else if iso1EXIDocument_PreChargeRes_isUsed d then
        encode_child 7 50 (\<lambda>s. encode_iso1PreChargeResType s (iso1EXIDocument_PreChargeRes d)) s
      else if iso1EXIDocument_RSAKeyValue_isUsed d then
        encode_child 7 51 (\<lambda>s. encode_iso1RSAKeyValueType s (iso1EXIDocument_RSAKeyValue d)) s
      else if iso1EXIDocument_Reference_isUsed d then
        encode_child 7 52 (\<lambda>s. encode_iso1ReferenceType s (iso1EXIDocument_Reference d)) s
      else if iso1EXIDocument_RelativeTimeInterval_isUsed d then
        encode_child 7 53 (\<lambda>s. encode_iso1RelativeTimeIntervalType s (iso1EXIDocument_RelativeTimeInterval d))
        s
      else if iso1EXIDocument_RetrievalMethod_isUsed d then
        encode_child 7 54 (\<lambda>s. encode_iso1RetrievalMethodType s (iso1EXIDocument_RetrievalMethod d)) s
      else if iso1EXIDocument_SAScheduleList_isUsed d then
        encode_child 7 55 (\<lambda>s. encode_iso1SAScheduleListType s (iso1EXIDocument_SAScheduleList d)) s
      else if iso1EXIDocument_SASchedules_isUsed d then
        encode_child 7 56 (\<lambda>s. encode_iso1SASchedulesType s (iso1EXIDocument_SASchedules d)) s
      else if iso1EXIDocument_SPKIData_isUsed d then
        encode_child 7 57 (\<lambda>s. encode_iso1SPKIDataType s (iso1EXIDocument_SPKIData d)) s
      else if iso1EXIDocument_SalesTariffEntry_isUsed d then
        encode_child 7 58 (\<lambda>s. encode_iso1SalesTariffEntryType s (iso1EXIDocument_SalesTariffEntry d)) s
      else if iso1EXIDocument_ServiceDetailReq_isUsed d then
        encode_child 7 59 (\<lambda>s. encode_iso1ServiceDetailReqType s (iso1EXIDocument_ServiceDetailReq d)) s
      else if iso1EXIDocument_ServiceDetailRes_isUsed d then
        encode_child 7 60 (\<lambda>s. encode_iso1ServiceDetailResType s (iso1EXIDocument_ServiceDetailRes d)) s
      else if iso1EXIDocument_ServiceDiscoveryReq_isUsed d then
        encode_child 7 61 (\<lambda>s. encode_iso1ServiceDiscoveryReqType s (iso1EXIDocument_ServiceDiscoveryReq d)) s
      else if iso1EXIDocument_ServiceDiscoveryRes_isUsed d then
        encode_child 7 62 (\<lambda>s. encode_iso1ServiceDiscoveryResType s (iso1EXIDocument_ServiceDiscoveryRes d)) s
      else if iso1EXIDocument_SessionSetupReq_isUsed d then
        encode_child 7 63 (\<lambda>s. encode_iso1SessionSetupReqType s (iso1EXIDocument_SessionSetupReq d)) s
      else if iso1EXIDocument_SessionSetupRes_isUsed d then
        encode_child 7 64 (\<lambda>s. encode_iso1SessionSetupResType s (iso1EXIDocument_SessionSetupRes d)) s
      else if iso1EXIDocument_SessionStopReq_isUsed d then
        encode_child 7 65 (\<lambda>s. encode_iso1SessionStopReqType s (iso1EXIDocument_SessionStopReq d)) s
      else if iso1EXIDocument_SessionStopRes_isUsed d then
        encode_child 7 66 (\<lambda>s. encode_iso1SessionStopResType s (iso1EXIDocument_SessionStopRes d)) s
      else iso1EXIDocument_enc_element_4 s d)"

definition iso1EXIDocument_enc_element_2 :: "bitstream \<Rightarrow> iso1EXIDocument \<Rightarrow>
    (errn \<times> bitstream) option" where
  "iso1EXIDocument_enc_element_2 s d =
     (if iso1EXIDocument_DSAKeyValue_isUsed d then
       encode_child 7 24 (\<lambda>s. encode_iso1DSAKeyValueType s (iso1EXIDocument_DSAKeyValue d)) s
      else if iso1EXIDocument_DigestMethod_isUsed d then
        encode_child 7 25 (\<lambda>s. encode_iso1DigestMethodType s (iso1EXIDocument_DigestMethod d)) s
      else if iso1EXIDocument_DigestValue_isUsed d then
        encode_simple 7 26
        (encode_bytes_field (iso1EXIDocument_DigestValue_bytes d) (iso1EXIDocument_DigestValue_bytesLen d)) s
      else if iso1EXIDocument_EVChargeParameter_isUsed d then
        encode_child 7 27 (\<lambda>s. encode_iso1EVChargeParameterType s (iso1EXIDocument_EVChargeParameter d)) s
      else if iso1EXIDocument_EVPowerDeliveryParameter_isUsed d then
        encode_child 7 28
        (\<lambda>s. encode_iso1EVPowerDeliveryParameterType s (iso1EXIDocument_EVPowerDeliveryParameter d)) s
      else if iso1EXIDocument_EVSEChargeParameter_isUsed d then
        encode_child 7 29 (\<lambda>s. encode_iso1EVSEChargeParameterType s (iso1EXIDocument_EVSEChargeParameter d)) s
      else if iso1EXIDocument_EVSEStatus_isUsed d then
        encode_child 7 30 (\<lambda>s. encode_iso1EVSEStatusType s (iso1EXIDocument_EVSEStatus d)) s
      else if iso1EXIDocument_EVStatus_isUsed d then
        encode_child 7 31 (\<lambda>s. encode_iso1EVStatusType s (iso1EXIDocument_EVStatus d)) s
      else if iso1EXIDocument_Entry_isUsed d then
        encode_child 7 32 (\<lambda>s. encode_iso1EntryType s (iso1EXIDocument_Entry d)) s
      else if iso1EXIDocument_KeyInfo_isUsed d then
        encode_child 7 33 (\<lambda>s. encode_iso1KeyInfoType s (iso1EXIDocument_KeyInfo d)) s
      else if iso1EXIDocument_KeyName_isUsed d then
        encode_simple 7 34
        (encode_string_field (iso1EXIDocument_KeyName_characters d) (iso1EXIDocument_KeyName_charactersLen d)) s
      else if iso1EXIDocument_KeyValue_isUsed d then
        encode_child 7 35 (\<lambda>s. encode_iso1KeyValueType s (iso1EXIDocument_KeyValue d)) s
      else if iso1EXIDocument_Manifest_isUsed d then
        encode_child 7 36 (\<lambda>s. encode_iso1ManifestType s (iso1EXIDocument_Manifest d)) s
      else if iso1EXIDocument_MeteringReceiptReq_isUsed d then
        encode_child 7 37 (\<lambda>s. encode_iso1MeteringReceiptReqType s (iso1EXIDocument_MeteringReceiptReq d)) s
      else if iso1EXIDocument_MeteringReceiptRes_isUsed d then
        encode_child 7 38 (\<lambda>s. encode_iso1MeteringReceiptResType s (iso1EXIDocument_MeteringReceiptRes d)) s
      else if iso1EXIDocument_MgmtData_isUsed d then
        encode_simple 7 39
        (encode_string_field (iso1EXIDocument_MgmtData_characters d) (iso1EXIDocument_MgmtData_charactersLen d)) s
      else if iso1EXIDocument_Object_isUsed d then
        encode_child 7 40 (\<lambda>s. encode_iso1ObjectType s (iso1EXIDocument_Object d)) s
      else if iso1EXIDocument_PGPData_isUsed d then
        encode_child 7 41 (\<lambda>s. encode_iso1PGPDataType s (iso1EXIDocument_PGPData d)) s
      else if iso1EXIDocument_PMaxScheduleEntry_isUsed d then
        encode_child 7 42 (\<lambda>s. encode_iso1PMaxScheduleEntryType s (iso1EXIDocument_PMaxScheduleEntry d)) s
      else iso1EXIDocument_enc_element_3 s d)"

definition iso1EXIDocument_enc_element :: "bitstream \<Rightarrow> iso1EXIDocument \<Rightarrow>
    (errn \<times> bitstream) option" where
  "iso1EXIDocument_enc_element s d =
     (if iso1EXIDocument_AC_EVChargeParameter_isUsed d then
       encode_child 7 0 (\<lambda>s. encode_iso1AC_EVChargeParameterType s (iso1EXIDocument_AC_EVChargeParameter d)) s
      else if iso1EXIDocument_AC_EVSEChargeParameter_isUsed d then
        encode_child 7 1
        (\<lambda>s. encode_iso1AC_EVSEChargeParameterType s (iso1EXIDocument_AC_EVSEChargeParameter d)) s
      else if iso1EXIDocument_AC_EVSEStatus_isUsed d then
        encode_child 7 2 (\<lambda>s. encode_iso1AC_EVSEStatusType s (iso1EXIDocument_AC_EVSEStatus d)) s
      else if iso1EXIDocument_AuthorizationReq_isUsed d then
        encode_child 7 3 (\<lambda>s. encode_iso1AuthorizationReqType s (iso1EXIDocument_AuthorizationReq d)) s
      else if iso1EXIDocument_AuthorizationRes_isUsed d then
        encode_child 7 4 (\<lambda>s. encode_iso1AuthorizationResType s (iso1EXIDocument_AuthorizationRes d)) s
      else if iso1EXIDocument_BodyElement_isUsed d then
        encode_child 7 5 (\<lambda>s. encode_iso1BodyBaseType s (iso1EXIDocument_BodyElement d)) s
      else if iso1EXIDocument_CableCheckReq_isUsed d then
        encode_child 7 6 (\<lambda>s. encode_iso1CableCheckReqType s (iso1EXIDocument_CableCheckReq d)) s
      else if iso1EXIDocument_CableCheckRes_isUsed d then
        encode_child 7 7 (\<lambda>s. encode_iso1CableCheckResType s (iso1EXIDocument_CableCheckRes d)) s
      else if iso1EXIDocument_CanonicalizationMethod_isUsed d then
        encode_child 7 8
        (\<lambda>s. encode_iso1CanonicalizationMethodType s (iso1EXIDocument_CanonicalizationMethod d)) s
      else if iso1EXIDocument_CertificateInstallationReq_isUsed d then
        encode_child 7 9
        (\<lambda>s. encode_iso1CertificateInstallationReqType s (iso1EXIDocument_CertificateInstallationReq d)) s
      else if iso1EXIDocument_CertificateInstallationRes_isUsed d then
        encode_child 7 10
        (\<lambda>s. encode_iso1CertificateInstallationResType s (iso1EXIDocument_CertificateInstallationRes d)) s
      else if iso1EXIDocument_CertificateUpdateReq_isUsed d then
        encode_child 7 11 (\<lambda>s. encode_iso1CertificateUpdateReqType s (iso1EXIDocument_CertificateUpdateReq d))
        s
      else if iso1EXIDocument_CertificateUpdateRes_isUsed d then
        encode_child 7 12 (\<lambda>s. encode_iso1CertificateUpdateResType s (iso1EXIDocument_CertificateUpdateRes d))
        s
      else if iso1EXIDocument_ChargeParameterDiscoveryReq_isUsed d then
        encode_child 7 13
        (\<lambda>s. encode_iso1ChargeParameterDiscoveryReqType s (iso1EXIDocument_ChargeParameterDiscoveryReq d)) s
      else if iso1EXIDocument_ChargeParameterDiscoveryRes_isUsed d then
        encode_child 7 14
        (\<lambda>s. encode_iso1ChargeParameterDiscoveryResType s (iso1EXIDocument_ChargeParameterDiscoveryRes d)) s
      else if iso1EXIDocument_ChargingStatusReq_isUsed d then
        encode_child 7 15 (\<lambda>s. encode_iso1ChargingStatusReqType s (iso1EXIDocument_ChargingStatusReq d)) s
      else if iso1EXIDocument_ChargingStatusRes_isUsed d then
        encode_child 7 16 (\<lambda>s. encode_iso1ChargingStatusResType s (iso1EXIDocument_ChargingStatusRes d)) s
      else if iso1EXIDocument_CurrentDemandReq_isUsed d then
        encode_child 7 17 (\<lambda>s. encode_iso1CurrentDemandReqType s (iso1EXIDocument_CurrentDemandReq d)) s
      else if iso1EXIDocument_CurrentDemandRes_isUsed d then
        encode_child 7 18 (\<lambda>s. encode_iso1CurrentDemandResType s (iso1EXIDocument_CurrentDemandRes d)) s
      else if iso1EXIDocument_DC_EVChargeParameter_isUsed d then
        encode_child 7 19 (\<lambda>s. encode_iso1DC_EVChargeParameterType s (iso1EXIDocument_DC_EVChargeParameter d))
        s
      else if iso1EXIDocument_DC_EVPowerDeliveryParameter_isUsed d then
        encode_child 7 20
        (\<lambda>s. encode_iso1DC_EVPowerDeliveryParameterType s (iso1EXIDocument_DC_EVPowerDeliveryParameter d)) s
      else if iso1EXIDocument_DC_EVSEChargeParameter_isUsed d then
        encode_child 7 21
        (\<lambda>s. encode_iso1DC_EVSEChargeParameterType s (iso1EXIDocument_DC_EVSEChargeParameter d)) s
      else if iso1EXIDocument_DC_EVSEStatus_isUsed d then
        encode_child 7 22 (\<lambda>s. encode_iso1DC_EVSEStatusType s (iso1EXIDocument_DC_EVSEStatus d)) s
      else if iso1EXIDocument_DC_EVStatus_isUsed d then
        encode_child 7 23 (\<lambda>s. encode_iso1DC_EVStatusType s (iso1EXIDocument_DC_EVStatus d)) s
      else iso1EXIDocument_enc_element_2 s d)"

definition encode_iso1ExiDocument :: "bitstream \<Rightarrow> iso1EXIDocument \<Rightarrow> (errn \<times> bitstream)
    option" where
  "encode_iso1ExiDocument s exiDoc = do {
     (errn, s) \<leftarrow> writeEXIHeader s;
     (errn, s) \<leftarrow> (if errn = EXI_OK then iso1EXIDocument_enc_element s exiDoc else Some (errn, s));
     if errn = EXI_OK then encodeFinish s else Some (errn, s)
   }"

definition iso1EXIDocument_dec_element_4 :: "u32 \<Rightarrow> iso1EXIDocument decoder" where
  "iso1EXIDocument_dec_element_4 j x s =
     (if eventCode (fst x) = 74 then
       decode_used (\<lambda>a. a\<lparr>iso1EXIDocument_Transform_isUsed := True\<rparr>)
       (decode_sub (decode_iso1TransformType j) iso1EXIDocument_Transform
       (\<lambda>u a. a\<lparr>iso1EXIDocument_Transform := u\<rparr>)) x s
      else if eventCode (fst x) = 75 then
        decode_used (\<lambda>a. a\<lparr>iso1EXIDocument_Transforms_isUsed := True\<rparr>)
        (decode_sub (decode_iso1TransformsType j) iso1EXIDocument_Transforms
        (\<lambda>u a. a\<lparr>iso1EXIDocument_Transforms := u\<rparr>)) x s
      else if eventCode (fst x) = 76 then
        decode_used (\<lambda>a. a\<lparr>iso1EXIDocument_V2G_Message_isUsed := True\<rparr>)
        (decode_sub (decode_iso1AnonType_V2G_Message j) iso1EXIDocument_V2G_Message
        (\<lambda>u a. a\<lparr>iso1EXIDocument_V2G_Message := u\<rparr>)) x s
      else if eventCode (fst x) = 77 then
        decode_used (\<lambda>a. a\<lparr>iso1EXIDocument_WeldingDetectionReq_isUsed := True\<rparr>)
        (decode_sub (decode_iso1WeldingDetectionReqType j) iso1EXIDocument_WeldingDetectionReq
        (\<lambda>u a. a\<lparr>iso1EXIDocument_WeldingDetectionReq := u\<rparr>)) x s
      else if eventCode (fst x) = 78 then
        decode_used (\<lambda>a. a\<lparr>iso1EXIDocument_WeldingDetectionRes_isUsed := True\<rparr>)
        (decode_sub (decode_iso1WeldingDetectionResType j) iso1EXIDocument_WeldingDetectionRes
        (\<lambda>u a. a\<lparr>iso1EXIDocument_WeldingDetectionRes := u\<rparr>)) x s
      else if eventCode (fst x) = 79 then
        decode_used (\<lambda>a. a\<lparr>iso1EXIDocument_X509Data_isUsed := True\<rparr>)
        (decode_sub (decode_iso1X509DataType j) iso1EXIDocument_X509Data
        (\<lambda>u a. a\<lparr>iso1EXIDocument_X509Data := u\<rparr>)) x s
      else Some (EXI_ERROR_UNEXPECTED_EVENT_LEVEL1, x, s))"

definition iso1EXIDocument_dec_element_3 :: "u32 \<Rightarrow> iso1EXIDocument decoder" where
  "iso1EXIDocument_dec_element_3 j x s =
     (if eventCode (fst x) = 45 then
       decode_used (\<lambda>a. a\<lparr>iso1EXIDocument_PaymentServiceSelectionReq_isUsed := True\<rparr>)
       (decode_sub (decode_iso1PaymentServiceSelectionReqType j) iso1EXIDocument_PaymentServiceSelectionReq
       (\<lambda>u a. a\<lparr>iso1EXIDocument_PaymentServiceSelectionReq := u\<rparr>)) x s
      else if eventCode (fst x) = 46 then
        decode_used (\<lambda>a. a\<lparr>iso1EXIDocument_PaymentServiceSelectionRes_isUsed := True\<rparr>)
        (decode_sub (decode_iso1PaymentServiceSelectionResType j) iso1EXIDocument_PaymentServiceSelectionRes
        (\<lambda>u a. a\<lparr>iso1EXIDocument_PaymentServiceSelectionRes := u\<rparr>)) x s
      else if eventCode (fst x) = 47 then
        decode_used (\<lambda>a. a\<lparr>iso1EXIDocument_PowerDeliveryReq_isUsed := True\<rparr>)
        (decode_sub (decode_iso1PowerDeliveryReqType j) iso1EXIDocument_PowerDeliveryReq
        (\<lambda>u a. a\<lparr>iso1EXIDocument_PowerDeliveryReq := u\<rparr>)) x s
      else if eventCode (fst x) = 48 then
        decode_used (\<lambda>a. a\<lparr>iso1EXIDocument_PowerDeliveryRes_isUsed := True\<rparr>)
        (decode_sub (decode_iso1PowerDeliveryResType j) iso1EXIDocument_PowerDeliveryRes
        (\<lambda>u a. a\<lparr>iso1EXIDocument_PowerDeliveryRes := u\<rparr>)) x s
      else if eventCode (fst x) = 49 then
        decode_used (\<lambda>a. a\<lparr>iso1EXIDocument_PreChargeReq_isUsed := True\<rparr>)
        (decode_sub (decode_iso1PreChargeReqType j) iso1EXIDocument_PreChargeReq
        (\<lambda>u a. a\<lparr>iso1EXIDocument_PreChargeReq := u\<rparr>)) x s
      else if eventCode (fst x) = 50 then
        decode_used (\<lambda>a. a\<lparr>iso1EXIDocument_PreChargeRes_isUsed := True\<rparr>)
        (decode_sub (decode_iso1PreChargeResType j) iso1EXIDocument_PreChargeRes
        (\<lambda>u a. a\<lparr>iso1EXIDocument_PreChargeRes := u\<rparr>)) x s
      else if eventCode (fst x) = 51 then
        decode_used (\<lambda>a. a\<lparr>iso1EXIDocument_RSAKeyValue_isUsed := True\<rparr>)
        (decode_sub (decode_iso1RSAKeyValueType j) iso1EXIDocument_RSAKeyValue
        (\<lambda>u a. a\<lparr>iso1EXIDocument_RSAKeyValue := u\<rparr>)) x s
      else if eventCode (fst x) = 52 then
        decode_used (\<lambda>a. a\<lparr>iso1EXIDocument_Reference_isUsed := True\<rparr>)
        (decode_sub (decode_iso1ReferenceType j) iso1EXIDocument_Reference
        (\<lambda>u a. a\<lparr>iso1EXIDocument_Reference := u\<rparr>)) x s
      else if eventCode (fst x) = 53 then
        decode_used (\<lambda>a. a\<lparr>iso1EXIDocument_RelativeTimeInterval_isUsed := True\<rparr>)
        (decode_sub (decode_iso1RelativeTimeIntervalType j) iso1EXIDocument_RelativeTimeInterval
        (\<lambda>u a. a\<lparr>iso1EXIDocument_RelativeTimeInterval := u\<rparr>)) x s
      else if eventCode (fst x) = 54 then
        decode_used (\<lambda>a. a\<lparr>iso1EXIDocument_RetrievalMethod_isUsed := True\<rparr>)
        (decode_sub (decode_iso1RetrievalMethodType j) iso1EXIDocument_RetrievalMethod
        (\<lambda>u a. a\<lparr>iso1EXIDocument_RetrievalMethod := u\<rparr>)) x s
      else if eventCode (fst x) = 55 then
        decode_used (\<lambda>a. a\<lparr>iso1EXIDocument_SAScheduleList_isUsed := True\<rparr>)
        (decode_sub (decode_iso1SAScheduleListType j) iso1EXIDocument_SAScheduleList
        (\<lambda>u a. a\<lparr>iso1EXIDocument_SAScheduleList := u\<rparr>)) x s
      else if eventCode (fst x) = 56 then
        decode_used (\<lambda>a. a\<lparr>iso1EXIDocument_SASchedules_isUsed := True\<rparr>)
        (decode_sub (decode_iso1SASchedulesType j) iso1EXIDocument_SASchedules
        (\<lambda>u a. a\<lparr>iso1EXIDocument_SASchedules := u\<rparr>)) x s
      else if eventCode (fst x) = 57 then
        decode_used (\<lambda>a. a\<lparr>iso1EXIDocument_SPKIData_isUsed := True\<rparr>)
        (decode_sub (decode_iso1SPKIDataType j) iso1EXIDocument_SPKIData
        (\<lambda>u a. a\<lparr>iso1EXIDocument_SPKIData := u\<rparr>)) x s
      else if eventCode (fst x) = 58 then
        decode_used (\<lambda>a. a\<lparr>iso1EXIDocument_SalesTariffEntry_isUsed := True\<rparr>)
        (decode_sub (decode_iso1SalesTariffEntryType j) iso1EXIDocument_SalesTariffEntry
        (\<lambda>u a. a\<lparr>iso1EXIDocument_SalesTariffEntry := u\<rparr>)) x s
      else if eventCode (fst x) = 59 then
        decode_used (\<lambda>a. a\<lparr>iso1EXIDocument_ServiceDetailReq_isUsed := True\<rparr>)
        (decode_sub (decode_iso1ServiceDetailReqType j) iso1EXIDocument_ServiceDetailReq
        (\<lambda>u a. a\<lparr>iso1EXIDocument_ServiceDetailReq := u\<rparr>)) x s
      else if eventCode (fst x) = 60 then
        decode_used (\<lambda>a. a\<lparr>iso1EXIDocument_ServiceDetailRes_isUsed := True\<rparr>)
        (decode_sub (decode_iso1ServiceDetailResType j) iso1EXIDocument_ServiceDetailRes
        (\<lambda>u a. a\<lparr>iso1EXIDocument_ServiceDetailRes := u\<rparr>)) x s
      else if eventCode (fst x) = 61 then
        decode_used (\<lambda>a. a\<lparr>iso1EXIDocument_ServiceDiscoveryReq_isUsed := True\<rparr>)
        (decode_sub (decode_iso1ServiceDiscoveryReqType j) iso1EXIDocument_ServiceDiscoveryReq
        (\<lambda>u a. a\<lparr>iso1EXIDocument_ServiceDiscoveryReq := u\<rparr>)) x s
      else if eventCode (fst x) = 62 then
        decode_used (\<lambda>a. a\<lparr>iso1EXIDocument_ServiceDiscoveryRes_isUsed := True\<rparr>)
        (decode_sub (decode_iso1ServiceDiscoveryResType j) iso1EXIDocument_ServiceDiscoveryRes
        (\<lambda>u a. a\<lparr>iso1EXIDocument_ServiceDiscoveryRes := u\<rparr>)) x s
      else if eventCode (fst x) = 63 then
        decode_used (\<lambda>a. a\<lparr>iso1EXIDocument_SessionSetupReq_isUsed := True\<rparr>)
        (decode_sub (decode_iso1SessionSetupReqType j) iso1EXIDocument_SessionSetupReq
        (\<lambda>u a. a\<lparr>iso1EXIDocument_SessionSetupReq := u\<rparr>)) x s
      else if eventCode (fst x) = 64 then
        decode_used (\<lambda>a. a\<lparr>iso1EXIDocument_SessionSetupRes_isUsed := True\<rparr>)
        (decode_sub (decode_iso1SessionSetupResType j) iso1EXIDocument_SessionSetupRes
        (\<lambda>u a. a\<lparr>iso1EXIDocument_SessionSetupRes := u\<rparr>)) x s
      else if eventCode (fst x) = 65 then
        decode_used (\<lambda>a. a\<lparr>iso1EXIDocument_SessionStopReq_isUsed := True\<rparr>)
        (decode_sub (decode_iso1SessionStopReqType j) iso1EXIDocument_SessionStopReq
        (\<lambda>u a. a\<lparr>iso1EXIDocument_SessionStopReq := u\<rparr>)) x s
      else if eventCode (fst x) = 66 then
        decode_used (\<lambda>a. a\<lparr>iso1EXIDocument_SessionStopRes_isUsed := True\<rparr>)
        (decode_sub (decode_iso1SessionStopResType j) iso1EXIDocument_SessionStopRes
        (\<lambda>u a. a\<lparr>iso1EXIDocument_SessionStopRes := u\<rparr>)) x s
      else if eventCode (fst x) = 67 then
        decode_used (\<lambda>a. a\<lparr>iso1EXIDocument_Signature_isUsed := True\<rparr>)
        (decode_sub (decode_iso1SignatureType j) iso1EXIDocument_Signature
        (\<lambda>u a. a\<lparr>iso1EXIDocument_Signature := u\<rparr>)) x s
      else if eventCode (fst x) = 68 then
        decode_used (\<lambda>a. a\<lparr>iso1EXIDocument_SignatureMethod_isUsed := True\<rparr>)
        (decode_sub (decode_iso1SignatureMethodType j) iso1EXIDocument_SignatureMethod
        (\<lambda>u a. a\<lparr>iso1EXIDocument_SignatureMethod := u\<rparr>)) x s
      else if eventCode (fst x) = 69 then
        decode_used (\<lambda>a. a\<lparr>iso1EXIDocument_SignatureProperties_isUsed := True\<rparr>)
        (decode_sub (decode_iso1SignaturePropertiesType j) iso1EXIDocument_SignatureProperties
        (\<lambda>u a. a\<lparr>iso1EXIDocument_SignatureProperties := u\<rparr>)) x s
      else if eventCode (fst x) = 70 then
        decode_used (\<lambda>a. a\<lparr>iso1EXIDocument_SignatureProperty_isUsed := True\<rparr>)
        (decode_sub (decode_iso1SignaturePropertyType j) iso1EXIDocument_SignatureProperty
        (\<lambda>u a. a\<lparr>iso1EXIDocument_SignatureProperty := u\<rparr>)) x s
      else if eventCode (fst x) = 71 then
        decode_used (\<lambda>a. a\<lparr>iso1EXIDocument_SignatureValue_isUsed := True\<rparr>)
        (decode_sub (decode_iso1SignatureValueType j) iso1EXIDocument_SignatureValue
        (\<lambda>u a. a\<lparr>iso1EXIDocument_SignatureValue := u\<rparr>)) x s
      else if eventCode (fst x) = 72 then
        decode_used (\<lambda>a. a\<lparr>iso1EXIDocument_SignedInfo_isUsed := True\<rparr>)
        (decode_sub (decode_iso1SignedInfoType j) iso1EXIDocument_SignedInfo
        (\<lambda>u a. a\<lparr>iso1EXIDocument_SignedInfo := u\<rparr>)) x s
      else if eventCode (fst x) = 73 then
        decode_used (\<lambda>a. a\<lparr>iso1EXIDocument_TimeInterval_isUsed := True\<rparr>)
        (decode_sub (decode_iso1IntervalType j) iso1EXIDocument_TimeInterval
        (\<lambda>u a. a\<lparr>iso1EXIDocument_TimeInterval := u\<rparr>)) x s
      else iso1EXIDocument_dec_element_4 j x s)"

definition iso1EXIDocument_dec_element_2 :: "u32 \<Rightarrow> iso1EXIDocument decoder" where
  "iso1EXIDocument_dec_element_2 j x s =
     (if eventCode (fst x) = 26 then
       decode_content (decode_used (\<lambda>a. a\<lparr>iso1EXIDocument_DigestValue_isUsed := True\<rparr>)
       (decode_bytes_field j 350 iso1EXIDocument_DigestValue_bytes
       (\<lambda>u a. a\<lparr>iso1EXIDocument_DigestValue_bytes := u\<rparr>)
       (\<lambda>u a. a\<lparr>iso1EXIDocument_DigestValue_bytesLen := u\<rparr>))) x s
      else if eventCode (fst x) = 27 then
        decode_used (\<lambda>a. a\<lparr>iso1EXIDocument_EVChargeParameter_isUsed := True\<rparr>)
        (decode_sub (decode_iso1EVChargeParameterType j) iso1EXIDocument_EVChargeParameter
        (\<lambda>u a. a\<lparr>iso1EXIDocument_EVChargeParameter := u\<rparr>)) x s
      else if eventCode (fst x) = 28 then
        decode_used (\<lambda>a. a\<lparr>iso1EXIDocument_EVPowerDeliveryParameter_isUsed := True\<rparr>)
        (decode_sub (decode_iso1EVPowerDeliveryParameterType j) iso1EXIDocument_EVPowerDeliveryParameter
        (\<lambda>u a. a\<lparr>iso1EXIDocument_EVPowerDeliveryParameter := u\<rparr>)) x s
      else if eventCode (fst x) = 29 then
        decode_used (\<lambda>a. a\<lparr>iso1EXIDocument_EVSEChargeParameter_isUsed := True\<rparr>)
        (decode_sub (decode_iso1EVSEChargeParameterType j) iso1EXIDocument_EVSEChargeParameter
        (\<lambda>u a. a\<lparr>iso1EXIDocument_EVSEChargeParameter := u\<rparr>)) x s
      else if eventCode (fst x) = 30 then
        decode_used (\<lambda>a. a\<lparr>iso1EXIDocument_EVSEStatus_isUsed := True\<rparr>)
        (decode_sub (decode_iso1EVSEStatusType j) iso1EXIDocument_EVSEStatus
        (\<lambda>u a. a\<lparr>iso1EXIDocument_EVSEStatus := u\<rparr>)) x s
      else if eventCode (fst x) = 31 then
        decode_used (\<lambda>a. a\<lparr>iso1EXIDocument_EVStatus_isUsed := True\<rparr>)
        (decode_sub (decode_iso1EVStatusType j) iso1EXIDocument_EVStatus
        (\<lambda>u a. a\<lparr>iso1EXIDocument_EVStatus := u\<rparr>)) x s
      else if eventCode (fst x) = 32 then
        decode_used (\<lambda>a. a\<lparr>iso1EXIDocument_Entry_isUsed := True\<rparr>)
        (decode_sub (decode_iso1EntryType j) iso1EXIDocument_Entry
        (\<lambda>u a. a\<lparr>iso1EXIDocument_Entry := u\<rparr>)) x s
      else if eventCode (fst x) = 33 then
        decode_used (\<lambda>a. a\<lparr>iso1EXIDocument_KeyInfo_isUsed := True\<rparr>)
        (decode_sub (decode_iso1KeyInfoType j) iso1EXIDocument_KeyInfo
        (\<lambda>u a. a\<lparr>iso1EXIDocument_KeyInfo := u\<rparr>)) x s
      else if eventCode (fst x) = 34 then
        decode_content (decode_used (\<lambda>a. a\<lparr>iso1EXIDocument_KeyName_isUsed := True\<rparr>)
        (decode_string_field j 51 iso1EXIDocument_KeyName_characters
        (\<lambda>u a. a\<lparr>iso1EXIDocument_KeyName_characters := u\<rparr>)
        (\<lambda>u a. a\<lparr>iso1EXIDocument_KeyName_charactersLen := u\<rparr>))) x s
      else if eventCode (fst x) = 35 then
        decode_used (\<lambda>a. a\<lparr>iso1EXIDocument_KeyValue_isUsed := True\<rparr>)
        (decode_sub (decode_iso1KeyValueType j) iso1EXIDocument_KeyValue
        (\<lambda>u a. a\<lparr>iso1EXIDocument_KeyValue := u\<rparr>)) x s
      else if eventCode (fst x) = 36 then
        decode_used (\<lambda>a. a\<lparr>iso1EXIDocument_Manifest_isUsed := True\<rparr>)
        (decode_sub (decode_iso1ManifestType j) iso1EXIDocument_Manifest
        (\<lambda>u a. a\<lparr>iso1EXIDocument_Manifest := u\<rparr>)) x s
      else if eventCode (fst x) = 37 then
        decode_used (\<lambda>a. a\<lparr>iso1EXIDocument_MeteringReceiptReq_isUsed := True\<rparr>)
        (decode_sub (decode_iso1MeteringReceiptReqType j) iso1EXIDocument_MeteringReceiptReq
        (\<lambda>u a. a\<lparr>iso1EXIDocument_MeteringReceiptReq := u\<rparr>)) x s
      else if eventCode (fst x) = 38 then
        decode_used (\<lambda>a. a\<lparr>iso1EXIDocument_MeteringReceiptRes_isUsed := True\<rparr>)
        (decode_sub (decode_iso1MeteringReceiptResType j) iso1EXIDocument_MeteringReceiptRes
        (\<lambda>u a. a\<lparr>iso1EXIDocument_MeteringReceiptRes := u\<rparr>)) x s
      else if eventCode (fst x) = 39 then
        decode_content (decode_used (\<lambda>a. a\<lparr>iso1EXIDocument_MgmtData_isUsed := True\<rparr>)
        (decode_string_field j 51 iso1EXIDocument_MgmtData_characters
        (\<lambda>u a. a\<lparr>iso1EXIDocument_MgmtData_characters := u\<rparr>)
        (\<lambda>u a. a\<lparr>iso1EXIDocument_MgmtData_charactersLen := u\<rparr>))) x s
      else if eventCode (fst x) = 40 then
        decode_used (\<lambda>a. a\<lparr>iso1EXIDocument_Object_isUsed := True\<rparr>)
        (decode_sub (decode_iso1ObjectType j) iso1EXIDocument_Object
        (\<lambda>u a. a\<lparr>iso1EXIDocument_Object := u\<rparr>)) x s
      else if eventCode (fst x) = 41 then
        decode_used (\<lambda>a. a\<lparr>iso1EXIDocument_PGPData_isUsed := True\<rparr>)
        (decode_sub (decode_iso1PGPDataType j) iso1EXIDocument_PGPData
        (\<lambda>u a. a\<lparr>iso1EXIDocument_PGPData := u\<rparr>)) x s
      else if eventCode (fst x) = 42 then
        decode_used (\<lambda>a. a\<lparr>iso1EXIDocument_PMaxScheduleEntry_isUsed := True\<rparr>)
        (decode_sub (decode_iso1PMaxScheduleEntryType j) iso1EXIDocument_PMaxScheduleEntry
        (\<lambda>u a. a\<lparr>iso1EXIDocument_PMaxScheduleEntry := u\<rparr>)) x s
      else if eventCode (fst x) = 43 then
        decode_used (\<lambda>a. a\<lparr>iso1EXIDocument_PaymentDetailsReq_isUsed := True\<rparr>)
        (decode_sub (decode_iso1PaymentDetailsReqType j) iso1EXIDocument_PaymentDetailsReq
        (\<lambda>u a. a\<lparr>iso1EXIDocument_PaymentDetailsReq := u\<rparr>)) x s
      else if eventCode (fst x) = 44 then
        decode_used (\<lambda>a. a\<lparr>iso1EXIDocument_PaymentDetailsRes_isUsed := True\<rparr>)
        (decode_sub (decode_iso1PaymentDetailsResType j) iso1EXIDocument_PaymentDetailsRes
        (\<lambda>u a. a\<lparr>iso1EXIDocument_PaymentDetailsRes := u\<rparr>)) x s
      else iso1EXIDocument_dec_element_3 j x s)"

definition iso1EXIDocument_dec_element :: "u32 \<Rightarrow> iso1EXIDocument decoder" where
  "iso1EXIDocument_dec_element j x s =
     (if eventCode (fst x) = 0 then
       decode_used (\<lambda>a. a\<lparr>iso1EXIDocument_AC_EVChargeParameter_isUsed := True\<rparr>)
       (decode_sub (decode_iso1AC_EVChargeParameterType j) iso1EXIDocument_AC_EVChargeParameter
       (\<lambda>u a. a\<lparr>iso1EXIDocument_AC_EVChargeParameter := u\<rparr>)) x s
      else if eventCode (fst x) = 1 then
        decode_used (\<lambda>a. a\<lparr>iso1EXIDocument_AC_EVSEChargeParameter_isUsed := True\<rparr>)
        (decode_sub (decode_iso1AC_EVSEChargeParameterType j) iso1EXIDocument_AC_EVSEChargeParameter
        (\<lambda>u a. a\<lparr>iso1EXIDocument_AC_EVSEChargeParameter := u\<rparr>)) x s
      else if eventCode (fst x) = 2 then
        decode_used (\<lambda>a. a\<lparr>iso1EXIDocument_AC_EVSEStatus_isUsed := True\<rparr>)
        (decode_sub (decode_iso1AC_EVSEStatusType j) iso1EXIDocument_AC_EVSEStatus
        (\<lambda>u a. a\<lparr>iso1EXIDocument_AC_EVSEStatus := u\<rparr>)) x s
      else if eventCode (fst x) = 3 then
        decode_used (\<lambda>a. a\<lparr>iso1EXIDocument_AuthorizationReq_isUsed := True\<rparr>)
        (decode_sub (decode_iso1AuthorizationReqType j) iso1EXIDocument_AuthorizationReq
        (\<lambda>u a. a\<lparr>iso1EXIDocument_AuthorizationReq := u\<rparr>)) x s
      else if eventCode (fst x) = 4 then
        decode_used (\<lambda>a. a\<lparr>iso1EXIDocument_AuthorizationRes_isUsed := True\<rparr>)
        (decode_sub (decode_iso1AuthorizationResType j) iso1EXIDocument_AuthorizationRes
        (\<lambda>u a. a\<lparr>iso1EXIDocument_AuthorizationRes := u\<rparr>)) x s
      else if eventCode (fst x) = 5 then
        decode_used (\<lambda>a. a\<lparr>iso1EXIDocument_BodyElement_isUsed := True\<rparr>)
        (decode_sub (decode_iso1BodyBaseType j) iso1EXIDocument_BodyElement
        (\<lambda>u a. a\<lparr>iso1EXIDocument_BodyElement := u\<rparr>)) x s
      else if eventCode (fst x) = 6 then
        decode_used (\<lambda>a. a\<lparr>iso1EXIDocument_CableCheckReq_isUsed := True\<rparr>)
        (decode_sub (decode_iso1CableCheckReqType j) iso1EXIDocument_CableCheckReq
        (\<lambda>u a. a\<lparr>iso1EXIDocument_CableCheckReq := u\<rparr>)) x s
      else if eventCode (fst x) = 7 then
        decode_used (\<lambda>a. a\<lparr>iso1EXIDocument_CableCheckRes_isUsed := True\<rparr>)
        (decode_sub (decode_iso1CableCheckResType j) iso1EXIDocument_CableCheckRes
        (\<lambda>u a. a\<lparr>iso1EXIDocument_CableCheckRes := u\<rparr>)) x s
      else if eventCode (fst x) = 8 then
        decode_used (\<lambda>a. a\<lparr>iso1EXIDocument_CanonicalizationMethod_isUsed := True\<rparr>)
        (decode_sub (decode_iso1CanonicalizationMethodType j) iso1EXIDocument_CanonicalizationMethod
        (\<lambda>u a. a\<lparr>iso1EXIDocument_CanonicalizationMethod := u\<rparr>)) x s
      else if eventCode (fst x) = 9 then
        decode_used (\<lambda>a. a\<lparr>iso1EXIDocument_CertificateInstallationReq_isUsed := True\<rparr>)
        (decode_sub (decode_iso1CertificateInstallationReqType j) iso1EXIDocument_CertificateInstallationReq
        (\<lambda>u a. a\<lparr>iso1EXIDocument_CertificateInstallationReq := u\<rparr>)) x s
      else if eventCode (fst x) = 10 then
        decode_used (\<lambda>a. a\<lparr>iso1EXIDocument_CertificateInstallationRes_isUsed := True\<rparr>)
        (decode_sub (decode_iso1CertificateInstallationResType j) iso1EXIDocument_CertificateInstallationRes
        (\<lambda>u a. a\<lparr>iso1EXIDocument_CertificateInstallationRes := u\<rparr>)) x s
      else if eventCode (fst x) = 11 then
        decode_used (\<lambda>a. a\<lparr>iso1EXIDocument_CertificateUpdateReq_isUsed := True\<rparr>)
        (decode_sub (decode_iso1CertificateUpdateReqType j) iso1EXIDocument_CertificateUpdateReq
        (\<lambda>u a. a\<lparr>iso1EXIDocument_CertificateUpdateReq := u\<rparr>)) x s
      else if eventCode (fst x) = 12 then
        decode_used (\<lambda>a. a\<lparr>iso1EXIDocument_CertificateUpdateRes_isUsed := True\<rparr>)
        (decode_sub (decode_iso1CertificateUpdateResType j) iso1EXIDocument_CertificateUpdateRes
        (\<lambda>u a. a\<lparr>iso1EXIDocument_CertificateUpdateRes := u\<rparr>)) x s
      else if eventCode (fst x) = 13 then
        decode_used (\<lambda>a. a\<lparr>iso1EXIDocument_ChargeParameterDiscoveryReq_isUsed := True\<rparr>)
        (decode_sub (decode_iso1ChargeParameterDiscoveryReqType j) iso1EXIDocument_ChargeParameterDiscoveryReq
        (\<lambda>u a. a\<lparr>iso1EXIDocument_ChargeParameterDiscoveryReq := u\<rparr>)) x s
      else if eventCode (fst x) = 14 then
        decode_used (\<lambda>a. a\<lparr>iso1EXIDocument_ChargeParameterDiscoveryRes_isUsed := True\<rparr>)
        (decode_sub (decode_iso1ChargeParameterDiscoveryResType j) iso1EXIDocument_ChargeParameterDiscoveryRes
        (\<lambda>u a. a\<lparr>iso1EXIDocument_ChargeParameterDiscoveryRes := u\<rparr>)) x s
      else if eventCode (fst x) = 15 then
        decode_used (\<lambda>a. a\<lparr>iso1EXIDocument_ChargingStatusReq_isUsed := True\<rparr>)
        (decode_sub (decode_iso1ChargingStatusReqType j) iso1EXIDocument_ChargingStatusReq
        (\<lambda>u a. a\<lparr>iso1EXIDocument_ChargingStatusReq := u\<rparr>)) x s
      else if eventCode (fst x) = 16 then
        decode_used (\<lambda>a. a\<lparr>iso1EXIDocument_ChargingStatusRes_isUsed := True\<rparr>)
        (decode_sub (decode_iso1ChargingStatusResType j) iso1EXIDocument_ChargingStatusRes
        (\<lambda>u a. a\<lparr>iso1EXIDocument_ChargingStatusRes := u\<rparr>)) x s
      else if eventCode (fst x) = 17 then
        decode_used (\<lambda>a. a\<lparr>iso1EXIDocument_CurrentDemandReq_isUsed := True\<rparr>)
        (decode_sub (decode_iso1CurrentDemandReqType j) iso1EXIDocument_CurrentDemandReq
        (\<lambda>u a. a\<lparr>iso1EXIDocument_CurrentDemandReq := u\<rparr>)) x s
      else if eventCode (fst x) = 18 then
        decode_used (\<lambda>a. a\<lparr>iso1EXIDocument_CurrentDemandRes_isUsed := True\<rparr>)
        (decode_sub (decode_iso1CurrentDemandResType j) iso1EXIDocument_CurrentDemandRes
        (\<lambda>u a. a\<lparr>iso1EXIDocument_CurrentDemandRes := u\<rparr>)) x s
      else if eventCode (fst x) = 19 then
        decode_used (\<lambda>a. a\<lparr>iso1EXIDocument_DC_EVChargeParameter_isUsed := True\<rparr>)
        (decode_sub (decode_iso1DC_EVChargeParameterType j) iso1EXIDocument_DC_EVChargeParameter
        (\<lambda>u a. a\<lparr>iso1EXIDocument_DC_EVChargeParameter := u\<rparr>)) x s
      else if eventCode (fst x) = 20 then
        decode_used (\<lambda>a. a\<lparr>iso1EXIDocument_DC_EVPowerDeliveryParameter_isUsed := True\<rparr>)
        (decode_sub (decode_iso1DC_EVPowerDeliveryParameterType j) iso1EXIDocument_DC_EVPowerDeliveryParameter
        (\<lambda>u a. a\<lparr>iso1EXIDocument_DC_EVPowerDeliveryParameter := u\<rparr>)) x s
      else if eventCode (fst x) = 21 then
        decode_used (\<lambda>a. a\<lparr>iso1EXIDocument_DC_EVSEChargeParameter_isUsed := True\<rparr>)
        (decode_sub (decode_iso1DC_EVSEChargeParameterType j) iso1EXIDocument_DC_EVSEChargeParameter
        (\<lambda>u a. a\<lparr>iso1EXIDocument_DC_EVSEChargeParameter := u\<rparr>)) x s
      else if eventCode (fst x) = 22 then
        decode_used (\<lambda>a. a\<lparr>iso1EXIDocument_DC_EVSEStatus_isUsed := True\<rparr>)
        (decode_sub (decode_iso1DC_EVSEStatusType j) iso1EXIDocument_DC_EVSEStatus
        (\<lambda>u a. a\<lparr>iso1EXIDocument_DC_EVSEStatus := u\<rparr>)) x s
      else if eventCode (fst x) = 23 then
        decode_used (\<lambda>a. a\<lparr>iso1EXIDocument_DC_EVStatus_isUsed := True\<rparr>)
        (decode_sub (decode_iso1DC_EVStatusType j) iso1EXIDocument_DC_EVStatus
        (\<lambda>u a. a\<lparr>iso1EXIDocument_DC_EVStatus := u\<rparr>)) x s
      else if eventCode (fst x) = 24 then
        decode_used (\<lambda>a. a\<lparr>iso1EXIDocument_DSAKeyValue_isUsed := True\<rparr>)
        (decode_sub (decode_iso1DSAKeyValueType j) iso1EXIDocument_DSAKeyValue
        (\<lambda>u a. a\<lparr>iso1EXIDocument_DSAKeyValue := u\<rparr>)) x s
      else if eventCode (fst x) = 25 then
        decode_used (\<lambda>a. a\<lparr>iso1EXIDocument_DigestMethod_isUsed := True\<rparr>)
        (decode_sub (decode_iso1DigestMethodType j) iso1EXIDocument_DigestMethod
        (\<lambda>u a. a\<lparr>iso1EXIDocument_DigestMethod := u\<rparr>)) x s
      else iso1EXIDocument_dec_element_2 j x s)"

definition decode_iso1ExiDocument :: "u32 \<Rightarrow> dec_static \<Rightarrow> bitstream \<Rightarrow>
    iso1EXIDocument \<Rightarrow>
    (errn \<times> (dec_static \<times> iso1EXIDocument) \<times> bitstream) option" where
  "decode_iso1ExiDocument j st s exiDoc = do {
     (errn, s) \<leftarrow> readEXIHeader s;
     if errn = EXI_OK then
       let d = init_iso1EXIDocument exiDoc in do {
         (errn, st, s) \<leftarrow> decode_eventCode 7 st s;
         if errn = EXI_OK then iso1EXIDocument_dec_element j (st, d) s else Some (errn, (st, d), s)
       }
     else Some (errn, (st, exiDoc), s)
   }"

subsection \<open>Documents with a message\<close>

text \<open>
  The documents of the communication: the message is the one element that is used. The bits of such a
  document are the header, the number of the element, and those of the message.
\<close>

definition message_document :: "iso1EXIDocument \<Rightarrow> bool" where
  "message_document d \<longleftrightarrow> d = (init_iso1EXIDocument d)\<lparr>iso1EXIDocument_V2G_Message_isUsed := True\<rparr>"

definition document_ok :: "iso1EXIDocument \<Rightarrow> bool" where
  "document_ok d \<longleftrightarrow> message_document d \<and> iso1V2G_Message_ok (iso1EXIDocument_V2G_Message d)"

definition document_bits :: "iso1EXIDocument \<Rightarrow> nat" where
  "document_bits d = 15 + iso1V2G_Message_bits (iso1EXIDocument_V2G_Message d)"

definition document_sized :: "iso1EXIDocument \<Rightarrow> bool" where
  "document_sized d \<longleftrightarrow> iso1V2G_Message_sized (iso1EXIDocument_V2G_Message d)"

text \<open>The same message has arrived, and nothing else.\<close>

definition same_document :: "iso1EXIDocument \<Rightarrow> iso1EXIDocument \<Rightarrow> bool" where
  "same_document d d' \<longleftrightarrow> message_document d' \<and>
     same_iso1V2G_Message (iso1EXIDocument_V2G_Message d) (iso1EXIDocument_V2G_Message d')"

lemma init_used_is_message_document:
  "message_document ((init_iso1EXIDocument d)\<lparr>iso1EXIDocument_V2G_Message := v, iso1EXIDocument_V2G_Message_isUsed := True\<rparr>)"
  by (cases d) (simp only: message_document_def init_iso1EXIDocument_def iso1EXIDocument.update_convs)

lemma init_document_message [simp]: "iso1EXIDocument_V2G_Message (init_iso1EXIDocument d) = iso1EXIDocument_V2G_Message d"
  by (simp add: init_iso1EXIDocument_def)

lemma enc_element_used:
  "iso1EXIDocument_enc_element s ((init_iso1EXIDocument d)\<lparr>iso1EXIDocument_V2G_Message_isUsed := True\<rparr>) =
     encode_child 7 76 (\<lambda>s. encode_iso1AnonType_V2G_Message s (iso1EXIDocument_V2G_Message d)) s"
  by (simp add: iso1EXIDocument_enc_element_def iso1EXIDocument_enc_element_2_def iso1EXIDocument_enc_element_3_def
      iso1EXIDocument_enc_element_4_def init_iso1EXIDocument_def)

lemma enc_element_message:
  assumes "message_document d"
  shows "iso1EXIDocument_enc_element s d =
    encode_child 7 76 (\<lambda>s. encode_iso1AnonType_V2G_Message s (iso1EXIDocument_V2G_Message d)) s"
proof -
  have "iso1EXIDocument_enc_element s d =
      iso1EXIDocument_enc_element s ((init_iso1EXIDocument d)\<lparr>iso1EXIDocument_V2G_Message_isUsed := True\<rparr>)"
    using assms unfolding message_document_def by (rule arg_cong)
  then show ?thesis unfolding enc_element_used .
qed

lemma dec_element_message:
  "eventCode st = 76 \<Longrightarrow> iso1EXIDocument_dec_element j (st, d) =
     decode_used (\<lambda>a. a\<lparr>iso1EXIDocument_V2G_Message_isUsed := True\<rparr>)
       (decode_sub (decode_iso1AnonType_V2G_Message j) iso1EXIDocument_V2G_Message
         (\<lambda>u a. a\<lparr>iso1EXIDocument_V2G_Message := u\<rparr>)) (st, d)"
  by (rule ext) (simp add: iso1EXIDocument_dec_element_def iso1EXIDocument_dec_element_2_def
      iso1EXIDocument_dec_element_3_def iso1EXIDocument_dec_element_4_def)

text \<open>The bits a writer emits are determined by the writer.\<close>

lemma emits_unique:
  assumes "wr.emits W bs" "wr.emits W cs"
  shows "bs = cs"
proof -
  define s where "s = reset_out (blank_stream (length bs + length cs))"
  have s: "wf_out s" "(length (written s) + length bs) div 8 \<le> stream_size s"
    "(length (written s) + length cs) div 8 \<le> stream_size s" by (simp_all add: s_def startable_def)
  from wr.emitsD [OF assms(1) s(1,2)] wr.emitsD [OF assms(2) s(1,3)] show ?thesis by auto
qed

lemma iso1_document:
  assumes "document_ok d"
  shows "\<exists>W bs. (\<forall>s. encode_iso1ExiDocument s d = session W s) \<and> wr.emits W bs \<and> length bs \<le> document_bits d \<and>
    (\<forall>j st t r d0. startable t \<longrightarrow> unread (reset_in t) = bs @ r \<longrightarrow> document_sized d0 \<longrightarrow>
       (\<exists>st' d' t'. decode_iso1ExiDocument j st t d0 = Some (EXI_OK, (st', d'), t') \<and>
         (same_document d d' \<and> document_sized d') \<and> stream_data t' = stream_data t))"
proof -
  let ?m = "iso1EXIDocument_V2G_Message d"
  let ?enc = "\<lambda>s. encode_iso1AnonType_V2G_Message s ?m"
  let ?Q = "\<lambda>a. same_iso1V2G_Message ?m a \<and> iso1V2G_Message_sized a"
  have ok: "message_document d" "iso1V2G_Message_ok ?m" using assms by (simp_all add: document_ok_def)
  have reads: "reads (iso1V2G_Message_bits ?m) ?enc (decode_iso1AnonType_V2G_Message j) a ?Q"
    if "iso1V2G_Message_sized a" for j a
    by (rule reads_iso1V2G_Message [OF ok(2) that])
  obtain bs where bs: "length bs \<le> iso1V2G_Message_bits ?m" "wr.emits ?enc bs"
    by (rule readsE [OF reads [OF sized_zero_iso1V2G_Message]])
  define body where "body = encode_child 7 76 ?enc"
  define W where "W s = (do { (e, s1) \<leftarrow> writeBits s 8 128; if e = EXI_OK then body s1 else Some (e, s1) })" for s
  have code: "take_bit 7 (76 :: u32) = 76" by simp
  have body: "wr.emits body (bits 7 (76 :: u32) @ bs)"
    unfolding body_def by (rule emits_encode_child [OF _ bs(2)]) simp
  have W: "wr.emits W (header_bits @ bits 7 (76 :: u32) @ bs)"
    unfolding W_def using wr.emits_then [OF wr.writes_imp_emits [OF writes_header] body] .
  have "encode_iso1ExiDocument s d = session W s" for s
    by (auto simp: encode_iso1ExiDocument_def writeEXIHeader_reset enc_element_message [OF ok(1)] session_def W_def
        body_def intro!: option_bind_cong)
  moreover have "\<exists>st' d' t'. decode_iso1ExiDocument j st t d0 = Some (EXI_OK, (st', d'), t') \<and>
      (same_document d d' \<and> document_sized d') \<and> stream_data t' = stream_data t"
    if t: "startable t" "unread (reset_in t) = (header_bits @ bits 7 (76 :: u32) @ bs) @ r" "document_sized d0"
    for j st t r d0
  proof -
    let ?d = "init_iso1EXIDocument d0"
    from t(2) have "unread (reset_in t) = header_bits @ bits 7 (76 :: u32) @ bs @ r" by simp
    from readEXIHeader_ok [OF t(1) this] obtain s1 where s1: "readEXIHeader t = Some (EXI_OK, s1)" "wf_in s1"
      "unread s1 = bits 7 (76 :: u32) @ bs @ r" "stream_data s1 = stream_data t" by blast
    from rd.takesD [OF takes_decode_eventCode [of 7 76 st] s1(2,3)] code
    obtain s2 where s2: "decode_eventCode 7 st s1 = Some (EXI_OK, st\<lparr>eventCode := 76\<rparr>, s2)" "wf_in s2"
      "unread s2 = bs @ r" "stream_data s2 = stream_data t" using s1(4) by auto
    have "iso1V2G_Message_sized (iso1EXIDocument_V2G_Message ?d)" using t(3) by (simp add: document_sized_def)
    from readsE [OF reads [OF this]] obtain cs m' where cs: "wr.emits ?enc cs" "?Q m'"
      "\<exists>st'. rd.takes (decode_iso1AnonType_V2G_Message j (st\<lparr>eventCode := 76\<rparr>, iso1EXIDocument_V2G_Message ?d)) cs (st', m')"
      by metis
    obtain st' where "rd.takes (decode_iso1AnonType_V2G_Message j (st\<lparr>eventCode := 76\<rparr>, iso1EXIDocument_V2G_Message ?d))
        bs (st', m')" using cs(3) emits_unique [OF cs(1) bs(2)] by blast
    from rd.takesD [OF this s2(2,3)] cs(2) s2(4) show ?thesis
      by (auto simp: decode_iso1ExiDocument_def s1(1) s2(1) dec_element_message decode_used_def decode_sub_def
          same_document_def document_sized_def init_used_is_message_document)
  qed
  ultimately show ?thesis using W bs(1) by (intro exI [of _ W] exI) (auto simp: document_bits_def)
qed

interpretation iso1: document_codec encode_iso1ExiDocument decode_iso1ExiDocument document_ok document_bits
  document_sized "\<lambda>d d'. same_document d d' \<and> document_sized d'"
  by unfold_locales (rule iso1_document)


subsection \<open>A zeroed document\<close>

definition zero_iso1SignatureProperty :: iso1SignaturePropertyType where
  "zero_iso1SignatureProperty = \<lparr>iso1SignatureProperty_Target_characters = replicate 51 0,
      iso1SignatureProperty_Target_charactersLen = 0, iso1SignatureProperty_Id_characters = replicate 51 0,
      iso1SignatureProperty_Id_charactersLen = 0, iso1SignatureProperty_Id_isUsed = False,
      iso1SignatureProperty_ANY_characters = replicate 51 0, iso1SignatureProperty_ANY_charactersLen = 0,
      iso1SignatureProperty_ANY_isUsed = False\<rparr>"

definition zero_iso1SignatureProperties :: iso1SignaturePropertiesType where
  "zero_iso1SignatureProperties = \<lparr>iso1SignatureProperties_Id_characters = replicate 51 0,
      iso1SignatureProperties_Id_charactersLen = 0, iso1SignatureProperties_Id_isUsed = False,
      iso1SignatureProperties_SignatureProperty_array = replicate 1 zero_iso1SignatureProperty,
      iso1SignatureProperties_SignatureProperty_arrayLen = 0\<rparr>"

definition zero_iso1EXIDocument :: iso1EXIDocument where
  "zero_iso1EXIDocument = \<lparr>iso1EXIDocument_V2G_Message = zero_iso1V2G_Message,
      iso1EXIDocument_ServiceDiscoveryReq = zero_iso1ServiceDiscoveryReq,
      iso1EXIDocument_ServiceDiscoveryRes = zero_iso1ServiceDiscoveryRes,
      iso1EXIDocument_MeteringReceiptReq = zero_iso1MeteringReceiptReq,
      iso1EXIDocument_PaymentDetailsReq = zero_iso1PaymentDetailsReq,
      iso1EXIDocument_MeteringReceiptRes = zero_iso1MeteringReceiptRes,
      iso1EXIDocument_PaymentDetailsRes = zero_iso1PaymentDetailsRes,
      iso1EXIDocument_SessionSetupReq = zero_iso1SessionSetupReq,
      iso1EXIDocument_SessionSetupRes = zero_iso1SessionSetupRes,
      iso1EXIDocument_CableCheckReq = zero_iso1CableCheckReq, iso1EXIDocument_CableCheckRes = zero_iso1CableCheckRes,
      iso1EXIDocument_CertificateInstallationReq = zero_iso1CertificateInstallationReq,
      iso1EXIDocument_CertificateInstallationRes = zero_iso1CertificateInstallationRes,
      iso1EXIDocument_WeldingDetectionReq = zero_iso1WeldingDetectionReq,
      iso1EXIDocument_WeldingDetectionRes = zero_iso1WeldingDetectionRes,
      iso1EXIDocument_CertificateUpdateReq = zero_iso1CertificateUpdateReq,
      iso1EXIDocument_CertificateUpdateRes = zero_iso1CertificateUpdateRes,
      iso1EXIDocument_PaymentServiceSelectionReq = zero_iso1PaymentServiceSelectionReq,
      iso1EXIDocument_PowerDeliveryReq = zero_iso1PowerDeliveryReq,
      iso1EXIDocument_PaymentServiceSelectionRes = zero_iso1PaymentServiceSelectionRes,
      iso1EXIDocument_PowerDeliveryRes = zero_iso1PowerDeliveryRes,
      iso1EXIDocument_ChargingStatusReq = zero_iso1ChargingStatusReq,
      iso1EXIDocument_ChargingStatusRes = zero_iso1ChargingStatusRes, iso1EXIDocument_BodyElement = zero_iso1BodyBase,
      iso1EXIDocument_CurrentDemandReq = zero_iso1CurrentDemandReq,
      iso1EXIDocument_PreChargeReq = zero_iso1PreChargeReq,
      iso1EXIDocument_CurrentDemandRes = zero_iso1CurrentDemandRes,
      iso1EXIDocument_PreChargeRes = zero_iso1PreChargeRes, iso1EXIDocument_SessionStopReq = zero_iso1SessionStopReq,
      iso1EXIDocument_AuthorizationReq = zero_iso1AuthorizationReq,
      iso1EXIDocument_SessionStopRes = zero_iso1SessionStopRes,
      iso1EXIDocument_AuthorizationRes = zero_iso1AuthorizationRes,
      iso1EXIDocument_ChargeParameterDiscoveryReq = zero_iso1ChargeParameterDiscoveryReq,
      iso1EXIDocument_ChargeParameterDiscoveryRes = zero_iso1ChargeParameterDiscoveryRes,
      iso1EXIDocument_ServiceDetailReq = zero_iso1ServiceDetailReq,
      iso1EXIDocument_ServiceDetailRes = zero_iso1ServiceDetailRes,
      iso1EXIDocument_DC_EVSEStatus = zero_iso1DC_EVSEStatus,
      iso1EXIDocument_RelativeTimeInterval = zero_iso1RelativeTimeInterval,
      iso1EXIDocument_SalesTariffEntry = zero_iso1SalesTariffEntry,
      iso1EXIDocument_DC_EVPowerDeliveryParameter = zero_iso1DC_EVPowerDeliveryParameter,
      iso1EXIDocument_SASchedules = zero_iso1SASchedules,
      iso1EXIDocument_AC_EVChargeParameter = zero_iso1AC_EVChargeParameter,
      iso1EXIDocument_SAScheduleList = zero_iso1SAScheduleList, iso1EXIDocument_DC_EVStatus = zero_iso1DC_EVStatus,
      iso1EXIDocument_EVStatus = zero_iso1EVStatus,
      iso1EXIDocument_DC_EVChargeParameter = zero_iso1DC_EVChargeParameter,
      iso1EXIDocument_DC_EVSEChargeParameter = zero_iso1DC_EVSEChargeParameter,
      iso1EXIDocument_EVSEStatus = zero_iso1EVSEStatus, iso1EXIDocument_TimeInterval = zero_iso1Interval,
      iso1EXIDocument_EVPowerDeliveryParameter = zero_iso1EVPowerDeliveryParameter,
      iso1EXIDocument_EVSEChargeParameter = zero_iso1EVSEChargeParameter,
      iso1EXIDocument_AC_EVSEStatus = zero_iso1AC_EVSEStatus, iso1EXIDocument_Entry = zero_iso1Entry,
      iso1EXIDocument_AC_EVSEChargeParameter = zero_iso1AC_EVSEChargeParameter,
      iso1EXIDocument_PMaxScheduleEntry = zero_iso1PMaxScheduleEntry,
      iso1EXIDocument_EVChargeParameter = zero_iso1EVChargeParameter,
      iso1EXIDocument_SignatureProperty = zero_iso1SignatureProperty,
      iso1EXIDocument_DSAKeyValue = zero_iso1DSAKeyValue,
      iso1EXIDocument_SignatureProperties = zero_iso1SignatureProperties,
      iso1EXIDocument_KeyValue = zero_iso1KeyValue, iso1EXIDocument_Transforms = zero_iso1Transforms,
      iso1EXIDocument_DigestMethod = zero_iso1DigestMethod, iso1EXIDocument_Signature = zero_iso1Signature,
      iso1EXIDocument_RetrievalMethod = zero_iso1RetrievalMethod, iso1EXIDocument_Manifest = zero_iso1Manifest,
      iso1EXIDocument_Reference = zero_iso1Reference,
      iso1EXIDocument_CanonicalizationMethod = zero_iso1CanonicalizationMethod,
      iso1EXIDocument_RSAKeyValue = zero_iso1RSAKeyValue, iso1EXIDocument_Transform = zero_iso1Transform,
      iso1EXIDocument_PGPData = zero_iso1PGPData, iso1EXIDocument_MgmtData_characters = replicate 51 0,
      iso1EXIDocument_MgmtData_charactersLen = 0, iso1EXIDocument_SignatureMethod = zero_iso1SignatureMethod,
      iso1EXIDocument_KeyInfo = zero_iso1KeyInfo, iso1EXIDocument_SPKIData = zero_iso1SPKIData,
      iso1EXIDocument_X509Data = zero_iso1X509Data, iso1EXIDocument_SignatureValue = zero_iso1SignatureValue,
      iso1EXIDocument_KeyName_characters = replicate 51 0, iso1EXIDocument_KeyName_charactersLen = 0,
      iso1EXIDocument_DigestValue_bytes = replicate 350 0, iso1EXIDocument_DigestValue_bytesLen = 0,
      iso1EXIDocument_SignedInfo = zero_iso1SignedInfo, iso1EXIDocument_Object = zero_iso1Object,
      iso1EXIDocument_V2G_Message_isUsed = False, iso1EXIDocument_ServiceDiscoveryReq_isUsed = False,
      iso1EXIDocument_ServiceDiscoveryRes_isUsed = False, iso1EXIDocument_MeteringReceiptReq_isUsed = False,
      iso1EXIDocument_PaymentDetailsReq_isUsed = False, iso1EXIDocument_MeteringReceiptRes_isUsed = False,
      iso1EXIDocument_PaymentDetailsRes_isUsed = False, iso1EXIDocument_SessionSetupReq_isUsed = False,
      iso1EXIDocument_SessionSetupRes_isUsed = False, iso1EXIDocument_CableCheckReq_isUsed = False,
      iso1EXIDocument_CableCheckRes_isUsed = False, iso1EXIDocument_CertificateInstallationReq_isUsed = False,
      iso1EXIDocument_CertificateInstallationRes_isUsed = False, iso1EXIDocument_WeldingDetectionReq_isUsed = False,
      iso1EXIDocument_WeldingDetectionRes_isUsed = False, iso1EXIDocument_CertificateUpdateReq_isUsed = False,
      iso1EXIDocument_CertificateUpdateRes_isUsed = False, iso1EXIDocument_PaymentServiceSelectionReq_isUsed = False,
      iso1EXIDocument_PowerDeliveryReq_isUsed = False, iso1EXIDocument_PaymentServiceSelectionRes_isUsed = False,
      iso1EXIDocument_PowerDeliveryRes_isUsed = False, iso1EXIDocument_ChargingStatusReq_isUsed = False,
      iso1EXIDocument_ChargingStatusRes_isUsed = False, iso1EXIDocument_BodyElement_isUsed = False,
      iso1EXIDocument_CurrentDemandReq_isUsed = False, iso1EXIDocument_PreChargeReq_isUsed = False,
      iso1EXIDocument_CurrentDemandRes_isUsed = False, iso1EXIDocument_PreChargeRes_isUsed = False,
      iso1EXIDocument_SessionStopReq_isUsed = False, iso1EXIDocument_AuthorizationReq_isUsed = False,
      iso1EXIDocument_SessionStopRes_isUsed = False, iso1EXIDocument_AuthorizationRes_isUsed = False,
      iso1EXIDocument_ChargeParameterDiscoveryReq_isUsed = False,
      iso1EXIDocument_ChargeParameterDiscoveryRes_isUsed = False, iso1EXIDocument_ServiceDetailReq_isUsed = False,
      iso1EXIDocument_ServiceDetailRes_isUsed = False, iso1EXIDocument_DC_EVSEStatus_isUsed = False,
      iso1EXIDocument_RelativeTimeInterval_isUsed = False, iso1EXIDocument_SalesTariffEntry_isUsed = False,
      iso1EXIDocument_DC_EVPowerDeliveryParameter_isUsed = False, iso1EXIDocument_SASchedules_isUsed = False,
      iso1EXIDocument_AC_EVChargeParameter_isUsed = False, iso1EXIDocument_SAScheduleList_isUsed = False,
      iso1EXIDocument_DC_EVStatus_isUsed = False, iso1EXIDocument_EVStatus_isUsed = False,
      iso1EXIDocument_DC_EVChargeParameter_isUsed = False, iso1EXIDocument_DC_EVSEChargeParameter_isUsed = False,
      iso1EXIDocument_EVSEStatus_isUsed = False, iso1EXIDocument_TimeInterval_isUsed = False,
      iso1EXIDocument_EVPowerDeliveryParameter_isUsed = False, iso1EXIDocument_EVSEChargeParameter_isUsed = False,
      iso1EXIDocument_AC_EVSEStatus_isUsed = False, iso1EXIDocument_Entry_isUsed = False,
      iso1EXIDocument_AC_EVSEChargeParameter_isUsed = False, iso1EXIDocument_PMaxScheduleEntry_isUsed = False,
      iso1EXIDocument_EVChargeParameter_isUsed = False, iso1EXIDocument_SignatureProperty_isUsed = False,
      iso1EXIDocument_DSAKeyValue_isUsed = False, iso1EXIDocument_SignatureProperties_isUsed = False,
      iso1EXIDocument_KeyValue_isUsed = False, iso1EXIDocument_Transforms_isUsed = False,
      iso1EXIDocument_DigestMethod_isUsed = False, iso1EXIDocument_Signature_isUsed = False,
      iso1EXIDocument_RetrievalMethod_isUsed = False, iso1EXIDocument_Manifest_isUsed = False,
      iso1EXIDocument_Reference_isUsed = False, iso1EXIDocument_CanonicalizationMethod_isUsed = False,
      iso1EXIDocument_RSAKeyValue_isUsed = False, iso1EXIDocument_Transform_isUsed = False,
      iso1EXIDocument_PGPData_isUsed = False, iso1EXIDocument_MgmtData_isUsed = False,
      iso1EXIDocument_SignatureMethod_isUsed = False, iso1EXIDocument_KeyInfo_isUsed = False,
      iso1EXIDocument_SPKIData_isUsed = False, iso1EXIDocument_X509Data_isUsed = False,
      iso1EXIDocument_SignatureValue_isUsed = False, iso1EXIDocument_KeyName_isUsed = False,
      iso1EXIDocument_DigestValue_isUsed = False, iso1EXIDocument_SignedInfo_isUsed = False,
      iso1EXIDocument_Object_isUsed = False, iso1EXIDocument_warning = 0\<rparr>"

lemma sized_zero_document [simp]: "document_sized zero_iso1EXIDocument"
  by (simp add: document_sized_def zero_iso1EXIDocument_def)

end
