(* ===== verification/Iso1Exchange.thy ===== *)
theory Iso1Exchange
  imports Iso1Document Handshake
begin

section \<open>ISO 15118: request and response (test/main_example.c)\<close>

text \<open>
  The exchange of the example of ISO 15118 in \<open>src/test/main_example.c\<close>: the vehicle puts a request behind a
  transport header into one buffer, the station decodes it, creates a response and puts it into the other
  buffer, the vehicle decodes that. What the functions print is left out, but for the loop over the
  session identifier, which reads the array up to the length it was given. The response is built in the
  document the request came from (\<open>exiIn\<close>), and both requests and responses are decoded into \<open>exiOut\<close>: the
  two sides are one program. Structs and streams come in with whatever their memory holds.
\<close>

definition ERROR_UNEXPECTED_REQUEST_MESSAGE :: int where
  "ERROR_UNEXPECTED_REQUEST_MESSAGE = -601"

definition serialize1EXI2Stream :: "iso1EXIDocument \<Rightarrow> bitstream \<Rightarrow> (int \<times> bitstream) option" where
  "serialize1EXI2Stream exiIn stream = do {
     (errn, stream) \<leftarrow> encode_iso1ExiDocument (stream\<lparr>stream_pos := V2GTP_HEADER_LENGTH\<rparr>) exiIn;
     if errn = EXI_OK then do {
       (r, out) \<leftarrow> write_v2gtpHeader (stream_data stream)
           (of_nat (stream_pos stream - V2GTP_HEADER_LENGTH)) V2GTP_EXI_TYPE;
       Some (r, stream\<lparr>stream_data := out\<rparr>)
     }
     else Some (errn_code errn, stream)
   }"

definition deserialize1Stream2EXI ::
  "u32 \<Rightarrow> dec_static \<Rightarrow> bitstream \<Rightarrow> iso1EXIDocument \<Rightarrow> (int \<times> (dec_static \<times> iso1EXIDocument) \<times> bitstream) option" where
  "deserialize1Stream2EXI j st streamIn exi = do {
     let s = streamIn\<lparr>stream_pos := 0\<rparr>;
     (errn, payloadLength) \<leftarrow> read_v2gtpHeader (stream_data s) j;
     if errn = 0 then do {
       (errn, r, s) \<leftarrow> decode_iso1ExiDocument j st (s\<lparr>stream_pos := stream_pos s + V2GTP_HEADER_LENGTH\<rparr>) exi;
       Some (errn_code errn, r, s)
     }
     else Some (errn, (st, exi), s)
   }"

subsection \<open>The responses of the station\<close>

abbreviation iso1_header :: "iso1EXIDocument \<Rightarrow> iso1MessageHeaderType" where
  "iso1_header d \<equiv> iso1V2G_Message_Header (iso1EXIDocument_V2G_Message d)"

abbreviation iso1_body :: "iso1EXIDocument \<Rightarrow> iso1BodyType" where
  "iso1_body d \<equiv> iso1V2G_Message_Body (iso1EXIDocument_V2G_Message d)"

text \<open>\<open>printBinaryArray\<close> on the session identifier of a document.\<close>

definition session_id_readable :: "iso1EXIDocument \<Rightarrow> bool" where
  "session_id_readable d \<longleftrightarrow>
     unat (iso1MessageHeader_SessionID_bytesLen (iso1_header d)) \<le> length (iso1MessageHeader_SessionID_bytes (iso1_header d))"

text \<open>What each response starts with: the flag of the message, and a fresh body, then filled by \<open>f\<close>.\<close>

definition respond :: "(iso1BodyType \<Rightarrow> iso1BodyType) \<Rightarrow> iso1EXIDocument \<Rightarrow> iso1EXIDocument" where
  "respond f d = d\<lparr>iso1EXIDocument_V2G_Message := (iso1EXIDocument_V2G_Message d)\<lparr>
       iso1V2G_Message_Body := f (init_iso1BodyType (iso1_body d))\<rparr>,
     iso1EXIDocument_V2G_Message_isUsed := True\<rparr>"

definition new_session_id :: "iso1EXIDocument \<Rightarrow> iso1EXIDocument" where
  "new_session_id d = d\<lparr>iso1EXIDocument_V2G_Message := (iso1EXIDocument_V2G_Message d)\<lparr>
     iso1V2G_Message_Header := (init_iso1MessageHeaderType (iso1_header d))\<lparr>
       iso1MessageHeader_SessionID_bytes := (iso1MessageHeader_SessionID_bytes (iso1_header d))
         [0 := 1, 1 := 2, 2 := 3, 3 := 4, 4 := 5, 5 := 6, 6 := 7, 7 := 8],
       iso1MessageHeader_SessionID_bytesLen := 8\<rparr>\<rparr>\<rparr>"

definition sessionSetup_response :: "iso1BodyType \<Rightarrow> iso1BodyType" where
  "sessionSetup_response b = b\<lparr>iso1Body_SessionSetupRes_isUsed := True,
     iso1Body_SessionSetupRes := (let r = init_iso1SessionSetupResType (iso1Body_SessionSetupRes b) in
       r\<lparr>iso1SessionSetupRes_ResponseCode := 0,
         iso1SessionSetupRes_EVSEID_characters := (iso1SessionSetupRes_EVSEID_characters r)[0 := 0, 1 := 20],
         iso1SessionSetupRes_EVSEID_charactersLen := 2,
         iso1SessionSetupRes_EVSETimeStamp_isUsed := True,
         iso1SessionSetupRes_EVSETimeStamp := 123456789\<rparr>)\<rparr>"

definition sessionSetup1 :: "iso1EXIDocument \<Rightarrow> iso1EXIDocument \<Rightarrow> (int \<times> iso1EXIDocument) option" where
  "sessionSetup1 exiIn exiOut =
     (if session_id_readable exiIn then
        Some (0, respond sessionSetup_response (new_session_id exiOut))
      else None)"

definition authorization_response :: "iso1BodyType \<Rightarrow> iso1BodyType" where
  "authorization_response b = b\<lparr>iso1Body_AuthorizationRes_isUsed := True,
     iso1Body_AuthorizationRes := (init_iso1AuthorizationResType (iso1Body_AuthorizationRes b))\<lparr>
       iso1AuthorizationRes_ResponseCode := 0,
       iso1AuthorizationRes_EVSEProcessing := 0\<rparr>\<rparr>"

definition authorization1 :: "iso1EXIDocument \<Rightarrow> iso1EXIDocument \<Rightarrow> (int \<times> iso1EXIDocument) option" where
  "authorization1 exiIn exiOut =
     Some (0, respond authorization_response exiOut)"

definition powerDelivery_response :: "iso1BodyType \<Rightarrow> iso1BodyType" where
  "powerDelivery_response b = b\<lparr>iso1Body_PowerDeliveryRes_isUsed := True,
     iso1Body_PowerDeliveryRes := (let r = init_iso1PowerDeliveryResType (iso1Body_PowerDeliveryRes b) in
       r\<lparr>iso1PowerDeliveryRes_ResponseCode := 0,
         iso1PowerDeliveryRes_EVSEStatus_isUsed := True,
         iso1PowerDeliveryRes_EVSEStatus := (iso1PowerDeliveryRes_EVSEStatus r)\<lparr>
           iso1EVSEStatus_EVSENotification := 1,
           iso1EVSEStatus_NotificationMaxDelay := 12\<rparr>\<rparr>)\<rparr>"

definition powerDelivery1 :: "iso1EXIDocument \<Rightarrow> iso1EXIDocument \<Rightarrow> (int \<times> iso1EXIDocument) option" where
  "powerDelivery1 exiIn exiOut =
     Some (0, respond powerDelivery_response exiOut)"

definition chargingStatus_response :: "iso1BodyType \<Rightarrow> iso1BodyType" where
  "chargingStatus_response b = b\<lparr>iso1Body_ChargingStatusRes_isUsed := True,
     iso1Body_ChargingStatusRes := (let r = init_iso1ChargingStatusResType (iso1Body_ChargingStatusRes b) in
       r\<lparr>iso1ChargingStatusRes_ResponseCode := 0,
         iso1ChargingStatusRes_EVSEID_characters := (iso1ChargingStatusRes_EVSEID_characters r)[0 := 65],
         iso1ChargingStatusRes_EVSEID_charactersLen := 1,
         iso1ChargingStatusRes_ReceiptRequired := 1,
         iso1ChargingStatusRes_ReceiptRequired_isUsed := True\<rparr>)\<rparr>"

definition chargingStatus1 :: "iso1EXIDocument \<Rightarrow> iso1EXIDocument \<Rightarrow> (int \<times> iso1EXIDocument) option" where
  "chargingStatus1 exiIn exiOut =
     Some (0, respond chargingStatus_response exiOut)"

text \<open>The code of the response is \<open>FAILED\<close>, 4.\<close>

definition meteringReceipt_response :: "iso1BodyType \<Rightarrow> iso1BodyType" where
  "meteringReceipt_response b = b\<lparr>iso1Body_MeteringReceiptRes_isUsed := True,
     iso1Body_MeteringReceiptRes := (init_iso1MeteringReceiptResType (iso1Body_MeteringReceiptRes b))\<lparr>
       iso1MeteringReceiptRes_ResponseCode := 4\<rparr>\<rparr>"

definition meteringReceipt1 :: "iso1EXIDocument \<Rightarrow> iso1EXIDocument \<Rightarrow> (int \<times> iso1EXIDocument) option" where
  "meteringReceipt1 exiIn exiOut =
     Some (0, respond meteringReceipt_response exiOut)"

definition sessionStop_response :: "iso1BodyType \<Rightarrow> iso1BodyType" where
  "sessionStop_response b = b\<lparr>iso1Body_SessionStopRes_isUsed := True,
     iso1Body_SessionStopRes := (init_iso1SessionStopResType (iso1Body_SessionStopRes b))\<lparr>
       iso1SessionStopRes_ResponseCode := 0\<rparr>\<rparr>"

definition sessionStop1 :: "iso1EXIDocument \<Rightarrow> iso1EXIDocument \<Rightarrow> (int \<times> iso1EXIDocument) option" where
  "sessionStop1 exiIn exiOut =
     (if session_id_readable exiIn then
        Some (0, respond sessionStop_response exiOut)
      else None)"

definition cableCheck_response :: "iso1BodyType \<Rightarrow> iso1BodyType" where
  "cableCheck_response b = b\<lparr>iso1Body_CableCheckRes_isUsed := True,
     iso1Body_CableCheckRes := (let r = init_iso1CableCheckResType (iso1Body_CableCheckRes b) in
       r\<lparr>iso1CableCheckRes_ResponseCode := 0,
         iso1CableCheckRes_DC_EVSEStatus := (iso1CableCheckRes_DC_EVSEStatus r)\<lparr>
           iso1DC_EVSEStatus_NotificationMaxDelay := 1234,
           iso1DC_EVSEStatus_EVSENotification := 2\<rparr>,
         iso1CableCheckRes_EVSEProcessing := 0\<rparr>)\<rparr>"

definition cableCheck1 :: "iso1EXIDocument \<Rightarrow> iso1EXIDocument \<Rightarrow> (int \<times> iso1EXIDocument) option" where
  "cableCheck1 exiIn exiOut =
     Some (0, respond cableCheck_response exiOut)"

definition preCharge_response :: "iso1BodyType \<Rightarrow> iso1BodyType" where
  "preCharge_response b = b\<lparr>iso1Body_PreChargeRes_isUsed := True,
     iso1Body_PreChargeRes := (let r = init_iso1PreChargeResType (iso1Body_PreChargeRes b) in
       r\<lparr>iso1PreChargeRes_ResponseCode := 0,
         iso1PreChargeRes_DC_EVSEStatus := (iso1PreChargeRes_DC_EVSEStatus r)\<lparr>
           iso1DC_EVSEStatus_EVSENotification := 1,
           iso1DC_EVSEStatus_NotificationMaxDelay := 1234\<rparr>,
         iso1PreChargeRes_EVSEPresentVoltage := (iso1PreChargeRes_EVSEPresentVoltage r)\<lparr>
           iso1PhysicalValue_Multiplier := 3,
           iso1PhysicalValue_Value := 456\<rparr>\<rparr>)\<rparr>"

definition preCharge1 :: "iso1EXIDocument \<Rightarrow> iso1EXIDocument \<Rightarrow> (int \<times> iso1EXIDocument) option" where
  "preCharge1 exiIn exiOut =
     Some (0, respond preCharge_response exiOut)"

text \<open>
  The parameters of a service: two sets, with the parameters ''Protocol'', ''Name'' and ''Channel''. The flags
  of a parameter are not initialised before one of them is set.
\<close>

abbreviation change :: "nat \<Rightarrow> ('a \<Rightarrow> 'a) \<Rightarrow> 'a list \<Rightarrow> 'a list" where
  "change i f xs \<equiv> xs[i := f (xs ! i)]"

definition protocol_parameter :: "iso1ParameterType \<Rightarrow> iso1ParameterType" where
  "protocol_parameter p = p\<lparr>iso1Parameter_Name_charactersLen := 8,
     iso1Parameter_Name_characters := (iso1Parameter_Name_characters p)
       [0 := 80, 1 := 114, 2 := 111, 3 := 116, 4 := 111, 5 := 99, 6 := 111, 7 := 108],
     iso1Parameter_intValue := 15119,
     iso1Parameter_intValue_isUsed := True\<rparr>"

definition name_parameter :: "iso1ParameterType \<Rightarrow> iso1ParameterType" where
  "name_parameter p = p\<lparr>iso1Parameter_Name_charactersLen := 4,
     iso1Parameter_Name_characters := (iso1Parameter_Name_characters p)[0 := 78, 1 := 97, 2 := 109, 3 := 101],
     iso1Parameter_stringValue_isUsed := True,
     iso1Parameter_stringValue_charactersLen := 3,
     iso1Parameter_stringValue_characters := (iso1Parameter_stringValue_characters p)[0 := 86, 1 := 50, 2 := 71]\<rparr>"

definition channel_parameter :: "iso1ParameterType \<Rightarrow> iso1ParameterType" where
  "channel_parameter p = p\<lparr>iso1Parameter_Name_charactersLen := 7,
     iso1Parameter_Name_characters := (iso1Parameter_Name_characters p)
       [0 := 67, 1 := 104, 2 := 97, 3 := 110, 4 := 110, 5 := 101, 6 := 108],
     iso1Parameter_physicalValue_isUsed := True,
     iso1Parameter_physicalValue := (iso1Parameter_physicalValue p)\<lparr>
       iso1PhysicalValue_Multiplier := 1, iso1PhysicalValue_Value := 2\<rparr>\<rparr>"

definition serviceDetail_response :: "iso1BodyType \<Rightarrow> iso1BodyType" where
  "serviceDetail_response b = b\<lparr>iso1Body_ServiceDetailRes_isUsed := True,
     iso1Body_ServiceDetailRes := (let r = init_iso1ServiceDetailResType (iso1Body_ServiceDetailRes b);
         l = iso1ServiceDetailRes_ServiceParameterList r in
       r\<lparr>iso1ServiceDetailRes_ServiceID := 1234,
         iso1ServiceDetailRes_ServiceParameterList_isUsed := True,
         iso1ServiceDetailRes_ServiceParameterList := l\<lparr>
           iso1ServiceParameterList_ParameterSet_arrayLen := 2,
           iso1ServiceParameterList_ParameterSet_array :=
             change 1 (\<lambda>q. q\<lparr>iso1ParameterSet_ParameterSetID := 2,
               iso1ParameterSet_Parameter_arrayLen := 1,
               iso1ParameterSet_Parameter_array := change 0 channel_parameter (iso1ParameterSet_Parameter_array q)\<rparr>)
             (change 0 (\<lambda>q. q\<lparr>iso1ParameterSet_ParameterSetID := 1,
               iso1ParameterSet_Parameter_arrayLen := 2,
               iso1ParameterSet_Parameter_array :=
                 change 1 name_parameter (change 0 protocol_parameter (iso1ParameterSet_Parameter_array q))\<rparr>)
             (iso1ServiceParameterList_ParameterSet_array l))\<rparr>,
         iso1ServiceDetailRes_ResponseCode := 0\<rparr>)\<rparr>"

definition serviceDetail1 :: "iso1EXIDocument \<Rightarrow> iso1EXIDocument \<Rightarrow> (int \<times> iso1EXIDocument) option" where
  "serviceDetail1 exiIn exiOut =
     (if session_id_readable exiIn then
        Some (0, respond serviceDetail_response exiOut)
      else None)"

definition create_response_message1 :: "iso1EXIDocument \<Rightarrow> iso1EXIDocument \<Rightarrow> (int \<times> iso1EXIDocument) option" where
  "create_response_message1 exiIn exiOut =
     (if iso1EXIDocument_V2G_Message_isUsed exiIn then
        let exiOut = init_iso1EXIDocument exiOut; body = iso1_body exiIn in
        if iso1Body_SessionSetupReq_isUsed body then sessionSetup1 exiIn exiOut
        else if iso1Body_ServiceDetailReq_isUsed body then serviceDetail1 exiIn exiOut
        else if iso1Body_AuthorizationReq_isUsed body then authorization1 exiIn exiOut
        else if iso1Body_PowerDeliveryReq_isUsed body then powerDelivery1 exiIn exiOut
        else if iso1Body_ChargingStatusReq_isUsed body then chargingStatus1 exiIn exiOut
        else if iso1Body_MeteringReceiptReq_isUsed body then meteringReceipt1 exiIn exiOut
        else if iso1Body_SessionStopReq_isUsed body then sessionStop1 exiIn exiOut
        else if iso1Body_CableCheckReq_isUsed body then cableCheck1 exiIn exiOut
        else if iso1Body_PreChargeReq_isUsed body then preCharge1 exiIn exiOut
        else Some (ERROR_UNEXPECTED_REQUEST_MESSAGE, exiOut)
      else Some (ERROR_UNEXPECTED_REQUEST_MESSAGE, exiOut))"

subsection \<open>The exchange\<close>

definition request_response1 ::
  "u32 \<Rightarrow> dec_static \<Rightarrow> bitstream \<Rightarrow> bitstream \<Rightarrow> u8 list \<Rightarrow> u8 list \<Rightarrow> iso1EXIDocument \<Rightarrow> iso1EXIDocument \<Rightarrow>
    (int \<times> dec_static \<times> u8 list \<times> u8 list \<times> iso1EXIDocument \<times> iso1EXIDocument) option" where
  "request_response1 j st stream1 stream2 buffer1 buffer2 exiIn exiOut = do {
     let stream1 = stream1\<lparr>stream_size := BUFFER_SIZE, stream_data := buffer1\<rparr>;
     let stream2 = stream2\<lparr>stream_size := BUFFER_SIZE, stream_data := buffer2\<rparr>;
     (errn, stream1) \<leftarrow> serialize1EXI2Stream exiIn stream1;
     (errn, (st, exiOut), stream1) \<leftarrow>
       (if errn = 0 then deserialize1Stream2EXI j st stream1 exiOut else Some (errn, (st, exiOut), stream1));
     (errn, exiIn) \<leftarrow> (if errn = 0 then create_response_message1 exiOut exiIn else Some (errn, exiIn));
     (errn, stream2) \<leftarrow> (if errn = 0 then serialize1EXI2Stream exiIn stream2 else Some (errn, stream2));
     (errn, (st, exiOut), stream2) \<leftarrow>
       (if errn = 0 then deserialize1Stream2EXI j st stream2 exiOut else Some (errn, (st, exiOut), stream2));
     Some (errn, st, stream_data stream1, stream_data stream2, exiIn, exiOut)
   }"

text \<open>One direction: a document that fits into the buffer is serialised, and whoever deserialises it has it.\<close>

lemma serialize_deserialize:
  assumes d: "document_ok d" and fit: "64 + document_bits d \<le> 8 * stream_size s"
    and s: "8 \<le> stream_size s" "stream_size s \<le> length (stream_data s)"
  shows "\<exists>s'. serialize1EXI2Stream d s = Some (0, s') \<and> stream_size s \<le> length (stream_data s') \<and>
    (\<forall>j st d0. document_sized d0 \<longrightarrow>
       (\<exists>st' d' t. deserialize1Stream2EXI j st s' d0 = Some (0, (st', d'), t) \<and> same_document d d' \<and> document_sized d' \<and>
          stream_data t = stream_data s'))"
proof -
  from iso1.behind_header [OF d s fit] obtain s' where s': "encode_iso1ExiDocument (s\<lparr>stream_pos := 8\<rparr>) d = Some (EXI_OK, s')"
    "8 \<le> length (stream_data s')" "stream_size s \<le> length (stream_data s')"
    and dec: "\<And>n j st d0. document_sized d0 \<Longrightarrow> \<exists>st' d' t'. decode_iso1ExiDocument j st
        (s'\<lparr>stream_data := header_bytes V2GTP_EXI_TYPE n @ drop 8 (stream_data s'), stream_pos := 8\<rparr>) d0 =
          Some (EXI_OK, (st', d'), t') \<and> same_document d d' \<and> document_sized d' \<and>
          stream_data t' = header_bytes V2GTP_EXI_TYPE n @ drop 8 (stream_data s')" by auto
  define n :: u32 where "n = of_nat (stream_pos s' - 8)"
  define t where "t = s'\<lparr>stream_data := header_bytes V2GTP_EXI_TYPE n @ drop 8 (stream_data s')\<rparr>"
  have "serialize1EXI2Stream d s = Some (0, t)"
    using s' by (simp add: serialize1EXI2Stream_def write_header_bytes t_def n_def)
  moreover have "stream_size s \<le> length (stream_data t)" using s'(2,3) by (simp add: t_def header_bytes_def)
  moreover have "\<exists>st' d' t'. deserialize1Stream2EXI j st t d0 = Some (0, (st', d'), t') \<and> same_document d d' \<and> document_sized d' \<and>
      stream_data t' = stream_data t"
    if "document_sized d0" for j st d0
    using dec [OF that, of j st n] by (auto simp: deserialize1Stream2EXI_def t_def read_header_bytes Let_def)
  ultimately show ?thesis by blast
qed

lemma exchange_delivers:
  assumes req: "document_ok exiIn" "64 + document_bits exiIn \<le> 8 * BUFFER_SIZE"
    and res: "\<And>d. same_document exiIn d \<Longrightarrow> document_sized d \<Longrightarrow> create_response_message1 d exiIn = Some (0, res)"
    and ok: "document_ok res" "64 + document_bits res \<le> 8 * BUFFER_SIZE"
    and bufs: "BUFFER_SIZE \<le> length buffer1" "BUFFER_SIZE \<le> length buffer2" and out: "document_sized exiOut"
  shows "\<exists>st' b1 b2 d. request_response1 j st stream1 stream2 buffer1 buffer2 exiIn exiOut = Some (0, st', b1, b2, res, d) \<and>
    BUFFER_SIZE \<le> length b1 \<and> BUFFER_SIZE \<le> length b2 \<and> same_document res d \<and> document_sized d"
proof -
  let ?s1 = "stream1\<lparr>stream_size := BUFFER_SIZE, stream_data := buffer1\<rparr>"
  let ?s2 = "stream2\<lparr>stream_size := BUFFER_SIZE, stream_data := buffer2\<rparr>"
  have s: "64 + document_bits exiIn \<le> 8 * stream_size ?s1" "8 \<le> stream_size ?s1"
    "stream_size ?s1 \<le> length (stream_data ?s1)" "64 + document_bits res \<le> 8 * stream_size ?s2" "8 \<le> stream_size ?s2"
    "stream_size ?s2 \<le> length (stream_data ?s2)"
    using req(2) ok(2) bufs by (simp_all add: BUFFER_SIZE_def)
  from serialize_deserialize [OF req(1) s(1-3)] out
  obtain s1 st1 d1 t1 where 1: "serialize1EXI2Stream exiIn ?s1 = Some (0, s1)"
    "deserialize1Stream2EXI j st s1 exiOut = Some (0, (st1, d1), t1)" "same_document exiIn d1" "document_sized d1"
    "stream_data t1 = stream_data s1" "BUFFER_SIZE \<le> length (stream_data s1)"
    by fastforce
  from serialize_deserialize [OF ok(1) s(4-6)] 1(4)
  obtain s2 st2 d2 t2 where 2: "serialize1EXI2Stream res ?s2 = Some (0, s2)"
    "deserialize1Stream2EXI j st1 s2 d1 = Some (0, (st2, d2), t2)" "same_document res d2" "document_sized d2"
    "stream_data t2 = stream_data s2" "BUFFER_SIZE \<le> length (stream_data s2)"
    by fastforce
  from 1 2 res [OF 1(3,4)] show ?thesis by (simp add: request_response1_def Let_def)
qed

text \<open>
  What the station decoded is what the vehicle wrote: the same request is used, and the session
  identifier can be printed.
\<close>

lemma request_arrived:
  assumes "same_document exiIn d" "document_ok exiIn" "document_sized d"
  shows "iso1EXIDocument_V2G_Message_isUsed d" "same_iso1Body (iso1_body exiIn) (iso1_body d)" "session_id_readable d"
proof -
  have m: "message_document d" using assms(1) by (simp add: same_document_def)
  have "iso1EXIDocument_V2G_Message_isUsed ((init_iso1EXIDocument d)\<lparr>iso1EXIDocument_V2G_Message_isUsed := True\<rparr>)" by simp
  with m show "iso1EXIDocument_V2G_Message_isUsed d" unfolding message_document_def by metis
  have h: "same_iso1MessageHeader (iso1_header exiIn) (iso1_header d)" "same_iso1Body (iso1_body exiIn) (iso1_body d)"
    using assms(1) by (simp_all add: same_document_def same_iso1V2G_Message_def)
  then show "same_iso1Body (iso1_body exiIn) (iso1_body d)" by simp
  have "iso1MessageHeader_ok (iso1_header exiIn)" "iso1MessageHeader_sized (iso1_header d)"
    using assms(2,3) by (simp_all add: document_ok_def iso1V2G_Message_ok_def document_sized_def iso1V2G_Message_sized_def)
  with h(1) show "session_id_readable d"
    by (simp add: session_id_readable_def same_iso1MessageHeader_def iso1MessageHeader_ok_def iso1MessageHeader_sized_def)
qed

lemma same_flags:
  assumes "same_iso1Body b b'"
  shows "iso1Body_SessionSetupReq_isUsed b' = iso1Body_SessionSetupReq_isUsed b"
    "iso1Body_ServiceDetailReq_isUsed b' = iso1Body_ServiceDetailReq_isUsed b"
    "iso1Body_AuthorizationReq_isUsed b' = iso1Body_AuthorizationReq_isUsed b"
    "iso1Body_PowerDeliveryReq_isUsed b' = iso1Body_PowerDeliveryReq_isUsed b"
    "iso1Body_ChargingStatusReq_isUsed b' = iso1Body_ChargingStatusReq_isUsed b"
    "iso1Body_MeteringReceiptReq_isUsed b' = iso1Body_MeteringReceiptReq_isUsed b"
    "iso1Body_SessionStopReq_isUsed b' = iso1Body_SessionStopReq_isUsed b"
    "iso1Body_CableCheckReq_isUsed b' = iso1Body_CableCheckReq_isUsed b"
    "iso1Body_PreChargeReq_isUsed b' = iso1Body_PreChargeReq_isUsed b"
  using assms by (simp_all add: same_iso1Body_def kept_def)

lemma one_request:
  assumes "document_ok d"
  shows "iso1Body_AuthorizationReq_isUsed (iso1_body d) \<Longrightarrow> \<not> iso1Body_SessionSetupReq_isUsed (iso1_body d) \<and>
      \<not> iso1Body_ServiceDetailReq_isUsed (iso1_body d)"
    "iso1Body_PowerDeliveryReq_isUsed (iso1_body d) \<Longrightarrow> \<not> iso1Body_SessionSetupReq_isUsed (iso1_body d) \<and>
      \<not> iso1Body_ServiceDetailReq_isUsed (iso1_body d) \<and> \<not> iso1Body_AuthorizationReq_isUsed (iso1_body d)"
    "iso1Body_SessionStopReq_isUsed (iso1_body d) \<Longrightarrow> \<not> iso1Body_SessionSetupReq_isUsed (iso1_body d) \<and>
      \<not> iso1Body_ServiceDetailReq_isUsed (iso1_body d) \<and> \<not> iso1Body_AuthorizationReq_isUsed (iso1_body d) \<and>
      \<not> iso1Body_PowerDeliveryReq_isUsed (iso1_body d) \<and> \<not> iso1Body_ChargingStatusReq_isUsed (iso1_body d) \<and>
      \<not> iso1Body_MeteringReceiptReq_isUsed (iso1_body d)"
    "iso1Body_MeteringReceiptReq_isUsed (iso1_body d) \<Longrightarrow> \<not> iso1Body_SessionSetupReq_isUsed (iso1_body d) \<and>
      \<not> iso1Body_ServiceDetailReq_isUsed (iso1_body d) \<and> \<not> iso1Body_AuthorizationReq_isUsed (iso1_body d) \<and>
      \<not> iso1Body_PowerDeliveryReq_isUsed (iso1_body d) \<and> \<not> iso1Body_ChargingStatusReq_isUsed (iso1_body d)"
proof -
  let ?b = "iso1_body d"
  have "iso1Body_ok ?b" using assms by (simp add: document_ok_def iso1V2G_Message_ok_def)
  then have ok: "exclusive [iso1Body_AuthorizationReq_isUsed ?b, iso1Body_AuthorizationRes_isUsed ?b,
      iso1Body_BodyElement_isUsed ?b, iso1Body_CableCheckReq_isUsed ?b, iso1Body_CableCheckRes_isUsed ?b,
      iso1Body_CertificateInstallationReq_isUsed ?b, iso1Body_CertificateInstallationRes_isUsed ?b,
      iso1Body_CertificateUpdateReq_isUsed ?b, iso1Body_CertificateUpdateRes_isUsed ?b,
      iso1Body_ChargeParameterDiscoveryReq_isUsed ?b, iso1Body_ChargeParameterDiscoveryRes_isUsed ?b,
      iso1Body_ChargingStatusReq_isUsed ?b, iso1Body_ChargingStatusRes_isUsed ?b,
      iso1Body_CurrentDemandReq_isUsed ?b, iso1Body_CurrentDemandRes_isUsed ?b,
      iso1Body_MeteringReceiptReq_isUsed ?b, iso1Body_MeteringReceiptRes_isUsed ?b,
      iso1Body_PaymentDetailsReq_isUsed ?b, iso1Body_PaymentDetailsRes_isUsed ?b,
      iso1Body_PaymentServiceSelectionReq_isUsed ?b, iso1Body_PaymentServiceSelectionRes_isUsed ?b,
      iso1Body_PowerDeliveryReq_isUsed ?b, iso1Body_PowerDeliveryRes_isUsed ?b, iso1Body_PreChargeReq_isUsed
      ?b, iso1Body_PreChargeRes_isUsed ?b, iso1Body_ServiceDetailReq_isUsed ?b,
      iso1Body_ServiceDetailRes_isUsed ?b, iso1Body_ServiceDiscoveryReq_isUsed ?b,
      iso1Body_ServiceDiscoveryRes_isUsed ?b, iso1Body_SessionSetupReq_isUsed ?b,
      iso1Body_SessionSetupRes_isUsed ?b, iso1Body_SessionStopReq_isUsed ?b, iso1Body_SessionStopRes_isUsed ?b,
      iso1Body_WeldingDetectionReq_isUsed ?b, iso1Body_WeldingDetectionRes_isUsed ?b]" by (simp only: iso1Body_ok_def)
  show "iso1Body_AuthorizationReq_isUsed (iso1_body d) \<Longrightarrow> \<not> iso1Body_SessionSetupReq_isUsed (iso1_body d) \<and>
      \<not> iso1Body_ServiceDetailReq_isUsed (iso1_body d)" using ok by (simp add: exclusive.simps split: if_split_asm)
  show "iso1Body_PowerDeliveryReq_isUsed (iso1_body d) \<Longrightarrow> \<not> iso1Body_SessionSetupReq_isUsed (iso1_body d) \<and>
      \<not> iso1Body_ServiceDetailReq_isUsed (iso1_body d) \<and> \<not> iso1Body_AuthorizationReq_isUsed (iso1_body d)" using ok by (simp add: exclusive.simps split: if_split_asm)
  show "iso1Body_SessionStopReq_isUsed (iso1_body d) \<Longrightarrow> \<not> iso1Body_SessionSetupReq_isUsed (iso1_body d) \<and>
      \<not> iso1Body_ServiceDetailReq_isUsed (iso1_body d) \<and> \<not> iso1Body_AuthorizationReq_isUsed (iso1_body d) \<and>
      \<not> iso1Body_PowerDeliveryReq_isUsed (iso1_body d) \<and> \<not> iso1Body_ChargingStatusReq_isUsed (iso1_body d) \<and>
      \<not> iso1Body_MeteringReceiptReq_isUsed (iso1_body d)" using ok by (simp add: exclusive.simps split: if_split_asm)
  show "iso1Body_MeteringReceiptReq_isUsed (iso1_body d) \<Longrightarrow> \<not> iso1Body_SessionSetupReq_isUsed (iso1_body d) \<and>
      \<not> iso1Body_ServiceDetailReq_isUsed (iso1_body d) \<and> \<not> iso1Body_AuthorizationReq_isUsed (iso1_body d) \<and>
      \<not> iso1Body_PowerDeliveryReq_isUsed (iso1_body d) \<and> \<not> iso1Body_ChargingStatusReq_isUsed (iso1_body d)"
    using ok by (simp add: exclusive.simps split: if_split_asm)
qed

text \<open>
  The responses in which the station leaves nothing to chance: those to the session setup, the
  authorization, the power delivery and the session stop. \<open>answered req d\<close> is what the vehicle has to find
  in \<open>d\<close> after it asked \<open>req\<close>.
\<close>

definition settled_request :: "iso1BodyType \<Rightarrow> bool" where
  "settled_request b \<longleftrightarrow> iso1Body_SessionSetupReq_isUsed b \<or> iso1Body_AuthorizationReq_isUsed b \<or>
     iso1Body_PowerDeliveryReq_isUsed b \<or> iso1Body_SessionStopReq_isUsed b"

definition session_id :: "iso1EXIDocument \<Rightarrow> u8 list" where
  "session_id d = take (unat (iso1MessageHeader_SessionID_bytesLen (iso1_header d)))
     (iso1MessageHeader_SessionID_bytes (iso1_header d))"

definition answered :: "iso1EXIDocument \<Rightarrow> iso1EXIDocument \<Rightarrow> bool" where
  "answered req d \<longleftrightarrow>
     (if iso1Body_SessionSetupReq_isUsed (iso1_body req) then
        let r = iso1Body_SessionSetupRes (iso1_body d) in
        session_id d = [1, 2, 3, 4, 5, 6, 7, 8] \<and> iso1Body_SessionSetupRes_isUsed (iso1_body d) \<and>
        iso1SessionSetupRes_ResponseCode r = 0 \<and> iso1SessionSetupRes_EVSEID_charactersLen r = 2 \<and>
        take 2 (iso1SessionSetupRes_EVSEID_characters r) = [0, 20] \<and>
        iso1SessionSetupRes_EVSETimeStamp_isUsed r \<and> iso1SessionSetupRes_EVSETimeStamp r = 123456789
      else session_id d = session_id req \<and>
       (if iso1Body_AuthorizationReq_isUsed (iso1_body req) then
          let r = iso1Body_AuthorizationRes (iso1_body d) in
          iso1Body_AuthorizationRes_isUsed (iso1_body d) \<and>
          iso1AuthorizationRes_ResponseCode r = 0 \<and> iso1AuthorizationRes_EVSEProcessing r = 0
        else if iso1Body_PowerDeliveryReq_isUsed (iso1_body req) then
          let r = iso1Body_PowerDeliveryRes (iso1_body d) in
          iso1Body_PowerDeliveryRes_isUsed (iso1_body d) \<and> iso1PowerDeliveryRes_ResponseCode r = 0 \<and>
          iso1PowerDeliveryRes_EVSEStatus_isUsed r \<and>
          iso1EVSEStatus_EVSENotification (iso1PowerDeliveryRes_EVSEStatus r) = 1 \<and>
          iso1EVSEStatus_NotificationMaxDelay (iso1PowerDeliveryRes_EVSEStatus r) = 12
        else iso1Body_SessionStopRes_isUsed (iso1_body d) \<and>
          iso1SessionStopRes_ResponseCode (iso1Body_SessionStopRes (iso1_body d)) = 0))"

text \<open>A response: the document the request was in, with a body of one element.\<close>

lemma respond_simps [simp]:
  "iso1_header (respond f d) = iso1_header d" "iso1_body (respond f d) = f (init_iso1BodyType (iso1_body d))"
  "iso1_body (new_session_id d) = iso1_body d"
  by (simp_all add: respond_def new_session_id_def)

lemma respond_is_message_document: "message_document (respond f (init_iso1EXIDocument d))"
  using init_used_is_message_document by (simp add: respond_def)

lemma response_document_ok:
  assumes "iso1MessageHeader_ok (iso1_header d)" "iso1Body_ok (f (init_iso1BodyType (iso1_body d)))"
  shows "document_ok (respond f (init_iso1EXIDocument d))"
  using assms by (simp add: document_ok_def respond_is_message_document iso1V2G_Message_ok_def)

lemma new_session_response_ok:
  assumes "length (iso1MessageHeader_SessionID_bytes (iso1_header d)) = 8"
    "iso1Body_ok (f (init_iso1BodyType (iso1_body d)))"
  shows "document_ok (respond f (new_session_id (init_iso1EXIDocument d)))"
proof -
  have "message_document (respond f (new_session_id (init_iso1EXIDocument d)))"
    using init_used_is_message_document by (simp add: respond_def new_session_id_def)
  then show ?thesis using assms
    by (simp add: document_ok_def iso1V2G_Message_ok_def new_session_id_def iso1MessageHeader_ok_def
        init_iso1MessageHeaderType_def)
qed

lemma document_bits_respond:
  "document_bits (respond f d) = 18 + iso1MessageHeader_bits (iso1_header d) +
     iso1Body_bits (f (init_iso1BodyType (iso1_body d)))"
  by (simp add: document_bits_def iso1V2G_Message_bits_def)

lemma sized_length_8:
  "document_sized d \<Longrightarrow> length (iso1MessageHeader_SessionID_bytes (iso1_header d)) = 8"
  by (simp add: document_sized_def iso1V2G_Message_sized_def iso1MessageHeader_sized_def)

lemma header_bits_unsigned:
  "\<not> iso1MessageHeader_Signature_isUsed h \<Longrightarrow> iso1MessageHeader_bits h \<le> 649"
  by (simp add: iso1MessageHeader_bits_def)

text \<open>Each settled request has a response that is well formed and short, and is what \<open>answered\<close> asks for.\<close>

lemma exchange_with:
  assumes req: "document_ok exiIn" "64 + document_bits exiIn \<le> 8 * BUFFER_SIZE"
    and res: "\<And>d. same_document exiIn d \<Longrightarrow> document_sized d \<Longrightarrow> create_response_message1 d exiIn = Some (0, res)"
    and ok: "document_ok res" "iso1MessageHeader_bits (iso1_header res) \<le> 649" "iso1Body_bits (iso1_body res) \<le> 1000"
    and ans: "\<And>d. same_document res d \<Longrightarrow> answered exiIn d"
    and bufs: "length buffer1 = BUFFER_SIZE" "length buffer2 = BUFFER_SIZE" and out: "document_sized exiOut"
  shows "\<exists>st' b1 b2 r d. request_response1 j st stream1 stream2 buffer1 buffer2 exiIn exiOut =
    Some (0, st', b1, b2, r, d) \<and> message_document d \<and> answered exiIn d"
proof -
  have "64 + document_bits res \<le> 8 * BUFFER_SIZE"
    using ok(2,3) by (simp add: document_bits_def iso1V2G_Message_bits_def BUFFER_SIZE_def)
  have "BUFFER_SIZE \<le> length buffer1" "BUFFER_SIZE \<le> length buffer2" using bufs by simp_all
  from exchange_delivers [OF req res ok(1) \<open>64 + document_bits res \<le> 8 * BUFFER_SIZE\<close> this out, of j st stream1 stream2] ans
  show ?thesis by (auto simp: same_document_def)
qed

lemma same_documentD:
  "same_document r d \<Longrightarrow> same_iso1MessageHeader (iso1_header r) (iso1_header d)"
  "same_document r d \<Longrightarrow> same_iso1Body (iso1_body r) (iso1_body d)"
  "same_document r d \<Longrightarrow> session_id d = session_id r"
  by (simp_all add: same_document_def same_iso1V2G_Message_def same_iso1MessageHeader_def session_id_def)

lemma one_element_ok:
  "b = init_iso1BodyType a \<Longrightarrow> iso1AuthorizationRes_ok r \<Longrightarrow>
     iso1Body_ok (b\<lparr>iso1Body_AuthorizationRes_isUsed := True, iso1Body_AuthorizationRes := r\<rparr>)"
  "b = init_iso1BodyType a \<Longrightarrow> iso1SessionSetupRes_ok u \<Longrightarrow>
     iso1Body_ok (b\<lparr>iso1Body_SessionSetupRes_isUsed := True, iso1Body_SessionSetupRes := u\<rparr>)"
  "b = init_iso1BodyType a \<Longrightarrow> iso1PowerDeliveryRes_ok v \<Longrightarrow>
     iso1Body_ok (b\<lparr>iso1Body_PowerDeliveryRes_isUsed := True, iso1Body_PowerDeliveryRes := v\<rparr>)"
  "b = init_iso1BodyType a \<Longrightarrow> iso1SessionStopRes_ok w \<Longrightarrow>
     iso1Body_ok (b\<lparr>iso1Body_SessionStopRes_isUsed := True, iso1Body_SessionStopRes := w\<rparr>)"
  by (simp_all add: iso1Body_ok_def init_iso1BodyType_def)

lemma one_element_bits:
  "iso1Body_bits ((init_iso1BodyType a)\<lparr>iso1Body_AuthorizationRes_isUsed := True, iso1Body_AuthorizationRes := r\<rparr>) \<le> 1000"
  "iso1Body_bits ((init_iso1BodyType a)\<lparr>iso1Body_SessionSetupRes_isUsed := True, iso1Body_SessionSetupRes := u\<rparr>) \<le> 1000"
  "iso1Body_bits ((init_iso1BodyType a)\<lparr>iso1Body_PowerDeliveryRes_isUsed := True, iso1Body_PowerDeliveryRes := v\<rparr>) \<le> 1000"
  "iso1Body_bits ((init_iso1BodyType a)\<lparr>iso1Body_SessionStopRes_isUsed := True, iso1Body_SessionStopRes := w\<rparr>) \<le> 1000"
  by (simp_all add: iso1Body_bits_def init_iso1BodyType_def)

lemma one_element_same:
  "same_iso1Body (b\<lparr>iso1Body_AuthorizationRes_isUsed := True, iso1Body_AuthorizationRes := r\<rparr>) c \<Longrightarrow>
     iso1Body_AuthorizationRes_isUsed c \<and> same_iso1AuthorizationRes r (iso1Body_AuthorizationRes c)"
  "same_iso1Body (b\<lparr>iso1Body_SessionSetupRes_isUsed := True, iso1Body_SessionSetupRes := u\<rparr>) c \<Longrightarrow>
     iso1Body_SessionSetupRes_isUsed c \<and> same_iso1SessionSetupRes u (iso1Body_SessionSetupRes c)"
  "same_iso1Body (b\<lparr>iso1Body_PowerDeliveryRes_isUsed := True, iso1Body_PowerDeliveryRes := v\<rparr>) c \<Longrightarrow>
     iso1Body_PowerDeliveryRes_isUsed c \<and> same_iso1PowerDeliveryRes v (iso1Body_PowerDeliveryRes c)"
  "same_iso1Body (b\<lparr>iso1Body_SessionStopRes_isUsed := True, iso1Body_SessionStopRes := w\<rparr>) c \<Longrightarrow>
     iso1Body_SessionStopRes_isUsed c \<and> same_iso1SessionStopRes w (iso1Body_SessionStopRes c)"
  by (simp_all add: same_iso1Body_def)

text \<open>Requests that fit into a buffer, without a signature.\<close>

definition exchangeable :: "iso1EXIDocument \<Rightarrow> bool" where
  "exchangeable d \<longleftrightarrow> document_ok d \<and> document_sized d \<and> \<not> iso1MessageHeader_Signature_isUsed (iso1_header d) \<and>
     64 + document_bits d \<le> 8 * BUFFER_SIZE"

lemma exchangeable_header:
  "exchangeable d \<Longrightarrow> iso1MessageHeader_ok (iso1_header d)"
  "exchangeable d \<Longrightarrow> iso1MessageHeader_bits (iso1_header d) \<le> 649"
  by (simp_all add: exchangeable_def document_ok_def iso1V2G_Message_ok_def header_bits_unsigned)

lemma init_document_header [simp]: "iso1_header (init_iso1EXIDocument d) = iso1_header d"
  "iso1_body (init_iso1EXIDocument d) = iso1_body d"
  by simp_all

text \<open>What the assignments to the first places of an array leave there.\<close>

lemma take_2_written: "2 \<le> length xs \<Longrightarrow> take 2 (xs[0 := a, Suc 0 := b]) = [a, b]"
  by (cases xs rule: remdups_adj.cases) auto

lemma all_8_written:
  "length xs = 8 \<Longrightarrow> xs[0 := a, Suc 0 := b, 2 := c, 3 := d, 4 := e, 5 := f, 6 := g, 7 := h] = [a, b, c, d, e, f, g, h]"
  by (auto simp: numeral_eq_Suc length_Suc_conv)
lemma setup_answered:
  assumes e: "exchangeable exiIn" and r: "iso1Body_SessionSetupReq_isUsed (iso1_body exiIn)"
    and bufs: "length buffer1 = BUFFER_SIZE" "length buffer2 = BUFFER_SIZE" and out: "document_sized exiOut"
  shows "\<exists>st' b1 b2 res d. request_response1 j st stream1 stream2 buffer1 buffer2 exiIn exiOut =
    Some (0, st', b1, b2, res, d) \<and> message_document d \<and> answered exiIn d"
proof -
  define u where "u = (let r = init_iso1SessionSetupResType (iso1Body_SessionSetupRes (init_iso1BodyType (iso1_body exiIn))) in
    r\<lparr>iso1SessionSetupRes_ResponseCode := 0,
      iso1SessionSetupRes_EVSEID_characters := (iso1SessionSetupRes_EVSEID_characters r)[0 := 0, 1 := 20],
      iso1SessionSetupRes_EVSEID_charactersLen := 2, iso1SessionSetupRes_EVSETimeStamp_isUsed := True,
      iso1SessionSetupRes_EVSETimeStamp := 123456789\<rparr>)"
  define res where "res = respond (\<lambda>b. b\<lparr>iso1Body_SessionSetupRes_isUsed := True, iso1Body_SessionSetupRes :=
    (let r = init_iso1SessionSetupResType (iso1Body_SessionSetupRes b) in
      r\<lparr>iso1SessionSetupRes_ResponseCode := 0,
        iso1SessionSetupRes_EVSEID_characters := (iso1SessionSetupRes_EVSEID_characters r)[0 := 0, 1 := 20],
        iso1SessionSetupRes_EVSEID_charactersLen := 2, iso1SessionSetupRes_EVSETimeStamp_isUsed := True,
        iso1SessionSetupRes_EVSETimeStamp := 123456789\<rparr>)\<rparr>) (new_session_id (init_iso1EXIDocument exiIn))"
  have ok: "document_ok exiIn" "document_sized exiIn" using e by (simp_all add: exchangeable_def)
  have len: "length (iso1MessageHeader_SessionID_bytes (iso1_header exiIn)) = 8" using ok(2) by (rule sized_length_8)
  have body: "iso1_body res = (init_iso1BodyType (iso1_body exiIn))\<lparr>iso1Body_SessionSetupRes_isUsed := True,
      iso1Body_SessionSetupRes := u\<rparr>" by (simp add: res_def u_def)
  have l: "length (iso1SessionSetupRes_EVSEID_characters (iso1Body_SessionSetupRes (iso1_body exiIn))) = 38"
    using ok(2) by (simp add: document_sized_def iso1V2G_Message_sized_def iso1Body_sized_def iso1SessionSetupRes_sized_def)
  have u: "iso1SessionSetupRes_ok u"
    using l by (simp add: u_def Let_def iso1SessionSetupRes_ok_def init_iso1BodyType_def init_iso1SessionSetupResType_def
        string_ok_def take_2_written)
  have h: "iso1_header res = iso1_header (new_session_id (init_iso1EXIDocument exiIn))" by (simp add: res_def)
  show ?thesis
  proof (rule exchange_with [where res = res, OF _ _ _ _ _ _ _ bufs out])
    show "document_ok exiIn" "64 + document_bits exiIn \<le> 8 * BUFFER_SIZE" using e by (simp_all add: exchangeable_def)
    show "create_response_message1 d exiIn = Some (0, res)" if "same_document exiIn d" "document_sized d" for d
      using request_arrived [OF that(1) ok(1) that(2)] r
      by (simp add: create_response_message1_def same_flags sessionSetup1_def sessionSetup_response_def [abs_def] res_def)
    show "document_ok res" unfolding res_def
      by (rule new_session_response_ok) (use len body u in \<open>simp_all add: one_element_ok res_def\<close>)
    show "iso1MessageHeader_bits (iso1_header res) \<le> 649"
      by (simp add: h new_session_id_def iso1MessageHeader_bits_def init_iso1MessageHeaderType_def)
    show "iso1Body_bits (iso1_body res) \<le> 1000" unfolding body by (rule one_element_bits)
    show "answered exiIn d" if "same_document res d" for d
      using one_element_same(2) [OF same_documentD(2) [OF that, unfolded body]] same_documentD(3) [OF that] r l len
      by (simp add: answered_def session_id_def h new_session_id_def u_def Let_def same_iso1SessionSetupRes_def
          init_iso1SessionSetupResType_def init_iso1BodyType_def init_iso1MessageHeaderType_def
          take_2_written all_8_written)
  qed
qed

text \<open>The other settled responses keep the header of the request.\<close>

lemma plain_answered:
  assumes e: "exchangeable exiIn"
    and res: "\<And>d. same_document exiIn d \<Longrightarrow> document_sized d \<Longrightarrow>
      create_response_message1 d exiIn = Some (0, respond f (init_iso1EXIDocument exiIn))"
    and f: "iso1Body_ok (f (init_iso1BodyType (iso1_body exiIn)))" "iso1Body_bits (f (init_iso1BodyType (iso1_body exiIn))) \<le> 1000"
    and ans: "\<And>d. same_iso1Body (f (init_iso1BodyType (iso1_body exiIn))) (iso1_body d) \<Longrightarrow>
      session_id d = session_id exiIn \<Longrightarrow> answered exiIn d"
    and bufs: "length buffer1 = BUFFER_SIZE" "length buffer2 = BUFFER_SIZE" and out: "document_sized exiOut"
  shows "\<exists>st' b1 b2 res d. request_response1 j st stream1 stream2 buffer1 buffer2 exiIn exiOut =
    Some (0, st', b1, b2, res, d) \<and> message_document d \<and> answered exiIn d"
proof -
  let ?res = "respond f (init_iso1EXIDocument exiIn)"
  have h: "iso1_header ?res = iso1_header exiIn" "iso1_body ?res = f (init_iso1BodyType (iso1_body exiIn))"
    and id: "session_id ?res = session_id exiIn" by (simp_all add: session_id_def)
  show ?thesis
  proof (rule exchange_with [where res = ?res, OF _ _ res _ _ _ _ bufs out])
    show "document_ok exiIn" "64 + document_bits exiIn \<le> 8 * BUFFER_SIZE" using e by (simp_all add: exchangeable_def)
    show "document_ok ?res" using exchangeable_header(1) [OF e] f(1) by (rule response_document_ok)
    show "iso1MessageHeader_bits (iso1_header ?res) \<le> 649" unfolding h by (rule exchangeable_header(2) [OF e])
    show "iso1Body_bits (iso1_body ?res) \<le> 1000" unfolding h by (rule f(2))
    show "answered exiIn d" if "same_document ?res d" for d
      using ans [OF same_documentD(2) [OF that, unfolded h]] same_documentD(3) [OF that] id by simp
  qed
qed

lemma exchangeable_ok: "exchangeable d \<Longrightarrow> document_ok d"
  by (simp add: exchangeable_def)

lemma authorization_answered:
  assumes e: "exchangeable exiIn" and r: "iso1Body_AuthorizationReq_isUsed (iso1_body exiIn)"
    and bufs: "length buffer1 = BUFFER_SIZE" "length buffer2 = BUFFER_SIZE" and out: "document_sized exiOut"
  shows "\<exists>st' b1 b2 res d. request_response1 j st stream1 stream2 buffer1 buffer2 exiIn exiOut =
    Some (0, st', b1, b2, res, d) \<and> message_document d \<and> answered exiIn d"
proof (rule plain_answered [OF e _ _ _ _ bufs out])
  note only = one_request(1) [OF exchangeable_ok [OF e] r]
  show "create_response_message1 d exiIn = Some (0, respond (\<lambda>b. b\<lparr>iso1Body_AuthorizationRes_isUsed := True,
      iso1Body_AuthorizationRes := (init_iso1AuthorizationResType (iso1Body_AuthorizationRes b))\<lparr>
        iso1AuthorizationRes_ResponseCode := 0, iso1AuthorizationRes_EVSEProcessing := 0\<rparr>\<rparr>) (init_iso1EXIDocument exiIn))"
    if "same_document exiIn d" "document_sized d" for d
    using request_arrived [OF that(1) exchangeable_ok [OF e] that(2)] r only
    by (simp add: create_response_message1_def same_flags authorization1_def authorization_response_def [abs_def])
  show "answered exiIn d" if "same_iso1Body ((init_iso1BodyType (iso1_body exiIn))\<lparr>iso1Body_AuthorizationRes_isUsed := True,
      iso1Body_AuthorizationRes := (init_iso1AuthorizationResType (iso1Body_AuthorizationRes
        (init_iso1BodyType (iso1_body exiIn))))\<lparr>iso1AuthorizationRes_ResponseCode := 0,
          iso1AuthorizationRes_EVSEProcessing := 0\<rparr>\<rparr>) (iso1_body d)" "session_id d = session_id exiIn" for d
    using one_element_same(1) [OF that(1)] that(2) r only by (simp add: answered_def same_iso1AuthorizationRes_def)
qed (rule one_element_ok [OF refl] one_element_bits; simp add: iso1AuthorizationRes_ok_def)+

lemma delivery_answered:
  assumes e: "exchangeable exiIn" and r: "iso1Body_PowerDeliveryReq_isUsed (iso1_body exiIn)"
    and bufs: "length buffer1 = BUFFER_SIZE" "length buffer2 = BUFFER_SIZE" and out: "document_sized exiOut"
  shows "\<exists>st' b1 b2 res d. request_response1 j st stream1 stream2 buffer1 buffer2 exiIn exiOut =
    Some (0, st', b1, b2, res, d) \<and> message_document d \<and> answered exiIn d"
proof -
  define filled where "filled b = (let r = init_iso1PowerDeliveryResType (iso1Body_PowerDeliveryRes b) in
    r\<lparr>iso1PowerDeliveryRes_ResponseCode := 0, iso1PowerDeliveryRes_EVSEStatus_isUsed := True,
      iso1PowerDeliveryRes_EVSEStatus := (iso1PowerDeliveryRes_EVSEStatus r)\<lparr>
        iso1EVSEStatus_EVSENotification := 1, iso1EVSEStatus_NotificationMaxDelay := 12\<rparr>\<rparr>)" for b :: iso1BodyType
  have ok: "iso1PowerDeliveryRes_ok (filled b)" for b
    by (simp add: filled_def Let_def iso1PowerDeliveryRes_ok_def init_iso1PowerDeliveryResType_def iso1EVSEStatus_ok_def)
  note only = one_request(2) [OF exchangeable_ok [OF e] r]
  show ?thesis
  proof (rule plain_answered [OF e _ _ _ _ bufs out])
    show "create_response_message1 d exiIn = Some (0, respond (\<lambda>b. b\<lparr>iso1Body_PowerDeliveryRes_isUsed := True,
        iso1Body_PowerDeliveryRes := filled b\<rparr>) (init_iso1EXIDocument exiIn))"
      if "same_document exiIn d" "document_sized d" for d
      using request_arrived [OF that(1) exchangeable_ok [OF e] that(2)] r only
      by (simp add: create_response_message1_def same_flags powerDelivery1_def powerDelivery_response_def [abs_def] filled_def)
    show "answered exiIn d" if "same_iso1Body ((init_iso1BodyType (iso1_body exiIn))\<lparr>iso1Body_PowerDeliveryRes_isUsed := True,
        iso1Body_PowerDeliveryRes := filled (init_iso1BodyType (iso1_body exiIn))\<rparr>) (iso1_body d)"
      "session_id d = session_id exiIn" for d
      using one_element_same(3) [OF that(1)] that(2) r only
      by (simp add: answered_def same_iso1PowerDeliveryRes_def filled_def Let_def same_iso1EVSEStatus_def)
  qed (rule one_element_ok [OF refl] one_element_bits; rule ok)+
qed

lemma stop_answered:
  assumes e: "exchangeable exiIn" and r: "iso1Body_SessionStopReq_isUsed (iso1_body exiIn)"
    and bufs: "length buffer1 = BUFFER_SIZE" "length buffer2 = BUFFER_SIZE" and out: "document_sized exiOut"
  shows "\<exists>st' b1 b2 res d. request_response1 j st stream1 stream2 buffer1 buffer2 exiIn exiOut =
    Some (0, st', b1, b2, res, d) \<and> message_document d \<and> answered exiIn d"
proof (rule plain_answered [OF e _ _ _ _ bufs out])
  note only = one_request(3) [OF exchangeable_ok [OF e] r]
  show "create_response_message1 d exiIn = Some (0, respond (\<lambda>b. b\<lparr>iso1Body_SessionStopRes_isUsed := True,
      iso1Body_SessionStopRes := (init_iso1SessionStopResType (iso1Body_SessionStopRes b))\<lparr>
        iso1SessionStopRes_ResponseCode := 0\<rparr>\<rparr>) (init_iso1EXIDocument exiIn))"
    if "same_document exiIn d" "document_sized d" for d
    using request_arrived [OF that(1) exchangeable_ok [OF e] that(2)] r only
    by (simp add: create_response_message1_def same_flags sessionStop1_def sessionStop_response_def [abs_def])
  show "answered exiIn d" if "same_iso1Body ((init_iso1BodyType (iso1_body exiIn))\<lparr>iso1Body_SessionStopRes_isUsed := True,
      iso1Body_SessionStopRes := (init_iso1SessionStopResType (iso1Body_SessionStopRes
        (init_iso1BodyType (iso1_body exiIn))))\<lparr>iso1SessionStopRes_ResponseCode := 0\<rparr>\<rparr>) (iso1_body d)"
    "session_id d = session_id exiIn" for d
    using one_element_same(4) [OF that(1)] that(2) r only by (simp add: answered_def same_iso1SessionStopRes_def)
qed (rule one_element_ok [OF refl] one_element_bits; simp add: iso1SessionStopRes_ok_def)+

subsection \<open>Requests without a usable response\<close>

text \<open>
  The station knows nine requests. For every other one it reports an unexpected request: the vehicle
  gets the code, and nothing is written for it.
\<close>

definition handled_request :: "iso1BodyType \<Rightarrow> bool" where
  "handled_request b \<longleftrightarrow> iso1Body_SessionSetupReq_isUsed b \<or> iso1Body_ServiceDetailReq_isUsed b \<or>
     iso1Body_AuthorizationReq_isUsed b \<or> iso1Body_PowerDeliveryReq_isUsed b \<or> iso1Body_ChargingStatusReq_isUsed b \<or>
     iso1Body_MeteringReceiptReq_isUsed b \<or> iso1Body_SessionStopReq_isUsed b \<or> iso1Body_CableCheckReq_isUsed b \<or>
     iso1Body_PreChargeReq_isUsed b"

lemma same_handled: "same_iso1Body b b' \<Longrightarrow> handled_request b' = handled_request b"
  by (simp add: handled_request_def same_iso1Body_def kept_def)

lemma other_request_refused:
  "\<not> handled_request (iso1_body d) \<Longrightarrow>
   \<exists>r. create_response_message1 d exiIn = Some (ERROR_UNEXPECTED_REQUEST_MESSAGE, r)"
  by (simp add: create_response_message1_def handled_request_def)

text \<open>
  The response to a metering receipt has none of the three statuses its schema requires. Its encoding goes
  well up to the response code; then the encoder has no event.
\<close>

lemma run_encoder_goes:
  "es g x s = goto g' y m \<Longrightarrow> m = Some (EXI_OK, s1) \<Longrightarrow> run_encoder es g x s = run_encoder es g' y s1"
  by (simp add: run_encoder_def grammar_loop.simps [of es g] goto_def)

lemma run_encoder_stops:
  "es g x s = goto g' y m \<Longrightarrow> m = Some (e, s1) \<Longrightarrow> e \<noteq> EXI_OK \<Longrightarrow> run_encoder es g x s = Some (e, s1)"
  by (simp add: run_encoder_def grammar_loop.simps [of es g] goto_def)

lemma receipt_response_stops:
  assumes "\<not> iso1MeteringReceiptRes_AC_EVSEStatus_isUsed r" "\<not> iso1MeteringReceiptRes_DC_EVSEStatus_isUsed r"
    "\<not> iso1MeteringReceiptRes_EVSEStatus_isUsed r"
    and "encode_simple 1 0 (\<lambda>s. encodeNBitUnsignedInteger s 5 (iso1MeteringReceiptRes_ResponseCode r)) s = Some (EXI_OK, s')"
  shows "encode_iso1MeteringReceiptResType s r = Some (EXI_ERROR_UNKOWN_EVENT, s')"
proof -
  have "run_encoder (iso1MeteringReceiptRes_enc_step r) 94 () s' = Some (EXI_ERROR_UNKOWN_EVENT, s')"
    using assms(1-3) by (simp add: run_encoder_def grammar_loop.simps [of _ 94] iso1MeteringReceiptRes_enc_step_def)
  then show ?thesis
    using run_encoder_goes [of "iso1MeteringReceiptRes_enc_step r" 93 "()" s 94 "()", OF _ assms(4)]
    by (simp add: encode_iso1MeteringReceiptResType_def iso1MeteringReceiptRes_enc_step_def)
qed

lemma receipt_body_stops:
  assumes "b = (init_iso1BodyType a)\<lparr>iso1Body_MeteringReceiptRes_isUsed := True, iso1Body_MeteringReceiptRes := r\<rparr>"
    and "encodeNBitUnsignedInteger s 6 16 = Some (EXI_OK, s1)"
    and "encode_iso1MeteringReceiptResType s1 r = Some (EXI_ERROR_UNKOWN_EVENT, s')"
  shows "encode_iso1BodyType s b = Some (EXI_ERROR_UNKOWN_EVENT, s')"
proof -
  have "iso1Body_enc_step b 220 () s = goto 3 () (encode_child 6 16 (\<lambda>s. encode_iso1MeteringReceiptResType s r) s)"
    by (simp add: assms(1) iso1Body_steps init_iso1BodyType_def)
  from run_encoder_stops [of "iso1Body_enc_step b" 220 "()" s 3 "()", OF this] assms(2,3) show ?thesis by (simp add: encode_iso1BodyType_def encode_child_def)
qed

lemma message_stops:
  assumes "encode_child 1 0 (\<lambda>s. encode_iso1MessageHeaderType s (iso1V2G_Message_Header v)) s = Some (EXI_OK, s1)"
    and "encodeNBitUnsignedInteger s1 1 0 = Some (EXI_OK, s2)"
    and "encode_iso1BodyType s2 (iso1V2G_Message_Body v) = Some (e, s')" "e \<noteq> EXI_OK"
  shows "encode_iso1AnonType_V2G_Message s v = Some (e, s')"
proof -
  have 1: "run_encoder (iso1V2G_Message_enc_step v) 256 () s = run_encoder (iso1V2G_Message_enc_step v) 257 () s1"
    by (rule run_encoder_goes [OF _ assms(1)]) (simp add: iso1V2G_Message_enc_step_def)
  have "encode_child 1 0 (\<lambda>s. encode_iso1BodyType s (iso1V2G_Message_Body v)) s1 = Some (e, s')"
    using assms(2,3) by (simp add: encode_child_def)
  from run_encoder_stops [OF _ this assms(4), of "iso1V2G_Message_enc_step v" 257 "()" s1 3 "()"] 1 show ?thesis
    by (simp add: encode_iso1AnonType_V2G_Message_def iso1V2G_Message_enc_step_def)
qed

text \<open>What is written before the response stops.\<close>

definition receipt_prefix :: "iso1MessageHeaderType \<Rightarrow> u32 \<Rightarrow> bitstream \<Rightarrow> (errn \<times> bitstream) option" where
  "receipt_prefix h c s = do {
     (e, s) \<leftarrow> writeBits s 8 128;
     if e = EXI_OK then do {
       (e, s) \<leftarrow> encodeNBitUnsignedInteger s 7 76;
       if e = EXI_OK then do {
         (e, s) \<leftarrow> encode_child 1 0 (\<lambda>s. encode_iso1MessageHeaderType s h) s;
         if e = EXI_OK then do {
           (e, s) \<leftarrow> encodeNBitUnsignedInteger s 1 0;
           if e = EXI_OK then do {
             (e, s) \<leftarrow> encodeNBitUnsignedInteger s 6 16;
             if e = EXI_OK then encode_simple 1 0 (\<lambda>s. encodeNBitUnsignedInteger s 5 c) s else Some (e, s)
           } else Some (e, s)
         } else Some (e, s)
       } else Some (e, s)
     } else Some (e, s)
   }"

lemma emits_receipt_prefix:
  assumes "iso1MessageHeader_ok h" "iso1MessageHeader_bits h \<le> 649"
  shows "\<exists>bs. wr.emits (receipt_prefix h c) bs \<and> length bs \<le> 700"
proof -
  obtain bs where bs: "wr.emits (\<lambda>s. encode_iso1MessageHeaderType s h) bs" "length bs \<le> 649"
    using readsE [OF reads_iso1MessageHeader [OF assms(1) sized_zero_iso1MessageHeader]] assms(2)
    by (metis order.trans)
  have "wr.emits (receipt_prefix h c) (header_bits @ bits 7 (76 :: u32) @ (bits 1 (0 :: u32) @ bs) @ bits 1 (0 :: u32) @
      bits 6 (16 :: u32) @ (bits 1 (0 :: u32) @ [False] @ bits 5 c @ [False]))"
    unfolding receipt_prefix_def
    by (intro wr.emits_then wr.writes_imp_emits [OF writes_header] emits_encodeNBit emits_encode_simple
        emits_encode_child bs(1)) simp_all
  with bs(2) show ?thesis by (intro exI conjI) (assumption, simp)
qed

lemma receipt_response_fails:
  assumes e: "document_ok e" "iso1Body_MeteringReceiptReq_isUsed (iso1_body e)"
    and d: "same_document e d" "document_sized d"
    and x: "iso1MessageHeader_ok (iso1_header exiIn)" "iso1MessageHeader_bits (iso1_header exiIn) \<le> 649"
  shows "\<exists>res. create_response_message1 d exiIn = Some (0, res) \<and>
    (\<forall>s. 96 \<le> stream_size s \<longrightarrow> stream_size s \<le> length (stream_data s) \<longrightarrow>
       (\<exists>s'. serialize1EXI2Stream res s = Some (errn_code EXI_ERROR_UNKOWN_EVENT, s')))"
proof -
  define r where "r = (init_iso1MeteringReceiptResType (iso1Body_MeteringReceiptRes (init_iso1BodyType (iso1_body exiIn))))
    \<lparr>iso1MeteringReceiptRes_ResponseCode := 4\<rparr>"
  define res where "res = respond (\<lambda>b. b\<lparr>iso1Body_MeteringReceiptRes_isUsed := True,
    iso1Body_MeteringReceiptRes := (init_iso1MeteringReceiptResType (iso1Body_MeteringReceiptRes b))\<lparr>
      iso1MeteringReceiptRes_ResponseCode := 4\<rparr>\<rparr>) (init_iso1EXIDocument exiIn)"
  have 1: "create_response_message1 d exiIn = Some (0, res)"
    using request_arrived [OF d(1) e(1) d(2)] one_request(4) [OF e] e(2)
    by (simp add: create_response_message1_def same_flags meteringReceipt1_def meteringReceipt_response_def [abs_def] res_def)
  have res: "message_document res" "iso1_header res = iso1_header exiIn" "iso1_body res = (init_iso1BodyType (iso1_body exiIn))
      \<lparr>iso1Body_MeteringReceiptRes_isUsed := True, iso1Body_MeteringReceiptRes := r\<rparr>"
    by (simp_all add: res_def respond_is_message_document r_def)
  have r: "\<not> iso1MeteringReceiptRes_AC_EVSEStatus_isUsed r" "\<not> iso1MeteringReceiptRes_DC_EVSEStatus_isUsed r"
    "\<not> iso1MeteringReceiptRes_EVSEStatus_isUsed r" by (simp_all add: r_def init_iso1MeteringReceiptResType_def)
  obtain bs where bs: "wr.emits (receipt_prefix (iso1_header exiIn) (iso1MeteringReceiptRes_ResponseCode r)) bs" "length bs \<le> 700"
    using emits_receipt_prefix [OF x] by blast
  have "\<exists>s'. serialize1EXI2Stream res s = Some (errn_code EXI_ERROR_UNKOWN_EVENT, s')"
    if s: "96 \<le> stream_size s" "stream_size s \<le> length (stream_data s)" for s
  proof -
    let ?s = "s\<lparr>stream_pos := 8\<rparr>"
    have st: "startable ?s" using s by (simp add: startable_def)
    have "(length (written (reset_out ?s)) + length bs) div 8 \<le> stream_size (reset_out ?s)"
      using st s bs(2) by (simp add: startable_def)
    from wr.emitsD [OF bs(1) reset_out_simps(1) [OF st] this] obtain s1 s2 s3 s4 s5 s6 where
      w: "writeBits (reset_out ?s) 8 128 = Some (EXI_OK, s1)" "encodeNBitUnsignedInteger s1 7 76 = Some (EXI_OK, s2)"
      "encode_child 1 0 (\<lambda>s. encode_iso1MessageHeaderType s (iso1_header exiIn)) s2 = Some (EXI_OK, s3)"
      "encodeNBitUnsignedInteger s3 1 0 = Some (EXI_OK, s4)" "encodeNBitUnsignedInteger s4 6 16 = Some (EXI_OK, s5)"
      "encode_simple 1 0 (\<lambda>s. encodeNBitUnsignedInteger s 5 (iso1MeteringReceiptRes_ResponseCode r)) s5 = Some (EXI_OK, s6)"
      by (auto simp: receipt_prefix_def bind_eq_Some_conv split: if_splits)
    from receipt_body_stops [OF res(3) w(5) receipt_response_stops [OF r w(6)]]
    have "encode_iso1AnonType_V2G_Message s2 (iso1EXIDocument_V2G_Message res) = Some (EXI_ERROR_UNKOWN_EVENT, s6)"
      using w(3,4) res(2) by (intro message_stops [of _ s2 s3 s4]) simp_all
    then have "encode_iso1ExiDocument ?s res = Some (EXI_ERROR_UNKOWN_EVENT, s6)"
      using w(1,2) by (simp add: encode_iso1ExiDocument_def writeEXIHeader_reset enc_element_message [OF res(1)] encode_child_def)
    then show ?thesis by (simp add: serialize1EXI2Stream_def)
  qed
  with 1 show ?thesis by blast
qed

subsection \<open>Samples\<close>
text \<open>Sample requests, in memory that was zero.\<close>

definition sample_request :: "iso1BodyType \<Rightarrow> iso1EXIDocument" where
  "sample_request b = (init_iso1EXIDocument zero_iso1EXIDocument)\<lparr>
     iso1EXIDocument_V2G_Message := \<lparr>iso1V2G_Message_Header =
       zero_iso1MessageHeader\<lparr>iso1MessageHeader_SessionID_bytesLen := 8\<rparr>, iso1V2G_Message_Body = b\<rparr>,
     iso1EXIDocument_V2G_Message_isUsed := True\<rparr>"

lemma sample_exchangeable:
  assumes "iso1Body_ok b" "iso1Body_sized b" "iso1Body_bits b \<le> 1700"
  shows "exchangeable (sample_request b)"
proof -
  have h: "iso1MessageHeader_ok (zero_iso1MessageHeader\<lparr>iso1MessageHeader_SessionID_bytesLen := 8\<rparr>)"
    "iso1MessageHeader_sized (zero_iso1MessageHeader\<lparr>iso1MessageHeader_SessionID_bytesLen := 8\<rparr>)"
    "iso1MessageHeader_bits (zero_iso1MessageHeader\<lparr>iso1MessageHeader_SessionID_bytesLen := 8\<rparr>) = 93"
    "\<not> iso1MessageHeader_Signature_isUsed zero_iso1MessageHeader"
    using sized_zero_iso1MessageHeader
    by (simp_all add: iso1MessageHeader_ok_def iso1MessageHeader_sized_def iso1MessageHeader_bits_def zero_iso1MessageHeader_def)
  with assms show ?thesis
    by (simp add: exchangeable_def document_ok_def sample_request_def init_used_is_message_document iso1V2G_Message_ok_def
        document_sized_def iso1V2G_Message_sized_def document_bits_def iso1V2G_Message_bits_def BUFFER_SIZE_def)
qed

lemma sample_request_body [simp]: "iso1_body (sample_request b) = b"
  by (simp add: sample_request_def)

definition setup_request :: iso1BodyType where
  "setup_request = (init_iso1BodyType zero_iso1Body)\<lparr>iso1Body_SessionSetupReq_isUsed := True,
     iso1Body_SessionSetupReq := \<lparr>iso1SessionSetupReq_EVCCID_bytes = [10, 0, 0, 0, 0, 0],
       iso1SessionSetupReq_EVCCID_bytesLen = 1\<rparr>\<rparr>"

definition discovery_request :: iso1BodyType where
  "discovery_request = (init_iso1BodyType zero_iso1Body)\<lparr>iso1Body_ServiceDiscoveryReq_isUsed := True\<rparr>"

definition receipt_request :: iso1BodyType where
  "receipt_request = (init_iso1BodyType zero_iso1Body)\<lparr>iso1Body_MeteringReceiptReq_isUsed := True\<rparr>"

lemma zero_body_parts:
  "iso1Body_ServiceDiscoveryReq zero_iso1Body = zero_iso1ServiceDiscoveryReq"
  "iso1Body_MeteringReceiptReq zero_iso1Body = zero_iso1MeteringReceiptReq"
  by (simp_all add: zero_iso1Body_def)

lemma sample_requests_ok:
  "iso1Body_ok setup_request" "iso1Body_ok discovery_request" "iso1Body_ok receipt_request"
  by (simp_all add: setup_request_def discovery_request_def receipt_request_def iso1Body_ok_def init_iso1BodyType_def
      iso1SessionSetupReq_ok_def zero_body_parts iso1ServiceDiscoveryReq_ok_def zero_iso1ServiceDiscoveryReq_def
      iso1MeteringReceiptReq_ok_def zero_iso1MeteringReceiptReq_def iso1MeterInfo_ok_def zero_iso1MeterInfo_def string_ok_def)

lemma sample_requests_sized:
  "iso1Body_sized setup_request" "iso1Body_sized discovery_request" "iso1Body_sized receipt_request"
  using sized_zero_iso1Body
  by (simp_all add: setup_request_def discovery_request_def receipt_request_def init_iso1BodyType_def iso1Body_sized_def
      iso1SessionSetupReq_sized_def)

lemma sample_requests_bits:
  "iso1Body_bits setup_request \<le> 1700" "iso1Body_bits discovery_request \<le> 1700" "iso1Body_bits receipt_request \<le> 1700"
  by (simp_all add: setup_request_def discovery_request_def receipt_request_def iso1Body_bits_def init_iso1BodyType_def)

lemma sample_requests_exchangeable:
  "exchangeable (sample_request setup_request)" "exchangeable (sample_request discovery_request)"
  "exchangeable (sample_request receipt_request)"
  by (intro sample_exchangeable sample_requests_ok sample_requests_sized sample_requests_bits)+

subsection \<open>Properties\<close>

text \<open>C3: every message of ISO 15118 comes back as a document: for any well-formed message, of any of the 34 kinds and
  with any header, a document with it is encoded into any stream with room for its bits, and decoded from there
  the same, into any struct with arrays of their declared sizes and by a decoder in any state. Well-formed
  (\<open>document_ok\<close>) means values within their schema types, and that unsigned 32-bit numbers are below
  \<open>2 ^ 31\<close>, as the decoder cannot read greater ones.\<close>

theorem iso1_document_roundtrip:
  assumes "document_ok d" "startable s" "8 * stream_pos s + document_bits d \<le> 8 * stream_size s" "document_sized d0"
  shows "\<exists>s' st' d' t. encode_iso1ExiDocument s d = Some (EXI_OK, s') \<and>
    decode_iso1ExiDocument j st (s'\<lparr>stream_pos := stream_pos s\<rparr>) d0 = Some (EXI_OK, (st', d'), t) \<and>
    same_document d d'"
proof -
  from iso1.encode_decode [OF assms(1-3)] obtain s' where s': "encode_iso1ExiDocument s d = Some (EXI_OK, s')"
    "startable s'" "stream_size s' = stream_size s" "stream_pos s \<le> stream_pos s'"
    and dec: "\<And>t j st d0. startable t \<Longrightarrow> stream_size t = stream_size s \<Longrightarrow> stream_pos t = stream_pos s \<Longrightarrow>
       drop (stream_pos s) (stream_data t) = drop (stream_pos s) (stream_data s') \<Longrightarrow> document_sized d0 \<Longrightarrow>
       \<exists>st' d' t'. decode_iso1ExiDocument j st t d0 = Some (EXI_OK, (st', d'), t') \<and> same_document d d' \<and> document_sized d'"
    by blast
  have "startable (s'\<lparr>stream_pos := stream_pos s\<rparr>)" using s'(2-4) by (simp add: startable_def)
  from dec [OF this _ _ _ assms(4)] s'(1,3) show ?thesis by fastforce
qed

theorem iso1_document_roundtrip_witness:
  "\<exists>s' st' d' t. encode_iso1ExiDocument (blank_stream 256) (sample_request setup_request) = Some (EXI_OK, s') \<and>
     decode_iso1ExiDocument 0 \<lparr>eventCode = 9, uint32 = 9\<rparr> (s'\<lparr>stream_pos := 0\<rparr>) zero_iso1EXIDocument =
       Some (EXI_OK, (st', d'), t) \<and> same_document (sample_request setup_request) d'"
proof -
  have e: "document_ok (sample_request setup_request)" "64 + document_bits (sample_request setup_request) \<le> 8 * 256"
    using sample_requests_exchangeable(1) by (simp_all add: exchangeable_def BUFFER_SIZE_def)
  then have "8 * stream_pos (blank_stream 256) + document_bits (sample_request setup_request) \<le> 8 * stream_size (blank_stream 256)"
    by simp
  from iso1_document_roundtrip [OF e(1) startable_blank this sized_zero_document] show ?thesis by simp
qed

text \<open>C5: the four requests whose response the station fills completely are answered. For every well-formed
  document with such a request, without a signature and short enough for the buffer, the exchange of
  \<open>main_example.c\<close> returns 0 and the vehicle's document holds that response and nothing else: to the session
  setup the new session identifier 1 to 8, the identifier of the station and its time; to the
  authorization, the power delivery and the session stop, under the session identifier of the request,
  their result. This holds whatever the buffers, the streams, the static variables of the decoder and the
  structs hold before.\<close>

theorem requests_answered:
  assumes "exchangeable exiIn" "settled_request (iso1_body exiIn)"
    and "length buffer1 = BUFFER_SIZE" "length buffer2 = BUFFER_SIZE" "document_sized exiOut"
  shows "\<exists>st' b1 b2 res d. request_response1 j st stream1 stream2 buffer1 buffer2 exiIn exiOut =
    Some (0, st', b1, b2, res, d) \<and> message_document d \<and> answered exiIn d"
  using assms(2) unfolding settled_request_def
  by (elim disjE) (erule setup_answered [OF assms(1) _ assms(3-5)] | erule authorization_answered [OF assms(1) _ assms(3-5)] |
    erule delivery_answered [OF assms(1) _ assms(3-5)] | erule stop_answered [OF assms(1) _ assms(3-5)])+

theorem requests_answered_witness:
  "\<exists>st' b1 b2 res d. request_response1 0 \<lparr>eventCode = 9, uint32 = 9\<rparr> (blank_stream 1) (blank_stream 1) (replicate 256 7)
     (replicate 256 7) (sample_request setup_request) zero_iso1EXIDocument = Some (0, st', b1, b2, res, d) \<and>
     message_document d \<and> answered (sample_request setup_request) d"
  by (rule requests_answered [OF sample_requests_exchangeable(1)])
    (simp_all add: settled_request_def setup_request_def BUFFER_SIZE_def)

text \<open>C11: a request that is none of the nine the station knows is refused: the exchange returns the code of an
  unexpected request, the second buffer stays untouched, and the vehicle's document holds its own request.\<close>

theorem other_requests_refused:
  assumes "exchangeable exiIn" "\<not> handled_request (iso1_body exiIn)"
    and "length buffer1 = BUFFER_SIZE" "document_sized exiOut"
  shows "\<exists>st' b1 res d. request_response1 j st stream1 stream2 buffer1 buffer2 exiIn exiOut =
    Some (ERROR_UNEXPECTED_REQUEST_MESSAGE, st', b1, buffer2, res, d) \<and> same_document exiIn d"
proof -
  let ?s = "stream1\<lparr>stream_size := BUFFER_SIZE, stream_data := buffer1\<rparr>"
  have d: "document_ok exiIn" "64 + document_bits exiIn \<le> 8 * stream_size ?s" "8 \<le> stream_size ?s"
    "stream_size ?s \<le> length (stream_data ?s)" using assms(1,3) by (simp_all add: exchangeable_def BUFFER_SIZE_def)
  from serialize_deserialize [OF d] assms(4)
  obtain s1 st1 d1 t1 where 1: "serialize1EXI2Stream exiIn ?s = Some (0, s1)"
    "deserialize1Stream2EXI j st s1 exiOut = Some (0, (st1, d1), t1)" "same_document exiIn d1" "document_sized d1"
    by blast
  have "\<not> handled_request (iso1_body d1)" using assms(2) same_handled [OF same_documentD(2) [OF 1(3)]] by simp
  from other_request_refused [OF this, of exiIn] 1(1-3) show ?thesis
    by (auto simp: request_response1_def ERROR_UNEXPECTED_REQUEST_MESSAGE_def Let_def)
qed

theorem other_requests_refused_witness:
  "\<exists>st' b1 res d. request_response1 0 \<lparr>eventCode = 9, uint32 = 9\<rparr> (blank_stream 1) (blank_stream 1) (replicate 256 7)
     [7] (sample_request discovery_request) zero_iso1EXIDocument =
       Some (ERROR_UNEXPECTED_REQUEST_MESSAGE, st', b1, [7], res, d) \<and> same_document (sample_request discovery_request) d"
  by (rule other_requests_refused [OF sample_requests_exchangeable(2)])
    (simp_all add: handled_request_def discovery_request_def init_iso1BodyType_def BUFFER_SIZE_def)

text \<open>C10: a metering receipt is never answered: the response of \<open>meteringReceipt1\<close> has none of the three statuses the
  schema requires, so its encoder finds no event, and the exchange returns that error. (For any metering
  receipt, without a signature and short enough for the buffer.)\<close>

theorem metering_receipt_unanswered:
  assumes "exchangeable exiIn" "iso1Body_MeteringReceiptReq_isUsed (iso1_body exiIn)"
    and "length buffer1 = BUFFER_SIZE" "length buffer2 = BUFFER_SIZE" "document_sized exiOut"
  shows "\<exists>r. request_response1 j st stream1 stream2 buffer1 buffer2 exiIn exiOut = Some (errn_code EXI_ERROR_UNKOWN_EVENT, r)"
proof -
  let ?s = "stream1\<lparr>stream_size := BUFFER_SIZE, stream_data := buffer1\<rparr>"
  let ?s2 = "stream2\<lparr>stream_size := BUFFER_SIZE, stream_data := buffer2\<rparr>"
  have d: "document_ok exiIn" "64 + document_bits exiIn \<le> 8 * stream_size ?s" "8 \<le> stream_size ?s"
    "stream_size ?s \<le> length (stream_data ?s)" using assms(1,3) by (simp_all add: exchangeable_def BUFFER_SIZE_def)
  from serialize_deserialize [OF d] assms(5)
  obtain s1 st1 d1 t1 where 1: "serialize1EXI2Stream exiIn ?s = Some (0, s1)"
    "deserialize1Stream2EXI j st s1 exiOut = Some (0, (st1, d1), t1)" "same_document exiIn d1" "document_sized d1"
    by blast
  have "96 \<le> stream_size ?s2" "stream_size ?s2 \<le> length (stream_data ?s2)" using assms(4) by (simp_all add: BUFFER_SIZE_def)
  with receipt_response_fails [OF d(1) assms(2) 1(3,4) exchangeable_header [OF assms(1)]] obtain res s2 where
    "create_response_message1 d1 exiIn = Some (0, res)" "serialize1EXI2Stream res ?s2 = Some (errn_code EXI_ERROR_UNKOWN_EVENT, s2)"
    by blast
  with 1(1,2) show ?thesis by (simp add: request_response1_def Let_def)
qed

theorem metering_receipt_unanswered_witness:
  "\<exists>r. request_response1 0 \<lparr>eventCode = 9, uint32 = 9\<rparr> (blank_stream 1) (blank_stream 1) (replicate 256 7)
     (replicate 256 7) (sample_request receipt_request) zero_iso1EXIDocument = Some (errn_code EXI_ERROR_UNKOWN_EVENT, r)"
  by (rule metering_receipt_unanswered [OF sample_requests_exchangeable(3)])
    (simp_all add: receipt_request_def init_iso1BodyType_def BUFFER_SIZE_def)

end
