(* ===== verification/Iso1Session.thy ===== *)
theory Iso1Session
  imports Iso1Exchange
begin

section \<open>ISO 15118: the session of the example (test/main_example.c)\<close>

text \<open>
  \<open>charging1\<close>, the charging session of the vehicle: eight requests, each put into the body of \<open>exiIn\<close> and
  exchanged by \<open>request_response1\<close>; it ends at the first error or response that was not expected. What is
  printed is left out, but for the loops that read arrays up to a length from the message.

  The messages of a body are a union in C, and some of their members are read without having been
  written: what the union holds then, seen as each of its members, is an argument (\<open>mem k\<close>, for the \<open>k\<close>th
  request), as are the locals of the \<open>k\<close>th call of \<open>request_response1\<close> (\<open>loc k\<close>) and the local
  \<open>paymentDetailsRes\<close>, which is read and never written.
\<close>

definition ERROR_UNEXPECTED_SESSION_SETUP_RESP_MESSAGE :: int where
  "ERROR_UNEXPECTED_SESSION_SETUP_RESP_MESSAGE = -602"

definition ERROR_UNEXPECTED_SERVICE_DETAILS_RESP_MESSAGE :: int where
  "ERROR_UNEXPECTED_SERVICE_DETAILS_RESP_MESSAGE = -603"

definition ERROR_UNEXPECTED_AUTHORIZATION_RESP_MESSAGE :: int where
  "ERROR_UNEXPECTED_AUTHORIZATION_RESP_MESSAGE = -606"

definition ERROR_UNEXPECTED_POWER_DELIVERY_RESP_MESSAGE :: int where
  "ERROR_UNEXPECTED_POWER_DELIVERY_RESP_MESSAGE = -608"

definition ERROR_UNEXPECTED_CHARGING_STATUS_RESP_MESSAGE :: int where
  "ERROR_UNEXPECTED_CHARGING_STATUS_RESP_MESSAGE = -609"

definition ERROR_UNEXPECTED_SESSION_STOP_RESP_MESSAGE :: int where
  "ERROR_UNEXPECTED_SESSION_STOP_RESP_MESSAGE = -611"

definition ERROR_UNEXPECTED_CABLE_CHECK_RESP_MESSAGE :: int where
  "ERROR_UNEXPECTED_CABLE_CHECK_RESP_MESSAGE = -612"

definition ERROR_UNEXPECTED_PRE_CHARGE_RESP_MESSAGE :: int where
  "ERROR_UNEXPECTED_PRE_CHARGE_RESP_MESSAGE = -612"

subsection \<open>The requests of the vehicle\<close>

definition sessionSetup_request1 :: "iso1BodyType \<Rightarrow> iso1BodyType" where
  "sessionSetup_request1 b = b\<lparr>iso1Body_SessionSetupReq_isUsed := True,
     iso1Body_SessionSetupReq := (let r = init_iso1SessionSetupReqType (iso1Body_SessionSetupReq b) in
       r\<lparr>iso1SessionSetupReq_EVCCID_bytesLen := 1,
         iso1SessionSetupReq_EVCCID_bytes := (iso1SessionSetupReq_EVCCID_bytes r)[0 := 10]\<rparr>)\<rparr>"

definition serviceDetail_request1 :: "iso1BodyType \<Rightarrow> iso1BodyType" where
  "serviceDetail_request1 b = b\<lparr>iso1Body_ServiceDetailReq_isUsed := True,
     iso1Body_ServiceDetailReq := (init_iso1ServiceDetailReqType (iso1Body_ServiceDetailReq b))\<lparr>
       iso1ServiceDetailReq_ServiceID := 22\<rparr>\<rparr>"

definition copyBytes :: "u8 list \<Rightarrow> u16 \<Rightarrow> u8 list \<Rightarrow> u8 list option" where
  "copyBytes from len to =
     (if unat len \<le> length from \<and> unat len \<le> length to
      then Some (take (unat len) from @ drop (unat len) to) else None)"

text \<open>The copied challenge is an argument here; \<open>charging1\<close> copies it.\<close>

definition authorization_request1 :: "u8 list \<Rightarrow> u16 \<Rightarrow> iso1BodyType \<Rightarrow> iso1BodyType" where
  "authorization_request1 challenge len b = b\<lparr>iso1Body_AuthorizationReq_isUsed := True,
     iso1Body_AuthorizationReq := (let r = init_iso1AuthorizationReqType (iso1Body_AuthorizationReq b) in
       r\<lparr>iso1AuthorizationReq_GenChallenge_bytes := challenge,
         iso1AuthorizationReq_GenChallenge_bytesLen := len,
         iso1AuthorizationReq_GenChallenge_isUsed := True,
         iso1AuthorizationReq_Id_isUsed := True,
         iso1AuthorizationReq_Id_charactersLen := 3,
         iso1AuthorizationReq_Id_characters := (iso1AuthorizationReq_Id_characters r)
           [0 := 73, 1 := 100, 2 := 50]\<rparr>)\<rparr>"

definition cableCheck_request1 :: "iso1BodyType \<Rightarrow> iso1BodyType" where
  "cableCheck_request1 b = b\<lparr>iso1Body_CableCheckReq_isUsed := True\<rparr>"

definition preCharge_request1 :: "iso1BodyType \<Rightarrow> iso1BodyType" where
  "preCharge_request1 b = b\<lparr>iso1Body_PreChargeReq_isUsed := True,
     iso1Body_PreChargeReq := (let r = init_iso1PreChargeReqType (iso1Body_PreChargeReq b) in
       r\<lparr>iso1PreChargeReq_EVTargetCurrent := (iso1PreChargeReq_EVTargetCurrent r)\<lparr>
           iso1PhysicalValue_Multiplier := 1, iso1PhysicalValue_Value := 234\<rparr>,
         iso1PreChargeReq_EVTargetVoltage := (iso1PreChargeReq_EVTargetVoltage r)\<lparr>
           iso1PhysicalValue_Multiplier := 1, iso1PhysicalValue_Value := 100\<rparr>\<rparr>)\<rparr>"

definition powerDelivery_request1 :: "u8 \<Rightarrow> iso1BodyType \<Rightarrow> iso1BodyType" where
  "powerDelivery_request1 tuple b = b\<lparr>iso1Body_PowerDeliveryReq_isUsed := True,
     iso1Body_PowerDeliveryReq := (init_iso1PowerDeliveryReqType (iso1Body_PowerDeliveryReq b))\<lparr>
       iso1PowerDeliveryReq_ChargeProgress := 0,
       iso1PowerDeliveryReq_SAScheduleTupleID := tuple\<rparr>\<rparr>"

definition chargingStatus_request1 :: "iso1BodyType \<Rightarrow> iso1BodyType" where
  "chargingStatus_request1 b = b\<lparr>iso1Body_ChargingStatusReq_isUsed := True,
     iso1Body_ChargingStatusReq := init_iso1ChargingStatusReqType (iso1Body_ChargingStatusReq b)\<rparr>"

definition sessionStop_request1 :: "iso1BodyType \<Rightarrow> iso1BodyType" where
  "sessionStop_request1 b = b\<lparr>iso1Body_SessionStopReq_isUsed := True,
     iso1Body_SessionStopReq := (init_iso1SessionStopReqType (iso1Body_SessionStopReq b))\<lparr>
       iso1SessionStopReq_ChargingSession := 1\<rparr>\<rparr>"

subsection \<open>The session\<close>

text \<open>What the session works on: the static variables of the decoder, the two buffers and documents.\<close>

record charging =
  ch_static :: dec_static
  ch_buffer1 :: "u8 list"
  ch_buffer2 :: "u8 list"
  ch_exiIn :: iso1EXIDocument
  ch_exiOut :: iso1EXIDocument

definition with_body :: "(iso1BodyType \<Rightarrow> iso1BodyType) \<Rightarrow> iso1BodyType \<Rightarrow> iso1EXIDocument \<Rightarrow> iso1EXIDocument" where
  "with_body request mem d = d\<lparr>iso1EXIDocument_V2G_Message := (iso1EXIDocument_V2G_Message d)\<lparr>
     iso1V2G_Message_Body := request (init_iso1BodyType mem)\<rparr>\<rparr>"

text \<open>One request: prepared, exchanged, and its response checked and its session identifier printed.\<close>

definition ask1 ::
  "u32 \<times> bitstream \<times> bitstream \<Rightarrow> iso1BodyType \<Rightarrow> (iso1BodyType \<Rightarrow> iso1BodyType) \<Rightarrow> (iso1BodyType \<Rightarrow> bool) \<Rightarrow>
    int \<Rightarrow> charging \<Rightarrow> (int \<times> charging) option" where
  "ask1 loc mem request expected unexpected c = do {
     (errn, st, b1, b2, exiIn, exiOut) \<leftarrow>
       request_response1 (fst loc) (ch_static c) (fst (snd loc)) (snd (snd loc)) (ch_buffer1 c) (ch_buffer2 c)
         (with_body request mem (ch_exiIn c)) (ch_exiOut c);
     let c = \<lparr>ch_static = st, ch_buffer1 = b1, ch_buffer2 = b2, ch_exiIn = exiIn, ch_exiOut = exiOut\<rparr>;
     if errn = 0 then
       if expected (iso1_body exiOut) then (if session_id_readable exiOut then Some (0, c) else None)
       else Some (unexpected, c)
     else Some (errn, c)
   }"

text \<open>The names of the parameters, which are printed by \<open>printASCIIString\<close>.\<close>

definition names_readable :: "iso1ServiceDetailResType \<Rightarrow> bool" where
  "names_readable r \<longleftrightarrow> iso1ServiceDetailRes_ServiceParameterList_isUsed r \<longrightarrow>
     (let l = iso1ServiceDetailRes_ServiceParameterList r in
      list_all (\<lambda>i. i < length (iso1ServiceParameterList_ParameterSet_array l) \<and>
        (let q = iso1ServiceParameterList_ParameterSet_array l ! i in
         list_all (\<lambda>j. j < length (iso1ParameterSet_Parameter_array q) \<and>
           (let p = iso1ParameterSet_Parameter_array q ! j in
            unat (iso1Parameter_Name_charactersLen p) \<le> length (iso1Parameter_Name_characters p)))
           [0..<unat (iso1ParameterSet_Parameter_arrayLen q)]))
        [0..<unat (iso1ServiceParameterList_ParameterSet_arrayLen l)])"

definition session_header1 :: "iso1EXIDocument \<Rightarrow> iso1EXIDocument" where
  "session_header1 d = (let d = init_iso1EXIDocument d; h = init_iso1MessageHeaderType (iso1_header d) in
     d\<lparr>iso1EXIDocument_V2G_Message_isUsed := True,
       iso1EXIDocument_V2G_Message := (iso1EXIDocument_V2G_Message d)\<lparr>
         iso1V2G_Message_Header := h\<lparr>
           iso1MessageHeader_SessionID_bytes := (iso1MessageHeader_SessionID_bytes h)
             [0 := 0, 1 := 0, 2 := 0, 3 := 0, 4 := 0, 5 := 0, 6 := 0, 7 := 0],
           iso1MessageHeader_SessionID_bytesLen := 8,
           iso1MessageHeader_Signature_isUsed := False\<rparr>\<rparr>\<rparr>)"

abbreviation tuple_id :: "iso1BodyType \<Rightarrow> u8" where
  "tuple_id b \<equiv> iso1SAScheduleTuple_SAScheduleTupleID (iso1SAScheduleList_SAScheduleTuple_array
     (iso1ChargeParameterDiscoveryRes_SAScheduleList (iso1Body_ChargeParameterDiscoveryRes b)) ! 0)"

definition authorization_step1 ::
  "u32 \<times> bitstream \<times> bitstream \<Rightarrow> iso1BodyType \<Rightarrow> iso1PaymentDetailsResType \<Rightarrow> charging \<Rightarrow> (int \<times> charging) option" where
  "authorization_step1 loc mem paymentDetailsRes c = do {
     challenge \<leftarrow> copyBytes (iso1PaymentDetailsRes_GenChallenge_bytes paymentDetailsRes)
       (iso1PaymentDetailsRes_GenChallenge_bytesLen paymentDetailsRes)
       (iso1AuthorizationReq_GenChallenge_bytes (iso1Body_AuthorizationReq mem));
     ask1 loc mem (authorization_request1 challenge (iso1PaymentDetailsRes_GenChallenge_bytesLen paymentDetailsRes))
       iso1Body_AuthorizationRes_isUsed ERROR_UNEXPECTED_AUTHORIZATION_RESP_MESSAGE c
   }"

definition serviceDetail_step1 ::
  "u32 \<times> bitstream \<times> bitstream \<Rightarrow> iso1BodyType \<Rightarrow> charging \<Rightarrow> (int \<times> charging) option" where
  "serviceDetail_step1 loc mem c = do {
     (errn, c) \<leftarrow> ask1 loc mem serviceDetail_request1 iso1Body_ServiceDetailRes_isUsed
       ERROR_UNEXPECTED_SERVICE_DETAILS_RESP_MESSAGE c;
     if errn = 0 \<and> \<not> names_readable (iso1Body_ServiceDetailRes (iso1_body (ch_exiOut c))) then None
     else Some (errn, c)
   }"

text \<open>\<open>if (errn == 0) ... else return errn;\<close>\<close>

definition and_then1 ::
  "(int \<times> charging) option \<Rightarrow> (charging \<Rightarrow> (int \<times> charging) option) \<Rightarrow> (int \<times> charging) option" where
  "and_then1 m k = do { (errn, c) \<leftarrow> m; if errn = 0 then k c else Some (errn, c) }"

text \<open>
  \<open>seen\<close> is what the union in \<open>exiOut\<close> holds after the response to the pre-charge: the power delivery
  takes the schedule from there, as from a \<open>ChargeParameterDiscoveryRes\<close>.
\<close>

definition charging1 ::
  "(nat \<Rightarrow> u32 \<times> bitstream \<times> bitstream) \<Rightarrow> (nat \<Rightarrow> iso1BodyType) \<Rightarrow> iso1BodyType \<Rightarrow> iso1PaymentDetailsResType \<Rightarrow>
    charging \<Rightarrow> (int \<times> charging) option" where
  "charging1 loc mem seen paymentDetailsRes c =
     and_then1 (and_then1 (and_then1 (and_then1 (and_then1 (and_then1 (and_then1
       (ask1 (loc 0) (mem 0) sessionSetup_request1 iso1Body_SessionSetupRes_isUsed
          ERROR_UNEXPECTED_SESSION_SETUP_RESP_MESSAGE (c\<lparr>ch_exiIn := session_header1 (ch_exiIn c)\<rparr>))
       (serviceDetail_step1 (loc 1) (mem 1)))
       (authorization_step1 (loc 2) (mem 2) paymentDetailsRes))
       (ask1 (loc 3) (mem 3) cableCheck_request1 iso1Body_CableCheckRes_isUsed
          ERROR_UNEXPECTED_CABLE_CHECK_RESP_MESSAGE))
       (ask1 (loc 4) (mem 4) preCharge_request1 iso1Body_PreChargeRes_isUsed
          ERROR_UNEXPECTED_PRE_CHARGE_RESP_MESSAGE))
       (ask1 (loc 5) (mem 5) (powerDelivery_request1 (tuple_id seen)) iso1Body_PowerDeliveryRes_isUsed
          ERROR_UNEXPECTED_POWER_DELIVERY_RESP_MESSAGE))
       (ask1 (loc 6) (mem 6) chargingStatus_request1 iso1Body_ChargingStatusRes_isUsed
          ERROR_UNEXPECTED_CHARGING_STATUS_RESP_MESSAGE))
       (ask1 (loc 7) (mem 7) sessionStop_request1 iso1Body_SessionStopRes_isUsed
          ERROR_UNEXPECTED_SESSION_STOP_RESP_MESSAGE)"

subsection \<open>One request and its response\<close>

text \<open>
  Between two requests: the buffers are there, and the document of the vehicle is a message with the
  session identifier \<open>i\<close>, without notification or signature.
\<close>

definition header_ready :: "iso1MessageHeaderType \<Rightarrow> u8 list \<Rightarrow> bool" where
  "header_ready h i \<longleftrightarrow> iso1MessageHeader_sized h \<and> unat (iso1MessageHeader_SessionID_bytesLen h) \<le> 8 \<and>
     \<not> iso1MessageHeader_Notification_isUsed h \<and> \<not> iso1MessageHeader_Signature_isUsed h \<and>
     take (unat (iso1MessageHeader_SessionID_bytesLen h)) (iso1MessageHeader_SessionID_bytes h) = i"

definition ready :: "charging \<Rightarrow> u8 list \<Rightarrow> bool" where
  "ready c i \<longleftrightarrow> BUFFER_SIZE \<le> length (ch_buffer1 c) \<and> BUFFER_SIZE \<le> length (ch_buffer2 c) \<and>
     document_sized (ch_exiOut c) \<and> message_document (ch_exiIn c) \<and> header_ready (iso1_header (ch_exiIn c)) i"

lemma header_readyD:
  assumes "header_ready h i"
  shows "iso1MessageHeader_ok h" "iso1MessageHeader_bits h = 93"
  using assms by (simp_all add: header_ready_def iso1MessageHeader_ok_def iso1MessageHeader_sized_def iso1MessageHeader_bits_def)

lemma with_body_simps [simp]:
  "iso1_header (with_body f mem d) = iso1_header d" "iso1_body (with_body f mem d) = f (init_iso1BodyType mem)"
  by (simp_all add: with_body_def)

lemma message_document_cong:
  assumes "message_document d"
  shows "message_document (d\<lparr>iso1EXIDocument_V2G_Message := m\<rparr>)"
proof -
  have "((init_iso1EXIDocument d)\<lparr>iso1EXIDocument_V2G_Message_isUsed := True\<rparr>)\<lparr>iso1EXIDocument_V2G_Message := m\<rparr> =
      (init_iso1EXIDocument (d\<lparr>iso1EXIDocument_V2G_Message := m\<rparr>))\<lparr>iso1EXIDocument_V2G_Message_isUsed := True\<rparr>"
    by (cases d) (simp only: init_iso1EXIDocument_def iso1EXIDocument.update_convs)
  with assms show ?thesis unfolding message_document_def by metis
qed

lemma short_message:
  assumes "message_document d" "header_ready (iso1_header d) i" "iso1Body_ok (iso1_body d)" "iso1Body_bits (iso1_body d) \<le> 1800"
  shows "document_ok d" "64 + document_bits d \<le> 8 * BUFFER_SIZE"
  using assms header_readyD [OF assms(2)]
  by (simp_all add: document_ok_def iso1V2G_Message_ok_def document_bits_def iso1V2G_Message_bits_def BUFFER_SIZE_def)

lemma same_header_readable:
  assumes "same_document r d" "document_sized d" "header_ready (iso1_header r) i"
  shows "session_id_readable d" "session_id d = i"
proof -
  have "same_iso1MessageHeader (iso1_header r) (iso1_header d)" using assms(1) by (rule same_documentD)
  moreover have "iso1MessageHeader_sized (iso1_header d)"
    using assms(2) by (simp add: document_sized_def iso1V2G_Message_sized_def)
  ultimately show "session_id_readable d" "session_id d = i" using assms(3)
    by (simp_all add: session_id_readable_def session_id_def header_ready_def same_iso1MessageHeader_def iso1MessageHeader_sized_def)
qed

text \<open>
  If request and response are well formed and short, and the station answers the request with that
  response, then the vehicle has the response.
\<close>

lemma asked:
  assumes c: "ready c i"
    and req: "iso1Body_ok (f (init_iso1BodyType mem))" "iso1Body_bits (f (init_iso1BodyType mem)) \<le> 1800"
    and ans: "\<forall>d. same_document (with_body f mem (ch_exiIn c)) d \<and> document_sized d \<longrightarrow>
      create_response_message1 d (with_body f mem (ch_exiIn c)) = Some (0, res)"
    and res: "message_document res" "header_ready (iso1_header res) i'" "iso1Body_ok (iso1_body res)"
      "iso1Body_bits (iso1_body res) \<le> 1800"
    and expected: "\<forall>b. same_iso1Body (iso1_body res) b \<longrightarrow> expected b"
  shows "\<exists>c'. ask1 loc mem f expected u c = Some (0, c') \<and> ready c' i' \<and> same_iso1Body (iso1_body res) (iso1_body (ch_exiOut c')) \<and>
    session_id (ch_exiOut c') = i'"
proof -
  let ?req = "with_body f mem (ch_exiIn c)"
  have r: "message_document ?req" "header_ready (iso1_header ?req) i"
    using c by (simp_all add: ready_def with_body_def message_document_cong)
  have d: "document_ok ?req" "64 + document_bits ?req \<le> 8 * BUFFER_SIZE"
    using short_message [OF r] req by simp_all
  have b: "BUFFER_SIZE \<le> length (ch_buffer1 c)" "BUFFER_SIZE \<le> length (ch_buffer2 c)" "document_sized (ch_exiOut c)"
    using c by (simp_all add: ready_def)
  obtain st b1 b2 d where x: "request_response1 (fst loc) (ch_static c) (fst (snd loc)) (snd (snd loc)) (ch_buffer1 c)
      (ch_buffer2 c) ?req (ch_exiOut c) = Some (0, st, b1, b2, res, d)"
    "BUFFER_SIZE \<le> length b1" "BUFFER_SIZE \<le> length b2" "same_document res d" "document_sized d"
    using exchange_delivers [OF d ans [rule_format] short_message [OF res] b] by blast
  have e: "same_iso1Body (iso1_body res) (iso1_body d)" "session_id_readable d" "session_id d = i'"
    using same_documentD(2) [OF x(4)] same_header_readable [OF x(4,5) res(2)] by simp_all
  show ?thesis using x e(2,3) res(1,2) expected e(1)
    by (simp add: ask1_def ready_def Let_def)
qed

text \<open>The station keeps the header, but for the session setup.\<close>

lemma asked_plainly:
  assumes c: "ready c i"
    and req: "iso1Body_ok (f (init_iso1BodyType mem))" "iso1Body_bits (f (init_iso1BodyType mem)) \<le> 1800"
    and ans: "\<forall>d. same_document (with_body f mem (ch_exiIn c)) d \<and> document_sized d \<longrightarrow>
      create_response_message1 d (with_body f mem (ch_exiIn c)) = Some (0, respond g (init_iso1EXIDocument (with_body f mem (ch_exiIn c))))"
    and b: "b = g (init_iso1BodyType (f (init_iso1BodyType mem)))" and res: "iso1Body_ok b" "iso1Body_bits b \<le> 1800"
    and expected: "\<forall>b'. same_iso1Body b b' \<longrightarrow> expected b'"
  shows "\<exists>c'. ask1 loc mem f expected u c = Some (0, c') \<and> ready c' i \<and> same_iso1Body b (iso1_body (ch_exiOut c')) \<and>
    session_id (ch_exiOut c') = i"
proof -
  let ?res = "respond g (init_iso1EXIDocument (with_body f mem (ch_exiIn c)))"
  have h: "iso1_body ?res = b" "iso1_header ?res = iso1_header (ch_exiIn c)" by (simp_all add: b)
  have i: "header_ready (iso1_header (ch_exiIn c)) i" using c by (simp add: ready_def)
  show ?thesis
    using asked [where res = ?res, OF c req ans respond_is_message_document, of i expected loc u] h i res expected by simp
qed

text \<open>A request and its response find the request as it was written.\<close>

lemma arrived:
  assumes "same_document (with_body f mem e) d" "document_sized d" "ready c i" "e = ch_exiIn c"
    "iso1Body_ok (f (init_iso1BodyType mem))"
  shows "iso1EXIDocument_V2G_Message_isUsed d" "same_iso1Body (f (init_iso1BodyType mem)) (iso1_body d)" "session_id_readable d"
proof -
  have "message_document (with_body f mem e)" "iso1MessageHeader_ok (iso1_header e)"
    using assms(3,4) header_readyD(1) by (auto simp: ready_def with_body_def message_document_cong)
  then have "document_ok (with_body f mem e)" using assms(5) by (simp add: document_ok_def iso1V2G_Message_ok_def)
  from request_arrived [OF assms(1) this assms(2)]
  show "iso1EXIDocument_V2G_Message_isUsed d" "same_iso1Body (f (init_iso1BodyType mem)) (iso1_body d)" "session_id_readable d"
    by simp_all
qed

lemma arrived_flags:
  assumes "same_document (with_body f mem e) d \<and> document_sized d" "ready c i" "e = ch_exiIn c" "iso1Body_ok (f (init_iso1BodyType mem))"
  shows "iso1EXIDocument_V2G_Message_isUsed d \<and> session_id_readable d \<and>
    (let r = f (init_iso1BodyType mem); b = iso1_body d in
     iso1Body_SessionSetupReq_isUsed b = iso1Body_SessionSetupReq_isUsed r \<and>
     iso1Body_ServiceDetailReq_isUsed b = iso1Body_ServiceDetailReq_isUsed r \<and>
     iso1Body_AuthorizationReq_isUsed b = iso1Body_AuthorizationReq_isUsed r \<and>
     iso1Body_PowerDeliveryReq_isUsed b = iso1Body_PowerDeliveryReq_isUsed r \<and>
     iso1Body_ChargingStatusReq_isUsed b = iso1Body_ChargingStatusReq_isUsed r \<and>
     iso1Body_MeteringReceiptReq_isUsed b = iso1Body_MeteringReceiptReq_isUsed r \<and>
     iso1Body_SessionStopReq_isUsed b = iso1Body_SessionStopReq_isUsed r \<and>
     iso1Body_CableCheckReq_isUsed b = iso1Body_CableCheckReq_isUsed r \<and>
     iso1Body_PreChargeReq_isUsed b = iso1Body_PreChargeReq_isUsed r)"
  using arrived [OF conjunct1 [OF assms(1)] conjunct2 [OF assms(1)] assms(2-4)] by (simp add: same_flags)

subsection \<open>The eight steps\<close>

lemma take_nths: "n \<le> length xs \<Longrightarrow> take n xs = map (nth xs) [0..<n]"
  by (simp add: list_eq_iff_nth_eq)

lemma in_use_one: "1 \<le> length xs \<Longrightarrow> in_use P xs 1 \<longleftrightarrow> P (xs ! 0)"
  by (cases xs) (simp_all add: in_use_def)

lemma in_use_two: "2 \<le> length xs \<Longrightarrow> in_use P xs 2 \<longleftrightarrow> P (xs ! 0) \<and> P (xs ! 1)"
  by (cases xs rule: remdups_adj.cases) (simp_all add: in_use_def)

text \<open>The body with one message: it is well formed when the message is.\<close>

lemmas one_message = iso1Body_ok_def iso1Body_bits_def init_iso1BodyType_def

lemma setup_step:
  assumes c: "ready c i" and m: "iso1Body_sized mem"
  shows "\<exists>c'. ask1 loc mem sessionSetup_request1 iso1Body_SessionSetupRes_isUsed u c = Some (0, c') \<and>
    ready c' [1, 2, 3, 4, 5, 6, 7, 8]"
proof -
  let ?f = sessionSetup_request1
  let ?e = "with_body ?f mem (ch_exiIn c)"
  let ?res = "respond sessionSetup_response (new_session_id (init_iso1EXIDocument ?e))"
  have s: "length (iso1SessionSetupReq_EVCCID_bytes (iso1Body_SessionSetupReq mem)) = 6"
    "length (iso1SessionSetupRes_EVSEID_characters (iso1Body_SessionSetupRes mem)) = 38"
    using m by (simp_all add: iso1Body_sized_def iso1SessionSetupReq_sized_def iso1SessionSetupRes_sized_def)
  have f: "iso1Body_ok (?f (init_iso1BodyType mem))" "iso1Body_bits (?f (init_iso1BodyType mem)) \<le> 1800"
    using s by (simp_all add: one_message sessionSetup_request1_def Let_def iso1SessionSetupReq_ok_def
        init_iso1SessionSetupReqType_def)
  have a: "\<forall>d. same_document ?e d \<and> document_sized d \<longrightarrow> create_response_message1 d ?e = Some (0, ?res)"
    by (intro allI impI, drule arrived_flags [where f = ?f and mem = mem, OF _ c refl f(1)])
      (simp add: create_response_message1_def sessionSetup1_def sessionSetup_request1_def init_iso1BodyType_def Let_def)
  have h: "length (iso1MessageHeader_SessionID_bytes (iso1_header (ch_exiIn c))) = 8"
    "iso1MessageHeader_sized (iso1_header (ch_exiIn c))"
    using c by (simp_all add: ready_def header_ready_def iso1MessageHeader_sized_def)
  have r: "message_document ?res"
    using init_used_is_message_document by (simp add: respond_def new_session_id_def)
  have hr: "header_ready (iso1_header ?res) [1, 2, 3, 4, 5, 6, 7, 8]"
    using h by (simp add: header_ready_def new_session_id_def init_iso1MessageHeaderType_def iso1MessageHeader_sized_def all_8_written)
  have b: "iso1_body ?res = sessionSetup_response (init_iso1BodyType (?f (init_iso1BodyType mem)))" by simp
  have "iso1Body_ok (iso1_body ?res)" "iso1Body_bits (iso1_body ?res) \<le> 1800"
    unfolding b using s by (simp_all add: one_message sessionSetup_response_def sessionSetup_request1_def Let_def
        iso1SessionSetupRes_ok_def init_iso1SessionSetupResType_def string_ok_def take_2_written)
  moreover have "\<forall>b'. same_iso1Body (iso1_body ?res) b' \<longrightarrow> iso1Body_SessionSetupRes_isUsed b'"
    unfolding b by (simp add: same_iso1Body_def sessionSetup_response_def)
  ultimately show ?thesis using asked [OF c f a r hr, where loc = loc and u = u] by blast
qed

lemma authorization_step:
  assumes c: "ready c i" and m: "iso1Body_sized mem" and ch: "length challenge = 16" "unat len \<le> 16"
  shows "\<exists>c'. ask1 loc mem (authorization_request1 challenge len) iso1Body_AuthorizationRes_isUsed u c = Some (0, c') \<and>
    ready c' i"
proof -
  let ?f = "authorization_request1 challenge len"
  have s: "length (iso1AuthorizationReq_Id_characters (iso1Body_AuthorizationReq mem)) = 51"
    using m by (simp add: iso1Body_sized_def iso1AuthorizationReq_sized_def)
  have f: "iso1Body_ok (?f (init_iso1BodyType mem))" "iso1Body_bits (?f (init_iso1BodyType mem)) \<le> 1800"
    using s ch by (simp_all add: one_message authorization_request1_def iso1AuthorizationReq_ok_def Let_def
        init_iso1AuthorizationReqType_def string_ok_def take_nths upt_rec nth_list_update)
  have a: "\<forall>d. same_document (with_body ?f mem (ch_exiIn c)) d \<and> document_sized d \<longrightarrow>
      create_response_message1 d (with_body ?f mem (ch_exiIn c)) =
      Some (0, respond authorization_response (init_iso1EXIDocument (with_body ?f mem (ch_exiIn c))))"
    by (intro allI impI, drule arrived_flags [where f = ?f and mem = mem, OF _ c refl f(1)])
      (simp add: create_response_message1_def authorization1_def authorization_request1_def init_iso1BodyType_def Let_def)
  have b: "iso1Body_ok (authorization_response (init_iso1BodyType (?f (init_iso1BodyType mem))))" "iso1Body_bits (authorization_response (init_iso1BodyType (?f (init_iso1BodyType mem)))) \<le> 1800"
    by (simp_all add: one_message authorization_response_def authorization_request1_def iso1AuthorizationRes_ok_def)
  have "\<forall>b'. same_iso1Body (authorization_response (init_iso1BodyType (?f (init_iso1BodyType mem)))) b' \<longrightarrow> iso1Body_AuthorizationRes_isUsed b'"
    by (simp add: same_iso1Body_def authorization_response_def)
  from asked_plainly [OF c f a refl b this, where loc = loc and u = u] show ?thesis by blast
qed

lemma cable_step:
  assumes c: "ready c i"
    and m: "iso1CableCheckReq_ok (iso1Body_CableCheckReq mem)"
      "iso1DC_EVSEStatus_ok ((iso1CableCheckRes_DC_EVSEStatus (iso1Body_CableCheckRes mem))\<lparr>iso1DC_EVSEStatus_EVSENotification := 2\<rparr>)"
  shows "\<exists>c'. ask1 loc mem cableCheck_request1 iso1Body_CableCheckRes_isUsed u c = Some (0, c') \<and> ready c' i"
proof -
  let ?f = cableCheck_request1
  have f: "iso1Body_ok (?f (init_iso1BodyType mem))" "iso1Body_bits (?f (init_iso1BodyType mem)) \<le> 1800"
    using m by (simp_all add: one_message cableCheck_request1_def)
  have a: "\<forall>d. same_document (with_body ?f mem (ch_exiIn c)) d \<and> document_sized d \<longrightarrow>
      create_response_message1 d (with_body ?f mem (ch_exiIn c)) =
      Some (0, respond cableCheck_response (init_iso1EXIDocument (with_body ?f mem (ch_exiIn c))))"
    by (intro allI impI, drule arrived_flags [where f = ?f and mem = mem, OF _ c refl f(1)])
      (simp add: create_response_message1_def cableCheck1_def cableCheck_request1_def init_iso1BodyType_def Let_def)
  have b: "iso1Body_ok (cableCheck_response (init_iso1BodyType (?f (init_iso1BodyType mem))))" "iso1Body_bits (cableCheck_response (init_iso1BodyType (?f (init_iso1BodyType mem)))) \<le> 1800"
    using m by (simp_all add: one_message cableCheck_response_def cableCheck_request1_def iso1CableCheckRes_ok_def Let_def iso1DC_EVSEStatus_ok_def init_iso1CableCheckResType_def)
  have "\<forall>b'. same_iso1Body (cableCheck_response (init_iso1BodyType (?f (init_iso1BodyType mem)))) b' \<longrightarrow> iso1Body_CableCheckRes_isUsed b'"
    by (simp add: same_iso1Body_def cableCheck_response_def)
  from asked_plainly [OF c f a refl b this, where loc = loc and u = u] show ?thesis by blast
qed

lemma precharge_step:
  assumes c: "ready c i"
    and m: "iso1DC_EVStatus_ok (iso1PreChargeReq_DC_EVStatus (iso1Body_PreChargeReq mem))"
      "iso1PhysicalValue_Unit (iso1PreChargeReq_EVTargetCurrent (iso1Body_PreChargeReq mem)) < 8"
      "iso1PhysicalValue_Unit (iso1PreChargeReq_EVTargetVoltage (iso1Body_PreChargeReq mem)) < 8"
      "iso1DC_EVSEStatus_ok ((iso1PreChargeRes_DC_EVSEStatus (iso1Body_PreChargeRes mem))\<lparr>iso1DC_EVSEStatus_EVSENotification := 1\<rparr>)"
      "iso1PhysicalValue_Unit (iso1PreChargeRes_EVSEPresentVoltage (iso1Body_PreChargeRes mem)) < 8"
  shows "\<exists>c'. ask1 loc mem preCharge_request1 iso1Body_PreChargeRes_isUsed u c = Some (0, c') \<and> ready c' i"
proof -
  let ?f = preCharge_request1
  have f: "iso1Body_ok (?f (init_iso1BodyType mem))" "iso1Body_bits (?f (init_iso1BodyType mem)) \<le> 1800"
    using m by (simp_all add: one_message preCharge_request1_def Let_def iso1PreChargeReq_ok_def iso1PhysicalValue_ok_def
        init_iso1PreChargeReqType_def)
  have a: "\<forall>d. same_document (with_body ?f mem (ch_exiIn c)) d \<and> document_sized d \<longrightarrow>
      create_response_message1 d (with_body ?f mem (ch_exiIn c)) =
      Some (0, respond preCharge_response (init_iso1EXIDocument (with_body ?f mem (ch_exiIn c))))"
    by (intro allI impI, drule arrived_flags [where f = ?f and mem = mem, OF _ c refl f(1)])
      (simp add: create_response_message1_def preCharge1_def preCharge_request1_def init_iso1BodyType_def Let_def)
  have b: "iso1Body_ok (preCharge_response (init_iso1BodyType (?f (init_iso1BodyType mem))))" "iso1Body_bits (preCharge_response (init_iso1BodyType (?f (init_iso1BodyType mem)))) \<le> 1800"
    using m by (simp_all add: one_message preCharge_response_def preCharge_request1_def iso1PreChargeRes_ok_def Let_def iso1DC_EVSEStatus_ok_def iso1PhysicalValue_ok_def init_iso1PreChargeResType_def)
  have "\<forall>b'. same_iso1Body (preCharge_response (init_iso1BodyType (?f (init_iso1BodyType mem)))) b' \<longrightarrow> iso1Body_PreChargeRes_isUsed b'"
    by (simp add: same_iso1Body_def preCharge_response_def)
  from asked_plainly [OF c f a refl b this, where loc = loc and u = u] show ?thesis by blast
qed

lemma delivery_step:
  assumes c: "ready c i" and t: "tuple \<noteq> 0"
  shows "\<exists>c'. ask1 loc mem (powerDelivery_request1 tuple) iso1Body_PowerDeliveryRes_isUsed u c = Some (0, c') \<and> ready c' i"
proof -
  let ?f = "powerDelivery_request1 tuple"
  have "ucast tuple - 1 < (2 ^ 8 :: u32)"
  proof -
    have "unat tuple \<noteq> 0" "unat tuple < 256" using t unsigned_less [of tuple, where 'a = nat] by (simp_all add: unat_eq_zero)
    moreover have "unat (ucast tuple :: u32) = unat tuple" by (rule unat_ucast_up) simp
    ultimately have "unat (ucast tuple - 1 :: u32) < 256" by (subst unat_sub) (simp_all add: word_le_nat_alt)
    then show ?thesis by (simp add: word_less_nat_alt)
  qed
  then have f: "iso1Body_ok (?f (init_iso1BodyType mem))" "iso1Body_bits (?f (init_iso1BodyType mem)) \<le> 1800"
    by (simp_all add: one_message powerDelivery_request1_def iso1PowerDeliveryReq_ok_def init_iso1PowerDeliveryReqType_def
        iso1PowerDeliveryReq_bits_def exclusive.simps)
  have a: "\<forall>d. same_document (with_body ?f mem (ch_exiIn c)) d \<and> document_sized d \<longrightarrow>
      create_response_message1 d (with_body ?f mem (ch_exiIn c)) =
      Some (0, respond powerDelivery_response (init_iso1EXIDocument (with_body ?f mem (ch_exiIn c))))"
    by (intro allI impI, drule arrived_flags [where f = ?f and mem = mem, OF _ c refl f(1)])
      (simp add: create_response_message1_def powerDelivery1_def powerDelivery_request1_def init_iso1BodyType_def Let_def)
  have b: "iso1Body_ok (powerDelivery_response (init_iso1BodyType (?f (init_iso1BodyType mem))))" "iso1Body_bits (powerDelivery_response (init_iso1BodyType (?f (init_iso1BodyType mem)))) \<le> 1800"
    by (simp_all add: one_message powerDelivery_response_def powerDelivery_request1_def iso1PowerDeliveryRes_ok_def Let_def iso1EVSEStatus_ok_def init_iso1PowerDeliveryResType_def)
  have "\<forall>b'. same_iso1Body (powerDelivery_response (init_iso1BodyType (?f (init_iso1BodyType mem)))) b' \<longrightarrow> iso1Body_PowerDeliveryRes_isUsed b'"
    by (simp add: same_iso1Body_def powerDelivery_response_def)
  from asked_plainly [OF c f a refl b this, where loc = loc and u = u] show ?thesis by blast
qed

lemma tuple_ok: "tuple \<noteq> 0 \<Longrightarrow> ucast (tuple :: u8) - 1 < (2 ^ 8 :: u32)"
proof -
  assume "tuple \<noteq> 0"
  then have "unat tuple \<noteq> 0" "unat tuple < 256" using unsigned_less [of tuple, where 'a = nat] by (simp_all add: unat_eq_zero)
  moreover have "unat (ucast tuple :: u32) = unat tuple" by (rule unat_ucast_up) simp
  ultimately have "unat (ucast tuple - 1 :: u32) < 256" by (subst unat_sub) (simp_all add: word_le_nat_alt)
  then show ?thesis by (simp add: word_less_nat_alt)
qed

lemma status_step:
  assumes c: "ready c i" and s: "iso1Body_sized mem"
    and m: "iso1ChargingStatusRes_SAScheduleTupleID (iso1Body_ChargingStatusRes mem) \<noteq> 0"
      "iso1AC_EVSEStatus_ok (iso1ChargingStatusRes_AC_EVSEStatus (iso1Body_ChargingStatusRes mem))"
  shows "\<exists>c'. ask1 loc mem chargingStatus_request1 iso1Body_ChargingStatusRes_isUsed u c = Some (0, c') \<and> ready c' i"
proof -
  let ?f = chargingStatus_request1
  have l: "length (iso1ChargingStatusRes_EVSEID_characters (iso1Body_ChargingStatusRes mem)) = 38"
    using s by (simp add: iso1Body_sized_def iso1ChargingStatusRes_sized_def)
  have f: "iso1Body_ok (?f (init_iso1BodyType mem))" "iso1Body_bits (?f (init_iso1BodyType mem)) \<le> 1800"
    by (simp_all add: one_message chargingStatus_request1_def)
  have a: "\<forall>d. same_document (with_body ?f mem (ch_exiIn c)) d \<and> document_sized d \<longrightarrow>
      create_response_message1 d (with_body ?f mem (ch_exiIn c)) =
      Some (0, respond chargingStatus_response (init_iso1EXIDocument (with_body ?f mem (ch_exiIn c))))"
    by (intro allI impI, drule arrived_flags [where f = ?f and mem = mem, OF _ c refl f(1)])
      (simp add: create_response_message1_def chargingStatus1_def chargingStatus_request1_def init_iso1BodyType_def Let_def)
  have b: "iso1Body_ok (chargingStatus_response (init_iso1BodyType (?f (init_iso1BodyType mem))))"
    "iso1Body_bits (chargingStatus_response (init_iso1BodyType (?f (init_iso1BodyType mem)))) \<le> 1800"
    using m(2) l tuple_ok [OF m(1)] by (simp_all add: one_message chargingStatus_response_def chargingStatus_request1_def Let_def
        iso1ChargingStatusRes_ok_def init_iso1ChargingStatusResType_def string_ok_def take_nths upt_rec)
  have "\<forall>b'. same_iso1Body (chargingStatus_response (init_iso1BodyType (?f (init_iso1BodyType mem)))) b' \<longrightarrow>
      iso1Body_ChargingStatusRes_isUsed b'"
    by (simp add: same_iso1Body_def chargingStatus_response_def)
  from asked_plainly [OF c f a refl b this, where loc = loc and u = u] show ?thesis by blast
qed

lemma stop_step:
  assumes c: "ready c i"
  shows "\<exists>c'. ask1 loc mem sessionStop_request1 iso1Body_SessionStopRes_isUsed u c = Some (0, c') \<and>
    session_id (ch_exiOut c') = i \<and> iso1Body_SessionStopRes_isUsed (iso1_body (ch_exiOut c')) \<and>
    iso1SessionStopRes_ResponseCode (iso1Body_SessionStopRes (iso1_body (ch_exiOut c'))) = 0"
proof -
  let ?f = sessionStop_request1
  have f: "iso1Body_ok (?f (init_iso1BodyType mem))" "iso1Body_bits (?f (init_iso1BodyType mem)) \<le> 1800"
    by (simp_all add: one_message sessionStop_request1_def iso1SessionStopReq_ok_def)
  have a: "\<forall>d. same_document (with_body ?f mem (ch_exiIn c)) d \<and> document_sized d \<longrightarrow>
      create_response_message1 d (with_body ?f mem (ch_exiIn c)) =
      Some (0, respond sessionStop_response (init_iso1EXIDocument (with_body ?f mem (ch_exiIn c))))"
    by (intro allI impI, drule arrived_flags [where f = ?f and mem = mem, OF _ c refl f(1)])
      (simp add: create_response_message1_def sessionStop1_def sessionStop_request1_def init_iso1BodyType_def Let_def)
  let ?b = "sessionStop_response (init_iso1BodyType (?f (init_iso1BodyType mem)))"
  have b: "iso1Body_ok ?b" "iso1Body_bits ?b \<le> 1800"
    by (simp_all add: one_message sessionStop_response_def sessionStop_request1_def iso1SessionStopRes_ok_def)
  have e: "same_iso1Body ?b b' \<Longrightarrow> iso1Body_SessionStopRes_isUsed b' \<and>
      iso1SessionStopRes_ResponseCode (iso1Body_SessionStopRes b') = 0" for b'
    by (simp add: same_iso1Body_def sessionStop_response_def same_iso1SessionStopRes_def)
  then have "\<forall>b'. same_iso1Body ?b b' \<longrightarrow> iso1Body_SessionStopRes_isUsed b'" by blast
  from asked_plainly [OF c f a refl b this, where loc = loc and u = u] e show ?thesis by blast
qed

text \<open>
  The parameters of the service are filled where nothing is initialised: none of the flags the station
  does not set may be there, and the unit of the physical value has to be one.
\<close>

definition no_value :: "iso1ParameterType \<Rightarrow> bool" where
  "no_value p \<longleftrightarrow> \<not> iso1Parameter_boolValue_isUsed p \<and> \<not> iso1Parameter_byteValue_isUsed p \<and>
     \<not> iso1Parameter_shortValue_isUsed p \<and> \<not> iso1Parameter_intValue_isUsed p \<and>
     \<not> iso1Parameter_physicalValue_isUsed p \<and> \<not> iso1Parameter_stringValue_isUsed p"

definition parameter_of :: "nat \<Rightarrow> nat \<Rightarrow> iso1BodyType \<Rightarrow> iso1ParameterType" where
  "parameter_of i j b = iso1ParameterSet_Parameter_array (iso1ServiceParameterList_ParameterSet_array
     (iso1ServiceDetailRes_ServiceParameterList (iso1Body_ServiceDetailRes b)) ! i) ! j"

definition service_memory :: "iso1BodyType \<Rightarrow> bool" where
  "service_memory b \<longleftrightarrow> no_value (parameter_of 0 0 b) \<and> no_value (parameter_of 0 1 b) \<and> no_value (parameter_of 1 0 b) \<and>
     iso1PhysicalValue_Unit (iso1Parameter_physicalValue (parameter_of 1 0 b)) < 8"

lemma parameters_ok:
  assumes "iso1Parameter_sized p" "no_value p"
  shows "iso1Parameter_ok (protocol_parameter p)" "iso1Parameter_ok (name_parameter p)"
    "iso1PhysicalValue_Unit (iso1Parameter_physicalValue p) < 8 \<Longrightarrow> iso1Parameter_ok (channel_parameter p)"
    "iso1Parameter_bits (protocol_parameter p) \<le> 200" "iso1Parameter_bits (name_parameter p) \<le> 200"
    "iso1Parameter_bits (channel_parameter p) \<le> 200"
  using assms by (simp_all add: iso1Parameter_sized_def no_value_def protocol_parameter_def name_parameter_def
      channel_parameter_def iso1Parameter_ok_def iso1Parameter_bits_def string_ok_def take_nths upt_rec nth_list_update
      iso1PhysicalValue_ok_def exclusive.simps some_of.simps)

lemma due_of_few: "due_of f 1 0 = f 0" "due_of f 2 0 = f 0 + f (Suc 0)"
  by (simp_all add: due_of_def upt_rec)

text \<open>The two sets of parameters, filled.\<close>

definition first_set :: "iso1ParameterSetType \<Rightarrow> iso1ParameterSetType" where
  "first_set q = q\<lparr>iso1ParameterSet_ParameterSetID := 1, iso1ParameterSet_Parameter_arrayLen := 2,
     iso1ParameterSet_Parameter_array := change 1 name_parameter (change 0 protocol_parameter (iso1ParameterSet_Parameter_array q))\<rparr>"

definition second_set :: "iso1ParameterSetType \<Rightarrow> iso1ParameterSetType" where
  "second_set q = q\<lparr>iso1ParameterSet_ParameterSetID := 2, iso1ParameterSet_Parameter_arrayLen := 1,
     iso1ParameterSet_Parameter_array := change 0 channel_parameter (iso1ParameterSet_Parameter_array q)\<rparr>"

lemma sets_ok:
  assumes q: "iso1ParameterSet_sized q"
  shows "no_value (iso1ParameterSet_Parameter_array q ! 0) \<Longrightarrow> no_value (iso1ParameterSet_Parameter_array q ! 1) \<Longrightarrow>
      iso1ParameterSet_ok (first_set q) \<and> iso1ParameterSet_bits (first_set q) \<le> 500"
    "no_value (iso1ParameterSet_Parameter_array q ! 0) \<Longrightarrow>
      iso1PhysicalValue_Unit (iso1Parameter_physicalValue (iso1ParameterSet_Parameter_array q ! 0)) < 8 \<Longrightarrow>
      iso1ParameterSet_ok (second_set q) \<and> iso1ParameterSet_bits (second_set q) \<le> 500"
proof -
  have l: "length (iso1ParameterSet_Parameter_array q) = 16"
    "iso1Parameter_sized (iso1ParameterSet_Parameter_array q ! 0)" "iso1Parameter_sized (iso1ParameterSet_Parameter_array q ! 1)"
    using q by (simp_all add: iso1ParameterSet_sized_def list_all_length)
  show "iso1ParameterSet_ok (first_set q) \<and> iso1ParameterSet_bits (first_set q) \<le> 500"
    if "no_value (iso1ParameterSet_Parameter_array q ! 0)" "no_value (iso1ParameterSet_Parameter_array q ! 1)"
    using parameters_ok(1,4) [OF l(2) that(1)] parameters_ok(2,5) [OF l(3) that(2)] l(1)
    by (simp add: first_set_def iso1ParameterSet_ok_def iso1ParameterSet_bits_def in_use_two due_of_few)
  show "iso1ParameterSet_ok (second_set q) \<and> iso1ParameterSet_bits (second_set q) \<le> 500"
    if "no_value (iso1ParameterSet_Parameter_array q ! 0)"
      "iso1PhysicalValue_Unit (iso1Parameter_physicalValue (iso1ParameterSet_Parameter_array q ! 0)) < 8"
    using parameters_ok(3,6) [OF l(2) that(1)] that(2) l(1)
    by (simp add: second_set_def iso1ParameterSet_ok_def iso1ParameterSet_bits_def in_use_one due_of_few)
qed

lemma service_response_ok:
  assumes s: "iso1Body_sized b" and m: "service_memory b"
  shows "iso1ServiceDetailRes_ok (iso1Body_ServiceDetailRes (serviceDetail_response b)) \<and>
    iso1ServiceDetailRes_bits (iso1Body_ServiceDetailRes (serviceDetail_response b)) \<le> 1200"
proof -
  let ?xs = "iso1ServiceParameterList_ParameterSet_array (iso1ServiceDetailRes_ServiceParameterList (iso1Body_ServiceDetailRes b))"
  let ?r = "iso1Body_ServiceDetailRes (serviceDetail_response b)"
  have x: "length ?xs = 5" "iso1ParameterSet_sized (?xs ! 0)" "iso1ParameterSet_sized (?xs ! 1)"
    using s by (simp_all add: iso1Body_sized_def iso1ServiceDetailRes_sized_def iso1ServiceParameterList_sized_def list_all_length)
  have q: "iso1ParameterSet_ok (first_set (?xs ! 0)) \<and> iso1ParameterSet_bits (first_set (?xs ! 0)) \<le> 500"
    "iso1ParameterSet_ok (second_set (?xs ! 1)) \<and> iso1ParameterSet_bits (second_set (?xs ! 1)) \<le> 500"
    using m sets_ok(1) [OF x(2)] sets_ok(2) [OF x(3)] by (simp_all add: service_memory_def parameter_of_def)
  have "iso1ServiceDetailRes_ServiceParameterList_isUsed ?r" "iso1ServiceDetailRes_ResponseCode ?r = 0"
    "iso1ServiceParameterList_ParameterSet_array (iso1ServiceDetailRes_ServiceParameterList ?r) =
      ?xs[0 := first_set (?xs ! 0), 1 := second_set (?xs ! 1)]"
    "iso1ServiceParameterList_ParameterSet_arrayLen (iso1ServiceDetailRes_ServiceParameterList ?r) = 2"
    by (simp_all add: serviceDetail_response_def Let_def first_set_def second_set_def init_iso1ServiceDetailResType_def)
  then show ?thesis using x(1) q
    by (simp add: iso1ServiceDetailRes_ok_def iso1ServiceDetailRes_bits_def iso1ServiceParameterList_ok_def
        iso1ServiceParameterList_bits_def in_use_two due_of_few)
qed

lemma copied_nth: "copied R n xs ys \<Longrightarrow> i < n \<Longrightarrow> n \<le> length xs \<Longrightarrow> n \<le> length ys \<Longrightarrow> R (xs ! i) (ys ! i)"
  by (auto simp: copied_def list_all2_conv_all_nth)

text \<open>The names of a response that has arrived can be printed.\<close>

lemma arrived_names_readable:
  assumes v: "iso1ServiceDetailRes_ok v" and a: "same_iso1ServiceDetailRes v a" "iso1ServiceDetailRes_sized a"
  shows "names_readable a"
proof (cases "iso1ServiceDetailRes_ServiceParameterList_isUsed v")
  case True
  define k l where "k = iso1ServiceDetailRes_ServiceParameterList v" and "l = iso1ServiceDetailRes_ServiceParameterList a"
  let ?n = "unat (iso1ServiceParameterList_ParameterSet_arrayLen k)"
  have k: "iso1ServiceParameterList_ok k" "same_iso1ServiceParameterList k l" "iso1ServiceParameterList_sized l"
    using True assms by (simp_all add: k_def l_def iso1ServiceDetailRes_ok_def same_iso1ServiceDetailRes_def kept_def iso1ServiceDetailRes_sized_def)
  have "unat (iso1ParameterSet_Parameter_arrayLen q) \<le> 16 \<and> length (iso1ParameterSet_Parameter_array q) = 16 \<and>
      (\<forall>j < unat (iso1ParameterSet_Parameter_arrayLen q). unat (iso1Parameter_Name_charactersLen (iso1ParameterSet_Parameter_array q ! j))
        \<le> length (iso1Parameter_Name_characters (iso1ParameterSet_Parameter_array q ! j)))"
    if "i < ?n" "q = iso1ServiceParameterList_ParameterSet_array l ! i" for i q
  proof -
    let ?v = "iso1ServiceParameterList_ParameterSet_array k ! i"
    have q: "iso1ParameterSet_ok ?v" "same_iso1ParameterSet ?v q" "iso1ParameterSet_sized q"
      using k that in_use_nth [of iso1ParameterSet_ok _ _ i] copied_nth [of same_iso1ParameterSet ?n _ _ i]
      by (auto simp: iso1ServiceParameterList_ok_def same_iso1ServiceParameterList_def iso1ServiceParameterList_sized_def list_all_length)
    have "unat (iso1Parameter_Name_charactersLen (iso1ParameterSet_Parameter_array q ! j))
        \<le> length (iso1Parameter_Name_characters (iso1ParameterSet_Parameter_array q ! j))"
      if j: "j < unat (iso1ParameterSet_Parameter_arrayLen q)" for j
    proof -
      have "iso1Parameter_ok (iso1ParameterSet_Parameter_array ?v ! j)"
        "same_iso1Parameter (iso1ParameterSet_Parameter_array ?v ! j) (iso1ParameterSet_Parameter_array q ! j)"
        "iso1Parameter_sized (iso1ParameterSet_Parameter_array q ! j)"
        using q j in_use_nth [of iso1Parameter_ok _ _ j] copied_nth [of same_iso1Parameter _ _ _ j]
        by (auto simp: iso1ParameterSet_ok_def same_iso1ParameterSet_def iso1ParameterSet_sized_def list_all_length)
      then show ?thesis by (simp add: iso1Parameter_ok_def same_iso1Parameter_def iso1Parameter_sized_def string_ok_def)
    qed
    with q show ?thesis by (simp add: iso1ParameterSet_ok_def same_iso1ParameterSet_def iso1ParameterSet_sized_def)
  qed
  moreover have "iso1ServiceParameterList_ParameterSet_arrayLen l = iso1ServiceParameterList_ParameterSet_arrayLen k"
    "?n \<le> length (iso1ServiceParameterList_ParameterSet_array l)"
    using k by (simp_all add: same_iso1ServiceParameterList_def iso1ServiceParameterList_ok_def iso1ServiceParameterList_sized_def)
  ultimately show ?thesis by (fastforce simp: names_readable_def Let_def list_all_iff l_def [symmetric])
qed (use a in \<open>simp add: names_readable_def same_iso1ServiceDetailRes_def kept_def\<close>)

lemma service_step:
  assumes c: "ready c i" and s: "iso1Body_sized mem" and m: "service_memory mem"
  shows "\<exists>c'. serviceDetail_step1 loc mem c = Some (0, c') \<and> ready c' i"
proof -
  let ?f = serviceDetail_request1
  have f: "iso1Body_ok (?f (init_iso1BodyType mem))" "iso1Body_bits (?f (init_iso1BodyType mem)) \<le> 1800"
    by (simp_all add: one_message serviceDetail_request1_def)
  have a: "\<forall>d. same_document (with_body ?f mem (ch_exiIn c)) d \<and> document_sized d \<longrightarrow>
      create_response_message1 d (with_body ?f mem (ch_exiIn c)) =
      Some (0, respond serviceDetail_response (init_iso1EXIDocument (with_body ?f mem (ch_exiIn c))))"
    by (intro allI impI, drule arrived_flags [where f = ?f and mem = mem, OF _ c refl f(1)])
      (simp add: create_response_message1_def serviceDetail1_def serviceDetail_request1_def init_iso1BodyType_def Let_def)
  let ?m = "init_iso1BodyType (?f (init_iso1BodyType mem))"
  let ?r = "iso1Body_ServiceDetailRes (serviceDetail_response ?m)"
  have "iso1Body_sized ?m" "service_memory ?m"
    using s m by (simp_all add: iso1Body_sized_def service_memory_def parameter_of_def init_iso1BodyType_def serviceDetail_request1_def)
  then have r: "iso1ServiceDetailRes_ok ?r" "iso1ServiceDetailRes_bits ?r \<le> 1200" using service_response_ok by blast+
  have b: "serviceDetail_response ?m = ?m\<lparr>iso1Body_ServiceDetailRes_isUsed := True, iso1Body_ServiceDetailRes := ?r\<rparr>"
    by (simp add: serviceDetail_response_def Let_def)
  have ok: "iso1Body_ok (serviceDetail_response ?m)" "iso1Body_bits (serviceDetail_response ?m) \<le> 1800"
    by (subst b, use r in \<open>simp add: one_message serviceDetail_request1_def\<close>)+
  have "\<forall>b'. same_iso1Body (serviceDetail_response ?m) b' \<longrightarrow> iso1Body_ServiceDetailRes_isUsed b'"
    by (subst b) (simp add: same_iso1Body_def)
  from asked_plainly [OF c f a refl ok this, where loc = loc and u = ERROR_UNEXPECTED_SERVICE_DETAILS_RESP_MESSAGE]
  obtain c' where c': "ask1 loc mem ?f iso1Body_ServiceDetailRes_isUsed ERROR_UNEXPECTED_SERVICE_DETAILS_RESP_MESSAGE c = Some (0, c')"
    "ready c' i" "same_iso1Body (serviceDetail_response ?m) (iso1_body (ch_exiOut c'))" by blast
  have "same_iso1ServiceDetailRes ?r (iso1Body_ServiceDetailRes (iso1_body (ch_exiOut c')))"
    using c'(3) by (subst (asm) b) (simp add: same_iso1Body_def)
  moreover have "iso1ServiceDetailRes_sized (iso1Body_ServiceDetailRes (iso1_body (ch_exiOut c')))"
    using c'(2) by (simp add: ready_def document_sized_def iso1V2G_Message_sized_def iso1Body_sized_def)
  ultimately have "names_readable (iso1Body_ServiceDetailRes (iso1_body (ch_exiOut c')))"
    using arrived_names_readable [OF r(1)] by blast
  with c'(1,2) show ?thesis by (simp add: serviceDetail_step1_def)
qed

subsection \<open>The whole session\<close>

text \<open>
  What the session needs of the memory it reads without having written it: arrays have their sizes,
  enumerations their codes, the parameters of the service carry no stray value, and the two schedule
  identifiers are not 0.
\<close>

definition usable_memory :: "(nat \<Rightarrow> iso1BodyType) \<Rightarrow> iso1BodyType \<Rightarrow> bool" where
  "usable_memory mem seen \<longleftrightarrow>
     iso1Body_sized (mem 0) \<and> iso1Body_sized (mem 1) \<and> iso1Body_sized (mem 2) \<and> iso1Body_sized (mem 6) \<and>
     service_memory (mem 1) \<and>
     iso1CableCheckReq_ok (iso1Body_CableCheckReq (mem 3)) \<and>
     iso1DC_EVSEStatus_ok ((iso1CableCheckRes_DC_EVSEStatus (iso1Body_CableCheckRes (mem 3)))\<lparr>iso1DC_EVSEStatus_EVSENotification := 2\<rparr>) \<and>
     iso1DC_EVStatus_ok (iso1PreChargeReq_DC_EVStatus (iso1Body_PreChargeReq (mem 4))) \<and>
     iso1PhysicalValue_Unit (iso1PreChargeReq_EVTargetCurrent (iso1Body_PreChargeReq (mem 4))) < 8 \<and>
     iso1PhysicalValue_Unit (iso1PreChargeReq_EVTargetVoltage (iso1Body_PreChargeReq (mem 4))) < 8 \<and>
     iso1DC_EVSEStatus_ok ((iso1PreChargeRes_DC_EVSEStatus (iso1Body_PreChargeRes (mem 4)))\<lparr>iso1DC_EVSEStatus_EVSENotification := 1\<rparr>) \<and>
     iso1PhysicalValue_Unit (iso1PreChargeRes_EVSEPresentVoltage (iso1Body_PreChargeRes (mem 4))) < 8 \<and>
     tuple_id seen \<noteq> 0 \<and>
     iso1ChargingStatusRes_SAScheduleTupleID (iso1Body_ChargingStatusRes (mem 6)) \<noteq> 0 \<and>
     iso1AC_EVSEStatus_ok (iso1ChargingStatusRes_AC_EVSEStatus (iso1Body_ChargingStatusRes (mem 6)))"

lemma session_start:
  assumes "length (ch_buffer1 c) = BUFFER_SIZE" "length (ch_buffer2 c) = BUFFER_SIZE"
    and "document_sized (ch_exiIn c)" "document_sized (ch_exiOut c)"
  shows "ready (c\<lparr>ch_exiIn := session_header1 (ch_exiIn c)\<rparr>) [0, 0, 0, 0, 0, 0, 0, 0]"
proof -
  have "message_document ((init_iso1EXIDocument d)\<lparr>iso1EXIDocument_V2G_Message_isUsed := True\<rparr>)" for d
    by (cases d) (simp only: message_document_def init_iso1EXIDocument_def iso1EXIDocument.update_convs)
  then have "message_document (session_header1 d)" for d
    unfolding session_header1_def Let_def by (rule message_document_cong)
  moreover have "header_ready (iso1_header (session_header1 (ch_exiIn c))) [0, 0, 0, 0, 0, 0, 0, 0]"
    using assms(3) by (simp add: header_ready_def session_header1_def Let_def document_sized_def iso1V2G_Message_sized_def
        iso1MessageHeader_sized_def init_iso1MessageHeaderType_def all_8_written)
  ultimately show ?thesis using assms by (simp add: ready_def)
qed

lemma and_then1_simps [simp]:
  "and_then1 (Some (0, c)) k = k c" "and_then1 None k = None"
  by (simp_all add: and_then1_def)

lemma copyBytes_fits: "length from = 16 \<Longrightarrow> length to = 16 \<Longrightarrow> unat len \<le> 16 \<Longrightarrow> \<exists>xs. copyBytes from len to = Some xs \<and> length xs = 16"
  by (simp add: copyBytes_def)

text \<open>The first two steps, which the challenge does not matter to.\<close>

lemma before_authorization:
  assumes "length (ch_buffer1 c) = BUFFER_SIZE" "length (ch_buffer2 c) = BUFFER_SIZE"
    and "document_sized (ch_exiIn c)" "document_sized (ch_exiOut c)"
    and "iso1Body_sized (mem 0)" "iso1Body_sized (mem 1)" "service_memory (mem 1)"
  shows "\<exists>c'. and_then1 (ask1 (loc 0) (mem 0) sessionSetup_request1 iso1Body_SessionSetupRes_isUsed
      ERROR_UNEXPECTED_SESSION_SETUP_RESP_MESSAGE (c\<lparr>ch_exiIn := session_header1 (ch_exiIn c)\<rparr>))
      (serviceDetail_step1 (loc 1) (mem 1)) = Some (0, c') \<and> ready c' [1, 2, 3, 4, 5, 6, 7, 8]"
proof -
  from setup_step [OF session_start [OF assms(1-4)] assms(5), of "loc 0" ERROR_UNEXPECTED_SESSION_SETUP_RESP_MESSAGE]
  obtain c1 where c1: "ask1 (loc 0) (mem 0) sessionSetup_request1 iso1Body_SessionSetupRes_isUsed
      ERROR_UNEXPECTED_SESSION_SETUP_RESP_MESSAGE (c\<lparr>ch_exiIn := session_header1 (ch_exiIn c)\<rparr>) = Some (0, c1)"
    "ready c1 [1, 2, 3, 4, 5, 6, 7, 8]" by blast
  with service_step [OF c1(2) assms(6,7)] show ?thesis by simp
qed

text \<open>C4: the charging session of the example runs to its end: all eight requests are exchanged and answered by the
  response that was expected, and the vehicle ends with the successful answer to its session stop under the
  session identifier 1 to 8 that the station gave. This holds for any buffers, streams and static
  variables, and for any memory that is usable where the example reads it without having written it.\<close>

theorem charging1_succeeds:
  assumes "length (ch_buffer1 c) = BUFFER_SIZE" "length (ch_buffer2 c) = BUFFER_SIZE"
    and "document_sized (ch_exiIn c)" "document_sized (ch_exiOut c)" "usable_memory mem seen"
    and "length (iso1PaymentDetailsRes_GenChallenge_bytes p) = 16" "unat (iso1PaymentDetailsRes_GenChallenge_bytesLen p) \<le> 16"
  shows "\<exists>c'. charging1 loc mem seen p c = Some (0, c') \<and> session_id (ch_exiOut c') = [1, 2, 3, 4, 5, 6, 7, 8] \<and>
    iso1Body_SessionStopRes_isUsed (iso1_body (ch_exiOut c')) \<and>
    iso1SessionStopRes_ResponseCode (iso1Body_SessionStopRes (iso1_body (ch_exiOut c'))) = 0"
proof -
  note m = assms(5) [unfolded usable_memory_def]
  obtain c2 where c2: "and_then1 (ask1 (loc 0) (mem 0) sessionSetup_request1 iso1Body_SessionSetupRes_isUsed
      ERROR_UNEXPECTED_SESSION_SETUP_RESP_MESSAGE (c\<lparr>ch_exiIn := session_header1 (ch_exiIn c)\<rparr>))
      (serviceDetail_step1 (loc 1) (mem 1)) = Some (0, c2)" "ready c2 [1, 2, 3, 4, 5, 6, 7, 8]"
    using before_authorization [OF assms(1-4), of mem loc] m by blast
  have "length (iso1AuthorizationReq_GenChallenge_bytes (iso1Body_AuthorizationReq (mem 2))) = 16"
    using m by (simp add: iso1Body_sized_def iso1AuthorizationReq_sized_def)
  from copyBytes_fits [OF assms(6) this assms(7)] obtain xs where
    xs: "copyBytes (iso1PaymentDetailsRes_GenChallenge_bytes p) (iso1PaymentDetailsRes_GenChallenge_bytesLen p)
      (iso1AuthorizationReq_GenChallenge_bytes (iso1Body_AuthorizationReq (mem 2))) = Some xs" "length xs = 16" by blast
  obtain c3 where c3: "authorization_step1 (loc 2) (mem 2) p c2 = Some (0, c3)" "ready c3 [1, 2, 3, 4, 5, 6, 7, 8]"
    using authorization_step [OF c2(2) _ xs(2) assms(7), of "mem 2" "loc 2" ERROR_UNEXPECTED_AUTHORIZATION_RESP_MESSAGE] m
    unfolding authorization_step1_def xs(1) by simp blast
  obtain c4 where c4: "ask1 (loc 3) (mem 3) cableCheck_request1 iso1Body_CableCheckRes_isUsed
      ERROR_UNEXPECTED_CABLE_CHECK_RESP_MESSAGE c3 = Some (0, c4)" "ready c4 [1, 2, 3, 4, 5, 6, 7, 8]"
    using cable_step [OF c3(2)] m by blast
  obtain c5 where c5: "ask1 (loc 4) (mem 4) preCharge_request1 iso1Body_PreChargeRes_isUsed
      ERROR_UNEXPECTED_PRE_CHARGE_RESP_MESSAGE c4 = Some (0, c5)" "ready c5 [1, 2, 3, 4, 5, 6, 7, 8]"
    using precharge_step [OF c4(2)] m by blast
  obtain c6 where c6: "ask1 (loc 5) (mem 5) (powerDelivery_request1 (tuple_id seen)) iso1Body_PowerDeliveryRes_isUsed
      ERROR_UNEXPECTED_POWER_DELIVERY_RESP_MESSAGE c5 = Some (0, c6)" "ready c6 [1, 2, 3, 4, 5, 6, 7, 8]"
    using delivery_step [OF c5(2)] m by blast
  obtain c7 where c7: "ask1 (loc 6) (mem 6) chargingStatus_request1 iso1Body_ChargingStatusRes_isUsed
      ERROR_UNEXPECTED_CHARGING_STATUS_RESP_MESSAGE c6 = Some (0, c7)" "ready c7 [1, 2, 3, 4, 5, 6, 7, 8]"
    using status_step [OF c6(2)] m by blast
  show ?thesis
    unfolding charging1_def c2(1) and_then1_simps c3(1) c4(1) c5(1) c6(1) c7(1) by (rule stop_step [OF c7(2)])
qed

text \<open>Memory that was zero, but for the two identifiers.\<close>

definition sample_memory :: "nat \<Rightarrow> iso1BodyType" where
  "sample_memory k = zero_iso1Body\<lparr>
     iso1Body_ChargingStatusRes := zero_iso1ChargingStatusRes\<lparr>iso1ChargingStatusRes_SAScheduleTupleID := 1\<rparr>,
     iso1Body_ChargeParameterDiscoveryRes := zero_iso1ChargeParameterDiscoveryRes\<lparr>
       iso1ChargeParameterDiscoveryRes_SAScheduleList := zero_iso1SAScheduleList\<lparr>
         iso1SAScheduleList_SAScheduleTuple_array := replicate 3 (zero_iso1SAScheduleTuple\<lparr>iso1SAScheduleTuple_SAScheduleTupleID := 1\<rparr>)\<rparr>\<rparr>\<rparr>"

definition sample_charging :: charging where
  "sample_charging = \<lparr>ch_static = \<lparr>eventCode = 9, uint32 = 9\<rparr>, ch_buffer1 = replicate 256 7, ch_buffer2 = replicate 256 7,
     ch_exiIn = zero_iso1EXIDocument, ch_exiOut = zero_iso1EXIDocument\<rparr>"

lemma sample_memory_sized: "iso1Body_sized (sample_memory k)"
proof -
  have "iso1SAScheduleTuple_sized (zero_iso1SAScheduleTuple\<lparr>iso1SAScheduleTuple_SAScheduleTupleID := 1\<rparr>)"
    using sized_zero_iso1SAScheduleTuple by (simp add: iso1SAScheduleTuple_sized_def)
  then have "iso1SAScheduleList_sized (zero_iso1SAScheduleList\<lparr>iso1SAScheduleList_SAScheduleTuple_array :=
      replicate 3 (zero_iso1SAScheduleTuple\<lparr>iso1SAScheduleTuple_SAScheduleTupleID := 1\<rparr>)\<rparr>)"
    by (simp add: iso1SAScheduleList_sized_def list_all_iff)
  with sized_zero_iso1Body sized_zero_iso1ChargeParameterDiscoveryRes sized_zero_iso1ChargingStatusRes show ?thesis
    by (simp add: sample_memory_def iso1Body_sized_def iso1ChargeParameterDiscoveryRes_sized_def iso1ChargingStatusRes_sized_def)
qed

lemma sample_memory_usable: "usable_memory sample_memory (sample_memory 5)"
  by (simp add: usable_memory_def sample_memory_sized)
    (simp add: sample_memory_def service_memory_def no_value_def parameter_of_def zero_iso1Body_def
      zero_iso1ServiceDetailRes_def zero_iso1ServiceParameterList_def zero_iso1ParameterSet_def zero_iso1Parameter_def
      zero_iso1PhysicalValue_def zero_iso1CableCheckReq_def zero_iso1CableCheckRes_def zero_iso1PreChargeReq_def
      zero_iso1PreChargeRes_def zero_iso1DC_EVStatus_def zero_iso1DC_EVSEStatus_def zero_iso1ChargingStatusRes_def
      zero_iso1AC_EVSEStatus_def iso1CableCheckReq_ok_def iso1DC_EVSEStatus_ok_def iso1DC_EVStatus_ok_def
      iso1AC_EVSEStatus_ok_def)

theorem charging1_succeeds_witness:
  "\<exists>c'. charging1 (\<lambda>_. (0, blank_stream 1, blank_stream 1)) sample_memory (sample_memory 5) zero_iso1PaymentDetailsRes sample_charging =
     Some (0, c') \<and> session_id (ch_exiOut c') = [1, 2, 3, 4, 5, 6, 7, 8] \<and>
     iso1Body_SessionStopRes_isUsed (iso1_body (ch_exiOut c')) \<and>
     iso1SessionStopRes_ResponseCode (iso1Body_SessionStopRes (iso1_body (ch_exiOut c'))) = 0"
  by (rule charging1_succeeds [OF _ _ _ _ sample_memory_usable])
    (simp_all add: sample_charging_def BUFFER_SIZE_def zero_iso1PaymentDetailsRes_def)

text \<open>C7: the challenge of the authorization is taken from a struct that nothing was ever written to. If the length
  that happens to be there is more than 16, \<open>copyBytes\<close> writes behind the array: the session has no defined
  behaviour. (The two requests before it are exchanged, if the memory they read is usable.)\<close>

theorem stray_challenge_undefined:
  assumes "length (ch_buffer1 c) = BUFFER_SIZE" "length (ch_buffer2 c) = BUFFER_SIZE"
    and "document_sized (ch_exiIn c)" "document_sized (ch_exiOut c)"
    and "iso1Body_sized (mem 0)" "iso1Body_sized (mem 1)" "service_memory (mem 1)" "iso1Body_sized (mem 2)"
    and "16 < unat (iso1PaymentDetailsRes_GenChallenge_bytesLen p)"
  shows "charging1 loc mem seen p c = None"
proof -
  obtain c2 where "and_then1 (ask1 (loc 0) (mem 0) sessionSetup_request1 iso1Body_SessionSetupRes_isUsed
      ERROR_UNEXPECTED_SESSION_SETUP_RESP_MESSAGE (c\<lparr>ch_exiIn := session_header1 (ch_exiIn c)\<rparr>))
      (serviceDetail_step1 (loc 1) (mem 1)) = Some (0, c2)"
    using before_authorization [OF assms(1-7), of loc] by blast
  moreover have "authorization_step1 (loc 2) (mem 2) p c2 = None"
    using assms(8,9) by (simp add: authorization_step1_def copyBytes_def iso1Body_sized_def iso1AuthorizationReq_sized_def)
  ultimately show ?thesis by (simp only: charging1_def and_then1_simps)
qed

theorem stray_challenge_undefined_witness:
  "charging1 (\<lambda>_. (0, blank_stream 1, blank_stream 1)) sample_memory (sample_memory 5)
     (zero_iso1PaymentDetailsRes\<lparr>iso1PaymentDetailsRes_GenChallenge_bytesLen := 17\<rparr>) sample_charging = None"
  using sample_memory_usable unfolding usable_memory_def
  by (intro stray_challenge_undefined) (simp_all add: sample_charging_def BUFFER_SIZE_def)

end
