(* ===== verification/Iso1Loops.thy ===== *)
theory Iso1Loops
  imports Iso1Message
begin

section \<open>ISO 15118: the loops of the codec end\<close>

text \<open>
  Every type interprets \<open>walking_pair\<close> (or its two machines) with a table of the rounds left at each grammar
  number; what the tables give is collected here. The types that are left out repeat an element at one
  grammar number, as often as the array or the text of a wildcard goes on, or, in one case, have a long
  machine.
\<close>

lemmas iso1_machines_end =
  iso1Notification_enc.machine_ends iso1Notification_dec.machine_ends iso1PhysicalValue_enc.machine_ends
  iso1PhysicalValue_dec.machine_ends iso1DC_EVStatus_enc.machine_ends iso1DC_EVStatus_dec.machine_ends
  iso1EVStatus_enc.machine_ends iso1EVStatus_dec.machine_ends iso1EVSEStatus_enc.machine_ends
  iso1EVSEStatus_dec.machine_ends iso1DC_EVSEStatus_enc.machine_ends iso1DC_EVSEStatus_dec.machine_ends
  iso1AC_EVSEStatus_enc.machine_ends iso1AC_EVSEStatus_dec.machine_ends
  iso1EVPowerDeliveryParameter_enc.machine_ends iso1EVPowerDeliveryParameter_dec.machine_ends
  iso1DC_EVPowerDeliveryParameter_enc.machine_ends iso1DC_EVPowerDeliveryParameter_dec.machine_ends
  iso1Interval_enc.machine_ends iso1Interval_dec.machine_ends iso1RelativeTimeInterval_enc.machine_ends
  iso1RelativeTimeInterval_dec.machine_ends iso1EMAID_enc.machine_ends iso1EMAID_dec.machine_ends
  iso1MeterInfo_enc.machine_ends iso1MeterInfo_dec.machine_ends iso1Entry_enc.machine_ends
  iso1Entry_dec.machine_ends iso1Reference_enc.machine_ends iso1Reference_dec.machine_ends
  iso1SignatureValue_enc.machine_ends iso1SignatureValue_dec.machine_ends iso1DSAKeyValue_enc.machine_ends
  iso1DSAKeyValue_dec.machine_ends iso1RSAKeyValue_enc.machine_ends iso1RSAKeyValue_dec.machine_ends
  iso1RetrievalMethod_enc.machine_ends iso1RetrievalMethod_dec.machine_ends
  iso1X509IssuerSerial_enc.machine_ends iso1X509IssuerSerial_dec.machine_ends iso1PGPData_enc.machine_ends
  iso1PGPData_dec.machine_ends iso1MessageHeader_enc.machine_ends iso1MessageHeader_dec.machine_ends
  iso1SessionSetupReq_enc.machine_ends iso1SessionSetupReq_dec.machine_ends
  iso1SessionSetupRes_enc.machine_ends iso1SessionSetupRes_dec.machine_ends
  iso1ServiceDiscoveryReq_enc.machine_ends iso1ServiceDiscoveryReq_dec.machine_ends
  iso1PaymentOptionList_enc.machine_ends iso1PaymentOptionList_dec.machine_ends
  iso1SupportedEnergyTransferMode_enc.machine_ends iso1SupportedEnergyTransferMode_dec.machine_ends
  iso1ChargeService_enc.machine_ends iso1ChargeService_dec.machine_ends iso1Service_enc.machine_ends
  iso1Service_dec.machine_ends iso1ServiceList_enc.machine_ends iso1ServiceList_dec.machine_ends
  iso1ServiceDiscoveryRes_enc.machine_ends iso1ServiceDiscoveryRes_dec.machine_ends
  iso1ServiceDetailReq_enc.machine_ends iso1ServiceDetailReq_dec.machine_ends
  iso1Parameter_enc.machine_ends iso1Parameter_dec.machine_ends iso1ParameterSet_enc.machine_ends
  iso1ParameterSet_dec.machine_ends iso1ServiceDetailRes_enc.machine_ends
  iso1ServiceDetailRes_dec.machine_ends iso1SelectedService_enc.machine_ends
  iso1SelectedService_dec.machine_ends iso1SelectedServiceList_enc.machine_ends
  iso1SelectedServiceList_dec.machine_ends iso1PaymentServiceSelectionReq_enc.machine_ends
  iso1PaymentServiceSelectionReq_dec.machine_ends iso1PaymentServiceSelectionRes_enc.machine_ends
  iso1PaymentServiceSelectionRes_dec.machine_ends iso1SubCertificates_enc.machine_ends
  iso1SubCertificates_dec.machine_ends iso1CertificateChain_enc.machine_ends
  iso1CertificateChain_dec.machine_ends iso1PaymentDetailsReq_enc.machine_ends
  iso1PaymentDetailsReq_dec.machine_ends iso1PaymentDetailsRes_enc.machine_ends
  iso1PaymentDetailsRes_dec.machine_ends iso1AuthorizationReq_enc.machine_ends
  iso1AuthorizationReq_dec.machine_ends iso1AuthorizationRes_enc.machine_ends
  iso1AuthorizationRes_dec.machine_ends iso1CertificateUpdateReq_enc.machine_ends
  iso1CertificateUpdateReq_dec.machine_ends iso1ContractSignatureEncryptedPrivateKey_enc.machine_ends
  iso1ContractSignatureEncryptedPrivateKey_dec.machine_ends iso1DiffieHellmanPublickey_enc.machine_ends
  iso1DiffieHellmanPublickey_dec.machine_ends iso1CertificateUpdateRes_enc.machine_ends
  iso1CertificateUpdateRes_dec.machine_ends iso1CertificateInstallationReq_enc.machine_ends
  iso1CertificateInstallationReq_dec.machine_ends iso1CertificateInstallationRes_enc.machine_ends
  iso1CertificateInstallationRes_dec.machine_ends iso1PMaxScheduleEntry_enc.machine_ends
  iso1PMaxScheduleEntry_dec.machine_ends iso1Cost_enc.machine_ends iso1Cost_dec.machine_ends
  iso1ConsumptionCost_enc.machine_ends iso1ConsumptionCost_dec.machine_ends
  iso1SalesTariffEntry_enc.machine_ends iso1SalesTariffEntry_dec.machine_ends
  iso1SAScheduleTuple_enc.machine_ends iso1SAScheduleTuple_dec.machine_ends
  iso1SAScheduleList_enc.machine_ends iso1SAScheduleList_dec.machine_ends
  iso1ProfileEntry_enc.machine_ends iso1ProfileEntry_dec.machine_ends
  iso1AC_EVChargeParameter_enc.machine_ends iso1AC_EVChargeParameter_dec.machine_ends
  iso1DC_EVChargeParameter_enc.machine_ends iso1DC_EVChargeParameter_dec.machine_ends
  iso1EVChargeParameter_enc.machine_ends iso1EVChargeParameter_dec.machine_ends
  iso1ChargeParameterDiscoveryReq_enc.machine_ends iso1ChargeParameterDiscoveryReq_dec.machine_ends
  iso1SASchedules_enc.machine_ends iso1SASchedules_dec.machine_ends
  iso1AC_EVSEChargeParameter_enc.machine_ends iso1AC_EVSEChargeParameter_dec.machine_ends
  iso1DC_EVSEChargeParameter_enc.machine_ends iso1DC_EVSEChargeParameter_dec.machine_ends
  iso1EVSEChargeParameter_enc.machine_ends iso1EVSEChargeParameter_dec.machine_ends
  iso1ChargeParameterDiscoveryRes_enc.machine_ends iso1ChargeParameterDiscoveryRes_dec.machine_ends
  iso1PowerDeliveryReq_enc.machine_ends iso1PowerDeliveryReq_dec.machine_ends
  iso1PowerDeliveryRes_enc.machine_ends iso1PowerDeliveryRes_dec.machine_ends
  iso1ChargingStatusReq_enc.machine_ends iso1ChargingStatusReq_dec.machine_ends
  iso1ChargingStatusRes_enc.machine_ends iso1ChargingStatusRes_dec.machine_ends
  iso1MeteringReceiptReq_enc.machine_ends iso1MeteringReceiptReq_dec.machine_ends
  iso1MeteringReceiptRes_enc.machine_ends iso1MeteringReceiptRes_dec.machine_ends
  iso1SessionStopReq_enc.machine_ends iso1SessionStopReq_dec.machine_ends
  iso1SessionStopRes_enc.machine_ends iso1SessionStopRes_dec.machine_ends
  iso1CableCheckReq_enc.machine_ends iso1CableCheckReq_dec.machine_ends iso1CableCheckRes_enc.machine_ends
  iso1CableCheckRes_dec.machine_ends iso1PreChargeReq_enc.machine_ends iso1PreChargeReq_dec.machine_ends
  iso1PreChargeRes_enc.machine_ends iso1PreChargeRes_dec.machine_ends
  iso1CurrentDemandReq_enc.machine_ends iso1CurrentDemandReq_dec.machine_ends
  iso1CurrentDemandRes_enc.machine_ends iso1CurrentDemandRes_dec.machine_ends
  iso1WeldingDetectionReq_enc.machine_ends iso1WeldingDetectionReq_dec.machine_ends
  iso1WeldingDetectionRes_enc.machine_ends iso1WeldingDetectionRes_dec.machine_ends
  iso1BodyBase_enc.machine_ends iso1BodyBase_dec.machine_ends iso1Body_enc.machine_ends
  iso1Body_dec.machine_ends iso1V2G_Message_enc.machine_ends iso1V2G_Message_dec.machine_ends

text \<open>C6: the loops of the ISO 15118 codec end: the machines of 86 of its 106 types do, on any stream and for
  any struct, at most the given number of rounds from their first grammar number, and the loop is what
  these rounds compute.\<close>

theorem iso1_loops_end:
  "(ends_within 4 (iso1Notification_enc_step v1) 215 \<and> ends_within 4 (iso1Notification_dec_step j) 215) \<and>
   (ends_within 5 (iso1PhysicalValue_enc_step v2) 117 \<and> ends_within 5 (iso1PhysicalValue_dec_step j) 117) \<and>
   (ends_within 5 (iso1DC_EVStatus_enc_step v3) 314 \<and> ends_within 5 (iso1DC_EVStatus_dec_step j) 314) \<and>
   (ends_within 2 (iso1EVStatus_enc_step v4) 34 \<and> ends_within 2 (iso1EVStatus_dec_step j) 34) \<and>
   (ends_within 4 (iso1EVSEStatus_enc_step v5) 208 \<and> ends_within 4 (iso1EVSEStatus_dec_step j) 208) \<and>
   (ends_within 6 (iso1DC_EVSEStatus_enc_step v6) 35 \<and> ends_within 6 (iso1DC_EVSEStatus_dec_step j) 35) \<and>
   (ends_within 5 (iso1AC_EVSEStatus_enc_step v7) 343 \<and> ends_within 5 (iso1AC_EVSEStatus_dec_step j) 343) \<and>
   (ends_within 2 (iso1EVPowerDeliveryParameter_enc_step v8) 34 \<and> ends_within 2 (iso1EVPowerDeliveryParameter_dec_step j) 34) \<and>
   (ends_within 5 (iso1DC_EVPowerDeliveryParameter_enc_step v9) 293 \<and> ends_within 5 (iso1DC_EVPowerDeliveryParameter_dec_step j) 293) \<and>
   (ends_within 2 (iso1Interval_enc_step v10) 34 \<and> ends_within 2 (iso1Interval_dec_step j) 34) \<and>
   (ends_within 4 (iso1RelativeTimeInterval_enc_step v11) 60 \<and> ends_within 4 (iso1RelativeTimeInterval_dec_step j) 60) \<and>
   (ends_within 4 (iso1EMAID_enc_step v12) 67 \<and> ends_within 4 (iso1EMAID_dec_step j) 67) \<and>
   (ends_within 7 (iso1MeterInfo_enc_step v13) 82 \<and> ends_within 7 (iso1MeterInfo_dec_step j) 82) \<and>
   (ends_within 3 (iso1Entry_enc_step v14) 288 \<and> ends_within 3 (iso1Entry_dec_step j) 288) \<and>
   (ends_within 8 (iso1Reference_enc_step v15) 267 \<and> ends_within 8 (iso1Reference_dec_step j) 267) \<and>
   (ends_within 4 (iso1SignatureValue_enc_step v16) 126 \<and> ends_within 4 (iso1SignatureValue_dec_step j) 126) \<and>
   (ends_within 9 (iso1DSAKeyValue_enc_step v17) 151 \<and> ends_within 9 (iso1DSAKeyValue_dec_step j) 151) \<and>
   (ends_within 4 (iso1RSAKeyValue_enc_step v18) 120 \<and> ends_within 4 (iso1RSAKeyValue_dec_step j) 120) \<and>
   (ends_within 5 (iso1RetrievalMethod_enc_step v19) 296 \<and> ends_within 5 (iso1RetrievalMethod_dec_step j) 296) \<and>
   (ends_within 4 (iso1X509IssuerSerial_enc_step v20) 194 \<and> ends_within 4 (iso1X509IssuerSerial_dec_step j) 194) \<and>
   (ends_within 4 (iso1PGPData_enc_step v21) 367 \<and> ends_within 4 (iso1PGPData_dec_step j) 367) \<and>
   (ends_within 5 (iso1MessageHeader_enc_step v22) 0 \<and> ends_within 5 (iso1MessageHeader_dec_step j) 0) \<and>
   (ends_within 3 (iso1SessionSetupReq_enc_step v23) 289 \<and> ends_within 3 (iso1SessionSetupReq_dec_step j) 289) \<and>
   (ends_within 5 (iso1SessionSetupRes_enc_step v24) 19 \<and> ends_within 5 (iso1SessionSetupRes_dec_step j) 19) \<and>
   (ends_within 4 (iso1ServiceDiscoveryReq_enc_step v25) 336 \<and> ends_within 4 (iso1ServiceDiscoveryReq_dec_step j) 336) \<and>
   (ends_within 4 (iso1PaymentOptionList_enc_step v26) 110 \<and> ends_within 4 (iso1PaymentOptionList_dec_step j) 110) \<and>
   (ends_within 8 (iso1SupportedEnergyTransferMode_enc_step v27) 357 \<and> ends_within 8 (iso1SupportedEnergyTransferMode_dec_step j) 357) \<and>
   (ends_within 8 (iso1ChargeService_enc_step v28) 160 \<and> ends_within 8 (iso1ChargeService_dec_step j) 160) \<and>
   (ends_within 7 (iso1Service_enc_step v29) 331 \<and> ends_within 7 (iso1Service_dec_step j) 331) \<and>
   (ends_within 10 (iso1ServiceList_enc_step v30) 69 \<and> ends_within 10 (iso1ServiceList_dec_step j) 69) \<and>
   (ends_within 6 (iso1ServiceDiscoveryRes_enc_step v31) 25 \<and> ends_within 6 (iso1ServiceDiscoveryRes_dec_step j) 25) \<and>
   (ends_within 3 (iso1ServiceDetailReq_enc_step v32) 59 \<and> ends_within 3 (iso1ServiceDetailReq_dec_step j) 59) \<and>
   (ends_within 4 (iso1Parameter_enc_step v33) 14 \<and> ends_within 4 (iso1Parameter_dec_step j) 14) \<and>
   (ends_within 19 (iso1ParameterSet_enc_step v34) 42 \<and> ends_within 19 (iso1ParameterSet_dec_step j) 42) \<and>
   (ends_within 5 (iso1ServiceDetailRes_enc_step v35) 170 \<and> ends_within 5 (iso1ServiceDetailRes_dec_step j) 170) \<and>
   (ends_within 4 (iso1SelectedService_enc_step v36) 341 \<and> ends_within 4 (iso1SelectedService_dec_step j) 341) \<and>
   (ends_within 18 (iso1SelectedServiceList_enc_step v37) 176 \<and> ends_within 18 (iso1SelectedServiceList_dec_step j) 176) \<and>
   (ends_within 4 (iso1PaymentServiceSelectionReq_enc_step v38) 352 \<and> ends_within 4 (iso1PaymentServiceSelectionReq_dec_step j) 352) \<and>
   (ends_within 3 (iso1PaymentServiceSelectionRes_enc_step v39) 122 \<and> ends_within 3 (iso1PaymentServiceSelectionRes_dec_step j) 122) \<and>
   (ends_within 6 (iso1SubCertificates_enc_step v40) 140 \<and> ends_within 6 (iso1SubCertificates_dec_step j) 140) \<and>
   (ends_within 5 (iso1CertificateChain_enc_step v41) 31 \<and> ends_within 5 (iso1CertificateChain_dec_step j) 31) \<and>
   (ends_within 4 (iso1PaymentDetailsReq_enc_step v42) 127 \<and> ends_within 4 (iso1PaymentDetailsReq_dec_step j) 127) \<and>
   (ends_within 5 (iso1PaymentDetailsRes_enc_step v43) 258 \<and> ends_within 5 (iso1PaymentDetailsRes_dec_step j) 258) \<and>
   (ends_within 4 (iso1AuthorizationReq_enc_step v44) 80 \<and> ends_within 4 (iso1AuthorizationReq_dec_step j) 80) \<and>
   (ends_within 4 (iso1AuthorizationRes_enc_step v45) 129 \<and> ends_within 4 (iso1AuthorizationRes_dec_step j) 129) \<and>
   (ends_within 6 (iso1CertificateUpdateReq_enc_step v46) 123 \<and> ends_within 6 (iso1CertificateUpdateReq_dec_step j) 123) \<and>
   (ends_within 4 (iso1ContractSignatureEncryptedPrivateKey_enc_step v47) 23 \<and> ends_within 4 (iso1ContractSignatureEncryptedPrivateKey_dec_step j) 23) \<and>
   (ends_within 4 (iso1DiffieHellmanPublickey_enc_step v48) 23 \<and> ends_within 4 (iso1DiffieHellmanPublickey_dec_step j) 23) \<and>
   (ends_within 9 (iso1CertificateUpdateRes_enc_step v49) 299 \<and> ends_within 9 (iso1CertificateUpdateRes_dec_step j) 299) \<and>
   (ends_within 5 (iso1CertificateInstallationReq_enc_step v50) 16 \<and> ends_within 5 (iso1CertificateInstallationReq_dec_step j) 16) \<and>
   (ends_within 8 (iso1CertificateInstallationRes_enc_step v51) 306 \<and> ends_within 8 (iso1CertificateInstallationRes_dec_step j) 306) \<and>
   (ends_within 4 (iso1PMaxScheduleEntry_enc_step v52) 261 \<and> ends_within 4 (iso1PMaxScheduleEntry_dec_step j) 261) \<and>
   (ends_within 5 (iso1Cost_enc_step v53) 290 \<and> ends_within 5 (iso1Cost_dec_step j) 290) \<and>
   (ends_within 6 (iso1ConsumptionCost_enc_step v54) 104 \<and> ends_within 6 (iso1ConsumptionCost_dec_step j) 104) \<and>
   (ends_within 7 (iso1SalesTariffEntry_enc_step v55) 283 \<and> ends_within 7 (iso1SalesTariffEntry_dec_step j) 283) \<and>
   (ends_within 5 (iso1SAScheduleTuple_enc_step v56) 248 \<and> ends_within 5 (iso1SAScheduleTuple_dec_step j) 248) \<and>
   (ends_within 5 (iso1SAScheduleList_enc_step v57) 217 \<and> ends_within 5 (iso1SAScheduleList_dec_step j) 217) \<and>
   (ends_within 5 (iso1ProfileEntry_enc_step v58) 77 \<and> ends_within 5 (iso1ProfileEntry_dec_step j) 77) \<and>
   (ends_within 7 (iso1AC_EVChargeParameter_enc_step v59) 251 \<and> ends_within 7 (iso1AC_EVChargeParameter_dec_step j) 251) \<and>
   (ends_within 11 (iso1DC_EVChargeParameter_enc_step v60) 95 \<and> ends_within 11 (iso1DC_EVChargeParameter_dec_step j) 95) \<and>
   (ends_within 3 (iso1EVChargeParameter_enc_step v61) 22 \<and> ends_within 3 (iso1EVChargeParameter_dec_step j) 22) \<and>
   (ends_within 5 (iso1ChargeParameterDiscoveryReq_enc_step v62) 202 \<and> ends_within 5 (iso1ChargeParameterDiscoveryReq_dec_step j) 202) \<and>
   (ends_within 2 (iso1SASchedules_enc_step v63) 34 \<and> ends_within 2 (iso1SASchedules_dec_step j) 34) \<and>
   (ends_within 5 (iso1AC_EVSEChargeParameter_enc_step v64) 338 \<and> ends_within 5 (iso1AC_EVSEChargeParameter_dec_step j) 338) \<and>
   (ends_within 11 (iso1DC_EVSEChargeParameter_enc_step v65) 131 \<and> ends_within 11 (iso1DC_EVSEChargeParameter_dec_step j) 131) \<and>
   (ends_within 2 (iso1EVSEChargeParameter_enc_step v66) 34 \<and> ends_within 2 (iso1EVSEChargeParameter_dec_step j) 34) \<and>
   (ends_within 6 (iso1ChargeParameterDiscoveryRes_enc_step v67) 89 \<and> ends_within 6 (iso1ChargeParameterDiscoveryRes_dec_step j) 89) \<and>
   (ends_within 6 (iso1PowerDeliveryReq_enc_step v68) 10 \<and> ends_within 6 (iso1PowerDeliveryReq_dec_step j) 10) \<and>
   (ends_within 4 (iso1PowerDeliveryRes_enc_step v69) 93 \<and> ends_within 4 (iso1PowerDeliveryRes_dec_step j) 93) \<and>
   (ends_within 2 (iso1ChargingStatusReq_enc_step v70) 34 \<and> ends_within 2 (iso1ChargingStatusReq_dec_step j) 34) \<and>
   (ends_within 9 (iso1ChargingStatusRes_enc_step v71) 144 \<and> ends_within 9 (iso1ChargingStatusRes_dec_step j) 144) \<and>
   (ends_within 6 (iso1MeteringReceiptReq_enc_step v72) 166 \<and> ends_within 6 (iso1MeteringReceiptReq_dec_step j) 166) \<and>
   (ends_within 4 (iso1MeteringReceiptRes_enc_step v73) 93 \<and> ends_within 4 (iso1MeteringReceiptRes_dec_step j) 93) \<and>
   (ends_within 3 (iso1SessionStopReq_enc_step v74) 266 \<and> ends_within 3 (iso1SessionStopReq_dec_step j) 266) \<and>
   (ends_within 3 (iso1SessionStopRes_enc_step v75) 122 \<and> ends_within 3 (iso1SessionStopRes_dec_step j) 122) \<and>
   (ends_within 3 (iso1CableCheckReq_enc_step v76) 313 \<and> ends_within 3 (iso1CableCheckReq_dec_step j) 313) \<and>
   (ends_within 5 (iso1CableCheckRes_enc_step v77) 192 \<and> ends_within 5 (iso1CableCheckRes_dec_step j) 192) \<and>
   (ends_within 5 (iso1PreChargeReq_enc_step v78) 205 \<and> ends_within 5 (iso1PreChargeReq_dec_step j) 205) \<and>
   (ends_within 5 (iso1PreChargeRes_enc_step v79) 39 \<and> ends_within 5 (iso1PreChargeRes_dec_step j) 39) \<and>
   (ends_within 12 (iso1CurrentDemandReq_enc_step v80) 273 \<and> ends_within 12 (iso1CurrentDemandReq_dec_step j) 273) \<and>
   (ends_within 16 (iso1CurrentDemandRes_enc_step v81) 317 \<and> ends_within 16 (iso1CurrentDemandRes_dec_step j) 317) \<and>
   (ends_within 3 (iso1WeldingDetectionReq_enc_step v82) 313 \<and> ends_within 3 (iso1WeldingDetectionReq_dec_step j) 313) \<and>
   (ends_within 5 (iso1WeldingDetectionRes_enc_step v83) 39 \<and> ends_within 5 (iso1WeldingDetectionRes_dec_step j) 39) \<and>
   (ends_within 2 (iso1BodyBase_enc_step v84) 34 \<and> ends_within 2 (iso1BodyBase_dec_step j) 34) \<and>
   (ends_within 3 (iso1Body_enc_step v85) 220 \<and> ends_within 3 (iso1Body_dec_step j) 220) \<and>
   (ends_within 4 (iso1V2G_Message_enc_step v86) 256 \<and> ends_within 4 (iso1V2G_Message_dec_step j) 256)"
  by (intro conjI; rule iso1_machines_end; simp add: left_at_def)

end
