(* ===== verification/Spec2Isabelle.thy ===== *)
theory Spec2Isabelle
  imports Handshake HandshakeSafety ByteStream DecoderFaults DinSession DinParameters DinCharging DinCurrentDemand Iso1Session Iso1Loops
begin

section \<open>The EXI codec of the charging communication: overview\<close>

text \<open>
  \<^bold>\<open>The program.\<close> The repository is an example of a client and a server that talk over asio, around
  \<open>src/modules/openv2g\<close>, a C library for the messages of the charging communication between an electric
  vehicle and a charging station (ISO 15118, DIN 70121). All logic of its own is in that library; this
  development models its core. Messages are structs in C; they are exchanged as EXI documents, a
  bit-packed binary form of XML, behind a transport header of eight bytes. The parts call each other
  in layers, and the theories follow them:

  \<^item> \<open>include/codec/EXITypes.h\<close>, \<open>ErrorCodes.h\<close>: \<open>EXITypes\<close>. The stream (\<open>bitstream_t\<close>, a byte array with
    position, bit buffer and capacity), integers with a type tag, strings, binary data, floats,
    decimals, dates. \<open>Prelude\<close> has the bit lists the specifications are written in.
  \<^item> \<open>src/codec/BitOutputStream.c\<close>, \<open>BitInputStream.c\<close>: \<open>BitOutputStream\<close>, \<open>BitInputStream\<close>. Writing and
    reading \<open>n\<close> bits. \<open>Interfaces\<close> has what the rest of the codec relies on, as two locales, which the
    two theories interpret on the code: \<open>wr.writes m bs\<close>, the function \<open>m\<close> appends the bits \<open>bs\<close> or
    reports that they do not fit, and \<open>rd.takes m bs a\<close>, it reads \<open>bs\<close> and returns \<open>a\<close>.
  \<^item> \<open>src/codec/MethodsBag.c\<close>: \<open>MethodsBag\<close>, the lengths of codes. \<open>Octets\<close>: the abstract format of integers.
  \<^item> \<open>src/codec/EncoderChannel.c\<close>, \<open>DecoderChannel.c\<close>: \<open>EncoderChannel\<close>, \<open>DecoderChannel\<close> have the functions,
    \<open>EncoderSpec\<close>, \<open>DecoderSpec\<close> the bits they write and read, \<open>ValueCodecs\<close> the round trip of every
    pair, as interpretations of the locale \<open>value_codec\<close> of \<open>Documents\<close>, and \<open>DecoderFaults\<close> the streams
    on which the decoders have no defined behaviour.
  \<^item> \<open>src/codec/EXIHeaderEncoder.c\<close>, \<open>EXIHeaderDecoder.c\<close>: \<open>EXIHeader\<close>. \<open>src/codec/ByteStream.c\<close>: \<open>ByteStream\<close>,
    over an abstract file system.
  \<^item> The codecs generated from the schemas all have one form, a loop around a switch over a grammar
    number. \<open>Grammar\<close> has that loop and the fragments the generator puts into its cases, \<open>Rounds\<close> that
    such loops end, \<open>Fragments\<close> that an encoder and a decoder walk together (locale
    \<open>paired_machines\<close>).
  \<^item> \<open>src/appHandshake\<close>: \<open>AppHandTypes\<close>, \<open>AppHandEncoder\<close>, \<open>AppHandDecoder\<close>, the documents of the
    application handshake; \<open>HandshakeSafety\<close>, the decoder on streams of anybody.
  \<^item> \<open>src/transport/v2gtp.c\<close>: \<open>V2GTP\<close>. \<open>src/test/main_example.c\<close>: \<open>Handshake\<close>, the exchange of the two
    documents between vehicle and station, and the example that runs it. \<open>DocumentCodec\<close> has what the two
    document codecs share: the header and the number of the root element, then the element (locale
    \<open>document_codec\<close>).
  \<^item> \<open>src/iso1\<close>, the codec of ISO 15118-2:2013 and the only one of the four schema codecs that is deployed:
    \<open>Iso1Values\<close>, \<open>Iso1SignedInfo\<close>, \<open>Iso1KeyInfo\<close>, \<open>Iso1Header\<close>, \<open>Iso1Services\<close>, \<open>Iso1Certificates\<close>, \<open>Iso1Schedules\<close>,
    \<open>Iso1ChargeParameters\<close>, \<open>Iso1Charging\<close>, \<open>Iso1Message\<close>: the types a message is made of, up to the message
    itself. They share one form, explained in \<open>Iso1Values\<close>: the record, what a decoder leaves alike
    (\<open>same_X\<close>), the well-formed values (\<open>X_ok\<close>), the sizes of the arrays (\<open>X_sized\<close>), a bound of the
    bits (\<open>X_bits\<close>), the two steps and the round trip. \<open>FieldCodecs\<close> and \<open>Repeats\<close> have the fragments
    for strings, children, repeated elements and wildcards, and the locale \<open>walking_pair\<close> that every type
    interprets. \<open>Iso1Document\<close> has the document with its 80 root elements, \<open>Iso1Zero\<close> structs of zeros,
    which the witnesses use, and \<open>Iso1Loops\<close> that the loops end.
  \<^item> \<open>src/test/main_example.c\<close>, the part for ISO 15118: \<open>Iso1Exchange\<close>, the exchange of a request and its
    response (\<open>request_response1\<close>) with the nine handlers of the station, and \<open>Iso1Session\<close>, the charging
    session of the vehicle (\<open>charging1\<close>).
  \<^item> \<open>src/din\<close>: \<open>DinValues\<close>, \<open>DinSession\<close>, \<open>DinParameters\<close>, \<open>DinCharging\<close>, \<open>DinCurrentDemand\<close>, the types and
    messages of DC charging by DIN 70121 that consist of numbers, enumerations, binary data and
    children.

  \<^bold>\<open>Conventions.\<close> Definitions have the names of the code. A function that returns an error code and
  changes the stream gives \<open>Some (errn, ..., s)\<close>; \<open>None\<close> means that the C code has no defined behaviour
  on that input, by an access outside an array, a shift by too much, a signed overflow, or that it
  does not return. \<open>EXI_OK\<close> is 0. Machine integers are words of their width, with \<open>sint\<close> where the C
  type is signed; integers that C promotes to \<open>int\<close> before the operation are treated so: the decoders of unsigned integers
  of 16 and 32 bits shift an octet as an \<open>int\<close>, and where that overflows they are \<open>None\<close> (\<open>accu16\<close>,
  \<open>accu32\<close>). A number of \<open>2 ^ 31\<close> and more is therefore written but never read, so the round trips are
  stated for unsigned 32-bit fields below \<open>2 ^ 31\<close>. Local
  variables that the code reads before it writes them are arguments (\<open>j\<close>, \<open>iv\<close>, the old content of a
  struct), over which the theorems quantify. A struct that is filled by a decoder comes in with its old
  content. Nested anonymous structs are fields with the name in front; the unions are either unions of
  the model (\<open>exi_integer\<close>, little-endian) or separate fields (the documents, the messages of a body).
  Where the example reads a member of a union that it never wrote, what the member holds is an
  argument (\<open>mem\<close>, \<open>seen\<close>). A decoder leaves the bytes of its stream as they are (\<open>stream_data\<close>, the
  frame of the locale \<open>bit_source\<close>). A step of a generated codec is the switch, cut into several
  definitions where it is long.

  \<^bold>\<open>What is shown.\<close> Per function of the streams and channels, its outcome on every stream (appended or
  taken bits, or the error), that no write or flush leaves the array, and which writes after an error are
  defined. Per pair of value
  codecs, the round trip, with the exact values it holds for. For the handshake: the documents, their
  format, that an encoder returns 0 exactly when the message fits, the round trip, the whole exchange
  as a refinement of its abstract description, the run of the example, and for the decoder on streams of
  anybody: termination, a defined result within its arrays where no integer overflows (\<open>calm\<close> streams),
  refusal of longer offers. For DIN: the round trip of each
  modelled type, from any old content of the reader's struct; which of several flagged alternatives is
  written and with which bits; the refusal
  of oversized identifiers. For ISO 15118: the round trip of every message, of any of its 34 kinds,
  through the document codec; that the loops of the codec end; that the station answers each request of
  the example as its handler means, refuses the others and never answers a metering receipt; and that the
  session of the vehicle runs to its end, if the memory it reads unwritten is usable. And where the code
  falls short of what it means to do: integers without encoding, integers that are written and cannot be
  read, unbounded octets, the overrun of
  \<open>decodeBinary\<close>, writes after a failure, an answer to a refused header, a challenge copied from
  memory that was never written.

  \<^bold>\<open>Bounds.\<close> Loops whose end is a bound in the code are recursive functions with a termination proof.
  The loops of the generated codecs are partial functions; \<open>ends_within n\<close> says that \<open>n\<close> rounds are
  enough for every input, because each round that goes on moves to a grammar number with fewer rounds
  left. The bytes of room in the DIN theorems come from \<open>left_at\<close> tables of the bits that can still
  follow at a grammar number, those in the ISO 15118 theorems from \<open>X_bits\<close>, which is exact for the types
  of the example's messages, so that they are shown to fit into its buffers of \<open>BUFFER_SIZE\<close> bytes.

  \<^bold>\<open>Not modelled.\<close> The C++ applications and network wrappers around asio, which have no logic but calls
  of asio, and the vendored libraries. Of openv2g: what is compiled only in configurations other than
  the one of \<open>EXIConfig.h\<close> (files as streams, dynamic memory, Unicode strings, byte-packed coding); the
  types of DIN with strings, repeated elements, wildcards or unnamed unions, and with them its body
  and documents; of ISO 15118, the fragments (\<open>encode_iso1ExiFragment\<close>); the codecs of the later ISO 15118
  draft (\<open>iso2\<close>) and of XML signatures, which the same generator made and the configuration switches
  off; \<open>main_example\<close> and the sessions that use those; and printing, but for the arrays that are read up
  to a received length.
\<close>

section \<open>Properties that span the codecs\<close>

text \<open>What the tables of rounds of the machines give, collected.\<close>

lemmas machines_end =
  protocol_enc.machine_ends protocol_dec.machine_ends offer_enc.machine_ends offer_dec.machine_ends
  answer_enc.machine_ends answer_dec.machine_ends PhysicalValue_enc.machine_ends
  PhysicalValue_dec.machine_ends DC_EVStatus_enc.machine_ends DC_EVStatus_dec.machine_ends
  EVSEStatus_enc.machine_ends EVSEStatus_dec.machine_ends DC_EVSEStatus_enc.machine_ends
  DC_EVSEStatus_dec.machine_ends AC_EVSEStatus_enc.machine_ends AC_EVSEStatus_dec.machine_ends
  SessionSetupReq_enc.machine_ends SessionSetupReq_dec.machine_ends SessionSetupRes_enc.machine_ends
  SessionSetupRes_dec.machine_ends ServiceDetailReq_enc.machine_ends ServiceDetailReq_dec.machine_ends
  SelectedService_enc.machine_ends SelectedService_dec.machine_ends
  ServicePaymentSelectionRes_enc.machine_ends ServicePaymentSelectionRes_dec.machine_ends
  ContractAuthenticationRes_enc.machine_ends ContractAuthenticationRes_dec.machine_ends
  MeteringReceiptRes_enc.machine_ends MeteringReceiptRes_dec.machine_ends SessionStopRes_enc.machine_ends
  SessionStopRes_dec.machine_ends DC_EVChargeParameter_enc.machine_ends
  DC_EVChargeParameter_dec.machine_ends DC_EVSEChargeParameter_enc.machine_ends
  DC_EVSEChargeParameter_dec.machine_ends DC_EVPowerDeliveryParameter_enc.machine_ends
  DC_EVPowerDeliveryParameter_dec.machine_ends AC_EVChargeParameter_enc.machine_ends
  AC_EVChargeParameter_dec.machine_ends AC_EVSEChargeParameter_enc.machine_ends
  AC_EVSEChargeParameter_dec.machine_ends EVChargeParameter_enc.machine_ends
  EVChargeParameter_dec.machine_ends ChargeParameterDiscoveryReq_enc.machine_ends
  ChargeParameterDiscoveryReq_dec.machine_ends CableCheckReq_enc.machine_ends
  CableCheckReq_dec.machine_ends CableCheckRes_enc.machine_ends CableCheckRes_dec.machine_ends
  PreChargeReq_enc.machine_ends PreChargeReq_dec.machine_ends PreChargeRes_enc.machine_ends
  PreChargeRes_dec.machine_ends WeldingDetectionReq_enc.machine_ends WeldingDetectionReq_dec.machine_ends
  WeldingDetectionRes_enc.machine_ends WeldingDetectionRes_dec.machine_ends
  PowerDeliveryRes_enc.machine_ends PowerDeliveryRes_dec.machine_ends CurrentDemandReq_enc.machine_ends
  CurrentDemandReq_dec.machine_ends CurrentDemandRes_enc.machine_ends CurrentDemandRes_dec.machine_ends

text \<open>C16: the loops of the handshake codec and of the DIN codec end, on any stream and for any struct: each
  machine does at most the given number of rounds from its first grammar number, and the loop is what
  these rounds compute. A \<open>None\<close> of such a loop is therefore never an endless loop.\<close>

theorem loops_end:
  "(ends_within 7 (AppProtocolType_enc_step a) 0 \<and> ends_within 7 (AppProtocolType_dec_step j) 0) \<and>
   (ends_within 22 (supportedAppProtocolReq_enc_step req) 7 \<and> ends_within 22 (supportedAppProtocolReq_dec_step j) 7) \<and>
   (ends_within 4 (supportedAppProtocolRes_enc_step res) 27 \<and> ends_within 4 supportedAppProtocolRes_dec_step 27) \<and>
   (ends_within 5 (PhysicalValue_enc_step v1) 198 \<and> ends_within 5 (PhysicalValue_dec_step j) 198) \<and>
   (ends_within 7 (DC_EVStatus_enc_step v2) 193 \<and> ends_within 7 (DC_EVStatus_dec_step j) 193) \<and>
   (ends_within 2 (EVSEStatus_enc_step v3) 64 \<and> ends_within 2 (EVSEStatus_dec_step j) 64) \<and>
   (ends_within 6 (DC_EVSEStatus_enc_step v4) 263 \<and> ends_within 6 (DC_EVSEStatus_dec_step j) 263) \<and>
   (ends_within 6 (AC_EVSEStatus_enc_step v5) 216 \<and> ends_within 6 (AC_EVSEStatus_dec_step j) 216) \<and>
   (ends_within 3 (SessionSetupReq_enc_step v6) 7 \<and> ends_within 3 (SessionSetupReq_dec_step j) 7) \<and>
   (ends_within 5 (SessionSetupRes_enc_step v7) 185 \<and> ends_within 5 (SessionSetupRes_dec_step j) 185) \<and>
   (ends_within 3 (ServiceDetailReq_enc_step v8) 126 \<and> ends_within 3 (ServiceDetailReq_dec_step j) 126) \<and>
   (ends_within 4 (SelectedService_enc_step v9) 190 \<and> ends_within 4 (SelectedService_dec_step j) 190) \<and>
   (ends_within 3 (ServicePaymentSelectionRes_enc_step v10) 223 \<and> ends_within 3 (ServicePaymentSelectionRes_dec_step j) 223) \<and>
   (ends_within 4 (ContractAuthenticationRes_enc_step v11) 16 \<and> ends_within 4 (ContractAuthenticationRes_dec_step j) 16) \<and>
   (ends_within 4 (MeteringReceiptRes_enc_step v12) 192 \<and> ends_within 4 (MeteringReceiptRes_dec_step j) 192) \<and>
   (ends_within 3 (SessionStopRes_enc_step v13) 223 \<and> ends_within 3 (SessionStopRes_dec_step j) 223) \<and>
   (ends_within 10 (DC_EVChargeParameter_enc_step v14) 65 \<and> ends_within 10 (DC_EVChargeParameter_dec_step j) 65) \<and>
   (ends_within 11 (DC_EVSEChargeParameter_enc_step v15) 82 \<and> ends_within 11 (DC_EVSEChargeParameter_dec_step j) 82) \<and>
   (ends_within 5 (DC_EVPowerDeliveryParameter_enc_step v16) 61 \<and> ends_within 5 (DC_EVPowerDeliveryParameter_dec_step j) 61) \<and>
   (ends_within 7 (AC_EVChargeParameter_enc_step v17) 41 \<and> ends_within 7 (AC_EVChargeParameter_dec_step j) 41) \<and>
   (ends_within 6 (AC_EVSEChargeParameter_enc_step v18) 232 \<and> ends_within 6 (AC_EVSEChargeParameter_dec_step j) 232) \<and>
   (ends_within 2 (EVChargeParameter_enc_step v19) 64 \<and> ends_within 2 (EVChargeParameter_dec_step j) 64) \<and>
   (ends_within 4 (ChargeParameterDiscoveryReq_enc_step v20) 175 \<and> ends_within 4 (ChargeParameterDiscoveryReq_dec_step j) 175) \<and>
   (ends_within 3 (CableCheckReq_enc_step v21) 55 \<and> ends_within 3 (CableCheckReq_dec_step j) 55) \<and>
   (ends_within 5 (CableCheckRes_enc_step v22) 242 \<and> ends_within 5 (CableCheckRes_dec_step j) 242) \<and>
   (ends_within 5 (PreChargeReq_enc_step v23) 157 \<and> ends_within 5 (PreChargeReq_dec_step j) 157) \<and>
   (ends_within 5 (PreChargeRes_enc_step v24) 13 \<and> ends_within 5 (PreChargeRes_dec_step j) 13) \<and>
   (ends_within 3 (WeldingDetectionReq_enc_step v25) 55 \<and> ends_within 3 (WeldingDetectionReq_dec_step j) 55) \<and>
   (ends_within 5 (WeldingDetectionRes_enc_step v26) 13 \<and> ends_within 5 (WeldingDetectionRes_dec_step j) 13) \<and>
   (ends_within 4 (PowerDeliveryRes_enc_step v27) 8 \<and> ends_within 4 (PowerDeliveryRes_dec_step j) 8) \<and>
   (ends_within 12 (CurrentDemandReq_enc_step v28) 147 \<and> ends_within 12 (CurrentDemandReq_dec_step j) 147) \<and>
   (ends_within 12 (CurrentDemandRes_enc_step v29) 28 \<and> ends_within 12 (CurrentDemandRes_dec_step j) 28)"
  by (intro conjI; rule machines_end; simp add: left_at_def)

end
